(* ===== verification/Go_Errors.thy ===== *)
theory Go_Errors
  imports Main
begin

text \<open>
  The error values of the Go code. Each sentinel \<^verbatim>\<open>var ErrX = errors.New(...)\<close> is a constant
  \<open>ErrX\<close>, grouped by the package that declares it. An error built with
  \<^verbatim>\<open>fmt.Errorf("%w: ...", ErrX, ...)\<close> is the sentinel it wraps (the message text is dropped);
  one built with two \<^verbatim>\<open>%w\<close> verbs is \<open>Wrapped\<close>, and one that
  is no sentinel is \<open>PlainError\<close> with its text. \<open>SQLiteError\<close> is an
  error of the database driver (a violated constraint, a failed statement or commit),
  \<open>ErrNoRows\<close> the error of a single-row query without a row, and \<open>ContextDone\<close> the error of a cancelled or expired context.
\<close>

text \<open>The sentinels of the domain package.\<close>

datatype domain_error =
    EmptyID | InvalidControllerType | InvalidTargetKind | EmptyTargetProfile
  | InvalidSessionState | IllegalSessionTransition | InvalidCommandState
  | IllegalCommandTransition | SerializedInputTooLarge | ScriptTooLarge | ScriptInvalidUTF8
  | InvalidCanonicalJSON | InvalidCanonicalDefaults | InvalidCanonicalHash

text \<open>The sentinels of domain/policy.go.\<close>

datatype policy_error =
    InvalidEnvironment | InvalidSource | EnvironmentTargetMismatch | EnvironmentSourceMismatch
  | RepositoryAliasNotAllowed | ControllerMismatch | UnsupportedIsolationRequirement
  | InvalidServiceLimits | InvalidRequestedLimits | LimitExceedsServiceCeiling

text \<open>The sentinels of laneadmission, store/lane_admission.go, lifecycle and audit.\<close>

datatype lane_error =
    InvalidLaneState | InvalidLaneIdentity | StaleEpoch | EpochIdentitySwitch
  | LaneAdmissionClosed | InvalidLaneTransition | LaneAdmissionNotConfigured
  | LaneAdmissionCorrupt | AdmissionClosed | ShutdownStageTimeout | InvalidAuditRecord

text \<open>The sentinels of store/sessions.go and store/idempotency.go.\<close>

datatype session_error =
    NilDatabase | SessionNotFound | SessionExists | InvalidSession | SessionLifecycle
  | IdempotencyKey | IdempotencyConflict | InvalidIdempotency | SessionCapacityExceeded
  | SessionReservationNotFound | InvalidTimestamp

text \<open>The sentinels of store/commands.go, store/scheduler.go and store/subscribers.go.\<close>

datatype command_error =
    InvalidCommand | CommandNotFound | CommandSessionState | CommandPayloadCorrupt
  | CommandEvent | CommandOrderCorrupt | CommandNotEligible | CommandTerminal
  | CommandReplayGap | CommandReplayExpired | CommandTransition | CommandSlotsFull
  | CommandSlotNotFound | CommandSlotNotReleasable | CommandSlotCorrupt | SubscriberOverflow
  | InvalidSubscriber

text \<open>The sentinels of store/jobs.go, store/controlled_restart_plan.go, store/lost_recovery.go,
  store/gc.go and the recovery procedures beside them.\<close>

datatype job_error =
    InvalidJob | JobNotFound | JobExists | JobPhaseConflict | JobPayloadCorrupt
  | ControlledRestartPlanNotFound | ControlledRestartPlanConflict
  | ControlledRestartPlanCorrupt | ControlledRestartPlanNotActive
  | LostRuntimeRecoveryNotReleasable | ProbeDispositionNotEligible | InvalidGarbageCollection
  | CommandlessLostRuntimeRecoveryNotReleasable | CompletedTeardownRecoveryNotReleasable
  | ClosedCancelledJobSettlementNotEligible

text \<open>The sentinels of store/lane_capacity.go and of the lanecapacity package.\<close>

datatype capacity_error =
    LaneCapacityInvalid | LaneCapacityUnconfigured | LaneCapacityExceeded
  | LaneCapacityReservationConflict | LaneCapacityReservationNotFound
  | InvalidPolicy | CapacityExceeded | IdentityChanged | StaleMeasurement | UnsupportedCompute
  | InvalidCachePaths | LinuxControlsUnavailable

datatype go_error =
    DomainErr domain_error
  | PolicyErr policy_error
  | LaneErr lane_error
  | SessionErr session_error
  | CommandErr command_error
  | JobErr job_error
  | CapacityErr capacity_error
  | PlainError string
  | SQLiteError
  | ErrNoRows
  | ContextDone
  | Wrapped go_error go_error

abbreviation ErrEmptyID :: go_error where "ErrEmptyID \<equiv> DomainErr EmptyID"
abbreviation ErrInvalidControllerType :: go_error where "ErrInvalidControllerType \<equiv> DomainErr InvalidControllerType"
abbreviation ErrInvalidTargetKind :: go_error where "ErrInvalidTargetKind \<equiv> DomainErr InvalidTargetKind"
abbreviation ErrEmptyTargetProfile :: go_error where "ErrEmptyTargetProfile \<equiv> DomainErr EmptyTargetProfile"
abbreviation ErrInvalidSessionState :: go_error where "ErrInvalidSessionState \<equiv> DomainErr InvalidSessionState"
abbreviation ErrIllegalSessionTransition :: go_error where "ErrIllegalSessionTransition \<equiv> DomainErr IllegalSessionTransition"
abbreviation ErrInvalidCommandState :: go_error where "ErrInvalidCommandState \<equiv> DomainErr InvalidCommandState"
abbreviation ErrIllegalCommandTransition :: go_error where "ErrIllegalCommandTransition \<equiv> DomainErr IllegalCommandTransition"
abbreviation ErrSerializedInputTooLarge :: go_error where "ErrSerializedInputTooLarge \<equiv> DomainErr SerializedInputTooLarge"
abbreviation ErrScriptTooLarge :: go_error where "ErrScriptTooLarge \<equiv> DomainErr ScriptTooLarge"
abbreviation ErrScriptInvalidUTF8 :: go_error where "ErrScriptInvalidUTF8 \<equiv> DomainErr ScriptInvalidUTF8"
abbreviation ErrInvalidCanonicalJSON :: go_error where "ErrInvalidCanonicalJSON \<equiv> DomainErr InvalidCanonicalJSON"
abbreviation ErrInvalidCanonicalDefaults :: go_error where "ErrInvalidCanonicalDefaults \<equiv> DomainErr InvalidCanonicalDefaults"
abbreviation ErrInvalidCanonicalHash :: go_error where "ErrInvalidCanonicalHash \<equiv> DomainErr InvalidCanonicalHash"

abbreviation ErrInvalidEnvironment :: go_error where "ErrInvalidEnvironment \<equiv> PolicyErr InvalidEnvironment"
abbreviation ErrInvalidSource :: go_error where "ErrInvalidSource \<equiv> PolicyErr InvalidSource"
abbreviation ErrEnvironmentTargetMismatch :: go_error where "ErrEnvironmentTargetMismatch \<equiv> PolicyErr EnvironmentTargetMismatch"
abbreviation ErrEnvironmentSourceMismatch :: go_error where "ErrEnvironmentSourceMismatch \<equiv> PolicyErr EnvironmentSourceMismatch"
abbreviation ErrRepositoryAliasNotAllowed :: go_error where "ErrRepositoryAliasNotAllowed \<equiv> PolicyErr RepositoryAliasNotAllowed"
abbreviation ErrControllerMismatch :: go_error where "ErrControllerMismatch \<equiv> PolicyErr ControllerMismatch"
abbreviation ErrUnsupportedIsolationRequirement :: go_error where "ErrUnsupportedIsolationRequirement \<equiv> PolicyErr UnsupportedIsolationRequirement"
abbreviation ErrInvalidServiceLimits :: go_error where "ErrInvalidServiceLimits \<equiv> PolicyErr InvalidServiceLimits"
abbreviation ErrInvalidRequestedLimits :: go_error where "ErrInvalidRequestedLimits \<equiv> PolicyErr InvalidRequestedLimits"
abbreviation ErrLimitExceedsServiceCeiling :: go_error where "ErrLimitExceedsServiceCeiling \<equiv> PolicyErr LimitExceedsServiceCeiling"

abbreviation ErrInvalidLaneState :: go_error where "ErrInvalidLaneState \<equiv> LaneErr InvalidLaneState"
abbreviation ErrInvalidLaneIdentity :: go_error where "ErrInvalidLaneIdentity \<equiv> LaneErr InvalidLaneIdentity"
abbreviation ErrStaleEpoch :: go_error where "ErrStaleEpoch \<equiv> LaneErr StaleEpoch"
abbreviation ErrEpochIdentitySwitch :: go_error where "ErrEpochIdentitySwitch \<equiv> LaneErr EpochIdentitySwitch"
abbreviation ErrLaneAdmissionClosed :: go_error where "ErrLaneAdmissionClosed \<equiv> LaneErr LaneAdmissionClosed"
abbreviation ErrInvalidLaneTransition :: go_error where "ErrInvalidLaneTransition \<equiv> LaneErr InvalidLaneTransition"
abbreviation ErrLaneAdmissionNotConfigured :: go_error where "ErrLaneAdmissionNotConfigured \<equiv> LaneErr LaneAdmissionNotConfigured"
abbreviation ErrLaneAdmissionCorrupt :: go_error where "ErrLaneAdmissionCorrupt \<equiv> LaneErr LaneAdmissionCorrupt"
abbreviation ErrAdmissionClosed :: go_error where "ErrAdmissionClosed \<equiv> LaneErr AdmissionClosed"
abbreviation ErrShutdownStageTimeout :: go_error where "ErrShutdownStageTimeout \<equiv> LaneErr ShutdownStageTimeout"
abbreviation ErrInvalidAuditRecord :: go_error where "ErrInvalidAuditRecord \<equiv> LaneErr InvalidAuditRecord"

abbreviation ErrNilDatabase :: go_error where "ErrNilDatabase \<equiv> SessionErr NilDatabase"
abbreviation ErrSessionNotFound :: go_error where "ErrSessionNotFound \<equiv> SessionErr SessionNotFound"
abbreviation ErrSessionExists :: go_error where "ErrSessionExists \<equiv> SessionErr SessionExists"
abbreviation ErrInvalidSession :: go_error where "ErrInvalidSession \<equiv> SessionErr InvalidSession"
abbreviation ErrSessionLifecycle :: go_error where "ErrSessionLifecycle \<equiv> SessionErr SessionLifecycle"
abbreviation ErrIdempotencyKey :: go_error where "ErrIdempotencyKey \<equiv> SessionErr IdempotencyKey"
abbreviation ErrIdempotencyConflict :: go_error where "ErrIdempotencyConflict \<equiv> SessionErr IdempotencyConflict"
abbreviation ErrInvalidIdempotency :: go_error where "ErrInvalidIdempotency \<equiv> SessionErr InvalidIdempotency"
abbreviation ErrSessionCapacityExceeded :: go_error where "ErrSessionCapacityExceeded \<equiv> SessionErr SessionCapacityExceeded"
abbreviation ErrSessionReservationNotFound :: go_error where "ErrSessionReservationNotFound \<equiv> SessionErr SessionReservationNotFound"
abbreviation ErrInvalidTimestamp :: go_error where "ErrInvalidTimestamp \<equiv> SessionErr InvalidTimestamp"

abbreviation ErrInvalidCommand :: go_error where "ErrInvalidCommand \<equiv> CommandErr InvalidCommand"
abbreviation ErrCommandNotFound :: go_error where "ErrCommandNotFound \<equiv> CommandErr CommandNotFound"
abbreviation ErrCommandSessionState :: go_error where "ErrCommandSessionState \<equiv> CommandErr CommandSessionState"
abbreviation ErrCommandPayloadCorrupt :: go_error where "ErrCommandPayloadCorrupt \<equiv> CommandErr CommandPayloadCorrupt"
abbreviation ErrCommandEvent :: go_error where "ErrCommandEvent \<equiv> CommandErr CommandEvent"
abbreviation ErrCommandOrderCorrupt :: go_error where "ErrCommandOrderCorrupt \<equiv> CommandErr CommandOrderCorrupt"
abbreviation ErrCommandNotEligible :: go_error where "ErrCommandNotEligible \<equiv> CommandErr CommandNotEligible"
abbreviation ErrCommandTerminal :: go_error where "ErrCommandTerminal \<equiv> CommandErr CommandTerminal"
abbreviation ErrCommandReplayGap :: go_error where "ErrCommandReplayGap \<equiv> CommandErr CommandReplayGap"
abbreviation ErrCommandReplayExpired :: go_error where "ErrCommandReplayExpired \<equiv> CommandErr CommandReplayExpired"
abbreviation ErrCommandTransition :: go_error where "ErrCommandTransition \<equiv> CommandErr CommandTransition"
abbreviation ErrCommandSlotsFull :: go_error where "ErrCommandSlotsFull \<equiv> CommandErr CommandSlotsFull"
abbreviation ErrCommandSlotNotFound :: go_error where "ErrCommandSlotNotFound \<equiv> CommandErr CommandSlotNotFound"
abbreviation ErrCommandSlotNotReleasable :: go_error where "ErrCommandSlotNotReleasable \<equiv> CommandErr CommandSlotNotReleasable"
abbreviation ErrCommandSlotCorrupt :: go_error where "ErrCommandSlotCorrupt \<equiv> CommandErr CommandSlotCorrupt"
abbreviation ErrSubscriberOverflow :: go_error where "ErrSubscriberOverflow \<equiv> CommandErr SubscriberOverflow"
abbreviation ErrInvalidSubscriber :: go_error where "ErrInvalidSubscriber \<equiv> CommandErr InvalidSubscriber"

abbreviation ErrInvalidJob :: go_error where "ErrInvalidJob \<equiv> JobErr InvalidJob"
abbreviation ErrJobNotFound :: go_error where "ErrJobNotFound \<equiv> JobErr JobNotFound"
abbreviation ErrJobExists :: go_error where "ErrJobExists \<equiv> JobErr JobExists"
abbreviation ErrJobPhaseConflict :: go_error where "ErrJobPhaseConflict \<equiv> JobErr JobPhaseConflict"
abbreviation ErrJobPayloadCorrupt :: go_error where "ErrJobPayloadCorrupt \<equiv> JobErr JobPayloadCorrupt"
abbreviation ErrControlledRestartPlanNotFound :: go_error where "ErrControlledRestartPlanNotFound \<equiv> JobErr ControlledRestartPlanNotFound"
abbreviation ErrControlledRestartPlanConflict :: go_error where "ErrControlledRestartPlanConflict \<equiv> JobErr ControlledRestartPlanConflict"
abbreviation ErrControlledRestartPlanCorrupt :: go_error where "ErrControlledRestartPlanCorrupt \<equiv> JobErr ControlledRestartPlanCorrupt"
abbreviation ErrControlledRestartPlanNotActive :: go_error where "ErrControlledRestartPlanNotActive \<equiv> JobErr ControlledRestartPlanNotActive"
abbreviation ErrLostRuntimeRecoveryNotReleasable :: go_error where "ErrLostRuntimeRecoveryNotReleasable \<equiv> JobErr LostRuntimeRecoveryNotReleasable"
abbreviation ErrProbeDispositionNotEligible :: go_error where "ErrProbeDispositionNotEligible \<equiv> JobErr ProbeDispositionNotEligible"
abbreviation ErrInvalidGarbageCollection :: go_error where "ErrInvalidGarbageCollection \<equiv> JobErr InvalidGarbageCollection"
abbreviation ErrClosedCancelledJobSettlementNotEligible :: go_error where "ErrClosedCancelledJobSettlementNotEligible \<equiv> JobErr ClosedCancelledJobSettlementNotEligible"
abbreviation ErrCompletedTeardownRecoveryNotReleasable :: go_error where "ErrCompletedTeardownRecoveryNotReleasable \<equiv> JobErr CompletedTeardownRecoveryNotReleasable"
abbreviation ErrCommandlessLostRuntimeRecoveryNotReleasable :: go_error where "ErrCommandlessLostRuntimeRecoveryNotReleasable \<equiv> JobErr CommandlessLostRuntimeRecoveryNotReleasable"

abbreviation ErrLaneCapacityInvalid :: go_error where "ErrLaneCapacityInvalid \<equiv> CapacityErr LaneCapacityInvalid"
abbreviation ErrLaneCapacityUnconfigured :: go_error where "ErrLaneCapacityUnconfigured \<equiv> CapacityErr LaneCapacityUnconfigured"
abbreviation ErrLaneCapacityExceeded :: go_error where "ErrLaneCapacityExceeded \<equiv> CapacityErr LaneCapacityExceeded"
abbreviation ErrLaneCapacityReservationConflict :: go_error where "ErrLaneCapacityReservationConflict \<equiv> CapacityErr LaneCapacityReservationConflict"
abbreviation ErrLaneCapacityReservationNotFound :: go_error where "ErrLaneCapacityReservationNotFound \<equiv> CapacityErr LaneCapacityReservationNotFound"
abbreviation ErrInvalidPolicy :: go_error where "ErrInvalidPolicy \<equiv> CapacityErr InvalidPolicy"
abbreviation ErrCapacityExceeded :: go_error where "ErrCapacityExceeded \<equiv> CapacityErr CapacityExceeded"
abbreviation ErrIdentityChanged :: go_error where "ErrIdentityChanged \<equiv> CapacityErr IdentityChanged"
abbreviation ErrStaleMeasurement :: go_error where "ErrStaleMeasurement \<equiv> CapacityErr StaleMeasurement"
abbreviation ErrUnsupportedCompute :: go_error where "ErrUnsupportedCompute \<equiv> CapacityErr UnsupportedCompute"
abbreviation ErrInvalidCachePaths :: go_error where "ErrInvalidCachePaths \<equiv> CapacityErr InvalidCachePaths"
abbreviation ErrLinuxControlsUnavailable :: go_error where "ErrLinuxControlsUnavailable \<equiv> CapacityErr LinuxControlsUnavailable"

text \<open>\<open>errors.Is\<close>: the error itself, or one of the two it wraps.\<close>

fun errors_Is :: "go_error \<Rightarrow> go_error \<Rightarrow> bool" where
  "errors_Is (Wrapped a b) e = (Wrapped a b = e \<or> errors_Is a e \<or> errors_Is b e)"
| "errors_Is x e = (x = e)"

end
