(* ===== verification/Prelude.thy ===== *)
theory Prelude
  imports Go_Errors "HOL-Library.Monad_Syntax" "HOL-Library.Sublist"
begin

text \<open>
  The vocabulary the whole development shares: results as sums
  (\<open>Inl\<close> the error), store transactions as state transformers that may fail, and the
  generic facts on lists, keyed tables and transactions that the component theories use.
\<close>

named_theorems tx_simps \<open>equations that run a transaction step by step\<close>
named_theorems tx_steps \<open>a transaction reduced by its first statement\<close>
named_theorems table_simps \<open>facts on the rows of a table\<close>

section \<open>Results\<close>

type_synonym 'a result = "go_error + 'a"

definition res_bind :: "'a result \<Rightarrow> ('a \<Rightarrow> 'b result) \<Rightarrow> 'b result" where
  "res_bind r f = (case r of Inl e \<Rightarrow> Inl e | Inr x \<Rightarrow> f x)"

text \<open>\<^verbatim>\<open>if err != nil { return E }\<close>: any error of the call is replaced by \<open>E\<close>.\<close>

definition res_as :: "go_error \<Rightarrow> 'a result \<Rightarrow> 'a result" where
  "res_as e r = (case r of Inl _ \<Rightarrow> Inl e | Inr x \<Rightarrow> Inr x)"

definition res_guard :: "bool \<Rightarrow> go_error \<Rightarrow> unit result" where
  "res_guard b e = (if b then Inr () else Inl e)"

definition is_ok :: "'a result \<Rightarrow> bool" where
  "is_ok r = (case r of Inl _ \<Rightarrow> False | Inr _ \<Rightarrow> True)"

lemma res_bind_simps [simp]:
  "res_bind (Inl e) f = Inl e"
  "res_bind (Inr x) f = f x"
  by (simp_all add: res_bind_def)

lemma res_bind_Inr [tx_simps]: "res_bind r f = Inr y \<longleftrightarrow> (\<exists>x. r = Inr x \<and> f x = Inr y)"
  by (cases r) simp_all

lemma res_as_simps [simp]:
  "res_as e (Inl e') = Inl e"
  "res_as e (Inr x) = Inr x"
  by (simp_all add: res_as_def)

lemma res_as_Inr [tx_simps]: "res_as e r = Inr y \<longleftrightarrow> r = Inr y"
  by (cases r) simp_all

lemma res_guard_Inr [tx_simps]: "res_guard b e = Inr u \<longleftrightarrow> b"
  by (simp add: res_guard_def)

lemma res_guard_simps [simp]:
  "res_guard True e = Inr ()"
  "res_guard False e = Inl e"
  by (simp_all add: res_guard_def)

lemma is_ok_simps [simp]: "\<not> is_ok (Inl e)" "is_ok (Inr x)"
  by (simp_all add: is_ok_def)

lemma is_ok_iff: "is_ok r \<longleftrightarrow> (\<exists>x. r = Inr x)"
  by (cases r) simp_all

section \<open>Transactions\<close>

text \<open>
  The body of a store transaction runs against one database state: it either fails, and what it
  wrote is discarded by the caller, or returns a value and the new state.
\<close>

type_synonym ('s, 'a) tx = "'s \<Rightarrow> go_error + ('a \<times> 's)"

definition tx_return :: "'a \<Rightarrow> ('s, 'a) tx" where
  "tx_return x = (\<lambda>s. Inr (x, s))"

definition tx_fail :: "go_error \<Rightarrow> ('s, 'a) tx" where
  "tx_fail e = (\<lambda>s. Inl e)"

definition tx_bind :: "('s, 'a) tx \<Rightarrow> ('a \<Rightarrow> ('s, 'b) tx) \<Rightarrow> ('s, 'b) tx" where
  "tx_bind m f = (\<lambda>s. case m s of Inl e \<Rightarrow> Inl e | Inr (x, s') \<Rightarrow> f x s')"

definition tx_lift :: "'a result \<Rightarrow> ('s, 'a) tx" where
  "tx_lift r = (\<lambda>s. case r of Inl e \<Rightarrow> Inl e | Inr x \<Rightarrow> Inr (x, s))"

definition tx_query :: "('s \<Rightarrow> 'a result) \<Rightarrow> ('s, 'a) tx" where
  "tx_query f = (\<lambda>s. case f s of Inl e \<Rightarrow> Inl e | Inr x \<Rightarrow> Inr (x, s))"

definition tx_guard :: "bool \<Rightarrow> go_error \<Rightarrow> ('s, unit) tx" where
  "tx_guard b e = (\<lambda>s. if b then Inr ((), s) else Inl e)"

definition tx_modify :: "('s \<Rightarrow> 's) \<Rightarrow> ('s, unit) tx" where
  "tx_modify f = (\<lambda>s. Inr ((), f s))"

lemmas tx_defs = tx_return_def tx_fail_def tx_bind_def tx_lift_def tx_query_def tx_guard_def
  tx_modify_def

lemma tx_return_Inr [tx_simps]: "tx_return x s = Inr (y, s') \<longleftrightarrow> y = x \<and> s' = s"
  by (auto simp: tx_return_def)

lemma tx_fail_Inr [tx_simps]: "tx_fail e s = Inr r \<longleftrightarrow> False"
  by (simp add: tx_fail_def)

lemma tx_bind_Inr [tx_simps]:
  "tx_bind m f s = Inr r \<longleftrightarrow> (\<exists>x s'. m s = Inr (x, s') \<and> f x s' = Inr r)"
  by (auto simp: tx_bind_def split: sum.splits)

lemma tx_lift_Inr [tx_simps]: "tx_lift r s = Inr (y, s') \<longleftrightarrow> r = Inr y \<and> s' = s"
  by (auto simp: tx_lift_def split: sum.splits)

lemma tx_query_Inr [tx_simps]: "tx_query f s = Inr (y, s') \<longleftrightarrow> f s = Inr y \<and> s' = s"
  by (auto simp: tx_query_def split: sum.splits)

lemma tx_guard_Inr [tx_simps]: "tx_guard b e s = Inr (u, s') \<longleftrightarrow> b \<and> s' = s"
  by (auto simp: tx_guard_def)

lemma tx_modify_Inr [tx_simps]: "tx_modify f s = Inr (u, s') \<longleftrightarrow> s' = f s"
  by (auto simp: tx_modify_def)

lemma tx_bind_Inl:
  "tx_bind m f s = Inl e \<longleftrightarrow> m s = Inl e \<or> (\<exists>x s'. m s = Inr (x, s') \<and> f x s' = Inl e)"
  by (auto simp: tx_bind_def split: sum.splits)

text \<open>Running a step whose outcome is known; the forms witnesses and error lemmas compute with.\<close>

lemma tx_run [simp]:
  "tx_return x s = Inr (x, s)"
  "tx_fail e s = Inl e"
  "tx_modify f s = Inr ((), f s)"
  "tx_lift (Inr y) s = Inr (y, s)"
  "tx_lift (Inl e) s = Inl e"
  "b \<Longrightarrow> tx_guard b e s = Inr ((), s)"
  "\<not> b \<Longrightarrow> tx_guard b e s = Inl e"
  "q s = Inr z \<Longrightarrow> tx_query q s = Inr (z, s)"
  "q s = Inl e \<Longrightarrow> tx_query q s = Inl e"
  by (simp_all add: tx_defs)

lemma tx_bind_run:
  "m s = Inr (x, s') \<Longrightarrow> tx_bind m f s = f x s'"
  "m s = Inl e \<Longrightarrow> tx_bind m f s = Inl e"
  by (simp_all add: tx_bind_def)

lemma tx_bind_assoc [tx_steps]: "tx_bind (tx_bind m g) f s = tx_bind m (\<lambda>x. tx_bind (g x) f) s"
  by (auto simp: tx_defs split: sum.splits)

lemma tx_bind_value [tx_steps]:
  "tx_bind (tx_return x) f s = f x s"
  "tx_bind (tx_lift r) f s = (case r of Inl e \<Rightarrow> Inl e | Inr x \<Rightarrow> f x s)"
  "tx_bind (tx_query q) f s = (case q s of Inl e \<Rightarrow> Inl e | Inr x \<Rightarrow> f x s)"
  by (auto simp: tx_defs split: sum.splits)

lemma tx_bind_unit [tx_steps]:
  "tx_bind (tx_fail e) f s = Inl e"
  "tx_bind (tx_guard b e) f s = (if b then f () s else Inl e)"
  "tx_bind (tx_modify g) f s = f () (g s)"
  by (auto simp: tx_defs split: sum.splits)

text \<open>Partial correctness of a transaction body: what holds of a state it succeeds in.\<close>

definition tx_keeps :: "('s \<Rightarrow> bool) \<Rightarrow> ('s, 'a) tx \<Rightarrow> bool" where
  "tx_keeps I m \<longleftrightarrow> (\<forall>s x s'. I s \<longrightarrow> m s = Inr (x, s') \<longrightarrow> I s')"

lemma tx_keepsI: "(\<And>s x s'. I s \<Longrightarrow> m s = Inr (x, s') \<Longrightarrow> I s') \<Longrightarrow> tx_keeps I m"
  by (auto simp: tx_keeps_def)

lemma tx_keepsD: "tx_keeps I m \<Longrightarrow> I s \<Longrightarrow> m s = Inr (x, s') \<Longrightarrow> I s'"
  by (auto simp: tx_keeps_def)

lemma tx_keeps_bind: "tx_keeps I m \<Longrightarrow> (\<And>x. tx_keeps I (f x)) \<Longrightarrow> tx_keeps I (tx_bind m f)"
  unfolding tx_keeps_def tx_bind_Inr by blast

lemma tx_keeps_reads:
  "tx_keeps I (tx_return x)" "tx_keeps I (tx_fail e)" "tx_keeps I (tx_lift r)"
  "tx_keeps I (tx_query q)" "tx_keeps I (tx_guard b e)"
  by (auto simp: tx_keeps_def tx_simps)

section \<open>Lists\<close>

lemma sum_list_filter_length: "length (filter P xs) \<le> length xs"
  by simp

lemma find_Some_iff_filter: "find P xs = Some x \<Longrightarrow> x \<in> set xs \<and> P x"
  by (metis find_Some_iff nth_mem)

lemma find_None_filter: "find P xs = None \<longleftrightarrow> filter P xs = []"
  by (auto simp: find_None_iff filter_empty_conv)

text \<open>A table is a list of rows; \<open>map key rows\<close> distinct says its key is a primary key.\<close>

lemma distinct_key_eq:
  "distinct (map key xs) \<Longrightarrow> x \<in> set xs \<Longrightarrow> y \<in> set xs \<Longrightarrow> key x = key y \<Longrightarrow> x = y"
  by (auto simp: distinct_map inj_on_def)

lemma find_key_Some [table_simps]:
  "distinct (map key xs) \<Longrightarrow> find (\<lambda>r. key r = k) xs = Some x \<longleftrightarrow> x \<in> set xs \<and> key x = k"
proof (induction xs)
  case Nil
  then show ?case by simp
next
  case (Cons a xs)
  then show ?case by (auto simp: image_iff)
qed

lemma find_key_None [table_simps]:
  "find (\<lambda>r. key r = k) xs = None \<longleftrightarrow> k \<notin> key ` set xs"
  by (auto simp: find_None_iff)

text \<open>Updating the rows that satisfy \<open>P\<close>, as an SQL UPDATE does.\<close>

definition update_rows :: "('r \<Rightarrow> bool) \<Rightarrow> ('r \<Rightarrow> 'r) \<Rightarrow> 'r list \<Rightarrow> 'r list" where
  "update_rows P f rows = map (\<lambda>r. if P r then f r else r) rows"

lemma length_update_rows [simp]: "length (update_rows P f rows) = length rows"
  by (simp add: update_rows_def)

lemma map_update_rows [simp]:
  "(\<And>r. key (f r) = key r) \<Longrightarrow> map key (update_rows P f rows) = map key rows"
  by (simp add: update_rows_def)

lemma in_update_rows [table_simps]:
  "r \<in> set (update_rows P f rows) \<longleftrightarrow> (\<exists>r0 \<in> set rows. r = (if P r0 then f r0 else r0))"
  by (auto simp: update_rows_def)

lemma update_rows_cong_none: "(\<And>r. r \<in> set rows \<Longrightarrow> \<not> P r) \<Longrightarrow> update_rows P f rows = rows"
  by (induction rows) (auto simp: update_rows_def)

lemma filter_update_rows:
  "(\<And>r. r \<in> set rows \<Longrightarrow> P r \<Longrightarrow> Q (f r) = Q r) \<Longrightarrow>
   filter Q (update_rows P f rows) = update_rows P f (filter Q rows)"
  by (induction rows) (auto simp: update_rows_def)

lemma find_update_rows_other:
  "(\<And>r. key (f r) = key r) \<Longrightarrow> k \<noteq> k' \<Longrightarrow>
   find (\<lambda>r. key r = k) (update_rows (\<lambda>r. key r = k' \<and> P r) f rows) =
   find (\<lambda>r. key r = k) rows"
  by (induction rows) (auto simp: update_rows_def)

lemma find_update_rows_same:
  "(\<And>r. key (f r) = key r) \<Longrightarrow> find (\<lambda>r. key r = k) rows = Some r0 \<Longrightarrow> P r0 \<Longrightarrow>
   find (\<lambda>r. key r = k) (update_rows (\<lambda>r. key r = k \<and> P r) f rows) = Some (f r0)"
  by (induction rows) (auto simp: update_rows_def split: if_splits)

lemma find_append: "find P (xs @ ys) = (case find P xs of None \<Rightarrow> find P ys | Some x \<Rightarrow> Some x)"
  by (induction xs) auto

text \<open>\<^verbatim>\<open>SELECT COALESCE(MAX(c), 0)\<close> over the selected rows.\<close>

definition max_column :: "('r \<Rightarrow> int) \<Rightarrow> 'r list \<Rightarrow> int" where
  "max_column c rows = fold max (map c rows) 0"

lemma max_column_Nil [simp]: "max_column c [] = 0"
  by (simp add: max_column_def)

lemma max_column_snoc [simp]: "max_column c (rows @ [r]) = max (c r) (max_column c rows)"
  by (simp add: max_column_def)

text \<open>Rows numbered consecutively from one, in table order.\<close>

definition numbered :: "('r \<Rightarrow> int) \<Rightarrow> 'r list \<Rightarrow> bool" where
  "numbered c rows \<longleftrightarrow> map c rows = map int [1..<Suc (length rows)]"

lemma numbered_Nil [simp]: "numbered c []"
  by (simp add: numbered_def)

lemma numbered_snoc [simp]:
  "numbered c (rows @ [r]) \<longleftrightarrow> numbered c rows \<and> c r = int (length rows) + 1"
  by (auto simp: numbered_def)

lemma numbered_max: "numbered c rows \<Longrightarrow> max_column c rows = int (length rows)"
proof (induction rows rule: rev_induct)
  case Nil
  then show ?case by simp
next
  case (snoc r rows)
  then show ?case by simp
qed

lemma numbered_update_rows [simp]:
  "(\<And>r. c (f r) = c r) \<Longrightarrow> numbered c (update_rows P f rows) = numbered c rows"
  by (simp add: numbered_def)

lemma numbered_bounds: "numbered c rows \<Longrightarrow> r \<in> set rows \<Longrightarrow> 1 \<le> c r \<and> c r \<le> int (length rows)"
proof -
  assume n: "numbered c rows" and "r \<in> set rows"
  then have "c r \<in> set (map c rows)" by simp
  also have "map c rows = map int [1..<Suc (length rows)]" using n by (simp only: numbered_def)
  finally show ?thesis by (simp only: set_map set_upt) auto
qed

lemma numbered_distinct: "numbered c rows \<Longrightarrow> distinct (map c rows)"
  by (simp add: numbered_def distinct_map)

section \<open>Systems that run operations one after another\<close>

text \<open>
  A component whose operations each map its state to a new one. \<open>inv\<close> is what every operation
  keeps and \<open>rel\<close> a preorder every operation follows (counters that only grow, flags that are
  never cleared); both then hold of every sequence of operations.
\<close>

locale step_system =
  fixes step :: "'s \<Rightarrow> 'o \<Rightarrow> 's"
    and inv :: "'s \<Rightarrow> bool"
    and rel :: "'s \<Rightarrow> 's \<Rightarrow> bool"
  assumes inv_step: "inv s \<Longrightarrow> inv (step s op)"
    and rel_step: "inv s \<Longrightarrow> rel s (step s op)"
    and rel_refl: "rel s s"
    and rel_trans: "rel s t \<Longrightarrow> rel t u \<Longrightarrow> rel s u"
begin

lemma run_inv: "inv s \<Longrightarrow> inv (foldl step s ops)"
  by (induction ops arbitrary: s) (simp_all add: inv_step)

lemma run_rel: "inv s \<Longrightarrow> rel s (foldl step s ops)"
proof (induction ops arbitrary: s)
  case Nil
  then show ?case by (simp add: rel_refl)
next
  case (Cons op ops)
  then have "rel (step s op) (foldl step (step s op) ops)" by (simp add: inv_step)
  then show ?case using rel_trans [OF rel_step [OF Cons.prems]] by simp
qed

end

end
