(* ===== verification/Go_Text.thy ===== *)
theory Go_Text
  imports Prelude
begin

text \<open>
  The parts of Go's string and byte library the Runner uses, on strings as byte lists
  (\<open>char\<close> is one byte): UTF-8 validity, \<open>strings.TrimSpace\<close>, NUL checks,
  \<open>filepath.IsAbs\<close>, decimal numerals, and SQLite's \<open>length\<close> test on TEXT values.
\<close>

type_synonym bytes = string

definition NUL :: char where
  "NUL = CHR 0x00"

text \<open>\<open>strings.IndexByte(s, 0) >= 0\<close>\<close>

definition has_nul :: "string \<Rightarrow> bool" where
  "has_nul s \<longleftrightarrow> NUL \<in> set s"

text \<open>A bounded token: the recurring check \<open>1..n\<close> bytes without a NUL.\<close>

definition bounded_token :: "nat \<Rightarrow> string \<Rightarrow> bool" where
  "bounded_token n s \<longleftrightarrow> s \<noteq> [] \<and> length s \<le> n \<and> \<not> has_nul s"

text \<open>
  \<open>CHECK (length(x) > 0)\<close> on a TEXT column: SQLite counts the characters before the first NUL.
\<close>

definition sql_nonempty :: "string \<Rightarrow> bool" where
  "sql_nonempty s = (case s of [] \<Rightarrow> False | c # _ \<Rightarrow> c \<noteq> NUL)"

lemma sql_nonempty_not_nul: "s \<noteq> [] \<Longrightarrow> \<not> has_nul s \<Longrightarrow> sql_nonempty s"
  by (auto simp: sql_nonempty_def has_nul_def split: list.splits)

lemma bounded_token_sql: "bounded_token n s \<Longrightarrow> sql_nonempty s"
  by (simp add: bounded_token_def sql_nonempty_not_nul)

lemma sql_nonempty_Nil [simp]: "\<not> sql_nonempty []"
  by (simp add: sql_nonempty_def)

lemma sql_nonemptyD: "sql_nonempty s \<Longrightarrow> s \<noteq> []"
  by auto

section \<open>UTF-8\<close>

text \<open>
  \<open>utf8.ValidString\<close>: the well-formed sequences of RFC 3629 (no overlong forms, no surrogates,
  nothing above U+10FFFF).
\<close>

definition utf8_cont :: "nat \<Rightarrow> bool" where
  "utf8_cont b \<longleftrightarrow> 0x80 \<le> b \<and> b \<le> 0xBF"

definition utf8_two :: "nat \<Rightarrow> nat \<Rightarrow> bool" where
  "utf8_two a b \<longleftrightarrow> 0xC2 \<le> a \<and> a \<le> 0xDF \<and> utf8_cont b"

definition utf8_three :: "nat \<Rightarrow> nat \<Rightarrow> nat \<Rightarrow> bool" where
  "utf8_three a b c \<longleftrightarrow> 0xE0 \<le> a \<and> a \<le> 0xEF \<and> utf8_cont b \<and> utf8_cont c \<and>
     (a = 0xE0 \<longrightarrow> 0xA0 \<le> b) \<and> (a = 0xED \<longrightarrow> b \<le> 0x9F)"

definition utf8_four :: "nat \<Rightarrow> nat \<Rightarrow> nat \<Rightarrow> nat \<Rightarrow> bool" where
  "utf8_four a b c d \<longleftrightarrow> 0xF0 \<le> a \<and> a \<le> 0xF4 \<and> utf8_cont b \<and> utf8_cont c \<and> utf8_cont d \<and>
     (a = 0xF0 \<longrightarrow> 0x90 \<le> b) \<and> (a = 0xF4 \<longrightarrow> b \<le> 0x8F)"

fun utf8_valid_bytes :: "nat list \<Rightarrow> bool" where
  "utf8_valid_bytes [] = True"
| "utf8_valid_bytes (a # xs) =
     (if a < 0x80 then utf8_valid_bytes xs
      else case xs of
        [] \<Rightarrow> False
      | b # ys \<Rightarrow>
          if utf8_two a b then utf8_valid_bytes ys
          else (case ys of
            [] \<Rightarrow> False
          | c # zs \<Rightarrow>
              if utf8_three a b c then utf8_valid_bytes zs
              else (case zs of
                [] \<Rightarrow> False
              | d # ws \<Rightarrow> utf8_four a b c d \<and> utf8_valid_bytes ws)))"

definition utf8_ValidString :: "string \<Rightarrow> bool" where
  "utf8_ValidString s = utf8_valid_bytes (map of_char s)"

lemma utf8_ascii: "\<forall>c \<in> set s. of_char c < (0x80 :: nat) \<Longrightarrow> utf8_ValidString s"
  by (induction s) (simp_all add: utf8_ValidString_def)

section \<open>TrimSpace and IsAbs\<close>

text \<open>The UTF-8 encodings of the code points for which \<open>unicode.IsSpace\<close> holds.\<close>

definition space_encodings :: "string list" where
  "space_encodings =
     [[CHR 0x09], [CHR 0x0A], [CHR 0x0B], [CHR 0x0C], [CHR 0x0D], [CHR 0x20],
      [CHR 0xC2, CHR 0x85], [CHR 0xC2, CHR 0xA0], [CHR 0xE1, CHR 0x9A, CHR 0x80],
      [CHR 0xE2, CHR 0x80, CHR 0x80], [CHR 0xE2, CHR 0x80, CHR 0x81],
      [CHR 0xE2, CHR 0x80, CHR 0x82], [CHR 0xE2, CHR 0x80, CHR 0x83],
      [CHR 0xE2, CHR 0x80, CHR 0x84], [CHR 0xE2, CHR 0x80, CHR 0x85],
      [CHR 0xE2, CHR 0x80, CHR 0x86], [CHR 0xE2, CHR 0x80, CHR 0x87],
      [CHR 0xE2, CHR 0x80, CHR 0x88], [CHR 0xE2, CHR 0x80, CHR 0x89],
      [CHR 0xE2, CHR 0x80, CHR 0x8A], [CHR 0xE2, CHR 0x80, CHR 0xA8],
      [CHR 0xE2, CHR 0x80, CHR 0xA9], [CHR 0xE2, CHR 0x80, CHR 0xAF],
      [CHR 0xE2, CHR 0x81, CHR 0x9F], [CHR 0xE3, CHR 0x80, CHR 0x80]]"

function strip_leading :: "string list \<Rightarrow> string \<Rightarrow> string" where
  "strip_leading ps s =
     (case find (\<lambda>p. p \<noteq> [] \<and> prefix p s) ps of
        None \<Rightarrow> s
      | Some p \<Rightarrow> strip_leading ps (drop (length p) s))"
  by pat_completeness auto
termination
proof (relation "measure (\<lambda>(ps, s). length s)")
  fix ps :: "string list" and s p
  assume "find (\<lambda>p. p \<noteq> [] \<and> prefix p s) ps = Some p"
  then have "p \<noteq> [] \<and> prefix p s" by (rule find_Some_iff_filter [THEN conjunct2])
  then show "((ps, drop (length p) s), ps, s) \<in> measure (\<lambda>(ps, s). length s)"
    by (auto simp: prefix_def)
qed simp

declare strip_leading.simps [simp del]

definition TrimSpace :: "string \<Rightarrow> string" where
  "TrimSpace s =
     rev (strip_leading (map rev space_encodings) (rev (strip_leading space_encodings s)))"

definition filepath_IsAbs :: "string \<Rightarrow> bool" where
  "filepath_IsAbs s = (case s of [] \<Rightarrow> False | c # _ \<Rightarrow> c = CHR ''/'')"

lemma strip_leading_suffix: "\<exists>u. s = u @ strip_leading ps s"
proof (induction ps s rule: strip_leading.induct)
  case (1 ps s)
  show ?case
  proof (cases "find (\<lambda>p. p \<noteq> [] \<and> prefix p s) ps")
    case None
    then show ?thesis by (subst strip_leading.simps) simp
  next
    case (Some p)
    then obtain u where u: "drop (length p) s = u @ strip_leading ps (drop (length p) s)"
      using 1 by blast
    have "s = take (length p) s @ drop (length p) s" by simp
    also have "\<dots> = (take (length p) s @ u) @ strip_leading ps (drop (length p) s)"
      using u by simp
    also have "strip_leading ps (drop (length p) s) = strip_leading ps s"
      using Some by (simp add: strip_leading.simps [of ps s])
    finally show ?thesis by (rule exI)
  qed
qed

lemma TrimSpace_factor: "\<exists>u v. s = u @ TrimSpace s @ v"
proof -
  obtain u where u: "s = u @ strip_leading space_encodings s" using strip_leading_suffix by blast
  let ?t = "strip_leading space_encodings s"
  obtain w where w: "rev ?t = w @ strip_leading (map rev space_encodings) (rev ?t)"
    using strip_leading_suffix by blast
  have "?t = rev (rev ?t)" by simp
  also have "\<dots> = TrimSpace s @ rev w" unfolding TrimSpace_def by (subst w) simp
  finally have "s = u @ TrimSpace s @ rev w" using u by simp
  then show ?thesis by blast
qed

section \<open>Decimal numerals\<close>

definition digit_char :: "nat \<Rightarrow> char" where
  "digit_char n = char_of (48 + n)"

definition is_digit :: "char \<Rightarrow> bool" where
  "is_digit c \<longleftrightarrow> 48 \<le> (of_char c :: nat) \<and> of_char c \<le> (57 :: nat)"

definition digit_value :: "char \<Rightarrow> nat" where
  "digit_value c = of_char c - 48"

text \<open>A decimal numeral of fixed width, as Go's zero-padded time fields.\<close>

fun pad :: "nat \<Rightarrow> nat \<Rightarrow> string" where
  "pad 0 n = []"
| "pad (Suc w) n = pad w (n div 10) @ [digit_char (n mod 10)]"

definition digits_value :: "string \<Rightarrow> nat" where
  "digits_value s = foldl (\<lambda>a c. 10 * a + digit_value c) 0 s"

lemma of_char_digit [simp]: "n < 10 \<Longrightarrow> of_char (digit_char n) = 48 + n"
  by (simp add: digit_char_def)

lemma is_digit_digit_char [simp]: "n < 10 \<Longrightarrow> is_digit (digit_char n)"
  by (simp add: is_digit_def)

lemma digit_value_digit_char [simp]: "n < 10 \<Longrightarrow> digit_value (digit_char n) = n"
  by (simp add: digit_value_def)

lemma length_pad [simp]: "length (pad w n) = w"
  by (induction w arbitrary: n) simp_all

lemma pad_digits: "\<forall>c \<in> set (pad w n). is_digit c"
  by (induction w arbitrary: n) simp_all

lemma digits_value_snoc [simp]: "digits_value (s @ [c]) = 10 * digits_value s + digit_value c"
  by (simp add: digits_value_def)

lemma digits_value_Nil [simp]: "digits_value [] = 0"
  by (simp add: digits_value_def)

lemma digits_value_pad: "n < 10 ^ w \<Longrightarrow> digits_value (pad w n) = n"
proof (induction w arbitrary: n)
  case 0
  then show ?case by simp
next
  case (Suc w)
  then have "n div 10 < 10 ^ w" by (simp add: less_mult_imp_div_less mult.commute)
  then have "digits_value (pad w (n div 10)) = n div 10" by (rule Suc.IH)
  then show ?case by simp
qed

lemma digits_value_zeros: "digits_value (s @ replicate k (CHR ''0'')) = digits_value s * 10 ^ k"
proof (induction k)
  case 0
  then show ?case by simp
next
  case (Suc k)
  have "s @ replicate (Suc k) (CHR ''0'') = (s @ replicate k (CHR ''0'')) @ [CHR ''0'']"
    by (simp add: replicate_append_same)
  then have "digits_value (s @ replicate (Suc k) (CHR ''0'')) =
      10 * digits_value (s @ replicate k (CHR ''0'')) + digit_value (CHR ''0'')"
    by (simp only: digits_value_snoc)
  then show ?case using Suc by (simp add: digit_value_def)
qed

end
