(* ===== verification/Domain_Identity.thy ===== *)
theory Domain_Identity
  imports Go_Text
begin

text \<open>
  The identifiers of the domain package (internal/domain/identity.go) and its size limits
  (internal/domain/limits.go). Identifiers are opaque nonempty byte strings; a controller is a
  pair of an authentication namespace and an identifier; an execution target is a kind and a
  profile name. Go's string enumerations become datatypes with the declared constants as
  constructors and one constructor for every other text.
\<close>

type_synonym SessionID = string
type_synonym CommandID = string
type_synonym JobID = string
type_synonym RequestID = string
type_synonym IntentID = string
type_synonym ControllerID = string

definition validateID :: "string \<Rightarrow> unit result" where
  "validateID value = (if value = [] then Inl ErrEmptyID else Inr ())"

definition NewSessionID :: "string \<Rightarrow> SessionID result" where
  "NewSessionID value = res_bind (validateID value) (\<lambda>_. Inr value)"

definition NewCommandID :: "string \<Rightarrow> CommandID result" where
  "NewCommandID value = res_bind (validateID value) (\<lambda>_. Inr value)"

definition NewJobID :: "string \<Rightarrow> JobID result" where
  "NewJobID value = res_bind (validateID value) (\<lambda>_. Inr value)"

definition NewRequestID :: "string \<Rightarrow> RequestID result" where
  "NewRequestID value = res_bind (validateID value) (\<lambda>_. Inr value)"

definition NewIntentID :: "string \<Rightarrow> IntentID result" where
  "NewIntentID value = res_bind (validateID value) (\<lambda>_. Inr value)"

definition NewControllerID :: "string \<Rightarrow> ControllerID result" where
  "NewControllerID value = res_bind (validateID value) (\<lambda>_. Inr value)"

datatype ControllerType =
    ControllerTypeLocalUser
  | ControllerTypeQueuedMac
  | ControllerTypeDirectMTLS
  | ControllerTypeOther string

fun ControllerType_string :: "ControllerType \<Rightarrow> string" where
  "ControllerType_string ControllerTypeLocalUser = ''local_user''"
| "ControllerType_string ControllerTypeQueuedMac = ''queued_mac''"
| "ControllerType_string ControllerTypeDirectMTLS = ''direct_mtls''"
| "ControllerType_string (ControllerTypeOther s) = s"

record ControllerIdentity =
  ci_type :: ControllerType
  ci_id :: ControllerID

definition NewControllerIdentity :: "ControllerType \<Rightarrow> ControllerID \<Rightarrow> ControllerIdentity result" where
  "NewControllerIdentity typeName ident =
     (case typeName of
        ControllerTypeOther _ \<Rightarrow> Inl ErrInvalidControllerType
      | _ \<Rightarrow> res_bind (validateID ident) (\<lambda>_. Inr \<lparr>ci_type = typeName, ci_id = ident\<rparr>))"

datatype TargetKind = TargetKindLocal | TargetKindRemote | TargetKindOther string

fun TargetKind_string :: "TargetKind \<Rightarrow> string" where
  "TargetKind_string TargetKindLocal = ''local''"
| "TargetKind_string TargetKindRemote = ''remote''"
| "TargetKind_string (TargetKindOther s) = s"

record ExecutionTarget =
  et_kind :: TargetKind
  et_profile :: string

definition NewExecutionTarget :: "TargetKind \<Rightarrow> string \<Rightarrow> ExecutionTarget result" where
  "NewExecutionTarget kind profile =
     (case kind of
        TargetKindOther _ \<Rightarrow> Inl ErrInvalidTargetKind
      | _ \<Rightarrow> if profile = [] then Inl ErrEmptyTargetProfile
             else Inr \<lparr>et_kind = kind, et_profile = profile\<rparr>)"

section \<open>Size limits\<close>

definition MaxSerializedRequestBytes :: nat where
  "MaxSerializedRequestBytes = 1048576"

definition MaxSerializedFrameBytes :: nat where
  "MaxSerializedFrameBytes = MaxSerializedRequestBytes"

definition MaxScriptUTF8Bytes :: nat where
  "MaxScriptUTF8Bytes = 131072"

definition validateSerializedSize :: "bytes \<Rightarrow> nat \<Rightarrow> unit result" where
  "validateSerializedSize raw maximum =
     (if length raw > maximum then Inl ErrSerializedInputTooLarge else Inr ())"

definition ValidateSerializedRequest :: "bytes \<Rightarrow> unit result" where
  "ValidateSerializedRequest raw = validateSerializedSize raw MaxSerializedRequestBytes"

definition ValidateSerializedFrame :: "bytes \<Rightarrow> unit result" where
  "ValidateSerializedFrame frame = validateSerializedSize frame MaxSerializedFrameBytes"

definition ValidateScriptUTF8 :: "string \<Rightarrow> unit result" where
  "ValidateScriptUTF8 script =
     (if \<not> utf8_ValidString script then Inl ErrScriptInvalidUTF8
      else if length script > MaxScriptUTF8Bytes then Inl ErrScriptTooLarge
      else Inr ())"

section \<open>What the constructors accept\<close>

fun known_controller_type :: "ControllerType \<Rightarrow> bool" where
  "known_controller_type (ControllerTypeOther _) = False"
| "known_controller_type _ = True"

fun known_target_kind :: "TargetKind \<Rightarrow> bool" where
  "known_target_kind (TargetKindOther _) = False"
| "known_target_kind _ = True"

lemma validateID_Inr [simp]: "validateID v = Inr u \<longleftrightarrow> v \<noteq> []"
  by (simp add: validateID_def)

lemma new_id_Inr [simp]:
  "NewSessionID v = Inr x \<longleftrightarrow> v \<noteq> [] \<and> x = v"
  "NewCommandID v = Inr x \<longleftrightarrow> v \<noteq> [] \<and> x = v"
  "NewJobID v = Inr x \<longleftrightarrow> v \<noteq> [] \<and> x = v"
  "NewControllerID v = Inr x \<longleftrightarrow> v \<noteq> [] \<and> x = v"
  by (auto simp: NewSessionID_def NewCommandID_def NewJobID_def NewControllerID_def tx_simps)

lemma new_id_run:
  "v \<noteq> [] \<Longrightarrow> NewSessionID v = Inr v"
  "v \<noteq> [] \<Longrightarrow> NewCommandID v = Inr v"
  "v \<noteq> [] \<Longrightarrow> NewJobID v = Inr v"
  "v \<noteq> [] \<Longrightarrow> NewControllerID v = Inr v"
  by simp_all

lemma NewControllerIdentity_Inr [simp]:
  "NewControllerIdentity t i = Inr c \<longleftrightarrow>
     known_controller_type t \<and> i \<noteq> [] \<and> c = \<lparr>ci_type = t, ci_id = i\<rparr>"
  by (cases t) (auto simp: NewControllerIdentity_def tx_simps)

lemma NewExecutionTarget_Inr [simp]:
  "NewExecutionTarget k p = Inr t \<longleftrightarrow>
     known_target_kind k \<and> p \<noteq> [] \<and> t = \<lparr>et_kind = k, et_profile = p\<rparr>"
  by (cases k) (auto simp: NewExecutionTarget_def)

lemma ControllerType_string_inj:
  "known_controller_type s \<Longrightarrow> known_controller_type t \<Longrightarrow>
   ControllerType_string s = ControllerType_string t \<Longrightarrow> s = t"
  by (cases s; cases t) simp_all

lemma TargetKind_string_inj:
  "known_target_kind s \<Longrightarrow> known_target_kind t \<Longrightarrow>
   TargetKind_string s = TargetKind_string t \<Longrightarrow> s = t"
  by (cases s; cases t) simp_all

lemma known_type_string_no_nul:
  "known_controller_type t \<Longrightarrow> \<not> has_nul (ControllerType_string t)"
  by (cases t) (simp_all add: has_nul_def NUL_def)

lemma known_kind_string_no_nul: "known_target_kind k \<Longrightarrow> \<not> has_nul (TargetKind_string k)"
  by (cases k) (simp_all add: has_nul_def NUL_def)

end
