(* ===== verification/Stored_Time.thy ===== *)
theory Stored_Time
  imports Go_Text
begin

text \<open>
  Timestamps and their stored text. A Go \<open>time.Time\<close> in UTC is the number of nanoseconds since
  1 January of year 1, so Go's zero time is \<open>0\<close>; a \<open>time.Duration\<close> is a number of
  nanoseconds. \<open>formatStoredTime\<close> and \<open>parseStoredTime\<close> (internal/store/sessions.go)
  are the RFC 3339 text of the database columns: formatting trims the fraction, so the text has a
  variable width, and parsing follows Go's \<open>time.Parse\<close> with that layout, including what it
  tolerates (a one-digit hour, a comma, more than nine fraction digits, a zone offset).
\<close>

type_synonym time = int
type_synonym duration = int

definition zero_time :: time where
  "zero_time = 0"

definition Second :: duration where
  "Second = 1000000000"

definition Minute :: duration where
  "Minute = 60 * Second"

definition Hour :: duration where
  "Hour = 60 * Minute"

section \<open>The proleptic Gregorian calendar\<close>

definition leap :: "int \<Rightarrow> bool" where
  "leap y \<longleftrightarrow> y mod 4 = 0 \<and> (y mod 100 \<noteq> 0 \<or> y mod 400 = 0)"

definition month_lengths :: "int \<Rightarrow> int list" where
  "month_lengths y = [31, if leap y then 29 else 28, 31, 30, 31, 30, 31, 31, 30, 31, 30, 31]"

definition days_before_year :: "int \<Rightarrow> int" where
  "days_before_year y = (let p = y - 1 in 365 * p + p div 4 - p div 100 + p div 400)"

definition year_length :: "int \<Rightarrow> int" where
  "year_length y = (if leap y then 366 else 365)"

definition Date :: "int \<Rightarrow> nat \<Rightarrow> int \<Rightarrow> int \<Rightarrow> int \<Rightarrow> int \<Rightarrow> int \<Rightarrow> time" where
  "Date y mo d h mi s ns =
     ((days_before_year y + sum_list (take (mo - 1) (month_lengths y)) + (d - 1)) * 86400
      + h * 3600 + mi * 60 + s) * Second + ns"

lemma div_step: "0 < k \<Longrightarrow> (y :: int) div k - (y - 1) div k = (if y mod k = 0 then 1 else 0)"
proof -
  assume k: "0 < k"
  have y: "y = k * (y div k) + y mod k" by simp
  show ?thesis
  proof (cases "y mod k = 0")
    case True
    then have "y - 1 = k * (y div k - 1) + (k - 1)" using y by (simp add: algebra_simps)
    then have "(y - 1) div k = y div k - 1" 
      using int_div_pos_eq [of "y - 1" k "y div k - 1" "k - 1"] k by simp
    then show ?thesis using True by simp
  next
    case False
    moreover have "0 \<le> y mod k" "y mod k < k" using k by simp_all
    ultimately have "0 \<le> y mod k - 1" "y mod k - 1 < k" by linarith+
    moreover have "y - 1 = k * (y div k) + (y mod k - 1)" using y by linarith
    ultimately have "(y - 1) div k = y div k" by (intro int_div_pos_eq) auto
    then show ?thesis using False by simp
  qed
qed

lemma leap_count:
  "(c \<longrightarrow> b) \<Longrightarrow> (b \<longrightarrow> a) \<Longrightarrow>
   365 + (if a then 1 else 0) - (if b then 1 else 0) + (if c then 1 else 0) =
   (if a \<and> (\<not> b \<or> c) then 366 else (365 :: int))"
  by (cases a; cases b; cases c) simp_all

lemma days_before_next_year: "days_before_year (y + 1) = days_before_year y + year_length y"
proof -
  have m: "(y mod 400 = 0 \<longrightarrow> y mod 100 = 0) \<and> (y mod 100 = 0 \<longrightarrow> y mod 4 = 0)"
  proof -
    have "(100 :: int) dvd 400" "(4 :: int) dvd 100" by simp_all
    then show ?thesis by (metis dvd_eq_mod_eq_0 dvd_trans)
  qed
  have "days_before_year (y + 1) - days_before_year y =
      365 + (y div 4 - (y - 1) div 4) - (y div 100 - (y - 1) div 100) + (y div 400 - (y - 1) div 400)"
    by (simp add: days_before_year_def Let_def)
  also have "\<dots> = 365 + (if y mod 4 = 0 then 1 else 0) - (if y mod 100 = 0 then 1 else 0)
      + (if y mod 400 = 0 then 1 else 0)"
    by (simp only: div_step zero_less_numeral)
  also have "\<dots> = year_length y"
    unfolding year_length_def leap_def by (rule leap_count [OF conjunct1 [OF m] conjunct2 [OF m]])
  finally show ?thesis by linarith
qed

function find_year :: "int \<Rightarrow> int \<Rightarrow> int" where
  "find_year days y = (if days_before_year (y + 1) \<le> days then find_year days (y + 1) else y)"
  by pat_completeness auto
termination
proof (relation "measure (\<lambda>(days, y). nat (days + 1 - days_before_year y))")
  fix days y
  assume "days_before_year (y + 1) \<le> days"
  moreover have "days_before_year y < days_before_year (y + 1)"
    by (simp add: days_before_next_year year_length_def)
  ultimately show "((days, y + 1), days, y) \<in> measure (\<lambda>(days, y). nat (days + 1 - days_before_year y))"
    by auto
qed simp

declare find_year.simps [simp del]

definition year_of_days :: "int \<Rightarrow> int" where
  "year_of_days days = find_year days ((if 0 \<le> days then days div 366 else days div 365 - 1) + 1)"

fun month_day :: "int list \<Rightarrow> int \<Rightarrow> nat \<times> int" where
  "month_day (l # l' # ls) d =
     (if d < l then (1, d + 1) else let (m, d') = month_day (l' # ls) (d - l) in (Suc m, d'))"
| "month_day _ d = (1, d + 1)"

section \<open>Formatting\<close>

fun decimal :: "nat \<Rightarrow> string" where
  "decimal n = (if n < 10 then [digit_char n] else decimal (n div 10) @ [digit_char (n mod 10)])"

declare decimal.simps [simp del]

text \<open>\<open>appendInt\<close> with width four.\<close>

definition year_text :: "int \<Rightarrow> string" where
  "year_text y =
     (if y < 0 then CHR ''-'' # (if - y < 10000 then pad 4 (nat (- y)) else decimal (nat (- y)))
      else if y < 10000 then pad 4 (nat y) else decimal (nat y))"

definition frac_text :: "int \<Rightarrow> string" where
  "frac_text ns =
     (if ns = 0 then []
      else CHR ''.'' # rev (dropWhile (\<lambda>c. c = CHR ''0'') (rev (pad 9 (nat ns)))))"

definition formatStoredTime :: "time \<Rightarrow> string" where
  "formatStoredTime t =
     (let secs = t div Second; ns = t mod Second; days = secs div 86400; sod = secs mod 86400;
          y = year_of_days days; md = month_day (month_lengths y) (days - days_before_year y)
      in year_text y @ CHR ''-'' # pad 2 (fst md) @ CHR ''-'' # pad 2 (nat (snd md)) @ CHR ''T'' #
         pad 2 (nat (sod div 3600)) @ CHR '':'' # pad 2 (nat (sod div 60 mod 60)) @ CHR '':'' #
         pad 2 (nat (sod mod 60)) @ frac_text ns @ ''Z'')"

section \<open>Parsing\<close>

definition expect :: "char \<Rightarrow> string \<Rightarrow> string option" where
  "expect c s = (case s of [] \<Rightarrow> None | d # ds \<Rightarrow> if d = c then Some ds else None)"

text \<open>\<open>getnum\<close>: two digits, or one when the field is not fixed.\<close>

definition getnum :: "bool \<Rightarrow> string \<Rightarrow> (int \<times> string) option" where
  "getnum fixed s =
     (case s of
        [] \<Rightarrow> None
      | c # cs \<Rightarrow>
          if \<not> is_digit c then None
          else case cs of
            [] \<Rightarrow> if fixed then None else Some (int (digit_value c), [])
          | d # ds \<Rightarrow>
              if is_digit d then Some (int (10 * digit_value c + digit_value d), ds)
              else if fixed then None else Some (int (digit_value c), cs))"

definition get_year :: "string \<Rightarrow> (int \<times> string) option" where
  "get_year s =
     (if length s < 4 \<or> \<not> list_all is_digit (take 4 s) then None
      else Some (int (digits_value (take 4 s)), drop 4 s))"

text \<open>The optional fraction: any number of digits, of which nine count.\<close>

definition get_frac :: "string \<Rightarrow> int \<times> string" where
  "get_frac s =
     (case s of
        [] \<Rightarrow> (0, s)
      | c # cs \<Rightarrow>
          let ds = takeWhile is_digit cs
          in if (c = CHR ''.'' \<or> c = CHR '','') \<and> ds \<noteq> []
             then (int (digits_value (take 9 ds) * 10 ^ (9 - length (take 9 ds))),
                   drop (length ds) cs)
             else (0, s))"

text \<open>The zone: \<open>Z\<close>, or a signed \<open>hh:mm\<close>; the offset is in seconds.\<close>

definition get_zone :: "string \<Rightarrow> (int \<times> string) option" where
  "get_zone s =
     (case s of
        [] \<Rightarrow> None
      | c # cs \<Rightarrow>
          if c = CHR ''Z'' then Some (0, cs)
          else do {
            (hr, r1) \<leftarrow> getnum True cs;
            r2 \<leftarrow> expect (CHR '':'') r1;
            (mm, r3) \<leftarrow> getnum True r2;
            if 24 < hr \<or> 60 < mm then None
            else if c = CHR ''+'' then Some ((hr * 60 + mm) * 60, r3)
            else if c = CHR ''-'' then Some (- ((hr * 60 + mm) * 60), r3)
            else None })"

definition time_Parse :: "string \<Rightarrow> time option" where
  "time_Parse v = do {
     (y, r1) \<leftarrow> get_year v;
     r2 \<leftarrow> expect (CHR ''-'') r1;
     (mo, r3) \<leftarrow> getnum True r2;
     if mo < 1 \<or> 12 < mo then None else do {
       r4 \<leftarrow> expect (CHR ''-'') r3;
       (d, r5) \<leftarrow> getnum True r4;
       r6 \<leftarrow> expect (CHR ''T'') r5;
       (h, r7) \<leftarrow> getnum False r6;
       r8 \<leftarrow> expect (CHR '':'') r7;
       (mi, r9) \<leftarrow> getnum True r8;
       r10 \<leftarrow> expect (CHR '':'') r9;
       (s, r11) \<leftarrow> getnum True r10;
       (let (ns, r12) = get_frac r11 in do {
          (off, r13) \<leftarrow> get_zone r12;
          if 24 \<le> h \<or> 60 \<le> mi \<or> 60 \<le> s \<or> r13 \<noteq> [] \<or> d < 1 \<or> month_lengths y ! (nat mo - 1) < d
          then None
          else Some (Date y (nat mo) d h mi s ns - off * Second) }) } }"

definition parseStoredTime :: "string \<Rightarrow> time result" where
  "parseStoredTime v =
     (case time_Parse v of
        None \<Rightarrow> Inl ErrInvalidTimestamp
      | Some t \<Rightarrow> if t = zero_time then Inl ErrInvalidTimestamp else Inr t)"

section \<open>The stored text round-trips\<close>

text \<open>The instants the text can carry: after the zero time, before year 10000.\<close>

definition valid_time :: "time \<Rightarrow> bool" where
  "valid_time t \<longleftrightarrow> 0 < t \<and> t < Date 10000 1 1 0 0 0 0"

lemma find_year_bounds:
  "days_before_year y \<le> days \<Longrightarrow>
   days_before_year (find_year days y) \<le> days \<and> days < days_before_year (find_year days y + 1)"
proof (induction days y rule: find_year.induct)
  case (1 days y)
  then show ?case by (cases "days_before_year (y + 1) \<le> days") (simp_all add: find_year.simps [of days y])
qed

lemma year_estimate:
  "days_before_year ((if 0 \<le> days then days div 366 else days div 365 - 1) + 1) \<le> days"
proof -
  have step: "365 * p + p div 4 - p div 100 + p div 400 \<le> days"
    if "0 \<le> p \<and> 366 * p \<le> days \<or> p \<le> - 2 \<and> 365 * p + 365 \<le> days" for p :: int
  proof -
    have "4 * (p div 4) \<le> p" "400 * (p div 400) \<le> p" "p \<le> 100 * (p div 100) + 99" by linarith+
    moreover have "0 \<le> p \<Longrightarrow> 0 \<le> p div 100" by (simp add: pos_imp_zdiv_nonneg_iff)
    ultimately show ?thesis using that by linarith
  qed
  show ?thesis
  proof (cases "0 \<le> days")
    case True
    moreover have "366 * (days div 366) \<le> days" by linarith
    ultimately show ?thesis using step [of "days div 366"]
      by (simp add: days_before_year_def Let_def pos_imp_zdiv_nonneg_iff)
  next
    case False
    moreover have "365 * (days div 365) \<le> days" "days div 365 < 0"
      using False by (linarith, simp add: neg_imp_zdiv_neg_iff)
    ultimately show ?thesis using step [of "days div 365 - 1"]
      by (simp add: days_before_year_def Let_def algebra_simps)
  qed
qed

lemma year_of_days_bounds:
  "days_before_year (year_of_days days) \<le> days"
  "days < days_before_year (year_of_days days) + year_length (year_of_days days)"
  using find_year_bounds [OF year_estimate] unfolding year_of_days_def
  by (simp_all add: days_before_next_year)

lemma month_day_bounds:
  "ls \<noteq> [] \<Longrightarrow> 0 \<le> d \<Longrightarrow> d < sum_list ls \<Longrightarrow> month_day ls d = (m, dd) \<Longrightarrow>
   1 \<le> m \<and> m \<le> length ls \<and> 1 \<le> dd \<and> dd \<le> ls ! (m - 1) \<and> sum_list (take (m - 1) ls) + (dd - 1) = d"
proof (induction ls d arbitrary: m dd rule: month_day.induct)
  case (1 l l' ls d)
  show ?case
  proof (cases "d < l")
    case True
    then show ?thesis using 1 by auto
  next
    case False
    obtain m' dd' where md: "month_day (l' # ls) (d - l) = (m', dd')" by fastforce
    have "1 \<le> m' \<and> m' \<le> length (l' # ls) \<and> 1 \<le> dd' \<and> dd' \<le> (l' # ls) ! (m' - 1) \<and>
        sum_list (take (m' - 1) (l' # ls)) + (dd' - 1) = d - l"
      using 1(1) [OF False, of m' dd'] 1(3-) False md by simp
    moreover have "m = Suc m'" "dd = dd'" using 1(5) False md by simp_all
    ultimately show ?thesis by (cases m') simp_all
  qed
qed auto

lemma sum_month_lengths: "sum_list (month_lengths y) = year_length y"
  by (simp add: month_lengths_def year_length_def)

text \<open>Each field parser reads back what the formatter wrote.\<close>

lemma expect_hit [simp]: "expect c (c # s) = Some s"
  by (simp add: expect_def)

lemma getnum_pad [simp]:
  assumes "n < 100"
  shows "getnum f (pad 2 n @ s) = Some (int n, s)"
proof -
  have "pad 2 n = [digit_char (n div 10), digit_char (n mod 10)]"
    using assms by (simp add: numeral_2_eq_2)
  then show ?thesis using assms by (simp add: getnum_def)
qed

lemma get_year_pad [simp]: "n < 10000 \<Longrightarrow> get_year (pad 4 n @ s) = Some (int n, s)"
  using pad_digits [of 4 n] by (auto simp: get_year_def list_all_iff digits_value_pad)

lemma zeros_drop:
  "s = rev (dropWhile (\<lambda>c. c = CHR ''0'') (rev s)) @
       replicate (length s - length (dropWhile (\<lambda>c. c = CHR ''0'') (rev s))) (CHR ''0'')"
proof -
  let ?z = "takeWhile (\<lambda>c. c = CHR ''0'') (rev s)" and ?r = "dropWhile (\<lambda>c. c = CHR ''0'') (rev s)"
  have "?z = replicate (length ?z) (CHR ''0'')"
    by (intro replicate_length_same [symmetric]) (auto dest: set_takeWhileD)
  moreover have "s = rev ?r @ rev ?z" by (simp flip: rev_append)
  moreover have "length (?z @ ?r) = length s" by (simp only: takeWhile_dropWhile_id length_rev)
  then have "length ?z = length s - length ?r" unfolding length_append by linarith
  ultimately show ?thesis by (metis rev_replicate)
qed

lemma get_frac_text:
  assumes "0 \<le> ns" "ns < Second"
  shows "get_frac (frac_text ns @ ''Z'') = (ns, ''Z'')"
proof (cases "ns = 0")
  case True
  then show ?thesis by (simp add: frac_text_def get_frac_def)
next
  case False
  let ?p = "pad 9 (nat ns)"
  define t where "t = rev (dropWhile (\<lambda>c. c = CHR ''0'') (rev ?p))"
  have lt: "nat ns < 10 ^ 9" using assms by (simp add: Second_def)
  have p: "?p = t @ replicate (9 - length t) (CHR ''0'')"
    using zeros_drop [of ?p] by (simp add: t_def)
  have len: "length t \<le> 9" using length_dropWhile_le [of _ "rev ?p"] by (simp add: t_def)
  have dig: "\<forall>c \<in> set t. is_digit c"
    using pad_digits [of 9 "nat ns"] by (auto simp: t_def dest: set_dropWhileD)
  have val: "digits_value t * 10 ^ (9 - length t) = nat ns"
    using arg_cong [OF p, of digits_value] unfolding digits_value_zeros digits_value_pad [OF lt]
    by (rule sym)
  have "t \<noteq> []" using val False assms(1) by (intro notI) simp
  moreover have "takeWhile is_digit (t @ ''Z'') = t"
    using dig by (subst takeWhile_append2) (auto simp: is_digit_def)
  moreover have "frac_text ns = CHR ''.'' # t" using False by (simp add: frac_text_def t_def)
  ultimately show ?thesis using len val assms(1) by (simp add: get_frac_def Let_def)
qed

lemma parse_fields:
  assumes "0 \<le> y" "y < 10000" "1 \<le> mo" "mo \<le> 12" "1 \<le> d" "d \<le> month_lengths y ! (mo - 1)"
    "0 \<le> h" "h < 24" "0 \<le> mi" "mi < 60" "0 \<le> s" "s < 60" "0 \<le> ns" "ns < Second"
  shows "time_Parse (year_text y @ CHR ''-'' # pad 2 mo @ CHR ''-'' # pad 2 (nat d) @ CHR ''T'' #
     pad 2 (nat h) @ CHR '':'' # pad 2 (nat mi) @ CHR '':'' # pad 2 (nat s) @ frac_text ns @ ''Z'') =
     Some (Date y mo d h mi s ns)"
proof -
  have "\<forall>l \<in> set (month_lengths y). l \<le> 31" by (simp add: month_lengths_def)
  moreover have "month_lengths y ! (mo - 1) \<in> set (month_lengths y)"
    using assms(3,4) by (intro nth_mem) (simp add: month_lengths_def)
  ultimately have "d < 100" using assms(6) by fastforce
  then show ?thesis
    using assms
    by (simp add: time_Parse_def year_text_def get_frac_text get_zone_def nat_less_iff)
qed

text \<open>The fields the formatter computes are in range and give the instant back.\<close>

lemma split_seconds:
  fixes sod :: int
  assumes "0 \<le> sod" "sod < 86400"
  shows "sod div 3600 * 3600 + sod div 60 mod 60 * 60 + sod mod 60 = sod"
    and "0 \<le> sod div 3600" "sod div 3600 < 24"
proof -
  have "sod div 3600 = sod div 60 div 60" using zdiv_zmult2_eq [of 60 sod 60] by simp
  then show "sod div 3600 * 3600 + sod div 60 mod 60 * 60 + sod mod 60 = sod"
    using div_mult_mod_eq [of "sod div 60" 60] div_mult_mod_eq [of sod 60] by linarith
  show "0 \<le> sod div 3600" "sod div 3600 < 24" using assms by linarith+
qed

lemma days_before_year_mono: "y \<le> z \<Longrightarrow> days_before_year y \<le> days_before_year z"
proof (induction z rule: int_ge_induct)
  case base
  then show ?case by simp
next
  case (step i)
  then show ?case by (simp add: days_before_next_year year_length_def)
qed

lemma valid_time_days:
  assumes "valid_time t"
  shows "0 \<le> t div Second div 86400" "t div Second div 86400 < days_before_year 10000"
proof -
  have "t < days_before_year 10000 * 86400 * Second" "0 < t"
    using assms by (simp_all add: valid_time_def Date_def)
  then show "0 \<le> t div Second div 86400" "t div Second div 86400 < days_before_year 10000"
    by (simp_all add: Second_def div_int_pos_iff div_pos_geq days_before_year_def Let_def)
qed

lemma stored_time_fields:
  assumes "valid_time t"
  defines "secs \<equiv> t div Second" and "ns \<equiv> t mod Second"
  defines "days \<equiv> secs div 86400" and "sod \<equiv> secs mod 86400"
  defines "y \<equiv> year_of_days days"
  defines "md \<equiv> month_day (month_lengths y) (days - days_before_year y)"
  shows "0 \<le> y" "y < 10000" "1 \<le> fst md" "fst md \<le> 12" "1 \<le> snd md"
    "snd md \<le> month_lengths y ! (fst md - 1)"
    "Date y (fst md) (snd md) (sod div 3600) (sod div 60 mod 60) (sod mod 60) ns = t"
proof -
  have d: "0 \<le> days" "days < days_before_year 10000"
    using valid_time_days [OF assms(1)] unfolding days_def secs_def .
  have b: "days_before_year y \<le> days" "days < days_before_year y + year_length y"
    unfolding y_def by (rule year_of_days_bounds)+
  show "y < 10000"
  proof (rule ccontr)
    assume "\<not> y < 10000"
    then have "days_before_year 10000 \<le> days_before_year y" by (intro days_before_year_mono) simp
    then show False using b d by linarith
  qed
  show "0 \<le> y"
  proof (rule ccontr)
    assume "\<not> 0 \<le> y"
    then have "days_before_year (y + 1) \<le> days_before_year 0" by (intro days_before_year_mono) simp
    also have "\<dots> < 0" by (simp add: days_before_year_def)
    finally show False using b d by (simp add: days_before_next_year)
  qed
  have "1 \<le> fst md \<and> fst md \<le> length (month_lengths y) \<and> 1 \<le> snd md \<and>
      snd md \<le> month_lengths y ! (fst md - 1) \<and>
      sum_list (take (fst md - 1) (month_lengths y)) + (snd md - 1) = days - days_before_year y"
    unfolding md_def using b
    by (intro month_day_bounds prod.collapse [symmetric])
      (simp_all add: sum_month_lengths, simp add: month_lengths_def)
  then show "1 \<le> fst md" "fst md \<le> 12" "1 \<le> snd md" "snd md \<le> month_lengths y ! (fst md - 1)"
    and "Date y (fst md) (snd md) (sod div 3600) (sod div 60 mod 60) (sod mod 60) ns = t"
  proof -
    assume md: "1 \<le> fst md \<and> fst md \<le> length (month_lengths y) \<and> 1 \<le> snd md \<and>
      snd md \<le> month_lengths y ! (fst md - 1) \<and>
      sum_list (take (fst md - 1) (month_lengths y)) + (snd md - 1) = days - days_before_year y"
    have "length (month_lengths y) = 12" by (simp add: month_lengths_def)
    with md show "1 \<le> fst md" "fst md \<le> 12" "1 \<le> snd md"
      "snd md \<le> month_lengths y ! (fst md - 1)" by simp_all
    have "sod div 3600 * 3600 + sod div 60 mod 60 * 60 + sod mod 60 = sod"
      by (rule split_seconds) (simp_all add: sod_def)
    with md have "Date y (fst md) (snd md) (sod div 3600) (sod div 60 mod 60) (sod mod 60) ns =
        (days * 86400 + sod) * Second + ns" by (simp add: Date_def add.assoc)
    also have "days * 86400 + sod = secs" by (simp add: days_def sod_def)
    also have "secs * Second + ns = t" by (simp add: secs_def ns_def)
    finally show "Date y (fst md) (snd md) (sod div 3600) (sod div 60 mod 60) (sod mod 60) ns = t" .
  qed
qed

lemma parse_format_stored [simp]:
  assumes "valid_time t"
  shows "parseStoredTime (formatStoredTime t) = Inr t"
proof -
  let ?sod = "t div Second mod 86400"
  have sod: "0 \<le> ?sod div 3600" "?sod div 3600 < 24" by (rule split_seconds; simp)+
  have ns: "0 \<le> t mod Second" "t mod Second < Second" by (simp_all add: Second_def)
  note fields = stored_time_fields [OF assms]
  have "time_Parse (formatStoredTime t) = Some t"
    unfolding formatStoredTime_def Let_def
    by (rule trans [OF parse_fields [OF fields(1-6) sod _ _ _ _ ns] arg_cong [OF fields(7), of Some]])
      (rule pos_mod_sign pos_mod_bound, simp)+
  then show ?thesis using assms by (simp add: parseStoredTime_def valid_time_def zero_time_def)
qed

text \<open>The text is never empty for SQLite's \<open>length\<close>.\<close>

lemma sql_nonempty_digits: "s \<noteq> [] \<Longrightarrow> \<forall>c \<in> set s. is_digit c \<Longrightarrow> sql_nonempty s"
  by (cases s) (auto simp: sql_nonempty_def is_digit_def NUL_def)

lemma sql_nonempty_append: "sql_nonempty s \<Longrightarrow> sql_nonempty (s @ u)"
  by (cases s) (auto simp: sql_nonempty_def)

lemma decimal_digits: "decimal n \<noteq> [] \<and> (\<forall>c \<in> set (decimal n). is_digit c)"
proof (induction n rule: decimal.induct)
  case (1 n)
  show ?case using 1 by (cases "n < 10") (simp_all add: decimal.simps [of n])
qed

lemma year_text_nonempty: "sql_nonempty (year_text y)"
proof (cases "y < 0")
  case True
  then show ?thesis by (simp add: year_text_def sql_nonempty_def NUL_def)
next
  case False
  have "pad 4 (nat y) \<noteq> []" using length_pad [of 4 "nat y"] by (intro notI) simp
  then show ?thesis
    using False decimal_digits pad_digits by (auto simp: year_text_def intro: sql_nonempty_digits)
qed

lemma format_stored_nonempty [simp]: "sql_nonempty (formatStoredTime t)"
  unfolding formatStoredTime_def Let_def by (rule sql_nonempty_append [OF year_text_nonempty])

end
