(* ===== verification/Domain_Policy.thy ===== *)
theory Domain_Policy
  imports Domain_Identity Stored_Time
begin

text \<open>
  Environment policy (internal/domain/policy.go): workspace sources, service ceilings, the
  validation that freezes an environment, and the session policy check that admits a request and
  computes its effective limits. The duplicate checks of \<open>NewEnvironment\<close> are loops over a set
  of seen keys, as in the code; they are shown equivalent to distinctness of the values.
\<close>

section \<open>Sources\<close>

datatype SourceMode =
    SourceModeEmpty
  | SourceModeGitRevision
  | SourceModeLocalWorktree
  | SourceModeOther string

record Source =
  src_mode :: SourceMode
  src_repositoryAlias :: string
  src_requestedRevision :: string
  src_path :: string

definition NewEmptySource :: Source where
  "NewEmptySource = \<lparr>src_mode = SourceModeEmpty, src_repositoryAlias = [],
     src_requestedRevision = [], src_path = []\<rparr>"

definition NewGitRevisionSource :: "string \<Rightarrow> string \<Rightarrow> Source result" where
  "NewGitRevisionSource repositoryAlias requestedRevision =
     (if repositoryAlias = [] \<or> requestedRevision = [] then Inl ErrInvalidSource
      else Inr \<lparr>src_mode = SourceModeGitRevision, src_repositoryAlias = repositoryAlias,
        src_requestedRevision = requestedRevision, src_path = []\<rparr>)"

definition NewLocalWorktreeSource :: "string \<Rightarrow> Source result" where
  "NewLocalWorktreeSource path =
     (if \<not> filepath_IsAbs path then Inl ErrInvalidSource
      else Inr \<lparr>src_mode = SourceModeLocalWorktree, src_repositoryAlias = [],
        src_requestedRevision = [], src_path = path\<rparr>)"

definition Source_Portable :: "Source \<Rightarrow> bool" where
  "Source_Portable s \<longleftrightarrow> src_mode s = SourceModeEmpty \<or> src_mode s = SourceModeGitRevision"

definition Source_valid :: "Source \<Rightarrow> bool" where
  "Source_valid s =
     (case src_mode s of
        SourceModeEmpty \<Rightarrow>
          src_repositoryAlias s = [] \<and> src_requestedRevision s = [] \<and> src_path s = []
      | SourceModeGitRevision \<Rightarrow>
          src_repositoryAlias s \<noteq> [] \<and> src_requestedRevision s \<noteq> [] \<and> src_path s = []
      | SourceModeLocalWorktree \<Rightarrow>
          src_repositoryAlias s = [] \<and> src_requestedRevision s = [] \<and> filepath_IsAbs (src_path s)
      | SourceModeOther _ \<Rightarrow> False)"

section \<open>Service limits\<close>

record ServiceLimits =
  sl_ActiveSessionsPerHost :: int
  sl_RunningCommandsPerHost :: int
  sl_SerializedRequestBytes :: int
  sl_ScriptBytesPerRequest :: int
  sl_CommandTimeout :: duration
  sl_IdleTimeout :: duration
  sl_SessionMaxLifetime :: duration
  sl_OutputBytesPerCommand :: int
  sl_SubscriberBufferBytes :: int
  sl_PersistenceQueueBytes :: int
  sl_MetadataRetention :: duration
  sl_OutputRetention :: duration

definition DefaultServiceLimits :: ServiceLimits where
  "DefaultServiceLimits = \<lparr>
     sl_ActiveSessionsPerHost = 20,
     sl_RunningCommandsPerHost = 4,
     sl_SerializedRequestBytes = int MaxSerializedRequestBytes,
     sl_ScriptBytesPerRequest = int MaxScriptUTF8Bytes,
     sl_CommandTimeout = 30 * Minute,
     sl_IdleTimeout = 30 * Minute,
     sl_SessionMaxLifetime = 4 * Hour,
     sl_OutputBytesPerCommand = 100 * 2 ^ 20,
     sl_SubscriberBufferBytes = 2 ^ 20,
     sl_PersistenceQueueBytes = 16 * 2 ^ 20,
     sl_MetadataRetention = 90 * 24 * Hour,
     sl_OutputRetention = 30 * 24 * Hour\<rparr>"

definition ServiceLimits_valid :: "ServiceLimits \<Rightarrow> bool" where
  "ServiceLimits_valid l \<longleftrightarrow>
     sl_ActiveSessionsPerHost l > 0 \<and>
     sl_RunningCommandsPerHost l > 0 \<and>
     sl_SerializedRequestBytes l > 0 \<and>
     sl_ScriptBytesPerRequest l > 0 \<and>
     sl_CommandTimeout l > 0 \<and>
     sl_IdleTimeout l > 0 \<and>
     sl_SessionMaxLifetime l > 0 \<and>
     sl_OutputBytesPerCommand l > 0 \<and>
     sl_SubscriberBufferBytes l > 0 \<and>
     sl_PersistenceQueueBytes l > 0 \<and>
     sl_MetadataRetention l > 0 \<and>
     sl_OutputRetention l > 0"

section \<open>Environments\<close>

record EnvironmentSpec =
  es_Name :: string
  es_HostClass :: string
  es_EffectiveAccount :: string
  es_AllowedTargets :: "ExecutionTarget list"
  es_AllowedSourceModes :: "SourceMode list"
  es_AllowedRepositoryAliases :: "string list"
  es_AllowedControllers :: "ControllerIdentity list"
  es_ServiceLimits :: ServiceLimits

record Environment =
  env_name :: string
  env_hostClass :: string
  env_effectiveAccount :: string
  env_allowedTargets :: "ExecutionTarget list"
  env_allowedSourceModes :: "SourceMode list"
  env_allowedRepositoryAliases :: "string list"
  env_allowedControllers :: "ControllerIdentity list"
  env_serviceLimits :: ServiceLimits

definition validControllerIdentity :: "ControllerIdentity \<Rightarrow> bool" where
  "validControllerIdentity c =
     (case ci_type c of ControllerTypeOther _ \<Rightarrow> False | _ \<Rightarrow> ci_id c \<noteq> [])"

definition target_key :: "ExecutionTarget \<Rightarrow> string" where
  "target_key t = TargetKind_string (et_kind t) @ [NUL] @ et_profile t"

definition controller_key :: "ControllerIdentity \<Rightarrow> string" where
  "controller_key c = ControllerType_string (ci_type c) @ [NUL] @ ci_id c"

text \<open>The four loops of \<open>NewEnvironment\<close>; \<open>seen\<close> is the Go map used as a set.\<close>

fun check_targets :: "ExecutionTarget list \<Rightarrow> string list \<Rightarrow> bool \<Rightarrow> bool result" where
  "check_targets [] seen hasLocal = Inr hasLocal"
| "check_targets (t # ts) seen hasLocal =
     (if et_profile t = [] \<or> (et_kind t \<noteq> TargetKindLocal \<and> et_kind t \<noteq> TargetKindRemote)
      then Inl ErrInvalidEnvironment
      else if target_key t \<in> set seen then Inl ErrInvalidEnvironment
      else check_targets ts (target_key t # seen) (hasLocal \<or> et_kind t = TargetKindLocal))"

fun check_source_modes ::
  "SourceMode list \<Rightarrow> SourceMode list \<Rightarrow> bool \<Rightarrow> bool \<Rightarrow> (bool \<times> bool) result" where
  "check_source_modes [] seen git worktree = Inr (git, worktree)"
| "check_source_modes (m # ms) seen git worktree =
     (case m of
        SourceModeOther _ \<Rightarrow> Inl ErrInvalidEnvironment
      | _ \<Rightarrow>
          if m \<in> set seen then Inl ErrInvalidEnvironment
          else check_source_modes ms (m # seen) (git \<or> m = SourceModeGitRevision)
                 (worktree \<or> m = SourceModeLocalWorktree))"

fun check_aliases :: "string list \<Rightarrow> string list \<Rightarrow> unit result" where
  "check_aliases [] seen = Inr ()"
| "check_aliases (a # as) seen =
     (if a = [] then Inl ErrInvalidEnvironment
      else if a \<in> set seen then Inl ErrInvalidEnvironment
      else check_aliases as (a # seen))"

fun check_controllers :: "ControllerIdentity list \<Rightarrow> string list \<Rightarrow> unit result" where
  "check_controllers [] seen = Inr ()"
| "check_controllers (c # cs) seen =
     (if \<not> validControllerIdentity c then Inl ErrInvalidEnvironment
      else if controller_key c \<in> set seen then Inl ErrInvalidEnvironment
      else check_controllers cs (controller_key c # seen))"

definition NewEnvironment :: "EnvironmentSpec \<Rightarrow> Environment result" where
  "NewEnvironment spec =
     (if es_Name spec = [] \<or> es_HostClass spec = [] \<or> es_EffectiveAccount spec = [] \<or>
         es_AllowedTargets spec = [] \<or> es_AllowedSourceModes spec = [] \<or>
         es_AllowedControllers spec = []
      then Inl ErrInvalidEnvironment
      else if \<not> ServiceLimits_valid (es_ServiceLimits spec)
      then Inl (Wrapped ErrInvalidEnvironment ErrInvalidServiceLimits)
      else
        res_bind (check_targets (es_AllowedTargets spec) [] False) (\<lambda>hasLocalTarget.
        res_bind (check_source_modes (es_AllowedSourceModes spec) [] False False)
          (\<lambda>(allowsGitRevision, allowsLocalWorktree).
        if allowsLocalWorktree \<and> \<not> hasLocalTarget then Inl ErrInvalidEnvironment
        else res_bind (check_aliases (es_AllowedRepositoryAliases spec) []) (\<lambda>_.
        if allowsGitRevision \<and> es_AllowedRepositoryAliases spec = [] then Inl ErrInvalidEnvironment
        else res_bind (check_controllers (es_AllowedControllers spec) []) (\<lambda>_.
        Inr \<lparr>env_name = es_Name spec,
             env_hostClass = es_HostClass spec,
             env_effectiveAccount = es_EffectiveAccount spec,
             env_allowedTargets = es_AllowedTargets spec,
             env_allowedSourceModes = es_AllowedSourceModes spec,
             env_allowedRepositoryAliases = es_AllowedRepositoryAliases spec,
             env_allowedControllers = es_AllowedControllers spec,
             env_serviceLimits = es_ServiceLimits spec\<rparr>)))))"

datatype IsolationLevel = IsolationOSUser

record Capabilities =
  cap_hostClass :: string
  cap_isolation :: IsolationLevel
  cap_effectiveAccount :: string
  cap_serviceLimits :: ServiceLimits

definition Environment_Capabilities :: "Environment \<Rightarrow> Capabilities" where
  "Environment_Capabilities e =
     \<lparr>cap_hostClass = env_hostClass e, cap_isolation = IsolationOSUser,
      cap_effectiveAccount = env_effectiveAccount e, cap_serviceLimits = env_serviceLimits e\<rparr>"

section \<open>Session policy\<close>

record IsolationRequirements =
  iso_FilesystemBoundary :: bool
  iso_CPUControl :: bool
  iso_MemoryControl :: bool
  iso_PIDControl :: bool
  iso_DiskControl :: bool
  iso_NetworkControl :: bool
  iso_Mounts :: bool
  iso_Volumes :: bool
  iso_PrivilegeControl :: bool

definition unsupportedNames :: "IsolationRequirements \<Rightarrow> string list" where
  "unsupportedNames r =
     (if iso_FilesystemBoundary r then [''filesystem''] else []) @
     (if iso_CPUControl r then [''cpu''] else []) @
     (if iso_MemoryControl r then [''memory''] else []) @
     (if iso_PIDControl r then [''pid''] else []) @
     (if iso_DiskControl r then [''disk''] else []) @
     (if iso_NetworkControl r then [''network''] else []) @
     (if iso_Mounts r then [''mounts''] else []) @
     (if iso_Volumes r then [''volumes''] else []) @
     (if iso_PrivilegeControl r then [''privilege''] else [])"

record RequestedLimits =
  rl_CommandTimeout :: duration
  rl_IdleTimeout :: duration
  rl_SessionMaxLifetime :: duration
  rl_OutputBytesPerCommand :: int

record EffectiveSessionLimits =
  esl_CommandTimeout :: duration
  esl_IdleTimeout :: duration
  esl_SessionMaxLifetime :: duration
  esl_OutputBytesPerCommand :: int

record SessionPolicyRequest =
  spr_Target :: ExecutionTarget
  spr_Source :: Source
  spr_Controller :: ControllerIdentity
  spr_Limits :: RequestedLimits
  spr_Isolation :: IsolationRequirements

fun containsTarget :: "ExecutionTarget list \<Rightarrow> ExecutionTarget \<Rightarrow> bool" where
  "containsTarget [] want = False"
| "containsTarget (t # ts) want =
     (if et_kind t = et_kind want \<and> et_profile t = et_profile want then True
      else containsTarget ts want)"

fun containsSourceMode :: "SourceMode list \<Rightarrow> SourceMode \<Rightarrow> bool" where
  "containsSourceMode [] want = False"
| "containsSourceMode (m # ms) want = (if m = want then True else containsSourceMode ms want)"

fun containsString :: "string list \<Rightarrow> string \<Rightarrow> bool" where
  "containsString [] want = False"
| "containsString (v # vs) want = (if v = want then True else containsString vs want)"

fun containsController :: "ControllerIdentity list \<Rightarrow> ControllerIdentity \<Rightarrow> bool" where
  "containsController [] want = False"
| "containsController (c # cs) want =
     (if ci_type c = ci_type want \<and> ci_id c = ci_id want then True
      else containsController cs want)"

definition AllowsTarget :: "Environment \<Rightarrow> ExecutionTarget \<Rightarrow> bool" where
  "AllowsTarget e target = containsTarget (env_allowedTargets e) target"

definition requestedDuration :: "duration \<Rightarrow> duration \<Rightarrow> duration result" where
  "requestedDuration requested ceiling =
     (if requested < 0 then Inl ErrInvalidRequestedLimits
      else if requested = 0 then Inr ceiling
      else if requested > ceiling then Inl ErrLimitExceedsServiceCeiling
      else Inr requested)"

definition requestedBytes :: "int \<Rightarrow> int \<Rightarrow> int result" where
  "requestedBytes requested ceiling =
     (if requested < 0 then Inl ErrInvalidRequestedLimits
      else if requested = 0 then Inr ceiling
      else if requested > ceiling then Inl ErrLimitExceedsServiceCeiling
      else Inr requested)"

definition effectiveSessionLimits ::
  "ServiceLimits \<Rightarrow> RequestedLimits \<Rightarrow> EffectiveSessionLimits result" where
  "effectiveSessionLimits ceilings requested =
     res_bind (requestedDuration (rl_CommandTimeout requested) (sl_CommandTimeout ceilings))
       (\<lambda>commandTimeout.
     res_bind (requestedDuration (rl_IdleTimeout requested) (sl_IdleTimeout ceilings))
       (\<lambda>idleTimeout.
     res_bind (requestedDuration (rl_SessionMaxLifetime requested) (sl_SessionMaxLifetime ceilings))
       (\<lambda>sessionMaxLifetime.
     res_bind (requestedBytes (rl_OutputBytesPerCommand requested) (sl_OutputBytesPerCommand ceilings))
       (\<lambda>outputBytes.
     Inr \<lparr>esl_CommandTimeout = commandTimeout, esl_IdleTimeout = idleTimeout,
          esl_SessionMaxLifetime = sessionMaxLifetime, esl_OutputBytesPerCommand = outputBytes\<rparr>))))"

definition ValidateSessionPolicy ::
  "Environment \<Rightarrow> SessionPolicyRequest \<Rightarrow> EffectiveSessionLimits result" where
  "ValidateSessionPolicy e request =
     (let target = spr_Target request; source = spr_Source request in
      if et_kind target \<noteq> TargetKindLocal \<and> et_kind target \<noteq> TargetKindRemote
      then Inl ErrInvalidTargetKind
      else if et_profile target = [] then Inl ErrEmptyTargetProfile
      else if \<not> containsTarget (env_allowedTargets e) target then Inl ErrEnvironmentTargetMismatch
      else if \<not> Source_valid source then Inl ErrInvalidSource
      else if \<not> containsSourceMode (env_allowedSourceModes e) (src_mode source)
      then Inl ErrEnvironmentSourceMismatch
      else if src_mode source = SourceModeLocalWorktree \<and> et_kind target \<noteq> TargetKindLocal
      then Inl ErrEnvironmentSourceMismatch
      else if src_mode source = SourceModeGitRevision \<and>
        \<not> containsString (env_allowedRepositoryAliases e) (src_repositoryAlias source)
      then Inl ErrRepositoryAliasNotAllowed
      else if \<not> validControllerIdentity (spr_Controller request) \<or>
        \<not> containsController (env_allowedControllers e) (spr_Controller request)
      then Inl ErrControllerMismatch
      else if length (unsupportedNames (spr_Isolation request)) > 0
      then Inl ErrUnsupportedIsolationRequirement
      else effectiveSessionLimits (env_serviceLimits e) (spr_Limits request))"

section \<open>What the checks establish\<close>

lemma nul_separated_inj:
  "\<not> has_nul a \<Longrightarrow> \<not> has_nul b \<Longrightarrow> a @ NUL # x = b @ NUL # y \<longleftrightarrow> a = b \<and> x = y"
proof (induction a arbitrary: b)
  case Nil
  then show ?case by (cases b) (auto simp: has_nul_def)
next
  case (Cons c a)
  then show ?case by (cases b) (auto simp: has_nul_def)
qed

lemma target_key_inj:
  "known_target_kind (et_kind s) \<Longrightarrow> known_target_kind (et_kind t) \<Longrightarrow>
   target_key s = target_key t \<longleftrightarrow> s = (t :: ExecutionTarget)"
  using TargetKind_string_inj [of "et_kind s" "et_kind t"]
  by (auto simp: target_key_def nul_separated_inj known_kind_string_no_nul)

lemma validControllerIdentity_iff:
  "validControllerIdentity c \<longleftrightarrow> known_controller_type (ci_type c) \<and> ci_id c \<noteq> []"
  by (cases "ci_type c") (auto simp: validControllerIdentity_def)

lemma controller_key_inj:
  "validControllerIdentity c \<Longrightarrow> validControllerIdentity d \<Longrightarrow>
   controller_key c = controller_key d \<longleftrightarrow> c = (d :: ControllerIdentity)"
  using ControllerType_string_inj [of "ci_type c" "ci_type d"]
  by (auto simp: controller_key_def nul_separated_inj known_type_string_no_nul
      validControllerIdentity_iff)

lemma known_target_kind_iff:
  "known_target_kind k \<longleftrightarrow> k = TargetKindLocal \<or> k = TargetKindRemote"
  by (cases k) auto

lemma distinct_map_key:
  assumes "\<And>a b. a \<in> set xs \<Longrightarrow> b \<in> set xs \<Longrightarrow> key a = key b \<longleftrightarrow> a = b"
  shows "distinct (map key xs) \<longleftrightarrow> distinct xs"
  using assms by (auto simp: distinct_map inj_on_def)

lemma check_targets_Inr:
  "check_targets ts seen b = Inr h \<longleftrightarrow>
     (\<forall>t \<in> set ts. known_target_kind (et_kind t) \<and> et_profile t \<noteq> []) \<and>
     distinct (map target_key ts) \<and> target_key ` set ts \<inter> set seen = {} \<and>
     h = (b \<or> (\<exists>t \<in> set ts. et_kind t = TargetKindLocal))"
  by (induction ts seen b rule: check_targets.induct) (auto simp: known_target_kind_iff)

lemma check_source_modes_Inr:
  "check_source_modes ms seen g w = Inr r \<longleftrightarrow>
     (\<forall>m \<in> set ms. \<forall>s. m \<noteq> SourceModeOther s) \<and> distinct ms \<and> set ms \<inter> set seen = {} \<and>
     r = (g \<or> SourceModeGitRevision \<in> set ms, w \<or> SourceModeLocalWorktree \<in> set ms)"
proof (induction ms seen g w rule: check_source_modes.induct)
  case (2 m ms seen g w)
  then show ?case by (cases m) auto
qed auto

lemma check_aliases_Inr:
  "check_aliases as seen = Inr u \<longleftrightarrow> [] \<notin> set as \<and> distinct as \<and> set as \<inter> set seen = {}"
  by (induction as seen rule: check_aliases.induct) auto

lemma check_controllers_Inr:
  "check_controllers cs seen = Inr u \<longleftrightarrow>
     (\<forall>c \<in> set cs. validControllerIdentity c) \<and> distinct (map controller_key cs) \<and>
     controller_key ` set cs \<inter> set seen = {}"
  by (induction cs seen rule: check_controllers.induct) auto

lemma containsTarget_iff [simp]: "containsTarget ts t \<longleftrightarrow> t \<in> set ts"
  by (induction ts) auto

lemma containsSourceMode_iff [simp]: "containsSourceMode ms m \<longleftrightarrow> m \<in> set ms"
  by (induction ms) auto

lemma containsString_iff [simp]: "containsString vs v \<longleftrightarrow> v \<in> set vs"
  by (induction vs) auto

lemma containsController_iff [simp]: "containsController cs c \<longleftrightarrow> c \<in> set cs"
  by (induction cs) auto

text \<open>An environment policy without contradiction, stated over the policy's own values.\<close>

definition environment_policy_ok :: "EnvironmentSpec \<Rightarrow> bool" where
  "environment_policy_ok spec \<longleftrightarrow>
     es_Name spec \<noteq> [] \<and> es_HostClass spec \<noteq> [] \<and> es_EffectiveAccount spec \<noteq> [] \<and>
     es_AllowedTargets spec \<noteq> [] \<and> es_AllowedSourceModes spec \<noteq> [] \<and>
     es_AllowedControllers spec \<noteq> [] \<and> ServiceLimits_valid (es_ServiceLimits spec) \<and>
     list_all (\<lambda>t. known_target_kind (et_kind t) \<and> et_profile t \<noteq> []) (es_AllowedTargets spec) \<and>
     distinct (es_AllowedTargets spec) \<and>
     list_all (\<lambda>m. m \<in> {SourceModeEmpty, SourceModeGitRevision, SourceModeLocalWorktree})
       (es_AllowedSourceModes spec) \<and>
     distinct (es_AllowedSourceModes spec) \<and>
     (SourceModeLocalWorktree \<in> set (es_AllowedSourceModes spec) \<longrightarrow>
        list_ex (\<lambda>t. et_kind t = TargetKindLocal) (es_AllowedTargets spec)) \<and>
     [] \<notin> set (es_AllowedRepositoryAliases spec) \<and> distinct (es_AllowedRepositoryAliases spec) \<and>
     (SourceModeGitRevision \<in> set (es_AllowedSourceModes spec) \<longrightarrow>
        es_AllowedRepositoryAliases spec \<noteq> []) \<and>
     list_all validControllerIdentity (es_AllowedControllers spec) \<and>
     distinct (es_AllowedControllers spec)"

lemma known_modes:
  "(\<forall>s. m \<noteq> SourceModeOther s) \<longleftrightarrow>
   m \<in> {SourceModeEmpty, SourceModeGitRevision, SourceModeLocalWorktree}"
  by (cases m) auto

lemma targets_distinct:
  "list_all (\<lambda>t. known_target_kind (et_kind t) \<and> et_profile t \<noteq> []) ts \<Longrightarrow>
   distinct (map target_key ts) \<longleftrightarrow> distinct ts"
  by (rule distinct_map_key) (auto simp: list_all_iff target_key_inj)

lemma controllers_distinct:
  "list_all validControllerIdentity cs \<Longrightarrow> distinct (map controller_key cs) \<longleftrightarrow> distinct cs"
  by (rule distinct_map_key) (auto simp: list_all_iff controller_key_inj)

definition frozen :: "EnvironmentSpec \<Rightarrow> Environment" where
  "frozen spec =
     \<lparr>env_name = es_Name spec, env_hostClass = es_HostClass spec,
      env_effectiveAccount = es_EffectiveAccount spec,
      env_allowedTargets = es_AllowedTargets spec,
      env_allowedSourceModes = es_AllowedSourceModes spec,
      env_allowedRepositoryAliases = es_AllowedRepositoryAliases spec,
      env_allowedControllers = es_AllowedControllers spec,
      env_serviceLimits = es_ServiceLimits spec\<rparr>"

lemma NewEnvironment_Inr:
  "NewEnvironment spec = Inr e \<longleftrightarrow> environment_policy_ok spec \<and> e = frozen spec"
  unfolding NewEnvironment_def environment_policy_ok_def frozen_def
  using controllers_distinct [of "es_AllowedControllers spec"]
    targets_distinct [of "es_AllowedTargets spec"]
  by (auto simp: tx_simps check_targets_Inr check_source_modes_Inr check_aliases_Inr
      check_controllers_Inr known_modes list_all_iff list_ex_iff split: if_splits)

section \<open>Effective limits and the admitted request\<close>

lemma requested_limit_exact:
  assumes "0 < c"
  shows "requestedDuration r c = Inr l \<longleftrightarrow> 0 \<le> r \<and> r \<le> c \<and> l = (if r = 0 then c else r)"
    and "requestedBytes r c = Inr l \<longleftrightarrow> 0 \<le> r \<and> r \<le> c \<and> l = (if r = 0 then c else r)"
  using assms by (auto simp: requestedDuration_def requestedBytes_def)

lemma effectiveSessionLimits_exact:
  assumes "0 < sl_CommandTimeout c" "0 < sl_IdleTimeout c" "0 < sl_SessionMaxLifetime c"
    "0 < sl_OutputBytesPerCommand c"
  shows "effectiveSessionLimits c r = Inr l \<longleftrightarrow>
     0 \<le> rl_CommandTimeout r \<and> rl_CommandTimeout r \<le> sl_CommandTimeout c \<and>
     0 \<le> rl_IdleTimeout r \<and> rl_IdleTimeout r \<le> sl_IdleTimeout c \<and>
     0 \<le> rl_SessionMaxLifetime r \<and> rl_SessionMaxLifetime r \<le> sl_SessionMaxLifetime c \<and>
     0 \<le> rl_OutputBytesPerCommand r \<and> rl_OutputBytesPerCommand r \<le> sl_OutputBytesPerCommand c \<and>
     l = \<lparr>esl_CommandTimeout = (if rl_CommandTimeout r = 0 then sl_CommandTimeout c else rl_CommandTimeout r),
          esl_IdleTimeout = (if rl_IdleTimeout r = 0 then sl_IdleTimeout c else rl_IdleTimeout r),
          esl_SessionMaxLifetime =
            (if rl_SessionMaxLifetime r = 0 then sl_SessionMaxLifetime c else rl_SessionMaxLifetime r),
          esl_OutputBytesPerCommand =
            (if rl_OutputBytesPerCommand r = 0 then sl_OutputBytesPerCommand c else rl_OutputBytesPerCommand r)\<rparr>"
  unfolding effectiveSessionLimits_def res_bind_Inr requested_limit_exact(1) [OF assms(1)]
    requested_limit_exact(1) [OF assms(2)] requested_limit_exact(1) [OF assms(3)] requested_limit_exact(2) [OF assms(4)]
  by auto

lemma unsupportedNames_Nil:
  "unsupportedNames r = [] \<longleftrightarrow>
     \<not> (iso_FilesystemBoundary r \<or> iso_CPUControl r \<or> iso_MemoryControl r \<or> iso_PIDControl r \<or>
        iso_DiskControl r \<or> iso_NetworkControl r \<or> iso_Mounts r \<or> iso_Volumes r \<or>
        iso_PrivilegeControl r)"
  by (auto simp: unsupportedNames_def split: if_splits)

definition request_admitted :: "EnvironmentSpec \<Rightarrow> SessionPolicyRequest \<Rightarrow> bool" where
  "request_admitted spec req \<longleftrightarrow>
     spr_Target req \<in> set (es_AllowedTargets spec) \<and>
     Source_valid (spr_Source req) \<and>
     src_mode (spr_Source req) \<in> set (es_AllowedSourceModes spec) \<and>
     (src_mode (spr_Source req) = SourceModeLocalWorktree \<longrightarrow>
        et_kind (spr_Target req) = TargetKindLocal) \<and>
     (src_mode (spr_Source req) = SourceModeGitRevision \<longrightarrow>
        src_repositoryAlias (spr_Source req) \<in> set (es_AllowedRepositoryAliases spec)) \<and>
     spr_Controller req \<in> set (es_AllowedControllers spec) \<and>
     unsupportedNames (spr_Isolation req) = []"

lemma ValidateSessionPolicy_frozen:
  assumes "environment_policy_ok spec"
  shows "ValidateSessionPolicy (frozen spec) req = Inr l \<longleftrightarrow>
     request_admitted spec req \<and>
     effectiveSessionLimits (es_ServiceLimits spec) (spr_Limits req) = Inr l"
proof -
  have "\<forall>t \<in> set (es_AllowedTargets spec). known_target_kind (et_kind t) \<and> et_profile t \<noteq> []"
    and "\<forall>c \<in> set (es_AllowedControllers spec). validControllerIdentity c"
    using assms by (auto simp: environment_policy_ok_def list_all_iff)
  then show ?thesis
    by (auto simp: ValidateSessionPolicy_def frozen_def request_admitted_def Let_def
        known_target_kind_iff split: if_splits)
qed

text \<open>An environment is frozen exactly when its policy has no contradiction: nonempty names,
  positive ceilings, valid and pairwise distinct targets, source modes, aliases and controllers, a
  local target for local worktrees and an alias for Git revisions. The loops over
  NUL-separated keys decide distinctness of the values themselves.\<close>

theorem new_environment_exact:
  "NewEnvironment spec = Inr e \<longleftrightarrow> environment_policy_ok spec \<and> e = frozen spec"
  by (rule NewEnvironment_Inr)

text \<open>C38. In a frozen environment the session policy check succeeds exactly on the requests that the
  policy admits and whose four limits are each absent (zero) or positive and at most the ceiling of
  the environment; it returns the ceiling for an absent limit and the requested value otherwise.\<close>

theorem session_policy_exact:
  fixes req :: SessionPolicyRequest
  assumes "NewEnvironment spec = Inr e"
  defines "c \<equiv> es_ServiceLimits spec" and "r \<equiv> spr_Limits req"
  shows "ValidateSessionPolicy e req = Inr l \<longleftrightarrow>
     request_admitted spec req \<and>
     0 \<le> rl_CommandTimeout r \<and> rl_CommandTimeout r \<le> sl_CommandTimeout c \<and>
     0 \<le> rl_IdleTimeout r \<and> rl_IdleTimeout r \<le> sl_IdleTimeout c \<and>
     0 \<le> rl_SessionMaxLifetime r \<and> rl_SessionMaxLifetime r \<le> sl_SessionMaxLifetime c \<and>
     0 \<le> rl_OutputBytesPerCommand r \<and> rl_OutputBytesPerCommand r \<le> sl_OutputBytesPerCommand c \<and>
     l = \<lparr>esl_CommandTimeout = (if rl_CommandTimeout r = 0 then sl_CommandTimeout c else rl_CommandTimeout r),
          esl_IdleTimeout = (if rl_IdleTimeout r = 0 then sl_IdleTimeout c else rl_IdleTimeout r),
          esl_SessionMaxLifetime =
            (if rl_SessionMaxLifetime r = 0 then sl_SessionMaxLifetime c else rl_SessionMaxLifetime r),
          esl_OutputBytesPerCommand =
            (if rl_OutputBytesPerCommand r = 0 then sl_OutputBytesPerCommand c else rl_OutputBytesPerCommand r)\<rparr>"
proof -
  have ok: "environment_policy_ok spec" "e = frozen spec" using assms by (simp_all add: NewEnvironment_Inr)
  then have "ServiceLimits_valid c" by (simp add: environment_policy_ok_def c_def)
  then have pos: "0 < sl_CommandTimeout c" "0 < sl_IdleTimeout c" "0 < sl_SessionMaxLifetime c"
    "0 < sl_OutputBytesPerCommand c" by (simp_all add: ServiceLimits_valid_def)
  have "ValidateSessionPolicy e req = Inr l \<longleftrightarrow> request_admitted spec req \<and> effectiveSessionLimits c r = Inr l"
    using ValidateSessionPolicy_frozen [OF ok(1)] ok(2) by (simp add: c_def r_def)
  then show ?thesis using effectiveSessionLimits_exact [OF pos] by simp
qed

definition sample_target :: ExecutionTarget where
  "sample_target = \<lparr>et_kind = TargetKindLocal, et_profile = ''mac''\<rparr>"

definition sample_controller :: ControllerIdentity where
  "sample_controller = \<lparr>ci_type = ControllerTypeLocalUser, ci_id = ''alice''\<rparr>"

definition sample_spec :: EnvironmentSpec where
  "sample_spec = \<lparr>es_Name = ''dev'', es_HostClass = ''mac'', es_EffectiveAccount = ''runner'',
     es_AllowedTargets = [sample_target],
     es_AllowedSourceModes = [SourceModeEmpty, SourceModeLocalWorktree],
     es_AllowedRepositoryAliases = [], es_AllowedControllers = [sample_controller],
     es_ServiceLimits = DefaultServiceLimits\<rparr>"

definition sample_request :: SessionPolicyRequest where
  "sample_request = \<lparr>spr_Target = sample_target,
     spr_Source = \<lparr>src_mode = SourceModeLocalWorktree, src_repositoryAlias = [],
       src_requestedRevision = [], src_path = ''/src''\<rparr>,
     spr_Controller = sample_controller,
     spr_Limits = \<lparr>rl_CommandTimeout = Minute, rl_IdleTimeout = 0, rl_SessionMaxLifetime = 0,
       rl_OutputBytesPerCommand = 1024\<rparr>,
     spr_Isolation = \<lparr>iso_FilesystemBoundary = False, iso_CPUControl = False,
       iso_MemoryControl = False, iso_PIDControl = False, iso_DiskControl = False,
       iso_NetworkControl = False, iso_Mounts = False, iso_Volumes = False,
       iso_PrivilegeControl = False\<rparr>\<rparr>"

lemmas sample_defs = sample_target_def sample_controller_def sample_spec_def sample_request_def

lemma sample_environment: "NewEnvironment sample_spec = Inr (frozen sample_spec)"
  by (simp add: NewEnvironment_Inr environment_policy_ok_def sample_defs
      validControllerIdentity_def ServiceLimits_valid_def DefaultServiceLimits_def
      MaxSerializedRequestBytes_def MaxScriptUTF8Bytes_def Minute_def Hour_def Second_def)

theorem session_policy_exact_witness:
  "ValidateSessionPolicy (frozen sample_spec) sample_request =
     Inr \<lparr>esl_CommandTimeout = Minute, esl_IdleTimeout = 30 * Minute,
          esl_SessionMaxLifetime = 4 * Hour, esl_OutputBytesPerCommand = 1024\<rparr>"
  unfolding session_policy_exact [OF sample_environment]
  by (simp add: request_admitted_def sample_defs Source_valid_def filepath_IsAbs_def
      unsupportedNames_def DefaultServiceLimits_def Minute_def Hour_def Second_def)

end
