(* ===== verification/Sql_Table.thy ===== *)
theory Sql_Table
  imports Prelude "HOL-Library.List_Lexorder" "HOL-Library.Char_ord" "HOL-Library.Product_Lexorder"
    Go_Text
begin

text \<open>
  Tables and statements of the SQLite authority database. A table is a list of rows in insertion
  order; a statement runs inside a transaction and fails with \<open>SQLiteError\<close> when a constraint
  is violated. The locale \<open>keyed_table\<close> is the contract the store code relies on: a primary key
  finds at most one row, an inserted row is found again, other rows are not touched.
\<close>

definition sql_insert ::
  "('r \<Rightarrow> 'db \<Rightarrow> bool) \<Rightarrow> (('r list \<Rightarrow> 'r list) \<Rightarrow> 'db \<Rightarrow> 'db) \<Rightarrow> 'r \<Rightarrow> ('db, unit) tx" where
  "sql_insert constraints upd r =
     (\<lambda>db. if constraints r db then Inr ((), upd (\<lambda>rows. rows @ [r]) db) else Inl SQLiteError)"

text \<open>UPDATE with its WHERE condition; the value is the number of affected rows.\<close>

definition sql_update ::
  "('r \<Rightarrow> bool) \<Rightarrow> ('db \<Rightarrow> 'r list) \<Rightarrow> (('r list \<Rightarrow> 'r list) \<Rightarrow> 'db \<Rightarrow> 'db) \<Rightarrow>
   ('r \<Rightarrow> bool) \<Rightarrow> ('r \<Rightarrow> 'r) \<Rightarrow> ('db, nat) tx" where
  "sql_update check get upd cond f =
     (\<lambda>db. if list_all (\<lambda>r. cond r \<longrightarrow> check (f r)) (get db)
           then Inr (length (filter cond (get db)), upd (update_rows cond f) db)
           else Inl SQLiteError)"

definition sql_delete ::
  "('db \<Rightarrow> 'r list) \<Rightarrow> (('r list \<Rightarrow> 'r list) \<Rightarrow> 'db \<Rightarrow> 'db) \<Rightarrow> ('r \<Rightarrow> bool) \<Rightarrow> ('db, nat) tx" where
  "sql_delete get upd cond =
     (\<lambda>db. Inr (length (filter cond (get db)), upd (filter (\<lambda>r. \<not> cond r)) db))"

text \<open>SQLite's \<open>length\<close> of a TEXT value: its characters up to the first NUL.\<close>

fun skip_cont :: "nat list \<Rightarrow> nat list" where
  "skip_cont (b # bs) = (if utf8_cont b then skip_cont bs else b # bs)"
| "skip_cont [] = []"

lemma length_skip_cont: "length (skip_cont bs) \<le> length bs"
  by (induction bs) auto

function char_count :: "nat list \<Rightarrow> nat" where
  "char_count [] = 0"
| "char_count (b # bs) =
     (if b = 0 then 0 else 1 + char_count (if 0xC0 \<le> b then skip_cont bs else bs))"
  by pat_completeness auto
termination
  by (relation "measure length") (auto simp: less_Suc_eq_le length_skip_cont)

definition sql_length :: "string \<Rightarrow> nat" where
  "sql_length s = char_count (map of_char s)"

lemma sql_insert_Inr [tx_simps]:
  "sql_insert c upd r db = Inr (u, db') \<longleftrightarrow> c r db \<and> db' = upd (\<lambda>rows. rows @ [r]) db"
  by (auto simp: sql_insert_def)

lemma sql_update_Inr [tx_simps]:
  "sql_update check get upd P f db = Inr (n, db') \<longleftrightarrow>
     list_all (\<lambda>r. P r \<longrightarrow> check (f r)) (get db) \<and> n = length (filter P (get db)) \<and>
     db' = upd (update_rows P f) db"
  by (auto simp: sql_update_def)

lemma sql_delete_Inr [tx_simps]:
  "sql_delete get upd P db = Inr (n, db') \<longleftrightarrow>
     n = length (filter P (get db)) \<and> db' = upd (filter (\<lambda>r. \<not> P r)) db"
  by (auto simp: sql_delete_def)

lemma sql_steps [tx_steps]:
  "tx_bind (sql_insert c upd r) f db =
     (if c r db then f () (upd (\<lambda>rows. rows @ [r]) db) else Inl SQLiteError)"
  "tx_bind (sql_update check get upd P g) h db =
     (if list_all (\<lambda>r. P r \<longrightarrow> check (g r)) (get db)
      then h (length (filter P (get db))) (upd (update_rows P g) db) else Inl SQLiteError)"
  "tx_bind (sql_delete get upd P) h db =
     h (length (filter P (get db))) (upd (filter (\<lambda>r. \<not> P r)) db)"
  by (simp_all add: tx_bind_def sql_insert_def sql_update_def sql_delete_def)

section \<open>The contract of a table with a primary key\<close>

locale table_field =
  fixes get :: "'db \<Rightarrow> 'r list"
    and upd :: "('r list \<Rightarrow> 'r list) \<Rightarrow> 'db \<Rightarrow> 'db"
  assumes get_upd: "get (upd g db) = g (get db)"

locale keyed_table = table_field get upd
  for get :: "'db \<Rightarrow> 'r list" and upd :: "('r list \<Rightarrow> 'r list) \<Rightarrow> 'db \<Rightarrow> 'db" +
  fixes key :: "'r \<Rightarrow> 'k"
    and constraints :: "'r \<Rightarrow> 'db \<Rightarrow> bool"
  assumes unique: "constraints r db \<Longrightarrow> key r \<notin> key ` set (get db)"
begin

definition keyed :: "'db \<Rightarrow> bool" where
  "keyed db \<longleftrightarrow> distinct (map key (get db))"

definition lookup :: "'k \<Rightarrow> 'db \<Rightarrow> 'r option" where
  "lookup k db = find (\<lambda>r. key r = k) (get db)"

lemma insert_keyed: "keyed db \<Longrightarrow> sql_insert constraints upd r db = Inr (u, db') \<Longrightarrow> keyed db'"
  using unique by (auto simp: keyed_def tx_simps get_upd)

lemma unique_lookup: "constraints r db \<Longrightarrow> lookup (key r) db = None"
  using unique [of r db] by (simp add: lookup_def find_key_None)

lemma insert_lookup: "sql_insert constraints upd r db = Inr (u, db') \<Longrightarrow> lookup (key r) db' = Some r"
  using unique_lookup [of r db] by (auto simp: lookup_def tx_simps get_upd find_append)

lemma insert_lookup_other:
  "sql_insert constraints upd r db = Inr (u, db') \<Longrightarrow> k \<noteq> key r \<Longrightarrow> lookup k db' = lookup k db"
  by (auto simp: lookup_def tx_simps get_upd find_append split: option.splits)

lemma insert_existing: "lookup (key r) db = Some r0 \<Longrightarrow> sql_insert constraints upd r db = Inl SQLiteError"
  using unique_lookup [of r db] by (auto simp: sql_insert_def)

lemma update_keyed:
  "keyed db \<Longrightarrow> (\<And>r. key (f r) = key r) \<Longrightarrow> sql_update check get upd P f db = Inr (n, db') \<Longrightarrow> keyed db'"
  by (auto simp: keyed_def tx_simps get_upd)

lemma update_lookup:
  "(\<And>r. key (f r) = key r) \<Longrightarrow>
   sql_update check get upd (\<lambda>r. key r = k \<and> P r) f db = Inr (n, db') \<Longrightarrow>
   lookup k db = Some r \<Longrightarrow> P r \<Longrightarrow> lookup k db' = Some (f r)"
  by (simp add: lookup_def tx_simps get_upd find_update_rows_same)

lemma update_lookup_other:
  "(\<And>r. key (f r) = key r) \<Longrightarrow> k' \<noteq> k \<Longrightarrow>
   sql_update check get upd (\<lambda>r. key r = k \<and> P r) f db = Inr (n, db') \<Longrightarrow>
   lookup k' db' = lookup k' db"
  by (simp add: lookup_def tx_simps get_upd find_update_rows_other)

lemma lookup_iff: "keyed db \<Longrightarrow> lookup k db = Some r \<longleftrightarrow> r \<in> set (get db) \<and> key r = k"
  by (simp add: keyed_def lookup_def find_key_Some)

lemma filter_key_le_1: "keyed db \<Longrightarrow> length (filter (\<lambda>r. key r = k \<and> P r) (get db)) \<le> 1"
proof -
  have "length (filter (\<lambda>r. key r = k \<and> P r) xs) \<le> 1" if "distinct (map key xs)" for xs
    using that by (induction xs) (auto simp: filter_empty_conv image_iff)
  then show "keyed db \<Longrightarrow> ?thesis" by (simp add: keyed_def)
qed

end

end
