(* ===== verification/Domain_State.thy ===== *)
theory Domain_State
  imports Domain_Identity
begin

text \<open>
  The session and command state machines (internal/domain/state.go): the two state
  vocabularies, their edge tables, the transition checks and the immutable lifecycle values. The
  laws the two tables share are the locale \<open>transition_table\<close>; the command table is also
  \<open>ranked_table\<close>, since it has no cycle.
\<close>

section \<open>Sessions\<close>

datatype SessionState =
    SessionStateRequested
  | SessionStateCreating
  | SessionStateReady
  | SessionStateBusy
  | SessionStateClosing
  | SessionStateClosed
  | SessionStateExpired
  | SessionStateFailed
  | SessionStateLost
  | SessionStateOther string

fun sessionStateTransitions :: "SessionState \<Rightarrow> SessionState list" where
  "sessionStateTransitions SessionStateRequested = [SessionStateCreating]"
| "sessionStateTransitions SessionStateCreating =
     [SessionStateReady, SessionStateFailed, SessionStateLost, SessionStateClosing]"
| "sessionStateTransitions SessionStateReady =
     [SessionStateBusy, SessionStateClosing, SessionStateExpired, SessionStateLost]"
| "sessionStateTransitions SessionStateBusy =
     [SessionStateReady, SessionStateClosing, SessionStateExpired, SessionStateLost]"
| "sessionStateTransitions SessionStateClosing = [SessionStateClosed, SessionStateLost]"
| "sessionStateTransitions _ = []"

fun SessionState_Valid :: "SessionState \<Rightarrow> bool" where
  "SessionState_Valid (SessionStateOther _) = False"
| "SessionState_Valid _ = True"

definition SessionState_IsTerminal :: "SessionState \<Rightarrow> bool" where
  "SessionState_IsTerminal s \<longleftrightarrow>
     s \<in> {SessionStateClosed, SessionStateExpired, SessionStateFailed, SessionStateLost}"

definition SessionState_CanTransitionTo :: "SessionState \<Rightarrow> SessionState \<Rightarrow> bool" where
  "SessionState_CanTransitionTo s next_state \<longleftrightarrow> next_state \<in> set (sessionStateTransitions s)"

definition ValidateSessionTransition :: "SessionState \<Rightarrow> SessionState \<Rightarrow> unit result" where
  "ValidateSessionTransition current next_state =
     (if \<not> SessionState_Valid current then Inl ErrInvalidSessionState
      else if \<not> SessionState_Valid next_state then Inl ErrInvalidSessionState
      else if \<not> SessionState_CanTransitionTo current next_state then Inl ErrIllegalSessionTransition
      else Inr ())"

record SessionLifecycleValue =
  slv_sessionID :: SessionID
  slv_target :: ExecutionTarget
  slv_state :: SessionState

definition NewSessionLifecycle ::
  "SessionID \<Rightarrow> ExecutionTarget \<Rightarrow> SessionState \<Rightarrow> SessionLifecycleValue result" where
  "NewSessionLifecycle sessionID target state =
     res_bind (validateID sessionID) (\<lambda>_.
     res_bind (NewExecutionTarget (et_kind target) (et_profile target)) (\<lambda>validatedTarget.
     if \<not> SessionState_Valid state then Inl ErrInvalidSessionState
     else Inr \<lparr>slv_sessionID = sessionID, slv_target = validatedTarget, slv_state = state\<rparr>))"

definition SessionLifecycle_Transition ::
  "SessionLifecycleValue \<Rightarrow> SessionState \<Rightarrow> SessionLifecycleValue result" where
  "SessionLifecycle_Transition s next_state =
     res_bind (ValidateSessionTransition (slv_state s) next_state) (\<lambda>_.
     Inr (s\<lparr>slv_state := next_state\<rparr>))"

section \<open>Commands\<close>

datatype CommandState =
    CommandStateQueued
  | CommandStateRunning
  | CommandStateCancelling
  | CommandStateSucceeded
  | CommandStateFailed
  | CommandStateCancelled
  | CommandStateTimedOut
  | CommandStateRejected
  | CommandStateLost
  | CommandStateOther string

fun commandStateTransitions :: "CommandState \<Rightarrow> CommandState list" where
  "commandStateTransitions CommandStateQueued =
     [CommandStateRunning, CommandStateCancelled, CommandStateRejected]"
| "commandStateTransitions CommandStateRunning =
     [CommandStateSucceeded, CommandStateFailed, CommandStateCancelling, CommandStateTimedOut,
      CommandStateLost]"
| "commandStateTransitions CommandStateCancelling =
     [CommandStateCancelled, CommandStateTimedOut, CommandStateSucceeded, CommandStateFailed,
      CommandStateLost]"
| "commandStateTransitions _ = []"

fun CommandState_Valid :: "CommandState \<Rightarrow> bool" where
  "CommandState_Valid (CommandStateOther _) = False"
| "CommandState_Valid _ = True"

definition CommandState_IsTerminal :: "CommandState \<Rightarrow> bool" where
  "CommandState_IsTerminal s \<longleftrightarrow>
     s \<in> {CommandStateSucceeded, CommandStateFailed, CommandStateCancelled,
          CommandStateTimedOut, CommandStateRejected, CommandStateLost}"

definition CommandState_CanTransitionTo :: "CommandState \<Rightarrow> CommandState \<Rightarrow> bool" where
  "CommandState_CanTransitionTo s next_state \<longleftrightarrow> next_state \<in> set (commandStateTransitions s)"

definition ValidateCommandTransition :: "CommandState \<Rightarrow> CommandState \<Rightarrow> unit result" where
  "ValidateCommandTransition current next_state =
     (if \<not> CommandState_Valid current then Inl ErrInvalidCommandState
      else if \<not> CommandState_Valid next_state then Inl ErrInvalidCommandState
      else if \<not> CommandState_CanTransitionTo current next_state then Inl ErrIllegalCommandTransition
      else Inr ())"

record CommandLifecycleValue =
  clv_commandID :: CommandID
  clv_sessionID :: SessionID
  clv_state :: CommandState

definition NewCommandLifecycle ::
  "CommandID \<Rightarrow> SessionID \<Rightarrow> CommandState \<Rightarrow> CommandLifecycleValue result" where
  "NewCommandLifecycle commandID sessionID state =
     res_bind (validateID commandID) (\<lambda>_.
     res_bind (validateID sessionID) (\<lambda>_.
     if \<not> CommandState_Valid state then Inl ErrInvalidCommandState
     else Inr \<lparr>clv_commandID = commandID, clv_sessionID = sessionID, clv_state = state\<rparr>))"

definition CommandLifecycle_Transition ::
  "CommandLifecycleValue \<Rightarrow> CommandState \<Rightarrow> CommandLifecycleValue result" where
  "CommandLifecycle_Transition c next_state =
     res_bind (ValidateCommandTransition (clv_state c) next_state) (\<lambda>_.
     Inr (c\<lparr>clv_state := next_state\<rparr>))"

section \<open>The contract of an edge table\<close>

text \<open>A history is legal when each state leads to the next by an edge.\<close>

fun chain :: "('s \<Rightarrow> 's \<Rightarrow> bool) \<Rightarrow> 's list \<Rightarrow> bool" where
  "chain edge (a # b # rest) \<longleftrightarrow> edge a b \<and> chain edge (b # rest)"
| "chain edge _ \<longleftrightarrow> True"

lemma chain_snoc:
  "xs \<noteq> [] \<Longrightarrow> chain edge (xs @ [x]) \<longleftrightarrow> chain edge xs \<and> edge (last xs) x"
  by (induction edge xs rule: chain.induct) auto

lemma chain_append:
  "chain edge (xs @ y # ys) \<Longrightarrow> chain edge (y # ys)"
  by (induction xs) (auto elim: chain.elims)

locale transition_table =
  fixes valid :: "'s \<Rightarrow> bool"
    and terminal :: "'s \<Rightarrow> bool"
    and edge :: "'s \<Rightarrow> 's \<Rightarrow> bool"
    and validate :: "'s \<Rightarrow> 's \<Rightarrow> unit result"
  assumes edge_valid: "edge s t \<Longrightarrow> valid s \<and> valid t"
    and terminal_stuck: "terminal s \<Longrightarrow> \<not> edge s t"
    and nonterminal_live: "valid s \<Longrightarrow> \<not> terminal s \<Longrightarrow> \<exists>t. edge s t"
    and validate_iff: "validate s t = Inr () \<longleftrightarrow> edge s t"
begin

lemma terminal_iff_stuck: "valid s \<Longrightarrow> terminal s \<longleftrightarrow> (\<forall>t. \<not> edge s t)"
  using nonterminal_live terminal_stuck by blast

lemma terminal_absorbing: "edge\<^sup>*\<^sup>* s t \<Longrightarrow> terminal s \<Longrightarrow> t = s"
  by (erule converse_rtranclpE) (auto dest: terminal_stuck)

lemma valid_reach: "edge\<^sup>*\<^sup>* s t \<Longrightarrow> valid s \<Longrightarrow> valid t"
  by (induction rule: rtranclp_induct) (auto dest: edge_valid)

text \<open>A legal history meets a terminal state at most once, as its last entry.\<close>

lemma chain_terminal_last: "chain edge (xs @ s # ys) \<Longrightarrow> terminal s \<Longrightarrow> ys = []"
  using chain_append [of edge xs s ys] terminal_stuck by (cases ys) auto

lemma chain_valid: "chain edge (s # xs) \<Longrightarrow> valid s \<Longrightarrow> \<forall>t \<in> set (s # xs). valid t"
  by (induction xs arbitrary: s) (auto dest: edge_valid)

lemma chain_reach: "chain edge (s # xs) \<Longrightarrow> edge\<^sup>*\<^sup>* s (last (s # xs))"
  by (induction xs arbitrary: s) (auto intro: converse_rtranclp_into_rtranclp)

end

locale ranked_table = transition_table +
  fixes rank :: "'s \<Rightarrow> nat"
    and bound :: nat
  assumes rank_edge: "edge s t \<Longrightarrow> rank s < rank t"
    and rank_bound: "valid s \<Longrightarrow> rank s \<le> bound"
begin

lemma rank_reach: "edge\<^sup>*\<^sup>* s t \<Longrightarrow> rank s \<le> rank t"
  by (induction rule: rtranclp_induct) (auto dest: rank_edge)

lemma edge_acyclic: "\<not> edge\<^sup>+\<^sup>+ s s"
proof
  have "rank s < rank t" if "edge\<^sup>+\<^sup>+ s t" for t
    using that by (induction rule: tranclp_induct) (auto dest: rank_edge intro: less_trans)
  moreover assume "edge\<^sup>+\<^sup>+ s s"
  ultimately show False by blast
qed

text \<open>Without a cycle a legal history is short.\<close>

lemma chain_length: "chain edge (s # xs) \<Longrightarrow> valid s \<Longrightarrow> rank s + length xs \<le> bound"
proof (induction xs arbitrary: s)
  case Nil
  then show ?case by (simp add: rank_bound)
next
  case (Cons t xs)
  then have "edge s t" "chain edge (t # xs)" by auto
  moreover from this have "valid t" "rank s < rank t" by (auto dest: edge_valid rank_edge)
  ultimately show ?case using Cons.IH [of t] by simp
qed

end

section \<open>The two tables keep the contract\<close>

lemma SessionState_CanTransitionTo_valid:
  "SessionState_CanTransitionTo s t \<Longrightarrow> SessionState_Valid s \<and> SessionState_Valid t"
  by (cases s) (auto simp: SessionState_CanTransitionTo_def)

lemma ValidateSessionTransition_Inr [simp]:
  "ValidateSessionTransition s t = Inr u \<longleftrightarrow> SessionState_CanTransitionTo s t"
  using SessionState_CanTransitionTo_valid by (auto simp: ValidateSessionTransition_def)

interpretation session_table: transition_table SessionState_Valid SessionState_IsTerminal
  SessionState_CanTransitionTo ValidateSessionTransition
proof
  fix s t
  show "SessionState_CanTransitionTo s t \<Longrightarrow> SessionState_Valid s \<and> SessionState_Valid t"
    by (rule SessionState_CanTransitionTo_valid)
  show "SessionState_IsTerminal s \<Longrightarrow> \<not> SessionState_CanTransitionTo s t"
    by (auto simp: SessionState_IsTerminal_def SessionState_CanTransitionTo_def)
  show "ValidateSessionTransition s t = Inr () \<longleftrightarrow> SessionState_CanTransitionTo s t"
    by simp
next
  fix s
  assume "SessionState_Valid s" "\<not> SessionState_IsTerminal s"
  then show "\<exists>t. SessionState_CanTransitionTo s t"
    by (cases s) (auto simp: SessionState_IsTerminal_def SessionState_CanTransitionTo_def)
qed

fun command_rank :: "CommandState \<Rightarrow> nat" where
  "command_rank CommandStateQueued = 0"
| "command_rank CommandStateRunning = 1"
| "command_rank CommandStateCancelling = 2"
| "command_rank _ = 3"

lemma CommandState_CanTransitionTo_valid:
  "CommandState_CanTransitionTo s t \<Longrightarrow> CommandState_Valid s \<and> CommandState_Valid t"
  by (cases s) (auto simp: CommandState_CanTransitionTo_def)

lemma ValidateCommandTransition_Inr [simp]:
  "ValidateCommandTransition s t = Inr u \<longleftrightarrow> CommandState_CanTransitionTo s t"
  using CommandState_CanTransitionTo_valid by (auto simp: ValidateCommandTransition_def)

interpretation command_table: ranked_table CommandState_Valid CommandState_IsTerminal
  CommandState_CanTransitionTo ValidateCommandTransition command_rank 3
proof
  fix s t
  show "CommandState_CanTransitionTo s t \<Longrightarrow> CommandState_Valid s \<and> CommandState_Valid t"
    by (rule CommandState_CanTransitionTo_valid)
  show "CommandState_IsTerminal s \<Longrightarrow> \<not> CommandState_CanTransitionTo s t"
    by (auto simp: CommandState_IsTerminal_def CommandState_CanTransitionTo_def)
  show "ValidateCommandTransition s t = Inr () \<longleftrightarrow> CommandState_CanTransitionTo s t"
    by simp
  show "CommandState_CanTransitionTo s t \<Longrightarrow> command_rank s < command_rank t"
    by (cases s) (auto simp: CommandState_CanTransitionTo_def)
next
  fix s
  show "CommandState_Valid s \<Longrightarrow> command_rank s \<le> 3" by (cases s) auto
  assume "CommandState_Valid s" "\<not> CommandState_IsTerminal s"
  then show "\<exists>t. CommandState_CanTransitionTo s t"
    by (cases s) (auto simp: CommandState_IsTerminal_def CommandState_CanTransitionTo_def)
qed

lemma SessionLifecycle_Transition_Inr:
  "SessionLifecycle_Transition s t = Inr s' \<longleftrightarrow>
     SessionState_CanTransitionTo (slv_state s) t \<and> s' = s\<lparr>slv_state := t\<rparr>"
  by (auto simp: SessionLifecycle_Transition_def tx_simps)

lemma CommandLifecycle_Transition_Inr:
  "CommandLifecycle_Transition c t = Inr c' \<longleftrightarrow>
     CommandState_CanTransitionTo (clv_state c) t \<and> c' = c\<lparr>clv_state := t\<rparr>"
  by (auto simp: CommandLifecycle_Transition_def tx_simps)

end
