(* ===== verification/Sha256.thy ===== *)
theory Sha256
  imports Go_Text "HOL-Library.Word"
begin

text \<open>
  SHA-256 (FIPS 180-4), the digest of Go's \<open>crypto/sha256\<close> that names canonical requests and
  idempotency keys: 32-bit words with wrapping addition, the message padded to 64-byte blocks, one
  compression per block. The development uses it as a 32-byte function; nothing is assumed about
  collisions.
\<close>

unbundle bit_operations_syntax

type_synonym word32 = "32 word"

definition rotr :: "nat \<Rightarrow> word32 \<Rightarrow> word32" where
  "rotr n x = drop_bit n x OR push_bit (32 - n) x"

definition sha_Ch :: "word32 \<Rightarrow> word32 \<Rightarrow> word32 \<Rightarrow> word32" where
  "sha_Ch x y z = (x AND y) XOR (NOT x AND z)"

definition sha_Maj :: "word32 \<Rightarrow> word32 \<Rightarrow> word32 \<Rightarrow> word32" where
  "sha_Maj x y z = (x AND y) XOR (x AND z) XOR (y AND z)"

definition sha_Sigma0 :: "word32 \<Rightarrow> word32" where
  "sha_Sigma0 x = rotr 2 x XOR rotr 13 x XOR rotr 22 x"

definition sha_Sigma1 :: "word32 \<Rightarrow> word32" where
  "sha_Sigma1 x = rotr 6 x XOR rotr 11 x XOR rotr 25 x"

definition sha_sigma0 :: "word32 \<Rightarrow> word32" where
  "sha_sigma0 x = rotr 7 x XOR rotr 18 x XOR drop_bit 3 x"

definition sha_sigma1 :: "word32 \<Rightarrow> word32" where
  "sha_sigma1 x = rotr 17 x XOR rotr 19 x XOR drop_bit 10 x"

text \<open>The round constants: the first 32 bits of the fractional parts of the cube roots of the first
  64 primes.\<close>

definition sha_K :: "word32 list" where
  "sha_K =
     [1116352408, 1899447441, 3049323471, 3921009573, 961987163, 1508970993,
      2453635748, 2870763221, 3624381080, 310598401, 607225278, 1426881987,
      1925078388, 2162078206, 2614888103, 3248222580, 3835390401, 4022224774,
      264347078, 604807628, 770255983, 1249150122, 1555081692, 1996064986,
      2554220882, 2821834349, 2952996808, 3210313671, 3336571891, 3584528711,
      113926993, 338241895, 666307205, 773529912, 1294757372, 1396182291,
      1695183700, 1986661051, 2177026350, 2456956037, 2730485921, 2820302411,
      3259730800, 3345764771, 3516065817, 3600352804, 4094571909, 275423344,
      430227734, 506948616, 659060556, 883997877, 958139571, 1322822218,
      1537002063, 1747873779, 1955562222, 2024104815, 2227730452, 2361852424,
      2428436474, 2756734187, 3204031479, 3329325298]"

record sha_state =
  sha_a :: word32
  sha_b :: word32
  sha_c :: word32
  sha_d :: word32
  sha_e :: word32
  sha_f :: word32
  sha_g :: word32
  sha_h :: word32

definition sha_init :: sha_state where
  "sha_init = \<lparr>sha_a = 1779033703, sha_b = 3144134277, sha_c = 1013904242, sha_d = 2773480762,
     sha_e = 1359893119, sha_f = 2600822924, sha_g = 528734635, sha_h = 1541459225\<rparr>"

definition byte_of :: "nat \<Rightarrow> char" where
  "byte_of n = char_of (n mod 256)"

text \<open>The \<open>w\<close> big-endian bytes of a number.\<close>

definition be_bytes :: "nat \<Rightarrow> nat \<Rightarrow> bytes" where
  "be_bytes w n = map (\<lambda>i. byte_of (n div 256 ^ (w - 1 - i))) [0..<w]"

definition be_word :: "bytes \<Rightarrow> word32" where
  "be_word bs = foldl (\<lambda>acc b. push_bit 8 acc OR of_nat (of_char b)) 0 bs"

definition sha_pad :: "bytes \<Rightarrow> bytes" where
  "sha_pad m =
     m @ byte_of 0x80 # replicate ((119 - length m mod 64) mod 64) (byte_of 0) @
     be_bytes 8 (8 * length m)"

text \<open>The message schedule: 16 words of the block, then 48 more, each from the last sixteen.\<close>

definition sha_next_word :: "word32 list \<Rightarrow> word32" where
  "sha_next_word w = (let n = length w in
     sha_sigma1 (w ! (n - 2)) + w ! (n - 7) + sha_sigma0 (w ! (n - 15)) + w ! (n - 16))"

fun sha_extend :: "nat \<Rightarrow> word32 list \<Rightarrow> word32 list" where
  "sha_extend 0 w = w"
| "sha_extend (Suc k) w = sha_extend k (w @ [sha_next_word w])"

definition block_words :: "bytes \<Rightarrow> word32 list" where
  "block_words b = map (\<lambda>i. be_word (take 4 (drop (4 * i) b))) [0..<16]"

definition sha_schedule :: "bytes \<Rightarrow> word32 list" where
  "sha_schedule b = sha_extend 48 (block_words b)"

definition sha_round :: "sha_state \<Rightarrow> word32 \<times> word32 \<Rightarrow> sha_state" where
  "sha_round s kw =
     (let t1 = sha_h s + sha_Sigma1 (sha_e s) + sha_Ch (sha_e s) (sha_f s) (sha_g s) + fst kw + snd kw;
          t2 = sha_Sigma0 (sha_a s) + sha_Maj (sha_a s) (sha_b s) (sha_c s)
      in \<lparr>sha_a = t1 + t2, sha_b = sha_a s, sha_c = sha_b s, sha_d = sha_c s,
          sha_e = sha_d s + t1, sha_f = sha_e s, sha_g = sha_f s, sha_h = sha_g s\<rparr>)"

definition sha_compress :: "sha_state \<Rightarrow> bytes \<Rightarrow> sha_state" where
  "sha_compress s b =
     (let t = foldl sha_round s (zip sha_K (sha_schedule b))
      in \<lparr>sha_a = sha_a s + sha_a t, sha_b = sha_b s + sha_b t, sha_c = sha_c s + sha_c t,
          sha_d = sha_d s + sha_d t, sha_e = sha_e s + sha_e t, sha_f = sha_f s + sha_f t,
          sha_g = sha_g s + sha_g t, sha_h = sha_h s + sha_h t\<rparr>)"

fun sha_blocks :: "nat \<Rightarrow> sha_state \<Rightarrow> bytes \<Rightarrow> sha_state" where
  "sha_blocks 0 s m = s"
| "sha_blocks (Suc n) s m = sha_blocks n (sha_compress s (take 64 m)) (drop 64 m)"

definition word_bytes :: "word32 \<Rightarrow> bytes" where
  "word_bytes w = map (\<lambda>k. byte_of (unat (drop_bit k w AND 0xFF))) [24, 16, 8, 0]"

definition sha_output :: "sha_state \<Rightarrow> bytes" where
  "sha_output s = concat (map word_bytes
     [sha_a s, sha_b s, sha_c s, sha_d s, sha_e s, sha_f s, sha_g s, sha_h s])"

definition sha256_Sum256 :: "bytes \<Rightarrow> bytes" where
  "sha256_Sum256 m = (let p = sha_pad m in sha_output (sha_blocks (length p div 64) sha_init p))"

definition sha256_Size :: nat where
  "sha256_Size = 32"

text \<open>Padding fills whole blocks, so every byte of the message is compressed.\<close>

lemma length_be_bytes [simp]: "length (be_bytes w n) = w"
  by (simp add: be_bytes_def)

lemma pad_count: "r < 64 \<Longrightarrow> (r + 9 + (119 - r) mod 64) mod 64 = (0 :: nat)"
proof (cases "r < 56")
  case True
  then have "(119 - r) mod 64 = (64 + (55 - r)) mod 64" by (intro arg_cong2 [where f = "(mod)"]) auto
  also have "\<dots> = 55 - r" using True by (simp only: mod_add_self1) simp
  finally show ?thesis using True by simp
next
  case False
  moreover assume "r < 64"
  ultimately have "(119 - r) mod 64 = 119 - r" by simp
  then show ?thesis using \<open>r < 64\<close> by simp
qed

lemma length_sha_pad: "64 dvd length (sha_pad m)"
proof -
  let ?k = "(119 - length m mod 64) mod 64"
  have "(length m + 9 + ?k) mod 64 = (length m mod 64 + 9 + ?k) mod 64"
    by (simp only: add.assoc mod_add_left_eq)
  also have "\<dots> = 0" by (rule pad_count) simp
  also have "length m + 9 + ?k = length (sha_pad m)" by (simp add: sha_pad_def)
  finally show ?thesis by (simp only: dvd_eq_mod_eq_0)
qed

lemma length_sha256 [simp]: "length (sha256_Sum256 m) = sha256_Size"
  by (simp add: sha256_Sum256_def Let_def sha_output_def word_bytes_def sha256_Size_def)



end
