(* ===== verification/Domain_Canonical.thy ===== *)
theory Domain_Canonical
  imports Domain_Identity Sha256
begin

text \<open>
  Canonical request hashes (internal/domain/canonical.go): the versioned SHA-256 digest stored
  with every idempotency key and its comparison. The version is a 16-bit word, as the code's
  \<open>uint16\<close>.
\<close>

section \<open>Versioned digests\<close>

definition CanonicalizationVersionV1 :: "16 word" where
  "CanonicalizationVersionV1 = 1"

definition canonicalHashDomainV1 :: string where
  "canonicalHashDomainV1 = ''remote-session-runner/canonical-json/v1'' @ [NUL]"

record CanonicalHash =
  ch_version :: "16 word"
  ch_digest :: bytes

text \<open>The zero value of the Go struct.\<close>

definition zero_hash :: CanonicalHash where
  "zero_hash = \<lparr>ch_version = 0, ch_digest = replicate sha256_Size NUL\<rparr>"

definition NewCanonicalHash :: "16 word \<Rightarrow> bytes \<Rightarrow> CanonicalHash result" where
  "NewCanonicalHash version digest =
     (if version = 0 \<or> length digest \<noteq> sha256_Size then Inl ErrInvalidCanonicalHash
      else Inr \<lparr>ch_version = version, ch_digest = digest\<rparr>)"

datatype IdempotencyComparison = IdempotencySamePayload | IdempotencyComparisonConflict

definition CompareIdempotency :: "CanonicalHash \<Rightarrow> CanonicalHash \<Rightarrow> IdempotencyComparison" where
  "CompareIdempotency existing incoming =
     (if ch_version existing = 0 \<or> ch_version incoming = 0 \<or> ch_version existing \<noteq> ch_version incoming
      then IdempotencyComparisonConflict
      else if ch_digest existing = ch_digest incoming then IdempotencySamePayload
      else IdempotencyComparisonConflict)"

definition isMutationOperation :: "string \<Rightarrow> bool" where
  "isMutationOperation operation \<longleftrightarrow>
     operation \<in> {''create_session'', ''submit_command'', ''cancel_command'', ''close_session'', ''run''}"

text \<open>The digest of an already canonical text.\<close>

definition canonical_digest :: "bytes \<Rightarrow> CanonicalHash" where
  "canonical_digest canonical =
     \<lparr>ch_version = CanonicalizationVersionV1,
      ch_digest = sha256_Sum256 (canonicalHashDomainV1 @ canonical)\<rparr>"

lemma NewCanonicalHash_Inr [simp]:
  "NewCanonicalHash v d = Inr h \<longleftrightarrow>
     v \<noteq> 0 \<and> length d = sha256_Size \<and> h = \<lparr>ch_version = v, ch_digest = d\<rparr>"
  by (auto simp: NewCanonicalHash_def)

definition valid_hash :: "CanonicalHash \<Rightarrow> bool" where
  "valid_hash h \<longleftrightarrow> ch_version h \<noteq> 0 \<and> length (ch_digest h) = sha256_Size"

lemma NewCanonicalHash_of: "NewCanonicalHash (ch_version h) (ch_digest h) = Inr h' \<longleftrightarrow> valid_hash h \<and> h' = h"
  by (auto simp: valid_hash_def)

lemma CompareIdempotency_same:
  "CompareIdempotency a b = IdempotencySamePayload \<longleftrightarrow> ch_version a \<noteq> 0 \<and> a = (b :: CanonicalHash)"
  by (auto simp: CompareIdempotency_def)

lemma CompareIdempotency_conflict:
  "CompareIdempotency a b = IdempotencyComparisonConflict \<longleftrightarrow> ch_version a = 0 \<or> a \<noteq> (b :: CanonicalHash)"
  using CompareIdempotency_same [of a b] by (cases "CompareIdempotency a b") auto

lemma canonical_digest_valid: "valid_hash (canonical_digest c)"
  by (simp add: valid_hash_def canonical_digest_def CanonicalizationVersionV1_def)

end
