(* ===== verification/Audit_Record.thy ===== *)
theory Audit_Record
  imports Domain_Identity Stored_Time
begin

text \<open>
  Audit records (internal/audit/audit.go): the bounded metadata of one authorization decision or
  runtime cleanup failure, the trusted ingress labels, and the validation every stored record
  passes. A Go context is modelled by the two values the package keeps in it.
\<close>

datatype Ingress =
    IngressLocalUnix
  | IngressMailbox
  | IngressLocalWorker
  | IngressSSHBridge
  | IngressDirectMTLS
  | IngressInternal
  | IngressUnknown
  | IngressOther string

fun ValidIngress :: "Ingress \<Rightarrow> bool" where
  "ValidIngress (IngressOther _) = False"
| "ValidIngress _ = True"

definition TrustedForAcceptance :: "Ingress \<Rightarrow> bool" where
  "TrustedForAcceptance ingress \<longleftrightarrow> ingress \<noteq> IngressUnknown \<and> ValidIngress ingress"

datatype Action =
    ActionCreate
  | ActionSubmit
  | ActionCancel
  | ActionClose
  | ActionRun
  | ActionReadSession
  | ActionReadCommand
  | ActionReadJob
  | ActionRuntimeCleanup
  | ActionOther string

fun known_action :: "Action \<Rightarrow> bool" where
  "known_action (ActionOther _) = False"
| "known_action _ = True"

datatype Outcome = OutcomeAllowed | OutcomeDenied | OutcomeFailed | OutcomeOther string

definition ReasonEnvironmentDenied :: string where "ReasonEnvironmentDenied = ''environment_denied''"
definition ReasonPolicyDenied :: string where "ReasonPolicyDenied = ''policy_denied''"
definition ReasonControllerDenied :: string where "ReasonControllerDenied = ''controller_denied''"
definition ReasonRuntimeCleanupUnconfirmed :: string where
  "ReasonRuntimeCleanupUnconfirmed = ''runtime_cleanup_unconfirmed''"

definition MailboxSelectionSourceInboxDefault :: string where
  "MailboxSelectionSourceInboxDefault = ''inbox_default''"

definition MailboxSelectionSourceRequestOverride :: string where
  "MailboxSelectionSourceRequestOverride = ''request_override''"

lemmas reason_defs = ReasonEnvironmentDenied_def ReasonPolicyDenied_def ReasonControllerDenied_def
  ReasonRuntimeCleanupUnconfirmed_def

record MailboxSelection =
  ms_InboxID :: string
  ms_ContextName :: string
  ms_Environment :: string
  ms_TargetKind :: TargetKind
  ms_TargetProfile :: string
  ms_Source :: string
  ms_RepositoryAlias :: string
  ms_RepositoryAliases :: "string list"

record AuditRecord =
  ar_ID :: int
  ar_Principal :: ControllerIdentity
  ar_Ingress :: Ingress
  ar_Environment :: string
  ar_SessionID :: SessionID
  ar_CommandID :: CommandID
  ar_JobID :: JobID
  ar_Action :: Action
  ar_Outcome :: Outcome
  ar_ReasonCode :: string
  ar_MailboxSelection :: "MailboxSelection option"
  ar_OccurredAt :: time

definition is_lower :: "char \<Rightarrow> bool" where
  "is_lower c \<longleftrightarrow> 97 \<le> (of_char c :: nat) \<and> of_char c \<le> (122 :: nat)"

text \<open>A letter first, then letters, digits and hyphens; a byte above 127 starts or continues a
  rune outside those ranges, so the loop rejects it either way.\<close>

definition validMailboxSelectionName :: "string \<Rightarrow> bool" where
  "validMailboxSelectionName v =
     (case v of
        [] \<Rightarrow> False
      | c # cs \<Rightarrow> length v \<le> 63 \<and> is_lower c \<and>
          list_all (\<lambda>d. is_lower d \<or> is_digit d \<or> d = CHR ''-'') cs)"

fun check_selection_aliases :: "string list \<Rightarrow> string list \<Rightarrow> unit result" where
  "check_selection_aliases [] seen = Inr ()"
| "check_selection_aliases (a # as) seen =
     (if \<not> validMailboxSelectionName a then Inl ErrInvalidAuditRecord
      else if a \<in> set seen then Inl ErrInvalidAuditRecord
      else check_selection_aliases as (a # seen))"

definition MailboxSelection_Validate :: "MailboxSelection \<Rightarrow> unit result" where
  "MailboxSelection_Validate s =
     (if \<not> validMailboxSelectionName (ms_InboxID s) \<or> \<not> validMailboxSelectionName (ms_ContextName s) \<or>
         \<not> validMailboxSelectionName (ms_Environment s) \<or>
         \<not> validMailboxSelectionName (ms_TargetProfile s)
      then Inl ErrInvalidAuditRecord
      else if \<not> is_ok (NewExecutionTarget (ms_TargetKind s) (ms_TargetProfile s))
      then Inl ErrInvalidAuditRecord
      else if ms_Source s \<noteq> MailboxSelectionSourceInboxDefault \<and>
        ms_Source s \<noteq> MailboxSelectionSourceRequestOverride
      then Inl ErrInvalidAuditRecord
      else res_bind (check_selection_aliases (ms_RepositoryAliases s) []) (\<lambda>_.
        if ms_RepositoryAlias s \<noteq> []
        then (if \<not> validMailboxSelectionName (ms_RepositoryAlias s) then Inl ErrInvalidAuditRecord
              else if ms_RepositoryAlias s \<notin> set (ms_RepositoryAliases s)
              then Inl ErrInvalidAuditRecord
              else Inr ())
        else Inr ()))"

text \<open>The outcome agrees with the action and the reason code.\<close>

definition outcome_consistent :: "AuditRecord \<Rightarrow> bool" where
  "outcome_consistent r =
     (case ar_Outcome r of
        OutcomeAllowed \<Rightarrow> \<not> (ar_Action r = ActionRuntimeCleanup \<or> ar_ReasonCode r \<noteq> [])
      | OutcomeDenied \<Rightarrow> \<not> (ar_Action r = ActionRuntimeCleanup \<or> ar_ReasonCode r = [] \<or>
          ar_ReasonCode r = ReasonRuntimeCleanupUnconfirmed)
      | OutcomeFailed \<Rightarrow> \<not> (ar_Action r \<noteq> ActionRuntimeCleanup \<or>
          ar_ReasonCode r \<noteq> ReasonRuntimeCleanupUnconfirmed \<or> ar_SessionID r = [])
      | OutcomeOther _ \<Rightarrow> False)"

definition AuditRecord_Validate :: "AuditRecord \<Rightarrow> unit result" where
  "AuditRecord_Validate r =
     (if ar_ID r < 0 then Inl ErrInvalidAuditRecord
      else if \<not> is_ok (NewControllerIdentity (ci_type (ar_Principal r)) (ci_id (ar_Principal r)))
      then Inl ErrInvalidAuditRecord
      else if \<not> ValidIngress (ar_Ingress r) then Inl ErrInvalidAuditRecord
      else if \<not> known_action (ar_Action r) then Inl ErrInvalidAuditRecord
      else if \<not> outcome_consistent r then Inl ErrInvalidAuditRecord
      else if ar_ReasonCode r \<noteq> [] \<and> ar_ReasonCode r \<noteq> ReasonEnvironmentDenied \<and>
        ar_ReasonCode r \<noteq> ReasonPolicyDenied \<and> ar_ReasonCode r \<noteq> ReasonControllerDenied \<and>
        ar_ReasonCode r \<noteq> ReasonRuntimeCleanupUnconfirmed
      then Inl ErrInvalidAuditRecord
      else if length (ar_Environment r) > 256 \<or> has_nul (ar_Environment r)
      then Inl ErrInvalidAuditRecord
      else if ar_SessionID r \<noteq> [] \<and> \<not> is_ok (NewSessionID (ar_SessionID r))
      then Inl ErrInvalidAuditRecord
      else if ar_CommandID r \<noteq> [] \<and> \<not> is_ok (NewCommandID (ar_CommandID r))
      then Inl ErrInvalidAuditRecord
      else if ar_JobID r \<noteq> [] \<and> \<not> is_ok (NewJobID (ar_JobID r)) then Inl ErrInvalidAuditRecord
      else if ar_OccurredAt r = zero_time then Inl ErrInvalidAuditRecord
      else case ar_MailboxSelection r of
        None \<Rightarrow> Inr ()
      | Some s \<Rightarrow>
          if ar_Ingress r \<noteq> IngressMailbox \<or> ar_Outcome r \<noteq> OutcomeAllowed \<or>
             (ar_Action r \<noteq> ActionCreate \<and> ar_Action r \<noteq> ActionRun)
          then Inl ErrInvalidAuditRecord
          else res_bind (MailboxSelection_Validate s) (\<lambda>_.
            if ar_Environment r \<noteq> ms_Environment s then Inl ErrInvalidAuditRecord else Inr ()))"

definition NewRecord ::
  "ControllerIdentity \<Rightarrow> Ingress \<Rightarrow> Action \<Rightarrow> Outcome \<Rightarrow> time \<Rightarrow> AuditRecord" where
  "NewRecord who ingress action outcome now =
     \<lparr>ar_ID = 0, ar_Principal = who, ar_Ingress = ingress, ar_Environment = [],
      ar_SessionID = [], ar_CommandID = [], ar_JobID = [], ar_Action = action, ar_Outcome = outcome,
      ar_ReasonCode = [], ar_MailboxSelection = None, ar_OccurredAt = now\<rparr>"

definition ActionForOperation :: "string \<Rightarrow> Action option" where
  "ActionForOperation operation =
     (if operation = ''create_session'' then Some ActionCreate
      else if operation = ''submit_command'' then Some ActionSubmit
      else if operation = ''cancel_command'' then Some ActionCancel
      else if operation = ''close_session'' then Some ActionClose
      else if operation = ''run'' then Some ActionRun
      else None)"

record audit_context =
  ctx_ingress :: "Ingress option"
  ctx_action :: "Action option"

definition WithIngress :: "audit_context \<Rightarrow> Ingress \<Rightarrow> audit_context" where
  "WithIngress ctx ingress = ctx\<lparr>ctx_ingress := Some ingress\<rparr>"

definition IngressFromContext :: "audit_context \<Rightarrow> Ingress" where
  "IngressFromContext ctx =
     (case ctx_ingress ctx of
        Some value \<Rightarrow> if value \<noteq> IngressOther [] then value else IngressInternal
      | None \<Rightarrow> IngressInternal)"

definition WithActionHint :: "audit_context \<Rightarrow> Action \<Rightarrow> audit_context" where
  "WithActionHint ctx action = ctx\<lparr>ctx_action := Some action\<rparr>"

definition ActionHint :: "audit_context \<Rightarrow> Action" where
  "ActionHint ctx = (case ctx_action ctx of Some action \<Rightarrow> action | None \<Rightarrow> ActionOther [])"

lemma check_selection_aliases_Inr:
  "check_selection_aliases as seen = Inr u \<longleftrightarrow>
     list_all validMailboxSelectionName as \<and> distinct as \<and> set as \<inter> set seen = {}"
  by (induction as seen rule: check_selection_aliases.induct) auto

end
