(* ===== verification/Lane_Admission.thy ===== *)
theory Lane_Admission
  imports Go_Text "HOL-Library.Word"
begin

text \<open>
  The lane admission state machine (internal/laneadmission/state.go): which candidate a host
  admits work for, under which epoch, and the migration fence. One definition per method; a method
  that returns an error leaves the caller's state as it was, since the store discards the decoded
  copy, so the result is \<open>Inl\<close> the error or \<open>Inr\<close> the new state. Epochs are Go
  \<open>uint64\<close> values that are only compared.
\<close>

section \<open>Data\<close>

datatype Lane = LaneDev | LaneQAS | LanePRD | LaneOther string
datatype HostID = HostMacControlPlane | HostLinux | HostSandbox | HostFactory | HostOther string
datatype Role = RoleActiveRuntimeClosure | RoleCandidateAdmission | RoleOther string
datatype Phase = PhaseClosed | PhaseTransportReady | PhaseOpen | PhaseOther string
datatype FenceState = FenceFencing | FenceFenced | FenceAborting | FenceAborted | FenceOther string

record LaneIdentity =
  li_Lane :: Lane
  li_HostID :: HostID
  li_TransitionID :: string
  li_CandidateManifestID :: string
  li_ConfigurationDigest :: string
  li_Role :: Role
  li_Epoch :: "64 word"

record LaneContext =
  lc_Identity :: LaneIdentity
  lc_Phase :: Phase

record MigrationFence =
  mf_TransitionID :: string
  mf_State :: FenceState

record LaneState =
  ls_Enabled :: bool
  ls_Lane :: Lane
  ls_HostID :: HostID
  ls_HighWaterEpoch :: "64 word"
  ls_LastIdentity :: "LaneIdentity option"
  ls_Active :: "LaneContext option"
  ls_Pending :: "LaneContext option"
  ls_MigrationFence :: "MigrationFence option"

section \<open>Validation\<close>

definition is_alnum :: "char \<Rightarrow> bool" where
  "is_alnum c \<longleftrightarrow> is_digit c \<or> (65 \<le> (of_char c :: nat) \<and> of_char c \<le> (90 :: nat)) \<or>
     (97 \<le> (of_char c :: nat) \<and> of_char c \<le> (122 :: nat))"

definition is_id_char :: "char \<Rightarrow> bool" where
  "is_id_char c \<longleftrightarrow> is_alnum c \<or> c \<in> {CHR ''.'', CHR ''_'', CHR '':'', CHR ''-''}"

definition is_lower_hex :: "char \<Rightarrow> bool" where
  "is_lower_hex c \<longleftrightarrow> is_digit c \<or> (97 \<le> (of_char c :: nat) \<and> of_char c \<le> (102 :: nat))"

definition validID :: "string \<Rightarrow> bool" where
  "validID v = (case v of [] \<Rightarrow> False | c # cs \<Rightarrow> is_alnum c \<and> list_all is_id_char cs \<and> length cs \<le> 127)"

definition digestPattern_MatchString :: "string \<Rightarrow> bool" where
  "digestPattern_MatchString v \<longleftrightarrow>
     take 7 v = ''sha256:'' \<and> length v = 71 \<and> list_all is_lower_hex (drop 7 v)"

fun validLane :: "Lane \<Rightarrow> bool" where
  "validLane (LaneOther _) = False"
| "validLane _ = True"

fun validHost :: "HostID \<Rightarrow> bool" where
  "validHost (HostOther _) = False"
| "validHost _ = True"

fun validPhase :: "Phase \<Rightarrow> bool" where
  "validPhase (PhaseOther _) = False"
| "validPhase _ = True"

fun validFenceState :: "FenceState \<Rightarrow> bool" where
  "validFenceState (FenceOther _) = False"
| "validFenceState _ = True"

definition sameIdentity :: "LaneIdentity \<Rightarrow> LaneIdentity \<Rightarrow> bool" where
  "sameIdentity left right \<longleftrightarrow> left = right"

definition validateIdentity :: "LaneIdentity \<Rightarrow> unit result" where
  "validateIdentity i =
     (if \<not> validLane (li_Lane i) \<or> \<not> validHost (li_HostID i) \<or> \<not> validID (li_TransitionID i) \<or>
         \<not> validID (li_CandidateManifestID i) \<or>
         \<not> digestPattern_MatchString (li_ConfigurationDigest i) \<or> li_Epoch i = 0 \<or>
         (li_Role i \<noteq> RoleActiveRuntimeClosure \<and> li_Role i \<noteq> RoleCandidateAdmission)
      then Inl ErrInvalidLaneIdentity else Inr ())"

definition validateContext :: "LaneState \<Rightarrow> LaneContext \<Rightarrow> unit result" where
  "validateContext s v =
     (if validateIdentity (lc_Identity v) \<noteq> Inr () \<or> li_Lane (lc_Identity v) \<noteq> ls_Lane s \<or>
         li_HostID (lc_Identity v) \<noteq> ls_HostID s \<or> li_Epoch (lc_Identity v) > ls_HighWaterEpoch s
      then Inl ErrInvalidLaneState
      else if li_Role (lc_Identity v) = RoleActiveRuntimeClosure
      then (if lc_Phase v \<noteq> PhaseClosed then Inl ErrInvalidLaneState else Inr ())
      else if li_Role (lc_Identity v) = RoleCandidateAdmission \<and> \<not> validPhase (lc_Phase v)
      then Inl ErrInvalidLaneState
      else Inr ())"

definition has_identity :: "LaneContext option \<Rightarrow> LaneIdentity \<Rightarrow> bool" where
  "has_identity ctx i = (case ctx of None \<Rightarrow> False | Some c \<Rightarrow> sameIdentity i (lc_Identity c))"

definition LaneState_Validate :: "LaneState \<Rightarrow> unit result" where
  "LaneState_Validate s =
     (if \<not> ls_Enabled s
      then (if ls_Lane s \<noteq> LaneOther [] \<or> ls_HostID s \<noteq> HostOther [] \<or> ls_HighWaterEpoch s \<noteq> 0 \<or>
               ls_LastIdentity s \<noteq> None \<or> ls_Active s \<noteq> None \<or> ls_Pending s \<noteq> None \<or>
               ls_MigrationFence s \<noteq> None
            then Inl ErrInvalidLaneState else Inr ())
      else if \<not> validLane (ls_Lane s) \<or> \<not> validHost (ls_HostID s) then Inl ErrInvalidLaneState
      else if (ls_HighWaterEpoch s = 0) \<noteq> (ls_LastIdentity s = None) then Inl ErrInvalidLaneState
      else if (case ls_LastIdentity s of None \<Rightarrow> False
               | Some i \<Rightarrow> validateIdentity i \<noteq> Inr () \<or> li_Lane i \<noteq> ls_Lane s \<or>
                   li_HostID i \<noteq> ls_HostID s \<or> li_Epoch i \<noteq> ls_HighWaterEpoch s)
      then Inl ErrInvalidLaneState
      else if (case ls_Active s of None \<Rightarrow> False
               | Some c \<Rightarrow> validateContext s c \<noteq> Inr () \<or>
                   li_Role (lc_Identity c) = RoleCandidateAdmission \<and> \<not> validPhase (lc_Phase c) \<or>
                   li_Role (lc_Identity c) = RoleActiveRuntimeClosure \<and> lc_Phase c \<noteq> PhaseClosed)
      then Inl ErrInvalidLaneState
      else if (case ls_Pending s of None \<Rightarrow> False
               | Some c \<Rightarrow> validateContext s c \<noteq> Inr () \<or>
                   li_Role (lc_Identity c) \<noteq> RoleCandidateAdmission \<or> lc_Phase c \<noteq> PhaseClosed)
      then Inl ErrInvalidLaneState
      else if (case ls_LastIdentity s of None \<Rightarrow> False
               | Some i \<Rightarrow> \<not> (has_identity (ls_Active s) i \<or> has_identity (ls_Pending s) i))
      then Inl ErrInvalidLaneState
      else if (case (ls_Pending s, ls_Active s) of
                 (Some p, Some a) \<Rightarrow> li_Epoch (lc_Identity p) \<le> li_Epoch (lc_Identity a)
               | _ \<Rightarrow> False)
      then Inl ErrInvalidLaneState
      else if (case ls_MigrationFence s of None \<Rightarrow> False
               | Some f \<Rightarrow> \<not> validID (mf_TransitionID f) \<or> \<not> validFenceState (mf_State f))
      then Inl ErrInvalidLaneState
      else Inr ())"

definition NewState :: "Lane \<Rightarrow> HostID \<Rightarrow> LaneState result" where
  "NewState lane host =
     (let state = \<lparr>ls_Enabled = True, ls_Lane = lane, ls_HostID = host, ls_HighWaterEpoch = 0,
        ls_LastIdentity = None, ls_Active = None, ls_Pending = None, ls_MigrationFence = None\<rparr>
      in res_bind (LaneState_Validate state) (\<lambda>_. Inr state))"

section \<open>Operations\<close>

text \<open>\<open>return s.Validate()\<close> after an update.\<close>

definition revalidated :: "LaneState \<Rightarrow> LaneState result" where
  "revalidated s = res_bind (LaneState_Validate s) (\<lambda>_. Inr s)"

definition acceptEpoch :: "LaneState \<Rightarrow> LaneIdentity \<Rightarrow> LaneState result" where
  "acceptEpoch s identity =
     (if li_Epoch identity \<le> ls_HighWaterEpoch s
      then (if li_Epoch identity = ls_HighWaterEpoch s \<and>
              (case ls_LastIdentity s of None \<Rightarrow> False | Some l \<Rightarrow> \<not> sameIdentity l identity)
            then Inl ErrEpochIdentitySwitch
            else Inl ErrStaleEpoch)
      else Inr (s\<lparr>ls_HighWaterEpoch := li_Epoch identity, ls_LastIdentity := Some identity\<rparr>))"

text \<open>The identity is well formed, has the role and belongs to this lane and host.\<close>

definition acceptable :: "LaneState \<Rightarrow> Role \<Rightarrow> LaneIdentity \<Rightarrow> bool" where
  "acceptable s role identity \<longleftrightarrow>
     LaneState_Validate s = Inr () \<and> ls_Enabled s \<and> li_Role identity = role \<and>
     validateIdentity identity = Inr () \<and> li_Lane identity = ls_Lane s \<and>
     li_HostID identity = ls_HostID s"

text \<open>There is an active context and it is not a closed runtime closure.\<close>

definition active_not_closed :: "LaneState \<Rightarrow> bool" where
  "active_not_closed s =
     (case ls_Active s of None \<Rightarrow> False
      | Some a \<Rightarrow> li_Role (lc_Identity a) \<noteq> RoleActiveRuntimeClosure \<or> lc_Phase a \<noteq> PhaseClosed)"

definition PrepareCandidate :: "LaneState \<Rightarrow> LaneIdentity \<Rightarrow> LaneState result" where
  "PrepareCandidate s identity =
     (if \<not> acceptable s RoleCandidateAdmission identity then Inl ErrInvalidLaneIdentity
      else if li_Epoch identity = ls_HighWaterEpoch s \<and>
        (case ls_LastIdentity s of None \<Rightarrow> False | Some l \<Rightarrow> \<not> sameIdentity l identity)
      then Inl ErrEpochIdentitySwitch
      else if (case ls_Pending s of None \<Rightarrow> False | Some p \<Rightarrow> sameIdentity (lc_Identity p) identity)
      then Inr s
      else if ls_Pending s = None \<and>
        (case ls_Active s of None \<Rightarrow> False | Some a \<Rightarrow> sameIdentity (lc_Identity a) identity)
      then Inr s
      else if li_Epoch identity < ls_HighWaterEpoch s then Inl ErrStaleEpoch
      else if ls_MigrationFence s \<noteq> None \<or> ls_Pending s \<noteq> None \<or> active_not_closed s
      then Inl ErrInvalidLaneTransition
      else res_bind (acceptEpoch s identity) (\<lambda>s'.
        revalidated (s'\<lparr>ls_Pending := Some \<lparr>lc_Identity = identity, lc_Phase = PhaseClosed\<rparr>\<rparr>)))"

definition BeginActiveRuntimeClosure :: "LaneState \<Rightarrow> LaneIdentity \<Rightarrow> LaneState result" where
  "BeginActiveRuntimeClosure s identity =
     (if \<not> acceptable s RoleActiveRuntimeClosure identity then Inl ErrInvalidLaneIdentity
      else if (case ls_Active s of None \<Rightarrow> False
               | Some a \<Rightarrow> li_Role (lc_Identity a) = RoleActiveRuntimeClosure \<and>
                   sameIdentity (lc_Identity a) identity)
      then Inr s
      else if ls_MigrationFence s \<noteq> None \<or> ls_Pending s \<noteq> None \<or>
        (case ls_Active s of None \<Rightarrow> True
         | Some a \<Rightarrow> li_Role (lc_Identity a) \<noteq> RoleCandidateAdmission \<or>
             li_CandidateManifestID (lc_Identity a) \<noteq> li_CandidateManifestID identity \<or>
             li_ConfigurationDigest (lc_Identity a) \<noteq> li_ConfigurationDigest identity)
      then Inl ErrInvalidLaneTransition
      else res_bind (acceptEpoch s identity) (\<lambda>s'.
        revalidated (s'\<lparr>ls_Active := Some \<lparr>lc_Identity = identity, lc_Phase = PhaseClosed\<rparr>\<rparr>)))"

definition SwitchPendingToActive :: "LaneState \<Rightarrow> LaneState result" where
  "SwitchPendingToActive s =
     (if LaneState_Validate s \<noteq> Inr () \<or> \<not> ls_Enabled s \<or> ls_MigrationFence s \<noteq> None
      then Inl ErrInvalidLaneTransition
      else case ls_Pending s of
        None \<Rightarrow> Inl ErrInvalidLaneTransition
      | Some p \<Rightarrow>
          if lc_Phase p \<noteq> PhaseClosed then Inl ErrInvalidLaneTransition
          else if active_not_closed s then Inl ErrInvalidLaneTransition
          else revalidated (s\<lparr>ls_Active := Some p, ls_Pending := None\<rparr>))"

text \<open>The only phase steps of a candidate.\<close>

definition phase_step :: "Phase \<Rightarrow> Phase \<Rightarrow> bool" where
  "phase_step p q \<longleftrightarrow> p = PhaseClosed \<and> q = PhaseTransportReady \<or> p = PhaseTransportReady \<and> q = PhaseOpen"

text \<open>No context carries the identity.\<close>

definition no_target :: "LaneState \<Rightarrow> LaneIdentity \<Rightarrow> LaneState result" where
  "no_target s identity =
     (if li_Epoch identity = ls_HighWaterEpoch s \<and>
        (case ls_LastIdentity s of None \<Rightarrow> False | Some l \<Rightarrow> \<not> sameIdentity l identity)
      then Inl ErrEpochIdentitySwitch else Inl ErrStaleEpoch)"

definition advance_active :: "LaneState \<Rightarrow> LaneIdentity \<Rightarrow> Phase \<Rightarrow> LaneState result" where
  "advance_active s identity next_phase =
     (case ls_Active s of
        None \<Rightarrow> no_target s identity
      | Some a \<Rightarrow>
          if \<not> sameIdentity (lc_Identity a) identity then no_target s identity
          else if lc_Phase a = next_phase then Inr s
          else if phase_step (lc_Phase a) next_phase
          then revalidated (s\<lparr>ls_Active := Some (a\<lparr>lc_Phase := next_phase\<rparr>)\<rparr>)
          else Inl ErrInvalidLaneTransition)"

definition AdvanceCandidate :: "LaneState \<Rightarrow> LaneIdentity \<Rightarrow> Phase \<Rightarrow> LaneState result" where
  "AdvanceCandidate s identity next_phase =
     (if \<not> acceptable s RoleCandidateAdmission identity \<or> \<not> validPhase next_phase
      then Inl ErrInvalidLaneIdentity
      else if ls_MigrationFence s \<noteq> None then Inl ErrLaneAdmissionClosed
      else
        case ls_Pending s of
          None \<Rightarrow> advance_active s identity next_phase
        | Some p \<Rightarrow>
            if \<not> sameIdentity (lc_Identity p) identity then advance_active s identity next_phase
            else if lc_Phase p = next_phase then Inr s
            else if next_phase \<noteq> PhaseClosed then Inl ErrInvalidLaneTransition
            else if phase_step (lc_Phase p) next_phase
            then revalidated (s\<lparr>ls_Pending := Some (p\<lparr>lc_Phase := next_phase\<rparr>)\<rparr>)
            else Inl ErrInvalidLaneTransition)"

definition BeginMigrationFence :: "LaneState \<Rightarrow> string \<Rightarrow> LaneState result" where
  "BeginMigrationFence s transitionID =
     (if LaneState_Validate s \<noteq> Inr () \<or> \<not> ls_Enabled s \<or> \<not> validID transitionID \<or>
         ls_Pending s \<noteq> None \<or> active_not_closed s
      then Inl ErrInvalidLaneTransition
      else if (case ls_Active s of None \<Rightarrow> False
               | Some a \<Rightarrow> li_TransitionID (lc_Identity a) \<noteq> transitionID)
      then Inl ErrInvalidLaneTransition
      else case ls_MigrationFence s of
        Some f \<Rightarrow>
          if mf_TransitionID f = transitionID \<and> mf_State f = FenceFencing then Inr s
          else Inl ErrInvalidLaneTransition
      | None \<Rightarrow>
          revalidated (s\<lparr>ls_MigrationFence :=
            Some \<lparr>mf_TransitionID = transitionID, mf_State = FenceFencing\<rparr>\<rparr>))"

definition fence_step :: "FenceState \<Rightarrow> FenceState \<Rightarrow> bool" where
  "fence_step current next_state \<longleftrightarrow>
     current = FenceFencing \<and> (next_state = FenceFenced \<or> next_state = FenceAborting) \<or>
     current = FenceFenced \<and> next_state = FenceAborting \<or>
     current = FenceAborting \<and> next_state = FenceAborted"

definition AdvanceMigrationFence :: "LaneState \<Rightarrow> string \<Rightarrow> FenceState \<Rightarrow> LaneState result" where
  "AdvanceMigrationFence s transitionID next_state =
     (if LaneState_Validate s \<noteq> Inr () \<or> \<not> ls_Enabled s then Inl ErrInvalidLaneTransition
      else case ls_MigrationFence s of
        None \<Rightarrow> Inl ErrInvalidLaneTransition
      | Some f \<Rightarrow>
          if mf_TransitionID f \<noteq> transitionID then Inl ErrInvalidLaneTransition
          else if mf_State f = next_state then Inr s
          else if \<not> fence_step (mf_State f) next_state then Inl ErrInvalidLaneTransition
          else revalidated (s\<lparr>ls_MigrationFence := Some (f\<lparr>mf_State := next_state\<rparr>)\<rparr>))"

definition AllowsMutation :: "LaneState \<Rightarrow> bool" where
  "AllowsMutation s \<longleftrightarrow>
     \<not> ls_Enabled s \<or>
     LaneState_Validate s = Inr () \<and> ls_MigrationFence s = None \<and>
     (case ls_Active s of None \<Rightarrow> False
      | Some a \<Rightarrow> li_Role (lc_Identity a) = RoleCandidateAdmission \<and> lc_Phase a = PhaseOpen)"

section \<open>Steps and runs\<close>

datatype lane_op =
    OpPrepare LaneIdentity
  | OpClose LaneIdentity
  | OpSwitch
  | OpAdvance LaneIdentity Phase
  | OpBeginFence string
  | OpAdvanceFence string FenceState

fun lane_apply :: "LaneState \<Rightarrow> lane_op \<Rightarrow> LaneState result" where
  "lane_apply s (OpPrepare i) = PrepareCandidate s i"
| "lane_apply s (OpClose i) = BeginActiveRuntimeClosure s i"
| "lane_apply s OpSwitch = SwitchPendingToActive s"
| "lane_apply s (OpAdvance i p) = AdvanceCandidate s i p"
| "lane_apply s (OpBeginFence t) = BeginMigrationFence s t"
| "lane_apply s (OpAdvanceFence t f) = AdvanceMigrationFence s t f"

text \<open>A refused operation leaves the state unchanged.\<close>

definition lane_next :: "LaneState \<Rightarrow> lane_op \<Rightarrow> LaneState" where
  "lane_next s op = (case lane_apply s op of Inl _ \<Rightarrow> s | Inr s' \<Rightarrow> s')"

definition lane_run :: "LaneState \<Rightarrow> lane_op list \<Rightarrow> LaneState" where
  "lane_run s ops = foldl lane_next s ops"

lemmas lane_op_defs = PrepareCandidate_def BeginActiveRuntimeClosure_def SwitchPendingToActive_def
  AdvanceCandidate_def advance_active_def no_target_def BeginMigrationFence_def
  AdvanceMigrationFence_def

lemma revalidated_Inr [simp]: "revalidated s = Inr s' \<longleftrightarrow> LaneState_Validate s = Inr () \<and> s' = s"
  by (auto simp: revalidated_def tx_simps)

lemma acceptEpoch_Inr:
  "acceptEpoch s i = Inr s' \<longleftrightarrow> ls_HighWaterEpoch s < li_Epoch i \<and>
     s' = s\<lparr>ls_HighWaterEpoch := li_Epoch i, ls_LastIdentity := Some i\<rparr>"
  by (auto simp: acceptEpoch_def split: option.splits)

text \<open>What an accepted operation does to the parts of the state.\<close>

lemma lane_apply_valid: "lane_apply s op = Inr s' \<Longrightarrow> LaneState_Validate s' = Inr ()"
  by (cases op) (auto simp: lane_op_defs tx_simps acceptable_def split: if_splits option.splits)

lemma lane_apply_frame:
  "lane_apply s op = Inr s' \<Longrightarrow>
   ls_Enabled s' = ls_Enabled s \<and> ls_Lane s' = ls_Lane s \<and> ls_HostID s' = ls_HostID s"
  by (cases op) (auto simp: lane_op_defs tx_simps acceptEpoch_Inr split: if_splits option.splits)

lemma lane_apply_epoch:
  "lane_apply s op = Inr s' \<Longrightarrow>
   ls_HighWaterEpoch s' = ls_HighWaterEpoch s \<and> ls_LastIdentity s' = ls_LastIdentity s \<or>
   ls_HighWaterEpoch s < ls_HighWaterEpoch s'"
  by (cases op) (auto simp: lane_op_defs tx_simps acceptEpoch_Inr split: if_splits option.splits)

lemma lane_apply_fence:
  "lane_apply s op = Inr s' \<Longrightarrow> ls_MigrationFence s = Some f \<Longrightarrow>
   \<exists>f'. ls_MigrationFence s' = Some f' \<and> mf_TransitionID f' = mf_TransitionID f \<and>
     (mf_State f' = mf_State f \<or> fence_step (mf_State f) (mf_State f'))"
  by (cases op) (auto simp: lane_op_defs tx_simps acceptEpoch_Inr split: if_splits option.splits)

lemma LaneState_Validate_enabled:
  "ls_Enabled s \<Longrightarrow> LaneState_Validate s = Inr () \<longleftrightarrow>
     validLane (ls_Lane s) \<and> validHost (ls_HostID s) \<and>
     (ls_HighWaterEpoch s = 0 \<longleftrightarrow> ls_LastIdentity s = None) \<and>
     pred_option (\<lambda>i. validateIdentity i = Inr () \<and> li_Lane i = ls_Lane s \<and>
       li_HostID i = ls_HostID s \<and> li_Epoch i = ls_HighWaterEpoch s \<and>
       (has_identity (ls_Active s) i \<or> has_identity (ls_Pending s) i)) (ls_LastIdentity s) \<and>
     pred_option (\<lambda>c. validateContext s c = Inr ()) (ls_Active s) \<and>
     pred_option (\<lambda>c. validateContext s c = Inr () \<and>
       li_Role (lc_Identity c) = RoleCandidateAdmission \<and> lc_Phase c = PhaseClosed) (ls_Pending s) \<and>
     pred_option (\<lambda>p. pred_option (\<lambda>a. li_Epoch (lc_Identity a) < li_Epoch (lc_Identity p))
       (ls_Active s)) (ls_Pending s) \<and>
     pred_option (\<lambda>f. validID (mf_TransitionID f) \<and> validFenceState (mf_State f)) (ls_MigrationFence s)"
proof -
  have phase: "\<not> (li_Role (lc_Identity c) = RoleCandidateAdmission \<and> \<not> validPhase (lc_Phase c) \<or>
      li_Role (lc_Identity c) = RoleActiveRuntimeClosure \<and> lc_Phase c \<noteq> PhaseClosed)"
    if "validateContext s c = Inr ()" for c
    using that by (auto simp: validateContext_def split: if_splits)
  assume "ls_Enabled s"
  then show ?thesis
    unfolding LaneState_Validate_def
    using phase by (cases "ls_LastIdentity s"; cases "ls_Active s"; cases "ls_Pending s";
      cases "ls_MigrationFence s") (auto simp: not_le)
qed

lemma validateContext_Inr:
  "validateContext s c = Inr u \<longleftrightarrow>
     validateIdentity (lc_Identity c) = Inr () \<and> li_Lane (lc_Identity c) = ls_Lane s \<and>
     li_HostID (lc_Identity c) = ls_HostID s \<and> li_Epoch (lc_Identity c) \<le> ls_HighWaterEpoch s \<and>
     (if li_Role (lc_Identity c) = RoleActiveRuntimeClosure then lc_Phase c = PhaseClosed
      else validPhase (lc_Phase c))"
  by (auto simp: validateContext_def validateIdentity_def split: if_splits)

lemma NewState_Inr:
  "NewState lane host = Inr s \<longleftrightarrow> validLane lane \<and> validHost host \<and>
     s = \<lparr>ls_Enabled = True, ls_Lane = lane, ls_HostID = host, ls_HighWaterEpoch = 0,
        ls_LastIdentity = None, ls_Active = None, ls_Pending = None, ls_MigrationFence = None\<rparr>"
  by (auto simp: NewState_def tx_simps Let_def LaneState_Validate_enabled)

text \<open>A runtime closure or no context at all: nothing is admitted and a candidate may be staged.\<close>

definition lane_idle :: "LaneState \<Rightarrow> bool" where
  "lane_idle s \<longleftrightarrow> LaneState_Validate s = Inr () \<and> ls_Enabled s \<and> ls_MigrationFence s = None \<and>
     ls_Pending s = None \<and> \<not> active_not_closed s"

definition staged :: "LaneState \<Rightarrow> LaneIdentity \<Rightarrow> LaneState" where
  "staged s i = s\<lparr>ls_HighWaterEpoch := li_Epoch i, ls_LastIdentity := Some i,
     ls_Pending := Some \<lparr>lc_Identity = i, lc_Phase = PhaseClosed\<rparr>\<rparr>"

definition activated :: "LaneState \<Rightarrow> LaneIdentity \<Rightarrow> Phase \<Rightarrow> LaneState" where
  "activated s i p = s\<lparr>ls_HighWaterEpoch := li_Epoch i, ls_LastIdentity := Some i,
     ls_Active := Some \<lparr>lc_Identity = i, lc_Phase = p\<rparr>, ls_Pending := None\<rparr>"

lemma staged_valid:
  assumes "lane_idle s" "acceptable s RoleCandidateAdmission i" "ls_HighWaterEpoch s < li_Epoch i"
  shows "LaneState_Validate (staged s i) = Inr ()"
  using assms
  by (cases "ls_Active s")
    (auto simp: lane_idle_def acceptable_def staged_def LaneState_Validate_enabled
      validateContext_Inr has_identity_def sameIdentity_def)

lemma activated_valid:
  assumes "lane_idle s" "acceptable s RoleCandidateAdmission i" "validPhase p"
    "ls_HighWaterEpoch s < li_Epoch i"
  shows "LaneState_Validate (activated s i p) = Inr ()"
  using assms
  by (auto simp: lane_idle_def acceptable_def activated_def LaneState_Validate_enabled
      validateContext_Inr has_identity_def sameIdentity_def)

lemma prepare_idle:
  assumes "lane_idle s" "acceptable s RoleCandidateAdmission i" "ls_HighWaterEpoch s < li_Epoch i"
  shows "PrepareCandidate s i = Inr (staged s i)"
proof -
  have "ls_Active s = Some a \<Longrightarrow> lc_Identity a \<noteq> i" for a
    using assms by (auto simp: lane_idle_def LaneState_Validate_enabled validateContext_Inr)
  then show ?thesis
    using assms staged_valid [OF assms]
    by (auto simp: PrepareCandidate_def lane_idle_def acceptEpoch_def sameIdentity_def staged_def
        split: option.splits)
qed

lemma switch_staged:
  assumes "lane_idle s" "acceptable s RoleCandidateAdmission i" "ls_HighWaterEpoch s < li_Epoch i"
  shows "SwitchPendingToActive (staged s i) = Inr (activated s i PhaseClosed)"
proof -
  have "\<not> active_not_closed (staged s i)"
    using assms(1) by (simp add: lane_idle_def staged_def active_not_closed_def)
  moreover have "(staged s i)\<lparr>ls_Active := Some \<lparr>lc_Identity = i, lc_Phase = PhaseClosed\<rparr>, ls_Pending := None\<rparr> =
      activated s i PhaseClosed"
    by (simp add: staged_def activated_def)
  moreover have "ls_Pending (staged s i) = Some \<lparr>lc_Identity = i, lc_Phase = PhaseClosed\<rparr>"
    "ls_Enabled (staged s i)" "ls_MigrationFence (staged s i) = None"
    using assms(1) by (simp_all add: staged_def lane_idle_def)
  ultimately show ?thesis
    using staged_valid [OF assms] activated_valid [OF assms(1,2) _ assms(3), of PhaseClosed]
    by (simp add: SwitchPendingToActive_def)
qed

lemma advance_activated:
  assumes "lane_idle s" "acceptable s RoleCandidateAdmission i" "ls_HighWaterEpoch s < li_Epoch i"
    "phase_step p q"
  shows "AdvanceCandidate (activated s i p) i q = Inr (activated s i q)"
proof -
  have "validPhase p" "validPhase q" "p \<noteq> q" using assms(4) by (auto simp: phase_step_def)
  moreover from this have "acceptable (activated s i p) RoleCandidateAdmission i"
    using assms activated_valid [OF assms(1,2) _ assms(3), of p]
    by (simp add: acceptable_def lane_idle_def) (simp add: activated_def)
  moreover have "(activated s i p)\<lparr>ls_Active := Some \<lparr>lc_Identity = i, lc_Phase = q\<rparr>\<rparr> = activated s i q"
    by (simp add: activated_def)
  moreover have "ls_Active (activated s i p) = Some \<lparr>lc_Identity = i, lc_Phase = p\<rparr>"
    "ls_Pending (activated s i p) = None" "ls_MigrationFence (activated s i p) = None"
    using assms(1) by (simp_all add: activated_def lane_idle_def)
  ultimately show ?thesis
    using activated_valid [OF assms(1,2) _ assms(3), of q] assms(4)
    by (simp add: AdvanceCandidate_def advance_active_def sameIdentity_def)
qed

section \<open>What holds of every run\<close>

definition lane_inv :: "LaneState \<Rightarrow> bool" where
  "lane_inv s \<longleftrightarrow> ls_Enabled s \<and> LaneState_Validate s = Inr ()"

text \<open>How a later state relates to an earlier one: the same lane and host, an epoch at least as
  high that is still bound to the same identity if it is equal, and a fence that stays.\<close>

definition lane_later :: "LaneState \<Rightarrow> LaneState \<Rightarrow> bool" where
  "lane_later s t \<longleftrightarrow>
     ls_Lane t = ls_Lane s \<and> ls_HostID t = ls_HostID s \<and>
     (ls_HighWaterEpoch t = ls_HighWaterEpoch s \<and> ls_LastIdentity t = ls_LastIdentity s \<or>
      ls_HighWaterEpoch s < ls_HighWaterEpoch t) \<and>
     (ls_MigrationFence s \<noteq> None \<longrightarrow>
        map_option mf_TransitionID (ls_MigrationFence t) = map_option mf_TransitionID (ls_MigrationFence s))"

lemma lane_next_cases:
  obtains "lane_next s op = s" | "lane_apply s op = Inr (lane_next s op)"
  by (cases "lane_apply s op") (simp_all add: lane_next_def)

lemma lane_apply_later: "lane_apply s op = Inr t \<Longrightarrow> lane_later s t"
  using lane_apply_frame [of s op t] lane_apply_epoch [of s op t] lane_apply_fence [of s op t]
  by (cases "ls_MigrationFence s") (auto simp: lane_later_def)

interpretation lane_system: step_system lane_next lane_inv lane_later
proof
  fix s op
  assume inv: "lane_inv s"
  show "lane_inv (lane_next s op)"
    using lane_apply_frame lane_apply_valid inv
    by (cases rule: lane_next_cases [of s op]) (auto simp: lane_inv_def)
  show "lane_later s (lane_next s op)"
    using lane_apply_later by (cases rule: lane_next_cases [of s op]) (auto simp: lane_later_def)
next
  fix s t u
  show "lane_later s s" by (simp add: lane_later_def)
  assume "lane_later s t" "lane_later t u"
  then show "lane_later s u" by (cases "ls_MigrationFence s") (auto simp: lane_later_def)
qed

lemma NewState_inv: "NewState lane host = Inr s \<Longrightarrow> lane_inv s"
  by (auto simp: NewState_Inr lane_inv_def LaneState_Validate_enabled)

text \<open>Along any sequence of lane operations after configuration, accepted or refused, the state
  stays valid, its lane and host never change, its high-water epoch never decreases, and an epoch
  stays bound to one identity: while the epoch is unchanged, so is the identity accepted under it.\<close>

theorem lane_epochs_bound:
  assumes "NewState lane host = Inr s0" "s = lane_run s0 before" "t = lane_run s after"
  shows "LaneState_Validate t = Inr () \<and> ls_Enabled t \<and> ls_Lane t = lane \<and> ls_HostID t = host \<and>
    ls_HighWaterEpoch s \<le> ls_HighWaterEpoch t \<and>
    (ls_HighWaterEpoch s = ls_HighWaterEpoch t \<longrightarrow> ls_LastIdentity s = ls_LastIdentity t)"
proof -
  have s: "lane_inv s" "lane_later s0 s"
    using NewState_inv [OF assms(1)] lane_system.run_inv lane_system.run_rel
    by (auto simp: assms(2) lane_run_def)
  have "lane_inv t" "lane_later s t"
    unfolding assms(3) lane_run_def
    by (rule lane_system.run_inv [OF s(1)], rule lane_system.run_rel [OF s(1)])
  moreover have "ls_Lane s0 = lane" "ls_HostID s0 = host" using assms(1) by (simp_all add: NewState_Inr)
  ultimately show ?thesis
    using s unfolding lane_inv_def lane_later_def by (metis less_imp_le nless_le order_refl)
qed

text \<open>C37. Once a migration fence is set it is never removed: after any further operations the same
  transition's fence is still there and the lane admits no mutation, even if the fence has been
  aborted in between.\<close>

theorem lane_fence_permanent:
  assumes "ls_Enabled s" "LaneState_Validate s = Inr ()" "ls_MigrationFence s = Some f"
  shows "map_option mf_TransitionID (ls_MigrationFence (lane_run s ops)) = Some (mf_TransitionID f) \<and>
    \<not> AllowsMutation (lane_run s ops)"
proof -
  have "lane_inv s" using assms by (simp add: lane_inv_def)
  then have "lane_inv (lane_run s ops)" "lane_later s (lane_run s ops)"
    unfolding lane_run_def by (rule lane_system.run_inv, rule lane_system.run_rel)
  then show ?thesis using assms(3) by (auto simp: lane_inv_def lane_later_def AllowsMutation_def)
qed

text \<open>A lane that is idle (no pending candidate, no fence, and no active context other than a
  closed one) can be opened: staging a fresh candidate, switching to it and advancing it through
  transport-ready to open all succeed, only the last step admits mutations, and skipping a phase is
  refused.\<close>

theorem lane_opens:
  assumes "lane_idle s" "acceptable s RoleCandidateAdmission i" "ls_HighWaterEpoch s < li_Epoch i"
  shows "lane_run s [OpPrepare i, OpSwitch, OpAdvance i PhaseTransportReady, OpAdvance i PhaseOpen] =
      activated s i PhaseOpen \<and>
    AllowsMutation (activated s i PhaseOpen) \<and>
    \<not> AllowsMutation (lane_run s [OpPrepare i, OpSwitch, OpAdvance i PhaseTransportReady]) \<and>
    lane_apply (lane_run s [OpPrepare i, OpSwitch]) (OpAdvance i PhaseOpen) = Inl ErrInvalidLaneTransition"
proof -
  note prep = prepare_idle [OF assms] and switch = switch_staged [OF assms]
  have steps: "phase_step PhaseClosed PhaseTransportReady" "phase_step PhaseTransportReady PhaseOpen"
    by (simp_all add: phase_step_def)
  note adv = advance_activated [OF assms steps(1)] advance_activated [OF assms steps(2)]
  have valid: "LaneState_Validate (activated s i PhaseOpen) = Inr ()"
    "LaneState_Validate (activated s i PhaseClosed) = Inr ()"
    by (rule activated_valid [OF assms(1,2) _ assms(3)]; simp)+
  have fields: "ls_Enabled (activated s i p)" "ls_MigrationFence (activated s i p) = None"
    "ls_Active (activated s i p) = Some \<lparr>lc_Identity = i, lc_Phase = p\<rparr>"
    "ls_Pending (activated s i p) = None" "ls_Lane (activated s i p) = ls_Lane s"
    "ls_HostID (activated s i p) = ls_HostID s" for p
    using assms(1) by (simp_all add: activated_def lane_idle_def)
  have role: "li_Role i = RoleCandidateAdmission" using assms(2) by (simp add: acceptable_def)
  have "AdvanceCandidate (activated s i PhaseClosed) i PhaseOpen = Inl ErrInvalidLaneTransition"
    using assms(2) valid fields
    by (simp add: AdvanceCandidate_def advance_active_def acceptable_def sameIdentity_def phase_step_def)
  then show ?thesis
    using prep switch adv valid fields role
    by (simp add: lane_run_def lane_next_def AllowsMutation_def)
qed

definition sample_lane :: LaneState where
  "sample_lane = \<lparr>ls_Enabled = True, ls_Lane = LaneDev, ls_HostID = HostLinux,
     ls_HighWaterEpoch = 0, ls_LastIdentity = None, ls_Active = None, ls_Pending = None,
     ls_MigrationFence = None\<rparr>"

definition sample_identity :: LaneIdentity where
  "sample_identity = \<lparr>li_Lane = LaneDev, li_HostID = HostLinux, li_TransitionID = ''t1'',
     li_CandidateManifestID = ''m1'',
     li_ConfigurationDigest = ''sha256:'' @ replicate 64 (CHR ''0''), li_Role = RoleCandidateAdmission,
     li_Epoch = 1\<rparr>"

definition sample_fence :: MigrationFence where
  "sample_fence = \<lparr>mf_TransitionID = ''t1'', mf_State = FenceAborted\<rparr>"

lemma sample_lane_new: "NewState LaneDev HostLinux = Inr sample_lane"
  by (simp add: NewState_Inr sample_lane_def)

lemma sample_ids: "validID ''t1''" "validID ''m1''"
  by (simp_all add: validID_def is_id_char_def is_alnum_def is_digit_def)

lemma sample_identity_acceptable: "acceptable sample_lane RoleCandidateAdmission sample_identity"
proof -
  have "list_all is_lower_hex (replicate 64 (CHR ''0''))"
    by (simp add: list_all_iff is_lower_hex_def is_digit_def)
  then have "digestPattern_MatchString (''sha256:'' @ replicate 64 (CHR ''0''))"
    by (simp add: digestPattern_MatchString_def)
  then show ?thesis
    using sample_ids
    by (simp add: acceptable_def sample_lane_def sample_identity_def validateIdentity_def
        LaneState_Validate_enabled)
qed

theorem lane_epochs_bound_witness:
  "LaneState_Validate (lane_run (lane_run sample_lane []) [OpPrepare sample_identity]) = Inr () \<and>
   ls_HighWaterEpoch (lane_run sample_lane []) \<le>
     ls_HighWaterEpoch (lane_run (lane_run sample_lane []) [OpPrepare sample_identity])"
  using lane_epochs_bound [OF sample_lane_new refl refl, of "[]" "[OpPrepare sample_identity]"]
  by blast

theorem lane_fence_permanent_witness:
  "\<not> AllowsMutation (lane_run (sample_lane\<lparr>ls_MigrationFence := Some sample_fence\<rparr>)
     [OpPrepare sample_identity, OpSwitch])"
  using lane_fence_permanent [of "sample_lane\<lparr>ls_MigrationFence := Some sample_fence\<rparr>" sample_fence
      "[OpPrepare sample_identity, OpSwitch]"] sample_ids
  by (simp add: sample_lane_def sample_fence_def LaneState_Validate_enabled)

theorem lane_opens_witness:
  "AllowsMutation (lane_run sample_lane [OpPrepare sample_identity, OpSwitch,
     OpAdvance sample_identity PhaseTransportReady, OpAdvance sample_identity PhaseOpen])"
  using lane_opens [of sample_lane sample_identity] sample_identity_acceptable
  by (simp add: lane_idle_def sample_lane_def sample_identity_def LaneState_Validate_enabled
      active_not_closed_def)

end
