(* ===== verification/Authority_Schema.thy ===== *)
theory Authority_Schema
  imports Sql_Table Domain_State Domain_Policy Domain_Canonical Audit_Record Lane_Admission
begin

text \<open>
  The authority database (the tables of internal/store/migrations that the modelled store files
  use, with their CHECK, key and foreign-key constraints), the record of the
  \<open>AuthorityStore\<close> (internal/store/sessions.go), and its transactions. Timestamps are stored as
  text; the enumerations are stored as their Go types. A lane admission row is kept as what reading
  it yields (whether its digest matches and the value it decodes to), and an audit row as the record
  it decodes to: their JSON encoding is not modelled.
\<close>

section \<open>Rows\<close>

record session_row =
  ses_session_id :: string
  ses_target_kind :: TargetKind
  ses_target_profile :: string
  ses_environment :: string
  ses_controller_type :: ControllerType
  ses_controller_id :: string
  ses_source_mode :: SourceMode
  ses_source_repository_alias :: string
  ses_source_requested_revision :: string
  ses_source_path :: string
  ses_source_resolved_revision :: string
  ses_runtime_generation :: string
  ses_state :: SessionState
  ses_command_timeout_ns :: int
  ses_idle_timeout_ns :: int
  ses_session_max_lifetime_ns :: int
  ses_output_bytes_per_command :: int
  ses_created_at :: string
  ses_updated_at :: string
  ses_expires_at :: string

record lifecycle_row =
  slc_session_id :: string
  slc_sequence :: int
  slc_previous_state :: "SessionState option"
  slc_new_state :: SessionState
  slc_reason :: string
  slc_occurred_at :: string

record reservation_row =
  res_session_id :: string
  res_host_key :: string
  res_reserved_at :: string
  res_cleanup_confirmed_at :: "string option"
  res_released_at :: "string option"

record idempotency_row =
  idm_controller_type :: ControllerType
  idm_controller_id :: string
  idm_operation :: string
  idm_key :: string
  idm_hash_version :: int
  idm_hash :: bytes
  idm_resource_id :: string
  idm_created_at :: string
  idm_expires_at :: string
  idm_warning :: bool

record expiry_warning_row =
  iew_controller_type :: ControllerType
  iew_controller_id :: string
  iew_operation :: string
  iew_fingerprint :: bytes
  iew_warning_until :: string

record command_row =
  cmd_command_id :: string
  cmd_session_id :: string
  cmd_ordinal :: int
  cmd_intent_ordinal :: "int option"
  cmd_hash_version :: int
  cmd_hash :: bytes
  cmd_script_bytes :: bytes
  cmd_script_sha256 :: bytes
  cmd_state :: CommandState
  cmd_timeout_ns :: int
  cmd_exit_code :: "int option"
  cmd_final_event_sequence :: "int option"
  cmd_output_truncated :: int
  cmd_output_complete :: int
  cmd_output_unavailable_reason :: string
  cmd_created_at :: string
  cmd_updated_at :: string

record event_row =
  evt_command_id :: string
  evt_sequence :: int
  evt_type :: string
  evt_payload :: bytes
  evt_byte_count :: int
  evt_occurred_at :: string

record slot_row =
  slt_command_id :: string
  slt_host_key :: string
  slt_reserved_at :: string
  slt_stop_confirmed_at :: "string option"
  slt_released_at :: "string option"

datatype JobPhase =
    JobPhaseCreatingSession
  | JobPhaseAcceptingCommand
  | JobPhaseAwaitingCommand
  | JobPhaseClosingSession
  | JobPhaseComplete
  | JobPhaseFailed
  | JobPhaseLost
  | JobPhaseOther string

fun JobPhase_Valid :: "JobPhase \<Rightarrow> bool" where
  "JobPhase_Valid (JobPhaseOther _) = False"
| "JobPhase_Valid _ = True"

datatype JobTeardownState =
    JobTeardownPending
  | JobTeardownClosed
  | JobTeardownFailed
  | JobTeardownLost
  | JobTeardownNotCreated
  | JobTeardownOther string

fun JobTeardownState_Valid :: "JobTeardownState \<Rightarrow> bool" where
  "JobTeardownState_Valid (JobTeardownOther _) = False"
| "JobTeardownState_Valid _ = True"

record job_row =
  job_job_id :: string
  job_session_id :: string
  job_command_id :: string
  job_controller_type :: ControllerType
  job_controller_id :: string
  job_ingress :: Ingress
  job_target_kind :: TargetKind
  job_target_profile :: string
  job_environment :: string
  job_source_mode :: SourceMode
  job_source_repository_alias :: string
  job_source_requested_revision :: string
  job_source_path :: string
  job_hash_version :: int
  job_hash :: bytes
  job_idempotency_key :: string
  job_payload_json :: bytes
  job_script_bytes :: bytes
  job_script_sha256 :: bytes
  job_phase :: JobPhase
  job_command_state :: "CommandState option"
  job_exit_code :: "int option"
  job_final_event_sequence :: "int option"
  job_output_truncated :: int
  job_output_complete :: int
  job_output_unavailable_reason :: string
  job_teardown_state :: JobTeardownState
  job_teardown_reason :: string
  job_created_at :: string
  job_updated_at :: string

record plan_row =
  crp_job_id :: string
  crp_session_id :: string
  crp_command_id :: string
  crp_runtime_generation :: string
  crp_prepared_at :: string
  crp_activation_state :: string
  crp_activated_at :: "string option"

record lost_pair_row =
  clp_ordinal :: int
  clp_session_id :: string
  clp_command_id :: string

record finalization_row =
  fin_command_id :: string
  fin_session_id :: string
  fin_capacity_released_at :: string

record lane_row =
  lar_digest_ok :: bool
  lar_state :: "LaneState option"

record database =
  user_version :: int
  exec_sessions :: "session_row list"
  exec_session_lifecycle :: "lifecycle_row list"
  exec_capacity_reservations :: "reservation_row list"
  exec_idempotency :: "idempotency_row list"
  exec_idempotency_expiry_warnings :: "expiry_warning_row list"
  exec_commands :: "command_row list"
  exec_command_events :: "event_row list"
  exec_command_slots :: "slot_row list"
  exec_jobs :: "job_row list"
  exec_controlled_restart_plans :: "plan_row list"
  exec_controlled_restart_plan_lost_pairs :: "lost_pair_row list"
  exec_lost_runtime_recovery_finalizations :: "finalization_row list"
  runner_audit_records :: "AuditRecord list"
  lane_ingress_admission :: "lane_row option"

type_synonym 'a db_tx = "(database, 'a) tx"

definition CurrentSchemaVersion :: int where
  "CurrentSchemaVersion = 40"

definition empty_database :: database where
  "empty_database = \<lparr>user_version = CurrentSchemaVersion, exec_sessions = [],
     exec_session_lifecycle = [], exec_capacity_reservations = [], exec_idempotency = [],
     exec_idempotency_expiry_warnings = [], exec_commands = [], exec_command_events = [],
     exec_command_slots = [], exec_jobs = [], exec_controlled_restart_plans = [],
     exec_controlled_restart_plan_lost_pairs = [], exec_lost_runtime_recovery_finalizations = [],
     runner_audit_records = [],
     lane_ingress_admission = None\<rparr>"

section \<open>Constraints\<close>

fun known_source_mode :: "SourceMode \<Rightarrow> bool" where
  "known_source_mode (SourceModeOther _) = False"
| "known_source_mode _ = True"

definition source_columns_ok :: "session_row \<Rightarrow> bool" where
  "source_columns_ok r =
     (case ses_source_mode r of
        SourceModeEmpty \<Rightarrow> ses_source_repository_alias r = [] \<and>
          ses_source_requested_revision r = [] \<and> ses_source_path r = []
      | SourceModeGitRevision \<Rightarrow> ses_source_repository_alias r \<noteq> [] \<and>
          ses_source_requested_revision r \<noteq> [] \<and> ses_source_path r = []
      | SourceModeLocalWorktree \<Rightarrow> ses_source_repository_alias r = [] \<and>
          ses_source_requested_revision r = [] \<and> ses_source_path r \<noteq> []
      | SourceModeOther _ \<Rightarrow> False)"

definition session_check :: "session_row \<Rightarrow> bool" where
  "session_check r \<longleftrightarrow>
     sql_nonempty (ses_session_id r) \<and> known_target_kind (ses_target_kind r) \<and>
     sql_nonempty (ses_target_profile r) \<and> sql_nonempty (ses_environment r) \<and>
     known_controller_type (ses_controller_type r) \<and> sql_nonempty (ses_controller_id r) \<and>
     known_source_mode (ses_source_mode r) \<and> SessionState_Valid (ses_state r) \<and>
     0 < ses_command_timeout_ns r \<and> 0 < ses_idle_timeout_ns r \<and>
     0 < ses_session_max_lifetime_ns r \<and> 0 < ses_output_bytes_per_command r \<and>
     sql_nonempty (ses_created_at r) \<and> sql_nonempty (ses_updated_at r) \<and>
     sql_nonempty (ses_expires_at r) \<and> source_columns_ok r"

definition session_constraints :: "session_row \<Rightarrow> database \<Rightarrow> bool" where
  "session_constraints r db \<longleftrightarrow>
     session_check r \<and> ses_session_id r \<notin> ses_session_id ` set (exec_sessions db)"

definition lifecycle_key :: "lifecycle_row \<Rightarrow> string \<times> int" where
  "lifecycle_key r = (slc_session_id r, slc_sequence r)"

definition lifecycle_constraints :: "lifecycle_row \<Rightarrow> database \<Rightarrow> bool" where
  "lifecycle_constraints r db \<longleftrightarrow>
     0 < slc_sequence r \<and> pred_option SessionState_Valid (slc_previous_state r) \<and>
     SessionState_Valid (slc_new_state r) \<and> sql_nonempty (slc_reason r) \<and>
     sql_nonempty (slc_occurred_at r) \<and>
     lifecycle_key r \<notin> lifecycle_key ` set (exec_session_lifecycle db) \<and>
     slc_session_id r \<in> ses_session_id ` set (exec_sessions db)"

definition reservation_check :: "reservation_row \<Rightarrow> bool" where
  "reservation_check r \<longleftrightarrow> sql_nonempty (res_host_key r) \<and> sql_nonempty (res_reserved_at r) \<and>
     (res_cleanup_confirmed_at r = None \<longleftrightarrow> res_released_at r = None)"

definition reservation_constraints :: "reservation_row \<Rightarrow> database \<Rightarrow> bool" where
  "reservation_constraints r db \<longleftrightarrow>
     reservation_check r \<and>
     res_session_id r \<notin> res_session_id ` set (exec_capacity_reservations db) \<and>
     res_session_id r \<in> ses_session_id ` set (exec_sessions db)"

definition idempotency_key :: "idempotency_row \<Rightarrow> ControllerType \<times> string \<times> string \<times> string" where
  "idempotency_key r = (idm_controller_type r, idm_controller_id r, idm_operation r, idm_key r)"

definition idempotency_constraints :: "idempotency_row \<Rightarrow> database \<Rightarrow> bool" where
  "idempotency_constraints r db \<longleftrightarrow>
     known_controller_type (idm_controller_type r) \<and> sql_nonempty (idm_controller_id r) \<and>
     sql_nonempty (idm_operation r) \<and> sql_nonempty (idm_key r) \<and> 0 < idm_hash_version r \<and>
     length (idm_hash r) = 32 \<and> sql_nonempty (idm_resource_id r) \<and>
     sql_nonempty (idm_created_at r) \<and> sql_nonempty (idm_expires_at r) \<and>
     idempotency_key r \<notin> idempotency_key ` set (exec_idempotency db)"

definition expiry_warning_key :: "expiry_warning_row \<Rightarrow> ControllerType \<times> string \<times> string \<times> bytes" where
  "expiry_warning_key r =
     (iew_controller_type r, iew_controller_id r, iew_operation r, iew_fingerprint r)"

definition expiry_warning_check :: "expiry_warning_row \<Rightarrow> bool" where
  "expiry_warning_check r \<longleftrightarrow>
     known_controller_type (iew_controller_type r) \<and> sql_nonempty (iew_controller_id r) \<and>
     sql_nonempty (iew_operation r) \<and> length (iew_fingerprint r) = 32 \<and>
     sql_nonempty (iew_warning_until r)"

definition expiry_warning_constraints :: "expiry_warning_row \<Rightarrow> database \<Rightarrow> bool" where
  "expiry_warning_constraints r db \<longleftrightarrow> expiry_warning_check r \<and>
     expiry_warning_key r \<notin> expiry_warning_key ` set (exec_idempotency_expiry_warnings db)"

definition command_check :: "command_row \<Rightarrow> bool" where
  "command_check r \<longleftrightarrow>
     sql_nonempty (cmd_command_id r) \<and> 0 < cmd_ordinal r \<and>
     pred_option (\<lambda>n. 0 < n) (cmd_intent_ordinal r) \<and> 0 < cmd_hash_version r \<and>
     length (cmd_hash r) = 32 \<and> length (cmd_script_sha256 r) = 32 \<and>
     CommandState_Valid (cmd_state r) \<and> 0 < cmd_timeout_ns r \<and>
     pred_option (\<lambda>n. 0 < n) (cmd_final_event_sequence r) \<and>
     cmd_output_truncated r \<in> {0, 1} \<and> cmd_output_complete r \<in> {0, 1} \<and>
     sql_nonempty (cmd_created_at r) \<and> sql_nonempty (cmd_updated_at r)"

definition command_constraints :: "command_row \<Rightarrow> database \<Rightarrow> bool" where
  "command_constraints r db \<longleftrightarrow>
     command_check r \<and> cmd_command_id r \<notin> cmd_command_id ` set (exec_commands db) \<and>
     (cmd_session_id r, cmd_ordinal r) \<notin>
       (\<lambda>c. (cmd_session_id c, cmd_ordinal c)) ` set (exec_commands db) \<and>
     cmd_session_id r \<in> ses_session_id ` set (exec_sessions db)"

definition command_event_types :: "string list" where
  "command_event_types = [''command_queued'', ''command_started'', ''stdout'', ''stderr'',
     ''output_truncated'', ''command_succeeded'', ''command_failed'', ''command_cancelled'',
     ''command_timed_out'', ''command_rejected'', ''command_lost'']"

definition event_key :: "event_row \<Rightarrow> string \<times> int" where
  "event_key r = (evt_command_id r, evt_sequence r)"

definition event_constraints :: "event_row \<Rightarrow> database \<Rightarrow> bool" where
  "event_constraints r db \<longleftrightarrow>
     0 < evt_sequence r \<and> evt_type r \<in> set command_event_types \<and> 0 \<le> evt_byte_count r \<and>
     sql_nonempty (evt_occurred_at r) \<and>
     event_key r \<notin> event_key ` set (exec_command_events db) \<and>
     evt_command_id r \<in> cmd_command_id ` set (exec_commands db)"

definition slot_check :: "slot_row \<Rightarrow> bool" where
  "slot_check r \<longleftrightarrow> sql_nonempty (slt_host_key r) \<and> sql_nonempty (slt_reserved_at r) \<and>
     (slt_stop_confirmed_at r = None \<longleftrightarrow> slt_released_at r = None)"

definition slot_constraints :: "slot_row \<Rightarrow> database \<Rightarrow> bool" where
  "slot_constraints r db \<longleftrightarrow>
     slot_check r \<and> slt_command_id r \<notin> slt_command_id ` set (exec_command_slots db) \<and>
     slt_command_id r \<in> cmd_command_id ` set (exec_commands db)"

definition plan_check :: "plan_row \<Rightarrow> bool" where
  "plan_check r \<longleftrightarrow>
     sql_nonempty (crp_job_id r) \<and> sql_nonempty (crp_session_id r) \<and> sql_nonempty (crp_command_id r) \<and>
     sql_nonempty (crp_runtime_generation r) \<and> sql_nonempty (crp_prepared_at r) \<and>
     (crp_activation_state r = ''prepared'' \<and> crp_activated_at r = None \<or>
      crp_activation_state r = ''active'' \<and> crp_activated_at r \<noteq> None)"

text \<open>The plan key is the constant 1, so the table holds at most one row.\<close>

definition plan_constraints :: "plan_row \<Rightarrow> database \<Rightarrow> bool" where
  "plan_constraints r db \<longleftrightarrow>
     plan_check r \<and> exec_controlled_restart_plans db = [] \<and>
     crp_job_id r \<in> job_job_id ` set (exec_jobs db) \<and>
     crp_session_id r \<in> ses_session_id ` set (exec_sessions db) \<and>
     crp_command_id r \<in> cmd_command_id ` set (exec_commands db)"

definition lost_pair_constraints :: "lost_pair_row \<Rightarrow> database \<Rightarrow> bool" where
  "lost_pair_constraints r db \<longleftrightarrow>
     1 \<le> clp_ordinal r \<and> clp_ordinal r \<le> 4 \<and> sql_nonempty (clp_session_id r) \<and>
     sql_nonempty (clp_command_id r) \<and>
     clp_ordinal r \<notin> clp_ordinal ` set (exec_controlled_restart_plan_lost_pairs db) \<and>
     clp_session_id r \<notin> clp_session_id ` set (exec_controlled_restart_plan_lost_pairs db) \<and>
     clp_command_id r \<notin> clp_command_id ` set (exec_controlled_restart_plan_lost_pairs db) \<and>
     exec_controlled_restart_plans db \<noteq> [] \<and>
     clp_session_id r \<in> ses_session_id ` set (exec_sessions db) \<and>
     clp_command_id r \<in> cmd_command_id ` set (exec_commands db)"

definition finalization_constraints :: "finalization_row \<Rightarrow> database \<Rightarrow> bool" where
  "finalization_constraints r db \<longleftrightarrow>
     sql_nonempty (fin_capacity_released_at r) \<and>
     fin_command_id r \<notin> fin_command_id ` set (exec_lost_runtime_recovery_finalizations db) \<and>
     fin_session_id r \<notin> fin_session_id ` set (exec_lost_runtime_recovery_finalizations db) \<and>
     fin_command_id r \<in> cmd_command_id ` set (exec_commands db) \<and>
     fin_session_id r \<in> ses_session_id ` set (exec_sessions db)"

definition audit_constraints :: "AuditRecord \<Rightarrow> database \<Rightarrow> bool" where
  "audit_constraints r db \<longleftrightarrow>
     sql_length (ci_id (ar_Principal r)) \<in> {1..256} \<and>
     sql_length (ControllerType_string (ci_type (ar_Principal r))) \<in> {1..64} \<and>
     ValidIngress (ar_Ingress r) \<and> sql_length (ar_Environment r) \<le> 256 \<and>
     known_action (ar_Action r) \<and>
     (ar_Outcome r = OutcomeAllowed \<and> ar_Action r \<noteq> ActionRuntimeCleanup \<and> ar_ReasonCode r = [] \<or>
      ar_Outcome r = OutcomeDenied \<and> ar_Action r \<noteq> ActionRuntimeCleanup \<and>
        ar_ReasonCode r \<in> {ReasonEnvironmentDenied, ReasonPolicyDenied, ReasonControllerDenied} \<or>
      ar_Outcome r = OutcomeFailed \<and> ar_Action r = ActionRuntimeCleanup \<and>
        ar_ReasonCode r = ReasonRuntimeCleanupUnconfirmed \<and> ar_SessionID r \<noteq> []) \<and>
     ar_ID r \<notin> ar_ID ` set (runner_audit_records db)"

section \<open>The tables keep the contract of keyed tables\<close>

interpretation sessions_table: keyed_table exec_sessions exec_sessions_update ses_session_id
  session_constraints
  by unfold_locales (simp_all add: session_constraints_def)

interpretation lifecycle_table: keyed_table exec_session_lifecycle exec_session_lifecycle_update
  lifecycle_key lifecycle_constraints
  by unfold_locales (simp_all add: lifecycle_constraints_def)

interpretation reservations_table: keyed_table exec_capacity_reservations
  exec_capacity_reservations_update res_session_id reservation_constraints
  by unfold_locales (simp_all add: reservation_constraints_def)

interpretation idempotency_table: keyed_table exec_idempotency exec_idempotency_update
  idempotency_key idempotency_constraints
  by unfold_locales (simp_all add: idempotency_constraints_def)

interpretation expiry_warnings_table: keyed_table exec_idempotency_expiry_warnings
  exec_idempotency_expiry_warnings_update expiry_warning_key expiry_warning_constraints
  by unfold_locales (simp_all add: expiry_warning_constraints_def)

interpretation commands_table: keyed_table exec_commands exec_commands_update cmd_command_id
  command_constraints
  by unfold_locales (simp_all add: command_constraints_def)

interpretation events_table: keyed_table exec_command_events exec_command_events_update event_key
  event_constraints
  by unfold_locales (simp_all add: event_constraints_def)

interpretation slots_table: keyed_table exec_command_slots exec_command_slots_update slt_command_id
  slot_constraints
  by unfold_locales (simp_all add: slot_constraints_def)

interpretation finalizations_table: keyed_table exec_lost_runtime_recovery_finalizations
  exec_lost_runtime_recovery_finalizations_update fin_command_id finalization_constraints
  by unfold_locales (simp_all add: finalization_constraints_def)

interpretation audit_table: keyed_table runner_audit_records runner_audit_records_update ar_ID
  audit_constraints
  by unfold_locales (simp_all add: audit_constraints_def)

section \<open>The store\<close>

record CommandEventRecord =
  cer_CommandID :: CommandID
  cer_Sequence :: int
  cer_Type :: string
  cer_Payload :: bytes
  cer_ByteCount :: int
  cer_OccurredAt :: time

text \<open>\<open>events\<close> and \<open>errors\<close> are the contents of the two channels; \<open>charged\<close> is
  the Go map from a sequence to its byte charge.\<close>

record CommandEventSubscription =
  sub_commandID :: CommandID
  sub_capacity :: int
  sub_maxBytes :: int
  sub_events :: "CommandEventRecord list"
  sub_errors :: "go_error list"
  sub_replaying :: bool
  sub_pending :: "CommandEventRecord list"
  sub_charged :: "(int \<times> int) list"
  sub_bufferedBytes :: int
  sub_lastSequence :: int
  sub_closed :: bool

text \<open>
  Subscriptions are shared objects: \<open>st_subscriptions\<close> is the heap they live in, addressed by
  position, and \<open>st_subscribersByID\<close> the addresses registered for delivery (the code's map
  by command is recovered from each subscription's command). \<open>st_audit_log\<close> is what the
  process has written to its log.
\<close>

record AuthorityStore =
  st_db :: database
  st_storageErrors :: int
  st_laneAdmissionRuntime :: bool
  st_audit_log :: "AuditRecord list"
  st_subscriptions :: "CommandEventSubscription list"
  st_subscribersByID :: "nat list"

definition NewAuthorityStore :: "database \<Rightarrow> AuthorityStore" where
  "NewAuthorityStore db = \<lparr>st_db = db, st_storageErrors = 0, st_laneAdmissionRuntime = False,
     st_audit_log = [], st_subscriptions = [], st_subscribersByID = []\<rparr>"

section \<open>Transactions\<close>

text \<open>
  \<open>fault\<close> is a failure of the driver or the context at any statement of the transaction,
  BEGIN and COMMIT included: the transaction is rolled back and the error returned. An error of the
  driver is counted.
\<close>

definition count_error :: "go_error \<Rightarrow> AuthorityStore \<Rightarrow> AuthorityStore" where
  "count_error e s =
     (if errors_Is e SQLiteError then s\<lparr>st_storageErrors := st_storageErrors s + 1\<rparr> else s)"

definition withImmediateTransaction ::
  "go_error option \<Rightarrow> AuthorityStore \<Rightarrow> 'a db_tx \<Rightarrow> 'a result \<times> AuthorityStore" where
  "withImmediateTransaction fault s body =
     (case fault of
        Some e \<Rightarrow> (Inl e, count_error e s)
      | None \<Rightarrow>
          (case body (st_db s) of
             Inl e \<Rightarrow> (Inl e, count_error e s)
           | Inr (x, db) \<Rightarrow> (Inr x, s\<lparr>st_db := db\<rparr>)))"

definition withStoreReadTransaction ::
  "go_error option \<Rightarrow> AuthorityStore \<Rightarrow> (database \<Rightarrow> 'a result) \<Rightarrow> 'a result \<times> AuthorityStore" where
  "withStoreReadTransaction fault s body =
     (case fault of
        Some e \<Rightarrow> (Inl e, count_error e s)
      | None \<Rightarrow>
          (case body (st_db s) of
             Inl e \<Rightarrow> (Inl e, count_error e s)
           | Inr x \<Rightarrow> (Inr x, s)))"

text \<open>A plain read on a connection of its own: no transaction and no error count.\<close>

definition onConnection :: "go_error option \<Rightarrow> AuthorityStore \<Rightarrow> (database \<Rightarrow> 'a result) \<Rightarrow> 'a result" where
  "onConnection fault s body = (case fault of Some e \<Rightarrow> Inl e | None \<Rightarrow> body (st_db s))"

lemma st_db_count_error [simp]: "st_db (count_error e s) = st_db s"
  by (simp add: count_error_def)

lemma withImmediateTransaction_Inr [tx_simps]:
  "withImmediateTransaction fault s body = (Inr x, s') \<longleftrightarrow>
     fault = None \<and> (\<exists>db. body (st_db s) = Inr (x, db) \<and> s' = s\<lparr>st_db := db\<rparr>)"
  by (auto simp: withImmediateTransaction_def split: option.splits sum.splits)

lemma withImmediateTransaction_Inl:
  "withImmediateTransaction fault s body = (Inl e, s') \<Longrightarrow> st_db s' = st_db s"
  by (auto simp: withImmediateTransaction_def split: option.splits sum.splits)

lemma withImmediateTransaction_keeps:
  assumes "tx_keeps I body" "I (st_db s)"
  shows "I (st_db (snd (withImmediateTransaction fault s body)))"
  using assms by (auto simp: withImmediateTransaction_def tx_keeps_def split: option.splits sum.splits)

lemma withStoreReadTransaction_db [simp]:
  "st_db (snd (withStoreReadTransaction fault s body)) = st_db s"
  by (auto simp: withStoreReadTransaction_def split: option.splits sum.splits)

lemma count_error_fields [simp]:
  "st_laneAdmissionRuntime (count_error e s) = st_laneAdmissionRuntime s"
  "st_audit_log (count_error e s) = st_audit_log s"
  "st_subscriptions (count_error e s) = st_subscriptions s"
  "st_subscribersByID (count_error e s) = st_subscribersByID s"
  by (simp_all add: count_error_def)

lemma withImmediateTransaction_cases:
  obtains (rollback) e where "withImmediateTransaction fault s body = (Inl e, count_error e s)"
  | (commit) x db where "fault = None" "body (st_db s) = Inr (x, db)"
      "withImmediateTransaction fault s body = (Inr x, s\<lparr>st_db := db\<rparr>)"
proof (cases fault)
  case None
  then show ?thesis
    using that by (cases "body (st_db s)") (auto simp: withImmediateTransaction_def)
next
  case (Some e)
  then show ?thesis using that by (auto simp: withImmediateTransaction_def)
qed

end
