(* ===== verification/Store_Audit.thy ===== *)
theory Store_Audit
  imports Authority_Schema
begin

text \<open>
  The append-only audit table (internal/store/audit.go): a record is validated, inserted in the
  transaction of the action it describes, and written to the log only after the commit.
\<close>

definition maxAuditReadRows :: int where
  "maxAuditReadRows = 10000"

text \<open>AUTOINCREMENT: one above the largest row ID; rows are never deleted.\<close>

definition next_audit_id :: "database \<Rightarrow> int" where
  "next_audit_id db = max_column ar_ID (runner_audit_records db) + 1"

definition insertAuditOnConnection :: "AuditRecord \<Rightarrow> AuditRecord db_tx" where
  "insertAuditOnConnection r =
     tx_bind (tx_lift (AuditRecord_Validate r)) (\<lambda>_.
     tx_bind (tx_query (\<lambda>db. Inr (r\<lparr>ar_ID := next_audit_id db\<rparr>))) (\<lambda>saved.
     tx_bind (sql_insert audit_constraints runner_audit_records_update saved) (\<lambda>_.
     tx_return saved)))"

definition insertOptionalAuditOnConnection :: "AuditRecord option \<Rightarrow> AuditRecord option db_tx" where
  "insertOptionalAuditOnConnection r =
     (case r of
        None \<Rightarrow> tx_return None
      | Some rec \<Rightarrow> tx_bind (insertAuditOnConnection rec) (\<lambda>saved. tx_return (Some saved)))"

definition logOptionalAudit :: "AuditRecord option \<Rightarrow> AuthorityStore \<Rightarrow> AuthorityStore" where
  "logOptionalAudit r s =
     (case r of
        None \<Rightarrow> s
      | Some rec \<Rightarrow>
          if ar_ID rec > 0 then s\<lparr>st_audit_log := st_audit_log s @ [rec]\<rparr> else s)"

definition RecordAudit ::
  "go_error option \<Rightarrow> AuthorityStore \<Rightarrow> AuditRecord \<Rightarrow> unit result \<times> AuthorityStore" where
  "RecordAudit fault s r =
     (case withImmediateTransaction fault s (insertAuditOnConnection r) of
        (Inl e, s') \<Rightarrow> (Inl e, s')
      | (Inr saved, s') \<Rightarrow> (Inr (), s'\<lparr>st_audit_log := st_audit_log s' @ [saved]\<rparr>))"

definition read_audit_row :: "AuditRecord \<Rightarrow> AuditRecord result" where
  "read_audit_row r =
     res_bind (NewControllerID (ci_id (ar_Principal r))) (\<lambda>cid.
     res_bind (NewControllerIdentity (ci_type (ar_Principal r)) cid) (\<lambda>who.
     res_bind (parseStoredTime (formatStoredTime (ar_OccurredAt r))) (\<lambda>t.
     let decoded = r\<lparr>ar_Principal := who, ar_OccurredAt := t\<rparr> in
     res_bind (AuditRecord_Validate decoded) (\<lambda>_. Inr decoded))))"

fun read_all :: "('a \<Rightarrow> 'b result) \<Rightarrow> 'a list \<Rightarrow> 'b list result" where
  "read_all f [] = Inr []"
| "read_all f (x # xs) = res_bind (f x) (\<lambda>y. res_bind (read_all f xs) (\<lambda>ys. Inr (y # ys)))"

text \<open>The newest \<open>limit\<close> rows, returned in ascending order; the first bad row in descending
  order decides the error.\<close>

definition ListAuditRecords ::
  "go_error option \<Rightarrow> AuthorityStore \<Rightarrow> int \<Rightarrow> AuditRecord list result" where
  "ListAuditRecords fault s limit =
     (if limit \<le> 0 \<or> limit > maxAuditReadRows then Inl ErrInvalidAuditRecord
      else onConnection fault s (\<lambda>db.
        res_bind (read_all read_audit_row
          (take (nat limit) (rev (sort_key ar_ID (runner_audit_records db))))) (\<lambda>rows.
        Inr (rev rows))))"

section \<open>The log never runs ahead of the table\<close>

lemma max_column_ge: "r \<in> set rows \<Longrightarrow> c r \<le> max_column c rows"
  by (induction rows rule: rev_induct) (auto simp: le_max_iff_disj)

lemma next_audit_id_fresh: "next_audit_id db \<notin> ar_ID ` set (runner_audit_records db)"
  using max_column_ge [of _ "runner_audit_records db" ar_ID] by (fastforce simp: next_audit_id_def)

lemma max_column_nonneg: "0 \<le> max_column c rows"
  by (induction rows rule: rev_induct) auto

lemma next_audit_id_pos: "0 < next_audit_id db"
  using max_column_nonneg [of ar_ID "runner_audit_records db"] by (simp add: next_audit_id_def)

lemma insertAudit_Inr:
  "insertAuditOnConnection r db = Inr (saved, db') \<longleftrightarrow>
     AuditRecord_Validate r = Inr () \<and> saved = r\<lparr>ar_ID := next_audit_id db\<rparr> \<and>
     audit_constraints saved db \<and>
     db' = db\<lparr>runner_audit_records := runner_audit_records db @ [saved]\<rparr>"
  by (auto simp: insertAuditOnConnection_def tx_simps)

lemma insertOptionalAudit_Inr:
  "insertOptionalAuditOnConnection r db = Inr (saved, db') \<longleftrightarrow>
     (case r of
        None \<Rightarrow> saved = None \<and> db' = db
      | Some rec \<Rightarrow> \<exists>row. saved = Some row \<and> insertAuditOnConnection rec db = Inr (row, db'))"
  by (auto simp: insertOptionalAuditOnConnection_def tx_simps split: option.splits)

lemma insertOptionalAudit_frame:
  "insertOptionalAuditOnConnection r db = Inr (saved, db') \<Longrightarrow>
   \<exists>rows. db' = db\<lparr>runner_audit_records := rows\<rparr> \<and> set (runner_audit_records db) \<subseteq> set rows \<and>
     set_option saved \<subseteq> set rows"
  by (auto simp: insertOptionalAudit_Inr insertAudit_Inr split: option.splits intro!: exI)

lemma read_all_Inr: "read_all f xs = Inr ys \<longleftrightarrow> list_all2 (\<lambda>x y. f x = Inr y) xs ys"
  by (induction xs arbitrary: ys) (auto simp: tx_simps list_all2_Cons1)

end
