(* ===== verification/Store_Idempotency.thy ===== *)
theory Store_Idempotency
  imports Store_Audit
begin

text \<open>
  Durable idempotency keys (internal/store/idempotency.go): a key in the namespace of a controller
  and an operation is bound to one request hash and one resource until it expires; an expired
  binding leaves a fingerprint for a further retention window, so that a later acceptance under the
  same key carries a warning.
\<close>

definition DefaultSessionIdempotencyRetention :: duration where
  "DefaultSessionIdempotencyRetention = 90 * 24 * Hour"

definition DefaultMetadataRetention :: duration where
  "DefaultMetadataRetention = 90 * 24 * Hour"

record IdempotencyRecord =
  idr_Controller :: ControllerIdentity
  idr_Operation :: string
  idr_Key :: string
  idr_Hash :: CanonicalHash
  idr_ResourceID :: string
  idr_CreatedAt :: time
  idr_ExpiresAt :: time
  idr_DeduplicationWarning :: bool

text \<open>The embedded record and the retention.\<close>

record validatedIdempotencyInput = IdempotencyRecord +
  vii_Retention :: duration

definition validateController :: "ControllerIdentity \<Rightarrow> ControllerIdentity result" where
  "validateController controller =
     res_bind (res_as ErrInvalidIdempotency (NewControllerID (ci_id controller))) (\<lambda>ident.
     res_as ErrInvalidIdempotency (NewControllerIdentity (ci_type controller) ident))"

definition validateIdempotencyOperationKey :: "string \<Rightarrow> string \<Rightarrow> (string \<times> string) result" where
  "validateIdempotencyOperationKey operation key =
     (if operation = [] \<or> length operation > 128 \<or> has_nul operation then Inl ErrInvalidIdempotency
      else if key = [] \<or> length key > 256 \<or> has_nul key then Inl ErrIdempotencyKey
      else Inr (operation, key))"

definition validateIdempotencyInput ::
  "ControllerIdentity \<Rightarrow> string \<Rightarrow> string \<Rightarrow> CanonicalHash \<Rightarrow> string \<Rightarrow> duration \<Rightarrow>
   validatedIdempotencyInput result" where
  "validateIdempotencyInput controller operation key hash resourceID retention =
     res_bind (validateController controller) (\<lambda>validatedController.
     res_bind (validateIdempotencyOperationKey operation key) (\<lambda>(operation, key).
     res_bind (res_as ErrInvalidIdempotency (NewCanonicalHash (ch_version hash) (ch_digest hash)))
       (\<lambda>validatedHash.
     if resourceID = [] \<or> length resourceID > 256 \<or> has_nul resourceID then Inl ErrInvalidIdempotency
     else
       let retention = (if retention = 0 then DefaultSessionIdempotencyRetention else retention) in
       if retention < 0 then Inl ErrInvalidIdempotency
       else Inr \<lparr>idr_Controller = validatedController, idr_Operation = operation, idr_Key = key,
         idr_Hash = validatedHash, idr_ResourceID = resourceID, idr_CreatedAt = zero_time,
         idr_ExpiresAt = zero_time, idr_DeduplicationWarning = False, vii_Retention = retention\<rparr>)))"

definition idempotencyKeyFingerprint :: "ControllerIdentity \<Rightarrow> string \<Rightarrow> string \<Rightarrow> bytes" where
  "idempotencyKeyFingerprint controller operation key =
     sha256_Sum256 (concat (map (\<lambda>value. be_bytes 8 (length value) @ value)
       [ControllerType_string (ci_type controller), ci_id controller, operation, key]))"

definition find_warning ::
  "ControllerIdentity \<Rightarrow> string \<Rightarrow> string \<Rightarrow> database \<Rightarrow> expiry_warning_row option" where
  "find_warning controller operation key db =
     find (\<lambda>r. expiry_warning_key r =
         (ci_type controller, ci_id controller, operation,
          idempotencyKeyFingerprint controller operation key))
       (exec_idempotency_expiry_warnings db)"

definition recordIdempotencyExpiryWarningOnConnection ::
  "ControllerIdentity \<Rightarrow> string \<Rightarrow> string \<Rightarrow> time \<Rightarrow> time \<Rightarrow> unit db_tx" where
  "recordIdempotencyExpiryWarningOnConnection controller operation key expiresAt now =
     (let warningUntil = expiresAt + DefaultMetadataRetention in
      if \<not> warningUntil > now then tx_return ()
      else
        tx_bind (tx_query (\<lambda>db. Inr (find_warning controller operation key db))) (\<lambda>existing.
        case existing of
          None \<Rightarrow>
            sql_insert expiry_warning_constraints exec_idempotency_expiry_warnings_update
              \<lparr>iew_controller_type = ci_type controller, iew_controller_id = ci_id controller,
               iew_operation = operation,
               iew_fingerprint = idempotencyKeyFingerprint controller operation key,
               iew_warning_until = formatStoredTime warningUntil\<rparr>
        | Some row \<Rightarrow>
            tx_bind (tx_lift (parseStoredTime (iew_warning_until row))) (\<lambda>until.
            if \<not> warningUntil > until then tx_return ()
            else tx_bind (sql_update expiry_warning_check exec_idempotency_expiry_warnings
              exec_idempotency_expiry_warnings_update
              (\<lambda>r. expiry_warning_key r = expiry_warning_key row)
              (\<lambda>r. r\<lparr>iew_warning_until := formatStoredTime warningUntil\<rparr>)) (\<lambda>_. tx_return ()))))"

definition idempotencyExpiryWarningOnConnection ::
  "ControllerIdentity \<Rightarrow> string \<Rightarrow> string \<Rightarrow> time \<Rightarrow> database \<Rightarrow> bool result" where
  "idempotencyExpiryWarningOnConnection controller operation key now db =
     (case find_warning controller operation key db of
        None \<Rightarrow> Inr False
      | Some row \<Rightarrow>
          res_bind (parseStoredTime (iew_warning_until row)) (\<lambda>warningUntil. Inr (now < warningUntil)))"

definition idempotency_key_of ::
  "ControllerIdentity \<Rightarrow> string \<Rightarrow> string \<Rightarrow> ControllerType \<times> string \<times> string \<times> string" where
  "idempotency_key_of controller operation key = (ci_type controller, ci_id controller, operation, key)"

definition find_binding ::
  "ControllerIdentity \<Rightarrow> string \<Rightarrow> string \<Rightarrow> database \<Rightarrow> idempotency_row option" where
  "find_binding controller operation key db =
     find (\<lambda>r. idempotency_key r = idempotency_key_of controller operation key) (exec_idempotency db)"

text \<open>A retained binding, or \<open>None\<close>; an expired one is deleted on the way.\<close>

definition lookupIdempotencyOnConnection ::
  "ControllerIdentity \<Rightarrow> string \<Rightarrow> string \<Rightarrow> time \<Rightarrow> IdempotencyRecord option db_tx" where
  "lookupIdempotencyOnConnection controller operation key now =
     tx_bind (tx_query (\<lambda>db. Inr (find_binding controller operation key db))) (\<lambda>found.
     case found of
       None \<Rightarrow> tx_return None
     | Some row \<Rightarrow>
         tx_bind (tx_lift (res_as ErrInvalidIdempotency (parseStoredTime (idm_created_at row)))) (\<lambda>createdAt.
         tx_bind (tx_lift (res_as ErrInvalidIdempotency (parseStoredTime (idm_expires_at row)))) (\<lambda>expiresAt.
         if \<not> now < expiresAt
         then tx_bind (recordIdempotencyExpiryWarningOnConnection controller operation key expiresAt now) (\<lambda>_.
              tx_bind (sql_delete exec_idempotency exec_idempotency_update
                (\<lambda>r. idempotency_key r = idempotency_key_of controller operation key)) (\<lambda>_.
              tx_return None))
         else
           tx_bind (tx_lift (res_as ErrInvalidIdempotency
             (NewCanonicalHash (of_int (idm_hash_version row)) (idm_hash row)))) (\<lambda>hash.
           tx_bind (tx_guard (\<not> (idm_resource_id row = [] \<or> length (idm_resource_id row) > 256 \<or>
             has_nul (idm_resource_id row))) ErrInvalidIdempotency) (\<lambda>_.
           tx_return (Some \<lparr>idr_Controller = controller, idr_Operation = operation, idr_Key = key,
             idr_Hash = hash, idr_ResourceID = idm_resource_id row, idr_CreatedAt = createdAt,
             idr_ExpiresAt = expiresAt, idr_DeduplicationWarning = idm_warning row\<rparr>))))))"

definition binding_row :: "'a IdempotencyRecord_scheme \<Rightarrow> idempotency_row" where
  "binding_row input =
     \<lparr>idm_controller_type = ci_type (idr_Controller input),
      idm_controller_id = ci_id (idr_Controller input), idm_operation = idr_Operation input,
      idm_key = idr_Key input, idm_hash_version = uint (ch_version (idr_Hash input)),
      idm_hash = ch_digest (idr_Hash input), idm_resource_id = idr_ResourceID input,
      idm_created_at = formatStoredTime (idr_CreatedAt input),
      idm_expires_at = formatStoredTime (idr_ExpiresAt input),
      idm_warning = idr_DeduplicationWarning input\<rparr>"

definition recordIdempotencyOnConnection :: "'a IdempotencyRecord_scheme \<Rightarrow> unit db_tx" where
  "recordIdempotencyOnConnection input =
     sql_insert idempotency_constraints exec_idempotency_update (binding_row input)"

text \<open>The result carries whether the request was a duplicate; the transaction also returns the
  audit row it saved, which is logged after the commit.\<close>

definition EnsureIdempotencyWithAudit ::
  "go_error option \<Rightarrow> time \<Rightarrow> AuthorityStore \<Rightarrow> ControllerIdentity \<Rightarrow> string \<Rightarrow> string \<Rightarrow>
   CanonicalHash \<Rightarrow> string \<Rightarrow> duration \<Rightarrow> AuditRecord option \<Rightarrow>
   (IdempotencyRecord \<times> bool) result \<times> AuthorityStore" where
  "EnsureIdempotencyWithAudit fault now s controller operation key hash resourceID retention actionAudit =
     (case validateIdempotencyInput controller operation key hash resourceID retention of
        Inl e \<Rightarrow> (Inl e, s)
      | Inr validated \<Rightarrow>
          (case withImmediateTransaction fault s
             (tx_bind (lookupIdempotencyOnConnection (idr_Controller validated)
                (idr_Operation validated) (idr_Key validated) now) (\<lambda>found.
              case found of
                Some existing \<Rightarrow>
                  tx_bind (tx_guard (CompareIdempotency (idr_Hash existing) (idr_Hash validated) \<noteq>
                    IdempotencyComparisonConflict) ErrIdempotencyConflict) (\<lambda>_.
                  tx_bind (insertOptionalAuditOnConnection actionAudit) (\<lambda>saved.
                  tx_return ((existing, True), saved)))
              | None \<Rightarrow>
                  tx_bind (tx_query (idempotencyExpiryWarningOnConnection (idr_Controller validated)
                    (idr_Operation validated) (idr_Key validated) now)) (\<lambda>warning.
                  let input = IdempotencyRecord.truncate (validated\<lparr>idr_CreatedAt := now,
                    idr_ExpiresAt := now + vii_Retention validated,
                    idr_DeduplicationWarning := warning\<rparr>) in
                  tx_bind (recordIdempotencyOnConnection input) (\<lambda>_.
                  tx_bind (insertOptionalAuditOnConnection actionAudit) (\<lambda>saved.
                  tx_return ((input, False), saved)))))) of
             (Inl e, s') \<Rightarrow> (Inl e, s')
           | (Inr (res, saved), s') \<Rightarrow> (Inr res, logOptionalAudit saved s')))"

definition EnsureIdempotency ::
  "go_error option \<Rightarrow> time \<Rightarrow> AuthorityStore \<Rightarrow> ControllerIdentity \<Rightarrow> string \<Rightarrow> string \<Rightarrow>
   CanonicalHash \<Rightarrow> string \<Rightarrow> duration \<Rightarrow> (IdempotencyRecord \<times> bool) result \<times> AuthorityStore" where
  "EnsureIdempotency fault now s controller operation key hash resourceID retention =
     EnsureIdempotencyWithAudit fault now s controller operation key hash resourceID retention None"

definition LookupIdempotency ::
  "go_error option \<Rightarrow> time \<Rightarrow> AuthorityStore \<Rightarrow> ControllerIdentity \<Rightarrow> string \<Rightarrow> string \<Rightarrow>
   IdempotencyRecord option result \<times> AuthorityStore" where
  "LookupIdempotency fault now s controller operation key =
     (case validateController controller of
        Inl e \<Rightarrow> (Inl e, s)
      | Inr validatedController \<Rightarrow>
          (case validateIdempotencyOperationKey operation key of
             Inl e \<Rightarrow> (Inl e, s)
           | Inr (operation, key) \<Rightarrow>
               withImmediateTransaction fault s
                 (lookupIdempotencyOnConnection validatedController operation key now)))"

section \<open>A retained binding is found again\<close>

definition bound_key :: "'a IdempotencyRecord_scheme \<Rightarrow> ControllerType \<times> string \<times> string \<times> string" where
  "bound_key r = idempotency_key_of (idr_Controller r) (idr_Operation r) (idr_Key r)"

text \<open>A binding whose stored columns can be read back.\<close>

definition readable_binding :: "'a IdempotencyRecord_scheme \<Rightarrow> bool" where
  "readable_binding r \<longleftrightarrow>
     valid_hash (idr_Hash r) \<and> bounded_token 256 (idr_ResourceID r) \<and>
     valid_time (idr_CreatedAt r) \<and> valid_time (idr_ExpiresAt r)"

lemma key_of_binding_row [simp]: "idempotency_key (binding_row r) = bound_key r"
  by (simp add: idempotency_key_def binding_row_def bound_key_def idempotency_key_of_def)

lemma lookup_retained:
  assumes "find_binding (idr_Controller r) (idr_Operation r) (idr_Key r) db = Some (binding_row r)"
    and "readable_binding r" and "now < idr_ExpiresAt r"
  shows "lookupIdempotencyOnConnection (idr_Controller r) (idr_Operation r) (idr_Key r) now db =
    Inr (Some (IdempotencyRecord.truncate r), db)"
  using assms
  by (simp add: lookupIdempotencyOnConnection_def tx_steps binding_row_def
      readable_binding_def valid_hash_def bounded_token_def NewCanonicalHash_def
      IdempotencyRecord.truncate_def)

lemma validateController_Inr [simp]:
  "validateController c = Inr c' \<longleftrightarrow>
     known_controller_type (ci_type c) \<and> ci_id c \<noteq> [] \<and> c' = (c :: ControllerIdentity)"
  by (auto simp: validateController_def tx_simps)

lemma validateIdempotencyOperationKey_Inr [simp]:
  "validateIdempotencyOperationKey operation key = Inr p \<longleftrightarrow>
     bounded_token 128 operation \<and> bounded_token 256 key \<and> p = (operation, key)"
  by (auto simp: validateIdempotencyOperationKey_def bounded_token_def)

definition effective_retention :: "duration \<Rightarrow> duration" where
  "effective_retention retention =
     (if retention = 0 then DefaultSessionIdempotencyRetention else retention)"

lemma validateIdempotencyInput_Inr:
  "validateIdempotencyInput c operation key h rid ret = Inr v \<longleftrightarrow>
     known_controller_type (ci_type c) \<and> ci_id c \<noteq> [] \<and> bounded_token 128 operation \<and>
     bounded_token 256 key \<and> valid_hash h \<and> bounded_token 256 rid \<and> 0 \<le> effective_retention ret \<and>
     v = \<lparr>idr_Controller = c, idr_Operation = operation, idr_Key = key, idr_Hash = h,
         idr_ResourceID = rid, idr_CreatedAt = zero_time, idr_ExpiresAt = zero_time,
         idr_DeduplicationWarning = False, vii_Retention = effective_retention ret\<rparr>"
  by (auto simp: validateIdempotencyInput_def tx_simps NewCanonicalHash_of bounded_token_def
      effective_retention_def Let_def valid_hash_def)

lemma record_find:
  "recordIdempotencyOnConnection r db = Inr (u, db') \<Longrightarrow>
   find_binding (idr_Controller r) (idr_Operation r) (idr_Key r) db' = Some (binding_row r)"
  unfolding recordIdempotencyOnConnection_def
  using idempotency_table.insert_lookup [of "binding_row r" db u db']
  by (simp add: idempotency_table.lookup_def find_binding_def bound_key_def)

lemma record_find_other:
  "recordIdempotencyOnConnection r db = Inr (u, db') \<Longrightarrow>
   idempotency_key_of c operation key \<noteq> bound_key r \<Longrightarrow>
   find_binding c operation key db' = find_binding c operation key db"
  unfolding recordIdempotencyOnConnection_def
  using idempotency_table.insert_lookup_other [of "binding_row r" db u db']
  by (simp add: idempotency_table.lookup_def find_binding_def)

lemma find_binding_audit [simp]:
  "find_binding c operation key (db\<lparr>runner_audit_records := rows\<rparr>) = find_binding c operation key db"
  by (simp add: find_binding_def)

text \<open>What a successful call of \<open>EnsureIdempotencyWithAudit\<close> did.\<close>

lemma Ensure_new_binding:
  assumes "EnsureIdempotencyWithAudit None now s c operation key h rid ret aud = (Inr (r, False), s')"
  shows "find_binding c operation key (st_db s') = Some (binding_row r)"
    and "idr_Controller r = c" "idr_Operation r = operation" "idr_Key r = key" "idr_Hash r = h"
      "idr_ResourceID r = rid" "idr_CreatedAt r = now" "idr_ExpiresAt r = now + effective_retention ret"
    and "is_ok (validateIdempotencyInput c operation key h rid ret)"
    and "sql_nonempty (ci_id c)"
proof -
  obtain v where v: "validateIdempotencyInput c operation key h rid ret = Inr v"
    using assms by (cases "validateIdempotencyInput c operation key h rid ret")
      (auto simp: EnsureIdempotencyWithAudit_def)
  then show "is_ok (validateIdempotencyInput c operation key h rid ret)" by simp
  from v have vf: "idr_Controller v = c" "idr_Operation v = operation" "idr_Key v = key"
    "idr_Hash v = h" "idr_ResourceID v = rid" "vii_Retention v = effective_retention ret"
    by (simp_all add: validateIdempotencyInput_Inr)
  from assms v obtain db1 db2 db3 warning saved where
    rec: "recordIdempotencyOnConnection r db1 = Inr ((), db2)"
    and aud: "insertOptionalAuditOnConnection aud db2 = Inr (saved, db3)"
    and r: "r = IdempotencyRecord.truncate (v\<lparr>idr_CreatedAt := now,
        idr_ExpiresAt := now + vii_Retention v, idr_DeduplicationWarning := warning\<rparr>)"
    and s': "st_db s' = db3"
    by (auto simp: EnsureIdempotencyWithAudit_def tx_simps Let_def logOptionalAudit_def
        split: prod.splits sum.splits option.splits if_splits)
  show fields: "idr_Controller r = c" "idr_Operation r = operation" "idr_Key r = key" "idr_Hash r = h"
      "idr_ResourceID r = rid" "idr_CreatedAt r = now" "idr_ExpiresAt r = now + effective_retention ret"
    using r vf by (simp_all add: IdempotencyRecord.truncate_def)
  show "sql_nonempty (ci_id c)"
    using rec fields by (auto simp: recordIdempotencyOnConnection_def tx_simps
        idempotency_constraints_def binding_row_def)
  obtain rows where "db3 = db2\<lparr>runner_audit_records := rows\<rparr>"
    using insertOptionalAudit_frame [OF aud] by blast
  then show "find_binding c operation key (st_db s') = Some (binding_row r)"
    using record_find [OF rec] s' fields by simp
qed

lemma uint_pos: "v \<noteq> (0 :: 16 word) \<Longrightarrow> 0 < uint v"
  using unsigned_eq_0_iff [of v] uint_ge_0 [of v] by (metis order_le_less)

lemma validated_parts:
  assumes "is_ok (validateIdempotencyInput c operation key h rid ret)"
  obtains v where "validateIdempotencyInput c operation key h rid ret = Inr v"
    "idr_Controller v = c" "idr_Operation v = operation" "idr_Key v = key" "idr_Hash v = h"
    "idr_ResourceID v = rid" "vii_Retention v = effective_retention ret" "valid_hash h"
    "bounded_token 256 rid" "bounded_token 128 operation" "bounded_token 256 key"
    "known_controller_type (ci_type c)"
  using assms by (auto simp: is_ok_iff validateIdempotencyInput_Inr)

lemma Ensure_retained:
  assumes "find_binding c operation key (st_db s) = Some (binding_row r)" "readable_binding r"
    and "idr_Controller r = c" "idr_Operation r = operation" "idr_Key r = key" "now < idr_ExpiresAt r"
    and ok: "is_ok (validateIdempotencyInput c operation key h rid ret)"
  shows "EnsureIdempotency None now s c operation key h rid ret =
    (if h = idr_Hash r then (Inr (IdempotencyRecord.truncate r, True), s) else (Inl ErrIdempotencyConflict, s))"
proof -
  obtain v where v: "validateIdempotencyInput c operation key h rid ret = Inr v" "idr_Controller v = c"
    "idr_Operation v = operation" "idr_Key v = key" "idr_Hash v = h" "valid_hash h"
    using ok by (rule validated_parts)
  have "lookupIdempotencyOnConnection c operation key now (st_db s) =
      Inr (Some (IdempotencyRecord.truncate r), st_db s)"
    using lookup_retained [of r "st_db s" now] assms by simp
  then show ?thesis
    using v assms(2)
    by (auto simp: EnsureIdempotency_def EnsureIdempotencyWithAudit_def withImmediateTransaction_def
        tx_bind_run tx_steps insertOptionalAuditOnConnection_def logOptionalAudit_def
        CompareIdempotency_conflict readable_binding_def valid_hash_def count_error_def
        IdempotencyRecord.truncate_def)
qed

lemma Ensure_fresh:
  assumes "find_binding c operation key (st_db s) = None"
    and "find_warning c operation key (st_db s) = None"
    and "is_ok (validateIdempotencyInput c operation key h rid ret)" "sql_nonempty (ci_id c)"
  shows "\<exists>r s'. EnsureIdempotency None now s c operation key h rid ret = (Inr (r, False), s') \<and>
    exec_idempotency_expiry_warnings (st_db s') = exec_idempotency_expiry_warnings (st_db s)"
proof -
  obtain v where v: "validateIdempotencyInput c operation key h rid ret = Inr v" "idr_Controller v = c"
    "idr_Operation v = operation" "idr_Key v = key" "idr_Hash v = h" "idr_ResourceID v = rid"
    "valid_hash h" "bounded_token 256 rid" "bounded_token 128 operation" "bounded_token 256 key"
    "known_controller_type (ci_type c)"
    using assms(3) by (rule validated_parts)
  let ?r = "IdempotencyRecord.truncate (v\<lparr>idr_CreatedAt := now, idr_ExpiresAt := now + vii_Retention v,
     idr_DeduplicationWarning := False\<rparr>)"
  have r: "idr_Controller ?r = c" "idr_Operation ?r = operation" "idr_Key ?r = key" "idr_Hash ?r = h"
    "idr_ResourceID ?r = rid"
    using v by (simp_all add: IdempotencyRecord.truncate_def)
  have absent: "bound_key ?r \<notin> idempotency_key ` set (exec_idempotency (st_db s))"
    using assms(1) r(1-3) by (simp add: find_binding_def find_key_None bound_key_def)
  have "idempotency_constraints (binding_row ?r) (st_db s)"
    unfolding idempotency_constraints_def key_of_binding_row
    using v(7-11) assms(4) r absent
    by (auto simp: binding_row_def valid_hash_def sha256_Size_def uint_pos intro: bounded_token_sql)
  then have rec: "recordIdempotencyOnConnection ?r (st_db s) = Inr ((), st_db s
      \<lparr>exec_idempotency := exec_idempotency (st_db s) @ [binding_row ?r]\<rparr>)"
    by (simp add: recordIdempotencyOnConnection_def sql_insert_def)
  have "lookupIdempotencyOnConnection c operation key now (st_db s) = Inr (None, st_db s)"
    using assms(1) by (simp add: lookupIdempotencyOnConnection_def tx_steps)
  moreover have "idempotencyExpiryWarningOnConnection c operation key now (st_db s) = Inr False"
    using assms(2) by (simp add: idempotencyExpiryWarningOnConnection_def)
  ultimately show ?thesis
    using v rec
    by (simp add: EnsureIdempotency_def EnsureIdempotencyWithAudit_def withImmediateTransaction_def
        tx_bind_run tx_steps Let_def insertOptionalAuditOnConnection_def logOptionalAudit_def)
qed

text \<open>Once a key is accepted, every retry before its expiry is answered from the binding and
  leaves the store as it is: the same request hash gets the original record back, marked as a
  duplicate, whatever resource the retry proposes; another hash is a conflict.\<close>

theorem idempotent_retry:
  assumes accepted: "EnsureIdempotencyWithAudit None now s c operation key h rid ret aud =
      (Inr (r, False), s')"
    and times: "valid_time now" "valid_time (now + effective_retention ret)"
      "now' < now + effective_retention ret"
    and ok: "is_ok (validateIdempotencyInput c operation key h' rid' ret')"
  shows "EnsureIdempotency None now' s' c operation key h' rid' ret' =
    (if h' = h then (Inr (r, True), s') else (Inl ErrIdempotencyConflict, s'))"
proof -
  note new = Ensure_new_binding [OF accepted]
  have "valid_hash h" "bounded_token 256 rid"
    using new(9) by (auto elim: validated_parts)
  then have "readable_binding r" using new times by (simp add: readable_binding_def)
  then show ?thesis
    using Ensure_retained [OF new(1) _ new(2) new(3) new(4) _ ok, of now'] new times
    by (simp add: IdempotencyRecord.truncate_def)
qed

text \<open>After the key has expired, a request under it is accepted as new, even with another hash
  and resource, and carries the deduplication warning as long as the metadata retention after the
  expiry lasts; the previous binding is gone.\<close>

theorem idempotency_expiry_warns:
  assumes accepted: "EnsureIdempotencyWithAudit None now s c operation key h rid ret aud =
      (Inr (r, False), s')"
    and times: "valid_time now" "valid_time (now + effective_retention ret)"
      "valid_time (now + effective_retention ret + DefaultMetadataRetention)"
    and late: "now + effective_retention ret \<le> now'"
      "now' < now + effective_retention ret + DefaultMetadataRetention"
    and fresh: "find_warning c operation key (st_db s') = None"
    and ok: "is_ok (validateIdempotencyInput c operation key h' rid' ret')"
  shows "\<exists>r' s''. EnsureIdempotency None now' s' c operation key h' rid' ret' = (Inr (r', False), s'') \<and>
    idr_ResourceID r' = rid' \<and> idr_Hash r' = h' \<and> idr_DeduplicationWarning r' \<and>
    find_binding c operation key (st_db s'') = Some (binding_row r')"
proof -
  note new = Ensure_new_binding [OF accepted]
  let ?db = "st_db s'" and ?until = "now + effective_retention ret + DefaultMetadataRetention"
  let ?w = "\<lparr>iew_controller_type = ci_type c, iew_controller_id = ci_id c, iew_operation = operation,
     iew_fingerprint = idempotencyKeyFingerprint c operation key,
     iew_warning_until = formatStoredTime ?until\<rparr>"
  let ?key = "idempotency_key_of c operation key"
  let ?db1 = "?db\<lparr>exec_idempotency_expiry_warnings := exec_idempotency_expiry_warnings ?db @ [?w]\<rparr>"
  let ?db2 = "?db1\<lparr>exec_idempotency := filter (\<lambda>r. idempotency_key r \<noteq> ?key) (exec_idempotency ?db)\<rparr>"
  obtain v where v: "validateIdempotencyInput c operation key h' rid' ret' = Inr v" "idr_Controller v = c"
    "idr_Operation v = operation" "idr_Key v = key" "idr_Hash v = h'" "idr_ResourceID v = rid'"
    "valid_hash h'" "bounded_token 256 rid'" "bounded_token 128 operation" "bounded_token 256 key"
    "known_controller_type (ci_type c)"
    using ok by (rule validated_parts)
  have wkey: "expiry_warning_key ?w = (ci_type c, ci_id c, operation, idempotencyKeyFingerprint c operation key)"
    by (simp add: expiry_warning_key_def)
  have wok: "expiry_warning_constraints ?w ?db"
    using fresh v(9,11) new(10) wkey
    by (auto simp: expiry_warning_constraints_def expiry_warning_check_def find_warning_def
        find_key_None bounded_token_sql idempotencyKeyFingerprint_def sha256_Size_def)
  have warned: "recordIdempotencyExpiryWarningOnConnection c operation key (now + effective_retention ret) now' ?db =
      Inr ((), ?db1)"
    using late(2) fresh wok
    by (simp add: recordIdempotencyExpiryWarningOnConnection_def Let_def tx_steps sql_insert_def)
  have lookup: "lookupIdempotencyOnConnection c operation key now' ?db = Inr (None, ?db2)"
    using new(1) late(1) times new(7,8)
    by (simp add: lookupIdempotencyOnConnection_def tx_steps binding_row_def warned tx_bind_run)
  have "find_warning c operation key ?db2 = Some ?w"
    using fresh wkey by (simp add: find_warning_def find_append)
  then have warning: "idempotencyExpiryWarningOnConnection c operation key now' ?db2 = Inr True"
    using times(3) late(2) by (simp add: idempotencyExpiryWarningOnConnection_def)
  let ?r = "IdempotencyRecord.truncate (v\<lparr>idr_CreatedAt := now', idr_ExpiresAt := now' + vii_Retention v,
     idr_DeduplicationWarning := True\<rparr>)"
  have r: "idr_Controller ?r = c" "idr_Operation ?r = operation" "idr_Key ?r = key" "idr_Hash ?r = h'"
    "idr_ResourceID ?r = rid'" "idr_DeduplicationWarning ?r"
    using v by (simp_all add: IdempotencyRecord.truncate_def)
  have ins: "idempotency_constraints (binding_row ?r) ?db2"
    using v(7-11) new(10) r(1-5)
    by (auto simp: idempotency_constraints_def valid_hash_def sha256_Size_def uint_pos bound_key_def
        intro: bounded_token_sql)
      (auto simp: binding_row_def valid_hash_def sha256_Size_def uint_pos intro: bounded_token_sql)
  then obtain db3 where rec: "recordIdempotencyOnConnection ?r ?db2 = Inr ((), db3)"
    by (simp add: recordIdempotencyOnConnection_def sql_insert_def)
  have "EnsureIdempotency None now' s' c operation key h' rid' ret' = (Inr (?r, False), s'\<lparr>st_db := db3\<rparr>)"
    using v
    by (simp add: EnsureIdempotency_def EnsureIdempotencyWithAudit_def withImmediateTransaction_def
        lookup tx_bind_run tx_steps warning Let_def rec insertOptionalAuditOnConnection_def
        logOptionalAudit_def)
  then show ?thesis using r record_find [OF rec] by auto
qed

definition sample_now :: time where
  "sample_now = 63900000000 * Second"

definition sample_hash :: CanonicalHash where
  "sample_hash = canonical_digest ''{}''"

lemma sample_times:
  "valid_time sample_now" "valid_time (sample_now + effective_retention 0)"
  "valid_time (sample_now + effective_retention 0 + DefaultMetadataRetention)"
  by (simp_all add: valid_time_def Date_def sample_now_def effective_retention_def
      DefaultSessionIdempotencyRetention_def DefaultMetadataRetention_def Hour_def Minute_def
      Second_def days_before_year_def)

lemma sample_key_ok:
  "rid \<in> {''r1'', ''r2''} \<Longrightarrow>
   is_ok (validateIdempotencyInput sample_controller ''cancel_command'' ''k1'' sample_hash rid 0)"
  by (auto simp: is_ok_iff validateIdempotencyInput_Inr sample_controller_def sample_hash_def
      canonical_digest_valid bounded_token_def has_nul_def NUL_def effective_retention_def
      DefaultSessionIdempotencyRetention_def Hour_def Minute_def Second_def)

lemma sample_accepted:
  "\<exists>r s'. EnsureIdempotency None sample_now (NewAuthorityStore empty_database) sample_controller
     ''cancel_command'' ''k1'' sample_hash ''r1'' 0 = (Inr (r, False), s') \<and>
   exec_idempotency_expiry_warnings (st_db s') = []"
  using Ensure_fresh [of sample_controller "''cancel_command''" "''k1''"
      "NewAuthorityStore empty_database" sample_hash "''r1''" 0 sample_now] sample_key_ok
  by (simp add: find_binding_def find_warning_def NewAuthorityStore_def empty_database_def
      sample_controller_def sql_nonempty_def NUL_def)

theorem idempotent_retry_witness:
  "\<exists>r s'. EnsureIdempotency None sample_now (NewAuthorityStore empty_database) sample_controller
     ''cancel_command'' ''k1'' sample_hash ''r1'' 0 = (Inr (r, False), s') \<and>
   EnsureIdempotency None (sample_now + 1) s' sample_controller ''cancel_command'' ''k1''
     sample_hash ''r2'' 0 = (Inr (r, True), s')"
proof -
  obtain r s' where acc: "EnsureIdempotency None sample_now (NewAuthorityStore empty_database)
      sample_controller ''cancel_command'' ''k1'' sample_hash ''r1'' 0 = (Inr (r, False), s')"
    using sample_accepted by blast
  have "sample_now + 1 < sample_now + effective_retention 0"
    by (simp add: effective_retention_def DefaultSessionIdempotencyRetention_def Hour_def Minute_def
        Second_def)
  from idempotent_retry [OF acc [unfolded EnsureIdempotency_def] sample_times(1,2) this
      sample_key_ok [of "''r2''"]] acc
  show ?thesis by auto
qed

theorem idempotency_expiry_warns_witness:
  "\<exists>r s' r' s''. EnsureIdempotency None sample_now (NewAuthorityStore empty_database) sample_controller
     ''cancel_command'' ''k1'' sample_hash ''r1'' 0 = (Inr (r, False), s') \<and>
   EnsureIdempotency None (sample_now + effective_retention 0) s' sample_controller
     ''cancel_command'' ''k1'' sample_hash ''r2'' 0 = (Inr (r', False), s'') \<and>
   idr_DeduplicationWarning r'"
proof -
  obtain r s' where acc: "EnsureIdempotency None sample_now (NewAuthorityStore empty_database)
      sample_controller ''cancel_command'' ''k1'' sample_hash ''r1'' 0 = (Inr (r, False), s')"
    and none: "exec_idempotency_expiry_warnings (st_db s') = []"
    using sample_accepted by blast
  have late: "sample_now + effective_retention 0 <
      sample_now + effective_retention 0 + DefaultMetadataRetention"
    by (simp add: DefaultMetadataRetention_def Hour_def Minute_def Second_def)
  have "find_warning sample_controller ''cancel_command'' ''k1'' (st_db s') = None"
    using none by (simp add: find_warning_def)
  from idempotency_expiry_warns [OF acc [unfolded EnsureIdempotency_def] sample_times order_refl late
      this sample_key_ok [of "''r2''"]] acc
  show ?thesis by auto
qed

end
