(* ===== verification/Store_Admission.thy ===== *)
theory Store_Admission
  imports Authority_Schema
begin

text \<open>
  The durable lane admission gate of the store (internal/store/lane_admission.go): the persisted
  lane state, the operations that change it inside a transaction, and the process-local flag that
  must be set again after every restart. The store's lock around these operations makes each of
  them one step.
\<close>

text \<open>The persisted state, or \<open>None\<close> for an authority with no admission row. At the current schema
  version the table itself always exists in this model, so the refusal of an authority that lacks it does
  not arise; the JSON text of the row stands as the value it decodes to, absent for a text that does not
  decode, beside the outcome of the digest comparison.\<close>

definition readLaneAdmissionOnConnection :: "database \<Rightarrow> LaneState option result" where
  "readLaneAdmissionOnConnection db =
     (if user_version db < CurrentSchemaVersion then Inr None
      else case lane_ingress_admission db of
        None \<Rightarrow> Inr None
      | Some row \<Rightarrow>
          if \<not> lar_digest_ok row then Inl ErrLaneAdmissionCorrupt
          else case lar_state row of
            None \<Rightarrow> Inl ErrLaneAdmissionCorrupt
          | Some state \<Rightarrow>
              if \<not> ls_Enabled state \<or> LaneState_Validate state \<noteq> Inr ()
              then Inl ErrLaneAdmissionCorrupt else Inr (Some state))"

definition writeLaneAdmissionOnConnection :: "LaneState \<Rightarrow> bool \<Rightarrow> unit db_tx" where
  "writeLaneAdmissionOnConnection state is_insert =
     (\<lambda>db. if \<not> ls_Enabled state \<or> LaneState_Validate state \<noteq> Inr ()
       then Inl ErrLaneAdmissionCorrupt
       else
         let row = \<lparr>lar_digest_ok = True, lar_state = Some state\<rparr> in
         if is_insert
         then (if lane_ingress_admission db \<noteq> None then Inl SQLiteError
               else Inr ((), db\<lparr>lane_ingress_admission := Some row\<rparr>))
         else (if lane_ingress_admission db = None then Inl ErrLaneAdmissionNotConfigured
               else Inr ((), db\<lparr>lane_ingress_admission := Some row\<rparr>)))"

definition ConfigureLaneAdmission ::
  "go_error option \<Rightarrow> AuthorityStore \<Rightarrow> Lane \<Rightarrow> HostID \<Rightarrow> unit result \<times> AuthorityStore" where
  "ConfigureLaneAdmission fault s lane host =
     (case NewState lane host of
        Inl e \<Rightarrow> (Inl e, s)
      | Inr initial \<Rightarrow>
          (let (r, s') = withImmediateTransaction fault s
             (tx_bind (tx_query readLaneAdmissionOnConnection) (\<lambda>found.
              case found of
                Some current \<Rightarrow>
                  tx_guard (ls_Lane current = lane \<and> ls_HostID current = host) ErrLaneAdmissionCorrupt
              | None \<Rightarrow> writeLaneAdmissionOnConnection initial True))
           in case r of
                Inl e \<Rightarrow> (Inl e, s')
              | Inr _ \<Rightarrow> (Inr (), s'\<lparr>st_laneAdmissionRuntime := False\<rparr>)))"

definition LaneAdmissionSnapshot ::
  "go_error option \<Rightarrow> AuthorityStore \<Rightarrow> LaneState option result" where
  "LaneAdmissionSnapshot fault s = onConnection fault s readLaneAdmissionOnConnection"

text \<open>The value of the transaction is whether mutations were admitted before and after.\<close>

definition updateLaneAdmission ::
  "go_error option \<Rightarrow> AuthorityStore \<Rightarrow> (LaneState \<Rightarrow> LaneState result) \<Rightarrow>
   unit result \<times> AuthorityStore" where
  "updateLaneAdmission fault s mutate =
     (let (r, s') = withImmediateTransaction fault s
        (tx_bind (tx_query readLaneAdmissionOnConnection) (\<lambda>found.
         case found of
           None \<Rightarrow> tx_fail ErrLaneAdmissionNotConfigured
         | Some state \<Rightarrow>
             tx_bind (tx_lift (mutate state)) (\<lambda>state'.
             tx_bind (writeLaneAdmissionOnConnection state' False) (\<lambda>_.
             tx_return (AllowsMutation state, AllowsMutation state')))))
      in case r of
           Inl e \<Rightarrow> (Inl e, s')
         | Inr (wasOpen, allowsMutation) \<Rightarrow>
             (Inr (),
              if \<not> allowsMutation then s'\<lparr>st_laneAdmissionRuntime := False\<rparr>
              else if \<not> wasOpen then s'\<lparr>st_laneAdmissionRuntime := True\<rparr>
              else s'))"

definition PrepareLaneAdmissionCandidate ::
  "go_error option \<Rightarrow> AuthorityStore \<Rightarrow> LaneIdentity \<Rightarrow> unit result \<times> AuthorityStore" where
  "PrepareLaneAdmissionCandidate fault s identity =
     updateLaneAdmission fault s (\<lambda>state. PrepareCandidate state identity)"

definition BeginLaneAdmissionClosure ::
  "go_error option \<Rightarrow> AuthorityStore \<Rightarrow> LaneIdentity \<Rightarrow> unit result \<times> AuthorityStore" where
  "BeginLaneAdmissionClosure fault s identity =
     updateLaneAdmission fault s (\<lambda>state. BeginActiveRuntimeClosure state identity)"

definition SwitchLaneAdmissionCandidate ::
  "go_error option \<Rightarrow> AuthorityStore \<Rightarrow> unit result \<times> AuthorityStore" where
  "SwitchLaneAdmissionCandidate fault s = updateLaneAdmission fault s SwitchPendingToActive"

definition AdvanceLaneAdmissionCandidate ::
  "go_error option \<Rightarrow> AuthorityStore \<Rightarrow> LaneIdentity \<Rightarrow> Phase \<Rightarrow> unit result \<times> AuthorityStore" where
  "AdvanceLaneAdmissionCandidate fault s identity phase =
     updateLaneAdmission fault s (\<lambda>state. AdvanceCandidate state identity phase)"

definition BeginLaneMigrationFence ::
  "go_error option \<Rightarrow> AuthorityStore \<Rightarrow> string \<Rightarrow> unit result \<times> AuthorityStore" where
  "BeginLaneMigrationFence fault s transitionID =
     updateLaneAdmission fault s (\<lambda>state. BeginMigrationFence state transitionID)"

definition AdvanceLaneMigrationFence ::
  "go_error option \<Rightarrow> AuthorityStore \<Rightarrow> string \<Rightarrow> FenceState \<Rightarrow> unit result \<times> AuthorityStore" where
  "AdvanceLaneMigrationFence fault s transitionID next_state =
     updateLaneAdmission fault s (\<lambda>state. AdvanceMigrationFence state transitionID next_state)"

definition RevalidateLaneAdmissionCandidate ::
  "go_error option \<Rightarrow> AuthorityStore \<Rightarrow> LaneIdentity \<Rightarrow> unit result \<times> AuthorityStore" where
  "RevalidateLaneAdmissionCandidate fault s identity =
     (case LaneAdmissionSnapshot fault s of
        Inl e \<Rightarrow> (Inl e, s)
      | Inr None \<Rightarrow> (Inl ErrLaneAdmissionClosed, s)
      | Inr (Some state) \<Rightarrow>
          if \<not> AllowsMutation state \<or> map_option lc_Identity (ls_Active state) \<noteq> Some identity \<or>
             li_Role identity \<noteq> RoleCandidateAdmission
          then (Inl ErrLaneAdmissionClosed, s)
          else (Inr (), s\<lparr>st_laneAdmissionRuntime := True\<rparr>))"

text \<open>The check inside the transactions that accept sessions, commands and jobs.\<close>

definition checkIngressAdmissionOnConnection :: "bool \<Rightarrow> database \<Rightarrow> unit result" where
  "checkIngressAdmissionOnConnection runtime db =
     res_bind (readLaneAdmissionOnConnection db) (\<lambda>found.
     case found of
       None \<Rightarrow> Inr ()
     | Some state \<Rightarrow>
         if \<not> runtime \<or> \<not> AllowsMutation state then Inl ErrLaneAdmissionClosed else Inr ())"

definition WithLaneIngressMutation ::
  "go_error option \<Rightarrow> AuthorityStore \<Rightarrow> (AuthorityStore \<Rightarrow> unit result \<times> AuthorityStore) \<Rightarrow>
   unit result \<times> AuthorityStore" where
  "WithLaneIngressMutation fault s mutate =
     (case LaneAdmissionSnapshot fault s of
        Inl e \<Rightarrow> (Inl e, s)
      | Inr None \<Rightarrow> mutate s
      | Inr (Some state) \<Rightarrow>
          if \<not> st_laneAdmissionRuntime s \<or> \<not> AllowsMutation state
          then (Inl ErrLaneAdmissionClosed, s) else mutate s)"

section \<open>The process flag implies an open lane\<close>

datatype admission_op =
    OpConfigure Lane HostID
  | OpLane lane_op
  | OpRevalidate LaneIdentity

fun admission_apply ::
  "go_error option \<Rightarrow> AuthorityStore \<Rightarrow> admission_op \<Rightarrow> unit result \<times> AuthorityStore" where
  "admission_apply fault s (OpConfigure lane host) = ConfigureLaneAdmission fault s lane host"
| "admission_apply fault s (OpLane (OpPrepare i)) = PrepareLaneAdmissionCandidate fault s i"
| "admission_apply fault s (OpLane (OpClose i)) = BeginLaneAdmissionClosure fault s i"
| "admission_apply fault s (OpLane OpSwitch) = SwitchLaneAdmissionCandidate fault s"
| "admission_apply fault s (OpLane (OpAdvance i p)) = AdvanceLaneAdmissionCandidate fault s i p"
| "admission_apply fault s (OpLane (OpBeginFence t)) = BeginLaneMigrationFence fault s t"
| "admission_apply fault s (OpLane (OpAdvanceFence t f)) = AdvanceLaneMigrationFence fault s t f"
| "admission_apply fault s (OpRevalidate i) = RevalidateLaneAdmissionCandidate fault s i"

definition admission_step :: "AuthorityStore \<Rightarrow> go_error option \<times> admission_op \<Rightarrow> AuthorityStore" where
  "admission_step s fo = snd (admission_apply (fst fo) s (snd fo))"

lemma admission_apply_lane:
  "admission_apply fault s (OpLane op) = updateLaneAdmission fault s (\<lambda>state. lane_apply state op)"
  by (cases op) (simp_all add: PrepareLaneAdmissionCandidate_def BeginLaneAdmissionClosure_def
      SwitchLaneAdmissionCandidate_def AdvanceLaneAdmissionCandidate_def BeginLaneMigrationFence_def
      AdvanceLaneMigrationFence_def)

lemma readLaneAdmission_Some:
  "readLaneAdmissionOnConnection db = Inr (Some st) \<longleftrightarrow>
     CurrentSchemaVersion \<le> user_version db \<and> ls_Enabled st \<and> LaneState_Validate st = Inr () \<and>
     (\<exists>row. lane_ingress_admission db = Some row \<and> lar_digest_ok row \<and> lar_state row = Some st)"
  by (auto simp: readLaneAdmissionOnConnection_def not_less split: option.splits if_splits)

lemma writeLaneAdmission_Inr:
  "writeLaneAdmissionOnConnection st ins db = Inr (u, db') \<longleftrightarrow>
     ls_Enabled st \<and> LaneState_Validate st = Inr () \<and> (ins \<longleftrightarrow> lane_ingress_admission db = None) \<and>
     db' = db\<lparr>lane_ingress_admission := Some \<lparr>lar_digest_ok = True, lar_state = Some st\<rparr>\<rparr>"
  by (auto simp: writeLaneAdmissionOnConnection_def Let_def)

text \<open>Writing and reading the row is a round trip.\<close>

lemma write_read_lane:
  "CurrentSchemaVersion \<le> user_version db \<Longrightarrow>
   writeLaneAdmissionOnConnection st ins db = Inr (u, db') \<Longrightarrow>
   readLaneAdmissionOnConnection db' = Inr (Some st)"
  by (auto simp: writeLaneAdmission_Inr readLaneAdmission_Some)

definition lane_open :: "database \<Rightarrow> bool" where
  "lane_open db \<longleftrightarrow> (\<exists>st. readLaneAdmissionOnConnection db = Inr (Some st) \<and> AllowsMutation st)"

definition runtime_flag_sound :: "AuthorityStore \<Rightarrow> bool" where
  "runtime_flag_sound s \<longleftrightarrow>
     CurrentSchemaVersion \<le> user_version (st_db s) \<and> (st_laneAdmissionRuntime s \<longrightarrow> lane_open (st_db s))"

lemma updateLaneAdmission_cases:
  assumes "updateLaneAdmission fault s mutate = (r, s')"
  obtains (refused) e where "r = Inl e" "s' = count_error e s"
  | (changed) st st' where "r = Inr ()" "readLaneAdmissionOnConnection (st_db s) = Inr (Some st)"
      "mutate st = Inr st'" "ls_Enabled st'" "LaneState_Validate st' = Inr ()"
      "s' = s\<lparr>st_db := st_db s\<lparr>lane_ingress_admission := Some \<lparr>lar_digest_ok = True, lar_state = Some st'\<rparr>\<rparr>,
           st_laneAdmissionRuntime :=
             (if \<not> AllowsMutation st' then False else if \<not> AllowsMutation st then True
              else st_laneAdmissionRuntime s)\<rparr>"
proof -
  let ?body = "tx_bind (tx_query readLaneAdmissionOnConnection) (\<lambda>found.
         case found of
           None \<Rightarrow> tx_fail ErrLaneAdmissionNotConfigured
         | Some state \<Rightarrow>
             tx_bind (tx_lift (mutate state)) (\<lambda>state'.
             tx_bind (writeLaneAdmissionOnConnection state' False) (\<lambda>_.
             tx_return (AllowsMutation state, AllowsMutation state'))))"
  show ?thesis
  proof (cases rule: withImmediateTransaction_cases [of fault s ?body])
    case (rollback e)
    then show ?thesis using assms by (intro refused [of e]) (simp_all add: updateLaneAdmission_def)
  next
    case (commit x db)
    then obtain st st' where st: "readLaneAdmissionOnConnection (st_db s) = Inr (Some st)"
      "mutate st = Inr st'" "writeLaneAdmissionOnConnection st' False (st_db s) = Inr ((), db)"
      "x = (AllowsMutation st, AllowsMutation st')"
      by (auto simp: tx_simps split: option.splits)
    moreover have "r = Inr ()" and "s' = s\<lparr>st_db := db, st_laneAdmissionRuntime :=
             (if \<not> AllowsMutation st' then False else if \<not> AllowsMutation st then True
              else st_laneAdmissionRuntime s)\<rparr>"
      using assms commit(3) st(4) by (auto simp: updateLaneAdmission_def)
    ultimately show ?thesis
      using changed [of st st'] by (auto simp: writeLaneAdmission_Inr)
  qed
qed

lemma update_flag_sound:
  assumes "runtime_flag_sound s" "updateLaneAdmission fault s mutate = (r, s')"
  shows "runtime_flag_sound s'"
  using assms(2)
proof (cases rule: updateLaneAdmission_cases)
  case (refused e)
  then show ?thesis using assms(1) by (simp add: runtime_flag_sound_def)
next
  case (changed st st')
  then show ?thesis
    using assms(1) by (auto simp: runtime_flag_sound_def lane_open_def readLaneAdmission_Some)
qed

lemma configure_flag_sound:
  assumes "runtime_flag_sound s"
  shows "runtime_flag_sound (snd (ConfigureLaneAdmission fault s lane host))"
proof (cases "NewState lane host")
  case (Inl e)
  then show ?thesis using assms by (simp add: ConfigureLaneAdmission_def)
next
  case (Inr initial)
  let ?body = "tx_bind (tx_query readLaneAdmissionOnConnection) (\<lambda>found.
              case found of
                Some current \<Rightarrow>
                  tx_guard (ls_Lane current = lane \<and> ls_HostID current = host) ErrLaneAdmissionCorrupt
              | None \<Rightarrow> writeLaneAdmissionOnConnection initial True)"
  show ?thesis
  proof (cases rule: withImmediateTransaction_cases [of fault s ?body])
    case (rollback e)
    then show ?thesis using assms Inr by (simp add: ConfigureLaneAdmission_def runtime_flag_sound_def)
  next
    case (commit x db)
    from commit(2) have "user_version db = user_version (st_db s)"
      by (auto simp: tx_simps writeLaneAdmission_Inr split: option.splits)
    moreover have "snd (ConfigureLaneAdmission fault s lane host) =
        s\<lparr>st_db := db, st_laneAdmissionRuntime := False\<rparr>"
      using Inr commit(3) by (simp add: ConfigureLaneAdmission_def)
    ultimately show ?thesis using assms by (simp add: runtime_flag_sound_def)
  qed
qed

lemma revalidate_flag_sound:
  assumes "runtime_flag_sound s"
  shows "runtime_flag_sound (snd (RevalidateLaneAdmissionCandidate fault s i))"
  using assms
  by (auto simp: RevalidateLaneAdmissionCandidate_def LaneAdmissionSnapshot_def onConnection_def
      runtime_flag_sound_def lane_open_def split: sum.splits option.splits)

interpretation admission_system: step_system admission_step runtime_flag_sound "\<lambda>_ _. True"
proof
  fix s fo
  assume s: "runtime_flag_sound s"
  show "runtime_flag_sound (admission_step s fo)"
  proof (cases "snd fo")
    case (OpLane op)
    then show ?thesis
      using update_flag_sound [OF s surjective_pairing]
      by (simp add: admission_step_def admission_apply_lane)
  qed (use s configure_flag_sound revalidate_flag_sound in \<open>auto simp: admission_step_def\<close>)
qed simp_all

text \<open>C36. From process start, under any sequence of lane operations, configurations, revalidations
  and driver faults, the process-local flag is set only while the persisted lane state is readable
  and admits mutations. In particular a restart finds the gate closed until an opening step or an
  exact revalidation, whatever the database says.\<close>

theorem admission_flag_implies_open_lane:
  assumes "user_version db = CurrentSchemaVersion"
  shows "(st_laneAdmissionRuntime (foldl admission_step (NewAuthorityStore db) ops) \<longrightarrow>
      (\<exists>st. readLaneAdmissionOnConnection (st_db (foldl admission_step (NewAuthorityStore db) ops)) = Inr (Some st) \<and>
         AllowsMutation st)) \<and>
    (readLaneAdmissionOnConnection db = Inr (Some st0) \<longrightarrow>
      checkIngressAdmissionOnConnection (st_laneAdmissionRuntime (NewAuthorityStore db)) db =
        Inl ErrLaneAdmissionClosed)"
proof -
  have "runtime_flag_sound (NewAuthorityStore db)"
    using assms by (simp add: NewAuthorityStore_def runtime_flag_sound_def)
  then have "runtime_flag_sound (foldl admission_step (NewAuthorityStore db) ops)"
    by (rule admission_system.run_inv)
  then show ?thesis
    by (simp add: runtime_flag_sound_def lane_open_def checkIngressAdmissionOnConnection_def
        NewAuthorityStore_def)
qed

definition sample_lane_db :: database where
  "sample_lane_db = empty_database\<lparr>lane_ingress_admission :=
     Some \<lparr>lar_digest_ok = True, lar_state = Some (activated sample_lane sample_identity PhaseOpen)\<rparr>\<rparr>"

theorem admission_flag_implies_open_lane_witness:
  "checkIngressAdmissionOnConnection False sample_lane_db = Inl ErrLaneAdmissionClosed"
proof -
  have "lane_idle sample_lane" by (simp add: lane_idle_def sample_lane_def LaneState_Validate_enabled
      active_not_closed_def)
  then have "LaneState_Validate (activated sample_lane sample_identity PhaseOpen) = Inr ()"
    by (rule activated_valid [OF _ sample_identity_acceptable])
      (simp_all add: sample_lane_def sample_identity_def)
  then have "readLaneAdmissionOnConnection sample_lane_db =
      Inr (Some (activated sample_lane sample_identity PhaseOpen))"
    by (auto simp: readLaneAdmission_Some sample_lane_db_def empty_database_def activated_def
        sample_lane_def)
  moreover have "user_version sample_lane_db = CurrentSchemaVersion"
    by (simp add: sample_lane_db_def empty_database_def)
  ultimately show ?thesis
    using admission_flag_implies_open_lane [of sample_lane_db "[]"
        "activated sample_lane sample_identity PhaseOpen"]
    by (simp add: NewAuthorityStore_def)
qed

lemma checkIngress_open:
  "checkIngressAdmissionOnConnection runtime db = Inr u \<longleftrightarrow>
     readLaneAdmissionOnConnection db = Inr None \<or> runtime \<and> lane_open db"
  by (auto simp: checkIngressAdmissionOnConnection_def lane_open_def tx_simps split: option.splits)

end
