(* ===== verification/Store_Sessions.thy ===== *)
theory Store_Sessions
  imports Store_Idempotency Store_Admission
begin

text \<open>
  Authoritative sessions (internal/store/sessions.go): acceptance with its idempotency key,
  lifecycle record and capacity reservation, the state transitions, the confirmed-cleanup release
  of capacity, and the reads that validate what they return. Each store method is one definition;
  the statements several methods repeat are shared helpers.
\<close>

section \<open>Data\<close>

definition DefaultActiveSessionLimit :: int where "DefaultActiveSessionLimit = 20"
definition createSessionOperation :: string where "createSessionOperation = ''create_session''"
definition reservationHostKey :: string where "reservationHostKey = ''authority''"

record SessionCreate =
  sc_SessionID :: SessionID
  sc_Target :: ExecutionTarget
  sc_Environment :: string
  sc_Controller :: ControllerIdentity
  sc_Source :: Source
  sc_ResolvedRevision :: string
  sc_RuntimeGeneration :: string
  sc_Limits :: EffectiveSessionLimits
  sc_Reason :: string

record SessionRecord =
  sr_SessionID :: SessionID
  sr_Target :: ExecutionTarget
  sr_Environment :: string
  sr_Controller :: ControllerIdentity
  sr_Source :: Source
  sr_ResolvedRevision :: string
  sr_RuntimeGeneration :: string
  sr_State :: SessionState
  sr_Limits :: EffectiveSessionLimits
  sr_CreatedAt :: time
  sr_UpdatedAt :: time
  sr_ExpiresAt :: time
  sr_IdempotencyWarning :: bool

record SessionLifecycleRecord =
  slr_SessionID :: SessionID
  slr_Sequence :: int
  slr_PreviousState :: "SessionState option"
  slr_NewState :: SessionState
  slr_Reason :: string
  slr_OccurredAt :: time

record SessionCreateAcceptance =
  sca_SessionCreate :: SessionCreate
  sca_IdempotencyKey :: string
  sca_RequestHash :: CanonicalHash
  sca_MaxActiveSessions :: int
  sca_IdempotencyRetention :: duration
  sca_Audit :: "AuditRecord option"

record SessionReservation =
  srv_SessionID :: SessionID
  srv_HostKey :: string
  srv_ReservedAt :: time
  srv_CleanupConfirmedAt :: "time option"
  srv_ReleasedAt :: "time option"

section \<open>Validation\<close>

definition normalizeSource :: "Source \<Rightarrow> Source result" where
  "normalizeSource source =
     (case src_mode source of
        SourceModeEmpty \<Rightarrow>
          if src_repositoryAlias source \<noteq> [] \<or> src_requestedRevision source \<noteq> [] \<or> src_path source \<noteq> []
          then Inl ErrInvalidSession else Inr NewEmptySource
      | SourceModeGitRevision \<Rightarrow>
          res_as ErrInvalidSession
            (NewGitRevisionSource (src_repositoryAlias source) (src_requestedRevision source))
      | SourceModeLocalWorktree \<Rightarrow>
          if src_repositoryAlias source \<noteq> [] \<or> src_requestedRevision source \<noteq> [] \<or>
             \<not> filepath_IsAbs (src_path source)
          then Inl ErrInvalidSession
          else res_as ErrInvalidSession (NewLocalWorktreeSource (src_path source))
      | SourceModeOther _ \<Rightarrow> Inl ErrInvalidSession)"

definition validateLifecycleReason :: "string \<Rightarrow> string result" where
  "validateLifecycleReason reason =
     (if reason = [] then Inl ErrInvalidSession
      else if length reason > 512 \<or> has_nul reason then Inl ErrInvalidSession
      else Inr reason)"

definition limits_positive :: "EffectiveSessionLimits \<Rightarrow> bool" where
  "limits_positive l \<longleftrightarrow> \<not> (esl_CommandTimeout l \<le> 0 \<or> esl_IdleTimeout l \<le> 0 \<or>
     esl_SessionMaxLifetime l \<le> 0 \<or> esl_OutputBytesPerCommand l \<le> 0)"

definition validateSessionCreate :: "SessionCreate \<Rightarrow> SessionCreate result" where
  "validateSessionCreate input =
     res_bind (res_as ErrInvalidSession (NewSessionID (sc_SessionID input))) (\<lambda>ident.
     res_bind (res_as ErrInvalidSession
       (NewExecutionTarget (et_kind (sc_Target input)) (et_profile (sc_Target input)))) (\<lambda>target.
     res_bind (res_as ErrInvalidSession (NewControllerID (ci_id (sc_Controller input)))) (\<lambda>controllerID.
     res_bind (res_as ErrInvalidSession
       (NewControllerIdentity (ci_type (sc_Controller input)) controllerID)) (\<lambda>controller.
     res_bind (normalizeSource (sc_Source input)) (\<lambda>source.
     if TrimSpace (sc_Environment input) = [] then Inl ErrInvalidSession
     else if sc_ResolvedRevision input \<noteq> [] \<and> src_mode source \<noteq> SourceModeGitRevision
     then Inl ErrInvalidSession
     else if length (sc_RuntimeGeneration input) > 256 \<or> has_nul (sc_RuntimeGeneration input)
     then Inl ErrInvalidSession
     else if \<not> limits_positive (sc_Limits input) then Inl ErrInvalidSession
     else
       res_bind (case validateLifecycleReason (sc_Reason input) of
           Inl e \<Rightarrow> if sc_Reason input = [] then Inr ''session_created'' else Inl e
         | Inr reason \<Rightarrow> Inr reason) (\<lambda>reason.
       Inr \<lparr>sc_SessionID = ident, sc_Target = target,
         sc_Environment = TrimSpace (sc_Environment input), sc_Controller = controller,
         sc_Source = source, sc_ResolvedRevision = sc_ResolvedRevision input,
         sc_RuntimeGeneration = sc_RuntimeGeneration input, sc_Limits = sc_Limits input,
         sc_Reason = reason\<rparr>))))))"

definition validateSessionAcceptance :: "SessionCreateAcceptance \<Rightarrow> SessionCreateAcceptance result" where
  "validateSessionAcceptance input =
     res_bind (validateSessionCreate (sca_SessionCreate input)) (\<lambda>session.
     if sca_IdempotencyKey input = [] \<or> length (sca_IdempotencyKey input) > 256 \<or>
        has_nul (sca_IdempotencyKey input)
     then Inl ErrIdempotencyKey
     else
       res_bind (res_as ErrInvalidSession (NewCanonicalHash (ch_version (sca_RequestHash input))
         (ch_digest (sca_RequestHash input)))) (\<lambda>hash.
       let maxActive = (if sca_MaxActiveSessions input = 0 then DefaultActiveSessionLimit
                        else sca_MaxActiveSessions input);
           retention = (if sca_IdempotencyRetention input = 0 then DefaultSessionIdempotencyRetention
                        else sca_IdempotencyRetention input) in
       if maxActive < 1 then Inl ErrInvalidSession
       else if retention < 0 then Inl ErrInvalidSession
       else Inr \<lparr>sca_SessionCreate = session, sca_IdempotencyKey = sca_IdempotencyKey input,
         sca_RequestHash = hash, sca_MaxActiveSessions = maxActive,
         sca_IdempotencyRetention = retention, sca_Audit = sca_Audit input\<rparr>))"

section \<open>Reads\<close>

definition decodeSource :: "SourceMode \<Rightarrow> string \<Rightarrow> string \<Rightarrow> string \<Rightarrow> Source result" where
  "decodeSource mode repositoryAlias requestedRevision path =
     (case mode of
        SourceModeEmpty \<Rightarrow> normalizeSource NewEmptySource
      | SourceModeGitRevision \<Rightarrow>
          res_as ErrSessionLifecycle (NewGitRevisionSource repositoryAlias requestedRevision)
      | SourceModeLocalWorktree \<Rightarrow> res_as ErrSessionLifecycle (NewLocalWorktreeSource path)
      | SourceModeOther _ \<Rightarrow> Inl ErrSessionLifecycle)"

definition find_session :: "SessionID \<Rightarrow> database \<Rightarrow> session_row option" where
  "find_session sid db = find (\<lambda>r. ses_session_id r = sid) (exec_sessions db)"

definition decode_session_row :: "session_row \<Rightarrow> SessionRecord result" where
  "decode_session_row row =
     res_bind (res_as ErrSessionLifecycle (NewSessionID (ses_session_id row))) (\<lambda>ident.
     res_bind (res_as ErrSessionLifecycle
       (NewExecutionTarget (ses_target_kind row) (ses_target_profile row))) (\<lambda>target.
     res_bind (res_as ErrSessionLifecycle (NewControllerID (ses_controller_id row))) (\<lambda>controllerID.
     res_bind (res_as ErrSessionLifecycle
       (NewControllerIdentity (ses_controller_type row) controllerID)) (\<lambda>controller.
     res_bind (decodeSource (ses_source_mode row) (ses_source_repository_alias row)
       (ses_source_requested_revision row) (ses_source_path row)) (\<lambda>source.
     if \<not> SessionState_Valid (ses_state row) then Inl ErrSessionLifecycle
     else
       let limits = \<lparr>esl_CommandTimeout = ses_command_timeout_ns row,
             esl_IdleTimeout = ses_idle_timeout_ns row,
             esl_SessionMaxLifetime = ses_session_max_lifetime_ns row,
             esl_OutputBytesPerCommand = ses_output_bytes_per_command row\<rparr> in
       if \<not> limits_positive limits then Inl ErrSessionLifecycle
       else
         res_bind (res_as ErrSessionLifecycle (parseStoredTime (ses_created_at row))) (\<lambda>createdAt.
         res_bind (res_as ErrSessionLifecycle (parseStoredTime (ses_updated_at row))) (\<lambda>updatedAt.
         res_bind (res_as ErrSessionLifecycle (parseStoredTime (ses_expires_at row))) (\<lambda>expiresAt.
         Inr \<lparr>sr_SessionID = ident, sr_Target = target, sr_Environment = ses_environment row,
           sr_Controller = controller, sr_Source = source,
           sr_ResolvedRevision = ses_source_resolved_revision row,
           sr_RuntimeGeneration = ses_runtime_generation row, sr_State = ses_state row,
           sr_Limits = limits, sr_CreatedAt = createdAt, sr_UpdatedAt = updatedAt,
           sr_ExpiresAt = expiresAt, sr_IdempotencyWarning = False\<rparr>))))))))"

definition readSessionOnConnection :: "SessionID \<Rightarrow> database \<Rightarrow> SessionRecord result" where
  "readSessionOnConnection sid db =
     (case find_session sid db of
        None \<Rightarrow> Inl ErrSessionNotFound
      | Some row \<Rightarrow> decode_session_row row)"

definition find_reservation :: "SessionID \<Rightarrow> database \<Rightarrow> reservation_row option" where
  "find_reservation sid db = find (\<lambda>r. res_session_id r = sid) (exec_capacity_reservations db)"

definition parse_optional :: "go_error \<Rightarrow> string option \<Rightarrow> time option result" where
  "parse_optional e v =
     (case v of
        None \<Rightarrow> Inr None
      | Some text \<Rightarrow> res_bind (res_as e (parseStoredTime text)) (\<lambda>t. Inr (Some t)))"

definition readReservationOnConnection :: "SessionID \<Rightarrow> database \<Rightarrow> SessionReservation result" where
  "readReservationOnConnection sid db =
     (case find_reservation sid db of
        None \<Rightarrow> Inl ErrSessionReservationNotFound
      | Some row \<Rightarrow>
          res_bind (res_as ErrSessionLifecycle (NewSessionID (res_session_id row))) (\<lambda>ident.
          res_bind (res_as ErrSessionLifecycle (parseStoredTime (res_reserved_at row))) (\<lambda>reservedAt.
          res_bind (parse_optional ErrSessionLifecycle (res_cleanup_confirmed_at row)) (\<lambda>cleanup.
          res_bind (parse_optional ErrSessionLifecycle (res_released_at row)) (\<lambda>released.
          Inr \<lparr>srv_SessionID = ident, srv_HostKey = res_host_key row, srv_ReservedAt = reservedAt,
            srv_CleanupConfirmedAt = cleanup, srv_ReleasedAt = released\<rparr>)))))"

definition GetSession :: "go_error option \<Rightarrow> AuthorityStore \<Rightarrow> SessionID \<Rightarrow> SessionRecord result" where
  "GetSession fault s sid =
     res_bind (NewSessionID sid) (\<lambda>ident. onConnection fault s (readSessionOnConnection ident))"

definition ListSessions :: "go_error option \<Rightarrow> AuthorityStore \<Rightarrow> SessionRecord list result" where
  "ListSessions fault s =
     onConnection fault s (\<lambda>db.
       res_bind (read_all (\<lambda>row. NewSessionID (ses_session_id row))
         (sort_key (\<lambda>row. (ses_created_at row, ses_session_id row)) (exec_sessions db))) (\<lambda>ids.
       read_all (\<lambda>ident. readSessionOnConnection ident db) ids))"

text \<open>Reservations of this host whose cleanup is not confirmed.\<close>

definition live_reservations :: "database \<Rightarrow> int" where
  "live_reservations db = int (length (filter
     (\<lambda>r. res_host_key r = reservationHostKey \<and> res_cleanup_confirmed_at r = None)
     (exec_capacity_reservations db)))"

definition CountLiveSessionReservations :: "go_error option \<Rightarrow> AuthorityStore \<Rightarrow> int result" where
  "CountLiveSessionReservations fault s = onConnection fault s (\<lambda>db. Inr (live_reservations db))"

definition GetSessionReservation ::
  "go_error option \<Rightarrow> AuthorityStore \<Rightarrow> SessionID \<Rightarrow> SessionReservation result" where
  "GetSessionReservation fault s sid =
     res_bind (NewSessionID sid) (\<lambda>ident. onConnection fault s (readReservationOnConnection ident))"

definition decode_lifecycle_row :: "SessionID \<Rightarrow> lifecycle_row \<Rightarrow> SessionLifecycleRecord result" where
  "decode_lifecycle_row sid row =
     (if \<not> SessionState_Valid (slc_new_state row) then Inl ErrSessionLifecycle
      else if \<not> pred_option SessionState_Valid (slc_previous_state row) then Inl ErrSessionLifecycle
      else res_bind (res_as ErrSessionLifecycle (parseStoredTime (slc_occurred_at row))) (\<lambda>t.
        Inr \<lparr>slr_SessionID = sid, slr_Sequence = slc_sequence row,
          slr_PreviousState = slc_previous_state row, slr_NewState = slc_new_state row,
          slr_Reason = slc_reason row, slr_OccurredAt = t\<rparr>))"

definition session_history :: "SessionID \<Rightarrow> database \<Rightarrow> lifecycle_row list" where
  "session_history sid db = filter (\<lambda>r. slc_session_id r = sid) (exec_session_lifecycle db)"

definition ListSessionLifecycle ::
  "go_error option \<Rightarrow> AuthorityStore \<Rightarrow> SessionID \<Rightarrow> SessionLifecycleRecord list result" where
  "ListSessionLifecycle fault s sid =
     res_bind (NewSessionID sid) (\<lambda>ident. onConnection fault s (\<lambda>db.
     res_bind (readSessionOnConnection ident db) (\<lambda>_.
     res_bind (read_all (decode_lifecycle_row ident) (sort_key slc_sequence (session_history ident db)))
       (\<lambda>records. if records = [] then Inl ErrSessionLifecycle else Inr records))))"

section \<open>Statements shared by the transactions\<close>

definition next_lifecycle_sequence :: "SessionID \<Rightarrow> database \<Rightarrow> int" where
  "next_lifecycle_sequence sid db = max_column slc_sequence (session_history sid db) + 1"

definition lifecycle_row_of ::
  "SessionID \<Rightarrow> int \<Rightarrow> SessionState option \<Rightarrow> SessionState \<Rightarrow> string \<Rightarrow> time \<Rightarrow> lifecycle_row" where
  "lifecycle_row_of sid sequence previous new_state reason now =
     \<lparr>slc_session_id = sid, slc_sequence = sequence, slc_previous_state = previous,
      slc_new_state = new_state, slc_reason = reason, slc_occurred_at = formatStoredTime now\<rparr>"

definition insert_lifecycle ::
  "SessionID \<Rightarrow> int \<Rightarrow> SessionState option \<Rightarrow> SessionState \<Rightarrow> string \<Rightarrow> time \<Rightarrow> unit db_tx" where
  "insert_lifecycle sid sequence previous new_state reason now =
     sql_insert lifecycle_constraints exec_session_lifecycle_update
       (lifecycle_row_of sid sequence previous new_state reason now)"

text \<open>\<open>UPDATE exec_sessions SET ... WHERE session_id = ? AND state = ?\<close>\<close>

definition update_session ::
  "SessionID \<Rightarrow> SessionState \<Rightarrow> (session_row \<Rightarrow> session_row) \<Rightarrow> nat db_tx" where
  "update_session sid current f =
     sql_update session_check exec_sessions exec_sessions_update
       (\<lambda>r. ses_session_id r = sid \<and> ses_state r = current) f"

text \<open>The three statements of a transition: the next sequence, the guarded update of the session
  and the lifecycle record.\<close>

definition move_session ::
  "SessionID \<Rightarrow> SessionState \<Rightarrow> SessionState \<Rightarrow> (session_row \<Rightarrow> session_row) \<Rightarrow> string \<Rightarrow> time \<Rightarrow>
   unit db_tx" where
  "move_session sid current next_state f reason now =
     tx_bind (tx_query (\<lambda>db. Inr (next_lifecycle_sequence sid db))) (\<lambda>sequence.
     tx_bind (update_session sid current f) (\<lambda>_.
     insert_lifecycle sid sequence (Some current) next_state reason now))"

definition confirmed :: "time \<Rightarrow> reservation_row \<Rightarrow> reservation_row" where
  "confirmed now r = r\<lparr>res_cleanup_confirmed_at := Some (formatStoredTime now),
     res_released_at := Some (formatStoredTime now)\<rparr>"

definition ensureSessionCapacity :: "int \<Rightarrow> unit db_tx" where
  "ensureSessionCapacity maxActive =
     (\<lambda>db. if live_reservations db \<ge> maxActive then Inl ErrSessionCapacityExceeded else Inr ((), db))"

definition session_row_of :: "SessionCreate \<Rightarrow> time \<Rightarrow> session_row" where
  "session_row_of v now =
     \<lparr>ses_session_id = sc_SessionID v, ses_target_kind = et_kind (sc_Target v),
      ses_target_profile = et_profile (sc_Target v), ses_environment = sc_Environment v,
      ses_controller_type = ci_type (sc_Controller v), ses_controller_id = ci_id (sc_Controller v),
      ses_source_mode = src_mode (sc_Source v),
      ses_source_repository_alias = src_repositoryAlias (sc_Source v),
      ses_source_requested_revision = src_requestedRevision (sc_Source v),
      ses_source_path = src_path (sc_Source v), ses_source_resolved_revision = sc_ResolvedRevision v,
      ses_runtime_generation = sc_RuntimeGeneration v, ses_state = SessionStateCreating,
      ses_command_timeout_ns = esl_CommandTimeout (sc_Limits v),
      ses_idle_timeout_ns = esl_IdleTimeout (sc_Limits v),
      ses_session_max_lifetime_ns = esl_SessionMaxLifetime (sc_Limits v),
      ses_output_bytes_per_command = esl_OutputBytesPerCommand (sc_Limits v),
      ses_created_at = formatStoredTime now, ses_updated_at = formatStoredTime now,
      ses_expires_at = formatStoredTime (now + esl_SessionMaxLifetime (sc_Limits v))\<rparr>"

definition reservation_row_of :: "SessionID \<Rightarrow> time \<Rightarrow> reservation_row" where
  "reservation_row_of sid now =
     \<lparr>res_session_id = sid, res_host_key = reservationHostKey, res_reserved_at = formatStoredTime now,
      res_cleanup_confirmed_at = None, res_released_at = None\<rparr>"

definition insertSessionAcceptance ::
  "SessionCreate \<Rightarrow> string \<Rightarrow> CanonicalHash \<Rightarrow> time \<Rightarrow> time \<Rightarrow> bool \<Rightarrow> unit db_tx" where
  "insertSessionAcceptance validated idemKey requestHash idempotencyExpiresAt now idempotencyWarning =
     tx_bind (\<lambda>db. if find_session (sc_SessionID validated) db \<noteq> None then Inl ErrSessionExists
                   else Inr ((), db)) (\<lambda>_.
     tx_bind (sql_insert session_constraints exec_sessions_update (session_row_of validated now)) (\<lambda>_.
     tx_bind (insert_lifecycle (sc_SessionID validated) 1 None SessionStateCreating
       (sc_Reason validated) now) (\<lambda>_.
     tx_bind (sql_insert reservation_constraints exec_capacity_reservations_update
       (reservation_row_of (sc_SessionID validated) now)) (\<lambda>_.
     if idemKey \<noteq> []
     then tx_bind (tx_lift (validateIdempotencyInput (sc_Controller validated) createSessionOperation
            idemKey requestHash (sc_SessionID validated) (idempotencyExpiresAt - now))) (\<lambda>input.
          recordIdempotencyOnConnection (input\<lparr>idr_CreatedAt := now,
            idr_ExpiresAt := idempotencyExpiresAt, idr_DeduplicationWarning := idempotencyWarning\<rparr>))
     else tx_return ()))))"

section \<open>Operations\<close>

definition accept_session_body ::
  "SessionCreateAcceptance \<Rightarrow> time \<Rightarrow> bool \<Rightarrow> ((SessionRecord \<times> bool) \<times> AuditRecord option) db_tx" where
  "accept_session_body validated now runtime =
     (let create = sca_SessionCreate validated; key = sca_IdempotencyKey validated in
      tx_bind (tx_query (checkIngressAdmissionOnConnection runtime)) (\<lambda>_.
      tx_bind (lookupIdempotencyOnConnection (sc_Controller create) createSessionOperation key now) (\<lambda>found.
      case found of
        Some existing \<Rightarrow>
          tx_bind (tx_guard (CompareIdempotency (idr_Hash existing) (sca_RequestHash validated) \<noteq>
            IdempotencyComparisonConflict) ErrIdempotencyConflict) (\<lambda>_.
          tx_bind (tx_lift (NewSessionID (idr_ResourceID existing))) (\<lambda>existingSessionID.
          tx_bind (tx_query (readReservationOnConnection existingSessionID)) (\<lambda>_.
          tx_bind (tx_query (readSessionOnConnection existingSessionID)) (\<lambda>existingRecord.
          tx_bind (insertOptionalAuditOnConnection (sca_Audit validated)) (\<lambda>saved.
          tx_return ((existingRecord\<lparr>sr_IdempotencyWarning := idr_DeduplicationWarning existing\<rparr>, True),
            saved))))))
      | None \<Rightarrow>
          tx_bind (tx_query (idempotencyExpiryWarningOnConnection (sc_Controller create)
            createSessionOperation key now)) (\<lambda>warning.
          tx_bind (ensureSessionCapacity (sca_MaxActiveSessions validated)) (\<lambda>_.
          tx_bind (insertSessionAcceptance create key (sca_RequestHash validated)
            (now + sca_IdempotencyRetention validated) now warning) (\<lambda>_.
          tx_bind (tx_query (readSessionOnConnection (sc_SessionID create))) (\<lambda>created.
          tx_bind (insertOptionalAuditOnConnection (sca_Audit validated)) (\<lambda>saved.
          tx_return ((created\<lparr>sr_IdempotencyWarning := warning\<rparr>, False), saved)))))))))"

definition AcceptSessionCreate ::
  "go_error option \<Rightarrow> time \<Rightarrow> AuthorityStore \<Rightarrow> SessionCreateAcceptance \<Rightarrow>
   (SessionRecord \<times> bool) result \<times> AuthorityStore" where
  "AcceptSessionCreate fault now s input =
     (case validateSessionAcceptance input of
        Inl e \<Rightarrow> (Inl e, s)
      | Inr validated \<Rightarrow>
          (case withImmediateTransaction fault s
             (accept_session_body validated now (st_laneAdmissionRuntime s)) of
             (Inl e, s') \<Rightarrow> (Inl e, s')
           | (Inr (res, saved), s') \<Rightarrow> (Inr res, logOptionalAudit saved s')))"

definition CreateSession ::
  "go_error option \<Rightarrow> time \<Rightarrow> AuthorityStore \<Rightarrow> SessionCreate \<Rightarrow> SessionRecord result \<times> AuthorityStore" where
  "CreateSession fault now s input =
     (case validateSessionCreate input of
        Inl e \<Rightarrow> (Inl e, s)
      | Inr validated \<Rightarrow>
          withImmediateTransaction fault s
            (tx_bind (tx_query (checkIngressAdmissionOnConnection (st_laneAdmissionRuntime s))) (\<lambda>_.
             tx_bind (ensureSessionCapacity DefaultActiveSessionLimit) (\<lambda>_.
             tx_bind (insertSessionAcceptance validated [] zero_hash zero_time now False) (\<lambda>_.
             tx_query (readSessionOnConnection (sc_SessionID validated)))))))"

definition confirm_cleanup_body :: "SessionID \<Rightarrow> time \<Rightarrow> unit db_tx" where
  "confirm_cleanup_body sid now =
     tx_bind (sql_update reservation_check exec_capacity_reservations
       exec_capacity_reservations_update
       (\<lambda>r. res_session_id r = sid \<and> res_cleanup_confirmed_at r = None) (confirmed now)) (\<lambda>changed.
     if changed > 0 then tx_return ()
     else (\<lambda>db. if find_reservation sid db = None then Inl ErrSessionReservationNotFound
                else Inr ((), db)))"

definition ConfirmSessionCleanup ::
  "go_error option \<Rightarrow> time \<Rightarrow> AuthorityStore \<Rightarrow> SessionID \<Rightarrow> unit result \<times> AuthorityStore" where
  "ConfirmSessionCleanup fault now s sid =
     (case NewSessionID sid of
        Inl e \<Rightarrow> (Inl e, s)
      | Inr ident \<Rightarrow> withImmediateTransaction fault s (confirm_cleanup_body ident now))"

text \<open>\<open>SELECT ... FROM exec_sessions WHERE session_id = ?\<close>\<close>

definition select_session :: "SessionID \<Rightarrow> database \<Rightarrow> session_row result" where
  "select_session sid db =
     (case find_session sid db of None \<Rightarrow> Inl ErrSessionNotFound | Some row \<Rightarrow> Inr row)"

definition transition_session_body ::
  "SessionID \<Rightarrow> SessionState \<Rightarrow> string \<Rightarrow> time \<Rightarrow> SessionRecord db_tx" where
  "transition_session_body sid next_state reason now =
     tx_bind (tx_query (select_session sid)) (\<lambda>row.
     let current = ses_state row in
     tx_bind (tx_lift (ValidateSessionTransition current next_state)) (\<lambda>_.
     tx_bind (move_session sid current next_state
       (\<lambda>r. r\<lparr>ses_state := next_state, ses_updated_at := formatStoredTime now\<rparr>) reason now) (\<lambda>_.
     tx_query (readSessionOnConnection sid))))"

definition TransitionSession ::
  "go_error option \<Rightarrow> time \<Rightarrow> AuthorityStore \<Rightarrow> SessionID \<Rightarrow> SessionState \<Rightarrow> string \<Rightarrow>
   SessionRecord result \<times> AuthorityStore" where
  "TransitionSession fault now s sid next_state reason =
     (case NewSessionID sid of
        Inl e \<Rightarrow> (Inl e, s)
      | Inr ident \<Rightarrow>
          if \<not> SessionState_Valid next_state then (Inl ErrInvalidSessionState, s)
          else case validateLifecycleReason reason of
            Inl e \<Rightarrow> (Inl e, s)
          | Inr reason \<Rightarrow> withImmediateTransaction fault s (transition_session_body ident next_state reason now))"

definition complete_creation_body ::
  "SessionID \<Rightarrow> SessionState \<Rightarrow> string \<Rightarrow> string \<Rightarrow> string \<Rightarrow> time \<Rightarrow> SessionRecord db_tx" where
  "complete_creation_body sid next_state runtimeGeneration resolvedRevision reason now =
     tx_bind (tx_query (select_session sid)) (\<lambda>row.
     let current = ses_state row in
     tx_bind (tx_lift (ValidateSessionTransition current next_state)) (\<lambda>_.
     let generation = (if runtimeGeneration = [] then ses_runtime_generation row else runtimeGeneration);
         revision = (if resolvedRevision = [] then ses_source_resolved_revision row else resolvedRevision) in
     tx_bind (move_session sid current next_state
       (\<lambda>r. r\<lparr>ses_state := next_state, ses_runtime_generation := generation,
             ses_source_resolved_revision := revision, ses_updated_at := formatStoredTime now\<rparr>)
       reason now) (\<lambda>_.
     tx_query (readSessionOnConnection sid))))"

definition CompleteSessionCreation ::
  "go_error option \<Rightarrow> time \<Rightarrow> AuthorityStore \<Rightarrow> SessionID \<Rightarrow> SessionState \<Rightarrow> string \<Rightarrow> string \<Rightarrow>
   string \<Rightarrow> SessionRecord result \<times> AuthorityStore" where
  "CompleteSessionCreation fault now s sid next_state runtimeGeneration resolvedRevision reason =
     (case NewSessionID sid of
        Inl e \<Rightarrow> (Inl e, s)
      | Inr ident \<Rightarrow>
          if next_state \<noteq> SessionStateReady \<and> next_state \<noteq> SessionStateFailed \<and>
             next_state \<noteq> SessionStateLost
          then (Inl ErrIllegalSessionTransition, s)
          else if length runtimeGeneration > 256 \<or> has_nul runtimeGeneration then (Inl ErrInvalidSession, s)
          else if has_nul resolvedRevision \<or> length resolvedRevision > 256 then (Inl ErrInvalidSession, s)
          else if next_state = SessionStateReady \<and> runtimeGeneration = [] then (Inl ErrInvalidSession, s)
          else case validateLifecycleReason reason of
            Inl e \<Rightarrow> (Inl e, s)
          | Inr _ \<Rightarrow> withImmediateTransaction fault s
              (complete_creation_body ident next_state runtimeGeneration resolvedRevision reason now))"

text \<open>\<open>UPDATE exec_capacity_reservations ... WHERE session_id = ? AND cleanup_confirmed_at IS NULL
  AND released_at IS NULL\<close>, which must change one row.\<close>

definition release_reservation :: "SessionID \<Rightarrow> time \<Rightarrow> unit db_tx" where
  "release_reservation sid now =
     tx_bind (sql_update reservation_check exec_capacity_reservations
       exec_capacity_reservations_update
       (\<lambda>r. res_session_id r = sid \<and> res_cleanup_confirmed_at r = None \<and> res_released_at r = None)
       (confirmed now)) (\<lambda>changed.
     tx_guard (changed = 1) ErrSessionLifecycle)"

definition fail_after_cleanup_body ::
  "SessionID \<Rightarrow> string \<Rightarrow> string \<Rightarrow> string \<Rightarrow> time \<Rightarrow> SessionRecord db_tx" where
  "fail_after_cleanup_body sid runtimeGeneration resolvedRevision reason now =
     tx_bind (tx_query (select_session sid)) (\<lambda>row.
     tx_bind (tx_guard (ses_state row = SessionStateCreating) ErrSessionLifecycle) (\<lambda>_.
     let revision = (if resolvedRevision = [] then ses_source_resolved_revision row else resolvedRevision) in
     tx_bind (move_session sid SessionStateCreating SessionStateFailed
       (\<lambda>r. r\<lparr>ses_state := SessionStateFailed, ses_runtime_generation := runtimeGeneration,
             ses_source_resolved_revision := revision, ses_updated_at := formatStoredTime now\<rparr>)
       reason now) (\<lambda>_.
     tx_bind (release_reservation sid now) (\<lambda>_.
     tx_query (readSessionOnConnection sid)))))"

definition CompleteFailedSessionCreationAfterConfirmedCleanup ::
  "go_error option \<Rightarrow> time \<Rightarrow> AuthorityStore \<Rightarrow> SessionID \<Rightarrow> string \<Rightarrow> string \<Rightarrow> string \<Rightarrow>
   SessionRecord result \<times> AuthorityStore" where
  "CompleteFailedSessionCreationAfterConfirmedCleanup fault now s sid runtimeGeneration resolvedRevision reason =
     (case NewSessionID sid of
        Inl e \<Rightarrow> (Inl e, s)
      | Inr ident \<Rightarrow>
          if runtimeGeneration = [] \<or> length runtimeGeneration > 256 \<or> has_nul runtimeGeneration
          then (Inl ErrInvalidSession, s)
          else if has_nul resolvedRevision \<or> length resolvedRevision > 256 then (Inl ErrInvalidSession, s)
          else case validateLifecycleReason reason of
            Inl e \<Rightarrow> (Inl e, s)
          | Inr _ \<Rightarrow> withImmediateTransaction fault s
              (fail_after_cleanup_body ident runtimeGeneration resolvedRevision reason now))"

definition fail_pre_start_body :: "SessionID \<Rightarrow> time \<Rightarrow> SessionRecord db_tx" where
  "fail_pre_start_body sid now =
     tx_bind (tx_query (select_session sid)) (\<lambda>row.
     tx_bind (tx_guard (ses_state row = SessionStateCreating \<and> ses_runtime_generation row = [])
       ErrSessionLifecycle) (\<lambda>_.
     tx_bind (tx_query (\<lambda>db. Inr (next_lifecycle_sequence sid db))) (\<lambda>sequence.
     tx_bind (sql_update session_check exec_sessions exec_sessions_update
       (\<lambda>r. ses_session_id r = sid \<and> ses_state r = SessionStateCreating \<and> ses_runtime_generation r = [])
       (\<lambda>r. r\<lparr>ses_state := SessionStateFailed, ses_updated_at := formatStoredTime now\<rparr>)) (\<lambda>changed.
     tx_bind (tx_guard (changed = 1) ErrSessionLifecycle) (\<lambda>_.
     tx_bind (insert_lifecycle sid sequence (Some SessionStateCreating) SessionStateFailed
       ''runtime_prepare_failed'' now) (\<lambda>_.
     tx_bind (release_reservation sid now) (\<lambda>_.
     tx_query (readSessionOnConnection sid))))))))"

definition FailPreStartSessionCreation ::
  "go_error option \<Rightarrow> time \<Rightarrow> AuthorityStore \<Rightarrow> SessionID \<Rightarrow> SessionRecord result \<times> AuthorityStore" where
  "FailPreStartSessionCreation fault now s sid =
     (case NewSessionID sid of
        Inl e \<Rightarrow> (Inl e, s)
      | Inr ident \<Rightarrow> withImmediateTransaction fault s (fail_pre_start_body ident now))"

end
