(* ===== verification/Session_Facts.thy ===== *)
theory Session_Facts
  imports Store_Sessions
begin

text \<open>
  What the session operations keep. A session's lifecycle rows are numbered from one without gaps,
  start in \<open>creating\<close>, follow the edges of the session table and end in the state of the
  session row; every session has one reservation. The operations keep this whatever their
  arguments, a failed operation changes nothing, and capacity is only given back by a confirmed
  cleanup.
\<close>

section \<open>Lifecycle histories\<close>

definition history_ok :: "lifecycle_row list \<Rightarrow> SessionState \<Rightarrow> bool" where
  "history_ok h current \<longleftrightarrow>
     h \<noteq> [] \<and> numbered slc_sequence h \<and>
     map slc_previous_state h = None # map Some (butlast (map slc_new_state h)) \<and>
     hd (map slc_new_state h) = SessionStateCreating \<and>
     chain SessionState_CanTransitionTo (map slc_new_state h) \<and>
     last (map slc_new_state h) = current"

lemma history_ok_single:
  "slc_sequence r = 1 \<Longrightarrow> slc_previous_state r = None \<Longrightarrow> slc_new_state r = SessionStateCreating \<Longrightarrow>
   history_ok [r] SessionStateCreating"
  by (simp add: history_ok_def numbered_def)

lemma history_ok_snoc:
  assumes "history_ok h current" "SessionState_CanTransitionTo current (slc_new_state r)"
    and "slc_sequence r = int (length h) + 1" "slc_previous_state r = Some current"
  shows "history_ok (h @ [r]) (slc_new_state r)"
proof -
  have ne: "h \<noteq> []" and cur: "last (map slc_new_state h) = current"
    using assms(1) by (auto simp: history_ok_def)
  then have "map Some (butlast (map slc_new_state h)) @ [Some current] = map Some (map slc_new_state h)"
    by (metis append_butlast_last_id list.simps(8) list.simps(9) map_append map_is_Nil_conv)
  with assms ne cur show ?thesis
    by (simp add: history_ok_def chain_snoc butlast_append del: map_map)
qed

lemma history_ok_next: "history_ok h current \<Longrightarrow> max_column slc_sequence h + 1 = int (length h) + 1"
  by (simp add: history_ok_def numbered_max)

section \<open>The invariant of the session tables\<close>

definition sessions_wf :: "database \<Rightarrow> bool" where
  "sessions_wf db \<longleftrightarrow>
     distinct (map ses_session_id (exec_sessions db)) \<and>
     distinct (map res_session_id (exec_capacity_reservations db)) \<and>
     res_session_id ` set (exec_capacity_reservations db) = ses_session_id ` set (exec_sessions db) \<and>
     slc_session_id ` set (exec_session_lifecycle db) \<subseteq> ses_session_id ` set (exec_sessions db) \<and>
     (\<forall>row \<in> set (exec_sessions db). history_ok (session_history (ses_session_id row) db) (ses_state row))"

lemma sessions_wf_cong:
  "exec_sessions db' = exec_sessions db \<Longrightarrow> exec_session_lifecycle db' = exec_session_lifecycle db \<Longrightarrow>
   exec_capacity_reservations db' = exec_capacity_reservations db \<Longrightarrow> sessions_wf db' = sessions_wf db"
  by (simp add: sessions_wf_def session_history_def)

lemma sessions_wf_empty [simp]: "sessions_wf empty_database"
  by (simp add: sessions_wf_def empty_database_def)

lemma find_session_row:
  "sessions_wf db \<Longrightarrow> find_session sid db = Some row \<longleftrightarrow> row \<in> set (exec_sessions db) \<and> ses_session_id row = sid"
  by (simp add: sessions_wf_def find_session_def find_key_Some)

lemma find_session_history:
  "sessions_wf db \<Longrightarrow> find_session sid db = Some row \<Longrightarrow> history_ok (session_history sid db) (ses_state row)"
  using find_session_row [of db sid row] by (auto simp: sessions_wf_def)

lemma no_session_no_history:
  "sessions_wf db \<Longrightarrow> sid \<notin> ses_session_id ` set (exec_sessions db) \<Longrightarrow> session_history sid db = []"
  by (auto simp: sessions_wf_def session_history_def filter_empty_conv)

text \<open>A legal transition: the row of the session is updated and one record is appended.\<close>

lemma sessions_wf_move:
  assumes wf: "sessions_wf db" and row: "find_session sid db = Some row" and P: "P row"
    and edge: "SessionState_CanTransitionTo (ses_state row) next_state"
    and f: "\<And>r. ses_session_id (f r) = ses_session_id r" "\<And>r. ses_state (f r) = next_state"
    and rec: "slc_session_id rec = sid" "slc_sequence rec = next_lifecycle_sequence sid db"
      "slc_previous_state rec = Some (ses_state row)" "slc_new_state rec = next_state"
    and db': "db' = exec_session_lifecycle_update (\<lambda>rows. rows @ [rec])
      (exec_sessions_update (update_rows (\<lambda>r. ses_session_id r = sid \<and> P r) f) db)"
  shows "sessions_wf db'"
proof -
  have mem: "row \<in> set (exec_sessions db)" "ses_session_id row = sid"
    using row find_session_row [OF wf] by auto
  have old: "history_ok (session_history sid db) (ses_state row)"
    using find_session_history [OF wf row] .
  have hist: "session_history k db' =
      (if k = sid then session_history sid db @ [rec] else session_history k db)" for k
    using rec(1) by (simp add: db' session_history_def)
  have ids: "ses_session_id ` set (update_rows (\<lambda>r. ses_session_id r = sid \<and> P r) f (exec_sessions db)) =
      ses_session_id ` set (exec_sessions db)"
    using map_update_rows [of ses_session_id f, OF f(1)] by (metis list.set_map)
  have "history_ok (session_history (ses_session_id r) db') (ses_state r)"
    if r: "r \<in> set (exec_sessions db')" for r
  proof -
    obtain r0 where r0: "r0 \<in> set (exec_sessions db)"
      and r: "r = (if ses_session_id r0 = sid \<and> P r0 then f r0 else r0)"
      using r by (auto simp: db' in_update_rows)
    show ?thesis
    proof (cases "ses_session_id r0 = sid")
      case True
      then have "r0 = row"
        using wf r0 mem distinct_key_eq [of ses_session_id "exec_sessions db"]
        by (auto simp: sessions_wf_def)
      then have "r = f row" using r P True by simp
      moreover have "history_ok (session_history sid db @ [rec]) (slc_new_state rec)"
        using history_ok_snoc [OF old, of rec] edge rec history_ok_next [OF old]
        by (simp add: next_lifecycle_sequence_def)
      ultimately show ?thesis using f rec(4) mem(2) by (simp add: hist)
    next
      case False
      then show ?thesis using r r0 wf by (simp add: hist sessions_wf_def)
    qed
  qed
  moreover have "slc_session_id rec \<in> ses_session_id ` set (exec_sessions db)"
    using mem rec(1) by (metis imageI)
  ultimately show ?thesis
    using wf f(1) ids by (simp add: sessions_wf_def db' image_Un)
qed

text \<open>Acceptance of a fresh session: its row, its first record and its reservation.\<close>

lemma sessions_wf_accept:
  assumes wf: "sessions_wf db" and fresh: "ses_session_id row \<notin> ses_session_id ` set (exec_sessions db)"
    and row: "ses_state row = SessionStateCreating"
    and rec: "slc_session_id rec = ses_session_id row" "slc_sequence rec = 1"
      "slc_previous_state rec = None" "slc_new_state rec = SessionStateCreating"
    and rsv: "res_session_id rsv = ses_session_id row"
    and tabs: "exec_sessions db' = exec_sessions db @ [row]"
      "exec_session_lifecycle db' = exec_session_lifecycle db @ [rec]"
      "exec_capacity_reservations db' = exec_capacity_reservations db @ [rsv]"
  shows "sessions_wf db'"
proof -
  have hist: "session_history k db' =
      (if k = ses_session_id row then [rec] else session_history k db)" for k
    using rec(1) no_session_no_history [OF wf fresh] by (simp add: session_history_def tabs)
  have "history_ok (session_history (ses_session_id r) db') (ses_state r)"
    if "r \<in> set (exec_sessions db')" for r
  proof (cases "r \<in> set (exec_sessions db)")
    case True
    then have "ses_session_id r \<noteq> ses_session_id row" using fresh by (metis imageI)
    then show ?thesis using True wf by (simp add: hist sessions_wf_def)
  next
    case False
    then have "r = row" using that by (simp add: tabs)
    then show ?thesis using row history_ok_single [OF rec(2-4)] by (simp add: hist)
  qed
  then show ?thesis
    using wf fresh rsv rec(1) by (auto simp: sessions_wf_def tabs)
qed

lemma sessions_wf_reservations:
  assumes "sessions_wf db" "\<And>r. res_session_id (f r) = res_session_id r"
    and "db' = exec_capacity_reservations_update (update_rows P f) db"
  shows "sessions_wf db'"
proof -
  have "res_session_id ` set (update_rows P f (exec_capacity_reservations db)) =
      res_session_id ` set (exec_capacity_reservations db)"
    using map_update_rows [of res_session_id f, OF assms(2)] by (metis list.set_map)
  then show ?thesis using assms by (simp add: sessions_wf_def session_history_def)
qed

section \<open>What the statements touch\<close>

lemma lookupIdempotency_frame:
  assumes "lookupIdempotencyOnConnection c operation key now db = Inr (found, db')"
  obtains a b where "db' = db\<lparr>exec_idempotency := a, exec_idempotency_expiry_warnings := b\<rparr>"
proof -
  have "db' = db\<lparr>exec_idempotency := exec_idempotency db',
      exec_idempotency_expiry_warnings := exec_idempotency_expiry_warnings db'\<rparr>"
    using assms
    by (auto simp: lookupIdempotencyOnConnection_def recordIdempotencyExpiryWarningOnConnection_def
        tx_simps Let_def split: option.splits if_splits)
  then show thesis by (rule that)
qed

lemma insertOptionalAudit_obtain:
  assumes "insertOptionalAuditOnConnection r db = Inr (saved, db')"
  obtains a where "db' = db\<lparr>runner_audit_records := a\<rparr>"
  using insertOptionalAudit_frame [OF assms] that by blast

lemma insertSessionAcceptance_effect:
  assumes "insertSessionAcceptance v key h expires now warning db = Inr (u, db')"
  obtains bindings where "sc_SessionID v \<notin> ses_session_id ` set (exec_sessions db)"
    and "db' = db\<lparr>exec_sessions := exec_sessions db @ [session_row_of v now],
      exec_session_lifecycle := exec_session_lifecycle db @
        [lifecycle_row_of (sc_SessionID v) 1 None SessionStateCreating (sc_Reason v) now],
      exec_capacity_reservations := exec_capacity_reservations db @
        [reservation_row_of (sc_SessionID v) now],
      exec_idempotency := bindings\<rparr>"
proof (rule that)
  show "sc_SessionID v \<notin> ses_session_id ` set (exec_sessions db)"
    using assms by (auto simp: insertSessionAcceptance_def tx_simps find_session_def find_key_None)
  show "db' = db\<lparr>exec_sessions := exec_sessions db @ [session_row_of v now],
      exec_session_lifecycle := exec_session_lifecycle db @
        [lifecycle_row_of (sc_SessionID v) 1 None SessionStateCreating (sc_Reason v) now],
      exec_capacity_reservations := exec_capacity_reservations db @
        [reservation_row_of (sc_SessionID v) now],
      exec_idempotency := exec_idempotency db'\<rparr>"
    using assms by (auto simp: insertSessionAcceptance_def insert_lifecycle_def
        recordIdempotencyOnConnection_def tx_simps split: if_splits)
qed

section \<open>Every operation keeps the invariant\<close>

lemma insertSessionAcceptance_wf:
  assumes run: "insertSessionAcceptance v key h expires now warning db = Inr (u, db')"
    and wf: "sessions_wf db"
  shows "sessions_wf db'"
proof (rule insertSessionAcceptance_effect [OF run])
  fix bindings
  assume fresh: "sc_SessionID v \<notin> ses_session_id ` set (exec_sessions db)"
    and db': "db' = db\<lparr>exec_sessions := exec_sessions db @ [session_row_of v now],
      exec_session_lifecycle := exec_session_lifecycle db @
        [lifecycle_row_of (sc_SessionID v) 1 None SessionStateCreating (sc_Reason v) now],
      exec_capacity_reservations := exec_capacity_reservations db @
        [reservation_row_of (sc_SessionID v) now],
      exec_idempotency := bindings\<rparr>"
  have "ses_session_id (session_row_of v now) = sc_SessionID v"
    "ses_state (session_row_of v now) = SessionStateCreating"
    by (simp_all add: session_row_of_def)
  with fresh show ?thesis
    by (intro sessions_wf_accept [OF wf, where db' = db'])
      (auto simp: db' lifecycle_row_of_def reservation_row_of_def)
qed

lemma move_session_wf:
  assumes "move_session sid current next_state f reason now db = Inr (u, db')" "sessions_wf db"
    and "find_session sid db = Some row" "ses_state row = current"
    and "SessionState_CanTransitionTo current next_state"
    and "\<And>r. ses_session_id (f r) = ses_session_id r" "\<And>r. ses_state (f r) = next_state"
  shows "sessions_wf db'"
  using assms(1)
  by (intro sessions_wf_move [OF assms(2,3), where P = "\<lambda>r. ses_state r = current"])
    (auto simp: assms move_session_def update_session_def insert_lifecycle_def lifecycle_row_of_def
      tx_simps)

lemma select_session_Inr [tx_simps]: "select_session sid db = Inr row \<longleftrightarrow> find_session sid db = Some row"
  by (simp add: select_session_def split: option.splits)

lemma release_reservation_wf:
  assumes "release_reservation sid now db = Inr (u, db')" "sessions_wf db"
  shows "sessions_wf db'"
proof (rule sessions_wf_reservations [OF assms(2)])
  show "res_session_id (confirmed now r) = res_session_id r" for r by (simp add: confirmed_def)
  show "db' = exec_capacity_reservations_update (update_rows (\<lambda>r. res_session_id r = sid \<and>
      res_cleanup_confirmed_at r = None \<and> res_released_at r = None) (confirmed now)) db"
    using assms(1) by (simp add: release_reservation_def tx_simps)
qed

text \<open>The two ways an acceptance succeeds.\<close>

lemma accept_session_cases:
  assumes "accept_session_body v now runtime db = Inr (((record, dup), saved), db')"
  obtains (duplicate) existing found db1 where "dup"
      "lookupIdempotencyOnConnection (sc_Controller (sca_SessionCreate v)) createSessionOperation
         (sca_IdempotencyKey v) now db = Inr (Some existing, db1)"
      "CompareIdempotency (idr_Hash existing) (sca_RequestHash v) \<noteq> IdempotencyComparisonConflict"
      "readSessionOnConnection (idr_ResourceID existing) db1 = Inr found"
      "record = found\<lparr>sr_IdempotencyWarning := idr_DeduplicationWarning existing\<rparr>"
      "insertOptionalAuditOnConnection (sca_Audit v) db1 = Inr (saved, db')"
  | (fresh) warning created db1 db2 where "\<not> dup"
      "lookupIdempotencyOnConnection (sc_Controller (sca_SessionCreate v)) createSessionOperation
         (sca_IdempotencyKey v) now db = Inr (None, db1)"
      "live_reservations db1 < sca_MaxActiveSessions v"
      "insertSessionAcceptance (sca_SessionCreate v) (sca_IdempotencyKey v) (sca_RequestHash v)
         (now + sca_IdempotencyRetention v) now warning db1 = Inr ((), db2)"
      "readSessionOnConnection (sc_SessionID (sca_SessionCreate v)) db2 = Inr created"
      "record = created\<lparr>sr_IdempotencyWarning := warning\<rparr>"
      "insertOptionalAuditOnConnection (sca_Audit v) db2 = Inr (saved, db')"
proof -
  obtain found db1 where
    look: "lookupIdempotencyOnConnection (sc_Controller (sca_SessionCreate v)) createSessionOperation
      (sca_IdempotencyKey v) now db = Inr (found, db1)"
    using assms by (auto simp: accept_session_body_def Let_def tx_simps)
  show thesis
  proof (cases found)
    case None
    with assms look show thesis
      by (auto simp: accept_session_body_def ensureSessionCapacity_def Let_def tx_simps
          split: if_splits intro!: fresh)
  next
    case (Some existing)
    with assms look show thesis
      by (auto simp: accept_session_body_def Let_def tx_simps intro!: duplicate)
  qed
qed

lemma lookupIdempotency_wf:
  assumes "lookupIdempotencyOnConnection c operation key now db = Inr (found, db')" "sessions_wf db"
  shows "sessions_wf db'"
  by (rule lookupIdempotency_frame [OF assms(1)]) (use assms(2) sessions_wf_cong [of db' db] in simp)

lemma insertOptionalAudit_wf:
  assumes "insertOptionalAuditOnConnection r db = Inr (saved, db')" "sessions_wf db"
  shows "sessions_wf db'"
  by (rule insertOptionalAudit_obtain [OF assms(1)]) (use assms(2) sessions_wf_cong [of db' db] in simp)

lemma accept_session_wf: "tx_keeps sessions_wf (accept_session_body v now runtime)"
proof (rule tx_keepsI)
  fix db x db'
  assume wf: "sessions_wf db" and run: "accept_session_body v now runtime db = Inr (x, db')"
  obtain rc dup saved where x: "x = ((rc, dup), saved)" by (metis surj_pair)
  from run [unfolded x] show "sessions_wf db'"
  proof (cases rule: accept_session_cases)
    case duplicate
    then show ?thesis by (meson wf lookupIdempotency_wf insertOptionalAudit_wf)
  next
    case fresh
    then show ?thesis
      by (meson wf lookupIdempotency_wf insertSessionAcceptance_wf insertOptionalAudit_wf)
  qed
qed

lemma create_session_wf:
  "tx_keeps sessions_wf (tx_bind (tx_query q) (\<lambda>_. tx_bind (ensureSessionCapacity n) (\<lambda>_.
     tx_bind (insertSessionAcceptance v key h expires now warning) (\<lambda>_. tx_query q'))))"
  by (rule tx_keepsI) (auto simp: tx_simps ensureSessionCapacity_def split: if_splits
      intro: insertSessionAcceptance_wf)

lemma confirm_cleanup_wf: "tx_keeps sessions_wf (confirm_cleanup_body sid now)"
proof (rule tx_keepsI)
  fix db x db'
  assume wf: "sessions_wf db" and run: "confirm_cleanup_body sid now db = Inr (x, db')"
  show "sessions_wf db'"
  proof (rule sessions_wf_reservations [OF wf])
    show "res_session_id (confirmed now r) = res_session_id r" for r by (simp add: confirmed_def)
    show "db' = exec_capacity_reservations_update (update_rows (\<lambda>r. res_session_id r = sid \<and>
        res_cleanup_confirmed_at r = None) (confirmed now)) db"
      using run by (auto simp: confirm_cleanup_body_def tx_simps split: if_splits)
  qed
qed

lemma transition_session_wf: "tx_keeps sessions_wf (transition_session_body sid next_state reason now)"
  by (rule tx_keepsI) (auto simp: transition_session_body_def Let_def tx_simps elim!: move_session_wf)

lemma complete_creation_wf: "tx_keeps sessions_wf (complete_creation_body sid next_state g revision reason now)"
  by (rule tx_keepsI) (auto simp: complete_creation_body_def Let_def tx_simps elim!: move_session_wf)

lemma creating_can_fail: "SessionState_CanTransitionTo SessionStateCreating SessionStateFailed"
  by (simp add: SessionState_CanTransitionTo_def)

lemma fail_after_cleanup_wf: "tx_keeps sessions_wf (fail_after_cleanup_body sid g revision reason now)"
proof (rule tx_keepsI)
  fix db x db'
  assume wf: "sessions_wf db" and run: "fail_after_cleanup_body sid g revision reason now db = Inr (x, db')"
  then obtain row revision' db1 where row: "find_session sid db = Some row" "ses_state row = SessionStateCreating"
    and move: "move_session sid SessionStateCreating SessionStateFailed
      (\<lambda>r. r\<lparr>ses_state := SessionStateFailed, ses_runtime_generation := g,
        ses_source_resolved_revision := revision', ses_updated_at := formatStoredTime now\<rparr>)
      reason now db = Inr ((), db1)"
    and rel: "release_reservation sid now db1 = Inr ((), db')"
    by (auto simp: fail_after_cleanup_body_def Let_def tx_simps)
  have "sessions_wf db1" by (rule move_session_wf [OF move wf row creating_can_fail]) simp_all
  then show "sessions_wf db'" by (rule release_reservation_wf [OF rel])
qed

lemma fail_pre_start_wf: "tx_keeps sessions_wf (fail_pre_start_body sid now)"
proof (rule tx_keepsI)
  fix db x db'
  assume wf: "sessions_wf db" and run: "fail_pre_start_body sid now db = Inr (x, db')"
  define P where "P = (\<lambda>r :: session_row. ses_state r = SessionStateCreating \<and> ses_runtime_generation r = [])"
  define f where "f = (\<lambda>r :: session_row. r\<lparr>ses_state := SessionStateFailed, ses_updated_at := formatStoredTime now\<rparr>)"
  define rec where "rec = lifecycle_row_of sid (next_lifecycle_sequence sid db) (Some SessionStateCreating)
    SessionStateFailed ''runtime_prepare_failed'' now"
  define db1 where "db1 = exec_session_lifecycle_update (\<lambda>rows. rows @ [rec])
      (exec_sessions_update (update_rows (\<lambda>r. ses_session_id r = sid \<and> P r) f) db)"
  from run obtain row where row: "find_session sid db = Some row" "P row"
    and rel: "release_reservation sid now db1 = Inr ((), db')"
    by (auto simp: fail_pre_start_body_def insert_lifecycle_def tx_simps P_def f_def rec_def db1_def)
  have "sessions_wf db1"
    by (rule sessions_wf_move [OF wf row(1), where P = P and rec = rec and f = f])
      (use row in \<open>simp_all add: P_def f_def rec_def lifecycle_row_of_def db1_def creating_can_fail\<close>)
  then show "sessions_wf db'" by (rule release_reservation_wf [OF rel])
qed

end
