(* ===== verification/Session_Acceptance.thy ===== *)
theory Session_Acceptance
  imports Session_Facts
begin

text \<open>
  Acceptance of a session: what a fresh request writes and returns, that a retry of the same
  idempotency key returns the same session without writing, that a changed request conflicts, and
  that the number of live reservations never passes the limit of the request that was accepted.
\<close>

section \<open>Validated requests\<close>

text \<open>What \<open>validateSessionCreate\<close> returns satisfies.\<close>

definition create_ok :: "SessionCreate \<Rightarrow> bool" where
  "create_ok v \<longleftrightarrow> sc_SessionID v \<noteq> [] \<and> known_target_kind (et_kind (sc_Target v)) \<and>
     et_profile (sc_Target v) \<noteq> [] \<and> known_controller_type (ci_type (sc_Controller v)) \<and>
     ci_id (sc_Controller v) \<noteq> [] \<and> Source_valid (sc_Source v) \<and> sc_Environment v \<noteq> [] \<and>
     limits_positive (sc_Limits v) \<and> sc_Reason v \<noteq> [] \<and> \<not> has_nul (sc_Reason v)"

lemma normalizeSource_valid: "normalizeSource source = Inr s \<Longrightarrow> Source_valid s"
  by (cases source, cases "src_mode source")
    (auto simp: normalizeSource_def Source_valid_def NewEmptySource_def NewGitRevisionSource_def
      NewLocalWorktreeSource_def tx_simps split: if_splits)

lemma validateSessionCreate_ok: "validateSessionCreate input = Inr v \<Longrightarrow> create_ok v"
  by (auto simp: validateSessionCreate_def validateLifecycleReason_def create_ok_def tx_simps
      has_nul_def NUL_def split: if_splits sum.splits dest!: normalizeSource_valid)

lemma validateSessionAcceptance_ok:
  assumes "validateSessionAcceptance input = Inr v"
  shows "create_ok (sca_SessionCreate v)" "bounded_token 256 (sca_IdempotencyKey v)"
    "valid_hash (sca_RequestHash v)" "1 \<le> sca_MaxActiveSessions v" "0 \<le> sca_IdempotencyRetention v"
    "sca_Audit v = sca_Audit input"
  using assms
  by (auto simp: validateSessionAcceptance_def tx_simps Let_def bounded_token_def valid_hash_def
      DefaultActiveSessionLimit_def split: if_splits dest: validateSessionCreate_ok)

text \<open>SQLite's CHECKs look at the text before the first NUL only, which the Go checks do not.\<close>

definition columns_nonempty :: "SessionCreate \<Rightarrow> bool" where
  "columns_nonempty v \<longleftrightarrow> sql_nonempty (sc_SessionID v) \<and> sql_nonempty (et_profile (sc_Target v)) \<and>
     sql_nonempty (sc_Environment v) \<and> sql_nonempty (ci_id (sc_Controller v))"

definition session_record_of :: "SessionCreate \<Rightarrow> time \<Rightarrow> SessionRecord" where
  "session_record_of v now =
     \<lparr>sr_SessionID = sc_SessionID v, sr_Target = sc_Target v, sr_Environment = sc_Environment v,
      sr_Controller = sc_Controller v, sr_Source = sc_Source v,
      sr_ResolvedRevision = sc_ResolvedRevision v, sr_RuntimeGeneration = sc_RuntimeGeneration v,
      sr_State = SessionStateCreating, sr_Limits = sc_Limits v, sr_CreatedAt = now,
      sr_UpdatedAt = now, sr_ExpiresAt = now + esl_SessionMaxLifetime (sc_Limits v),
      sr_IdempotencyWarning = False\<rparr>"

lemma decodeSource_valid:
  "Source_valid s \<Longrightarrow> decodeSource (src_mode s) (src_repositoryAlias s) (src_requestedRevision s) (src_path s) = Inr s"
  by (cases s, cases "src_mode s")
    (auto simp: decodeSource_def Source_valid_def NewGitRevisionSource_def NewLocalWorktreeSource_def
      normalizeSource_def NewEmptySource_def)

text \<open>A stored session reads back as it was accepted.\<close>

lemma decode_session_row_of:
  assumes "create_ok v" "valid_time now" "valid_time (now + esl_SessionMaxLifetime (sc_Limits v))"
  shows "decode_session_row (session_row_of v now) = Inr (session_record_of v now)"
  using assms decodeSource_valid [of "sc_Source v"]
  by (simp add: decode_session_row_def session_row_of_def session_record_of_def create_ok_def
      Let_def tx_simps limits_positive_def)

lemma session_check_row_of:
  "create_ok v \<Longrightarrow> columns_nonempty v \<Longrightarrow> session_check (session_row_of v now)"
  by (cases "src_mode (sc_Source v)")
    (auto simp: session_check_def session_row_of_def create_ok_def columns_nonempty_def
      limits_positive_def source_columns_ok_def Source_valid_def filepath_IsAbs_def)

section \<open>A fresh request\<close>

definition acceptance_binding :: "SessionCreateAcceptance \<Rightarrow> time \<Rightarrow> IdempotencyRecord" where
  "acceptance_binding v now =
     \<lparr>idr_Controller = sc_Controller (sca_SessionCreate v), idr_Operation = createSessionOperation,
      idr_Key = sca_IdempotencyKey v, idr_Hash = sca_RequestHash v,
      idr_ResourceID = sc_SessionID (sca_SessionCreate v), idr_CreatedAt = now,
      idr_ExpiresAt = now + sca_IdempotencyRetention v, idr_DeduplicationWarning = False\<rparr>"

definition accepted_db :: "SessionCreateAcceptance \<Rightarrow> time \<Rightarrow> database \<Rightarrow> database" where
  "accepted_db v now db = (let c = sca_SessionCreate v in
     db\<lparr>exec_sessions := exec_sessions db @ [session_row_of c now],
        exec_session_lifecycle := exec_session_lifecycle db @
          [lifecycle_row_of (sc_SessionID c) 1 None SessionStateCreating (sc_Reason c) now],
        exec_capacity_reservations := exec_capacity_reservations db @
          [reservation_row_of (sc_SessionID c) now],
        exec_idempotency := exec_idempotency db @ [binding_row (acceptance_binding v now)]\<rparr>)"

text \<open>A request nobody has made, under the limit, whose columns the database can hold.\<close>

definition fresh_request :: "SessionCreateAcceptance \<Rightarrow> time \<Rightarrow> database \<Rightarrow> bool" where
  "fresh_request v now db \<longleftrightarrow> (let c = sca_SessionCreate v in
     find_binding (sc_Controller c) createSessionOperation (sca_IdempotencyKey v) db = None \<and>
     find_warning (sc_Controller c) createSessionOperation (sca_IdempotencyKey v) db = None \<and>
     live_reservations db < sca_MaxActiveSessions v \<and>
     sc_SessionID c \<notin> ses_session_id ` set (exec_sessions db) \<and>
     columns_nonempty c \<and> bounded_token 256 (sc_SessionID c) \<and>
     valid_time now \<and> valid_time (now + esl_SessionMaxLifetime (sc_Limits c)))"

lemma sql_nonempty_token: "bounded_token n t \<Longrightarrow> sql_nonempty t"
  by (auto simp: bounded_token_def sql_nonempty_def has_nul_def NUL_def neq_Nil_conv)

lemma nonempty_no_nul: "t \<noteq> [] \<Longrightarrow> \<not> has_nul t \<Longrightarrow> sql_nonempty t"
  by (auto simp: sql_nonempty_def has_nul_def NUL_def neq_Nil_conv)

lemma operation_token: "bounded_token 128 createSessionOperation"
  by (simp add: createSessionOperation_def bounded_token_def has_nul_def NUL_def)

lemma host_key_nonempty: "sql_nonempty reservationHostKey"
  by (simp add: reservationHostKey_def sql_nonempty_def NUL_def)

lemma insertSessionAcceptance_fresh:
  assumes ok: "create_ok c" "bounded_token 256 (sca_IdempotencyKey v)" "valid_hash (sca_RequestHash v)"
      "0 \<le> sca_IdempotencyRetention v"
    and c: "c = sca_SessionCreate v" and wf: "sessions_wf db" and fresh: "fresh_request v now db"
  shows "insertSessionAcceptance c (sca_IdempotencyKey v) (sca_RequestHash v)
     (now + sca_IdempotencyRetention v) now False db = Inr ((), accepted_db v now db)"
proof -
  have new: "sc_SessionID c \<notin> ses_session_id ` set (exec_sessions db)"
    and cols: "columns_nonempty c" "bounded_token 256 (sc_SessionID c)"
    and nobind: "find_binding (sc_Controller c) createSessionOperation (sca_IdempotencyKey v) db = None"
    using fresh c by (simp_all add: fresh_request_def Let_def)
  have find: "find_session (sc_SessionID c) db = None"
    using new by (simp add: find_session_def find_key_None)
  have ses: "session_constraints (session_row_of c now) db"
    using session_check_row_of [OF ok(1) cols(1)] new
    by (simp add: session_constraints_def) (simp add: session_row_of_def)
  let ?db1 = "exec_sessions_update (\<lambda>rows. rows @ [session_row_of c now]) db"
  have id: "ses_session_id (session_row_of c now) = sc_SessionID c" by (simp add: session_row_of_def)
  have slc: "lifecycle_constraints (lifecycle_row_of (sc_SessionID c) 1 None SessionStateCreating
      (sc_Reason c) now) ?db1"
    using wf new ok(1) id nonempty_no_nul [of "sc_Reason c"]
    by (auto simp: lifecycle_constraints_def lifecycle_row_of_def lifecycle_key_def create_ok_def
        sessions_wf_def)
  have rsv: "reservation_constraints (reservation_row_of (sc_SessionID c) now)
      (exec_session_lifecycle_update f ?db1)" for f
    using wf new id by (auto simp: reservation_constraints_def reservation_check_def reservation_row_of_def
        host_key_nonempty sessions_wf_def)
  have nokey: "bound_key (acceptance_binding v now) \<notin> idempotency_key ` set (exec_idempotency db)"
    using nobind by (simp add: find_binding_def find_key_None bound_key_def acceptance_binding_def c)
  have idm: "idempotency_constraints (binding_row (acceptance_binding v now)) db'"
    if "exec_idempotency db' = exec_idempotency db" for db'
    using that ok cols nokey key_of_binding_row [of "acceptance_binding v now"] sql_nonempty_token [OF cols(2)] sql_nonempty_token [OF ok(2)]
      sql_nonempty_token [OF operation_token] uint_pos [of "ch_version (sca_RequestHash v)"]
    by (auto simp: idempotency_constraints_def binding_row_def acceptance_binding_def c create_ok_def
        columns_nonempty_def valid_hash_def sha256_Size_def)
  have input: "validateIdempotencyInput (sc_Controller c) createSessionOperation (sca_IdempotencyKey v)
      (sca_RequestHash v) (sc_SessionID c) (sca_IdempotencyRetention v) =
      Inr \<lparr>idr_Controller = sc_Controller c, idr_Operation = createSessionOperation,
        idr_Key = sca_IdempotencyKey v, idr_Hash = sca_RequestHash v, idr_ResourceID = sc_SessionID c,
        idr_CreatedAt = zero_time, idr_ExpiresAt = zero_time, idr_DeduplicationWarning = False,
        vii_Retention = effective_retention (sca_IdempotencyRetention v)\<rparr>"
    using ok cols operation_token
    by (simp add: validateIdempotencyInput_Inr create_ok_def effective_retention_def
        DefaultSessionIdempotencyRetention_def Hour_def Minute_def Second_def)
  have row: "binding_row \<lparr>idr_Controller = sc_Controller c, idr_Operation = createSessionOperation,
      idr_Key = sca_IdempotencyKey v, idr_Hash = sca_RequestHash v, idr_ResourceID = sc_SessionID c,
      idr_CreatedAt = now, idr_ExpiresAt = now + sca_IdempotencyRetention v,
      idr_DeduplicationWarning = False, vii_Retention = r\<rparr> = binding_row (acceptance_binding v now)" for r
    by (simp add: binding_row_def acceptance_binding_def c)
  have key: "sca_IdempotencyKey v \<noteq> []" using ok(2) by (simp add: bounded_token_def)
  show ?thesis
    by (simp add: insertSessionAcceptance_def insert_lifecycle_def tx_bind_def find ses slc rsv input key
        recordIdempotencyOnConnection_def sql_insert_def idm row accepted_db_def c [symmetric] Let_def)
qed

lemma lookup_none:
  "find_binding c operation key db = None \<Longrightarrow> lookupIdempotencyOnConnection c operation key now db = Inr (None, db)"
  by (simp add: lookupIdempotencyOnConnection_def tx_bind_def)

lemma find_accepted:
  "sc_SessionID (sca_SessionCreate v) \<notin> ses_session_id ` set (exec_sessions db) \<Longrightarrow>
   find_session (sc_SessionID (sca_SessionCreate v)) (accepted_db v now db) =
     Some (session_row_of (sca_SessionCreate v) now)"
  by (simp add: accepted_db_def Let_def find_session_def find_append find_key_None [THEN iffD2])
    (simp add: session_row_of_def)

lemma accept_fresh_body:
  assumes v: "validateSessionAcceptance input = Inr v" and aud: "sca_Audit input = None"
    and wf: "sessions_wf db" and fresh: "fresh_request v now db"
    and ingress: "checkIngressAdmissionOnConnection runtime db = Inr ()"
  shows "accept_session_body v now runtime db =
    Inr (((session_record_of (sca_SessionCreate v) now, False), None), accepted_db v now db)"
proof -
  note ok = validateSessionAcceptance_ok [OF v]
  have ins: "insertSessionAcceptance (sca_SessionCreate v) (sca_IdempotencyKey v) (sca_RequestHash v)
     (now + sca_IdempotencyRetention v) now False db = Inr ((), accepted_db v now db)"
    using insertSessionAcceptance_fresh [OF ok(1-3,5) refl wf fresh] .
  have read: "readSessionOnConnection (sc_SessionID (sca_SessionCreate v)) (accepted_db v now db) =
      Inr (session_record_of (sca_SessionCreate v) now)"
    using fresh find_accepted [of v db now] decode_session_row_of [OF ok(1), of now]
    by (simp add: readSessionOnConnection_def fresh_request_def Let_def)
  have warned: "(session_record_of c now)\<lparr>sr_IdempotencyWarning := False\<rparr> = session_record_of c now" for c
    by (simp add: session_record_of_def)
  show ?thesis
    using fresh ok(6) aud lookup_none
    by (simp add: accept_session_body_def Let_def tx_bind_def tx_query_def ingress fresh_request_def
        idempotencyExpiryWarningOnConnection_def ensureSessionCapacity_def ins read warned
        insertOptionalAuditOnConnection_def)
qed

section \<open>A retry\<close>

lemma insertSessionAcceptance_binding:
  assumes "insertSessionAcceptance c key h expires now warning db = Inr (u, db')" "key \<noteq> []"
  shows "\<exists>r. find_binding (sc_Controller c) createSessionOperation key db' = Some (binding_row r) \<and>
     r = \<lparr>idr_Controller = sc_Controller c, idr_Operation = createSessionOperation, idr_Key = key,
       idr_Hash = h, idr_ResourceID = sc_SessionID c, idr_CreatedAt = now, idr_ExpiresAt = expires,
       idr_DeduplicationWarning = warning\<rparr> \<and> valid_hash h \<and> bounded_token 256 (sc_SessionID c)"
proof -
  obtain input db1 where
    input: "validateIdempotencyInput (sc_Controller c) createSessionOperation key h (sc_SessionID c)
      (expires - now) = Inr input"
    and rec: "recordIdempotencyOnConnection (input\<lparr>idr_CreatedAt := now, idr_ExpiresAt := expires,
      idr_DeduplicationWarning := warning\<rparr>) db1 = Inr (u, db')"
    using assms by (auto simp: insertSessionAcceptance_def tx_simps)
  note parts = input [unfolded validateIdempotencyInput_Inr]
  show ?thesis
    using record_find [OF rec] parts by (auto simp: binding_row_def)
qed

text \<open>What is left in the store by an acceptance that was not a duplicate.\<close>

definition accepted_as :: "SessionCreateAcceptance \<Rightarrow> time \<Rightarrow> SessionRecord \<Rightarrow> database \<Rightarrow> bool" where
  "accepted_as v now record db \<longleftrightarrow> (let c = sca_SessionCreate v in
     \<exists>r found. find_binding (sc_Controller c) createSessionOperation (sca_IdempotencyKey v) db = Some (binding_row r) \<and>
       r = (acceptance_binding v now)\<lparr>idr_DeduplicationWarning := sr_IdempotencyWarning record\<rparr> \<and>
       valid_hash (sca_RequestHash v) \<and> bounded_token 256 (sc_SessionID c) \<and>
       readSessionOnConnection (sc_SessionID c) db = Inr found \<and>
       record = found\<lparr>sr_IdempotencyWarning := sr_IdempotencyWarning record\<rparr> \<and>
       find_reservation (sc_SessionID c) db = Some (reservation_row_of (sc_SessionID c) now))"

lemma accept_session_accepted_as:
  assumes "accept_session_body v now runtime db = Inr (((record, False), saved), db')"
    and wf: "sessions_wf db" and key: "sca_IdempotencyKey v \<noteq> []"
  shows "accepted_as v now record db'"
  using assms(1)
proof (cases rule: accept_session_cases)
  case (fresh warning created db1 db2)
  define c where "c = sca_SessionCreate v"
  note ins = fresh(4) [folded c_def]
  obtain a where db': "db' = db2\<lparr>runner_audit_records := a\<rparr>"
    by (rule insertOptionalAudit_obtain [OF fresh(7)])
  have wf1: "sessions_wf db1" using lookupIdempotency_wf [OF fresh(2) wf] .
  obtain b where new: "sc_SessionID c \<notin> ses_session_id ` set (exec_sessions db1)"
    and db2: "exec_capacity_reservations db2 =
      exec_capacity_reservations db1 @ [reservation_row_of (sc_SessionID c) now]"
    by (rule insertSessionAcceptance_effect [OF ins]) auto
  have "find_reservation (sc_SessionID c) db2 = Some (reservation_row_of (sc_SessionID c) now)"
    using new wf1 by (simp add: find_reservation_def db2 find_append find_key_None [THEN iffD2] sessions_wf_def)
      (simp add: reservation_row_of_def)
  then show ?thesis
    using insertSessionAcceptance_binding [OF ins key] fresh(5,6)
    by (simp add: accepted_as_def Let_def c_def [symmetric] db' acceptance_binding_def
        readSessionOnConnection_def find_session_def find_reservation_def)
qed simp

lemma retry_body:
  assumes acc: "accepted_as v now record db" and times: "valid_time now" "valid_time (now + sca_IdempotencyRetention v)"
    and early: "now2 < now + sca_IdempotencyRetention v"
    and same: "sc_Controller (sca_SessionCreate v2) = sc_Controller (sca_SessionCreate v)"
      "sca_IdempotencyKey v2 = sca_IdempotencyKey v"
    and aud: "sca_Audit v2 = None"
    and ingress: "checkIngressAdmissionOnConnection runtime db = Inr ()"
  shows "accept_session_body v2 now2 runtime db =
    (if sca_RequestHash v2 = sca_RequestHash v then Inr (((record, True), None), db)
     else Inl ErrIdempotencyConflict)"
proof -
  define c where "c = sca_SessionCreate v"
  from acc obtain found where bind: "find_binding (sc_Controller c) createSessionOperation (sca_IdempotencyKey v) db =
      Some (binding_row ((acceptance_binding v now)\<lparr>idr_DeduplicationWarning := sr_IdempotencyWarning record\<rparr>))"
    and ok: "valid_hash (sca_RequestHash v)" "bounded_token 256 (sc_SessionID c)"
    and read: "readSessionOnConnection (sc_SessionID c) db = Inr found"
    and rcd: "found\<lparr>sr_IdempotencyWarning := sr_IdempotencyWarning record\<rparr> = record"
    and rsv: "find_reservation (sc_SessionID c) db = Some (reservation_row_of (sc_SessionID c) now)"
    by (auto simp: accepted_as_def Let_def c_def)
  let ?r = "(acceptance_binding v now)\<lparr>idr_DeduplicationWarning := sr_IdempotencyWarning record\<rparr>"
  have fields: "idr_Controller ?r = sc_Controller c" "idr_Operation ?r = createSessionOperation"
    "idr_Key ?r = sca_IdempotencyKey v" "idr_ExpiresAt ?r = now + sca_IdempotencyRetention v"
    "idr_ResourceID ?r = sc_SessionID c" "idr_Hash ?r = sca_RequestHash v"
    by (simp_all add: acceptance_binding_def c_def)
  have "readable_binding ?r"
    using ok times by (simp add: readable_binding_def acceptance_binding_def c_def [symmetric])
  then have look: "lookupIdempotencyOnConnection (sc_Controller c) createSessionOperation
      (sca_IdempotencyKey v) now2 db = Inr (Some ?r, db)"
    using lookup_retained [of ?r db now2] bind early fields
    by (simp add: IdempotencyRecord.defs)
  have id: "NewSessionID (sc_SessionID c) = Inr (sc_SessionID c)"
    using ok(2) by (simp add: bounded_token_def)
  have res: "\<exists>x. readReservationOnConnection (sc_SessionID c) db = Inr x"
    using rsv times(1) id by (simp add: readReservationOnConnection_def reservation_row_of_def
        parse_optional_def tx_simps)
  then obtain x where res: "readReservationOnConnection (sc_SessionID c) db = Inr x" ..
  show ?thesis
  proof (cases "sca_RequestHash v2 = sca_RequestHash v")
    case True
    then have "CompareIdempotency (sca_RequestHash v) (sca_RequestHash v2) \<noteq> IdempotencyComparisonConflict"
      using ok(1) by (simp add: CompareIdempotency_conflict valid_hash_def)
    then show ?thesis
      using True by (simp add: accept_session_body_def Let_def same c_def [symmetric] tx_bind_def tx_query_def
          ingress look fields id res read rcd aud insertOptionalAuditOnConnection_def acceptance_binding_def)
  next
    case False
    then have "CompareIdempotency (sca_RequestHash v) (sca_RequestHash v2) = IdempotencyComparisonConflict"
      using CompareIdempotency_conflict [of "sca_RequestHash v"] by auto
    then show ?thesis
      using False by (simp add: accept_session_body_def Let_def same c_def [symmetric] tx_bind_def tx_query_def
          ingress look fields)
  qed
qed

section \<open>The operation\<close>

lemma AcceptSessionCreate_Inr:
  assumes "AcceptSessionCreate fault now s input = (Inr (record, dup), s')"
  obtains v saved db' where "validateSessionAcceptance input = Inr v" "fault = None"
    "accept_session_body v now (st_laneAdmissionRuntime s) (st_db s) = Inr (((record, dup), saved), db')"
    "s' = logOptionalAudit saved (s\<lparr>st_db := db'\<rparr>)"
proof -
  obtain v where v: "validateSessionAcceptance input = Inr v"
    using assms by (cases "validateSessionAcceptance input") (simp_all add: AcceptSessionCreate_def)
  show thesis
  proof (cases rule: withImmediateTransaction_cases [of fault s "accept_session_body v now (st_laneAdmissionRuntime s)"])
    case (rollback e)
    then show ?thesis using assms v by (simp add: AcceptSessionCreate_def)
  next
    case (commit x db)
    then obtain rd saved where "x = (rd, saved)" by (cases x)
    then show ?thesis
      using assms v commit that by (simp add: AcceptSessionCreate_def)
  qed
qed

lemma live_reservations_cong:
  "exec_capacity_reservations db' = exec_capacity_reservations db \<Longrightarrow>
   live_reservations db' = live_reservations db"
  by (simp add: live_reservations_def)

lemma st_db_logOptionalAudit [simp]: "st_db (logOptionalAudit saved s) = st_db s"
  by (simp add: logOptionalAudit_def split: option.splits)

lemma lookupIdempotency_live:
  assumes "lookupIdempotencyOnConnection c operation key now db = Inr (found, db')"
  shows "live_reservations db' = live_reservations db"
  by (rule lookupIdempotency_frame [OF assms]) (simp add: live_reservations_def)

lemma insertOptionalAudit_live:
  assumes "insertOptionalAuditOnConnection r db = Inr (saved, db')"
  shows "live_reservations db' = live_reservations db"
  by (rule insertOptionalAudit_obtain [OF assms]) (simp add: live_reservations_def)

lemma insertSessionAcceptance_live:
  assumes "insertSessionAcceptance c key h expires now warning db = Inr (u, db')"
  shows "live_reservations db' = live_reservations db + 1"
  by (rule insertSessionAcceptance_effect [OF assms])
    (simp add: live_reservations_def reservation_row_of_def)

definition requested_limit :: "SessionCreateAcceptance \<Rightarrow> int" where
  "requested_limit input =
     (if sca_MaxActiveSessions input = 0 then DefaultActiveSessionLimit else sca_MaxActiveSessions input)"

lemma validated_limit:
  "validateSessionAcceptance input = Inr v \<Longrightarrow> sca_MaxActiveSessions v = requested_limit input"
  by (auto simp: validateSessionAcceptance_def tx_simps Let_def requested_limit_def split: if_splits)

text \<open>A session request whose idempotency key is unknown, under the active-session limit and
  with ingress open, is accepted: the store holds exactly one more session row, its first lifecycle
  record, its reservation and its idempotency binding, and the caller receives the session as it
  was requested, in state creating.\<close>

theorem accept_session_creates:
  assumes "validateSessionAcceptance input = Inr v" "sca_Audit input = None"
    and "sessions_wf (st_db s)" "fresh_request v now (st_db s)"
    and "checkIngressAdmissionOnConnection (st_laneAdmissionRuntime s) (st_db s) = Inr ()"
  shows "AcceptSessionCreate None now s input =
    (Inr (session_record_of (sca_SessionCreate v) now, False),
     s\<lparr>st_db := accepted_db v now (st_db s)\<rparr>)"
  using accept_fresh_body [OF assms]
  by (simp add: AcceptSessionCreate_def assms(1) withImmediateTransaction_def logOptionalAudit_def)

text \<open>A retry of an accepted session request with the same controller and idempotency key,
  while the key is retained, writes nothing: with the same request hash it returns the session that
  was accepted and reports a duplicate, whatever else the retry asks for; with another hash it is
  refused as a conflict.\<close>

theorem session_retry_exact:
  assumes first: "AcceptSessionCreate None now s input = (Inr (record, False), s')"
    and wf: "sessions_wf (st_db s)" and v: "validateSessionAcceptance input = Inr v"
    and times: "valid_time now" "valid_time (now + sca_IdempotencyRetention v)"
      "now2 < now + sca_IdempotencyRetention v"
    and v2: "validateSessionAcceptance input2 = Inr v2"
    and same: "sc_Controller (sca_SessionCreate v2) = sc_Controller (sca_SessionCreate v)"
      "sca_IdempotencyKey v2 = sca_IdempotencyKey v" and aud: "sca_Audit input2 = None"
    and ingress: "checkIngressAdmissionOnConnection (st_laneAdmissionRuntime s') (st_db s') = Inr ()"
  shows "AcceptSessionCreate None now2 s' input2 =
    (if sca_RequestHash v2 = sca_RequestHash v then (Inr (record, True), s')
     else (Inl ErrIdempotencyConflict, s'))"
proof -
  have key: "sca_IdempotencyKey v \<noteq> []"
    using validateSessionAcceptance_ok(2) [OF v] by (simp add: bounded_token_def)
  have "accepted_as v now record (st_db s')"
    using first
    by (rule AcceptSessionCreate_Inr) (use v accept_session_accepted_as [OF _ wf key] in auto)
  then have "accept_session_body v2 now2 (st_laneAdmissionRuntime s') (st_db s') =
    (if sca_RequestHash v2 = sca_RequestHash v then Inr (((record, True), None), st_db s')
     else Inl ErrIdempotencyConflict)"
    using retry_body times same ingress aud validateSessionAcceptance_ok(6) [OF v2] by simp
  then show ?thesis
    by (simp add: AcceptSessionCreate_def v2 withImmediateTransaction_def logOptionalAudit_def
        count_error_def errors_Is.simps)
qed

text \<open>An acceptance takes exactly one unit of host capacity, and only while fewer sessions than
  the requested limit hold one; a duplicate takes none.\<close>

theorem session_capacity_respected:
  assumes "AcceptSessionCreate fault now s input = (Inr (record, dup), s')"
  shows "if dup then live_reservations (st_db s') = live_reservations (st_db s)
    else live_reservations (st_db s') = live_reservations (st_db s) + 1 \<and>
      live_reservations (st_db s') \<le> requested_limit input"
proof (rule AcceptSessionCreate_Inr [OF assms])
  fix v saved db'
  assume v: "validateSessionAcceptance input = Inr v" and s': "s' = logOptionalAudit saved (s\<lparr>st_db := db'\<rparr>)"
    and run: "accept_session_body v now (st_laneAdmissionRuntime s) (st_db s) =
      Inr (((record, dup), saved), db')"
  from run show ?thesis
  proof (cases rule: accept_session_cases)
    case duplicate
    then show ?thesis using s' lookupIdempotency_live insertOptionalAudit_live by simp
  next
    case fresh
    then show ?thesis
      using s' validated_limit [OF v] lookupIdempotency_live [OF fresh(2)]
        insertSessionAcceptance_live [OF fresh(4)] insertOptionalAudit_live [OF fresh(7)] by simp
  qed
qed

section \<open>A request\<close>

definition sample_create :: SessionCreate where
  "sample_create = \<lparr>sc_SessionID = ''s1'', sc_Target = sample_target, sc_Environment = ''dev'',
     sc_Controller = sample_controller, sc_Source = NewEmptySource, sc_ResolvedRevision = [],
     sc_RuntimeGeneration = [],
     sc_Limits = \<lparr>esl_CommandTimeout = Minute, esl_IdleTimeout = Minute, esl_SessionMaxLifetime = Hour,
       esl_OutputBytesPerCommand = 1024\<rparr>,
     sc_Reason = ''session_created''\<rparr>"

definition sample_acceptance :: SessionCreateAcceptance where
  "sample_acceptance = \<lparr>sca_SessionCreate = sample_create, sca_IdempotencyKey = ''k1'',
     sca_RequestHash = sample_hash, sca_MaxActiveSessions = 1, sca_IdempotencyRetention = Hour,
     sca_Audit = None\<rparr>"

lemma trim_dev: "TrimSpace ''dev'' = ''dev''"
  by code_simp

lemma sample_acceptance_valid: "validateSessionAcceptance sample_acceptance = Inr sample_acceptance"
  using canonical_digest_valid [of "''{}''"]
  by (simp add: validateSessionAcceptance_def validateSessionCreate_def sample_acceptance_def
      sample_create_def sample_target_def sample_controller_def new_id_run normalizeSource_def
      NewEmptySource_def trim_dev limits_positive_def validateLifecycleReason_def has_nul_def
      NUL_def Minute_def Hour_def Second_def Let_def sample_hash_def valid_hash_def tx_simps)

lemma sample_fresh: "fresh_request sample_acceptance sample_now empty_database"
  by (simp add: fresh_request_def Let_def find_binding_def find_warning_def empty_database_def
      live_reservations_def sample_acceptance_def sample_create_def columns_nonempty_def
      sample_target_def sample_controller_def bounded_token_def has_nul_def sql_nonempty_def NUL_def
      sample_times(1))
    (simp add: valid_time_def Date_def sample_now_def Hour_def Minute_def Second_def
      days_before_year_def)

lemma ingress_unconfigured:
  "lane_ingress_admission db = None \<Longrightarrow> checkIngressAdmissionOnConnection runtime db = Inr ()"
  by (simp add: checkIngressAdmissionOnConnection_def readLaneAdmissionOnConnection_def)

lemma empty_ingress: "checkIngressAdmissionOnConnection runtime empty_database = Inr ()"
  by (rule ingress_unconfigured) (simp add: empty_database_def)

abbreviation sample_store :: AuthorityStore where
  "sample_store \<equiv> NewAuthorityStore empty_database"

abbreviation accepted_store :: AuthorityStore where
  "accepted_store \<equiv> NewAuthorityStore (accepted_db sample_acceptance sample_now empty_database)"

lemma sample_parts: "sca_SessionCreate sample_acceptance = sample_create" "sca_Audit sample_acceptance = None"
  "sca_IdempotencyRetention sample_acceptance = Hour" "sca_RequestHash sample_acceptance = sample_hash"
  by (simp_all add: sample_acceptance_def)

lemma sample_accept_run:
  "AcceptSessionCreate None sample_now sample_store sample_acceptance =
    (Inr (session_record_of sample_create sample_now, False), accepted_store)"
  using accept_fresh_body [OF sample_acceptance_valid _ sessions_wf_empty sample_fresh empty_ingress]
  by (simp add: AcceptSessionCreate_def sample_acceptance_valid withImmediateTransaction_def
      logOptionalAudit_def sample_parts NewAuthorityStore_def)

theorem accept_session_creates_witness:
  "AcceptSessionCreate None sample_now sample_store sample_acceptance =
    (Inr (session_record_of sample_create sample_now, False), accepted_store)"
  using accept_session_creates [OF sample_acceptance_valid, of sample_store sample_now]
    sample_fresh empty_ingress by (simp add: NewAuthorityStore_def sample_parts)

theorem session_retry_exact_witness:
  "AcceptSessionCreate None (sample_now + Minute) accepted_store
     (sample_acceptance\<lparr>sca_RequestHash := sample_hash\<lparr>ch_version := 2\<rparr>\<rparr>) =
     (Inl ErrIdempotencyConflict, accepted_store) \<and>
   AcceptSessionCreate None (sample_now + Minute) accepted_store sample_acceptance =
     (Inr (session_record_of sample_create sample_now, True), accepted_store)"
proof -
  have other: "validateSessionAcceptance (sample_acceptance\<lparr>sca_RequestHash := sample_hash\<lparr>ch_version := 2\<rparr>\<rparr>) =
      Inr (sample_acceptance\<lparr>sca_RequestHash := sample_hash\<lparr>ch_version := 2\<rparr>\<rparr>)"
    using sample_acceptance_valid canonical_digest_valid [of "''{}''"]
    by (auto simp: validateSessionAcceptance_def tx_simps valid_hash_def Let_def sample_acceptance_def
        sample_hash_def split: if_splits)
  have differ: "sample_hash\<lparr>ch_version := 2\<rparr> \<noteq> sample_hash"
    by (simp add: sample_hash_def canonical_digest_def CanonicalizationVersionV1_def)
  have time: "valid_time (sample_now + Hour)" "sample_now + Minute < sample_now + Hour"
    by (simp_all add: valid_time_def Date_def sample_now_def Hour_def Minute_def Second_def
        days_before_year_def)
  have ingress: "checkIngressAdmissionOnConnection r (accepted_db sample_acceptance sample_now empty_database) = Inr ()"
    for r by (rule ingress_unconfigured) (simp add: accepted_db_def Let_def empty_database_def)
  note retry = session_retry_exact [OF sample_accept_run, of sample_acceptance "sample_now + Minute"]
  show ?thesis
    using retry [OF _ sample_acceptance_valid _ _ _ other] retry [OF _ sample_acceptance_valid _ _ _ sample_acceptance_valid]
      sample_times(1) time ingress differ by (simp add: NewAuthorityStore_def sample_parts)
qed

theorem session_capacity_respected_witness:
  "live_reservations (st_db accepted_store) = live_reservations (st_db sample_store) + 1 \<and>
   live_reservations (st_db accepted_store) \<le> 1"
  using session_capacity_respected [OF sample_accept_run]
  by (simp add: requested_limit_def sample_acceptance_def)

end
