(* ===== verification/Session_Lifecycle.thy ===== *)
theory Session_Lifecycle
  imports Session_Acceptance
begin

text \<open>
  Transitions and cleanup of sessions: when a transition is performed and what it leaves behind,
  that a history only grows while the columns that identify a session stay fixed, and that the
  confirmation of a cleanup releases capacity once.
\<close>

section \<open>Histories only grow\<close>

definition identity_columns where
  "identity_columns r = (ses_session_id r, ses_target_kind r, ses_target_profile r, ses_environment r,
     ses_controller_type r, ses_controller_id r, ses_source_mode r, ses_source_repository_alias r,
     ses_source_requested_revision r, ses_source_path r, ses_created_at r, ses_expires_at r)"

definition session_evolves :: "database \<Rightarrow> database \<Rightarrow> bool" where
  "session_evolves db db' \<longleftrightarrow>
     (\<forall>sid row. find_session sid db = Some row \<longrightarrow>
        (\<exists>row'. find_session sid db' = Some row' \<and> identity_columns row' = identity_columns row) \<and>
        prefix (session_history sid db) (session_history sid db'))"

lemma session_evolves_refl [simp]: "session_evolves db db"
  by (simp add: session_evolves_def)

lemma session_evolves_trans:
  "session_evolves a b \<Longrightarrow> session_evolves b c \<Longrightarrow> session_evolves a c"
  unfolding session_evolves_def by (metis prefix_order.order_trans)

lemma session_evolves_cong:
  "exec_sessions db' = exec_sessions db \<Longrightarrow> exec_session_lifecycle db' = exec_session_lifecycle db \<Longrightarrow>
   session_evolves db db'"
  by (simp add: session_evolves_def session_history_def find_session_def)

lemma session_evolves_append:
  "exec_sessions db' = exec_sessions db @ rows \<Longrightarrow>
   exec_session_lifecycle db' = exec_session_lifecycle db @ recs \<Longrightarrow> session_evolves db db'"
  by (simp add: session_evolves_def session_history_def find_session_def find_append)

lemma find_update_rows_keeps:
  assumes "\<And>r. key (f r) = key r" "find (\<lambda>r. key r = k) rows = Some row"
  shows "find (\<lambda>r. key r = k) (update_rows P f rows) = Some (if P row then f row else row)"
  using assms by (induction rows) (auto simp: update_rows_def split: if_splits)

lemma session_evolves_update:
  assumes rows: "exec_sessions db' = update_rows P f (exec_sessions db)"
    and recs: "exec_session_lifecycle db' = exec_session_lifecycle db @ new"
    and f: "\<And>r. identity_columns (f r) = identity_columns r"
  shows "session_evolves db db'"
proof -
  have "ses_session_id (f r) = ses_session_id r" for r using f [of r] by (simp add: identity_columns_def)
  then have "find_session sid db' = Some (if P row then f row else row)"
    if "find_session sid db = Some row" for sid row
    using that find_update_rows_keeps [of ses_session_id f] by (simp add: find_session_def rows)
  then show ?thesis using f by (simp add: session_evolves_def session_history_def recs)
qed

lemma move_session_evolves:
  assumes "move_session sid current next_state f reason now db = Inr (u, db')"
    and "\<And>r. identity_columns (f r) = identity_columns r"
  shows "session_evolves db db'"
  using assms(1) by (intro session_evolves_update [OF _ _ assms(2)])
    (auto simp: move_session_def update_session_def insert_lifecycle_def tx_simps)

lemma lookupIdempotency_evolves:
  assumes "lookupIdempotencyOnConnection c operation key now db = Inr (found, db')"
  shows "session_evolves db db'"
  by (rule lookupIdempotency_frame [OF assms]) (simp add: session_evolves_cong)

lemma insertOptionalAudit_evolves:
  assumes "insertOptionalAuditOnConnection r db = Inr (saved, db')"
  shows "session_evolves db db'"
  by (rule insertOptionalAudit_obtain [OF assms]) (simp add: session_evolves_cong)

lemma insertSessionAcceptance_evolves:
  assumes "insertSessionAcceptance c key h expires now warning db = Inr (u, db')"
  shows "session_evolves db db'"
  by (rule insertSessionAcceptance_effect [OF assms]) (rule session_evolves_append; simp)

lemma release_reservation_evolves:
  "release_reservation sid now db = Inr (u, db') \<Longrightarrow> session_evolves db db'"
  by (rule session_evolves_cong) (auto simp: release_reservation_def tx_simps)

lemma accept_session_evolves:
  assumes "accept_session_body v now runtime db = Inr (x, db')"
  shows "session_evolves db db'"
proof -
  obtain rc dup saved where "x = ((rc, dup), saved)" by (metis surj_pair)
  with assms have "accept_session_body v now runtime db = Inr (((rc, dup), saved), db')" by simp
  then show ?thesis
    by (cases rule: accept_session_cases)
      (meson session_evolves_trans lookupIdempotency_evolves insertSessionAcceptance_evolves
        insertOptionalAudit_evolves)+
qed

lemma create_session_evolves:
  "tx_bind (tx_query q) (\<lambda>_. tx_bind (ensureSessionCapacity n) (\<lambda>_.
     tx_bind (insertSessionAcceptance v key h expires now warning) (\<lambda>_. tx_query q'))) db = Inr (x, db') \<Longrightarrow>
   session_evolves db db'"
  by (auto simp: tx_simps ensureSessionCapacity_def split: if_splits dest: insertSessionAcceptance_evolves)

lemma confirm_cleanup_evolves: "confirm_cleanup_body sid now db = Inr (x, db') \<Longrightarrow> session_evolves db db'"
  by (rule session_evolves_cong) (auto simp: confirm_cleanup_body_def tx_simps split: if_splits)

lemma transition_session_evolves:
  "transition_session_body sid next_state reason now db = Inr (x, db') \<Longrightarrow> session_evolves db db'"
  by (auto simp: transition_session_body_def Let_def tx_simps identity_columns_def
      elim!: move_session_evolves)

lemma complete_creation_evolves:
  "complete_creation_body sid next_state g revision reason now db = Inr (x, db') \<Longrightarrow> session_evolves db db'"
  by (auto simp: complete_creation_body_def Let_def tx_simps identity_columns_def
      elim!: move_session_evolves)

lemma fail_after_cleanup_evolves:
  assumes "fail_after_cleanup_body sid g revision reason now db = Inr (x, db')"
  shows "session_evolves db db'"
proof -
  from assms obtain revision' db1 where
    move: "move_session sid SessionStateCreating SessionStateFailed
      (\<lambda>r. r\<lparr>ses_state := SessionStateFailed, ses_runtime_generation := g,
        ses_source_resolved_revision := revision', ses_updated_at := formatStoredTime now\<rparr>)
      reason now db = Inr ((), db1)"
    and rel: "release_reservation sid now db1 = Inr ((), db')"
    by (auto simp: fail_after_cleanup_body_def Let_def tx_simps)
  have "session_evolves db db1"
    by (rule move_session_evolves [OF move]) (simp add: identity_columns_def)
  then show ?thesis using release_reservation_evolves [OF rel] session_evolves_trans by blast
qed

lemma fail_pre_start_evolves:
  "fail_pre_start_body sid now db = Inr (x, db') \<Longrightarrow> session_evolves db db'"
  by (rule session_evolves_update [where f = "\<lambda>r. r\<lparr>ses_state := SessionStateFailed,
      ses_updated_at := formatStoredTime now\<rparr>"])
    (auto simp: fail_pre_start_body_def insert_lifecycle_def release_reservation_def tx_simps
      identity_columns_def)

section \<open>A transition\<close>

text \<open>A session row the database accepts and the code reads back.\<close>

definition readable_session :: "session_row \<Rightarrow> bool" where
  "readable_session row \<longleftrightarrow> session_check row \<and> is_ok (decode_session_row row)"

lemma decode_updated:
  assumes "is_ok (decode_session_row row)" "valid_time now" "SessionState_Valid next_state"
  shows "\<exists>rc. decode_session_row (row\<lparr>ses_state := next_state, ses_runtime_generation := g,
      ses_source_resolved_revision := rv, ses_updated_at := formatStoredTime now\<rparr>) = Inr rc \<and>
    sr_State rc = next_state \<and> sr_RuntimeGeneration rc = g \<and> sr_SessionID rc = ses_session_id row"
proof -
  obtain rc where rc: "decode_session_row row = Inr rc" using assms(1) by (auto simp: is_ok_iff)
  have "decode_session_row (row\<lparr>ses_state := next_state, ses_runtime_generation := g,
      ses_source_resolved_revision := rv, ses_updated_at := formatStoredTime now\<rparr>) =
    Inr (rc\<lparr>sr_State := next_state, sr_RuntimeGeneration := g, sr_ResolvedRevision := rv,
      sr_UpdatedAt := now\<rparr>) \<and> sr_SessionID rc = ses_session_id row"
    using rc assms(2,3) by (auto simp: decode_session_row_def tx_simps Let_def split: if_splits)
  then show ?thesis by auto
qed

lemma check_updated:
  "session_check row \<Longrightarrow> SessionState_Valid next_state \<Longrightarrow>
   session_check (row\<lparr>ses_state := next_state, ses_runtime_generation := g,
     ses_source_resolved_revision := rv, ses_updated_at := formatStoredTime now\<rparr>)"
  by (cases "ses_source_mode row") (simp_all add: session_check_def source_columns_ok_def)

text \<open>What the three statements of a transition do to the session they name.\<close>

lemma move_session_run:
  fixes f :: "session_row \<Rightarrow> session_row"
  assumes wf: "sessions_wf db" and row: "find_session sid db = Some row" "ses_state row = current"
    and edge: "SessionState_CanTransitionTo current next_state" and chk: "session_check (f row)"
    and f: "\<And>r. ses_session_id (f r) = ses_session_id r"
    and reason: "reason \<noteq> []" "\<not> has_nul reason"
  shows "\<exists>db'. move_session sid current next_state f reason now db = Inr ((), db') \<and>
    find_session sid db' = Some (f row) \<and>
    session_history sid db' = session_history sid db @
      [lifecycle_row_of sid (int (length (session_history sid db)) + 1) (Some current) next_state reason now]"
proof -
  have valid: "SessionState_Valid current" "SessionState_Valid next_state"
    using SessionState_CanTransitionTo_valid [OF edge] by auto
  have len: "next_lifecycle_sequence sid db = int (length (session_history sid db)) + 1"
    using history_ok_next [OF find_session_history [OF wf row(1)]] by (simp add: next_lifecycle_sequence_def)
  have mem: "row \<in> set (exec_sessions db)" "ses_session_id row = sid"
    using row(1) find_session_row [OF wf] by auto
  have only: "r = row" if "r \<in> set (exec_sessions db)" "ses_session_id r = sid" for r
    using that mem wf distinct_key_eq [of ses_session_id "exec_sessions db"] by (auto simp: sessions_wf_def)
  let ?rec = "lifecycle_row_of sid (int (length (session_history sid db)) + 1) (Some current) next_state reason now"
  let ?db1 = "exec_sessions_update (update_rows (\<lambda>r. ses_session_id r = sid \<and> ses_state r = current) f) db"
  have upd: "update_session sid current f db =
      Inr (length (filter (\<lambda>r. ses_session_id r = sid \<and> ses_state r = current) (exec_sessions db)), ?db1)"
    using only chk by (auto simp: update_session_def sql_update_def list_all_iff)
  have "lifecycle_key ?rec \<notin> lifecycle_key ` set (exec_session_lifecycle db)"
  proof
    assume "lifecycle_key ?rec \<in> lifecycle_key ` set (exec_session_lifecycle db)"
    then obtain r where r: "r \<in> set (session_history sid db)"
      "slc_sequence r = int (length (session_history sid db)) + 1"
      by (auto simp: lifecycle_key_def lifecycle_row_of_def session_history_def)
    then show False
      using max_column_ge [OF r(1), of slc_sequence] len by (simp add: next_lifecycle_sequence_def)
  qed
  moreover have "sid \<in> ses_session_id ` set (update_rows (\<lambda>r. ses_session_id r = sid \<and> ses_state r = current)
      f (exec_sessions db))"
    using mem f map_update_rows [of ses_session_id f] by (metis (no_types, lifting) image_eqI list.set_map)
  ultimately have ins: "lifecycle_constraints ?rec ?db1"
    using valid reason nonempty_no_nul
    by (simp add: lifecycle_constraints_def) (simp add: lifecycle_row_of_def)
  have found: "find_session sid (exec_session_lifecycle_update g ?db1) = Some (f row)" for g
    using find_update_rows_keeps [of ses_session_id f sid "exec_sessions db" row] f row mem
    by (simp add: find_session_def)
  have "move_session sid current next_state f reason now db =
      Inr ((), exec_session_lifecycle_update (\<lambda>rows. rows @ [?rec]) ?db1)"
    by (simp add: move_session_def tx_bind_def tx_query_def len upd insert_lifecycle_def sql_insert_def ins)
  then show ?thesis
    using found by (auto simp: session_history_def lifecycle_row_of_def)
qed

text \<open>A transition of a stored session to another state is performed exactly when the session
  table has the edge: the session takes the new state, its history gets one more record with the next
  number, and the caller receives the new snapshot; otherwise the request is refused as illegal and
  nothing changes.\<close>

theorem session_transition_exact:
  assumes wf: "sessions_wf (st_db s)" and row: "find_session sid (st_db s) = Some row" "readable_session row"
    and args: "sid \<noteq> []" "SessionState_Valid next_state" "reason \<noteq> []" "length reason \<le> 512"
      "\<not> has_nul reason" "valid_time now"
  shows "if SessionState_CanTransitionTo (ses_state row) next_state
    then \<exists>rc db'. TransitionSession None now s sid next_state reason = (Inr rc, s\<lparr>st_db := db'\<rparr>) \<and>
      sr_SessionID rc = sid \<and> sr_State rc = next_state \<and>
      readSessionOnConnection sid db' = Inr rc \<and>
      session_history sid db' = session_history sid (st_db s) @
        [lifecycle_row_of sid (int (length (session_history sid (st_db s))) + 1) (Some (ses_state row))
          next_state reason now]
    else TransitionSession None now s sid next_state reason = (Inl ErrIllegalSessionTransition, s)"
proof -
  have ident: "NewSessionID sid = Inr sid" "validateLifecycleReason reason = Inr reason"
    using args by (simp_all add: validateLifecycleReason_def)
  have sel: "select_session sid (st_db s) = Inr row" using row(1) by (simp add: tx_simps)
  have sid: "ses_session_id row = sid" using row(1) find_session_row [OF wf] by auto
  let ?f = "\<lambda>r. r\<lparr>ses_state := next_state, ses_updated_at := formatStoredTime now\<rparr>"
  have upd: "?f row = row\<lparr>ses_state := next_state, ses_runtime_generation := ses_runtime_generation row,
      ses_source_resolved_revision := ses_source_resolved_revision row,
      ses_updated_at := formatStoredTime now\<rparr>"
    by simp
  show ?thesis
  proof (cases "SessionState_CanTransitionTo (ses_state row) next_state")
    case True
    have chk: "session_check (?f row)"
      unfolding upd using row(2) args(2) by (intro check_updated) (simp_all add: readable_session_def)
    obtain rc where rc: "decode_session_row (?f row) = Inr rc" "sr_State rc = next_state" "sr_SessionID rc = sid"
      unfolding upd using decode_updated [of row now next_state, where g = "ses_runtime_generation row"
          and rv = "ses_source_resolved_revision row"] row(2) args sid by (auto simp: readable_session_def)
    obtain db' where db': "move_session sid (ses_state row) next_state ?f reason now (st_db s) = Inr ((), db')"
      "find_session sid db' = Some (?f row)"
      "session_history sid db' = session_history sid (st_db s) @
        [lifecycle_row_of sid (int (length (session_history sid (st_db s))) + 1) (Some (ses_state row))
          next_state reason now]"
      using move_session_run [OF wf row(1) refl True, of ?f reason now] chk args by auto
    have read: "readSessionOnConnection sid db' = Inr rc" using db'(2) rc(1) by (simp add: readSessionOnConnection_def)
    have ok: "ValidateSessionTransition (ses_state row) next_state = Inr ()" using True by simp
    have "transition_session_body sid next_state reason now (st_db s) = Inr (rc, db')"
      by (simp add: transition_session_body_def tx_bind_def tx_query_def sel Let_def ok db'(1) read)
    then have "TransitionSession None now s sid next_state reason = (Inr rc, s\<lparr>st_db := db'\<rparr>)"
      by (simp add: TransitionSession_def ident args(2) withImmediateTransaction_def)
    then show ?thesis using True rc read db'(3) by auto
  next
    case False
    have "ValidateSessionTransition (ses_state row) next_state = Inl ErrIllegalSessionTransition"
      using False row(2) args(2) by (simp add: ValidateSessionTransition_def readable_session_def session_check_def)
    then have "transition_session_body sid next_state reason now (st_db s) = Inl ErrIllegalSessionTransition"
      by (simp add: transition_session_body_def tx_bind_def tx_query_def sel Let_def)
    then show ?thesis
      using False by (simp add: TransitionSession_def ident args(2) withImmediateTransaction_def count_error_def)
  qed
qed

lemma sample_stored: "readable_session (session_row_of sample_create sample_now)"
  using validateSessionAcceptance_ok(1) [OF sample_acceptance_valid] sample_fresh sample_parts
  by (auto simp: readable_session_def fresh_request_def Let_def session_check_row_of decode_session_row_of)

lemma accepted_wf: "sessions_wf (accepted_db sample_acceptance sample_now empty_database)"
  using tx_keepsD [OF accept_session_wf sessions_wf_empty
      accept_fresh_body [OF sample_acceptance_valid sample_parts(2) sessions_wf_empty sample_fresh empty_ingress]] .

lemma accepted_session: "find_session ''s1'' (accepted_db sample_acceptance sample_now empty_database) =
    Some (session_row_of sample_create sample_now)"
  using find_accepted [of sample_acceptance empty_database sample_now] sample_parts
  by (simp add: empty_database_def sample_create_def)

theorem session_transition_exact_witness:
  "\<exists>rc db'. TransitionSession None sample_now accepted_store ''s1'' SessionStateReady ''go'' =
     (Inr rc, accepted_store\<lparr>st_db := db'\<rparr>) \<and> sr_State rc = SessionStateReady"
  using session_transition_exact [of accepted_store "''s1''" "session_row_of sample_create sample_now"
      SessionStateReady "''go''" sample_now] accepted_wf accepted_session sample_stored sample_times(1)
  by (auto simp: NewAuthorityStore_def session_row_of_def SessionState_CanTransitionTo_def has_nul_def NUL_def)

section \<open>Confirmed cleanup\<close>

lemma length_filter_release:
  assumes "distinct (map key rows)" "\<And>r. key (f r) = key r" "\<And>r. Q r \<Longrightarrow> P r" "\<And>r. \<not> Q (f r)"
  shows "int (length (filter Q (update_rows (\<lambda>r. key r = k \<and> P r) f rows))) =
    int (length (filter Q rows)) -
      (case find (\<lambda>r. key r = k) rows of None \<Rightarrow> 0 | Some r \<Rightarrow> if Q r then 1 else 0)"
  using assms(1)
proof (induction rows)
  case Nil
  then show ?case by (simp add: update_rows_def)
next
  case (Cons a rows)
  show ?case
  proof (cases "key a = k")
    case True
    then have "update_rows (\<lambda>r. key r = k \<and> P r) f rows = rows"
      using Cons.prems by (intro update_rows_cong_none) (auto simp: image_iff)
    then show ?thesis using True assms(3,4) by (auto simp: update_rows_def)
  next
    case False
    then show ?thesis using Cons by (simp add: update_rows_def)
  qed
qed

lemma update_no_reservation:
  assumes "\<And>r. r \<in> set (exec_capacity_reservations db) \<Longrightarrow> \<not> P r"
  shows "sql_update check exec_capacity_reservations exec_capacity_reservations_update P f db = Inr (0, db)"
proof -
  have "exec_capacity_reservations_update (update_rows P f) db = db"
    using update_rows_cong_none [of "exec_capacity_reservations db" P f] assms
    by (intro database.equality) auto
  then show ?thesis using assms by (simp add: sql_update_def list_all_iff)
qed

text \<open>Confirming the cleanup of a session gives back its unit of capacity if it still held one,
  and a repeated confirmation succeeds without changing anything.\<close>

theorem cleanup_confirmation_once:
  assumes run: "ConfirmSessionCleanup None now s sid = (Inr (), s')" and wf: "sessions_wf (st_db s)"
  shows "live_reservations (st_db s') = live_reservations (st_db s) -
      (case find_reservation sid (st_db s) of None \<Rightarrow> 0 | Some r \<Rightarrow>
         if res_host_key r = reservationHostKey \<and> res_cleanup_confirmed_at r = None then 1 else 0) \<and>
    ConfirmSessionCleanup None later s' sid = (Inr (), s')"
proof -
  let ?P = "\<lambda>r. res_session_id r = sid \<and> res_cleanup_confirmed_at r = None"
  let ?rows = "exec_capacity_reservations (st_db s)"
  have sid: "NewSessionID sid = Inr sid"
    using run by (cases "sid = []") (auto simp: ConfirmSessionCleanup_def NewSessionID_def validateID_def)
  have body: "confirm_cleanup_body sid now (st_db s) = Inr ((), st_db s')"
    using run by (auto simp: ConfirmSessionCleanup_def sid tx_simps)
  then have db': "st_db s' = exec_capacity_reservations_update (update_rows ?P (confirmed now)) (st_db s)"
    by (auto simp: confirm_cleanup_body_def tx_simps split: if_splits)
  have rows': "exec_capacity_reservations (st_db s') = update_rows ?P (confirmed now) ?rows"
    by (simp add: db')
  have ids: "map res_session_id (update_rows ?P (confirmed now) ?rows) = map res_session_id ?rows"
    by (rule map_update_rows) (simp add: confirmed_def)
  have "find_reservation sid (st_db s') \<noteq> None"
  proof (cases "filter ?P ?rows")
    case Nil
    then show ?thesis using body by (auto simp: confirm_cleanup_body_def tx_simps split: if_splits)
  next
    case (Cons r rs)
    then have "r \<in> set ?rows" "res_session_id r = sid"
      using filter_eq_ConsD [OF Cons] by auto
    then have "sid \<in> set (map res_session_id ?rows)" by auto
    then show ?thesis using ids by (simp only: find_reservation_def rows' find_key_None) (metis list.set_map)
  qed
  moreover have none: "\<not> ?P r" if mem: "r \<in> set (exec_capacity_reservations (st_db s'))" for r
  proof -
    obtain r0 where "r = (if ?P r0 then confirmed now r0 else r0)"
      using mem unfolding rows' in_update_rows by blast
    then show ?thesis by (cases "?P r0") (simp_all add: confirmed_def)
  qed
  then have idle: "sql_update reservation_check exec_capacity_reservations exec_capacity_reservations_update
      ?P (confirmed later) (st_db s') = Inr (0, st_db s')"
    by (rule update_no_reservation)
  ultimately have "confirm_cleanup_body sid later (st_db s') = Inr ((), st_db s')"
    by (simp add: confirm_cleanup_body_def tx_bind_def idle)
  then have again: "ConfirmSessionCleanup None later s' sid = (Inr (), s')"
    by (simp add: ConfirmSessionCleanup_def sid withImmediateTransaction_def)
  have "live_reservations (st_db s') = live_reservations (st_db s) -
      (case find_reservation sid (st_db s) of None \<Rightarrow> 0 | Some r \<Rightarrow>
         if res_host_key r = reservationHostKey \<and> res_cleanup_confirmed_at r = None then 1 else 0)"
    unfolding live_reservations_def find_reservation_def rows'
    using wf by (intro length_filter_release) (simp_all add: sessions_wf_def confirmed_def)
  with again show ?thesis by blast
qed

theorem cleanup_confirmation_once_witness:
  "\<exists>s'. ConfirmSessionCleanup None sample_now accepted_store ''s1'' = (Inr (), s') \<and>
     live_reservations (st_db s') = 0 \<and> ConfirmSessionCleanup None sample_now s' ''s1'' = (Inr (), s')"
proof -
  have rows: "exec_capacity_reservations (st_db accepted_store) = [reservation_row_of ''s1'' sample_now]"
    by (simp add: NewAuthorityStore_def accepted_db_def Let_def empty_database_def sample_parts sample_create_def)
  have "reservation_check (confirmed sample_now (reservation_row_of ''s1'' sample_now))"
    by (simp add: reservation_check_def confirmed_def reservation_row_of_def host_key_nonempty)
  then obtain s' where s': "ConfirmSessionCleanup None sample_now accepted_store ''s1'' = (Inr (), s')"
    by (simp add: ConfirmSessionCleanup_def new_id_run withImmediateTransaction_def confirm_cleanup_body_def
        tx_bind_def sql_update_def rows) (simp add: reservation_row_of_def)
  have "live_reservations (st_db accepted_store) = 1"
    by (simp add: live_reservations_def rows) (simp add: reservation_row_of_def)
  with cleanup_confirmation_once [OF s', of sample_now] s' accepted_wf rows show ?thesis
    by (auto simp: NewAuthorityStore_def find_reservation_def reservation_row_of_def)
qed

section \<open>Completing a creation\<close>

text \<open>C33. Completing a creation as ready, failed or lost is performed exactly when the session table
  has the edge from the session's present state; it then stores the given runtime generation, or
  keeps the stored one when none is given. The present state need not be creating: a busy session is
  completed as ready too, and its runtime generation replaced.\<close>

theorem creation_completion_exact:
  assumes wf: "sessions_wf (st_db s)" and row: "find_session sid (st_db s) = Some row" "readable_session row"
    and args: "sid \<noteq> []" "next_state \<in> {SessionStateReady, SessionStateFailed, SessionStateLost}"
      "length g \<le> 256" "\<not> has_nul g" "length revision \<le> 256" "\<not> has_nul revision"
      "next_state = SessionStateReady \<Longrightarrow> g \<noteq> []"
      "reason \<noteq> []" "length reason \<le> 512" "\<not> has_nul reason" "valid_time now"
  shows "if SessionState_CanTransitionTo (ses_state row) next_state
    then \<exists>rc db'. CompleteSessionCreation None now s sid next_state g revision reason =
        (Inr rc, s\<lparr>st_db := db'\<rparr>) \<and> sr_State rc = next_state \<and>
      sr_RuntimeGeneration rc = (if g = [] then ses_runtime_generation row else g) \<and>
      session_history sid db' = session_history sid (st_db s) @
        [lifecycle_row_of sid (int (length (session_history sid (st_db s))) + 1) (Some (ses_state row))
          next_state reason now]
    else CompleteSessionCreation None now s sid next_state g revision reason =
      (Inl ErrIllegalSessionTransition, s)"
proof -
  have ident: "NewSessionID sid = Inr sid" "validateLifecycleReason reason = Inr reason"
    using args by (simp_all add: validateLifecycleReason_def)
  have guards: "CompleteSessionCreation None now s sid next_state g revision reason =
      withImmediateTransaction None s (complete_creation_body sid next_state g revision reason now)"
    using args by (auto simp: CompleteSessionCreation_def ident)
  have valid: "SessionState_Valid next_state" using args(2) by auto
  have sel: "select_session sid (st_db s) = Inr row" using row(1) by (simp add: tx_simps)
  define g' where "g' = (if g = [] then ses_runtime_generation row else g)"
  define rv where "rv = (if revision = [] then ses_source_resolved_revision row else revision)"
  let ?f = "\<lambda>r. r\<lparr>ses_state := next_state, ses_runtime_generation := g',
    ses_source_resolved_revision := rv, ses_updated_at := formatStoredTime now\<rparr>"
  show ?thesis
  proof (cases "SessionState_CanTransitionTo (ses_state row) next_state")
    case True
    have chk: "session_check (?f row)"
      using row(2) valid by (intro check_updated) (simp_all add: readable_session_def)
    obtain rc where rc: "decode_session_row (?f row) = Inr rc" "sr_State rc = next_state"
      "sr_RuntimeGeneration rc = g'"
      using decode_updated [of row now next_state, where g = g' and rv = rv] row(2) args valid
      by (auto simp: readable_session_def)
    obtain db' where db': "move_session sid (ses_state row) next_state ?f reason now (st_db s) = Inr ((), db')"
      "find_session sid db' = Some (?f row)"
      "session_history sid db' = session_history sid (st_db s) @
        [lifecycle_row_of sid (int (length (session_history sid (st_db s))) + 1) (Some (ses_state row))
          next_state reason now]"
      using move_session_run [OF wf row(1) refl True, of ?f reason now] chk args by auto
    have read: "readSessionOnConnection sid db' = Inr rc" using db'(2) rc(1) by (simp add: readSessionOnConnection_def)
    have ok: "ValidateSessionTransition (ses_state row) next_state = Inr ()" using True by simp
    have "complete_creation_body sid next_state g revision reason now (st_db s) = Inr (rc, db')"
      by (simp only: complete_creation_body_def Let_def g'_def [symmetric] rv_def [symmetric] sel ok
          tx_bind_def tx_query_def tx_lift_def sum.case prod.case db'(1) read)
    then have "CompleteSessionCreation None now s sid next_state g revision reason = (Inr rc, s\<lparr>st_db := db'\<rparr>)"
      by (simp add: guards withImmediateTransaction_def)
    then show ?thesis using True rc db'(3) by (auto simp: g'_def)
  next
    case False
    have "ValidateSessionTransition (ses_state row) next_state = Inl ErrIllegalSessionTransition"
      using False row(2) valid by (simp add: ValidateSessionTransition_def readable_session_def session_check_def)
    then have "complete_creation_body sid next_state g revision reason now (st_db s) = Inl ErrIllegalSessionTransition"
      by (simp add: complete_creation_body_def tx_bind_def tx_query_def sel Let_def)
    then show ?thesis using False by (simp add: guards withImmediateTransaction_def count_error_def)
  qed
qed

text \<open>A store with one busy session.\<close>

definition busy_row :: session_row where
  "busy_row = (session_row_of sample_create sample_now)\<lparr>ses_state := SessionStateBusy,
     ses_runtime_generation := ''gen-1''\<rparr>"

definition busy_db :: database where
  "busy_db = empty_database\<lparr>exec_sessions := [busy_row],
     exec_session_lifecycle :=
       [lifecycle_row_of ''s1'' 1 None SessionStateCreating ''r'' sample_now,
        lifecycle_row_of ''s1'' 2 (Some SessionStateCreating) SessionStateReady ''r'' sample_now,
        lifecycle_row_of ''s1'' 3 (Some SessionStateReady) SessionStateBusy ''r'' sample_now],
     exec_capacity_reservations := [reservation_row_of ''s1'' sample_now]\<rparr>"

lemma busy_wf: "sessions_wf busy_db"
  by (simp add: sessions_wf_def busy_db_def busy_row_def session_row_of_def sample_create_def
      reservation_row_of_def lifecycle_row_of_def session_history_def history_ok_def numbered_def
      SessionState_CanTransitionTo_def upt_conv_Cons)

lemma busy_readable: "readable_session busy_row"
  using sample_stored
  by (auto simp: readable_session_def busy_row_def session_check_def source_columns_ok_def is_ok_iff
      decode_session_row_def tx_simps Let_def split: SourceMode.splits if_splits)

theorem creation_completion_exact_witness:
  "\<exists>rc db'. CompleteSessionCreation None sample_now (NewAuthorityStore busy_db) ''s1'' SessionStateReady
      ''gen-2'' [] ''again'' = (Inr rc, (NewAuthorityStore busy_db)\<lparr>st_db := db'\<rparr>) \<and>
     sr_State rc = SessionStateReady \<and> sr_RuntimeGeneration rc = ''gen-2''"
proof -
  have row: "find_session ''s1'' busy_db = Some busy_row"
    by (simp add: find_session_def busy_db_def) (simp add: busy_row_def session_row_of_def sample_create_def)
  have "ses_state busy_row = SessionStateBusy" by (simp add: busy_row_def)
  then show ?thesis
    using creation_completion_exact [of "NewAuthorityStore busy_db" "''s1''" busy_row SessionStateReady
        "''gen-2''" "[]" "''again''" sample_now] busy_wf busy_readable row sample_times(1)
    by (auto simp: NewAuthorityStore_def SessionState_CanTransitionTo_def has_nul_def NUL_def)
qed

end
