(* ===== verification/Store_Subscribers.thy ===== *)
theory Store_Subscribers
  imports Authority_Schema "HOL-Library.AList"
begin

text \<open>
  Bounded event subscriptions (internal/store/subscribers.go). A subscription is registered before
  its replay is read, so events may be published to it while the replay is in flight: they wait in
  \<open>pending\<close> and are handed off afterwards. The two channels are the lists of their buffered
  values; a Go map from sequences is a list with at most one entry per sequence. A subscriber whose
  bounds are exceeded is closed with an overflow error. Methods that end by unregistering the
  subscription from its owner return that as a flag.
\<close>

section \<open>One subscription\<close>

definition canBufferLocked :: "CommandEventSubscription \<Rightarrow> CommandEventRecord \<Rightarrow> bool" where
  "canBufferLocked s event = (let bytes = int (length (cer_Payload event)) in
     bytes \<le> sub_maxBytes s \<and> sub_bufferedBytes s \<le> sub_maxBytes s - bytes)"

definition chargeLocked :: "CommandEventRecord \<Rightarrow> CommandEventSubscription \<Rightarrow> CommandEventSubscription" where
  "chargeLocked event s = (let bytes = int (length (cer_Payload event)) in
     s\<lparr>sub_charged := (cer_Sequence event, bytes) # AList.delete (cer_Sequence event) (sub_charged s),
       sub_bufferedBytes := sub_bufferedBytes s + bytes\<rparr>)"

text \<open>\<open>if size, ok := s.charged[sequence]; ok { delete(s.charged, sequence); s.bufferedBytes -= size }\<close>\<close>

definition release_charge :: "int \<Rightarrow> CommandEventSubscription \<Rightarrow> CommandEventSubscription" where
  "release_charge sequence s =
     (case map_of (sub_charged s) sequence of
        None \<Rightarrow> s
      | Some size_ \<Rightarrow> s\<lparr>sub_charged := AList.delete sequence (sub_charged s),
          sub_bufferedBytes := sub_bufferedBytes s - size_\<rparr>)"

definition terminateLocked :: "go_error option \<Rightarrow> CommandEventSubscription \<Rightarrow> CommandEventSubscription" where
  "terminateLocked err s =
     (if sub_closed s then s
      else
        let s1 = foldl (\<lambda>s event. release_charge (cer_Sequence event) s) (s\<lparr>sub_closed := True\<rparr>)
          (sub_pending s) in
        s1\<lparr>sub_pending := [], sub_errors := sub_errors s @ (case err of None \<Rightarrow> [] | Some e \<Rightarrow> [e])\<rparr>)"

definition CommandEventSubscription_terminate ::
  "go_error option \<Rightarrow> CommandEventSubscription \<Rightarrow> CommandEventSubscription" where
  "CommandEventSubscription_terminate err s = (if sub_closed s then s else terminateLocked err s)"

definition drop_pending :: "int \<Rightarrow> CommandEventSubscription \<Rightarrow> CommandEventSubscription" where
  "drop_pending sequence s =
     s\<lparr>sub_pending := filter (\<lambda>event. cer_Sequence event \<noteq> sequence) (sub_pending s)\<rparr>"

definition enqueueLocked ::
  "CommandEventRecord \<Rightarrow> CommandEventSubscription \<Rightarrow> bool \<times> CommandEventSubscription" where
  "enqueueLocked event s =
     (if sub_closed s \<or> cer_Sequence event \<le> sub_lastSequence s
      then (\<not> sub_closed s, drop_pending (cer_Sequence event) s)
      else
        let alreadyCharged = map_of (sub_charged s) (cer_Sequence event) \<noteq> None in
        if \<not> alreadyCharged \<and> \<not> canBufferLocked s event
        then (False, terminateLocked (Some ErrSubscriberOverflow) s)
        else if int (length (sub_events s)) < sub_capacity s
        then
          let s1 = s\<lparr>sub_events := sub_events s @ [event]\<rparr>;
              s2 = (if alreadyCharged then s1 else chargeLocked event s1) in
          (True, (drop_pending (cer_Sequence event) s2)\<lparr>sub_lastSequence := cer_Sequence event\<rparr>)
        else (False, terminateLocked (Some ErrSubscriberOverflow) s))"

fun enqueue_all ::
  "CommandEventRecord list \<Rightarrow> CommandEventSubscription \<Rightarrow> bool \<times> CommandEventSubscription" where
  "enqueue_all [] s = (True, s)"
| "enqueue_all (event # events) s =
     (case enqueueLocked event s of
        (False, s') \<Rightarrow> (False, s')
      | (True, s') \<Rightarrow> enqueue_all events s')"

definition CommandEventSubscription_replay ::
  "CommandEventRecord list \<Rightarrow> CommandEventSubscription \<Rightarrow> bool \<times> CommandEventSubscription" where
  "CommandEventSubscription_replay events s =
     (if sub_closed s then (False, s) else enqueue_all events s)"

text \<open>The flag says that the subscription unregisters itself.\<close>

definition finishReplay :: "CommandEventSubscription \<Rightarrow> bool \<times> CommandEventSubscription" where
  "finishReplay s =
     (if sub_closed s then (False, s)
      else
        let s1 = snd (enqueue_all (sort_key cer_Sequence (sub_pending s)) (s\<lparr>sub_replaying := False\<rparr>));
            s2 = (if sub_closed s1 then s1 else s1\<lparr>sub_pending := []\<rparr>) in
        (sub_closed s2, s2))"

definition publish :: "CommandEventRecord \<Rightarrow> CommandEventSubscription \<Rightarrow> bool \<times> CommandEventSubscription" where
  "publish event s =
     (if sub_closed s \<or> cer_Sequence event \<le> sub_lastSequence s then (False, s)
      else if sub_replaying s
      then
        if cer_Sequence event \<in> cer_Sequence ` set (sub_pending s) then (False, s)
        else if int (length (sub_pending s)) \<ge> sub_capacity s \<or> \<not> canBufferLocked s event
        then (True, terminateLocked (Some ErrSubscriberOverflow) s)
        else (False, chargeLocked event (s\<lparr>sub_pending := sub_pending s @ [event]\<rparr>))
      else
        case enqueueLocked event s of (ok, s') \<Rightarrow> (\<not> ok, s'))"

definition Acknowledge :: "CommandEventRecord \<Rightarrow> CommandEventSubscription \<Rightarrow> CommandEventSubscription" where
  "Acknowledge event s = release_charge (cer_Sequence event) s"

definition LastSequence :: "CommandEventSubscription \<Rightarrow> int" where
  "LastSequence s = sub_lastSequence s"

definition BufferedPayloadBytes :: "CommandEventSubscription \<Rightarrow> int" where
  "BufferedPayloadBytes s = sub_bufferedBytes s"

text \<open>The consumer takes the next value of the events channel.\<close>

definition receive :: "CommandEventSubscription \<Rightarrow> CommandEventRecord option \<times> CommandEventSubscription" where
  "receive s = (case sub_events s of
       [] \<Rightarrow> (None, s)
     | event # rest \<Rightarrow> (Some event, s\<lparr>sub_events := rest\<rparr>))"

definition new_subscription :: "CommandID \<Rightarrow> int \<Rightarrow> int \<Rightarrow> int \<Rightarrow> CommandEventSubscription" where
  "new_subscription commandID afterSequence capacity maxBufferedBytes =
     \<lparr>sub_commandID = commandID, sub_capacity = capacity, sub_maxBytes = maxBufferedBytes,
      sub_events = [], sub_errors = [], sub_replaying = True, sub_pending = [], sub_charged = [],
      sub_bufferedBytes = 0, sub_lastSequence = afterSequence, sub_closed = False\<rparr>"

section \<open>The registry of the store\<close>

definition addSubscriber :: "nat \<Rightarrow> AuthorityStore \<Rightarrow> AuthorityStore" where
  "addSubscriber p s = s\<lparr>st_subscribersByID := st_subscribersByID s @ [p]\<rparr>"

definition removeSubscriber :: "nat \<Rightarrow> AuthorityStore \<Rightarrow> AuthorityStore" where
  "removeSubscriber p s = s\<lparr>st_subscribersByID := filter (\<lambda>q. q \<noteq> p) (st_subscribersByID s)\<rparr>"

text \<open>Run a method of the subscription at address \<open>p\<close>, which may unregister itself.\<close>

definition at_subscription ::
  "nat \<Rightarrow> (CommandEventSubscription \<Rightarrow> bool \<times> CommandEventSubscription) \<Rightarrow> AuthorityStore \<Rightarrow> AuthorityStore" where
  "at_subscription p f s =
     (case f (st_subscriptions s ! p) of
        (remove, sub) \<Rightarrow>
          let s' = s\<lparr>st_subscriptions := (st_subscriptions s)[p := sub]\<rparr> in
          if remove then removeSubscriber p s' else s')"

definition publishCommandEvent :: "CommandEventRecord \<Rightarrow> AuthorityStore \<Rightarrow> AuthorityStore" where
  "publishCommandEvent event s =
     foldl (\<lambda>s p. at_subscription p (publish event) s) s
       (filter (\<lambda>p. sub_commandID (st_subscriptions s ! p) = cer_CommandID event) (st_subscribersByID s))"

definition CommandEventSubscription_Close :: "nat \<Rightarrow> AuthorityStore \<Rightarrow> AuthorityStore" where
  "CommandEventSubscription_Close p s =
     at_subscription p (\<lambda>sub. (True, CommandEventSubscription_terminate None sub)) s"

section \<open>The bounds of a subscription\<close>

text \<open>The byte account is the sum of the charges, one per charged sequence.\<close>

definition books :: "CommandEventSubscription \<Rightarrow> bool" where
  "books s \<longleftrightarrow> distinct (map fst (sub_charged s)) \<and> (\<forall>c \<in> set (sub_charged s). 0 \<le> snd c) \<and>
     sub_bufferedBytes s = sum_list (map snd (sub_charged s)) \<and> sub_bufferedBytes s \<le> sub_maxBytes s"

text \<open>Every charge is for an event already delivered or still waiting.\<close>

definition covered :: "(int \<times> int) list \<Rightarrow> int \<Rightarrow> CommandEventRecord list \<Rightarrow> bool" where
  "covered cs last_seq evs \<longleftrightarrow> (\<forall>k \<in> fst ` set cs. k \<le> last_seq \<or> k \<in> cer_Sequence ` set evs)"

definition waiting_ok :: "int \<Rightarrow> CommandEventRecord list \<Rightarrow> bool" where
  "waiting_ok cap evs \<longleftrightarrow> distinct (map cer_Sequence evs) \<and> int (length evs) \<le> cap"

definition delivered_ok :: "int \<Rightarrow> int \<Rightarrow> CommandEventRecord list \<Rightarrow> bool" where
  "delivered_ok cap last_seq evs \<longleftrightarrow> int (length evs) \<le> cap \<and> sorted_wrt (<) (map cer_Sequence evs) \<and>
     (\<forall>e \<in> set evs. cer_Sequence e \<le> last_seq)"

definition sub_inv :: "CommandEventSubscription \<Rightarrow> bool" where
  "sub_inv s \<longleftrightarrow> books s \<and> covered (sub_charged s) (sub_lastSequence s) (sub_pending s) \<and>
     waiting_ok (sub_capacity s) (sub_pending s) \<and>
     delivered_ok (sub_capacity s) (sub_lastSequence s) (sub_events s) \<and>
     (sub_closed s \<longrightarrow> sub_pending s = []) \<and> length (sub_errors s) \<le> 1 \<and>
     (\<not> sub_closed s \<longrightarrow> sub_errors s = [])"

lemma covered_drop:
  "covered cs a evs \<Longrightarrow> a \<le> b \<Longrightarrow> k \<le> b \<Longrightarrow> covered cs b (filter (\<lambda>e. cer_Sequence e \<noteq> k) evs)"
  by (fastforce simp: covered_def)

lemma covered_charge:
  "covered cs a evs \<Longrightarrow> k \<le> a \<or> k \<in> cer_Sequence ` set evs \<Longrightarrow> covered ((k, v) # AList.delete k cs) a evs"
  by (auto simp: covered_def AList.delete_eq)

lemma covered_delete: "covered cs a evs \<Longrightarrow> covered (AList.delete k cs) a evs"
  by (auto simp: covered_def AList.delete_eq)

lemma covered_more: "covered cs a evs \<Longrightarrow> a \<le> b \<Longrightarrow> covered cs b (evs @ new)"
  by (fastforce simp: covered_def)

lemma waiting_filter: "waiting_ok cap evs \<Longrightarrow> waiting_ok cap (filter P evs)"
  by (auto simp: waiting_ok_def distinct_map_filter intro: order_trans [OF of_nat_mono [OF length_filter_le]])

lemma waiting_snoc:
  "waiting_ok cap evs \<Longrightarrow> cer_Sequence e \<notin> cer_Sequence ` set evs \<Longrightarrow> int (length evs) < cap \<Longrightarrow>
   waiting_ok cap (evs @ [e])"
  by (auto simp: waiting_ok_def)

lemma delivered_snoc:
  "delivered_ok cap a evs \<Longrightarrow> a < cer_Sequence e \<Longrightarrow> int (length evs) < cap \<Longrightarrow>
   delivered_ok cap (cer_Sequence e) (evs @ [e])"
  by (fastforce simp: delivered_ok_def sorted_wrt_append)

lemma sum_delete:
  "distinct (map fst xs) \<Longrightarrow> map_of xs k = Some (v :: int) \<Longrightarrow>
   sum_list (map snd (AList.delete k xs)) = sum_list (map snd xs) - v"
proof (induction xs)
  case (Cons x xs)
  then show ?case
  proof (cases "fst x = k")
    case True
    then have "AList.delete k xs = xs" using Cons.prems by (intro AList.delete_id) auto
    then show ?thesis using True Cons.prems by (cases x) (simp add: AList.delete_eq)
  next
    case False
    then show ?thesis using Cons by (cases x) (auto simp: AList.delete_eq)
  qed
qed simp

lemma sum_list_nonneg_charges: "\<forall>c \<in> set cs. 0 \<le> snd c \<Longrightarrow> 0 \<le> sum_list (map (snd :: int \<times> int \<Rightarrow> int) cs)"
  by (induction cs) auto

lemma release_charge_books: "books s \<Longrightarrow> books (release_charge k s)"
proof (cases "map_of (sub_charged s) k")
  case (Some v)
  moreover assume b: "books s"
  ultimately have "0 \<le> v" by (auto simp: books_def dest!: map_of_SomeD)
  then show ?thesis
    using b Some sum_delete [of "sub_charged s" k v]
    by (auto simp: books_def release_charge_def AList.delete_eq distinct_map_filter)
qed (simp add: release_charge_def)

lemma release_charge_fields [simp]:
  "sub_charged (release_charge k s) = AList.delete k (sub_charged s)"
  "sub_pending (release_charge k s) = sub_pending s" "sub_events (release_charge k s) = sub_events s"
  "sub_errors (release_charge k s) = sub_errors s" "sub_closed (release_charge k s) = sub_closed s"
  "sub_lastSequence (release_charge k s) = sub_lastSequence s"
  "sub_capacity (release_charge k s) = sub_capacity s" "sub_maxBytes (release_charge k s) = sub_maxBytes s"
  "sub_replaying (release_charge k s) = sub_replaying s" "sub_commandID (release_charge k s) = sub_commandID s"
  by (auto simp: release_charge_def AList.delete_eq map_of_eq_None_iff image_iff
      split: option.splits intro!: filter_True [symmetric])

lemma charges_left: "(k, v) \<in> set (AList.delete k' cs) \<longleftrightarrow> (k, v) \<in> set cs \<and> k \<noteq> k'"
  by (auto simp: AList.delete_eq)

lemma release_all:
  fixes s :: CommandEventSubscription
  defines "r \<equiv> \<lambda>evs. foldl (\<lambda>s event. release_charge (cer_Sequence event) s)"
  shows "books s \<Longrightarrow> books (r evs s evs)"
    and "(k, v) \<in> set (sub_charged (r evs s evs)) \<longleftrightarrow> (k, v) \<in> set (sub_charged s) \<and> k \<notin> cer_Sequence ` set evs"
    and "sub_pending (r evs s evs) = sub_pending s" "sub_events (r evs s evs) = sub_events s"
      "sub_errors (r evs s evs) = sub_errors s" "sub_closed (r evs s evs) = sub_closed s"
      "sub_lastSequence (r evs s evs) = sub_lastSequence s" "sub_capacity (r evs s evs) = sub_capacity s"
      "sub_maxBytes (r evs s evs) = sub_maxBytes s" "sub_replaying (r evs s evs) = sub_replaying s"
      "sub_commandID (r evs s evs) = sub_commandID s"
  unfolding r_def
  by (induction evs arbitrary: s) (auto simp: release_charge_books charges_left)

text \<open>Closing keeps what was delivered and drops what was waiting.\<close>

lemma terminate_fields [simp]:
  "sub_closed (terminateLocked err s)" "sub_events (terminateLocked err s) = sub_events s"
  "sub_lastSequence (terminateLocked err s) = sub_lastSequence s"
  "sub_capacity (terminateLocked err s) = sub_capacity s"
  "sub_maxBytes (terminateLocked err s) = sub_maxBytes s"
  "sub_replaying (terminateLocked err s) = sub_replaying s"
  "sub_commandID (terminateLocked err s) = sub_commandID s"
  by (simp_all add: terminateLocked_def Let_def release_all)

lemma terminate_inv:
  assumes "sub_inv s"
  shows "sub_inv (terminateLocked err s)"
proof (cases "sub_closed s")
  case False
  let ?t = "foldl (\<lambda>s event. release_charge (cer_Sequence event) s) (s\<lparr>sub_closed := True\<rparr>) (sub_pending s)"
  have "books (s\<lparr>sub_closed := True\<rparr>)" using assms by (simp add: sub_inv_def books_def)
  then have "books ?t" by (rule release_all)
  moreover have "covered (sub_charged ?t) (sub_lastSequence s) []"
    using assms by (fastforce simp: release_all sub_inv_def covered_def)
  ultimately show ?thesis
    using assms False
    by (auto simp: sub_inv_def terminateLocked_def Let_def release_all books_def waiting_ok_def
        split: option.splits)
qed (use assms in \<open>simp add: terminateLocked_def\<close>)

lemma drop_pending_inv:
  "sub_inv s \<Longrightarrow> sub_closed s \<or> k \<le> sub_lastSequence s \<Longrightarrow> sub_inv (drop_pending k s)"
  by (auto simp: sub_inv_def drop_pending_def books_def waiting_filter covered_drop [OF _ order_refl])

lemma charge_books:
  "books s \<Longrightarrow> canBufferLocked s e \<Longrightarrow> map_of (sub_charged s) (cer_Sequence e) = None \<Longrightarrow>
   books (chargeLocked e s)"
  by (auto simp: books_def chargeLocked_def canBufferLocked_def Let_def map_of_eq_None_iff AList.delete_id)

lemma charge_fields [simp]:
  "sub_pending (chargeLocked e s) = sub_pending s" "sub_events (chargeLocked e s) = sub_events s"
  "sub_errors (chargeLocked e s) = sub_errors s" "sub_closed (chargeLocked e s) = sub_closed s"
  "sub_lastSequence (chargeLocked e s) = sub_lastSequence s"
  "sub_capacity (chargeLocked e s) = sub_capacity s" "sub_maxBytes (chargeLocked e s) = sub_maxBytes s"
  "sub_replaying (chargeLocked e s) = sub_replaying s" "sub_commandID (chargeLocked e s) = sub_commandID s"
  "sub_charged (chargeLocked e s) =
    (cer_Sequence e, int (length (cer_Payload e))) # AList.delete (cer_Sequence e) (sub_charged s)"
  by (simp_all add: chargeLocked_def Let_def)

text \<open>The state after an event is sent.\<close>

definition sent :: "CommandEventRecord \<Rightarrow> CommandEventSubscription \<Rightarrow> CommandEventSubscription" where
  "sent e s = (let s1 = s\<lparr>sub_events := sub_events s @ [e]\<rparr>;
     s2 = (if map_of (sub_charged s) (cer_Sequence e) \<noteq> None then s1 else chargeLocked e s1) in
     (drop_pending (cer_Sequence e) s2)\<lparr>sub_lastSequence := cer_Sequence e\<rparr>)"

definition room_for :: "CommandEventRecord \<Rightarrow> CommandEventSubscription \<Rightarrow> bool" where
  "room_for e s \<longleftrightarrow> (map_of (sub_charged s) (cer_Sequence e) \<noteq> None \<or> canBufferLocked s e) \<and>
     int (length (sub_events s)) < sub_capacity s"

lemma enqueueLocked_eq:
  "enqueueLocked e s =
     (if sub_closed s \<or> cer_Sequence e \<le> sub_lastSequence s
      then (\<not> sub_closed s, drop_pending (cer_Sequence e) s)
      else if room_for e s then (True, sent e s)
      else (False, terminateLocked (Some ErrSubscriberOverflow) s))"
  by (auto simp: enqueueLocked_def sent_def room_for_def Let_def)

lemma sent_fields [simp]:
  "sub_events (sent e s) = sub_events s @ [e]" "sub_lastSequence (sent e s) = cer_Sequence e"
  "sub_pending (sent e s) = filter (\<lambda>x. cer_Sequence x \<noteq> cer_Sequence e) (sub_pending s)"
  "sub_errors (sent e s) = sub_errors s" "sub_closed (sent e s) = sub_closed s"
  "sub_capacity (sent e s) = sub_capacity s" "sub_maxBytes (sent e s) = sub_maxBytes s"
  "sub_replaying (sent e s) = sub_replaying s" "sub_commandID (sent e s) = sub_commandID s"
  by (simp_all add: sent_def Let_def drop_pending_def)

lemma sent_inv:
  assumes inv: "sub_inv s" and room: "room_for e s" and new: "sub_lastSequence s < cer_Sequence e"
  shows "sub_inv (sent e s)"
proof -
  let ?s1 = "s\<lparr>sub_events := sub_events s @ [e]\<rparr>"
  have s1: "books ?s1" "canBufferLocked ?s1 e = canBufferLocked s e"
    using inv by (simp_all add: sub_inv_def books_def canBufferLocked_def)
  have "books (sent e s)"
  proof (cases "map_of (sub_charged s) (cer_Sequence e)")
    case None
    then show ?thesis
      using charge_books [OF s1(1), of e] s1(2) room
      by (simp add: sent_def Let_def drop_pending_def books_def room_for_def)
  next
    case (Some v)
    then show ?thesis using s1(1) by (simp add: sent_def Let_def drop_pending_def books_def)
  qed
  moreover have "covered (sub_charged (sent e s)) (cer_Sequence e) (sub_pending (sent e s))"
    using inv new covered_drop [of "sub_charged s" "sub_lastSequence s" "sub_pending s" "cer_Sequence e" "cer_Sequence e"]
      covered_charge
    by (auto simp: sent_def Let_def drop_pending_def sub_inv_def)
  ultimately show ?thesis
    using inv new room delivered_snoc waiting_filter
    by (auto simp: sub_inv_def room_for_def)
qed

lemma enqueue_inv: "sub_inv s \<Longrightarrow> sub_inv (snd (enqueueLocked e s))"
  using drop_pending_inv [of s "cer_Sequence e"] terminate_inv [of s] sent_inv [of s e]
  by (auto simp: enqueueLocked_eq not_le)

lemma enqueue_all_inv: "sub_inv s \<Longrightarrow> sub_inv (snd (enqueue_all evs s))"
proof (induction evs arbitrary: s)
  case (Cons e evs)
  then show ?case
    using enqueue_inv [OF Cons.prems, of e] by (cases "enqueueLocked e s") (auto split: bool.splits)
qed simp

end
