(* ===== verification/Subscriber_Stream.thy ===== *)
theory Subscriber_Stream
  imports Store_Subscribers
begin

text \<open>
  The contract of a subscription: whatever is published, received and acknowledged around the
  replay, its buffers stay within their bounds, and the consumer sees the durable events after its
  cursor once each, in order and without a gap, up to the point where it is closed.
\<close>

section \<open>Runs\<close>

datatype sub_op = OpPublish CommandEventRecord | OpReceive | OpAcknowledge CommandEventRecord

fun sub_step ::
  "CommandEventRecord list \<times> CommandEventSubscription \<Rightarrow> sub_op \<Rightarrow>
   CommandEventRecord list \<times> CommandEventSubscription" where
  "sub_step (out, s) (OpPublish e) = (out, snd (publish e s))"
| "sub_step (out, s) OpReceive =
     (case receive s of (None, s') \<Rightarrow> (out, s') | (Some e, s') \<Rightarrow> (out @ [e], s'))"
| "sub_step (out, s) (OpAcknowledge e) = (out, Acknowledge e s)"

fun published :: "sub_op list \<Rightarrow> CommandEventRecord list" where
  "published [] = []"
| "published (OpPublish e # ops) = e # published ops"
| "published (_ # ops) = published ops"

text \<open>The replay of a registered subscription, with other goroutines publishing, receiving and
  acknowledging before it, between the replay and the handoff, and afterwards.\<close>

definition handoff_run ::
  "CommandEventSubscription \<Rightarrow> sub_op list \<Rightarrow> CommandEventRecord list \<Rightarrow> sub_op list \<Rightarrow> sub_op list \<Rightarrow>
   CommandEventRecord list \<times> CommandEventSubscription" where
  "handoff_run s before events between after =
     (let (out1, s1) = foldl sub_step ([], s) before;
          (out2, s2) = foldl sub_step (out1, snd (CommandEventSubscription_replay events s1)) between in
      foldl sub_step (out2, snd (finishReplay s2)) after)"

section \<open>Bounds\<close>

lemma publish_inv: "sub_inv s \<Longrightarrow> sub_inv (snd (publish e s))"
proof (cases "sub_replaying s \<and> \<not> sub_closed s \<and> sub_lastSequence s < cer_Sequence e \<and>
    cer_Sequence e \<notin> cer_Sequence ` set (sub_pending s) \<and>
    int (length (sub_pending s)) < sub_capacity s \<and> canBufferLocked s e")
  case True
  assume inv: "sub_inv s"
  let ?s1 = "s\<lparr>sub_pending := sub_pending s @ [e]\<rparr>"
  have fresh: "map_of (sub_charged s) (cer_Sequence e) = None"
    using inv True by (auto simp: sub_inv_def covered_def map_of_eq_None_iff)
  have "books ?s1" "canBufferLocked ?s1 e"
    using inv True by (simp_all add: sub_inv_def books_def canBufferLocked_def)
  then have "books (chargeLocked e ?s1)" using charge_books [of ?s1 e] fresh by simp
  moreover have "covered (sub_charged (chargeLocked e ?s1)) (sub_lastSequence s) (sub_pending s @ [e])"
    using inv covered_charge [OF covered_more [OF _ order_refl], of "sub_charged s" "sub_lastSequence s"
        "sub_pending s" "cer_Sequence e" "[e]"]
    by (simp add: sub_inv_def)
  ultimately have "sub_inv (chargeLocked e ?s1)"
    using inv True waiting_snoc by (simp add: sub_inv_def)
  then show ?thesis using True by (simp add: publish_def)
next
  case False
  assume inv: "sub_inv s"
  show ?thesis
    using inv False terminate_inv [OF inv] enqueue_inv [OF inv, of e]
    by (auto simp: publish_def split: prod.splits)
qed

lemma replay_inv: "sub_inv s \<Longrightarrow> sub_inv (snd (CommandEventSubscription_replay evs s))"
  by (simp add: CommandEventSubscription_replay_def enqueue_all_inv)

lemma replaying_inv: "sub_inv (s\<lparr>sub_replaying := b\<rparr>) \<longleftrightarrow> sub_inv s"
  by (simp add: sub_inv_def books_def)

lemma no_pending_inv: "sub_inv s \<Longrightarrow> \<forall>e \<in> set (sub_pending s). cer_Sequence e \<le> sub_lastSequence s \<Longrightarrow>
  sub_inv (s\<lparr>sub_pending := []\<rparr>)"
  by (fastforce simp: sub_inv_def books_def covered_def waiting_ok_def)

lemma acknowledge_inv: "sub_inv s \<Longrightarrow> sub_inv (Acknowledge e s)"
  by (simp add: Acknowledge_def sub_inv_def release_charge_books covered_delete)

lemma receive_inv: "sub_inv s \<Longrightarrow> sub_inv (snd (receive s))"
  by (auto simp: receive_def sub_inv_def books_def delivered_ok_def split: list.splits)

lemma enqueue_all_last:
  "\<not> sub_closed (snd (enqueue_all evs s)) \<Longrightarrow>
   sub_lastSequence s \<le> sub_lastSequence (snd (enqueue_all evs s)) \<and>
   (\<forall>e \<in> set evs. cer_Sequence e \<le> sub_lastSequence (snd (enqueue_all evs s))) \<and>
   set (sub_pending (snd (enqueue_all evs s))) \<subseteq> set (sub_pending s)"
proof (induction evs arbitrary: s)
  case (Cons e evs)
  obtain ok t where e: "enqueueLocked e s = (ok, t)" by (cases "enqueueLocked e s")
  show ?case
  proof (cases ok)
    case True
    then have "sub_lastSequence s \<le> sub_lastSequence t" "cer_Sequence e \<le> sub_lastSequence t"
      "set (sub_pending t) \<subseteq> set (sub_pending s)"
      using e by (auto simp: enqueueLocked_eq drop_pending_def split: if_splits)
    then show ?thesis using Cons.IH [of t] Cons.prems e True by fastforce
  next
    case False
    then have "sub_closed t" using e by (auto simp: enqueueLocked_eq drop_pending_def split: if_splits)
    then show ?thesis using Cons.prems e False by simp
  qed
qed simp

lemma finishReplay_inv:
  assumes "sub_inv s"
  shows "sub_inv (snd (finishReplay s))"
proof (cases "sub_closed s")
  case False
  let ?t = "snd (enqueue_all (sort_key cer_Sequence (sub_pending s)) (s\<lparr>sub_replaying := False\<rparr>))"
  have t: "sub_inv ?t" using assms by (intro enqueue_all_inv) (simp add: replaying_inv)
  moreover have "sub_inv (?t\<lparr>sub_pending := []\<rparr>)" if "\<not> sub_closed ?t"
    using enqueue_all_last [OF that] t by (intro no_pending_inv) auto
  ultimately show ?thesis using False by (simp add: finishReplay_def Let_def)
qed (use assms in \<open>simp add: finishReplay_def\<close>)

lemma sub_step_inv: "sub_inv (snd st) \<Longrightarrow> sub_inv (snd (sub_step st op))"
  by (cases st; cases op)
    (auto simp: publish_inv acknowledge_inv split: prod.splits option.splits dest: receive_inv)

interpretation subscription_system: step_system sub_step "\<lambda>st. sub_inv (snd st)" "\<lambda>st t. prefix (fst st) (fst t)"
proof
  fix st op
  show "sub_inv (snd st) \<Longrightarrow> sub_inv (snd (sub_step st op))" by (rule sub_step_inv)
  show "prefix (fst st) (fst (sub_step st op))"
    by (cases st; cases op) (auto split: prod.splits option.splits)
qed (auto intro: prefix_order.order_trans)

text \<open>The invariant with the limits the subscription was created with.\<close>

definition bounded_by :: "int \<Rightarrow> int \<Rightarrow> CommandEventSubscription \<Rightarrow> bool" where
  "bounded_by cap maxBytes s \<longleftrightarrow> sub_inv s \<and> sub_capacity s = cap \<and> sub_maxBytes s = maxBytes"

lemma enqueue_limits:
  "sub_capacity (snd (enqueueLocked e s)) = sub_capacity s"
  "sub_maxBytes (snd (enqueueLocked e s)) = sub_maxBytes s"
  by (simp_all add: enqueueLocked_eq drop_pending_def)

lemma enqueue_all_limits [simp]:
  "sub_capacity (snd (enqueue_all evs s)) = sub_capacity s"
  "sub_maxBytes (snd (enqueue_all evs s)) = sub_maxBytes s"
proof (induction evs arbitrary: s)
  case (Cons e evs)
  { case 1 then show ?case using Cons enqueue_limits [of e s] by (cases "enqueueLocked e s") (auto split: bool.splits) }
  { case 2 then show ?case using Cons enqueue_limits [of e s] by (cases "enqueueLocked e s") (auto split: bool.splits) }
qed simp_all

lemma publish_limits [simp]:
  "sub_capacity (snd (publish e s)) = sub_capacity s" "sub_maxBytes (snd (publish e s)) = sub_maxBytes s"
  using enqueue_limits [of e s] by (auto simp: publish_def split: prod.splits)

lemma bounded_step: "bounded_by cap mb (snd st) \<Longrightarrow> bounded_by cap mb (snd (sub_step st op))"
  using sub_step_inv [of st op]
  by (cases st; cases op)
    (auto simp: bounded_by_def Acknowledge_def receive_def split: prod.splits option.splits list.splits)

lemma bounded_run: "bounded_by cap mb s \<Longrightarrow> bounded_by cap mb (snd (foldl sub_step (out, s) ops))"
  using bounded_step by (induction ops rule: rev_induct) auto

lemma bounded_replay: "bounded_by cap mb s \<Longrightarrow> bounded_by cap mb (snd (CommandEventSubscription_replay evs s))"
  using replay_inv [of s evs] by (auto simp: bounded_by_def CommandEventSubscription_replay_def)

lemma bounded_finish: "bounded_by cap mb s \<Longrightarrow> bounded_by cap mb (snd (finishReplay s))"
  using finishReplay_inv [of s] by (auto simp: bounded_by_def finishReplay_def Let_def)

section \<open>The stream\<close>

text \<open>\<open>E i\<close> is the durable event with sequence \<open>i\<close>; the consumer started after
  sequence \<open>n\<close>.\<close>

definition seen :: "(int \<Rightarrow> CommandEventRecord) \<Rightarrow> int \<Rightarrow> CommandEventRecord list \<Rightarrow> CommandEventSubscription \<Rightarrow> bool" where
  "seen E n out s \<longleftrightarrow> n \<le> sub_lastSequence s \<and> out @ sub_events s = map E [n + 1..sub_lastSequence s]"

text \<open>Before the handoff: the events \<open>k + 1, ..., j\<close> have been published, and those not yet
  replayed wait in order.\<close>

definition replaying_at :: "(int \<Rightarrow> CommandEventRecord) \<Rightarrow> int \<Rightarrow> int \<Rightarrow> CommandEventSubscription \<Rightarrow> bool" where
  "replaying_at E k j s \<longleftrightarrow> sub_closed s \<or>
     sub_replaying s \<and> sub_pending s = map E [max k (sub_lastSequence s) + 1..j]"

text \<open>After the handoff: everything published or replayed has been sent.\<close>

definition live_at :: "int \<Rightarrow> int \<Rightarrow> CommandEventSubscription \<Rightarrow> bool" where
  "live_at m j s \<longleftrightarrow> sub_closed s \<or> \<not> sub_replaying s \<and> sub_lastSequence s = max m j"

lemma map_upto_snoc: "a \<le> b + 1 \<Longrightarrow> map E [a..b + 1] = map E [a..b] @ [E (b + 1)]" for a b :: int
  by (simp add: upto_rec2)

lemma seen_sent: "seen E n out s \<Longrightarrow> cer_Sequence (E (sub_lastSequence s + 1)) = sub_lastSequence s + 1 \<Longrightarrow>
  seen E n out (sent (E (sub_lastSequence s + 1)) s)"
  unfolding seen_def by (simp add: map_upto_snoc flip: append_assoc)

lemma seen_closed: "seen E n out (terminateLocked err s) \<longleftrightarrow> seen E n out s"
  by (simp add: seen_def)

lemma receive_keeps:
  assumes "receive s = (r, s')"
  shows "sub_closed s' = sub_closed s" "sub_replaying s' = sub_replaying s" "sub_pending s' = sub_pending s"
    "sub_lastSequence s' = sub_lastSequence s" "(case r of None \<Rightarrow> [] | Some e \<Rightarrow> [e]) @ sub_events s' = sub_events s"
  using assms by (auto simp: receive_def split: list.splits)

lemma consumer_keeps:
  assumes "op = OpReceive \<or> op = OpAcknowledge e" "sub_step (out, s) op = (out', s')"
  shows "seen E n out s \<Longrightarrow> seen E n out' s'" "replaying_at E k j s \<Longrightarrow> replaying_at E k j s'"
    "live_at m j s \<Longrightarrow> live_at m j s'"
  using assms receive_keeps [of s]
  by (auto simp: seen_def replaying_at_def live_at_def Acknowledge_def split: prod.splits option.splits)

lemma consumer_last:
  assumes "op = OpReceive \<or> op = OpAcknowledge e" "sub_step (out, s) op = (out', s')"
  shows "sub_closed s' = sub_closed s" "sub_lastSequence s' = sub_lastSequence s"
  using assms receive_keeps [of s] by (auto simp: Acknowledge_def split: prod.splits option.splits)

lemma publish_replaying:
  assumes E: "\<And>i. cer_Sequence (E i) = i" and seen: "seen E n out s" and at: "replaying_at E k j s" and kj: "k \<le> j"
  shows "seen E n out (snd (publish (E (j + 1)) s))" "replaying_at E k (j + 1) (snd (publish (E (j + 1)) s))"
proof -
  have pend: "j + 1 \<notin> cer_Sequence ` set (sub_pending s)" if "\<not> sub_closed s"
    using that at E by (auto simp: replaying_at_def)
  have tail: "map E [max k l + 1..j + 1] = map E [max k l + 1..j] @ [E (j + 1)]" if "l < j + 1" for l
    using that kj by (intro map_upto_snoc) simp
  show "seen E n out (snd (publish (E (j + 1)) s))"
    using seen at E by (auto simp: publish_def seen_closed replaying_at_def) (simp_all add: seen_def)
  show "replaying_at E k (j + 1) (snd (publish (E (j + 1)) s))"
    using at E pend tail by (auto simp: publish_def replaying_at_def)
qed

lemma publish_live:
  assumes E: "\<And>i. cer_Sequence (E i) = i" and seen: "seen E n out s" and at: "live_at m j s"
  shows "seen E n out (snd (publish (E (j + 1)) s))" "live_at m (j + 1) (snd (publish (E (j + 1)) s))"
proof -
  have "seen E n out (snd (publish (E (j + 1)) s)) \<and> live_at m (j + 1) (snd (publish (E (j + 1)) s))"
  proof (cases "sub_closed s \<or> j + 1 \<le> sub_lastSequence s")
    case True
    then show ?thesis using seen at E by (auto simp: publish_def live_at_def)
  next
    case False
    then have last: "sub_lastSequence s = j" "m \<le> j" using at by (auto simp: live_at_def)
    then show ?thesis
      using False seen at E seen_sent [of E n out s] by (auto simp: publish_def live_at_def enqueueLocked_eq seen_closed)
  qed
  then show "seen E n out (snd (publish (E (j + 1)) s))" "live_at m (j + 1) (snd (publish (E (j + 1)) s))"
    by auto
qed

lemma publish_replaying_last:
  "sub_closed s \<or> sub_replaying s \<Longrightarrow> sub_lastSequence (snd (publish e s)) = sub_lastSequence s"
  by (auto simp: publish_def)

text \<open>A property of the last published sequence that every operation carries on holds at the end of
  a run.\<close>

lemma run_published:
  assumes pub: "\<And>j out s. k \<le> j \<Longrightarrow> I j out s \<Longrightarrow> I (j + 1) out (snd (publish (E (j + 1)) s))"
    and consumer: "\<And>j out s op e out' s'. op = OpReceive \<or> op = OpAcknowledge e \<Longrightarrow> I j out s \<Longrightarrow>
      sub_step (out, s) op = (out', s') \<Longrightarrow> I j out' s'"
  shows "published ops = map E [j + 1..j'] \<Longrightarrow> k \<le> j \<Longrightarrow> j \<le> j' \<Longrightarrow> I j out s \<Longrightarrow>
    foldl sub_step (out, s) ops = (out', s') \<Longrightarrow> I j' out' s'"
proof (induction ops arbitrary: j out s)
  case Nil
  then have "j' = j" by (auto simp: upto.simps split: if_splits)
  then show ?case using Nil by simp
next
  case (Cons op ops)
  show ?case
  proof (cases op)
    case (OpPublish e)
    with Cons.prems(1,3) have e: "e = E (j + 1)" "published ops = map E [(j + 1) + 1..j']" "j + 1 \<le> j'"
      by (auto simp: upto.simps [of "j + 1"] split: if_splits)
    have "I (j + 1) out (snd (publish (E (j + 1)) s))" using pub Cons.prems(2,4) by blast
    then show ?thesis using Cons.IH [of "j + 1"] Cons.prems(2,5) e OpPublish by simp
  next
    case OpReceive
    obtain out1 s1 where st: "sub_step (out, s) op = (out1, s1)" by (cases "sub_step (out, s) op")
    then have "I j out1 s1" using consumer OpReceive Cons.prems(4) by blast
    then show ?thesis using Cons.IH [of j out1 s1] Cons.prems st OpReceive by (simp del: sub_step.simps)
  next
    case (OpAcknowledge e)
    obtain out1 s1 where st: "sub_step (out, s) op = (out1, s1)" by (cases "sub_step (out, s) op")
    then have "I j out1 s1" using consumer OpAcknowledge Cons.prems(4) by blast
    then show ?thesis using Cons.IH [of j out1 s1] Cons.prems st OpAcknowledge by (simp del: sub_step.simps)
  qed
qed

lemma filter_upto:
  fixes E :: "int \<Rightarrow> CommandEventRecord"
  assumes E: "\<And>i. cer_Sequence (E i) = i" and "l \<le> m"
  shows "filter (\<lambda>x. cer_Sequence x \<notin> {l + 1..m}) (map E [max k l + 1..j]) = map E [max k m + 1..j]"
proof -
  have "filter (\<lambda>i. i \<notin> {l + 1..m}) [max k l + 1..j] = [max k m + 1..j]"
    by (rule sorted_distinct_set_unique) (use assms(2) in \<open>auto simp: sorted_wrt_filter\<close>)
  then show ?thesis using E by (simp add: filter_map comp_def)
qed

text \<open>Sending the events that follow the last one sent.\<close>

lemma enqueue_run:
  assumes E: "\<And>i. cer_Sequence (E i) = i"
  shows "seen E n out s \<Longrightarrow> sub_lastSequence s \<le> m \<Longrightarrow>
    t = snd (enqueue_all (map E [sub_lastSequence s + 1..m]) s) \<Longrightarrow>
    seen E n out t \<and> (sub_closed t \<or> sub_lastSequence t = m \<and> sub_replaying t = sub_replaying s \<and>
      \<not> sub_closed s \<and>
      sub_pending t = filter (\<lambda>e. cer_Sequence e \<notin> {sub_lastSequence s + 1..m}) (sub_pending s))"
proof (induction "nat (m - sub_lastSequence s)" arbitrary: s t)
  case 0
  then show ?case by simp
next
  case (Suc d)
  let ?e = "E (sub_lastSequence s + 1)"
  have evs: "map E [sub_lastSequence s + 1..m] = ?e # map E [sub_lastSequence s + 1 + 1..m]"
    using Suc.hyps(2) by (simp add: upto.simps [of "sub_lastSequence s + 1"])
  show ?case
  proof (cases "sub_closed s \<or> \<not> room_for ?e s")
    case True
    then have "t = (if sub_closed s then drop_pending (sub_lastSequence s + 1) s
        else terminateLocked (Some ErrSubscriberOverflow) s)"
      using Suc.prems(3) E unfolding evs by (auto simp: enqueueLocked_eq)
    then show ?thesis using Suc.prems by (auto simp: seen_def drop_pending_def)
  next
    case False
    let ?u = "sent ?e s"
    have u: "seen E n out ?u" "sub_lastSequence ?u = sub_lastSequence s + 1"
      using seen_sent [OF Suc.prems(1)] E by auto
    have "t = snd (enqueue_all (map E [sub_lastSequence ?u + 1..m]) ?u)"
      using Suc.prems(3) False E unfolding evs by (simp add: enqueueLocked_eq)
    then have "seen E n out t \<and> (sub_closed t \<or> sub_lastSequence t = m \<and> sub_replaying t = sub_replaying ?u \<and>
      \<not> sub_closed ?u \<and>
      sub_pending t = filter (\<lambda>e. cer_Sequence e \<notin> {sub_lastSequence ?u + 1..m}) (sub_pending ?u))"
      using Suc.hyps(2) u by (intro Suc.hyps(1)) auto
    moreover have "filter (\<lambda>e. cer_Sequence e \<notin> {sub_lastSequence ?u + 1..m}) (sub_pending ?u) =
        filter (\<lambda>e. cer_Sequence e \<notin> {sub_lastSequence s + 1..m}) (sub_pending s)"
      using Suc.hyps(2) by (auto simp: E intro!: filter_cong)
    ultimately show ?thesis by simp
  qed
qed

lemma replay_seen:
  assumes E: "\<And>i. cer_Sequence (E i) = i" and "seen E n out s" "replaying_at E k j s" "sub_lastSequence s \<le> m"
    and t: "t = snd (enqueue_all (map E [sub_lastSequence s + 1..m]) s)"
  shows "seen E n out t \<and> replaying_at E k j t \<and> (sub_closed t \<or> sub_lastSequence t = m)"
  using enqueue_run [OF E assms(2,4) t] assms(3,4) filter_upto [OF E assms(4), of k j]
  by (auto simp: replaying_at_def)

lemma sort_key_upto:
  fixes E :: "int \<Rightarrow> CommandEventRecord"
  assumes "\<And>i. cer_Sequence (E i) = i"
  shows "sort_key cer_Sequence (map E [a..b]) = map E [a..b]"
proof (rule sort_key_id_if_sorted)
  have "map cer_Sequence (map E [a..b]) = [a..b]" using assms by (simp add: comp_def)
  then show "sorted (map cer_Sequence (map E [a..b]))" by (simp only: sorted_upto)
qed

lemma finishReplay_seen:
  assumes E: "\<And>i. cer_Sequence (E i) = i" and seen: "seen E n out s" and at: "replaying_at E k j s"
    and last: "sub_closed s \<or> sub_lastSequence s = m" and k: "k \<le> m"
  shows "seen E n out (snd (finishReplay s)) \<and> live_at m j (snd (finishReplay s))"
proof (cases "sub_closed s")
  case True
  then show ?thesis using seen by (simp add: finishReplay_def live_at_def)
next
  case False
  let ?s = "s\<lparr>sub_replaying := False\<rparr>"
  let ?t = "snd (enqueue_all (map E [m + 1..j]) ?s)"
  have pend: "sort_key cer_Sequence (sub_pending s) = map E [m + 1..j]"
    using at last k False sort_key_upto [OF E] by (simp add: replaying_at_def max_def)
  have fin: "snd (finishReplay s) = (if sub_closed ?t then ?t else ?t\<lparr>sub_pending := []\<rparr>)"
    using False by (simp add: finishReplay_def Let_def pend)
  have sj: "seen E n out ?s" using seen by (simp add: seen_def)
  have "seen E n out ?t \<and> (sub_closed ?t \<or> \<not> sub_replaying ?t \<and> sub_lastSequence ?t = max m j)"
  proof (cases "m \<le> j")
    case True
    then show ?thesis using enqueue_run [OF E sj, of j] last False by (auto simp: max_def)
  next
    case less: False
    then show ?thesis using last sj False by (simp add: max_def)
  qed
  then show ?thesis by (auto simp: fin live_at_def seen_def)
qed

lemma run_replaying:
  assumes E: "\<And>i. cer_Sequence (E i) = i" and pub: "published ops = map E [j + 1..j']" "k \<le> j" "j \<le> j'"
    and start: "seen E n out s" "replaying_at E k j s" "sub_closed s \<or> sub_lastSequence s = l"
    and run: "foldl sub_step (out, s) ops = (out', s')"
  shows "seen E n out' s' \<and> replaying_at E k j' s' \<and> (sub_closed s' \<or> sub_lastSequence s' = l)"
proof (rule run_published [where k = k and E = E and
      I = "\<lambda>j out s. seen E n out s \<and> replaying_at E k j s \<and> (sub_closed s \<or> sub_lastSequence s = l)"])
  fix j out s
  assume kj: "k \<le> j" and I: "seen E n out s \<and> replaying_at E k j s \<and> (sub_closed s \<or> sub_lastSequence s = l)"
  let ?t = "snd (publish (E (j + 1)) s)"
  have "sub_closed ?t \<or> sub_lastSequence ?t = l"
  proof (cases "sub_closed s")
    case True
    then show ?thesis by (simp add: publish_def)
  next
    case False
    then show ?thesis using I publish_replaying_last [of s "E (j + 1)"] by (auto simp: replaying_at_def)
  qed
  then show "seen E n out ?t \<and> replaying_at E k (j + 1) ?t \<and> (sub_closed ?t \<or> sub_lastSequence ?t = l)"
    using publish_replaying [OF E _ _ kj] I by blast
next
  fix j out s op e out' s'
  assume "op = OpReceive \<or> op = OpAcknowledge e" "sub_step (out, s) op = (out', s')"
    "seen E n out s \<and> replaying_at E k j s \<and> (sub_closed s \<or> sub_lastSequence s = l)"
  then show "seen E n out' s' \<and> replaying_at E k j s' \<and> (sub_closed s' \<or> sub_lastSequence s' = l)"
    using consumer_keeps [of op e out s out' s'] consumer_last [of op e out s out' s'] by auto
qed (use assms in auto)

lemma run_live:
  assumes E: "\<And>i. cer_Sequence (E i) = i" and pub: "published ops = map E [j + 1..j']" "j \<le> j'"
    and start: "seen E n out s" "live_at m j s" and run: "foldl sub_step (out, s) ops = (out', s')"
  shows "seen E n out' s' \<and> live_at m j' s'"
proof (rule run_published [where k = j and E = E and I = "\<lambda>j out s. seen E n out s \<and> live_at m j s"])
  fix j out s op e out' s'
  assume "op = OpReceive \<or> op = OpAcknowledge e" "sub_step (out, s) op = (out', s')"
    "seen E n out s \<and> live_at m j s"
  then show "seen E n out' s' \<and> live_at m j s'" using consumer_keeps [of op e out s out' s'] by blast
qed (use assms publish_live [OF E] in auto)

text \<open>C31. A subscription registered after sequence \<open>n\<close> delivers the durable events
  \<open>n + 1, n + 2, ...\<close> in order, each once and without a gap, whatever is published, received
  and acknowledged while its replay is read, between the replay and the handoff, and later; the
  sequence it reports is the last one delivered. While it is not closed it has delivered everything
  replayed or published. The publications are the commits from \<open>k + 1\<close> on, and the replay,
  read after registering, covers at least the commits before them.\<close>

theorem subscription_stream_exact:
  fixes E :: "int \<Rightarrow> CommandEventRecord"
  assumes E: "\<And>i. cer_Sequence (E i) = i"
    and pub: "published before = map E [k + 1..j1]" "published between = map E [j1 + 1..j2]"
      "published after = map E [j2 + 1..j3]" "k \<le> j1" "j1 \<le> j2" "j2 \<le> j3"
    and replay: "events = map E [n + 1..m]" "n \<le> m" "k \<le> m"
    and run: "handoff_run (new_subscription cid n cap maxBytes) before events between after = (out, s)"
  shows "out @ sub_events s = map E [n + 1..LastSequence s] \<and>
    (\<not> sub_closed s \<longrightarrow> LastSequence s = max m j3)"
proof -
  let ?s0 = "new_subscription cid n cap maxBytes"
  obtain out1 s1 where r1: "foldl sub_step ([], ?s0) before = (out1, s1)" by fastforce
  define s2 where "s2 = snd (CommandEventSubscription_replay events s1)"
  obtain out2 s3 where r2: "foldl sub_step (out1, s2) between = (out2, s3)" by fastforce
  have r3: "foldl sub_step (out2, snd (finishReplay s3)) after = (out, s)"
    using run by (simp add: handoff_run_def r1 s2_def [symmetric] r2)
  have "seen E n [] ?s0" "replaying_at E k k ?s0" "sub_lastSequence ?s0 = n"
    by (simp_all add: new_subscription_def seen_def replaying_at_def)
  then have 1: "seen E n out1 s1" "replaying_at E k j1 s1" "sub_closed s1 \<or> sub_lastSequence s1 = n"
    using run_replaying [OF E pub(1) order_refl pub(4) _ _ _ r1] by auto
  have 2: "seen E n out1 s2" "replaying_at E k j1 s2" "sub_closed s2 \<or> sub_lastSequence s2 = m"
    using replay_seen [OF E 1(1,2), of m] 1 replay
    by (auto simp: s2_def CommandEventSubscription_replay_def)
  have 3: "seen E n out2 s3" "replaying_at E k j2 s3" "sub_closed s3 \<or> sub_lastSequence s3 = m"
    using run_replaying [OF E pub(2,4,5) 2 r2] by auto
  have "seen E n out2 (snd (finishReplay s3))" "live_at m j2 (snd (finishReplay s3))"
    using finishReplay_seen [OF E 3 replay(3)] by auto
  then have "seen E n out s" "live_at m j3 s"
    using run_live [OF E pub(3,6) _ _ r3] by auto
  then show ?thesis by (auto simp: seen_def live_at_def LastSequence_def)
qed

text \<open>Whatever is published, received and acknowledged, the payload bytes a subscription holds
  are the sum of its charges and never pass its byte limit, and neither its channel nor its waiting
  list holds more events than its capacity.\<close>

theorem subscription_bounded:
  assumes "0 < cap" "0 < maxBytes"
    and "handoff_run (new_subscription cid n cap maxBytes) before events between after = (out, s)"
  shows "0 \<le> BufferedPayloadBytes s \<and> BufferedPayloadBytes s \<le> maxBytes \<and>
    BufferedPayloadBytes s = sum_list (map snd (sub_charged s)) \<and>
    int (length (sub_events s)) \<le> cap \<and> int (length (sub_pending s)) \<le> cap"
proof -
  let ?s0 = "new_subscription cid n cap maxBytes"
  obtain out1 s1 where r1: "foldl sub_step ([], ?s0) before = (out1, s1)" by fastforce
  define s2 where "s2 = snd (CommandEventSubscription_replay events s1)"
  obtain out2 s3 where r2: "foldl sub_step (out1, s2) between = (out2, s3)" by fastforce
  have r3: "foldl sub_step (out2, snd (finishReplay s3)) after = (out, s)"
    using assms(3) by (simp add: handoff_run_def r1 s2_def [symmetric] r2)
  have "bounded_by cap maxBytes ?s0"
    using assms(1,2) by (simp add: bounded_by_def sub_inv_def books_def covered_def waiting_ok_def
        delivered_ok_def new_subscription_def)
  then have "bounded_by cap maxBytes s1" using bounded_run [where out = "[]" and ops = before] r1 by force
  then have "bounded_by cap maxBytes s2" unfolding s2_def by (rule bounded_replay)
  then have "bounded_by cap maxBytes s3" using bounded_run [where out = out1 and ops = between] r2 by force
  then have "bounded_by cap maxBytes (snd (finishReplay s3))" by (rule bounded_finish)
  then have "bounded_by cap maxBytes s" using bounded_run [where out = out2 and ops = after] r3 by force
  then show ?thesis
    using sum_list_nonneg_charges [of "sub_charged s"]
    by (auto simp: bounded_by_def sub_inv_def books_def waiting_ok_def delivered_ok_def BufferedPayloadBytes_def)
qed

definition sample_event :: "int \<Rightarrow> CommandEventRecord" where
  "sample_event i = \<lparr>cer_CommandID = ''c1'', cer_Sequence = i, cer_Type = ''stdout'',
     cer_Payload = ''ab'', cer_ByteCount = 2, cer_OccurredAt = 1\<rparr>"

text \<open>Two events arrive while the replay, which sees only the first of them, is read; one arrives
  before the handoff and one after it.\<close>

abbreviation sample_handoff :: "CommandEventRecord list \<times> CommandEventSubscription" where
  "sample_handoff \<equiv> handoff_run (new_subscription ''c1'' 0 4 100)
     [OpPublish (sample_event 1), OpPublish (sample_event 2)] [sample_event 1]
     [OpPublish (sample_event 3)] [OpReceive, OpPublish (sample_event 4)]"

lemmas run_defs = handoff_run_def new_subscription_def publish_def sample_event_def chargeLocked_def
  canBufferLocked_def CommandEventSubscription_replay_def enqueueLocked_def drop_pending_def
  finishReplay_def receive_def Let_def

lemma sample_handoff_open: "\<not> sub_closed (snd sample_handoff)"
  by (simp add: run_defs)

lemma sample_sequences: "cer_Sequence (sample_event i) = i"
  by (simp add: sample_event_def)

theorem subscription_stream_exact_witness:
  "fst sample_handoff @ sub_events (snd sample_handoff) = map sample_event [1, 2, 3, 4]"
proof -
  obtain out s where run: "sample_handoff = (out, s)" by (cases sample_handoff)
  have "out @ sub_events s = map sample_event [0 + 1..LastSequence s] \<and>
      (\<not> sub_closed s \<longrightarrow> LastSequence s = max 1 4)"
    by (rule subscription_stream_exact [where E = sample_event and k = 0 and ?j1.0 = 2 and ?j2.0 = 3,
        OF sample_sequences _ _ _ _ _ _ _ _ _ run]) (simp_all add: upto.simps)
  then show ?thesis using sample_handoff_open by (simp add: run upto.simps)
qed

theorem subscription_bounded_witness:
  "0 \<le> BufferedPayloadBytes (snd sample_handoff) \<and> BufferedPayloadBytes (snd sample_handoff) \<le> 100"
  using subscription_bounded [of 4 100 "''c1''" 0] by (cases sample_handoff) force

end
