(* ===== verification/Store_Commands.thy ===== *)
theory Store_Commands
  imports Store_Sessions Store_Subscribers
begin

text \<open>
  Authoritative commands and their event streams (internal/store/commands.go): acceptance with the
  next ordinal of the session, output events, state transitions with their events, completion with
  the session and slot it frees, replay and the reads; the scheduler's session transition
  (internal/store/scheduler.go) and the registration of subscribers (internal/store/subscribers.go)
  are here too because they share these statements. A transaction returns the event it committed,
  which is published after the commit.
\<close>

section \<open>Data\<close>

definition submitCommandOperation :: string where "submitCommandOperation = ''submit_command''"

definition outputUnavailableCaptureBoundaryUnconfirmed :: string where
  "outputUnavailableCaptureBoundaryUnconfirmed = ''capture_boundary_unconfirmed''"

record CommandAcceptance =
  ca_CommandID :: CommandID
  ca_SessionID :: SessionID
  ca_RequestHash :: CanonicalHash
  ca_IdempotencyKey :: string
  ca_IdempotencyRetention :: duration
  ca_Script :: string
  ca_Timeout :: duration
  ca_IntentOrdinal :: int
  ca_Audit :: "AuditRecord option"

record CommandRecord =
  cr_CommandID :: CommandID
  cr_SessionID :: SessionID
  cr_Ordinal :: int
  cr_IntentOrdinal :: "int option"
  cr_RequestHash :: CanonicalHash
  cr_ScriptBytes :: bytes
  cr_ScriptSHA256 :: bytes
  cr_State :: CommandState
  cr_Timeout :: duration
  cr_ExitCode :: "int option"
  cr_FinalEventSequence :: "int option"
  cr_OutputTruncated :: bool
  cr_OutputComplete :: bool
  cr_OutputUnavailableReason :: string
  cr_CreatedAt :: time
  cr_UpdatedAt :: time
  cr_IdempotencyWarning :: bool

record CommandEventAppend =
  cea_CommandID :: CommandID
  cea_Type :: string
  cea_Payload :: bytes
  cea_ByteCount :: int

record CommandTransition =
  ct_CommandID :: CommandID
  ct_NextState :: CommandState
  ct_ExitCode :: "int option"
  ct_OutputComplete :: bool
  ct_OutputTruncated :: bool

section \<open>Validation\<close>

definition validCommandEventType :: "string \<Rightarrow> bool" where
  "validCommandEventType value \<longleftrightarrow>
     value \<in> {''command_queued'', ''command_started'', ''stdout'', ''stderr'', ''output_truncated'',
       ''command_succeeded'', ''command_failed'', ''command_cancelled'', ''command_timed_out'',
       ''command_rejected'', ''command_lost''}"

definition isTerminalCommandEvent :: "string \<Rightarrow> bool" where
  "isTerminalCommandEvent eventType \<longleftrightarrow>
     eventType \<in> {''command_succeeded'', ''command_failed'', ''command_cancelled'',
       ''command_timed_out'', ''command_rejected'', ''command_lost''}"

fun commandEventTypeForState :: "CommandState \<Rightarrow> string option" where
  "commandEventTypeForState CommandStateRunning = Some ''command_started''"
| "commandEventTypeForState CommandStateSucceeded = Some ''command_succeeded''"
| "commandEventTypeForState CommandStateFailed = Some ''command_failed''"
| "commandEventTypeForState CommandStateCancelled = Some ''command_cancelled''"
| "commandEventTypeForState CommandStateTimedOut = Some ''command_timed_out''"
| "commandEventTypeForState CommandStateRejected = Some ''command_rejected''"
| "commandEventTypeForState CommandStateLost = Some ''command_lost''"
| "commandEventTypeForState _ = None"

definition boolToSQLite :: "bool \<Rightarrow> int" where
  "boolToSQLite value = (if value then 1 else 0)"

definition terminalOutputUnavailableReason :: "CommandTransition \<Rightarrow> string" where
  "terminalOutputUnavailableReason input =
     (if ct_NextState input = CommandStateLost \<and> \<not> ct_OutputComplete input
      then outputUnavailableCaptureBoundaryUnconfirmed else [])"

definition validateStoredCommandEvent :: "string \<Rightarrow> int \<Rightarrow> bytes \<Rightarrow> int \<Rightarrow> unit result" where
  "validateStoredCommandEvent eventType sequence payload byteCount =
     (if \<not> validCommandEventType eventType \<or> sequence < 1 \<or> byteCount < 0 then Inl ErrCommandEvent
      else if sequence = 1 \<and> eventType \<noteq> ''command_queued'' then Inl ErrCommandEvent
      else if sequence > 1 \<and> eventType = ''command_queued'' then Inl ErrCommandEvent
      else if eventType = ''stdout'' \<or> eventType = ''stderr''
      then if byteCount \<le> 0 \<or> int (length payload) \<noteq> byteCount then Inl ErrCommandEvent else Inr ()
      else if length payload \<noteq> 0 \<or> byteCount \<noteq> 0 then Inl ErrCommandEvent
      else Inr ())"

definition validateCommandAcceptance :: "CommandAcceptance \<Rightarrow> CommandAcceptance result" where
  "validateCommandAcceptance input =
     res_bind (res_as ErrInvalidCommand (NewCommandID (ca_CommandID input))) (\<lambda>commandID.
     res_bind (res_as ErrInvalidCommand (NewSessionID (ca_SessionID input))) (\<lambda>sessionID.
     res_bind (res_as ErrInvalidCommand (NewCanonicalHash (ch_version (ca_RequestHash input))
       (ch_digest (ca_RequestHash input)))) (\<lambda>hash.
     res_bind (case ValidateScriptUTF8 (ca_Script input) of
         Inl e \<Rightarrow> Inl (Wrapped ErrInvalidCommand e) | Inr u \<Rightarrow> Inr u) (\<lambda>_.
     res_bind (validateIdempotencyOperationKey submitCommandOperation (ca_IdempotencyKey input)) (\<lambda>_.
     let retention = (if ca_IdempotencyRetention input = 0 then DefaultSessionIdempotencyRetention
                      else ca_IdempotencyRetention input) in
     if retention < 0 then Inl ErrInvalidCommand
     else if ca_Timeout input \<le> 0 then Inl ErrInvalidCommand
     else if ca_IntentOrdinal input < 0 then Inl ErrInvalidCommand
     else Inr (input\<lparr>ca_CommandID := commandID, ca_SessionID := sessionID, ca_RequestHash := hash,
       ca_IdempotencyRetention := retention\<rparr>))))))"

section \<open>Reads\<close>

definition find_command :: "CommandID \<Rightarrow> database \<Rightarrow> command_row option" where
  "find_command cid db = find (\<lambda>r. cmd_command_id r = cid) (exec_commands db)"

definition decode_command_row :: "CommandID \<Rightarrow> command_row \<Rightarrow> CommandRecord result" where
  "decode_command_row cid row =
     res_bind (res_as ErrCommandPayloadCorrupt (NewCommandID (cmd_command_id row))) (\<lambda>validatedID.
     res_bind (res_as ErrCommandPayloadCorrupt (NewSessionID (cmd_session_id row))) (\<lambda>validatedSession.
     if validatedID \<noteq> cid \<or> cmd_ordinal row < 1 \<or> \<not> CommandState_Valid (cmd_state row) \<or>
        cmd_timeout_ns row \<le> 0 \<or>
        (cmd_output_truncated row \<noteq> 0 \<and> cmd_output_truncated row \<noteq> 1) \<or>
        (cmd_output_complete row \<noteq> 0 \<and> cmd_output_complete row \<noteq> 1) \<or>
        length (cmd_output_unavailable_reason row) > 128 \<or> has_nul (cmd_output_unavailable_reason row)
     then Inl ErrCommandPayloadCorrupt
     else
       res_bind (res_as ErrCommandPayloadCorrupt
         (NewCanonicalHash (of_int (cmd_hash_version row)) (cmd_hash row))) (\<lambda>hash.
       res_bind (res_as ErrCommandPayloadCorrupt (ValidateScriptUTF8 (cmd_script_bytes row))) (\<lambda>_.
       if length (cmd_script_sha256 row) \<noteq> sha256_Size \<or>
          cmd_script_sha256 row \<noteq> sha256_Sum256 (cmd_script_bytes row)
       then Inl ErrCommandPayloadCorrupt
       else if (case cmd_intent_ordinal row of None \<Rightarrow> False | Some n \<Rightarrow> n < 1)
       then Inl ErrCommandPayloadCorrupt
       else
         res_bind (res_as ErrCommandPayloadCorrupt (parseStoredTime (cmd_created_at row))) (\<lambda>createdAt.
         res_bind (res_as ErrCommandPayloadCorrupt (parseStoredTime (cmd_updated_at row))) (\<lambda>updatedAt.
         Inr \<lparr>cr_CommandID = validatedID, cr_SessionID = validatedSession, cr_Ordinal = cmd_ordinal row,
           cr_IntentOrdinal = cmd_intent_ordinal row, cr_RequestHash = hash,
           cr_ScriptBytes = cmd_script_bytes row, cr_ScriptSHA256 = cmd_script_sha256 row,
           cr_State = cmd_state row, cr_Timeout = cmd_timeout_ns row, cr_ExitCode = cmd_exit_code row,
           cr_FinalEventSequence = cmd_final_event_sequence row,
           cr_OutputTruncated = (cmd_output_truncated row = 1),
           cr_OutputComplete = (cmd_output_complete row = 1),
           cr_OutputUnavailableReason = cmd_output_unavailable_reason row,
           cr_CreatedAt = createdAt, cr_UpdatedAt = updatedAt, cr_IdempotencyWarning = False\<rparr>))))))"

definition readCommandOnConnection :: "CommandID \<Rightarrow> database \<Rightarrow> CommandRecord result" where
  "readCommandOnConnection cid db =
     (case find_command cid db of
        None \<Rightarrow> Inl ErrCommandNotFound
      | Some row \<Rightarrow> decode_command_row cid row)"

definition command_events :: "CommandID \<Rightarrow> database \<Rightarrow> event_row list" where
  "command_events cid db = filter (\<lambda>r. evt_command_id r = cid) (exec_command_events db)"

definition decode_event_row :: "CommandID \<Rightarrow> int \<Rightarrow> event_row \<Rightarrow> CommandEventRecord result" where
  "decode_event_row cid expected row =
     (if evt_command_id row \<noteq> cid \<or> \<not> validCommandEventType (evt_type row) \<or> evt_sequence row \<noteq> expected
      then Inl ErrCommandReplayGap
      else
        res_bind (validateStoredCommandEvent (evt_type row) (evt_sequence row) (evt_payload row)
          (evt_byte_count row)) (\<lambda>_.
        res_bind (res_as ErrCommandEvent (parseStoredTime (evt_occurred_at row))) (\<lambda>occurredAt.
        Inr \<lparr>cer_CommandID = cid, cer_Sequence = evt_sequence row, cer_Type = evt_type row,
          cer_Payload = evt_payload row, cer_ByteCount = evt_byte_count row,
          cer_OccurredAt = occurredAt\<rparr>)))"

fun read_events_from :: "CommandID \<Rightarrow> int \<Rightarrow> event_row list \<Rightarrow> CommandEventRecord list result" where
  "read_events_from cid expected [] = Inr []"
| "read_events_from cid expected (row # rows) =
     res_bind (decode_event_row cid expected row) (\<lambda>event.
     res_bind (read_events_from cid (expected + 1) rows) (\<lambda>events. Inr (event # events)))"

definition readCommandEventsOnConnection ::
  "CommandID \<Rightarrow> int \<Rightarrow> database \<Rightarrow> CommandEventRecord list result" where
  "readCommandEventsOnConnection cid afterSequence db =
     res_bind (read_events_from cid (if afterSequence < 0 then 1 else afterSequence + 1)
       (sort_key evt_sequence (filter (\<lambda>r. evt_sequence r > afterSequence) (command_events cid db))))
       (\<lambda>events. if events = [] \<and> afterSequence < 0 then Inl ErrCommandEvent else Inr events)"

definition GetCommand :: "go_error option \<Rightarrow> AuthorityStore \<Rightarrow> CommandID \<Rightarrow> CommandRecord result \<times> AuthorityStore" where
  "GetCommand fault s cid =
     (case NewCommandID cid of
        Inl e \<Rightarrow> (Inl e, s)
      | Inr ident \<Rightarrow> withStoreReadTransaction fault s (readCommandOnConnection ident))"

definition GetCommandWithEvents ::
  "go_error option \<Rightarrow> AuthorityStore \<Rightarrow> CommandID \<Rightarrow>
   (CommandRecord \<times> CommandEventRecord list) result \<times> AuthorityStore" where
  "GetCommandWithEvents fault s cid =
     (case NewCommandID cid of
        Inl e \<Rightarrow> (Inl e, s)
      | Inr ident \<Rightarrow> withStoreReadTransaction fault s (\<lambda>db.
          res_bind (readCommandOnConnection ident db) (\<lambda>command.
          if cr_OutputUnavailableReason command = ''retention_expired'' then Inr (command, [])
          else res_bind (readCommandEventsOnConnection ident (-1) db) (\<lambda>events. Inr (command, events)))))"

definition session_commands :: "SessionID \<Rightarrow> database \<Rightarrow> command_row list" where
  "session_commands sid db = filter (\<lambda>r. cmd_session_id r = sid) (exec_commands db)"

definition ListSessionCommands ::
  "go_error option \<Rightarrow> AuthorityStore \<Rightarrow> SessionID \<Rightarrow> CommandRecord list result" where
  "ListSessionCommands fault s sid =
     res_bind (NewSessionID sid) (\<lambda>ident. onConnection fault s (\<lambda>db.
     res_bind (readSessionOnConnection ident db) (\<lambda>_.
     res_bind (read_all (\<lambda>row. NewCommandID (cmd_command_id row))
       (sort_key cmd_ordinal (session_commands ident db))) (\<lambda>ids.
     read_all (\<lambda>cid. readCommandOnConnection cid db) ids))))"

definition ListCommandEvents ::
  "go_error option \<Rightarrow> AuthorityStore \<Rightarrow> CommandID \<Rightarrow> CommandEventRecord list result" where
  "ListCommandEvents fault s cid =
     res_bind (NewCommandID cid) (\<lambda>ident. onConnection fault s (\<lambda>db.
     res_bind (readCommandOnConnection ident db) (\<lambda>command.
     if cr_OutputUnavailableReason command = ''retention_expired'' then Inr []
     else readCommandEventsOnConnection ident (-1) db)))"

definition replay_body :: "CommandID \<Rightarrow> int \<Rightarrow> database \<Rightarrow> CommandEventRecord list result" where
  "replay_body cid afterSequence db =
     res_bind (readCommandOnConnection cid db) (\<lambda>command.
     if cr_OutputUnavailableReason command = ''retention_expired'' then Inl ErrCommandReplayExpired
     else
       res_bind (readCommandEventsOnConnection cid afterSequence db) (\<lambda>events.
       case cr_FinalEventSequence command of
         Some final \<Rightarrow>
           if afterSequence < final \<and> int (length events) \<noteq> final - afterSequence
           then Inl ErrCommandReplayGap else Inr events
       | None \<Rightarrow>
           if afterSequence = 0 \<and> length events = 0 then Inl ErrCommandReplayGap else Inr events))"

definition ReplayCommandEvents ::
  "go_error option \<Rightarrow> AuthorityStore \<Rightarrow> CommandID \<Rightarrow> int \<Rightarrow>
   CommandEventRecord list result \<times> AuthorityStore" where
  "ReplayCommandEvents fault s cid afterSequence =
     (case NewCommandID cid of
        Inl e \<Rightarrow> (Inl e, s)
      | Inr ident \<Rightarrow>
          if afterSequence < 0 then (Inl ErrCommandReplayGap, s)
          else withStoreReadTransaction fault s (replay_body ident afterSequence))"

section \<open>Order\<close>

record commandOrderRow =
  cor_CommandID :: CommandID
  cor_Ordinal :: int
  cor_State :: CommandState

fun read_order_from :: "int \<Rightarrow> command_row list \<Rightarrow> commandOrderRow list result" where
  "read_order_from expected [] = Inr []"
| "read_order_from expected (row # rows) =
     res_bind (res_as ErrCommandOrderCorrupt (NewCommandID (cmd_command_id row))) (\<lambda>cid.
     if cmd_ordinal row \<noteq> expected then Inl ErrCommandOrderCorrupt
     else if \<not> CommandState_Valid (cmd_state row) then Inl ErrCommandOrderCorrupt
     else
       res_bind (read_order_from (expected + 1) rows) (\<lambda>rest.
       Inr (\<lparr>cor_CommandID = cid, cor_Ordinal = cmd_ordinal row, cor_State = cmd_state row\<rparr> # rest)))"

definition readCommandOrderOnConnection :: "SessionID \<Rightarrow> database \<Rightarrow> commandOrderRow list result" where
  "readCommandOrderOnConnection sid db =
     read_order_from 1 (sort_key cmd_ordinal (session_commands sid db))"

definition nextCommandOrdinalOnConnection :: "SessionID \<Rightarrow> database \<Rightarrow> int result" where
  "nextCommandOrdinalOnConnection sid db =
     res_bind (readCommandOrderOnConnection sid db) (\<lambda>commands. Inr (int (length commands) + 1))"

text \<open>The loop over the ordered commands of a session: terminal commands are skipped, the first
  other one decides.\<close>

fun first_eligible :: "database \<Rightarrow> commandOrderRow list \<Rightarrow> CommandRecord result" where
  "first_eligible db [] = Inl ErrCommandNotEligible"
| "first_eligible db (command # rest) =
     (if CommandState_IsTerminal (cor_State command) then first_eligible db rest
      else case cor_State command of
        CommandStateQueued \<Rightarrow> readCommandOnConnection (cor_CommandID command) db
      | CommandStateRunning \<Rightarrow> Inl ErrCommandNotEligible
      | CommandStateCancelling \<Rightarrow> Inl ErrCommandNotEligible
      | _ \<Rightarrow> Inl ErrCommandOrderCorrupt)"

definition NextEligibleCommand ::
  "go_error option \<Rightarrow> AuthorityStore \<Rightarrow> SessionID \<Rightarrow> CommandRecord result" where
  "NextEligibleCommand fault s sid =
     res_bind (NewSessionID sid) (\<lambda>ident. onConnection fault s (\<lambda>db.
     res_bind (select_session ident db) (\<lambda>row.
     if ses_state row \<noteq> SessionStateReady \<and> ses_state row \<noteq> SessionStateBusy
     then Inl ErrCommandNotEligible
     else res_bind (readCommandOrderOnConnection ident db) (first_eligible db))))"

section \<open>Statements shared by the transactions\<close>

definition nextEventSequenceOnConnection :: "CommandID \<Rightarrow> database \<Rightarrow> int result" where
  "nextEventSequenceOnConnection cid db =
     (let tailSequence = max_column evt_sequence (command_events cid db);
          eventCount = int (length (command_events cid db)) in
      if eventCount = 0 then Inl ErrCommandEvent
      else if tailSequence \<noteq> eventCount then Inl ErrCommandReplayGap
      else Inr (tailSequence + 1))"

definition event_row_of :: "CommandID \<Rightarrow> int \<Rightarrow> string \<Rightarrow> bytes \<Rightarrow> int \<Rightarrow> time \<Rightarrow> event_row" where
  "event_row_of cid sequence eventType payload byteCount occurredAt =
     \<lparr>evt_command_id = cid, evt_sequence = sequence, evt_type = eventType, evt_payload = payload,
      evt_byte_count = byteCount, evt_occurred_at = formatStoredTime occurredAt\<rparr>"

definition insertCommandEventOnConnection ::
  "CommandID \<Rightarrow> int \<Rightarrow> string \<Rightarrow> bytes \<Rightarrow> int \<Rightarrow> time \<Rightarrow> unit db_tx" where
  "insertCommandEventOnConnection cid sequence eventType payload byteCount occurredAt =
     tx_bind (tx_lift (validateStoredCommandEvent eventType sequence payload byteCount)) (\<lambda>_.
     sql_insert event_constraints exec_command_events_update
       (event_row_of cid sequence eventType payload byteCount occurredAt))"

text \<open>\<open>UPDATE exec_commands SET ... WHERE command_id = ?\<close>\<close>

definition update_command :: "CommandID \<Rightarrow> (command_row \<Rightarrow> command_row) \<Rightarrow> nat db_tx" where
  "update_command cid f =
     sql_update command_check exec_commands exec_commands_update (\<lambda>r. cmd_command_id r = cid) f"

text \<open>The terminal columns.\<close>

definition terminal_columns :: "CommandTransition \<Rightarrow> int \<Rightarrow> time \<Rightarrow> command_row \<Rightarrow> command_row" where
  "terminal_columns input sequence now r =
     r\<lparr>cmd_state := ct_NextState input, cmd_exit_code := ct_ExitCode input,
       cmd_final_event_sequence := Some sequence,
       cmd_output_complete := boolToSQLite (ct_OutputComplete input),
       cmd_output_truncated := boolToSQLite (ct_OutputTruncated input),
       cmd_output_unavailable_reason := terminalOutputUnavailableReason input,
       cmd_updated_at := formatStoredTime now\<rparr>"

definition lifecycle_event :: "CommandID \<Rightarrow> int \<Rightarrow> string \<Rightarrow> time \<Rightarrow> CommandEventRecord" where
  "lifecycle_event cid sequence eventType now =
     \<lparr>cer_CommandID = cid, cer_Sequence = sequence, cer_Type = eventType, cer_Payload = [],
      cer_ByteCount = 0, cer_OccurredAt = now\<rparr>"

definition transitionSessionOnConnection ::
  "SessionID \<Rightarrow> SessionState \<Rightarrow> string \<Rightarrow> time \<Rightarrow> unit db_tx" where
  "transitionSessionOnConnection sid next_state reason now =
     tx_bind (tx_query (select_session sid)) (\<lambda>row.
     let current = ses_state row in
     tx_bind (tx_lift (ValidateSessionTransition current next_state)) (\<lambda>_.
     tx_bind (tx_lift (validateLifecycleReason reason)) (\<lambda>_.
     move_session sid current next_state
       (\<lambda>r. r\<lparr>ses_state := next_state, ses_updated_at := formatStoredTime now\<rparr>) reason now)))"

section \<open>Operations\<close>

definition publish_committed ::
  "('a \<times> CommandEventRecord option) result \<times> AuthorityStore \<Rightarrow> 'a result \<times> AuthorityStore" where
  "publish_committed res =
     (case res of
        (Inl e, s) \<Rightarrow> (Inl e, s)
      | (Inr (x, None), s) \<Rightarrow> (Inr x, s)
      | (Inr (x, Some event), s) \<Rightarrow> (Inr x, publishCommandEvent event s))"

definition command_row_of :: "CommandAcceptance \<Rightarrow> int \<Rightarrow> time \<Rightarrow> command_row" where
  "command_row_of v ordinal now =
     \<lparr>cmd_command_id = ca_CommandID v, cmd_session_id = ca_SessionID v, cmd_ordinal = ordinal,
      cmd_intent_ordinal = (if ca_IntentOrdinal v \<noteq> 0 then Some (ca_IntentOrdinal v) else None),
      cmd_hash_version = uint (ch_version (ca_RequestHash v)), cmd_hash = ch_digest (ca_RequestHash v),
      cmd_script_bytes = ca_Script v, cmd_script_sha256 = sha256_Sum256 (ca_Script v),
      cmd_state = CommandStateQueued, cmd_timeout_ns = ca_Timeout v, cmd_exit_code = None,
      cmd_final_event_sequence = None, cmd_output_truncated = 0, cmd_output_complete = 0,
      cmd_output_unavailable_reason = [], cmd_created_at = formatStoredTime now,
      cmd_updated_at = formatStoredTime now\<rparr>"

text \<open>The inserts of a new command.\<close>

definition insert_command ::
  "CommandAcceptance \<Rightarrow> ControllerIdentity \<Rightarrow> time \<Rightarrow> bool \<Rightarrow> CommandRecord db_tx" where
  "insert_command v controller now warning =
     tx_bind (tx_query (nextCommandOrdinalOnConnection (ca_SessionID v))) (\<lambda>ordinal.
     tx_bind (sql_insert command_constraints exec_commands_update (command_row_of v ordinal now)) (\<lambda>_.
     tx_bind (sql_insert event_constraints exec_command_events_update
       (event_row_of (ca_CommandID v) 1 ''command_queued'' [] 0 now)) (\<lambda>_.
     tx_bind (tx_lift (validateIdempotencyInput controller submitCommandOperation (ca_IdempotencyKey v)
       (ca_RequestHash v) (ca_CommandID v) (ca_IdempotencyRetention v))) (\<lambda>input.
     tx_bind (recordIdempotencyOnConnection (input\<lparr>idr_CreatedAt := now,
       idr_ExpiresAt := now + ca_IdempotencyRetention v, idr_DeduplicationWarning := warning\<rparr>)) (\<lambda>_.
     tx_bind (tx_query (readCommandOnConnection (ca_CommandID v))) (\<lambda>created.
     tx_return (created\<lparr>cr_IdempotencyWarning := warning\<rparr>)))))))"

definition accept_command_body ::
  "CommandAcceptance \<Rightarrow> time \<Rightarrow> bool \<Rightarrow> ((CommandRecord \<times> bool) \<times> AuditRecord option) db_tx" where
  "accept_command_body v now runtime =
     tx_bind (tx_query (checkIngressAdmissionOnConnection runtime)) (\<lambda>_.
     tx_bind (tx_query (select_session (ca_SessionID v))) (\<lambda>row.
     tx_bind (tx_lift (NewControllerID (ses_controller_id row))) (\<lambda>controllerID.
     tx_bind (tx_lift (NewControllerIdentity (ses_controller_type row) controllerID)) (\<lambda>controller.
     tx_bind (lookupIdempotencyOnConnection controller submitCommandOperation (ca_IdempotencyKey v) now) (\<lambda>found.
     case found of
       Some existing \<Rightarrow>
         tx_bind (tx_guard (CompareIdempotency (idr_Hash existing) (ca_RequestHash v) \<noteq>
           IdempotencyComparisonConflict) ErrIdempotencyConflict) (\<lambda>_.
         tx_bind (tx_lift (NewCommandID (idr_ResourceID existing))) (\<lambda>existingID.
         tx_bind (tx_query (readCommandOnConnection existingID)) (\<lambda>command.
         tx_bind (insertOptionalAuditOnConnection (ca_Audit v)) (\<lambda>saved.
         tx_return ((command\<lparr>cr_IdempotencyWarning := idr_DeduplicationWarning existing\<rparr>, True), saved)))))
     | None \<Rightarrow>
         tx_bind (tx_query (idempotencyExpiryWarningOnConnection controller submitCommandOperation
           (ca_IdempotencyKey v) now)) (\<lambda>warning.
         tx_bind (tx_guard (ses_state row = SessionStateReady \<or> ses_state row = SessionStateBusy)
           ErrCommandSessionState) (\<lambda>_.
         tx_bind (insert_command v controller now warning) (\<lambda>created.
         tx_bind (insertOptionalAuditOnConnection (ca_Audit v)) (\<lambda>saved.
         tx_return ((created, False), saved)))))))))) "

definition AcceptCommand ::
  "go_error option \<Rightarrow> time \<Rightarrow> AuthorityStore \<Rightarrow> CommandAcceptance \<Rightarrow>
   (CommandRecord \<times> bool) result \<times> AuthorityStore" where
  "AcceptCommand fault now s input =
     (case validateCommandAcceptance input of
        Inl e \<Rightarrow> (Inl e, s)
      | Inr v \<Rightarrow>
          (case withImmediateTransaction fault s (accept_command_body v now (st_laneAdmissionRuntime s)) of
             (Inl e, s') \<Rightarrow> (Inl e, s')
           | (Inr ((command, duplicate), saved), s') \<Rightarrow>
               let s'' = logOptionalAudit saved s' in
               (Inr (command, duplicate),
                if duplicate then s''
                else publishCommandEvent (lifecycle_event (cr_CommandID command) 1 ''command_queued''
                  (cr_CreatedAt command)) s'')))"

definition append_event_body :: "CommandEventAppend \<Rightarrow> time \<Rightarrow> (CommandEventRecord \<times> CommandEventRecord option) db_tx" where
  "append_event_body input now =
     tx_bind (tx_query (readCommandOnConnection (cea_CommandID input))) (\<lambda>command.
     tx_bind (tx_guard (\<not> CommandState_IsTerminal (cr_State command)) ErrCommandTerminal) (\<lambda>_.
     tx_bind (tx_guard (cr_State command = CommandStateRunning \<or> cr_State command = CommandStateCancelling)
       ErrCommandTransition) (\<lambda>_.
     tx_bind (tx_query (nextEventSequenceOnConnection (cea_CommandID input))) (\<lambda>sequence.
     tx_bind (insertCommandEventOnConnection (cea_CommandID input) sequence (cea_Type input)
       (cea_Payload input) (cea_ByteCount input) now) (\<lambda>_.
     let event = \<lparr>cer_CommandID = cea_CommandID input, cer_Sequence = sequence, cer_Type = cea_Type input,
           cer_Payload = cea_Payload input, cer_ByteCount = cea_ByteCount input, cer_OccurredAt = now\<rparr> in
     tx_return (event, Some event))))))"

definition AppendCommandEvent ::
  "go_error option \<Rightarrow> time \<Rightarrow> AuthorityStore \<Rightarrow> CommandEventAppend \<Rightarrow>
   CommandEventRecord result \<times> AuthorityStore" where
  "AppendCommandEvent fault now s input =
     (case NewCommandID (cea_CommandID input) of
        Inl e \<Rightarrow> (Inl e, s)
      | Inr _ \<Rightarrow>
          if \<not> validCommandEventType (cea_Type input) \<or> cea_Type input = ''command_queued'' \<or>
             cea_Type input = ''command_started'' \<or> isTerminalCommandEvent (cea_Type input)
          then (Inl ErrCommandEvent, s)
          else if (if cea_Type input = ''stdout'' \<or> cea_Type input = ''stderr''
                   then cea_ByteCount input \<le> 0 \<or> int (length (cea_Payload input)) \<noteq> cea_ByteCount input
                   else length (cea_Payload input) \<noteq> 0 \<or> cea_ByteCount input \<noteq> 0)
          then (Inl ErrCommandEvent, s)
          else publish_committed (withImmediateTransaction fault s (append_event_body input now)))"

text \<open>\<open>SELECT state FROM exec_commands WHERE command_id = ?\<close>\<close>

definition select_command :: "CommandID \<Rightarrow> database \<Rightarrow> command_row result" where
  "select_command cid db =
     (case find_command cid db of None \<Rightarrow> Inl ErrCommandNotFound | Some row \<Rightarrow> Inr row)"

definition transition_command_body ::
  "CommandTransition \<Rightarrow> time \<Rightarrow> (CommandRecord \<times> CommandEventRecord option) db_tx" where
  "transition_command_body input now =
     (let cid = ct_CommandID input in
      tx_bind (tx_query (select_command cid)) (\<lambda>row.
      tx_bind (tx_lift (res_as ErrCommandTransition
        (ValidateCommandTransition (cmd_state row) (ct_NextState input)))) (\<lambda>_.
      if ct_NextState input = CommandStateCancelling
      then tx_bind (update_command cid (\<lambda>r. r\<lparr>cmd_state := CommandStateCancelling,
               cmd_updated_at := formatStoredTime now\<rparr>)) (\<lambda>_.
           tx_bind (tx_query (readCommandOnConnection cid)) (\<lambda>command. tx_return (command, None)))
      else case commandEventTypeForState (ct_NextState input) of
        None \<Rightarrow> tx_fail ErrCommandTransition
      | Some eventType \<Rightarrow>
          tx_bind (tx_query (nextEventSequenceOnConnection cid)) (\<lambda>sequence.
          tx_bind (insertCommandEventOnConnection cid sequence eventType [] 0 now) (\<lambda>_.
          tx_bind (if CommandState_IsTerminal (ct_NextState input)
                   then update_command cid (terminal_columns input sequence now)
                   else update_command cid (\<lambda>r. r\<lparr>cmd_state := ct_NextState input,
                     cmd_updated_at := formatStoredTime now\<rparr>)) (\<lambda>_.
          tx_bind (tx_query (readCommandOnConnection cid)) (\<lambda>command.
          tx_return (command, Some (lifecycle_event cid sequence eventType now)))))))))"

definition TransitionCommand ::
  "go_error option \<Rightarrow> time \<Rightarrow> AuthorityStore \<Rightarrow> CommandTransition \<Rightarrow> CommandRecord result \<times> AuthorityStore" where
  "TransitionCommand fault now s input =
     (case NewCommandID (ct_CommandID input) of
        Inl e \<Rightarrow> (Inl e, s)
      | Inr _ \<Rightarrow>
          if \<not> CommandState_Valid (ct_NextState input) then (Inl ErrCommandTransition, s)
          else publish_committed (withImmediateTransaction fault s (transition_command_body input now)))"

text \<open>\<open>UPDATE exec_command_slots ... WHERE command_id = ? AND stop_confirmed_at IS NULL\<close>\<close>

definition slot_released :: "time \<Rightarrow> slot_row \<Rightarrow> slot_row" where
  "slot_released now r = r\<lparr>slt_stop_confirmed_at := Some (formatStoredTime now),
     slt_released_at := Some (formatStoredTime now)\<rparr>"

definition release_slot :: "CommandID \<Rightarrow> time \<Rightarrow> nat db_tx" where
  "release_slot cid now =
     sql_update slot_check exec_command_slots exec_command_slots_update
       (\<lambda>r. slt_command_id r = cid \<and> slt_stop_confirmed_at r = None) (slot_released now)"

definition find_slot :: "CommandID \<Rightarrow> database \<Rightarrow> slot_row option" where
  "find_slot cid db = find (\<lambda>r. slt_command_id r = cid) (exec_command_slots db)"

definition complete_command_body ::
  "CommandTransition \<Rightarrow> SessionState \<Rightarrow> string \<Rightarrow> bool \<Rightarrow> time \<Rightarrow>
   (CommandRecord \<times> CommandEventRecord option) db_tx" where
  "complete_command_body input nextSessionState sessionReason releaseSlot now =
     (let cid = ct_CommandID input in
      tx_bind (tx_query (readCommandOnConnection cid)) (\<lambda>command.
      tx_bind (tx_guard (cr_State command = CommandStateRunning \<or> cr_State command = CommandStateCancelling)
        ErrCommandTransition) (\<lambda>_.
      tx_bind (tx_lift (res_as ErrCommandTransition
        (ValidateCommandTransition (cr_State command) (ct_NextState input)))) (\<lambda>_.
      tx_bind (tx_query (nextEventSequenceOnConnection cid)) (\<lambda>sequence.
      case commandEventTypeForState (ct_NextState input) of
        None \<Rightarrow> tx_fail ErrCommandTransition
      | Some eventType \<Rightarrow>
          tx_bind (insertCommandEventOnConnection cid sequence eventType [] 0 now) (\<lambda>_.
          tx_bind (update_command cid (terminal_columns input sequence now)) (\<lambda>_.
          tx_bind (tx_query (\<lambda>db. case find_session (cr_SessionID command) db of
              None \<Rightarrow> Inl ErrNoRows | Some row \<Rightarrow> Inr row)) (\<lambda>row.
          tx_bind (if ses_state row \<noteq> nextSessionState
                   then transitionSessionOnConnection (cr_SessionID command) nextSessionState sessionReason now
                   else tx_return ()) (\<lambda>_.
          tx_bind (if releaseSlot
                   then tx_bind (release_slot cid now) (\<lambda>changed.
                        if changed = 0
                        then (\<lambda>db. if find_slot cid db = None then Inl ErrCommandSlotNotFound
                                   else Inl ErrCommandSlotNotReleasable)
                        else tx_return ())
                   else tx_return ()) (\<lambda>_.
          tx_bind (tx_query (readCommandOnConnection cid)) (\<lambda>completed.
          tx_return (completed, Some (lifecycle_event cid sequence eventType now)))))))))))))"

definition CompleteRunningCommand ::
  "go_error option \<Rightarrow> time \<Rightarrow> AuthorityStore \<Rightarrow> CommandTransition \<Rightarrow> SessionState \<Rightarrow> string \<Rightarrow> bool \<Rightarrow>
   CommandRecord result \<times> AuthorityStore" where
  "CompleteRunningCommand fault now s input nextSessionState sessionReason releaseSlot =
     (case NewCommandID (ct_CommandID input) of
        Inl e \<Rightarrow> (Inl e, s)
      | Inr _ \<Rightarrow>
          if \<not> CommandState_IsTerminal (ct_NextState input) then (Inl ErrCommandTransition, s)
          else if nextSessionState \<noteq> SessionStateReady \<and> nextSessionState \<noteq> SessionStateClosing \<and>
             nextSessionState \<noteq> SessionStateExpired \<and> nextSessionState \<noteq> SessionStateLost
          then (Inl ErrCommandTransition, s)
          else case validateLifecycleReason sessionReason of
            Inl e \<Rightarrow> (Inl e, s)
          | Inr _ \<Rightarrow> publish_committed (withImmediateTransaction fault s
              (complete_command_body input nextSessionState sessionReason releaseSlot now)))"

section \<open>Subscribing\<close>

text \<open>The subscription is registered before the replay is read. Its address is returned; a refused
  replay closes and unregisters it.\<close>

definition SubscribeCommandEventsWithByteLimit ::
  "go_error option \<Rightarrow> AuthorityStore \<Rightarrow> CommandID \<Rightarrow> int \<Rightarrow> int \<Rightarrow> int \<Rightarrow> nat result \<times> AuthorityStore" where
  "SubscribeCommandEventsWithByteLimit fault s cid afterSequence capacity maxBufferedBytes =
     (case NewCommandID cid of
        Inl e \<Rightarrow> (Inl e, s)
      | Inr ident \<Rightarrow>
          if afterSequence < 0 \<or> capacity \<le> 0 \<or> maxBufferedBytes \<le> 0 then (Inl ErrInvalidSubscriber, s)
          else
            let p = length (st_subscriptions s);
                s1 = addSubscriber p (s\<lparr>st_subscriptions := st_subscriptions s @
                  [new_subscription ident afterSequence capacity maxBufferedBytes]\<rparr>) in
            (case ReplayCommandEvents fault s1 ident afterSequence of
               (Inl e, s2) \<Rightarrow> (Inl e, CommandEventSubscription_Close p s2)
             | (Inr events, s2) \<Rightarrow>
                 let ok = fst (CommandEventSubscription_replay events (st_subscriptions s2 ! p));
                     s3 = at_subscription p (\<lambda>sub. (\<not> ok, snd (CommandEventSubscription_replay events sub))) s2 in
                 if \<not> ok then (Inr p, s3) else (Inr p, at_subscription p finishReplay s3)))"

definition SubscribeCommandEvents ::
  "go_error option \<Rightarrow> AuthorityStore \<Rightarrow> CommandID \<Rightarrow> int \<Rightarrow> int \<Rightarrow> nat result \<times> AuthorityStore" where
  "SubscribeCommandEvents fault s cid afterSequence capacity =
     SubscribeCommandEventsWithByteLimit fault s cid afterSequence capacity
       (sl_SubscriberBufferBytes DefaultServiceLimits)"

end
