(* ===== verification/Store_Recovery.thy ===== *)
theory Store_Recovery
  imports Store_Commands
begin

text \<open>
  Release of the capacity that terminal-lost commands retain (internal/store/lost_recovery.go): the
  inventory of lost session/command pairs, the checks that guard their release, with and without
  preserved queued one-off jobs, the paired release itself and its finalization work items. Joins
  are lookups by the keys they join on; rows of a query without an order are taken in table order.
\<close>

section \<open>Constants of the scheduler\<close>

definition DefaultRunningCommandLimit :: int where "DefaultRunningCommandLimit = 4"

definition schedulerHostKey :: string where "schedulerHostKey = ''authority''"

section \<open>Pairs\<close>

record LostRuntimeRecoveryPair =
  lrp_SessionID :: SessionID
  lrp_CommandID :: CommandID

fun validate_pairs_from ::
  "SessionID set \<Rightarrow> CommandID set \<Rightarrow> LostRuntimeRecoveryPair list \<Rightarrow> LostRuntimeRecoveryPair list result" where
  "validate_pairs_from seenSessions seenCommands [] = Inr []"
| "validate_pairs_from seenSessions seenCommands (pair # pairs) =
     res_bind (NewSessionID (lrp_SessionID pair)) (\<lambda>sessionID.
     res_bind (NewCommandID (lrp_CommandID pair)) (\<lambda>commandID.
     if sessionID \<in> seenSessions then Inl ErrLostRuntimeRecoveryNotReleasable
     else if commandID \<in> seenCommands then Inl ErrLostRuntimeRecoveryNotReleasable
     else
       res_bind (validate_pairs_from (insert sessionID seenSessions) (insert commandID seenCommands) pairs)
         (\<lambda>rest. Inr (\<lparr>lrp_SessionID = sessionID, lrp_CommandID = commandID\<rparr> # rest))))"

definition validateLostRuntimeRecoveryPairs ::
  "LostRuntimeRecoveryPair list \<Rightarrow> LostRuntimeRecoveryPair list result" where
  "validateLostRuntimeRecoveryPairs pairs =
     (if length pairs = 0 then Inl ErrLostRuntimeRecoveryNotReleasable
      else validate_pairs_from {} {} pairs)"

section \<open>Inventory\<close>

text \<open>The join of a command with its session, slot, reservation and final event.\<close>

definition retained_lost :: "database \<Rightarrow> command_row \<Rightarrow> (string \<times> command_row) option" where
  "retained_lost db c =
     (case (find_session (cmd_session_id c) db, find_slot (cmd_command_id c) db,
            find_reservation (cmd_session_id c) db, cmd_final_event_sequence c) of
        (Some session, Some slot, Some reservation, Some final) \<Rightarrow>
          (case find (\<lambda>e. evt_command_id e = cmd_command_id c \<and> evt_sequence e = final)
                  (exec_command_events db) of
             None \<Rightarrow> None
           | Some event \<Rightarrow>
               if cmd_state c = CommandStateLost \<and> ses_state session = SessionStateLost \<and>
                  cmd_output_complete c = 0 \<and> evt_type event = ''command_lost'' \<and>
                  slt_host_key slot = schedulerHostKey \<and> slt_stop_confirmed_at slot = None \<and>
                  slt_released_at slot = None \<and> res_host_key reservation = reservationHostKey \<and>
                  res_cleanup_confirmed_at reservation = None \<and> res_released_at reservation = None
               then Some (slt_reserved_at slot, c) else None)
      | _ \<Rightarrow> None)"

definition listRetainedLostRuntimeRecoveryPairsOnConnection ::
  "database \<Rightarrow> LostRuntimeRecoveryPair list result" where
  "listRetainedLostRuntimeRecoveryPairsOnConnection db =
     read_all (\<lambda>(_, c).
       res_bind (res_as ErrLostRuntimeRecoveryNotReleasable (NewSessionID (cmd_session_id c))) (\<lambda>sessionID.
       res_bind (res_as ErrLostRuntimeRecoveryNotReleasable (NewCommandID (cmd_command_id c))) (\<lambda>commandID.
       Inr \<lparr>lrp_SessionID = sessionID, lrp_CommandID = commandID\<rparr>)))
       (sort_key (\<lambda>(reservedAt, c). (reservedAt, cmd_command_id c))
         (List.map_filter (retained_lost db) (exec_commands db)))"

definition ListRetainedLostRuntimeRecoveryPairs ::
  "go_error option \<Rightarrow> AuthorityStore \<Rightarrow> LostRuntimeRecoveryPair list result \<times> AuthorityStore" where
  "ListRetainedLostRuntimeRecoveryPairs fault s =
     withStoreReadTransaction fault s listRetainedLostRuntimeRecoveryPairsOnConnection"

text \<open>A finalization row joined with its command, session, slot and reservation; a row without all
  four is not in the join.\<close>

definition pending_finalization ::
  "database \<Rightarrow> finalization_row \<Rightarrow>
   (finalization_row \<times> command_row \<times> session_row \<times> slot_row \<times> reservation_row) option" where
  "pending_finalization db f =
     (case (find_command (fin_command_id f) db, find_session (fin_session_id f) db,
            find_slot (fin_command_id f) db, find_reservation (fin_session_id f) db) of
        (Some c, Some s, Some slot, Some r) \<Rightarrow> Some (f, c, s, slot, r)
      | _ \<Rightarrow> None)"

fun decode_finalization ::
  "finalization_row \<times> command_row \<times> session_row \<times> slot_row \<times> reservation_row \<Rightarrow>
   LostRuntimeRecoveryPair result" where
  "decode_finalization (f, c, s, slot, r) =
     res_bind (res_as ErrLostRuntimeRecoveryNotReleasable (NewSessionID (fin_session_id f))) (\<lambda>sessionID.
     res_bind (res_as ErrLostRuntimeRecoveryNotReleasable (NewCommandID (fin_command_id f))) (\<lambda>commandID.
     if cmd_session_id c \<noteq> sessionID \<or> cmd_state c \<noteq> CommandStateLost \<or> ses_state s \<noteq> SessionStateLost \<or>
        slt_host_key slot \<noteq> schedulerHostKey \<or> res_host_key r \<noteq> reservationHostKey \<or>
        slt_stop_confirmed_at slot = None \<or> slt_released_at slot = None \<or>
        res_cleanup_confirmed_at r = None \<or> res_released_at r = None
     then Inl ErrLostRuntimeRecoveryNotReleasable
     else Inr \<lparr>lrp_SessionID = sessionID, lrp_CommandID = commandID\<rparr>))"

definition ListPendingLostRuntimeRecoveryFinalizations ::
  "go_error option \<Rightarrow> AuthorityStore \<Rightarrow> LostRuntimeRecoveryPair list result \<times> AuthorityStore" where
  "ListPendingLostRuntimeRecoveryFinalizations fault s =
     withStoreReadTransaction fault s (\<lambda>db. read_all decode_finalization
       (List.map_filter (pending_finalization db)
         (sort_key (\<lambda>f. (fin_capacity_released_at f, fin_command_id f))
           (exec_lost_runtime_recovery_finalizations db))))"

section \<open>Checks\<close>

text \<open>\<open>True\<close>: the pair has been released already.\<close>

definition checkLostRuntimeRecoveryPair :: "LostRuntimeRecoveryPair \<Rightarrow> database \<Rightarrow> bool result" where
  "checkLostRuntimeRecoveryPair pair db =
     (case find_command (lrp_CommandID pair) db of
        None \<Rightarrow> Inl ErrLostRuntimeRecoveryNotReleasable
      | Some c \<Rightarrow>
     (case (find_session (cmd_session_id c) db, find_slot (cmd_command_id c) db,
            find_reservation (cmd_session_id c) db) of
        (Some session, Some slot, Some reservation) \<Rightarrow>
          if cmd_session_id c \<noteq> lrp_SessionID pair \<or> cmd_state c \<noteq> CommandStateLost \<or>
             ses_state session \<noteq> SessionStateLost \<or> ses_runtime_generation session = [] \<or>
             slt_host_key slot \<noteq> schedulerHostKey \<or> res_host_key reservation \<noteq> reservationHostKey
          then Inl ErrLostRuntimeRecoveryNotReleasable
          else
            let commandStop = (slt_stop_confirmed_at slot \<noteq> None);
                commandReleased = (slt_released_at slot \<noteq> None);
                sessionCleanup = (res_cleanup_confirmed_at reservation \<noteq> None);
                sessionReleased = (res_released_at reservation \<noteq> None);
                commandAlreadyReleased = (commandStop \<and> commandReleased);
                sessionAlreadyReleased = (sessionCleanup \<and> sessionReleased) in
            if commandAlreadyReleased \<and> sessionAlreadyReleased then Inr True
            else if commandStop \<noteq> commandReleased \<or> sessionCleanup \<noteq> sessionReleased \<or>
               commandAlreadyReleased \<noteq> sessionAlreadyReleased
            then Inl ErrLostRuntimeRecoveryNotReleasable
            else (case cmd_final_event_sequence c of
                None \<Rightarrow> Inl ErrLostRuntimeRecoveryNotReleasable
              | Some final \<Rightarrow>
                  if cmd_output_complete c \<noteq> 0 then Inl ErrLostRuntimeRecoveryNotReleasable
                  else
                    (case rev (sort_key evt_sequence (command_events (lrp_CommandID pair) db)) of
                       [] \<Rightarrow> Inl ErrLostRuntimeRecoveryNotReleasable
                     | tail # _ \<Rightarrow>
                         if evt_sequence tail \<noteq> final \<or> evt_type tail \<noteq> ''command_lost''
                         then Inl ErrLostRuntimeRecoveryNotReleasable
                         else Inr False))
      | _ \<Rightarrow> Inl ErrLostRuntimeRecoveryNotReleasable))"

fun terminal_boundary_from :: "CommandID \<Rightarrow> bool \<Rightarrow> command_row list \<Rightarrow> unit result" where
  "terminal_boundary_from cid found [] =
     (if found then Inr () else Inl ErrLostRuntimeRecoveryNotReleasable)"
| "terminal_boundary_from cid found (row # rows) =
     res_bind (res_as ErrLostRuntimeRecoveryNotReleasable (NewCommandID (cmd_command_id row))) (\<lambda>commandID.
     if \<not> CommandState_Valid (cmd_state row) then Inl ErrLostRuntimeRecoveryNotReleasable
     else if commandID = cid then terminal_boundary_from cid True rows
     else if \<not> CommandState_IsTerminal (cmd_state row) then Inl ErrLostRuntimeRecoveryNotReleasable
     else terminal_boundary_from cid found rows)"

definition requireLostRecoveryTerminalSessionBoundary ::
  "LostRuntimeRecoveryPair \<Rightarrow> database \<Rightarrow> unit result" where
  "requireLostRecoveryTerminalSessionBoundary pair db =
     terminal_boundary_from (lrp_CommandID pair) False
       (sort_key cmd_ordinal (session_commands (lrp_SessionID pair) db))"

definition requireNoRunningOrCancellingCommands :: "database \<Rightarrow> unit result" where
  "requireNoRunningOrCancellingCommands db =
     res_guard (filter (\<lambda>c. cmd_state c = CommandStateRunning \<or> cmd_state c = CommandStateCancelling)
       (exec_commands db) = []) ErrLostRuntimeRecoveryNotReleasable"

definition live_slot :: "slot_row \<Rightarrow> bool" where
  "live_slot r \<longleftrightarrow> slt_stop_confirmed_at r = None"

definition requireFullyOccupiedLiveCommandSlotsSelected :: "CommandID list \<Rightarrow> database \<Rightarrow> unit result" where
  "requireFullyOccupiedLiveCommandSlotsSelected selected db =
     res_bind (read_all (\<lambda>slot.
         if slt_command_id slot = [] \<or> slt_host_key slot \<noteq> schedulerHostKey
         then Inl ErrLostRuntimeRecoveryNotReleasable
         else if slt_command_id slot \<notin> set selected then Inl ErrLostRuntimeRecoveryNotReleasable
         else Inr (slt_command_id slot)) (filter live_slot (exec_command_slots db))) (\<lambda>live.
     let liveSlots = int (length live); count = int (card (set selected)) in
     if liveSlots = 0 \<and> count = 0 then Inr ()
     else if liveSlots \<noteq> DefaultRunningCommandLimit \<or> count \<noteq> DefaultRunningCommandLimit
     then Inl ErrLostRuntimeRecoveryNotReleasable
     else Inr ())"

definition requireExactlyQueuedEvent :: "CommandID \<Rightarrow> database \<Rightarrow> unit result" where
  "requireExactlyQueuedEvent cid db =
     (case sort_key evt_sequence (command_events cid db) of
        [e] \<Rightarrow> if evt_sequence e \<noteq> 1 \<or> evt_type e \<noteq> ''command_queued''
                then Inl ErrLostRuntimeRecoveryNotReleasable else Inr ()
      | _ \<Rightarrow> Inl ErrLostRuntimeRecoveryNotReleasable)"

text \<open>An awaiting one-off that has not crossed a command execution boundary.\<close>

definition untouched_queued ::
  "SessionID \<Rightarrow> reservation_row \<Rightarrow> session_row \<Rightarrow> job_row \<Rightarrow> command_row \<Rightarrow> database \<Rightarrow> bool" where
  "untouched_queued sid reservation session job command db \<longleftrightarrow>
     job_job_id job \<noteq> [] \<and> res_host_key reservation = reservationHostKey \<and>
     job_session_id job = sid \<and> cmd_session_id command = sid \<and>
     ses_state session = SessionStateReady \<and> job_phase job = JobPhaseAwaitingCommand \<and>
     job_command_state job = Some CommandStateQueued \<and> cmd_state command = CommandStateQueued \<and>
     job_exit_code job = None \<and> job_final_event_sequence job = None \<and>
     job_output_truncated job = 0 \<and> job_output_complete job = 0 \<and>
     job_output_unavailable_reason job = [] \<and>
     job_teardown_state job = JobTeardownPending \<and> job_teardown_reason job = [] \<and>
     cmd_exit_code command = None \<and> cmd_final_event_sequence command = None \<and>
     cmd_output_truncated command = 0 \<and> cmd_output_complete command = 0 \<and>
     cmd_output_unavailable_reason command = [] \<and>
     length (session_commands (ses_session_id session) db) = 1 \<and>
     filter (\<lambda>r. slt_command_id r = cmd_command_id command) (exec_command_slots db) = []"

definition requireSafeQueuedOneOffReservation ::
  "SessionID \<Rightarrow> database \<Rightarrow> (JobID \<times> CommandID) result" where
  "requireSafeQueuedOneOffReservation sid db =
     (case (find_reservation sid db, find_session sid db,
            find (\<lambda>j. job_session_id j = sid) (exec_jobs db)) of
        (Some reservation, Some session, Some job) \<Rightarrow>
          (case find_command (job_command_id job) db of
             None \<Rightarrow> Inl ErrLostRuntimeRecoveryNotReleasable
           | Some command \<Rightarrow>
               if \<not> untouched_queued sid reservation session job command db
               then Inl ErrLostRuntimeRecoveryNotReleasable
               else
                 res_bind (res_as ErrLostRuntimeRecoveryNotReleasable (NewCommandID (job_command_id job)))
                   (\<lambda>commandID.
                 res_bind (requireExactlyQueuedEvent commandID db) (\<lambda>_.
                 Inr (job_job_id job, commandID))))
      | _ \<Rightarrow> Inl ErrLostRuntimeRecoveryNotReleasable)"

text \<open>The commands the scheduler may claim: queued, on a ready session.\<close>

definition scheduler_eligible :: "database \<Rightarrow> command_row \<Rightarrow> bool" where
  "scheduler_eligible db c \<longleftrightarrow>
     cmd_state c = CommandStateQueued \<and>
     (case find_session (cmd_session_id c) db of
        None \<Rightarrow> False | Some session \<Rightarrow> ses_state session = SessionStateReady)"

definition requireOnlyPreservedSchedulerEligibleQueuedCommands ::
  "(CommandID \<times> SessionID) list \<Rightarrow> database \<Rightarrow> unit result" where
  "requireOnlyPreservedSchedulerEligibleQueuedCommands safe db =
     res_bind (read_all (\<lambda>c.
         res_bind (res_as ErrLostRuntimeRecoveryNotReleasable (NewCommandID (cmd_command_id c))) (\<lambda>commandID.
         res_bind (res_as ErrLostRuntimeRecoveryNotReleasable (NewSessionID (cmd_session_id c))) (\<lambda>sessionID.
         if map_of safe commandID \<noteq> Some sessionID then Inl ErrLostRuntimeRecoveryNotReleasable
         else Inr ())))
       (sort_key (\<lambda>c. (cmd_created_at c, cmd_session_id c, cmd_ordinal c))
         (filter (scheduler_eligible db) (exec_commands db)))) (\<lambda>_. Inr ())"

text \<open>The loop over the live reservations; \<open>safe\<close> collects the preserved jobs, the later entry
  of a command first, as an assignment to the code's map replaces the earlier one.\<close>

fun safe_reservations ::
  "SessionID list \<Rightarrow> (JobID \<times> CommandID \<times> SessionID) list \<Rightarrow> reservation_row list \<Rightarrow> database \<Rightarrow>
   (JobID \<times> CommandID \<times> SessionID) list result" where
  "safe_reservations selected safe [] db = Inr safe"
| "safe_reservations selected safe (r # rows) db =
     (if res_host_key r \<noteq> reservationHostKey then Inl ErrLostRuntimeRecoveryNotReleasable
      else if res_session_id r \<in> set selected then safe_reservations selected safe rows db
      else
        res_bind (requireSafeQueuedOneOffReservation (res_session_id r) db) (\<lambda>(jobID, commandID).
        safe_reservations selected ((jobID, commandID, res_session_id r) # safe) rows db))"

definition nonterminal_phase :: "JobPhase \<Rightarrow> bool" where
  "nonterminal_phase p \<longleftrightarrow> p \<in> {JobPhaseCreatingSession, JobPhaseAcceptingCommand,
     JobPhaseAwaitingCommand, JobPhaseClosingSession}"

definition requireOnlySelectedOrQueuedOneOffReservations ::
  "SessionID list \<Rightarrow> database \<Rightarrow> unit result" where
  "requireOnlySelectedOrQueuedOneOffReservations selected db =
     (let live = filter (\<lambda>r. res_cleanup_confirmed_at r = None) (exec_capacity_reservations db) in
      res_bind (read_all (\<lambda>r. res_as ErrLostRuntimeRecoveryNotReleasable (NewSessionID (res_session_id r))) live)
        (\<lambda>_.
      res_bind (safe_reservations selected [] live db) (\<lambda>safe.
      res_bind (requireOnlyPreservedSchedulerEligibleQueuedCommands (map snd safe) db) (\<lambda>_.
      res_bind (read_all (\<lambda>j.
          if job_job_id j = [] \<or> job_phase j \<noteq> JobPhaseAwaitingCommand
          then Inl ErrLostRuntimeRecoveryNotReleasable
          else if job_job_id j \<notin> fst ` set safe then Inl ErrLostRuntimeRecoveryNotReleasable
          else Inr ())
        (sort_key (\<lambda>j. (job_created_at j, job_job_id j))
          (filter (\<lambda>j. nonterminal_phase (job_phase j)) (exec_jobs db)))) (\<lambda>_. Inr ())))))"

fun unreleased_pairs ::
  "LostRuntimeRecoveryPair list \<Rightarrow> database \<Rightarrow> LostRuntimeRecoveryPair list result" where
  "unreleased_pairs [] db = Inr []"
| "unreleased_pairs (pair # pairs) db =
     res_bind (checkLostRuntimeRecoveryPair pair db) (\<lambda>alreadyReleased.
     res_bind (requireLostRecoveryTerminalSessionBoundary pair db) (\<lambda>_.
     res_bind (unreleased_pairs pairs db) (\<lambda>rest.
     Inr (if alreadyReleased then rest else pair # rest))))"

definition checkLostRuntimeRecoveryBatchPreservingQueuedOneOffs ::
  "LostRuntimeRecoveryPair list \<Rightarrow> database \<Rightarrow> LostRuntimeRecoveryPair list result" where
  "checkLostRuntimeRecoveryBatchPreservingQueuedOneOffs pairs db =
     res_bind (unreleased_pairs pairs db) (\<lambda>unreleased.
     if unreleased = [] then Inr []
     else
       res_bind (requireNoRunningOrCancellingCommands db) (\<lambda>_.
       res_bind (requireFullyOccupiedLiveCommandSlotsSelected (map lrp_CommandID unreleased) db) (\<lambda>_.
       res_bind (requireOnlySelectedOrQueuedOneOffReservations (map lrp_SessionID pairs) db) (\<lambda>_.
       Inr unreleased))))"

definition CheckLostRuntimeRecoveryBatchPreservingQueuedOneOffs ::
  "go_error option \<Rightarrow> AuthorityStore \<Rightarrow> LostRuntimeRecoveryPair list \<Rightarrow> unit result \<times> AuthorityStore" where
  "CheckLostRuntimeRecoveryBatchPreservingQueuedOneOffs fault s pairs =
     (case validateLostRuntimeRecoveryPairs pairs of
        Inl e \<Rightarrow> (Inl e, s)
      | Inr validated \<Rightarrow> withStoreReadTransaction fault s (\<lambda>db.
          res_bind (checkLostRuntimeRecoveryBatchPreservingQueuedOneOffs validated db) (\<lambda>_. Inr ())))"

section \<open>Release\<close>

definition releaseLostRuntimeRecoveryPair :: "LostRuntimeRecoveryPair \<Rightarrow> time \<Rightarrow> unit db_tx" where
  "releaseLostRuntimeRecoveryPair pair now =
     tx_bind (sql_update slot_check exec_command_slots exec_command_slots_update
       (\<lambda>r. slt_command_id r = lrp_CommandID pair \<and> slt_host_key r = schedulerHostKey \<and>
            slt_stop_confirmed_at r = None \<and> slt_released_at r = None) (slot_released now)) (\<lambda>changed.
     tx_bind (tx_guard (changed = 1) ErrLostRuntimeRecoveryNotReleasable) (\<lambda>_.
     tx_bind (tx_query (\<lambda>db. case find_slot (lrp_CommandID pair) db of
         None \<Rightarrow> Inl ErrNoRows
       | Some r \<Rightarrow> res_guard (slt_stop_confirmed_at r \<noteq> None \<and> slt_released_at r \<noteq> None)
           ErrLostRuntimeRecoveryNotReleasable)) (\<lambda>_.
     tx_bind (sql_update reservation_check exec_capacity_reservations exec_capacity_reservations_update
       (\<lambda>r. res_session_id r = lrp_SessionID pair \<and> res_host_key r = reservationHostKey \<and>
            res_cleanup_confirmed_at r = None \<and> res_released_at r = None) (confirmed now)) (\<lambda>changed.
     tx_bind (tx_guard (changed = 1) ErrLostRuntimeRecoveryNotReleasable) (\<lambda>_.
     tx_bind (tx_query (\<lambda>db. case find_reservation (lrp_SessionID pair) db of
         None \<Rightarrow> Inl ErrNoRows
       | Some r \<Rightarrow> res_guard (res_cleanup_confirmed_at r \<noteq> None \<and> res_released_at r \<noteq> None)
           ErrLostRuntimeRecoveryNotReleasable)) (\<lambda>_.
     sql_insert finalization_constraints exec_lost_runtime_recovery_finalizations_update
       \<lparr>fin_command_id = lrp_CommandID pair, fin_session_id = lrp_SessionID pair,
        fin_capacity_released_at = formatStoredTime now\<rparr>))))))"

fun release_pairs :: "time \<Rightarrow> LostRuntimeRecoveryPair list \<Rightarrow> unit db_tx" where
  "release_pairs now [] = tx_return ()"
| "release_pairs now (pair # pairs) =
     tx_bind (releaseLostRuntimeRecoveryPair pair now) (\<lambda>_. release_pairs now pairs)"

text \<open>\<open>SELECT COUNT(*) FROM exec_command_slots WHERE host_key = ? AND stop_confirmed_at IS NULL\<close>\<close>

definition live_slots :: "database \<Rightarrow> int" where
  "live_slots db = int (length (filter (\<lambda>r. slt_host_key r = schedulerHostKey \<and> live_slot r)
     (exec_command_slots db)))"

fun check_pairs :: "LostRuntimeRecoveryPair list \<Rightarrow> database \<Rightarrow> LostRuntimeRecoveryPair list result" where
  "check_pairs [] db = Inr []"
| "check_pairs (pair # pairs) db =
     res_bind (checkLostRuntimeRecoveryPair pair db) (\<lambda>alreadyReleased.
     res_bind (check_pairs pairs db) (\<lambda>rest. Inr (if alreadyReleased then rest else pair # rest)))"

definition confirm_batch_body :: "LostRuntimeRecoveryPair list \<Rightarrow> time \<Rightarrow> unit db_tx" where
  "confirm_batch_body validated now =
     tx_bind (tx_query (check_pairs validated)) (\<lambda>unreleased.
     if unreleased = [] then tx_return ()
     else
       tx_bind (tx_query (\<lambda>db. res_guard (live_slots db = int (length unreleased) \<and>
         live_reservations db = int (length unreleased)) ErrLostRuntimeRecoveryNotReleasable)) (\<lambda>_.
       release_pairs now unreleased))"

definition ConfirmLostRuntimeRecoveryBatch ::
  "go_error option \<Rightarrow> time \<Rightarrow> AuthorityStore \<Rightarrow> LostRuntimeRecoveryPair list \<Rightarrow> unit result \<times> AuthorityStore" where
  "ConfirmLostRuntimeRecoveryBatch fault now s pairs =
     (case validateLostRuntimeRecoveryPairs pairs of
        Inl e \<Rightarrow> (Inl e, s)
      | Inr validated \<Rightarrow> withImmediateTransaction fault s (confirm_batch_body validated now))"

definition ConfirmLostRuntimeRecovery ::
  "go_error option \<Rightarrow> time \<Rightarrow> AuthorityStore \<Rightarrow> SessionID \<Rightarrow> CommandID \<Rightarrow> unit result \<times> AuthorityStore" where
  "ConfirmLostRuntimeRecovery fault now s sid cid =
     ConfirmLostRuntimeRecoveryBatch fault now s [\<lparr>lrp_SessionID = sid, lrp_CommandID = cid\<rparr>]"

definition confirm_preserving_body :: "LostRuntimeRecoveryPair list \<Rightarrow> time \<Rightarrow> unit db_tx" where
  "confirm_preserving_body validated now =
     tx_bind (tx_query (checkLostRuntimeRecoveryBatchPreservingQueuedOneOffs validated))
       (release_pairs now)"

definition ConfirmLostRuntimeRecoveryBatchPreservingQueuedOneOffs ::
  "go_error option \<Rightarrow> time \<Rightarrow> AuthorityStore \<Rightarrow> LostRuntimeRecoveryPair list \<Rightarrow> unit result \<times> AuthorityStore" where
  "ConfirmLostRuntimeRecoveryBatchPreservingQueuedOneOffs fault now s pairs =
     (case validateLostRuntimeRecoveryPairs pairs of
        Inl e \<Rightarrow> (Inl e, s)
      | Inr validated \<Rightarrow> withImmediateTransaction fault s (confirm_preserving_body validated now))"

definition complete_finalization_body :: "LostRuntimeRecoveryPair \<Rightarrow> unit db_tx" where
  "complete_finalization_body pair =
     tx_bind (tx_query (\<lambda>db. Inr (find (\<lambda>f. fin_command_id f = lrp_CommandID pair)
       (exec_lost_runtime_recovery_finalizations db)))) (\<lambda>stored.
     case stored of
       None \<Rightarrow> tx_query (\<lambda>db. res_guard (checkLostRuntimeRecoveryPair pair db = Inr True)
         ErrLostRuntimeRecoveryNotReleasable)
     | Some row \<Rightarrow>
         tx_bind (tx_guard (fin_session_id row = lrp_SessionID pair) ErrLostRuntimeRecoveryNotReleasable) (\<lambda>_.
         tx_bind (tx_query (\<lambda>db. res_guard (checkLostRuntimeRecoveryPair pair db = Inr True)
           ErrLostRuntimeRecoveryNotReleasable)) (\<lambda>_.
         tx_bind (sql_delete exec_lost_runtime_recovery_finalizations
           exec_lost_runtime_recovery_finalizations_update
           (\<lambda>f. fin_command_id f = lrp_CommandID pair \<and> fin_session_id f = lrp_SessionID pair)) (\<lambda>changed.
         tx_guard (changed = 1) ErrLostRuntimeRecoveryNotReleasable))))"

definition CompleteLostRuntimeRecoveryFinalization ::
  "go_error option \<Rightarrow> AuthorityStore \<Rightarrow> LostRuntimeRecoveryPair \<Rightarrow> unit result \<times> AuthorityStore" where
  "CompleteLostRuntimeRecoveryFinalization fault s pair =
     (case validateLostRuntimeRecoveryPairs [pair] of
        Inl e \<Rightarrow> (Inl e, s)
      | Inr validated \<Rightarrow> withImmediateTransaction fault s (complete_finalization_body (hd validated)))"

end
