(* ===== verification/Store_Restart_Plan.thy ===== *)
theory Store_Restart_Plan
  imports Store_Recovery
begin

text \<open>
  The controlled-restart plan (internal/store/controlled_restart_plan.go): a singleton record that
  preserves one untouched queued one-off while four terminal-lost pairs hold the whole command
  capacity. It is prepared, activated once the replacement runtime exists, and consumed by the
  scheduler's claim or cleared. Deleting the plan row deletes its lost pairs (ON DELETE CASCADE).
\<close>

record ControlledRestartPlan =
  cp_JobID :: JobID
  cp_SessionID :: SessionID
  cp_CommandID :: CommandID
  cp_RuntimeGeneration :: string
  cp_LostPairs :: "LostRuntimeRecoveryPair list"
  cp_PreparedAt :: time
  cp_Activated :: bool
  cp_ActivatedAt :: "time option"

section \<open>Validation and comparison\<close>

definition pair_key :: "LostRuntimeRecoveryPair \<Rightarrow> string \<times> string" where
  "pair_key p = (lrp_SessionID p, lrp_CommandID p)"

definition validateControlledRestartPlanPairs ::
  "LostRuntimeRecoveryPair list \<Rightarrow> LostRuntimeRecoveryPair list result" where
  "validateControlledRestartPlanPairs pairs =
     res_bind (validateLostRuntimeRecoveryPairs pairs) (\<lambda>validated.
     if int (length validated) \<noteq> DefaultRunningCommandLimit then Inl ErrLostRuntimeRecoveryNotReleasable
     else Inr (sort_key pair_key validated))"

definition valid_generation :: "string \<Rightarrow> bool" where
  "valid_generation g \<longleftrightarrow> g \<noteq> [] \<and> length g \<le> 256 \<and> \<not> has_nul g"

definition validateControlledRestartPlan :: "ControlledRestartPlan \<Rightarrow> ControlledRestartPlan result" where
  "validateControlledRestartPlan plan =
     res_bind (res_as ErrControlledRestartPlanCorrupt (NewJobID (cp_JobID plan))) (\<lambda>jobID.
     res_bind (res_as ErrControlledRestartPlanCorrupt (NewSessionID (cp_SessionID plan))) (\<lambda>sessionID.
     res_bind (res_as ErrControlledRestartPlanCorrupt (NewCommandID (cp_CommandID plan))) (\<lambda>commandID.
     res_bind (res_as ErrControlledRestartPlanCorrupt (validateControlledRestartPlanPairs (cp_LostPairs plan)))
       (\<lambda>pairs.
     if cp_PreparedAt plan = 0 then Inl ErrControlledRestartPlanCorrupt
     else if \<not> valid_generation (cp_RuntimeGeneration plan) then Inl ErrControlledRestartPlanCorrupt
     else if cp_Activated plan \<and> cp_ActivatedAt plan = None then Inl ErrControlledRestartPlanCorrupt
     else if \<not> cp_Activated plan \<and> cp_ActivatedAt plan \<noteq> None then Inl ErrControlledRestartPlanCorrupt
     else if list_ex (\<lambda>p. lrp_SessionID p = sessionID \<or> lrp_CommandID p = commandID) pairs
     then Inl ErrControlledRestartPlanCorrupt
     else Inr (plan\<lparr>cp_JobID := jobID, cp_SessionID := sessionID, cp_CommandID := commandID,
       cp_LostPairs := pairs\<rparr>)))))"

definition sameControlledRestartLostPairs ::
  "LostRuntimeRecoveryPair list \<Rightarrow> LostRuntimeRecoveryPair list \<Rightarrow> bool" where
  "sameControlledRestartLostPairs left right \<longleftrightarrow>
     length left = length right \<and> list_all2 (=) left right"

definition sameOptionalTime :: "time option \<Rightarrow> time option \<Rightarrow> bool" where
  "sameOptionalTime left right =
     (case (left, right) of
        (Some a, Some b) \<Rightarrow> a = b
      | _ \<Rightarrow> left = None \<and> right = None)"

definition sameControlledRestartPlanIdentity ::
  "ControlledRestartPlan \<Rightarrow> ControlledRestartPlan \<Rightarrow> bool" where
  "sameControlledRestartPlanIdentity left right \<longleftrightarrow>
     cp_JobID left = cp_JobID right \<and> cp_SessionID left = cp_SessionID right \<and>
     cp_CommandID left = cp_CommandID right \<and>
     cp_RuntimeGeneration left = cp_RuntimeGeneration right \<and>
     cp_PreparedAt left = cp_PreparedAt right \<and>
     sameControlledRestartLostPairs (cp_LostPairs left) (cp_LostPairs right)"

definition sameControlledRestartPlan :: "ControlledRestartPlan \<Rightarrow> ControlledRestartPlan \<Rightarrow> bool" where
  "sameControlledRestartPlan left right \<longleftrightarrow>
     cp_JobID left = cp_JobID right \<and> cp_SessionID left = cp_SessionID right \<and>
     cp_CommandID left = cp_CommandID right \<and>
     cp_RuntimeGeneration left = cp_RuntimeGeneration right \<and>
     cp_PreparedAt left = cp_PreparedAt right \<and>
     cp_Activated left = cp_Activated right \<and>
     sameOptionalTime (cp_ActivatedAt left) (cp_ActivatedAt right) \<and>
     sameControlledRestartLostPairs (cp_LostPairs left) (cp_LostPairs right)"

section \<open>Reads\<close>

definition readControlledRestartQueuedOneOffRuntimeGeneration ::
  "JobID \<Rightarrow> SessionID \<Rightarrow> CommandID \<Rightarrow> database \<Rightarrow> string result" where
  "readControlledRestartQueuedOneOffRuntimeGeneration jobID sessionID commandID db =
     (case find (\<lambda>j. job_job_id j = jobID) (exec_jobs db) of
        None \<Rightarrow> Inl ErrControlledRestartPlanCorrupt
      | Some job \<Rightarrow>
     (case find_session (job_session_id job) db of
        None \<Rightarrow> Inl ErrControlledRestartPlanCorrupt
      | Some session \<Rightarrow>
          if job_session_id job \<noteq> sessionID \<or> job_command_id job \<noteq> commandID \<or>
             \<not> valid_generation (ses_runtime_generation session) \<or>
             ses_source_mode session \<noteq> SourceModeEmpty \<or> ses_source_repository_alias session \<noteq> [] \<or>
             ses_source_requested_revision session \<noteq> [] \<or> ses_source_path session \<noteq> [] \<or>
             job_source_mode job \<noteq> SourceModeEmpty \<or> job_source_repository_alias job \<noteq> [] \<or>
             job_source_requested_revision job \<noteq> [] \<or> job_source_path job \<noteq> []
          then Inl ErrControlledRestartPlanCorrupt
          else
     (case find_command commandID db of
        None \<Rightarrow> Inl ErrControlledRestartPlanCorrupt
      | Some command \<Rightarrow>
          if cmd_session_id command \<noteq> sessionID then Inl ErrControlledRestartPlanCorrupt
          else Inr (ses_runtime_generation session))))"

definition requireControlledRestartLostPairIdentity ::
  "SessionID \<Rightarrow> CommandID \<Rightarrow> database \<Rightarrow> unit result" where
  "requireControlledRestartLostPairIdentity sessionID commandID db =
     (case find_command commandID db of
        None \<Rightarrow> Inl ErrControlledRestartPlanCorrupt
      | Some command \<Rightarrow>
          if cmd_session_id command \<noteq> sessionID then Inl ErrControlledRestartPlanCorrupt else Inr ())"

definition read_activation :: "plan_row \<Rightarrow> (bool \<times> time option) result" where
  "read_activation row =
     (if crp_activation_state row = ''prepared''
      then if crp_activated_at row \<noteq> None then Inl ErrControlledRestartPlanCorrupt else Inr (False, None)
      else if crp_activation_state row = ''active''
      then (case crp_activated_at row of
              None \<Rightarrow> Inl ErrControlledRestartPlanCorrupt
            | Some text \<Rightarrow>
                res_bind (res_as ErrControlledRestartPlanCorrupt (parseStoredTime text)) (\<lambda>t.
                Inr (True, Some t)))
      else Inl ErrControlledRestartPlanCorrupt)"

fun read_lost_pairs_from ::
  "SessionID \<Rightarrow> CommandID \<Rightarrow> int \<Rightarrow> lost_pair_row list \<Rightarrow> LostRuntimeRecoveryPair list result" where
  "read_lost_pairs_from sessionID commandID wantOrdinal [] = Inr []"
| "read_lost_pairs_from sessionID commandID wantOrdinal (row # rows) =
     (if clp_ordinal row \<noteq> wantOrdinal then Inl ErrControlledRestartPlanCorrupt
      else
        res_bind (res_as ErrControlledRestartPlanCorrupt (NewSessionID (clp_session_id row))) (\<lambda>lostSessionID.
        res_bind (res_as ErrControlledRestartPlanCorrupt (NewCommandID (clp_command_id row))) (\<lambda>lostCommandID.
        if lostSessionID = sessionID \<or> lostCommandID = commandID then Inl ErrControlledRestartPlanCorrupt
        else
          res_bind (read_lost_pairs_from sessionID commandID (wantOrdinal + 1) rows) (\<lambda>rest.
          Inr (\<lparr>lrp_SessionID = lostSessionID, lrp_CommandID = lostCommandID\<rparr> # rest)))))"

definition decode_plan_row :: "plan_row \<Rightarrow> database \<Rightarrow> ControlledRestartPlan result" where
  "decode_plan_row row db =
     res_bind (res_as ErrControlledRestartPlanCorrupt (NewJobID (crp_job_id row))) (\<lambda>jobID.
     res_bind (res_as ErrControlledRestartPlanCorrupt (NewSessionID (crp_session_id row))) (\<lambda>sessionID.
     res_bind (res_as ErrControlledRestartPlanCorrupt (NewCommandID (crp_command_id row))) (\<lambda>commandID.
     if \<not> valid_generation (crp_runtime_generation row) then Inl ErrControlledRestartPlanCorrupt
     else
       res_bind (res_as ErrControlledRestartPlanCorrupt (parseStoredTime (crp_prepared_at row))) (\<lambda>preparedAt.
       res_bind (read_activation row) (\<lambda>(activated, activatedAt).
       res_bind (readControlledRestartQueuedOneOffRuntimeGeneration jobID sessionID commandID db) (\<lambda>actual.
       if actual \<noteq> crp_runtime_generation row then Inl ErrControlledRestartPlanCorrupt
       else
         res_bind (read_lost_pairs_from sessionID commandID 1
           (sort_key clp_ordinal (exec_controlled_restart_plan_lost_pairs db))) (\<lambda>pairs.
         res_bind (res_as ErrControlledRestartPlanCorrupt (validateControlledRestartPlanPairs pairs)) (\<lambda>validated.
         res_bind (read_all (\<lambda>p. requireControlledRestartLostPairIdentity (lrp_SessionID p) (lrp_CommandID p) db)
           validated) (\<lambda>_.
         Inr \<lparr>cp_JobID = jobID, cp_SessionID = sessionID, cp_CommandID = commandID,
           cp_RuntimeGeneration = crp_runtime_generation row, cp_LostPairs = validated,
           cp_PreparedAt = preparedAt, cp_Activated = activated, cp_ActivatedAt = activatedAt\<rparr>)))))))))"

definition readControlledRestartPlanOnConnection :: "database \<Rightarrow> ControlledRestartPlan result" where
  "readControlledRestartPlanOnConnection db =
     (case exec_controlled_restart_plans db of
        [] \<Rightarrow> Inl ErrControlledRestartPlanNotFound
      | row # _ \<Rightarrow> decode_plan_row row db)"

definition ReadControlledRestartPlan ::
  "go_error option \<Rightarrow> AuthorityStore \<Rightarrow> ControlledRestartPlan result \<times> AuthorityStore" where
  "ReadControlledRestartPlan fault s = withStoreReadTransaction fault s readControlledRestartPlanOnConnection"

definition findExactEmptySourceQueuedOneOffForControlledRestartPlan ::
  "LostRuntimeRecoveryPair list \<Rightarrow> database \<Rightarrow> (JobID \<times> SessionID \<times> CommandID \<times> string) result" where
  "findExactEmptySourceQueuedOneOffForControlledRestartPlan pairs db =
     (let live = sort_key res_session_id
            (filter (\<lambda>r. res_cleanup_confirmed_at r = None) (exec_capacity_reservations db)) in
      res_bind (read_all (\<lambda>r. if res_session_id r = [] \<or> res_host_key r \<noteq> reservationHostKey
          then Inl ErrLostRuntimeRecoveryNotReleasable else Inr (res_session_id r)) live) (\<lambda>sessions.
      case filter (\<lambda>sid. sid \<notin> set (map lrp_SessionID pairs)) sessions of
        [queuedSessionID] \<Rightarrow>
          res_bind (requireSafeQueuedOneOffReservation queuedSessionID db) (\<lambda>(jobID, commandID).
          (case readControlledRestartQueuedOneOffRuntimeGeneration jobID queuedSessionID commandID db of
             Inl e \<Rightarrow> Inl (if errors_Is e ErrControlledRestartPlanCorrupt
                          then ErrLostRuntimeRecoveryNotReleasable else e)
           | Inr generation \<Rightarrow> Inr (jobID, queuedSessionID, commandID, generation)))
      | _ \<Rightarrow> Inl ErrLostRuntimeRecoveryNotReleasable))"

section \<open>Prepare\<close>

fun insert_lost_pairs :: "int \<Rightarrow> LostRuntimeRecoveryPair list \<Rightarrow> unit db_tx" where
  "insert_lost_pairs ordinal [] = tx_return ()"
| "insert_lost_pairs ordinal (pair # pairs) =
     tx_bind (sql_insert lost_pair_constraints exec_controlled_restart_plan_lost_pairs_update
       \<lparr>clp_ordinal = ordinal, clp_session_id = lrp_SessionID pair, clp_command_id = lrp_CommandID pair\<rparr>)
       (\<lambda>_. insert_lost_pairs (ordinal + 1) pairs)"

definition plan_row_of :: "ControlledRestartPlan \<Rightarrow> plan_row" where
  "plan_row_of plan =
     \<lparr>crp_job_id = cp_JobID plan, crp_session_id = cp_SessionID plan, crp_command_id = cp_CommandID plan,
      crp_runtime_generation = cp_RuntimeGeneration plan,
      crp_prepared_at = formatStoredTime (cp_PreparedAt plan), crp_activation_state = ''prepared'',
      crp_activated_at = None\<rparr>"

definition insertControlledRestartPlanOnConnection :: "ControlledRestartPlan \<Rightarrow> unit db_tx" where
  "insertControlledRestartPlanOnConnection plan =
     tx_bind (sql_insert plan_constraints exec_controlled_restart_plans_update (plan_row_of plan)) (\<lambda>_.
     insert_lost_pairs 1 (cp_LostPairs plan))"

text \<open>The shape a repeated preparation is revalidated against.\<close>

definition reusable_plan ::
  "ControlledRestartPlan \<Rightarrow> LostRuntimeRecoveryPair list \<Rightarrow> database \<Rightarrow> bool" where
  "reusable_plan existing pairs db \<longleftrightarrow>
     \<not> cp_Activated existing \<and> sameControlledRestartLostPairs (cp_LostPairs existing) pairs \<and>
     (case checkLostRuntimeRecoveryBatchPreservingQueuedOneOffs pairs db of
        Inl _ \<Rightarrow> False
      | Inr unreleased \<Rightarrow> int (length unreleased) = DefaultRunningCommandLimit) \<and>
     findExactEmptySourceQueuedOneOffForControlledRestartPlan pairs db =
       Inr (cp_JobID existing, cp_SessionID existing, cp_CommandID existing, cp_RuntimeGeneration existing)"

definition prepare_plan_body ::
  "LostRuntimeRecoveryPair list \<Rightarrow> time \<Rightarrow> ControlledRestartPlan db_tx" where
  "prepare_plan_body pairs now = (\<lambda>db.
     case readControlledRestartPlanOnConnection db of
       Inr existing \<Rightarrow>
         if reusable_plan existing pairs db then Inr (existing, db) else Inl ErrControlledRestartPlanConflict
     | Inl e \<Rightarrow>
         if \<not> errors_Is e ErrControlledRestartPlanNotFound then Inl e
         else
           tx_bind (tx_query (checkLostRuntimeRecoveryBatchPreservingQueuedOneOffs pairs)) (\<lambda>unreleased.
           tx_bind (tx_guard (int (length unreleased) = DefaultRunningCommandLimit)
             ErrLostRuntimeRecoveryNotReleasable) (\<lambda>_.
           tx_bind (tx_query (findExactEmptySourceQueuedOneOffForControlledRestartPlan pairs))
             (\<lambda>(jobID, sessionID, commandID, generation).
           let plan = \<lparr>cp_JobID = jobID, cp_SessionID = sessionID, cp_CommandID = commandID,
                 cp_RuntimeGeneration = generation, cp_LostPairs = pairs, cp_PreparedAt = now,
                 cp_Activated = False, cp_ActivatedAt = None\<rparr> in
           tx_bind (insertControlledRestartPlanOnConnection plan) (\<lambda>_. tx_return plan)))) db)"

definition PrepareControlledRestartPlan ::
  "go_error option \<Rightarrow> time \<Rightarrow> AuthorityStore \<Rightarrow> LostRuntimeRecoveryPair list \<Rightarrow>
   ControlledRestartPlan result \<times> AuthorityStore" where
  "PrepareControlledRestartPlan fault now s pairs =
     (case validateControlledRestartPlanPairs pairs of
        Inl e \<Rightarrow> (Inl e, s)
      | Inr validated \<Rightarrow> withImmediateTransaction fault s (prepare_plan_body validated now))"

section \<open>Activate\<close>

definition plan_identity_row :: "ControlledRestartPlan \<Rightarrow> plan_row \<Rightarrow> bool" where
  "plan_identity_row plan r \<longleftrightarrow>
     crp_job_id r = cp_JobID plan \<and> crp_session_id r = cp_SessionID plan \<and>
     crp_command_id r = cp_CommandID plan \<and> crp_runtime_generation r = cp_RuntimeGeneration plan \<and>
     crp_prepared_at r = formatStoredTime (cp_PreparedAt plan)"

definition activate_plan_body :: "ControlledRestartPlan \<Rightarrow> time \<Rightarrow> ControlledRestartPlan db_tx" where
  "activate_plan_body expected now =
     tx_bind (tx_query readControlledRestartPlanOnConnection) (\<lambda>current.
     tx_bind (tx_guard (sameControlledRestartPlanIdentity current expected) ErrControlledRestartPlanConflict) (\<lambda>_.
     if cp_Activated current then tx_return current
     else
       tx_bind (tx_guard (\<not> cp_Activated expected \<and> cp_ActivatedAt expected = None)
         ErrControlledRestartPlanConflict) (\<lambda>_.
       tx_bind (tx_query (\<lambda>db. res_guard
         (requireSafeQueuedOneOffReservation (cp_SessionID current) db =
            Inr (cp_JobID current, cp_CommandID current)) ErrControlledRestartPlanCorrupt)) (\<lambda>_.
       tx_bind (tx_query (\<lambda>db. res_guard
         (readControlledRestartQueuedOneOffRuntimeGeneration (cp_JobID current) (cp_SessionID current)
            (cp_CommandID current) db = Inr (cp_RuntimeGeneration current)) ErrControlledRestartPlanCorrupt)) (\<lambda>_.
       tx_bind (sql_update plan_check exec_controlled_restart_plans exec_controlled_restart_plans_update
         (\<lambda>r. plan_identity_row current r \<and> crp_activation_state r = ''prepared'' \<and> crp_activated_at r = None)
         (\<lambda>r. r\<lparr>crp_activation_state := ''active'', crp_activated_at := Some (formatStoredTime now)\<rparr>))
         (\<lambda>changed.
       tx_bind (tx_guard (changed = 1) ErrControlledRestartPlanConflict) (\<lambda>_.
       tx_query readControlledRestartPlanOnConnection)))))))"

definition ActivateControlledRestartPlan ::
  "go_error option \<Rightarrow> time \<Rightarrow> AuthorityStore \<Rightarrow> ControlledRestartPlan \<Rightarrow>
   ControlledRestartPlan result \<times> AuthorityStore" where
  "ActivateControlledRestartPlan fault now s plan =
     (case validateControlledRestartPlan plan of
        Inl e \<Rightarrow> (Inl e, s)
      | Inr expected \<Rightarrow> withImmediateTransaction fault s (activate_plan_body expected now))"

section \<open>Delete\<close>

definition deleteControlledRestartPlanOnConnection :: "ControlledRestartPlan \<Rightarrow> unit db_tx" where
  "deleteControlledRestartPlanOnConnection plan =
     tx_bind (tx_guard (cp_Activated plan \<longrightarrow> cp_ActivatedAt plan \<noteq> None) ErrControlledRestartPlanCorrupt) (\<lambda>_.
     tx_bind (sql_delete exec_controlled_restart_plans exec_controlled_restart_plans_update
       (\<lambda>r. plan_identity_row plan r \<and>
         (if cp_Activated plan
          then crp_activation_state r = ''active'' \<and>
            crp_activated_at r = map_option formatStoredTime (cp_ActivatedAt plan)
          else crp_activation_state r = ''prepared'' \<and> crp_activated_at r = None))) (\<lambda>changed.
     tx_bind (tx_guard (changed = 1) ErrControlledRestartPlanNotFound) (\<lambda>_.
     tx_modify (\<lambda>db. db\<lparr>exec_controlled_restart_plan_lost_pairs := []\<rparr>))))"

definition consumeControlledRestartPlanOnClaim :: "ControlledRestartPlan \<Rightarrow> unit db_tx" where
  "consumeControlledRestartPlanOnClaim plan =
     tx_bind (tx_guard (cp_Activated plan \<and> cp_ActivatedAt plan \<noteq> None) ErrControlledRestartPlanNotActive) (\<lambda>_.
     deleteControlledRestartPlanOnConnection plan)"

definition clear_plan_body :: "ControlledRestartPlan \<Rightarrow> unit db_tx" where
  "clear_plan_body expected =
     tx_bind (tx_query readControlledRestartPlanOnConnection) (\<lambda>current.
     tx_bind (tx_guard (sameControlledRestartPlan current expected) ErrControlledRestartPlanConflict) (\<lambda>_.
     deleteControlledRestartPlanOnConnection current))"

definition ClearControlledRestartPlan ::
  "go_error option \<Rightarrow> AuthorityStore \<Rightarrow> ControlledRestartPlan \<Rightarrow> unit result \<times> AuthorityStore" where
  "ClearControlledRestartPlan fault s plan =
     (case validateControlledRestartPlan plan of
        Inl e \<Rightarrow> (Inl e, s)
      | Inr expected \<Rightarrow> withImmediateTransaction fault s (clear_plan_body expected))"

end
