(* ===== verification/Store_Scheduler.thy ===== *)
theory Store_Scheduler
  imports Store_Restart_Plan
begin

text \<open>
  The durable scheduler (internal/store/scheduler.go): the claim of the oldest eligible queued
  command, which reserves a host slot, starts the command and makes its session busy in one
  transaction, and the release of slots. The stage labels of queue_claim_diagnostics.go only
  annotate an error and are left out.
\<close>

section \<open>Slots\<close>

record CommandSlotRecord =
  csr_CommandID :: CommandID
  csr_HostKey :: string
  csr_ReservedAt :: time
  csr_StopConfirmedAt :: "time option"
  csr_ReleasedAt :: "time option"

definition readCommandSlotOnConnection :: "CommandID \<Rightarrow> database \<Rightarrow> CommandSlotRecord result" where
  "readCommandSlotOnConnection cid db =
     (case find_slot cid db of
        None \<Rightarrow> Inl ErrCommandSlotNotFound
      | Some row \<Rightarrow>
          if slt_command_id row = [] \<or> slt_command_id row \<noteq> cid \<or> slt_host_key row = []
          then Inl ErrCommandSlotCorrupt
          else
            res_bind (res_as ErrCommandSlotCorrupt (parseStoredTime (slt_reserved_at row))) (\<lambda>reservedAt.
            res_bind (parse_optional ErrCommandSlotCorrupt (slt_stop_confirmed_at row)) (\<lambda>stopConfirmedAt.
            res_bind (parse_optional ErrCommandSlotCorrupt (slt_released_at row)) (\<lambda>releasedAt.
            if (stopConfirmedAt = None) \<noteq> (releasedAt = None) then Inl ErrCommandSlotCorrupt
            else Inr \<lparr>csr_CommandID = cid, csr_HostKey = slt_host_key row, csr_ReservedAt = reservedAt,
              csr_StopConfirmedAt = stopConfirmedAt, csr_ReleasedAt = releasedAt\<rparr>))))"

definition GetCommandSlot ::
  "go_error option \<Rightarrow> AuthorityStore \<Rightarrow> CommandID \<Rightarrow> CommandSlotRecord result" where
  "GetCommandSlot fault s cid =
     res_bind (NewCommandID cid) (\<lambda>ident. onConnection fault s (readCommandSlotOnConnection ident))"

definition CountLiveCommandSlots :: "go_error option \<Rightarrow> AuthorityStore \<Rightarrow> int result" where
  "CountLiveCommandSlots fault s = onConnection fault s (\<lambda>db. Inr (live_slots db))"

definition confirm_slot_body :: "CommandID \<Rightarrow> time \<Rightarrow> unit db_tx" where
  "confirm_slot_body cid now =
     tx_bind (tx_query (select_command cid)) (\<lambda>row.
     tx_bind (tx_guard (CommandState_IsTerminal (cmd_state row)) ErrCommandSlotNotReleasable) (\<lambda>_.
     tx_bind (release_slot cid now) (\<lambda>changed.
     if changed > 0 then tx_return ()
     else tx_query (\<lambda>db. res_guard (find_slot cid db \<noteq> None) ErrCommandSlotNotFound))))"

definition ConfirmCommandSlotRelease ::
  "go_error option \<Rightarrow> time \<Rightarrow> AuthorityStore \<Rightarrow> CommandID \<Rightarrow> unit result \<times> AuthorityStore" where
  "ConfirmCommandSlotRelease fault now s cid =
     (case NewCommandID cid of
        Inl e \<Rightarrow> (Inl e, s)
      | Inr ident \<Rightarrow> withImmediateTransaction fault s (confirm_slot_body ident now))"

section \<open>The claim\<close>

definition nextEligibleCommandOnConnection :: "SessionID \<Rightarrow> database \<Rightarrow> CommandRecord result" where
  "nextEligibleCommandOnConnection sid db =
     res_bind (select_session sid db) (\<lambda>row.
     if ses_state row \<noteq> SessionStateReady then Inl ErrCommandNotEligible
     else res_bind (readCommandOrderOnConnection sid db) (first_eligible db))"

record schedulerCandidate =
  cand_commandID :: string
  cand_sessionID :: string
  cand_createdAt :: time
  cand_ordinal :: int

text \<open>The order of the candidates: creation time, then session, ordinal and command.\<close>

definition candidate_key :: "schedulerCandidate \<Rightarrow> time \<times> string \<times> int \<times> string" where
  "candidate_key c = (cand_createdAt c, cand_sessionID c, cand_ordinal c, cand_commandID c)"

definition handed_off :: "bool \<Rightarrow> database \<Rightarrow> command_row \<Rightarrow> bool" where
  "handed_off requireOneOffHandoff db c \<longleftrightarrow>
     (requireOneOffHandoff \<longrightarrow>
       filter (\<lambda>j. job_command_id j = cmd_command_id c \<and> job_phase j \<noteq> JobPhaseAwaitingCommand)
         (exec_jobs db) = [])"

definition scheduler_candidates :: "bool \<Rightarrow> database \<Rightarrow> schedulerCandidate list result" where
  "scheduler_candidates requireOneOffHandoff db =
     res_bind (read_all (\<lambda>c.
         res_bind (res_as ErrCommandOrderCorrupt (parseStoredTime (cmd_created_at c))) (\<lambda>createdAt.
         Inr \<lparr>cand_commandID = cmd_command_id c, cand_sessionID = cmd_session_id c,
           cand_createdAt = createdAt, cand_ordinal = cmd_ordinal c\<rparr>))
       (filter (\<lambda>c. scheduler_eligible db c \<and> handed_off requireOneOffHandoff db c) (exec_commands db)))
       (\<lambda>candidates. Inr (sort_key candidate_key candidates))"

text \<open>The statements of a claim.\<close>

definition start_command ::
  "ControlledRestartPlan option \<Rightarrow> CommandID \<Rightarrow> SessionID \<Rightarrow> CommandRecord \<Rightarrow> time \<Rightarrow>
   (CommandRecord \<times> CommandEventRecord option) db_tx" where
  "start_command plan commandID sessionID candidate now =
     tx_bind (sql_insert slot_constraints exec_command_slots_update
       \<lparr>slt_command_id = commandID, slt_host_key = schedulerHostKey,
        slt_reserved_at = formatStoredTime now, slt_stop_confirmed_at = None, slt_released_at = None\<rparr>) (\<lambda>_.
     tx_bind (tx_query (nextEventSequenceOnConnection commandID)) (\<lambda>sequence.
     tx_bind (insertCommandEventOnConnection commandID sequence ''command_started'' [] 0 now) (\<lambda>_.
     tx_bind (sql_update command_check exec_commands exec_commands_update
       (\<lambda>r. cmd_command_id r = commandID \<and> cmd_state r = CommandStateQueued)
       (\<lambda>r. r\<lparr>cmd_state := CommandStateRunning, cmd_updated_at := formatStoredTime now\<rparr>)) (\<lambda>_.
     tx_bind (transitionSessionOnConnection sessionID SessionStateBusy ''command_started'' now) (\<lambda>_.
     tx_bind (case plan of
         None \<Rightarrow> tx_return ()
       | Some p \<Rightarrow>
           tx_bind (tx_guard (cr_CommandID candidate = cp_CommandID p \<and> cr_SessionID candidate = cp_SessionID p)
             ErrControlledRestartPlanCorrupt) (\<lambda>_.
           consumeControlledRestartPlanOnClaim p)) (\<lambda>_.
     tx_bind (tx_query (readCommandOnConnection commandID)) (\<lambda>started.
     tx_return (started, Some (lifecycle_event commandID sequence ''command_started'' now)))))))))"

fun claim_first ::
  "ControlledRestartPlan option \<Rightarrow> time \<Rightarrow> schedulerCandidate list \<Rightarrow>
   (CommandRecord \<times> CommandEventRecord option) db_tx" where
  "claim_first plan now [] = tx_fail ErrCommandNotEligible"
| "claim_first plan now (c # rest) =
     (if (case plan of None \<Rightarrow> False | Some p \<Rightarrow>
            cand_commandID c \<noteq> cp_CommandID p \<or> cand_sessionID c \<noteq> cp_SessionID p)
      then claim_first plan now rest
      else
        tx_bind (tx_lift (res_as ErrCommandOrderCorrupt (NewCommandID (cand_commandID c)))) (\<lambda>commandID.
        tx_bind (tx_lift (res_as ErrCommandOrderCorrupt (NewSessionID (cand_sessionID c)))) (\<lambda>sessionID.
        (\<lambda>db. case nextEligibleCommandOnConnection sessionID db of
           Inl e \<Rightarrow> if errors_Is e ErrCommandNotEligible then claim_first plan now rest db else Inl e
         | Inr candidate \<Rightarrow>
             if cr_CommandID candidate \<noteq> commandID then claim_first plan now rest db
             else start_command plan commandID sessionID candidate now db))))"

definition read_plan_for_claim :: "database \<Rightarrow> ControlledRestartPlan option result" where
  "read_plan_for_claim db =
     (case readControlledRestartPlanOnConnection db of
        Inr plan \<Rightarrow> Inr (Some plan)
      | Inl e \<Rightarrow> if errors_Is e ErrControlledRestartPlanNotFound then Inr None else Inl e)"

definition start_next_body ::
  "int \<Rightarrow> bool \<Rightarrow> time \<Rightarrow> (CommandRecord \<times> CommandEventRecord option) db_tx" where
  "start_next_body maxSlots requireOneOffHandoff now =
     tx_bind (tx_query read_plan_for_claim) (\<lambda>plan.
     tx_bind (tx_guard (case plan of None \<Rightarrow> True | Some p \<Rightarrow> cp_Activated p)
       ErrControlledRestartPlanNotActive) (\<lambda>_.
     tx_bind (tx_query (\<lambda>db. res_guard (live_slots db < maxSlots) ErrCommandSlotsFull)) (\<lambda>_.
     tx_bind (tx_query (scheduler_candidates requireOneOffHandoff)) (\<lambda>candidates.
     claim_first plan now candidates))))"

definition startNextEligibleCommand ::
  "go_error option \<Rightarrow> time \<Rightarrow> AuthorityStore \<Rightarrow> int \<Rightarrow> bool \<Rightarrow> CommandRecord result \<times> AuthorityStore" where
  "startNextEligibleCommand fault now s maxSlots requireOneOffHandoff =
     (let limit = (if maxSlots = 0 then DefaultRunningCommandLimit else maxSlots) in
      if limit < 1 then (Inl ErrCommandSlotsFull, s)
      else publish_committed (withImmediateTransaction fault s
        (start_next_body limit requireOneOffHandoff now)))"

definition StartNextEligibleCommand ::
  "go_error option \<Rightarrow> time \<Rightarrow> AuthorityStore \<Rightarrow> int \<Rightarrow> CommandRecord result \<times> AuthorityStore" where
  "StartNextEligibleCommand fault now s maxSlots = startNextEligibleCommand fault now s maxSlots False"

definition StartNextDispatchableCommand ::
  "go_error option \<Rightarrow> time \<Rightarrow> AuthorityStore \<Rightarrow> int \<Rightarrow> CommandRecord result \<times> AuthorityStore" where
  "StartNextDispatchableCommand fault now s maxSlots = startNextEligibleCommand fault now s maxSlots True"

end
