(* ===== verification/Command_Facts.thy ===== *)
theory Command_Facts
  imports Store_Scheduler Session_Lifecycle
begin

text \<open>
  What the command operations keep. The commands of a session are numbered from one; the events of
  a command are numbered from one without a gap, start with \<open>command_queued\<close>, and the event that
  records a terminal state is the last one, with its number in the command row. A slot belongs to a
  command that has been started and is given back only once that command is terminal.
\<close>

section \<open>Events of one command\<close>

definition event_valid :: "event_row \<Rightarrow> bool" where
  "event_valid e \<longleftrightarrow>
     validateStoredCommandEvent (evt_type e) (evt_sequence e) (evt_payload e) (evt_byte_count e) = Inr ()"

definition events_ok :: "command_row \<Rightarrow> event_row list \<Rightarrow> bool" where
  "events_ok c evs \<longleftrightarrow>
     evs \<noteq> [] \<and> numbered evt_sequence evs \<and> list_all event_valid evs \<and>
     list_all (\<lambda>e. \<not> isTerminalCommandEvent (evt_type e)) (butlast evs) \<and>
     list_all (\<lambda>e. evt_type e = ''command_started'' \<longrightarrow> evt_sequence e = 2) evs \<and>
     CommandState_Valid (cmd_state c) \<and>
     (cmd_state c = CommandStateQueued \<longrightarrow> length evs = 1) \<and>
     (if CommandState_IsTerminal (cmd_state c)
      then cmd_final_event_sequence c = Some (int (length evs)) \<and>
        commandEventTypeForState (cmd_state c) = Some (evt_type (last evs))
      else cmd_final_event_sequence c = None \<and> \<not> isTerminalCommandEvent (evt_type (last evs)))"

lemma terminal_event_type:
  "commandEventTypeForState s = Some ty \<Longrightarrow> isTerminalCommandEvent ty = CommandState_IsTerminal s"
  by (cases s) (auto simp: isTerminalCommandEvent_def CommandState_IsTerminal_def)

lemma started_event_type: "commandEventTypeForState s = Some ''command_started'' \<longleftrightarrow> s = CommandStateRunning"
  by (cases s) auto

lemma event_type_exists:
  "CommandState_Valid s \<Longrightarrow> s \<noteq> CommandStateQueued \<Longrightarrow> s \<noteq> CommandStateCancelling \<Longrightarrow>
   \<exists>ty. commandEventTypeForState s = Some ty"
  by (cases s) auto

lemma events_ok_snoc:
  assumes ok: "events_ok c evs" and live: "\<not> CommandState_IsTerminal (cmd_state c)"
    and e: "event_valid e" "evt_sequence e = int (length evs) + 1"
      "evt_type e = ''command_started'' \<longrightarrow> length evs = 1"
    and c': "CommandState_Valid (cmd_state c')" "cmd_state c' \<noteq> CommandStateQueued"
      "if CommandState_IsTerminal (cmd_state c')
       then cmd_final_event_sequence c' = Some (int (length evs) + 1) \<and>
         commandEventTypeForState (cmd_state c') = Some (evt_type e)
       else cmd_final_event_sequence c' = None \<and> \<not> isTerminalCommandEvent (evt_type e)"
  shows "events_ok c' (evs @ [e])"
proof -
  have "list_all (\<lambda>e. \<not> isTerminalCommandEvent (evt_type e)) evs"
    using ok live by (cases evs rule: rev_cases) (auto simp: events_ok_def)
  then show ?thesis using ok e c' by (auto simp: events_ok_def add.commute split: if_splits)
qed

text \<open>A change of state that writes no event.\<close>

lemma events_ok_same:
  "events_ok c evs \<Longrightarrow> \<not> CommandState_IsTerminal (cmd_state c) \<Longrightarrow>
   CommandState_Valid (cmd_state c') \<Longrightarrow> cmd_state c' \<noteq> CommandStateQueued \<Longrightarrow>
   \<not> CommandState_IsTerminal (cmd_state c') \<Longrightarrow>
   cmd_final_event_sequence c' = cmd_final_event_sequence c \<Longrightarrow> events_ok c' evs"
  by (auto simp: events_ok_def)

lemma events_ok_cong:
  "cmd_state c' = cmd_state c \<Longrightarrow> cmd_final_event_sequence c' = cmd_final_event_sequence c \<Longrightarrow>
   events_ok c' evs = events_ok c evs"
  by (simp add: events_ok_def)

text \<open>The columns a command keeps for ever.\<close>

definition command_columns where
  "command_columns r = (cmd_command_id r, cmd_session_id r, cmd_ordinal r, cmd_intent_ordinal r,
     cmd_hash_version r, cmd_hash r, cmd_script_bytes r, cmd_script_sha256 r, cmd_timeout_ns r,
     cmd_created_at r)"

section \<open>The invariant of the command tables\<close>

definition slot_ok :: "database \<Rightarrow> slot_row \<Rightarrow> bool" where
  "slot_ok db r \<longleftrightarrow>
     (case find_command (slt_command_id r) db of
        None \<Rightarrow> False
      | Some c \<Rightarrow> cmd_state c \<noteq> CommandStateQueued \<and>
          (live_slot r \<or> CommandState_IsTerminal (cmd_state c)))"

definition commands_wf :: "database \<Rightarrow> bool" where
  "commands_wf db \<longleftrightarrow>
     distinct (map cmd_command_id (exec_commands db)) \<and>
     (\<forall>sid. numbered cmd_ordinal (session_commands sid db)) \<and>
     cmd_session_id ` set (exec_commands db) \<subseteq> ses_session_id ` set (exec_sessions db) \<and>
     evt_command_id ` set (exec_command_events db) \<subseteq> cmd_command_id ` set (exec_commands db) \<and>
     (\<forall>c \<in> set (exec_commands db). events_ok c (command_events (cmd_command_id c) db)) \<and>
     distinct (map slt_command_id (exec_command_slots db)) \<and>
     list_all (slot_ok db) (exec_command_slots db)"

lemma commands_wf_empty [simp]: "commands_wf empty_database"
  by (simp add: commands_wf_def empty_database_def session_commands_def)

lemma commands_wf_cong:
  assumes "exec_commands db' = exec_commands db" "exec_command_events db' = exec_command_events db"
    and "exec_command_slots db' = exec_command_slots db"
    and "ses_session_id ` set (exec_sessions db) \<subseteq> ses_session_id ` set (exec_sessions db')"
    and "commands_wf db"
  shows "commands_wf db'"
proof -
  have "slot_ok db' = slot_ok db" by (simp add: fun_eq_iff slot_ok_def find_command_def assms(1))
  then show ?thesis
    using assms by (simp add: commands_wf_def session_commands_def command_events_def) blast
qed

lemma find_command_row:
  "commands_wf db \<Longrightarrow> find_command cid db = Some c \<longleftrightarrow> c \<in> set (exec_commands db) \<and> cmd_command_id c = cid"
  by (simp add: commands_wf_def find_command_def find_key_Some)

lemma find_command_events:
  "commands_wf db \<Longrightarrow> find_command cid db = Some c \<Longrightarrow> events_ok c (command_events cid db)"
  using find_command_row [of db cid c] by (auto simp: commands_wf_def)

lemma no_command_no_events:
  "commands_wf db \<Longrightarrow> cid \<notin> cmd_command_id ` set (exec_commands db) \<Longrightarrow> command_events cid db = []"
  by (auto simp: commands_wf_def command_events_def filter_empty_conv)

text \<open>A step of one command: its row is updated, at most one event is appended, the other commands
  and their events are untouched, and the slots of the command may be added or released.\<close>

lemma commands_wf_step:
  assumes wf: "commands_wf db" and c: "find_command cid db = Some c" and P: "P c"
    and f: "\<And>r. cmd_command_id (f r) = cmd_command_id r" "\<And>r. cmd_session_id (f r) = cmd_session_id r"
      "\<And>r. cmd_ordinal (f r) = cmd_ordinal r"
    and cmds: "exec_commands db' = update_rows (\<lambda>r. cmd_command_id r = cid \<and> P r) f (exec_commands db)"
    and evs: "exec_command_events db' = exec_command_events db @ new" "\<forall>e \<in> set new. evt_command_id e = cid"
    and ok: "events_ok (f c) (command_events cid db @ new)"
    and mono: "cmd_state (f c) \<noteq> CommandStateQueued"
      "CommandState_IsTerminal (cmd_state c) \<longrightarrow> CommandState_IsTerminal (cmd_state (f c))"
    and slots: "distinct (map slt_command_id (exec_command_slots db'))"
      "\<forall>r \<in> set (exec_command_slots db'). r \<in> set (exec_command_slots db) \<or>
         slt_command_id r = cid \<and> (live_slot r \<or> CommandState_IsTerminal (cmd_state (f c)))"
    and sess: "ses_session_id ` set (exec_sessions db) \<subseteq> ses_session_id ` set (exec_sessions db')"
  shows "commands_wf db'"
proof -
  let ?P = "\<lambda>r. cmd_command_id r = cid \<and> P r"
  have mem: "c \<in> set (exec_commands db)" "cmd_command_id c = cid"
    using c find_command_row [OF wf] by auto
  have dist: "distinct (map cmd_command_id (exec_commands db))" using wf by (simp add: commands_wf_def)
  have keys: "key ` set (exec_commands db') = key ` set (exec_commands db)"
    if "\<And>r. key (f r) = key r" for key :: "command_row \<Rightarrow> string"
    using map_update_rows [of key f, OF that] cmds by (metis list.set_map)
  have found: "find_command k db' = (if k = cid then Some (f c) else find_command k db)" for k
    using find_update_rows_same [of cmd_command_id f cid "exec_commands db" c P]
      find_update_rows_other [of cmd_command_id f k cid P "exec_commands db"] f c P
    by (simp add: find_command_def cmds)
  have "session_commands sid db' = update_rows ?P f (session_commands sid db)" for sid
    by (simp add: session_commands_def cmds filter_update_rows f)
  then have ord: "numbered cmd_ordinal (session_commands sid db')" for sid
    using wf f(3) by (simp add: commands_wf_def)
  have events: "command_events k db' = (if k = cid then command_events cid db @ new else command_events k db)"
    for k using evs(2) by (auto simp: command_events_def evs(1) filter_id_conv filter_empty_conv)
  have "events_ok r (command_events (cmd_command_id r) db')" if r: "r \<in> set (exec_commands db')" for r
  proof -
    obtain r0 where r0: "r0 \<in> set (exec_commands db)" "r = (if ?P r0 then f r0 else r0)"
      using r by (auto simp: cmds in_update_rows)
    show ?thesis
    proof (cases "cmd_command_id r0 = cid")
      case True
      then have "r0 = c" using distinct_key_eq [OF dist r0(1) mem(1)] mem(2) by simp
      then show ?thesis using r0 True P ok f(1) by (simp add: events)
    next
      case False
      then show ?thesis using r0 wf by (simp add: events commands_wf_def)
    qed
  qed
  moreover have "slot_ok db' r" if r: "r \<in> set (exec_command_slots db')" for r
  proof -
    have "slot_ok db r" if "r \<in> set (exec_command_slots db)"
      using that wf by (simp add: commands_wf_def list_all_iff)
    moreover have "r \<in> set (exec_command_slots db) \<or> slt_command_id r = cid \<and>
        (live_slot r \<or> CommandState_IsTerminal (cmd_state (f c)))"
      using slots(2) r by blast
    ultimately show ?thesis using mono c by (auto simp: slot_ok_def found split: option.splits)
  qed
  moreover have "cmd_session_id ` set (exec_commands db') \<subseteq> ses_session_id ` set (exec_sessions db')"
    using wf sess keys [of cmd_session_id, OF f(2)] by (simp add: commands_wf_def) blast
  moreover have "evt_command_id ` set (exec_command_events db') \<subseteq> cmd_command_id ` set (exec_commands db')"
    using wf evs mem keys [of cmd_command_id, OF f(1)] by (auto simp: commands_wf_def)
  ultimately show ?thesis
    using ord slots(1) dist f(1) cmds by (simp add: commands_wf_def list_all_iff)
qed

text \<open>A new command with its first event.\<close>

lemma commands_wf_accept:
  assumes wf: "commands_wf db" and fresh: "cmd_command_id c \<notin> cmd_command_id ` set (exec_commands db)"
    and ord: "cmd_ordinal c = int (length (session_commands (cmd_session_id c) db)) + 1"
    and sess: "cmd_session_id c \<in> ses_session_id ` set (exec_sessions db)"
    and ok: "events_ok c [e]" and e: "evt_command_id e = cmd_command_id c"
    and tabs: "exec_commands db' = exec_commands db @ [c]"
      "exec_command_events db' = exec_command_events db @ [e]"
      "exec_command_slots db' = exec_command_slots db" "exec_sessions db' = exec_sessions db"
  shows "commands_wf db'"
proof -
  have events: "command_events k db' = (if k = cmd_command_id c then [e] else command_events k db)" for k
    using no_command_no_events [OF wf fresh] e by (auto simp: command_events_def tabs)
  have found: "find_command k db' = (if k = cmd_command_id c then Some c else find_command k db)" for k
    using fresh find_key_None [of cmd_command_id "cmd_command_id c" "exec_commands db"]
    by (auto simp: find_command_def tabs find_append split: option.splits)
  have "numbered cmd_ordinal (session_commands sid db')" for sid
    using wf ord by (auto simp: commands_wf_def session_commands_def tabs)
  moreover have "events_ok r (command_events (cmd_command_id r) db')" if "r \<in> set (exec_commands db')" for r
    using that wf ok fresh by (auto simp: events tabs commands_wf_def image_iff)
  moreover have "slot_ok db' r" if "r \<in> set (exec_command_slots db)" for r
  proof -
    have "slot_ok db r" using that wf by (simp add: commands_wf_def list_all_iff)
    moreover have "find_command (cmd_command_id c) db = None"
      using fresh by (simp add: find_command_def find_key_None)
    ultimately show ?thesis by (auto simp: slot_ok_def found split: option.splits)
  qed
  ultimately show ?thesis
    using wf fresh sess e by (auto simp: commands_wf_def tabs list_all_iff)
qed

section \<open>What the statements touch\<close>

lemma nextEventSequence_Inr:
  "nextEventSequenceOnConnection cid db = Inr n \<Longrightarrow> n = int (length (command_events cid db)) + 1"
  by (auto simp: nextEventSequenceOnConnection_def Let_def split: if_splits)

lemma insertCommandEvent_Inr [tx_simps]:
  "insertCommandEventOnConnection cid n ty p k now db = Inr (u, db') \<longleftrightarrow>
     event_valid (event_row_of cid n ty p k now) \<and> event_constraints (event_row_of cid n ty p k now) db \<and>
     db' = exec_command_events_update (\<lambda>rows. rows @ [event_row_of cid n ty p k now]) db"
  by (auto simp: insertCommandEventOnConnection_def tx_simps event_valid_def event_row_of_def)

lemma select_command_Inr [tx_simps]: "select_command cid db = Inr c \<longleftrightarrow> find_command cid db = Some c"
  by (simp add: select_command_def split: option.splits)

lemma readCommand_row:
  assumes "readCommandOnConnection cid db = Inr rc"
  obtains c where "find_command cid db = Some c" "decode_command_row cid c = Inr rc"
    "cr_State rc = cmd_state c" "cr_SessionID rc = cmd_session_id c" "cr_CommandID rc = cid"
    "cr_Ordinal rc = cmd_ordinal c" "cr_FinalEventSequence rc = cmd_final_event_sequence c"
proof -
  obtain c where c: "find_command cid db = Some c" "decode_command_row cid c = Inr rc"
    using assms by (auto simp: readCommandOnConnection_def split: option.splits)
  then show thesis
    by (intro that [OF c]) (auto simp: decode_command_row_def tx_simps split: if_splits)
qed

lemma transitionSession_frame:
  assumes "transitionSessionOnConnection sid next_state reason now db = Inr (u, db')"
  obtains a b where "db' = db\<lparr>exec_sessions := a, exec_session_lifecycle := b\<rparr>"
    "map ses_session_id a = map ses_session_id (exec_sessions db)"
proof
  show "db' = db\<lparr>exec_sessions := exec_sessions db', exec_session_lifecycle := exec_session_lifecycle db'\<rparr>"
    using assms by (auto simp: transitionSessionOnConnection_def move_session_def update_session_def
        insert_lifecycle_def tx_simps Let_def)
  show "map ses_session_id (exec_sessions db') = map ses_session_id (exec_sessions db)"
    using assms by (auto simp: transitionSessionOnConnection_def move_session_def update_session_def
        insert_lifecycle_def tx_simps Let_def)
qed

lemma transitionSession_lookup:
  assumes run: "transitionSessionOnConnection sid next_state reason now db = Inr ((), db')"
  obtains row where "find_session sid db = Some row"
    "find_session sid db' = Some (row\<lparr>ses_state := next_state, ses_updated_at := formatStoredTime now\<rparr>)"
    "\<And>k. k \<noteq> sid \<Longrightarrow> find_session k db' = find_session k db"
proof -
  let ?f = "\<lambda>r. r\<lparr>ses_state := next_state, ses_updated_at := formatStoredTime now\<rparr>"
  obtain row where row: "find_session sid db = Some row"
    and db': "exec_sessions db' = update_rows (\<lambda>r. ses_session_id r = sid \<and> ses_state r = ses_state row) ?f (exec_sessions db)"
    using run by (auto simp: transitionSessionOnConnection_def move_session_def update_session_def
        insert_lifecycle_def tx_simps Let_def)
  show thesis
  proof (rule that [OF row])
    show "find_session sid db' = Some (?f row)"
      using row find_update_rows_same [of ses_session_id ?f sid "exec_sessions db" row "\<lambda>r. ses_state r = ses_state row"]
      by (simp add: find_session_def db')
    show "find_session k db' = find_session k db" if "k \<noteq> sid" for k
      using that find_update_rows_other [of ses_session_id ?f k sid "\<lambda>r. ses_state r = ses_state row" "exec_sessions db"]
      by (simp add: find_session_def db')
  qed
qed

lemma transitionSession_wf:
  "transitionSessionOnConnection sid next_state reason now db = Inr (u, db') \<Longrightarrow> sessions_wf db \<Longrightarrow> sessions_wf db'"
  by (auto simp: transitionSessionOnConnection_def Let_def tx_simps elim!: move_session_wf)

lemma transitionSession_evolves:
  "transitionSessionOnConnection sid next_state reason now db = Inr (u, db') \<Longrightarrow> session_evolves db db'"
  by (auto simp: transitionSessionOnConnection_def Let_def tx_simps identity_columns_def
      elim!: move_session_evolves)

lemma slot_released_simps [simp]:
  "slt_command_id (slot_released now r) = slt_command_id r"
  "\<not> live_slot (slot_released now r)"
  by (simp_all add: slot_released_def live_slot_def)

lemma terminal_columns_simps [simp]:
  "cmd_command_id (terminal_columns input n now r) = cmd_command_id r"
  "cmd_session_id (terminal_columns input n now r) = cmd_session_id r"
  "cmd_ordinal (terminal_columns input n now r) = cmd_ordinal r"
  "cmd_state (terminal_columns input n now r) = ct_NextState input"
  "cmd_final_event_sequence (terminal_columns input n now r) = Some n"
  by (simp_all add: terminal_columns_def)

lemma event_row_of_simps [simp]:
  "evt_command_id (event_row_of cid n ty p k now) = cid"
  "evt_sequence (event_row_of cid n ty p k now) = n"
  "evt_type (event_row_of cid n ty p k now) = ty"
  by (simp_all add: event_row_of_def)

lemma command_edge:
  assumes "CommandState_CanTransitionTo s t"
  shows "\<not> CommandState_IsTerminal s" "CommandState_Valid t" "t \<noteq> CommandStateQueued"
  using assms by (cases s; auto simp: CommandState_CanTransitionTo_def CommandState_IsTerminal_def)+

section \<open>Every operation keeps the invariant\<close>

text \<open>The event of a transition, with the row that records the new state.\<close>

lemma events_ok_transition:
  assumes wf: "commands_wf db" "find_command cid db = Some c"
    and edge: "CommandState_CanTransitionTo (cmd_state c) next_state"
    and ty: "commandEventTypeForState next_state = Some ty"
    and n: "n = int (length (command_events cid db)) + 1" "event_valid (event_row_of cid n ty p k now)"
    and c': "cmd_state c' = next_state" "cmd_final_event_sequence c' =
      (if CommandState_IsTerminal next_state then Some n else cmd_final_event_sequence c)"
  shows "events_ok c' (command_events cid db @ [event_row_of cid n ty p k now])"
proof (rule events_ok_snoc [OF find_command_events [OF wf]])
  have ok: "events_ok c (command_events cid db)" by (rule find_command_events [OF wf])
  note e = command_edge [OF edge]
  show "\<not> CommandState_IsTerminal (cmd_state c)" "CommandState_Valid (cmd_state c')"
    "cmd_state c' \<noteq> CommandStateQueued" using e c' by auto
  show "evt_type (event_row_of cid n ty p k now) = ''command_started'' \<longrightarrow> length (command_events cid db) = 1"
  proof
    assume "evt_type (event_row_of cid n ty p k now) = ''command_started''"
    then have "next_state = CommandStateRunning" using ty started_event_type by simp
    then have "cmd_state c = CommandStateQueued"
      using edge by (cases "cmd_state c") (simp_all add: CommandState_CanTransitionTo_def)
    then show "length (command_events cid db) = 1" using ok by (simp add: events_ok_def)
  qed
  show "if CommandState_IsTerminal (cmd_state c')
    then cmd_final_event_sequence c' = Some (int (length (command_events cid db)) + 1) \<and>
      commandEventTypeForState (cmd_state c') = Some (evt_type (event_row_of cid n ty p k now))
    else cmd_final_event_sequence c' = None \<and> \<not> isTerminalCommandEvent (evt_type (event_row_of cid n ty p k now))"
    using ok c' n ty terminal_event_type [OF ty] e(1) by (auto simp: events_ok_def)
qed (use n in simp_all)

text \<open>An output event of a running command.\<close>

definition append_allowed :: "CommandEventAppend \<Rightarrow> bool" where
  "append_allowed input \<longleftrightarrow> cea_Type input \<noteq> ''command_started'' \<and> \<not> isTerminalCommandEvent (cea_Type input)"

lemma append_event_effect:
  assumes "append_event_body input now db = Inr (x, db')"
  obtains c e where "find_command (cea_CommandID input) db = Some c"
    "cmd_state c = CommandStateRunning \<or> cmd_state c = CommandStateCancelling"
    "e = event_row_of (cea_CommandID input) (int (length (command_events (cea_CommandID input) db)) + 1)
      (cea_Type input) (cea_Payload input) (cea_ByteCount input) now"
    "event_valid e" "db' = exec_command_events_update (\<lambda>rows. rows @ [e]) db"
    "fst x = \<lparr>cer_CommandID = cea_CommandID input, cer_Sequence = evt_sequence e, cer_Type = cea_Type input,
      cer_Payload = cea_Payload input, cer_ByteCount = cea_ByteCount input, cer_OccurredAt = now\<rparr>"
    "snd x = Some (fst x)"
proof -
  let ?cid = "cea_CommandID input"
  from assms obtain rc n where rc: "readCommandOnConnection ?cid db = Inr rc"
    and st: "cr_State rc = CommandStateRunning \<or> cr_State rc = CommandStateCancelling"
    and n: "nextEventSequenceOnConnection ?cid db = Inr n"
    and ev: "event_valid (event_row_of ?cid n (cea_Type input) (cea_Payload input) (cea_ByteCount input) now)"
    and db': "db' = exec_command_events_update (\<lambda>rows. rows @
      [event_row_of ?cid n (cea_Type input) (cea_Payload input) (cea_ByteCount input) now]) db"
    and x: "fst x = \<lparr>cer_CommandID = ?cid, cer_Sequence = n, cer_Type = cea_Type input,
      cer_Payload = cea_Payload input, cer_ByteCount = cea_ByteCount input, cer_OccurredAt = now\<rparr>"
      "snd x = Some (fst x)"
    by (auto simp: append_event_body_def tx_simps Let_def)
  obtain c where "find_command ?cid db = Some c" "cr_State rc = cmd_state c" by (rule readCommand_row [OF rc])
  then show thesis
    using that st ev db' x nextEventSequence_Inr [OF n] by auto
qed

lemma append_event_wf: "append_allowed input \<Longrightarrow> tx_keeps commands_wf (append_event_body input now)"
proof (rule tx_keepsI)
  fix db x db'
  assume allowed: "append_allowed input" and wf: "commands_wf db"
    and run: "append_event_body input now db = Inr (x, db')"
  let ?cid = "cea_CommandID input"
  obtain c e where c: "find_command ?cid db = Some c"
    and st: "cmd_state c = CommandStateRunning \<or> cmd_state c = CommandStateCancelling"
    and e: "e = event_row_of ?cid (int (length (command_events ?cid db)) + 1) (cea_Type input)
      (cea_Payload input) (cea_ByteCount input) now"
    and ev: "event_valid e" and db': "db' = exec_command_events_update (\<lambda>rows. rows @ [e]) db"
    by (rule append_event_effect [OF run])
  have ok: "events_ok c (command_events ?cid db)" by (rule find_command_events [OF wf c])
  have "events_ok c (command_events ?cid db @ [e])"
    using ev ok allowed st
    by (intro events_ok_snoc [OF ok]) (auto simp: e append_allowed_def events_ok_def CommandState_IsTerminal_def)
  then show "commands_wf db'"
    using st c wf
    by (intro commands_wf_step [OF wf c, where f = "\<lambda>r. r" and P = "\<lambda>_. True" and new = "[e]"])
      (auto simp: db' e update_rows_def commands_wf_def)
qed

text \<open>The columns and events a transition writes.\<close>

definition transition_columns :: "CommandTransition \<Rightarrow> int \<Rightarrow> time \<Rightarrow> command_row \<Rightarrow> command_row" where
  "transition_columns input n now r =
     (if CommandState_IsTerminal (ct_NextState input) then terminal_columns input n now r
      else r\<lparr>cmd_state := ct_NextState input, cmd_updated_at := formatStoredTime now\<rparr>)"

definition transition_events :: "CommandTransition \<Rightarrow> int \<Rightarrow> time \<Rightarrow> event_row list" where
  "transition_events input n now =
     (case commandEventTypeForState (ct_NextState input) of
        None \<Rightarrow> [] | Some ty \<Rightarrow> [event_row_of (ct_CommandID input) n ty [] 0 now])"

lemma transition_columns_simps [simp]:
  "cmd_state (transition_columns input n now r) = ct_NextState input"
  "command_columns (transition_columns input n now r) = command_columns r"
  by (simp_all add: transition_columns_def terminal_columns_def command_columns_def)

lemma cancelling_not_terminal [simp]: "\<not> CommandState_IsTerminal CommandStateCancelling"
  by (simp add: CommandState_IsTerminal_def)

lemma events_update_id [simp]: "exec_command_events_update (\<lambda>rows. rows) db = db"
  by (cases db) simp

lemma transition_command_effect:
  assumes "transition_command_body input now db = Inr (x, db')"
  obtains c n where "find_command (ct_CommandID input) db = Some c"
    "CommandState_CanTransitionTo (cmd_state c) (ct_NextState input)"
    "n = int (length (command_events (ct_CommandID input) db)) + 1"
    "list_all event_valid (transition_events input n now)"
    "db' = exec_commands_update (update_rows (\<lambda>r. cmd_command_id r = ct_CommandID input) (transition_columns input n now))
      (exec_command_events_update (\<lambda>rows. rows @ transition_events input n now) db)"
    "readCommandOnConnection (ct_CommandID input) db' = Inr (fst x)"
    "snd x = (case commandEventTypeForState (ct_NextState input) of None \<Rightarrow> None
       | Some ty \<Rightarrow> Some (lifecycle_event (ct_CommandID input) n ty now))"
proof (cases "ct_NextState input = CommandStateCancelling")
  case True
  then show thesis
    using assms by (auto simp: transition_command_body_def update_command_def tx_simps Let_def
        transition_columns_def [abs_def] transition_events_def intro!: that)
next
  case False
  let ?cid = "ct_CommandID input"
  let ?f = "\<lambda>r :: command_row. r\<lparr>cmd_state := ct_NextState input, cmd_updated_at := formatStoredTime now\<rparr>"
  from assms False obtain c ty n k where c: "find_command ?cid db = Some c"
    and edge: "CommandState_CanTransitionTo (cmd_state c) (ct_NextState input)"
    and ty: "commandEventTypeForState (ct_NextState input) = Some ty"
    and n: "nextEventSequenceOnConnection ?cid db = Inr n"
    and ev: "event_valid (event_row_of ?cid n ty [] 0 now)"
    and upd: "(if CommandState_IsTerminal (ct_NextState input)
        then update_command ?cid (terminal_columns input n now) else update_command ?cid ?f)
      (exec_command_events_update (\<lambda>rows. rows @ [event_row_of ?cid n ty [] 0 now]) db) = Inr (k, db')"
    and x: "readCommandOnConnection ?cid db' = Inr (fst x)" "snd x = Some (lifecycle_event ?cid n ty now)"
    by (auto simp: transition_command_body_def tx_simps Let_def split: option.splits)
  have "db' = exec_commands_update (update_rows (\<lambda>r. cmd_command_id r = ?cid) (transition_columns input n now))
      (exec_command_events_update (\<lambda>rows. rows @ transition_events input n now) db)"
    using upd by (cases "CommandState_IsTerminal (ct_NextState input)")
      (simp_all add: update_command_def tx_simps transition_columns_def [abs_def] transition_events_def ty)
  then show thesis
    using c edge nextEventSequence_Inr [OF n] ev ty x by (intro that) (simp_all add: transition_events_def)
qed

lemma transition_command_wf: "tx_keeps commands_wf (transition_command_body input now)"
proof (rule tx_keepsI)
  fix db x db'
  assume wf: "commands_wf db" and run: "transition_command_body input now db = Inr (x, db')"
  let ?cid = "ct_CommandID input"
  obtain c n where c: "find_command ?cid db = Some c"
    and edge: "CommandState_CanTransitionTo (cmd_state c) (ct_NextState input)"
    and n: "n = int (length (command_events ?cid db)) + 1"
    and ev: "list_all event_valid (transition_events input n now)"
    and db': "db' = exec_commands_update (update_rows (\<lambda>r. cmd_command_id r = ?cid) (transition_columns input n now))
      (exec_command_events_update (\<lambda>rows. rows @ transition_events input n now) db)"
    by (rule transition_command_effect [OF run])
  note e = command_edge [OF edge]
  have fin: "cmd_final_event_sequence (transition_columns input n now c) =
      (if CommandState_IsTerminal (ct_NextState input) then Some n else cmd_final_event_sequence c)"
    by (simp add: transition_columns_def)
  have "events_ok (transition_columns input n now c) (command_events ?cid db @ transition_events input n now)"
  proof (cases "commandEventTypeForState (ct_NextState input)")
    case None
    then have "ct_NextState input = CommandStateCancelling" using event_type_exists e by fastforce
    then show ?thesis using e None fin
      by (simp add: transition_events_def) (intro events_ok_same [OF find_command_events [OF wf c]]; simp)
  next
    case (Some ty)
    then show ?thesis using ev fin by (simp add: transition_events_def) (rule events_ok_transition [OF wf c edge _ n]; simp)
  qed
  moreover have "cmd_command_id (transition_columns input n now r) = cmd_command_id r \<and>
      cmd_session_id (transition_columns input n now r) = cmd_session_id r \<and>
      cmd_ordinal (transition_columns input n now r) = cmd_ordinal r" for r
    by (simp add: transition_columns_def)
  ultimately show "commands_wf db'"
    using e wf by (intro commands_wf_step [OF wf c, where f = "transition_columns input n now" and P = "\<lambda>_. True"
          and new = "transition_events input n now"])
      (auto simp: db' commands_wf_def transition_events_def split: option.splits)
qed

end
