(* ===== verification/Command_Steps.thy ===== *)
theory Command_Steps
  imports Command_Facts
begin

text \<open>
  The remaining operations on commands keep the command invariant: acceptance, completion, the
  scheduler's claim, slot release and lost recovery. Each also keeps the session invariant and lets
  sessions evolve as the session operations do.
\<close>

section \<open>Acceptance\<close>

lemma read_order_length: "read_order_from n rows = Inr os \<Longrightarrow> length os = length rows"
  by (induction n rows arbitrary: os rule: read_order_from.induct) (auto simp: tx_simps split: if_splits)

lemma nextOrdinal_Inr:
  "nextCommandOrdinalOnConnection sid db = Inr n \<Longrightarrow> n = int (length (session_commands sid db)) + 1"
  by (auto simp: nextCommandOrdinalOnConnection_def readCommandOrderOnConnection_def tx_simps
      dest: read_order_length)

lemma queued_event_ok:
  "events_ok (command_row_of v n now) [event_row_of cid 1 ''command_queued'' [] 0 now']"
  by (auto simp: events_ok_def numbered_def event_valid_def validateStoredCommandEvent_def
      validCommandEventType_def isTerminalCommandEvent_def command_row_of_def event_row_of_def
      CommandState_IsTerminal_def)

lemma insert_command_effect:
  assumes "insert_command v controller now warning db = Inr (rc, db')"
  obtains n bindings where
    "n = int (length (session_commands (ca_SessionID v) db)) + 1"
    "command_constraints (command_row_of v n now) db"
    "db' = db\<lparr>exec_commands := exec_commands db @ [command_row_of v n now],
      exec_command_events := exec_command_events db @
        [event_row_of (ca_CommandID v) 1 ''command_queued'' [] 0 now],
      exec_idempotency := bindings\<rparr>"
proof -
  from assms obtain n where n: "nextCommandOrdinalOnConnection (ca_SessionID v) db = Inr n"
    and "command_constraints (command_row_of v n now) db"
    "db' = db\<lparr>exec_commands := exec_commands db @ [command_row_of v n now],
      exec_command_events := exec_command_events db @
        [event_row_of (ca_CommandID v) 1 ''command_queued'' [] 0 now],
      exec_idempotency := exec_idempotency db'\<rparr>"
    by (auto simp: insert_command_def recordIdempotencyOnConnection_def tx_simps split: if_splits)
  then show thesis using nextOrdinal_Inr [OF n] by (intro that)
qed

lemma insert_command_wf:
  assumes "insert_command v controller now warning db = Inr (rc, db')" "commands_wf db"
  shows "commands_wf db'"
proof -
  obtain n bindings where n: "n = int (length (session_commands (ca_SessionID v) db)) + 1"
    and con: "command_constraints (command_row_of v n now) db"
    and db': "db' = db\<lparr>exec_commands := exec_commands db @ [command_row_of v n now],
      exec_command_events := exec_command_events db @
        [event_row_of (ca_CommandID v) 1 ''command_queued'' [] 0 now],
      exec_idempotency := bindings\<rparr>"
    by (rule insert_command_effect [OF assms(1)])
  show ?thesis
    using con n by (intro commands_wf_accept [OF assms(2) _ _ _ queued_event_ok, of v n now "ca_CommandID v" now])
      (auto simp: command_constraints_def command_row_of_def db')
qed

text \<open>The two ways an acceptance succeeds.\<close>

lemma accept_command_cases:
  assumes "accept_command_body v now runtime db = Inr (((rc, dup), saved), db')"
  obtains (duplicate) row controller existing found db1 where "dup"
      "find_session (ca_SessionID v) db = Some row"
      "NewControllerIdentity (ses_controller_type row) (ses_controller_id row) = Inr controller"
      "lookupIdempotencyOnConnection controller submitCommandOperation (ca_IdempotencyKey v) now db =
         Inr (Some existing, db1)"
      "CompareIdempotency (idr_Hash existing) (ca_RequestHash v) \<noteq> IdempotencyComparisonConflict"
      "readCommandOnConnection (idr_ResourceID existing) db1 = Inr found"
      "rc = found\<lparr>cr_IdempotencyWarning := idr_DeduplicationWarning existing\<rparr>"
      "insertOptionalAuditOnConnection (ca_Audit v) db1 = Inr (saved, db')"
  | (fresh) row controller warning db1 db2 where "\<not> dup"
      "find_session (ca_SessionID v) db = Some row"
      "NewControllerIdentity (ses_controller_type row) (ses_controller_id row) = Inr controller"
      "lookupIdempotencyOnConnection controller submitCommandOperation (ca_IdempotencyKey v) now db =
         Inr (None, db1)"
      "ses_state row = SessionStateReady \<or> ses_state row = SessionStateBusy"
      "insert_command v controller now warning db1 = Inr (rc, db2)"
      "insertOptionalAuditOnConnection (ca_Audit v) db2 = Inr (saved, db')"
proof -
  obtain row controller found db1 where
    pre: "find_session (ca_SessionID v) db = Some row"
      "NewControllerIdentity (ses_controller_type row) (ses_controller_id row) = Inr controller"
    and look: "lookupIdempotencyOnConnection controller submitCommandOperation (ca_IdempotencyKey v) now db =
      Inr (found, db1)"
    and rest: "(case found of
       Some existing \<Rightarrow>
         tx_bind (tx_guard (CompareIdempotency (idr_Hash existing) (ca_RequestHash v) \<noteq>
           IdempotencyComparisonConflict) ErrIdempotencyConflict) (\<lambda>_.
         tx_bind (tx_lift (NewCommandID (idr_ResourceID existing))) (\<lambda>existingID.
         tx_bind (tx_query (readCommandOnConnection existingID)) (\<lambda>command.
         tx_bind (insertOptionalAuditOnConnection (ca_Audit v)) (\<lambda>saved.
         tx_return ((command\<lparr>cr_IdempotencyWarning := idr_DeduplicationWarning existing\<rparr>, True), saved)))))
     | None \<Rightarrow>
         tx_bind (tx_query (idempotencyExpiryWarningOnConnection controller submitCommandOperation
           (ca_IdempotencyKey v) now)) (\<lambda>warning.
         tx_bind (tx_guard (ses_state row = SessionStateReady \<or> ses_state row = SessionStateBusy)
           ErrCommandSessionState) (\<lambda>_.
         tx_bind (insert_command v controller now warning) (\<lambda>created.
         tx_bind (insertOptionalAuditOnConnection (ca_Audit v)) (\<lambda>saved.
         tx_return ((created, False), saved)))))) db1 = Inr (((rc, dup), saved), db')"
    using assms by (auto simp: accept_command_body_def tx_simps)
  show thesis
  proof (cases found)
    case None
    with pre look rest show thesis by (auto simp: tx_simps intro!: fresh)
  next
    case (Some existing)
    with pre look rest show thesis by (auto simp: tx_simps intro!: duplicate)
  qed
qed

lemma lookupIdempotency_commands_wf:
  assumes "lookupIdempotencyOnConnection c operation key now db = Inr (found, db')" "commands_wf db"
  shows "commands_wf db'"
  by (rule lookupIdempotency_frame [OF assms(1)]) (rule commands_wf_cong [OF _ _ _ _ assms(2)]; simp)

lemma insertOptionalAudit_commands_wf:
  assumes "insertOptionalAuditOnConnection r db = Inr (saved, db')" "commands_wf db"
  shows "commands_wf db'"
  by (rule insertOptionalAudit_obtain [OF assms(1)]) (rule commands_wf_cong [OF _ _ _ _ assms(2)]; simp)

lemma insert_command_sessions:
  assumes "insert_command v controller now warning db = Inr (rc, db')"
  shows "exec_sessions db' = exec_sessions db" "exec_session_lifecycle db' = exec_session_lifecycle db"
    "exec_capacity_reservations db' = exec_capacity_reservations db"
  by (rule insert_command_effect [OF assms]; simp)+

section \<open>The whole invariant\<close>

definition store_wf :: "database \<Rightarrow> bool" where
  "store_wf db \<longleftrightarrow> sessions_wf db \<and> commands_wf db"

lemma accept_command_wf: "tx_keeps store_wf (accept_command_body v now runtime)"
proof (rule tx_keepsI)
  fix db x db'
  assume wf: "store_wf db" and run: "accept_command_body v now runtime db = Inr (x, db')"
  obtain rc dup saved where x: "x = ((rc, dup), saved)" by (metis surj_pair)
  from run [unfolded x] show "store_wf db'"
  proof (cases rule: accept_command_cases)
    case duplicate
    then show ?thesis
      by (meson wf store_wf_def lookupIdempotency_wf lookupIdempotency_commands_wf insertOptionalAudit_wf
          insertOptionalAudit_commands_wf)
  next
    case (fresh row controller warning db1 db2)
    have "store_wf db1"
      using wf fresh(4) lookupIdempotency_wf lookupIdempotency_commands_wf by (meson store_wf_def)
    then have "store_wf db2"
      using insert_command_wf [OF fresh(6)] sessions_wf_cong [OF insert_command_sessions [OF fresh(6)]]
      by (simp add: store_wf_def)
    then show ?thesis
      using fresh(7) insertOptionalAudit_wf insertOptionalAudit_commands_wf by (meson store_wf_def)
  qed
qed

lemma accept_command_evolves:
  assumes "accept_command_body v now runtime db = Inr (x, db')"
  shows "session_evolves db db'"
proof -
  obtain rc dup saved where "x = ((rc, dup), saved)" by (metis surj_pair)
  with assms have "accept_command_body v now runtime db = Inr (((rc, dup), saved), db')" by simp
  then show ?thesis
  proof (cases rule: accept_command_cases)
    case duplicate
    then show ?thesis by (meson session_evolves_trans lookupIdempotency_evolves insertOptionalAudit_evolves)
  next
    case (fresh row controller warning db1 db2)
    have "session_evolves db1 db2"
      by (rule session_evolves_cong [OF insert_command_sessions(1,2) [OF fresh(6)]])
    then show ?thesis
      using fresh by (meson session_evolves_trans lookupIdempotency_evolves insertOptionalAudit_evolves)
  qed
qed

section \<open>Completion\<close>

definition slots_released_for :: "CommandID \<Rightarrow> time \<Rightarrow> database \<Rightarrow> database" where
  "slots_released_for cid now = exec_command_slots_update
     (update_rows (\<lambda>r. slt_command_id r = cid \<and> slt_stop_confirmed_at r = None) (slot_released now))"

lemma option_row_Inr: "(case m of None \<Rightarrow> Inl e | Some x \<Rightarrow> Inr x) = Inr y \<longleftrightarrow> m = Some y"
  by (cases m) auto

lemma release_slot_Inr:
  "release_slot cid now db = Inr (n, db') \<Longrightarrow> db' = slots_released_for cid now db"
  by (auto simp: release_slot_def slots_released_for_def tx_simps)

text \<open>The command after its terminal event and columns are written.\<close>

definition completed_db :: "CommandTransition \<Rightarrow> int \<Rightarrow> string \<Rightarrow> time \<Rightarrow> database \<Rightarrow> database" where
  "completed_db input n ty now db =
     exec_commands_update (update_rows (\<lambda>r. cmd_command_id r = ct_CommandID input) (terminal_columns input n now))
       (exec_command_events_update (\<lambda>rows. rows @ [event_row_of (ct_CommandID input) n ty [] 0 now]) db)"

lemma complete_command_effect:
  assumes "complete_command_body input nss reason rel now db = Inr (x, db')"
  obtains c n ty db3 where "find_command (ct_CommandID input) db = Some c"
    "cmd_state c = CommandStateRunning \<or> cmd_state c = CommandStateCancelling"
    "CommandState_CanTransitionTo (cmd_state c) (ct_NextState input)"
    "commandEventTypeForState (ct_NextState input) = Some ty"
    "n = int (length (command_events (ct_CommandID input) db)) + 1"
    "event_valid (event_row_of (ct_CommandID input) n ty [] 0 now)"
    "db3 = completed_db input n ty now db \<or>
     transitionSessionOnConnection (cmd_session_id c) nss reason now (completed_db input n ty now db) = Inr ((), db3)"
    "db' = (if rel then slots_released_for (ct_CommandID input) now db3 else db3)"
    "map_option ses_state (find_session (cmd_session_id c) db3) = Some nss"
    "rel \<longrightarrow> filter (\<lambda>r. slt_command_id r = ct_CommandID input \<and> slt_stop_confirmed_at r = None)
      (exec_command_slots db) \<noteq> []"
    "readCommandOnConnection (ct_CommandID input) db' = Inr (fst x)"
    "snd x = Some (lifecycle_event (ct_CommandID input) n ty now)"
proof -
  let ?cid = "ct_CommandID input"
  obtain ty where ty: "commandEventTypeForState (ct_NextState input) = Some ty"
    using assms by (cases "commandEventTypeForState (ct_NextState input)")
      (auto simp: complete_command_body_def tx_simps Let_def)
  from assms obtain rc n and row :: session_row and db3 where rc: "readCommandOnConnection ?cid db = Inr rc"
    and st: "cr_State rc = CommandStateRunning \<or> cr_State rc = CommandStateCancelling"
    and edge: "CommandState_CanTransitionTo (cr_State rc) (ct_NextState input)"
    and n: "nextEventSequenceOnConnection ?cid db = Inr n"
    and ev: "event_valid (event_row_of ?cid n ty [] 0 now)"
    and row: "find_session (cr_SessionID rc) (completed_db input n ty now db) = Some row"
    and ses: "(if ses_state row \<noteq> nss then transitionSessionOnConnection (cr_SessionID rc) nss reason now
      else tx_return ()) (completed_db input n ty now db) = Inr ((), db3)"
    and slot: "(if rel then tx_bind (release_slot ?cid now) (\<lambda>changed.
        if changed = 0 then (\<lambda>db. if find_slot ?cid db = None then Inl ErrCommandSlotNotFound
          else Inl ErrCommandSlotNotReleasable) else tx_return ())
      else tx_return ()) db3 = Inr ((), db')"
    and x: "readCommandOnConnection ?cid db' = Inr (fst x)" "snd x = Some (lifecycle_event ?cid n ty now)"
    by (cases x, simp add: complete_command_body_def update_command_def completed_db_def [symmetric] ty
        option_row_Inr tx_simps Let_def) blast
  obtain c where c: "find_command ?cid db = Some c" "cr_State rc = cmd_state c" "cr_SessionID rc = cmd_session_id c"
    by (rule readCommand_row [OF rc])
  have "db' = (if rel then slots_released_for ?cid now db3 else db3)"
    using slot by (cases rel) (auto simp: tx_simps split: if_splits dest: release_slot_Inr)
  moreover have "db3 = completed_db input n ty now db \<or> transitionSessionOnConnection (cmd_session_id c) nss reason now
      (completed_db input n ty now db) = Inr ((), db3)"
    using ses c(3) by (cases "ses_state row = nss") (simp_all add: tx_simps)
  moreover have "map_option ses_state (find_session (cmd_session_id c) db3) = Some nss"
    using ses row c(3) by (cases "ses_state row = nss") (auto simp: tx_simps elim: transitionSession_lookup)
  moreover have "exec_command_slots db3 = exec_command_slots db"
    using ses by (auto simp: completed_db_def tx_simps split: if_splits elim!: transitionSession_frame)
  then have "rel \<longrightarrow> filter (\<lambda>r. slt_command_id r = ?cid \<and> slt_stop_confirmed_at r = None) (exec_command_slots db) \<noteq> []"
    using slot by (auto simp: tx_simps release_slot_def split: if_splits)
  ultimately show thesis
    using c st edge ty ev nextEventSequence_Inr [OF n] x by (intro that) simp_all
qed

text \<open>What follows a change of the commands and leaves them alone: a session transition or none.\<close>

lemma session_step_frame:
  assumes "db3 = db2 \<or> transitionSessionOnConnection sid nss reason now db2 = Inr ((), db3)"
  shows "exec_commands db3 = exec_commands db2" "exec_command_events db3 = exec_command_events db2"
    "exec_command_slots db3 = exec_command_slots db2"
    "ses_session_id ` set (exec_sessions db3) = ses_session_id ` set (exec_sessions db2)"
    "sessions_wf db2 \<Longrightarrow> sessions_wf db3" "session_evolves db2 db3"
proof -
  show "exec_commands db3 = exec_commands db2" "exec_command_events db3 = exec_command_events db2"
    "exec_command_slots db3 = exec_command_slots db2"
    "ses_session_id ` set (exec_sessions db3) = ses_session_id ` set (exec_sessions db2)"
    using assms by (auto elim!: transitionSession_frame simp: list.set_map [symmetric] simp del: set_map list.set_map)
  show "sessions_wf db2 \<Longrightarrow> sessions_wf db3" using assms transitionSession_wf by blast
  show "session_evolves db2 db3" using assms transitionSession_evolves by auto
qed

lemma completed_db_tables [simp]:
  "exec_command_slots (completed_db input n ty now db) = exec_command_slots db"
  "exec_sessions (completed_db input n ty now db) = exec_sessions db"
  "exec_session_lifecycle (completed_db input n ty now db) = exec_session_lifecycle db"
  "exec_capacity_reservations (completed_db input n ty now db) = exec_capacity_reservations db"
  by (simp_all add: completed_db_def)

lemma complete_command_wf:
  assumes fin: "CommandState_IsTerminal (ct_NextState input)"
  shows "tx_keeps store_wf (complete_command_body input nss reason rel now)"
proof (rule tx_keepsI)
  fix db x db'
  assume wf: "store_wf db" and run: "complete_command_body input nss reason rel now db = Inr (x, db')"
  let ?cid = "ct_CommandID input"
  have cwf: "commands_wf db" and swf: "sessions_wf db" using wf by (simp_all add: store_wf_def)
  obtain c n ty db3 where c: "find_command ?cid db = Some c"
    and edge: "CommandState_CanTransitionTo (cmd_state c) (ct_NextState input)"
    and ty: "commandEventTypeForState (ct_NextState input) = Some ty"
    and n: "n = int (length (command_events ?cid db)) + 1" and ev: "event_valid (event_row_of ?cid n ty [] 0 now)"
    and step: "db3 = completed_db input n ty now db \<or> transitionSessionOnConnection (cmd_session_id c) nss reason
      now (completed_db input n ty now db) = Inr ((), db3)"
    and db': "db' = (if rel then slots_released_for ?cid now db3 else db3)"
    by (rule complete_command_effect [OF run])
  note frame = session_step_frame [OF step]
  have "events_ok (terminal_columns input n now c) (command_events ?cid db @ [event_row_of ?cid n ty [] 0 now])"
    using fin by (intro events_ok_transition [OF cwf c edge ty n ev]) simp_all
  then have "commands_wf db'"
    using fin cwf frame(1-4)
    by (intro commands_wf_step [OF cwf c, where f = "terminal_columns input n now" and P = "\<lambda>_. True"])
      (auto simp: db' completed_db_def slots_released_for_def commands_wf_def CommandState_IsTerminal_def in_update_rows)
  moreover have "sessions_wf (completed_db input n ty now db)"
    using swf sessions_wf_cong [of "completed_db input n ty now db" db] by simp
  then have "sessions_wf db'"
    using frame(5) sessions_wf_cong [of db' db3] by (simp add: db' slots_released_for_def)
  ultimately show "store_wf db'" by (simp add: store_wf_def)
qed

lemma complete_command_evolves:
  assumes "complete_command_body input nss reason rel now db = Inr (x, db')"
  shows "session_evolves db db'"
proof -
  obtain c :: command_row and n ty db3 where step: "db3 = completed_db input n ty now db \<or>
      transitionSessionOnConnection (cmd_session_id c) nss reason now (completed_db input n ty now db) = Inr ((), db3)"
    and db': "db' = (if rel then slots_released_for (ct_CommandID input) now db3 else db3)"
    by (rule complete_command_effect [OF assms])
  have "session_evolves db (completed_db input n ty now db)" by (rule session_evolves_cong) simp_all
  moreover have "session_evolves db3 db'" by (rule session_evolves_cong) (simp_all add: db' slots_released_for_def)
  ultimately show ?thesis using session_step_frame(6) [OF step] session_evolves_trans by blast
qed

section \<open>The scheduler's claim\<close>

lemma consume_plan_frame:
  assumes "consumeControlledRestartPlanOnClaim p db = Inr (u, db')"
  obtains a b where "db' = db\<lparr>exec_controlled_restart_plans := a,
    exec_controlled_restart_plan_lost_pairs := b\<rparr>"
proof (rule that)
  show "db' = db\<lparr>exec_controlled_restart_plans := exec_controlled_restart_plans db',
      exec_controlled_restart_plan_lost_pairs := exec_controlled_restart_plan_lost_pairs db'\<rparr>"
    using assms by (auto simp: consumeControlledRestartPlanOnClaim_def
        deleteControlledRestartPlanOnConnection_def tx_simps)
qed

lemma consume_plan_pairs:
  "consumeControlledRestartPlanOnClaim p db = Inr (u, db') \<Longrightarrow> exec_controlled_restart_plan_lost_pairs db' = []"
  by (auto simp: consumeControlledRestartPlanOnClaim_def deleteControlledRestartPlanOnConnection_def tx_simps)

text \<open>The command, its slot and its event after a claim.\<close>

definition new_slot :: "CommandID \<Rightarrow> time \<Rightarrow> slot_row" where
  "new_slot cid now = \<lparr>slt_command_id = cid, slt_host_key = schedulerHostKey,
     slt_reserved_at = formatStoredTime now, slt_stop_confirmed_at = None, slt_released_at = None\<rparr>"

definition set_running :: "time \<Rightarrow> command_row \<Rightarrow> command_row" where
  "set_running now r = r\<lparr>cmd_state := CommandStateRunning, cmd_updated_at := formatStoredTime now\<rparr>"

definition claimed_db :: "CommandID \<Rightarrow> int \<Rightarrow> time \<Rightarrow> database \<Rightarrow> database" where
  "claimed_db cid n now db =
     exec_commands_update (update_rows (\<lambda>r. cmd_command_id r = cid \<and> cmd_state r = CommandStateQueued) (set_running now))
       (exec_command_events_update (\<lambda>rows. rows @ [event_row_of cid n ''command_started'' [] 0 now])
         (exec_command_slots_update (\<lambda>rows. rows @ [new_slot cid now]) db))"

lemma claimed_db_tables [simp]:
  "exec_sessions (claimed_db cid n now db) = exec_sessions db"
  "exec_session_lifecycle (claimed_db cid n now db) = exec_session_lifecycle db"
  "exec_capacity_reservations (claimed_db cid n now db) = exec_capacity_reservations db"
  "exec_command_slots (claimed_db cid n now db) = exec_command_slots db @ [new_slot cid now]"
  "exec_command_events (claimed_db cid n now db) =
     exec_command_events db @ [event_row_of cid n ''command_started'' [] 0 now]"
  "exec_commands (claimed_db cid n now db) =
     update_rows (\<lambda>r. cmd_command_id r = cid \<and> cmd_state r = CommandStateQueued) (set_running now) (exec_commands db)"
  by (simp_all add: claimed_db_def)

lemma set_running_simps [simp]:
  "cmd_command_id (set_running now r) = cmd_command_id r"
  "cmd_session_id (set_running now r) = cmd_session_id r"
  "cmd_ordinal (set_running now r) = cmd_ordinal r"
  "cmd_state (set_running now r) = CommandStateRunning"
  "cmd_final_event_sequence (set_running now r) = cmd_final_event_sequence r"
  by (simp_all add: set_running_def)

lemma new_slot_simps [simp]:
  "slt_command_id (new_slot cid now) = cid" "live_slot (new_slot cid now)"
  "slt_host_key (new_slot cid now) = schedulerHostKey"
  by (simp_all add: new_slot_def live_slot_def)

lemma start_command_effect:
  assumes "start_command plan cid sid candidate now db = Inr ((rc, ev), db')"
  obtains n db3 a b where "slot_constraints (new_slot cid now) db"
    "n = int (length (command_events cid db)) + 1"
    "event_valid (event_row_of cid n ''command_started'' [] 0 now)"
    "transitionSessionOnConnection sid SessionStateBusy ''command_started'' now (claimed_db cid n now db) = Inr ((), db3)"
    "db' = db3\<lparr>exec_controlled_restart_plans := a, exec_controlled_restart_plan_lost_pairs := b\<rparr>"
    "readCommandOnConnection cid db' = Inr rc"
    "ev = Some (lifecycle_event cid n ''command_started'' now)"
    "plan = None \<Longrightarrow> db' = db3"
    "\<And>p. plan = Some p \<Longrightarrow> cp_CommandID p = cr_CommandID candidate"
    "\<And>p. plan = Some p \<Longrightarrow> exec_controlled_restart_plan_lost_pairs db' = []"
proof -
  from assms obtain n db3 where slot: "slot_constraints (new_slot cid now) db"
    and n: "nextEventSequenceOnConnection cid (exec_command_slots_update (\<lambda>rows. rows @ [new_slot cid now]) db) = Inr n"
    and ev: "event_valid (event_row_of cid n ''command_started'' [] 0 now)"
    and ses: "transitionSessionOnConnection sid SessionStateBusy ''command_started'' now (claimed_db cid n now db) =
      Inr ((), db3)"
    and plan: "(case plan of None \<Rightarrow> tx_return ()
       | Some p \<Rightarrow> tx_bind (tx_guard (cr_CommandID candidate = cp_CommandID p \<and> cr_SessionID candidate = cp_SessionID p)
           ErrControlledRestartPlanCorrupt) (\<lambda>_. consumeControlledRestartPlanOnClaim p)) db3 = Inr ((), db')"
    and rc: "readCommandOnConnection cid db' = Inr rc"
    and e: "ev = Some (lifecycle_event cid n ''command_started'' now)"
    by (simp add: start_command_def new_slot_def [symmetric] set_running_def [symmetric]
        claimed_db_def [symmetric] tx_simps) blast
  obtain a b where "db' = db3\<lparr>exec_controlled_restart_plans := a, exec_controlled_restart_plan_lost_pairs := b\<rparr>"
  proof (cases plan)
    case None
    then have "db' = db3\<lparr>exec_controlled_restart_plans := exec_controlled_restart_plans db3,
        exec_controlled_restart_plan_lost_pairs := exec_controlled_restart_plan_lost_pairs db3\<rparr>"
      using plan by (simp add: tx_simps)
    then show thesis by (rule that)
  next
    case (Some p)
    then have "consumeControlledRestartPlanOnClaim p db3 = Inr ((), db')" using plan by (simp add: tx_simps)
    then show thesis by (rule consume_plan_frame) (rule that)
  qed
  moreover have "n = int (length (command_events cid db)) + 1"
    using nextEventSequence_Inr [OF n] by (simp add: command_events_def)
  moreover have "cp_CommandID p = cr_CommandID candidate \<and> exec_controlled_restart_plan_lost_pairs db' = []"
    if "plan = Some p" for p
    using plan that by (auto simp: tx_simps dest: consume_plan_pairs)
  ultimately show thesis
    using slot ev ses rc e plan by (intro that) (simp_all add: tx_simps)
qed

end
