(* ===== verification/Scheduler_Facts.thy ===== *)
theory Scheduler_Facts
  imports Command_Steps
begin

text \<open>
  The scheduler: which command is eligible, what a claim leaves behind, that every claim keeps the
  invariants of sessions and commands, and that slots and recovery releases do.
\<close>

section \<open>Publication leaves the database alone\<close>

lemma st_db_at_subscription [simp]: "st_db (at_subscription p f s) = st_db s"
  by (simp add: at_subscription_def removeSubscriber_def Let_def split: prod.split)

lemma st_db_publishCommandEvent [simp]: "st_db (publishCommandEvent event s) = st_db s"
proof -
  have "st_db (foldl (\<lambda>s p. at_subscription p (publish event) s) s ps) = st_db s" for ps
    by (induction ps arbitrary: s) simp_all
  then show ?thesis by (simp add: publishCommandEvent_def)
qed

lemma st_db_publish_committed [simp]: "st_db (snd (publish_committed r)) = st_db (snd r)"
  by (auto simp: publish_committed_def split: prod.splits sum.splits option.splits)

section \<open>Eligibility\<close>

definition order_row :: "command_row \<Rightarrow> commandOrderRow" where
  "order_row r = \<lparr>cor_CommandID = cmd_command_id r, cor_Ordinal = cmd_ordinal r, cor_State = cmd_state r\<rparr>"

lemma order_row_simps [simp]:
  "cor_CommandID (order_row r) = cmd_command_id r" "cor_State (order_row r) = cmd_state r"
  by (simp_all add: order_row_def)

lemma read_order_rows: "read_order_from n rows = Inr os \<Longrightarrow> os = map order_row rows"
  by (induction n rows arbitrary: os rule: read_order_from.induct)
    (auto simp: tx_simps order_row_def split: if_splits)

lemma numbered_sorted: "numbered c rows \<Longrightarrow> sorted (map c rows)"
  by (simp add: numbered_def sorted_map sorted_wrt_map del: upt_Suc)

lemma session_commands_ordered:
  "commands_wf db \<Longrightarrow> sort_key cmd_ordinal (session_commands sid db) = session_commands sid db"
  by (simp add: commands_wf_def numbered_sorted sort_key_id_if_sorted)

lemma readCommandOrder_Inr:
  "commands_wf db \<Longrightarrow> readCommandOrderOnConnection sid db = Inr os \<Longrightarrow>
   os = map order_row (session_commands sid db)"
  by (auto simp: readCommandOrderOnConnection_def session_commands_ordered dest: read_order_rows)

lemma first_eligible_Inr:
  "first_eligible db os = Inr rc \<Longrightarrow>
   \<exists>pre r post. os = pre @ r # post \<and> list_all (\<lambda>p. CommandState_IsTerminal (cor_State p)) pre \<and>
     cor_State r = CommandStateQueued \<and> readCommandOnConnection (cor_CommandID r) db = Inr rc"
proof (induction db os rule: first_eligible.induct)
  case (1 db)
  then show ?case by simp
next
  case (2 db r rest)
  show ?case
  proof (cases "CommandState_IsTerminal (cor_State r)")
    case True
    with 2 obtain pre q post where "rest = pre @ q # post" "list_all (\<lambda>p. CommandState_IsTerminal (cor_State p)) pre"
      "cor_State q = CommandStateQueued" "readCommandOnConnection (cor_CommandID q) db = Inr rc" by auto
    then show ?thesis using True by (intro exI [of _ "r # pre"] exI [of _ q] exI [of _ post]) simp
  next
    case False
    then have "cor_State r = CommandStateQueued \<and> readCommandOnConnection (cor_CommandID r) db = Inr rc"
      using 2(2) by (cases "cor_State r") (simp_all add: CommandState_IsTerminal_def)
    then show ?thesis by (intro exI [of _ "[]"] exI [of _ r] exI [of _ rest]) simp
  qed
qed

text \<open>The eligible command of a session: the first of its commands, in order, that is not terminal,
  provided that it is queued.\<close>

definition eligible :: "SessionID \<Rightarrow> database \<Rightarrow> command_row \<Rightarrow> bool" where
  "eligible sid db c \<longleftrightarrow>
     (\<exists>pre post. session_commands sid db = pre @ c # post \<and>
        list_all (\<lambda>p. CommandState_IsTerminal (cmd_state p)) pre) \<and> cmd_state c = CommandStateQueued"

lemma nextEligible_Inr:
  assumes wf: "commands_wf db" and run: "nextEligibleCommandOnConnection sid db = Inr rc"
  obtains c row where "find_command (cr_CommandID rc) db = Some c" "eligible sid db c" "cmd_session_id c = sid"
    "find_session sid db = Some row" "ses_state row = SessionStateReady"
    "decode_command_row (cmd_command_id c) c = Inr rc"
proof -
  from run obtain row os where row: "find_session sid db = Some row" "ses_state row = SessionStateReady"
    and os: "readCommandOrderOnConnection sid db = Inr os" and first: "first_eligible db os = Inr rc"
    by (auto simp: nextEligibleCommandOnConnection_def tx_simps split: if_splits)
  obtain pre r post where split: "os = pre @ r # post" "list_all (\<lambda>p. CommandState_IsTerminal (cor_State p)) pre"
    and r: "cor_State r = CommandStateQueued" "readCommandOnConnection (cor_CommandID r) db = Inr rc"
    using first_eligible_Inr [OF first] by blast
  have "map order_row (session_commands sid db) = pre @ r # post"
    using readCommandOrder_Inr [OF wf os] split(1) by simp
  then obtain pre' c post' where c: "session_commands sid db = pre' @ c # post'"
    "pre = map order_row pre'" "r = order_row c"
    by (auto simp: map_eq_append_conv map_eq_Cons_conv)
  have "c \<in> set (session_commands sid db)" using c(1) by simp
  then have mem: "c \<in> set (exec_commands db)" "cmd_session_id c = sid" by (simp_all add: session_commands_def)
  then have found: "find_command (cmd_command_id c) db = Some c" using find_command_row [OF wf] by simp
  have rc: "cr_CommandID rc = cmd_command_id c" "decode_command_row (cmd_command_id c) c = Inr rc"
    using r(2) found c(3) by (auto elim: readCommand_row)
  have "eligible sid db c" using c split(2) r(1) by (auto simp: eligible_def list_all_iff)
  then show thesis using that found mem row rc by simp
qed

section \<open>A claim keeps the invariants\<close>

text \<open>The slot limit a claim works with.\<close>

definition claim_limit :: "int \<Rightarrow> int" where
  "claim_limit n = (if n = 0 then DefaultRunningCommandLimit else n)"

lemma start_command_wf:
  assumes wf: "store_wf db" and c: "find_command cid db = Some c" "cmd_state c = CommandStateQueued"
    and run: "start_command plan cid sid candidate now db = Inr (x, db')"
  shows "store_wf db'" "session_evolves db db'"
proof -
  have cwf: "commands_wf db" and swf: "sessions_wf db" using wf by (simp_all add: store_wf_def)
  obtain rc ev where "x = (rc, ev)" by (metis surj_pair)
  with run have run': "start_command plan cid sid candidate now db = Inr ((rc, ev), db')" by simp
  obtain n db3 a b where slot: "slot_constraints (new_slot cid now) db"
    and n: "n = int (length (command_events cid db)) + 1"
    and ev: "event_valid (event_row_of cid n ''command_started'' [] 0 now)"
    and ses: "transitionSessionOnConnection sid SessionStateBusy ''command_started'' now (claimed_db cid n now db) =
      Inr ((), db3)"
    and db': "db' = db3\<lparr>exec_controlled_restart_plans := a, exec_controlled_restart_plan_lost_pairs := b\<rparr>"
    by (rule start_command_effect [OF run'])
  note frame = session_step_frame [OF disjI2 [OF ses]]
  have edge: "CommandState_CanTransitionTo (cmd_state c) CommandStateRunning"
    by (simp add: c CommandState_CanTransitionTo_def)
  have "events_ok (set_running now c) (command_events cid db @ [event_row_of cid n ''command_started'' [] 0 now])"
    by (rule events_ok_transition [OF cwf c(1) edge _ n ev]) (simp_all add: CommandState_IsTerminal_def)
  then have "commands_wf db'"
    using cwf frame(1-4) slot c(2)
    by (intro commands_wf_step [OF cwf c(1), where f = "set_running now" and P = "\<lambda>r. cmd_state r = CommandStateQueued"])
      (auto simp: db' commands_wf_def slot_constraints_def CommandState_IsTerminal_def)
  moreover have "sessions_wf db'"
    using frame(5) swf sessions_wf_cong [of "claimed_db cid n now db" db] sessions_wf_cong [of db' db3]
    by (simp add: db')
  ultimately show "store_wf db'" by (simp add: store_wf_def)
  have "session_evolves db (claimed_db cid n now db)" "session_evolves db3 db'"
    by (rule session_evolves_cong; simp add: db')+
  then show "session_evolves db db'" using frame(6) session_evolves_trans by blast
qed

text \<open>The loop over the candidates ends at the first one that passes the plan and is the eligible
  command of its session.\<close>

definition plan_allows :: "ControlledRestartPlan option \<Rightarrow> schedulerCandidate \<Rightarrow> bool" where
  "plan_allows plan k \<longleftrightarrow>
     (\<forall>p. plan = Some p \<longrightarrow> cand_commandID k = cp_CommandID p \<and> cand_sessionID k = cp_SessionID p)"

definition passed_over :: "ControlledRestartPlan option \<Rightarrow> database \<Rightarrow> schedulerCandidate \<Rightarrow> bool" where
  "passed_over plan db k \<longleftrightarrow>
     \<not> plan_allows plan k \<or>
     (case nextEligibleCommandOnConnection (cand_sessionID k) db of
        Inl e \<Rightarrow> errors_Is e ErrCommandNotEligible
      | Inr rc \<Rightarrow> cr_CommandID rc \<noteq> cand_commandID k)"

definition claims where
  "claims plan now db r cands \<longleftrightarrow>
     (\<exists>pre k post candidate. cands = pre @ k # post \<and> list_all (passed_over plan db) pre \<and> plan_allows plan k \<and>
        nextEligibleCommandOnConnection (cand_sessionID k) db = Inr candidate \<and>
        cr_CommandID candidate = cand_commandID k \<and>
        start_command plan (cand_commandID k) (cand_sessionID k) candidate now db = Inr r)"

lemma claims_later: "claims plan now db r rest \<Longrightarrow> passed_over plan db k \<Longrightarrow> claims plan now db r (k # rest)"
  unfolding claims_def by (metis append_Cons list.pred_inject(2))

lemma claims_here:
  "plan_allows plan k \<Longrightarrow> nextEligibleCommandOnConnection (cand_sessionID k) db = Inr candidate \<Longrightarrow>
   cr_CommandID candidate = cand_commandID k \<Longrightarrow>
   start_command plan (cand_commandID k) (cand_sessionID k) candidate now db = Inr r \<Longrightarrow>
   claims plan now db r (k # rest)"
  unfolding claims_def by (metis append_Nil list.pred_inject(1))

lemma claim_first_claims: "claim_first plan now cands db = Inr r \<Longrightarrow> claims plan now db r cands"
proof (induction cands)
  case Nil
  then show ?case by simp
next
  case (Cons k rest)
  show ?case
  proof (cases "plan_allows plan k")
    case False
    then show ?thesis
      using Cons by (intro claims_later) (auto simp: plan_allows_def passed_over_def split: option.splits if_splits)
  next
    case True
    let ?next = "nextEligibleCommandOnConnection (cand_sessionID k) db"
    have body: "(case ?next of
         Inl e \<Rightarrow> if errors_Is e ErrCommandNotEligible then claim_first plan now rest db else Inl e
       | Inr candidate \<Rightarrow>
           if cr_CommandID candidate \<noteq> cand_commandID k then claim_first plan now rest db
           else start_command plan (cand_commandID k) (cand_sessionID k) candidate now db) = Inr r"
    proof -
      have "\<not> (case plan of None \<Rightarrow> False | Some p \<Rightarrow>
          cand_commandID k \<noteq> cp_CommandID p \<or> cand_sessionID k \<noteq> cp_SessionID p)"
        using True by (auto simp: plan_allows_def split: option.splits)
      then show ?thesis using Cons.prems by (cases r) (auto simp: tx_simps)
    qed
    show ?thesis
    proof (cases "\<exists>candidate. ?next = Inr candidate \<and> cr_CommandID candidate = cand_commandID k")
      case hit: True
      then show ?thesis using body True by (auto intro: claims_here)
    next
      case False
      then have "claim_first plan now rest db = Inr r" "passed_over plan db k"
        using body by (auto simp: passed_over_def split: sum.splits if_splits)
      then show ?thesis using Cons.IH by (intro claims_later) auto
    qed
  qed
qed

lemma claims_obtain:
  assumes "claims plan now db r cands" "commands_wf db"
  obtains pre k post candidate c where "cands = pre @ k # post" "list_all (passed_over plan db) pre"
    "plan_allows plan k" "find_command (cand_commandID k) db = Some c" "eligible (cand_sessionID k) db c"
    "decode_command_row (cand_commandID k) c = Inr candidate" "cmd_session_id c = cand_sessionID k"
    "start_command plan (cand_commandID k) (cand_sessionID k) candidate now db = Inr r"
proof -
  obtain pre k post candidate where split: "cands = pre @ k # post" "list_all (passed_over plan db) pre"
    "plan_allows plan k" and elig: "nextEligibleCommandOnConnection (cand_sessionID k) db = Inr candidate"
    and id: "cr_CommandID candidate = cand_commandID k"
    and start: "start_command plan (cand_commandID k) (cand_sessionID k) candidate now db = Inr r"
    using assms(1) by (auto simp: claims_def)
  obtain c where c: "find_command (cand_commandID k) db = Some c" "eligible (cand_sessionID k) db c"
    "cmd_session_id c = cand_sessionID k" "decode_command_row (cmd_command_id c) c = Inr candidate"
    by (rule nextEligible_Inr [OF assms(2) elig]) (simp add: id)
  moreover have "cmd_command_id c = cand_commandID k" using c(1) find_command_row [OF assms(2)] by simp
  ultimately show thesis using split start by (intro that) simp_all
qed

lemma start_next_Inr:
  assumes "start_next_body limit handoff now db = Inr (x, db')"
  obtains plan cands where "read_plan_for_claim db = Inr plan" "\<And>p. plan = Some p \<Longrightarrow> cp_Activated p"
    "live_slots db < limit" "scheduler_candidates handoff db = Inr cands"
    "claims plan now db (x, db') cands"
proof -
  from assms obtain plan cands where "read_plan_for_claim db = Inr plan"
    "case plan of None \<Rightarrow> True | Some p \<Rightarrow> cp_Activated p" "live_slots db < limit"
    "scheduler_candidates handoff db = Inr cands" "claim_first plan now cands db = Inr (x, db')"
    by (auto simp: start_next_body_def tx_simps)
  then show thesis by (intro that claim_first_claims) simp_all
qed

lemma start_next_wf:
  assumes wf: "store_wf db" and run: "start_next_body limit handoff now db = Inr (x, db')"
  shows "store_wf db'" "session_evolves db db'"
proof -
  have cwf: "commands_wf db" using wf by (simp add: store_wf_def)
  obtain plan cands where cl: "claims plan now db (x, db') cands" by (rule start_next_Inr [OF run])
  obtain k :: schedulerCandidate and candidate c where c: "find_command (cand_commandID k) db = Some c" "eligible (cand_sessionID k) db c"
    and start: "start_command plan (cand_commandID k) (cand_sessionID k) candidate now db = Inr (x, db')"
    by (rule claims_obtain [OF cl cwf])
  have "cmd_state c = CommandStateQueued" using c(2) by (simp add: eligible_def)
  then show "store_wf db'" "session_evolves db db'" using start_command_wf [OF wf c(1) _ start] by auto
qed

end
