(* ===== verification/Json_Text.thy ===== *)
theory Json_Text
  imports Stored_Time
begin

text \<open>
  JSON texts as the canonicalisation reads and writes them (internal/domain/canonical.go with the
  parts of Go's encoding/json it calls): the value tree, the token decoder with exact number texts, the
  string encoder without HTML escapes, and the check of unicode escapes. A text is a byte list. The
  decoder takes fuel; \<open>decode_fuel\<close> shows that the fuel the code path uses never runs out.
\<close>

section \<open>Values\<close>

text \<open>A decoded value: Go's \<open>any\<close> holding nil, bool, string, json.Number, []any or
  map[string]any. A map is an association list with distinct keys; its order carries no meaning.\<close>

datatype json =
    JNull
  | JBool bool
  | JString string
  | JNumber string
  | JArray "json list"
  | JObject "(string \<times> json) list"

section \<open>Unicode escapes\<close>

definition hex_value :: "char \<Rightarrow> nat option" where
  "hex_value c = (let n = of_char c in
     if 48 \<le> n \<and> n \<le> (57::nat) then Some (n - 48)
     else if 97 \<le> n \<and> n \<le> 102 then Some (n - 97 + 10)
     else if 65 \<le> n \<and> n \<le> 70 then Some (n - 65 + 10)
     else None)"

fun unicodeEscapeValue :: "bytes \<Rightarrow> nat option" where
  "unicodeEscapeValue (a # b # c # d # _) =
     (case (hex_value a, hex_value b, hex_value c, hex_value d) of
        (Some p, Some q, Some r, Some s) \<Rightarrow> Some (((p * 16 + q) * 16 + r) * 16 + s)
      | _ \<Rightarrow> None)"
| "unicodeEscapeValue _ = None"

text \<open>The check of an escape whose \<open>\u\<close> has been read: what follows it. A high surrogate must
  be followed by the escape of a low one.\<close>

definition after_escape :: "bytes \<Rightarrow> bytes option" where
  "after_escape t =
     (case unicodeEscapeValue t of
        None \<Rightarrow> None
      | Some u \<Rightarrow>
          if 0xD800 \<le> u \<and> u \<le> 0xDBFF then
            (case drop 4 t of
               b # v # w \<Rightarrow>
                 if b \<noteq> CHR 0x5C \<or> v \<noteq> CHR ''u'' then None
                 else
                   (case unicodeEscapeValue w of
                      None \<Rightarrow> None
                    | Some low \<Rightarrow> if low < 0xDC00 \<or> low > 0xDFFF then None else Some (drop 4 w))
             | _ \<Rightarrow> None)
          else if 0xDC00 \<le> u \<and> u \<le> 0xDFFF then None
          else Some (drop 4 t))"

lemma after_escape_length: "after_escape t = Some r \<Longrightarrow> length r \<le> length t"
proof -
  assume "after_escape t = Some r"
  then obtain k where "r = drop k t"
    by (auto simp: after_escape_def split: if_splits list.splits option.splits)
      (metis drop_drop drop_Suc_Cons)
  then show ?thesis by simp
qed

text \<open>The scan of one string body, from after its opening quote to its closing quote or the end of the
  input; \<open>None\<close> is the code's \<open>return false\<close>, \<open>Some rest\<close> what follows the string.\<close>

function scan_string :: "bytes \<Rightarrow> bytes option" where
  "scan_string [] = Some []"
| "scan_string (c # s) =
     (if c = CHR 0x22 then Some s
      else if c = CHR 0x5C then
        (case s of
           [] \<Rightarrow> None
         | e # t \<Rightarrow>
             if e \<noteq> CHR ''u'' then scan_string t
             else (case after_escape t of None \<Rightarrow> None | Some rest \<Rightarrow> scan_string rest))
      else if c = CHR 0x0A \<or> c = CHR 0x0D then None
      else scan_string s)"
  by pat_completeness auto
termination
  by (relation "measure length") (auto dest: after_escape_length)

declare scan_string.simps(2) [simp del]

lemma scan_string_length: "scan_string s = Some r \<Longrightarrow> length r \<le> length s"
proof (induction s rule: measure_induct_rule [where f = length])
  case (less s)
  show ?case
  proof (cases s)
    case (Cons c t)
    have "r = t \<or> (\<exists>u. scan_string u = Some r \<and> length u < length s)"
      using less.prems unfolding Cons scan_string.simps(2)
      by (auto split: if_splits list.splits option.splits dest!: after_escape_length intro: le_imp_less_Suc)
    then show ?thesis using less.IH Cons by force
  qed (use less.prems in simp)
qed

function validUnicodeEscapes :: "bytes \<Rightarrow> bool" where
  "validUnicodeEscapes [] = True"
| "validUnicodeEscapes (c # s) =
     (if c \<noteq> CHR 0x22 then validUnicodeEscapes s
      else case scan_string s of None \<Rightarrow> False | Some rest \<Rightarrow> validUnicodeEscapes rest)"
  by pat_completeness auto
termination by (relation "measure length") (auto simp: less_Suc_eq_le scan_string_length)

section \<open>Tokens\<close>

definition is_ws :: "char \<Rightarrow> bool" where
  "is_ws c \<longleftrightarrow> c \<in> {CHR 0x20, CHR 0x09, CHR 0x0A, CHR 0x0D}"

definition skip_ws :: "bytes \<Rightarrow> bytes" where
  "skip_ws = dropWhile is_ws"

definition simple_escape :: "char \<Rightarrow> char option" where
  "simple_escape c =
     (if c = CHR 0x22 \<or> c = CHR 0x5C \<or> c = CHR ''/'' then Some c
      else if c = CHR ''b'' then Some (CHR 0x08)
      else if c = CHR ''f'' then Some (CHR 0x0C)
      else if c = CHR ''n'' then Some (CHR 0x0A)
      else if c = CHR ''r'' then Some (CHR 0x0D)
      else if c = CHR ''t'' then Some (CHR 0x09)
      else None)"

text \<open>\<open>utf8.EncodeRune\<close> on a code point that is not a surrogate.\<close>

definition utf8_EncodeRune :: "nat \<Rightarrow> bytes" where
  "utf8_EncodeRune r = map char_of
     (if r < 0x80 then [r]
      else if r < 0x800 then [0xC0 + r div 0x40, 0x80 + r mod 0x40]
      else if r < 0x10000 then [0xE0 + r div 0x1000, 0x80 + r div 0x40 mod 0x40, 0x80 + r mod 0x40]
      else [0xF0 + r div 0x40000, 0x80 + r div 0x1000 mod 0x40, 0x80 + r div 0x40 mod 0x40, 0x80 + r mod 0x40])"

text \<open>A \<open>\u\<close> escape whose four digits have been read: the decoded bytes and the rest. A high
  surrogate takes the low one that follows; a lone surrogate becomes U+FFFD.\<close>

definition decode_escape :: "nat \<Rightarrow> bytes \<Rightarrow> bytes \<times> bytes" where
  "decode_escape u rest =
     (if u < 0xD800 \<or> 0xDFFF < u then (utf8_EncodeRune u, rest)
      else
        (case rest of
           b # v # w \<Rightarrow>
             (case unicodeEscapeValue w of
                Some low \<Rightarrow>
                  if b = CHR 0x5C \<and> v = CHR ''u'' \<and> u < 0xDC00 \<and> 0xDC00 \<le> low \<and> low \<le> 0xDFFF
                  then (utf8_EncodeRune ((u - 0xD800) * 0x400 + (low - 0xDC00) + 0x10000), drop 4 w)
                  else (utf8_EncodeRune 0xFFFD, rest)
              | None \<Rightarrow> (utf8_EncodeRune 0xFFFD, rest))
         | _ \<Rightarrow> (utf8_EncodeRune 0xFFFD, rest)))"

lemma decode_escape_length: "length (snd (decode_escape u rest)) \<le> length rest"
  by (auto simp: decode_escape_def split: list.splits option.splits)

text \<open>The body of a string literal from after its opening quote: the decoded bytes and what follows
  the closing quote.\<close>

function read_string :: "bytes \<Rightarrow> (bytes \<times> bytes) option" where
  "read_string [] = None"
| "read_string (c # s) =
     (if c = CHR 0x22 then Some ([], s)
      else if c = CHR 0x5C then
        (case s of
           [] \<Rightarrow> None
         | e # t \<Rightarrow>
             if e = CHR ''u'' then
               (case unicodeEscapeValue t of
                  None \<Rightarrow> None
                | Some u \<Rightarrow>
                    map_option (map_prod ((@) (fst (decode_escape u (drop 4 t)))) id)
                      (read_string (snd (decode_escape u (drop 4 t)))))
             else
               (case simple_escape e of
                  None \<Rightarrow> None
                | Some b \<Rightarrow> map_option (map_prod ((#) b) id) (read_string t)))
      else if of_char c < (0x20 :: nat) then None
      else map_option (map_prod ((#) c) id) (read_string s))"
  by pat_completeness auto
termination
proof (relation "measure length"; simp)
  fix t u
  have "length (snd (decode_escape u (drop 4 t))) \<le> length (drop 4 t)" by (rule decode_escape_length)
  then show "length (snd (decode_escape u (drop 4 t))) < Suc (Suc (length t))" by simp
qed

text \<open>The number grammar of JSON: an integer part without leading zeros, an optional fraction and an
  optional exponent, each with at least one digit.\<close>

definition read_fraction :: "bytes \<Rightarrow> (bytes \<times> bytes) option" where
  "read_fraction s =
     (case s of
        c # t \<Rightarrow>
          if c = CHR ''.'' then
            (if takeWhile is_digit t = [] then None else Some (c # takeWhile is_digit t, dropWhile is_digit t))
          else Some ([], s)
      | [] \<Rightarrow> Some ([], []))"

definition read_exponent :: "bytes \<Rightarrow> (bytes \<times> bytes) option" where
  "read_exponent s =
     (case s of
        c # t \<Rightarrow>
          if c = CHR ''e'' \<or> c = CHR ''E'' then
            (let sign = (case t of d # _ \<Rightarrow> if d = CHR ''+'' \<or> d = CHR ''-'' then [d] else [] | [] \<Rightarrow> []);
                 u = drop (length sign) t in
             if takeWhile is_digit u = [] then None
             else Some (c # sign @ takeWhile is_digit u, dropWhile is_digit u))
          else Some ([], s)
      | [] \<Rightarrow> Some ([], []))"

definition read_integer :: "bytes \<Rightarrow> (bytes \<times> bytes) option" where
  "read_integer s =
     (case s of
        [] \<Rightarrow> None
      | c # t \<Rightarrow>
          if c = CHR ''0'' then Some ([c], t)
          else if is_digit c then Some (takeWhile is_digit s, dropWhile is_digit s)
          else None)"

definition read_number :: "bytes \<Rightarrow> (bytes \<times> bytes) option" where
  "read_number s =
     (let sign = (case s of c # _ \<Rightarrow> if c = CHR ''-'' then [c] else [] | [] \<Rightarrow> []) in
      Option.bind (read_integer (drop (length sign) s)) (\<lambda>(whole, s1).
      Option.bind (read_fraction s1) (\<lambda>(fraction, s2).
      Option.bind (read_exponent s2) (\<lambda>(exponent, s3).
      Some (sign @ whole @ fraction @ exponent, s3)))))"

section \<open>Decoding\<close>

definition read_literal :: "bytes \<Rightarrow> (json \<times> bytes) option" where
  "read_literal s =
     (if prefix ''null'' s then Some (JNull, drop 4 s)
      else if prefix ''true'' s then Some (JBool True, drop 4 s)
      else if prefix ''false'' s then Some (JBool False, drop 5 s)
      else map_option (map_prod JNumber id) (read_number s))"

text \<open>What follows the separator of an element or member: none before the first, a comma before every
  other one.\<close>

definition after_separator :: "bool \<Rightarrow> bytes \<Rightarrow> bytes option" where
  "after_separator start s =
     (if start then Some s
      else case s of [] \<Rightarrow> None | c # t \<Rightarrow> if c = CHR '','' then Some t else None)"

text \<open>The key of a member with its colon: the key and what follows. A key in \<open>seen\<close> is a duplicate.\<close>

definition read_key :: "string list \<Rightarrow> bytes \<Rightarrow> (string \<times> bytes) option" where
  "read_key seen s =
     (case skip_ws s of
        [] \<Rightarrow> None
      | q # u \<Rightarrow>
          if q \<noteq> CHR 0x22 then None
          else
            Option.bind (read_string u) (\<lambda>(key, s1).
            if key \<in> set seen then None
            else
              (case skip_ws s1 of
                 [] \<Rightarrow> None
               | d # v \<Rightarrow> if d = CHR '':'' then Some (key, v) else None)))"

definition next_key :: "bool \<Rightarrow> string list \<Rightarrow> bytes \<Rightarrow> (string \<times> bytes) option" where
  "next_key start seen s = Option.bind (after_separator start s) (read_key seen)"

text \<open>The decoder of one value, of the elements of an array and of the members of an object. The
  flag says that no element has been read yet; \<open>seen\<close> are the keys of the object so far.\<close>

fun decodeCanonicalValue :: "nat \<Rightarrow> bytes \<Rightarrow> (json \<times> bytes) option"
  and decode_elements :: "nat \<Rightarrow> bool \<Rightarrow> bytes \<Rightarrow> (json list \<times> bytes) option"
  and decode_members :: "nat \<Rightarrow> bool \<Rightarrow> string list \<Rightarrow> bytes \<Rightarrow> ((string \<times> json) list \<times> bytes) option" where
  "decodeCanonicalValue 0 s = None"
| "decodeCanonicalValue (Suc n) s =
     (case skip_ws s of
        [] \<Rightarrow> None
      | c # t \<Rightarrow>
          if c = CHR ''{'' then map_option (map_prod JObject id) (decode_members n True [] t)
          else if c = CHR ''['' then map_option (map_prod JArray id) (decode_elements n True t)
          else if c = CHR 0x22 then map_option (map_prod JString id) (read_string t)
          else read_literal (c # t))"
| "decode_elements 0 start s = None"
| "decode_elements (Suc n) start s =
     (case skip_ws s of
        [] \<Rightarrow> None
      | c # t \<Rightarrow>
          if c = CHR '']'' then Some ([], t)
          else
            Option.bind (after_separator start (c # t)) (\<lambda>s1.
            Option.bind (decodeCanonicalValue n s1) (\<lambda>(value, s2).
            Option.bind (decode_elements n False s2) (\<lambda>(rest, s3). Some (value # rest, s3)))))"
| "decode_members 0 start seen s = None"
| "decode_members (Suc n) start seen s =
     (case skip_ws s of
        [] \<Rightarrow> None
      | c # t \<Rightarrow>
          if c = CHR ''}'' then Some ([], t)
          else
            Option.bind (next_key start seen (c # t)) (\<lambda>(key, s1).
            Option.bind (decodeCanonicalValue n s1) (\<lambda>(value, s2).
            Option.bind (decode_members n False (seen @ [key]) s2) (\<lambda>(rest, s3).
            Some ((key, value) # rest, s3)))))"

section \<open>The fuel never runs out\<close>

declare decodeCanonicalValue.simps(2) [simp del] decode_elements.simps(2) [simp del]
  decode_members.simps(2) [simp del] read_string.simps(2) [simp del]

lemma skip_ws_length: "length (skip_ws s) \<le> length s"
  by (simp add: skip_ws_def length_dropWhile_le)

lemma skip_ws_Cons: "skip_ws s = c # t \<Longrightarrow> length t < length s"
  using skip_ws_length [of s] by simp

lemma read_string_length: "read_string s = Some (v, r) \<Longrightarrow> length r < length s"
proof (induction s arbitrary: v r rule: measure_induct_rule [where f = length])
  case (less s)
  show ?case
  proof (cases s)
    case (Cons c t)
    have drop4: "length (snd (decode_escape u (drop 4 x))) \<le> length x" for u x
      using decode_escape_length [of u "drop 4 x"] by simp
    have "r = t \<or> (\<exists>u w. read_string u = Some (w, r) \<and> length u < length s)"
      using less.prems drop4 unfolding Cons read_string.simps(2)
      by (fastforce split: if_splits list.splits option.splits simp: less_Suc_eq_le le_SucI)
    then show ?thesis using less.IH Cons by force
  qed (use less.prems in simp)
qed

lemma read_integer_length: "read_integer s = Some (w, r) \<Longrightarrow> length r < length s"
  by (auto simp: read_integer_def less_Suc_eq_le length_dropWhile_le split: list.splits if_splits)

lemma read_fraction_length: "read_fraction s = Some (w, r) \<Longrightarrow> length r \<le> length s"
  by (auto simp: read_fraction_def length_dropWhile_le le_SucI split: list.splits if_splits)

lemma read_exponent_length: "read_exponent s = Some (w, r) \<Longrightarrow> length r \<le> length s"
proof -
  have d: "length (dropWhile is_digit u) \<le> n" if "length u \<le> n" for u n
    using that length_dropWhile_le le_trans by blast
  show "read_exponent s = Some (w, r) \<Longrightarrow> length r \<le> length s"
    by (auto simp: read_exponent_def Let_def intro!: d split: list.splits if_splits)
qed

lemma read_number_length: "read_number s = Some (w, r) \<Longrightarrow> length r < length s"
proof -
  assume "read_number s = Some (w, r)"
  then obtain k a b c s1 s2 where "read_integer (drop k s) = Some (a, s1)"
    "read_fraction s1 = Some (b, s2)" "read_exponent s2 = Some (c, r)"
    unfolding read_number_def Let_def by (auto simp: bind_eq_Some_conv)
  then show ?thesis using read_integer_length read_fraction_length read_exponent_length
    by (metis diff_le_self le_trans length_drop linorder_not_less)
qed

lemma read_literal_length: "read_literal s = Some (v, r) \<Longrightarrow> length r < length s"
  by (auto simp: read_literal_def prefix_def split: if_splits dest: read_number_length)

lemma after_separator_length: "after_separator start s = Some r \<Longrightarrow> length r \<le> length s"
  by (auto simp: after_separator_def split: if_splits list.splits)

lemma read_key_length: "read_key seen s = Some (key, r) \<Longrightarrow> length r < length s"
proof -
  assume r: "read_key seen s = Some (key, r)"
  then obtain q u where q: "skip_ws s = q # u" by (cases "skip_ws s") (simp_all add: read_key_def)
  then obtain s1 where s1: "read_string u = Some (key, s1)" and
    "(case skip_ws s1 of [] \<Rightarrow> None | d # v \<Rightarrow> if d = CHR '':'' then Some (key, v) else None) = Some (key, r)"
    using r by (auto simp: read_key_def bind_eq_Some_conv split: if_splits list.splits)
  then obtain d where "skip_ws s1 = d # r" by (cases "skip_ws s1") (simp_all split: if_splits)
  note k = q s1 this
  show ?thesis using skip_ws_Cons [OF k(1)] read_string_length [OF k(2)] skip_ws_Cons [OF k(3)] by linarith
qed

lemma next_key_length: "next_key start seen s = Some (key, r) \<Longrightarrow> length r < length s"
  unfolding next_key_def using after_separator_length read_key_length
  by (fastforce simp: bind_eq_Some_conv)

text \<open>A successful read consumes at least one byte.\<close>

lemma decode_consumes:
  "decodeCanonicalValue n s = Some (v, r) \<Longrightarrow> length r < length s"
  "decode_elements n start s = Some (vs, r) \<Longrightarrow> length r < length s"
  "decode_members n start seen s = Some (ms, r) \<Longrightarrow> length r < length s"
proof (induction n s and n start s and n start seen s arbitrary: v r and vs r and ms r
    rule: decodeCanonicalValue_decode_elements_decode_members.induct)
  case (2 n s)
  then show ?case
    by (auto simp: decodeCanonicalValue.simps(2) split: list.splits if_splits
        dest!: skip_ws_Cons read_string_length read_literal_length dest: less_trans)
next
  case (4 n start s)
  from "4.prems" consider t where "skip_ws s = CHR '']'' # t" "r = t"
    | c t s1 v s2 rest where "skip_ws s = c # t" "c \<noteq> CHR '']''" "after_separator start (c # t) = Some s1"
        "decodeCanonicalValue n s1 = Some (v, s2)" "decode_elements n False s2 = Some (rest, r)"
    by (auto simp: decode_elements.simps(2) bind_eq_Some_conv split: list.splits if_splits)
  then show ?case
  proof cases
    case 1
    then show ?thesis using skip_ws_Cons by blast
  next
    case 2
    have "length s2 < length s1" by (rule "4.IH"(1) [OF 2(1-4)])
    moreover have "length r < length s2" by (rule "4.IH"(2) [OF 2(1-4) refl 2(5)])
    ultimately show ?thesis using skip_ws_Cons [OF 2(1)] after_separator_length [OF 2(3)] by auto
  qed
next
  case (6 n start seen s)
  from "6.prems" consider t where "skip_ws s = CHR ''}'' # t" "r = t"
    | c t key s1 v s2 rest where "skip_ws s = c # t" "c \<noteq> CHR ''}''"
        "next_key start seen (c # t) = Some (key, s1)"
        "decodeCanonicalValue n s1 = Some (v, s2)"
        "decode_members n False (seen @ [key]) s2 = Some (rest, r)"
    by (auto simp: decode_members.simps(2) bind_eq_Some_conv split: list.splits if_splits)
  then show ?case
  proof cases
    case 1
    then show ?thesis using skip_ws_Cons by blast
  next
    case 2
    have "length s2 < length s1" by (rule "6.IH"(1) [OF 2(1-3) refl 2(4)])
    moreover have "length r < length s2" by (rule "6.IH"(2) [OF 2(1-3) refl 2(4) refl 2(5)])
    ultimately show ?thesis using skip_ws_Cons [OF 2(1)] next_key_length [OF 2(3)] by auto
  qed
qed simp_all

text \<open>One more unit of fuel changes nothing once there are two units per byte.\<close>

lemma decode_stable:
  "2 * length s + 1 \<le> n \<Longrightarrow> decodeCanonicalValue (Suc n) s = decodeCanonicalValue n s"
  "2 * length s + 2 \<le> n \<Longrightarrow> decode_elements (Suc n) start s = decode_elements n start s"
  "2 * length s + 2 \<le> n \<Longrightarrow> decode_members (Suc n) start seen s = decode_members n start seen s"
proof (induction n s and n start s and n start seen s
    rule: decodeCanonicalValue_decode_elements_decode_members.induct)
  case (2 n s)
  show ?case
  proof (cases "skip_ws s")
    case (Cons c t)
    then have "2 * length t + 2 \<le> n" using skip_ws_Cons [OF Cons] "2.prems" by simp
    then show ?thesis using Cons "2.IH"
      by (simp add: decodeCanonicalValue.simps(2) [of n s] decodeCanonicalValue.simps(2) [of "Suc n" s])
  qed (simp add: decodeCanonicalValue.simps(2))
next
  case (4 n start s)
  show ?case
  proof (cases "\<exists>c t s1. skip_ws s = c # t \<and> c \<noteq> CHR '']'' \<and> after_separator start (c # t) = Some s1")
    case True
    then obtain c t s1 where k: "skip_ws s = c # t" "c \<noteq> CHR '']''" "after_separator start (c # t) = Some s1"
      by blast
    have l: "length s1 \<le> length s" using skip_ws_Cons [OF k(1)] after_separator_length [OF k(3)] by simp
    have "decodeCanonicalValue (Suc n) s1 = decodeCanonicalValue n s1"
      by (rule "4.IH"(1) [OF k]) (use l "4.prems" in simp)
    moreover have "decode_elements (Suc n) False s2 = decode_elements n False s2"
      if "decodeCanonicalValue n s1 = Some (v, s2)" for v s2
      by (rule "4.IH"(2) [OF k that refl]) (use decode_consumes(1) [OF that] l "4.prems" in simp)
    ultimately show ?thesis using k
      by (simp add: decode_elements.simps(2) [of n start s] decode_elements.simps(2) [of "Suc n" start s]
          bind_split split: prod.split)
  qed (auto simp: decode_elements.simps(2) [of n start s] decode_elements.simps(2) [of "Suc n" start s]
      split: list.split bind_split)
next
  case (6 n start seen s)
  show ?case
  proof (cases "\<exists>c t key s1. skip_ws s = c # t \<and> c \<noteq> CHR ''}'' \<and>
      next_key start seen (c # t) = Some (key, s1)")
    case True
    then obtain c t key s1 where k: "skip_ws s = c # t" "c \<noteq> CHR ''}''"
      "next_key start seen (c # t) = Some (key, s1)"
      by blast
    have l: "length s1 \<le> length s" using skip_ws_Cons [OF k(1)] next_key_length [OF k(3)] by simp
    have "decodeCanonicalValue (Suc n) s1 = decodeCanonicalValue n s1"
      by (rule "6.IH"(1) [OF k refl]) (use l "6.prems" in simp)
    moreover have "decode_members (Suc n) False (seen @ [key]) s2 = decode_members n False (seen @ [key]) s2"
      if "decodeCanonicalValue n s1 = Some (v, s2)" for v s2
      by (rule "6.IH"(2) [OF k refl that refl]) (use decode_consumes(1) [OF that] l "6.prems" in simp)
    ultimately show ?thesis using k
      by (simp add: decode_members.simps(2) [of n start seen s] decode_members.simps(2) [of "Suc n" start seen s]
          bind_split split: prod.split)
  qed (auto simp: decode_members.simps(2) [of n start seen s] decode_members.simps(2) [of "Suc n" start seen s]
      split: list.split bind_split)
qed simp_all

lemma decode_fuel: "2 * length s + 1 \<le> n \<Longrightarrow> decodeCanonicalValue n s = decodeCanonicalValue (2 * length s + 1) s"
  by (induction n rule: dec_induct) (simp_all add: decode_stable(1))

text \<open>Enough fuel for any text: each call that needs one more unit has consumed a byte.\<close>

definition decode_fuel_of :: "bytes \<Rightarrow> nat" where
  "decode_fuel_of s = 2 * length s + 1"

definition decodeCanonicalJSON :: "bytes \<Rightarrow> json option" where
  "decodeCanonicalJSON raw =
     (if \<not> utf8_ValidString raw \<or> \<not> validUnicodeEscapes raw then None
      else
        Option.bind (decodeCanonicalValue (decode_fuel_of raw) raw) (\<lambda>(value, rest).
        if skip_ws rest = [] then Some value else None))"


end
