(* ===== verification/Json_Numbers.thy ===== *)
theory Json_Numbers
  imports Json_Text Complex_Main
begin

text \<open>
  Canonical JSON numbers (\<open>canonicalJSONNumber\<close> of internal/domain/canonical.go): the exact decimal
  normal form of a number text. A number text denotes a rational; the normal form denotes the same one,
  and two number texts have the same normal form exactly when they denote the same rational.
\<close>

section \<open>The code\<close>

text \<open>\<open>big.Int.SetString(s, 10)\<close> and \<open>big.Int.String()\<close>.\<close>

definition big_SetString :: "string \<Rightarrow> int option" where
  "big_SetString s =
     (let negative = prefix ''-'' s;
          ds = (if negative \<or> prefix ''+'' s then tl s else s) in
      if ds = [] \<or> \<not> list_all is_digit ds then None
      else Some (if negative then - int (digits_value ds) else int (digits_value ds)))"

definition big_String :: "int \<Rightarrow> string" where
  "big_String i = (if i < 0 then CHR ''-'' # decimal (nat (- i)) else decimal (nat i))"

definition is_zero :: "char \<Rightarrow> bool" where
  "is_zero c \<longleftrightarrow> c = CHR ''0''"

definition is_exponent_mark :: "char \<Rightarrow> bool" where
  "is_exponent_mark c \<longleftrightarrow> c = CHR ''e'' \<or> c = CHR ''E''"

definition trim_right_zeros :: "string \<Rightarrow> string" where
  "trim_right_zeros s = rev (dropWhile is_zero (rev s))"

text \<open>The second half of the function: the digits without point, read with the exponent
  \<open>exponent - fractionLength\<close>.\<close>

definition scientific :: "string \<Rightarrow> string \<Rightarrow> int \<Rightarrow> string" where
  "scientific sign digits scale =
     (let leading = dropWhile is_zero digits in
      if leading = [] then ''0''
      else
        (let significant = trim_right_zeros leading;
             trailing = length leading - length significant;
             decimalPower = scale + int trailing;
             scientificExponent = decimalPower + int (length significant - 1);
             mantissa = take 1 significant @ (if length significant > 1 then CHR ''.'' # drop 1 significant else [])
         in sign @ mantissa @ CHR ''e'' # big_String scientificExponent))"

definition canonicalJSONNumber :: "string \<Rightarrow> string" where
  "canonicalJSONNumber number =
     (let sign = (if prefix ''-'' number then ''-'' else []);
          body = (if prefix ''-'' number then tl number else number);
          text = takeWhile (\<lambda>c. \<not> is_exponent_mark c) body;
          exponent =
            (case dropWhile (\<lambda>c. \<not> is_exponent_mark c) body of
               [] \<Rightarrow> Some 0
             | _ # e \<Rightarrow> big_SetString (if prefix ''+'' e then tl e else e))
      in case exponent of
           None \<Rightarrow> number
         | Some x \<Rightarrow>
             (let whole = takeWhile (\<lambda>c. c \<noteq> CHR ''.'') text;
                  fraction = tl (dropWhile (\<lambda>c. c \<noteq> CHR ''.'') text)
              in scientific sign (whole @ fraction) (x - int (length fraction))))"

section \<open>What a number text denotes\<close>

text \<open>The parts of a number of the JSON grammar; the exponent has its mark, sign and digits.\<close>

record json_number =
  num_negative :: bool
  num_whole :: string
  num_fraction :: "string option"
  num_exponent :: "(char \<times> string \<times> string) option"

definition fraction_digits :: "json_number \<Rightarrow> string" where
  "fraction_digits p = (case num_fraction p of None \<Rightarrow> [] | Some f \<Rightarrow> f)"

definition exponent_value :: "json_number \<Rightarrow> int" where
  "exponent_value p =
     (case num_exponent p of
        None \<Rightarrow> 0
      | Some (_, sign, ds) \<Rightarrow> (if sign = ''-'' then - int (digits_value ds) else int (digits_value ds)))"

definition digit_string :: "string \<Rightarrow> bool" where
  "digit_string s \<longleftrightarrow> s \<noteq> [] \<and> list_all is_digit s"

definition wf_number :: "json_number \<Rightarrow> bool" where
  "wf_number p \<longleftrightarrow>
     digit_string (num_whole p) \<and> (num_whole p = ''0'' \<or> hd (num_whole p) \<noteq> CHR ''0'') \<and>
     (case num_fraction p of None \<Rightarrow> True | Some f \<Rightarrow> digit_string f) \<and>
     (case num_exponent p of
        None \<Rightarrow> True
      | Some (m, sign, ds) \<Rightarrow> is_exponent_mark m \<and> sign \<in> {[], ''+'', ''-''} \<and> digit_string ds)"

definition exponent_text :: "(char \<times> string \<times> string) option \<Rightarrow> string" where
  "exponent_text e = (case e of None \<Rightarrow> [] | Some (m, sign, ds) \<Rightarrow> m # sign @ ds)"

definition fraction_text :: "string option \<Rightarrow> string" where
  "fraction_text f = (case f of None \<Rightarrow> [] | Some ds \<Rightarrow> CHR ''.'' # ds)"

definition number_text :: "json_number \<Rightarrow> string" where
  "number_text p = (if num_negative p then ''-'' else []) @ num_whole p @
     fraction_text (num_fraction p) @ exponent_text (num_exponent p)"

definition decimal_value :: "bool \<Rightarrow> string \<Rightarrow> int \<Rightarrow> rat" where
  "decimal_value negative digits scale =
     (if negative then - 1 else 1) * of_nat (digits_value digits) * (10 powi scale)"

definition number_value :: "json_number \<Rightarrow> rat" where
  "number_value p = decimal_value (num_negative p) (num_whole p @ fraction_digits p)
     (exponent_value p - int (length (fraction_digits p)))"

section \<open>Digit strings\<close>

lemma is_digit_facts [simp]:
  "is_digit c \<Longrightarrow> c \<noteq> CHR ''.''" "is_digit c \<Longrightarrow> c \<noteq> CHR ''-''" "is_digit c \<Longrightarrow> c \<noteq> CHR ''+''"
  "is_digit c \<Longrightarrow> \<not> is_exponent_mark c" "\<not> is_digit (CHR ''.'')" "\<not> is_digit (CHR ''-'')"
  "\<not> is_digit (CHR ''+'')" "is_exponent_mark m \<Longrightarrow> \<not> is_digit m" "\<not> is_exponent_mark (CHR ''.'')"
  "is_exponent_mark (CHR ''e'')" "is_digit (CHR ''0'')"
  by (auto simp: is_digit_def is_exponent_mark_def)

lemma digits_value_Cons: "digits_value (c # s) = digit_value c * 10 ^ length s + digits_value s"
proof (induction s rule: rev_induct)
  case (snoc x s)
  have "digits_value (c # s @ [x]) = 10 * digits_value (c # s) + digit_value x"
    using digits_value_snoc [of "c # s" x] by simp
  then show ?case using snoc by (simp add: algebra_simps)
qed (simp add: digits_value_def)

lemma digit_value_bound: "is_digit c \<Longrightarrow> digit_value c < 10"
  unfolding is_digit_def digit_value_def by linarith

lemma digit_char_value: "is_digit c \<Longrightarrow> digit_char (digit_value c) = c"
  by (simp add: is_digit_def digit_value_def digit_char_def)

lemma digits_value_bound: "list_all is_digit s \<Longrightarrow> digits_value s < 10 ^ length s"
proof (induction s rule: rev_induct)
  case (snoc c s)
  then have "digits_value s < 10 ^ length s" "digit_value c < 10" by (simp_all add: digit_value_bound)
  then show ?case by simp
qed simp

lemma digit_value_zero: "is_digit c \<Longrightarrow> digit_value c = 0 \<longleftrightarrow> is_zero c"
proof -
  assume d: "is_digit c"
  have "digit_value c = 0 \<longleftrightarrow> digit_char (digit_value c) = digit_char 0"
    using digit_value_bound [OF d] by (metis digit_value_digit_char zero_less_numeral)
  moreover have "digit_char 0 = CHR ''0''" by code_simp
  ultimately show ?thesis by (simp only: digit_char_value [OF d] is_zero_def)
qed

lemma digits_value_zero_iff: "list_all is_digit s \<Longrightarrow> digits_value s = 0 \<longleftrightarrow> list_all is_zero s"
  by (induction s) (auto simp: digits_value_Cons digit_value_zero)

text \<open>A digit string without leading zeros is the decimal text of its value.\<close>

lemma decimal_digits_value:
  "list_all is_digit s \<Longrightarrow> s \<noteq> [] \<Longrightarrow> \<not> is_zero (hd s) \<Longrightarrow> decimal (digits_value s) = s"
proof (induction s rule: rev_induct)
  case (snoc c s)
  show ?case
  proof (cases s)
    case Nil
    then show ?thesis using snoc.prems
      by (simp add: decimal.simps digit_value_bound digit_char_value digits_value_def)
  next
    case (Cons d t)
    then have "decimal (digits_value s) = s" using snoc by simp
    moreover have "digits_value s \<noteq> 0" using snoc.prems Cons digits_value_zero_iff [of s] by simp
    ultimately show ?thesis using snoc.prems
      by (simp add: decimal.simps [of "10 * digits_value s + digit_value c"] digit_value_bound digit_char_value)
  qed
qed simp

lemma digits_value_decimal: "digits_value (decimal n) = n"
  by (induction n rule: decimal.induct) (subst decimal.simps, simp add: digits_value_def)


text \<open>Two splits of a text into digits and a rest that does not start with one are the same.\<close>

definition no_digit_first :: "string \<Rightarrow> bool" where
  "no_digit_first r \<longleftrightarrow> (case r of [] \<Rightarrow> True | c # _ \<Rightarrow> \<not> is_digit c)"

lemma takeWhile_digits: "list_all is_digit s \<Longrightarrow> no_digit_first r \<Longrightarrow> takeWhile is_digit (s @ r) = s"
  by (cases r) (auto simp: no_digit_first_def list_all_iff takeWhile_append1 takeWhile_append2)

lemma digits_split_unique:
  "list_all is_digit a \<Longrightarrow> list_all is_digit b \<Longrightarrow> no_digit_first r \<Longrightarrow> no_digit_first r' \<Longrightarrow>
   a @ r = b @ r' \<Longrightarrow> a = b \<and> r = r'"
  by (metis takeWhile_digits append_same_eq same_append_eq)

section \<open>Reading the parts\<close>

lemma exponent_text_no_digit [simp]:
  "wf_number p \<Longrightarrow> no_digit_first (exponent_text (num_exponent p))"
  "wf_number p \<Longrightarrow> no_digit_first (fraction_text (num_fraction p) @ exponent_text (num_exponent p))"
  by (auto simp: wf_number_def exponent_text_def fraction_text_def no_digit_first_def split: option.splits)

lemma wf_number_digits:
  "wf_number p \<Longrightarrow> list_all is_digit (num_whole p) \<and> num_whole p \<noteq> [] \<and> list_all is_digit (fraction_digits p)"
  by (auto simp: wf_number_def digit_string_def fraction_digits_def split: option.splits)

lemma whole_not_minus: "wf_number p \<Longrightarrow> \<not> prefix ''-'' (num_whole p @ r)"
  by (cases "num_whole p") (auto simp: wf_number_def digit_string_def)

text \<open>The mantissa ends where the exponent mark is, and the whole part where the point is.\<close>

lemma split_at_mark:
  assumes "wf_number p"
  shows "takeWhile (\<lambda>c. \<not> is_exponent_mark c) (num_whole p @ fraction_text (num_fraction p) @
      exponent_text (num_exponent p)) = num_whole p @ fraction_text (num_fraction p)"
    and "dropWhile (\<lambda>c. \<not> is_exponent_mark c) (num_whole p @ fraction_text (num_fraction p) @
      exponent_text (num_exponent p)) = exponent_text (num_exponent p)"
proof -
  let ?m = "num_whole p @ fraction_text (num_fraction p)" and ?e = "exponent_text (num_exponent p)"
  have m: "\<not> is_exponent_mark c" if "c \<in> set ?m" for c
    using that assms by (auto simp: wf_number_def digit_string_def fraction_text_def list_all_iff split: option.splits)
  have e: "?e = [] \<or> is_exponent_mark (hd ?e)"
    using assms by (auto simp: wf_number_def exponent_text_def split: option.splits)
  show "takeWhile (\<lambda>c. \<not> is_exponent_mark c) (num_whole p @ fraction_text (num_fraction p) @ ?e) = ?m"
    using m e takeWhile_append2 [of ?m "\<lambda>c. \<not> is_exponent_mark c" ?e] by (cases ?e) auto
  show "dropWhile (\<lambda>c. \<not> is_exponent_mark c) (num_whole p @ fraction_text (num_fraction p) @ ?e) = ?e"
    using m e dropWhile_append2 [of ?m "\<lambda>c. \<not> is_exponent_mark c" ?e] by (cases ?e) auto
qed

lemma split_at_point:
  assumes "wf_number p"
  shows "takeWhile (\<lambda>c. c \<noteq> CHR ''.'') (num_whole p @ fraction_text (num_fraction p)) = num_whole p"
    and "tl (dropWhile (\<lambda>c. c \<noteq> CHR ''.'') (num_whole p @ fraction_text (num_fraction p))) = fraction_digits p"
proof -
  have w: "c \<noteq> CHR ''.''" if "c \<in> set (num_whole p)" for c
    using that assms by (auto simp: wf_number_def digit_string_def list_all_iff)
  show "takeWhile (\<lambda>c. c \<noteq> CHR ''.'') (num_whole p @ fraction_text (num_fraction p)) = num_whole p"
    using w by (subst takeWhile_append2) (auto simp: fraction_text_def split: option.split)
  show "tl (dropWhile (\<lambda>c. c \<noteq> CHR ''.'') (num_whole p @ fraction_text (num_fraction p))) = fraction_digits p"
    using w by (subst dropWhile_append2) (auto simp: fraction_text_def fraction_digits_def split: option.split)
qed

lemma big_SetString_exponent:
  assumes "digit_string ds" "sign \<in> {[], ''+'', ''-''}"
  shows "big_SetString (if prefix ''+'' (sign @ ds) then tl (sign @ ds) else sign @ ds) =
    Some (if sign = ''-'' then - int (digits_value ds) else int (digits_value ds))"
proof -
  obtain c t where "ds = c # t" "is_digit c" using assms(1) by (cases ds) (auto simp: digit_string_def)
  then show ?thesis using assms by (auto simp: big_SetString_def digit_string_def Let_def)
qed

lemma canonicalJSONNumber_text:
  assumes p: "wf_number p"
  shows "canonicalJSONNumber (number_text p) =
    scientific (if num_negative p then ''-'' else []) (num_whole p @ fraction_digits p)
      (exponent_value p - int (length (fraction_digits p)))"
proof -
  let ?b = "num_whole p @ fraction_text (num_fraction p) @ exponent_text (num_exponent p)"
  have body: "prefix ''-'' (number_text p) \<longleftrightarrow> num_negative p"
    "(if num_negative p then tl (number_text p) else number_text p) = ?b"
    using whole_not_minus [OF p] by (simp_all add: number_text_def)
  have e: "(case exponent_text (num_exponent p) of [] \<Rightarrow> Some 0
      | _ # e \<Rightarrow> big_SetString (if prefix ''+'' e then tl e else e)) = Some (exponent_value p)"
  proof (cases "num_exponent p")
    case (Some e)
    obtain m sign ds where e: "e = (m, sign, ds)" by (cases e)
    then have "digit_string ds" "sign \<in> {[], ''+'', ''-''}" using p Some by (simp_all add: wf_number_def)
    then show ?thesis by (simp add: Some e exponent_text_def exponent_value_def big_SetString_exponent)
  qed (simp add: exponent_text_def exponent_value_def)
  show ?thesis
    unfolding canonicalJSONNumber_def body Let_def split_at_mark [OF p] split_at_point [OF p] e by simp
qed

section \<open>The text determines the number\<close>

lemma number_text_inj:
  assumes p: "wf_number p" and q: "wf_number q" and eq: "number_text p = number_text q"
  shows "p = q"
proof -
  let ?r = "\<lambda>x. fraction_text (num_fraction x) @ exponent_text (num_exponent x)"
  have "prefix ''-'' (number_text x) \<longleftrightarrow> num_negative x" if "wf_number x" for x
    using whole_not_minus [OF that] by (simp add: number_text_def)
  then have n: "num_negative p = num_negative q" using p q eq by metis
  then have "num_whole p @ ?r p = num_whole q @ ?r q" using eq by (simp add: number_text_def)
  then have w: "num_whole p = num_whole q" and r: "?r p = ?r q"
    using digits_split_unique wf_number_digits [OF p] wf_number_digits [OF q] exponent_text_no_digit(2) p q
    by blast+
  have f: "num_fraction p = num_fraction q \<and> exponent_text (num_exponent p) = exponent_text (num_exponent q)"
  proof (cases "num_fraction p"; cases "num_fraction q")
    fix a b
    assume a: "num_fraction p = Some a" and b: "num_fraction q = Some b"
    then have "list_all is_digit a" "list_all is_digit b"
      using p q by (simp_all add: wf_number_def digit_string_def)
    then show ?thesis using r a b digits_split_unique [of a b "exponent_text (num_exponent p)" "exponent_text (num_exponent q)"] p q
      by (simp add: fraction_text_def)
  qed (use r p q in \<open>auto simp: fraction_text_def exponent_text_def wf_number_def split: option.splits\<close>)
  moreover have "num_exponent p = num_exponent q"
  proof (cases "num_exponent p"; cases "num_exponent q")
    fix a b
    assume a: "num_exponent p = Some a" and b: "num_exponent q = Some b"
    obtain m s d m' s' d' where e: "a = (m, s, d)" "b = (m', s', d')" by (cases a, cases b)
    have "s \<in> {[], ''+'', ''-''}" "s' \<in> {[], ''+'', ''-''}" "digit_string d" "digit_string d'"
      using p q a b e by (simp_all add: wf_number_def)
    moreover have "m # s @ d = m' # s' @ d'" using f a b e by (simp add: exponent_text_def)
    ultimately have "s = s' \<and> d = d' \<and> m = m'"
      by (cases d; cases d') (auto simp: digit_string_def)
    then show ?thesis using a b e by simp
  qed (use f in \<open>auto simp: exponent_text_def split: option.splits\<close>)
  ultimately show ?thesis using n w by (simp add: json_number.equality)
qed

section \<open>The normal form\<close>

definition significant :: "string \<Rightarrow> bool" where
  "significant s \<longleftrightarrow> digit_string s \<and> \<not> is_zero (hd s) \<and> \<not> is_zero (last s)"

definition normal_number :: "bool \<Rightarrow> string \<Rightarrow> int \<Rightarrow> json_number" where
  "normal_number negative s e =
     (let x = e + int (length s - 1) in
      \<lparr> num_negative = negative, num_whole = take 1 s,
        num_fraction = (if length s > 1 then Some (drop 1 s) else None),
        num_exponent = Some (CHR ''e'', if x < 0 then ''-'' else [], decimal (nat \<bar>x\<bar>)) \<rparr>)"

lemma is_zero_replicate: "list_all is_zero s \<Longrightarrow> s = replicate (length s) (CHR ''0'')"
  by (induction s) (auto simp: is_zero_def)

lemma digits_value_drop_zeros: "list_all is_digit D \<Longrightarrow> digits_value (dropWhile is_zero D) = digits_value D"
  by (induction D) (auto simp: digits_value_Cons digit_value_zero)

text \<open>The digits without zeros at either side, and how many were dropped on the right.\<close>

lemma significant_part:
  assumes D: "list_all is_digit D" and nz: "\<not> list_all is_zero D"
  obtains t where "significant (trim_right_zeros (dropWhile is_zero D))"
    "length (dropWhile is_zero D) - length (trim_right_zeros (dropWhile is_zero D)) = t"
    "digits_value D = digits_value (trim_right_zeros (dropWhile is_zero D)) * 10 ^ t"
    "dropWhile is_zero D \<noteq> []"
proof -
  define L where "L = dropWhile is_zero D"
  define s where "s = trim_right_zeros L"
  define z where "z = rev (takeWhile is_zero (rev L))"
  have L: "L \<noteq> []" using nz by (auto simp: L_def dropWhile_eq_Nil_conv list_all_iff)
  then have hL: "\<not> is_zero (hd L)" unfolding L_def by (rule hd_dropWhile)
  have sz: "L = s @ z" unfolding s_def z_def trim_right_zeros_def by (metis rev_append rev_rev_ident takeWhile_dropWhile_id)
  have z: "list_all is_zero z" by (auto simp: z_def list_all_iff dest: set_takeWhileD)
  have s: "s \<noteq> []" using L hL sz z by (cases s) (auto simp: list_all_iff)
  have "last s = hd (dropWhile is_zero (rev L))" unfolding s_def trim_right_zeros_def by (rule last_rev)
  moreover have "dropWhile is_zero (rev L) \<noteq> []" using s by (simp add: s_def trim_right_zeros_def)
  ultimately have l: "\<not> is_zero (last s)" using hd_dropWhile by metis
  have "list_all is_digit L" using D by (auto simp: L_def list_all_iff dest: set_dropWhileD)
  then have "significant s" using s l hL sz by (simp add: significant_def digit_string_def)
  moreover have "digits_value D = digits_value s * 10 ^ length z"
    using digits_value_drop_zeros [OF D] digits_value_zeros [of s "length z"] is_zero_replicate [OF z] sz
    unfolding L_def [symmetric] by metis
  moreover have "length L - length s = length z" using sz by simp
  ultimately show thesis using that [of "length z"] L unfolding s_def L_def by blast
qed

lemma big_String_text: "big_String x = (if x < 0 then ''-'' else []) @ decimal (nat \<bar>x\<bar>)"
  by (simp add: big_String_def)

lemma scientific_zero: "list_all is_zero D \<Longrightarrow> scientific sign D k = ''0''"
  by (simp add: scientific_def dropWhile_eq_Nil_conv list_all_iff)

lemma scientific_normal:
  assumes D: "list_all is_digit D" and nz: "\<not> list_all is_zero D"
  obtains s t where "significant s" "digits_value D = digits_value s * 10 ^ t"
    "scientific (if negative then ''-'' else []) D k = number_text (normal_number negative s (k + int t))"
proof -
  define s where "s = trim_right_zeros (dropWhile is_zero D)"
  obtain t where t: "significant s" "length (dropWhile is_zero D) - length s = t"
    "digits_value D = digits_value s * 10 ^ t" "dropWhile is_zero D \<noteq> []"
    using significant_part [OF D nz] unfolding s_def by blast
  have "scientific (if negative then ''-'' else []) D k = number_text (normal_number negative s (k + int t))"
    using t(2,4) unfolding scientific_def s_def [symmetric] Let_def number_text_def normal_number_def
    by (auto simp add: fraction_text_def exponent_text_def big_String_text)
  then show thesis using that t by blast
qed

lemma digit_string_decimal: "digit_string (decimal n)"
  using decimal_digits by (simp add: digit_string_def list_all_iff)

lemma wf_normal_number: "significant s \<Longrightarrow> wf_number (normal_number negative s e)"
  by (cases s; cases "tl s")
    (auto simp: wf_number_def normal_number_def significant_def digit_string_def Let_def is_zero_def
      digit_string_decimal [unfolded digit_string_def])

lemma value_normal_number:
  "s \<noteq> [] \<Longrightarrow> number_value (normal_number negative s e) = decimal_value negative s e"
  by (cases s) (simp_all add: number_value_def normal_number_def fraction_digits_def exponent_value_def Let_def
      digits_value_decimal)

lemma decimal_value_shift:
  "digits_value D = digits_value s * 10 ^ t \<Longrightarrow> decimal_value negative D k = decimal_value negative s (k + int t)"
  by (simp add: decimal_value_def power_int_add)

lemma decimal_value_zero: "list_all is_digit D \<Longrightarrow> decimal_value negative D k = 0 \<longleftrightarrow> list_all is_zero D"
  by (simp add: decimal_value_def digits_value_zero_iff)

lemma significant_ndvd: "significant s \<Longrightarrow> \<not> 10 dvd digits_value s"
proof (induction s rule: rev_induct)
  case (snoc c s)
  then have "is_digit c" "digit_value c \<noteq> 0" by (auto simp: significant_def digit_string_def digit_value_zero)
  then have "0 < digit_value c" "digit_value c < 10" by (simp_all add: digit_value_bound)
  moreover have "10 dvd 10 * digits_value s + digit_value c \<longleftrightarrow> 10 dvd digit_value c"
    by (simp add: dvd_add_right_iff)
  ultimately show ?case by (auto dest: dvd_imp_le)
qed (simp add: significant_def digit_string_def)

lemma scaled_unique:
  fixes a b :: nat
  assumes "\<not> 10 dvd a" "of_nat a * 10 powi e = (of_nat b * 10 powi f :: rat)"
  shows "f \<le> e"
proof (rule ccontr)
  assume "\<not> f \<le> e"
  then obtain k where k: "f = e + int (Suc k)"
    by (metis add.commute add_diff_cancel_left' diff_add_cancel linorder_not_le zless_iff_Suc_zadd)
  then have "(of_nat a :: rat) * 10 powi e = of_nat b * 10 ^ Suc k * 10 powi e"
    using assms(2) by (simp add: power_int_add del: of_nat_Suc power_Suc)
  then have "(of_nat a :: rat) = of_nat (b * 10 ^ Suc k)" by simp
  then have "a = b * 10 ^ Suc k" by (simp only: of_nat_eq_iff)
  then show False using assms(1) by simp
qed

lemma decimal_value_unique:
  assumes s: "significant s" and s': "significant s'"
    and eq: "decimal_value negative s e = decimal_value negative' s' e'"
  shows "negative = negative' \<and> s = s' \<and> e = e'"
proof -
  let ?a = "of_nat (digits_value s) * (10 powi e) :: rat" and ?b = "of_nat (digits_value s') * (10 powi e') :: rat"
  have nz: "digits_value s \<noteq> 0" "digits_value s' \<noteq> 0" using significant_ndvd s s' by (metis dvd_0_right)+
  then have pos: "0 < ?a" "0 < ?b" by simp_all
  have n: "negative = negative'" and ab: "?a = ?b"
    using eq pos by (auto simp: decimal_value_def simp del: of_nat_eq_iff split: if_splits)
  have e: "e = e'"
    using scaled_unique [OF significant_ndvd [OF s] ab] scaled_unique [OF significant_ndvd [OF s'] ab [symmetric]]
    by simp
  then have "digits_value s = digits_value s'" using ab by simp
  then have "s = s'" using decimal_digits_value s s' unfolding significant_def digit_string_def by metis
  then show ?thesis using n e by simp
qed

section \<open>Exactness\<close>

text \<open>The normal form of a number: \<open>0\<close>, or the text of the normal number with the same value.\<close>

lemma canonicalJSONNumber_cases:
  assumes p: "wf_number p"
  obtains (zero) "number_value p = 0" "canonicalJSONNumber (number_text p) = ''0''"
  | (normal) s e where "significant s" "number_value p = decimal_value (num_negative p) s e"
      "canonicalJSONNumber (number_text p) = number_text (normal_number (num_negative p) s e)"
proof -
  let ?D = "num_whole p @ fraction_digits p" and ?k = "exponent_value p - int (length (fraction_digits p))"
  have D: "list_all is_digit ?D" using wf_number_digits [OF p] by simp
  show thesis
  proof (cases "list_all is_zero ?D")
    case True
    then show thesis using that(1) D
      by (simp add: canonicalJSONNumber_text [OF p] scientific_zero number_value_def decimal_value_zero del: list_all_append)
  next
    case False
    then obtain s t where "significant s" "digits_value ?D = digits_value s * 10 ^ t"
      "scientific (if num_negative p then ''-'' else []) ?D ?k = number_text (normal_number (num_negative p) s (?k + int t))"
      using scientific_normal [OF D] by blast
    then show thesis using that(2) [of s "?k + int t"]
      by (simp only: canonicalJSONNumber_text [OF p] number_value_def decimal_value_shift)
  qed
qed

definition zero_number :: json_number where
  "zero_number = \<lparr> num_negative = False, num_whole = ''0'', num_fraction = None, num_exponent = None \<rparr>"

lemma zero_number: "wf_number zero_number" "number_text zero_number = ''0''" "number_value zero_number = 0"
  by code_simp+

text \<open>Canonicalisation yields a number text of the same value.\<close>

lemma canonicalJSONNumber_value:
  assumes "wf_number p"
  obtains q where "wf_number q" "canonicalJSONNumber (number_text p) = number_text q" "number_value q = number_value p"
  using assms
proof (cases rule: canonicalJSONNumber_cases)
  case zero
  then show thesis using that [of zero_number] zero_number by simp
next
  case (normal s e)
  moreover have "s \<noteq> []" using normal(1) by (simp add: significant_def digit_string_def)
  ultimately show thesis using that wf_normal_number value_normal_number by metis
qed

lemma canonicalJSONNumber_eq_iff:
  assumes p: "wf_number p" and q: "wf_number q"
  shows "canonicalJSONNumber (number_text p) = canonicalJSONNumber (number_text q) \<longleftrightarrow> number_value p = number_value q"
proof
  assume "canonicalJSONNumber (number_text p) = canonicalJSONNumber (number_text q)"
  then show "number_value p = number_value q"
    using canonicalJSONNumber_value [OF p] canonicalJSONNumber_value [OF q] number_text_inj by metis
next
  assume v: "number_value p = number_value q"
  have nz: "decimal_value n s e \<noteq> 0" if "significant s" for n s e
  proof -
    have "digits_value s \<noteq> 0" using significant_ndvd [OF that] by (metis dvd_0_right)
    then show ?thesis by (simp add: decimal_value_def)
  qed
  show "canonicalJSONNumber (number_text p) = canonicalJSONNumber (number_text q)" (is "?p = ?q")
  proof (rule canonicalJSONNumber_cases [OF p]; rule canonicalJSONNumber_cases [OF q])
    fix s e s' e'
    assume "significant s" "number_value p = decimal_value (num_negative p) s e"
      "?p = number_text (normal_number (num_negative p) s e)"
      "significant s'" "number_value q = decimal_value (num_negative q) s' e'"
      "?q = number_text (normal_number (num_negative q) s' e')"
    then show "?p = ?q" using v decimal_value_unique [of s s' "num_negative p" e "num_negative q" e'] by simp
  qed (use v nz in auto)
qed

lemma canonicalJSONNumber_idem:
  assumes "wf_number p"
  shows "canonicalJSONNumber (canonicalJSONNumber (number_text p)) = canonicalJSONNumber (number_text p)"
  using canonicalJSONNumber_value [OF assms] canonicalJSONNumber_eq_iff assms by metis

end
