(* ===== verification/Json_Encode.thy ===== *)
theory Json_Encode
  imports Json_Numbers
begin

text \<open>
  Writing JSON strings (\<open>canonicalJSONString\<close> of internal/domain/canonical.go, with Go's encoder
  and HTML escapes off) and the round trip through the decoder of \<open>Json_Text\<close>.
\<close>

section \<open>The encoder\<close>

definition hex_digit :: "nat \<Rightarrow> char" where
  "hex_digit n = char_of (if n < 10 then 48 + n else 87 + n)"

definition escape_byte :: "char \<Rightarrow> bytes" where
  "escape_byte c =
     (if c = CHR 0x22 \<or> c = CHR 0x5C then [CHR 0x5C, c]
      else if c = CHR 0x08 then [CHR 0x5C, CHR ''b'']
      else if c = CHR 0x0C then [CHR 0x5C, CHR ''f'']
      else if c = CHR 0x0A then [CHR 0x5C, CHR ''n'']
      else if c = CHR 0x0D then [CHR 0x5C, CHR ''r'']
      else if c = CHR 0x09 then [CHR 0x5C, CHR ''t'']
      else if of_char c < (0x20 :: nat) then
        [CHR 0x5C, CHR ''u'', CHR ''0'', CHR ''0'', hex_digit (of_char c div 16), hex_digit (of_char c mod 16)]
      else [c])"

text \<open>The size of the rune a text starts with, \<open>0\<close> when it is not valid UTF-8.\<close>

definition rune_size :: "bytes \<Rightarrow> nat" where
  "rune_size s =
     (case map of_char (take 4 s) of
        [] \<Rightarrow> 0
      | a # xs \<Rightarrow>
          if a < 0x80 then 1
          else (case xs of
            [] \<Rightarrow> 0
          | b # ys \<Rightarrow>
              if utf8_two a b then 2
              else (case ys of
                [] \<Rightarrow> 0
              | c # zs \<Rightarrow>
                  if utf8_three a b c then 3
                  else (case zs of [] \<Rightarrow> 0 | d # _ \<Rightarrow> if utf8_four a b c d then 4 else 0))))"

definition encode_rune :: "bytes \<Rightarrow> bytes" where
  "encode_rune r =
     (if length r = 1 then escape_byte (hd r)
      else if r = [CHR 0xE2, CHR 0x80, CHR 0xA8] then CHR 0x5C # ''u2028''
      else if r = [CHR 0xE2, CHR 0x80, CHR 0xA9] then CHR 0x5C # ''u2029''
      else r)"

function encode_body :: "bytes \<Rightarrow> bytes" where
  "encode_body [] = []"
| "encode_body (c # s) =
     (if rune_size (c # s) = 0 then CHR 0x5C # ''ufffd'' @ encode_body s
      else encode_rune (take (rune_size (c # s)) (c # s)) @ encode_body (drop (rune_size (c # s)) (c # s)))"
  by pat_completeness auto
termination by (relation "measure length") auto

declare encode_body.simps(2) [simp del] utf8_valid_bytes.simps(2) [simp del]

definition canonicalJSONString :: "string \<Rightarrow> bytes" where
  "canonicalJSONString s = CHR 0x22 # encode_body s @ [CHR 0x22]"

section \<open>Runes of a valid text\<close>

text \<open>The valid texts as a set of rules: one rune of one to four bytes, then a valid text.\<close>

inductive utf8_text :: "bytes \<Rightarrow> bool" where
  utf8_Nil: "utf8_text []"
| utf8_one: "of_char a < (0x80 :: nat) \<Longrightarrow> utf8_text s \<Longrightarrow> utf8_text (a # s)"
| utf8_pair: "utf8_two (of_char a) (of_char b) \<Longrightarrow> utf8_text s \<Longrightarrow> utf8_text (a # b # s)"
| utf8_triple: "utf8_three (of_char a) (of_char b) (of_char c) \<Longrightarrow> utf8_text s \<Longrightarrow> utf8_text (a # b # c # s)"
| utf8_quad: "utf8_four (of_char a) (of_char b) (of_char c) (of_char d) \<Longrightarrow> utf8_text s \<Longrightarrow>
    utf8_text (a # b # c # d # s)"

lemma utf8_leads:
  "utf8_two a b \<Longrightarrow> 0x80 \<le> a \<and> 0x80 \<le> b"
  "utf8_three a b c \<Longrightarrow> 0x80 \<le> a \<and> 0x80 \<le> b \<and> 0x80 \<le> c \<and> \<not> utf8_two a b"
  "utf8_four a b c d \<Longrightarrow> 0x80 \<le> a \<and> 0x80 \<le> b \<and> 0x80 \<le> c \<and> 0x80 \<le> d \<and> \<not> utf8_two a b \<and> \<not> utf8_three a b c"
  by (simp_all add: utf8_two_def utf8_three_def utf8_four_def utf8_cont_def)

lemma utf8_valid_step:
  "a < 0x80 \<Longrightarrow> utf8_valid_bytes (a # xs) = utf8_valid_bytes xs"
  "\<not> a < 0x80 \<Longrightarrow> \<not> utf8_valid_bytes [a]"
  "\<not> a < 0x80 \<Longrightarrow> utf8_two a b \<Longrightarrow> utf8_valid_bytes (a # b # xs) = utf8_valid_bytes xs"
  "\<not> a < 0x80 \<Longrightarrow> \<not> utf8_two a b \<Longrightarrow> \<not> utf8_valid_bytes [a, b]"
  "\<not> a < 0x80 \<Longrightarrow> \<not> utf8_two a b \<Longrightarrow> utf8_three a b c \<Longrightarrow> utf8_valid_bytes (a # b # c # xs) = utf8_valid_bytes xs"
  "\<not> a < 0x80 \<Longrightarrow> \<not> utf8_two a b \<Longrightarrow> \<not> utf8_three a b c \<Longrightarrow> \<not> utf8_valid_bytes [a, b, c]"
  "\<not> a < 0x80 \<Longrightarrow> \<not> utf8_two a b \<Longrightarrow> \<not> utf8_three a b c \<Longrightarrow>
    utf8_valid_bytes (a # b # c # d # xs) \<longleftrightarrow> utf8_four a b c d \<and> utf8_valid_bytes xs"
  by (simp_all add: utf8_valid_bytes.simps(2) [of a])

lemma utf8_text_valid: "utf8_text s \<Longrightarrow> utf8_ValidString s"
  unfolding utf8_ValidString_def
  by (induction rule: utf8_text.induct) (simp_all add: utf8_valid_step utf8_leads [THEN conjunct1] utf8_leads linorder_not_less)

lemma utf8_valid_text: "utf8_ValidString s \<Longrightarrow> utf8_text s"
proof (induction s rule: measure_induct_rule [where f = length])
  case (less s)
  note v = less.prems [unfolded utf8_ValidString_def]
  show ?case
  proof (cases s)
    case (Cons a t)
    show ?thesis
    proof (cases "of_char a < (0x80 :: nat)")
      case True
      then show ?thesis using v less.IH [of t] Cons by (simp add: utf8_ValidString_def utf8_valid_step utf8_one)
    next
      case a: False
      then obtain b t2 where t: "t = b # t2" using v Cons by (cases t) (auto simp: utf8_valid_step)
      show ?thesis
      proof (cases "utf8_two (of_char a) (of_char b)")
        case True
        then show ?thesis using v a less.IH [of t2] Cons t by (simp add: utf8_ValidString_def utf8_valid_step utf8_pair)
      next
        case b: False
        then obtain c t3 where t2: "t2 = c # t3" using v a Cons t by (cases t2) (auto simp: utf8_valid_step)
        show ?thesis
        proof (cases "utf8_three (of_char a) (of_char b) (of_char c)")
          case True
          then show ?thesis using v a b less.IH [of t3] Cons t t2 by (simp add: utf8_ValidString_def utf8_valid_step utf8_triple)
        next
          case c: False
          then obtain d t4 where t3: "t3 = d # t4" using v a b Cons t t2 by (cases t3) (auto simp: utf8_valid_step)
          then show ?thesis using v a b c less.IH [of t4] Cons t t2 by (simp add: utf8_ValidString_def utf8_valid_step utf8_quad)
        qed
      qed
    qed
  qed (simp add: utf8_Nil)
qed

lemma utf8_ValidString_iff: "utf8_ValidString s \<longleftrightarrow> utf8_text s"
  using utf8_text_valid utf8_valid_text by blast

lemma utf8_text_append: "utf8_text a \<Longrightarrow> utf8_text b \<Longrightarrow> utf8_text (a @ b)"
  by (induction rule: utf8_text.induct) (auto intro: utf8_text.intros)

lemma utf8_ascii_text: "\<forall>c \<in> set s. of_char c < (0x80 :: nat) \<Longrightarrow> utf8_text s"
  by (induction s) (auto intro: utf8_text.intros)

lemma rune_size_simps:
  "of_char a < (0x80 :: nat) \<Longrightarrow> rune_size (a # s) = 1"
  "utf8_two (of_char a) (of_char b) \<Longrightarrow> rune_size (a # b # s) = 2"
  "utf8_three (of_char a) (of_char b) (of_char c) \<Longrightarrow> rune_size (a # b # c # s) = 3"
  "utf8_four (of_char a) (of_char b) (of_char c) (of_char d) \<Longrightarrow> rune_size (a # b # c # d # s) = 4"
  using utf8_leads by (force simp: rune_size_def numeral_eq_Suc)+

section \<open>The round trip of strings\<close>

lemma hex_value_digit [simp]: "n < 16 \<Longrightarrow> hex_value (hex_digit n) = Some n"
  by (auto simp: hex_value_def hex_digit_def Let_def)

lemma hex_value_zero: "hex_value (CHR ''0'') = Some 0"
  by code_simp

lemma control_escape:
  "of_char c < (0x20 :: nat) \<Longrightarrow>
   unicodeEscapeValue (CHR ''0'' # CHR ''0'' # hex_digit (of_char c div 16) # hex_digit (of_char c mod 16) # r) =
     Some (of_char c)"
  by (simp add: hex_value_zero)

lemma line_separator_escapes:
  "unicodeEscapeValue (''2028'' @ r) = Some 0x2028" "unicodeEscapeValue (''2029'' @ r) = Some 0x2029"
  by (simp_all add: hex_value_def)

lemma rune_of_control: "of_char c < (0x20 :: nat) \<Longrightarrow> utf8_EncodeRune (of_char c) = [c]"
  by (simp add: utf8_EncodeRune_def)

definition prepend :: "bytes \<Rightarrow> (bytes \<times> bytes) option \<Rightarrow> (bytes \<times> bytes) option" where
  "prepend b r = map_option (map_prod ((@) b) id) r"

lemma prepend_simps [simp]:
  "prepend [] r = r" "prepend b (Some (s, x)) = Some (b @ s, x)" "prepend a (prepend b r) = prepend (a @ b) r"
  "map_option (map_prod ((#) c) id) r = prepend [c] r"
  by (cases r; auto simp: prepend_def)+

lemma read_string_copy:
  "c \<noteq> CHR 0x22 \<Longrightarrow> c \<noteq> CHR 0x5C \<Longrightarrow> 0x20 \<le> (of_char c :: nat) \<Longrightarrow>
   read_string (c # x) = prepend [c] (read_string x)"
  by (simp add: read_string.simps(2))

lemma high_byte_plain: "0x80 \<le> (of_char c :: nat) \<Longrightarrow> c \<noteq> CHR 0x22 \<and> c \<noteq> CHR 0x5C \<and> 0x20 \<le> (of_char c :: nat) \<and>
    c \<noteq> CHR 0x0A \<and> c \<noteq> CHR 0x0D"
  by auto

lemma read_string_simple:
  "simple_escape e = Some b \<Longrightarrow> e \<noteq> CHR ''u'' \<Longrightarrow>
   read_string (CHR 0x5C # e # x) = prepend [b] (read_string x)"
  by (simp add: read_string.simps(2) [of "CHR 0x5C"])

lemma read_string_unicode:
  "unicodeEscapeValue (h @ x) = Some u \<Longrightarrow> length h = 4 \<Longrightarrow> u < 0xD800 \<Longrightarrow>
   read_string (CHR 0x5C # CHR ''u'' # h @ x) = prepend (utf8_EncodeRune u) (read_string x)"
  by (simp add: read_string.simps(2) [of "CHR 0x5C"] decode_escape_def prepend_def)

lemma read_string_control:
  assumes "of_char c < (0x20 :: nat)"
  shows "read_string (CHR 0x5C # CHR ''u'' # CHR ''0'' # CHR ''0'' # hex_digit (of_char c div 16) #
    hex_digit (of_char c mod 16) # x) = prepend [c] (read_string x)"
  using read_string_unicode [of "[CHR ''0'', CHR ''0'', hex_digit (of_char c div 16), hex_digit (of_char c mod 16)]"
    x "of_char c"] control_escape [OF assms] rune_of_control [OF assms] assms
  by (simp del: unicodeEscapeValue.simps)

lemma read_string_escape: "read_string (escape_byte c @ x) = prepend [c] (read_string x)"
  unfolding escape_byte_def
  by (simp add: read_string_simple simple_escape_def read_string_copy read_string_control
      linorder_not_less del: unicodeEscapeValue.simps)

lemma read_string_copy_all:
  "\<forall>c \<in> set r. 0x80 \<le> (of_char c :: nat) \<Longrightarrow> read_string (r @ x) = prepend r (read_string x)"
proof (induction r)
  case (Cons c r)
  then show ?case using high_byte_plain [of c] by (simp add: read_string_copy)
qed simp

lemma read_string_rune:
  assumes r: "\<forall>c \<in> set r. 0x80 \<le> (of_char c :: nat)" "length r \<noteq> 1"
  shows "read_string (encode_rune r @ x) = prepend r (read_string x)"
proof -
  have "utf8_EncodeRune 0x2028 = [CHR 0xE2, CHR 0x80, CHR 0xA8]" "utf8_EncodeRune 0x2029 = [CHR 0xE2, CHR 0x80, CHR 0xA9]"
    by (simp_all add: utf8_EncodeRune_def char_of_eq_iff)
  moreover have "read_string (CHR 0x5C # CHR ''u'' # ''2028'' @ x) = prepend (utf8_EncodeRune 0x2028) (read_string x)"
    by (rule read_string_unicode [OF line_separator_escapes(1)]) simp_all
  moreover have "read_string (CHR 0x5C # CHR ''u'' # ''2029'' @ x) = prepend (utf8_EncodeRune 0x2029) (read_string x)"
    by (rule read_string_unicode [OF line_separator_escapes(2)]) simp_all
  ultimately show ?thesis using r(2) read_string_copy_all [OF r(1)] unfolding encode_rune_def
    by (simp only: if_False append_Cons split: if_split) blast
qed

text \<open>Encoding one rune after the other.\<close>

lemma encode_body_simps:
  "of_char a < (0x80 :: nat) \<Longrightarrow> encode_body (a # s) = escape_byte a @ encode_body s"
  "utf8_two (of_char a) (of_char b) \<Longrightarrow> encode_body (a # b # s) = encode_rune [a, b] @ encode_body s"
  "utf8_three (of_char a) (of_char b) (of_char c) \<Longrightarrow> encode_body (a # b # c # s) = encode_rune [a, b, c] @ encode_body s"
  "utf8_four (of_char a) (of_char b) (of_char c) (of_char d) \<Longrightarrow>
    encode_body (a # b # c # d # s) = encode_rune [a, b, c, d] @ encode_body s"
  by (simp_all add: encode_body.simps(2) [of a] rune_size_simps encode_rune_def numeral_eq_Suc)

lemma read_encoded_string: "utf8_text s \<Longrightarrow> read_string (encode_body s @ CHR 0x22 # rest) = Some (s, rest)"
proof (induction rule: utf8_text.induct)
  case utf8_Nil
  then show ?case by (simp add: read_string.simps(2))
next
  case (utf8_one a s)
  then show ?case by (simp add: encode_body_simps read_string_escape)
next
  case (utf8_pair a b s)
  then show ?case using utf8_leads(1) by (simp add: encode_body_simps read_string_rune)
next
  case (utf8_triple a b c s)
  then show ?case using utf8_leads(2) by (simp add: encode_body_simps read_string_rune)
next
  case (utf8_quad a b c d s)
  then show ?case using utf8_leads(3) by (simp add: encode_body_simps read_string_rune)
qed

section \<open>The encoded text passes the checks of the decoder\<close>

lemma after_escape_plain:
  "unicodeEscapeValue (h @ x) = Some u \<Longrightarrow> length h = 4 \<Longrightarrow> u < 0xD800 \<Longrightarrow> after_escape (h @ x) = Some x"
  by (simp add: after_escape_def)

lemma scan_unicode:
  "unicodeEscapeValue (h @ x) = Some u \<Longrightarrow> length h = 4 \<Longrightarrow> u < 0xD800 \<Longrightarrow>
   scan_string (CHR 0x5C # CHR ''u'' # h @ x) = scan_string x"
  by (simp add: scan_string.simps(2) [of "CHR 0x5C"] after_escape_plain)

lemma scan_control:
  assumes "of_char c < (0x20 :: nat)"
  shows "scan_string (CHR 0x5C # CHR ''u'' # CHR ''0'' # CHR ''0'' # hex_digit (of_char c div 16) #
    hex_digit (of_char c mod 16) # x) = scan_string x"
  using scan_unicode [of "[CHR ''0'', CHR ''0'', hex_digit (of_char c div 16), hex_digit (of_char c mod 16)]"
    x "of_char c"] control_escape [OF assms] assms
  by (simp del: unicodeEscapeValue.simps)

lemma scan_simple: "e \<noteq> CHR ''u'' \<Longrightarrow> scan_string (CHR 0x5C # e # x) = scan_string x"
  by (simp add: scan_string.simps(2) [of "CHR 0x5C"])

lemma scan_copy:
  "c \<noteq> CHR 0x22 \<Longrightarrow> c \<noteq> CHR 0x5C \<Longrightarrow> 0x20 \<le> (of_char c :: nat) \<Longrightarrow> scan_string (c # x) = scan_string x"
  by (auto simp: scan_string.simps(2))

lemma scan_escape: "scan_string (escape_byte c @ x) = scan_string x"
  unfolding escape_byte_def
  by (simp add: scan_simple scan_copy scan_control linorder_not_less del: unicodeEscapeValue.simps)

lemma scan_copy_all: "\<forall>c \<in> set r. 0x80 \<le> (of_char c :: nat) \<Longrightarrow> scan_string (r @ x) = scan_string x"
proof (induction r)
  case (Cons c r)
  then show ?case using high_byte_plain [of c] by (simp add: scan_copy)
qed simp

lemma scan_rune:
  assumes r: "\<forall>c \<in> set r. 0x80 \<le> (of_char c :: nat)" "length r \<noteq> 1"
  shows "scan_string (encode_rune r @ x) = scan_string x"
proof -
  have "scan_string (CHR 0x5C # CHR ''u'' # ''2028'' @ x) = scan_string x"
    by (rule scan_unicode [OF line_separator_escapes(1)]) simp_all
  moreover have "scan_string (CHR 0x5C # CHR ''u'' # ''2029'' @ x) = scan_string x"
    by (rule scan_unicode [OF line_separator_escapes(2)]) simp_all
  ultimately show ?thesis using r(2) scan_copy_all [OF r(1)] unfolding encode_rune_def
    by (simp only: if_False append_Cons split: if_split) blast
qed

lemma scan_encoded_string: "utf8_text s \<Longrightarrow> scan_string (encode_body s @ CHR 0x22 # rest) = Some rest"
proof (induction rule: utf8_text.induct)
  case utf8_Nil
  then show ?case by (simp add: scan_string.simps(2))
next
  case (utf8_one a s)
  then show ?case by (simp add: encode_body_simps scan_escape)
next
  case (utf8_pair a b s)
  then show ?case using utf8_leads(1) by (simp add: encode_body_simps scan_rune)
next
  case (utf8_triple a b c s)
  then show ?case using utf8_leads(2) by (simp add: encode_body_simps scan_rune)
next
  case (utf8_quad a b c d s)
  then show ?case using utf8_leads(3) by (simp add: encode_body_simps scan_rune)
qed

lemma hex_digit_ascii: "n < 16 \<Longrightarrow> of_char (hex_digit n) < (0x80 :: nat)"
  by (simp add: hex_digit_def)

lemma escape_byte_utf8: "of_char c < (0x80 :: nat) \<Longrightarrow> utf8_text (escape_byte c)"
  by (rule utf8_ascii_text) (auto simp: escape_byte_def hex_digit_ascii)

lemma encode_rune_utf8: "utf8_text r \<Longrightarrow> length r \<noteq> 1 \<Longrightarrow> utf8_text (encode_rune r)"
  by (auto simp: encode_rune_def utf8_one utf8_Nil)

lemma encode_body_utf8: "utf8_text s \<Longrightarrow> utf8_text (encode_body s)"
proof (induction rule: utf8_text.induct)
  case (utf8_one a s)
  then show ?case by (simp add: encode_body_simps utf8_text_append escape_byte_utf8)
next
  case (utf8_pair a b s)
  then show ?case
    by (simp add: encode_body_simps utf8_text_append encode_rune_utf8 utf8_text.utf8_pair utf8_Nil)
next
  case (utf8_triple a b c s)
  then show ?case
    by (simp add: encode_body_simps utf8_text_append encode_rune_utf8 utf8_text.utf8_triple utf8_Nil)
next
  case (utf8_quad a b c d s)
  then show ?case
    by (simp add: encode_body_simps utf8_text_append encode_rune_utf8 utf8_text.utf8_quad utf8_Nil)
qed (simp add: utf8_Nil)

section \<open>Decoded strings are valid UTF-8\<close>

inductive_cases utf8_text_ConsE: "utf8_text (a # s)"

lemma utf8_text_ascii_Cons: "of_char a < (0x80 :: nat) \<Longrightarrow> utf8_text (a # s) \<longleftrightarrow> utf8_text s"
  by (auto intro: utf8_one elim!: utf8_text_ConsE dest: utf8_leads)

lemma hex_value_ascii: "hex_value c = Some n \<Longrightarrow> of_char c < (0x80 :: nat) \<and> n < 16"
  by (auto simp: hex_value_def Let_def split: if_splits)

lemma unicode_escape_tail:
  assumes "unicodeEscapeValue t = Some u"
  shows "u < 0x10000" "utf8_text t \<Longrightarrow> utf8_text (drop 4 t)"
proof -
  obtain a b c d r p q v w where t: "t = a # b # c # d # r" "hex_value a = Some p" "hex_value b = Some q"
    "hex_value c = Some v" "hex_value d = Some w" "u = ((p * 16 + q) * 16 + v) * 16 + w"
    using assms by (cases t rule: unicodeEscapeValue.cases) (auto split: option.splits)
  note asc = t(2-5) [THEN hex_value_ascii]
  show "u < 0x10000" using asc t(6) by simp
  show "utf8_text t \<Longrightarrow> utf8_text (drop 4 t)" using asc t(1) by (simp add: utf8_text_ascii_Cons)
qed

lemma utf8_EncodeRune_text:
  assumes "r < 0x110000" "r < 0xD800 \<or> 0xDFFF < r"
  shows "utf8_text (utf8_EncodeRune r)"
proof -
  consider "r < 0x80" | "0x80 \<le> r" "r < 0x800" | "0x800 \<le> r" "r < 0x10000" | "0x10000 \<le> r" by linarith
  then show ?thesis
  proof cases
    case 1
    then show ?thesis by (simp add: utf8_EncodeRune_def utf8_one utf8_Nil)
  next
    case 2
    then have "utf8_two (0xC0 + r div 0x40) (0x80 + r mod 0x40)"
      by (auto simp: utf8_two_def utf8_cont_def; presburger)
    then show ?thesis using 2 by (simp add: utf8_EncodeRune_def utf8_pair utf8_Nil)
  next
    case 3
    define q where "q = r div 0x40"
    have q: "32 \<le> q" "q < 1024" "q < 864 \<or> 896 \<le> q" using 3 assms(2) unfolding q_def by linarith+
    have "r div 0x1000 = q div 64" by (simp add: q_def div_mult2_eq [of r 64 64, simplified])
    moreover have "q div 64 \<le> 15" "q div 64 = 0 \<Longrightarrow> 32 \<le> q mod 64" "q div 64 = 13 \<Longrightarrow> q mod 64 \<le> 31"
      using q div_mult_mod_eq [of q 64] mod_less_divisor [of 64 q] by linarith+
    ultimately have "utf8_three (0xE0 + r div 0x1000) (0x80 + r div 0x40 mod 0x40) (0x80 + r mod 0x40)"
      unfolding q_def [symmetric] by (auto simp: utf8_three_def utf8_cont_def)
    then show ?thesis using 3 by (simp add: utf8_EncodeRune_def utf8_triple utf8_Nil)
  next
    case 4
    define q where "q = r div 0x1000"
    have q: "16 \<le> q" "q < 272" using 4 assms(1) unfolding q_def by linarith+
    have "r div 0x40000 = q div 64" by (simp add: q_def div_mult2_eq [of r 4096 64, simplified])
    moreover have "q div 64 \<le> 4" "q div 64 = 0 \<Longrightarrow> 16 \<le> q mod 64" "q div 64 = 4 \<Longrightarrow> q mod 64 \<le> 15"
      using q div_mult_mod_eq [of q 64] mod_less_divisor [of 64 q] by linarith+
    ultimately have "utf8_four (0xF0 + r div 0x40000) (0x80 + r div 0x1000 mod 0x40) (0x80 + r div 0x40 mod 0x40) (0x80 + r mod 0x40)"
      unfolding q_def [symmetric] by (auto simp: utf8_four_def utf8_cont_def)
    moreover have "r div 0x40000 < 16" using assms(1) by (simp add: less_mult_imp_div_less)
    ultimately show ?thesis using 4 by (simp add: utf8_EncodeRune_def utf8_quad utf8_Nil)
  qed
qed

lemma decode_escape_utf8:
  assumes "u < 0x10000" "utf8_text rest"
  shows "utf8_text (fst (decode_escape u rest)) \<and> utf8_text (snd (decode_escape u rest))"
proof -
  let ?pair = "\<lambda>w low. rest = CHR 0x5C # CHR ''u'' # w \<and> unicodeEscapeValue w = Some low \<and> 0xD800 \<le> u \<and>
    u < 0xDC00 \<and> 0xDC00 \<le> low \<and> low \<le> 0xDFFF"
  show ?thesis
  proof (cases "\<exists>w low. ?pair w low")
    case True
    then obtain w low where p: "?pair w low" by blast
    then have "utf8_text (drop 4 w)" using assms(2) unicode_escape_tail(2) by (simp add: utf8_text_ascii_Cons)
    moreover have "utf8_text (utf8_EncodeRune ((u - 0xD800) * 0x400 + (low - 0xDC00) + 0x10000))"
      using p by (intro utf8_EncodeRune_text) auto
    ultimately show ?thesis using p by (simp add: decode_escape_def)
  next
    case False
    then have "decode_escape u rest = (utf8_EncodeRune (if u < 0xD800 \<or> 0xDFFF < u then u else 0xFFFD), rest)"
      by (auto simp: decode_escape_def split: list.split option.split)
    moreover have "utf8_text (utf8_EncodeRune (if u < 0xD800 \<or> 0xDFFF < u then u else 0xFFFD))"
      using assms(1) by (intro utf8_EncodeRune_text) auto
    ultimately show ?thesis using assms(2) by simp
  qed
qed

lemma simple_escape_ascii: "simple_escape e = Some b \<Longrightarrow> of_char e < (0x80 :: nat) \<and> of_char b < (0x80 :: nat)"
  by (auto simp: simple_escape_def split: if_splits)

lemma prepend_Some: "prepend b r = Some (v, x) \<longleftrightarrow> (\<exists>w. r = Some (w, x) \<and> v = b @ w)"
  by (cases r) (auto simp: prepend_def)

text \<open>The cases of a read from a byte below 128.\<close>

lemma read_string_ascii_cases:
  assumes "read_string (c # s) = Some (v, r)" "of_char c < (0x80 :: nat)"
  obtains (quote) "v = []" "r = s"
  | (unicode) t u w where "s = CHR ''u'' # t" "unicodeEscapeValue t = Some u" "v = fst (decode_escape u (drop 4 t)) @ w"
      "read_string (snd (decode_escape u (drop 4 t))) = Some (w, r)"
  | (simple) e t b w where "s = e # t" "simple_escape e = Some b" "read_string t = Some (w, r)" "v = b # w"
  | (plain) w where "read_string s = Some (w, r)" "v = c # w"
  using assms(1) unfolding read_string.simps(2) prepend_simps prepend_def [symmetric]
  by (auto simp: prepend_Some split: if_splits list.splits option.splits)

lemma read_string_utf8: "read_string s = Some (v, r) \<Longrightarrow> utf8_text s \<Longrightarrow> utf8_text v \<and> utf8_text r"
proof (induction s arbitrary: v r rule: measure_induct_rule [where f = length])
  case (less s)
  have high: "\<exists>w. read_string t = Some (w, r) \<and> v = a @ w"
    if "s = a @ t" "\<forall>c \<in> set a. 0x80 \<le> (of_char c :: nat)" for a t
    using less.prems(1) read_string_copy_all [OF that(2), of t] that(1) by (simp add: prepend_Some)
  from less.prems(2) show ?case
  proof (cases rule: utf8_text.cases)
    case utf8_Nil
    then show ?thesis using less.prems by simp
  next
    case (utf8_one c t)
    note read = less.prems(1) [unfolded utf8_one(1)]
    from read utf8_one(2) show ?thesis
    proof (cases rule: read_string_ascii_cases)
      case quote
      then show ?thesis using utf8_one utf8_Nil by simp
    next
      case (unicode t' u w)
      then have "utf8_text t'" using utf8_one by (simp add: utf8_text_ascii_Cons)
      then have d: "utf8_text (fst (decode_escape u (drop 4 t')))" "utf8_text (snd (decode_escape u (drop 4 t')))"
        using unicode_escape_tail [OF unicode(2)] decode_escape_utf8 by blast+
      have "length (snd (decode_escape u (drop 4 t'))) < length s"
        using decode_escape_length [of u "drop 4 t'"] utf8_one(1) unicode(1) by simp
      then have "utf8_text w \<and> utf8_text r" using less.IH unicode(4) d(2) by blast
      then show ?thesis using unicode(3) d(1) utf8_text_append by simp
    next
      case (simple e t' b w)
      then have "utf8_text t'" using utf8_one simple_escape_ascii by (auto simp: utf8_text_ascii_Cons)
      moreover have "length t' < length s" using simple utf8_one(1) by simp
      ultimately have "utf8_text w \<and> utf8_text r" using less.IH simple(3) by blast
      then show ?thesis using simple simple_escape_ascii utf8_text.utf8_one by blast
    next
      case (plain w)
      then have "utf8_text w \<and> utf8_text r" using less.IH [of t w r] utf8_one by simp
      then show ?thesis using plain utf8_one(2) utf8_text.utf8_one by blast
    qed
  next
    case (utf8_pair a b t)
    then show ?thesis using high [of "[a, b]" t] utf8_leads(1) less.IH [of t] utf8_text.utf8_pair by fastforce
  next
    case (utf8_triple a b c t)
    then show ?thesis using high [of "[a, b, c]" t] utf8_leads(2) less.IH [of t] utf8_text.utf8_triple by fastforce
  next
    case (utf8_quad a b c d t)
    then show ?thesis using high [of "[a, b, c, d]" t] utf8_leads(3) less.IH [of t] utf8_text.utf8_quad by fastforce
  qed
qed

end
