(* ===== verification/Canonical_Value.thy ===== *)
theory Canonical_Value
  imports Json_Encode Sql_Table
begin

text \<open>
  Canonical JSON values (\<open>appendCanonicalValue\<close> of internal/domain/canonical.go): object keys
  sorted by bytes, exact numbers, minimal string escapes, no white space. The canonical text of a
  decoded value decodes to its canonical form, and two values have the same canonical text exactly when
  they agree up to the order of members and the spelling of numbers.
\<close>

section \<open>The writer\<close>

text \<open>The items of an array or object; every one but the first after a comma.\<close>

fun join_items :: "bytes list \<Rightarrow> bytes" where
  "join_items [] = []"
| "join_items (x # xs) = x @ concat (map (\<lambda>t. CHR '','' # t) xs)"

definition member_text :: "string \<times> bytes \<Rightarrow> bytes" where
  "member_text m = canonicalJSONString (fst m) @ CHR '':'' # snd m"

text \<open>What \<open>appendCanonicalValue\<close> appends to its output.\<close>

fun appendCanonicalValue :: "json \<Rightarrow> bytes" where
  "appendCanonicalValue JNull = ''null''"
| "appendCanonicalValue (JBool b) = (if b then ''true'' else ''false'')"
| "appendCanonicalValue (JString s) = canonicalJSONString s"
| "appendCanonicalValue (JNumber n) = canonicalJSONNumber n"
| "appendCanonicalValue (JArray vs) = CHR ''['' # join_items (map appendCanonicalValue vs) @ '']''"
| "appendCanonicalValue (JObject ms) =
     CHR ''{'' # join_items (map member_text (sort_key fst (map (\<lambda>(k, v). (k, appendCanonicalValue v)) ms))) @ ''}''"

section \<open>Specification\<close>

text \<open>The values the decoder can return.\<close>

definition number_literal :: "string \<Rightarrow> bool" where
  "number_literal n \<longleftrightarrow> (\<exists>p. wf_number p \<and> n = number_text p)"

fun wf_json :: "json \<Rightarrow> bool" where
  "wf_json (JString s) \<longleftrightarrow> utf8_text s"
| "wf_json (JNumber n) \<longleftrightarrow> number_literal n"
| "wf_json (JArray vs) \<longleftrightarrow> (\<forall>v \<in> set vs. wf_json v)"
| "wf_json (JObject ms) \<longleftrightarrow> distinct (map fst ms) \<and> (\<forall>(k, v) \<in> set ms. utf8_text k \<and> wf_json v)"
| "wf_json _ \<longleftrightarrow> True"

text \<open>The canonical form of a value: members in key order, numbers in normal form.\<close>

fun canon :: "json \<Rightarrow> json" where
  "canon (JNumber n) = JNumber (canonicalJSONNumber n)"
| "canon (JArray vs) = JArray (map canon vs)"
| "canon (JObject ms) = JObject (sort_key fst (map (\<lambda>(k, v). (k, canon v)) ms))"
| "canon v = v"

text \<open>Values that agree up to the order of members and the spelling of numbers.\<close>

inductive json_same :: "json \<Rightarrow> json \<Rightarrow> bool" where
  same_null: "json_same JNull JNull"
| same_bool: "json_same (JBool b) (JBool b)"
| same_string: "json_same (JString s) (JString s)"
| same_number: "wf_number p \<Longrightarrow> wf_number q \<Longrightarrow> number_value p = number_value q \<Longrightarrow>
    json_same (JNumber (number_text p)) (JNumber (number_text q))"
| same_array: "length vs = length ws \<Longrightarrow> (\<And>i. i < length vs \<Longrightarrow> json_same (vs ! i) (ws ! i)) \<Longrightarrow>
    json_same (JArray vs) (JArray ws)"
| same_object: "fst ` set ms = fst ` set ns \<Longrightarrow>
    (\<And>k v w. (k, v) \<in> set ms \<Longrightarrow> (k, w) \<in> set ns \<Longrightarrow> json_same v w) \<Longrightarrow>
    json_same (JObject ms) (JObject ns)"

section \<open>Sorting members\<close>

lemma insort_key_values:
  "insort_key fst (k, f v) (map (\<lambda>(k, v). (k, f v)) ms) = map (\<lambda>(k, v). (k, f v)) (insort_key fst (k, v) ms)"
  by (induction ms) auto

lemma sort_key_values:
  "sort_key fst (map (\<lambda>(k, v). (k, f v)) ms) = map (\<lambda>(k, v). (k, f v)) (sort_key fst ms)"
  by (induction ms) (auto simp: insort_key_values)

lemma sort_key_sorted: "sorted (map f xs) \<Longrightarrow> sort_key f xs = xs"
  by (induction xs) (auto simp: insort_is_Cons)

lemma sort_members_eq_iff:
  fixes ms ns :: "(string \<times> 'v) list"
  assumes "distinct (map fst ms)" "distinct (map fst ns)"
  shows "sort_key fst ms = sort_key fst ns \<longleftrightarrow> set ms = set ns"
proof
  assume "sort_key fst ms = sort_key fst ns"
  then show "set ms = set ns" using set_sort by metis
next
  assume s: "set ms = set ns"
  have d: "distinct (map fst (sort_key fst xs))" if "distinct (map fst xs)" for xs :: "(string \<times> 'v) list"
    using that by (metis distinct_map distinct_sort inj_on_def set_sort)
  show "sort_key fst ms = sort_key fst ns"
    by (rule map_sorted_distinct_set_unique [where f = fst])
      (use assms s d in \<open>auto simp: distinct_map\<close>)
qed

section \<open>Number literals\<close>

text \<open>What may follow a value in a canonical text.\<close>

definition value_follow :: "bytes \<Rightarrow> bool" where
  "value_follow r \<longleftrightarrow> (case r of [] \<Rightarrow> True | c # _ \<Rightarrow> c \<in> {CHR '','', CHR '']'', CHR ''}''})"

lemma value_follow_simps [simp]:
  "value_follow []" "value_follow (CHR '','' # r)" "value_follow (CHR '']'' # r)" "value_follow (CHR ''}'' # r)"
  by (simp_all add: value_follow_def)

lemma value_follow_first:
  "value_follow r \<Longrightarrow> no_digit_first r \<and> (\<forall>c t. r = c # t \<longrightarrow> c \<noteq> CHR ''.'' \<and> \<not> is_exponent_mark c)"
  by (auto simp: value_follow_def no_digit_first_def is_digit_def is_exponent_mark_def split: list.splits)

lemma dropWhile_digits: "list_all is_digit s \<Longrightarrow> no_digit_first r \<Longrightarrow> dropWhile is_digit (s @ r) = r"
  by (cases r) (auto simp: no_digit_first_def list_all_iff dropWhile_append1 dropWhile_append2)

lemma read_integer_text:
  assumes "digit_string w" "w = ''0'' \<or> hd w \<noteq> CHR ''0''" "no_digit_first r"
  shows "read_integer (w @ r) = Some (w, r)"
proof (cases w)
  case (Cons c t)
  then show ?thesis using assms takeWhile_digits [of w r] dropWhile_digits [of w r]
    by (auto simp: read_integer_def digit_string_def)
qed (use assms in \<open>simp add: digit_string_def\<close>)

lemma read_fraction_text:
  assumes "case f of None \<Rightarrow> True | Some ds \<Rightarrow> digit_string ds" "no_digit_first r" "\<And>c t. r = c # t \<Longrightarrow> c \<noteq> CHR ''.''"
  shows "read_fraction (fraction_text f @ r) = Some (fraction_text f, r)"
proof (cases f)
  case (Some ds)
  then show ?thesis using assms takeWhile_digits [of ds r] dropWhile_digits [of ds r]
    by (simp add: read_fraction_def fraction_text_def digit_string_def)
qed (use assms in \<open>simp add: read_fraction_def fraction_text_def split: list.split\<close>)

lemma read_exponent_text:
  assumes "case e of None \<Rightarrow> True | Some (m, sign, ds) \<Rightarrow> is_exponent_mark m \<and> sign \<in> {[], ''+'', ''-''} \<and> digit_string ds"
    "value_follow r"
  shows "read_exponent (exponent_text e @ r) = Some (exponent_text e, r)"
proof (cases e)
  case None
  then show ?thesis using value_follow_first [OF assms(2)]
    by (auto simp: read_exponent_def exponent_text_def is_exponent_mark_def split: list.split)
next
  case (Some x)
  obtain m sign ds where x: "x = (m, sign, ds)" by (cases x)
  then have k: "is_exponent_mark m" "sign \<in> {[], ''+'', ''-''}" "digit_string ds" using assms(1) Some by simp_all
  then obtain c t where ds: "ds = c # t" "is_digit c" by (cases ds) (auto simp: digit_string_def)
  have tw: "takeWhile is_digit (ds @ r) = ds" "dropWhile is_digit (ds @ r) = r"
    using k(3) value_follow_first [OF assms(2)] takeWhile_digits dropWhile_digits by (auto simp: digit_string_def)
  have sign: "(case sign @ ds @ r of d # _ \<Rightarrow> if d = CHR ''+'' \<or> d = CHR ''-'' then [d] else [] | [] \<Rightarrow> []) = sign"
    using k(2) ds by auto
  show ?thesis using k(1,3) tw unfolding Some x exponent_text_def read_exponent_def option.case prod.case append_Cons list.case
    by (simp add: is_exponent_mark_def digit_string_def sign Let_def)
qed

lemma read_number_text:
  assumes p: "wf_number p" and r: "value_follow r"
  shows "read_number (number_text p @ r) = Some (number_text p, r)"
proof -
  let ?f = "fraction_text (num_fraction p)" and ?e = "exponent_text (num_exponent p)" and ?w = "num_whole p"
  have e: "read_exponent (?e @ r) = Some (?e, r)"
    by (rule read_exponent_text [OF _ r]) (use p in \<open>simp add: wf_number_def\<close>)
  have er: "no_digit_first (?e @ r)" "\<And>c t. ?e @ r = c # t \<Longrightarrow> c \<noteq> CHR ''.''"
    using value_follow_first [OF r] p
    by (auto simp: exponent_text_def wf_number_def no_digit_first_def is_exponent_mark_def split: option.splits)
  have f: "read_fraction (?f @ ?e @ r) = Some (?f, ?e @ r)"
    by (rule read_fraction_text [OF _ er]) (use p in \<open>simp_all add: wf_number_def\<close>)
  have "no_digit_first (?f @ ?e @ r)"
    using er(1) by (auto simp: fraction_text_def no_digit_first_def split: option.split)
  then have w: "read_integer (?w @ ?f @ ?e @ r) = Some (?w, ?f @ ?e @ r)"
    by (intro read_integer_text) (use p in \<open>simp_all add: wf_number_def\<close>)
  obtain c t where c: "?w = c # t" "is_digit c" using p by (cases ?w) (auto simp: wf_number_def digit_string_def)
  show ?thesis
    using w f e c unfolding number_text_def read_number_def by (cases "num_negative p") simp_all
qed

lemma number_text_first: "wf_number p \<Longrightarrow> \<exists>c t. number_text p = c # t \<and> (is_digit c \<or> c = CHR ''-'')"
  by (cases "num_whole p") (auto simp: number_text_def wf_number_def digit_string_def)

lemma read_literal_number:
  assumes "wf_number p" "value_follow r"
  shows "read_literal (number_text p @ r) = Some (JNumber (number_text p), r)"
proof -
  obtain c t where c: "number_text p = c # t" "is_digit c \<or> c = CHR ''-''" using number_text_first [OF assms(1)] by blast
  then have "\<not> prefix ''null'' (number_text p @ r)" "\<not> prefix ''true'' (number_text p @ r)"
    "\<not> prefix ''false'' (number_text p @ r)"
    by (auto simp: is_digit_def)
  then show ?thesis using read_number_text [OF assms] by (simp add: read_literal_def)
qed

section \<open>The canonical text decodes to the canonical form\<close>

definition plain_first :: "bytes \<Rightarrow> bool" where
  "plain_first s \<longleftrightarrow> (case s of [] \<Rightarrow> False | c # _ \<Rightarrow> \<not> is_ws c \<and> c \<noteq> CHR '']'' \<and> c \<noteq> CHR ''}'')"

lemma number_text_plain: "wf_number p \<Longrightarrow> plain_first (number_text p)"
  using number_text_first [of p] by (auto simp: plain_first_def is_ws_def is_digit_def)

lemma canonical_number_literal:
  assumes "number_literal n"
  obtains q where "wf_number q" "canonicalJSONNumber n = number_text q"
  using assms canonicalJSONNumber_value unfolding number_literal_def by metis

lemma canonical_text_first: "wf_json v \<Longrightarrow> plain_first (appendCanonicalValue v)"
proof (cases v)
  case (JNumber n)
  assume "wf_json v"
  then show ?thesis using JNumber number_text_plain canonical_number_literal by (metis appendCanonicalValue.simps(4) wf_json.simps(2))
qed (auto simp: plain_first_def is_ws_def canonicalJSONString_def)

lemma skip_ws_first: "plain_first s \<Longrightarrow> skip_ws (s @ r) = s @ r"
  by (cases s) (simp_all add: plain_first_def skip_ws_def)

lemma skip_ws_delimiter [simp]:
  "skip_ws (CHR '','' # s) = CHR '','' # s" "skip_ws (CHR '':'' # s) = CHR '':'' # s"
  "skip_ws (CHR '']'' # s) = CHR '']'' # s" "skip_ws (CHR ''}'' # s) = CHR ''}'' # s"
  "skip_ws (CHR ''['' # s) = CHR ''['' # s" "skip_ws (CHR ''{'' # s) = CHR ''{'' # s"
  "skip_ws (CHR 0x22 # s) = CHR 0x22 # s"
  by (simp_all add: skip_ws_def is_ws_def)

text \<open>The text of \<open>v\<close> decodes to its canonical form in any context, with two units of fuel per
  byte.\<close>

definition decodes :: "json \<Rightarrow> bool" where
  "decodes v \<longleftrightarrow> plain_first (appendCanonicalValue v) \<and>
     (\<forall>n r. value_follow r \<longrightarrow> 2 * length (appendCanonicalValue v @ r) + 1 \<le> n \<longrightarrow>
        decodeCanonicalValue n (appendCanonicalValue v @ r) = Some (canon v, r))"

lemma decodesD:
  "decodes v \<Longrightarrow> value_follow r \<Longrightarrow> 2 * length (appendCanonicalValue v @ r) + 1 \<le> n \<Longrightarrow>
   decodeCanonicalValue n (appendCanonicalValue v @ r) = Some (canon v, r)"
  by (simp add: decodes_def)

lemma decodesI:
  assumes "plain_first (appendCanonicalValue v)"
    and "\<And>m r. value_follow r \<Longrightarrow> 2 * length (appendCanonicalValue v @ r) \<le> m \<Longrightarrow>
      decodeCanonicalValue (Suc m) (appendCanonicalValue v @ r) = Some (canon v, r)"
  shows "decodes v"
  unfolding decodes_def using assms by (metis Suc_eq_plus1 Suc_le_D Suc_le_mono)

definition items_text :: "bytes list \<Rightarrow> bytes" where
  "items_text ts = concat (map (\<lambda>t. CHR '','' # t) ts)"

lemma items_text_simps [simp]: "items_text [] = []" "items_text (t # ts) = CHR '','' # t @ items_text ts"
  by (simp_all add: items_text_def)

lemma items_follow: "value_follow r \<Longrightarrow> value_follow (items_text ts @ r)"
  by (cases ts) simp_all

lemma decode_elements_tail:
  assumes "\<forall>v \<in> set vs. decodes v"
    and "2 * length (items_text (map appendCanonicalValue vs) @ CHR '']'' # r) + 2 \<le> n"
  shows "decode_elements n False (items_text (map appendCanonicalValue vs) @ CHR '']'' # r) = Some (map canon vs, r)"
  using assms
proof (induction vs arbitrary: n)
  case Nil
  then show ?case by (cases n) (simp_all add: decode_elements.simps(2))
next
  case (Cons v vs)
  obtain m where n: "n = Suc m" using Cons.prems(2) by (cases n) simp_all
  let ?t = "items_text (map appendCanonicalValue vs) @ CHR '']'' # r"
  have "decodeCanonicalValue m (appendCanonicalValue v @ ?t) = Some (canon v, ?t)"
    by (rule decodesD) (use Cons.prems n items_follow in auto)
  moreover have "decode_elements m False ?t = Some (map canon vs, r)"
    by (rule Cons.IH) (use Cons.prems n in auto)
  ultimately show ?case by (simp add: n decode_elements.simps(2) after_separator_def)
qed

lemma decode_elements_text:
  assumes "\<forall>v \<in> set vs. decodes v"
    and "2 * length (join_items (map appendCanonicalValue vs) @ CHR '']'' # r) + 2 \<le> n"
  shows "decode_elements n True (join_items (map appendCanonicalValue vs) @ CHR '']'' # r) = Some (map canon vs, r)"
proof (cases vs)
  case Nil
  then show ?thesis using assms by (cases n) (simp_all add: decode_elements.simps(2))
next
  case (Cons v ws)
  obtain m where n: "n = Suc m" using assms(2) by (cases n) simp_all
  let ?t = "items_text (map appendCanonicalValue ws) @ CHR '']'' # r"
  have t: "join_items (map appendCanonicalValue vs) @ CHR '']'' # r = appendCanonicalValue v @ ?t"
    by (simp add: Cons items_text_def)
  have v: "decodes v" "\<forall>v \<in> set ws. decodes v" using assms(1) Cons by simp_all
  then have f: "plain_first (appendCanonicalValue v)" by (simp add: decodes_def)
  then obtain c x where c: "appendCanonicalValue v = c # x" "c \<noteq> CHR '']''"
    by (auto simp: plain_first_def split: list.splits)
  have "decodeCanonicalValue m (appendCanonicalValue v @ ?t) = Some (canon v, ?t)"
    by (rule decodesD [OF v(1)]) (use assms(2) n items_follow t in auto)
  moreover have "decode_elements m False ?t = Some (map canon ws, r)"
    by (rule decode_elements_tail [OF v(2)]) (use assms(2) n t c in auto)
  ultimately show ?thesis unfolding t n decode_elements.simps(2) skip_ws_first [OF f]
    using c by (simp add: after_separator_def Cons)
qed

definition member_value_text :: "string \<times> json \<Rightarrow> bytes" where
  "member_value_text m = canonicalJSONString (fst m) @ CHR '':'' # appendCanonicalValue (snd m)"

lemma member_value_text_pair:
  "member_value_text (k, v) = canonicalJSONString k @ CHR '':'' # appendCanonicalValue v"
  by (simp add: member_value_text_def)

lemma read_key_text:
  "utf8_text k \<Longrightarrow> k \<notin> set seen \<Longrightarrow> read_key seen (canonicalJSONString k @ CHR '':'' # r) = Some (k, r)"
  by (simp add: read_key_def canonicalJSONString_def read_encoded_string)

lemma decode_members_tail:
  assumes "\<forall>(k, v) \<in> set ms. utf8_text k \<and> decodes v" "distinct (map fst ms)" "fst ` set ms \<inter> set seen = {}"
    and "2 * length (items_text (map member_value_text ms) @ CHR ''}'' # r) + 2 \<le> n"
  shows "decode_members n False seen (items_text (map member_value_text ms) @ CHR ''}'' # r) =
    Some (map (\<lambda>(k, v). (k, canon v)) ms, r)"
  using assms
proof (induction ms arbitrary: n seen)
  case Nil
  then show ?case by (cases n) (simp_all add: decode_members.simps(2))
next
  case (Cons m ms)
  obtain k v where m: "m = (k, v)" by (cases m)
  obtain j where n: "n = Suc j" using Cons.prems(4) by (cases n) simp_all
  let ?t = "items_text (map member_value_text ms) @ CHR ''}'' # r"
  have key: "next_key False seen (CHR '','' # canonicalJSONString k @ CHR '':'' # appendCanonicalValue v @ ?t) =
      Some (k, appendCanonicalValue v @ ?t)"
    using Cons.prems m by (simp add: next_key_def after_separator_def read_key_text)
  have "decodeCanonicalValue j (appendCanonicalValue v @ ?t) = Some (canon v, ?t)"
    by (rule decodesD) (use Cons.prems n m items_follow in \<open>auto simp: member_value_text_pair\<close>)
  moreover have "decode_members j False (seen @ [k]) ?t = Some (map (\<lambda>(k, v). (k, canon v)) ms, r)"
    by (rule Cons.IH) (use Cons.prems n m in auto)
  ultimately show ?case using key by (simp add: n m decode_members.simps(2) member_value_text_pair)
qed

lemma decode_members_text:
  assumes ms: "\<forall>(k, v) \<in> set ms. utf8_text k \<and> decodes v" "distinct (map fst ms)"
    and n: "2 * length (join_items (map member_value_text ms) @ CHR ''}'' # r) + 2 \<le> n"
  shows "decode_members n True [] (join_items (map member_value_text ms) @ CHR ''}'' # r) =
    Some (map (\<lambda>(k, v). (k, canon v)) ms, r)"
proof (cases ms)
  case Nil
  then show ?thesis using n by (cases n) (simp_all add: decode_members.simps(2))
next
  case (Cons m ws)
  obtain k v where m: "m = (k, v)" by (cases m)
  obtain j where j: "n = Suc j" using n by (cases n) simp_all
  let ?t = "items_text (map member_value_text ws) @ CHR ''}'' # r"
  have t: "join_items (map member_value_text ms) @ CHR ''}'' # r =
      canonicalJSONString k @ CHR '':'' # appendCanonicalValue v @ ?t"
    by (simp add: Cons m items_text_def member_value_text_def)
  have n': "2 * length (canonicalJSONString k @ CHR '':'' # appendCanonicalValue v @ ?t) + 2 \<le> Suc j"
    using n unfolding t j .
  have key: "next_key True [] (canonicalJSONString k @ CHR '':'' # appendCanonicalValue v @ ?t) =
      Some (k, appendCanonicalValue v @ ?t)"
    using ms Cons m by (simp add: next_key_def after_separator_def read_key_text)
  have "decodeCanonicalValue j (appendCanonicalValue v @ ?t) = Some (canon v, ?t)"
    by (rule decodesD) (use ms Cons n' m items_follow in auto)
  moreover have "decode_members j False [k] ?t = Some (map (\<lambda>(k, v). (k, canon v)) ws, r)"
    by (rule decode_members_tail) (use ms n' m Cons in \<open>auto simp: canonicalJSONString_def\<close>)
  ultimately show ?thesis using key unfolding t j
    by (simp add: decode_members.simps(2) Cons m canonicalJSONString_def)
qed

lemma object_text:
  "appendCanonicalValue (JObject ms) = CHR ''{'' # join_items (map member_value_text (sort_key fst ms)) @ ''}''"
proof -
  have "map member_text (map (\<lambda>(k, v). (k, appendCanonicalValue v)) ms) = map member_value_text ms" for ms
    by (auto simp: member_text_def member_value_text_def)
  then show ?thesis by (simp only: appendCanonicalValue.simps sort_key_values)
qed

lemma object_canon: "canon (JObject ms) = JObject (map (\<lambda>(k, v). (k, canon v)) (sort_key fst ms))"
  by (simp add: sort_key_values)

lemma distinct_sort_members: "distinct (map fst ms) \<Longrightarrow> distinct (map fst (sort_key fst ms))"
  by (metis distinct_map distinct_sort inj_on_def set_sort)

text \<open>The canonical text of every value the decoder can return decodes to its canonical form.\<close>

lemma canonical_decodes: "wf_json v \<Longrightarrow> decodes v"
proof (induction v)
  case JNull
  show ?case
    by (rule decodesI)
      (simp_all add: plain_first_def is_ws_def decodeCanonicalValue.simps(2) skip_ws_def read_literal_def)
next
  case (JBool b)
  show ?case
    by (rule decodesI)
      (simp_all add: plain_first_def is_ws_def decodeCanonicalValue.simps(2) skip_ws_def read_literal_def)
next
  case (JString s)
  then show ?case
    by (intro decodesI) (simp_all add: plain_first_def is_ws_def canonicalJSONString_def
        decodeCanonicalValue.simps(2) read_encoded_string)
next
  case (JNumber k)
  then obtain q where q: "wf_number q" "canonicalJSONNumber k = number_text q"
    using canonical_number_literal by auto
  obtain c t where c: "number_text q = c # t" "is_digit c \<or> c = CHR ''-''" using number_text_first [OF q(1)] by blast
  then have d: "c \<noteq> CHR ''{''" "c \<noteq> CHR ''[''" "c \<noteq> CHR 0x22" by (auto simp: is_digit_def)
  show ?case
  proof (rule decodesI)
    fix m r
    assume "value_follow r"
    then show "decodeCanonicalValue (Suc m) (appendCanonicalValue (JNumber k) @ r) = Some (canon (JNumber k), r)"
      using c d read_literal_number [OF q(1)] skip_ws_first [OF number_text_plain [OF q(1)], of r]
      by (simp add: decodeCanonicalValue.simps(2) q(2))
  qed (simp add: q number_text_plain)
next
  case (JArray vs)
  then have vs: "\<forall>v \<in> set vs. decodes v" by simp
  show ?case
    by (rule decodesI) (simp_all add: plain_first_def is_ws_def decodeCanonicalValue.simps(2) decode_elements_text [OF vs])
next
  case (JObject ms)
  then have ms: "\<forall>(k, v) \<in> set (sort_key fst ms). utf8_text k \<and> decodes v"
    "distinct (map fst (sort_key fst ms))"
    using distinct_sort_members by fastforce+
  show ?case
    by (rule decodesI) (simp_all add: object_text object_canon plain_first_def is_ws_def decodeCanonicalValue.simps(2)
        decode_members_text [OF ms] del: appendCanonicalValue.simps canon.simps)
qed

section \<open>The canonical text passes the checks of the decoder\<close>

lemma number_text_bytes:
  assumes "wf_number p"
  shows "\<forall>c \<in> set (number_text p). of_char c < (0x80 :: nat) \<and> c \<noteq> CHR 0x22"
proof -
  have "of_char c < (0x80 :: nat) \<and> c \<noteq> CHR 0x22" if "is_digit c \<or> c \<in> {CHR ''-'', CHR ''+'', CHR ''.''} \<or> is_exponent_mark c" for c
    using that by (auto simp: is_digit_def is_exponent_mark_def)
  moreover have "\<forall>c \<in> set (number_text p). is_digit c \<or> c \<in> {CHR ''-'', CHR ''+'', CHR ''.''} \<or> is_exponent_mark c"
    using assms unfolding number_text_def fraction_text_def exponent_text_def wf_number_def digit_string_def list_all_iff
    by (auto split: option.splits)
  ultimately show ?thesis by blast
qed

lemma escapes_plain: "\<forall>c \<in> set s. c \<noteq> CHR 0x22 \<Longrightarrow> validUnicodeEscapes (s @ r) = validUnicodeEscapes r"
  by (induction s) auto

lemma escapes_string: "utf8_text s \<Longrightarrow> validUnicodeEscapes (canonicalJSONString s @ r) = validUnicodeEscapes r"
  by (simp add: canonicalJSONString_def scan_encoded_string)

text \<open>A text that is valid UTF-8 and whose escapes are valid in any context.\<close>

definition checked :: "bytes \<Rightarrow> bool" where
  "checked t \<longleftrightarrow> utf8_text t \<and> (\<forall>r. validUnicodeEscapes (t @ r) = validUnicodeEscapes r)"

lemma checked_append: "checked a \<Longrightarrow> checked b \<Longrightarrow> checked (a @ b)"
  by (simp add: checked_def utf8_text_append)

lemma checked_Nil: "checked []"
  by (simp add: checked_def utf8_Nil)

lemma checked_plain: "\<forall>c \<in> set s. of_char c < (0x80 :: nat) \<and> c \<noteq> CHR 0x22 \<Longrightarrow> checked s"
  by (simp add: checked_def utf8_ascii_text escapes_plain)

lemma checked_string: "utf8_text s \<Longrightarrow> checked (canonicalJSONString s)"
  unfolding checked_def using escapes_string
  by (auto simp: canonicalJSONString_def utf8_text_ascii_Cons utf8_one utf8_Nil intro!: utf8_text_append encode_body_utf8)

lemma checked_Cons: "of_char c < (0x80 :: nat) \<Longrightarrow> c \<noteq> CHR 0x22 \<Longrightarrow> checked t \<Longrightarrow> checked (c # t)"
  using checked_append [of "[c]" t] checked_plain [of "[c]"] by simp

lemma checked_items: "\<forall>t \<in> set ts. checked t \<Longrightarrow> checked (items_text ts)"
  by (induction ts) (simp_all add: checked_Nil checked_append checked_Cons)

lemma checked_join: "\<forall>t \<in> set ts. checked t \<Longrightarrow> checked (join_items ts)"
  by (cases ts) (simp_all add: checked_Nil checked_append checked_items items_text_def [symmetric])

lemma canonical_checked: "wf_json v \<Longrightarrow> checked (appendCanonicalValue v)"
proof (induction v)
  case (JNumber n)
  then obtain q where "wf_number q" "canonicalJSONNumber n = number_text q" using canonical_number_literal by auto
  then show ?case using number_text_bytes by (simp add: checked_plain)
next
  case (JArray vs)
  then have "checked (join_items (map appendCanonicalValue vs))" by (intro checked_join) auto
  then show ?case by (simp add: checked_Cons checked_append checked_Nil)
next
  case (JObject ms)
  then have "checked (join_items (map member_value_text (sort_key fst ms)))"
    by (intro checked_join) (fastforce simp: member_value_text_pair intro!: checked_append checked_Cons checked_string)
  then show ?case unfolding object_text by (simp add: checked_Cons checked_append checked_Nil)
qed (auto simp: checked_string intro!: checked_plain)

theorem canonical_roundtrip:
  assumes "wf_json v"
  shows "decodeCanonicalJSON (appendCanonicalValue v) = Some (canon v)"
proof -
  have c: "checked (appendCanonicalValue v)" using assms by (rule canonical_checked)
  then have "validUnicodeEscapes (appendCanonicalValue v)"
    unfolding checked_def using append_Nil2 validUnicodeEscapes.simps(1) by metis
  moreover have "decodeCanonicalValue (decode_fuel_of (appendCanonicalValue v)) (appendCanonicalValue v) = Some (canon v, [])"
    using decodesD [OF canonical_decodes [OF assms], of "[]"] by (simp add: decode_fuel_of_def)
  ultimately show ?thesis using c
    by (simp add: decodeCanonicalJSON_def utf8_ValidString_iff checked_def skip_ws_def)
qed

section \<open>Decoded values are well formed\<close>

lemma read_integer_parts: "read_integer s = Some (w, r) \<Longrightarrow>
    s = w @ r \<and> digit_string w \<and> (w = ''0'' \<or> hd w \<noteq> CHR ''0'')"
  by (auto simp: read_integer_def digit_string_def list_all_iff split: list.splits if_splits dest: set_takeWhileD)

lemma read_fraction_parts: "read_fraction s = Some (w, r) \<Longrightarrow>
    \<exists>f. s = w @ r \<and> w = fraction_text f \<and> (case f of None \<Rightarrow> True | Some ds \<Rightarrow> digit_string ds)"
proof (cases s)
  case (Cons c t)
  assume a: "read_fraction s = Some (w, r)"
  show ?thesis
  proof (cases "c = CHR ''.''")
    case True
    then have "s = w @ r \<and> w = fraction_text (Some (takeWhile is_digit t)) \<and> digit_string (takeWhile is_digit t)"
      using a Cons by (auto simp: read_fraction_def fraction_text_def digit_string_def list_all_iff split: if_splits
          dest: set_takeWhileD)
    then show ?thesis by force
  qed (use a Cons in \<open>auto simp: read_fraction_def fraction_text_def intro!: exI [of _ None]\<close>)
qed (auto simp: read_fraction_def fraction_text_def intro!: exI [of _ None])

lemma read_exponent_parts: "read_exponent s = Some (w, r) \<Longrightarrow>
    \<exists>e. s = w @ r \<and> w = exponent_text e \<and>
      (case e of None \<Rightarrow> True | Some (m, sign, ds) \<Rightarrow> is_exponent_mark m \<and> sign \<in> {[], ''+'', ''-''} \<and> digit_string ds)"
proof (cases s)
  case (Cons c t)
  assume a: "read_exponent s = Some (w, r)"
  show ?thesis
  proof (cases "is_exponent_mark c")
    case True
    define sign where "sign = (case t of d # _ \<Rightarrow> if d = CHR ''+'' \<or> d = CHR ''-'' then [d] else [] | [] \<Rightarrow> [])"
    define u where "u = drop (length sign) t"
    have t: "t = sign @ u" "sign \<in> {[], ''+'', ''-''}" by (auto simp: sign_def u_def split: list.splits)
    have "takeWhile is_digit u \<noteq> [] \<and> w = c # sign @ takeWhile is_digit u \<and> r = dropWhile is_digit u"
      using a True unfolding Cons read_exponent_def list.case sign_def [symmetric] Let_def u_def [symmetric]
      by (auto simp: is_exponent_mark_def split: if_splits)
    then have "s = w @ r \<and> w = exponent_text (Some (c, sign, takeWhile is_digit u)) \<and> digit_string (takeWhile is_digit u)"
      using Cons t by (auto simp: exponent_text_def digit_string_def list_all_iff dest: set_takeWhileD)
    then show ?thesis using True t(2) by (intro exI [of _ "Some (c, sign, takeWhile is_digit u)"]) simp
  qed (use a Cons in \<open>auto simp: read_exponent_def exponent_text_def is_exponent_mark_def intro!: exI [of _ None]\<close>)
qed (auto simp: read_exponent_def exponent_text_def intro!: exI [of _ None])

lemma read_number_parts: "read_number s = Some (w, r) \<Longrightarrow> s = w @ r \<and> number_literal w"
proof -
  assume a: "read_number s = Some (w, r)"
  define sign where "sign = (case s of c # _ \<Rightarrow> if c = CHR ''-'' then [c] else [] | [] \<Rightarrow> [])"
  define u where "u = drop (length sign) s"
  have s: "s = sign @ u" "sign = [] \<or> sign = ''-''" by (auto simp: sign_def u_def split: list.splits)
  obtain a1 a2 a3 s1 s2 where p: "read_integer u = Some (a1, s1)" "read_fraction s1 = Some (a2, s2)"
    "read_exponent s2 = Some (a3, r)" "w = sign @ a1 @ a2 @ a3"
    using a unfolding read_number_def sign_def [symmetric] Let_def u_def [symmetric] by (auto simp: bind_eq_Some_conv)
  obtain f where f: "s1 = a2 @ s2" "a2 = fraction_text f" "case f of None \<Rightarrow> True | Some ds \<Rightarrow> digit_string ds"
    using read_fraction_parts [OF p(2)] by blast
  obtain e where e: "s2 = a3 @ r" "a3 = exponent_text e"
    "case e of None \<Rightarrow> True | Some (m, sign, ds) \<Rightarrow> is_exponent_mark m \<and> sign \<in> {[], ''+'', ''-''} \<and> digit_string ds"
    using read_exponent_parts [OF p(3)] by blast
  let ?p = "\<lparr> num_negative = (sign = ''-''), num_whole = a1, num_fraction = f, num_exponent = e \<rparr>"
  have "wf_number ?p" "w = number_text ?p"
    using read_integer_parts [OF p(1)] f e s(2) p(4) by (auto simp: wf_number_def number_text_def)
  then show ?thesis using read_integer_parts [OF p(1)] f(1) e(1) s(1) p(4) unfolding number_literal_def by auto
qed

lemma utf8_text_drop_ascii: "utf8_text (a @ b) \<Longrightarrow> \<forall>c \<in> set a. of_char c < (0x80 :: nat) \<Longrightarrow> utf8_text b"
  by (induction a) (simp_all add: utf8_text_ascii_Cons)

lemma skip_ws_utf8: "utf8_text s \<Longrightarrow> utf8_text (skip_ws s)"
proof -
  assume "utf8_text s"
  then have "utf8_text (takeWhile is_ws s @ skip_ws s)" by (simp add: skip_ws_def)
  then show ?thesis by (rule utf8_text_drop_ascii) (auto simp: is_ws_def dest!: set_takeWhileD)
qed

lemma read_literal_wf: "read_literal s = Some (v, r) \<Longrightarrow> utf8_text s \<Longrightarrow> wf_json v \<and> utf8_text r"
proof -
  assume l: "read_literal s = Some (v, r)" and s: "utf8_text s"
  have drops: "utf8_text (drop (length a) s)" if "prefix a s" "\<forall>c \<in> set a. of_char c < (0x80 :: nat)" for a
    using that s by (auto simp: prefix_def dest: utf8_text_drop_ascii)
  consider n where "v = JNumber n" "read_number s = Some (n, r)" | "v \<in> {JNull, JBool True, JBool False}"
      "utf8_text r"
    using l drops [of "''null''"] drops [of "''true''"] drops [of "''false''"]
    by (auto simp: read_literal_def numeral_eq_Suc split: if_splits)
  then show ?thesis
  proof cases
    case 1
    then have n: "s = n @ r" "number_literal n" using read_number_parts by blast+
    then obtain p where "wf_number p" "n = number_text p" by (auto simp: number_literal_def)
    then have "utf8_text r" using utf8_text_drop_ascii [of n r] number_text_bytes [of p] s n(1) by simp
    then show ?thesis using 1 n by simp
  qed auto
qed

lemma next_key_wf: "next_key start seen s = Some (k, r) \<Longrightarrow> utf8_text s \<Longrightarrow> k \<notin> set seen \<and> utf8_text k \<and> utf8_text r"
proof -
  assume a: "next_key start seen s = Some (k, r)" and s: "utf8_text s"
  then obtain s0 where "after_separator start s = Some s0" and s0: "read_key seen s0 = Some (k, r)"
    by (auto simp: next_key_def bind_eq_Some_conv)
  then have "utf8_text s0" using s by (auto simp: after_separator_def utf8_text_ascii_Cons split: if_splits list.splits)
  moreover obtain u where q: "skip_ws s0 = CHR 0x22 # u" using s0 by (auto simp: read_key_def split: list.splits if_splits)
  ultimately have u: "utf8_text u" using skip_ws_utf8 [of s0] by (simp add: utf8_text_ascii_Cons)
  obtain s1 where s1: "read_string u = Some (k, s1)" "k \<notin> set seen" "skip_ws s1 = CHR '':'' # r"
    using s0 q by (auto simp: read_key_def bind_eq_Some_conv split: if_splits list.splits)
  then have "utf8_text k" "utf8_text s1" using read_string_utf8 u by blast+
  then show ?thesis using s1 skip_ws_utf8 [of s1] by (simp add: utf8_text_ascii_Cons)
qed

lemma decode_wf:
  "decodeCanonicalValue n s = Some (v, r) \<Longrightarrow> utf8_text s \<Longrightarrow> wf_json v \<and> utf8_text r"
  "decode_elements n start s = Some (vs, r) \<Longrightarrow> utf8_text s \<Longrightarrow> (\<forall>v \<in> set vs. wf_json v) \<and> utf8_text r"
  "decode_members n start seen s = Some (ms, r) \<Longrightarrow> utf8_text s \<Longrightarrow>
     distinct (map fst ms) \<and> fst ` set ms \<inter> set seen = {} \<and> (\<forall>(k, v) \<in> set ms. utf8_text k \<and> wf_json v) \<and> utf8_text r"
proof (induction n s and n start s and n start seen s arbitrary: v r and vs r and ms r
    rule: decodeCanonicalValue_decode_elements_decode_members.induct)
  case (2 n s)
  obtain c t where c: "skip_ws s = c # t" using "2.prems"(1) by (cases "skip_ws s") (simp_all add: decodeCanonicalValue.simps(2))
  then have ct: "utf8_text (c # t)" using skip_ws_utf8 "2.prems"(2) by metis
  then have t: "utf8_text t" if "c \<in> {CHR ''{'', CHR ''['', CHR 0x22}" using that by (auto simp: utf8_text_ascii_Cons)
  from "2.prems"(1) consider ms where "c = CHR ''{''" "decode_members n True [] t = Some (ms, r)" "v = JObject ms"
    | vs where "c = CHR ''[''" "decode_elements n True t = Some (vs, r)" "v = JArray vs"
    | x where "c = CHR 0x22" "read_string t = Some (x, r)" "v = JString x"
    | "read_literal (c # t) = Some (v, r)"
    unfolding decodeCanonicalValue.simps(2) c by (auto split: if_splits)
  then show ?case
  proof cases
    case 1
    then show ?thesis using "2.IH"(1) [OF c, of ms r] t by simp
  next
    case 2
    then show ?thesis using "2.IH"(2) [OF c, of vs r] t by simp
  next
    case 3
    then show ?thesis using read_string_utf8 [of t x r] t by simp
  next
    case 4
    then show ?thesis using read_literal_wf ct by blast
  qed
next
  case (4 n start s)
  from "4.prems"(1) consider t where "skip_ws s = CHR '']'' # t" "r = t" "vs = []"
    | c t s1 v s2 rest where "skip_ws s = c # t" "c \<noteq> CHR '']''" "after_separator start (c # t) = Some s1"
        "decodeCanonicalValue n s1 = Some (v, s2)" "decode_elements n False s2 = Some (rest, r)" "vs = v # rest"
    by (auto simp: decode_elements.simps(2) bind_eq_Some_conv split: list.splits if_splits)
  then show ?case
  proof cases
    case 1
    then show ?thesis using skip_ws_utf8 [OF "4.prems"(2)] by (simp add: utf8_text_ascii_Cons)
  next
    case 2
    then have "utf8_text s1" using skip_ws_utf8 [OF "4.prems"(2)]
      by (auto simp: after_separator_def utf8_text_ascii_Cons split: if_splits)
    then have "wf_json v \<and> utf8_text s2" by (rule "4.IH"(1) [OF 2(1-4)])
    then show ?thesis using "4.IH"(2) [OF 2(1-4) refl 2(5)] 2(6) by simp
  qed
next
  case (6 n start seen s)
  from "6.prems"(1) consider t where "skip_ws s = CHR ''}'' # t" "r = t" "ms = []"
    | c t key s1 v s2 rest where "skip_ws s = c # t" "c \<noteq> CHR ''}''" "next_key start seen (c # t) = Some (key, s1)"
        "decodeCanonicalValue n s1 = Some (v, s2)"
        "decode_members n False (seen @ [key]) s2 = Some (rest, r)" "ms = (key, v) # rest"
    by (auto simp: decode_members.simps(2) bind_eq_Some_conv split: list.splits if_splits)
  then show ?case
  proof cases
    case 1
    then show ?thesis using skip_ws_utf8 [OF "6.prems"(2)] by (simp add: utf8_text_ascii_Cons)
  next
    case 2
    have "utf8_text (c # t)" using skip_ws_utf8 [OF "6.prems"(2)] 2(1) by simp
    then have k: "key \<notin> set seen" "utf8_text key" "utf8_text s1" using next_key_wf [OF 2(3)] by blast+
    then have "wf_json v \<and> utf8_text s2" using "6.IH"(1) [OF 2(1-3) refl 2(4)] by blast
    then show ?thesis using "6.IH"(2) [OF 2(1-3) refl 2(4) refl 2(5)] 2(6) k by auto
  qed
qed simp_all

lemma decodeCanonicalJSON_wf: "decodeCanonicalJSON raw = Some v \<Longrightarrow> wf_json v"
  by (auto simp: decodeCanonicalJSON_def utf8_ValidString_iff bind_eq_Some_conv split: if_splits dest: decode_wf(1))

section \<open>The canonical text identifies a value\<close>

lemma canon_text: "wf_json v \<Longrightarrow> appendCanonicalValue (canon v) = appendCanonicalValue v"
proof (induction v)
  case (JNumber n)
  then show ?case using canonicalJSONNumber_idem by (auto simp: number_literal_def)
next
  case (JArray vs)
  then have "map appendCanonicalValue (map canon vs) = map appendCanonicalValue vs" by simp
  then show ?case by (simp only: canon.simps appendCanonicalValue.simps)
next
  case (JObject ms)
  let ?s = "sort_key fst ms"
  have "member_value_text (k, canon v) = member_value_text (k, v)" if "(k, v) \<in> set ?s" for k v
    using that JObject by (fastforce simp: member_value_text_pair)
  then have "map member_value_text (map (\<lambda>(k, v). (k, canon v)) ?s) = map member_value_text ?s"
    by (auto simp: case_prod_beta)
  moreover have "sort_key fst (map (\<lambda>(k, v). (k, canon v)) ?s) = map (\<lambda>(k, v). (k, canon v)) ?s"
    unfolding sort_key_values by (simp add: sort_key_sorted)
  ultimately show ?case by (simp only: object_canon object_text)
qed simp_all

lemma canonical_text_iff:
  assumes "wf_json v" "wf_json w"
  shows "appendCanonicalValue v = appendCanonicalValue w \<longleftrightarrow> canon v = canon w"
  using canonical_roundtrip [OF assms(1)] canonical_roundtrip [OF assms(2)] canon_text [OF assms(1)] canon_text [OF assms(2)]
  by (metis option.inject)

lemma canon_object_iff:
  assumes "distinct (map fst ms)" "distinct (map fst ns)"
  shows "canon (JObject ms) = canon (JObject ns) \<longleftrightarrow>
    fst ` set ms = fst ` set ns \<and> (\<forall>k v w. (k, v) \<in> set ms \<longrightarrow> (k, w) \<in> set ns \<longrightarrow> canon v = canon w)"
proof -
  let ?f = "map (\<lambda>(k, v). (k, canon v))"
  have keys: "map fst (?f xs) = map fst xs" for xs :: "(string \<times> json) list" by (auto simp: case_prod_beta)
  have member: "(k, x) \<in> set (?f xs) \<longleftrightarrow> (\<exists>v. (k, v) \<in> set xs \<and> x = canon v)" for k x xs by force
  have "canon (JObject ms) = canon (JObject ns) \<longleftrightarrow> set (?f ms) = set (?f ns)"
    unfolding canon.simps json.inject by (rule sort_members_eq_iff) (use assms in \<open>simp_all only: keys\<close>)
  also have "\<dots> \<longleftrightarrow> fst ` set ms = fst ` set ns \<and> (\<forall>k v w. (k, v) \<in> set ms \<longrightarrow> (k, w) \<in> set ns \<longrightarrow> canon v = canon w)"
  proof (intro iffI conjI)
    assume s: "set (?f ms) = set (?f ns)"
    show "fst ` set ms = fst ` set ns" using arg_cong [OF s, of "image fst"] keys by (metis list.set_map)
    show "\<forall>k v w. (k, v) \<in> set ms \<longrightarrow> (k, w) \<in> set ns \<longrightarrow> canon v = canon w"
    proof (intro allI impI)
      fix k v w
      assume "(k, v) \<in> set ms" and w: "(k, w) \<in> set ns"
      then obtain w' where "(k, w') \<in> set ns" "canon v = canon w'" using s member by metis
      then show "canon v = canon w" using eq_key_imp_eq_value [OF assms(2)] w by metis
    qed
  next
    assume a: "fst ` set ms = fst ` set ns \<and> (\<forall>k v w. (k, v) \<in> set ms \<longrightarrow> (k, w) \<in> set ns \<longrightarrow> canon v = canon w)"
    have sub: "set (?f xs) \<subseteq> set (?f ys)"
      if ks: "fst ` set xs \<subseteq> fst ` set ys" and vs: "\<And>k v w. (k, v) \<in> set xs \<Longrightarrow> (k, w) \<in> set ys \<Longrightarrow> canon v = canon w" for xs ys
    proof
      fix m
      assume "m \<in> set (?f xs)"
      then obtain k v where m: "m = (k, canon v)" "(k, v) \<in> set xs" by auto
      have "k \<in> fst ` set ys" using ks m(2) by (rule subsetD [OF _ imageI [of "(k, v)" _ fst, simplified]])
      then obtain w where "(k, w) \<in> set ys" by force
      then show "m \<in> set (?f ys)" using vs [OF m(2)] m(1) by force
    qed
    show "set (?f ms) = set (?f ns)" by (rule equalityI; rule sub) (use a in auto)
  qed
  finally show ?thesis .
qed

lemma json_same_canon: "json_same v w \<Longrightarrow> wf_json v \<Longrightarrow> wf_json w \<Longrightarrow> canon v = canon w"
proof (induction rule: json_same.induct)
  case (same_number p q)
  then show ?case by (simp add: canonicalJSONNumber_eq_iff)
next
  case (same_array vs ws)
  then show ?case by (auto intro!: nth_equalityI)
next
  case (same_object ms ns)
  have "canon v = canon w" if "(k, v) \<in> set ms" "(k, w) \<in> set ns" for k v w
    using same_object.IH [OF that] same_object.prems that by fastforce
  then show ?case using same_object.hyps(1) same_object.prems canon_object_iff [of ms ns] by simp
qed simp_all

lemma canon_json_same: "wf_json v \<Longrightarrow> wf_json w \<Longrightarrow> canon v = canon w \<Longrightarrow> json_same v w"
proof (induction v arbitrary: w)
  case JNull
  then show ?case by (cases w) (simp_all add: same_null)
next
  case (JBool b)
  then show ?case by (cases w) (simp_all add: same_bool)
next
  case (JString s)
  then show ?case by (cases w) (simp_all add: same_string)
next
  case (JNumber n)
  obtain m where w: "w = JNumber m" "canonicalJSONNumber n = canonicalJSONNumber m"
    using JNumber.prems(3) by (cases w) auto
  then obtain p q where "wf_number p" "n = number_text p" "wf_number q" "m = number_text q"
    using JNumber.prems by (auto simp: number_literal_def)
  then show ?case using w canonicalJSONNumber_eq_iff by (auto intro: same_number)
next
  case (JArray vs)
  obtain ws where w: "w = JArray ws" "map canon vs = map canon ws"
    using JArray.prems(3) by (cases w) auto
  then have l: "length vs = length ws" using map_eq_imp_length_eq by blast
  have "json_same (vs ! i) (ws ! i)" if "i < length vs" for i
    using JArray w l that nth_map [of i vs canon] nth_map [of i ws canon] by simp
  then show ?case unfolding w(1) using l by (intro same_array)
next
  case (JObject ms)
  obtain ns where w: "w = JObject ns" "canon (JObject ms) = canon (JObject ns)"
    using JObject.prems(3) by (cases w) auto
  have k: "fst ` set ms = fst ` set ns"
    "\<And>k v w. (k, v) \<in> set ms \<Longrightarrow> (k, w) \<in> set ns \<Longrightarrow> canon v = canon w"
    using JObject.prems w canon_object_iff [of ms ns] by auto
  have "json_same v w" if "(k, v) \<in> set ms" "(k, w) \<in> set ns" for k v w
    using JObject.IH [of "(k, v)" v w] that k(2) [OF that] JObject.prems w by fastforce
  then show ?case unfolding w(1) using k(1) by (intro same_object)
qed

lemma canonical_same_iff:
  "wf_json v \<Longrightarrow> wf_json w \<Longrightarrow> appendCanonicalValue v = appendCanonicalValue w \<longleftrightarrow> json_same v w"
  using canonical_text_iff json_same_canon canon_json_same by blast

end
