(* ===== verification/Canonical_Request.thy ===== *)
theory Canonical_Request
  imports Domain_Canonical Canonical_Value
begin

text \<open>
  Canonical mutation requests (\<open>CanonicalizeMutationRequestJSON\<close> and
  \<open>HashMutationRequestJSON\<close> of internal/domain/canonical.go): the request object without its
  exchange fields, with its operation, source and defaults, written canonically and hashed. Requests
  are equal as bytes exactly when their payloads agree, and a canonical text canonicalises to itself.
\<close>

section \<open>The code\<close>

type_synonym members = "(string \<times> json) list"

text \<open>\<open>request[name] = value\<close> on the entries of a map.\<close>

fun set_field :: "string \<Rightarrow> json \<Rightarrow> members \<Rightarrow> members" where
  "set_field name value [] = [(name, value)]"
| "set_field name value ((k, v) # ms) = (if k = name then (k, value) # ms else (k, v) # set_field name value ms)"

text \<open>The loop over the sorted default fields.\<close>

fun apply_defaults :: "(string \<times> bytes) list \<Rightarrow> members \<Rightarrow> members result" where
  "apply_defaults [] request = Inr request"
| "apply_defaults ((name, raw) # rest) request =
     (if \<not> utf8_ValidString name then Inl ErrInvalidCanonicalDefaults
      else if name \<in> {[], ''request_id'', ''idempotency_key'', ''operation'', ''source''} then
        Inl ErrInvalidCanonicalDefaults
      else if length raw > MaxSerializedRequestBytes then Inl ErrInvalidCanonicalDefaults
      else
        (case decodeCanonicalJSON raw of
           None \<Rightarrow> Inl ErrInvalidCanonicalDefaults
         | Some v \<Rightarrow> apply_defaults rest (if map_of request name = None then request @ [(name, v)] else request)))"

definition request_fields :: "string \<Rightarrow> members \<Rightarrow> members" where
  "request_fields operation request =
     (let payload = set_field ''operation'' (JString operation)
                      (filter (\<lambda>(k, _). k \<noteq> ''request_id'' \<and> k \<noteq> ''idempotency_key'') request)
      in if operation \<in> {''create_session'', ''run''} \<and> map_of payload ''source'' = None
         then payload @ [(''source'', JObject [(''mode'', JString ''empty'')])] else payload)"

text \<open>The request the code hands to \<open>appendCanonicalValue\<close>. The defaults are a Go map, here its
  entries with distinct names.\<close>

definition request_value :: "string \<Rightarrow> bytes \<Rightarrow> (string \<times> bytes) list \<Rightarrow> members result" where
  "request_value operation raw defaults =
     (if \<not> isMutationOperation operation then Inl ErrInvalidCanonicalJSON
      else if ValidateSerializedRequest raw \<noteq> Inr () then Inl ErrInvalidCanonicalJSON
      else if \<not> utf8_ValidString raw \<or> \<not> validUnicodeEscapes raw then Inl ErrInvalidCanonicalJSON
      else
        (case decodeCanonicalJSON raw of
           Some (JObject request) \<Rightarrow>
             (if map_of request ''operation'' \<noteq> None \<and> map_of request ''operation'' \<noteq> Some (JString operation)
              then Inl ErrInvalidCanonicalJSON
              else apply_defaults (sort_key fst defaults) (request_fields operation request))
         | _ \<Rightarrow> Inl ErrInvalidCanonicalJSON))"

definition CanonicalizeMutationRequestJSON :: "string \<Rightarrow> bytes \<Rightarrow> (string \<times> bytes) list \<Rightarrow> bytes result" where
  "CanonicalizeMutationRequestJSON operation raw defaults =
     res_bind (request_value operation raw defaults) (\<lambda>request. Inr (appendCanonicalValue (JObject request)))"

definition HashMutationRequestJSON :: "string \<Rightarrow> bytes \<Rightarrow> (string \<times> bytes) list \<Rightarrow> CanonicalHash result" where
  "HashMutationRequestJSON operation raw defaults =
     res_bind (CanonicalizeMutationRequestJSON operation raw defaults) (\<lambda>canonical. Inr (canonical_digest canonical))"

section \<open>The payload\<close>

definition exchange_fields :: "string set" where
  "exchange_fields = {''request_id'', ''idempotency_key''}"

text \<open>What holds of a payload: a well-formed object without exchange fields, with its operation and,
  where the operation has one, its source.\<close>

definition payload_ok :: "string \<Rightarrow> members \<Rightarrow> bool" where
  "payload_ok operation ms \<longleftrightarrow> wf_json (JObject ms) \<and> fst ` set ms \<inter> exchange_fields = {} \<and>
     map_of ms ''operation'' = Some (JString operation) \<and>
     (operation \<in> {''create_session'', ''run''} \<longrightarrow> map_of ms ''source'' \<noteq> None)"

lemma wf_object_append:
  "wf_json (JObject ms) \<Longrightarrow> map_of ms k = None \<Longrightarrow> utf8_text k \<Longrightarrow> wf_json v \<Longrightarrow> wf_json (JObject (ms @ [(k, v)]))"
  by (auto simp: map_of_eq_None_iff)

lemma operation_utf8: "isMutationOperation operation \<Longrightarrow> utf8_text operation"
  by (auto simp: isMutationOperation_def intro!: utf8_ascii_text)

lemma set_field_keys: "fst ` set (set_field k v ms) = insert k (fst ` set ms)"
  by (induction k v ms rule: set_field.induct) auto

lemma map_of_set_field: "map_of (set_field k v ms) j = (if j = k then Some v else map_of ms j)"
  by (induction k v ms rule: set_field.induct) auto

lemma wf_object_set_field:
  "wf_json (JObject ms) \<Longrightarrow> utf8_text k \<Longrightarrow> wf_json v \<Longrightarrow> wf_json (JObject (set_field k v ms))"
proof (induction k v ms rule: set_field.induct)
  case (2 k v j w ms)
  then show ?case using set_field_keys [of k v ms] by auto
qed simp

lemma set_field_same: "map_of ms k = Some v \<Longrightarrow> set_field k v ms = ms"
  by (induction k v ms rule: set_field.induct) (auto split: if_splits)

lemma field_names_utf8: "utf8_text ''operation''" "utf8_text ''source''" "utf8_text ''mode''" "utf8_text ''empty''"
  by (auto intro!: utf8_ascii_text)

lemma request_fields_ok:
  assumes "wf_json (JObject request)" "isMutationOperation operation"
  shows "payload_ok operation (request_fields operation request)"
proof -
  define kept where "kept = filter (\<lambda>(k, _). k \<noteq> ''request_id'' \<and> k \<noteq> ''idempotency_key'') request"
  define payload where "payload = set_field ''operation'' (JString operation) kept"
  have "wf_json (JObject kept)"
    using assms(1) unfolding kept_def by (auto simp: distinct_map_filter)
  then have wf: "wf_json (JObject payload)"
    unfolding payload_def by (rule wf_object_set_field) (use assms(2) field_names_utf8 operation_utf8 in simp_all)
  have keys: "fst ` set payload = insert ''operation'' (fst ` set kept)" by (simp add: payload_def set_field_keys)
  have op: "map_of payload ''operation'' = Some (JString operation)" by (simp add: payload_def map_of_set_field)
  have ex: "fst ` set payload \<inter> exchange_fields = {}"
    unfolding keys by (auto simp: kept_def exchange_fields_def)
  show ?thesis
  proof (cases "operation \<in> {''create_session'', ''run''} \<and> map_of payload ''source'' = None")
    case True
    let ?new = "payload @ [(''source'', JObject [(''mode'', JString ''empty'')])]"
    have "wf_json (JObject ?new)" by (rule wf_object_append [OF wf]) (use True field_names_utf8 in simp_all)
    moreover have "fst ` set ?new \<inter> exchange_fields = {}" using ex by (simp add: exchange_fields_def)
    moreover have "map_of ?new ''operation'' = Some (JString operation)" "map_of ?new ''source'' \<noteq> None"
      using op by (simp_all add: map_add_def split: option.split)
    moreover have "request_fields operation request = ?new"
      using True unfolding request_fields_def kept_def [symmetric] payload_def [symmetric] Let_def by simp
    ultimately show ?thesis by (simp only: payload_ok_def not_False_eq_True simp_thms)
  next
    case False
    then have "request_fields operation request = payload"
      unfolding request_fields_def kept_def [symmetric] payload_def [symmetric] Let_def by auto
    then show ?thesis using False wf ex op by (auto simp: payload_ok_def)
  qed
qed

lemma apply_defaults_ok:
  "apply_defaults ds ms = Inr ms' \<Longrightarrow> payload_ok operation ms \<Longrightarrow> payload_ok operation ms'"
proof (induction ds ms rule: apply_defaults.induct)
  case (2 name raw rest ms)
  then obtain v where v: "decodeCanonicalJSON raw = Some v" and k: "utf8_ValidString name"
    "name \<notin> {[], ''request_id'', ''idempotency_key'', ''operation'', ''source''}"
    and rest: "apply_defaults rest (if map_of ms name = None then ms @ [(name, v)] else ms) = Inr ms'"
    and l: "\<not> MaxSerializedRequestBytes < length raw"
    by (simp split: if_splits option.splits)
  have "payload_ok operation (ms @ [(name, v)])" if n: "map_of ms name = None"
  proof -
    have "wf_json (JObject (ms @ [(name, v)]))"
      by (rule wf_object_append [OF _ n]) (use 2 k v decodeCanonicalJSON_wf in \<open>simp_all add: payload_ok_def utf8_ValidString_iff\<close>)
    moreover have "map_of (ms @ [(name, v)]) j = (if j = name then Some v else map_of ms j)" for j
      using n by (simp add: map_add_def split: option.split)
    ultimately show ?thesis using "2.prems"(2) k(2) by (auto simp: payload_ok_def exchange_fields_def)
  qed
  then show ?case using "2.IH" [OF _ k(2) l v] k(1) rest "2.prems"(2) by simp
qed simp

lemma request_value_ok: "request_value operation raw defaults = Inr ms \<Longrightarrow> payload_ok operation ms \<and> isMutationOperation operation"
  unfolding request_value_def
  by (auto split: if_splits option.splits json.splits
      intro: apply_defaults_ok [OF _ request_fields_ok] dest: decodeCanonicalJSON_wf)

lemma request_value_run:
  assumes "isMutationOperation operation" "length raw \<le> MaxSerializedRequestBytes"
    and "decodeCanonicalJSON raw = Some (JObject ms)" "map_of ms ''operation'' \<in> {None, Some (JString operation)}"
  shows "request_value operation raw defaults = apply_defaults (sort_key fst defaults) (request_fields operation ms)"
  using assms
  by (auto simp: request_value_def ValidateSerializedRequest_def validateSerializedSize_def decodeCanonicalJSON_def
      split: if_splits)

lemma request_value_decoded:
  assumes op: "isMutationOperation operation" and raw: "length raw \<le> MaxSerializedRequestBytes"
    and dec: "decodeCanonicalJSON raw = Some (JObject ms)" and ok: "payload_ok operation ms"
  shows "request_value operation raw [] = Inr ms"
proof -
  have "filter (\<lambda>(k, _). k \<noteq> ''request_id'' \<and> k \<noteq> ''idempotency_key'') ms = ms"
  proof (rule filter_True, rule ballI)
    fix m
    assume "m \<in> set ms"
    then have "fst m \<notin> exchange_fields" using ok unfolding payload_ok_def by blast
    then show "case m of (k, _) \<Rightarrow> k \<noteq> ''request_id'' \<and> k \<noteq> ''idempotency_key''"
      by (simp add: exchange_fields_def case_prod_beta)
  qed
  then have "request_fields operation ms = ms"
    using ok by (auto simp: request_fields_def payload_ok_def set_field_same)
  moreover have "map_of ms ''operation'' = Some (JString operation)" using ok by (simp add: payload_ok_def)
  ultimately show ?thesis using request_value_run [OF op raw dec, of "[]"] by simp
qed

lemma wf_canon: "wf_json v \<Longrightarrow> wf_json (canon v)"
  using decodeCanonicalJSON_wf [OF canonical_roundtrip] .

lemma canon_payload_ok:
  assumes ok: "payload_ok operation ms"
  shows "payload_ok operation (map (\<lambda>(k, v). (k, canon v)) (sort_key fst ms))" (is "payload_ok operation ?q")
proof -
  have wf: "wf_json (JObject ms)" using ok by (simp add: payload_ok_def)
  then have wfq: "wf_json (JObject ?q)" using wf_canon [of "JObject ms"] by (simp only: object_canon)
  have d: "distinct (map fst ms)" "distinct (map fst ?q)" using wf wfq by simp_all
  have keys: "fst ` set ?q = fst ` set ms" by force
  have lookup: "map_of ?q k = Some (canon v)" if "map_of ms k = Some v" for k v
  proof -
    have "(k, v) \<in> set ms" using that d(1) by (simp add: map_of_eq_Some_iff)
    then have "(k, canon v) \<in> set ?q" by force
    then show ?thesis using d(2) by (simp only: map_of_eq_Some_iff)
  qed
  have "map_of ?q ''operation'' = Some (JString operation)"
    using ok lookup [of "''operation''" "JString operation"] by (simp add: payload_ok_def)
  moreover have "operation \<in> {''create_session'', ''run''} \<longrightarrow> map_of ?q ''source'' \<noteq> None"
    using ok lookup [of "''source''"] unfolding payload_ok_def by blast
  moreover have "fst ` set ?q \<inter> exchange_fields = {}" using ok unfolding keys payload_ok_def by blast
  ultimately show ?thesis using wfq unfolding payload_ok_def by blast
qed

lemma canonicalize_same_iff:
  assumes "request_value operation raw defaults = Inr p" "request_value operation' raw' defaults' = Inr q"
  shows "CanonicalizeMutationRequestJSON operation raw defaults = CanonicalizeMutationRequestJSON operation' raw' defaults'
      \<longleftrightarrow> json_same (JObject p) (JObject q)"
proof -
  have wf: "wf_json (JObject p)" "wf_json (JObject q)"
    using assms request_value_ok unfolding payload_ok_def by blast+
  show ?thesis
    unfolding CanonicalizeMutationRequestJSON_def assms using canonical_same_iff [OF wf] by simp
qed

lemma canonicalize_again:
  assumes c: "CanonicalizeMutationRequestJSON operation raw defaults = Inr canonical"
    and size: "length canonical \<le> MaxSerializedRequestBytes"
  shows "CanonicalizeMutationRequestJSON operation canonical [] = Inr canonical"
proof -
  obtain p where p: "request_value operation raw defaults = Inr p" "canonical = appendCanonicalValue (JObject p)"
    using c by (auto simp: CanonicalizeMutationRequestJSON_def tx_simps)
  have ok: "payload_ok operation p" "isMutationOperation operation" using request_value_ok [OF p(1)] by blast+
  then have wf: "wf_json (JObject p)" by (simp add: payload_ok_def)
  let ?q = "map (\<lambda>(k, v). (k, canon v)) (sort_key fst p)"
  have "decodeCanonicalJSON canonical = Some (JObject ?q)"
    using canonical_roundtrip [OF wf] unfolding p(2) object_canon .
  then have "request_value operation canonical [] = Inr ?q"
    by (rule request_value_decoded [OF ok(2) size _ canon_payload_ok [OF ok(1)]])
  moreover have "appendCanonicalValue (JObject ?q) = canonical"
    using canon_text [OF wf] unfolding p(2) object_canon .
  ultimately show ?thesis by (simp add: CanonicalizeMutationRequestJSON_def)
qed

section \<open>Properties\<close>

text \<open>C39. Two accepted requests have the same canonical bytes exactly when their payloads (the request
  without exchange fields, with operation, source and defaults) agree up to the order of members and the
  spelling of numbers; then their hashes are equal and the comparison of the hashes finds the same
  payload.\<close>

theorem canonical_request_identifies_payload:
  assumes "request_value operation raw defaults = Inr p" "request_value operation' raw' defaults' = Inr q"
  shows "(CanonicalizeMutationRequestJSON operation raw defaults = CanonicalizeMutationRequestJSON operation' raw' defaults'
      \<longleftrightarrow> json_same (JObject p) (JObject q)) \<and>
    (json_same (JObject p) (JObject q) \<longrightarrow>
      (\<exists>h h'. HashMutationRequestJSON operation raw defaults = Inr h \<and>
        HashMutationRequestJSON operation' raw' defaults' = Inr h' \<and> CompareIdempotency h h' = IdempotencySamePayload))"
proof -
  have "\<exists>h h'. HashMutationRequestJSON operation raw defaults = Inr h \<and>
        HashMutationRequestJSON operation' raw' defaults' = Inr h' \<and> CompareIdempotency h h' = IdempotencySamePayload"
    if "json_same (JObject p) (JObject q)"
    using that canonicalize_same_iff [OF assms] assms
    by (simp add: HashMutationRequestJSON_def CanonicalizeMutationRequestJSON_def CompareIdempotency_def
        canonical_digest_def CanonicalizationVersionV1_def)
  then show ?thesis using canonicalize_same_iff [OF assms] by blast
qed

theorem canonical_request_identifies_payload_witness:
  "json_same (JObject [(''timeout'', JNumber ''60.0''), (''operation'', JString ''cancel_command'')])
     (JObject [(''operation'', JString ''cancel_command''), (''timeout'', JNumber ''6e1'')])"
proof -
  let ?Q = "[CHR 0x22]"
  let ?raw = "''{'' @ ?Q @ ''request_id'' @ ?Q @ '':1,'' @ ?Q @ ''timeout'' @ ?Q @ '': 60.0}''"
  let ?raw' = "''{'' @ ?Q @ ''operation'' @ ?Q @ '':'' @ ?Q @ ''cancel_command'' @ ?Q @ '','' @ ?Q @ ''timeout'' @ ?Q @ '':6e1}''"
  let ?p = "[(''timeout'', JNumber ''60.0''), (''operation'', JString ''cancel_command'')]"
  let ?q = "[(''operation'', JString ''cancel_command''), (''timeout'', JNumber ''6e1'')]"
  have d: "decodeCanonicalJSON ?raw = Some (JObject [(''request_id'', JNumber ''1''), (''timeout'', JNumber ''60.0'')])"
    "decodeCanonicalJSON ?raw' = Some (JObject ?q)"
    by code_simp+
  have a: "request_value ''cancel_command'' ?raw [] = Inr ?p"
    by (subst request_value_run [OF _ _ d(1)])
      (simp_all add: isMutationOperation_def MaxSerializedRequestBytes_def request_fields_def)
  have b: "request_value ''cancel_command'' ?raw' [] = Inr ?q"
    by (subst request_value_run [OF _ _ d(2)])
      (simp_all add: isMutationOperation_def MaxSerializedRequestBytes_def request_fields_def)
  have "appendCanonicalValue (JObject ?p) = appendCanonicalValue (JObject ?q)" by code_simp
  then have "CanonicalizeMutationRequestJSON ''cancel_command'' ?raw [] = CanonicalizeMutationRequestJSON ''cancel_command'' ?raw' []"
    by (simp only: CanonicalizeMutationRequestJSON_def a b res_bind_simps)
  then show ?thesis using canonical_request_identifies_payload [OF a b] by blast
qed

text \<open>C40. Canonical bytes within the request limit canonicalise to themselves, so a request that is
  passed on in canonical form keeps its hash.\<close>

theorem canonical_request_idempotent:
  assumes "CanonicalizeMutationRequestJSON operation raw defaults = Inr canonical"
    and "length canonical \<le> MaxSerializedRequestBytes"
  shows "CanonicalizeMutationRequestJSON operation canonical [] = Inr canonical \<and>
    HashMutationRequestJSON operation canonical [] = HashMutationRequestJSON operation raw defaults"
  using canonicalize_again [OF assms] assms(1) by (simp add: HashMutationRequestJSON_def)

theorem canonical_request_idempotent_witness:
  "HashMutationRequestJSON ''cancel_command''
     (''{'' @ [CHR 0x22] @ ''operation'' @ [CHR 0x22] @ '':'' @ [CHR 0x22] @ ''cancel_command'' @ [CHR 0x22] @ ''}'') [] =
   HashMutationRequestJSON ''cancel_command'' ''{ }'' []"
proof -
  let ?c = "''{'' @ [CHR 0x22] @ ''operation'' @ [CHR 0x22] @ '':'' @ [CHR 0x22] @ ''cancel_command'' @ [CHR 0x22] @ ''}''"
  have d: "decodeCanonicalJSON ''{ }'' = Some (JObject [])" by code_simp
  have "request_value ''cancel_command'' ''{ }'' [] = Inr [(''operation'', JString ''cancel_command'')]"
    by (subst request_value_run [OF _ _ d])
      (simp_all add: isMutationOperation_def MaxSerializedRequestBytes_def request_fields_def)
  moreover have "appendCanonicalValue (JObject [(''operation'', JString ''cancel_command'')]) = ?c" by code_simp
  ultimately have "CanonicalizeMutationRequestJSON ''cancel_command'' ''{ }'' [] = Inr ?c"
    by (simp only: CanonicalizeMutationRequestJSON_def res_bind_simps)
  moreover have "length ?c \<le> MaxSerializedRequestBytes" by (simp add: MaxSerializedRequestBytes_def)
  ultimately show ?thesis using canonical_request_idempotent [of "''cancel_command''" "''{ }''" "[]" ?c] by blast
qed

end
