(* ===== verification/Store_Jobs.thy ===== *)
theory Store_Jobs
  imports Store_Recovery Canonical_Request
begin

text \<open>
  One-off jobs (internal/store/jobs.go): acceptance of the canonical run request with its idempotency
  binding, the validating read, coordinator checkpoints, the queue-block explanation and the narrow
  disposition of an abandoned maintenance probe. \<open>json.Unmarshal\<close> is modelled where the payload
  check calls it, on the value the canonical text decodes to.
\<close>

section \<open>Data\<close>

definition runJobOperation :: string where "runJobOperation = ''run''"

definition CatalogProbeOwnerAbandonedReason :: string where
  "CatalogProbeOwnerAbandonedReason = ''catalog_probe_owner_abandoned_outcome_unknown''"

definition catalogMaintenanceProbeScript :: string where
  "catalogMaintenanceProbeScript =
     ''printf '' @ [CHR 0x27] @ ''catalog release maintenance probe'' @ [CHR 0x5C] @ ''n'' @ [CHR 0x27]"

definition QueueBlockedReasonLostCapacityRecoveryPending :: string where
  "QueueBlockedReasonLostCapacityRecoveryPending = ''lost_capacity_recovery_pending''"

record JobAcceptance =
  ja_JobID :: JobID
  ja_SessionID :: SessionID
  ja_CommandID :: CommandID
  ja_Controller :: ControllerIdentity
  ja_IdempotencyKey :: string
  ja_RequestHash :: CanonicalHash
  ja_Environment :: string
  ja_Target :: ExecutionTarget
  ja_Source :: Source
  ja_Script :: string
  ja_CanonicalPayload :: bytes
  ja_IdempotencyRetention :: duration

record JobRecord =
  jr_JobID :: JobID
  jr_SessionID :: SessionID
  jr_CommandID :: CommandID
  jr_Controller :: ControllerIdentity
  jr_Ingress :: Ingress
  jr_Environment :: string
  jr_Target :: ExecutionTarget
  jr_Source :: Source
  jr_RequestHash :: CanonicalHash
  jr_IdempotencyKey :: string
  jr_CanonicalPayload :: bytes
  jr_ScriptBytes :: bytes
  jr_ScriptSHA256 :: bytes
  jr_Phase :: JobPhase
  jr_CommandState :: "CommandState option"
  jr_ExitCode :: "int option"
  jr_FinalEventSequence :: "int option"
  jr_OutputTruncated :: bool
  jr_OutputComplete :: bool
  jr_OutputUnavailableReason :: string
  jr_QueueBlockedReason :: string
  jr_TeardownState :: JobTeardownState
  jr_TeardownReason :: string
  jr_CreatedAt :: time
  jr_UpdatedAt :: time
  jr_IdempotencyWarning :: bool

text \<open>An empty expected phase is the empty string, \<open>JobPhaseOther []\<close>.\<close>

record JobCheckpoint =
  jc_ExpectedPhase :: JobPhase
  jc_NextPhase :: JobPhase
  jc_Command :: "CommandRecord option"
  jc_TeardownState :: "JobTeardownState option"
  jc_TeardownReason :: string

section \<open>The table\<close>

definition job_check :: "job_row \<Rightarrow> bool" where
  "job_check r \<longleftrightarrow>
     sql_nonempty (job_job_id r) \<and> sql_nonempty (job_session_id r) \<and> sql_nonempty (job_command_id r) \<and>
     known_controller_type (job_controller_type r) \<and> sql_nonempty (job_controller_id r) \<and>
     ValidIngress (job_ingress r) \<and> known_target_kind (job_target_kind r) \<and>
     sql_nonempty (job_target_profile r) \<and> sql_nonempty (job_environment r) \<and>
     known_source_mode (job_source_mode r) \<and> 0 < job_hash_version r \<and> length (job_hash r) = 32 \<and>
     sql_nonempty (job_idempotency_key r) \<and> job_payload_json r \<noteq> [] \<and>
     length (job_script_sha256 r) = 32 \<and> JobPhase_Valid (job_phase r) \<and>
     pred_option CommandState_Valid (job_command_state r) \<and>
     pred_option (\<lambda>n. 0 < n) (job_final_event_sequence r) \<and>
     job_output_truncated r \<in> {0, 1} \<and> job_output_complete r \<in> {0, 1} \<and>
     JobTeardownState_Valid (job_teardown_state r) \<and>
     sql_nonempty (job_created_at r) \<and> sql_nonempty (job_updated_at r)"

definition job_unique :: "job_row \<Rightarrow> database \<Rightarrow> bool" where
  "job_unique r db \<longleftrightarrow>
     job_job_id r \<notin> job_job_id ` set (exec_jobs db) \<and>
     job_session_id r \<notin> job_session_id ` set (exec_jobs db) \<and>
     job_command_id r \<notin> job_command_id ` set (exec_jobs db)"

definition job_constraints :: "job_row \<Rightarrow> database \<Rightarrow> bool" where
  "job_constraints r db \<longleftrightarrow> job_check r \<and> job_unique r db"

interpretation jobs_table: keyed_table exec_jobs exec_jobs_update job_job_id job_constraints
  by unfold_locales (simp_all add: job_constraints_def job_unique_def)

definition find_job :: "JobID \<Rightarrow> database \<Rightarrow> job_row option" where
  "find_job jid db = find (\<lambda>r. job_job_id r = jid) (exec_jobs db)"

section \<open>The run payload\<close>

text \<open>\<open>json.Unmarshal\<close> into a string and into a string field of a struct: null leaves the value,
  another type is an error, and a field takes the last member whose name matches without regard to
  case (the Kelvin sign and the long s fold to \<open>k\<close> and \<open>s\<close>).\<close>

fun unmarshal_string :: "string \<Rightarrow> json \<Rightarrow> string option" where
  "unmarshal_string current (JString s) = Some s"
| "unmarshal_string current JNull = Some current"
| "unmarshal_string current _ = None"

fun fold_name :: "string \<Rightarrow> string" where
  "fold_name (a # b # c # s) =
     (if a = CHR 0xE2 \<and> b = CHR 0x84 \<and> c = CHR 0xAA then CHR ''k'' # fold_name s
      else if a = CHR 0xC5 \<and> b = CHR 0xBF then CHR ''s'' # fold_name (c # s)
      else (if 65 \<le> (of_char a :: nat) \<and> of_char a \<le> (90 :: nat) then char_of (of_char a + 32 :: nat) else a) #
        fold_name (b # c # s))"
| "fold_name [a, b] =
     (if a = CHR 0xC5 \<and> b = CHR 0xBF then ''s''
      else (if 65 \<le> (of_char a :: nat) \<and> of_char a \<le> (90 :: nat) then char_of (of_char a + 32 :: nat) else a) # fold_name [b])"
| "fold_name [a] = [if 65 \<le> (of_char a :: nat) \<and> of_char a \<le> (90 :: nat) then char_of (of_char a + 32 :: nat) else a]"
| "fold_name [] = []"

definition unmarshal_field :: "string \<Rightarrow> json \<Rightarrow> string option" where
  "unmarshal_field name value =
     (case value of
        JNull \<Rightarrow> Some []
      | JObject ms \<Rightarrow>
          foldl (\<lambda>current (k, v). Option.bind current (\<lambda>c.
            if fold_name k = name then unmarshal_string c v else Some c)) (Some []) ms
      | _ \<Rightarrow> None)"

text \<open>The nesting of a value; \<open>json.Unmarshal\<close> refuses more than 10000 levels.\<close>

fun json_depth :: "json \<Rightarrow> nat" where
  "json_depth (JArray vs) = Suc (fold max (map json_depth vs) 0)"
| "json_depth (JObject ms) = Suc (fold max (map (\<lambda>(k, v). json_depth v) ms) 0)"
| "json_depth _ = 0"

fun SourceMode_string :: "SourceMode \<Rightarrow> string" where
  "SourceMode_string SourceModeEmpty = ''empty''"
| "SourceMode_string SourceModeGitRevision = ''git_revision''"
| "SourceMode_string SourceModeLocalWorktree = ''local_worktree''"
| "SourceMode_string (SourceModeOther s) = s"

definition string_member :: "string \<Rightarrow> members \<Rightarrow> string option" where
  "string_member name object = Option.bind (map_of object name) (unmarshal_string [])"

definition payload_target_ok :: "ExecutionTarget \<Rightarrow> members \<Rightarrow> bool" where
  "payload_target_ok target object =
     (case map_of object ''execution_target'' of
        None \<Rightarrow> False
      | Some value \<Rightarrow>
          unmarshal_field ''kind'' value = Some (TargetKind_string (et_kind target)) \<and>
          unmarshal_field ''profile'' value = Some (et_profile target))"

definition payload_source_ok :: "Source \<Rightarrow> members \<Rightarrow> bool" where
  "payload_source_ok source object =
     (case map_of object ''source'' of
        None \<Rightarrow> True
      | Some value \<Rightarrow>
          unmarshal_field ''mode'' value = Some (SourceMode_string (src_mode source)) \<and>
          unmarshal_field ''repository_alias'' value = Some (src_repositoryAlias source) \<and>
          unmarshal_field ''requested_revision'' value = Some (src_requestedRevision source) \<and>
          unmarshal_field ''path'' value = Some (src_path source))"

definition validateRunPayload ::
  "bytes \<Rightarrow> string \<Rightarrow> string \<Rightarrow> ExecutionTarget \<Rightarrow> Source \<Rightarrow> CanonicalHash \<Rightarrow> (bytes \<times> CanonicalHash) result" where
  "validateRunPayload raw script environment target source requestHash =
     (if ValidateSerializedRequest raw \<noteq> Inr () \<or> raw = [] then Inl ErrInvalidJob
      else
        res_bind (res_as ErrInvalidJob (CanonicalizeMutationRequestJSON runJobOperation raw [])) (\<lambda>canonical.
        if canonical \<noteq> raw then Inl ErrInvalidJob
        else
          res_bind (res_as ErrInvalidJob (HashMutationRequestJSON runJobOperation raw [])) (\<lambda>hash.
          if CompareIdempotency hash requestHash = IdempotencyComparisonConflict then Inl ErrInvalidJob
          else
            (case decodeCanonicalJSON raw of
               Some (JObject object) \<Rightarrow>
                 if json_depth (JObject object) > 10000 then Inl ErrInvalidJob
                 else if string_member ''script'' object \<noteq> Some script then Inl ErrInvalidJob
                 else if string_member ''environment'' object \<noteq> Some environment then Inl ErrInvalidJob
                 else if \<not> payload_target_ok target object then Inl ErrInvalidJob
                 else if \<not> payload_source_ok source object then Inl ErrInvalidJob
                 else Inr (canonical, hash)
             | _ \<Rightarrow> Inl ErrInvalidJob))))"

section \<open>Validation\<close>

definition validateJobAcceptance :: "JobAcceptance \<Rightarrow> JobAcceptance result" where
  "validateJobAcceptance input =
     res_bind (res_as ErrInvalidJob (NewJobID (ja_JobID input))) (\<lambda>jobID.
     res_bind (res_as ErrInvalidJob (NewSessionID (ja_SessionID input))) (\<lambda>sessionID.
     res_bind (res_as ErrInvalidJob (NewCommandID (ja_CommandID input))) (\<lambda>commandID.
     res_bind (res_as ErrInvalidJob (validateController (ja_Controller input))) (\<lambda>controller.
     res_bind (res_as ErrInvalidJob
       (NewExecutionTarget (et_kind (ja_Target input)) (et_profile (ja_Target input)))) (\<lambda>target.
     res_bind (res_as ErrInvalidJob (normalizeSource (ja_Source input))) (\<lambda>source.
     if TrimSpace (ja_Environment input) = [] then Inl ErrInvalidJob
     else
       res_bind (res_as ErrInvalidJob (ValidateScriptUTF8 (ja_Script input))) (\<lambda>_.
       res_bind (validateIdempotencyOperationKey runJobOperation (ja_IdempotencyKey input)) (\<lambda>_.
       let retention = (if ja_IdempotencyRetention input = 0 then DefaultSessionIdempotencyRetention
                        else ja_IdempotencyRetention input) in
       if retention < 0 then Inl ErrInvalidJob
       else
         res_bind (validateRunPayload (ja_CanonicalPayload input) (ja_Script input) (ja_Environment input)
           target source (ja_RequestHash input)) (\<lambda>(payload, hash).
         Inr \<lparr>ja_JobID = jobID, ja_SessionID = sessionID, ja_CommandID = commandID, ja_Controller = controller,
           ja_IdempotencyKey = ja_IdempotencyKey input, ja_RequestHash = hash,
           ja_Environment = TrimSpace (ja_Environment input), ja_Target = target, ja_Source = source,
           ja_Script = ja_Script input, ja_CanonicalPayload = payload,
           ja_IdempotencyRetention = retention\<rparr>)))))))))"

section \<open>Reads\<close>

definition decode_job_row :: "JobID \<Rightarrow> job_row \<Rightarrow> JobRecord result" where
  "decode_job_row jid row =
     res_bind (res_as ErrJobPayloadCorrupt (NewJobID (job_job_id row))) (\<lambda>validatedID.
     if validatedID \<noteq> jid then Inl ErrJobPayloadCorrupt
     else
     res_bind (res_as ErrJobPayloadCorrupt (NewSessionID (job_session_id row))) (\<lambda>sessionID.
     res_bind (res_as ErrJobPayloadCorrupt (NewCommandID (job_command_id row))) (\<lambda>commandID.
     res_bind (res_as ErrJobPayloadCorrupt
       (NewControllerIdentity (job_controller_type row) (job_controller_id row))) (\<lambda>controller.
     if \<not> ValidIngress (job_ingress row) then Inl ErrJobPayloadCorrupt
     else
     res_bind (res_as ErrJobPayloadCorrupt
       (NewExecutionTarget (job_target_kind row) (job_target_profile row))) (\<lambda>target.
     res_bind (res_as ErrJobPayloadCorrupt (decodeSource (job_source_mode row) (job_source_repository_alias row)
       (job_source_requested_revision row) (job_source_path row))) (\<lambda>source.
     res_bind (res_as ErrJobPayloadCorrupt
       (NewCanonicalHash (of_int (job_hash_version row)) (job_hash row))) (\<lambda>requestHash.
     res_bind (res_as ErrJobPayloadCorrupt (ValidateScriptUTF8 (job_script_bytes row))) (\<lambda>_.
     if job_script_sha256 row \<noteq> sha256_Sum256 (job_script_bytes row) then Inl ErrJobPayloadCorrupt
     else
     res_bind (res_as ErrJobPayloadCorrupt
       (validateIdempotencyOperationKey runJobOperation (job_idempotency_key row))) (\<lambda>_.
     res_bind (res_as ErrJobPayloadCorrupt (validateRunPayload (job_payload_json row) (job_script_bytes row)
       (job_environment row) target source requestHash)) (\<lambda>_.
     if \<not> JobPhase_Valid (job_phase row) \<or> \<not> JobTeardownState_Valid (job_teardown_state row) \<or>
        job_output_truncated row < 0 \<or> job_output_truncated row > 1 \<or>
        job_output_complete row < 0 \<or> job_output_complete row > 1
     then Inl ErrJobPayloadCorrupt
     else if \<not> pred_option CommandState_Valid (job_command_state row) then Inl ErrJobPayloadCorrupt
     else
     res_bind (res_as ErrJobPayloadCorrupt (parseStoredTime (job_created_at row))) (\<lambda>createdAt.
     res_bind (res_as ErrJobPayloadCorrupt (parseStoredTime (job_updated_at row))) (\<lambda>updatedAt.
     Inr \<lparr>jr_JobID = validatedID, jr_SessionID = sessionID, jr_CommandID = commandID,
       jr_Controller = controller, jr_Ingress = job_ingress row, jr_Environment = job_environment row,
       jr_Target = target, jr_Source = source, jr_RequestHash = requestHash,
       jr_IdempotencyKey = job_idempotency_key row, jr_CanonicalPayload = job_payload_json row,
       jr_ScriptBytes = job_script_bytes row, jr_ScriptSHA256 = job_script_sha256 row,
       jr_Phase = job_phase row, jr_CommandState = job_command_state row, jr_ExitCode = job_exit_code row,
       jr_FinalEventSequence = job_final_event_sequence row,
       jr_OutputTruncated = (job_output_truncated row = 1), jr_OutputComplete = (job_output_complete row = 1),
       jr_OutputUnavailableReason = job_output_unavailable_reason row, jr_QueueBlockedReason = [],
       jr_TeardownState = job_teardown_state row, jr_TeardownReason = job_teardown_reason row,
       jr_CreatedAt = createdAt, jr_UpdatedAt = updatedAt, jr_IdempotencyWarning = False\<rparr>))))))))))))"

definition readJobOnConnection :: "JobID \<Rightarrow> database \<Rightarrow> JobRecord result" where
  "readJobOnConnection jid db =
     (case find_job jid db of None \<Rightarrow> Inl ErrJobNotFound | Some row \<Rightarrow> decode_job_row jid row)"

definition GetJob :: "go_error option \<Rightarrow> AuthorityStore \<Rightarrow> JobID \<Rightarrow> JobRecord result" where
  "GetJob fault s jid = res_bind (NewJobID jid) (\<lambda>ident. onConnection fault s (readJobOnConnection ident))"

definition is_not_releasable :: "go_error \<Rightarrow> bool" where
  "is_not_releasable e \<longleftrightarrow> errors_Is e ErrLostRuntimeRecoveryNotReleasable"

definition queuedLostCapacityRecoveryBlocksJob :: "JobRecord \<Rightarrow> database \<Rightarrow> bool result" where
  "queuedLostCapacityRecoveryBlocksJob job db =
     (if jr_Phase job \<noteq> JobPhaseAwaitingCommand \<or> jr_CommandState job \<noteq> Some CommandStateQueued then Inr False
      else
        res_bind (listRetainedLostRuntimeRecoveryPairsOnConnection db) (\<lambda>pairs.
        if int (length pairs) \<noteq> DefaultRunningCommandLimit then Inr False
        else
          (case checkLostRuntimeRecoveryBatchPreservingQueuedOneOffs pairs db of
             Inl e \<Rightarrow> if is_not_releasable e then Inr False else Inl e
           | Inr unreleased \<Rightarrow>
               if int (length unreleased) \<noteq> DefaultRunningCommandLimit then Inr False
               else
                 (case requireSafeQueuedOneOffReservation (jr_SessionID job) db of
                    Inl e \<Rightarrow> if is_not_releasable e then Inr False else Inl e
                  | Inr (queuedJobID, queuedCommandID) \<Rightarrow>
                      Inr (queuedJobID = jr_JobID job \<and> queuedCommandID = jr_CommandID job)))))"

definition GetJobStatus :: "go_error option \<Rightarrow> AuthorityStore \<Rightarrow> JobID \<Rightarrow> JobRecord result \<times> AuthorityStore" where
  "GetJobStatus fault s jid =
     (case NewJobID jid of
        Inl e \<Rightarrow> (Inl e, s)
      | Inr ident \<Rightarrow>
          withStoreReadTransaction fault s (\<lambda>db.
            res_bind (readJobOnConnection ident db) (\<lambda>job.
            res_bind (queuedLostCapacityRecoveryBlocksJob job db) (\<lambda>blocked.
            Inr (if blocked then job\<lparr>jr_QueueBlockedReason := QueueBlockedReasonLostCapacityRecoveryPending\<rparr>
                 else job)))))"

definition GetJobByCommandID :: "go_error option \<Rightarrow> AuthorityStore \<Rightarrow> CommandID \<Rightarrow> JobRecord result \<times> AuthorityStore" where
  "GetJobByCommandID fault s cid =
     (case NewCommandID cid of
        Inl e \<Rightarrow> (Inl e, s)
      | Inr ident \<Rightarrow>
          withStoreReadTransaction fault s (\<lambda>db.
            case find (\<lambda>r. job_command_id r = ident) (exec_jobs db) of
              None \<Rightarrow> Inl ErrJobNotFound
            | Some row \<Rightarrow>
                res_bind (res_as ErrJobPayloadCorrupt (NewJobID (job_job_id row))) (\<lambda>jobID.
                readJobOnConnection jobID db)))"

definition ListNonterminalJobs :: "go_error option \<Rightarrow> AuthorityStore \<Rightarrow> JobRecord list result \<times> AuthorityStore" where
  "ListNonterminalJobs fault s =
     withStoreReadTransaction fault s (\<lambda>db.
       res_bind (read_all (\<lambda>r. res_as ErrJobPayloadCorrupt (NewJobID (job_job_id r)))
         (sort_key (\<lambda>r. (job_created_at r, job_job_id r))
           (filter (\<lambda>r. nonterminal_phase (job_phase r)) (exec_jobs db)))) (\<lambda>ids.
       read_all (\<lambda>ident. readJobOnConnection ident db) ids))"

section \<open>Acceptance\<close>

definition job_row_of :: "JobAcceptance \<Rightarrow> Ingress \<Rightarrow> time \<Rightarrow> job_row" where
  "job_row_of v ingress now =
     \<lparr>job_job_id = ja_JobID v, job_session_id = ja_SessionID v, job_command_id = ja_CommandID v,
      job_controller_type = ci_type (ja_Controller v), job_controller_id = ci_id (ja_Controller v),
      job_ingress = ingress, job_target_kind = et_kind (ja_Target v),
      job_target_profile = et_profile (ja_Target v), job_environment = ja_Environment v,
      job_source_mode = src_mode (ja_Source v), job_source_repository_alias = src_repositoryAlias (ja_Source v),
      job_source_requested_revision = src_requestedRevision (ja_Source v),
      job_source_path = src_path (ja_Source v), job_hash_version = uint (ch_version (ja_RequestHash v)),
      job_hash = ch_digest (ja_RequestHash v), job_idempotency_key = ja_IdempotencyKey v,
      job_payload_json = ja_CanonicalPayload v, job_script_bytes = ja_Script v,
      job_script_sha256 = sha256_Sum256 (ja_Script v), job_phase = JobPhaseCreatingSession,
      job_command_state = None, job_exit_code = None, job_final_event_sequence = None,
      job_output_truncated = 0, job_output_complete = 0, job_output_unavailable_reason = [],
      job_teardown_state = JobTeardownPending, job_teardown_reason = [],
      job_created_at = formatStoredTime now, job_updated_at = formatStoredTime now\<rparr>"

text \<open>SQLite tests the checks of a row before its unique indexes; only a unique violation is
  reported as an existing job.\<close>

definition insertJobOnConnection :: "JobAcceptance \<Rightarrow> Ingress \<Rightarrow> time \<Rightarrow> bool \<Rightarrow> unit db_tx" where
  "insertJobOnConnection input ingress now idempotencyWarning =
     tx_bind (\<lambda>db. if job_check (job_row_of input ingress now) \<and> \<not> job_unique (job_row_of input ingress now) db
                   then Inl ErrJobExists
                   else sql_insert job_constraints exec_jobs_update (job_row_of input ingress now) db) (\<lambda>_.
     tx_bind (tx_lift (validateIdempotencyInput (ja_Controller input) runJobOperation (ja_IdempotencyKey input)
       (ja_RequestHash input) (ja_JobID input) (ja_IdempotencyRetention input))) (\<lambda>idempotency.
     recordIdempotencyOnConnection (idempotency\<lparr>idr_CreatedAt := now,
       idr_ExpiresAt := now + ja_IdempotencyRetention input,
       idr_DeduplicationWarning := idempotencyWarning\<rparr>)))"

definition accept_job_body :: "JobAcceptance \<Rightarrow> Ingress \<Rightarrow> time \<Rightarrow> bool \<Rightarrow> (JobRecord \<times> bool) db_tx" where
  "accept_job_body validated ingress now runtime =
     (let key = ja_IdempotencyKey validated in
      tx_bind (tx_query (checkIngressAdmissionOnConnection runtime)) (\<lambda>_.
      tx_bind (lookupIdempotencyOnConnection (ja_Controller validated) runJobOperation key now) (\<lambda>found.
      case found of
        Some existing \<Rightarrow>
          tx_bind (tx_guard (CompareIdempotency (idr_Hash existing) (ja_RequestHash validated) \<noteq>
            IdempotencyComparisonConflict) ErrIdempotencyConflict) (\<lambda>_.
          tx_bind (tx_lift (NewJobID (idr_ResourceID existing))) (\<lambda>existingID.
          tx_bind (tx_query (readJobOnConnection existingID)) (\<lambda>record.
          tx_return (record\<lparr>jr_IdempotencyWarning := idr_DeduplicationWarning existing\<rparr>, True))))
      | None \<Rightarrow>
          tx_bind (tx_query (idempotencyExpiryWarningOnConnection (ja_Controller validated)
            runJobOperation key now)) (\<lambda>warning.
          tx_bind (\<lambda>db. if find_job (ja_JobID validated) db \<noteq> None then Inl ErrJobExists else Inr ((), db)) (\<lambda>_.
          tx_bind (insertJobOnConnection validated ingress now warning) (\<lambda>_.
          tx_bind (tx_query (readJobOnConnection (ja_JobID validated))) (\<lambda>created.
          tx_return (created\<lparr>jr_IdempotencyWarning := warning\<rparr>, False))))))))"

definition AcceptJob ::
  "go_error option \<Rightarrow> time \<Rightarrow> audit_context \<Rightarrow> AuthorityStore \<Rightarrow> JobAcceptance \<Rightarrow>
   (JobRecord \<times> bool) result \<times> AuthorityStore" where
  "AcceptJob fault now ctx s input =
     (if \<not> TrustedForAcceptance (IngressFromContext ctx) then (Inl ErrInvalidJob, s)
      else
        (case validateJobAcceptance input of
           Inl e \<Rightarrow> (Inl e, s)
         | Inr validated \<Rightarrow>
             withImmediateTransaction fault s
               (accept_job_body validated (IngressFromContext ctx) now (st_laneAdmissionRuntime s))))"

section \<open>Checkpoints\<close>

definition validateJobCheckpoint :: "JobCheckpoint \<Rightarrow> unit result" where
  "validateJobCheckpoint checkpoint =
     (if \<not> JobPhase_Valid (jc_NextPhase checkpoint) then Inl ErrInvalidJob
      else if jc_ExpectedPhase checkpoint \<noteq> JobPhaseOther [] \<and> \<not> JobPhase_Valid (jc_ExpectedPhase checkpoint)
      then Inl ErrInvalidJob
      else if (case jc_Command checkpoint of
                 None \<Rightarrow> False
               | Some c \<Rightarrow> cr_SessionID c = [] \<or> cr_CommandID c = [] \<or> \<not> CommandState_Valid (cr_State c))
      then Inl ErrInvalidJob
      else if \<not> pred_option JobTeardownState_Valid (jc_TeardownState checkpoint) then Inl ErrInvalidJob
      else Inr ())"

definition checkpoint_update :: "JobCheckpoint \<Rightarrow> time \<Rightarrow> job_row \<Rightarrow> job_row" where
  "checkpoint_update checkpoint now r =
     (let r1 = r\<lparr>job_phase := jc_NextPhase checkpoint, job_updated_at := formatStoredTime now\<rparr>;
          r2 = (case jc_Command checkpoint of
                  None \<Rightarrow> r1
                | Some c \<Rightarrow> r1\<lparr>job_command_state := Some (cr_State c), job_exit_code := cr_ExitCode c,
                    job_final_event_sequence := cr_FinalEventSequence c,
                    job_output_truncated := boolToSQLite (cr_OutputTruncated c),
                    job_output_complete := boolToSQLite (cr_OutputComplete c),
                    job_output_unavailable_reason := cr_OutputUnavailableReason c\<rparr>)
      in case jc_TeardownState checkpoint of
           None \<Rightarrow> r2
         | Some t \<Rightarrow> r2\<lparr>job_teardown_state := t, job_teardown_reason := jc_TeardownReason checkpoint\<rparr>)"

definition update_job :: "(job_row \<Rightarrow> bool) \<Rightarrow> (job_row \<Rightarrow> job_row) \<Rightarrow> nat db_tx" where
  "update_job cond f = sql_update job_check exec_jobs exec_jobs_update cond f"

definition checkpoint_job_body :: "JobID \<Rightarrow> JobCheckpoint \<Rightarrow> time \<Rightarrow> JobRecord db_tx" where
  "checkpoint_job_body jid checkpoint now =
     tx_bind (tx_query (\<lambda>db. case find_job jid db of None \<Rightarrow> Inl ErrJobNotFound | Some row \<Rightarrow> Inr row)) (\<lambda>row.
     let current = job_phase row; expected = jc_ExpectedPhase checkpoint in
     if \<not> JobPhase_Valid current then tx_fail ErrJobPayloadCorrupt
     else if current = jc_NextPhase checkpoint \<and> expected \<noteq> JobPhaseOther [] \<and> current \<noteq> expected
     then tx_fail ErrJobPhaseConflict
     else if current = jc_NextPhase checkpoint \<and> jc_Command checkpoint = None
     then tx_query (readJobOnConnection jid)
     else if expected \<noteq> JobPhaseOther [] \<and> current \<noteq> expected then tx_fail ErrJobPhaseConflict
     else if (case jc_Command checkpoint of
                None \<Rightarrow> False
              | Some c \<Rightarrow> cr_SessionID c \<noteq> job_session_id row \<or> cr_CommandID c \<noteq> job_command_id row)
     then tx_fail ErrInvalidJob
     else
       tx_bind (update_job (\<lambda>r. job_job_id r = jid) (checkpoint_update checkpoint now)) (\<lambda>_.
       tx_query (readJobOnConnection jid)))"

definition CheckpointJob ::
  "go_error option \<Rightarrow> time \<Rightarrow> AuthorityStore \<Rightarrow> JobID \<Rightarrow> JobCheckpoint \<Rightarrow> JobRecord result \<times> AuthorityStore" where
  "CheckpointJob fault now s jid checkpoint =
     (case res_bind (NewJobID jid) (\<lambda>ident. res_bind (validateJobCheckpoint checkpoint) (\<lambda>_. Inr ident)) of
        Inl e \<Rightarrow> (Inl e, s)
      | Inr ident \<Rightarrow> withImmediateTransaction fault s (checkpoint_job_body ident checkpoint now))"

section \<open>Disposition of an abandoned maintenance probe\<close>

text \<open>The last lifecycle rows of a session, newest first.\<close>

definition latest_history :: "SessionID \<Rightarrow> database \<Rightarrow> lifecycle_row list" where
  "latest_history sid db = rev (sort_key slc_sequence (session_history sid db))"

definition directProbeStoppedLossHistory :: "SessionID \<Rightarrow> database \<Rightarrow> bool" where
  "directProbeStoppedLossHistory sid db =
     (case take 2 (latest_history sid db) of
        [lost, closing] \<Rightarrow>
          slc_sequence lost = slc_sequence closing + 1 \<and>
          slc_previous_state lost = Some SessionStateClosing \<and> slc_new_state lost = SessionStateLost \<and>
          slc_reason lost = ReasonRuntimeCleanupUnconfirmed \<and>
          slc_new_state closing = SessionStateClosing \<and>
          slc_previous_state closing = Some SessionStateCreating \<and> slc_reason closing = ''close_requested''
      | _ \<Rightarrow> False)"

definition probe_matches ::
  "SessionID \<Rightarrow> CommandID \<Rightarrow> string \<Rightarrow> string \<Rightarrow> string \<Rightarrow> JobRecord \<Rightarrow> SessionRecord \<Rightarrow> bool" where
  "probe_matches sid cid expectedKey expectedEnvironment expectedControllerID job session \<longleftrightarrow>
     jr_SessionID job = sid \<and> jr_CommandID job = cid \<and> jr_IdempotencyKey job = expectedKey \<and>
     jr_Ingress job = IngressDirectMTLS \<and> ci_type (jr_Controller job) = ControllerTypeDirectMTLS \<and>
     ci_id (jr_Controller job) = expectedControllerID \<and> jr_Environment job = expectedEnvironment \<and>
     et_kind (jr_Target job) = TargetKindRemote \<and> et_profile (jr_Target job) = ''linux-host'' \<and>
     src_mode (jr_Source job) = SourceModeEmpty \<and> jr_ScriptBytes job = catalogMaintenanceProbeScript \<and>
     jr_CommandState job = None \<and> jr_ExitCode job = None \<and> jr_FinalEventSequence job = None \<and>
     \<not> jr_OutputComplete job \<and> \<not> jr_OutputTruncated job \<and> jr_OutputUnavailableReason job = [] \<and>
     jr_TeardownState job = JobTeardownPending \<and> jr_TeardownReason job = [] \<and>
     sr_Target session = jr_Target job \<and> sr_Controller session = jr_Controller job \<and>
     sr_Environment session = jr_Environment job \<and> src_mode (sr_Source session) = SourceModeEmpty \<and>
     sr_RuntimeGeneration session = []"

definition live_reservation_of :: "SessionID \<Rightarrow> database \<Rightarrow> bool" where
  "live_reservation_of sid db =
     (case readReservationOnConnection sid db of
        Inl _ \<Rightarrow> False
      | Inr reservation \<Rightarrow> srv_CleanupConfirmedAt reservation = None \<and> srv_ReleasedAt reservation = None)"

definition no_command_rows :: "CommandID \<Rightarrow> database \<Rightarrow> bool" where
  "no_command_rows cid db \<longleftrightarrow>
     filter (\<lambda>c. cmd_command_id c = cid) (exec_commands db) = [] \<and>
     filter (\<lambda>e. evt_command_id e = cid) (exec_command_events db) = [] \<and>
     filter (\<lambda>r. slt_command_id r = cid) (exec_command_slots db) = []"

definition probe_job_lost :: "JobID \<Rightarrow> SessionID \<Rightarrow> CommandID \<Rightarrow> time \<Rightarrow> nat db_tx" where
  "probe_job_lost jid sid cid now =
     update_job (\<lambda>r. job_job_id r = jid \<and> job_session_id r = sid \<and> job_command_id r = cid \<and>
         job_phase r = JobPhaseCreatingSession)
       (\<lambda>r. r\<lparr>job_phase := JobPhaseLost, job_updated_at := formatStoredTime now\<rparr>)"

definition probe_lost_body ::
  "JobID \<Rightarrow> SessionID \<Rightarrow> CommandID \<Rightarrow> string \<Rightarrow> string \<Rightarrow> string \<Rightarrow> string \<Rightarrow> time \<Rightarrow>
   (JobRecord \<times> SessionRecord) db_tx" where
  "probe_lost_body jid sid cid expectedKey expectedEnvironment expectedControllerID reason now =
     tx_bind (tx_query (readJobOnConnection jid)) (\<lambda>job.
     tx_bind (tx_query (readSessionOnConnection sid)) (\<lambda>session.
     tx_bind (tx_guard (probe_matches sid cid expectedKey expectedEnvironment expectedControllerID job session)
       ErrProbeDispositionNotEligible) (\<lambda>_.
     tx_bind (tx_query (\<lambda>db. Inr db)) (\<lambda>db.
     if jr_Phase job = JobPhaseLost \<and> sr_State session = SessionStateLost
     then
       tx_bind (tx_guard (live_reservation_of sid db \<and> no_command_rows cid db) ErrProbeDispositionNotEligible) (\<lambda>_.
       (case latest_history sid db of
          [] \<Rightarrow> tx_fail ErrProbeDispositionNotEligible
        | entry # _ \<Rightarrow>
            if slc_reason entry \<noteq> reason \<and>
               \<not> (slc_reason entry = ReasonRuntimeCleanupUnconfirmed \<and> directProbeStoppedLossHistory sid db) \<or>
               slc_new_state entry \<noteq> SessionStateLost
            then tx_fail ErrProbeDispositionNotEligible
            else tx_return (job, session)))
     else if jr_Phase job = JobPhaseCreatingSession \<and> sr_State session = SessionStateLost \<and>
       directProbeStoppedLossHistory sid db
     then
       tx_bind (tx_guard (live_reservation_of sid db \<and>
         length (filter (\<lambda>j. job_session_id j = sid) (exec_jobs db)) = 1 \<and>
         filter (\<lambda>c. cmd_session_id c = sid) (exec_commands db) = [] \<and>
         filter (\<lambda>e. evt_command_id e = cid) (exec_command_events db) = [] \<and>
         filter (\<lambda>r. slt_command_id r = cid) (exec_command_slots db) = []) ErrProbeDispositionNotEligible) (\<lambda>_.
       tx_bind (probe_job_lost jid sid cid now) (\<lambda>changed.
       tx_bind (tx_guard (changed = 1) ErrProbeDispositionNotEligible) (\<lambda>_.
       tx_bind (tx_query (readJobOnConnection jid)) (\<lambda>updatedJob.
       tx_return (updatedJob, session)))))
     else
       tx_bind (tx_guard (jr_Phase job = JobPhaseCreatingSession \<and> sr_State session = SessionStateCreating)
         ErrProbeDispositionNotEligible) (\<lambda>_.
       tx_bind (tx_guard (live_reservation_of sid db \<and> no_command_rows cid db) ErrProbeDispositionNotEligible) (\<lambda>_.
       (case latest_history sid db of
          [] \<Rightarrow> tx_fail ErrProbeDispositionNotEligible
        | entry # _ \<Rightarrow>
            tx_bind (tx_guard (slc_new_state entry = SessionStateCreating) ErrProbeDispositionNotEligible) (\<lambda>_.
            tx_bind (sql_update session_check exec_sessions exec_sessions_update
              (\<lambda>r. ses_session_id r = sid \<and> ses_state r = SessionStateCreating \<and> ses_runtime_generation r = [])
              (\<lambda>r. r\<lparr>ses_state := SessionStateLost, ses_updated_at := formatStoredTime now\<rparr>)) (\<lambda>_.
            tx_bind (insert_lifecycle sid (slc_sequence entry + 1) (Some SessionStateCreating) SessionStateLost
              reason now) (\<lambda>_.
            tx_bind (probe_job_lost jid sid cid now) (\<lambda>_.
            tx_bind (tx_query (readJobOnConnection jid)) (\<lambda>updatedJob.
            tx_bind (tx_query (readSessionOnConnection sid)) (\<lambda>updatedSession.
            tx_return (updatedJob, updatedSession))))))))))))))"

definition MarkCreatingDirectProbeLost ::
  "go_error option \<Rightarrow> time \<Rightarrow> AuthorityStore \<Rightarrow> JobID \<Rightarrow> SessionID \<Rightarrow> CommandID \<Rightarrow> string \<Rightarrow> string \<Rightarrow>
   string \<Rightarrow> string \<Rightarrow> (JobRecord \<times> SessionRecord) result \<times> AuthorityStore" where
  "MarkCreatingDirectProbeLost fault now s jobID sessionID commandID expectedKey expectedEnvironment
     expectedControllerID reason =
     (case res_bind (res_as ErrProbeDispositionNotEligible (NewJobID jobID)) (\<lambda>jid.
           res_bind (res_as ErrProbeDispositionNotEligible (NewSessionID sessionID)) (\<lambda>sid.
           res_bind (res_as ErrProbeDispositionNotEligible (NewCommandID commandID)) (\<lambda>cid.
           if expectedKey = [] \<or> expectedEnvironment = [] \<or> expectedControllerID = [] \<or>
              reason \<noteq> CatalogProbeOwnerAbandonedReason
           then Inl ErrProbeDispositionNotEligible else Inr (jid, sid, cid)))) of
        Inl e \<Rightarrow> (Inl e, s)
      | Inr (jid, sid, cid) \<Rightarrow>
          withImmediateTransaction fault s
            (probe_lost_body jid sid cid expectedKey expectedEnvironment expectedControllerID reason now))"

end
