(* ===== verification/Store_Settlement.thy ===== *)
theory Store_Settlement
  imports Store_Jobs
begin

text \<open>
  Offline settlement of one-off jobs whose queued command was cancelled before it started
  (internal/store/stalled_job_recovery.go): the candidates, their checks, and the transaction that
  marks the selected jobs complete. No payload is read.
\<close>

section \<open>Candidates\<close>

record ClosedCancelledJobSettlement =
  ccs_JobID :: JobID
  ccs_SessionID :: SessionID
  ccs_CommandID :: CommandID
  ccs_AlreadySettled :: bool

record closedCancelledJobSettlementCandidate =
  ccc_jobID :: JobID
  ccc_sessionID :: SessionID
  ccc_commandID :: CommandID
  ccc_finalEventSequence :: int
  ccc_alreadySettled :: bool

fun validate_job_ids_from :: "JobID set \<Rightarrow> JobID list \<Rightarrow> JobID list result" where
  "validate_job_ids_from seen [] = Inr []"
| "validate_job_ids_from seen (jobID # ids) =
     res_bind (NewJobID jobID) (\<lambda>jid.
     if jid \<in> seen then Inl ErrClosedCancelledJobSettlementNotEligible
     else res_bind (validate_job_ids_from (insert jid seen) ids) (\<lambda>rest. Inr (jid # rest)))"

definition validateClosedCancelledJobSettlementIDs :: "JobID list \<Rightarrow> JobID list result" where
  "validateClosedCancelledJobSettlementIDs jobIDs =
     (if length jobIDs = 0 then Inl ErrClosedCancelledJobSettlementNotEligible
      else validate_job_ids_from {} jobIDs)"

definition closedCancelledJobSettlementResults ::
  "closedCancelledJobSettlementCandidate list \<Rightarrow> ClosedCancelledJobSettlement list" where
  "closedCancelledJobSettlementResults candidates =
     map (\<lambda>c. \<lparr>ccs_JobID = ccc_jobID c, ccs_SessionID = ccc_sessionID c, ccs_CommandID = ccc_commandID c,
        ccs_AlreadySettled = ccc_alreadySettled c\<rparr>) candidates"

fun expect_events :: "int \<Rightarrow> string list \<Rightarrow> event_row list \<Rightarrow> unit result" where
  "expect_events index [] [] = Inr ()"
| "expect_events index (ty # expected) (e # events) =
     (if evt_sequence e \<noteq> index + 1 \<or> evt_type e \<noteq> ty then Inl ErrClosedCancelledJobSettlementNotEligible
      else expect_events (index + 1) expected events)"
| "expect_events index _ _ = Inl ErrClosedCancelledJobSettlementNotEligible"

definition requireExactlyQueuedThenCancelledEvents :: "CommandID \<Rightarrow> database \<Rightarrow> unit result" where
  "requireExactlyQueuedThenCancelledEvents cid db =
     expect_events 0 [''command_queued'', ''command_cancelled''] (sort_key evt_sequence (command_events cid db))"

text \<open>The command was cancelled while queued, its session is closed and its capacity given back.\<close>

definition cancelled_unstarted ::
  "job_row \<Rightarrow> session_row \<Rightarrow> command_row \<Rightarrow> reservation_row \<Rightarrow> slot_row option \<Rightarrow> database \<Rightarrow> bool" where
  "cancelled_unstarted job session command reservation slot db \<longleftrightarrow>
     cmd_session_id command = job_session_id job \<and> ses_state session = SessionStateClosed \<and>
     cmd_state command = CommandStateCancelled \<and>
     cmd_exit_code command = None \<and> cmd_final_event_sequence command = Some 2 \<and>
     cmd_output_truncated command = 0 \<and> cmd_output_complete command = 1 \<and>
     res_host_key reservation = reservationHostKey \<and> res_cleanup_confirmed_at reservation \<noteq> None \<and>
     res_released_at reservation \<noteq> None \<and>
     (case slot of
        None \<Rightarrow> True
      | Some r \<Rightarrow> slt_command_id r = job_command_id job \<and> slt_host_key r = schedulerHostKey \<and>
          slt_stop_confirmed_at r \<noteq> None \<and> slt_released_at r \<noteq> None) \<and>
     filter (\<lambda>c. cmd_session_id c = job_session_id job \<and> cmd_command_id c \<noteq> job_command_id job \<and>
        cmd_state c \<in> {CommandStateQueued, CommandStateRunning, CommandStateCancelling}) (exec_commands db) = []"

text \<open>The result columns of a job that has been settled.\<close>

definition settled_columns :: "job_row \<Rightarrow> bool" where
  "settled_columns job \<longleftrightarrow>
     job_command_state job = Some CommandStateCancelled \<and> job_exit_code job = None \<and>
     job_final_event_sequence job = Some 2 \<and> job_output_truncated job = 0 \<and> job_output_complete job = 1 \<and>
     job_output_unavailable_reason job = [] \<and> job_teardown_state job = JobTeardownClosed \<and>
     job_teardown_reason job = ''runtime_closed''"

definition readClosedCancelledJobSettlementCandidate ::
  "JobID \<Rightarrow> database \<Rightarrow> closedCancelledJobSettlementCandidate result" where
  "readClosedCancelledJobSettlementCandidate jid db =
     (case find_job jid db of
        None \<Rightarrow> Inl ErrJobNotFound
      | Some job \<Rightarrow>
     (case (find_session (job_session_id job) db, find_command (job_command_id job) db,
            find_reservation (job_session_id job) db) of
        (Some session, Some command, Some reservation) \<Rightarrow>
          res_bind (res_as ErrClosedCancelledJobSettlementNotEligible (NewJobID (job_job_id job))) (\<lambda>_.
          res_bind (res_as ErrClosedCancelledJobSettlementNotEligible (NewSessionID (job_session_id job))) (\<lambda>sid.
          res_bind (res_as ErrClosedCancelledJobSettlementNotEligible (NewCommandID (job_command_id job))) (\<lambda>cid.
          if \<not> cancelled_unstarted job session command reservation (find_slot (cmd_command_id command) db) db
          then Inl ErrClosedCancelledJobSettlementNotEligible
          else
            res_bind (requireExactlyQueuedThenCancelledEvents cid db) (\<lambda>_.
            let alreadySettled = (job_phase job = JobPhaseComplete) in
            if \<not> alreadySettled \<and>
               (job_phase job \<noteq> JobPhaseAwaitingCommand \<or> job_teardown_state job \<noteq> JobTeardownPending)
            then Inl ErrClosedCancelledJobSettlementNotEligible
            else if alreadySettled \<and> \<not> settled_columns job
            then Inl ErrClosedCancelledJobSettlementNotEligible
            else Inr \<lparr>ccc_jobID = jid, ccc_sessionID = sid, ccc_commandID = cid,
              ccc_finalEventSequence = 2, ccc_alreadySettled = alreadySettled\<rparr>))))
      | _ \<Rightarrow> Inl ErrJobNotFound))"

definition settlement_candidates ::
  "JobID list \<Rightarrow> database \<Rightarrow> closedCancelledJobSettlementCandidate list result" where
  "settlement_candidates ids db = read_all (\<lambda>jid. readClosedCancelledJobSettlementCandidate jid db) ids"

definition CheckClosedCancelledOneOffJobs ::
  "go_error option \<Rightarrow> AuthorityStore \<Rightarrow> JobID list \<Rightarrow> ClosedCancelledJobSettlement list result \<times> AuthorityStore" where
  "CheckClosedCancelledOneOffJobs fault s jobIDs =
     (case validateClosedCancelledJobSettlementIDs jobIDs of
        Inl e \<Rightarrow> (Inl e, s)
      | Inr validated \<Rightarrow> withStoreReadTransaction fault s (\<lambda>db.
          res_bind (settlement_candidates validated db) (\<lambda>candidates.
          Inr (closedCancelledJobSettlementResults candidates))))"

section \<open>Settlement\<close>

definition settled :: "closedCancelledJobSettlementCandidate \<Rightarrow> time \<Rightarrow> job_row \<Rightarrow> job_row" where
  "settled candidate now r =
     r\<lparr>job_phase := JobPhaseComplete, job_command_state := Some CommandStateCancelled, job_exit_code := None,
       job_final_event_sequence := Some (ccc_finalEventSequence candidate), job_output_truncated := 0,
       job_output_complete := 1, job_output_unavailable_reason := [],
       job_teardown_state := JobTeardownClosed, job_teardown_reason := ''runtime_closed'',
       job_updated_at := formatStoredTime now\<rparr>"

fun settle_candidates :: "time \<Rightarrow> closedCancelledJobSettlementCandidate list \<Rightarrow> unit db_tx" where
  "settle_candidates now [] = tx_return ()"
| "settle_candidates now (candidate # candidates) =
     (if ccc_alreadySettled candidate then settle_candidates now candidates
      else
        tx_bind (update_job (\<lambda>r. job_job_id r = ccc_jobID candidate \<and> job_phase r = JobPhaseAwaitingCommand)
          (settled candidate now)) (\<lambda>changed.
        tx_bind (tx_guard (changed = 1) ErrClosedCancelledJobSettlementNotEligible) (\<lambda>_.
        settle_candidates now candidates)))"

definition settle_body :: "JobID list \<Rightarrow> time \<Rightarrow> ClosedCancelledJobSettlement list db_tx" where
  "settle_body validated now =
     tx_bind (tx_query (settlement_candidates validated)) (\<lambda>candidates.
     tx_bind (settle_candidates now candidates) (\<lambda>_.
     tx_return (closedCancelledJobSettlementResults candidates)))"

definition SettleClosedCancelledOneOffJobs ::
  "go_error option \<Rightarrow> time \<Rightarrow> AuthorityStore \<Rightarrow> JobID list \<Rightarrow>
   ClosedCancelledJobSettlement list result \<times> AuthorityStore" where
  "SettleClosedCancelledOneOffJobs fault now s jobIDs =
     (case validateClosedCancelledJobSettlementIDs jobIDs of
        Inl e \<Rightarrow> (Inl e, s)
      | Inr validated \<Rightarrow> withImmediateTransaction fault s (settle_body validated now))"

section \<open>Inventory\<close>

definition CountActiveSessions :: "go_error option \<Rightarrow> AuthorityStore \<Rightarrow> int result" where
  "CountActiveSessions fault s = onConnection fault s (\<lambda>db. Inr (int (length (filter
     (\<lambda>r. ses_state r \<in> {SessionStateRequested, SessionStateCreating, SessionStateReady, SessionStateBusy,
        SessionStateClosing}) (exec_sessions db)))))"

definition CountRunningCommands :: "go_error option \<Rightarrow> AuthorityStore \<Rightarrow> int result" where
  "CountRunningCommands fault s = onConnection fault s (\<lambda>db. Inr (int (length (filter
     (\<lambda>c. cmd_state c = CommandStateRunning \<or> cmd_state c = CommandStateCancelling) (exec_commands db)))))"

definition ListNonterminalJobIDs :: "go_error option \<Rightarrow> AuthorityStore \<Rightarrow> JobID list result" where
  "ListNonterminalJobIDs fault s = onConnection fault s (\<lambda>db.
     read_all (\<lambda>j. res_as ErrJobPayloadCorrupt (NewJobID (job_job_id j)))
       (sort_key (\<lambda>j. (job_created_at j, job_job_id j))
         (filter (\<lambda>j. nonterminal_phase (job_phase j)) (exec_jobs db))))"

end
