(* ===== verification/Store_System.thy ===== *)
theory Store_System
  imports Scheduler_Facts Store_Settlement
begin

text \<open>
  The store as a system of operations. A \<open>store_step\<close> is what every committed transaction does
  to the database: the invariants hold again, session histories and command event streams only grow,
  a terminal command never changes again, and the live slots and reservations grow only up to the
  limit the operation was given.
\<close>

section \<open>How commands evolve\<close>

definition command_evolves :: "database \<Rightarrow> database \<Rightarrow> bool" where
  "command_evolves db db' \<longleftrightarrow>
     (\<forall>cid c. find_command cid db = Some c \<longrightarrow>
        (\<exists>c'. find_command cid db' = Some c' \<and> command_columns c' = command_columns c \<and>
           CommandState_CanTransitionTo\<^sup>*\<^sup>* (cmd_state c) (cmd_state c') \<and>
           prefix (command_events cid db) (command_events cid db') \<and>
           (CommandState_IsTerminal (cmd_state c) \<longrightarrow>
              c' = c \<and> command_events cid db' = command_events cid db)))"

lemma command_evolvesD:
  assumes "command_evolves db db'" "find_command cid db = Some c"
  obtains c' where "find_command cid db' = Some c'" "command_columns c' = command_columns c"
    "CommandState_CanTransitionTo\<^sup>*\<^sup>* (cmd_state c) (cmd_state c')"
    "prefix (command_events cid db) (command_events cid db')"
    "CommandState_IsTerminal (cmd_state c) \<longrightarrow> c' = c \<and> command_events cid db' = command_events cid db"
  using assms unfolding command_evolves_def by blast

lemma command_evolves_refl [simp]: "command_evolves db db"
  by (simp add: command_evolves_def)

lemma command_evolves_trans:
  assumes "command_evolves a b" "command_evolves b c"
  shows "command_evolves a c"
  unfolding command_evolves_def
proof (intro allI impI)
  fix cid r
  assume r: "find_command cid a = Some r"
  obtain r1 where r1: "find_command cid b = Some r1" "command_columns r1 = command_columns r"
    "CommandState_CanTransitionTo\<^sup>*\<^sup>* (cmd_state r) (cmd_state r1)"
    "prefix (command_events cid a) (command_events cid b)"
    "CommandState_IsTerminal (cmd_state r) \<longrightarrow> r1 = r \<and> command_events cid b = command_events cid a"
    by (rule command_evolvesD [OF assms(1) r])
  obtain r2 where "find_command cid c = Some r2" "command_columns r2 = command_columns r1"
    "CommandState_CanTransitionTo\<^sup>*\<^sup>* (cmd_state r1) (cmd_state r2)"
    "prefix (command_events cid b) (command_events cid c)"
    "CommandState_IsTerminal (cmd_state r1) \<longrightarrow> r2 = r1 \<and> command_events cid c = command_events cid b"
    by (rule command_evolvesD [OF assms(2) r1(1)])
  with r1 show "\<exists>c'. find_command cid c = Some c' \<and> command_columns c' = command_columns r \<and>
      CommandState_CanTransitionTo\<^sup>*\<^sup>* (cmd_state r) (cmd_state c') \<and>
      prefix (command_events cid a) (command_events cid c) \<and>
      (CommandState_IsTerminal (cmd_state r) \<longrightarrow> c' = r \<and> command_events cid c = command_events cid a)"
    by (intro exI [of _ r2]) (auto intro: rtranclp_trans prefix_order.order_trans)
qed

lemma command_evolves_cong:
  "exec_commands db' = exec_commands db \<Longrightarrow> exec_command_events db' = exec_command_events db \<Longrightarrow>
   command_evolves db db'"
  by (simp add: command_evolves_def find_command_def command_events_def)

lemma command_evolves_accept:
  "exec_commands db' = exec_commands db @ new \<Longrightarrow> exec_command_events db' = exec_command_events db @ evs \<Longrightarrow>
   \<forall>e \<in> set evs. find_command (evt_command_id e) db = None \<Longrightarrow> command_evolves db db'"
  by (auto simp: command_evolves_def find_command_def command_events_def find_append filter_empty_conv)

text \<open>The premises match those of \<open>commands_wf_step\<close>.\<close>

lemma command_evolves_step:
  assumes c: "find_command cid db = Some c" and P: "P c" and live: "\<not> CommandState_IsTerminal (cmd_state c)"
    and f: "\<And>r. command_columns (f r) = command_columns r"
    and reach: "CommandState_CanTransitionTo\<^sup>*\<^sup>* (cmd_state c) (cmd_state (f c))"
    and cmds: "exec_commands db' = update_rows (\<lambda>r. cmd_command_id r = cid \<and> P r) f (exec_commands db)"
    and evs: "exec_command_events db' = exec_command_events db @ new" "\<forall>e \<in> set new. evt_command_id e = cid"
  shows "command_evolves db db'"
proof -
  have ids: "cmd_command_id (f r) = cmd_command_id r" for r using f [of r] by (simp add: command_columns_def)
  have "find_command k db' = (if k = cid then Some (f c) else find_command k db)" for k
    using find_update_rows_same [of cmd_command_id f cid "exec_commands db" c P]
      find_update_rows_other [of cmd_command_id f k cid P "exec_commands db"] ids c P
    by (simp add: find_command_def cmds)
  moreover have "command_events k db' = (if k = cid then command_events cid db @ new else command_events k db)"
    for k using evs(2) by (auto simp: command_events_def evs(1) filter_id_conv filter_empty_conv)
  ultimately show ?thesis
    using c live f reach by (auto simp: command_evolves_def)
qed

section \<open>Steps of the store\<close>

definition store_step :: "int \<Rightarrow> int \<Rightarrow> database \<Rightarrow> database \<Rightarrow> bool" where
  "store_step limit capacity db db' \<longleftrightarrow>
     store_wf db' \<and> session_evolves db db' \<and> command_evolves db db' \<and>
     live_slots db' \<le> max (live_slots db) limit \<and>
     live_reservations db' \<le> max (live_reservations db) capacity"

lemma store_step_refl [simp]: "store_wf db \<Longrightarrow> store_step limit capacity db db"
  by (simp add: store_step_def)

text \<open>A transaction body all of whose commits are steps.\<close>

definition tx_step :: "int \<Rightarrow> int \<Rightarrow> 'a db_tx \<Rightarrow> bool" where
  "tx_step limit capacity m \<longleftrightarrow>
     (\<forall>db x db'. store_wf db \<longrightarrow> m db = Inr (x, db') \<longrightarrow> store_step limit capacity db db')"

lemma tx_stepI:
  "(\<And>db x db'. store_wf db \<Longrightarrow> m db = Inr (x, db') \<Longrightarrow> store_step limit capacity db db') \<Longrightarrow>
   tx_step limit capacity m"
  by (simp add: tx_step_def)

lemma withImmediateTransaction_step:
  "tx_step limit capacity m \<Longrightarrow> store_wf (st_db s) \<Longrightarrow>
   store_step limit capacity (st_db s) (st_db (snd (withImmediateTransaction fault s m)))"
  by (rule withImmediateTransaction_cases [of fault s m]) (auto simp: tx_step_def)

text \<open>A transaction that leaves the commands alone, and one that leaves the sessions alone.\<close>

lemma store_step_sessions:
  assumes "store_wf db" "sessions_wf db'" "session_evolves db db'"
    and "exec_commands db' = exec_commands db" "exec_command_events db' = exec_command_events db"
      "exec_command_slots db' = exec_command_slots db"
    and "live_reservations db' \<le> max (live_reservations db) capacity"
  shows "store_step limit capacity db db'"
proof -
  have "ses_session_id ` set (exec_sessions db) \<subseteq> ses_session_id ` set (exec_sessions db')"
  proof
    fix sid
    assume "sid \<in> ses_session_id ` set (exec_sessions db)"
    then obtain row where "find_session sid db = Some row"
      using find_key_None [of ses_session_id sid "exec_sessions db"] by (auto simp: find_session_def)
    then obtain row' where "find_session sid db' = Some row'"
      using assms(3) by (auto simp: session_evolves_def)
    then show "sid \<in> ses_session_id ` set (exec_sessions db')"
      using find_key_None [of ses_session_id sid "exec_sessions db'"] by (auto simp: find_session_def)
  qed
  then have "commands_wf db'"
    using assms by (intro commands_wf_cong [of db' db]) (simp_all add: store_wf_def)
  then show ?thesis
    using assms by (simp add: store_step_def store_wf_def command_evolves_cong live_slots_def)
qed

lemma store_step_commands:
  assumes "store_wf db" "commands_wf db'" "command_evolves db db'"
    and "exec_sessions db' = exec_sessions db" "exec_session_lifecycle db' = exec_session_lifecycle db"
      "exec_capacity_reservations db' = exec_capacity_reservations db"
    and "live_slots db' \<le> max (live_slots db) limit"
  shows "store_step limit capacity db db'"
  using assms sessions_wf_cong [of db' db]
  by (simp add: store_step_def store_wf_def session_evolves_cong live_reservations_def)

lemma store_step_same:
  assumes "store_wf db"
    and "exec_sessions db' = exec_sessions db" "exec_session_lifecycle db' = exec_session_lifecycle db"
      "exec_capacity_reservations db' = exec_capacity_reservations db"
    and "exec_commands db' = exec_commands db" "exec_command_events db' = exec_command_events db"
      "exec_command_slots db' = exec_command_slots db"
  shows "store_step limit capacity db db'"
  using assms commands_wf_cong [of db' db]
  by (intro store_step_commands) (simp_all add: store_wf_def command_evolves_cong live_slots_def)

lemma filter_update_rows_le:
  "(\<And>r. Q (f r) \<Longrightarrow> Q r) \<Longrightarrow> length (filter Q (update_rows P f xs)) \<le> length (filter Q xs)"
  by (induction xs) (auto simp: update_rows_def)

lemma live_reservations_confirmed:
  "live_reservations (exec_capacity_reservations_update (update_rows P (confirmed now)) db) \<le> live_reservations db"
  unfolding live_reservations_def
  by (simp, rule filter_update_rows_le) (simp add: confirmed_def)

lemma live_slots_released:
  "live_slots (exec_command_slots_update (update_rows P (slot_released now)) db) \<le> live_slots db"
  unfolding live_slots_def by (simp, rule filter_update_rows_le) (simp add: slot_released_def live_slot_def)

section \<open>The session transactions\<close>

lemma move_session_step:
  assumes "move_session sid current next_state f reason now db = Inr (u, db')" "store_wf db"
    and "find_session sid db = Some row" "ses_state row = current"
    and "SessionState_CanTransitionTo current next_state"
    and "\<And>r. identity_columns (f r) = identity_columns r" "\<And>r. ses_state (f r) = next_state"
  shows "store_step limit capacity db db'"
proof -
  have ids: "ses_session_id (f r) = ses_session_id r" for r using assms(6) [of r] by (simp add: identity_columns_def)
  have "sessions_wf db'"
    using assms(2) by (intro move_session_wf [OF assms(1) _ assms(3-5) ids assms(7)]) (simp add: store_wf_def)
  then show ?thesis
    using assms(1) by (intro store_step_sessions [OF assms(2) _ move_session_evolves [OF assms(1,6)]])
      (auto simp: move_session_def update_session_def insert_lifecycle_def tx_simps live_reservations_def)
qed

lemma transition_session_step: "tx_step limit capacity (transition_session_body sid next_state reason now)"
  by (rule tx_stepI) (auto simp: transition_session_body_def Let_def tx_simps identity_columns_def
      elim!: move_session_step)

lemma complete_creation_step: "tx_step limit capacity (complete_creation_body sid next_state g revision reason now)"
  by (rule tx_stepI) (auto simp: complete_creation_body_def Let_def tx_simps identity_columns_def
      elim!: move_session_step)

lemma confirm_cleanup_step: "tx_step limit capacity (confirm_cleanup_body sid now)"
proof (rule tx_stepI)
  fix db x db'
  assume wf: "store_wf db" and run: "confirm_cleanup_body sid now db = Inr (x, db')"
  have db': "db' = exec_capacity_reservations_update (update_rows (\<lambda>r. res_session_id r = sid \<and>
      res_cleanup_confirmed_at r = None) (confirmed now)) db"
    using run by (auto simp: confirm_cleanup_body_def tx_simps split: if_splits)
  have "sessions_wf db'" using tx_keepsD [OF confirm_cleanup_wf _ run] wf by (simp add: store_wf_def)
  moreover have "live_reservations db' \<le> live_reservations db"
    unfolding db' by (rule live_reservations_confirmed)
  ultimately show "store_step limit capacity db db'"
    by (intro store_step_sessions [OF wf _ confirm_cleanup_evolves [OF run]]) (auto simp: db')
qed

lemma release_reservation_live:
  "release_reservation sid now db = Inr (u, db') \<Longrightarrow> live_reservations db' \<le> live_reservations db"
  using live_reservations_confirmed by (auto simp: release_reservation_def tx_simps)

lemma fail_after_cleanup_step: "tx_step limit capacity (fail_after_cleanup_body sid g revision reason now)"
proof (rule tx_stepI)
  fix db x db'
  assume wf: "store_wf db" and run: "fail_after_cleanup_body sid g revision reason now db = Inr (x, db')"
  have "sessions_wf db'" using tx_keepsD [OF fail_after_cleanup_wf _ run] wf by (simp add: store_wf_def)
  moreover have "live_reservations db' \<le> live_reservations db"
    using run live_reservations_confirmed
    by (auto simp: fail_after_cleanup_body_def move_session_def update_session_def insert_lifecycle_def
        release_reservation_def tx_simps Let_def live_reservations_def)
  ultimately show "store_step limit capacity db db'"
    using run by (intro store_step_sessions [OF wf _ fail_after_cleanup_evolves [OF run]])
      (auto simp: fail_after_cleanup_body_def move_session_def update_session_def insert_lifecycle_def
        release_reservation_def tx_simps Let_def)
qed

lemma fail_pre_start_step: "tx_step limit capacity (fail_pre_start_body sid now)"
proof (rule tx_stepI)
  fix db x db'
  assume wf: "store_wf db" and run: "fail_pre_start_body sid now db = Inr (x, db')"
  have "sessions_wf db'" using tx_keepsD [OF fail_pre_start_wf _ run] wf by (simp add: store_wf_def)
  moreover have "live_reservations db' \<le> live_reservations db"
    using run live_reservations_confirmed
    by (auto simp: fail_pre_start_body_def insert_lifecycle_def release_reservation_def tx_simps
        live_reservations_def)
  ultimately show "store_step limit capacity db db'"
    using run by (intro store_step_sessions [OF wf _ fail_pre_start_evolves [OF run]])
      (auto simp: fail_pre_start_body_def insert_lifecycle_def release_reservation_def tx_simps)
qed

end
