(* ===== verification/Store_Operations.thy ===== *)
theory Store_Operations
  imports Store_System
begin

text \<open>
  Every transaction of the modelled store is a step of the store system: acceptance, idempotency,
  audit and lane updates, the command operations, the scheduler, the restart plan and the recovery
  of lost capacity.
\<close>

section \<open>Acceptance of sessions, idempotency, audit and lane rows\<close>

lemma insertSessionAcceptance_commands:
  assumes "insertSessionAcceptance v key h expires now warning db = Inr (u, db')"
  shows "exec_commands db' = exec_commands db" "exec_command_events db' = exec_command_events db"
    "exec_command_slots db' = exec_command_slots db"
  by (rule insertSessionAcceptance_effect [OF assms]; simp)+

lemma accept_session_step: "tx_step limit (sca_MaxActiveSessions v) (accept_session_body v now runtime)"
proof (rule tx_stepI)
  fix db x db'
  assume wf: "store_wf db" and run: "accept_session_body v now runtime db = Inr (x, db')"
  obtain rc dup saved where x: "x = ((rc, dup), saved)" by (metis surj_pair)
  have swf: "sessions_wf db'" using tx_keepsD [OF accept_session_wf _ run] wf by (simp add: store_wf_def)
  from run [unfolded x] have "exec_commands db' = exec_commands db \<and> exec_command_events db' = exec_command_events db \<and>
      exec_command_slots db' = exec_command_slots db \<and>
      live_reservations db' \<le> max (live_reservations db) (sca_MaxActiveSessions v)"
  proof (cases rule: accept_session_cases)
    case (duplicate existing found db1)
    show ?thesis
      using lookupIdempotency_live [OF duplicate(2)] insertOptionalAudit_live [OF duplicate(6)]
      by (rule_tac lookupIdempotency_frame [OF duplicate(2)], rule_tac insertOptionalAudit_obtain [OF duplicate(6)]) simp
  next
    case (fresh warning created db1 db2)
    show ?thesis
      using insertSessionAcceptance_commands [OF fresh(4)] lookupIdempotency_live [OF fresh(2)] insertOptionalAudit_live [OF fresh(7)]
        insertSessionAcceptance_live [OF fresh(4)] fresh(3)
      by (rule_tac lookupIdempotency_frame [OF fresh(2)], rule_tac insertOptionalAudit_obtain [OF fresh(7)]) simp
  qed
  then show "store_step limit (sca_MaxActiveSessions v) db db'"
    by (intro store_step_sessions [OF wf swf accept_session_evolves [OF run]]) simp_all
qed

lemma create_session_step:
  "tx_step limit n (tx_bind (tx_query q) (\<lambda>_. tx_bind (ensureSessionCapacity n) (\<lambda>_.
     tx_bind (insertSessionAcceptance v key h expires now warning) (\<lambda>_. tx_query q'))))"
proof (rule tx_stepI)
  fix db x db'
  assume wf: "store_wf db" and run: "tx_bind (tx_query q) (\<lambda>_. tx_bind (ensureSessionCapacity n) (\<lambda>_.
     tx_bind (insertSessionAcceptance v key h expires now warning) (\<lambda>_. tx_query q'))) db = Inr (x, db')"
  have ins: "insertSessionAcceptance v key h expires now warning db = Inr ((), db')" "live_reservations db < n"
    using run by (auto simp: tx_simps ensureSessionCapacity_def split: if_splits)
  have "sessions_wf db'" using tx_keepsD [OF create_session_wf _ run] wf by (simp add: store_wf_def)
  then show "store_step limit n db db'"
    using insertSessionAcceptance_live [OF ins(1)] insertSessionAcceptance_commands [OF ins(1)] ins(2)
    by (intro store_step_sessions [OF wf _ create_session_evolves [OF run]]) simp_all
qed

lemma lookupIdempotency_step: "tx_step limit capacity (lookupIdempotencyOnConnection c operation key now)"
  by (rule tx_stepI) (auto elim!: lookupIdempotency_frame intro!: store_step_same)

lemma insertAudit_step: "tx_step limit capacity (insertAuditOnConnection r)"
  by (rule tx_stepI) (auto simp: insertAuditOnConnection_def tx_simps Let_def intro!: store_step_same)

lemma insertOptionalAudit_step: "tx_step limit capacity (insertOptionalAuditOnConnection r)"
  by (rule tx_stepI) (auto elim!: insertOptionalAudit_obtain intro!: store_step_same)

lemma recordIdempotency_step: "tx_step limit capacity (recordIdempotencyOnConnection r)"
  by (rule tx_stepI) (auto simp: recordIdempotencyOnConnection_def tx_simps intro!: store_step_same)

lemma writeLaneAdmission_step: "tx_step limit capacity (writeLaneAdmissionOnConnection st ins)"
  by (rule tx_stepI) (auto simp: writeLaneAdmission_Inr intro!: store_step_same)

text \<open>Steps compose, and reads are steps.\<close>

lemma store_step_trans:
  "store_step limit capacity a b \<Longrightarrow> store_step limit capacity b c \<Longrightarrow> store_step limit capacity a c"
  by (auto simp: store_step_def max_def intro: session_evolves_trans command_evolves_trans split: if_splits)

lemma tx_step_bind:
  "tx_step limit capacity m \<Longrightarrow> (\<And>x. tx_step limit capacity (f x)) \<Longrightarrow> tx_step limit capacity (tx_bind m f)"
  unfolding tx_step_def tx_bind_Inr by (meson store_step_def store_step_trans)

lemma tx_step_reads:
  "tx_step limit capacity (tx_return x)" "tx_step limit capacity (tx_fail e)" "tx_step limit capacity (tx_lift r)"
  "tx_step limit capacity (tx_query q)" "tx_step limit capacity (tx_guard b e)"
  by (auto simp: tx_step_def tx_simps)

lemmas tx_step_intros = tx_step_bind tx_step_reads lookupIdempotency_step insertAudit_step
  insertOptionalAudit_step recordIdempotency_step writeLaneAdmission_step

section \<open>Commands\<close>

lemma accept_command_step: "tx_step limit capacity (accept_command_body v now runtime)"
proof -
  have ins: "tx_step limit capacity (insert_command v controller now warning)" for controller warning
  proof (rule tx_stepI)
    fix db x db'
    assume wf: "store_wf db" and run: "insert_command v controller now warning db = Inr (x, db')"
    have "commands_wf db'" using insert_command_wf [OF run] wf by (simp add: store_wf_def)
    then show "store_step limit capacity db db'"
    proof (intro store_step_commands [OF wf])
      obtain n bindings where con: "command_constraints (command_row_of v n now) db"
        and db': "db' = db\<lparr>exec_commands := exec_commands db @ [command_row_of v n now],
          exec_command_events := exec_command_events db @
            [event_row_of (ca_CommandID v) 1 ''command_queued'' [] 0 now],
          exec_idempotency := bindings\<rparr>"
        by (rule insert_command_effect [OF run])
      have "find_command (ca_CommandID v) db = None"
        using con by (auto simp: command_constraints_def command_row_of_def find_command_def find_key_None)
      then show "command_evolves db db'" by (intro command_evolves_accept [where db = db]) (auto simp: db')
      show "live_slots db' \<le> max (live_slots db) limit" by (simp add: db' live_slots_def)
    qed (use insert_command_sessions [OF run] in simp_all)
  qed
  show ?thesis
    unfolding accept_command_body_def
    by (intro tx_step_intros ins | simp add: tx_step_intros ins split: option.split)+
qed

lemma append_event_step:
  assumes "append_allowed input"
  shows "tx_step limit capacity (append_event_body input now)"
proof (rule tx_stepI)
  fix db x db'
  assume wf: "store_wf db" and run: "append_event_body input now db = Inr (x, db')"
  obtain c e where c: "find_command (cea_CommandID input) db = Some c"
    "cmd_state c = CommandStateRunning \<or> cmd_state c = CommandStateCancelling"
    and e: "e = event_row_of (cea_CommandID input) (int (length (command_events (cea_CommandID input) db)) + 1)
      (cea_Type input) (cea_Payload input) (cea_ByteCount input) now"
    and db': "db' = exec_command_events_update (\<lambda>rows. rows @ [e]) db"
    by (rule append_event_effect [OF run])
  have "command_evolves db db'"
    using c by (intro command_evolves_step [OF c(1), where f = "\<lambda>r. r" and P = "\<lambda>_. True" and new = "[e]"])
      (auto simp: db' e update_rows_def CommandState_IsTerminal_def)
  moreover have "commands_wf db'" using tx_keepsD [OF append_event_wf [OF assms] _ run] wf by (simp add: store_wf_def)
  ultimately show "store_step limit capacity db db'"
    by (intro store_step_commands [OF wf]) (simp_all add: db' live_slots_def)
qed

lemma transition_command_step: "tx_step limit capacity (transition_command_body input now)"
proof (rule tx_stepI)
  fix db x db'
  assume wf: "store_wf db" and run: "transition_command_body input now db = Inr (x, db')"
  obtain c n where c: "find_command (ct_CommandID input) db = Some c"
    and edge: "CommandState_CanTransitionTo (cmd_state c) (ct_NextState input)"
    and db': "db' = exec_commands_update (update_rows (\<lambda>r. cmd_command_id r = ct_CommandID input)
        (transition_columns input n now))
      (exec_command_events_update (\<lambda>rows. rows @ transition_events input n now) db)"
    by (rule transition_command_effect [OF run])
  have "command_evolves db db'"
    using command_edge [OF edge] edge
    by (intro command_evolves_step [OF c, where f = "transition_columns input n now" and P = "\<lambda>_. True"
          and new = "transition_events input n now"])
      (auto simp: db' transition_events_def split: option.splits)
  moreover have "commands_wf db'" using tx_keepsD [OF transition_command_wf _ run] wf by (simp add: store_wf_def)
  ultimately show "store_step limit capacity db db'"
    by (intro store_step_commands [OF wf]) (simp_all add: db' live_slots_def)
qed

lemma completed_db_evolves:
  assumes "find_command (ct_CommandID input) db = Some c"
    and "CommandState_CanTransitionTo (cmd_state c) (ct_NextState input)"
  shows "command_evolves db (completed_db input n ty now db)"
  using assms command_edge [OF assms(2)]
  by (intro command_evolves_step [where f = "terminal_columns input n now" and P = "\<lambda>_. True" and c = c
        and new = "[event_row_of (ct_CommandID input) n ty [] 0 now]"])
    (auto simp: completed_db_def command_columns_def terminal_columns_def)

lemma live_slots_released_for: "live_slots (slots_released_for cid now db) \<le> live_slots db"
  unfolding slots_released_for_def by (rule live_slots_released)

text \<open>A session step after a change of the commands adds nothing to them, the slots or the
  reservations.\<close>

lemma session_step_live:
  assumes "db3 = db2 \<or> transitionSessionOnConnection sid nss reason now db2 = Inr ((), db3)"
  shows "live_slots db3 = live_slots db2" "live_reservations db3 = live_reservations db2" "command_evolves db2 db3"
  using assms session_step_frame [OF assms]
  by (auto simp: live_slots_def live_reservations_def command_evolves_cong elim!: transitionSession_frame)

lemma complete_command_step:
  assumes "CommandState_IsTerminal (ct_NextState input)"
  shows "tx_step limit capacity (complete_command_body input nss reason rel now)"
proof (rule tx_stepI)
  fix db x db'
  assume wf: "store_wf db" and run: "complete_command_body input nss reason rel now db = Inr (x, db')"
  obtain c n ty db3 where c: "find_command (ct_CommandID input) db = Some c"
    "CommandState_CanTransitionTo (cmd_state c) (ct_NextState input)"
    and step: "db3 = completed_db input n ty now db \<or> transitionSessionOnConnection (cmd_session_id c) nss reason
      now (completed_db input n ty now db) = Inr ((), db3)"
    and db': "db' = (if rel then slots_released_for (ct_CommandID input) now db3 else db3)"
    by (rule complete_command_effect [OF run])
  note live = session_step_live [OF step]
  have "command_evolves db3 db'" by (rule command_evolves_cong) (simp_all add: db' slots_released_for_def)
  then have "command_evolves db db'"
    using command_evolves_trans completed_db_evolves [OF c] live(3) by blast
  moreover have "live_slots db' \<le> live_slots db3" by (simp add: db' live_slots_released_for)
  moreover have "live_slots (completed_db input n ty now db) = live_slots db" by (simp add: live_slots_def)
  moreover have "live_reservations db' = live_reservations db"
    using live(2) by (simp add: db' slots_released_for_def live_reservations_def)
  ultimately show "store_step limit capacity db db'"
    using tx_keepsD [OF complete_command_wf [OF assms] wf run] complete_command_evolves [OF run] live(1)
    by (simp add: store_step_def)
qed

section \<open>The scheduler\<close>

lemma live_slots_claimed: "live_slots (claimed_db cid n now db) = live_slots db + 1"
  by (simp add: live_slots_def)

text \<open>What a claim does, with the numbers that the bounds need.\<close>

lemma start_command_step:
  assumes wf: "store_wf db" and c: "find_command cid db = Some c" "cmd_state c = CommandStateQueued"
    and run: "start_command plan cid sid candidate now db = Inr (x, db')"
  shows "command_evolves db db'" "live_slots db' = live_slots db + 1"
    "live_reservations db' = live_reservations db"
proof -
  obtain rc ev where "x = (rc, ev)" by (metis surj_pair)
  with run have run': "start_command plan cid sid candidate now db = Inr ((rc, ev), db')" by simp
  obtain n db3 a b where ses: "transitionSessionOnConnection sid SessionStateBusy ''command_started'' now
      (claimed_db cid n now db) = Inr ((), db3)"
    and db': "db' = db3\<lparr>exec_controlled_restart_plans := a, exec_controlled_restart_plan_lost_pairs := b\<rparr>"
    by (rule start_command_effect [OF run'])
  note live = session_step_live [OF disjI2 [OF ses]]
  have "command_evolves db (claimed_db cid n now db)"
    using c by (intro command_evolves_step [OF c(1), where f = "set_running now"
          and P = "\<lambda>r. cmd_state r = CommandStateQueued" and new = "[event_row_of cid n ''command_started'' [] 0 now]"])
      (auto simp: set_running_def command_columns_def CommandState_IsTerminal_def CommandState_CanTransitionTo_def)
  moreover have "command_evolves db3 db'" by (rule command_evolves_cong) (simp_all add: db')
  ultimately show "command_evolves db db'" using live(3) command_evolves_trans by blast
  show "live_slots db' = live_slots db + 1"
    using live(1) live_slots_claimed [of cid n now db] by (simp add: db' live_slots_def)
  show "live_reservations db' = live_reservations db" using live(2) by (simp add: db' live_reservations_def)
qed

lemma start_next_step: "tx_step limit capacity (start_next_body limit handoff now)"
proof (rule tx_stepI)
  fix db x db'
  assume wf: "store_wf db" and run: "start_next_body limit handoff now db = Inr (x, db')"
  have cwf: "commands_wf db" using wf by (simp add: store_wf_def)
  obtain plan cands where room: "live_slots db < limit" and cl: "claims plan now db (x, db') cands"
    by (rule start_next_Inr [OF run])
  obtain k :: schedulerCandidate and candidate c where c: "find_command (cand_commandID k) db = Some c"
    "eligible (cand_sessionID k) db c"
    and start: "start_command plan (cand_commandID k) (cand_sessionID k) candidate now db = Inr (x, db')"
    by (rule claims_obtain [OF cl cwf])
  have "cmd_state c = CommandStateQueued" using c(2) by (simp add: eligible_def)
  then show "store_step limit capacity db db'"
    using start_command_step [OF wf c(1) _ start] start_next_wf [OF wf run] room by (simp add: store_step_def)
qed

section \<open>Slots and lost capacity\<close>

lemma update_rows_id [simp]: "update_rows P (\<lambda>r. r) rows = rows"
  by (simp add: update_rows_def)

lemma terminal_not_queued: "CommandState_IsTerminal s \<Longrightarrow> s \<noteq> CommandStateQueued"
  by (auto simp: CommandState_IsTerminal_def)

lemma commands_wf_release:
  assumes wf: "commands_wf db" and c: "find_command cid db = Some c" "CommandState_IsTerminal (cmd_state c)"
    and db': "exec_commands db' = exec_commands db" "exec_command_events db' = exec_command_events db"
      "exec_sessions db' = exec_sessions db"
      "exec_command_slots db' = update_rows (\<lambda>r. slt_command_id r = cid \<and> P r) (slot_released now) (exec_command_slots db)"
  shows "commands_wf db'"
proof (rule commands_wf_step [OF wf c(1), where f = "\<lambda>r. r" and P = "\<lambda>_. True" and new = "[]"])
  show "distinct (map slt_command_id (exec_command_slots db'))" using wf by (simp add: db' commands_wf_def)
  show "\<forall>r \<in> set (exec_command_slots db'). r \<in> set (exec_command_slots db) \<or>
      slt_command_id r = cid \<and> (live_slot r \<or> CommandState_IsTerminal (cmd_state c))"
    using c(2) by (auto simp: db' in_update_rows)
qed (use find_command_events [OF wf c(1)] c(2) terminal_not_queued in \<open>simp_all add: db'\<close>)

lemma confirm_slot_step: "tx_step limit capacity (confirm_slot_body cid now)"
proof (rule tx_stepI)
  fix db x db'
  assume wf: "store_wf db" and run: "confirm_slot_body cid now db = Inr (x, db')"
  from run obtain c n where c: "find_command cid db = Some c" "CommandState_IsTerminal (cmd_state c)"
    and rel: "release_slot cid now db = Inr (n, db')"
    by (auto simp: confirm_slot_body_def tx_simps split: if_splits)
  have db': "db' = slots_released_for cid now db" by (rule release_slot_Inr [OF rel])
  have "commands_wf db'"
    using wf by (rule_tac commands_wf_release [OF _ c, where P = "\<lambda>r. slt_stop_confirmed_at r = None" and now = now])
      (simp_all add: store_wf_def db' slots_released_for_def)
  then show "store_step limit capacity db db'"
    using live_slots_released_for [of cid now db]
    by (intro store_step_commands [OF wf]) (simp_all add: db' slots_released_for_def command_evolves_cong)
qed

definition lost_pair :: "database \<Rightarrow> LostRuntimeRecoveryPair \<Rightarrow> bool" where
  "lost_pair db pair \<longleftrightarrow>
     (case find_command (lrp_CommandID pair) db of
        None \<Rightarrow> False
      | Some c \<Rightarrow> cmd_session_id c = lrp_SessionID pair \<and> cmd_state c = CommandStateLost)"

lemma check_pair_lost: "checkLostRuntimeRecoveryPair pair db = Inr b \<Longrightarrow> lost_pair db pair"
  by (auto simp: checkLostRuntimeRecoveryPair_def lost_pair_def Let_def split: option.splits if_splits list.splits)

lemma check_pairs_lost: "check_pairs pairs db = Inr us \<Longrightarrow> list_all (lost_pair db) us"
  by (induction pairs db arbitrary: us rule: check_pairs.induct)
    (auto simp: tx_simps dest: check_pair_lost split: if_splits)

lemma unreleased_pairs_lost: "unreleased_pairs pairs db = Inr us \<Longrightarrow> list_all (lost_pair db) us"
  by (induction pairs db arbitrary: us rule: unreleased_pairs.induct)
    (auto simp: tx_simps dest: check_pair_lost split: if_splits)

lemma check_batch_lost:
  "checkLostRuntimeRecoveryBatchPreservingQueuedOneOffs pairs db = Inr us \<Longrightarrow> list_all (lost_pair db) us"
  by (auto simp: checkLostRuntimeRecoveryBatchPreservingQueuedOneOffs_def tx_simps
      dest: unreleased_pairs_lost split: if_splits)

lemma release_pair_effect:
  assumes "releaseLostRuntimeRecoveryPair pair now db = Inr (u, db')"
  obtains P Q row where "db' = db\<lparr>exec_command_slots := update_rows (\<lambda>r. slt_command_id r = lrp_CommandID pair \<and> P r)
        (slot_released now) (exec_command_slots db),
      exec_capacity_reservations := update_rows Q (confirmed now) (exec_capacity_reservations db),
      exec_lost_runtime_recovery_finalizations := exec_lost_runtime_recovery_finalizations db @ [row]\<rparr>"
  by (rule that [where P = "\<lambda>r. slt_host_key r = schedulerHostKey \<and> slt_stop_confirmed_at r = None \<and> slt_released_at r = None"
        and Q = "\<lambda>r. res_session_id r = lrp_SessionID pair \<and> res_host_key r = reservationHostKey \<and>
          res_cleanup_confirmed_at r = None \<and> res_released_at r = None"
        and row = "\<lparr>fin_command_id = lrp_CommandID pair, fin_session_id = lrp_SessionID pair,
          fin_capacity_released_at = formatStoredTime now\<rparr>"])
    (use assms in \<open>simp add: releaseLostRuntimeRecoveryPair_def tx_simps\<close>)

lemma release_pair_step:
  assumes wf: "store_wf db" and lost: "lost_pair db pair"
    and run: "releaseLostRuntimeRecoveryPair pair now db = Inr (u, db')"
  shows "store_step limit capacity db db'" "exec_commands db' = exec_commands db"
proof -
  obtain P Q row where db': "db' = db\<lparr>exec_command_slots := update_rows (\<lambda>r. slt_command_id r = lrp_CommandID pair \<and> P r)
        (slot_released now) (exec_command_slots db),
      exec_capacity_reservations := update_rows Q (confirmed now) (exec_capacity_reservations db),
      exec_lost_runtime_recovery_finalizations := exec_lost_runtime_recovery_finalizations db @ [row]\<rparr>"
    by (rule release_pair_effect [OF run])
  obtain c where c: "find_command (lrp_CommandID pair) db = Some c" "CommandState_IsTerminal (cmd_state c)"
    using lost by (auto simp: lost_pair_def CommandState_IsTerminal_def split: option.splits)
  have "commands_wf db'"
    using wf by (rule_tac commands_wf_release [OF _ c, where P = P and now = now]) (simp_all add: db' store_wf_def)
  moreover have "sessions_wf (exec_capacity_reservations_update (update_rows Q (confirmed now)) db)"
    using wf by (intro sessions_wf_reservations [OF _ _ refl]) (simp_all add: store_wf_def confirmed_def)
  then have "sessions_wf db'"
    using sessions_wf_cong [of db' "exec_capacity_reservations_update (update_rows Q (confirmed now)) db"]
    by (simp add: db')
  moreover have "live_slots db' \<le> live_slots db"
    using live_slots_released [of "\<lambda>r. slt_command_id r = lrp_CommandID pair \<and> P r" now db]
    by (simp add: db' live_slots_def)
  moreover have "live_reservations db' \<le> live_reservations db"
    using live_reservations_confirmed [of Q now db] by (simp add: db' live_reservations_def)
  moreover have "session_evolves db db'" "command_evolves db db'"
    by (rule session_evolves_cong command_evolves_cong; simp add: db')+
  ultimately show "store_step limit capacity db db'"
    by (simp add: store_step_def store_wf_def le_max_iff_disj)
  show "exec_commands db' = exec_commands db" by (simp add: db')
qed

lemma release_pairs_step:
  "store_wf db \<Longrightarrow> list_all (lost_pair db) pairs \<Longrightarrow> release_pairs now pairs db = Inr (u, db') \<Longrightarrow>
   store_step limit capacity db db'"
proof (induction pairs arbitrary: db)
  case Nil
  then show ?case by (simp add: tx_simps)
next
  case (Cons pair pairs)
  then obtain db1 where rel: "releaseLostRuntimeRecoveryPair pair now db = Inr ((), db1)"
    and rest: "release_pairs now pairs db1 = Inr (u, db')" by (auto simp: tx_simps)
  have one: "store_step limit capacity db db1" "exec_commands db1 = exec_commands db"
    using release_pair_step [OF Cons.prems(1) _ rel] Cons.prems(2) by auto
  have "lost_pair db1 = lost_pair db" using one(2) by (simp add: fun_eq_iff lost_pair_def find_command_def)
  then have "store_step limit capacity db1 db'"
    using Cons.IH [OF _ _ rest] one Cons.prems(2) by (simp add: store_step_def)
  with one(1) show ?case by (rule store_step_trans)
qed

lemma confirm_batch_step: "tx_step limit capacity (confirm_batch_body validated now)"
  by (rule tx_stepI) (auto simp: confirm_batch_body_def tx_simps split: if_splits
      intro: release_pairs_step dest: check_pairs_lost)

lemma confirm_preserving_step: "tx_step limit capacity (confirm_preserving_body validated now)"
  by (rule tx_stepI) (auto simp: confirm_preserving_body_def tx_simps
      intro: release_pairs_step dest: check_batch_lost)

lemma complete_finalization_step: "tx_step limit capacity (complete_finalization_body pair)"
  by (rule tx_stepI) (auto simp: complete_finalization_body_def tx_simps split: option.splits
      intro!: store_step_same)

section \<open>The restart plan\<close>

lemma insert_lost_pairs_frame:
  "insert_lost_pairs n pairs db = Inr (u, db') \<Longrightarrow>
   \<exists>rows. db' = db\<lparr>exec_controlled_restart_plan_lost_pairs := rows\<rparr>"
proof (induction n pairs arbitrary: db rule: insert_lost_pairs.induct)
  case (1 n)
  then have "db' = db\<lparr>exec_controlled_restart_plan_lost_pairs := exec_controlled_restart_plan_lost_pairs db\<rparr>"
    by simp
  then show ?case by blast
next
  case (2 n pair pairs)
  then show ?case by (fastforce simp: tx_simps)
qed

lemma insert_plan_step: "tx_step limit capacity (insertControlledRestartPlanOnConnection plan)"
  by (rule tx_stepI) (auto simp: insertControlledRestartPlanOnConnection_def tx_simps
      dest!: insert_lost_pairs_frame intro!: store_step_same)

lemma prepare_plan_step: "tx_step limit capacity (prepare_plan_body pairs now)"
proof -
  have "tx_step limit capacity (tx_bind (tx_query (checkLostRuntimeRecoveryBatchPreservingQueuedOneOffs pairs)) (\<lambda>unreleased.
       tx_bind (tx_guard (int (length unreleased) = DefaultRunningCommandLimit)
         ErrLostRuntimeRecoveryNotReleasable) (\<lambda>_.
       tx_bind (tx_query (findExactEmptySourceQueuedOneOffForControlledRestartPlan pairs))
         (\<lambda>(jobID, sessionID, commandID, generation).
       let plan = \<lparr>cp_JobID = jobID, cp_SessionID = sessionID, cp_CommandID = commandID,
             cp_RuntimeGeneration = generation, cp_LostPairs = pairs, cp_PreparedAt = now,
             cp_Activated = False, cp_ActivatedAt = None\<rparr> in
       tx_bind (insertControlledRestartPlanOnConnection plan) (\<lambda>_. tx_return plan)))))"
    by (simp add: split_beta Let_def tx_step_intros insert_plan_step)
  then show ?thesis
    by (auto simp: prepare_plan_body_def tx_step_def split: sum.splits if_splits)
qed

lemma update_plan_step:
  "tx_step limit capacity (sql_update plan_check exec_controlled_restart_plans exec_controlled_restart_plans_update P f)"
  by (rule tx_stepI) (auto simp: tx_simps intro!: store_step_same)

lemma activate_plan_step: "tx_step limit capacity (activate_plan_body expected now)"
  unfolding activate_plan_body_def by (simp add: tx_step_intros update_plan_step)

lemma clear_plan_step: "tx_step limit capacity (clear_plan_body expected)"
  by (rule tx_stepI) (auto simp: clear_plan_body_def deleteControlledRestartPlanOnConnection_def tx_simps
      split: if_splits intro!: store_step_same)

section \<open>Jobs\<close>

lemma job_statements_step:
  "tx_step limit capacity (update_job P f)"
  "tx_step limit capacity (\<lambda>db. if Q db then Inl e else sql_insert job_constraints exec_jobs_update r db)"
  "tx_step limit capacity (\<lambda>db. if Q db then Inl e else Inr (u, db))"
  by (auto simp: update_job_def tx_simps intro!: tx_stepI store_step_same split: if_splits)

lemma insert_job_step: "tx_step limit capacity (insertJobOnConnection v ingress now warning)"
  unfolding insertJobOnConnection_def by (intro tx_step_intros job_statements_step)

lemma accept_job_step: "tx_step limit capacity (accept_job_body v ingress now runtime)"
  unfolding accept_job_body_def Let_def
  by (intro tx_step_intros insert_job_step job_statements_step |
      simp add: tx_step_intros insert_job_step job_statements_step split: option.split)+

lemma settle_candidates_step: "tx_step limit capacity (settle_candidates now candidates)"
proof (induction candidates)
  case Nil
  show ?case unfolding settle_candidates.simps by (rule tx_step_reads)
next
  case (Cons c cs)
  then show ?case
    unfolding settle_candidates.simps by (auto intro!: tx_step_bind tx_step_reads job_statements_step)
qed

lemma settle_step: "tx_step limit capacity (settle_body ids now)"
  unfolding settle_body_def by (intro tx_step_bind tx_step_reads settle_candidates_step)

lemma checkpoint_job_step: "tx_step limit capacity (checkpoint_job_body jid checkpoint now)"
  unfolding checkpoint_job_body_def Let_def
  by (intro tx_step_bind tx_step_reads) (simp add: tx_step_reads tx_step_bind job_statements_step)

text \<open>The newest lifecycle row of a session has the largest number and the present state.\<close>

lemma latest_history_ok:
  assumes "history_ok (session_history sid db) st" "latest_history sid db = entry # rest"
  shows "slc_sequence entry + 1 = next_lifecycle_sequence sid db" "slc_new_state entry = st"
proof -
  let ?h = "session_history sid db"
  have h: "?h \<noteq> []" "numbered slc_sequence ?h" "last (map slc_new_state ?h) = st"
    using assms(1) by (simp_all add: history_ok_def)
  have "sort_key slc_sequence ?h = ?h" using numbered_sorted [OF h(2)] by (rule sort_key_sorted)
  then have "entry = last ?h" using assms(2) h(1) by (metis hd_rev latest_history_def list.sel(1))
  moreover have "slc_sequence (last ?h) = int (length ?h)"
    using h(1,2) by (cases ?h rule: rev_cases) simp_all
  ultimately show "slc_sequence entry + 1 = next_lifecycle_sequence sid db" "slc_new_state entry = st"
    using h numbered_max [OF h(2)] by (simp_all add: next_lifecycle_sequence_def last_map)
qed

lemma probe_session_step:
  assumes wf: "store_wf db" and row: "find_session sid db = Some row" "ses_state row = SessionStateCreating"
      "ses_runtime_generation row = []"
    and latest: "latest_history sid db = entry # rest"
    and db': "db' = exec_session_lifecycle_update (\<lambda>rows. rows @ [lifecycle_row_of sid (slc_sequence entry + 1)
        (Some SessionStateCreating) SessionStateLost reason now])
      (exec_sessions_update (update_rows (\<lambda>r. ses_session_id r = sid \<and> ses_state r = SessionStateCreating \<and>
        ses_runtime_generation r = []) (\<lambda>r. r\<lparr>ses_state := SessionStateLost, ses_updated_at := formatStoredTime now\<rparr>)) db)"
  shows "store_step limit capacity db db'"
proof (rule store_step_sessions [OF wf])
  have swf: "sessions_wf db" using wf by (simp add: store_wf_def)
  have "SessionState_CanTransitionTo SessionStateCreating SessionStateLost" by code_simp
  then show "sessions_wf db'"
    using latest_history_ok(1) [OF find_session_history [OF swf row(1)] latest]
    by (intro sessions_wf_move [OF swf row(1), where P = "\<lambda>r. ses_state r = SessionStateCreating \<and> ses_runtime_generation r = []"
          and f = "\<lambda>r. r\<lparr>ses_state := SessionStateLost, ses_updated_at := formatStoredTime now\<rparr>"
          and rec = "lifecycle_row_of sid (slc_sequence entry + 1) (Some SessionStateCreating) SessionStateLost reason now"])
      (use row in \<open>simp_all add: db' lifecycle_row_of_def\<close>)
  show "session_evolves db db'"
    by (rule session_evolves_update [where f = "\<lambda>r. r\<lparr>ses_state := SessionStateLost,
        ses_updated_at := formatStoredTime now\<rparr>"]) (auto simp: db' identity_columns_def)
qed (simp_all add: db' live_reservations_def)

lemma readSession_row: "readSessionOnConnection sid db = Inr r \<Longrightarrow>
    \<exists>row. find_session sid db = Some row \<and> ses_state row = sr_State r \<and> ses_runtime_generation row = sr_RuntimeGeneration r"
  by (auto simp: readSessionOnConnection_def decode_session_row_def tx_simps Let_def split: option.splits if_splits)

lemma probe_lost_step:
  "tx_step limit capacity (probe_lost_body jid sid cid k env controller reason now)"
proof (rule tx_stepI)
  fix db x db'
  assume wf: "store_wf db" and run: "probe_lost_body jid sid cid k env controller reason now db = Inr (x, db')"
  obtain job session where s: "readSessionOnConnection sid db = Inr session"
    and m: "probe_matches sid cid k env controller job session"
    and rest: "db' = db \<or> (\<exists>n. probe_job_lost jid sid cid now db = Inr (n, db')) \<or>
      (\<exists>entry tl n n' db1 db2. sr_State session = SessionStateCreating \<and> latest_history sid db = entry # tl \<and>
        sql_update session_check exec_sessions exec_sessions_update
          (\<lambda>r. ses_session_id r = sid \<and> ses_state r = SessionStateCreating \<and> ses_runtime_generation r = [])
          (\<lambda>r. r\<lparr>ses_state := SessionStateLost, ses_updated_at := formatStoredTime now\<rparr>) db = Inr (n, db1) \<and>
        insert_lifecycle sid (slc_sequence entry + 1) (Some SessionStateCreating) SessionStateLost reason now db1 = Inr ((), db2) \<and>
        probe_job_lost jid sid cid now db2 = Inr (n', db'))"
    using run unfolding probe_lost_body_def
    by (auto simp: tx_simps split: if_splits list.splits)
  from rest show "store_step limit capacity db db'"
  proof (elim disjE exE conjE)
    fix n
    assume "probe_job_lost jid sid cid now db = Inr (n, db')"
    then show ?thesis
      using wf job_statements_step(1) unfolding probe_job_lost_def tx_step_def by blast
  next
    fix entry tl n n' db1 db2
    assume c: "sr_State session = SessionStateCreating" "latest_history sid db = entry # tl"
      and upd: "sql_update session_check exec_sessions exec_sessions_update
          (\<lambda>r. ses_session_id r = sid \<and> ses_state r = SessionStateCreating \<and> ses_runtime_generation r = [])
          (\<lambda>r. r\<lparr>ses_state := SessionStateLost, ses_updated_at := formatStoredTime now\<rparr>) db = Inr (n, db1)"
      and ins: "insert_lifecycle sid (slc_sequence entry + 1) (Some SessionStateCreating) SessionStateLost reason now db1 = Inr ((), db2)"
      and job: "probe_job_lost jid sid cid now db2 = Inr (n', db')"
    obtain row where row: "find_session sid db = Some row" "ses_state row = SessionStateCreating" "ses_runtime_generation row = []"
      using readSession_row [OF s] c(1) m by (auto simp: probe_matches_def)
    have "store_step limit capacity db db2"
      by (rule probe_session_step [OF wf row c(2)]) (use upd ins in \<open>auto simp: insert_lifecycle_def tx_simps\<close>)
    moreover from this have "store_step limit capacity db2 db'"
      using job job_statements_step(1) unfolding probe_job_lost_def tx_step_def store_step_def by blast
    ultimately show ?thesis by (rule store_step_trans)
  qed (use wf in simp)
qed

end
