(* ===== verification/Command_Samples.thy ===== *)
theory Command_Samples
  imports Command_Steps
begin

text \<open>
  Concrete databases for the witnesses of the command and scheduler properties: a ready session with
  one queued command, and a lost session whose lost command still holds its slot and reservation.
\<close>

definition sample_submission :: CommandAcceptance where
  "sample_submission = \<lparr>ca_CommandID = ''c1'', ca_SessionID = ''s1'', ca_RequestHash = sample_hash,
     ca_IdempotencyKey = ''k2'', ca_IdempotencyRetention = Hour, ca_Script = ''true'', ca_Timeout = Minute,
     ca_IntentOrdinal = 0, ca_Audit = None\<rparr>"

definition queued_row :: command_row where
  "queued_row = command_row_of sample_submission 1 sample_now"

definition ready_row :: session_row where
  "ready_row = (session_row_of sample_create sample_now)\<lparr>ses_state := SessionStateReady,
     ses_runtime_generation := ''gen-1''\<rparr>"

definition ready_db :: database where
  "ready_db = empty_database\<lparr>exec_sessions := [ready_row],
     exec_session_lifecycle :=
       [lifecycle_row_of ''s1'' 1 None SessionStateCreating ''r'' sample_now,
        lifecycle_row_of ''s1'' 2 (Some SessionStateCreating) SessionStateReady ''r'' sample_now],
     exec_capacity_reservations := [reservation_row_of ''s1'' sample_now]\<rparr>"

definition queued_db :: database where
  "queued_db = ready_db\<lparr>exec_commands := [queued_row],
     exec_command_events := [event_row_of ''c1'' 1 ''command_queued'' [] 0 sample_now]\<rparr>"

definition lost_db :: database where
  "lost_db = empty_database\<lparr>exec_sessions := [ready_row\<lparr>ses_state := SessionStateLost\<rparr>],
     exec_session_lifecycle :=
       [lifecycle_row_of ''s1'' 1 None SessionStateCreating ''r'' sample_now,
        lifecycle_row_of ''s1'' 2 (Some SessionStateCreating) SessionStateReady ''r'' sample_now,
        lifecycle_row_of ''s1'' 3 (Some SessionStateReady) SessionStateLost ''r'' sample_now],
     exec_capacity_reservations := [reservation_row_of ''s1'' sample_now],
     exec_commands := [queued_row\<lparr>cmd_state := CommandStateLost, cmd_final_event_sequence := Some 3\<rparr>],
     exec_command_events := [event_row_of ''c1'' 1 ''command_queued'' [] 0 sample_now,
       event_row_of ''c1'' 2 ''command_started'' [] 0 sample_now,
       event_row_of ''c1'' 3 ''command_lost'' [] 0 sample_now],
     exec_command_slots := [new_slot ''c1'' sample_now]\<rparr>"

lemma sample_row_ids [simp]:
  "ses_session_id ready_row = ''s1''" "ses_state ready_row = SessionStateReady"
  "cmd_command_id queued_row = ''c1''" "cmd_session_id queued_row = ''s1''" "cmd_ordinal queued_row = 1"
  "cmd_state queued_row = CommandStateQueued" "cmd_final_event_sequence queued_row = None"
  "cmd_created_at queued_row = formatStoredTime sample_now"
  by (simp_all add: ready_row_def session_row_of_def sample_create_def queued_row_def command_row_of_def
      sample_submission_def)

lemma sample_lookups [simp]:
  "find_session ''s1'' queued_db = Some ready_row" "find_command ''c1'' queued_db = Some queued_row"
  "find_session ''s1'' lost_db = Some (ready_row\<lparr>ses_state := SessionStateLost\<rparr>)"
  "find_command ''c1'' lost_db = Some (queued_row\<lparr>cmd_state := CommandStateLost, cmd_final_event_sequence := Some 3\<rparr>)"
  by (simp_all add: find_session_def find_command_def queued_db_def ready_db_def lost_db_def)

lemmas sample_wf_simps = sessions_wf_def lifecycle_row_of_def reservation_row_of_def session_history_def
  history_ok_def numbered_def SessionState_CanTransitionTo_def upt_conv_Cons

lemma ready_sessions_wf: "sessions_wf ready_db"
  by (simp add: ready_db_def sample_wf_simps)

lemma queued_sessions_wf: "sessions_wf queued_db"
  using ready_sessions_wf sessions_wf_cong [of queued_db ready_db] by (simp add: queued_db_def)

lemma lost_sessions_wf: "sessions_wf lost_db"
  by (simp add: lost_db_def sample_wf_simps)

lemma queued_commands_wf: "commands_wf queued_db"
  using queued_event_ok [of sample_submission 1 sample_now "''c1''" sample_now]
  by (simp add: commands_wf_def queued_db_def ready_db_def empty_database_def session_commands_def
      command_events_def numbered_def upt_conv_Cons queued_row_def [symmetric])

lemma lost_commands_wf: "commands_wf lost_db"
  by (simp add: commands_wf_def lost_db_def empty_database_def session_commands_def command_events_def
      numbered_def upt_conv_Cons slot_ok_def find_command_def events_ok_def event_valid_def
      validateStoredCommandEvent_def validCommandEventType_def isTerminalCommandEvent_def
      CommandState_IsTerminal_def event_row_of_def)

lemma sample_store_wf: "store_wf queued_db" "store_wf lost_db"
  by (simp_all add: store_wf_def queued_sessions_wf queued_commands_wf lost_sessions_wf lost_commands_wf)

text \<open>A command row the database accepts and the code reads back.\<close>

definition readable_command :: "command_row \<Rightarrow> bool" where
  "readable_command c \<longleftrightarrow> command_check c \<and> is_ok (decode_command_row (cmd_command_id c) c)"

lemma queued_readable: "readable_command queued_row"
proof -
  have script: "ValidateScriptUTF8 ''true'' = Inr ()"
    by (simp add: ValidateScriptUTF8_def MaxScriptUTF8Bytes_def) code_simp
  have hash: "valid_hash sample_hash" by (simp add: sample_hash_def canonical_digest_valid)
  then have pos: "0 < uint (ch_version sample_hash)" "length (ch_digest sample_hash) = 32"
    using uint_ge_0 [of "ch_version sample_hash"] uint_0_iff [of "ch_version sample_hash"]
    by (simp_all add: valid_hash_def sha256_Size_def order_less_le)
  have new: "NewCanonicalHash (ch_version sample_hash) (ch_digest sample_hash) = Inr sample_hash"
    using hash NewCanonicalHash_of by blast
  have "sql_nonempty ''c1''" by (simp add: sql_nonempty_def NUL_def)
  then show ?thesis
    using pos sample_times(1)
    by (simp add: readable_command_def command_check_def decode_command_row_def queued_row_def
        command_row_of_def sample_submission_def new_id_run has_nul_def Minute_def Second_def sha256_Size_def
        script new del: NewCanonicalHash_Inr)
qed

lemma ready_readable: "readable_session ready_row"
  using sample_stored
  by (auto simp: readable_session_def ready_row_def session_check_def source_columns_ok_def is_ok_iff
      decode_session_row_def tx_simps Let_def split: SourceMode.splits if_splits)

end
