(* ===== verification/Store_Runs.thy ===== *)
theory Store_Runs
  imports Store_Operations Command_Samples
begin

text \<open>
  Runs of the store: any sequence of the modelled operations, each with its own clock reading and
  possible driver failure. Every operation is a step of the store system, an operation that fails
  leaves the database as it was, and the laws of steps then hold of whole runs.
\<close>

section \<open>Operations\<close>

datatype store_op =
    DoAcceptSession SessionCreateAcceptance
  | DoCreateSession SessionCreate
  | DoConfirmCleanup SessionID
  | DoTransitionSession SessionID SessionState string
  | DoCompleteCreation SessionID SessionState string string string
  | DoFailAfterCleanup SessionID string string string
  | DoFailPreStart SessionID
  | DoEnsureIdempotency ControllerIdentity string string CanonicalHash string duration "AuditRecord option"
  | DoLookupIdempotency ControllerIdentity string string
  | DoRecordAudit AuditRecord
  | DoAdmission admission_op
  | DoAcceptCommand CommandAcceptance
  | DoAppendEvent CommandEventAppend
  | DoTransitionCommand CommandTransition
  | DoCompleteCommand CommandTransition SessionState string bool
  | DoSubscribe CommandID int int int
  | DoCloseSubscription nat
  | DoStartNext int bool
  | DoConfirmSlot CommandID
  | DoConfirmLost "LostRuntimeRecoveryPair list"
  | DoConfirmLostPreserving "LostRuntimeRecoveryPair list"
  | DoCompleteFinalization LostRuntimeRecoveryPair
  | DoPreparePlan "LostRuntimeRecoveryPair list"
  | DoActivatePlan ControlledRestartPlan
  | DoClearPlan ControlledRestartPlan
  | DoAcceptJob audit_context JobAcceptance
  | DoCheckpointJob JobID JobCheckpoint
  | DoProbeLost JobID SessionID CommandID string string string string
  | DoSettleJobs "JobID list"

definition outcome :: "'a result \<times> AuthorityStore \<Rightarrow> go_error option \<times> AuthorityStore" where
  "outcome r = (case fst r of Inl e \<Rightarrow> Some e | Inr _ \<Rightarrow> None, snd r)"

fun store_apply :: "go_error option \<Rightarrow> time \<Rightarrow> AuthorityStore \<Rightarrow> store_op \<Rightarrow> go_error option \<times> AuthorityStore" where
  "store_apply fault now s (DoAcceptSession input) = outcome (AcceptSessionCreate fault now s input)"
| "store_apply fault now s (DoCreateSession input) = outcome (CreateSession fault now s input)"
| "store_apply fault now s (DoConfirmCleanup sid) = outcome (ConfirmSessionCleanup fault now s sid)"
| "store_apply fault now s (DoTransitionSession sid st reason) =
     outcome (TransitionSession fault now s sid st reason)"
| "store_apply fault now s (DoCompleteCreation sid st g rv reason) =
     outcome (CompleteSessionCreation fault now s sid st g rv reason)"
| "store_apply fault now s (DoFailAfterCleanup sid g rv reason) =
     outcome (CompleteFailedSessionCreationAfterConfirmedCleanup fault now s sid g rv reason)"
| "store_apply fault now s (DoFailPreStart sid) = outcome (FailPreStartSessionCreation fault now s sid)"
| "store_apply fault now s (DoEnsureIdempotency c operation key h resource retention a) =
     outcome (EnsureIdempotencyWithAudit fault now s c operation key h resource retention a)"
| "store_apply fault now s (DoLookupIdempotency c operation key) =
     outcome (LookupIdempotency fault now s c operation key)"
| "store_apply fault now s (DoRecordAudit r) = outcome (RecordAudit fault s r)"
| "store_apply fault now s (DoAdmission op) = outcome (admission_apply fault s op)"
| "store_apply fault now s (DoAcceptCommand input) = outcome (AcceptCommand fault now s input)"
| "store_apply fault now s (DoAppendEvent input) = outcome (AppendCommandEvent fault now s input)"
| "store_apply fault now s (DoTransitionCommand input) = outcome (TransitionCommand fault now s input)"
| "store_apply fault now s (DoCompleteCommand input st reason rel) =
     outcome (CompleteRunningCommand fault now s input st reason rel)"
| "store_apply fault now s (DoSubscribe cid n capacity bytes) =
     outcome (SubscribeCommandEventsWithByteLimit fault s cid n capacity bytes)"
| "store_apply fault now s (DoCloseSubscription p) = (None, CommandEventSubscription_Close p s)"
| "store_apply fault now s (DoStartNext n handoff) = outcome (startNextEligibleCommand fault now s n handoff)"
| "store_apply fault now s (DoConfirmSlot cid) = outcome (ConfirmCommandSlotRelease fault now s cid)"
| "store_apply fault now s (DoConfirmLost pairs) = outcome (ConfirmLostRuntimeRecoveryBatch fault now s pairs)"
| "store_apply fault now s (DoConfirmLostPreserving pairs) =
     outcome (ConfirmLostRuntimeRecoveryBatchPreservingQueuedOneOffs fault now s pairs)"
| "store_apply fault now s (DoCompleteFinalization pair) =
     outcome (CompleteLostRuntimeRecoveryFinalization fault s pair)"
| "store_apply fault now s (DoPreparePlan pairs) = outcome (PrepareControlledRestartPlan fault now s pairs)"
| "store_apply fault now s (DoActivatePlan plan) = outcome (ActivateControlledRestartPlan fault now s plan)"
| "store_apply fault now s (DoClearPlan plan) = outcome (ClearControlledRestartPlan fault s plan)"
| "store_apply fault now s (DoAcceptJob ctx input) = outcome (AcceptJob fault now ctx s input)"
| "store_apply fault now s (DoCheckpointJob jid checkpoint) = outcome (CheckpointJob fault now s jid checkpoint)"
| "store_apply fault now s (DoProbeLost jid sid cid key env controller reason) =
     outcome (MarkCreatingDirectProbeLost fault now s jid sid cid key env controller reason)"
| "store_apply fault now s (DoSettleJobs ids) = outcome (SettleClosedCancelledOneOffJobs fault now s ids)"

definition store_run :: "AuthorityStore \<Rightarrow> go_error option \<times> time \<times> store_op \<Rightarrow> AuthorityStore" where
  "store_run s call = snd (store_apply (fst call) (fst (snd call)) s (snd (snd call)))"

text \<open>The limits an operation was given.\<close>

fun slot_limit :: "store_op \<Rightarrow> int" where
  "slot_limit (DoStartNext n handoff) = claim_limit n"
| "slot_limit _ = 0"

fun session_limit :: "store_op \<Rightarrow> int" where
  "session_limit (DoAcceptSession input) = requested_limit input"
| "session_limit (DoCreateSession input) = DefaultActiveSessionLimit"
| "session_limit _ = 0"

section \<open>Every operation is a step\<close>

lemma snd_outcome [simp]: "snd (outcome r) = snd r"
  by (simp add: outcome_def)

lemma fst_outcome: "fst (outcome r) = Some e \<longleftrightarrow> fst r = Inl e"
  by (simp add: outcome_def split: sum.splits)

text \<open>An operation that commits a step or fails and leaves the database alone.\<close>

definition op_step :: "int \<Rightarrow> int \<Rightarrow> AuthorityStore \<Rightarrow> 'a result \<times> AuthorityStore \<Rightarrow> bool" where
  "op_step limit capacity s r \<longleftrightarrow>
     (store_wf (st_db s) \<longrightarrow> store_step limit capacity (st_db s) (st_db (snd r))) \<and>
     ((\<exists>e. fst r = Inl e) \<longrightarrow> st_db (snd r) = st_db s)"

lemma op_step_same: "st_db (snd r) = st_db s \<Longrightarrow> op_step limit capacity s r"
  by (simp add: op_step_def)

lemma op_step_tx: "tx_step limit capacity m \<Longrightarrow> op_step limit capacity s (withImmediateTransaction fault s m)"
  by (rule withImmediateTransaction_cases [of fault s m]) (auto simp: op_step_def tx_step_def)

lemma op_step_map:
  "op_step limit capacity s r \<Longrightarrow> st_db (snd r') = st_db (snd r) \<Longrightarrow>
   (\<And>e. fst r' = Inl e \<Longrightarrow> \<exists>e. fst r = Inl e) \<Longrightarrow> op_step limit capacity s r'"
  by (auto simp: op_step_def)

lemma op_step_publish: "op_step limit capacity s r \<Longrightarrow> op_step limit capacity s (publish_committed r)"
  by (erule op_step_map) (auto simp: publish_committed_def split: prod.splits sum.splits option.splits)

lemma op_step_case:
  assumes "tx_step limit capacity m" "\<And>x s'. st_db (snd (h x s')) = st_db s'" "\<And>x s' e. fst (h x s') \<noteq> Inl e"
  shows "op_step limit capacity s
    (case withImmediateTransaction fault s m of (r, s') \<Rightarrow> (case r of Inl e \<Rightarrow> (Inl e, s') | Inr x \<Rightarrow> h x s'))"
  by (rule op_step_map [OF op_step_tx [OF assms(1), of s fault]])
    (use assms(2,3) in \<open>auto split: prod.splits sum.splits\<close>)

lemma session_ops_step:
  "op_step limit (requested_limit input) s (AcceptSessionCreate fault now s input)"
  "op_step limit DefaultActiveSessionLimit s (CreateSession fault now s create)"
  "op_step limit capacity s (ConfirmSessionCleanup fault now s sid)"
  "op_step limit capacity s (TransitionSession fault now s sid st reason)"
  "op_step limit capacity s (CompleteSessionCreation fault now s sid st g rv reason)"
  "op_step limit capacity s (CompleteFailedSessionCreationAfterConfirmedCleanup fault now s sid g rv reason)"
  "op_step limit capacity s (FailPreStartSessionCreation fault now s sid)"
proof -
  show "op_step limit (requested_limit input) s (AcceptSessionCreate fault now s input)"
  proof (cases "validateSessionAcceptance input")
    case (Inl e)
    then show ?thesis by (simp add: AcceptSessionCreate_def op_step_same)
  next
    case (Inr v)
    show ?thesis
      unfolding AcceptSessionCreate_def Inr sum.case validated_limit [OF Inr, symmetric]
      by (rule op_step_case [OF accept_session_step]) (auto split: prod.splits)
  qed
  show "op_step limit DefaultActiveSessionLimit s (CreateSession fault now s create)"
    by (auto simp: CreateSession_def op_step_same split: sum.splits intro!: op_step_tx create_session_step)
qed (auto simp: ConfirmSessionCleanup_def TransitionSession_def CompleteSessionCreation_def
    CompleteFailedSessionCreationAfterConfirmedCleanup_def FailPreStartSessionCreation_def op_step_same
    split: sum.splits intro!: op_step_tx confirm_cleanup_step transition_session_step complete_creation_step
      fail_after_cleanup_step fail_pre_start_step)

lemma other_ops_step:
  "op_step limit capacity s (EnsureIdempotencyWithAudit fault now s c operation key h resource retention a)"
  "op_step limit capacity s (LookupIdempotency fault now s c operation key)"
  "op_step limit capacity s (RecordAudit fault s r)"
  "op_step limit capacity s (admission_apply fault s op)"
proof -
  show "op_step limit capacity s (LookupIdempotency fault now s c operation key)"
    by (auto simp: LookupIdempotency_def op_step_same split: sum.splits prod.splits
        intro!: op_step_tx lookupIdempotency_step)
  show "op_step limit capacity s (RecordAudit fault s r)"
    unfolding RecordAudit_def by (rule op_step_case [OF insertAudit_step]) auto
  show "op_step limit capacity s (EnsureIdempotencyWithAudit fault now s c operation key h resource retention a)"
  proof (cases "validateIdempotencyInput c operation key h resource retention")
    case (Inl e)
    then show ?thesis by (simp add: EnsureIdempotencyWithAudit_def op_step_same)
  next
    case (Inr v)
    show ?thesis
      unfolding EnsureIdempotencyWithAudit_def Inr sum.case
      by (rule op_step_case)
        (auto simp: Let_def split: option.splits prod.splits intro!: tx_step_intros)
  qed
  show "op_step limit capacity s (admission_apply fault s op)"
  proof (cases op)
    case (OpConfigure lane host)
    show ?thesis
    proof (cases "NewState lane host")
      case (Inl e)
      then show ?thesis by (simp add: OpConfigure ConfigureLaneAdmission_def op_step_same)
    next
      case (Inr initial)
      show ?thesis
        unfolding OpConfigure admission_apply.simps ConfigureLaneAdmission_def Inr sum.case Let_def
        by (rule op_step_case) (auto split: option.splits intro!: tx_step_intros)
    qed
  next
    case (OpLane lop)
    show ?thesis
      unfolding OpLane admission_apply_lane updateLaneAdmission_def Let_def
      by (rule op_step_case) (auto split: option.splits prod.splits intro!: tx_step_intros)
  next
    case (OpRevalidate i)
    then show ?thesis
      by (auto simp: RevalidateLaneAdmissionCandidate_def split: sum.splits option.splits intro!: op_step_same)
  qed
qed

lemma subscription_ops_db:
  "st_db (snd (SubscribeCommandEventsWithByteLimit fault s cid n capacity bytes)) = st_db s"
  "st_db (CommandEventSubscription_Close p s) = st_db s"
proof -
  show close: "st_db (CommandEventSubscription_Close p s) = st_db s" for p s
    by (simp add: CommandEventSubscription_Close_def)
  have "st_db (snd (ReplayCommandEvents fault s cid n)) = st_db s" for s cid
    by (simp add: ReplayCommandEvents_def split: sum.splits)
  then have "st_db s2 = st_db s1" if "ReplayCommandEvents fault s1 cid n = (r, s2)" for s1 s2 cid r
    using that by (metis snd_conv)
  then show "st_db (snd (SubscribeCommandEventsWithByteLimit fault s cid n capacity bytes)) = st_db s"
    by (fastforce simp: SubscribeCommandEventsWithByteLimit_def Let_def close addSubscriber_def
        split: sum.splits prod.splits)
qed

lemma command_ops_step:
  "op_step limit capacity s (AcceptCommand fault now s input)"
  "op_step limit capacity s (AppendCommandEvent fault now s output)"
  "op_step limit capacity s (TransitionCommand fault now s transition)"
  "op_step limit capacity s (CompleteRunningCommand fault now s transition st reason rel)"
  "op_step limit capacity s (SubscribeCommandEventsWithByteLimit fault s cid n k bytes)"
proof -
  show "op_step limit capacity s (AcceptCommand fault now s input)"
  proof (cases "validateCommandAcceptance input")
    case (Inl e)
    then show ?thesis by (simp add: AcceptCommand_def op_step_same)
  next
    case (Inr v)
    show ?thesis
      unfolding AcceptCommand_def Inr sum.case
      by (rule op_step_case [OF accept_command_step]) (auto simp: Let_def split: prod.splits)
  qed
  show "op_step limit capacity s (AppendCommandEvent fault now s output)"
    by (auto simp: AppendCommandEvent_def append_allowed_def op_step_same split: sum.splits
        intro!: op_step_publish op_step_tx append_event_step)
  show "op_step limit capacity s (TransitionCommand fault now s transition)"
    by (auto simp: TransitionCommand_def op_step_same split: sum.splits
        intro!: op_step_publish op_step_tx transition_command_step)
  show "op_step limit capacity s (CompleteRunningCommand fault now s transition st reason rel)"
    by (auto simp: CompleteRunningCommand_def op_step_same split: sum.splits
        intro!: op_step_publish op_step_tx complete_command_step)
  show "op_step limit capacity s (SubscribeCommandEventsWithByteLimit fault s cid n k bytes)"
    by (simp add: op_step_same subscription_ops_db)
qed

lemma scheduler_ops_step:
  "op_step (claim_limit n) capacity s (startNextEligibleCommand fault now s n handoff)"
  "op_step limit capacity s (ConfirmCommandSlotRelease fault now s cid)"
  "op_step limit capacity s (ConfirmLostRuntimeRecoveryBatch fault now s pairs)"
  "op_step limit capacity s (ConfirmLostRuntimeRecoveryBatchPreservingQueuedOneOffs fault now s pairs)"
  "op_step limit capacity s (CompleteLostRuntimeRecoveryFinalization fault s pair)"
  "op_step limit capacity s (PrepareControlledRestartPlan fault now s pairs)"
  "op_step limit capacity s (ActivateControlledRestartPlan fault now s plan)"
  "op_step limit capacity s (ClearControlledRestartPlan fault s plan)"
  by (auto simp: startNextEligibleCommand_def claim_limit_def ConfirmCommandSlotRelease_def ConfirmLostRuntimeRecoveryBatch_def
      ConfirmLostRuntimeRecoveryBatchPreservingQueuedOneOffs_def CompleteLostRuntimeRecoveryFinalization_def
      PrepareControlledRestartPlan_def ActivateControlledRestartPlan_def ClearControlledRestartPlan_def
      op_step_same Let_def split: sum.splits
      intro!: op_step_publish op_step_tx start_next_step confirm_slot_step confirm_batch_step
        confirm_preserving_step complete_finalization_step prepare_plan_step activate_plan_step clear_plan_step)

lemma job_ops_step:
  "op_step limit capacity s (AcceptJob fault now ctx s input)"
  "op_step limit capacity s (CheckpointJob fault now s jid checkpoint)"
  "op_step limit capacity s (MarkCreatingDirectProbeLost fault now s jid sid cid key env controller reason)"
  "op_step limit capacity s (SettleClosedCancelledOneOffJobs fault now s ids)"
  by (auto simp: AcceptJob_def CheckpointJob_def MarkCreatingDirectProbeLost_def
      SettleClosedCancelledOneOffJobs_def op_step_same
      split: sum.splits prod.splits
      intro!: op_step_tx accept_job_step checkpoint_job_step probe_lost_step settle_step)

definition outcome_step :: "int \<Rightarrow> int \<Rightarrow> AuthorityStore \<Rightarrow> go_error option \<times> AuthorityStore \<Rightarrow> bool" where
  "outcome_step limit capacity s r \<longleftrightarrow>
     (store_wf (st_db s) \<longrightarrow> store_step limit capacity (st_db s) (st_db (snd r))) \<and>
     (fst r \<noteq> None \<longrightarrow> st_db (snd r) = st_db s)"

lemma outcome_stepI: "op_step limit capacity s r \<Longrightarrow> outcome_step limit capacity s (outcome r)"
  by (auto simp: outcome_step_def op_step_def outcome_def split: sum.splits)

lemma store_apply_outcome:
  "outcome_step (slot_limit op) (session_limit op) s (store_apply fault now s op)"
  by (cases op; simp; (intro outcome_stepI session_ops_step other_ops_step command_ops_step scheduler_ops_step job_ops_step)?)
    (simp_all add: outcome_step_def subscription_ops_db)

lemma store_apply_step:
  "store_wf (st_db s) \<Longrightarrow>
     store_step (slot_limit op) (session_limit op) (st_db s) (st_db (snd (store_apply fault now s op)))"
  "fst (store_apply fault now s op) = Some e \<Longrightarrow> st_db (snd (store_apply fault now s op)) = st_db s"
  using store_apply_outcome [of op s fault now] by (simp_all add: outcome_step_def)

section \<open>Laws of runs\<close>

interpretation authority: step_system store_run "\<lambda>s. store_wf (st_db s)"
  "\<lambda>s t. session_evolves (st_db s) (st_db t) \<and> command_evolves (st_db s) (st_db t)"
proof
  fix s :: AuthorityStore and call
  assume "store_wf (st_db s)"
  then have "store_step (slot_limit (snd (snd call))) (session_limit (snd (snd call))) (st_db s) (st_db (store_run s call))"
    by (simp add: store_run_def store_apply_step)
  then show "store_wf (st_db (store_run s call))"
    "session_evolves (st_db s) (st_db (store_run s call)) \<and> command_evolves (st_db s) (st_db (store_run s call))"
    by (simp_all add: store_step_def)
qed (auto intro: session_evolves_trans command_evolves_trans)

text \<open>C1. Whatever operations run on a new authority, in whatever order, with whatever arguments, clock
  readings and driver failures, the database stays well formed: every session has one reservation and
  a lifecycle history numbered from one that starts in \<open>creating\<close>, follows the edges of the
  session table and ends in the state of its row; the commands of a session are numbered from one;
  the events of a command are numbered from one, start with \<open>command_queued\<close>, and a terminal
  command's last event is the one of its state, with its number in the command row; every slot
  belongs to a started command, and a released one to a terminal command.\<close>

theorem store_runs_well_formed:
  "store_wf (st_db (foldl store_run (NewAuthorityStore empty_database) calls))"
  by (rule authority.run_inv) (simp add: store_wf_def NewAuthorityStore_def)

text \<open>A terminal session gets no further history.\<close>

lemma terminal_history_final:
  assumes "history_ok h st" "SessionState_IsTerminal st" "history_ok h' st'" "prefix h h'"
  shows "h' = h \<and> st' = st"
proof -
  obtain ys where h': "h' = h @ ys" using assms(4) by (auto elim: prefixE)
  have ne: "map slc_new_state h \<noteq> []" and last: "last (map slc_new_state h) = st"
    using assms(1) by (auto simp: history_ok_def)
  have "map slc_new_state h' = butlast (map slc_new_state h) @ st # map slc_new_state ys"
    using append_butlast_last_id [OF ne] last h' by (metis append.assoc append_Cons append_Nil map_append)
  moreover have "chain SessionState_CanTransitionTo (map slc_new_state h')"
    using assms(3) by (simp add: history_ok_def)
  ultimately have "map slc_new_state ys = []"
    using session_table.chain_terminal_last assms(2) by metis
  then show ?thesis using h' assms(1,3) by (auto simp: history_ok_def)
qed

text \<open>A stored session is permanent: after any further operations it is still there with the
  columns that identify it (target, environment, controller, source, creation and expiry time)
  unchanged, its lifecycle history only extended at the end, and once its state is terminal neither
  its state nor its history changes again.\<close>

theorem session_history_permanent:
  fixes s :: AuthorityStore and calls :: "(go_error option \<times> time \<times> store_op) list"
  assumes "store_wf (st_db s)" "find_session sid (st_db s) = Some row"
  defines "t \<equiv> foldl store_run s calls"
  shows "\<exists>row'. find_session sid (st_db t) = Some row' \<and> identity_columns row' = identity_columns row \<and>
    prefix (session_history sid (st_db s)) (session_history sid (st_db t)) \<and>
    (SessionState_IsTerminal (ses_state row) \<longrightarrow>
       session_history sid (st_db t) = session_history sid (st_db s) \<and> ses_state row' = ses_state row)"
proof -
  have wf: "sessions_wf (st_db s)" "sessions_wf (st_db t)"
    using assms(1) authority.run_inv [OF assms(1)] by (simp_all add: store_wf_def t_def)
  have "session_evolves (st_db s) (st_db t)" using authority.run_rel [OF assms(1)] by (simp add: t_def)
  then obtain row' where row': "find_session sid (st_db t) = Some row'" "identity_columns row' = identity_columns row"
    and pre: "prefix (session_history sid (st_db s)) (session_history sid (st_db t))"
    using assms(2) by (auto simp: session_evolves_def)
  then show ?thesis
    using terminal_history_final [OF find_session_history [OF wf(1) assms(2)] _ find_session_history [OF wf(2) row'(1)] pre]
    by blast
qed

theorem session_history_permanent_witness:
  "\<exists>row'. find_session ''s1'' (st_db (foldl store_run (NewAuthorityStore lost_db)
       [(None, sample_now, DoConfirmCleanup ''s1''), (None, sample_now, DoTransitionSession ''s1'' SessionStateReady ''r'')])) =
     Some row' \<and> ses_state row' = SessionStateLost"
  using session_history_permanent [of "NewAuthorityStore lost_db" "''s1''" _
      "[(None, sample_now, DoConfirmCleanup ''s1''), (None, sample_now, DoTransitionSession ''s1'' SessionStateReady ''r'')]"]
    sample_store_wf(2)
  by (auto simp: NewAuthorityStore_def SessionState_IsTerminal_def)

text \<open>C3. The operations of a run never lose or rewrite a stored command: after any sequence of them its
  identity, order, script, request hash and timeout are unchanged, its state has moved along edges of
  the command table only, its events are the earlier ones with new ones at the end, and if it was
  terminal its whole row and its events are the same. Garbage collection is not an operation of a run:
  it takes the output away from old terminal commands and later deletes them.\<close>

theorem command_permanent:
  fixes s :: AuthorityStore and calls :: "(go_error option \<times> time \<times> store_op) list"
  assumes "store_wf (st_db s)" "find_command cid (st_db s) = Some c"
  defines "t \<equiv> foldl store_run s calls"
  shows "\<exists>c'. find_command cid (st_db t) = Some c' \<and> command_columns c' = command_columns c \<and>
    CommandState_CanTransitionTo\<^sup>*\<^sup>* (cmd_state c) (cmd_state c') \<and>
    prefix (command_events cid (st_db s)) (command_events cid (st_db t)) \<and>
    (CommandState_IsTerminal (cmd_state c) \<longrightarrow>
       c' = c \<and> command_events cid (st_db t) = command_events cid (st_db s))"
  using authority.run_rel [OF assms(1)] assms(2) unfolding t_def command_evolves_def by blast

theorem command_permanent_witness:
  "\<exists>c'. find_command ''c1'' (st_db (foldl store_run (NewAuthorityStore lost_db)
       [(None, sample_now, DoConfirmSlot ''c1''), (None, sample_now, DoStartNext 1 False)])) = Some c' \<and>
     cmd_state c' = CommandStateLost"
  using command_permanent [of "NewAuthorityStore lost_db" "''c1''" _
      "[(None, sample_now, DoConfirmSlot ''c1''), (None, sample_now, DoStartNext 1 False)]"] sample_store_wf(2)
  by (auto simp: NewAuthorityStore_def CommandState_IsTerminal_def)

text \<open>C4. Capacity is never overcommitted: when no claim is given a slot limit above \<open>slots\<close> and no
  acceptance a session limit above \<open>sessions\<close>, the live command slots and the live session
  reservations stay within these limits for ever.\<close>

theorem capacity_bounded:
  assumes "store_wf (st_db s)" "live_slots (st_db s) \<le> slots" "live_reservations (st_db s) \<le> sessions"
    and "\<forall>call \<in> set calls. slot_limit (snd (snd call)) \<le> slots \<and> session_limit (snd (snd call)) \<le> sessions"
  shows "live_slots (st_db (foldl store_run s calls)) \<le> slots \<and>
    live_reservations (st_db (foldl store_run s calls)) \<le> sessions"
  using assms
proof (induction calls arbitrary: s)
  case Nil
  then show ?case by simp
next
  case (Cons call calls)
  then have "store_step (slot_limit (snd (snd call))) (session_limit (snd (snd call))) (st_db s) (st_db (store_run s call))"
    by (simp add: store_run_def store_apply_step)
  then show ?case using Cons by (auto simp: store_step_def)
qed

theorem capacity_bounded_witness:
  "live_slots (st_db (foldl store_run (NewAuthorityStore queued_db)
     [(None, sample_now, DoStartNext 0 False), (None, sample_now, DoAcceptSession sample_acceptance)])) \<le> 4 \<and>
   live_reservations (st_db (foldl store_run (NewAuthorityStore queued_db)
     [(None, sample_now, DoStartNext 0 False), (None, sample_now, DoAcceptSession sample_acceptance)])) \<le> 1"
proof (rule capacity_bounded)
  show "store_wf (st_db (NewAuthorityStore queued_db))" by (simp add: NewAuthorityStore_def sample_store_wf)
qed (simp_all add: NewAuthorityStore_def live_slots_def live_reservations_def queued_db_def
    ready_db_def empty_database_def reservation_row_of_def claim_limit_def DefaultRunningCommandLimit_def
    requested_limit_def sample_acceptance_def)

end
