(* ===== verification/Scheduler_Claims.thy ===== *)
theory Scheduler_Claims
  imports Scheduler_Facts Command_Samples
begin

text \<open>
  The policy of the scheduler: a claim takes the oldest of the commands it may start, changes only
  that command, its session and its slot, and succeeds whenever there is such a command and a free
  slot. A controlled restart plan closes the queue until it is active, then admits its own command
  only and is used up by the claim.
\<close>

section \<open>The commands a claim may take\<close>

definition claimable :: "bool \<Rightarrow> database \<Rightarrow> command_row \<Rightarrow> bool" where
  "claimable handoff db d \<longleftrightarrow>
     d \<in> set (exec_commands db) \<and> scheduler_eligible db d \<and> handed_off handoff db d \<and>
     eligible (cmd_session_id d) db d"

text \<open>The place of a command in the queue, when its creation time can be read.\<close>

definition queue_place :: "time \<Rightarrow> command_row \<Rightarrow> time \<times> string \<times> int \<times> string" where
  "queue_place createdAt d = (createdAt, cmd_session_id d, cmd_ordinal d, cmd_command_id d)"

lemma decode_command_Inl: "decode_command_row cid row = Inl e \<Longrightarrow> e = ErrCommandPayloadCorrupt"
  by (auto simp: decode_command_row_def res_bind_def res_as_def split: sum.splits if_splits)

lemma decode_command_id: "decode_command_row cid row = Inr rc \<Longrightarrow> cr_CommandID rc = cid"
  by (auto simp: decode_command_row_def tx_simps split: if_splits)

lemma read_order_Inl: "read_order_from n rows = Inl e \<Longrightarrow> e = ErrCommandOrderCorrupt"
  by (induction n rows rule: read_order_from.induct)
    (auto simp: res_bind_def res_as_def split: sum.splits if_splits)

lemma first_eligible_skip:
  "list_all (\<lambda>p. CommandState_IsTerminal (cor_State p)) pre \<Longrightarrow>
   first_eligible db (pre @ rest) = first_eligible db rest"
  by (induction pre) simp_all

text \<open>The eligible command of a ready session is what the code finds, unless a row is corrupt.\<close>

lemma next_eligible_exact:
  assumes wf: "commands_wf db" and row: "find_session sid db = Some row" "ses_state row = SessionStateReady"
    and c: "eligible sid db c"
  shows "case nextEligibleCommandOnConnection sid db of
     Inl e \<Rightarrow> e = ErrCommandOrderCorrupt \<or> e = ErrCommandPayloadCorrupt
   | Inr rc \<Rightarrow> cr_CommandID rc = cmd_command_id c"
proof (cases "readCommandOrderOnConnection sid db")
  case (Inl e)
  moreover have "e = ErrCommandOrderCorrupt"
    using Inl unfolding readCommandOrderOnConnection_def by (rule read_order_Inl)
  ultimately show ?thesis using row by (simp add: nextEligibleCommandOnConnection_def select_session_def)
next
  case (Inr os)
  obtain pre post where split: "session_commands sid db = pre @ c # post"
    "list_all (\<lambda>p. CommandState_IsTerminal (cmd_state p)) pre" and queued: "cmd_state c = CommandStateQueued"
    using c by (auto simp: eligible_def)
  have "c \<in> set (session_commands sid db)" using split(1) by simp
  then have "c \<in> set (exec_commands db)" by (simp add: session_commands_def)
  then have found: "find_command (cmd_command_id c) db = Some c" using find_command_row [OF wf] by simp
  have os: "os = map order_row pre @ order_row c # map order_row post"
    using readCommandOrder_Inr [OF wf Inr] split(1) by simp
  have "first_eligible db os = readCommandOnConnection (cmd_command_id c) db"
    using first_eligible_skip [of "map order_row pre" db "order_row c # map order_row post"] split(2) queued
    by (simp add: os list.pred_map comp_def CommandState_IsTerminal_def)
  then have "nextEligibleCommandOnConnection sid db = decode_command_row (cmd_command_id c) c"
    using row Inr found
    by (simp add: nextEligibleCommandOnConnection_def select_session_def readCommandOnConnection_def)
  then show ?thesis
    by (cases "decode_command_row (cmd_command_id c) c") (simp_all add: decode_command_Inl decode_command_id)
qed

text \<open>The candidates are the queued commands of ready sessions, oldest first.\<close>

definition candidate_of :: "time \<Rightarrow> command_row \<Rightarrow> schedulerCandidate" where
  "candidate_of createdAt d = \<lparr>cand_commandID = cmd_command_id d, cand_sessionID = cmd_session_id d,
     cand_createdAt = createdAt, cand_ordinal = cmd_ordinal d\<rparr>"

lemma candidate_of_simps [simp]:
  "cand_commandID (candidate_of t d) = cmd_command_id d" "cand_sessionID (candidate_of t d) = cmd_session_id d"
  "candidate_key (candidate_of t d) = queue_place t d"
  by (simp_all add: candidate_of_def candidate_key_def queue_place_def)

lemma read_all_member: "read_all f rows = Inr xs \<Longrightarrow> x \<in> set xs \<longleftrightarrow> (\<exists>r \<in> set rows. f r = Inr x)"
  by (induction rows arbitrary: xs) (auto simp: tx_simps)

lemma scheduler_candidates_Inr:
  assumes "scheduler_candidates handoff db = Inr cands"
  shows "sorted (map candidate_key cands)"
    "k \<in> set cands \<longleftrightarrow> (\<exists>d t. d \<in> set (exec_commands db) \<and> scheduler_eligible db d \<and>
       handed_off handoff db d \<and> parseStoredTime (cmd_created_at d) = Inr t \<and> k = candidate_of t d)"
proof -
  obtain cs where cs: "read_all (\<lambda>c.
         res_bind (res_as ErrCommandOrderCorrupt (parseStoredTime (cmd_created_at c))) (\<lambda>createdAt.
         Inr (candidate_of createdAt c)))
       (filter (\<lambda>c. scheduler_eligible db c \<and> handed_off handoff db c) (exec_commands db)) = Inr cs"
    and cands: "cands = sort_key candidate_key cs"
    using assms by (auto simp: scheduler_candidates_def candidate_of_def [symmetric] tx_simps)
  show "sorted (map candidate_key cands)" by (simp add: cands)
  show "k \<in> set cands \<longleftrightarrow> (\<exists>d t. d \<in> set (exec_commands db) \<and> scheduler_eligible db d \<and>
       handed_off handoff db d \<and> parseStoredTime (cmd_created_at d) = Inr t \<and> k = candidate_of t d)"
    using read_all_member [OF cs, of k] by (auto simp: cands tx_simps)
qed

lemma scheduler_candidates_parse:
  assumes "scheduler_candidates handoff db = Inr cands" "d \<in> set (exec_commands db)" "scheduler_eligible db d"
    "handed_off handoff db d"
  shows "\<exists>t. parseStoredTime (cmd_created_at d) = Inr t"
proof -
  have "read_all f rows = Inr xs \<Longrightarrow> r \<in> set rows \<Longrightarrow> \<exists>x. f r = Inr x"
    for f :: "command_row \<Rightarrow> schedulerCandidate result" and rows xs r
    by (induction rows arbitrary: xs) (auto simp: tx_simps)
  then show ?thesis
    using assms by (fastforce simp: scheduler_candidates_def tx_simps)
qed

text \<open>With no plan, a claimable command is never passed over.\<close>

lemma claimable_not_passed:
  assumes wf: "commands_wf db" and d: "claimable handoff db d"
  shows "\<not> passed_over None db (candidate_of t d)"
proof -
  obtain row where "find_session (cmd_session_id d) db = Some row" "ses_state row = SessionStateReady"
    using d by (auto simp: claimable_def scheduler_eligible_def split: option.splits)
  then show ?thesis
    using next_eligible_exact [OF wf, of "cmd_session_id d" row d] d
    by (auto simp: passed_over_def plan_allows_def claimable_def split: sum.splits)
qed

lemma claim_is_oldest:
  assumes wf: "commands_wf db" and cands: "scheduler_candidates handoff db = Inr cands"
    and split: "cands = pre @ k # post" "list_all (passed_over None db) pre"
    and d: "claimable handoff db d" "parseStoredTime (cmd_created_at d) = Inr u"
  shows "candidate_key k \<le> queue_place u d"
proof -
  have "candidate_of u d \<in> set cands"
    using scheduler_candidates_Inr(2) [OF cands] d by (auto simp: claimable_def)
  moreover have "candidate_of u d \<notin> set pre"
    using claimable_not_passed [OF wf d(1)] split(2) by (auto simp: list_all_iff)
  ultimately have "candidate_of u d \<in> set (k # post)" using split(1) by simp
  moreover have "\<forall>x \<in> set (k # post). candidate_key k \<le> candidate_key x"
    using scheduler_candidates_Inr(1) [OF cands] split(1) by (auto simp: sorted_append)
  ultimately show ?thesis by force
qed

section \<open>What a claim does\<close>

lemma startNext_Inr:
  assumes "startNextEligibleCommand fault now s n handoff = (Inr rc, s')"
  obtains ev db' where "start_next_body (claim_limit n) handoff now (st_db s) = Inr ((rc, ev), db')"
    "s' = (case ev of None \<Rightarrow> s\<lparr>st_db := db'\<rparr> | Some event \<Rightarrow> publishCommandEvent event (s\<lparr>st_db := db'\<rparr>))"
proof (cases rule: withImmediateTransaction_cases [of fault s "start_next_body (claim_limit n) handoff now"])
  case (rollback e)
  then show thesis
    using assms by (auto simp: startNextEligibleCommand_def claim_limit_def [symmetric] Let_def publish_committed_def split: if_splits)
next
  case (commit x db)
  then show thesis
    using assms that by (cases x)
      (auto simp: startNextEligibleCommand_def claim_limit_def [symmetric] Let_def publish_committed_def split: if_splits option.splits)
qed

text \<open>The rows a session transition writes: the new state and time of that session, and the next
  entry of its history.\<close>

definition session_moved :: "session_row \<Rightarrow> SessionState \<Rightarrow> string \<Rightarrow> time \<Rightarrow> database \<Rightarrow> database" where
  "session_moved row next_state reason now db =
     (let sid = ses_session_id row in
      db\<lparr>exec_sessions := update_rows (\<lambda>r. ses_session_id r = sid)
           (\<lambda>r. r\<lparr>ses_state := next_state, ses_updated_at := formatStoredTime now\<rparr>) (exec_sessions db),
         exec_session_lifecycle := exec_session_lifecycle db @
           [lifecycle_row_of sid (int (length (session_history sid db)) + 1) (Some (ses_state row)) next_state reason now]\<rparr>)"

lemma update_rows_only:
  assumes "distinct (map key rows)" "find (\<lambda>r. key r = k) rows = Some x" "P x"
  shows "update_rows (\<lambda>r. key r = k \<and> P r) f rows = update_rows (\<lambda>r. key r = k) f rows"
proof -
  have x: "x \<in> set rows" "key x = k" using assms(2) find_key_Some [OF assms(1)] by auto
  have "P r" if "r \<in> set rows" "key r = k" for r
    using distinct_key_eq [OF assms(1) that(1) x(1)] that(2) x(2) assms(3) by simp
  then show ?thesis by (auto simp: update_rows_def)
qed

lemma transitionSession_moves:
  assumes wf: "sessions_wf db" and run: "transitionSessionOnConnection sid next_state reason now db = Inr ((), db')"
  obtains row where "find_session sid db = Some row" "SessionState_CanTransitionTo (ses_state row) next_state"
    "db' = session_moved row next_state reason now db"
proof -
  let ?f = "\<lambda>r. r\<lparr>ses_state := next_state, ses_updated_at := formatStoredTime now\<rparr>"
  obtain row where row: "find_session sid db = Some row" "SessionState_CanTransitionTo (ses_state row) next_state"
    and db': "db' = db\<lparr>exec_sessions := update_rows (\<lambda>r. ses_session_id r = sid \<and> ses_state r = ses_state row) ?f (exec_sessions db),
      exec_session_lifecycle := exec_session_lifecycle db @
        [lifecycle_row_of sid (next_lifecycle_sequence sid db) (Some (ses_state row)) next_state reason now]\<rparr>"
    using run by (auto simp: transitionSessionOnConnection_def move_session_def update_session_def
        insert_lifecycle_def tx_simps Let_def)
  have "next_lifecycle_sequence sid db = int (length (session_history sid db)) + 1"
    using history_ok_next [OF find_session_history [OF wf row(1)]] by (simp add: next_lifecycle_sequence_def)
  moreover have "update_rows (\<lambda>r. ses_session_id r = sid \<and> ses_state r = ses_state row) ?f (exec_sessions db) =
      update_rows (\<lambda>r. ses_session_id r = sid) ?f (exec_sessions db)"
    by (rule update_rows_only) (use wf row(1) in \<open>simp_all add: sessions_wf_def find_session_def\<close>)
  moreover have "ses_session_id row = sid" using row(1) find_session_row [OF wf] by simp
  ultimately have "db' = session_moved row next_state reason now db"
    by (simp add: db' session_moved_def Let_def)
  then show thesis by (rule that [OF row])
qed

text \<open>The database after the command \<open>c\<close> of the session \<open>row\<close> has been claimed: the whole database,
  so that every table not mentioned is as it was. A stored restart plan is used up by the claim.\<close>

definition plan_used_up :: "database \<Rightarrow> database" where
  "plan_used_up db =
     (case readControlledRestartPlanOnConnection db of
        Inr plan \<Rightarrow> db\<lparr>exec_controlled_restart_plans := [], exec_controlled_restart_plan_lost_pairs := []\<rparr>
      | Inl e \<Rightarrow> db)"

definition claimed_as :: "command_row \<Rightarrow> session_row \<Rightarrow> time \<Rightarrow> database \<Rightarrow> database" where
  "claimed_as c row now db =
     (session_moved row SessionStateBusy ''command_started'' now (plan_used_up db))
       \<lparr>exec_commands := update_rows (\<lambda>r. cmd_command_id r = cmd_command_id c) (set_running now) (exec_commands db),
        exec_command_events := exec_command_events db @ [event_row_of (cmd_command_id c) 2 ''command_started'' [] 0 now],
        exec_command_slots := exec_command_slots db @ [new_slot (cmd_command_id c) now]\<rparr>"

lemma start_command_consumes:
  assumes "start_command (Some p) cid sid candidate now db = Inr (x, db')"
    and "length (exec_controlled_restart_plans db) \<le> 1"
  shows "exec_controlled_restart_plans db' = []"
proof -
  obtain n db3 where ses: "transitionSessionOnConnection sid SessionStateBusy ''command_started'' now (claimed_db cid n now db) = Inr ((), db3)"
    and del: "consumeControlledRestartPlanOnClaim p db3 = Inr ((), db')"
    using assms(1) by (simp add: start_command_def new_slot_def [symmetric] set_running_def [symmetric]
        claimed_db_def [symmetric] tx_simps) blast
  have "exec_controlled_restart_plans db3 = exec_controlled_restart_plans db"
    using ses by (auto elim!: transitionSession_frame simp: claimed_db_def)
  then show ?thesis
    using del assms(2) by (cases "exec_controlled_restart_plans db")
      (auto simp: consumeControlledRestartPlanOnClaim_def deleteControlledRestartPlanOnConnection_def tx_simps split: if_splits)
qed

lemma start_command_claims:
  assumes wf: "store_wf db" and c: "find_command cid db = Some c" "cmd_state c = CommandStateQueued" "cmd_session_id c = sid"
    and run: "start_command plan cid sid candidate now db = Inr ((rc, ev), db')"
  shows "ev = Some (lifecycle_event cid 2 ''command_started'' now)" "live_slots db' = live_slots db + 1"
    "cr_CommandID rc = cid" "cr_State rc = CommandStateRunning"
    "read_plan_for_claim db = Inr plan \<Longrightarrow> length (exec_controlled_restart_plans db) \<le> 1 \<Longrightarrow>
      \<exists>row. find_session sid db = Some row \<and> db' = claimed_as c row now db"
proof -
  have cwf: "commands_wf db" and swf: "sessions_wf db" using wf by (simp_all add: store_wf_def)
  have cid: "cmd_command_id c = cid" using c(1) find_command_row [OF cwf] by simp
  obtain n db3 a b where n: "n = int (length (command_events cid db)) + 1"
    and ses: "transitionSessionOnConnection sid SessionStateBusy ''command_started'' now (claimed_db cid n now db) = Inr ((), db3)"
    and db': "db' = db3\<lparr>exec_controlled_restart_plans := a, exec_controlled_restart_plan_lost_pairs := b\<rparr>"
    and rc: "readCommandOnConnection cid db' = Inr rc"
    and ev: "ev = Some (lifecycle_event cid n ''command_started'' now)"
    and plan: "plan = None \<Longrightarrow> db' = db3" "\<And>p. plan = Some p \<Longrightarrow> exec_controlled_restart_plan_lost_pairs db' = []"
    by (rule start_command_effect [OF run]) blast
  have n2: "n = 2" using find_command_events [OF cwf c(1)] c(2) n by (simp add: events_ok_def)
  note frame = session_step_frame [OF disjI2 [OF ses]]
  have only: "update_rows (\<lambda>r. cmd_command_id r = cid \<and> cmd_state r = CommandStateQueued) (set_running now) (exec_commands db) =
      update_rows (\<lambda>r. cmd_command_id r = cid) (set_running now) (exec_commands db)"
    by (rule update_rows_only) (use cwf c in \<open>simp_all add: commands_wf_def find_command_def\<close>)
  have "find_command cid db' = Some (set_running now c)"
    using find_update_rows_same [of cmd_command_id "set_running now" cid "exec_commands db" c "\<lambda>r. True"] c
    by (simp add: find_command_def db' frame(1) only)
  then show "cr_CommandID rc = cid" "cr_State rc = CommandStateRunning" by (auto intro: readCommand_row [OF rc])
  show "ev = Some (lifecycle_event cid 2 ''command_started'' now)" using ev n2 by simp
  show "live_slots db' = live_slots db + 1" by (simp add: live_slots_def db' frame(3))
  have "sessions_wf (claimed_db cid n now db)" using swf sessions_wf_cong [of "claimed_db cid n now db" db] by simp
  then obtain row where row: "find_session sid db = Some row"
    and db3: "db3 = session_moved row SessionStateBusy ''command_started'' now (claimed_db cid 2 now db)"
    by (rule transitionSession_moves [OF _ ses]) (simp add: find_session_def n2)
  assume read: "read_plan_for_claim db = Inr plan" and single: "length (exec_controlled_restart_plans db) \<le> 1"
  have "db' = claimed_as c row now db"
  proof (cases plan)
    case None
    then have "plan_used_up db = db" using read by (simp add: read_plan_for_claim_def plan_used_up_def split: sum.splits)
    then show ?thesis
      using plan(1) [OF None] by (simp add: db3 claimed_as_def session_moved_def session_history_def claimed_db_def cid only Let_def)
  next
    case (Some p)
    have used: "plan_used_up db = db\<lparr>exec_controlled_restart_plans := [], exec_controlled_restart_plan_lost_pairs := []\<rparr>"
      using read Some by (simp add: read_plan_for_claim_def plan_used_up_def split: sum.splits if_splits)
    have "exec_controlled_restart_plans db' = []" using run start_command_consumes [OF _ single] Some by blast
    then have "a = []" "b = []" using plan(2) [OF Some] by (simp_all add: db')
    then show ?thesis
      by (simp add: db' db3 claimed_as_def session_moved_def session_history_def claimed_db_def cid only used Let_def)
  qed
  then show "\<exists>row. find_session sid db = Some row \<and> db' = claimed_as c row now db" using row by blast
qed

text \<open>A successful claim: the command it took and where that command stood in the queue.\<close>

lemma start_next_claim:
  assumes wf: "store_wf db" and run: "start_next_body limit handoff now db = Inr ((rc, ev), db')"
  obtains plan pre k post c t cands where "read_plan_for_claim db = Inr plan" "pred_option cp_Activated plan"
    "scheduler_candidates handoff db = Inr cands" "cands = pre @ k # post" "list_all (passed_over plan db) pre"
    "plan_allows plan k" "k = candidate_of t c" "parseStoredTime (cmd_created_at c) = Inr t"
    "claimable handoff db c" "find_command (cr_CommandID rc) db = Some c" "live_slots db < limit"
    "live_slots db' = live_slots db + 1" "ev = Some (lifecycle_event (cr_CommandID rc) 2 ''command_started'' now)"
    "cr_State rc = CommandStateRunning"
    "length (exec_controlled_restart_plans db) \<le> 1 \<Longrightarrow>
      \<exists>row. find_session (cmd_session_id c) db = Some row \<and> db' = claimed_as c row now db"
    "\<exists>candidate. start_command plan (cmd_command_id c) (cmd_session_id c) candidate now db = Inr ((rc, ev), db')"
proof -
  have cwf: "commands_wf db" using wf by (simp add: store_wf_def)
  obtain plan cands where plan: "read_plan_for_claim db = Inr plan" "\<And>p. plan = Some p \<Longrightarrow> cp_Activated p"
    and room: "live_slots db < limit" and cands: "scheduler_candidates handoff db = Inr cands"
    and cl: "claims plan now db ((rc, ev), db') cands" by (rule start_next_Inr [OF run]) blast
  have act: "pred_option cp_Activated plan" using plan(2) by (cases plan) auto
  obtain pre k post candidate c where split: "cands = pre @ k # post" "list_all (passed_over plan db) pre"
    "plan_allows plan k" and c: "find_command (cand_commandID k) db = Some c" "eligible (cand_sessionID k) db c"
      "cmd_session_id c = cand_sessionID k"
    and start: "start_command plan (cand_commandID k) (cand_sessionID k) candidate now db = Inr ((rc, ev), db')"
    by (rule claims_obtain [OF cl cwf])
  obtain d t where d: "d \<in> set (exec_commands db)" "scheduler_eligible db d" "handed_off handoff db d"
    "parseStoredTime (cmd_created_at d) = Inr t" "k = candidate_of t d"
    using scheduler_candidates_Inr(2) [OF cands, of k] split(1) by auto
  have "find_command (cmd_command_id d) db = Some d" using find_command_row [OF cwf] d(1) by simp
  then have "d = c" using c(1) d(5) by simp
  have t: "parseStoredTime (cmd_created_at c) = Inr t" and k: "k = candidate_of t c"
    using d(4,5) unfolding \<open>d = c\<close> by blast+
  have cl: "claimable handoff db c"
    using d(1-3) c(2) unfolding \<open>d = c\<close> claimable_def c(3) by blast
  have queued: "cmd_state c = CommandStateQueued" using c(2) by (simp add: eligible_def)
  note claim = start_command_claims [OF wf c(1) queued c(3) start]
  have found: "find_command (cr_CommandID rc) db = Some c" using claim(3) c(1) by simp
  have ev: "ev = Some (lifecycle_event (cr_CommandID rc) 2 ''command_started'' now)" using claim(1,3) by simp
  have eff: "\<exists>row. find_session (cmd_session_id c) db = Some row \<and> db' = claimed_as c row now db"
    if "length (exec_controlled_restart_plans db) \<le> 1" using claim(5) [OF plan(1) that] c(3) by simp
  have cand: "\<exists>candidate. start_command plan (cmd_command_id c) (cmd_session_id c) candidate now db = Inr ((rc, ev), db')"
    using start k by auto
  show thesis by (rule that [OF plan(1) act cands split k t cl found room claim(2) ev claim(4) _ cand]) (rule eff)
qed

section \<open>The order of the queue\<close>

text \<open>C9. While no restart plan is stored, the scheduler serves the queue in order of age: the command a claim starts is queued, first
  in line in a ready session and, where that is asked for, handed off by its job; and no other such
  command was created earlier (ties are broken by session, ordinal and command), creation times being
  compared as points in time and not as stored text.\<close>

theorem claim_oldest_first:
  assumes wf: "store_wf (st_db s)" and noplan: "exec_controlled_restart_plans (st_db s) = []"
    and run: "startNextEligibleCommand fault now s n handoff = (Inr rc, s')"
  shows "\<exists>c t. find_command (cr_CommandID rc) (st_db s) = Some c \<and> claimable handoff (st_db s) c \<and>
     parseStoredTime (cmd_created_at c) = Inr t \<and>
     (\<forall>d. claimable handoff (st_db s) d \<longrightarrow>
        (\<exists>u. parseStoredTime (cmd_created_at d) = Inr u \<and> queue_place t c \<le> queue_place u d))"
proof -
  have cwf: "commands_wf (st_db s)" using wf by (simp add: store_wf_def)
  obtain ev db' where body: "start_next_body (claim_limit n) handoff now (st_db s) = Inr ((rc, ev), db')"
    by (rule startNext_Inr [OF run])
  obtain plan pre k post c t cands where plan: "read_plan_for_claim (st_db s) = Inr plan"
    and cands: "scheduler_candidates handoff (st_db s) = Inr cands"
    and split: "cands = pre @ k # post" "list_all (passed_over plan (st_db s)) pre"
    and k: "k = candidate_of t c" "parseStoredTime (cmd_created_at c) = Inr t" "claimable handoff (st_db s) c"
      "find_command (cr_CommandID rc) (st_db s) = Some c"
    by (rule start_next_claim [OF wf body]) blast
  have none: "plan = None"
    using plan noplan by (simp add: read_plan_for_claim_def readControlledRestartPlanOnConnection_def)
  have "\<exists>u. parseStoredTime (cmd_created_at d) = Inr u \<and> queue_place t c \<le> queue_place u d"
    if d: "claimable handoff (st_db s) d" for d
  proof -
    obtain u where u: "parseStoredTime (cmd_created_at d) = Inr u"
      using scheduler_candidates_parse [OF cands] d by (auto simp: claimable_def)
    then show ?thesis
      using claim_is_oldest [OF cwf cands split(1) split(2) [unfolded none] d u] k(1) by auto
  qed
  then show ?thesis using k by blast
qed

text \<open>C10. A claim moves exactly one command, and the database after it is given in full: the
  command runs with its second event and a new slot within the limit, its session goes from ready to
  busy with one more history entry, a stored restart plan is deleted with its pairs, and every other
  row of every table is as it was. The started event is published to the subscribers after the commit,
  and the caller receives the running command.\<close>

theorem claim_effect_exact:
  assumes wf: "store_wf (st_db s)" and single: "length (exec_controlled_restart_plans (st_db s)) \<le> 1"
    and run: "startNextEligibleCommand fault now s n handoff = (Inr rc, s')"
  shows "\<exists>c row. find_command (cr_CommandID rc) (st_db s) = Some c \<and> claimable handoff (st_db s) c \<and>
     find_session (cmd_session_id c) (st_db s) = Some row \<and> ses_state row = SessionStateReady \<and>
     live_slots (st_db s) < claim_limit n \<and> cr_State rc = CommandStateRunning \<and>
     s' = publishCommandEvent (lifecycle_event (cr_CommandID rc) 2 ''command_started'' now)
       (s\<lparr>st_db := claimed_as c row now (st_db s)\<rparr>)"
proof -
  obtain ev db' where body: "start_next_body (claim_limit n) handoff now (st_db s) = Inr ((rc, ev), db')"
    and s': "s' = (case ev of None \<Rightarrow> s\<lparr>st_db := db'\<rparr> | Some event \<Rightarrow> publishCommandEvent event (s\<lparr>st_db := db'\<rparr>))"
    by (rule startNext_Inr [OF run])
  obtain c where c: "claimable handoff (st_db s) c" "find_command (cr_CommandID rc) (st_db s) = Some c"
    "live_slots (st_db s) < claim_limit n"
    "ev = Some (lifecycle_event (cr_CommandID rc) 2 ''command_started'' now)" "cr_State rc = CommandStateRunning"
    "\<exists>row. find_session (cmd_session_id c) (st_db s) = Some row \<and> db' = claimed_as c row now (st_db s)"
    by (rule start_next_claim [OF wf body]) (use single in blast)
  then obtain row where row: "find_session (cmd_session_id c) (st_db s) = Some row" "db' = claimed_as c row now (st_db s)"
    by blast
  moreover have "ses_state row = SessionStateReady" using c(1) row(1) by (simp add: claimable_def scheduler_eligible_def)
  ultimately show ?thesis using c s' by (intro exI [of _ c] exI [of _ row]) simp
qed

text \<open>C12. A controlled restart plan holds the queue: while it is only prepared no command is started,
  and while it is active only its own command is, which uses the plan up in the same transaction.\<close>

theorem plan_holds_queue:
  assumes wf: "store_wf (st_db s)" and plan: "readControlledRestartPlanOnConnection (st_db s) = Inr plan"
    and single: "length (exec_controlled_restart_plans (st_db s)) \<le> 1"
    and run: "startNextEligibleCommand fault now s n handoff = (r, s')"
  shows "(\<not> cp_Activated plan \<longrightarrow> (\<exists>e. r = Inl e) \<and> st_db s' = st_db s \<and>
      (fault = None \<and> 1 \<le> claim_limit n \<longrightarrow> r = Inl ErrControlledRestartPlanNotActive)) \<and>
    (\<forall>rc. r = Inr rc \<longrightarrow> cr_CommandID rc = cp_CommandID plan \<and> exec_controlled_restart_plans (st_db s') = [])"
proof (intro conjI impI allI)
  have read: "read_plan_for_claim (st_db s) = Inr (Some plan)" using plan by (simp add: read_plan_for_claim_def)
  note defs = startNextEligibleCommand_def claim_limit_def [symmetric] Let_def
  assume off: "\<not> cp_Activated plan"
  then have body: "start_next_body (claim_limit n) handoff now (st_db s) = Inl ErrControlledRestartPlanNotActive"
    by (simp add: start_next_body_def tx_steps read)
  show "r = Inl ErrControlledRestartPlanNotActive" if "fault = None \<and> 1 \<le> claim_limit n"
    using run that body by (auto simp: defs withImmediateTransaction_def publish_committed_def split: if_splits)
  show "\<exists>e. r = Inl e" "st_db s' = st_db s"
    using run body by (auto simp: defs withImmediateTransaction_def publish_committed_def split: if_splits option.splits)
next
  fix rc
  assume "r = Inr rc"
  then obtain ev db' where body: "start_next_body (claim_limit n) handoff now (st_db s) = Inr ((rc, ev), db')"
    and s': "s' = (case ev of None \<Rightarrow> s\<lparr>st_db := db'\<rparr> | Some event \<Rightarrow> publishCommandEvent event (s\<lparr>st_db := db'\<rparr>))"
    using run by (auto elim: startNext_Inr)
  obtain p k t c where p: "read_plan_for_claim (st_db s) = Inr p" "plan_allows p k" "k = candidate_of t c"
    "find_command (cr_CommandID rc) (st_db s) = Some c"
    "\<exists>candidate. start_command p (cmd_command_id c) (cmd_session_id c) candidate now (st_db s) = Inr ((rc, ev), db')"
    by (rule start_next_claim [OF wf body]) blast
  have "cr_CommandID rc = cmd_command_id c" using p(4) find_command_row wf by (auto simp: store_wf_def)
  moreover have some: "p = Some plan" using p(1) plan by (simp add: read_plan_for_claim_def)
  ultimately show "cr_CommandID rc = cp_CommandID plan" using p(2,3) by (simp add: plan_allows_def)
  have "exec_controlled_restart_plans db' = []" using p(5) some start_command_consumes [OF _ single] by blast
  then show "exec_controlled_restart_plans (st_db s') = []" by (simp add: s' split: option.splits)
qed

section \<open>Progress\<close>

lemma readable_ids:
  assumes "readable_command c"
  shows "cmd_command_id c \<noteq> []" "cmd_session_id c \<noteq> []" "CommandState_Valid (cmd_state c)"
    "\<exists>t. parseStoredTime (cmd_created_at c) = Inr t"
  using assms by (auto simp: readable_command_def decode_command_row_def is_ok_iff tx_simps new_id_run split: if_splits)

lemma read_order_runs:
  "list_all readable_command rows \<Longrightarrow> map cmd_ordinal rows = map (\<lambda>i. n + int i) [0..<length rows] \<Longrightarrow>
   read_order_from n rows = Inr (map order_row rows)"
proof (induction rows arbitrary: n)
  case Nil
  then show ?case by simp
next
  case (Cons r rows)
  have "cmd_ordinal r # map cmd_ordinal rows = n # map (\<lambda>i. n + int i) [1..<Suc (length rows)]"
    using Cons.prems(2) by (simp add: upt_conv_Cons del: upt_Suc)
  moreover have "map (\<lambda>i. n + int i) [1..<Suc (length rows)] = map (\<lambda>i. (n + 1) + int i) [0..<length rows]"
    by (simp add: map_Suc_upt [symmetric] comp_def add.assoc del: upt_Suc map_Suc_upt)
  ultimately have "cmd_ordinal r = n" "map cmd_ordinal rows = map (\<lambda>i. (n + 1) + int i) [0..<length rows]" by auto
  then show ?case
    using Cons.IH Cons.prems(1) readable_ids [of r] by (simp add: new_id_run order_row_def)
qed

lemma first_eligible_readable:
  assumes "\<forall>r \<in> set rows. readable_command r \<and> find_command (cmd_command_id r) db = Some r"
  shows "case first_eligible db (map order_row rows) of Inl e \<Rightarrow> e = ErrCommandNotEligible | Inr rc \<Rightarrow> True"
  using assms
proof (induction rows)
  case Nil
  then show ?case by simp
next
  case (Cons r rows)
  have "is_ok (readCommandOnConnection (cmd_command_id r) db)" "CommandState_Valid (cmd_state r)"
    using Cons.prems readable_ids(3) [of r] by (auto simp: readCommandOnConnection_def readable_command_def)
  then show ?case
    using Cons by (cases "cmd_state r") (auto simp: CommandState_IsTerminal_def is_ok_iff)
qed

text \<open>In a database whose commands can all be read, the only refusal is that nothing is eligible.\<close>

lemma order_readable:
  assumes "commands_wf db" "list_all readable_command (session_commands sid db)"
  shows "readCommandOrderOnConnection sid db = Inr (map order_row (session_commands sid db))"
proof -
  have "numbered cmd_ordinal (session_commands sid db)" using assms(1) by (simp add: commands_wf_def)
  then have "map cmd_ordinal (session_commands sid db) = map (\<lambda>i. 1 + int i) [0..<length (session_commands sid db)]"
    by (simp add: numbered_def map_Suc_upt [symmetric] comp_def del: upt_Suc map_Suc_upt)
  then show ?thesis
    using assms(2) read_order_runs [of "session_commands sid db" 1]
    by (simp add: readCommandOrderOnConnection_def session_commands_ordered [OF assms(1)])
qed

lemma next_readable:
  assumes wf: "store_wf db" and ok: "\<forall>c \<in> set (exec_commands db). readable_command c"
    and row: "find_session sid db = Some row"
  shows "case nextEligibleCommandOnConnection sid db of Inl e \<Rightarrow> e = ErrCommandNotEligible | Inr rc \<Rightarrow> True"
proof -
  have cwf: "commands_wf db" using wf by (simp add: store_wf_def)
  have rows: "\<forall>r \<in> set (session_commands sid db). readable_command r \<and> find_command (cmd_command_id r) db = Some r"
    using ok find_command_row [OF cwf] by (auto simp: session_commands_def)
  have "readCommandOrderOnConnection sid db = Inr (map order_row (session_commands sid db))"
    by (rule order_readable [OF cwf]) (use rows in \<open>simp add: list_all_iff\<close>)
  then show ?thesis
    using first_eligible_readable [OF rows] row by (simp add: nextEligibleCommandOnConnection_def select_session_def)
qed

lemma queued_no_slot:
  "commands_wf db \<Longrightarrow> find_command cid db = Some c \<Longrightarrow> cmd_state c = CommandStateQueued \<Longrightarrow>
   cid \<notin> slt_command_id ` set (exec_command_slots db)"
  by (auto simp: commands_wf_def list_all_iff slot_ok_def split: option.splits)

lemma next_sequence_runs:
  "events_ok c (command_events cid db) \<Longrightarrow>
   nextEventSequenceOnConnection cid db = Inr (int (length (command_events cid db)) + 1)"
  by (simp add: nextEventSequenceOnConnection_def events_ok_def numbered_max Let_def)

lemma event_insert_runs:
  assumes wf: "commands_wf db" and c: "find_command cid db = Some c"
    and n: "n = int (length (command_events cid db)) + 1" and ev: "event_valid (event_row_of cid n ty p k now)"
  shows "event_constraints (event_row_of cid n ty p k now) db"
proof -
  have ok: "events_ok c (command_events cid db)" by (rule find_command_events [OF wf c])
  have "event_key (event_row_of cid n ty p k now) \<notin> event_key ` set (exec_command_events db)"
  proof
    assume "event_key (event_row_of cid n ty p k now) \<in> event_key ` set (exec_command_events db)"
    then obtain e where "e \<in> set (command_events cid db)" "evt_sequence e = n"
      by (auto simp: event_key_def command_events_def)
    then show False using numbered_bounds [of evt_sequence "command_events cid db" e] ok n by (simp add: events_ok_def)
  qed
  moreover have "ty \<in> set command_event_types" "0 < n" "0 \<le> k"
    using ev by (auto simp: event_valid_def validateStoredCommandEvent_def validCommandEventType_def
        command_event_types_def event_row_of_def split: if_splits)
  moreover have "cid \<in> cmd_command_id ` set (exec_commands db)" using c find_command_row [OF wf] by force
  ultimately show ?thesis by (simp add: event_constraints_def) (simp add: event_row_of_def)
qed

lemma readable_running:
  assumes "readable_command c" "valid_time now"
  shows "readable_command (set_running now c)"
  using assms
  by (auto simp: readable_command_def command_check_def set_running_def decode_command_row_def is_ok_iff tx_simps
      split: if_splits)

lemma scheduler_host_nonempty: "sql_nonempty schedulerHostKey"
  by (simp add: schedulerHostKey_def sql_nonempty_def NUL_def)

lemma transitionSession_runs:
  assumes wf: "sessions_wf db" and row: "find_session sid db = Some row" "readable_session row"
    and edge: "SessionState_CanTransitionTo (ses_state row) next_state"
    and reason: "reason \<noteq> []" "length reason \<le> 512" "\<not> has_nul reason"
  shows "\<exists>db'. transitionSessionOnConnection sid next_state reason now db = Inr ((), db')"
proof -
  let ?f = "\<lambda>r. r\<lparr>ses_state := next_state, ses_updated_at := formatStoredTime now\<rparr>"
  have valid: "SessionState_Valid next_state" using SessionState_CanTransitionTo_valid [OF edge] by simp
  have chk: "session_check (?f row)"
    using check_updated [of row next_state, where g = "ses_runtime_generation row"
        and rv = "ses_source_resolved_revision row" and now = now] row(2) valid by (simp add: readable_session_def)
  then obtain db' where db': "move_session sid (ses_state row) next_state ?f reason now db = Inr ((), db')"
    using move_session_run [OF wf row(1) refl edge, of ?f reason now] reason by auto
  have "ValidateSessionTransition (ses_state row) next_state = Inr ()" "validateLifecycleReason reason = Inr reason"
    using edge reason by (simp_all add: validateLifecycleReason_def)
  note ok = this
  show ?thesis
    using row(1) db' by (simp add: transitionSessionOnConnection_def tx_bind_def tx_query_def select_session_def ok Let_def)
qed

lemma start_command_runs:
  assumes wf: "store_wf db" and c: "find_command cid db = Some c" "cmd_state c = CommandStateQueued" "readable_command c"
    and row: "find_session sid db = Some row" "ses_state row = SessionStateReady" "readable_session row"
    and now: "valid_time now"
  shows "\<exists>r. start_command None cid sid candidate now db = Inr r"
proof -
  have cwf: "commands_wf db" and swf: "sessions_wf db" using wf by (simp_all add: store_wf_def)
  have mem: "c \<in> set (exec_commands db)" "cmd_command_id c = cid" using c(1) find_command_row [OF cwf] by auto
  let ?ev = "event_row_of cid 2 ''command_started'' [] 0 now"
  let ?db1 = "exec_command_slots_update (\<lambda>rows. rows @ [new_slot cid now]) db"
  have slot: "slot_constraints (new_slot cid now) db"
    using queued_no_slot [OF cwf c(1,2)] mem
    by (auto simp: slot_constraints_def slot_check_def new_slot_def scheduler_host_nonempty)
  have evs: "command_events cid ?db1 = command_events cid db" by (simp add: command_events_def)
  have ok: "events_ok c (command_events cid db)" by (rule find_command_events [OF cwf c(1)])
  then have len: "length (command_events cid db) = 1" using c(2) by (simp add: events_ok_def)
  have seq: "nextEventSequenceOnConnection cid ?db1 = Inr 2"
    using next_sequence_runs [OF ok] len by (simp add: nextEventSequenceOnConnection_def evs)
  have valid: "event_valid ?ev"
    by (simp add: event_valid_def validateStoredCommandEvent_def validCommandEventType_def event_row_of_def)
  have ins: "insertCommandEventOnConnection cid 2 ''command_started'' [] 0 now ?db1 =
      Inr ((), exec_command_events_update (\<lambda>rows. rows @ [?ev]) ?db1)"
    using valid event_insert_runs [OF cwf c(1) _ valid] len
    by (simp add: tx_simps event_constraints_def)
  have only: "r = c" if "r \<in> set (exec_commands db)" "cmd_command_id r = cid" for r
    using that mem cwf distinct_key_eq [of cmd_command_id "exec_commands db"] by (auto simp: commands_wf_def)
  have upd: "list_all (\<lambda>r. cmd_command_id r = cid \<and> cmd_state r = CommandStateQueued \<longrightarrow>
      command_check (set_running now r)) (exec_commands db)"
    using only readable_running [OF c(3) now] by (auto simp: list_all_iff readable_command_def)
  let ?db2 = "claimed_db cid 2 now db"
  have "sessions_wf ?db2" "find_session sid ?db2 = Some row"
    using swf row(1) sessions_wf_cong [of ?db2 db] by (simp_all add: find_session_def)
  then obtain db3 where ses: "transitionSessionOnConnection sid SessionStateBusy ''command_started'' now ?db2 = Inr ((), db3)"
    using transitionSession_runs [of ?db2 sid row SessionStateBusy "''command_started''" now] row
    by (auto simp: SessionState_CanTransitionTo_def has_nul_def NUL_def)
  have "find_command cid db3 = Some (set_running now c)"
    using session_step_frame(1) [OF disjI2 [OF ses]] c(1,2)
      find_update_rows_same [of cmd_command_id "set_running now" cid "exec_commands db" c "\<lambda>r. cmd_state r = CommandStateQueued"]
    by (simp add: find_command_def)
  then have "\<exists>rc. readCommandOnConnection cid db3 = Inr rc"
    using readable_running [OF c(3) now] mem(2) by (auto simp: readCommandOnConnection_def readable_command_def is_ok_iff)
  then show ?thesis
    using slot seq ins upd ses
    by (auto simp: start_command_def new_slot_def [symmetric] set_running_def [symmetric] tx_bind_def sql_insert_def
        sql_update_def claimed_db_def)
qed

text \<open>The loop stops at a candidate that is not passed over.\<close>

lemma claim_first_finds:
  assumes "\<exists>k \<in> set cands. \<not> passed_over None db k"
    and "\<forall>k \<in> set cands. cand_commandID k \<noteq> [] \<and> cand_sessionID k \<noteq> []"
    and "\<forall>k \<in> set cands. case nextEligibleCommandOnConnection (cand_sessionID k) db of
       Inl e \<Rightarrow> e = ErrCommandNotEligible
     | Inr rc \<Rightarrow> cr_CommandID rc = cand_commandID k \<longrightarrow>
         (\<exists>r. start_command None (cand_commandID k) (cand_sessionID k) rc now db = Inr r)"
  shows "\<exists>r. claim_first None now cands db = Inr r"
  using assms
proof (induction cands)
  case Nil
  then show ?case by simp
next
  case (Cons k rest)
  show ?case
  proof (cases "passed_over None db k")
    case True
    then have "claim_first None now (k # rest) db = claim_first None now rest db"
      using Cons.prems(2) by (auto simp: passed_over_def plan_allows_def tx_steps new_id_run split: sum.splits)
    moreover have "\<exists>k \<in> set rest. \<not> passed_over None db k" using Cons.prems(1) True by auto
    ultimately show ?thesis using Cons.IH Cons.prems(2,3) by auto
  next
    case False
    then obtain rc where rc: "nextEligibleCommandOnConnection (cand_sessionID k) db = Inr rc"
      "cr_CommandID rc = cand_commandID k"
      using Cons.prems(3) by (auto simp: passed_over_def plan_allows_def split: sum.splits)
    then show ?thesis using Cons.prems(2,3) by (auto simp: tx_steps new_id_run)
  qed
qed

lemma scheduler_candidates_runs:
  assumes "\<forall>c \<in> set (exec_commands db). readable_command c"
  shows "\<exists>cands. scheduler_candidates handoff db = Inr cands"
proof -
  have "\<forall>r \<in> set rows. \<exists>x. f r = Inr x \<Longrightarrow> \<exists>xs. read_all f rows = Inr xs"
    for f :: "command_row \<Rightarrow> schedulerCandidate result" and rows
    by (induction rows) auto
  then have "\<exists>cs. read_all (\<lambda>c.
         res_bind (res_as ErrCommandOrderCorrupt (parseStoredTime (cmd_created_at c))) (\<lambda>createdAt.
         Inr (candidate_of createdAt c)))
       (filter (\<lambda>c. scheduler_eligible db c \<and> handed_off handoff db c) (exec_commands db)) = Inr cs"
    using assms readable_ids(4) by (simp add: tx_simps)
  then show ?thesis by (auto simp: scheduler_candidates_def candidate_of_def)
qed

lemma candidate_starts:
  assumes wf: "store_wf db" and cmds: "\<forall>c \<in> set (exec_commands db). readable_command c"
    and sess: "\<forall>row \<in> set (exec_sessions db). readable_session row" and now: "valid_time now"
    and d: "scheduler_eligible db d" "k = candidate_of t d"
  shows "case nextEligibleCommandOnConnection (cand_sessionID k) db of
      Inl e \<Rightarrow> e = ErrCommandNotEligible
    | Inr rc \<Rightarrow> cr_CommandID rc = cand_commandID k \<longrightarrow>
        (\<exists>r. start_command None (cand_commandID k) (cand_sessionID k) rc now db = Inr r)"
proof -
  have cwf: "commands_wf db" and swf: "sessions_wf db" using wf by (simp_all add: store_wf_def)
  obtain row where row: "find_session (cand_sessionID k) db = Some row" "ses_state row = SessionStateReady"
    using d by (auto simp: scheduler_eligible_def split: option.splits)
  then have readable: "readable_session row" using sess find_session_row [OF swf] by auto
  have "\<exists>r. start_command None (cand_commandID k) (cand_sessionID k) rc now db = Inr r"
    if rc: "nextEligibleCommandOnConnection (cand_sessionID k) db = Inr rc" "cr_CommandID rc = cand_commandID k" for rc
  proof -
    obtain c where c: "find_command (cr_CommandID rc) db = Some c" "eligible (cand_sessionID k) db c"
      by (rule nextEligible_Inr [OF cwf rc(1)])
    then have "readable_command c" using cmds find_command_row [OF cwf] by auto
    then show ?thesis
      using start_command_runs [OF wf _ _ _ row readable now] c rc(2) by (simp add: eligible_def)
  qed
  then show ?thesis using next_readable [OF wf cmds row(1)] by (simp split: sum.splits)
qed

lemma start_next_runs:
  assumes wf: "store_wf db" and noplan: "exec_controlled_restart_plans db = []"
    and room: "live_slots db < limit" and now: "valid_time now"
    and cmds: "\<forall>c \<in> set (exec_commands db). readable_command c"
    and sess: "\<forall>row \<in> set (exec_sessions db). readable_session row"
    and d: "claimable handoff db d"
  shows "\<exists>r. start_next_body limit handoff now db = Inr r"
proof -
  have cwf: "commands_wf db" using wf by (simp add: store_wf_def)
  obtain cands where cands: "scheduler_candidates handoff db = Inr cands"
    using scheduler_candidates_runs [OF cmds] by blast
  have "\<exists>r. claim_first None now cands db = Inr r"
  proof (rule claim_first_finds)
    obtain u where "parseStoredTime (cmd_created_at d) = Inr u"
      using d cmds readable_ids(4) by (auto simp: claimable_def)
    then have "candidate_of u d \<in> set cands" using scheduler_candidates_Inr(2) [OF cands] d by (auto simp: claimable_def)
    then show "\<exists>k \<in> set cands. \<not> passed_over None db k" using claimable_not_passed [OF cwf d] by blast
    show "\<forall>k \<in> set cands. cand_commandID k \<noteq> [] \<and> cand_sessionID k \<noteq> []"
      using scheduler_candidates_Inr(2) [OF cands] cmds readable_ids by auto
    show "\<forall>k \<in> set cands. case nextEligibleCommandOnConnection (cand_sessionID k) db of
        Inl e \<Rightarrow> e = ErrCommandNotEligible
      | Inr rc \<Rightarrow> cr_CommandID rc = cand_commandID k \<longrightarrow>
          (\<exists>r. start_command None (cand_commandID k) (cand_sessionID k) rc now db = Inr r)"
      using candidate_starts [OF wf cmds sess now] scheduler_candidates_Inr(2) [OF cands] by blast
  qed
  then show ?thesis
    using noplan room cands
    by (simp add: start_next_body_def tx_steps read_plan_for_claim_def readControlledRestartPlanOnConnection_def)
qed

lemma startNext_runs:
  assumes "\<exists>r. start_next_body (claim_limit n) handoff now (st_db s) = Inr r" "1 \<le> claim_limit n"
  shows "\<exists>rc s'. startNextEligibleCommand None now s n handoff = (Inr rc, s')"
proof -
  obtain rc ev db' where "start_next_body (claim_limit n) handoff now (st_db s) = Inr ((rc, ev), db')"
    using assms(1) by auto
  then show ?thesis
    using assms(2) by (cases ev) (auto simp: startNextEligibleCommand_def claim_limit_def [symmetric] Let_def
        withImmediateTransaction_def publish_committed_def)
qed

text \<open>C11. The queue makes progress: with a free slot, no restart plan and readable rows, a claim
  succeeds whenever some command is claimable.\<close>

theorem scheduler_progress:
  assumes wf: "store_wf (st_db s)" and noplan: "exec_controlled_restart_plans (st_db s) = []"
    and room: "live_slots (st_db s) < claim_limit n" and now: "valid_time now"
    and cmds: "\<forall>c \<in> set (exec_commands (st_db s)). readable_command c"
    and sess: "\<forall>row \<in> set (exec_sessions (st_db s)). readable_session row"
    and d: "claimable handoff (st_db s) d"
  shows "\<exists>rc s'. startNextEligibleCommand None now s n handoff = (Inr rc, s')"
proof (rule startNext_runs)
  show "1 \<le> claim_limit n" using room by (simp add: live_slots_def)
  show "\<exists>r. start_next_body (claim_limit n) handoff now (st_db s) = Inr r"
    by (rule start_next_runs [OF wf noplan room now cmds sess d])
qed

section \<open>Sample claims\<close>

lemma queued_claimable: "claimable False queued_db queued_row"
  by (auto simp: claimable_def scheduler_eligible_def handed_off_def eligible_def session_commands_def queued_db_def
      find_session_def ready_db_def intro!: exI [of _ "[]"])

lemma sample_claim: "\<exists>rc s'. startNextEligibleCommand None sample_now (NewAuthorityStore queued_db) 0 False = (Inr rc, s')"
proof -
  have "\<exists>r. start_next_body 4 False sample_now queued_db = Inr r"
    by (rule start_next_runs [OF sample_store_wf(1) _ _ sample_times(1) _ _ queued_claimable])
      (simp_all add: queued_db_def ready_db_def empty_database_def live_slots_def queued_readable ready_readable)
  then show ?thesis
    using startNext_runs [of 0 False sample_now "NewAuthorityStore queued_db"]
    by (simp add: NewAuthorityStore_def claim_limit_def DefaultRunningCommandLimit_def)
qed

theorem claim_oldest_first_witness:
  "\<exists>rc s' c t. startNextEligibleCommand None sample_now (NewAuthorityStore queued_db) 0 False = (Inr rc, s') \<and>
     find_command (cr_CommandID rc) queued_db = Some c \<and>
     (\<forall>d. claimable False queued_db d \<longrightarrow>
        (\<exists>u. parseStoredTime (cmd_created_at d) = Inr u \<and> queue_place t c \<le> queue_place u d))"
proof -
  obtain rc s' where run: "startNextEligibleCommand None sample_now (NewAuthorityStore queued_db) 0 False = (Inr rc, s')"
    using sample_claim by blast
  have "st_db (NewAuthorityStore queued_db) = queued_db" by (simp add: NewAuthorityStore_def)
  moreover have "exec_controlled_restart_plans queued_db = []" by (simp add: queued_db_def ready_db_def empty_database_def)
  ultimately show ?thesis using claim_oldest_first [OF _ _ run] sample_store_wf(1) run by metis
qed

theorem claim_effect_exact_witness:
  "\<exists>rc s'. startNextEligibleCommand None sample_now (NewAuthorityStore queued_db) 0 False = (Inr rc, s') \<and>
     cr_State rc = CommandStateRunning \<and> live_slots (st_db s') = 1"
proof -
  obtain rc s' where run: "startNextEligibleCommand None sample_now (NewAuthorityStore queued_db) 0 False = (Inr rc, s')"
    using sample_claim by blast
  have "live_slots queued_db = 0" "exec_controlled_restart_plans queued_db = []"
    by (simp_all add: live_slots_def queued_db_def ready_db_def empty_database_def)
  then show ?thesis
    using claim_effect_exact [OF _ _ run] sample_store_wf(1) run
    by (auto simp: NewAuthorityStore_def claimed_as_def live_slots_def)
qed

theorem scheduler_progress_witness:
  "\<exists>rc s'. startNextEligibleCommand None sample_now (NewAuthorityStore queued_db) 4 False = (Inr rc, s')"
  by (rule scheduler_progress [of "NewAuthorityStore queued_db", OF _ _ _ sample_times(1), where d = queued_row])
    (use queued_claimable sample_store_wf(1) in \<open>simp_all add: NewAuthorityStore_def claim_limit_def\<close>,
     simp_all add: queued_db_def ready_db_def empty_database_def live_slots_def queued_readable ready_readable)

text \<open>An authority with a prepared plan: four lost pairs and the queued one-off it preserves.\<close>

definition plan_ids :: "(string \<times> string) list" where
  "plan_ids = [(''s2'', ''c2''), (''s3'', ''c3''), (''s4'', ''c4''), (''s5'', ''c5'')]"

definition waiting_job :: job_row where
  "waiting_job = \<lparr>job_job_id = ''j1'', job_session_id = ''s1'', job_command_id = ''c1'',
     job_controller_type = ControllerTypeLocalUser, job_controller_id = ''u'', job_ingress = IngressLocalUnix,
     job_target_kind = TargetKindLocal, job_target_profile = ''p'', job_environment = ''e'',
     job_source_mode = SourceModeEmpty, job_source_repository_alias = [], job_source_requested_revision = [],
     job_source_path = [], job_hash_version = 1, job_hash = ch_digest sample_hash, job_idempotency_key = ''k'',
     job_payload_json = [], job_script_bytes = ''true'', job_script_sha256 = sha256_Sum256 ''true'',
     job_phase = JobPhaseAwaitingCommand, job_command_state = Some CommandStateQueued, job_exit_code = None,
     job_final_event_sequence = None, job_output_truncated = 0, job_output_complete = 0,
     job_output_unavailable_reason = [], job_teardown_state = JobTeardownPending, job_teardown_reason = [],
     job_created_at = formatStoredTime sample_now, job_updated_at = formatStoredTime sample_now\<rparr>"

definition plan_db :: database where
  "plan_db = queued_db\<lparr>
     exec_sessions := ready_row # map (\<lambda>(sid, _). ready_row\<lparr>ses_session_id := sid, ses_state := SessionStateLost\<rparr>) plan_ids,
     exec_session_lifecycle := exec_session_lifecycle ready_db @
       map (\<lambda>(sid, _). lifecycle_row_of sid 1 None SessionStateCreating ''r'' sample_now) plan_ids @
       map (\<lambda>(sid, _). lifecycle_row_of sid 2 (Some SessionStateCreating) SessionStateLost ''r'' sample_now) plan_ids,
     exec_capacity_reservations := map (\<lambda>sid. reservation_row_of sid sample_now) (''s1'' # map fst plan_ids),
     exec_commands := queued_row # map (\<lambda>(sid, cid). queued_row\<lparr>cmd_session_id := sid, cmd_command_id := cid,
       cmd_state := CommandStateLost, cmd_final_event_sequence := Some 2\<rparr>) plan_ids,
     exec_command_events := map (\<lambda>cid. event_row_of cid 1 ''command_queued'' [] 0 sample_now) (''c1'' # map snd plan_ids) @
       map (\<lambda>(_, cid). event_row_of cid 2 ''command_lost'' [] 0 sample_now) plan_ids,
     exec_command_slots := map (\<lambda>(_, cid). new_slot cid sample_now) plan_ids,
     exec_jobs := [waiting_job],
     exec_controlled_restart_plans := [\<lparr>crp_job_id = ''j1'', crp_session_id = ''s1'', crp_command_id = ''c1'',
       crp_runtime_generation = ''gen-1'', crp_prepared_at = formatStoredTime sample_now,
       crp_activation_state = ''prepared'', crp_activated_at = None\<rparr>],
     exec_controlled_restart_plan_lost_pairs :=
       map (\<lambda>(i, sid, cid). \<lparr>clp_ordinal = i, clp_session_id = sid, clp_command_id = cid\<rparr>)
         (zip [1, 2, 3, 4] plan_ids)\<rparr>"

lemma plan_sessions_wf: "sessions_wf plan_db"
  by (simp add: plan_db_def plan_ids_def ready_db_def sample_wf_simps)

lemma plan_commands_wf: "commands_wf plan_db"
  by (simp add: commands_wf_def plan_db_def plan_ids_def queued_db_def ready_db_def empty_database_def session_commands_def
      command_events_def numbered_def upt_conv_Cons events_ok_def event_valid_def validateStoredCommandEvent_def
      validCommandEventType_def isTerminalCommandEvent_def CommandState_IsTerminal_def event_row_of_def
      slot_ok_def find_command_def) auto

definition plan_pairs :: "LostRuntimeRecoveryPair list" where
  "plan_pairs = map (\<lambda>(sid, cid). \<lparr>lrp_SessionID = sid, lrp_CommandID = cid\<rparr>) plan_ids"

lemma plan_generation: "readControlledRestartQueuedOneOffRuntimeGeneration ''j1'' ''s1'' ''c1'' plan_db = Inr ''gen-1''"
  by (simp add: readControlledRestartQueuedOneOffRuntimeGeneration_def plan_db_def waiting_job_def find_session_def
      find_command_def valid_generation_def has_nul_def NUL_def ready_row_def session_row_of_def sample_create_def NewEmptySource_def)

lemma plan_pairs_read:
  "read_lost_pairs_from ''s1'' ''c1'' 1 (sort_key clp_ordinal (exec_controlled_restart_plan_lost_pairs plan_db)) = Inr plan_pairs"
  by (simp add: plan_db_def plan_ids_def plan_pairs_def new_id_run)

lemma plan_pairs_valid: "validateControlledRestartPlanPairs plan_pairs = Inr plan_pairs"
  by (simp add: validateControlledRestartPlanPairs_def validateLostRuntimeRecoveryPairs_def plan_pairs_def plan_ids_def
      new_id_run DefaultRunningCommandLimit_def pair_key_def)

lemma plan_pairs_known:
  "read_all (\<lambda>p. requireControlledRestartLostPairIdentity (lrp_SessionID p) (lrp_CommandID p) plan_db) plan_pairs =
     Inr [(), (), (), ()]"
  by (simp add: plan_pairs_def plan_ids_def requireControlledRestartLostPairIdentity_def find_command_def plan_db_def)

lemma plan_readable:
  "\<exists>plan. readControlledRestartPlanOnConnection plan_db = Inr plan \<and> \<not> cp_Activated plan"
proof -
  obtain row where row: "exec_controlled_restart_plans plan_db = [row]" "crp_job_id row = ''j1''" "crp_session_id row = ''s1''"
    "crp_command_id row = ''c1''" "crp_runtime_generation row = ''gen-1''"
    "crp_prepared_at row = formatStoredTime sample_now" "read_activation row = Inr (False, None)"
    by (simp add: plan_db_def read_activation_def)
  then show ?thesis
    using sample_times(1)
    by (simp add: readControlledRestartPlanOnConnection_def decode_plan_row_def new_id_run plan_generation plan_pairs_read
        plan_pairs_valid plan_pairs_known valid_generation_def has_nul_def NUL_def)
qed

theorem plan_holds_queue_witness:
  "\<exists>e. fst (startNextEligibleCommand None sample_now (NewAuthorityStore plan_db) 4 False) = Inl e"
proof -
  obtain plan where "readControlledRestartPlanOnConnection plan_db = Inr plan" "\<not> cp_Activated plan"
    using plan_readable by blast
  moreover have "length (exec_controlled_restart_plans plan_db) \<le> 1" by (simp add: plan_db_def)
  ultimately show ?thesis
    using plan_holds_queue [of "NewAuthorityStore plan_db" plan None sample_now 4 False] plan_sessions_wf plan_commands_wf
    by (cases "startNextEligibleCommand None sample_now (NewAuthorityStore plan_db) 4 False")
      (auto simp: NewAuthorityStore_def store_wf_def)
qed

end
