(* ===== verification/Command_Properties.thy ===== *)
theory Command_Properties
  imports Scheduler_Claims
begin

text \<open>
  What each command operation does on every branch: acceptance, output events and their replay,
  transitions, completion and the release of slots, and that the shortcut the code takes to number
  events agrees with reading them all.
\<close>

section \<open>Numbering events\<close>

lemma max_column_le: "(\<And>r. r \<in> set rows \<Longrightarrow> c r \<le> n) \<Longrightarrow> 0 \<le> n \<Longrightarrow> max_column c rows \<le> n"
  by (induction rows rule: rev_induct) auto

text \<open>Distinct positive numbers up to their count are all the numbers up to it.\<close>

lemma contiguous_iff_max:
  assumes "distinct (map c rows)" "\<And>r. r \<in> set rows \<Longrightarrow> 1 \<le> c r"
  shows "max_column c rows = int (length rows) \<longleftrightarrow> c ` set rows = {1..int (length rows)}"
proof
  assume max: "max_column c rows = int (length rows)"
  have "c ` set rows \<subseteq> {1..int (length rows)}"
    using assms(2) max_column_ge [of _ rows c] max by fastforce
  moreover have "card (c ` set rows) = length rows"
    using assms(1) distinct_card [of "map c rows"] by simp
  ultimately show "c ` set rows = {1..int (length rows)}" by (intro card_subset_eq) simp_all
next
  assume img: "c ` set rows = {1..int (length rows)}"
  show "max_column c rows = int (length rows)"
  proof (cases "rows = []")
    case False
    then have "1 \<le> int (length rows)" by (cases rows) simp_all
    then have "int (length rows) \<in> c ` set rows" unfolding img by simp
    then obtain r where "r \<in> set rows" "c r = int (length rows)" by auto
    then have "int (length rows) \<le> max_column c rows" using max_column_ge [of r rows c] by simp
    moreover have "max_column c rows \<le> int (length rows)" using img by (intro max_column_le) auto
    ultimately show ?thesis by simp
  qed simp
qed

text \<open>The shortcut of \<open>nextEventSequenceOnConnection\<close>, which compares the largest event number
  with the event count instead of loading the events, is equivalent to inspecting every event: on
  any rows the table accepts (numbers positive and unique per command) it yields the next number
  exactly when the numbers present are \<open>1\<close> to the count without a gap.\<close>

theorem next_sequence_shortcut:
  assumes "distinct (map evt_sequence (command_events cid db))"
    and "\<forall>e \<in> set (command_events cid db). 1 \<le> evt_sequence e"
  shows "nextEventSequenceOnConnection cid db = Inr n \<longleftrightarrow>
    command_events cid db \<noteq> [] \<and> n = int (length (command_events cid db)) + 1 \<and>
    evt_sequence ` set (command_events cid db) = {1..int (length (command_events cid db))}"
  using contiguous_iff_max [OF assms(1)] assms(2)
  by (auto simp: nextEventSequenceOnConnection_def Let_def split: if_splits)

theorem next_sequence_shortcut_witness: "nextEventSequenceOnConnection ''c1'' lost_db = Inr 4"
  by (subst next_sequence_shortcut)
    (auto simp: command_events_def lost_db_def)

section \<open>Reading commands\<close>

text \<open>C34. A command the store returns is well formed: its identifiers are not empty, its ordinal and
  timeout are positive, its state is one of the command states, its request hash is a valid versioned
  digest, and its script is valid, within the size limit and matches its stored digest.\<close>

theorem read_command_valid:
  assumes "readCommandOnConnection cid db = Inr rc"
  shows "cr_CommandID rc = cid \<and> cid \<noteq> [] \<and> cr_SessionID rc \<noteq> [] \<and> 1 \<le> cr_Ordinal rc \<and> 0 < cr_Timeout rc \<and>
    CommandState_Valid (cr_State rc) \<and> valid_hash (cr_RequestHash rc) \<and>
    ValidateScriptUTF8 (cr_ScriptBytes rc) = Inr () \<and> cr_ScriptSHA256 rc = sha256_Sum256 (cr_ScriptBytes rc) \<and>
    length (cr_OutputUnavailableReason rc) \<le> 128 \<and> pred_option (\<lambda>n. 1 \<le> n) (cr_IntentOrdinal rc)"
  using assms
  by (auto simp: readCommandOnConnection_def decode_command_row_def tx_simps new_id_run valid_hash_def
      split: option.splits if_splits)

theorem read_command_valid_witness:
  "\<exists>rc. readCommandOnConnection ''c1'' queued_db = Inr rc \<and> 0 < cr_Timeout rc"
proof -
  obtain rc where "readCommandOnConnection ''c1'' queued_db = Inr rc"
    using queued_readable by (auto simp: readCommandOnConnection_def readable_command_def is_ok_iff)
  then show ?thesis using read_command_valid [of "''c1''" queued_db rc] by blast
qed

section \<open>Transitions\<close>

lemma readable_transition:
  assumes "readable_command c" "valid_time now" "CommandState_Valid (ct_NextState input)" "1 \<le> n"
  shows "readable_command (transition_columns input n now c)"
proof -
  have "\<not> has_nul (terminalOutputUnavailableReason input)" "length (terminalOutputUnavailableReason input) \<le> 128"
    by (simp_all add: terminalOutputUnavailableReason_def outputUnavailableCaptureBoundaryUnconfirmed_def has_nul_def NUL_def)
  then show ?thesis
    using assms
    by (auto simp: readable_command_def command_check_def transition_columns_def terminal_columns_def boolToSQLite_def
        decode_command_row_def is_ok_iff tx_simps split: if_splits)
qed

lemma transition_event_valid:
  assumes "commandEventTypeForState st = Some ty" "2 \<le> n"
  shows "event_valid (event_row_of cid n ty [] 0 now)"
  using assms by (cases st) (auto simp: event_valid_def validateStoredCommandEvent_def validCommandEventType_def event_row_of_def)

text \<open>What a legal transition does.\<close>

definition transitioned :: "CommandTransition \<Rightarrow> time \<Rightarrow> database \<Rightarrow> database" where
  "transitioned input now db =
     (let n = int (length (command_events (ct_CommandID input) db)) + 1 in
      exec_commands_update (update_rows (\<lambda>r. cmd_command_id r = ct_CommandID input) (transition_columns input n now))
        (exec_command_events_update (\<lambda>rows. rows @ transition_events input n now) db))"

lemma transition_runs:
  assumes wf: "commands_wf db" and c: "find_command (ct_CommandID input) db = Some c" "readable_command c"
    and edge: "CommandState_CanTransitionTo (cmd_state c) (ct_NextState input)" and now: "valid_time now"
  shows "\<exists>rc ev. transition_command_body input now db = Inr ((rc, ev), transitioned input now db) \<and>
    cr_State rc = ct_NextState input \<and> cr_CommandID rc = ct_CommandID input"
proof -
  let ?cid = "ct_CommandID input"
  define n where "n = int (length (command_events ?cid db)) + 1"
  let ?f = "transition_columns input n now"
  let ?db1 = "exec_command_events_update (\<lambda>rows. rows @ transition_events input n now) db"
  let ?db2 = "exec_commands_update (update_rows (\<lambda>r. cmd_command_id r = ?cid) ?f) ?db1"
  have ok: "events_ok c (command_events ?cid db)" by (rule find_command_events [OF wf c(1)])
  then have n2: "2 \<le> n" by (cases "command_events ?cid db") (simp_all add: events_ok_def n_def)
  note e = command_edge [OF edge]
  have readable: "readable_command (?f c)" using readable_transition [OF c(2) now e(2)] n2 by simp
  have only: "r = c" if "r \<in> set (exec_commands db)" "cmd_command_id r = ?cid" for r
    using that c(1) find_command_row [OF wf] distinct_key_eq [of cmd_command_id "exec_commands db" r c] wf
    by (simp add: commands_wf_def)
  have upd: "update_command ?cid ?f ?db1 = Inr (length (filter (\<lambda>r. cmd_command_id r = ?cid) (exec_commands db)), ?db2)"
    using only readable by (auto simp: update_command_def sql_update_def list_all_iff readable_command_def)
  have "find_command ?cid ?db2 = Some (?f c)"
    using find_update_rows_keeps [of cmd_command_id ?f ?cid "exec_commands db" c] c(1) find_command_row [OF wf]
    by (simp add: find_command_def transition_columns_def)
  moreover have "cmd_command_id (?f c) = ?cid" using c(1) find_command_row [OF wf] by (simp add: transition_columns_def)
  ultimately obtain rc where rc: "readCommandOnConnection ?cid ?db2 = Inr rc" "cr_State rc = ct_NextState input" "cr_CommandID rc = ?cid"
    using readable by (auto simp: readable_command_def is_ok_iff readCommandOnConnection_def
        decode_command_row_def tx_simps split: if_splits)
  have sel: "select_command ?cid db = Inr c" using c(1) by (simp add: tx_simps)
  have step: "ValidateCommandTransition (cmd_state c) (ct_NextState input) = Inr ()" using edge by simp
  have seq: "nextEventSequenceOnConnection ?cid db = Inr n" using next_sequence_runs [OF ok] by (simp add: n_def)
  have "\<exists>ev. transition_command_body input now db = Inr ((rc, ev), ?db2)"
  proof (cases "commandEventTypeForState (ct_NextState input)")
    case None
    then have cancel: "ct_NextState input = CommandStateCancelling" using event_type_exists e by fastforce
    then have "?f = (\<lambda>r. r\<lparr>cmd_state := CommandStateCancelling, cmd_updated_at := formatStoredTime now\<rparr>)" "?db1 = db"
      by (simp_all add: fun_eq_iff transition_columns_def transition_events_def)
    then show ?thesis using upd rc(1) sel cancel step [unfolded cancel]
      by (simp add: transition_command_body_def Let_def tx_bind_def del: ValidateCommandTransition_Inr)
  next
    case (Some ty)
    then have ev: "insertCommandEventOnConnection ?cid n ty [] 0 now db = Inr ((), ?db1)"
      using transition_event_valid [OF Some n2] event_insert_runs [OF wf c(1) n_def]
      by (simp add: tx_simps transition_events_def)
    have "ct_NextState input \<noteq> CommandStateCancelling" using Some by auto
    moreover have "(if CommandState_IsTerminal (ct_NextState input) then update_command ?cid (terminal_columns input n now)
        else update_command ?cid (\<lambda>r. r\<lparr>cmd_state := ct_NextState input, cmd_updated_at := formatStoredTime now\<rparr>)) =
        update_command ?cid ?f" by (simp add: transition_columns_def [abs_def])
    ultimately show ?thesis
      using Some upd rc(1) sel seq ev by (simp add: transition_command_body_def Let_def tx_bind_def step)
  qed
  then show ?thesis using rc by (auto simp: transitioned_def n_def [symmetric] Let_def)
qed

text \<open>A command changes state exactly along the edges of the command table: a legal transition
  updates its row, appends the event of the new state with the next number (none for
  \<open>cancelling\<close>) and returns the new snapshot; any other transition, and every transition of
  a terminal command, is refused and nothing changes.\<close>

theorem command_transition_exact:
  assumes wf: "store_wf (st_db s)" and c: "find_command (ct_CommandID input) (st_db s) = Some c" "readable_command c"
    and next_ok: "CommandState_Valid (ct_NextState input)" and now: "valid_time now"
  shows "if CommandState_CanTransitionTo (cmd_state c) (ct_NextState input)
    then \<exists>rc s'. TransitionCommand None now s input = (Inr rc, s') \<and> st_db s' = transitioned input now (st_db s) \<and>
      cr_CommandID rc = ct_CommandID input \<and> cr_State rc = ct_NextState input
    else TransitionCommand None now s input = (Inl ErrCommandTransition, s)"
proof -
  have cwf: "commands_wf (st_db s)" using wf by (simp add: store_wf_def)
  have "cmd_command_id c = ct_CommandID input" using c(1) find_command_row [OF cwf] by simp
  then have "ct_CommandID input \<noteq> []" using readable_ids(1) [OF c(2)] by simp
  note ident = new_id_run(2) [OF this]
  show ?thesis
  proof (cases "CommandState_CanTransitionTo (cmd_state c) (ct_NextState input)")
    case True
    then obtain rc ev where "transition_command_body input now (st_db s) = Inr ((rc, ev), transitioned input now (st_db s))"
      "cr_State rc = ct_NextState input" "cr_CommandID rc = ct_CommandID input"
      using transition_runs [OF cwf c _ now] by blast
    then show ?thesis
      using True next_ok by (cases ev) (auto simp: TransitionCommand_def ident withImmediateTransaction_def publish_committed_def)
  next
    case False
    then obtain e where "ValidateCommandTransition (cmd_state c) (ct_NextState input) = Inl e"
      using ValidateCommandTransition_Inr by (cases "ValidateCommandTransition (cmd_state c) (ct_NextState input)") blast+
    then have "transition_command_body input now (st_db s) = Inl ErrCommandTransition"
      using c(1) by (simp add: transition_command_body_def Let_def tx_bind_def tx_query_def select_command_def)
    then show ?thesis
      using False next_ok
      by (simp add: TransitionCommand_def ident withImmediateTransaction_def publish_committed_def count_error_def)
  qed
qed

theorem command_transition_exact_witness:
  "\<exists>rc s'. TransitionCommand None sample_now (NewAuthorityStore queued_db) \<lparr>ct_CommandID = ''c1'',
      ct_NextState = CommandStateCancelled, ct_ExitCode = None, ct_OutputComplete = True, ct_OutputTruncated = False\<rparr> =
     (Inr rc, s') \<and> cr_State rc = CommandStateCancelled"
  using command_transition_exact [of "NewAuthorityStore queued_db" "\<lparr>ct_CommandID = ''c1'', ct_NextState = CommandStateCancelled,
      ct_ExitCode = None, ct_OutputComplete = True, ct_OutputTruncated = False\<rparr>" queued_row sample_now]
    sample_store_wf(1) queued_readable sample_times(1)
  by (auto simp: NewAuthorityStore_def CommandState_CanTransitionTo_def)

section \<open>Events and their replay\<close>

text \<open>The record a stored event is returned as.\<close>

definition event_as :: "event_row \<Rightarrow> CommandEventRecord \<Rightarrow> bool" where
  "event_as e ev \<longleftrightarrow>
     cer_CommandID ev = evt_command_id e \<and> cer_Sequence ev = evt_sequence e \<and> cer_Type ev = evt_type e \<and>
     cer_Payload ev = evt_payload e \<and> cer_ByteCount ev = evt_byte_count e \<and>
     parseStoredTime (evt_occurred_at e) = Inr (cer_OccurredAt ev)"

lemma decode_event_runs:
  assumes "evt_command_id e = cid" "evt_sequence e = n" "event_valid e" "event_as e ev"
  shows "decode_event_row cid n e = Inr ev"
proof -
  have "validateStoredCommandEvent (evt_type e) n (evt_payload e) (evt_byte_count e) = Inr ()"
    using assms(2,3) by (simp add: event_valid_def)
  moreover then have "validCommandEventType (evt_type e)" by (auto simp: validateStoredCommandEvent_def split: if_splits)
  ultimately show ?thesis using assms by (simp add: decode_event_row_def event_as_def)
qed

lemma read_events_runs:
  "list_all2 event_as rows evs \<Longrightarrow> list_all event_valid rows \<Longrightarrow> \<forall>e \<in> set rows. evt_command_id e = cid \<Longrightarrow>
   map evt_sequence rows = map (\<lambda>i. n + int i) [0..<length rows] \<Longrightarrow> read_events_from cid n rows = Inr evs"
proof (induction rows evs arbitrary: n rule: list_all2_induct)
  case Nil
  then show ?case by simp
next
  case (Cons e rows ev evs)
  have "evt_sequence e # map evt_sequence rows = n # map (\<lambda>i. n + int i) [1..<Suc (length rows)]"
    using Cons.prems(3) by (simp add: upt_conv_Cons del: upt_Suc)
  moreover have "map (\<lambda>i. n + int i) [1..<Suc (length rows)] = map (\<lambda>i. (n + 1) + int i) [0..<length rows]"
    by (simp add: map_Suc_upt [symmetric] comp_def add.assoc del: upt_Suc map_Suc_upt)
  ultimately have "evt_sequence e = n" "map evt_sequence rows = map (\<lambda>i. (n + 1) + int i) [0..<length rows]" by auto
  then show ?case using Cons.IH Cons.prems Cons.hyps(1) decode_event_runs [of e cid n ev] by simp
qed

lemma numbered_nth:
  assumes "numbered c rows" "i < length rows"
  shows "c (rows ! i) = int i + 1"
proof -
  have "map c rows ! i = map int [1..<Suc (length rows)] ! i" using assms(1) by (simp only: numbered_def)
  then show ?thesis using assms(2) by (simp del: upt_Suc)
qed

lemma numbered_drop:
  "numbered c rows \<Longrightarrow> map c (drop k rows) = map (\<lambda>i. int k + 1 + int i) [0..<length rows - k]"
  by (rule nth_equalityI) (simp_all add: numbered_nth)

lemma numbered_drop_upto:
  assumes "numbered c rows" "0 \<le> n"
  shows "map c (drop (nat n) rows) = [n + 1..int (length rows)]"
proof (rule nth_equalityI)
  show "length (map c (drop (nat n) rows)) = length [n + 1..int (length rows)]" using assms(2) by simp
  show "map c (drop (nat n) rows) ! i = [n + 1..int (length rows)] ! i" if "i < length (map c (drop (nat n) rows))" for i
    using that assms(2) numbered_nth [OF assms(1), of "nat n + i"] nth_upto [of "n + 1" i "int (length rows)"]
    by simp
qed

lemma numbered_after:
  assumes "numbered c rows" "0 \<le> n"
  shows "sort_key c (filter (\<lambda>r. n < c r) rows) = drop (nat n) rows"
proof -
  have split: "filter (\<lambda>r. n < c r) rows = filter (\<lambda>r. n < c r) (take (nat n) rows) @ filter (\<lambda>r. n < c r) (drop (nat n) rows)"
    by (metis append_take_drop_id filter_append)
  note nth = numbered_nth [OF assms(1)]
  have "filter (\<lambda>r. n < c r) (take (nat n) rows) = []"
    using nth assms(2) by (auto simp: filter_empty_conv in_set_conv_nth)
  moreover have "filter (\<lambda>r. n < c r) (drop (nat n) rows) = drop (nat n) rows"
    using nth assms(2) by (auto simp: filter_id_conv in_set_conv_nth)
  ultimately have "filter (\<lambda>r. n < c r) rows = drop (nat n) rows" using split by simp
  moreover have "sorted (map c (drop (nat n) rows))"
    using numbered_sorted [OF assms(1)] by (simp add: drop_map [symmetric] sorted_wrt_drop)
  ultimately show ?thesis by (simp add: sort_key_id_if_sorted)
qed

lemma replay_runs:
  assumes c: "find_command cid db = Some c" and rc: "readCommandOnConnection cid db = Inr rc"
    and reason: "cr_OutputUnavailableReason rc \<noteq> ''retention_expired''"
    and ok: "events_ok c (command_events cid db)" and n: "0 \<le> n"
    and evs: "list_all2 event_as (drop (nat n) (command_events cid db)) evs"
  shows "replay_body cid n db = Inr evs"
proof -
  let ?all = "command_events cid db"
  have num: "numbered evt_sequence ?all" and valid: "list_all event_valid ?all" using ok by (simp_all add: events_ok_def)
  have "read_events_from cid (n + 1) (drop (nat n) ?all) = Inr evs"
    using numbered_drop [OF num, of "nat n"] n valid
    by (intro read_events_runs [OF evs]) (auto simp: list_all_iff command_events_def dest: in_set_dropD)
  then have read: "readCommandEventsOnConnection cid n db = Inr evs"
    using n by (simp add: readCommandEventsOnConnection_def numbered_after [OF num])
  have len: "length evs = length ?all - nat n" using list_all2_lengthD [OF evs] by simp
  have "cr_FinalEventSequence rc = cmd_final_event_sequence c" using rc c by (auto elim: readCommand_row)
  then have "case cr_FinalEventSequence rc of None \<Rightarrow> ?all \<noteq> [] | Some final \<Rightarrow> final = int (length ?all)"
    using ok by (auto simp: events_ok_def split: option.splits if_splits)
  then show ?thesis
    using rc reason read len n by (auto simp: replay_body_def split: option.splits)
qed

text \<open>Replaying a command from a cursor returns exactly its stored events after the cursor, in
  order, each as it was stored; a cursor at or past the last event returns none.\<close>

theorem replay_exact:
  assumes wf: "store_wf (st_db s)" and c: "find_command cid (st_db s) = Some c" "readable_command c"
    and kept: "cmd_output_unavailable_reason c \<noteq> ''retention_expired''" and n: "0 \<le> n"
    and times: "\<forall>e \<in> set (command_events cid (st_db s)). \<exists>t. parseStoredTime (evt_occurred_at e) = Inr t"
  shows "\<exists>evs. ReplayCommandEvents None s cid n = (Inr evs, s) \<and>
    list_all2 event_as (drop (nat n) (command_events cid (st_db s))) evs \<and>
    map cer_Sequence evs = [n + 1..int (length (command_events cid (st_db s)))]"
proof -
  let ?all = "command_events cid (st_db s)"
  have cwf: "commands_wf (st_db s)" using wf by (simp add: store_wf_def)
  have ok: "events_ok c ?all" by (rule find_command_events [OF cwf c(1)])
  have cid: "cmd_command_id c = cid" using c(1) find_command_row [OF cwf] by simp
  obtain rc where rc: "readCommandOnConnection cid (st_db s) = Inr rc"
    using c cid by (auto simp: readCommandOnConnection_def readable_command_def is_ok_iff)
  have reason: "cr_OutputUnavailableReason rc \<noteq> ''retention_expired''"
    using rc c(1) kept by (auto simp: readCommandOnConnection_def decode_command_row_def tx_simps split: if_splits)
  have "\<exists>ev. event_as e ev" if e: "e \<in> set ?all" for e
  proof -
    obtain t where "parseStoredTime (evt_occurred_at e) = Inr t" using times e by blast
    then have "event_as e \<lparr>cer_CommandID = evt_command_id e, cer_Sequence = evt_sequence e, cer_Type = evt_type e,
        cer_Payload = evt_payload e, cer_ByteCount = evt_byte_count e, cer_OccurredAt = t\<rparr>"
      by (simp add: event_as_def)
    then show ?thesis ..
  qed
  then obtain f where f: "\<And>e. e \<in> set ?all \<Longrightarrow> event_as e (f e)" by metis
  then have evs: "list_all2 event_as (drop (nat n) ?all) (map f (drop (nat n) ?all))"
    by (auto simp: list_all2_map2 list_all2_same dest: in_set_dropD)
  have "map cer_Sequence (map f (drop (nat n) ?all)) = map evt_sequence (drop (nat n) ?all)"
    using f in_set_dropD [of _ "nat n" ?all] by (simp add: event_as_def)
  also have "\<dots> = [n + 1..int (length ?all)]"
    using ok n by (intro numbered_drop_upto) (simp_all add: events_ok_def)
  finally show ?thesis
    using replay_runs [OF c(1) rc reason ok n evs] evs readable_ids(1) [OF c(2)] cid n
    by (auto simp: ReplayCommandEvents_def new_id_run withStoreReadTransaction_def)
qed

theorem replay_exact_witness:
  "\<exists>evs. ReplayCommandEvents None (NewAuthorityStore queued_db) ''c1'' 0 = (Inr evs, NewAuthorityStore queued_db) \<and>
     map cer_Sequence evs = [1]"
proof -
  have "command_events ''c1'' queued_db = [event_row_of ''c1'' 1 ''command_queued'' [] 0 sample_now]"
    by (simp add: command_events_def queued_db_def)
  then show ?thesis
    using replay_exact [of "NewAuthorityStore queued_db" "''c1''" queued_row 0] sample_store_wf(1) queued_readable sample_times(1)
    by (auto simp: NewAuthorityStore_def queued_row_def command_row_of_def event_row_of_def)
qed

lemma append_Inr:
  assumes "AppendCommandEvent fault now s input = (Inr ev, s')"
  obtains x db' where "append_event_body input now (st_db s) = Inr (x, db')" "fst x = ev"
    "s' = (case snd x of None \<Rightarrow> s\<lparr>st_db := db'\<rparr> | Some event \<Rightarrow> publishCommandEvent event (s\<lparr>st_db := db'\<rparr>))"
    "append_allowed input" "cea_CommandID input \<noteq> []"
proof (cases rule: withImmediateTransaction_cases [of fault s "append_event_body input now"])
  case (rollback e)
  then show thesis
    using assms by (auto simp: AppendCommandEvent_def publish_committed_def split: sum.splits if_splits)
next
  case (commit x db)
  then show thesis
    using assms that [of x db] by (cases x; cases "snd x")
      (auto simp: AppendCommandEvent_def publish_committed_def append_allowed_def split: sum.splits if_splits)
qed

text \<open>What is appended is replayed: an accepted output event gets the next number of its command,
  is the last of its events, and a replay from the number before it returns exactly that event.\<close>

theorem append_then_replay:
  assumes wf: "store_wf (st_db s)" and run: "AppendCommandEvent fault now s input = (Inr ev, s')" and now: "valid_time now"
    and c: "find_command (cea_CommandID input) (st_db s) = Some c"
      "cmd_output_unavailable_reason c \<noteq> ''retention_expired''"
  shows "cer_Sequence ev = int (length (command_events (cea_CommandID input) (st_db s))) + 1 \<and>
    cer_Payload ev = cea_Payload input \<and> cer_Type ev = cea_Type input \<and>
    ReplayCommandEvents None s' (cea_CommandID input) (cer_Sequence ev - 1) = (Inr [ev], s')"
proof -
  let ?cid = "cea_CommandID input" and ?db = "st_db s"
  have cwf: "commands_wf ?db" using wf by (simp add: store_wf_def)
  obtain x db' where body: "append_event_body input now ?db = Inr (x, db')" and ev: "fst x = ev"
    and s': "s' = (case snd x of None \<Rightarrow> s\<lparr>st_db := db'\<rparr> | Some event \<Rightarrow> publishCommandEvent event (s\<lparr>st_db := db'\<rparr>))"
    and allowed: "append_allowed input" and cid: "?cid \<noteq> []"
    by (rule append_Inr [OF run])
  obtain e where e: "e = event_row_of ?cid (int (length (command_events ?cid ?db)) + 1) (cea_Type input)
      (cea_Payload input) (cea_ByteCount input) now" "event_valid e"
    and db': "db' = exec_command_events_update (\<lambda>rows. rows @ [e]) ?db"
    and x: "fst x = \<lparr>cer_CommandID = ?cid, cer_Sequence = evt_sequence e, cer_Type = cea_Type input,
      cer_Payload = cea_Payload input, cer_ByteCount = cea_ByteCount input, cer_OccurredAt = now\<rparr>"
    by (rule append_event_effect [OF body])
  have wf': "commands_wf db'" using append_event_wf [OF allowed, of now] cwf body by (rule tx_keepsD)
  have c': "find_command ?cid db' = Some c" using c(1) by (simp add: db' find_command_def)
  obtain rc where rc: "readCommandOnConnection ?cid ?db = Inr rc"
    using body by (auto simp: append_event_body_def tx_simps)
  have evs: "command_events ?cid db' = command_events ?cid ?db @ [e]" by (simp add: db' e(1) command_events_def)
  have "replay_body ?cid (cer_Sequence ev - 1) db' = Inr [ev]"
  proof (rule replay_runs [OF c' _ _ find_command_events [OF wf' c']])
    show "readCommandOnConnection ?cid db' = Inr rc" using rc by (simp add: readCommandOnConnection_def db' find_command_def)
    show "cr_OutputUnavailableReason rc \<noteq> ''retention_expired''"
      using rc c by (auto simp: readCommandOnConnection_def decode_command_row_def tx_simps split: if_splits)
    show "0 \<le> cer_Sequence ev - 1" using x ev by (simp add: e(1))
    show "list_all2 event_as (drop (nat (cer_Sequence ev - 1)) (command_events ?cid db')) [ev]"
      using x ev now by (simp add: evs e(1) event_as_def) (simp add: event_row_of_def)
  qed
  moreover have "st_db s' = db'" by (simp add: s' split: option.splits)
  ultimately show ?thesis
    using x ev cid by (auto simp: e(1) ReplayCommandEvents_def new_id_run withStoreReadTransaction_def)
qed

text \<open>A running command with a slot, in a busy session.\<close>

definition running_db :: database where
  "running_db = ready_db\<lparr>exec_sessions := [ready_row\<lparr>ses_state := SessionStateBusy\<rparr>],
     exec_session_lifecycle := exec_session_lifecycle ready_db @
       [lifecycle_row_of ''s1'' 3 (Some SessionStateReady) SessionStateBusy ''r'' sample_now],
     exec_commands := [set_running sample_now queued_row],
     exec_command_events := [event_row_of ''c1'' 1 ''command_queued'' [] 0 sample_now,
       event_row_of ''c1'' 2 ''command_started'' [] 0 sample_now],
     exec_command_slots := [new_slot ''c1'' sample_now]\<rparr>"

lemma running_store_wf: "store_wf running_db"
proof -
  have "sessions_wf running_db" by (simp add: running_db_def ready_db_def sample_wf_simps)
  moreover have "commands_wf running_db"
    by (simp add: commands_wf_def running_db_def ready_db_def empty_database_def session_commands_def command_events_def
        numbered_def upt_conv_Cons slot_ok_def find_command_def events_ok_def event_valid_def
        validateStoredCommandEvent_def validCommandEventType_def isTerminalCommandEvent_def CommandState_IsTerminal_def
        event_row_of_def)
  ultimately show ?thesis by (simp add: store_wf_def)
qed

lemma running_lookups [simp]:
  "find_command ''c1'' running_db = Some (set_running sample_now queued_row)"
  "find_session ''s1'' running_db = Some (ready_row\<lparr>ses_state := SessionStateBusy\<rparr>)"
  "find_slot ''c1'' running_db = Some (new_slot ''c1'' sample_now)"
  "command_events ''c1'' running_db = [event_row_of ''c1'' 1 ''command_queued'' [] 0 sample_now,
     event_row_of ''c1'' 2 ''command_started'' [] 0 sample_now]"
  by (simp_all add: running_db_def find_command_def find_session_def find_slot_def command_events_def)

lemma running_readable: "readable_command (set_running sample_now queued_row)"
  by (rule readable_running [OF queued_readable sample_times(1)])

lemma append_runs:
  assumes wf: "commands_wf db" and c: "find_command (cea_CommandID input) db = Some c" "readable_command c"
      "cmd_state c = CommandStateRunning"
    and ev: "event_valid (event_row_of (cea_CommandID input) (int (length (command_events (cea_CommandID input) db)) + 1)
      (cea_Type input) (cea_Payload input) (cea_ByteCount input) now)"
  shows "\<exists>x db'. append_event_body input now db = Inr ((x, Some x), db')"
proof -
  let ?cid = "cea_CommandID input"
  have "cmd_command_id c = ?cid" using c(1) find_command_row [OF wf] by simp
  then obtain rc where rc: "readCommandOnConnection ?cid db = Inr rc" "cr_State rc = CommandStateRunning"
    using c by (auto simp: readCommandOnConnection_def readable_command_def is_ok_iff decode_command_row_def tx_simps
        split: if_splits)
  have "nextEventSequenceOnConnection ?cid db = Inr (int (length (command_events ?cid db)) + 1)"
    by (rule next_sequence_runs [OF find_command_events [OF wf c(1)]])
  moreover have "\<exists>db'. insertCommandEventOnConnection ?cid (int (length (command_events ?cid db)) + 1) (cea_Type input)
      (cea_Payload input) (cea_ByteCount input) now db = Inr ((), db')"
    using ev event_insert_runs [OF wf c(1) refl ev] by (simp add: tx_simps)
  ultimately show ?thesis
    using rc by (auto simp: append_event_body_def tx_bind_def Let_def CommandState_IsTerminal_def)
qed

theorem append_then_replay_witness:
  "\<exists>ev s'. AppendCommandEvent None sample_now (NewAuthorityStore running_db)
       \<lparr>cea_CommandID = ''c1'', cea_Type = ''stdout'', cea_Payload = ''hi'', cea_ByteCount = 2\<rparr> = (Inr ev, s') \<and>
     ReplayCommandEvents None s' ''c1'' 2 = (Inr [ev], s')"
proof -
  let ?in = "\<lparr>cea_CommandID = ''c1'', cea_Type = ''stdout'', cea_Payload = ''hi'', cea_ByteCount = 2\<rparr>"
  have "\<exists>x db'. append_event_body ?in sample_now running_db = Inr ((x, Some x), db')"
    using running_store_wf running_readable
    by (intro append_runs [where c = "set_running sample_now queued_row"])
      (simp_all add: store_wf_def event_valid_def validateStoredCommandEvent_def validCommandEventType_def event_row_of_def)
  then obtain ev s' where run: "AppendCommandEvent None sample_now (NewAuthorityStore running_db) ?in = (Inr ev, s')"
    by (auto simp: AppendCommandEvent_def new_id_run validCommandEventType_def isTerminalCommandEvent_def NewAuthorityStore_def
        withImmediateTransaction_def publish_committed_def)
  moreover have "cmd_output_unavailable_reason (set_running sample_now queued_row) = []"
    by (simp add: set_running_def queued_row_def command_row_of_def)
  ultimately show ?thesis
    using append_then_replay [OF _ run sample_times(1), of "set_running sample_now queued_row"] running_store_wf
    by (auto simp: NewAuthorityStore_def)
qed

end
