(* ===== verification/Capacity_Properties.thy ===== *)
theory Capacity_Properties
  imports Command_Properties Store_Operations
begin

text \<open>
  How capacity is given back: the release of a command slot, the completion of a running command with
  its session and slot, and the recovery of lost runtimes, which releases every pair or none.
\<close>

section \<open>Slots\<close>

lemma length_filter_update:
  assumes "\<And>r. \<not> Q (f r)" "\<And>r. P r \<Longrightarrow> Q r"
  shows "length (filter Q rows) = length (filter Q (update_rows P f rows)) + length (filter P rows)"
  using assms by (induction rows) (auto simp: update_rows_def)

lemma released_live:
  assumes wf: "commands_wf db" and slot: "find_slot cid db = Some slot" "live_slot slot"
  shows "find_slot cid (slots_released_for cid now db) = Some (slot_released now slot)"
    "slt_host_key slot = schedulerHostKey \<Longrightarrow> live_slots (slots_released_for cid now db) = live_slots db - 1"
proof -
  let ?P = "\<lambda>r. slt_stop_confirmed_at r = None"
  have dist: "distinct (map slt_command_id (exec_command_slots db))" using wf by (simp add: commands_wf_def)
  show "find_slot cid (slots_released_for cid now db) = Some (slot_released now slot)"
    using slot find_update_rows_same [of slt_command_id "slot_released now" cid "exec_command_slots db" slot ?P]
    by (simp add: find_slot_def slots_released_for_def live_slot_def)
  show "live_slots (slots_released_for cid now db) = live_slots db - 1" if "slt_host_key slot = schedulerHostKey"
    using that slot length_filter_release [OF dist, of "slot_released now"
        "\<lambda>r. slt_host_key r = schedulerHostKey \<and> live_slot r" ?P cid]
    by (simp add: find_slot_def slots_released_for_def live_slots_def slot_released_def live_slot_def)
qed

lemma released_dead:
  assumes wf: "commands_wf db" and dead: "\<And>slot. find_slot cid db = Some slot \<Longrightarrow> \<not> live_slot slot"
  shows "slots_released_for cid now db = db"
    "filter (\<lambda>r. slt_command_id r = cid \<and> slt_stop_confirmed_at r = None) (exec_command_slots db) = []"
proof -
  have "\<not> (slt_command_id r = cid \<and> slt_stop_confirmed_at r = None)" if "r \<in> set (exec_command_slots db)" for r
    using that wf dead [of r] find_key_Some [of slt_command_id "exec_command_slots db" cid r]
    by (auto simp: commands_wf_def find_slot_def live_slot_def)
  then show "slots_released_for cid now db = db"
    "filter (\<lambda>r. slt_command_id r = cid \<and> slt_stop_confirmed_at r = None) (exec_command_slots db) = []"
    by (auto simp: slots_released_for_def update_rows_cong_none filter_empty_conv)
qed

lemma release_slot_runs:
  assumes "\<forall>r \<in> set (exec_command_slots db). slot_check r"
  shows "release_slot cid now db =
    Inr (length (filter (\<lambda>r. slt_command_id r = cid \<and> slt_stop_confirmed_at r = None) (exec_command_slots db)),
      slots_released_for cid now db)"
  using assms by (auto simp: release_slot_def sql_update_def slots_released_for_def list_all_iff slot_check_def slot_released_def)

lemma release_slot_held:
  assumes "\<forall>r \<in> set (exec_command_slots db). slot_check r" "find_slot cid db = Some slot" "live_slot slot"
  shows "\<exists>k. release_slot cid now db = Inr (Suc k, slots_released_for cid now db)"
proof -
  have "slot \<in> set (exec_command_slots db)" "slt_command_id slot = cid"
    using assms(2) by (auto simp: find_slot_def dest: find_Some_iff_filter)
  then have "filter (\<lambda>r. slt_command_id r = cid \<and> slt_stop_confirmed_at r = None) (exec_command_slots db) \<noteq> []"
    using assms(3) by (auto simp: filter_empty_conv live_slot_def)
  then show ?thesis
    using release_slot_runs [OF assms(1), of cid now]
    by (cases "filter (\<lambda>r. slt_command_id r = cid \<and> slt_stop_confirmed_at r = None) (exec_command_slots db)") auto
qed

lemma readCommand_parts:
  assumes "find_command cid db = Some c" "is_ok (decode_command_row cid c)"
  shows "\<exists>rc. readCommandOnConnection cid db = Inr rc \<and> cr_State rc = cmd_state c \<and> cr_SessionID rc = cmd_session_id c"
proof -
  obtain rc where "readCommandOnConnection cid db = Inr rc"
    using assms by (auto simp: readCommandOnConnection_def is_ok_iff)
  then show ?thesis using assms(1) readCommand_row by force
qed

text \<open>A slot is given back once, and only for a finished command: the release is refused while the
  command is not terminal and when it never had a slot; it frees exactly the command's slot when that
  is still held, and a repeated release changes nothing.\<close>

theorem slot_release_exact:
  assumes wf: "store_wf (st_db s)" and cid: "cid \<noteq> []"
    and chk: "\<forall>r \<in> set (exec_command_slots (st_db s)). slot_check r"
  shows "case find_command cid (st_db s) of
      None \<Rightarrow> ConfirmCommandSlotRelease None now s cid = (Inl ErrCommandNotFound, s)
    | Some c \<Rightarrow>
        if \<not> CommandState_IsTerminal (cmd_state c)
        then ConfirmCommandSlotRelease None now s cid = (Inl ErrCommandSlotNotReleasable, s)
        else (case find_slot cid (st_db s) of
            None \<Rightarrow> ConfirmCommandSlotRelease None now s cid = (Inl ErrCommandSlotNotFound, s)
          | Some slot \<Rightarrow>
              ConfirmCommandSlotRelease None now s cid = (Inr (), s\<lparr>st_db := slots_released_for cid now (st_db s)\<rparr>) \<and>
              (if live_slot slot
               then find_slot cid (slots_released_for cid now (st_db s)) = Some (slot_released now slot) \<and>
                 (slt_host_key slot = schedulerHostKey \<longrightarrow>
                    live_slots (slots_released_for cid now (st_db s)) = live_slots (st_db s) - 1)
               else slots_released_for cid now (st_db s) = st_db s))"
proof -
  let ?db = "st_db s" and ?db' = "slots_released_for cid now (st_db s)"
  have cwf: "commands_wf ?db" using wf by (simp add: store_wf_def)
  note defs = ConfirmCommandSlotRelease_def new_id_run(2) [OF cid] withImmediateTransaction_def confirm_slot_body_def tx_bind_def
    count_error_def tx_query_def select_command_def release_slot_runs [OF chk]
  have run: "ConfirmCommandSlotRelease None now s cid = (Inr (), s\<lparr>st_db := ?db'\<rparr>)"
    if c: "find_command cid ?db = Some c" "CommandState_IsTerminal (cmd_state c)" and slot: "find_slot cid ?db = Some slot" for c slot
  proof (cases "live_slot slot")
    case True
    then show ?thesis using c release_slot_held [OF chk slot, of now] by (auto simp: defs)
  next
    case False
    then show ?thesis using released_dead(1) [OF cwf, of cid now] released_dead(2) [OF cwf, of cid] c slot by (simp add: defs)
  qed
  show ?thesis
  proof (cases "find_command cid ?db")
    case None
    then show ?thesis by (simp add: defs)
  next
    case (Some c)
    show ?thesis
    proof (cases "find_slot cid ?db")
      case None
      then show ?thesis using Some released_dead(1) [OF cwf, of cid now] released_dead(2) [OF cwf, of cid] by (simp add: defs)
    next
      case slot: (Some slot)
      have "\<not> live_slot slot \<Longrightarrow> ?db' = ?db" using released_dead(1) [OF cwf, of cid now] slot by simp
      then show ?thesis using Some slot run [OF Some _ slot] released_live [OF cwf slot, of now]
        by (auto simp: ConfirmCommandSlotRelease_def new_id_run(2) [OF cid] withImmediateTransaction_def confirm_slot_body_def
            tx_bind_def count_error_def tx_query_def select_command_def)
    qed
  qed
qed

theorem slot_release_exact_witness:
  "\<exists>s'. ConfirmCommandSlotRelease None sample_now (NewAuthorityStore lost_db) ''c1'' = (Inr (), s') \<and> live_slots (st_db s') = 0"
proof -
  have "find_slot ''c1'' lost_db = Some (new_slot ''c1'' sample_now)" "live_slots lost_db = 1"
    by (simp_all add: find_slot_def lost_db_def live_slots_def)
  moreover have "\<forall>r \<in> set (exec_command_slots lost_db). slot_check r"
    by (simp add: lost_db_def slot_check_def new_slot_def scheduler_host_nonempty)
  ultimately show ?thesis
    using slot_release_exact [of "NewAuthorityStore lost_db" "''c1''" sample_now] sample_store_wf(2)
    by (simp add: NewAuthorityStore_def CommandState_IsTerminal_def)
qed

section \<open>Completion\<close>

text \<open>The whole database after a running command of the session \<open>row\<close> has been completed with
  its last event of type \<open>ty\<close>: every table not mentioned is as it was.\<close>

definition completed_as ::
  "session_row \<Rightarrow> CommandTransition \<Rightarrow> string \<Rightarrow> SessionState \<Rightarrow> string \<Rightarrow> bool \<Rightarrow> time \<Rightarrow> database \<Rightarrow> database" where
  "completed_as row input ty nextSession reason releaseSlot now db =
     (let cid = ct_CommandID input; n = int (length (command_events cid db)) + 1;
          moved = (if ses_state row = nextSession then db else session_moved row nextSession reason now db) in
      moved\<lparr>exec_commands := update_rows (\<lambda>r. cmd_command_id r = cid) (terminal_columns input n now) (exec_commands db),
        exec_command_events := exec_command_events db @ [event_row_of cid n ty [] 0 now],
        exec_command_slots :=
          (if releaseSlot then update_rows (\<lambda>r. slt_command_id r = cid) (slot_released now) (exec_command_slots db)
           else exec_command_slots db)\<rparr>)"

lemma session_edge_differs: "SessionState_CanTransitionTo s t \<Longrightarrow> s \<noteq> t"
  by (cases s) (auto simp: SessionState_CanTransitionTo_def)

lemma completed_lookups:
  assumes "find_command (ct_CommandID input) db = Some c"
  shows "find_command k (completed_db input n ty now db) =
      (if k = ct_CommandID input then Some (terminal_columns input n now c) else find_command k db)"
    "command_events k (completed_db input n ty now db) = command_events k db @
      (if k = ct_CommandID input then [event_row_of k n ty [] 0 now] else [])"
  using assms find_update_rows_same [of cmd_command_id "terminal_columns input n now" "ct_CommandID input" "exec_commands db" c "\<lambda>_. True"]
    find_update_rows_other [of cmd_command_id "terminal_columns input n now" k "ct_CommandID input" "\<lambda>_. True" "exec_commands db"]
  by (simp_all add: completed_db_def find_command_def command_events_def)

lemma completion_session_step:
  assumes wf: "sessions_wf db2"
    and step: "db3 = db2 \<or> transitionSessionOnConnection sid nss reason now db2 = Inr ((), db3)"
    and st: "map_option ses_state (find_session sid db3) = Some nss"
  obtains row where "find_session sid db2 = Some row"
    "db3 = (if ses_state row = nss then db2 else session_moved row nss reason now db2)"
  using step
proof
  assume same: "db3 = db2"
  then obtain row where "find_session sid db2 = Some row" "ses_state row = nss" using st by auto
  then show thesis using that same by simp
next
  assume "transitionSessionOnConnection sid nss reason now db2 = Inr ((), db3)"
  then obtain row where "find_session sid db2 = Some row" "SessionState_CanTransitionTo (ses_state row) nss"
    "db3 = session_moved row nss reason now db2" by (rule transitionSession_moves [OF wf])
  then show thesis using that session_edge_differs [of "ses_state row" nss] by simp
qed

lemma completed_tables [simp]:
  "exec_sessions (completed_db input n ty now db) = exec_sessions db"
  "exec_session_lifecycle (completed_db input n ty now db) = exec_session_lifecycle db"
  "exec_capacity_reservations (completed_db input n ty now db) = exec_capacity_reservations db"
  by (simp_all add: completed_db_def)

lemma complete_command_completed:
  assumes wf: "store_wf db" and run: "complete_command_body input nss reason rel now db = Inr (x, db')"
  obtains c row ty where "find_command (ct_CommandID input) db = Some c"
    "cmd_state c = CommandStateRunning \<or> cmd_state c = CommandStateCancelling"
    "find_session (cmd_session_id c) db = Some row" "commandEventTypeForState (ct_NextState input) = Some ty"
    "rel \<Longrightarrow> \<exists>slot. find_slot (ct_CommandID input) db = Some slot \<and> live_slot slot"
    "db' = completed_as row input ty nss reason rel now db" "cr_State (fst x) = ct_NextState input"
proof -
  let ?cid = "ct_CommandID input"
  have cwf: "commands_wf db" and swf: "sessions_wf db" using wf by (simp_all add: store_wf_def)
  obtain c n ty db3 where c: "find_command ?cid db = Some c" "cmd_state c = CommandStateRunning \<or> cmd_state c = CommandStateCancelling"
    and ty: "commandEventTypeForState (ct_NextState input) = Some ty"
    and n: "n = int (length (command_events ?cid db)) + 1"
    and step: "db3 = completed_db input n ty now db \<or> transitionSessionOnConnection (cmd_session_id c) nss reason
      now (completed_db input n ty now db) = Inr ((), db3)"
    and db': "db' = (if rel then slots_released_for ?cid now db3 else db3)"
    and ses: "map_option ses_state (find_session (cmd_session_id c) db3) = Some nss"
    and slot: "rel \<longrightarrow> filter (\<lambda>r. slt_command_id r = ?cid \<and> slt_stop_confirmed_at r = None) (exec_command_slots db) \<noteq> []"
    and rc: "readCommandOnConnection ?cid db' = Inr (fst x)"
    by (rule complete_command_effect [OF run])
  let ?db2 = "completed_db input n ty now db"
  have "sessions_wf ?db2" using swf sessions_wf_cong [of ?db2 db] by simp
  then obtain row where row: "find_session (cmd_session_id c) db = Some row"
    and db3: "db3 = (if ses_state row = nss then ?db2 else session_moved row nss reason now ?db2)"
    by (rule completion_session_step [OF _ step ses]) (simp add: find_session_def)
  have held: "\<exists>slot. find_slot ?cid db = Some slot \<and> slt_stop_confirmed_at slot = None" if rel
    using slot that cwf by (auto simp: filter_empty_conv commands_wf_def find_slot_def find_key_Some)
  have only: "update_rows (\<lambda>r. slt_command_id r = ?cid \<and> slt_stop_confirmed_at r = None) (slot_released now) (exec_command_slots db) =
      update_rows (\<lambda>r. slt_command_id r = ?cid) (slot_released now) (exec_command_slots db)" if r: rel
  proof -
    obtain slot where "find_slot ?cid db = Some slot" "slt_stop_confirmed_at slot = None" using held [OF r] by blast
    then show ?thesis using cwf by (intro update_rows_only) (simp_all add: commands_wf_def find_slot_def)
  qed
  have last: "db' = completed_as row input ty nss reason rel now db"
    using only by (cases rel) (simp_all add: db' db3 completed_as_def slots_released_for_def completed_db_def session_moved_def
        session_history_def n [symmetric] Let_def)
  have "find_command ?cid db' = find_command ?cid ?db2" 
    by (simp add: last completed_as_def find_command_def completed_db_def n [symmetric] Let_def)
  then have "cr_State (fst x) = ct_NextState input"
    using completed_lookups(1) [OF c(1)] by (auto intro: readCommand_row [OF rc])
  with held show thesis by (intro that [OF c row ty _ last]) (simp_all add: live_slot_def)
qed

text \<open>C16. Completing a command ends exactly that command, and the database after it is given in full:
  from running or cancelling the command takes the requested terminal state and columns with the
  matching last event, its session moves to the requested state with one more history entry (or stays,
  when it is there already) and, when asked, its held slot is given back, all in one transaction; every
  other row of every table is as it was.\<close>

theorem completion_exact:
  assumes wf: "store_wf (st_db s)"
    and run: "CompleteRunningCommand fault now s input nextSession reason releaseSlot = (Inr rc, s')"
  shows "\<exists>c row ty. find_command (ct_CommandID input) (st_db s) = Some c \<and>
    (cmd_state c = CommandStateRunning \<or> cmd_state c = CommandStateCancelling) \<and>
    find_session (cmd_session_id c) (st_db s) = Some row \<and>
    CommandState_IsTerminal (ct_NextState input) \<and> commandEventTypeForState (ct_NextState input) = Some ty \<and>
    (releaseSlot \<longrightarrow> (\<exists>slot. find_slot (ct_CommandID input) (st_db s) = Some slot \<and> live_slot slot)) \<and>
    cr_State rc = ct_NextState input \<and>
    st_db s' = completed_as row input ty nextSession reason releaseSlot now (st_db s)"
proof -
  let ?body = "complete_command_body input nextSession reason releaseSlot now"
  have fin: "CommandState_IsTerminal (ct_NextState input)"
    using run by (auto simp: CompleteRunningCommand_def split: sum.splits if_splits)
  have pub: "publish_committed (withImmediateTransaction fault s ?body) = (Inr rc, s')"
    using run by (auto simp: CompleteRunningCommand_def split: sum.splits if_splits)
  obtain x where body: "?body (st_db s) = Inr (x, st_db s')" and rc: "fst x = rc"
  proof (cases rule: withImmediateTransaction_cases [of fault s ?body])
    case (commit x db)
    then show thesis
      using pub that by (cases x; cases "snd x") (auto simp: publish_committed_def)
  qed (use pub in \<open>simp add: publish_committed_def\<close>)
  show ?thesis by (rule complete_command_completed [OF wf body]) (use fin rc in blast)
qed

text \<open>The writes of a completion succeed for a readable command.\<close>

lemma completed_runs:
  assumes wf: "commands_wf db" and c: "find_command (ct_CommandID input) db = Some c" "readable_command c"
    and edge: "CommandState_CanTransitionTo (cmd_state c) (ct_NextState input)" "CommandState_IsTerminal (ct_NextState input)"
    and now: "valid_time now"
  obtains n ty k where "commandEventTypeForState (ct_NextState input) = Some ty"
    "nextEventSequenceOnConnection (ct_CommandID input) db = Inr n"
    "insertCommandEventOnConnection (ct_CommandID input) n ty [] 0 now db =
       Inr ((), exec_command_events_update (\<lambda>rows. rows @ [event_row_of (ct_CommandID input) n ty [] 0 now]) db)"
    "update_command (ct_CommandID input) (terminal_columns input n now)
       (exec_command_events_update (\<lambda>rows. rows @ [event_row_of (ct_CommandID input) n ty [] 0 now]) db) =
       Inr (k, completed_db input n ty now db)"
    "readable_command (terminal_columns input n now c)"
proof -
  let ?cid = "ct_CommandID input"
  obtain ty where ty: "commandEventTypeForState (ct_NextState input) = Some ty"
    using edge event_type_exists command_edge(2,3) [OF edge(1)] by (cases "ct_NextState input") auto
  define n where "n = int (length (command_events ?cid db)) + 1"
  have ok: "events_ok c (command_events ?cid db)" by (rule find_command_events [OF wf c(1)])
  then have n2: "2 \<le> n" by (cases "command_events ?cid db") (simp_all add: events_ok_def n_def)
  have fin: "readable_command (terminal_columns input n now c)"
    using readable_transition [OF c(2) now, of input n] command_edge(2) [OF edge(1)] edge(2) n2 by (simp add: transition_columns_def)
  have only: "r = c" if "r \<in> set (exec_commands db)" "cmd_command_id r = ?cid" for r
    using that c(1) find_command_row [OF wf] distinct_key_eq [of cmd_command_id "exec_commands db" r c] wf
    by (simp add: commands_wf_def)
  show thesis
  proof (rule that [OF ty _ _ _ fin])
    show "nextEventSequenceOnConnection ?cid db = Inr n" using next_sequence_runs [OF ok] by (simp add: n_def)
    show "insertCommandEventOnConnection ?cid n ty [] 0 now db =
        Inr ((), exec_command_events_update (\<lambda>rows. rows @ [event_row_of ?cid n ty [] 0 now]) db)"
      using transition_event_valid [OF ty n2] event_insert_runs [OF wf c(1) n_def] by (simp add: tx_simps)
    show "update_command ?cid (terminal_columns input n now)
        (exec_command_events_update (\<lambda>rows. rows @ [event_row_of ?cid n ty [] 0 now]) db) =
        Inr (length (filter (\<lambda>r. cmd_command_id r = ?cid) (exec_commands db)), completed_db input n ty now db)"
      using only fin by (auto simp: update_command_def sql_update_def list_all_iff readable_command_def completed_db_def)
  qed
qed

text \<open>A started command that holds its slot, in a session that may take the requested state.\<close>

definition completable :: "CommandTransition \<Rightarrow> SessionState \<Rightarrow> database \<Rightarrow> command_row \<Rightarrow> session_row \<Rightarrow> bool" where
  "completable input nss db c row \<longleftrightarrow>
     find_command (ct_CommandID input) db = Some c \<and> readable_command c \<and>
     (cmd_state c = CommandStateRunning \<or> cmd_state c = CommandStateCancelling) \<and>
     CommandState_CanTransitionTo (cmd_state c) (ct_NextState input) \<and> CommandState_IsTerminal (ct_NextState input) \<and>
     find_session (cmd_session_id c) db = Some row \<and> readable_session row \<and>
     SessionState_CanTransitionTo (ses_state row) nss \<and>
     (\<forall>r \<in> set (exec_command_slots db). slot_check r) \<and>
     (\<exists>slot. find_slot (ct_CommandID input) db = Some slot \<and> live_slot slot)"

lemma complete_runs:
  assumes wf: "store_wf db" and c: "completable input nss db c row"
    and reason: "reason \<noteq> []" "length reason \<le> 512" "\<not> has_nul reason" and now: "valid_time now"
  shows "\<exists>x db'. complete_command_body input nss reason rel now db = Inr (x, db')"
proof -
  let ?cid = "ct_CommandID input"
  have cwf: "commands_wf db" and swf: "sessions_wf db" using wf by (simp_all add: store_wf_def)
  have found: "find_command ?cid db = Some c" "readable_command c" and edge: "CommandState_CanTransitionTo (cmd_state c) (ct_NextState input)"
    "CommandState_IsTerminal (ct_NextState input)" and row: "find_session (cmd_session_id c) db = Some row" "readable_session row"
    "SessionState_CanTransitionTo (ses_state row) nss" using c by (simp_all add: completable_def)
  obtain n ty k where w: "commandEventTypeForState (ct_NextState input) = Some ty" "nextEventSequenceOnConnection ?cid db = Inr n"
    "insertCommandEventOnConnection ?cid n ty [] 0 now db =
       Inr ((), exec_command_events_update (\<lambda>rows. rows @ [event_row_of ?cid n ty [] 0 now]) db)"
    "update_command ?cid (terminal_columns input n now)
       (exec_command_events_update (\<lambda>rows. rows @ [event_row_of ?cid n ty [] 0 now]) db) = Inr (k, completed_db input n ty now db)"
    "readable_command (terminal_columns input n now c)"
    by (rule completed_runs [OF cwf found edge now])
  let ?db2 = "completed_db input n ty now db"
  have sess: "sessions_wf ?db2" "find_session (cmd_session_id c) ?db2 = Some row"
    using swf row(1) sessions_wf_cong [of ?db2 db] by (simp_all add: find_session_def)
  obtain db3 where step: "transitionSessionOnConnection (cmd_session_id c) nss reason now ?db2 = Inr ((), db3)"
    using transitionSession_runs [OF sess row(2,3) reason] by blast
  note frame = session_step_frame [OF disjI2 [OF step]]
  have "\<exists>k. release_slot ?cid now db3 = Inr (Suc k, slots_released_for ?cid now db3)"
    using release_slot_held [where db = db3 and cid = ?cid and now = now] c frame(3) by (auto simp: completable_def find_slot_def)
  then obtain k' where rel: "release_slot ?cid now db3 = Inr (Suc k', slots_released_for ?cid now db3)" ..
  let ?last = "if rel then slots_released_for ?cid now db3 else db3"
  have "find_command ?cid ?last = Some (terminal_columns input n now c)"
    using frame(1) completed_lookups(1) [OF found(1), of ?cid n ty now] by (simp add: find_command_def slots_released_for_def)
  then obtain fin where fin: "readCommandOnConnection ?cid ?last = Inr fin"
    using w(5) found(1) find_command_row [OF cwf] by (auto simp: readCommandOnConnection_def readable_command_def is_ok_iff)
  obtain rc where rc: "readCommandOnConnection ?cid db = Inr rc" "cr_State rc = cmd_state c" "cr_SessionID rc = cmd_session_id c"
    using found find_command_row [OF cwf] readCommand_parts [of ?cid db c] by (auto simp: readable_command_def)
  have ok: "ValidateCommandTransition (cmd_state c) (ct_NextState input) = Inr ()" using edge(1) by simp
  show ?thesis
    using rc w sess(2) step session_edge_differs [OF row(3)] fin c
    by (cases rel) (simp_all add: complete_command_body_def Let_def tx_bind_def ok rel completable_def)
qed

lemma publish_runs:
  assumes "\<exists>x db'. body (st_db s) = Inr (x, db')"
  shows "\<exists>rc s'. publish_committed (withImmediateTransaction None s body) = (Inr rc, s')"
proof -
  obtain x ev db' where "body (st_db s) = Inr ((x, ev), db')" using assms by auto
  then show ?thesis by (cases ev) (simp_all add: withImmediateTransaction_def publish_committed_def)
qed

theorem completion_exact_witness:
  "\<exists>rc s'. CompleteRunningCommand None sample_now (NewAuthorityStore running_db) \<lparr>ct_CommandID = ''c1'',
      ct_NextState = CommandStateSucceeded, ct_ExitCode = Some 0, ct_OutputComplete = True, ct_OutputTruncated = False\<rparr>
      SessionStateReady ''done'' True = (Inr rc, s') \<and> cr_State rc = CommandStateSucceeded"
proof -
  let ?in = "\<lparr>ct_CommandID = ''c1'', ct_NextState = CommandStateSucceeded, ct_ExitCode = Some 0,
    ct_OutputComplete = True, ct_OutputTruncated = False\<rparr>"
  have "readable_session (ready_row\<lparr>ses_state := SessionStateBusy\<rparr>)"
    using ready_readable by (auto simp: readable_session_def session_check_def source_columns_ok_def is_ok_iff
        decode_session_row_def tx_simps Let_def split: SourceMode.splits if_splits)
  then have "completable ?in SessionStateReady running_db (set_running sample_now queued_row) (ready_row\<lparr>ses_state := SessionStateBusy\<rparr>)"
    using running_readable
    by (simp add: completable_def CommandState_CanTransitionTo_def CommandState_IsTerminal_def SessionState_CanTransitionTo_def)
      (simp add: running_db_def slot_check_def new_slot_def scheduler_host_nonempty)
  then have "\<exists>x db'. complete_command_body ?in SessionStateReady ''done'' True sample_now running_db = Inr (x, db')"
    using running_store_wf sample_times(1) by (intro complete_runs) (simp_all add: has_nul_def NUL_def)
  then obtain rc s' where run: "CompleteRunningCommand None sample_now (NewAuthorityStore running_db) ?in SessionStateReady ''done'' True =
      (Inr rc, s')"
    using publish_runs [of "complete_command_body ?in SessionStateReady ''done'' True sample_now" "NewAuthorityStore running_db"]
    by (auto simp: CompleteRunningCommand_def new_id_run CommandState_IsTerminal_def validateLifecycleReason_def has_nul_def NUL_def
        NewAuthorityStore_def)
  then show ?thesis using completion_exact [OF _ run] running_store_wf by (auto simp: NewAuthorityStore_def)
qed

section \<open>Lost runtimes\<close>

definition pair_released :: "database \<Rightarrow> LostRuntimeRecoveryPair \<Rightarrow> bool" where
  "pair_released db pair \<longleftrightarrow>
     (\<exists>slot reservation. find_slot (lrp_CommandID pair) db = Some slot \<and> \<not> live_slot slot \<and>
        find_reservation (lrp_SessionID pair) db = Some reservation \<and> res_cleanup_confirmed_at reservation \<noteq> None)"

text \<open>The work item that a release leaves for the finalization of the pair.\<close>

definition pair_pending :: "database \<Rightarrow> LostRuntimeRecoveryPair \<Rightarrow> bool" where
  "pair_pending db pair \<longleftrightarrow>
     (lrp_SessionID pair, lrp_CommandID pair) \<in>
       (\<lambda>r. (fin_session_id r, fin_command_id r)) ` set (exec_lost_runtime_recovery_finalizations db)"

lemma find_update_rows_Some:
  assumes "\<And>r. key (f r) = key r" "find (\<lambda>r. key r = k) rows = Some r"
  shows "\<exists>r'. find (\<lambda>r. key r = k) (update_rows P f rows) = Some r' \<and> (r' = r \<or> r' = f r)"
  using find_update_rows_keeps [of key f k rows r P] assms by auto

lemma release_pair_exact:
  assumes run: "releaseLostRuntimeRecoveryPair pair now db = Inr (u, db')"
  shows "live_slots db' = live_slots db - 1" "live_reservations db' = live_reservations db - 1"
    "pair_released db' pair" "pair_pending db' pair"
    "\<And>p. pair_released db p \<Longrightarrow> pair_released db' p" "\<And>p. pair_pending db p \<Longrightarrow> pair_pending db' p"
proof -
  let ?P = "\<lambda>r. slt_command_id r = lrp_CommandID pair \<and> slt_host_key r = schedulerHostKey \<and>
    slt_stop_confirmed_at r = None \<and> slt_released_at r = None"
  let ?Q = "\<lambda>r. res_session_id r = lrp_SessionID pair \<and> res_host_key r = reservationHostKey \<and>
    res_cleanup_confirmed_at r = None \<and> res_released_at r = None"
  from run obtain slot reservation where n: "length (filter ?P (exec_command_slots db)) = 1"
      "length (filter ?Q (exec_capacity_reservations db)) = 1"
    and slots: "exec_command_slots db' = update_rows ?P (slot_released now) (exec_command_slots db)"
    and ress: "exec_capacity_reservations db' = update_rows ?Q (confirmed now) (exec_capacity_reservations db)"
    and fins: "exec_lost_runtime_recovery_finalizations db' = exec_lost_runtime_recovery_finalizations db @
      [\<lparr>fin_command_id = lrp_CommandID pair, fin_session_id = lrp_SessionID pair, fin_capacity_released_at = formatStoredTime now\<rparr>]"
    and slot: "find_slot (lrp_CommandID pair) db' = Some slot" "slt_stop_confirmed_at slot \<noteq> None"
    and res: "find_reservation (lrp_SessionID pair) db' = Some reservation" "res_cleanup_confirmed_at reservation \<noteq> None"
    by (auto simp: releaseLostRuntimeRecoveryPair_def tx_simps find_slot_def find_reservation_def split: option.splits)
  have "length (filter (\<lambda>r. slt_host_key r = schedulerHostKey \<and> live_slot r) (exec_command_slots db)) =
      length (filter (\<lambda>r. slt_host_key r = schedulerHostKey \<and> live_slot r) (exec_command_slots db')) + 1"
    unfolding slots n(1) [symmetric] by (rule length_filter_update) (simp_all add: live_slot_def slot_released_def)
  then show "live_slots db' = live_slots db - 1" by (simp add: live_slots_def)
  have "length (filter (\<lambda>r. res_host_key r = reservationHostKey \<and> res_cleanup_confirmed_at r = None) (exec_capacity_reservations db)) =
      length (filter (\<lambda>r. res_host_key r = reservationHostKey \<and> res_cleanup_confirmed_at r = None) (exec_capacity_reservations db')) + 1"
    unfolding ress n(2) [symmetric] by (rule length_filter_update) (simp_all add: confirmed_def)
  then show "live_reservations db' = live_reservations db - 1" by (simp add: live_reservations_def)
  show "pair_released db' pair" using slot res by (auto simp: pair_released_def live_slot_def)
  show "pair_pending db' pair" by (simp add: pair_pending_def fins)
  show "pair_pending db' p" if "pair_pending db p" for p using that by (auto simp: pair_pending_def fins)
  show "pair_released db' p" if p: "pair_released db p" for p
  proof -
    obtain slot reservation where sr: "find_slot (lrp_CommandID p) db = Some slot" "\<not> live_slot slot"
      "find_reservation (lrp_SessionID p) db = Some reservation" "res_cleanup_confirmed_at reservation \<noteq> None"
      using p by (auto simp: pair_released_def)
    show ?thesis
      using sr find_update_rows_Some [of slt_command_id "slot_released now" "lrp_CommandID p" "exec_command_slots db" slot ?P]
        find_update_rows_Some [of res_session_id "confirmed now" "lrp_SessionID p" "exec_capacity_reservations db" reservation ?Q]
      by (auto simp: pair_released_def find_slot_def find_reservation_def slots ress confirmed_def)
  qed
qed

lemma release_pairs_exact:
  "release_pairs now pairs db = Inr (u, db') \<Longrightarrow>
   live_slots db' = live_slots db - int (length pairs) \<and> live_reservations db' = live_reservations db - int (length pairs) \<and>
   (\<forall>p \<in> set pairs. pair_released db' p \<and> pair_pending db' p) \<and>
   (\<forall>p. (pair_released db p \<longrightarrow> pair_released db' p) \<and> (pair_pending db p \<longrightarrow> pair_pending db' p))"
proof (induction pairs arbitrary: db)
  case Nil
  then show ?case by (simp add: tx_simps)
next
  case (Cons pair pairs)
  then obtain db1 where one: "releaseLostRuntimeRecoveryPair pair now db = Inr ((), db1)"
    and rest: "release_pairs now pairs db1 = Inr (u, db')" by (auto simp: tx_simps)
  show ?case using release_pair_exact [OF one] Cons.IH [OF rest] by auto
qed

lemma check_pair_released: "checkLostRuntimeRecoveryPair pair db = Inr True \<Longrightarrow> pair_released db pair"
  by (auto simp: checkLostRuntimeRecoveryPair_def pair_released_def live_slot_def find_command_def Let_def
      dest!: find_Some_iff_filter split: option.splits if_splits list.splits)

lemma check_pairs_split:
  "check_pairs pairs db = Inr us \<Longrightarrow> \<forall>p \<in> set pairs. lost_pair db p \<and> (pair_released db p \<or> p \<in> set us)"
  by (induction pairs db arbitrary: us rule: check_pairs.induct)
    (auto simp: tx_simps split: if_splits dest: check_pair_released check_pair_lost)

lemma validate_pairs_same: "validate_pairs_from S C pairs = Inr ps \<Longrightarrow> ps = pairs"
  by (induction S C pairs arbitrary: ps rule: validate_pairs_from.induct) (auto simp: tx_simps split: if_splits)

text \<open>C17. Lost runtimes are recovered all together: a confirmed batch leaves every pair it names, each a
  lost command of that session, with both its slot and its reservation released; every pair released
  by it has its finalization recorded, and whenever it released anything no capacity is held on the
  host any more.\<close>

theorem lost_batch_releases_all:
  assumes run: "ConfirmLostRuntimeRecoveryBatch fault now s pairs = (Inr (), s')"
  shows "pairs \<noteq> [] \<and> (\<forall>p \<in> set pairs. lost_pair (st_db s) p \<and> pair_released (st_db s') p \<and>
      (pair_released (st_db s) p \<or> pair_pending (st_db s') p)) \<and>
    (st_db s' = st_db s \<or> live_slots (st_db s') = 0 \<and> live_reservations (st_db s') = 0)"
proof -
  obtain ps where valid: "validateLostRuntimeRecoveryPairs pairs = Inr ps" and ne: "pairs \<noteq> []"
    using run by (auto simp: ConfirmLostRuntimeRecoveryBatch_def validateLostRuntimeRecoveryPairs_def split: sum.splits if_splits)
  then have "ps = pairs" by (auto simp: validateLostRuntimeRecoveryPairs_def intro: validate_pairs_same)
  then have "confirm_batch_body pairs now (st_db s) = Inr ((), st_db s')"
    using run valid by (auto simp: ConfirmLostRuntimeRecoveryBatch_def tx_simps)
  then obtain us where us: "check_pairs pairs (st_db s) = Inr us"
    and rest: "us = [] \<and> st_db s' = st_db s \<or> live_slots (st_db s) = int (length us) \<and> live_reservations (st_db s) = int (length us) \<and>
      release_pairs now us (st_db s) = Inr ((), st_db s')"
    by (auto simp: confirm_batch_body_def tx_simps split: if_splits)
  show ?thesis using ne check_pairs_split [OF us] rest release_pairs_exact [of now us "st_db s" "()" "st_db s'"] by auto
qed

lemma lost_lookups [simp]:
  "find_slot ''c1'' lost_db = Some (new_slot ''c1'' sample_now)"
  "find_reservation ''s1'' lost_db = Some (reservation_row_of ''s1'' sample_now)"
  "command_events ''c1'' lost_db = [event_row_of ''c1'' 1 ''command_queued'' [] 0 sample_now,
     event_row_of ''c1'' 2 ''command_started'' [] 0 sample_now, event_row_of ''c1'' 3 ''command_lost'' [] 0 sample_now]"
  "ses_runtime_generation ready_row = ''gen-1''" "cmd_output_complete queued_row = 0"
  by (simp_all add: find_slot_def find_reservation_def command_events_def lost_db_def ready_row_def reservation_row_of_def
      queued_row_def command_row_of_def)

lemma lost_pair_checked:
  "checkLostRuntimeRecoveryPair \<lparr>lrp_SessionID = ''s1'', lrp_CommandID = ''c1''\<rparr> lost_db = Inr False"
  by (simp add: checkLostRuntimeRecoveryPair_def new_slot_def reservation_row_of_def)

lemma lost_pair_released:
  "\<exists>db'. releaseLostRuntimeRecoveryPair \<lparr>lrp_SessionID = ''s1'', lrp_CommandID = ''c1''\<rparr> sample_now lost_db = Inr ((), db')"
  by (simp add: releaseLostRuntimeRecoveryPair_def tx_steps sql_insert_def update_rows_def find_slot_def find_reservation_def
      finalization_constraints_def lost_db_def reservation_row_of_def new_slot_def slot_released_def confirmed_def slot_check_def
      reservation_check_def scheduler_host_nonempty host_key_nonempty empty_database_def)

theorem lost_batch_releases_all_witness:
  "\<exists>s'. ConfirmLostRuntimeRecoveryBatch None sample_now (NewAuthorityStore lost_db)
       [\<lparr>lrp_SessionID = ''s1'', lrp_CommandID = ''c1''\<rparr>] = (Inr (), s') \<and>
     pair_released (st_db s') \<lparr>lrp_SessionID = ''s1'', lrp_CommandID = ''c1''\<rparr>"
proof -
  have "live_slots lost_db = 1" "live_reservations lost_db = 1"
    by (simp_all add: live_slots_def live_reservations_def lost_db_def reservation_row_of_def)
  then obtain s' where run: "ConfirmLostRuntimeRecoveryBatch None sample_now (NewAuthorityStore lost_db)
      [\<lparr>lrp_SessionID = ''s1'', lrp_CommandID = ''c1''\<rparr>] = (Inr (), s')"
    using lost_pair_checked lost_pair_released
    by (auto simp: ConfirmLostRuntimeRecoveryBatch_def validateLostRuntimeRecoveryPairs_def new_id_run confirm_batch_body_def
        withImmediateTransaction_def NewAuthorityStore_def tx_bind_def)
  then show ?thesis using lost_batch_releases_all [OF run] by auto
qed

end
