(* ===== verification/Store_Retries.thy ===== *)
theory Store_Retries
  imports Store_Runs Capacity_Properties
begin

text \<open>
  Idempotent acceptance over whole runs. A binding of an idempotency key stays in its table as long as
  no operation of the run reads the clock at or past its expiry; a retry of an accepted
  command or session therefore finds the binding and answers with the accepted resource.
\<close>

section \<open>Transactions that leave some tables alone\<close>

lemma find_inserted: "key r \<notin> key ` set rows \<Longrightarrow> find (\<lambda>x. key x = key r) (rows @ [r]) = Some r"
  by (simp add: find_append find_key_None [THEN iffD2])

text \<open>The columns of a job that are written once, at its acceptance.\<close>

definition job_identity :: "job_row \<Rightarrow> job_row" where
  "job_identity r = r\<lparr>job_phase := JobPhaseCreatingSession, job_command_state := None, job_exit_code := None,
     job_final_event_sequence := None, job_output_truncated := 0, job_output_complete := 0,
     job_output_unavailable_reason := [], job_teardown_state := JobTeardownPending,
     job_teardown_reason := [], job_updated_at := job_created_at r\<rparr>"

lemma checkpoint_identity: "job_identity (checkpoint_update checkpoint now r) = job_identity r"
  by (simp add: job_identity_def checkpoint_update_def Let_def split: option.split)

text \<open>
  A predicate on databases that does not look at the tables of sessions, capacity, audit, lane and
  recovery, and of the jobs at most at their fixed columns, is kept by every transaction that writes
  these tables only.
\<close>

locale frame_predicate =
  fixes I :: "database \<Rightarrow> bool"
  assumes ignores:
    "I (exec_sessions_update f1 db) \<longleftrightarrow> I db" "I (exec_session_lifecycle_update f2 db) \<longleftrightarrow> I db"
    "I (exec_capacity_reservations_update f3 db) \<longleftrightarrow> I db" "I (exec_command_slots_update f4 db) \<longleftrightarrow> I db"
    "I (exec_lost_runtime_recovery_finalizations_update f5 db) \<longleftrightarrow> I db"
    "I (exec_controlled_restart_plans_update f6 db) \<longleftrightarrow> I db"
    "I (exec_controlled_restart_plan_lost_pairs_update f7 db) \<longleftrightarrow> I db"
    "I (runner_audit_records_update f8 db) \<longleftrightarrow> I db" "I (lane_ingress_admission_update f9 db) \<longleftrightarrow> I db"
    and adds_job: "I db \<Longrightarrow> I (exec_jobs_update (\<lambda>rows. rows @ [r]) db)"
    and updates_job: "\<lbrakk>\<And>r. job_identity (f r) = job_identity r; I db\<rbrakk> \<Longrightarrow> I (exec_jobs_update (update_rows P f) db)"
begin

lemma keeps_statements:
  assumes upd: "\<And>f db. I (upd f db) \<longleftrightarrow> I db"
  shows "tx_keeps I (sql_insert con upd r)" "tx_keeps I (sql_update check get upd P g)" "tx_keeps I (sql_delete get upd P)"
  unfolding tx_keeps_def by (auto simp only: sql_insert_Inr sql_update_Inr sql_delete_Inr upd)

lemma keeps_modify: "(\<And>db. I (h db) \<longleftrightarrow> I db) \<Longrightarrow> tx_keeps I (tx_modify h)"
  by (simp add: tx_keeps_def tx_modify_Inr)

lemma keeps_check: "tx_keeps I (\<lambda>db. Inr (u, db))" "tx_keeps I (\<lambda>db. Inl e)"
  "tx_keeps I (\<lambda>db. if Q db then Inl e else Inr (u, db))"
  "tx_keeps I (\<lambda>db. if Q db then Inl e else Inl e')"
  by (auto simp: tx_keeps_def)


lemmas keeps = tx_keeps_bind tx_keeps_reads keeps_statements keeps_modify keeps_check ignores

lemma keeps_audit: "tx_keeps I (insertAuditOnConnection r)" "tx_keeps I (insertOptionalAuditOnConnection a)"
  by (simp_all add: insertAuditOnConnection_def insertOptionalAuditOnConnection_def keeps split: option.split)


lemma keeps_lane: "tx_keeps I (writeLaneAdmissionOnConnection st ins)"
  by (rule tx_keepsI)
    (auto simp: writeLaneAdmissionOnConnection_def Let_def ignores split: if_splits)

lemma keeps_session_statements:
  "tx_keeps I (insert_lifecycle sid n old st reason now)" "tx_keeps I (update_session sid st g)"
  "tx_keeps I (move_session sid st st' g reason now)" "tx_keeps I (release_reservation sid now)"
  by (simp_all add: insert_lifecycle_def update_session_def move_session_def release_reservation_def keeps)


lemma keeps_session_bodies:
  "tx_keeps I (confirm_cleanup_body sid now)" "tx_keeps I (transition_session_body sid st reason now)"
  "tx_keeps I (complete_creation_body sid st gen rv reason now)"
  "tx_keeps I (fail_after_cleanup_body sid gen rv reason now)" "tx_keeps I (fail_pre_start_body sid now)"
  by (simp_all add: confirm_cleanup_body_def transition_session_body_def complete_creation_body_def
      fail_after_cleanup_body_def fail_pre_start_body_def keeps keeps_session_statements Let_def)


lemma keeps_slot_statements:
  "tx_keeps I (transitionSessionOnConnection sid st reason now)" "tx_keeps I (release_slot cid now)"
  "tx_keeps I (confirm_slot_body cid now)"
  by (simp_all add: transitionSessionOnConnection_def release_slot_def confirm_slot_body_def keeps
      keeps_session_statements Let_def)

lemma keeps_plan_statements:
  "tx_keeps I (deleteControlledRestartPlanOnConnection p)" "tx_keeps I (consumeControlledRestartPlanOnClaim p)"
  "tx_keeps I (insert_lost_pairs n pairs)" "tx_keeps I (insertControlledRestartPlanOnConnection p)"
proof -
  show del: "tx_keeps I (deleteControlledRestartPlanOnConnection p)" for p
    by (simp add: deleteControlledRestartPlanOnConnection_def keeps)
  then show "tx_keeps I (consumeControlledRestartPlanOnClaim p)"
    by (simp add: consumeControlledRestartPlanOnClaim_def keeps)
  show ins: "tx_keeps I (insert_lost_pairs n pairs)" for n pairs
    by (induction n pairs rule: insert_lost_pairs.induct) (simp_all add: keeps)
  then show "tx_keeps I (insertControlledRestartPlanOnConnection p)"
    by (simp add: insertControlledRestartPlanOnConnection_def keeps)
qed


lemma keeps_recovery_bodies:
  "tx_keeps I (confirm_batch_body pairs now)" "tx_keeps I (confirm_preserving_body pairs now)"
  "tx_keeps I (complete_finalization_body pair)"
proof -
  have "tx_keeps I (releaseLostRuntimeRecoveryPair pair now)" for pair
    by (simp add: releaseLostRuntimeRecoveryPair_def keeps)
  then have "tx_keeps I (release_pairs now pairs)" for pairs
    by (induction now pairs rule: release_pairs.induct) (simp_all add: keeps)
  then show "tx_keeps I (confirm_batch_body pairs now)" "tx_keeps I (confirm_preserving_body pairs now)"
    "tx_keeps I (complete_finalization_body pair)"
    by (simp_all add: confirm_batch_body_def confirm_preserving_body_def complete_finalization_body_def keeps
        split: option.split)
qed


lemma keeps_plan_bodies:
  "tx_keeps I (prepare_plan_body pairs now)" "tx_keeps I (activate_plan_body plan now)"
  "tx_keeps I (clear_plan_body plan)"
proof -
  have new: "tx_keeps I (tx_bind (tx_query q1) (\<lambda>u. tx_bind (tx_guard (g u) e1) (\<lambda>_. tx_bind (tx_query q2)
      (\<lambda>(j, sid, cid, gen). tx_bind (insertControlledRestartPlanOnConnection (h j sid cid gen))
        (\<lambda>_. tx_return (h j sid cid gen))))))" for q1 g e1 q2 h
    by (simp add: keeps keeps_plan_statements split_beta)
  show "tx_keeps I (prepare_plan_body pairs now)"
    unfolding prepare_plan_body_def Let_def
    by (rule tx_keepsI) (auto split: sum.splits if_splits dest: tx_keepsD [OF new])
qed (simp_all add: activate_plan_body_def clear_plan_body_def keeps keeps_plan_statements)


lemma keeps_update_job: "(\<And>r. job_identity (f r) = job_identity r) \<Longrightarrow> tx_keeps I (update_job P f)"
  by (rule tx_keepsI) (auto simp: update_job_def sql_update_Inr updates_job)

lemma keeps_job_bodies:
  "tx_keeps I (checkpoint_job_body jid checkpoint now)"
  "tx_keeps I (probe_lost_body jid sid cid k env controller reason now)"
  "tx_keeps I (settle_body ids now)"
proof -
  have "tx_keeps I (settle_candidates now candidates)" for candidates
    by (induction candidates) (simp_all add: keeps keeps_update_job settled_def job_identity_def)
  then show "tx_keeps I (settle_body ids now)" by (simp add: settle_body_def keeps)
  show "tx_keeps I (checkpoint_job_body jid checkpoint now)"
    by (simp add: checkpoint_job_body_def keeps keeps_update_job checkpoint_identity Let_def)
  have "tx_keeps I (probe_job_lost jid sid cid now)"
    by (simp add: probe_job_lost_def keeps_update_job job_identity_def)
  then show "tx_keeps I (probe_lost_body jid sid cid k env controller reason now)"
    by (simp add: probe_lost_body_def keeps keeps_session_statements split: list.split)
qed

lemma keeps_insert_job:
  "tx_keeps I (\<lambda>db. if Q db then Inl e else sql_insert job_constraints exec_jobs_update r db)"
  by (rule tx_keepsI) (auto simp: sql_insert_Inr adds_job split: if_splits)

end

text \<open>A predicate on the idempotency bindings does not look at the commands either.\<close>

locale binding_predicate = frame_predicate +
  assumes ignores_commands: "I (exec_commands_update g1 db) \<longleftrightarrow> I db" "I (exec_command_events_update g2 db) \<longleftrightarrow> I db"
begin

lemmas keeps_here = keeps ignores_commands keeps_slot_statements keeps_plan_statements

lemma keeps_command_statements:
  "tx_keeps I (insertCommandEventOnConnection cid n ty payload bytes now)" "tx_keeps I (update_command cid g)"
  by (simp_all add: insertCommandEventOnConnection_def update_command_def keeps_here)

lemma keeps_command_bodies:
  "tx_keeps I (append_event_body output now)" "tx_keeps I (transition_command_body input now)"
  "tx_keeps I (complete_command_body input st reason rel now)"
  by (simp_all add: append_event_body_def transition_command_body_def complete_command_body_def
      keeps_here keeps_command_statements Let_def split: option.split)

lemma keeps_claim: "tx_keeps I (start_next_body limit handoff now)"
proof -
  have start: "tx_keeps I (start_command plan cid sid candidate now)" for plan cid sid candidate
    by (simp add: start_command_def keeps_here keeps_command_statements split: option.split)
  have "tx_keeps I (claim_first plan now cands)" for plan cands
  proof (induction cands)
    case Nil
    then show ?case by (simp add: keeps)
  next
    case (Cons c rest)
    have "tx_keeps I (\<lambda>db. case nextEligibleCommandOnConnection sid db of
           Inl e \<Rightarrow> if errors_Is e ErrCommandNotEligible then claim_first plan now rest db else Inl e
         | Inr candidate \<Rightarrow>
             if cr_CommandID candidate \<noteq> cid then claim_first plan now rest db
             else start_command plan cid sid candidate now db)" for cid sid
      by (rule tx_keepsI)
        (auto split: sum.splits if_splits dest: tx_keepsD [OF Cons.IH] tx_keepsD [OF start])
    then show ?case using Cons.IH by (simp add: keeps)
  qed
  then show ?thesis by (simp add: start_next_body_def keeps)
qed


end

section \<open>Runs\<close>

definition op_keeps :: "(database \<Rightarrow> bool) \<Rightarrow> AuthorityStore \<Rightarrow> 'a result \<times> AuthorityStore \<Rightarrow> bool" where
  "op_keeps I s r \<longleftrightarrow> (I (st_db s) \<longrightarrow> I (st_db (snd r)))"

lemma op_keepsD: "op_keeps I s r \<Longrightarrow> I (st_db s) \<Longrightarrow> I (st_db (snd r))"
  by (simp add: op_keeps_def)

lemma op_keeps_same: "st_db (snd r) = st_db s \<Longrightarrow> op_keeps I s r"
  by (simp add: op_keeps_def)

lemma op_keeps_tx: "tx_keeps I m \<Longrightarrow> op_keeps I s (withImmediateTransaction fault s m)"
  by (rule withImmediateTransaction_cases [of fault s m]) (auto simp: op_keeps_def dest: tx_keepsD)

lemma op_keeps_map: "op_keeps I s r \<Longrightarrow> st_db (snd r') = st_db (snd r) \<Longrightarrow> op_keeps I s r'"
  by (simp add: op_keeps_def)

lemma op_keeps_publish: "op_keeps I s r \<Longrightarrow> op_keeps I s (publish_committed r)"
  by (erule op_keeps_map) (auto simp: publish_committed_def split: prod.splits sum.splits option.splits)

lemma op_keeps_case:
  assumes "tx_keeps I m" "\<And>x s'. st_db (snd (h x s')) = st_db s'"
  shows "op_keeps I s
    (case withImmediateTransaction fault s m of (r, s') \<Rightarrow> (case r of Inl e \<Rightarrow> (Inl e, s') | Inr x \<Rightarrow> h x s'))"
  by (rule op_keeps_map [OF op_keeps_tx [OF assms(1), of s fault]])
    (use assms(2) in \<open>auto split: prod.splits sum.splits\<close>)

lemma frame_ops_keep:
  assumes "frame_predicate I"
  shows "op_keeps I s (ConfirmSessionCleanup fault now s sid)"
    "op_keeps I s (TransitionSession fault now s sid st reason)"
    "op_keeps I s (CompleteSessionCreation fault now s sid st g rv reason)"
    "op_keeps I s (CompleteFailedSessionCreationAfterConfirmedCleanup fault now s sid g rv reason)"
    "op_keeps I s (FailPreStartSessionCreation fault now s sid)"
    "op_keeps I s (RecordAudit fault s a)"
    "op_keeps I s (ConfirmCommandSlotRelease fault now s cid)"
    "op_keeps I s (ConfirmLostRuntimeRecoveryBatch fault now s pairs)"
    "op_keeps I s (ConfirmLostRuntimeRecoveryBatchPreservingQueuedOneOffs fault now s pairs)"
    "op_keeps I s (CompleteLostRuntimeRecoveryFinalization fault s pair)"
    "op_keeps I s (PrepareControlledRestartPlan fault now s pairs)"
    "op_keeps I s (ActivateControlledRestartPlan fault now s plan)"
    "op_keeps I s (ClearControlledRestartPlan fault s plan)"
  by (auto simp: ConfirmSessionCleanup_def TransitionSession_def CompleteSessionCreation_def
      CompleteFailedSessionCreationAfterConfirmedCleanup_def FailPreStartSessionCreation_def op_keeps_same
      RecordAudit_def ConfirmCommandSlotRelease_def ConfirmLostRuntimeRecoveryBatch_def
      ConfirmLostRuntimeRecoveryBatchPreservingQueuedOneOffs_def CompleteLostRuntimeRecoveryFinalization_def
      PrepareControlledRestartPlan_def ActivateControlledRestartPlan_def ClearControlledRestartPlan_def
      Let_def split: sum.splits
      intro!: op_keeps_tx op_keeps_case frame_predicate.keeps_session_bodies [OF assms]
        frame_predicate.keeps_slot_statements [OF assms] frame_predicate.keeps_audit [OF assms]
        frame_predicate.keeps_recovery_bodies [OF assms] frame_predicate.keeps_plan_bodies [OF assms])

lemma job_ops_keep:
  assumes "frame_predicate I"
  shows "op_keeps I s (CheckpointJob fault now s jid checkpoint)"
    "op_keeps I s (MarkCreatingDirectProbeLost fault now s jid sid cid key env controller reason)"
    "op_keeps I s (SettleClosedCancelledOneOffJobs fault now s ids)"
  by (auto simp: CheckpointJob_def MarkCreatingDirectProbeLost_def SettleClosedCancelledOneOffJobs_def Let_def op_keeps_same
      split: sum.splits prod.splits intro!: op_keeps_tx frame_predicate.keeps_job_bodies [OF assms])

lemma admission_ops_keep:
  assumes "frame_predicate I"
  shows "op_keeps I s (admission_apply fault s op)"
proof -
  note keeps = frame_predicate.keeps [OF assms] frame_predicate.keeps_lane [OF assms]
  show ?thesis
  proof (cases op)
    case (OpConfigure lane host)
    then show ?thesis
      by (auto simp: ConfigureLaneAdmission_def Let_def op_keeps_same keeps split: sum.splits option.splits
          intro!: op_keeps_case)
  next
    case (OpLane lop)
    show ?thesis
      unfolding OpLane admission_apply_lane updateLaneAdmission_def Let_def
      by (rule op_keeps_case) (auto simp: keeps split: option.splits prod.splits)
  next
    case (OpRevalidate i)
    then show ?thesis
      by (auto simp: RevalidateLaneAdmissionCandidate_def split: sum.splits option.splits intro!: op_keeps_same)
  qed
qed

lemma command_ops_keep:
  assumes "binding_predicate I"
  shows "op_keeps I s (AppendCommandEvent fault now s output)"
    "op_keeps I s (TransitionCommand fault now s transition)"
    "op_keeps I s (CompleteRunningCommand fault now s transition st reason rel)"
    "op_keeps I s (startNextEligibleCommand fault now s n handoff)"
  by (auto simp: AppendCommandEvent_def TransitionCommand_def CompleteRunningCommand_def
      startNextEligibleCommand_def op_keeps_same Let_def split: sum.splits
      intro!: op_keeps_publish op_keeps_tx binding_predicate.keeps_claim [OF assms]
        binding_predicate.keeps_command_bodies [OF assms])

text \<open>
  The acceptances and the idempotency operations write the bindings too, through the lookup and
  one insert; a predicate that both keep at some time is kept by every operation of the store at that time.
\<close>

locale acceptance_predicate = binding_predicate +
  fixes now :: time
  assumes keeps_lookup: "tx_keeps I (lookupIdempotencyOnConnection c operation key now)"
    and adds_binding: "I db \<Longrightarrow> I (exec_idempotency_update (\<lambda>rows. rows @ [b]) db)"
begin

lemma keeps_record: "tx_keeps I (recordIdempotencyOnConnection r)"
  by (rule tx_keepsI) (auto simp: recordIdempotencyOnConnection_def tx_simps adds_binding)

lemma keeps_acceptances:
  "tx_keeps I (accept_session_body sv now runtime)" "tx_keeps I (accept_command_body cv now runtime)"
  "tx_keeps I (insertSessionAcceptance create k h t now warning)" "tx_keeps I (accept_job_body jv ingress now runtime)"
proof -
  show ins: "tx_keeps I (insertSessionAcceptance create k h t now warning)" for create k h t warning
    by (simp add: insertSessionAcceptance_def keeps keeps_session_statements keeps_record)
  then show "tx_keeps I (accept_session_body sv now runtime)"
    by (simp add: accept_session_body_def Let_def keeps keeps_audit keeps_lookup ensureSessionCapacity_def split: option.split)
  show "tx_keeps I (accept_command_body cv now runtime)"
    by (simp add: accept_command_body_def insert_command_def keeps_here keeps_command_statements keeps_audit keeps_record
        keeps_lookup split: option.split)
  show "tx_keeps I (accept_job_body jv ingress now runtime)"
    by (simp add: accept_job_body_def Let_def insertJobOnConnection_def keeps keeps_insert_job keeps_record
        keeps_lookup split: option.split)
qed

lemma binding_ops_keep:
  "op_keeps I s (AcceptSessionCreate fault now s session)" "op_keeps I s (CreateSession fault now s create)"
  "op_keeps I s (AcceptCommand fault now s command)" "op_keeps I s (AcceptJob fault now ctx s job)"
  "op_keeps I s (LookupIdempotency fault now s c' operation' key')"
  "op_keeps I s (EnsureIdempotencyWithAudit fault now s c' operation' key' h resource retention a)"
proof -
  note here = keeps keeps_lookup keeps_record keeps_audit keeps_acceptances ensureSessionCapacity_def
  show "op_keeps I s (AcceptSessionCreate fault now s session)"
  proof (cases "validateSessionAcceptance session")
    case (Inr v)
    show ?thesis
      unfolding AcceptSessionCreate_def Inr sum.case
      by (rule op_keeps_case) (auto simp: here split: prod.splits)
  qed (simp add: AcceptSessionCreate_def op_keeps_same)
  show "op_keeps I s (CreateSession fault now s create)"
    by (auto simp: CreateSession_def op_keeps_same here split: sum.splits intro!: op_keeps_tx)
  show "op_keeps I s (AcceptCommand fault now s command)"
  proof (cases "validateCommandAcceptance command")
    case (Inr v)
    show ?thesis
      unfolding AcceptCommand_def Inr sum.case
      by (rule op_keeps_case) (auto simp: here Let_def split: prod.splits)
  qed (simp add: AcceptCommand_def op_keeps_same)
  show "op_keeps I s (AcceptJob fault now ctx s job)"
    by (auto simp: AcceptJob_def op_keeps_same here split: sum.splits intro!: op_keeps_tx)
  show "op_keeps I s (LookupIdempotency fault now s c' operation' key')"
    by (auto simp: LookupIdempotency_def op_keeps_same here split: sum.splits prod.splits intro!: op_keeps_tx)
  show "op_keeps I s (EnsureIdempotencyWithAudit fault now s c' operation' key' h resource retention a)"
  proof (cases "validateIdempotencyInput c' operation' key' h resource retention")
    case (Inr v)
    show ?thesis
      unfolding EnsureIdempotencyWithAudit_def Inr sum.case
      by (rule op_keeps_case) (auto simp: here Let_def split: prod.splits option.splits)
  qed (simp add: EnsureIdempotencyWithAudit_def op_keeps_same)
qed

lemma store_apply_keeps:
  assumes "I (st_db s)"
  shows "I (st_db (snd (store_apply fault now s op)))"
  by (cases op; simp add: subscription_ops_db assms)
    (rule op_keepsD [where I = I, OF _ assms],
      rule binding_ops_keep command_ops_keep [OF binding_predicate_axioms]
        frame_ops_keep [OF frame_predicate_axioms] job_ops_keep [OF frame_predicate_axioms]
        admission_ops_keep [OF frame_predicate_axioms])+

end

section \<open>A retained binding\<close>

lemma find_binding_frame [simp]:
  "find_binding c operation key (exec_sessions_update f1 db) = find_binding c operation key db"
  "find_binding c operation key (exec_session_lifecycle_update f2 db) = find_binding c operation key db"
  "find_binding c operation key (exec_capacity_reservations_update f3 db) = find_binding c operation key db"
  "find_binding c operation key (exec_command_slots_update f4 db) = find_binding c operation key db"
  "find_binding c operation key (exec_lost_runtime_recovery_finalizations_update f5 db) = find_binding c operation key db"
  "find_binding c operation key (exec_controlled_restart_plans_update f6 db) = find_binding c operation key db"
  "find_binding c operation key (exec_controlled_restart_plan_lost_pairs_update f7 db) = find_binding c operation key db"
  "find_binding c operation key (runner_audit_records_update f8 db) = find_binding c operation key db"
  "find_binding c operation key (lane_ingress_admission_update f9 db) = find_binding c operation key db"
  "find_binding c operation key (exec_jobs_update f10 db) = find_binding c operation key db"
  "find_binding c operation key (exec_commands_update g1 db) = find_binding c operation key db"
  "find_binding c operation key (exec_command_events_update g2 db) = find_binding c operation key db"
  "find_binding c operation key (exec_idempotency_expiry_warnings_update g3 db) = find_binding c operation key db"
  by (simp_all add: find_binding_def)

interpretation kept: binding_predicate "\<lambda>db. find_binding c operation key db = Some row"
  for c operation key row
  by unfold_locales simp_all

lemma find_filter: "find P xs = Some x \<Longrightarrow> (\<And>y. P y \<Longrightarrow> Q y) \<Longrightarrow> find P (filter Q xs) = Some x"
  by (induction xs) (auto split: if_splits)

text \<open>Only an operation that reads the clock at or past the expiry can remove the binding.\<close>

lemma keeps_lookup:
  assumes "parseStoredTime (idm_expires_at row) = Inr e" "now < e"
  shows "tx_keeps (\<lambda>db. find_binding c operation key db = Some row)
    (lookupIdempotencyOnConnection c' operation' key' now)"
proof (rule tx_keepsI)
  let ?B = "\<lambda>db. find_binding c operation key db = Some row"
  fix db x db'
  assume B: "?B db" and run: "lookupIdempotencyOnConnection c' operation' key' now db = Inr (x, db')"
  show "?B db'"
  proof (cases "idempotency_key_of c' operation' key' = idempotency_key_of c operation key")
    case True
    then have "find_binding c' operation' key' db = Some row" using B by (simp add: find_binding_def)
    then show ?thesis using run assms B
      by (auto simp: lookupIdempotencyOnConnection_def tx_simps)
  next
    case other: False
    have warn: "tx_keeps ?B (recordIdempotencyExpiryWarningOnConnection c' operation' key' t now)" for t
      by (simp add: recordIdempotencyExpiryWarningOnConnection_def kept.keeps Let_def split: option.split)
    have "tx_keeps ?B (sql_delete exec_idempotency exec_idempotency_update
        (\<lambda>r. idempotency_key r = idempotency_key_of c' operation' key'))"
      using other by (auto intro!: tx_keepsI find_filter simp: tx_simps find_binding_def)
    then have "tx_keeps ?B (lookupIdempotencyOnConnection c' operation' key' now)"
      using warn by (simp add: lookupIdempotencyOnConnection_def kept.keeps split: option.split)
    then show ?thesis using B run by (rule tx_keepsD)
  qed
qed

lemma binding_kept_at:
  assumes "parseStoredTime (idm_expires_at row) = Inr e" "now < e"
  shows "acceptance_predicate (\<lambda>db. find_binding c operation key db = Some row) now"
  by unfold_locales (rule keeps_lookup [OF assms], simp add: find_binding_def find_append)

lemma run_keeps_binding:
  assumes "parseStoredTime (idm_expires_at row) = Inr e" "\<forall>call \<in> set calls. fst (snd call) < e"
    and "find_binding c operation key (st_db s) = Some row"
  shows "find_binding c operation key (st_db (foldl store_run s calls)) = Some row"
  using assms(2,3)
proof (induction calls arbitrary: s)
  case (Cons call calls)
  then show ?case
    using acceptance_predicate.store_apply_keeps [OF binding_kept_at [OF assms(1)]] by (simp add: store_run_def)
qed simp

end
