(* ===== verification/Command_Acceptance.thy ===== *)
theory Command_Acceptance
  imports Store_Retries
begin

text \<open>
  Acceptance of commands: a fresh submission to an open session becomes its next queued command, and a
  submission is accepted once over any run of operations.
\<close>

section \<open>What an acceptance leaves\<close>

lemma AcceptCommand_Inr:
  assumes "AcceptCommand fault now s input = (Inr (rc, dup), s')"
  obtains v saved db' where "validateCommandAcceptance input = Inr v" "fault = None"
    "accept_command_body v now (st_laneAdmissionRuntime s) (st_db s) = Inr (((rc, dup), saved), db')"
    "st_db s' = db'"
proof -
  obtain v where v: "validateCommandAcceptance input = Inr v"
    using assms by (cases "validateCommandAcceptance input") (simp_all add: AcceptCommand_def)
  show thesis
  proof (cases rule: withImmediateTransaction_cases [of fault s "accept_command_body v now (st_laneAdmissionRuntime s)"])
    case (rollback e)
    then show ?thesis using assms v by (simp add: AcceptCommand_def)
  next
    case (commit x db)
    then obtain c d saved where "x = ((c, d), saved)" by (metis surj_pair)
    then show ?thesis
      using assms v commit that by (auto simp: AcceptCommand_def Let_def split: if_splits)
  qed
qed

lemma validateCommandAcceptance_ok:
  assumes "validateCommandAcceptance input = Inr v"
  shows "ca_IdempotencyKey v \<noteq> []" "ca_Audit v = ca_Audit input" "0 < ca_Timeout v"
    "ValidateScriptUTF8 (ca_Script v) = Inr ()" "valid_hash (ca_RequestHash v)"
  using assms
  by (auto simp: validateCommandAcceptance_def tx_simps Let_def bounded_token_def valid_hash_def
      validateIdempotencyOperationKey_Inr split: if_splits sum.splits)

definition submission_binding :: "CommandAcceptance \<Rightarrow> ControllerIdentity \<Rightarrow> time \<Rightarrow> bool \<Rightarrow> IdempotencyRecord" where
  "submission_binding v controller now warning =
     \<lparr>idr_Controller = controller, idr_Operation = submitCommandOperation, idr_Key = ca_IdempotencyKey v,
      idr_Hash = ca_RequestHash v, idr_ResourceID = ca_CommandID v, idr_CreatedAt = now,
      idr_ExpiresAt = now + ca_IdempotencyRetention v, idr_DeduplicationWarning = warning\<rparr>"

lemma insert_command_binding:
  assumes "insert_command v controller now warning db = Inr (rc, db')"
  shows "find_binding controller submitCommandOperation (ca_IdempotencyKey v) db' =
      Some (binding_row (submission_binding v controller now warning))"
    "valid_hash (ca_RequestHash v)" "bounded_token 256 (ca_CommandID v)"
    "cr_IdempotencyWarning rc = warning"
    "\<exists>created. readCommandOnConnection (ca_CommandID v) db' = Inr created \<and>
       rc = created\<lparr>cr_IdempotencyWarning := warning\<rparr>"
    "find_command (ca_CommandID v) db' = Some (command_row_of v (cr_Ordinal rc) now)"
proof -
  obtain input db1 u created where
    input: "validateIdempotencyInput controller submitCommandOperation (ca_IdempotencyKey v) (ca_RequestHash v)
      (ca_CommandID v) (ca_IdempotencyRetention v) = Inr input"
    and rec: "recordIdempotencyOnConnection (input\<lparr>idr_CreatedAt := now,
      idr_ExpiresAt := now + ca_IdempotencyRetention v, idr_DeduplicationWarning := warning\<rparr>) db1 = Inr (u, db')"
    and created: "readCommandOnConnection (ca_CommandID v) db' = Inr created" "rc = created\<lparr>cr_IdempotencyWarning := warning\<rparr>"
    using assms by (auto simp: insert_command_def tx_simps)
  note parts = input [unfolded validateIdempotencyInput_Inr]
  show "find_binding controller submitCommandOperation (ca_IdempotencyKey v) db' =
      Some (binding_row (submission_binding v controller now warning))"
    "valid_hash (ca_RequestHash v)" "bounded_token 256 (ca_CommandID v)"
    using record_find [OF rec] parts by (auto simp: binding_row_def submission_binding_def)
  show "cr_IdempotencyWarning rc = warning"
    "\<exists>created. readCommandOnConnection (ca_CommandID v) db' = Inr created \<and>
       rc = created\<lparr>cr_IdempotencyWarning := warning\<rparr>"
    using created by auto
  obtain n where rows: "exec_commands db' = exec_commands db @ [command_row_of v n now]"
    and con: "command_constraints (command_row_of v n now) db"
    using assms by (auto simp: insert_command_def recordIdempotencyOnConnection_def tx_simps split: if_splits)
  have key: "cmd_command_id (command_row_of v n now) = ca_CommandID v" by (simp add: command_row_of_def)
  then have n: "find_command (ca_CommandID v) db' = Some (command_row_of v n now)"
    using con find_inserted [of cmd_command_id "command_row_of v n now"] by (simp add: find_command_def rows command_constraints_def)
  have "cr_Ordinal created = n" by (rule readCommand_row [OF created(1)]) (use n in \<open>simp add: command_row_of_def\<close>)
  with n show "find_command (ca_CommandID v) db' = Some (command_row_of v (cr_Ordinal rc) now)" using created(2) by simp
qed

lemma retry_command_body:
  assumes b: "find_binding controller submitCommandOperation (ca_IdempotencyKey v) db =
      Some (binding_row (submission_binding v controller now warning))"
    and ok: "valid_hash (ca_RequestHash v)" "bounded_token 256 (ca_CommandID v)"
    and times: "valid_time now" "valid_time (now + ca_IdempotencyRetention v)" "now2 < now + ca_IdempotencyRetention v"
    and row: "find_session (ca_SessionID v2) db = Some row"
      "NewControllerIdentity (ses_controller_type row) (ses_controller_id row) = Inr controller"
    and same: "ca_IdempotencyKey v2 = ca_IdempotencyKey v" "ca_Audit v2 = None"
    and ingress: "checkIngressAdmissionOnConnection runtime db = Inr ()"
  shows "accept_command_body v2 now2 runtime db =
    (if ca_RequestHash v2 = ca_RequestHash v
     then res_bind (readCommandOnConnection (ca_CommandID v) db)
       (\<lambda>found. Inr (((found\<lparr>cr_IdempotencyWarning := warning\<rparr>, True), None), db))
     else Inl ErrIdempotencyConflict)"
proof -
  let ?b = "submission_binding v controller now warning"
  have fields: "idr_Controller ?b = controller" "idr_Operation ?b = submitCommandOperation"
    "idr_Key ?b = ca_IdempotencyKey v" "idr_ExpiresAt ?b = now + ca_IdempotencyRetention v"
    "idr_ResourceID ?b = ca_CommandID v" "idr_Hash ?b = ca_RequestHash v" "idr_DeduplicationWarning ?b = warning"
    by (simp_all add: submission_binding_def)
  have "readable_binding ?b"
    using ok times by (simp add: readable_binding_def submission_binding_def)
  then have look: "lookupIdempotencyOnConnection controller submitCommandOperation (ca_IdempotencyKey v) now2 db =
      Inr (Some ?b, db)"
    using lookup_retained [of ?b db now2] b times(3) fields by (simp add: IdempotencyRecord.defs)
  have ids: "NewControllerID (ses_controller_id row) = Inr (ses_controller_id row)"
    "NewCommandID (ca_CommandID v) = Inr (ca_CommandID v)"
    using row(2) ok(2) by (auto simp: bounded_token_def)
  have "(CompareIdempotency (ca_RequestHash v) (ca_RequestHash v2) = IdempotencyComparisonConflict) =
      (ca_RequestHash v2 \<noteq> ca_RequestHash v)"
    using ok(1) CompareIdempotency_conflict [of "ca_RequestHash v" "ca_RequestHash v2"] by (auto simp: valid_hash_def)
  then show ?thesis
    using ingress same
    by (simp add: row accept_command_body_def tx_bind_def tx_query_def tx_lift_def tx_guard_def tx_return_def
        select_session_def ids look fields insertOptionalAuditOnConnection_def res_bind_def split: sum.split)
qed

lemma accept_command_run:
  "AcceptCommand fault now s input = (r, s') \<Longrightarrow> store_wf (st_db s) \<Longrightarrow> store_wf (st_db s')"
  using authority.inv_step [of s "(fault, now, DoAcceptCommand input)"] by (simp add: store_run_def outcome_def)

text \<open>C5. A command is accepted once: after its acceptance and any sequence of operations of a run
  before its idempotency key expires (garbage collection is not one of them), its row is still stored
  with the columns it was accepted with; and a retry, one without an audit record of its own, with the
  same key for a session of the same controller and while the lane admits work, accepts no second
  command and writes nothing. With the same request hash it answers with the accepted command as it is
  by then and reports a duplicate, or with the error of reading that row; with another hash it is
  refused as a conflict.\<close>

theorem command_exactly_once:
  fixes s s' :: AuthorityStore and calls :: "(go_error option \<times> time \<times> store_op) list"
  defines "t \<equiv> foldl store_run s' calls"
  assumes wf: "store_wf (st_db s)" and first: "AcceptCommand None now s input = (Inr (rc, False), s')"
    and v: "validateCommandAcceptance input = Inr v"
    and row: "find_session (ca_SessionID v) (st_db s) = Some row"
    and times: "valid_time now" "valid_time (now + ca_IdempotencyRetention v)" "now2 < now + ca_IdempotencyRetention v"
    and before: "\<forall>call \<in> set calls. fst (snd call) < now + ca_IdempotencyRetention v"
    and v2: "validateCommandAcceptance input2 = Inr v2" "ca_IdempotencyKey v2 = ca_IdempotencyKey v" "ca_Audit input2 = None"
    and row2: "find_session (ca_SessionID v2) (st_db t) = Some row2"
      "ses_controller_type row2 = ses_controller_type row" "ses_controller_id row2 = ses_controller_id row"
    and ingress: "checkIngressAdmissionOnConnection (st_laneAdmissionRuntime t) (st_db t) = Inr ()"
  shows "\<exists>c. find_command (cr_CommandID rc) (st_db t) = Some c \<and>
    command_columns c = command_columns (command_row_of v (cr_Ordinal rc) now) \<and>
    AcceptCommand None now2 t input2 =
      (if ca_RequestHash v2 = ca_RequestHash v
       then (case decode_command_row (cr_CommandID rc) c of
               Inr found \<Rightarrow> (Inr (found\<lparr>cr_IdempotencyWarning := cr_IdempotencyWarning rc\<rparr>, True), t)
             | Inl e \<Rightarrow> (Inl e, count_error e t))
       else (Inl ErrIdempotencyConflict, t))"
proof -
  obtain saved db' where run: "accept_command_body v now (st_laneAdmissionRuntime s) (st_db s) = Inr (((rc, False), saved), db')"
    and s': "st_db s' = db'"
    by (rule AcceptCommand_Inr [OF first]) (use v in auto)
  from run obtain controller warning db1 db2 where
    c: "NewControllerIdentity (ses_controller_type row) (ses_controller_id row) = Inr controller"
    and ins: "insert_command v controller now warning db1 = Inr (rc, db2)"
    and aud: "insertOptionalAuditOnConnection (ca_Audit v) db2 = Inr (saved, db')"
    using row by (cases rule: accept_command_cases) auto
  note b = insert_command_binding [OF ins]
  have c2: "NewControllerIdentity (ses_controller_type row2) (ses_controller_id row2) = Inr controller"
    using c by (simp only: row2)
  have id: "cr_CommandID rc = ca_CommandID v"
    using b(5) by (auto simp: readCommandOnConnection_def split: option.splits dest: decode_command_id)
  have "find_binding controller submitCommandOperation (ca_IdempotencyKey v) (st_db s') =
      Some (binding_row (submission_binding v controller now warning))"
    and stored: "find_command (ca_CommandID v) (st_db s') = Some (command_row_of v (cr_Ordinal rc) now)"
    unfolding s' by (rule insertOptionalAudit_obtain [OF aud],
        use b(1,6) in \<open>simp add: find_binding_def find_command_def\<close>)+
  then have "find_binding controller submitCommandOperation (ca_IdempotencyKey v) (st_db t) =
      Some (binding_row (submission_binding v controller now warning))"
    unfolding t_def using times(2) before
    by (intro run_keeps_binding) (auto simp: binding_row_def submission_binding_def)
  then have body: "accept_command_body v2 now2 (st_laneAdmissionRuntime t) (st_db t) =
    (if ca_RequestHash v2 = ca_RequestHash v
     then res_bind (readCommandOnConnection (ca_CommandID v) (st_db t))
       (\<lambda>found. Inr (((found\<lparr>cr_IdempotencyWarning := warning\<rparr>, True), None), st_db t))
     else Inl ErrIdempotencyConflict)"
    by (rule retry_command_body [OF _ b(2,3) times row2(1) c2 v2(2) _ ingress])
      (simp add: validateCommandAcceptance_ok(2) [OF v2(1)] v2(3))
  obtain d where d: "find_command (ca_CommandID v) (st_db t) = Some d"
    "command_columns d = command_columns (command_row_of v (cr_Ordinal rc) now)"
    using authority.run_rel [OF accept_command_run [OF first wf]] stored unfolding t_def command_evolves_def by blast
  have "AcceptCommand None now2 t input2 =
      (if ca_RequestHash v2 = ca_RequestHash v
       then (case decode_command_row (ca_CommandID v) d of
               Inr found \<Rightarrow> (Inr (found\<lparr>cr_IdempotencyWarning := warning\<rparr>, True), t)
             | Inl e \<Rightarrow> (Inl e, count_error e t))
       else (Inl ErrIdempotencyConflict, t))"
    using d(1) by (simp add: AcceptCommand_def v2(1) withImmediateTransaction_def logOptionalAudit_def Let_def body
        readCommandOnConnection_def res_bind_def count_error_def errors_Is.simps split: sum.split)
  then show ?thesis using d unfolding id b(4) by blast
qed

section \<open>A fresh submission\<close>

definition fresh_submission :: "CommandAcceptance \<Rightarrow> session_row \<Rightarrow> ControllerIdentity \<Rightarrow> time \<Rightarrow> database \<Rightarrow> bool" where
  "fresh_submission v row controller now db \<longleftrightarrow>
     find_session (ca_SessionID v) db = Some row \<and>
     (ses_state row = SessionStateReady \<or> ses_state row = SessionStateBusy) \<and>
     controller = \<lparr>ci_type = ses_controller_type row, ci_id = ses_controller_id row\<rparr> \<and>
     known_controller_type (ses_controller_type row) \<and> sql_nonempty (ses_controller_id row) \<and>
     find_binding controller submitCommandOperation (ca_IdempotencyKey v) db = None \<and>
     find_warning controller submitCommandOperation (ca_IdempotencyKey v) db = None \<and>
     find_command (ca_CommandID v) db = None \<and> bounded_token 256 (ca_CommandID v) \<and>
     valid_time now \<and> valid_time (now + ca_IdempotencyRetention v) \<and>
     list_all readable_command (session_commands (ca_SessionID v) db)"

definition submitted_db :: "CommandAcceptance \<Rightarrow> ControllerIdentity \<Rightarrow> int \<Rightarrow> time \<Rightarrow> database \<Rightarrow> database" where
  "submitted_db v controller n now db =
     db\<lparr>exec_commands := exec_commands db @ [command_row_of v n now],
        exec_command_events := exec_command_events db @ [event_row_of (ca_CommandID v) 1 ''command_queued'' [] 0 now],
        exec_idempotency := exec_idempotency db @ [binding_row (submission_binding v controller now False)]\<rparr>"

definition command_record_of :: "CommandAcceptance \<Rightarrow> int \<Rightarrow> time \<Rightarrow> CommandRecord" where
  "command_record_of v n now =
     \<lparr>cr_CommandID = ca_CommandID v, cr_SessionID = ca_SessionID v, cr_Ordinal = n,
      cr_IntentOrdinal = (if ca_IntentOrdinal v \<noteq> 0 then Some (ca_IntentOrdinal v) else None),
      cr_RequestHash = ca_RequestHash v, cr_ScriptBytes = ca_Script v,
      cr_ScriptSHA256 = sha256_Sum256 (ca_Script v), cr_State = CommandStateQueued, cr_Timeout = ca_Timeout v,
      cr_ExitCode = None, cr_FinalEventSequence = None, cr_OutputTruncated = False, cr_OutputComplete = False,
      cr_OutputUnavailableReason = [], cr_CreatedAt = now, cr_UpdatedAt = now, cr_IdempotencyWarning = False\<rparr>"

text \<open>What the validation of a submission guarantees.\<close>

definition submission_ok :: "CommandAcceptance \<Rightarrow> bool" where
  "submission_ok v \<longleftrightarrow> ca_CommandID v \<noteq> [] \<and> ca_SessionID v \<noteq> [] \<and> valid_hash (ca_RequestHash v) \<and>
     ValidateScriptUTF8 (ca_Script v) = Inr () \<and> bounded_token 256 (ca_IdempotencyKey v) \<and>
     0 \<le> ca_IdempotencyRetention v \<and> 0 < ca_Timeout v \<and> 0 \<le> ca_IntentOrdinal v"

lemma validated_submission: "validateCommandAcceptance input = Inr v \<Longrightarrow> submission_ok v"
  by (auto simp: validateCommandAcceptance_def submission_ok_def tx_simps Let_def valid_hash_def new_id_Inr
      split: if_splits sum.splits)

lemma command_row_of_readable:
  assumes ok: "submission_ok v" and "1 \<le> n" "valid_time now" "bounded_token 256 (ca_CommandID v)"
  shows "decode_command_row (ca_CommandID v) (command_row_of v n now) = Inr (command_record_of v n now)"
    "command_check (command_row_of v n now)"
proof -
  have hash: "NewCanonicalHash (ch_version (ca_RequestHash v)) (ch_digest (ca_RequestHash v)) = Inr (ca_RequestHash v)"
    by (rule NewCanonicalHash_of [THEN iffD2]) (use ok in \<open>simp add: submission_ok_def\<close>)
  show "decode_command_row (ca_CommandID v) (command_row_of v n now) = Inr (command_record_of v n now)"
    using assms by (simp add: decode_command_row_def command_row_of_def command_record_of_def new_id_run has_nul_def
        submission_ok_def sha256_Size_def hash del: NewCanonicalHash_Inr)
  show "command_check (command_row_of v n now)"
    using assms uint_pos [of "ch_version (ca_RequestHash v)"] sql_nonempty_token [OF assms(4)]
    by (simp add: command_check_def command_row_of_def submission_ok_def valid_hash_def sha256_Size_def)
qed

lemma submit_token: "bounded_token 128 submitCommandOperation"
  by (simp add: submitCommandOperation_def bounded_token_def has_nul_def NUL_def)

lemma next_ordinal_runs:
  "commands_wf db \<Longrightarrow> list_all readable_command (session_commands sid db) \<Longrightarrow>
   nextCommandOrdinalOnConnection sid db = Inr (int (length (session_commands sid db)) + 1)"
  by (simp add: nextCommandOrdinalOnConnection_def order_readable)

lemma insert_command_fresh:
  assumes wf: "store_wf db" and ok: "submission_ok v" and fresh: "fresh_submission v row controller now db"
  defines "n \<equiv> int (length (session_commands (ca_SessionID v) db)) + 1"
  shows "insert_command v controller now False db =
    Inr (command_record_of v n now, submitted_db v controller n now db)"
proof -
  have f: "find_session (ca_SessionID v) db = Some row" "bounded_token 256 (ca_CommandID v)" "valid_time now"
    "valid_time (now + ca_IdempotencyRetention v)" "find_command (ca_CommandID v) db = None"
    "find_binding controller submitCommandOperation (ca_IdempotencyKey v) db = None"
    "known_controller_type (ci_type controller)" "sql_nonempty (ci_id controller)"
    "list_all readable_command (session_commands (ca_SessionID v) db)"
    using fresh by (auto simp: fresh_submission_def)
  have cwf: "commands_wf db" using wf by (simp add: store_wf_def)
  note row = command_row_of_readable [OF ok _ f(3,2), of n, unfolded n_def, simplified, folded n_def]
  have ord: "nextCommandOrdinalOnConnection (ca_SessionID v) db = Inr n"
    unfolding n_def by (rule next_ordinal_runs [OF cwf f(9)])
  have new: "ca_CommandID v \<notin> cmd_command_id ` set (exec_commands db)"
    using f(5) by (simp add: find_command_def find_key_None)
  have "(ca_SessionID v, n) \<notin> (\<lambda>c. (cmd_session_id c, cmd_ordinal c)) ` set (exec_commands db)"
  proof
    assume "(ca_SessionID v, n) \<in> (\<lambda>c. (cmd_session_id c, cmd_ordinal c)) ` set (exec_commands db)"
    then obtain c where "c \<in> set (session_commands (ca_SessionID v) db)" "cmd_ordinal c = n"
      by (auto simp: session_commands_def)
    then show False
      using numbered_bounds [of cmd_ordinal "session_commands (ca_SessionID v) db" c] cwf
      by (auto simp: commands_wf_def n_def)
  qed
  moreover have "ca_SessionID v \<in> ses_session_id ` set (exec_sessions db)"
    using f(1) wf find_session_row [of db "ca_SessionID v" row] by (force simp: store_wf_def)
  ultimately have con: "command_constraints (command_row_of v n now) db"
    using row(2) new by (simp add: command_constraints_def) (simp add: command_row_of_def)
  have "event_key e \<noteq> event_key (event_row_of (ca_CommandID v) 1 ''command_queued'' [] 0 now)"
    if "e \<in> set (exec_command_events db)" for e
    using that no_command_no_events [OF cwf new]
    by (auto simp: command_events_def filter_empty_conv event_key_def event_row_of_def)
  then have ev: "event_constraints (event_row_of (ca_CommandID v) 1 ''command_queued'' [] 0 now)
      (exec_commands_update (\<lambda>rows. rows @ [command_row_of v n now]) db)"
    by (auto simp: event_constraints_def command_event_types_def) (auto simp: event_row_of_def command_row_of_def)
  have input: "validateIdempotencyInput controller submitCommandOperation (ca_IdempotencyKey v) (ca_RequestHash v)
      (ca_CommandID v) (ca_IdempotencyRetention v) =
      Inr \<lparr>idr_Controller = controller, idr_Operation = submitCommandOperation, idr_Key = ca_IdempotencyKey v,
        idr_Hash = ca_RequestHash v, idr_ResourceID = ca_CommandID v, idr_CreatedAt = zero_time,
        idr_ExpiresAt = zero_time, idr_DeduplicationWarning = False,
        vii_Retention = effective_retention (ca_IdempotencyRetention v)\<rparr>"
    using ok f(2,7,8) submit_token sql_nonemptyD
    by (auto simp: validateIdempotencyInput_Inr submission_ok_def effective_retention_def
        DefaultSessionIdempotencyRetention_def Hour_def Minute_def Second_def)
  let ?b = "submission_binding v controller now False"
  have "bound_key ?b \<notin> idempotency_key ` set (exec_idempotency db)"
    using f(6) by (simp add: find_binding_def find_key_None bound_key_def submission_binding_def)
  then have idm: "idempotency_constraints (binding_row ?b) db'" if "exec_idempotency db' = exec_idempotency db" for db'
    using that ok f(2,7,8) key_of_binding_row [of ?b] sql_nonempty_token [OF f(2)] sql_nonempty_token [OF submit_token]
      sql_nonempty_token [of 256 "ca_IdempotencyKey v"] uint_pos [of "ch_version (ca_RequestHash v)"]
    by (auto simp: idempotency_constraints_def binding_row_def submission_binding_def submission_ok_def
        valid_hash_def sha256_Size_def)
  have brow: "binding_row \<lparr>idr_Controller = controller, idr_Operation = submitCommandOperation,
      idr_Key = ca_IdempotencyKey v, idr_Hash = ca_RequestHash v, idr_ResourceID = ca_CommandID v,
      idr_CreatedAt = now, idr_ExpiresAt = now + ca_IdempotencyRetention v,
      idr_DeduplicationWarning = False, vii_Retention = r\<rparr> = binding_row ?b" for r
    by (simp add: binding_row_def submission_binding_def)
  have "find_command (ca_CommandID v) (submitted_db v controller n now db) = Some (command_row_of v n now)"
    using f(5) by (simp add: find_command_def submitted_db_def find_append) (simp add: command_row_of_def)
  then have read: "readCommandOnConnection (ca_CommandID v) (submitted_db v controller n now db) =
      Inr (command_record_of v n now)"
    using row(1) by (simp add: readCommandOnConnection_def)
  have written: "exec_idempotency_update (\<lambda>rows. rows @ [binding_row ?b])
      (exec_command_events_update (\<lambda>rows. rows @ [event_row_of (ca_CommandID v) 1 ''command_queued'' [] 0 now])
        (exec_commands_update (\<lambda>rows. rows @ [command_row_of v n now]) db)) = submitted_db v controller n now db"
    by (simp add: submitted_db_def)
  have "(command_record_of v n now)\<lparr>cr_IdempotencyWarning := False\<rparr> = command_record_of v n now"
    by (simp add: command_record_of_def)
  then show ?thesis
    by (simp add: insert_command_def tx_bind_def tx_query_def tx_lift_def tx_return_def ord sql_insert_def con ev
        input recordIdempotencyOnConnection_def idm brow written read)
qed

lemma accept_fresh_command_body:
  assumes "validateCommandAcceptance input = Inr v" "ca_Audit input = None"
    and "store_wf db" "fresh_submission v row controller now db"
    and "checkIngressAdmissionOnConnection runtime db = Inr ()"
  defines "n \<equiv> int (length (session_commands (ca_SessionID v) db)) + 1"
  shows "accept_command_body v now runtime db =
    Inr (((command_record_of v n now, False), None), submitted_db v controller n now db)"
proof -
  have "insert_command v controller now False db =
      Inr (command_record_of v n now, submitted_db v controller n now db)"
    unfolding n_def by (rule insert_command_fresh [OF assms(3) validated_submission [OF assms(1)] assms(4)])
  moreover have "NewControllerID (ses_controller_id row) = Inr (ses_controller_id row)"
    "NewControllerIdentity (ses_controller_type row) (ses_controller_id row) = Inr controller"
    using assms(4) sql_nonemptyD by (auto simp: fresh_submission_def)
  moreover have "find_session (ca_SessionID v) db = Some row"
    "ses_state row = SessionStateReady \<or> ses_state row = SessionStateBusy"
    "find_warning controller submitCommandOperation (ca_IdempotencyKey v) db = None"
    "lookupIdempotencyOnConnection controller submitCommandOperation (ca_IdempotencyKey v) now db = Inr (None, db)"
    using assms(4) lookup_none by (auto simp: fresh_submission_def)
  ultimately show ?thesis
    using assms(5) validateCommandAcceptance_ok(2) [OF assms(1)] assms(2)
    by (simp add: accept_command_body_def tx_bind_def tx_query_def tx_lift_def tx_guard_def tx_return_def
        select_session_def idempotencyExpiryWarningOnConnection_def
        insertOptionalAuditOnConnection_def del: NewControllerIdentity_Inr new_id_Inr)
qed

text \<open>C13. A fresh submission to a ready or busy session is accepted: it becomes the session's next
  command, queued and with the requested script, timeout and hash; one command row, its first event and
  one idempotency binding are added and nothing else changes, and the queued event is published.\<close>

theorem accept_command_appends:
  assumes "validateCommandAcceptance input = Inr v" "ca_Audit input = None"
    and "store_wf (st_db s)" "fresh_submission v row controller now (st_db s)"
    and "checkIngressAdmissionOnConnection (st_laneAdmissionRuntime s) (st_db s) = Inr ()"
  defines "n \<equiv> int (length (session_commands (ca_SessionID v) (st_db s))) + 1"
  shows "AcceptCommand None now s input =
    (Inr (command_record_of v n now, False),
     publishCommandEvent (lifecycle_event (ca_CommandID v) 1 ''command_queued'' now)
       (s\<lparr>st_db := submitted_db v controller n now (st_db s)\<rparr>))"
  using accept_fresh_command_body [OF assms(1-5)] unfolding n_def
  by (simp add: AcceptCommand_def assms(1) withImmediateTransaction_def logOptionalAudit_def Let_def)
    (simp add: command_record_of_def)

section \<open>A submission to a ready session\<close>

lemma sample_submission_valid: "validateCommandAcceptance sample_submission = Inr sample_submission"
proof -
  have script: "ValidateScriptUTF8 ''true'' = Inr ()"
    by (simp add: ValidateScriptUTF8_def MaxScriptUTF8Bytes_def) code_simp
  have "NewCanonicalHash (ch_version sample_hash) (ch_digest sample_hash) = Inr sample_hash"
    by (rule NewCanonicalHash_of [THEN iffD2]) (simp add: sample_hash_def canonical_digest_valid)
  moreover have "validateIdempotencyOperationKey submitCommandOperation ''k2'' = Inr (submitCommandOperation, ''k2'')"
    by (simp add: submit_token) (simp add: bounded_token_def has_nul_def NUL_def)
  ultimately show ?thesis
    by (simp add: validateCommandAcceptance_def sample_submission_def new_id_run script Let_def
        Minute_def Hour_def Second_def del: NewCanonicalHash_Inr validateIdempotencyOperationKey_Inr)
qed

lemma sample_submission_fresh: "fresh_submission sample_submission ready_row sample_controller sample_now ready_db"
proof -
  have "valid_time (sample_now + Hour)"
    by (simp add: valid_time_def Date_def sample_now_def Hour_def Minute_def Second_def days_before_year_def)
  then show ?thesis
    using sample_times(1)
    by (simp add: fresh_submission_def sample_submission_def find_binding_def find_warning_def find_command_def
        ready_db_def empty_database_def find_session_def session_commands_def bounded_token_def has_nul_def NUL_def)
      (simp add: ready_row_def session_row_of_def sample_create_def sample_controller_def sql_nonempty_def NUL_def)
qed

lemma ready_store_wf: "store_wf ready_db"
proof -
  have "commands_wf ready_db" by (simp add: commands_wf_def ready_db_def empty_database_def session_commands_def numbered_def)
  then show ?thesis by (simp add: store_wf_def ready_sessions_wf)
qed

lemma ready_ingress: "lane_ingress_admission ready_db = None"
  by (simp add: ready_db_def empty_database_def)

abbreviation submitted_store :: AuthorityStore where
  "submitted_store \<equiv> publishCommandEvent (lifecycle_event ''c1'' 1 ''command_queued'' sample_now)
     (NewAuthorityStore (submitted_db sample_submission sample_controller 1 sample_now ready_db))"

lemma sample_accept_parts:
  "session_commands ''s1'' ready_db = []" "ca_SessionID sample_submission = ''s1''" "ca_CommandID sample_submission = ''c1''"
  "ca_Audit sample_submission = None" "ca_IdempotencyRetention sample_submission = Hour" "ca_RequestHash sample_submission = sample_hash"
  by (simp_all add: session_commands_def ready_db_def empty_database_def sample_submission_def)

theorem accept_command_appends_witness:
  "AcceptCommand None sample_now (NewAuthorityStore ready_db) sample_submission =
     (Inr (command_record_of sample_submission 1 sample_now, False), submitted_store)"
  using accept_command_appends [OF sample_submission_valid, of "NewAuthorityStore ready_db" ready_row sample_controller sample_now]
    sample_submission_fresh ready_store_wf ingress_unconfigured [OF ready_ingress]
  by (simp add: NewAuthorityStore_def sample_accept_parts)

lemma sample_submission_run:
  "AcceptCommand None sample_now (NewAuthorityStore ready_db) sample_submission =
     (Inr (command_record_of sample_submission 1 sample_now, False), submitted_store)"
  using accept_fresh_command_body [OF sample_submission_valid _ ready_store_wf sample_submission_fresh ingress_unconfigured [OF ready_ingress]]
  by (simp add: AcceptCommand_def sample_submission_valid withImmediateTransaction_def logOptionalAudit_def Let_def
      sample_accept_parts NewAuthorityStore_def) (simp add: command_record_of_def sample_accept_parts)

lemma confirm_cleanup_frame:
  defines "after \<equiv> \<lambda>s fault now sid. st_db (snd (ConfirmSessionCleanup fault now s sid))"
  shows "exec_sessions (after s fault now sid) = exec_sessions (st_db s)"
    "exec_commands (after s fault now sid) = exec_commands (st_db s)"
    "lane_ingress_admission (after s fault now sid) = lane_ingress_admission (st_db s)"
proof -
  have "exec_sessions db = exec_sessions (st_db s) \<and> exec_commands db = exec_commands (st_db s) \<and>
      lane_ingress_admission db = lane_ingress_admission (st_db s)"
    if "confirm_cleanup_body ident now (st_db s) = Inr (x, db)" for x db ident
    using that by (auto simp: confirm_cleanup_body_def tx_simps split: if_splits)
  then have "exec_sessions (after s fault now sid) = exec_sessions (st_db s) \<and>
      exec_commands (after s fault now sid) = exec_commands (st_db s) \<and>
      lane_ingress_admission (after s fault now sid) = lane_ingress_admission (st_db s)"
    unfolding after_def ConfirmSessionCleanup_def
    by (auto simp: withImmediateTransaction_def split: sum.splits option.splits prod.splits)
  then show "exec_sessions (after s fault now sid) = exec_sessions (st_db s)"
    "exec_commands (after s fault now sid) = exec_commands (st_db s)"
    "lane_ingress_admission (after s fault now sid) = lane_ingress_admission (st_db s)" by auto
qed

theorem command_exactly_once_witness:
  "AcceptCommand None (sample_now + Minute) (foldl store_run submitted_store [(None, sample_now, DoConfirmCleanup ''s1'')])
     sample_submission =
   (Inr (command_record_of sample_submission 1 sample_now, True),
    foldl store_run submitted_store [(None, sample_now, DoConfirmCleanup ''s1'')])"
proof -
  define t where "t = foldl store_run submitted_store [(None, sample_now, DoConfirmCleanup ''s1'')]"
  let ?db = "submitted_db sample_submission sample_controller 1 sample_now ready_db"
  have db: "exec_sessions (st_db t) = exec_sessions ?db" "exec_commands (st_db t) = exec_commands ?db"
    "lane_ingress_admission (st_db t) = lane_ingress_admission ?db"
    by (simp_all add: t_def store_run_def NewAuthorityStore_def confirm_cleanup_frame)
  have row: "find_session ''s1'' (st_db t) = Some ready_row" "find_session ''s1'' ready_db = Some ready_row"
    by (simp_all add: db submitted_db_def find_session_def ready_db_def)
  have stored: "find_command ''c1'' (st_db t) = Some (command_row_of sample_submission 1 sample_now)"
    by (simp add: db submitted_db_def find_command_def ready_db_def empty_database_def)
      (simp add: command_row_of_def sample_accept_parts)
  have decoded: "decode_command_row ''c1'' (command_row_of sample_submission 1 sample_now) =
      Inr (command_record_of sample_submission 1 sample_now)"
    using command_row_of_readable(1) [OF validated_submission [OF sample_submission_valid], of 1 sample_now]
      sample_times(1) sample_submission_fresh
    by (simp add: sample_accept_parts fresh_submission_def)
  have ingress: "checkIngressAdmissionOnConnection r (st_db t) = Inr ()" for r
    by (rule ingress_unconfigured) (simp add: db submitted_db_def ready_ingress)
  have time: "valid_time (sample_now + Hour)" "sample_now + Minute < sample_now + Hour" "sample_now < sample_now + Hour"
    by (simp_all add: valid_time_def Date_def sample_now_def Hour_def Minute_def Second_def days_before_year_def)
  have warned: "(command_record_of v n now)\<lparr>cr_IdempotencyWarning := cr_IdempotencyWarning (command_record_of v' n' now')\<rparr> =
      command_record_of v n now" "cr_CommandID (command_record_of v n now) = ca_CommandID v" for v n now v' n' now'
    by (simp_all add: command_record_of_def)
  show ?thesis
    unfolding t_def [symmetric]
    using command_exactly_once [OF _ sample_submission_run sample_submission_valid, where calls = "[(None, sample_now, DoConfirmCleanup ''s1'')]"
        and ?input2.0 = sample_submission and ?v2.0 = sample_submission and row = ready_row and ?row2.0 = ready_row
        and ?now2.0 = "sample_now + Minute", folded t_def]
      row stored ingress time sample_times(1) sample_submission_valid ready_store_wf
    by (auto simp: sample_accept_parts NewAuthorityStore_def warned decoded)
qed

end
