(* ===== verification/Command_Ledger.thy ===== *)
theory Command_Ledger
  imports Command_Acceptance
begin

text \<open>
  The contract of the command part of the authority: a ledger that maps each command to its session,
  order, script, state and the types of its events. A ledger grows by submissions of queued commands
  and changes by output events of started commands and by moves along the command table, each with its
  event. Every operation of the store is at most one step of the ledger, so the store refines it and
  the laws of ledgers hold of every authority.
\<close>

section \<open>The ledger\<close>

record ledger_entry =
  le_session :: SessionID
  le_ordinal :: int
  le_script :: bytes
  le_timeout :: duration
  le_state :: CommandState
  le_events :: "string list"

type_synonym ledger = "CommandID \<rightharpoonup> ledger_entry"

definition output_types :: "string set" where
  "output_types = {''stdout'', ''stderr'', ''output_truncated''}"

definition move_events :: "CommandState \<Rightarrow> string list" where
  "move_events st = (case commandEventTypeForState st of None \<Rightarrow> [] | Some ty \<Rightarrow> [ty])"

definition commands_of :: "SessionID \<Rightarrow> ledger \<Rightarrow> CommandID set" where
  "commands_of sid L = {cid. \<exists>e. L cid = Some e \<and> le_session e = sid}"

inductive ledger_step :: "ledger \<Rightarrow> ledger \<Rightarrow> bool" where
  idle: "ledger_step L L"
| submit: "L cid = None \<Longrightarrow> le_ordinal e = int (card (commands_of (le_session e) L)) + 1 \<Longrightarrow>
    le_state e = CommandStateQueued \<Longrightarrow> le_events e = [''command_queued''] \<Longrightarrow> ledger_step L (L(cid \<mapsto> e))"
| emit: "L cid = Some e \<Longrightarrow> le_state e \<in> {CommandStateRunning, CommandStateCancelling} \<Longrightarrow>
    ty \<in> output_types \<Longrightarrow> ledger_step L (L(cid \<mapsto> e\<lparr>le_events := le_events e @ [ty]\<rparr>))"
| move: "L cid = Some e \<Longrightarrow> CommandState_CanTransitionTo (le_state e) st \<Longrightarrow>
    ledger_step L (L(cid \<mapsto> e\<lparr>le_state := st, le_events := le_events e @ move_events st\<rparr>))"

section \<open>The ledger of a database\<close>

definition entry_of :: "command_row \<Rightarrow> string list \<Rightarrow> ledger_entry" where
  "entry_of c types = \<lparr>le_session = cmd_session_id c, le_ordinal = cmd_ordinal c, le_script = cmd_script_bytes c,
     le_timeout = cmd_timeout_ns c, le_state = cmd_state c, le_events = types\<rparr>"

definition ledger_of :: "database \<Rightarrow> ledger" where
  "ledger_of db = (\<lambda>cid. map_option (\<lambda>c. entry_of c (map evt_type (command_events cid db))) (find_command cid db))"

lemma ledger_of_cong:
  "exec_commands db' = exec_commands db \<Longrightarrow> exec_command_events db' = exec_command_events db \<Longrightarrow>
   ledger_of db' = ledger_of db"
  by (simp add: ledger_of_def find_command_def command_events_def)

lemma commands_of_session:
  assumes "commands_wf db"
  shows "card (commands_of sid (ledger_of db)) = length (session_commands sid db)"
proof -
  have "commands_of sid (ledger_of db) = cmd_command_id ` set (session_commands sid db)"
    using find_command_row [OF assms] by (auto simp: commands_of_def ledger_of_def entry_of_def session_commands_def)
  moreover have "distinct (map cmd_command_id (session_commands sid db))"
    using assms by (simp add: commands_wf_def session_commands_def distinct_map_filter)
  ultimately show ?thesis by (metis distinct_card length_map set_map)
qed

text \<open>One command gets new columns and new events, the others stay.\<close>

lemma ledger_of_step:
  assumes c: "find_command cid db = Some c" and P: "P c" and f: "\<And>r. cmd_command_id (f r) = cmd_command_id r"
    and cmds: "exec_commands db' = update_rows (\<lambda>r. cmd_command_id r = cid \<and> P r) f (exec_commands db)"
    and evs: "exec_command_events db' = exec_command_events db @ new" "\<forall>e \<in> set new. evt_command_id e = cid"
  shows "ledger_of db' = (ledger_of db)(cid \<mapsto> entry_of (f c) (map evt_type (command_events cid db) @ map evt_type new))"
proof
  fix k
  have "find_command k db' = (if k = cid then Some (f c) else find_command k db)"
    using find_update_rows_same [of cmd_command_id f cid "exec_commands db" c P]
      find_update_rows_other [of cmd_command_id f k cid P "exec_commands db"] f c P
    by (simp add: find_command_def cmds)
  moreover have "command_events k db' = (if k = cid then command_events cid db @ new else command_events k db)"
    using evs(2) by (auto simp: command_events_def evs(1) filter_id_conv filter_empty_conv)
  ultimately show "ledger_of db' k =
      ((ledger_of db)(cid \<mapsto> entry_of (f c) (map evt_type (command_events cid db) @ map evt_type new))) k"
    by (simp add: ledger_of_def)
qed

section \<open>Every transaction is a step\<close>

definition tx_simulates :: "'a db_tx \<Rightarrow> bool" where
  "tx_simulates m \<longleftrightarrow> (\<forall>db x db'. store_wf db \<longrightarrow> m db = Inr (x, db') \<longrightarrow> ledger_step (ledger_of db) (ledger_of db'))"

lemma tx_simulatesI:
  "(\<And>db x db'. store_wf db \<Longrightarrow> m db = Inr (x, db') \<Longrightarrow> ledger_step (ledger_of db) (ledger_of db')) \<Longrightarrow> tx_simulates m"
  by (auto simp: tx_simulates_def)

lemma accept_simulates: "tx_simulates (accept_command_body v now runtime)"
proof (rule tx_simulatesI)
  fix db x db'
  assume wf: "store_wf db" and run: "accept_command_body v now runtime db = Inr (x, db')"
  obtain rc dup saved where x: "x = ((rc, dup), saved)" by (metis surj_pair)
  have look: "exec_commands db1 = exec_commands db" "exec_command_events db1 = exec_command_events db"
    if "lookupIdempotencyOnConnection c operation key now db = Inr (r, db1)" for c operation key r db1
    by (rule lookupIdempotency_frame [OF that]; simp)+
  have aud: "exec_commands db2 = exec_commands db1" "exec_command_events db2 = exec_command_events db1"
    if "insertOptionalAuditOnConnection a db1 = Inr (r, db2)" for a db1 r db2
    by (rule insertOptionalAudit_obtain [OF that]; simp)+
  from run [unfolded x] show "ledger_step (ledger_of db) (ledger_of db')"
  proof (cases rule: accept_command_cases)
    case (duplicate row controller existing found db1)
    then show ?thesis using ledger_of_cong [of db' db] look aud idle by metis
  next
    case (fresh row controller warning db1 db2)
    let ?e = "entry_of (command_row_of v (int (length (session_commands (ca_SessionID v) db1)) + 1) now) [''command_queued'']"
    have cwf: "commands_wf db" and cwf1: "commands_wf db1"
      using wf lookupIdempotency_commands_wf [OF fresh(4)] by (simp_all add: store_wf_def)
    obtain n bindings where n: "n = int (length (session_commands (ca_SessionID v) db1)) + 1"
      and new: "command_constraints (command_row_of v n now) db1"
      and db2: "db2 = db1\<lparr>exec_commands := exec_commands db1 @ [command_row_of v n now],
        exec_command_events := exec_command_events db1 @ [event_row_of (ca_CommandID v) 1 ''command_queued'' [] 0 now],
        exec_idempotency := bindings\<rparr>"
      by (rule insert_command_effect [OF fresh(6)])
    have free: "ca_CommandID v \<notin> cmd_command_id ` set (exec_commands db1)"
      using new by (simp add: command_constraints_def) (simp add: command_row_of_def)
    have id: "cmd_command_id (command_row_of v n now) = ca_CommandID v" by (simp add: command_row_of_def)
    have "ledger_of db2 = (ledger_of db1)(ca_CommandID v \<mapsto> ?e)"
    proof
      fix k
      have "find_command k db2 = (if k = ca_CommandID v then Some (command_row_of v n now) else find_command k db1)"
        using free id by (auto simp: db2 find_command_def find_append find_key_None [THEN iffD2] split: option.split)
      moreover have "command_events k db2 = command_events k db1 @
          (if k = ca_CommandID v then [event_row_of k 1 ''command_queued'' [] 0 now] else [])"
        by (simp add: db2 command_events_def)
      ultimately show "ledger_of db2 k = ((ledger_of db1)(ca_CommandID v \<mapsto> ?e)) k"
        using no_command_no_events [OF cwf1 free] n by (simp add: ledger_of_def)
    qed
    moreover have "ledger_step (ledger_of db1) ((ledger_of db1)(ca_CommandID v \<mapsto> ?e))"
      by (rule submit) (use free commands_of_session [OF cwf1] in
        \<open>simp_all add: ledger_of_def find_command_def find_key_None entry_of_def command_row_of_def\<close>)
    moreover have "ledger_of db1 = ledger_of db" "ledger_of db' = ledger_of db2"
      using ledger_of_cong look [OF fresh(4)] aud [OF fresh(7)] by blast+
    ultimately show ?thesis by simp
  qed
qed

lemma append_simulates:
  assumes "cea_Type input \<in> output_types"
  shows "tx_simulates (append_event_body input now)"
proof (rule tx_simulatesI)
  fix db x db'
  assume run: "append_event_body input now db = Inr (x, db')"
  obtain c e where c: "find_command (cea_CommandID input) db = Some c"
    "cmd_state c = CommandStateRunning \<or> cmd_state c = CommandStateCancelling"
    and eq: "e = event_row_of (cea_CommandID input) (int (length (command_events (cea_CommandID input) db)) + 1)
      (cea_Type input) (cea_Payload input) (cea_ByteCount input) now"
    and db': "db' = exec_command_events_update (\<lambda>rows. rows @ [e]) db"
    by (rule append_event_effect [OF run])
  have e: "evt_type e = cea_Type input" "evt_command_id e = cea_CommandID input" by (simp_all add: eq event_row_of_def)
  let ?L = "ledger_of db"
  have "ledger_of db' = ?L(cea_CommandID input \<mapsto> entry_of c (map evt_type (command_events (cea_CommandID input) db) @ map evt_type [e]))"
    using ledger_of_step [of "cea_CommandID input" db c "\<lambda>_. True" "\<lambda>r. r" db' "[e]"] c(1) e(2)
    by (simp add: db')
  moreover have "ledger_step ?L (?L(cea_CommandID input \<mapsto>
      (entry_of c (map evt_type (command_events (cea_CommandID input) db)))\<lparr>le_events :=
        le_events (entry_of c (map evt_type (command_events (cea_CommandID input) db))) @ [cea_Type input]\<rparr>))"
    by (rule emit) (use c assms in \<open>auto simp: ledger_of_def entry_of_def \<close>)
  ultimately show "ledger_step ?L (ledger_of db')" using e(1) by (simp add: entry_of_def)
qed

text \<open>A command that moves along an edge and gets the event of its new state.\<close>

lemma move_simulates:
  assumes "find_command cid db = Some c" "P c" "CommandState_CanTransitionTo (cmd_state c) st"
    and f: "\<And>r. command_columns (f r) = command_columns r" "cmd_state (f c) = st"
    and "exec_commands db' = update_rows (\<lambda>r. cmd_command_id r = cid \<and> P r) f (exec_commands db)"
    and "exec_command_events db' = exec_command_events db @ new" "\<forall>e \<in> set new. evt_command_id e = cid"
    and "map evt_type new = move_events st"
  shows "ledger_step (ledger_of db) (ledger_of db')"
proof -
  have ids: "cmd_command_id (f r) = cmd_command_id r" for r using f(1) [of r] by (simp add: command_columns_def)
  let ?e = "entry_of c (map evt_type (command_events cid db))"
  have "entry_of (f c) (map evt_type (command_events cid db) @ map evt_type new) =
      ?e\<lparr>le_state := st, le_events := le_events ?e @ move_events st\<rparr>"
    using f(1) [of c] f(2) assms(9) by (simp add: entry_of_def command_columns_def)
  moreover have "ledger_step (ledger_of db)
      ((ledger_of db)(cid \<mapsto> ?e\<lparr>le_state := st, le_events := le_events ?e @ move_events st\<rparr>))"
    by (rule move) (use assms(1,3) in \<open>simp_all add: ledger_of_def entry_of_def\<close>)
  ultimately show ?thesis
    using ledger_of_step [OF assms(1,2) ids assms(6-8)] by simp
qed

lemma transition_simulates: "tx_simulates (transition_command_body input now)"
proof (rule tx_simulatesI)
  fix db x db'
  assume run: "transition_command_body input now db = Inr (x, db')"
  obtain c n where c: "find_command (ct_CommandID input) db = Some c"
    "CommandState_CanTransitionTo (cmd_state c) (ct_NextState input)"
    and db': "db' = exec_commands_update (update_rows (\<lambda>r. cmd_command_id r = ct_CommandID input) (transition_columns input n now))
      (exec_command_events_update (\<lambda>rows. rows @ transition_events input n now) db)"
    by (rule transition_command_effect [OF run])
  show "ledger_step (ledger_of db) (ledger_of db')"
    by (rule move_simulates [OF c(1) _ c(2), of "\<lambda>_. True" "transition_columns input n now" db' "transition_events input n now"])
      (auto simp: db' transition_events_def move_events_def event_row_of_def split: option.splits)
qed

lemma complete_simulates: "tx_simulates (complete_command_body input nss reason rel now)"
proof (rule tx_simulatesI)
  fix db x db'
  assume run: "complete_command_body input nss reason rel now db = Inr (x, db')"
  obtain c n ty db3 where c: "find_command (ct_CommandID input) db = Some c"
    "CommandState_CanTransitionTo (cmd_state c) (ct_NextState input)"
    and ty: "commandEventTypeForState (ct_NextState input) = Some ty"
    and step: "db3 = completed_db input n ty now db \<or>
     transitionSessionOnConnection (cmd_session_id c) nss reason now (completed_db input n ty now db) = Inr ((), db3)"
    and db': "db' = (if rel then slots_released_for (ct_CommandID input) now db3 else db3)"
    by (rule complete_command_effect [OF run])
  have tables: "exec_commands db' = exec_commands (completed_db input n ty now db)"
    "exec_command_events db' = exec_command_events (completed_db input n ty now db)"
    using session_step_frame [OF step] by (simp_all add: db' slots_released_for_def)
  show "ledger_step (ledger_of db) (ledger_of db')"
    by (rule move_simulates [OF c(1) _ c(2), of "\<lambda>_. True" "terminal_columns input n now" db'
          "[event_row_of (ct_CommandID input) n ty [] 0 now]"])
      (simp_all add: tables completed_db_def ty move_events_def event_row_of_def terminal_columns_def command_columns_def)
qed

lemma claim_simulates: "tx_simulates (start_next_body limit handoff now)"
proof (rule tx_simulatesI)
  fix db x db'
  assume wf: "store_wf db" and run: "start_next_body limit handoff now db = Inr (x, db')"
  have cwf: "commands_wf db" using wf by (simp add: store_wf_def)
  obtain plan cands where cl: "claims plan now db (x, db') cands" by (rule start_next_Inr [OF run])
  obtain k :: schedulerCandidate and candidate c where c: "find_command (cand_commandID k) db = Some c"
    and el: "eligible (cand_sessionID k) db c"
    and start: "start_command plan (cand_commandID k) (cand_sessionID k) candidate now db = Inr (x, db')"
    by (rule claims_obtain [OF cl cwf])
  obtain rc ev where "x = (rc, ev)" by (cases x)
  note start = start [unfolded this]
  have q: "cmd_state c = CommandStateQueued" using el by (simp add: eligible_def)
  obtain n db3 a b where ses: "transitionSessionOnConnection (cand_sessionID k) SessionStateBusy ''command_started'' now
      (claimed_db (cand_commandID k) n now db) = Inr ((), db3)"
    and db': "db' = db3\<lparr>exec_controlled_restart_plans := a, exec_controlled_restart_plan_lost_pairs := b\<rparr>"
    by (rule start_command_effect [OF start])
  have tables: "exec_commands db' = exec_commands (claimed_db (cand_commandID k) n now db)"
    "exec_command_events db' = exec_command_events (claimed_db (cand_commandID k) n now db)"
    using session_step_frame [OF disjI2 [OF ses]] by (simp_all add: db')
  show "ledger_step (ledger_of db) (ledger_of db')"
    by (rule move_simulates [OF c, of "\<lambda>r. cmd_state r = CommandStateQueued" CommandStateRunning "set_running now" db'
          "[event_row_of (cand_commandID k) n ''command_started'' [] 0 now]"])
      (simp_all add: q tables move_events_def event_row_of_def CommandState_CanTransitionTo_def set_running_def command_columns_def)
qed

section \<open>Every operation is a step\<close>

interpretation ledger_kept: frame_predicate "\<lambda>db. ledger_of db = L" for L
  by unfold_locales (simp_all add: ledger_of_def find_command_def command_events_def)

definition op_simulates :: "AuthorityStore \<Rightarrow> 'a result \<times> AuthorityStore \<Rightarrow> bool" where
  "op_simulates s r \<longleftrightarrow> (store_wf (st_db s) \<longrightarrow> ledger_step (ledger_of (st_db s)) (ledger_of (st_db (snd r))))"

lemma op_simulates_keeps: "(\<And>L. op_keeps (\<lambda>db. ledger_of db = L) s r) \<Longrightarrow> op_simulates s r"
  using idle by (simp add: op_simulates_def op_keeps_def)

lemma op_simulates_same: "st_db (snd r) = st_db s \<Longrightarrow> op_simulates s r"
  by (simp add: op_simulates_def idle)

lemma op_simulates_tx: "tx_simulates m \<Longrightarrow> op_simulates s (withImmediateTransaction fault s m)"
  by (rule withImmediateTransaction_cases [of fault s m]) (auto simp: op_simulates_def tx_simulates_def idle)

lemma op_simulates_map: "op_simulates s r \<Longrightarrow> st_db (snd r') = st_db (snd r) \<Longrightarrow> op_simulates s r'"
  by (simp add: op_simulates_def)

lemma op_simulates_publish: "op_simulates s r \<Longrightarrow> op_simulates s (publish_committed r)"
  by (erule op_simulates_map) (auto simp: publish_committed_def split: prod.splits sum.splits option.splits)

lemma command_ops_simulate:
  "op_simulates s (AcceptCommand fault now s input)" "op_simulates s (AppendCommandEvent fault now s output)"
  "op_simulates s (TransitionCommand fault now s transition)"
  "op_simulates s (CompleteRunningCommand fault now s transition st reason rel)"
  "op_simulates s (startNextEligibleCommand fault now s n handoff)"
proof -
  show "op_simulates s (AcceptCommand fault now s input)"
  proof (cases "validateCommandAcceptance input")
    case (Inr v)
    show ?thesis
      by (rule op_simulates_map [OF op_simulates_tx [OF accept_simulates [of v now "st_laneAdmissionRuntime s"], of s fault]])
        (auto simp: AcceptCommand_def Inr Let_def split: prod.splits sum.splits)
  qed (simp add: AcceptCommand_def op_simulates_same)
  show "op_simulates s (AppendCommandEvent fault now s output)"
    by (auto simp: AppendCommandEvent_def op_simulates_same validCommandEventType_def isTerminalCommandEvent_def
        output_types_def split: sum.splits intro!: op_simulates_publish op_simulates_tx append_simulates)
qed (auto simp: TransitionCommand_def CompleteRunningCommand_def startNextEligibleCommand_def Let_def op_simulates_same
    split: sum.splits intro!: op_simulates_publish op_simulates_tx transition_simulates complete_simulates claim_simulates)

lemma ledger_of_bindings [simp]:
  "ledger_of (exec_idempotency_update f db) = ledger_of db"
  "ledger_of (exec_idempotency_expiry_warnings_update g db) = ledger_of db"
  by (rule ledger_of_cong; simp)+

lemma ledger_kept_lookup: "tx_keeps (\<lambda>db. ledger_of db = L) (lookupIdempotencyOnConnection c operation key now)"
proof -
  have "tx_keeps (\<lambda>db. ledger_of db = L) (recordIdempotencyExpiryWarningOnConnection c operation key t now)" for t
    by (simp add: recordIdempotencyExpiryWarningOnConnection_def ledger_kept.keeps Let_def split: option.split)
  then show ?thesis
    by (simp add: lookupIdempotencyOnConnection_def ledger_kept.keeps split: option.split)
qed

lemma ledger_kept_record: "tx_keeps (\<lambda>db. ledger_of db = L) (recordIdempotencyOnConnection r)"
  by (simp add: recordIdempotencyOnConnection_def ledger_kept.keeps)

lemma ledger_kept_insert: "tx_keeps (\<lambda>db. ledger_of db = L) (insertSessionAcceptance create k h t now warning)"
  by (simp add: insertSessionAcceptance_def ledger_kept_record ledger_kept.keeps ledger_kept.keeps_session_statements)

lemma ledger_kept_job: "tx_keeps (\<lambda>db. ledger_of db = L) (accept_job_body v ingress now runtime)"
  by (simp add: accept_job_body_def Let_def insertJobOnConnection_def ledger_kept.keeps ledger_kept.keeps_insert_job
      ledger_kept_record ledger_kept_lookup split: option.split)

lemmas ledger_kept_bindings = ledger_kept_lookup ledger_kept_record ledger_kept_insert

lemma binding_ops_simulate:
  "op_simulates s (AcceptSessionCreate fault now s session)" "op_simulates s (CreateSession fault now s create)"
  "op_simulates s (LookupIdempotency fault now s c operation key)"
  "op_simulates s (AcceptJob fault now ctx s job)"
  "op_simulates s (EnsureIdempotencyWithAudit fault now s c operation key h resource retention a)"
proof -
  note keeps = ledger_kept.keeps ledger_kept_bindings ledger_kept.keeps_audit ensureSessionCapacity_def
  have body: "tx_keeps (\<lambda>db. ledger_of db = L) (accept_session_body v now runtime)" for L v runtime
    by (simp add: accept_session_body_def Let_def keeps split: option.split)
  show "op_simulates s (AcceptSessionCreate fault now s session)"
  proof (cases "validateSessionAcceptance session")
    case (Inr v)
    show ?thesis
      unfolding AcceptSessionCreate_def Inr sum.case
      by (rule op_simulates_keeps, rule op_keeps_case) (auto simp: body split: prod.splits)
  qed (simp add: AcceptSessionCreate_def op_simulates_same)
  show "op_simulates s (AcceptJob fault now ctx s job)"
    by (rule op_simulates_keeps)
      (auto simp: AcceptJob_def op_keeps_same split: sum.splits intro!: op_keeps_tx ledger_kept_job)
  show "op_simulates s (CreateSession fault now s create)"
    by (auto simp: CreateSession_def op_simulates_same keeps split: sum.splits
        intro!: op_simulates_keeps op_keeps_tx)
  show "op_simulates s (LookupIdempotency fault now s c operation key)"
    by (auto simp: LookupIdempotency_def op_simulates_same keeps split: sum.splits prod.splits
        intro!: op_simulates_keeps op_keeps_tx)
  show "op_simulates s (EnsureIdempotencyWithAudit fault now s c operation key h resource retention a)"
  proof (cases "validateIdempotencyInput c operation key h resource retention")
    case (Inr v)
    show ?thesis
      unfolding EnsureIdempotencyWithAudit_def Inr sum.case
      by (rule op_simulates_keeps, rule op_keeps_case) (auto simp: keeps Let_def split: prod.splits option.splits)
  qed (simp add: EnsureIdempotencyWithAudit_def op_simulates_same)
qed

lemma op_simulates_frame:
  assumes "\<And>I. frame_predicate I \<Longrightarrow> op_keeps I s r"
  shows "op_simulates s r"
  by (rule op_simulates_keeps, rule assms, rule ledger_kept.frame_predicate_axioms)

lemma op_simulatesD:
  "op_simulates s r \<Longrightarrow> store_wf (st_db s) \<Longrightarrow> ledger_step (ledger_of (st_db s)) (ledger_of (st_db (snd r)))"
  by (simp add: op_simulates_def)

lemma store_run_simulates:
  assumes "store_wf (st_db s)"
  shows "ledger_step (ledger_of (st_db s)) (ledger_of (st_db (store_run s call)))"
  unfolding store_run_def
  by (cases "snd (snd call)"; simp add: subscription_ops_db idle)
    (rule op_simulatesD [OF _ assms],
      (rule command_ops_simulate binding_ops_simulate |
        (rule op_simulates_frame, erule frame_ops_keep job_ops_keep admission_ops_keep)))+

lemma store_run_ledger:
  assumes "store_wf (st_db s)"
  shows "ledger_step\<^sup>*\<^sup>* (ledger_of (st_db s)) (ledger_of (st_db (foldl store_run s calls)))"
  using assms
proof (induction calls arbitrary: s)
  case (Cons call calls)
  then show ?case
    using store_run_simulates [of s call] authority.run_inv [of s "[call]"]
    by (simp add: converse_rtranclp_into_rtranclp)
qed simp

text \<open>C2. The store refines the ledger: seen through \<open>ledger_of\<close>, every operation of the
  store is one step of the ledger or none, and every run of the store is a run of the ledger.\<close>

theorem store_refines_ledger:
  assumes "store_wf (st_db s)"
  shows "ledger_step (ledger_of (st_db s)) (ledger_of (st_db (store_run s call))) \<and>
    ledger_step\<^sup>*\<^sup>* (ledger_of (st_db s)) (ledger_of (st_db (foldl store_run s calls)))"
  using store_run_simulates [OF assms] store_run_ledger [OF assms] by blast

theorem store_refines_ledger_witness:
  "ledger_step (ledger_of queued_db) (ledger_of (st_db (store_run (NewAuthorityStore queued_db)
     (None, sample_now, DoStartNext 4 False)))) \<and> ledger_of queued_db ''c1'' \<noteq> None"
  using store_refines_ledger [of "NewAuthorityStore queued_db"] sample_store_wf(1)
  by (simp add: NewAuthorityStore_def) (simp add: ledger_of_def)

section \<open>A law of ledgers\<close>

text \<open>The events of a command tell its story: queued, then started, then output, then one terminal
  event; a command that ends before it starts has no output at all.\<close>

definition started_trace :: "string list \<Rightarrow> bool" where
  "started_trace types \<longleftrightarrow>
     take 2 types = [''command_queued'', ''command_started''] \<and> list_all (\<lambda>ty. ty \<in> output_types) (drop 2 types)"

fun trace_ok :: "CommandState \<Rightarrow> string list \<Rightarrow> bool" where
  "trace_ok CommandStateQueued types \<longleftrightarrow> types = [''command_queued'']"
| "trace_ok CommandStateRunning types \<longleftrightarrow> started_trace types"
| "trace_ok CommandStateCancelling types \<longleftrightarrow> started_trace types"
| "trace_ok st types \<longleftrightarrow>
     types = butlast types @ move_events st \<and>
       (started_trace (butlast types) \<or>
        (st = CommandStateCancelled \<or> st = CommandStateRejected) \<and> butlast types = [''command_queued''])"

lemma started_trace_snoc: "started_trace types \<Longrightarrow> ty \<in> output_types \<Longrightarrow> started_trace (types @ [ty])"
proof -
  assume *: "started_trace types" "ty \<in> output_types"
  then have "length (take 2 types) = 2" by (simp add: started_trace_def)
  then have "2 \<le> length types" by simp
  then show ?thesis using * by (simp add: started_trace_def)
qed

lemma trace_ok_move:
  assumes "trace_ok st types" "CommandState_CanTransitionTo st st'"
  shows "trace_ok st' (types @ move_events st')"
  using assms by (cases st) (auto simp: CommandState_CanTransitionTo_def move_events_def started_trace_def)

lemma ledger_step_trace:
  assumes "ledger_step L L'" "\<And>cid e. L cid = Some e \<Longrightarrow> trace_ok (le_state e) (le_events e)" "L' cid = Some e"
  shows "trace_ok (le_state e) (le_events e)"
  using assms
proof (cases rule: ledger_step.cases)
  case (emit k e0 ty)
  show ?thesis
  proof (cases "cid = k")
    case True
    have old: "trace_ok (le_state e0) (le_events e0)" by (rule assms(2) [OF emit(2)])
    have "trace_ok (le_state e0) (le_events e0 @ [ty])"
      using old emit(3,4) started_trace_snoc by auto
    then show ?thesis using assms(3) True emit(1) by auto
  qed (use assms emit in auto)
next
  case (move k e0 st)
  show ?thesis
  proof (cases "cid = k")
    case True
    then show ?thesis using assms(2) [OF move(2)] trace_ok_move [OF _ move(3)] assms(3) move(1) by auto
  qed (use assms move in auto)
qed (auto split: if_splits)

lemma ledger_run_trace:
  assumes "ledger_step\<^sup>*\<^sup>* L L'" "\<And>cid e. L cid = Some e \<Longrightarrow> trace_ok (le_state e) (le_events e)" "L' cid = Some e"
  shows "trace_ok (le_state e) (le_events e)"
  using assms(1,3)
proof (induction arbitrary: cid e rule: rtranclp_induct)
  case base
  then show ?case using assms(2) by blast
next
  case (step L1 L2)
  then show ?case using ledger_step_trace by blast
qed

text \<open>C14. After any sequence of operations of a run on a new authority (garbage collection, which drops the
  events of old terminal commands, is not one) the stored events of every command follow its life: a queued
  command has its queued event only, a running or cancelling one has been queued, then started, then
  gave output, and a terminal one has exactly one terminal event, the last, with no output unless it
  was started.\<close>

theorem command_event_trace:
  fixes calls :: "(go_error option \<times> time \<times> store_op) list"
  defines "db \<equiv> st_db (foldl store_run (NewAuthorityStore empty_database) calls)"
  shows "list_all (\<lambda>c. trace_ok (cmd_state c) (map evt_type (command_events (cmd_command_id c) db))) (exec_commands db)"
proof -
  have wf: "store_wf (st_db (NewAuthorityStore empty_database))" by (simp add: store_wf_def NewAuthorityStore_def)
  have cwf: "commands_wf db" using authority.run_inv [OF wf, of calls] by (simp add: db_def store_wf_def)
  have run: "ledger_step\<^sup>*\<^sup>* (ledger_of empty_database) (ledger_of db)"
    using store_run_ledger [OF wf, of calls] by (simp add: NewAuthorityStore_def db_def)
  have none: "ledger_of empty_database cid = None" for cid
    by (simp add: ledger_of_def find_command_def empty_database_def)
  have "trace_ok (cmd_state c) (map evt_type (command_events (cmd_command_id c) db))" if "c \<in> set (exec_commands db)" for c
  proof -
    have "find_command (cmd_command_id c) db = Some c" using that find_command_row [OF cwf] by simp
    then have "ledger_of db (cmd_command_id c) = Some (entry_of c (map evt_type (command_events (cmd_command_id c) db)))"
      by (simp add: ledger_of_def)
    from ledger_run_trace [OF run _ this] show ?thesis by (simp add: none) (simp add: entry_of_def)
  qed
  then show ?thesis by (simp add: list_all_iff)
qed

section \<open>Commands come to rest\<close>

text \<open>The states of one command along a run, before the run and after each call.\<close>

fun states_along :: "CommandID \<Rightarrow> AuthorityStore \<Rightarrow> (go_error option \<times> time \<times> store_op) list \<Rightarrow> CommandState option list" where
  "states_along cid s [] = [map_option cmd_state (find_command cid (st_db s))]"
| "states_along cid s (call # calls) =
     map_option cmd_state (find_command cid (st_db s)) # states_along cid (store_run s call) calls"

lemma ledger_step_state:
  assumes "ledger_step L L'" "L cid = Some e"
  shows "\<exists>e'. L' cid = Some e' \<and> (le_state e' = le_state e \<or> CommandState_CanTransitionTo (le_state e) (le_state e'))"
  using assms by (cases rule: ledger_step.cases) (auto split: if_splits)

lemma store_run_state:
  assumes "store_wf (st_db s)" "find_command cid (st_db s) = Some c"
  obtains c' where "find_command cid (st_db (store_run s call)) = Some c'"
    "cmd_state c' = cmd_state c \<or> CommandState_CanTransitionTo (cmd_state c) (cmd_state c')"
  using ledger_step_state [OF store_run_simulates [OF assms(1), of call], of cid] assms(2)
  by (auto simp: ledger_of_def entry_of_def)

lemma states_along_hd: "\<exists>rest. states_along cid s calls = map_option cmd_state (find_command cid (st_db s)) # rest"
  by (cases calls) auto

lemma states_along_rank:
  assumes "store_wf (st_db s)" "find_command cid (st_db s) = Some c" "CommandState_Valid (cmd_state c)"
  shows "command_rank (cmd_state c) + length (remdups_adj (states_along cid s calls)) \<le> 4"
  using assms
proof (induction calls arbitrary: s c)
  case Nil
  then show ?case using command_table.rank_bound [of "cmd_state c"] by simp
next
  case (Cons call calls)
  obtain c' where c': "find_command cid (st_db (store_run s call)) = Some c'"
    and step: "cmd_state c' = cmd_state c \<or> CommandState_CanTransitionTo (cmd_state c) (cmd_state c')"
    by (rule store_run_state [OF Cons.prems(1,2)])
  have wf: "store_wf (st_db (store_run s call))" using authority.run_inv [OF Cons.prems(1), of "[call]"] by simp
  have "CommandState_Valid (cmd_state c')" using step Cons.prems(3) command_table.edge_valid by auto
  then have rest: "command_rank (cmd_state c') + length (remdups_adj (states_along cid (store_run s call) calls)) \<le> 4"
    by (rule Cons.IH [OF wf c'])
  obtain tail where tail: "states_along cid (store_run s call) calls = Some (cmd_state c') # tail"
    using states_along_hd [of cid "store_run s call" calls] c' by auto
  show ?case
  proof (cases "cmd_state c' = cmd_state c")
    case True
    then show ?thesis using rest Cons.prems(2) tail by simp
  next
    case False
    then have "command_rank (cmd_state c) < command_rank (cmd_state c')" using step command_table.rank_edge by blast
    then show ?thesis using rest False Cons.prems(2) tail by simp
  qed
qed

text \<open>C15. Commands come to rest: along any run, however long, a queued command takes at most four
  states, that is, it changes state at most three times (one less for each state it has already
  passed), and it stops changing for good once it is terminal.\<close>

theorem command_settles:
  assumes "store_wf (st_db s)" "find_command cid (st_db s) = Some c" "CommandState_Valid (cmd_state c)"
  shows "command_rank (cmd_state c) + length (remdups_adj (states_along cid s calls)) \<le> 4 \<and>
    (CommandState_IsTerminal (cmd_state c) \<longrightarrow> remdups_adj (states_along cid s calls) = [Some (cmd_state c)])"
proof -
  have rank: "command_rank (cmd_state c) + length (remdups_adj (states_along cid s calls)) \<le> 4"
    by (rule states_along_rank [OF assms])
  obtain tail where tail: "states_along cid s calls = Some (cmd_state c) # tail"
    using states_along_hd [of cid s calls] assms(2) by auto
  have "remdups_adj (states_along cid s calls) = [Some (cmd_state c)]" if "CommandState_IsTerminal (cmd_state c)"
  proof -
    have "command_rank (cmd_state c) = 3" using that by (cases "cmd_state c") (auto simp: CommandState_IsTerminal_def)
    then have "length (remdups_adj (states_along cid s calls)) = 1" using rank tail by (simp add: le_Suc_eq)
    moreover have "hd (remdups_adj (states_along cid s calls)) = Some (cmd_state c)" by (simp add: tail)
    ultimately show ?thesis by (cases "remdups_adj (states_along cid s calls)") auto
  qed
  then show ?thesis using rank by blast
qed

theorem command_settles_witness:
  "length (remdups_adj (states_along ''c1'' (NewAuthorityStore queued_db)
     [(None, sample_now, DoStartNext 4 False), (None, sample_now, DoStartNext 4 False)])) \<le> 4"
  using command_settles [of "NewAuthorityStore queued_db" "''c1''" queued_row
      "[(None, sample_now, DoStartNext 4 False), (None, sample_now, DoStartNext 4 False)]"] sample_store_wf(1)
  by (simp add: NewAuthorityStore_def)

end
