(* ===== verification/Job_Properties.thy ===== *)
theory Job_Properties
  imports Store_Retries
begin

text \<open>
  What the store promises of one-off jobs: a job is accepted once under its idempotency key, its
  request is written once and never changes or disappears, checkpoints move exactly the row they name
  from the phase they expect, and a payload is only ever stored in the canonical form its hash names.
\<close>

section \<open>Jobs are permanent\<close>

lemma find_job_append: "find_job jid (exec_jobs_update (\<lambda>rows. rows @ [r]) db) =
    (case find_job jid db of None \<Rightarrow> if job_job_id r = jid then Some r else None | Some row \<Rightarrow> Some row)"
  by (simp add: find_job_def find_append split: option.split)

lemma job_identity_columns [simp]:
  "job_job_id (job_identity r) = job_job_id r" "job_session_id (job_identity r) = job_session_id r"
  "job_command_id (job_identity r) = job_command_id r" "job_payload_json (job_identity r) = job_payload_json r"
  by (simp_all add: job_identity_def)

lemma find_job_frame [simp]:
  "find_job jid (exec_sessions_update f1 db) = find_job jid db"
  "find_job jid (exec_session_lifecycle_update f2 db) = find_job jid db"
  "find_job jid (exec_capacity_reservations_update f3 db) = find_job jid db"
  "find_job jid (exec_command_slots_update f4 db) = find_job jid db"
  "find_job jid (exec_lost_runtime_recovery_finalizations_update f5 db) = find_job jid db"
  "find_job jid (exec_controlled_restart_plans_update f6 db) = find_job jid db"
  "find_job jid (exec_controlled_restart_plan_lost_pairs_update f7 db) = find_job jid db"
  "find_job jid (runner_audit_records_update f8 db) = find_job jid db"
  "find_job jid (lane_ingress_admission_update f9 db) = find_job jid db"
  "find_job jid (exec_commands_update g1 db) = find_job jid db"
  "find_job jid (exec_command_events_update g2 db) = find_job jid db"
  "find_job jid (exec_idempotency_update g3 db) = find_job jid db"
  "find_job jid (exec_idempotency_expiry_warnings_update g4 db) = find_job jid db"
  by (simp_all add: find_job_def)

definition stored_as :: "JobID \<Rightarrow> job_row \<Rightarrow> database \<Rightarrow> bool" where
  "stored_as jid x db \<longleftrightarrow> map_option job_identity (find_job jid db) = Some x"

lemma find_job_update:
  assumes "\<And>r. job_identity (f r) = job_identity r"
  shows "map_option job_identity (find_job jid (exec_jobs_update (update_rows P f) db)) =
    map_option job_identity (find_job jid db)"
proof -
  have "job_job_id (f r) = job_job_id r" for r
    using arg_cong [OF assms, of job_job_id r] by simp
  then have "map_option job_identity (find (\<lambda>r. job_job_id r = jid) (update_rows P f rows)) =
      map_option job_identity (find (\<lambda>r. job_job_id r = jid) rows)" for rows
    by (induction rows) (auto simp: update_rows_def assms)
  then show ?thesis by (simp add: find_job_def)
qed

interpretation job_kept: acceptance_predicate "stored_as jid x" now for jid x now
proof unfold_locales
  show "tx_keeps (stored_as jid x) (lookupIdempotencyOnConnection c operation key now)" for c operation key
    by (auto intro!: tx_keepsI simp: lookupIdempotencyOnConnection_def
        recordIdempotencyExpiryWarningOnConnection_def Let_def tx_simps stored_as_def
        split: option.splits if_splits)
qed (simp_all add: stored_as_def find_job_update find_job_append, auto)

lemma run_keeps_job:
  "stored_as jid x (st_db s) \<Longrightarrow> stored_as jid x (st_db (foldl store_run s calls))"
  by (induction calls arbitrary: s) (simp_all add: store_run_def job_kept.store_apply_keeps)

lemma validateRunPayload_ok:
  assumes "validateRunPayload raw script environment target source requestHash = Inr (payload, hash)"
  shows "payload = raw \<and> hash = requestHash \<and>
    HashMutationRequestJSON runJobOperation raw [] = Inr requestHash \<and>
    CanonicalizeMutationRequestJSON runJobOperation raw [] = Inr raw \<and>
    (\<exists>object. decodeCanonicalJSON raw = Some (JObject object) \<and> string_member ''script'' object = Some script \<and>
       string_member ''environment'' object = Some environment)"
  using assms CompareIdempotency_conflict [of hash requestHash]
  by (auto simp: validateRunPayload_def res_bind_Inr res_as_Inr split: if_splits option.splits json.splits)

lemma decode_job_ok: "decode_job_row jid row = Inr job \<Longrightarrow>
    jr_JobID job = jid \<and> job_job_id row = jid \<and> jr_SessionID job = job_session_id row \<and>
    jr_CommandID job = job_command_id row \<and> jr_Phase job = job_phase row \<and>
    jr_CommandState job = job_command_state row \<and> jr_ExitCode job = job_exit_code row \<and>
    jr_TeardownState job = job_teardown_state row \<and> jr_TeardownReason job = job_teardown_reason row \<and>
    jr_CanonicalPayload job = job_payload_json row \<and> jr_ScriptBytes job = job_script_bytes row \<and>
    jr_Environment job = job_environment row \<and> jr_IdempotencyKey job = job_idempotency_key row \<and>
    job_script_sha256 row = sha256_Sum256 (job_script_bytes row) \<and>
    validateRunPayload (jr_CanonicalPayload job) (jr_ScriptBytes job) (jr_Environment job) (jr_Target job)
      (jr_Source job) (jr_RequestHash job) = Inr (jr_CanonicalPayload job, jr_RequestHash job)"
  by (auto simp: decode_job_row_def res_bind_Inr res_as_Inr split: if_splits dest: validateRunPayload_ok)

section \<open>Checkpoints\<close>

definition checkpointed :: "JobCheckpoint \<Rightarrow> time \<Rightarrow> job_row \<Rightarrow> job_row" where
  "checkpointed checkpoint now row =
     (if job_phase row = jc_NextPhase checkpoint \<and> jc_Command checkpoint = None then row
      else checkpoint_update checkpoint now row)"

lemma checkpointed_phase: "job_phase (checkpointed checkpoint now row) = jc_NextPhase checkpoint"
  by (simp add: checkpointed_def checkpoint_update_def Let_def split: option.split)

lemma checkpoint_job_id: "job_job_id (checkpoint_update checkpoint now r) = job_job_id r"
  using arg_cong [OF checkpoint_identity, of job_job_id checkpoint now r] by simp

lemma checkpoint_body_run:
  assumes "checkpoint_job_body jid checkpoint now db = Inr (job, db')"
  obtains row where "find_job jid db = Some row" "jc_ExpectedPhase checkpoint \<in> {JobPhaseOther [], job_phase row}"
    "db' = (if job_phase row = jc_NextPhase checkpoint \<and> jc_Command checkpoint = None then db
      else exec_jobs_update (update_rows (\<lambda>r. job_job_id r = jid) (checkpoint_update checkpoint now)) db)"
    "readJobOnConnection jid db' = Inr job"
proof (cases "find_job jid db")
  case None
  then show ?thesis using assms by (simp add: checkpoint_job_body_def tx_bind_def tx_query_def)
next
  case (Some row)
  then show ?thesis
    using assms that [of row]
    by (simp add: checkpoint_job_body_def update_job_def Let_def tx_simps split: if_splits) auto
qed

lemma find_job_checkpointed:
  assumes "find_job jid db = Some row"
  shows "find_job other (exec_jobs_update (update_rows (\<lambda>r. job_job_id r = jid) (checkpoint_update checkpoint now)) db) =
    (if other = jid then Some (checkpoint_update checkpoint now row) else find_job other db)"
  using assms find_update_rows_same [where key = job_job_id and P = "\<lambda>_. True" and f = "checkpoint_update checkpoint now"]
    find_update_rows_other [where key = job_job_id and P = "\<lambda>_. True" and f = "checkpoint_update checkpoint now"]
  by (simp add: find_job_def checkpoint_job_id)

lemma CheckpointJob_Inr:
  assumes "CheckpointJob fault now s jid checkpoint = (Inr job, s')"
  obtains row db' where "find_job jid (st_db s) = Some row" "jc_ExpectedPhase checkpoint \<in> {JobPhaseOther [], job_phase row}"
    "s' = s\<lparr>st_db := db'\<rparr>" "\<exists>rows. db' = exec_jobs_update (\<lambda>_. rows) (st_db s)"
    "\<And>other. find_job other db' = (if other = jid then Some (checkpointed checkpoint now row) else find_job other (st_db s))"
    "readJobOnConnection jid db' = Inr job" "jid \<noteq> []" "validateJobCheckpoint checkpoint = Inr ()"
proof -
  from assms obtain db' where run: "checkpoint_job_body jid checkpoint now (st_db s) = Inr (job, db')"
    and ok: "jid \<noteq> []" "validateJobCheckpoint checkpoint = Inr ()" and s': "s' = s\<lparr>st_db := db'\<rparr>"
    by (cases rule: withImmediateTransaction_cases [of fault s "checkpoint_job_body jid checkpoint now"])
      (auto simp: CheckpointJob_def tx_simps split: sum.splits)
  obtain row where row: "find_job jid (st_db s) = Some row" "jc_ExpectedPhase checkpoint \<in> {JobPhaseOther [], job_phase row}"
    and db': "db' = (if job_phase row = jc_NextPhase checkpoint \<and> jc_Command checkpoint = None then st_db s
      else exec_jobs_update (update_rows (\<lambda>r. job_job_id r = jid) (checkpoint_update checkpoint now)) (st_db s))"
    and job: "readJobOnConnection jid db' = Inr job"
    by (rule checkpoint_body_run [OF run])
  have "find_job other db' = (if other = jid then Some (checkpointed checkpoint now row) else find_job other (st_db s))"
    for other using row(1) find_job_checkpointed [OF row(1)] by (auto simp: db' checkpointed_def)
  moreover have "\<exists>rows. db' = exec_jobs_update (\<lambda>_. rows) (st_db s)"
    by (rule exI [of _ "exec_jobs db'"]) (simp add: db')
  ultimately show thesis using that row s' job ok by blast
qed

text \<open>A checkpoint changes the phase of one job and nothing else. When it succeeds the job was in
  the expected phase (where one was named), its row is the one the checkpoint describes, with the
  accepted request untouched, and the answer is that row read back; a checkpoint that names the present
  phase and no command writes nothing. When it fails the database is unchanged.\<close>

theorem checkpoint_exact:
  "case CheckpointJob fault now s jid checkpoint of
     (Inl e, s') \<Rightarrow> st_db s' = st_db s
   | (Inr job, s') \<Rightarrow> (\<exists>row. find_job jid (st_db s) = Some row \<and>
       jc_ExpectedPhase checkpoint \<in> {JobPhaseOther [], job_phase row} \<and>
       (\<exists>rows. st_db s' = exec_jobs_update (\<lambda>_. rows) (st_db s)) \<and>
       (\<forall>other. find_job other (st_db s') =
          (if other = jid then Some (checkpointed checkpoint now row) else find_job other (st_db s))) \<and>
       job_identity (checkpointed checkpoint now row) = job_identity row \<and>
       jr_Phase job = jc_NextPhase checkpoint \<and> GetJob None s' jid = Inr job)"
proof (cases "CheckpointJob fault now s jid checkpoint")
  case (Pair r s')
  show ?thesis
  proof (cases r)
    case (Inl e)
    then show ?thesis
      using Pair by (auto simp: CheckpointJob_def split: sum.splits dest: withImmediateTransaction_Inl)
  next
    case (Inr job)
    then have run: "CheckpointJob fault now s jid checkpoint = (Inr job, s')" using Pair by simp
    show ?thesis
    proof (rule CheckpointJob_Inr [OF run])
      fix row db'
      assume row: "find_job jid (st_db s) = Some row" "jc_ExpectedPhase checkpoint \<in> {JobPhaseOther [], job_phase row}"
        and s': "s' = s\<lparr>st_db := db'\<rparr>" "\<exists>rows. db' = exec_jobs_update (\<lambda>_. rows) (st_db s)"
        and find: "\<And>other. find_job other db' =
          (if other = jid then Some (checkpointed checkpoint now row) else find_job other (st_db s))"
        and job: "readJobOnConnection jid db' = Inr job" "jid \<noteq> []"
      have "jr_Phase job = jc_NextPhase checkpoint"
        using job(1) find [of jid] checkpointed_phase by (auto simp: readJobOnConnection_def dest: decode_job_ok)
      then show ?thesis
        using run row find job s' by (simp add: checkpointed_def checkpoint_identity GetJob_def onConnection_def new_id_run)
    qed
  qed
qed

text \<open>C8. A checkpoint that names the phase it moves from is not repeatable: applied a second time it
  finds the job in its own next phase and is refused as a conflict, with nothing written.\<close>

theorem checkpoint_repeat_conflicts:
  assumes run: "CheckpointJob None now s jid checkpoint = (Inr job, s')"
    and guarded: "jc_ExpectedPhase checkpoint \<notin> {JobPhaseOther [], jc_NextPhase checkpoint}"
  shows "CheckpointJob None now2 s' jid checkpoint = (Inl ErrJobPhaseConflict, s')"
proof (rule CheckpointJob_Inr [OF run])
  fix row db'
  assume s': "s' = s\<lparr>st_db := db'\<rparr>" and ok: "jid \<noteq> []" "validateJobCheckpoint checkpoint = Inr ()"
    and "\<And>other. find_job other db' = (if other = jid then Some (checkpointed checkpoint now row) else find_job other (st_db s))"
  then have find: "find_job jid db' = Some (checkpointed checkpoint now row)" by simp
  have "JobPhase_Valid (jc_NextPhase checkpoint)"
    using ok(2) by (simp add: validateJobCheckpoint_def split: if_splits)
  then have "checkpoint_job_body jid checkpoint now2 db' = Inl ErrJobPhaseConflict"
    using guarded by (auto simp: checkpoint_job_body_def tx_bind_def tx_query_def Let_def find checkpointed_phase)
  then show ?thesis
    using ok s' by (simp add: CheckpointJob_def new_id_run withImmediateTransaction_def count_error_def errors_Is.simps)
qed

section \<open>Acceptance\<close>

text \<open>What validation guarantees of a job.\<close>

definition job_ok :: "JobAcceptance \<Rightarrow> bool" where
  "job_ok v \<longleftrightarrow> ja_JobID v \<noteq> [] \<and> ja_SessionID v \<noteq> [] \<and> ja_CommandID v \<noteq> [] \<and>
     known_controller_type (ci_type (ja_Controller v)) \<and> ci_id (ja_Controller v) \<noteq> [] \<and>
     known_target_kind (et_kind (ja_Target v)) \<and> et_profile (ja_Target v) \<noteq> [] \<and> Source_valid (ja_Source v) \<and>
     valid_hash (ja_RequestHash v) \<and> ValidateScriptUTF8 (ja_Script v) = Inr () \<and>
     bounded_token 256 (ja_IdempotencyKey v) \<and> 0 < ja_IdempotencyRetention v \<and> ja_Environment v \<noteq> []"

definition run_payload_ok :: "JobAcceptance \<Rightarrow> string \<Rightarrow> bool" where
  "run_payload_ok v environment \<longleftrightarrow>
     validateRunPayload (ja_CanonicalPayload v) (ja_Script v) environment (ja_Target v) (ja_Source v) (ja_RequestHash v) =
       Inr (ja_CanonicalPayload v, ja_RequestHash v)"

lemma target_eta: "\<lparr>et_kind = et_kind t, et_profile = et_profile t\<rparr> = (t :: ExecutionTarget)"
  by simp

lemma hash_of_request: "HashMutationRequestJSON operation raw defaults = Inr h \<Longrightarrow> valid_hash h"
  by (auto simp: HashMutationRequestJSON_def tx_simps canonical_digest_valid)

lemma validated_job:
  assumes "validateJobAcceptance input = Inr v"
  shows "job_ok v" "run_payload_ok v (ja_Environment input)" "ja_Environment v = TrimSpace (ja_Environment input)"
proof -
  obtain source payload hash where
    ids: "ja_JobID input \<noteq> []" "ja_SessionID input \<noteq> []" "ja_CommandID input \<noteq> []"
      "known_controller_type (ci_type (ja_Controller input))" "ci_id (ja_Controller input) \<noteq> []"
    and target: "known_target_kind (et_kind (ja_Target input))" "et_profile (ja_Target input) \<noteq> []"
    and source: "normalizeSource (ja_Source input) = Inr source"
    and rest: "TrimSpace (ja_Environment input) \<noteq> []" "ValidateScriptUTF8 (ja_Script input) = Inr ()"
      "bounded_token 256 (ja_IdempotencyKey input)" "0 \<le> ja_IdempotencyRetention input"
    and pay: "validateRunPayload (ja_CanonicalPayload input) (ja_Script input) (ja_Environment input)
      (ja_Target input) source (ja_RequestHash input) = Inr (payload, hash)"
    and v: "v = \<lparr>ja_JobID = ja_JobID input, ja_SessionID = ja_SessionID input, ja_CommandID = ja_CommandID input,
      ja_Controller = ja_Controller input, ja_IdempotencyKey = ja_IdempotencyKey input, ja_RequestHash = hash,
      ja_Environment = TrimSpace (ja_Environment input), ja_Target = ja_Target input, ja_Source = source,
      ja_Script = ja_Script input, ja_CanonicalPayload = payload,
      ja_IdempotencyRetention = (if ja_IdempotencyRetention input = 0 then DefaultSessionIdempotencyRetention
        else ja_IdempotencyRetention input)\<rparr>"
    using assms
    by (auto simp: validateJobAcceptance_def Let_def tx_simps validateController_Inr target_eta
        DefaultSessionIdempotencyRetention_def Hour_def Minute_def Second_def split: if_splits)
  note p = validateRunPayload_ok [OF pay]
  have "valid_hash hash" using p hash_of_request by blast
  then show "job_ok v" "run_payload_ok v (ja_Environment input)" "ja_Environment v = TrimSpace (ja_Environment input)"
    using ids target rest pay p normalizeSource_valid [OF source]
    by (auto simp: v job_ok_def run_payload_ok_def DefaultSessionIdempotencyRetention_def Hour_def Minute_def Second_def)
qed

definition job_record_of :: "JobAcceptance \<Rightarrow> Ingress \<Rightarrow> time \<Rightarrow> JobRecord" where
  "job_record_of v ingress now =
     \<lparr>jr_JobID = ja_JobID v, jr_SessionID = ja_SessionID v, jr_CommandID = ja_CommandID v,
      jr_Controller = ja_Controller v, jr_Ingress = ingress, jr_Environment = ja_Environment v,
      jr_Target = ja_Target v, jr_Source = ja_Source v, jr_RequestHash = ja_RequestHash v,
      jr_IdempotencyKey = ja_IdempotencyKey v, jr_CanonicalPayload = ja_CanonicalPayload v,
      jr_ScriptBytes = ja_Script v, jr_ScriptSHA256 = sha256_Sum256 (ja_Script v),
      jr_Phase = JobPhaseCreatingSession, jr_CommandState = None, jr_ExitCode = None,
      jr_FinalEventSequence = None, jr_OutputTruncated = False, jr_OutputComplete = False,
      jr_OutputUnavailableReason = [], jr_QueueBlockedReason = [], jr_TeardownState = JobTeardownPending,
      jr_TeardownReason = [], jr_CreatedAt = now, jr_UpdatedAt = now, jr_IdempotencyWarning = False\<rparr>"

lemma run_token: "bounded_token 128 runJobOperation"
  by (simp add: runJobOperation_def bounded_token_def has_nul_def NUL_def)

text \<open>The stored row reads back exactly when its payload passes the check again, with the environment
  of the column.\<close>

lemma decode_job_row_phase:
  assumes "job_ok v" "ValidIngress ingress" "valid_time now" "valid_time now'" "JobPhase_Valid phase"
  shows "decode_job_row (ja_JobID v)
      ((job_row_of v ingress now)\<lparr>job_phase := phase, job_updated_at := formatStoredTime now'\<rparr>) =
    res_bind (res_as ErrJobPayloadCorrupt (validateRunPayload (ja_CanonicalPayload v) (ja_Script v)
      (ja_Environment v) (ja_Target v) (ja_Source v) (ja_RequestHash v)))
      (\<lambda>_. Inr ((job_record_of v ingress now)\<lparr>jr_Phase := phase, jr_UpdatedAt := now'\<rparr>))"
proof -
  have hash: "NewCanonicalHash (ch_version (ja_RequestHash v)) (ch_digest (ja_RequestHash v)) = Inr (ja_RequestHash v)"
    by (rule NewCanonicalHash_of [THEN iffD2]) (use assms(1) in \<open>simp add: job_ok_def\<close>)
  have ids: "NewJobID (ja_JobID v) = Inr (ja_JobID v)" "NewSessionID (ja_SessionID v) = Inr (ja_SessionID v)"
    "NewCommandID (ja_CommandID v) = Inr (ja_CommandID v)"
    "NewControllerIdentity (ci_type (ja_Controller v)) (ci_id (ja_Controller v)) = Inr (ja_Controller v)"
    "NewExecutionTarget (et_kind (ja_Target v)) (et_profile (ja_Target v)) = Inr (ja_Target v)"
    "decodeSource (src_mode (ja_Source v)) (src_repositoryAlias (ja_Source v)) (src_requestedRevision (ja_Source v))
      (src_path (ja_Source v)) = Inr (ja_Source v)"
    "validateIdempotencyOperationKey runJobOperation (ja_IdempotencyKey v) = Inr (runJobOperation, ja_IdempotencyKey v)"
    "ValidateScriptUTF8 (ja_Script v) = Inr ()" "parseStoredTime (formatStoredTime now) = Inr now"
    "parseStoredTime (formatStoredTime now') = Inr now'"
    using assms decodeSource_valid run_token by (auto simp: job_ok_def)
  show ?thesis
    using assms(2,5)
    by (simp add: decode_job_row_def job_row_of_def job_record_of_def hash ids
        del: NewCanonicalHash_Inr new_id_Inr NewControllerIdentity_Inr NewExecutionTarget_Inr
          validateIdempotencyOperationKey_Inr)
qed

lemma decode_job_row_of:
  assumes "job_ok v" "ValidIngress ingress" "valid_time now"
  shows "decode_job_row (ja_JobID v) (job_row_of v ingress now) =
    res_bind (res_as ErrJobPayloadCorrupt (validateRunPayload (ja_CanonicalPayload v) (ja_Script v)
      (ja_Environment v) (ja_Target v) (ja_Source v) (ja_RequestHash v)))
      (\<lambda>_. Inr (job_record_of v ingress now))"
proof -
  have "(job_row_of v ingress now)\<lparr>job_phase := JobPhaseCreatingSession, job_updated_at := formatStoredTime now\<rparr> =
      job_row_of v ingress now" "(job_record_of v ingress now)\<lparr>jr_Phase := JobPhaseCreatingSession, jr_UpdatedAt := now\<rparr> =
      job_record_of v ingress now"
    by (simp_all add: job_row_of_def job_record_of_def)
  then show ?thesis using decode_job_row_phase [OF assms assms(3), of JobPhaseCreatingSession] by simp
qed

definition job_columns_ok :: "JobAcceptance \<Rightarrow> bool" where
  "job_columns_ok v \<longleftrightarrow> bounded_token 256 (ja_JobID v) \<and> sql_nonempty (ja_SessionID v) \<and>
     sql_nonempty (ja_CommandID v) \<and> sql_nonempty (ci_id (ja_Controller v)) \<and>
     sql_nonempty (et_profile (ja_Target v)) \<and> sql_nonempty (ja_Environment v)"

lemma job_check_row_of:
  assumes ok: "job_ok v" and pay: "run_payload_ok v environment" and "job_columns_ok v" "ValidIngress ingress"
  shows "job_check (job_row_of v ingress now)"
proof -
  have "ja_CanonicalPayload v \<noteq> []"
    using pay by (auto simp: run_payload_ok_def validateRunPayload_def)
  moreover have "known_source_mode (src_mode (ja_Source v))"
    using ok by (cases "src_mode (ja_Source v)") (auto simp: job_ok_def Source_valid_def)
  ultimately show ?thesis
    using assms uint_pos [of "ch_version (ja_RequestHash v)"] sql_nonempty_token [of 256]
    by (simp add: job_check_def job_row_of_def job_ok_def job_columns_ok_def valid_hash_def sha256_Size_def)
qed

definition job_binding :: "JobAcceptance \<Rightarrow> time \<Rightarrow> bool \<Rightarrow> IdempotencyRecord" where
  "job_binding v now warning =
     \<lparr>idr_Controller = ja_Controller v, idr_Operation = runJobOperation, idr_Key = ja_IdempotencyKey v,
      idr_Hash = ja_RequestHash v, idr_ResourceID = ja_JobID v, idr_CreatedAt = now,
      idr_ExpiresAt = now + ja_IdempotencyRetention v, idr_DeduplicationWarning = warning\<rparr>"

definition accepted_job_db :: "JobAcceptance \<Rightarrow> Ingress \<Rightarrow> time \<Rightarrow> database \<Rightarrow> database" where
  "accepted_job_db v ingress now db =
     db\<lparr>exec_jobs := exec_jobs db @ [job_row_of v ingress now],
        exec_idempotency := exec_idempotency db @ [binding_row (job_binding v now False)]\<rparr>"

text \<open>A job nobody has asked for yet, whose identifiers are unused and whose columns the database can hold.\<close>

definition fresh_job :: "JobAcceptance \<Rightarrow> time \<Rightarrow> database \<Rightarrow> bool" where
  "fresh_job v now db \<longleftrightarrow>
     find_binding (ja_Controller v) runJobOperation (ja_IdempotencyKey v) db = None \<and>
     find_warning (ja_Controller v) runJobOperation (ja_IdempotencyKey v) db = None \<and>
     ja_JobID v \<notin> job_job_id ` set (exec_jobs db) \<and> ja_SessionID v \<notin> job_session_id ` set (exec_jobs db) \<and>
     ja_CommandID v \<notin> job_command_id ` set (exec_jobs db) \<and> job_columns_ok v \<and> valid_time now"

lemma job_binding_input:
  assumes "job_ok v" "job_columns_ok v"
  shows "validateIdempotencyInput (ja_Controller v) runJobOperation (ja_IdempotencyKey v) (ja_RequestHash v)
      (ja_JobID v) (ja_IdempotencyRetention v) =
    Inr \<lparr>idr_Controller = ja_Controller v, idr_Operation = runJobOperation, idr_Key = ja_IdempotencyKey v,
      idr_Hash = ja_RequestHash v, idr_ResourceID = ja_JobID v, idr_CreatedAt = zero_time, idr_ExpiresAt = zero_time,
      idr_DeduplicationWarning = False, vii_Retention = effective_retention (ja_IdempotencyRetention v)\<rparr>"
  using assms run_token by (simp add: validateIdempotencyInput_Inr job_ok_def job_columns_ok_def effective_retention_def)

lemma job_binding_constraints:
  assumes "job_ok v" "job_columns_ok v" "exec_idempotency db' = exec_idempotency db"
    and "find_binding (ja_Controller v) runJobOperation (ja_IdempotencyKey v) db = None"
  shows "idempotency_constraints (binding_row (job_binding v now warning)) db'"
proof -
  have "bound_key (job_binding v now warning) \<notin> idempotency_key ` set (exec_idempotency db')"
    using assms(3,4) by (simp add: find_binding_def find_key_None bound_key_def job_binding_def)
  then show ?thesis
    using assms key_of_binding_row [of "job_binding v now warning"] sql_nonempty_token [OF run_token]
      sql_nonempty_token [of 256 "ja_JobID v"] sql_nonempty_token [of 256 "ja_IdempotencyKey v"]
      uint_pos [of "ch_version (ja_RequestHash v)"]
    by (auto simp: idempotency_constraints_def binding_row_def job_binding_def job_ok_def job_columns_ok_def
        valid_hash_def sha256_Size_def)
qed

lemma insert_job_fresh:
  assumes ok: "job_ok v" "run_payload_ok v environment" "ValidIngress ingress" and fresh: "fresh_job v now db"
  shows "insertJobOnConnection v ingress now False db = Inr ((), accepted_job_db v ingress now db)"
proof -
  have cols: "job_columns_ok v" using fresh by (simp add: fresh_job_def)
  have "job_unique (job_row_of v ingress now) db"
    using fresh by (simp add: job_unique_def job_row_of_def fresh_job_def)
  moreover have "job_check (job_row_of v ingress now)" by (rule job_check_row_of [OF ok(1,2) cols ok(3)])
  moreover have "idempotency_constraints (binding_row (job_binding v now False)) (exec_jobs_update f db)" for f
    by (rule job_binding_constraints [OF ok(1) cols, of _ db]) (use fresh in \<open>simp_all add: fresh_job_def\<close>)
  moreover have "binding_row \<lparr>idr_Controller = ja_Controller v, idr_Operation = runJobOperation,
      idr_Key = ja_IdempotencyKey v, idr_Hash = ja_RequestHash v, idr_ResourceID = ja_JobID v, idr_CreatedAt = now,
      idr_ExpiresAt = now + ja_IdempotencyRetention v, idr_DeduplicationWarning = False, vii_Retention = r\<rparr> =
      binding_row (job_binding v now False)" for r
    by (simp add: binding_row_def job_binding_def)
  ultimately show ?thesis
    by (simp add: insertJobOnConnection_def tx_bind_def sql_insert_def job_constraints_def tx_lift_def
        job_binding_input [OF ok(1) cols] recordIdempotencyOnConnection_def accepted_job_db_def)
qed

lemma find_accepted_job:
  assumes "fresh_job v now db"
  shows "find_job (ja_JobID v) (accepted_job_db v ingress now db) = Some (job_row_of v ingress now)"
    "find_job (ja_JobID v) db = None"
proof -
  show none: "find_job (ja_JobID v) db = None"
    using assms by (simp add: fresh_job_def find_job_def find_key_None)
  then show "find_job (ja_JobID v) (accepted_job_db v ingress now db) = Some (job_row_of v ingress now)"
    by (simp add: find_job_def accepted_job_db_def find_append) (simp add: job_row_of_def)
qed

lemma accept_fresh_job_body:
  assumes ok: "job_ok v" "run_payload_ok v environment" "ValidIngress ingress" and fresh: "fresh_job v now db"
    and ingress: "checkIngressAdmissionOnConnection runtime db = Inr ()"
  shows "accept_job_body v ingress now runtime db =
    (if run_payload_ok v (ja_Environment v)
     then Inr ((job_record_of v ingress now, False), accepted_job_db v ingress now db)
     else Inl ErrJobPayloadCorrupt)"
proof -
  let ?check = "validateRunPayload (ja_CanonicalPayload v) (ja_Script v) (ja_Environment v) (ja_Target v) (ja_Source v)
    (ja_RequestHash v)"
  have "run_payload_ok v (ja_Environment v) \<longleftrightarrow> (\<exists>x. ?check = Inr x)"
    using validateRunPayload_ok by (fastforce simp: run_payload_ok_def)
  moreover have "readJobOnConnection (ja_JobID v) (accepted_job_db v ingress now db) =
      res_bind (res_as ErrJobPayloadCorrupt ?check) (\<lambda>_. Inr (job_record_of v ingress now))"
    using fresh find_accepted_job [OF fresh] decode_job_row_of [OF ok(1,3)]
    by (simp add: readJobOnConnection_def fresh_job_def)
  moreover have "lookupIdempotencyOnConnection (ja_Controller v) runJobOperation (ja_IdempotencyKey v) now db = Inr (None, db)"
    "find_warning (ja_Controller v) runJobOperation (ja_IdempotencyKey v) db = None"
    using fresh lookup_none by (auto simp: fresh_job_def)
  moreover have "(job_record_of v ingress now)\<lparr>jr_IdempotencyWarning := False\<rparr> = job_record_of v ingress now"
    by (simp add: job_record_of_def)
  ultimately show ?thesis
    using ingress insert_job_fresh [OF ok fresh] find_accepted_job(2) [OF fresh]
    by (cases ?check) (simp_all add: accept_job_body_def Let_def tx_bind_def tx_query_def tx_lift_def tx_return_def
        idempotencyExpiryWarningOnConnection_def)
qed

lemma payload_environment:
  assumes "run_payload_ok v environment"
  shows "run_payload_ok v environment' \<longleftrightarrow> environment' = environment"
proof
  assume "run_payload_ok v environment'"
  then show "environment' = environment"
    using validateRunPayload_ok [OF assms [unfolded run_payload_ok_def]]
    by (auto simp: run_payload_ok_def dest!: validateRunPayload_ok)
qed (use assms in simp)

text \<open>C7. A fresh job of a trusted ingress is accepted in one transaction that adds its row and its
  idempotency binding and nothing else, and answers with the job as it will be read: creating its
  session, with the canonical request, script and hash it was submitted with. The exception is an
  environment written with surrounding space, which is stored trimmed while the payload keeps the
  space: reading the new row back then fails and nothing is accepted.\<close>

theorem accept_job_exact:
  assumes "TrustedForAcceptance (IngressFromContext ctx)" and v: "validateJobAcceptance input = Inr v"
    and "fresh_job v now (st_db s)"
    and "checkIngressAdmissionOnConnection (st_laneAdmissionRuntime s) (st_db s) = Inr ()"
  shows "AcceptJob None now ctx s input =
    (if TrimSpace (ja_Environment input) = ja_Environment input
     then (Inr (job_record_of v (IngressFromContext ctx) now, False),
           s\<lparr>st_db := accepted_job_db v (IngressFromContext ctx) now (st_db s)\<rparr>)
     else (Inl ErrJobPayloadCorrupt, s))"
proof -
  note ok = validated_job [OF v]
  have "accept_job_body v (IngressFromContext ctx) now (st_laneAdmissionRuntime s) (st_db s) =
    (if run_payload_ok v (ja_Environment v)
     then Inr ((job_record_of v (IngressFromContext ctx) now, False), accepted_job_db v (IngressFromContext ctx) now (st_db s))
     else Inl ErrJobPayloadCorrupt)"
    by (rule accept_fresh_job_body [OF ok(1,2)]) (use assms in \<open>simp_all add: TrustedForAcceptance_def\<close>)
  then show ?thesis
    using assms(1) ok(3) payload_environment [OF ok(2)]
    by (simp add: AcceptJob_def v withImmediateTransaction_def count_error_def errors_Is.simps)
qed

section \<open>Retries\<close>

lemma accept_job_binding:
  assumes "AcceptJob fault now ctx s input = (Inr (rc, False), s')" "validateJobAcceptance input = Inr v"
  obtains warning where "find_binding (ja_Controller v) runJobOperation (ja_IdempotencyKey v) (st_db s') =
      Some (binding_row (job_binding v now warning))"
    "bounded_token 256 (ja_JobID v)" "jr_IdempotencyWarning rc = warning" "jr_JobID rc = ja_JobID v"
    "find_job (ja_JobID v) (st_db s') = Some (job_row_of v (IngressFromContext ctx) now)"
proof -
  let ?body = "accept_job_body v (IngressFromContext ctx) now (st_laneAdmissionRuntime s)"
  from assms obtain db' where run: "?body (st_db s) = Inr ((rc, False), db')" and s': "s' = s\<lparr>st_db := db'\<rparr>"
    by (cases rule: withImmediateTransaction_cases [of fault s ?body]) (auto simp: AcceptJob_def split: if_splits)
  from run obtain warning db1 created where
    ins: "insertJobOnConnection v (IngressFromContext ctx) now warning db1 = Inr ((), db')"
    and rc: "rc = created\<lparr>jr_IdempotencyWarning := warning\<rparr>" "readJobOnConnection (ja_JobID v) db' = Inr created"
    by (auto simp: accept_job_body_def Let_def tx_simps split: option.splits if_splits)
  from ins obtain input db2 where
    input: "validateIdempotencyInput (ja_Controller v) runJobOperation (ja_IdempotencyKey v) (ja_RequestHash v)
      (ja_JobID v) (ja_IdempotencyRetention v) = Inr input"
    and rec: "recordIdempotencyOnConnection (input\<lparr>idr_CreatedAt := now,
      idr_ExpiresAt := now + ja_IdempotencyRetention v, idr_DeduplicationWarning := warning\<rparr>) db2 = Inr ((), db')"
    by (auto simp: insertJobOnConnection_def tx_simps)
  note parts = input [unfolded validateIdempotencyInput_Inr]
  have key: "job_job_id (job_row_of v (IngressFromContext ctx) now) = ja_JobID v" by (simp add: job_row_of_def)
  have rows: "exec_jobs db' = exec_jobs db1 @ [job_row_of v (IngressFromContext ctx) now]"
    and con: "job_constraints (job_row_of v (IngressFromContext ctx) now) db1"
    using ins by (auto simp: insertJobOnConnection_def recordIdempotencyOnConnection_def tx_simps split: if_splits)
  show thesis
  proof (rule that)
    show "find_binding (ja_Controller v) runJobOperation (ja_IdempotencyKey v) (st_db s') =
        Some (binding_row (job_binding v now warning))"
      using record_find [OF rec] parts by (auto simp: s' binding_row_def job_binding_def)
    show "jr_JobID rc = ja_JobID v"
      using rc by (auto simp: readJobOnConnection_def split: option.splits dest: decode_job_ok)
    show "find_job (ja_JobID v) (st_db s') = Some (job_row_of v (IngressFromContext ctx) now)"
      using rows con find_inserted [of job_job_id "job_row_of v (IngressFromContext ctx) now" "exec_jobs db1"] key
      by (simp add: s' find_job_def job_constraints_def job_unique_def)
  qed (use parts rc in \<open>simp_all add: s'\<close>)
qed

lemma job_row_identity: "job_identity (job_row_of v ingress now) = job_row_of v ingress now"
  by (simp add: job_identity_def job_row_of_def)

text \<open>C6. A job is accepted once: after its acceptance and any sequence of operations of a run before
  its idempotency key expires (garbage collection is not one of them), its row is still there with the
  request it was accepted with; and a retry with the same key and controller, while the lane admits
  work, accepts no second job and writes nothing. With the same request hash it answers with the
  accepted job as it is by then and reports a duplicate, or with the error of reading that row; with
  another hash it is refused as a conflict.\<close>

theorem job_exactly_once:
  fixes s s' :: AuthorityStore and calls :: "(go_error option \<times> time \<times> store_op) list"
  defines "t \<equiv> foldl store_run s' calls"
  assumes first: "AcceptJob None now ctx s input = (Inr (rc, False), s')"
    and v: "validateJobAcceptance input = Inr v"
    and times: "valid_time now" "valid_time (now + ja_IdempotencyRetention v)" "now2 < now + ja_IdempotencyRetention v"
    and before: "\<forall>call \<in> set calls. fst (snd call) < now + ja_IdempotencyRetention v"
    and v2: "TrustedForAcceptance (IngressFromContext ctx2)" "validateJobAcceptance input2 = Inr v2"
      "ja_IdempotencyKey v2 = ja_IdempotencyKey v" "ja_Controller v2 = ja_Controller v"
    and ingress: "checkIngressAdmissionOnConnection (st_laneAdmissionRuntime t) (st_db t) = Inr ()"
  shows "\<exists>row. find_job (jr_JobID rc) (st_db t) = Some row \<and>
    job_identity row = job_row_of v (IngressFromContext ctx) now \<and>
    AcceptJob None now2 ctx2 t input2 =
      (if ja_RequestHash v2 = ja_RequestHash v
       then (case decode_job_row (jr_JobID rc) row of
               Inr found \<Rightarrow> (Inr (found\<lparr>jr_IdempotencyWarning := jr_IdempotencyWarning rc\<rparr>, True), t)
             | Inl e \<Rightarrow> (Inl e, count_error e t))
       else (Inl ErrIdempotencyConflict, t))"
proof -
  obtain warning where bind: "find_binding (ja_Controller v) runJobOperation (ja_IdempotencyKey v) (st_db s') =
      Some (binding_row (job_binding v now warning))"
    and id: "bounded_token 256 (ja_JobID v)" "jr_IdempotencyWarning rc = warning" "jr_JobID rc = ja_JobID v"
    and stored: "find_job (ja_JobID v) (st_db s') = Some (job_row_of v (IngressFromContext ctx) now)"
    by (rule accept_job_binding [OF first v]) blast
  have "stored_as (ja_JobID v) (job_row_of v (IngressFromContext ctx) now) (st_db t)"
    unfolding t_def by (rule run_keeps_job) (simp add: stored_as_def stored job_row_identity)
  then obtain row where row: "find_job (ja_JobID v) (st_db t) = Some row"
    "job_identity row = job_row_of v (IngressFromContext ctx) now" by (auto simp: stored_as_def)
  let ?b = "job_binding v now warning"
  have fields: "idr_Controller ?b = ja_Controller v" "idr_Operation ?b = runJobOperation"
    "idr_Key ?b = ja_IdempotencyKey v" "idr_ExpiresAt ?b = now + ja_IdempotencyRetention v"
    "idr_ResourceID ?b = ja_JobID v" "idr_Hash ?b = ja_RequestHash v" "idr_DeduplicationWarning ?b = warning"
    by (simp_all add: job_binding_def)
  have hash: "valid_hash (ja_RequestHash v)" using validated_job(1) [OF v] by (simp add: job_ok_def)
  have "find_binding (ja_Controller v) runJobOperation (ja_IdempotencyKey v) (st_db t) = Some (binding_row ?b)"
    unfolding t_def using bind times(2) before
    by (intro run_keeps_binding) (auto simp: binding_row_def job_binding_def)
  moreover have "readable_binding ?b"
    using hash id times by (simp add: readable_binding_def job_binding_def)
  ultimately have look: "lookupIdempotencyOnConnection (ja_Controller v) runJobOperation (ja_IdempotencyKey v) now2 (st_db t) =
      Inr (Some ?b, st_db t)"
    using lookup_retained [of ?b "st_db t" now2] times(3) fields by (simp add: IdempotencyRecord.defs)
  have "(CompareIdempotency (ja_RequestHash v) (ja_RequestHash v2) = IdempotencyComparisonConflict) =
      (ja_RequestHash v2 \<noteq> ja_RequestHash v)"
    using hash CompareIdempotency_conflict [of "ja_RequestHash v" "ja_RequestHash v2"] by (auto simp: valid_hash_def)
  moreover have id_ok: "NewJobID (ja_JobID v) = Inr (ja_JobID v)" using id(1) by (simp add: bounded_token_def)
  ultimately have "accept_job_body v2 (IngressFromContext ctx2) now2 (st_laneAdmissionRuntime t) (st_db t) =
    (if ja_RequestHash v2 = ja_RequestHash v
     then res_bind (decode_job_row (ja_JobID v) row)
       (\<lambda>found. Inr ((found\<lparr>jr_IdempotencyWarning := warning\<rparr>, True), st_db t))
     else Inl ErrIdempotencyConflict)"
    using row(1) ingress look v2(3,4)
    by (simp add: accept_job_body_def Let_def tx_bind_def tx_query_def tx_lift_def tx_guard_def tx_return_def fields id_ok
        readJobOnConnection_def res_bind_def del: new_id_Inr split: sum.split)
  then show ?thesis
    using v2 row by (simp add: AcceptJob_def withImmediateTransaction_def count_error_def errors_Is.simps id res_bind_def
        split: sum.split)
qed

text \<open>A job is permanent: whatever operations run, in any order and with any failures, the row of
  an accepted job stays under its identifier with every column of its request unchanged.\<close>

theorem job_permanent:
  assumes "find_job jid (st_db s) = Some row"
  shows "\<exists>row'. find_job jid (st_db (foldl store_run s calls)) = Some row' \<and> job_identity row' = job_identity row"
  using run_keeps_job [of jid "job_identity row" s calls] assms by (auto simp: stored_as_def)

section \<open>A sample job\<close>

definition sample_run :: members where
  "sample_run =
     [(''environment'', JString ''dev''),
      (''execution_target'', JObject [(''kind'', JString ''local''), (''profile'', JString ''mac'')]),
      (''operation'', JString ''run''), (''script'', JString ''ls''),
      (''source'', JObject [(''mode'', JString ''empty'')])]"

definition sample_payload :: bytes where
  "sample_payload = appendCanonicalValue (JObject sample_run)"

definition sample_job :: JobAcceptance where
  "sample_job = \<lparr>ja_JobID = ''j1'', ja_SessionID = ''s1'', ja_CommandID = ''c1'', ja_Controller = sample_controller,
     ja_IdempotencyKey = ''k1'', ja_RequestHash = canonical_digest sample_payload, ja_Environment = ''dev'',
     ja_Target = sample_target, ja_Source = NewEmptySource, ja_Script = ''ls'',
     ja_CanonicalPayload = sample_payload, ja_IdempotencyRetention = Hour\<rparr>"

lemma sample_payload_parts:
  "decodeCanonicalJSON sample_payload = Some (JObject sample_run)" "length sample_payload < 200" "sample_payload \<noteq> []"
  by code_simp+

lemma sample_payload_canonical: "CanonicalizeMutationRequestJSON ''run'' sample_payload [] = Inr sample_payload"
proof -
  have "request_value ''run'' sample_payload [] = Inr sample_run"
    by (subst request_value_run [OF _ _ sample_payload_parts(1)])
      (use sample_payload_parts(2) in \<open>simp_all add: isMutationOperation_def MaxSerializedRequestBytes_def
        request_fields_def sample_run_def Let_def\<close>)
  then show ?thesis by (simp add: CanonicalizeMutationRequestJSON_def sample_payload_def)
qed

lemma sample_payload_checks:
  "json_depth (JObject sample_run) \<le> 10000" "string_member ''script'' sample_run = Some ''ls''"
  "string_member ''environment'' sample_run = Some ''dev''" "payload_target_ok sample_target sample_run"
  "payload_source_ok NewEmptySource sample_run"
proof -
  have "json_depth (JObject sample_run) = 2" by code_simp
  then show "json_depth (JObject sample_run) \<le> 10000" by simp
  show "payload_target_ok sample_target sample_run" by code_simp
  show "payload_source_ok NewEmptySource sample_run" by code_simp
qed (simp_all add: string_member_def sample_run_def)

lemma sample_run_valid:
  "validateRunPayload sample_payload ''ls'' ''dev'' sample_target NewEmptySource (canonical_digest sample_payload) =
     Inr (sample_payload, canonical_digest sample_payload)"
proof -
  have "ValidateSerializedRequest sample_payload = Inr ()"
    using sample_payload_parts(2)
    by (simp add: ValidateSerializedRequest_def validateSerializedSize_def MaxSerializedRequestBytes_def)
  moreover have "CompareIdempotency h h \<noteq> IdempotencyComparisonConflict" if "valid_hash h" for h :: CanonicalHash
    using that CompareIdempotency_conflict [of h h] by (simp add: valid_hash_def)
  moreover have "\<not> 10000 < json_depth (JObject sample_run)" using sample_payload_checks(1) by simp
  ultimately show ?thesis
    by (simp add: validateRunPayload_def sample_payload_parts HashMutationRequestJSON_def runJobOperation_def
        sample_payload_canonical sample_payload_checks canonical_digest_valid del: json_depth.simps)
qed

abbreviation sample_context :: audit_context where
  "sample_context \<equiv> \<lparr>ctx_ingress = Some IngressDirectMTLS, ctx_action = None\<rparr>"

lemma sample_job_valid: "validateJobAcceptance sample_job = Inr sample_job"
proof -
  have script: "ValidateScriptUTF8 ''ls'' = Inr ()"
    by (simp add: ValidateScriptUTF8_def MaxScriptUTF8Bytes_def) code_simp
  have key: "validateIdempotencyOperationKey runJobOperation ''k1'' = Inr (runJobOperation, ''k1'')"
    by (simp add: run_token) (simp add: bounded_token_def has_nul_def NUL_def)
  have c: "validateController sample_controller = Inr sample_controller"
    by (simp add: sample_controller_def)
  have target: "NewExecutionTarget (et_kind sample_target) (et_profile sample_target) = Inr sample_target"
    by (simp add: sample_target_def)
  have source: "normalizeSource NewEmptySource = Inr NewEmptySource"
    by (simp add: normalizeSource_def NewEmptySource_def)
  show ?thesis
    by (simp add: validateJobAcceptance_def sample_job_def new_id_run script key c target source trim_dev sample_run_valid
        Hour_def Minute_def Second_def del: validateIdempotencyOperationKey_Inr NewExecutionTarget_Inr validateController_Inr)
qed

lemma sample_job_fresh: "fresh_job sample_job sample_now empty_database"
  using sample_times(1)
  by (simp add: fresh_job_def job_columns_ok_def sample_job_def sample_controller_def sample_target_def find_binding_def
      find_warning_def empty_database_def bounded_token_def has_nul_def sql_nonempty_def NUL_def)

definition sample_job_store :: AuthorityStore where
  "sample_job_store =
     NewAuthorityStore (accepted_job_db sample_job IngressDirectMTLS sample_now empty_database)"

theorem accept_job_exact_witness:
  "AcceptJob None sample_now sample_context (NewAuthorityStore empty_database) sample_job =
     (Inr (job_record_of sample_job IngressDirectMTLS sample_now, False), sample_job_store)"
proof -
  have "ja_Environment sample_job = ''dev''" by (simp add: sample_job_def)
  then show ?thesis
    using accept_job_exact [OF _ sample_job_valid, of sample_context sample_now "NewAuthorityStore empty_database"]
      sample_job_fresh empty_ingress
    by (simp add: NewAuthorityStore_def sample_job_store_def trim_dev IngressFromContext_def TrustedForAcceptance_def)
qed

lemma sample_job_found:
  "find_job ''j1'' (st_db sample_job_store) = Some (job_row_of sample_job IngressDirectMTLS sample_now)"
  using find_accepted_job(1) [OF sample_job_fresh] by (simp add: sample_job_store_def NewAuthorityStore_def sample_job_def)

theorem job_permanent_witness:
  "\<exists>row'. find_job ''j1'' (st_db (foldl store_run sample_job_store
       [(None, sample_now, DoCheckpointJob ''j1'' \<lparr>jc_ExpectedPhase = JobPhaseOther [], jc_NextPhase = JobPhaseLost,
          jc_Command = None, jc_TeardownState = None, jc_TeardownReason = []\<rparr>)])) = Some row' \<and>
     job_identity row' = job_identity (job_row_of sample_job IngressDirectMTLS sample_now)"
  by (rule job_permanent [OF sample_job_found])

definition sample_checkpoint :: JobCheckpoint where
  "sample_checkpoint = \<lparr>jc_ExpectedPhase = JobPhaseCreatingSession, jc_NextPhase = JobPhaseLost,
     jc_Command = None, jc_TeardownState = None, jc_TeardownReason = []\<rparr>"

lemma sample_job_parts:
  "ja_JobID sample_job = ''j1''" "ja_IdempotencyRetention sample_job = Hour" "ja_Environment sample_job = ''dev''"
  "exec_jobs (st_db sample_job_store) = [job_row_of sample_job IngressDirectMTLS sample_now]"
  "job_job_id (job_row_of sample_job IngressDirectMTLS sample_now) = ''j1''"
  "job_phase (job_row_of sample_job IngressDirectMTLS sample_now) = JobPhaseCreatingSession"
  "lane_ingress_admission (st_db sample_job_store) = None"
  by (simp_all add: sample_job_def sample_job_store_def NewAuthorityStore_def accepted_job_db_def empty_database_def job_row_of_def)

lemma sample_job_payload: "run_payload_ok sample_job ''dev''" "job_ok sample_job"
  using validated_job [OF sample_job_valid] by (simp_all add: sample_job_parts)

theorem job_exactly_once_witness:
  "AcceptJob None (sample_now + Minute) sample_context sample_job_store sample_job =
     (Inr (job_record_of sample_job IngressDirectMTLS sample_now, True), sample_job_store)"
proof -
  have first: "AcceptJob None sample_now sample_context (NewAuthorityStore empty_database) sample_job =
      (Inr (job_record_of sample_job IngressDirectMTLS sample_now, False), sample_job_store)"
    using accept_fresh_job_body [OF sample_job_payload(2,1) _ sample_job_fresh empty_ingress] sample_job_payload(1)
    by (simp add: AcceptJob_def sample_job_valid withImmediateTransaction_def NewAuthorityStore_def sample_job_store_def
        sample_job_parts IngressFromContext_def TrustedForAcceptance_def)
  have decoded: "decode_job_row ''j1'' (job_row_of sample_job IngressDirectMTLS sample_now) =
      Inr (job_record_of sample_job IngressDirectMTLS sample_now)"
    using decode_job_row_of [OF sample_job_payload(2), of IngressDirectMTLS sample_now] sample_job_payload(1) sample_times(1)
    by (simp add: sample_job_parts run_payload_ok_def)
  have time: "valid_time (sample_now + Hour)" "sample_now + Minute < sample_now + Hour"
    by (simp_all add: valid_time_def Date_def sample_now_def Hour_def Minute_def Second_def days_before_year_def)
  have warned: "jr_IdempotencyWarning (job_record_of v i n) = False"
    "(job_record_of v i n)\<lparr>jr_IdempotencyWarning := False\<rparr> = job_record_of v i n"
    "jr_JobID (job_record_of v i n) = ja_JobID v" for v i n
    by (simp_all add: job_record_of_def)
  show ?thesis
    using job_exactly_once [OF first sample_job_valid sample_times(1), where calls = "[]" and ?now2.0 = "sample_now + Minute"
        and ?ctx2.0 = sample_context and ?input2.0 = sample_job and ?v2.0 = sample_job]
      sample_job_valid time sample_job_found ingress_unconfigured [OF sample_job_parts(7)]
    by (auto simp: sample_job_parts IngressFromContext_def TrustedForAcceptance_def warned decoded)
qed

theorem checkpoint_repeat_conflicts_witness:
  "\<exists>s'. CheckpointJob None sample_now s' ''j1'' sample_checkpoint = (Inl ErrJobPhaseConflict, s')"
proof -
  let ?r = "(job_row_of sample_job IngressDirectMTLS sample_now)\<lparr>job_phase := JobPhaseLost,
    job_updated_at := formatStoredTime sample_now\<rparr>"
  let ?db = "exec_jobs_update (update_rows (\<lambda>r. job_job_id r = ''j1'') (checkpoint_update sample_checkpoint sample_now))
    (st_db sample_job_store)"
  have upd: "checkpoint_update sample_checkpoint sample_now (job_row_of sample_job IngressDirectMTLS sample_now) = ?r"
    by (simp add: checkpoint_update_def sample_checkpoint_def)
  have check: "job_check ?r"
    using job_check_row_of [OF sample_job_payload(2,1) _, of IngressDirectMTLS sample_now] sample_job_fresh
    by (simp add: fresh_job_def job_check_def)
  have "readJobOnConnection ''j1'' ?db =
      Inr ((job_record_of sample_job IngressDirectMTLS sample_now)\<lparr>jr_Phase := JobPhaseLost, jr_UpdatedAt := sample_now\<rparr>)"
    using decode_job_row_phase [OF sample_job_payload(2), of IngressDirectMTLS sample_now sample_now JobPhaseLost]
      sample_job_payload(1) sample_times(1)
    by (simp add: readJobOnConnection_def find_job_checkpointed [OF sample_job_found] sample_job_parts upd run_payload_ok_def)
  then have run: "checkpoint_job_body ''j1'' sample_checkpoint sample_now (st_db sample_job_store) =
      Inr ((job_record_of sample_job IngressDirectMTLS sample_now)\<lparr>jr_Phase := JobPhaseLost, jr_UpdatedAt := sample_now\<rparr>, ?db)"
    using check by (simp add: checkpoint_job_body_def tx_bind_def tx_query_def Let_def sample_job_found sample_job_parts
        sample_checkpoint_def update_job_def sql_update_def) (simp add: upd [unfolded sample_checkpoint_def])
  have "CheckpointJob None sample_now sample_job_store ''j1'' sample_checkpoint =
      (Inr ((job_record_of sample_job IngressDirectMTLS sample_now)\<lparr>jr_Phase := JobPhaseLost, jr_UpdatedAt := sample_now\<rparr>),
       sample_job_store\<lparr>st_db := ?db\<rparr>)"
    using run by (simp add: CheckpointJob_def new_id_run withImmediateTransaction_def validateJobCheckpoint_def sample_checkpoint_def)
  then show ?thesis
    using checkpoint_repeat_conflicts [of sample_now sample_job_store "''j1''" sample_checkpoint]
    by (auto simp: sample_checkpoint_def)
qed

end
