(* ===== verification/Retained_Tables.thy ===== *)
theory Retained_Tables
  imports Authority_Schema
begin

text \<open>
  The tables beside the core of the authority: the finalizations of the two further recovery
  procedures (migrations 0035 and 0037), and the tables of the mailbox and of the remote mirror with
  the columns that garbage collection uses. A transaction over both parts is a \<open>full_tx\<close>;
  \<open>full_transaction\<close> runs a transaction over the core and any further tables.
\<close>

section \<open>Rows\<close>

record completed_finalization_row =
  ctf_session_id :: string
  ctf_command_id :: string
  ctf_job_id :: string
  ctf_capacity_released_at :: string

record commandless_finalization_row =
  clf_session_id :: string
  clf_job_id :: string
  clf_capacity_released_at :: string

record remote_command_row =
  rcp_command_id :: string
  rcp_command_state :: CommandState
  rcp_final_event_sequence :: "int option"
  rcp_output_complete :: int
  rcp_output_unavailable_reason :: string

record remote_job_row =
  rjp_command_id :: string
  rjp_output_complete :: int
  rjp_output_unavailable_reason :: string

record remote_event_row =
  rev_command_id :: string
  rev_sequence :: int
  rev_event_type :: string
  rev_occurred_at :: string

record event_gap_row =
  gap_command_id :: string
  gap_confirmed_at :: string

record exchange_row =
  mex_exchange_id :: string
  mex_response_file_removed_at :: "string option"
  mex_response_cleanup_at :: "string option"

record file_reference_row =
  efr_exchange_id :: string
  efr_command_id :: string

record file_cleanup_row =
  efc_mailbox_id :: string
  efc_command_id :: string

record ingress_diagnostic_row =
  mid_observed_at :: string
  mid_input_pair_removed_at :: "string option"
  mid_diagnostic_file_removed_at :: "string option"

record retained_tables =
  exec_completed_teardown_recovery_finalizations :: "completed_finalization_row list"
  exec_commandless_lost_runtime_recovery_finalizations :: "commandless_finalization_row list"
  local_remote_command_projections :: "remote_command_row list"
  local_remote_job_projections :: "remote_job_row list"
  local_remote_events :: "remote_event_row list"
  local_remote_event_gaps :: "event_gap_row list"
  mailbox_exchanges :: "exchange_row list"
  mailbox_event_file_references :: "file_reference_row list"
  mailbox_remote_event_file_references :: "file_reference_row list"
  mailbox_event_file_cleanup :: "file_cleanup_row list"
  mailbox_ingress_diagnostics :: "ingress_diagnostic_row list"

type_synonym full_state = "database \<times> retained_tables"
type_synonym 'a full_tx = "(full_state, 'a) tx"

section \<open>Transactions\<close>

definition on_database :: "'a db_tx \<Rightarrow> (database \<times> 'r, 'a) tx" where
  "on_database m = (\<lambda>(db, rt). case m db of Inl e \<Rightarrow> Inl e | Inr (x, db') \<Rightarrow> Inr (x, (db', rt)))"

definition on_retained :: "('r, 'a) tx \<Rightarrow> (database \<times> 'r, 'a) tx" where
  "on_retained m = (\<lambda>(db, rt). case m rt of Inl e \<Rightarrow> Inl e | Inr (x, rt') \<Rightarrow> Inr (x, (db, rt')))"

definition full_transaction ::
  "go_error option \<Rightarrow> AuthorityStore \<times> 'r \<Rightarrow> (database \<times> 'r, 'a) tx \<Rightarrow> 'a result \<times> AuthorityStore \<times> 'r" where
  "full_transaction fault = (\<lambda>(s, rt) body.
     (case fault of
        Some e \<Rightarrow> (Inl e, count_error e s, rt)
      | None \<Rightarrow>
          (case body (st_db s, rt) of
             Inl e \<Rightarrow> (Inl e, count_error e s, rt)
           | Inr (x, db, rt') \<Rightarrow> (Inr x, s\<lparr>st_db := db\<rparr>, rt'))))"

lemma on_database_Inr [tx_simps]:
  "on_database m (db, rt) = Inr (x, st) \<longleftrightarrow> (\<exists>db'. m db = Inr (x, db') \<and> st = (db', rt))"
  by (auto simp: on_database_def split: sum.splits)

lemma on_retained_Inr [tx_simps]:
  "on_retained m (db, rt) = Inr (x, st) \<longleftrightarrow> (\<exists>rt'. m rt = Inr (x, rt') \<and> st = (db, rt'))"
  by (auto simp: on_retained_def split: sum.splits)

lemma keeps_on_database: "(\<And>rt. tx_keeps (\<lambda>db. I (db, rt)) m) \<Longrightarrow> tx_keeps I (on_database m)"
  by (auto simp: tx_keeps_def on_database_Inr)

lemma full_transaction_cases:
  assumes "full_transaction fault (s, rt) body = (r, s', rt')"
  obtains "st_db s' = st_db s" "rt' = rt" "\<And>x. r \<noteq> Inr x"
  | x db where "body (st_db s, rt) = Inr (x, (db, rt'))" "s' = s\<lparr>st_db := db\<rparr>" "r = Inr x"
proof (cases fault)
  case None
  then show ?thesis
    using assms that by (cases "body (st_db s, rt)") (auto simp: full_transaction_def)
next
  case (Some e)
  then show ?thesis using assms that(1) by (auto simp: full_transaction_def)
qed

end
