(* ===== verification/Store_Gc.thy ===== *)
theory Store_Gc
  imports Retained_Tables Store_Jobs
begin

text \<open>
  The garbage collection pass of the authority (internal/store/gc.go): expired idempotency keys and
  their warnings, output past its retention, and terminal jobs, commands and sessions past the metadata
  retention. The pass reads and writes tables of the mailbox and of the remote mirror as well. Times are
  compared as stored text, byte by byte, as SQLite does, and a delete fails when a row of another table
  still refers to the deleted one.
\<close>

section \<open>Options and report\<close>

definition DefaultOutputRetention :: duration where
  "DefaultOutputRetention = 30 * 24 * Hour"

record GarbageCollectionOptions =
  gco_OutputRetention :: duration
  gco_MetadataRetention :: duration

record GarbageCollectionReport =
  gcr_IdempotencyRecordsDeleted :: nat
  gcr_CommandsOutputExpired :: nat
  gcr_CommandEventsDeleted :: nat
  gcr_RemoteCommandsOutputExpired :: nat
  gcr_RemoteCommandEventsDeleted :: nat
  gcr_JobsDeleted :: nat
  gcr_CommandsDeleted :: nat
  gcr_SessionsDeleted :: nat
  gcr_MailboxIngressDiagnosticsDeleted :: nat

definition retention_expired :: string where
  "retention_expired = ''retention_expired''"

definition terminal_command_states :: "CommandState list" where
  "terminal_command_states = [CommandStateSucceeded, CommandStateFailed, CommandStateCancelled,
     CommandStateTimedOut, CommandStateRejected, CommandStateLost]"

definition terminal_session_states :: "SessionState list" where
  "terminal_session_states = [SessionStateClosed, SessionStateExpired, SessionStateFailed, SessionStateLost]"

section \<open>Idempotency keys and their warnings\<close>

definition key_expired :: "time \<Rightarrow> idempotency_row \<Rightarrow> bool" where
  "key_expired now r \<longleftrightarrow> idm_expires_at r \<le> formatStoredTime now"

fun warn_expired_keys :: "time \<Rightarrow> idempotency_row list \<Rightarrow> unit db_tx" where
  "warn_expired_keys now [] = tx_return ()"
| "warn_expired_keys now (r # rows) =
     tx_bind (tx_lift (NewControllerID (idm_controller_id r))) (\<lambda>controllerID.
     tx_bind (tx_lift (NewControllerIdentity (idm_controller_type r) controllerID)) (\<lambda>controller.
     tx_bind (tx_lift (parseStoredTime (idm_expires_at r))) (\<lambda>expiresAt.
     tx_bind (recordIdempotencyExpiryWarningOnConnection controller (idm_operation r) (idm_key r) expiresAt now) (\<lambda>_.
     warn_expired_keys now rows))))"

definition expire_idempotency :: "time \<Rightarrow> nat db_tx" where
  "expire_idempotency now =
     tx_bind (tx_query (\<lambda>db. Inr (filter (key_expired now) (exec_idempotency db)))) (\<lambda>expired.
     tx_bind (warn_expired_keys now expired) (\<lambda>_.
     sql_delete exec_idempotency exec_idempotency_update (key_expired now)))"

fun drop_expired_warnings :: "time \<Rightarrow> expiry_warning_row list \<Rightarrow> unit db_tx" where
  "drop_expired_warnings now [] = tx_return ()"
| "drop_expired_warnings now (w # ws) =
     tx_bind (tx_lift (parseStoredTime (iew_warning_until w))) (\<lambda>warningUntil.
     if now < warningUntil then drop_expired_warnings now ws
     else
       tx_bind (sql_delete exec_idempotency_expiry_warnings exec_idempotency_expiry_warnings_update
         (\<lambda>r. expiry_warning_key r = expiry_warning_key w)) (\<lambda>_.
       drop_expired_warnings now ws))"

definition expire_warnings :: "time \<Rightarrow> unit db_tx" where
  "expire_warnings now =
     tx_bind (tx_query (\<lambda>db. Inr (exec_idempotency_expiry_warnings db))) (drop_expired_warnings now)"

section \<open>Output\<close>

definition completed_command :: "retained_tables \<Rightarrow> string \<Rightarrow> bool" where
  "completed_command rt cid \<longleftrightarrow>
     list_ex (\<lambda>f. ctf_command_id f = cid) (exec_completed_teardown_recovery_finalizations rt)"

definition completed_job :: "retained_tables \<Rightarrow> string \<Rightarrow> bool" where
  "completed_job rt jid \<longleftrightarrow>
     list_ex (\<lambda>f. ctf_job_id f = jid) (exec_completed_teardown_recovery_finalizations rt)"

definition command_output_expires :: "retained_tables \<Rightarrow> time \<Rightarrow> command_row \<Rightarrow> bool" where
  "command_output_expires rt cutoff c \<longleftrightarrow>
     cmd_state c \<in> set terminal_command_states \<and> cmd_updated_at c \<le> formatStoredTime cutoff \<and>
     cmd_output_unavailable_reason c = [] \<and> \<not> completed_command rt (cmd_command_id c)"

definition expire_command_output :: "time \<Rightarrow> nat full_tx" where
  "expire_command_output cutoff = (\<lambda>(db, rt).
     on_database (sql_update command_check exec_commands exec_commands_update (command_output_expires rt cutoff)
       (\<lambda>c. c\<lparr>cmd_output_complete := 0, cmd_output_unavailable_reason := retention_expired\<rparr>)) (db, rt))"

definition expired_commands :: "database \<Rightarrow> string list" where
  "expired_commands db =
     map cmd_command_id (filter (\<lambda>c. cmd_output_unavailable_reason c = retention_expired) (exec_commands db))"

definition expire_job_output :: "nat full_tx" where
  "expire_job_output = (\<lambda>(db, rt).
     on_database (sql_update job_check exec_jobs exec_jobs_update
       (\<lambda>j. job_command_id j \<in> set (expired_commands db) \<and> job_output_unavailable_reason j = [] \<and>
          \<not> completed_job rt (job_job_id j))
       (\<lambda>j. j\<lparr>job_output_complete := 0, job_output_unavailable_reason := retention_expired\<rparr>)) (db, rt))"

definition terminal_event_types :: "string list" where
  "terminal_event_types = [''command_succeeded'', ''command_failed'', ''command_cancelled'', ''command_timed_out'',
     ''command_rejected'', ''command_lost'']"

definition remote_output_expires :: "time \<Rightarrow> retained_tables \<Rightarrow> remote_command_row \<Rightarrow> bool" where
  "remote_output_expires cutoff rt c \<longleftrightarrow>
     rcp_command_state c \<in> set terminal_command_states \<and> rcp_output_unavailable_reason c \<noteq> retention_expired \<and>
     (list_ex (\<lambda>e. rev_command_id e = rcp_command_id c \<and> rcp_final_event_sequence c = Some (rev_sequence e) \<and>
         rev_event_type e \<in> set terminal_event_types \<and> rev_occurred_at e \<le> formatStoredTime cutoff) (local_remote_events rt) \<or>
      list_ex (\<lambda>g. gap_command_id g = rcp_command_id c \<and> gap_confirmed_at g \<le> formatStoredTime cutoff)
        (local_remote_event_gaps rt))"

definition expire_remote_output :: "time \<Rightarrow> nat full_tx" where
  "expire_remote_output cutoff = on_retained (\<lambda>rt.
     sql_update (\<lambda>_. True) local_remote_command_projections local_remote_command_projections_update
       (remote_output_expires cutoff rt)
       (\<lambda>c. c\<lparr>rcp_output_complete := 0, rcp_output_unavailable_reason := retention_expired\<rparr>) rt)"

definition expired_remote_commands :: "retained_tables \<Rightarrow> string list" where
  "expired_remote_commands rt =
     map rcp_command_id (filter (\<lambda>c. rcp_output_unavailable_reason c = retention_expired)
       (local_remote_command_projections rt))"

definition expire_remote_jobs :: "nat full_tx" where
  "expire_remote_jobs = on_retained (\<lambda>rt.
     sql_update (\<lambda>_. True) local_remote_job_projections local_remote_job_projections_update
       (\<lambda>j. rjp_command_id j \<in> set (expired_remote_commands rt) \<and> rjp_output_unavailable_reason j = [])
       (\<lambda>j. j\<lparr>rjp_output_complete := 0, rjp_output_unavailable_reason := retention_expired\<rparr>) rt)"

text \<open>A response file that still shows the events of a command.\<close>

definition pending_response :: "time \<Rightarrow> retained_tables \<Rightarrow> file_reference_row list \<Rightarrow> string \<Rightarrow> bool" where
  "pending_response now rt references cid \<longleftrightarrow>
     list_ex (\<lambda>r. efr_command_id r = cid \<and>
       list_ex (\<lambda>e. mex_exchange_id e = efr_exchange_id r \<and> mex_response_file_removed_at e = None \<and>
         (case mex_response_cleanup_at e of None \<Rightarrow> True | Some t \<Rightarrow> t > formatStoredTime now)) (mailbox_exchanges rt))
       references"

definition response_pending :: "time \<Rightarrow> retained_tables \<Rightarrow> string \<Rightarrow> bool" where
  "response_pending now rt cid \<longleftrightarrow>
     pending_response now rt (mailbox_event_file_references rt) cid \<or>
     pending_response now rt (mailbox_remote_event_file_references rt) cid"

definition delete_command_events :: "time \<Rightarrow> nat full_tx" where
  "delete_command_events now = (\<lambda>(db, rt).
     on_database (sql_delete exec_command_events exec_command_events_update
       (\<lambda>e. evt_command_id e \<in> set (expired_commands db) \<and> \<not> completed_command rt (evt_command_id e) \<and>
          \<not> response_pending now rt (evt_command_id e))) (db, rt))"

definition delete_remote_events :: "time \<Rightarrow> nat full_tx" where
  "delete_remote_events now = on_retained (\<lambda>rt.
     sql_delete local_remote_events local_remote_events_update
       (\<lambda>e. rev_command_id e \<in> set (expired_remote_commands rt) \<and> \<not> response_pending now rt (rev_command_id e)) rt)"

section \<open>Metadata\<close>

definition live_reservation :: "reservation_row \<Rightarrow> bool" where
  "live_reservation r \<longleftrightarrow> res_cleanup_confirmed_at r = None"

definition slot_pins :: "database \<Rightarrow> string \<Rightarrow> bool" where
  "slot_pins db cid \<longleftrightarrow> list_ex (\<lambda>r. slt_command_id r = cid \<and> live_slot r) (exec_command_slots db)"

definition commandless_job :: "retained_tables \<Rightarrow> string \<Rightarrow> bool" where
  "commandless_job rt jid \<longleftrightarrow>
     list_ex (\<lambda>f. clf_job_id f = jid) (exec_commandless_lost_runtime_recovery_finalizations rt)"

definition gc_job :: "time \<Rightarrow> full_state \<Rightarrow> job_row \<Rightarrow> bool" where
  "gc_job cutoff = (\<lambda>(db, rt) j.
     job_phase j \<in> {JobPhaseComplete, JobPhaseFailed, JobPhaseLost} \<and> job_updated_at j \<le> formatStoredTime cutoff \<and>
     \<not> list_ex (\<lambda>r. res_session_id r = job_session_id j \<and> live_reservation r) (exec_capacity_reservations db) \<and>
     \<not> slot_pins db (job_command_id j) \<and> \<not> commandless_job rt (job_job_id j) \<and> \<not> completed_job rt (job_job_id j))"

definition gcJobIDs :: "time \<Rightarrow> full_state \<Rightarrow> string list" where
  "gcJobIDs cutoff st = map job_job_id (filter (gc_job cutoff st) (exec_jobs (fst st)))"

definition gc_command :: "time \<Rightarrow> full_state \<Rightarrow> command_row \<Rightarrow> bool" where
  "gc_command cutoff = (\<lambda>(db, rt) c.
     (case find_session (cmd_session_id c) db of
        None \<Rightarrow> False
      | Some s \<Rightarrow>
          cmd_state c \<in> set terminal_command_states \<and> cmd_updated_at c \<le> formatStoredTime cutoff \<and>
          ses_state s \<in> set terminal_session_states \<and> ses_updated_at s \<le> formatStoredTime cutoff \<and>
          \<not> slot_pins db (cmd_command_id c) \<and>
          \<not> list_ex (\<lambda>j. job_command_id j = cmd_command_id c) (exec_jobs db) \<and>
          \<not> list_ex (\<lambda>f. fin_command_id f = cmd_command_id c) (exec_lost_runtime_recovery_finalizations db) \<and>
          \<not> completed_command rt (cmd_command_id c)))"

definition gcCommandIDs :: "time \<Rightarrow> full_state \<Rightarrow> string list" where
  "gcCommandIDs cutoff st = map cmd_command_id (filter (gc_command cutoff st) (exec_commands (fst st)))"

definition gc_session :: "time \<Rightarrow> full_state \<Rightarrow> session_row \<Rightarrow> bool" where
  "gc_session cutoff = (\<lambda>(db, rt) s.
     (case find_reservation (ses_session_id s) db of
        None \<Rightarrow> False
      | Some r \<Rightarrow>
          ses_state s \<in> set terminal_session_states \<and> ses_updated_at s \<le> formatStoredTime cutoff \<and>
          \<not> live_reservation r \<and>
          \<not> list_ex (\<lambda>c. cmd_session_id c = ses_session_id s) (exec_commands db) \<and>
          \<not> list_ex (\<lambda>j. job_session_id j = ses_session_id s) (exec_jobs db) \<and>
          \<not> list_ex (\<lambda>f. fin_session_id f = ses_session_id s) (exec_lost_runtime_recovery_finalizations db) \<and>
          \<not> list_ex (\<lambda>f. clf_session_id f = ses_session_id s)
            (exec_commandless_lost_runtime_recovery_finalizations rt) \<and>
          \<not> list_ex (\<lambda>f. ctf_session_id f = ses_session_id s) (exec_completed_teardown_recovery_finalizations rt)))"

definition gcSessionIDs :: "time \<Rightarrow> full_state \<Rightarrow> string list" where
  "gcSessionIDs cutoff st = map ses_session_id (filter (gc_session cutoff st) (exec_sessions (fst st)))"

text \<open>The foreign keys onto jobs, commands and sessions, all of them \<open>ON DELETE RESTRICT\<close>.\<close>

definition job_referenced :: "full_state \<Rightarrow> string \<Rightarrow> bool" where
  "job_referenced = (\<lambda>(db, rt) jid.
     list_ex (\<lambda>p. crp_job_id p = jid) (exec_controlled_restart_plans db) \<or> commandless_job rt jid \<or> completed_job rt jid)"

definition command_referenced :: "full_state \<Rightarrow> string \<Rightarrow> bool" where
  "command_referenced = (\<lambda>(db, rt) cid.
     list_ex (\<lambda>e. evt_command_id e = cid) (exec_command_events db) \<or>
     list_ex (\<lambda>r. slt_command_id r = cid) (exec_command_slots db) \<or>
     list_ex (\<lambda>r. efr_command_id r = cid) (mailbox_event_file_references rt) \<or>
     list_ex (\<lambda>r. efc_command_id r = cid) (mailbox_event_file_cleanup rt) \<or>
     list_ex (\<lambda>f. fin_command_id f = cid) (exec_lost_runtime_recovery_finalizations db) \<or>
     list_ex (\<lambda>p. crp_command_id p = cid) (exec_controlled_restart_plans db) \<or>
     list_ex (\<lambda>p. clp_command_id p = cid) (exec_controlled_restart_plan_lost_pairs db) \<or>
     completed_command rt cid)"

definition session_referenced :: "full_state \<Rightarrow> string \<Rightarrow> bool" where
  "session_referenced = (\<lambda>(db, rt) sid.
     list_ex (\<lambda>l. slc_session_id l = sid) (exec_session_lifecycle db) \<or>
     list_ex (\<lambda>r. res_session_id r = sid) (exec_capacity_reservations db) \<or>
     list_ex (\<lambda>c. cmd_session_id c = sid) (exec_commands db) \<or>
     list_ex (\<lambda>f. fin_session_id f = sid) (exec_lost_runtime_recovery_finalizations db) \<or>
     list_ex (\<lambda>p. crp_session_id p = sid) (exec_controlled_restart_plans db) \<or>
     list_ex (\<lambda>p. clp_session_id p = sid) (exec_controlled_restart_plan_lost_pairs db) \<or>
     list_ex (\<lambda>f. clf_session_id f = sid) (exec_commandless_lost_runtime_recovery_finalizations rt) \<or>
     list_ex (\<lambda>f. ctf_session_id f = sid) (exec_completed_teardown_recovery_finalizations rt))"

definition delete_restricted ::
  "(database \<Rightarrow> 'r list) \<Rightarrow> (('r list \<Rightarrow> 'r list) \<Rightarrow> database \<Rightarrow> database) \<Rightarrow> ('r \<Rightarrow> string) \<Rightarrow>
   (full_state \<Rightarrow> string \<Rightarrow> bool) \<Rightarrow> string \<Rightarrow> nat full_tx" where
  "delete_restricted get upd key referenced k = (\<lambda>st.
     if list_ex (\<lambda>r. key r = k) (get (fst st)) \<and> referenced st k then Inl SQLiteError
     else on_database (sql_delete get upd (\<lambda>r. key r = k)) st)"

fun delete_jobs :: "string list \<Rightarrow> nat full_tx" where
  "delete_jobs [] = tx_return 0"
| "delete_jobs (jid # ids) =
     tx_bind (delete_restricted exec_jobs exec_jobs_update job_job_id job_referenced jid) (\<lambda>changed.
     tx_bind (delete_jobs ids) (\<lambda>n. tx_return (changed + n)))"

fun delete_commands :: "string list \<Rightarrow> nat full_tx" where
  "delete_commands [] = tx_return 0"
| "delete_commands (cid # ids) =
     tx_bind (on_database (sql_delete exec_command_slots exec_command_slots_update (\<lambda>r. slt_command_id r = cid))) (\<lambda>_.
     tx_bind (on_database (sql_delete exec_command_events exec_command_events_update (\<lambda>e. evt_command_id e = cid))) (\<lambda>_.
     tx_bind (delete_restricted exec_commands exec_commands_update cmd_command_id command_referenced cid) (\<lambda>changed.
     tx_bind (delete_commands ids) (\<lambda>n. tx_return (changed + n)))))"

fun delete_sessions :: "string list \<Rightarrow> nat full_tx" where
  "delete_sessions [] = tx_return 0"
| "delete_sessions (sid # ids) =
     tx_bind (on_database (sql_delete exec_capacity_reservations exec_capacity_reservations_update
       (\<lambda>r. res_session_id r = sid))) (\<lambda>_.
     tx_bind (on_database (sql_delete exec_session_lifecycle exec_session_lifecycle_update
       (\<lambda>l. slc_session_id l = sid))) (\<lambda>_.
     tx_bind (delete_restricted exec_sessions exec_sessions_update ses_session_id session_referenced sid) (\<lambda>changed.
     tx_bind (delete_sessions ids) (\<lambda>n. tx_return (changed + n)))))"

definition collect_jobs :: "time \<Rightarrow> nat full_tx" where
  "collect_jobs cutoff = tx_bind (tx_query (\<lambda>st. Inr (gcJobIDs cutoff st))) delete_jobs"

definition collect_commands :: "time \<Rightarrow> nat full_tx" where
  "collect_commands cutoff = tx_bind (tx_query (\<lambda>st. Inr (gcCommandIDs cutoff st))) delete_commands"

definition collect_sessions :: "time \<Rightarrow> nat full_tx" where
  "collect_sessions cutoff = tx_bind (tx_query (\<lambda>st. Inr (gcSessionIDs cutoff st))) delete_sessions"

definition delete_diagnostics :: "time \<Rightarrow> nat full_tx" where
  "delete_diagnostics cutoff = on_retained (sql_delete mailbox_ingress_diagnostics mailbox_ingress_diagnostics_update
     (\<lambda>d. mid_observed_at d \<le> formatStoredTime cutoff \<and> mid_input_pair_removed_at d \<noteq> None \<and>
        mid_diagnostic_file_removed_at d \<noteq> None))"

section \<open>The pass\<close>

definition collect_body :: "time \<Rightarrow> time \<Rightarrow> time \<Rightarrow> GarbageCollectionReport full_tx" where
  "collect_body now outputCutoff metadataCutoff =
     tx_bind (on_database (expire_idempotency now)) (\<lambda>keys.
     tx_bind (on_database (expire_warnings now)) (\<lambda>_.
     tx_bind (expire_command_output outputCutoff) (\<lambda>outputs.
     tx_bind expire_job_output (\<lambda>_.
     tx_bind (expire_remote_output outputCutoff) (\<lambda>remote.
     tx_bind expire_remote_jobs (\<lambda>_.
     tx_bind (delete_command_events now) (\<lambda>events.
     tx_bind (delete_remote_events now) (\<lambda>remoteEvents.
     tx_bind (collect_jobs metadataCutoff) (\<lambda>jobs.
     tx_bind (collect_commands metadataCutoff) (\<lambda>commands.
     tx_bind (collect_sessions metadataCutoff) (\<lambda>sessions.
     tx_bind (delete_diagnostics metadataCutoff) (\<lambda>diagnostics.
     tx_return \<lparr>gcr_IdempotencyRecordsDeleted = keys, gcr_CommandsOutputExpired = outputs,
       gcr_CommandEventsDeleted = events, gcr_RemoteCommandsOutputExpired = remote,
       gcr_RemoteCommandEventsDeleted = remoteEvents, gcr_JobsDeleted = jobs, gcr_CommandsDeleted = commands,
       gcr_SessionsDeleted = sessions, gcr_MailboxIngressDiagnosticsDeleted = diagnostics\<rparr>))))))))))))"

definition CollectGarbage ::
  "go_error option \<Rightarrow> time \<Rightarrow> AuthorityStore \<times> retained_tables \<Rightarrow> GarbageCollectionOptions \<Rightarrow>
   GarbageCollectionReport result \<times> AuthorityStore \<times> retained_tables" where
  "CollectGarbage fault now st options =
     (let outputRetention = (if gco_OutputRetention options = 0 then DefaultOutputRetention else gco_OutputRetention options);
          metadataRetention = (if gco_MetadataRetention options = 0 then DefaultMetadataRetention
                               else gco_MetadataRetention options)
      in if outputRetention < 0 \<or> metadataRetention < 0 then (Inl ErrInvalidGarbageCollection, st)
         else full_transaction fault st (collect_body now (now - outputRetention) (now - metadataRetention)))"

definition GarbageCollect ::
  "go_error option \<Rightarrow> time \<Rightarrow> AuthorityStore \<times> retained_tables \<Rightarrow> GarbageCollectionOptions \<Rightarrow>
   GarbageCollectionReport result \<times> AuthorityStore \<times> retained_tables" where
  "GarbageCollect fault now st options = CollectGarbage fault now st options"

end
