(* ===== verification/Store_Teardown_Recovery.thy ===== *)
theory Store_Teardown_Recovery
  imports Store_Gc Store_Scheduler
begin

text \<open>
  Recovery of completed commands whose session teardown was lost
  (internal/store/completed_teardown_recovery.go), with the metadata reads that the recovery
  procedures share (internal/store/lost_recovery_metadata.go). A transaction runs over the authority
  and the finalization tables beside it; a NULL column is \<open>None\<close> and a comparison with one fails.
\<close>

section \<open>Metadata reads\<close>

record LostRuntimeRecoveryCommand =
  lrc_CommandID :: CommandID
  lrc_SessionID :: SessionID
  lrc_State :: CommandState
  lrc_OutputComplete :: bool
  lrc_FinalEventSequence :: "int option"

record CommandStateMetadata =
  csm_CommandID :: CommandID
  csm_State :: CommandState

record CommandEventBoundary =
  ceb_Sequence :: int
  ceb_Type :: string

definition readLostRuntimeRecoveryCommandOnConnection ::
  "CommandID \<Rightarrow> database \<Rightarrow> LostRuntimeRecoveryCommand result" where
  "readLostRuntimeRecoveryCommandOnConnection cid db =
     (case find_command cid db of
        None \<Rightarrow> Inl ErrCommandNotFound
      | Some row \<Rightarrow>
          res_bind (res_as ErrCommandEvent (NewCommandID (cmd_command_id row))) (\<lambda>commandID.
          res_bind (res_as ErrCommandEvent (NewSessionID (cmd_session_id row))) (\<lambda>sessionID.
          if \<not> CommandState_Valid (cmd_state row) \<or> cmd_output_complete row \<notin> {0, 1} then Inl ErrCommandEvent
          else if \<not> pred_option (\<lambda>n. 1 \<le> n) (cmd_final_event_sequence row) then Inl ErrCommandEvent
          else Inr \<lparr>lrc_CommandID = commandID, lrc_SessionID = sessionID, lrc_State = cmd_state row,
            lrc_OutputComplete = (cmd_output_complete row = 1),
            lrc_FinalEventSequence = cmd_final_event_sequence row\<rparr>)))"

definition GetLostRuntimeRecoveryCommand ::
  "go_error option \<Rightarrow> AuthorityStore \<Rightarrow> CommandID \<Rightarrow> LostRuntimeRecoveryCommand result" where
  "GetLostRuntimeRecoveryCommand fault s cid =
     res_bind (NewCommandID cid) (\<lambda>ident.
       onConnection fault s (readLostRuntimeRecoveryCommandOnConnection ident))"

definition ListSessionCommandStates ::
  "go_error option \<Rightarrow> AuthorityStore \<Rightarrow> SessionID \<Rightarrow> CommandStateMetadata list result" where
  "ListSessionCommandStates fault s sid =
     res_bind (NewSessionID sid) (\<lambda>ident. onConnection fault s (\<lambda>db.
     if find_session ident db = None then Inl ErrSessionNotFound
     else read_all (\<lambda>row.
         res_bind (res_as ErrCommandEvent (NewCommandID (cmd_command_id row))) (\<lambda>commandID.
         if \<not> CommandState_Valid (cmd_state row) then Inl ErrCommandEvent
         else Inr \<lparr>csm_CommandID = commandID, csm_State = cmd_state row\<rparr>))
       (sort_key cmd_ordinal (session_commands ident db))))"

definition GetCommandEventTail ::
  "go_error option \<Rightarrow> AuthorityStore \<Rightarrow> CommandID \<Rightarrow> CommandEventBoundary result" where
  "GetCommandEventTail fault s cid =
     res_bind (NewCommandID cid) (\<lambda>ident. onConnection fault s (\<lambda>db.
     case rev (sort_key evt_sequence (command_events ident db)) of
       [] \<Rightarrow> Inl ErrCommandEvent
     | e # _ \<Rightarrow>
         if evt_sequence e < 1 \<or> \<not> validCommandEventType (evt_type e) then Inl ErrCommandEvent
         else Inr \<lparr>ceb_Sequence = evt_sequence e, ceb_Type = evt_type e\<rparr>))"

section \<open>The finalization tables\<close>

definition completed_constraints :: "database \<Rightarrow> completed_finalization_row \<Rightarrow> retained_tables \<Rightarrow> bool" where
  "completed_constraints db r rt \<longleftrightarrow>
     sql_nonempty (ctf_capacity_released_at r) \<and>
     ctf_session_id r \<notin> ctf_session_id ` set (exec_completed_teardown_recovery_finalizations rt) \<and>
     ctf_command_id r \<notin> ctf_command_id ` set (exec_completed_teardown_recovery_finalizations rt) \<and>
     ctf_job_id r \<notin> ctf_job_id ` set (exec_completed_teardown_recovery_finalizations rt) \<and>
     ctf_session_id r \<in> ses_session_id ` set (exec_sessions db) \<and>
     ctf_command_id r \<in> cmd_command_id ` set (exec_commands db) \<and>
     ctf_job_id r \<in> job_job_id ` set (exec_jobs db)"

definition commandless_constraints :: "database \<Rightarrow> commandless_finalization_row \<Rightarrow> retained_tables \<Rightarrow> bool" where
  "commandless_constraints db r rt \<longleftrightarrow>
     sql_nonempty (clf_capacity_released_at r) \<and>
     clf_session_id r \<notin> clf_session_id ` set (exec_commandless_lost_runtime_recovery_finalizations rt) \<and>
     clf_job_id r \<notin> clf_job_id ` set (exec_commandless_lost_runtime_recovery_finalizations rt) \<and>
     clf_session_id r \<in> ses_session_id ` set (exec_sessions db) \<and>
     clf_job_id r \<in> job_job_id ` set (exec_jobs db)"

text \<open>A statement on a finalization table that checks its foreign keys against the authority.\<close>

definition on_retained_keys :: "(database \<Rightarrow> (retained_tables, 'a) tx) \<Rightarrow> 'a full_tx" where
  "on_retained_keys m = (\<lambda>(db, rt). on_retained (m db) (db, rt))"

text \<open>\<open>UPDATE exec_capacity_reservations SET cleanup_confirmed_at, released_at\<close> of a live
  reservation of this host, which must change one row.\<close>

definition release_reservation :: "SessionID \<Rightarrow> go_error \<Rightarrow> time \<Rightarrow> unit full_tx" where
  "release_reservation sid e now =
     tx_bind (on_database (sql_update reservation_check exec_capacity_reservations exec_capacity_reservations_update
       (\<lambda>r. res_session_id r = sid \<and> res_host_key r = reservationHostKey \<and>
            res_cleanup_confirmed_at r = None \<and> res_released_at r = None) (confirmed now))) (\<lambda>changed.
     tx_guard (changed = 1) e)"

section \<open>Completed commands with a lost teardown\<close>

record CompletedTeardownRecoveryPair =
  ctp_SessionID :: SessionID
  ctp_CommandID :: CommandID

record CompletedTeardownRecovery =
  ctr_Pair :: CompletedTeardownRecoveryPair
  ctr_JobID :: JobID
  ctr_Session :: SessionRecord
  ctr_Command :: LostRuntimeRecoveryCommand
  ctr_CommandSlot :: CommandSlotRecord
  ctr_SessionReservation :: SessionReservation
  ctr_AlreadyRecovered :: bool
  ctr_FinalizationPending :: bool

fun validate_teardown_from ::
  "SessionID set \<Rightarrow> CommandID set \<Rightarrow> CompletedTeardownRecoveryPair list \<Rightarrow> CompletedTeardownRecoveryPair list result" where
  "validate_teardown_from sessions commands [] = Inr []"
| "validate_teardown_from sessions commands (pair # pairs) =
     res_bind (res_as ErrCompletedTeardownRecoveryNotReleasable (NewSessionID (ctp_SessionID pair))) (\<lambda>_.
     res_bind (res_as ErrCompletedTeardownRecoveryNotReleasable (NewCommandID (ctp_CommandID pair))) (\<lambda>_.
     if ctp_SessionID pair \<in> sessions \<or> ctp_CommandID pair \<in> commands
     then Inl ErrCompletedTeardownRecoveryNotReleasable
     else
       res_bind (validate_teardown_from (insert (ctp_SessionID pair) sessions)
         (insert (ctp_CommandID pair) commands) pairs) (\<lambda>rest. Inr (pair # rest))))"

definition validateCompletedTeardownRecoveryPairs ::
  "CompletedTeardownRecoveryPair list \<Rightarrow> CompletedTeardownRecoveryPair list result" where
  "validateCompletedTeardownRecoveryPairs pairs =
     (if length pairs = 0 then Inl ErrCompletedTeardownRecoveryNotReleasable
      else validate_teardown_from {} {} pairs)"

text \<open>The WHERE condition of the join of a session with its one command and its one-off job.\<close>

definition teardown_owner :: "session_row \<Rightarrow> bool" where
  "teardown_owner s \<longleftrightarrow>
     ses_target_kind s = TargetKindLocal \<and> ses_controller_type s = ControllerTypeLocalUser \<or>
     ses_target_kind s = TargetKindRemote \<and>
       ses_controller_type s \<in> {ControllerTypeQueuedMac, ControllerTypeDirectMTLS}"

definition teardown_same_request :: "job_row \<Rightarrow> session_row \<Rightarrow> bool" where
  "teardown_same_request j s \<longleftrightarrow>
     job_controller_type j = ses_controller_type s \<and> job_controller_id j = ses_controller_id s \<and>
     job_target_kind j = ses_target_kind s \<and> job_target_profile j = ses_target_profile s \<and>
     job_environment j = ses_environment s \<and> job_source_mode j = ses_source_mode s \<and>
     job_source_repository_alias j = ses_source_repository_alias s \<and>
     job_source_requested_revision j = ses_source_requested_revision s \<and>
     job_source_path j = ses_source_path s"

definition teardown_result :: "command_row \<Rightarrow> job_row \<Rightarrow> bool" where
  "teardown_result c j \<longleftrightarrow>
     (case cmd_exit_code c of
        None \<Rightarrow> False
      | Some code \<Rightarrow> cmd_state c = CommandStateSucceeded \<and> code = 0 \<or> cmd_state c = CommandStateFailed \<and> code \<noteq> 0) \<and>
     cmd_output_complete c = 1 \<and> cmd_output_truncated c = 0 \<and> cmd_output_unavailable_reason c = [] \<and>
     job_command_state j = Some (cmd_state c) \<and> job_exit_code j = cmd_exit_code c \<and>
     job_final_event_sequence j = cmd_final_event_sequence c \<and>
     job_output_complete j = cmd_output_complete c \<and> job_output_truncated j = cmd_output_truncated c \<and>
     job_output_unavailable_reason j = cmd_output_unavailable_reason c"

definition teardown_events :: "command_row \<Rightarrow> database \<Rightarrow> bool" where
  "teardown_events c db \<longleftrightarrow>
     (case cmd_final_event_sequence c of
        None \<Rightarrow> False
      | Some final \<Rightarrow>
          0 < final \<and> max_column evt_sequence (command_events (cmd_command_id c) db) = final \<and>
          int (length (command_events (cmd_command_id c) db)) = final \<and>
          (case find (\<lambda>e. evt_sequence e = final) (command_events (cmd_command_id c) db) of
             None \<Rightarrow> False
           | Some e \<Rightarrow>
               evt_type e = (if cmd_state c = CommandStateSucceeded then ''command_succeeded'' else ''command_failed'')))"

definition completed_teardown :: "session_row \<Rightarrow> command_row \<Rightarrow> job_row \<Rightarrow> database \<Rightarrow> bool" where
  "completed_teardown s c j db \<longleftrightarrow>
     cmd_session_id c = ses_session_id s \<and>
     ses_state s = SessionStateLost \<and> sql_nonempty (ses_runtime_generation s) \<and> teardown_owner s \<and>
     teardown_same_request j s \<and> job_phase j = JobPhaseLost \<and> job_teardown_state j = JobTeardownLost \<and>
     job_teardown_reason j = ''runtime_cleanup_unconfirmed'' \<and> teardown_result c j \<and>
     length (session_commands (ses_session_id s) db) = 1 \<and>
     length (filter (\<lambda>other. job_session_id other = ses_session_id s) (exec_jobs db)) = 1 \<and>
     teardown_events c db"

definition readCompletedTeardownRecovery ::
  "CompletedTeardownRecoveryPair \<Rightarrow> full_state \<Rightarrow> CompletedTeardownRecovery result" where
  "readCompletedTeardownRecovery pair = (\<lambda>(db, rt).
     (case (find_session (ctp_SessionID pair) db, find_command (ctp_CommandID pair) db,
            find (\<lambda>j. job_session_id j = ctp_SessionID pair \<and> job_command_id j = ctp_CommandID pair) (exec_jobs db)) of
        (Some s, Some c, Some j) \<Rightarrow>
          if \<not> completed_teardown s c j db then Inl ErrCompletedTeardownRecoveryNotReleasable
          else
            let rows = exec_completed_teardown_recovery_finalizations rt;
                finalizations = length (filter (\<lambda>f. ctf_session_id f = ses_session_id s \<or>
                  ctf_command_id f = cmd_command_id c \<or> ctf_job_id f = job_job_id j) rows);
                matchingFinalizations = length (filter (\<lambda>f. ctf_session_id f = ses_session_id s \<and>
                  ctf_command_id f = cmd_command_id c \<and> ctf_job_id f = job_job_id j) rows) in
            res_bind (res_as ErrCompletedTeardownRecoveryNotReleasable (NewJobID (job_job_id j))) (\<lambda>jobID.
            if finalizations \<noteq> matchingFinalizations \<or> matchingFinalizations > 1
            then Inl ErrCompletedTeardownRecoveryNotReleasable
            else
              res_bind (readSessionOnConnection (ctp_SessionID pair) db) (\<lambda>session.
              res_bind (readLostRuntimeRecoveryCommandOnConnection (ctp_CommandID pair) db) (\<lambda>command.
              res_bind (res_as ErrCompletedTeardownRecoveryNotReleasable
                (readCommandSlotOnConnection (ctp_CommandID pair) db)) (\<lambda>slot.
              if csr_HostKey slot \<noteq> schedulerHostKey \<or> csr_StopConfirmedAt slot = None \<or> csr_ReleasedAt slot = None
              then Inl ErrCompletedTeardownRecoveryNotReleasable
              else
                res_bind (res_as ErrCompletedTeardownRecoveryNotReleasable
                  (readReservationOnConnection (ctp_SessionID pair) db)) (\<lambda>reservation.
                let alreadyRecovered = (srv_CleanupConfirmedAt reservation \<noteq> None);
                    finalizationPending = (matchingFinalizations = 1) in
                if srv_HostKey reservation \<noteq> reservationHostKey \<or>
                   (srv_CleanupConfirmedAt reservation = None) \<noteq> (srv_ReleasedAt reservation = None)
                then Inl ErrCompletedTeardownRecoveryNotReleasable
                else if finalizationPending \<and> \<not> alreadyRecovered then Inl ErrCompletedTeardownRecoveryNotReleasable
                else Inr \<lparr>ctr_Pair = pair, ctr_JobID = jobID, ctr_Session = session, ctr_Command = command,
                  ctr_CommandSlot = slot, ctr_SessionReservation = reservation,
                  ctr_AlreadyRecovered = alreadyRecovered, ctr_FinalizationPending = finalizationPending\<rparr>)))))
      | _ \<Rightarrow> Inl ErrCompletedTeardownRecoveryNotReleasable))"

definition pendingCompletedTeardownPairs :: "retained_tables \<Rightarrow> CompletedTeardownRecoveryPair list result" where
  "pendingCompletedTeardownPairs rt =
     read_all (\<lambda>f.
       let pair = \<lparr>ctp_SessionID = ctf_session_id f, ctp_CommandID = ctf_command_id f\<rparr> in
       res_bind (validateCompletedTeardownRecoveryPairs [pair]) (\<lambda>_. Inr pair))
     (sort_key (\<lambda>f. (ctf_capacity_released_at f, ctf_session_id f)) (exec_completed_teardown_recovery_finalizations rt))"

text \<open>Work that is not terminal.\<close>

definition active_work :: "database \<Rightarrow> nat" where
  "active_work db =
     length (filter (\<lambda>s. ses_state s \<notin> set terminal_session_states) (exec_sessions db)) +
     length (filter (\<lambda>c. cmd_state c \<notin> set terminal_command_states) (exec_commands db)) +
     length (filter (\<lambda>j. job_phase j \<notin> {JobPhaseComplete, JobPhaseFailed, JobPhaseLost}) (exec_jobs db))"

definition unreleased_slot :: "slot_row \<Rightarrow> bool" where
  "unreleased_slot r \<longleftrightarrow> slt_stop_confirmed_at r = None \<or> slt_released_at r = None"

definition unreleased_reservation :: "reservation_row \<Rightarrow> bool" where
  "unreleased_reservation r \<longleftrightarrow> res_cleanup_confirmed_at r = None \<or> res_released_at r = None"

definition checkCompletedTeardownRecoveryBatch ::
  "CompletedTeardownRecoveryPair list \<Rightarrow> full_state \<Rightarrow> CompletedTeardownRecovery list result" where
  "checkCompletedTeardownRecoveryBatch pairs = (\<lambda>(db, rt).
     res_bind (read_all (\<lambda>pair. readCompletedTeardownRecovery pair (db, rt)) pairs) (\<lambda>results.
     let selected = set (map ctp_SessionID pairs) in
     if active_work db + length (filter unreleased_slot (exec_command_slots db)) +
        length (exec_lost_runtime_recovery_finalizations db) +
        length (exec_commandless_lost_runtime_recovery_finalizations rt) \<noteq> 0
     then Inl ErrCompletedTeardownRecoveryNotReleasable
     else if \<not> list_all (\<lambda>r. res_session_id r \<in> selected) (filter unreleased_reservation (exec_capacity_reservations db))
     then Inl ErrCompletedTeardownRecoveryNotReleasable
     else
       res_bind (pendingCompletedTeardownPairs rt) (\<lambda>pending.
       if \<not> list_all (\<lambda>pair. ctp_SessionID pair \<in> selected) pending
       then Inl ErrCompletedTeardownRecoveryNotReleasable
       else Inr results)))"

text \<open>A read transaction over both parts of the database.\<close>

definition full_read ::
  "go_error option \<Rightarrow> AuthorityStore \<times> retained_tables \<Rightarrow> (full_state \<Rightarrow> 'a result) \<Rightarrow>
   'a result \<times> AuthorityStore \<times> retained_tables" where
  "full_read fault = (\<lambda>(s, rt) body.
     (case withStoreReadTransaction fault s (\<lambda>db. body (db, rt)) of (r, s') \<Rightarrow> (r, s', rt)))"

definition CheckCompletedTeardownRecoveryBatch ::
  "go_error option \<Rightarrow> AuthorityStore \<times> retained_tables \<Rightarrow> CompletedTeardownRecoveryPair list \<Rightarrow>
   CompletedTeardownRecovery list result \<times> AuthorityStore \<times> retained_tables" where
  "CheckCompletedTeardownRecoveryBatch fault st pairs =
     (case validateCompletedTeardownRecoveryPairs pairs of
        Inl e \<Rightarrow> (Inl e, st)
      | Inr validated \<Rightarrow> full_read fault st (checkCompletedTeardownRecoveryBatch validated))"

definition completed_row :: "CompletedTeardownRecovery \<Rightarrow> time \<Rightarrow> completed_finalization_row" where
  "completed_row recovery now =
     \<lparr>ctf_session_id = ctp_SessionID (ctr_Pair recovery), ctf_command_id = ctp_CommandID (ctr_Pair recovery),
      ctf_job_id = ctr_JobID recovery, ctf_capacity_released_at = formatStoredTime now\<rparr>"

fun release_teardowns :: "time \<Rightarrow> CompletedTeardownRecovery list \<Rightarrow> unit full_tx" where
  "release_teardowns now [] = tx_return ()"
| "release_teardowns now (recovery # recoveries) =
     (if ctr_AlreadyRecovered recovery then release_teardowns now recoveries
      else
        tx_bind (release_reservation (ctp_SessionID (ctr_Pair recovery)) ErrCompletedTeardownRecoveryNotReleasable now) (\<lambda>_.
        tx_bind (on_retained_keys (\<lambda>db. sql_insert (completed_constraints db)
          exec_completed_teardown_recovery_finalizations_update (completed_row recovery now))) (\<lambda>_.
        release_teardowns now recoveries)))"

definition confirm_teardown_body :: "CompletedTeardownRecoveryPair list \<Rightarrow> time \<Rightarrow> unit full_tx" where
  "confirm_teardown_body validated now =
     tx_bind (tx_query (checkCompletedTeardownRecoveryBatch validated)) (release_teardowns now)"

definition ConfirmCompletedTeardownRecoveryBatch ::
  "go_error option \<Rightarrow> time \<Rightarrow> AuthorityStore \<times> retained_tables \<Rightarrow> CompletedTeardownRecoveryPair list \<Rightarrow>
   unit result \<times> AuthorityStore \<times> retained_tables" where
  "ConfirmCompletedTeardownRecoveryBatch fault now st pairs =
     (case validateCompletedTeardownRecoveryPairs pairs of
        Inl e \<Rightarrow> (Inl e, st)
      | Inr validated \<Rightarrow> full_transaction fault st (confirm_teardown_body validated now))"

definition ListPendingCompletedTeardownRecoveryFinalizations ::
  "go_error option \<Rightarrow> AuthorityStore \<times> retained_tables \<Rightarrow>
   CompletedTeardownRecovery list result \<times> AuthorityStore \<times> retained_tables" where
  "ListPendingCompletedTeardownRecoveryFinalizations fault st = full_read fault st (\<lambda>(db, rt).
     res_bind (pendingCompletedTeardownPairs rt) (\<lambda>pairs.
     read_all (\<lambda>pair.
       res_bind (readCompletedTeardownRecovery pair (db, rt)) (\<lambda>result.
       if \<not> ctr_AlreadyRecovered result \<or> \<not> ctr_FinalizationPending result
       then Inl ErrCompletedTeardownRecoveryNotReleasable else Inr result)) pairs))"

definition complete_teardown_body :: "CompletedTeardownRecoveryPair \<Rightarrow> unit full_tx" where
  "complete_teardown_body pair =
     tx_bind (tx_query (readCompletedTeardownRecovery pair)) (\<lambda>recovery.
     if \<not> ctr_AlreadyRecovered recovery then tx_fail ErrCompletedTeardownRecoveryNotReleasable
     else if \<not> ctr_FinalizationPending recovery then tx_return ()
     else
       tx_bind (on_retained (sql_delete exec_completed_teardown_recovery_finalizations
         exec_completed_teardown_recovery_finalizations_update
         (\<lambda>f. ctf_session_id f = ctp_SessionID pair \<and> ctf_command_id f = ctp_CommandID pair \<and>
              ctf_job_id f = ctr_JobID recovery))) (\<lambda>changed.
       tx_guard (changed = 1) ErrCompletedTeardownRecoveryNotReleasable))"

definition CompleteCompletedTeardownRecoveryFinalization ::
  "go_error option \<Rightarrow> AuthorityStore \<times> retained_tables \<Rightarrow> CompletedTeardownRecoveryPair \<Rightarrow>
   unit result \<times> AuthorityStore \<times> retained_tables" where
  "CompleteCompletedTeardownRecoveryFinalization fault st pair =
     (case validateCompletedTeardownRecoveryPairs [pair] of
        Inl e \<Rightarrow> (Inl e, st)
      | Inr validated \<Rightarrow> full_transaction fault st (complete_teardown_body (hd validated)))"

end
