(* ===== verification/Store_Recovery_Sets.thy ===== *)
theory Store_Recovery_Sets
  imports Store_Teardown_Recovery
begin

text \<open>
  Recovery of lost sessions that never had a command (internal/store/commandless_lost_recovery.go),
  alone or together with lost pairs, and of sets that mix lost pairs with completed commands whose
  teardown was lost (internal/store/mixed_runtime_recovery.go).
\<close>

section \<open>Lost sessions without a command\<close>

record CommandlessLostRuntimeRecovery =
  clr_JobID :: JobID
  clr_SessionID :: SessionID
  clr_CommandID :: CommandID
  clr_Session :: SessionRecord
  clr_SessionReservation :: SessionReservation
  clr_AlreadyRecovered :: bool
  clr_FinalizationPending :: bool

text \<open>The shape of a job that was lost before its command row was written.\<close>

definition commandless_shape :: "job_row \<Rightarrow> reservation_row \<Rightarrow> SessionRecord \<Rightarrow> database \<Rightarrow> bool" where
  "commandless_shape job reservation session db \<longleftrightarrow>
     job_phase job = JobPhaseLost \<and> job_command_state job = None \<and> job_exit_code job = None \<and>
     job_final_event_sequence job = None \<and> job_output_truncated job = 0 \<and> job_output_complete job = 0 \<and>
     job_output_unavailable_reason job = [] \<and> job_teardown_state job = JobTeardownPending \<and>
     job_teardown_reason job = [] \<and> sr_State session = SessionStateLost \<and>
     res_host_key reservation = reservationHostKey \<and>
     length (filter (\<lambda>candidate. job_session_id candidate = job_session_id job) (exec_jobs db)) = 1 \<and>
     session_commands (job_session_id job) db = [] \<and>
     filter (\<lambda>slot. slt_command_id slot = job_command_id job) (exec_command_slots db) = []"

definition readCommandlessLostRuntimeRecovery ::
  "SessionID \<Rightarrow> full_state \<Rightarrow> CommandlessLostRuntimeRecovery result" where
  "readCommandlessLostRuntimeRecovery sid = (\<lambda>(db, rt).
     (case (find_session sid db, find_reservation sid db, find (\<lambda>j. job_session_id j = sid) (exec_jobs db)) of
        (Some _, Some row, Some job) \<Rightarrow>
          let finalizations = length (filter (\<lambda>f. clf_session_id f = sid \<and> clf_job_id f = job_job_id job)
                (exec_commandless_lost_runtime_recovery_finalizations rt)) in
          res_bind (res_as ErrCommandlessLostRuntimeRecoveryNotReleasable (NewJobID (job_job_id job))) (\<lambda>jobID.
          res_bind (res_as ErrCommandlessLostRuntimeRecoveryNotReleasable (NewSessionID (job_session_id job))) (\<lambda>_.
          res_bind (res_as ErrCommandlessLostRuntimeRecoveryNotReleasable (NewCommandID (job_command_id job))) (\<lambda>commandID.
          res_bind (readSessionOnConnection sid db) (\<lambda>session.
          if \<not> commandless_shape job row session db \<or> finalizations > 1
          then Inl ErrCommandlessLostRuntimeRecoveryNotReleasable
          else
            res_bind (readReservationOnConnection sid db) (\<lambda>reservation.
            let cleanupConfirmed = (res_cleanup_confirmed_at row \<noteq> None);
                released = (res_released_at row \<noteq> None);
                alreadyReleased = (cleanupConfirmed \<and> released) in
            if cleanupConfirmed \<noteq> released then Inl ErrCommandlessLostRuntimeRecoveryNotReleasable
            else if \<not> alreadyReleased \<and> finalizations \<noteq> 0 then Inl ErrCommandlessLostRuntimeRecoveryNotReleasable
            else Inr \<lparr>clr_JobID = jobID, clr_SessionID = sid, clr_CommandID = commandID, clr_Session = session,
              clr_SessionReservation = reservation, clr_AlreadyRecovered = alreadyReleased,
              clr_FinalizationPending = (finalizations = 1)\<rparr>)))))
      | _ \<Rightarrow> Inl ErrCommandlessLostRuntimeRecoveryNotReleasable))"

definition readCommandlessLostRuntimeRecoveryBatch ::
  "SessionID list \<Rightarrow> full_state \<Rightarrow> CommandlessLostRuntimeRecovery list result" where
  "readCommandlessLostRuntimeRecoveryBatch sessions st =
     read_all (\<lambda>sid. readCommandlessLostRuntimeRecovery sid st) sessions"

fun validate_commandless_from :: "SessionID set \<Rightarrow> SessionID list \<Rightarrow> SessionID list result" where
  "validate_commandless_from seen [] = Inr []"
| "validate_commandless_from seen (raw # sessions) =
     res_bind (NewSessionID raw) (\<lambda>sid.
     if sid \<in> seen then Inl ErrCommandlessLostRuntimeRecoveryNotReleasable
     else res_bind (validate_commandless_from (insert sid seen) sessions) (\<lambda>rest. Inr (sid # rest)))"

definition validateCommandlessLostRuntimeRecoverySessionsAllowEmpty :: "SessionID list \<Rightarrow> SessionID list result" where
  "validateCommandlessLostRuntimeRecoverySessionsAllowEmpty sessions = validate_commandless_from {} sessions"

definition validateCommandlessLostRuntimeRecoverySessions :: "SessionID list \<Rightarrow> SessionID list result" where
  "validateCommandlessLostRuntimeRecoverySessions sessions =
     res_bind (validateCommandlessLostRuntimeRecoverySessionsAllowEmpty sessions) (\<lambda>validated.
     if length validated = 0 then Inl ErrCommandlessLostRuntimeRecoveryNotReleasable else Inr validated)"

definition validateLostRuntimeRecoveryPairsAllowEmpty ::
  "LostRuntimeRecoveryPair list \<Rightarrow> LostRuntimeRecoveryPair list result" where
  "validateLostRuntimeRecoveryPairsAllowEmpty pairs =
     (if length pairs = 0 then Inr [] else validateLostRuntimeRecoveryPairs pairs)"

definition CheckCommandlessLostRuntimeRecoveryBatch ::
  "go_error option \<Rightarrow> AuthorityStore \<times> retained_tables \<Rightarrow> SessionID list \<Rightarrow>
   CommandlessLostRuntimeRecovery list result \<times> AuthorityStore \<times> retained_tables" where
  "CheckCommandlessLostRuntimeRecoveryBatch fault st sessions =
     (case validateCommandlessLostRuntimeRecoverySessions sessions of
        Inl e \<Rightarrow> (Inl e, st)
      | Inr validated \<Rightarrow> full_read fault st (readCommandlessLostRuntimeRecoveryBatch validated))"

definition commandless_row :: "CommandlessLostRuntimeRecovery \<Rightarrow> time \<Rightarrow> commandless_finalization_row" where
  "commandless_row recovery now =
     \<lparr>clf_session_id = clr_SessionID recovery, clf_job_id = clr_JobID recovery,
      clf_capacity_released_at = formatStoredTime now\<rparr>"

definition releaseCommandlessLostRuntimeRecovery ::
  "CommandlessLostRuntimeRecovery \<Rightarrow> time \<Rightarrow> unit full_tx" where
  "releaseCommandlessLostRuntimeRecovery recovery now =
     tx_bind (release_reservation (clr_SessionID recovery) ErrCommandlessLostRuntimeRecoveryNotReleasable now) (\<lambda>_.
     on_retained_keys (\<lambda>db. sql_insert (commandless_constraints db)
       exec_commandless_lost_runtime_recovery_finalizations_update (commandless_row recovery now)))"

fun release_commandless :: "time \<Rightarrow> CommandlessLostRuntimeRecovery list \<Rightarrow> unit full_tx" where
  "release_commandless now [] = tx_return ()"
| "release_commandless now (recovery # recoveries) =
     tx_bind (releaseCommandlessLostRuntimeRecovery recovery now) (\<lambda>_. release_commandless now recoveries)"

text \<open>The counts of the set transaction take both columns.\<close>

definition open_slots :: "database \<Rightarrow> nat" where
  "open_slots db = length (filter (\<lambda>r. slt_host_key r = schedulerHostKey \<and> slt_stop_confirmed_at r = None \<and>
     slt_released_at r = None) (exec_command_slots db))"

definition open_reservations :: "database \<Rightarrow> nat" where
  "open_reservations db = length (filter (\<lambda>r. res_host_key r = reservationHostKey \<and>
     res_cleanup_confirmed_at r = None \<and> res_released_at r = None) (exec_capacity_reservations db))"

definition confirm_set_body ::
  "LostRuntimeRecoveryPair list \<Rightarrow> SessionID list \<Rightarrow> time \<Rightarrow> unit full_tx" where
  "confirm_set_body pairs sessions now =
     tx_bind (tx_query (\<lambda>st. check_pairs pairs (fst st))) (\<lambda>unreleasedPairs.
     tx_bind (tx_query (readCommandlessLostRuntimeRecoveryBatch sessions)) (\<lambda>commandless.
     let unreleasedSessions = filter (\<lambda>r. \<not> clr_AlreadyRecovered r) commandless in
     if unreleasedPairs = [] \<and> unreleasedSessions = [] then tx_return ()
     else
       tx_bind (tx_query (\<lambda>st. res_guard (open_slots (fst st) = length unreleasedPairs \<and>
         open_reservations (fst st) = length unreleasedPairs + length unreleasedSessions)
         ErrLostRuntimeRecoveryNotReleasable)) (\<lambda>_.
       tx_bind (on_database (release_pairs now unreleasedPairs)) (\<lambda>_.
       release_commandless now unreleasedSessions))))"

definition ConfirmLostRuntimeRecoverySet ::
  "go_error option \<Rightarrow> time \<Rightarrow> AuthorityStore \<times> retained_tables \<Rightarrow> LostRuntimeRecoveryPair list \<Rightarrow> SessionID list \<Rightarrow>
   unit result \<times> AuthorityStore \<times> retained_tables" where
  "ConfirmLostRuntimeRecoverySet fault now st pairs sessions =
     (case res_bind (validateLostRuntimeRecoveryPairsAllowEmpty pairs) (\<lambda>validatedPairs.
           res_bind (validateCommandlessLostRuntimeRecoverySessionsAllowEmpty sessions) (\<lambda>validatedSessions.
           if validatedPairs = [] \<and> validatedSessions = [] then Inl ErrLostRuntimeRecoveryNotReleasable
           else if \<not> list_all (\<lambda>sid. sid \<notin> set (map lrp_SessionID validatedPairs)) validatedSessions
           then Inl ErrCommandlessLostRuntimeRecoveryNotReleasable
           else Inr (validatedPairs, validatedSessions))) of
        Inl e \<Rightarrow> (Inl e, st)
      | Inr (validatedPairs, validatedSessions) \<Rightarrow>
          full_transaction fault st (confirm_set_body validatedPairs validatedSessions now))"

definition ConfirmCommandlessLostRuntimeRecoveryBatch ::
  "go_error option \<Rightarrow> time \<Rightarrow> AuthorityStore \<times> retained_tables \<Rightarrow> SessionID list \<Rightarrow>
   unit result \<times> AuthorityStore \<times> retained_tables" where
  "ConfirmCommandlessLostRuntimeRecoveryBatch fault now st sessions =
     ConfirmLostRuntimeRecoverySet fault now st [] sessions"

definition ListPendingCommandlessLostRuntimeRecoveryFinalizations ::
  "go_error option \<Rightarrow> AuthorityStore \<times> retained_tables \<Rightarrow>
   CommandlessLostRuntimeRecovery list result \<times> AuthorityStore \<times> retained_tables" where
  "ListPendingCommandlessLostRuntimeRecoveryFinalizations fault st = full_read fault st (\<lambda>(db, rt).
     res_bind (read_all (\<lambda>f. res_as ErrCommandlessLostRuntimeRecoveryNotReleasable (NewSessionID (clf_session_id f)))
       (sort_key (\<lambda>f. (clf_capacity_released_at f, clf_session_id f))
         (exec_commandless_lost_runtime_recovery_finalizations rt))) (\<lambda>ids.
     res_bind (readCommandlessLostRuntimeRecoveryBatch ids (db, rt)) (\<lambda>recoveries.
     if \<not> list_all (\<lambda>r. clr_AlreadyRecovered r \<and> clr_FinalizationPending r) recoveries
     then Inl ErrCommandlessLostRuntimeRecoveryNotReleasable else Inr recoveries)))"

definition complete_commandless_body :: "SessionID \<Rightarrow> unit full_tx" where
  "complete_commandless_body sid =
     tx_bind (tx_query (readCommandlessLostRuntimeRecovery sid)) (\<lambda>recovery.
     if \<not> clr_AlreadyRecovered recovery then tx_fail ErrCommandlessLostRuntimeRecoveryNotReleasable
     else if \<not> clr_FinalizationPending recovery then tx_return ()
     else
       tx_bind (on_retained (sql_delete exec_commandless_lost_runtime_recovery_finalizations
         exec_commandless_lost_runtime_recovery_finalizations_update
         (\<lambda>f. clf_session_id f = sid \<and> clf_job_id f = clr_JobID recovery))) (\<lambda>changed.
       tx_guard (changed = 1) ErrCommandlessLostRuntimeRecoveryNotReleasable))"

definition CompleteCommandlessLostRuntimeRecoveryFinalization ::
  "go_error option \<Rightarrow> AuthorityStore \<times> retained_tables \<Rightarrow> SessionID \<Rightarrow>
   unit result \<times> AuthorityStore \<times> retained_tables" where
  "CompleteCommandlessLostRuntimeRecoveryFinalization fault st sessionID =
     (case NewSessionID sessionID of
        Inl e \<Rightarrow> (Inl e, st)
      | Inr sid \<Rightarrow> full_transaction fault st (complete_commandless_body sid))"

section \<open>Mixed sets\<close>

record MixedLostRuntimeRecovery =
  mlr_Pair :: LostRuntimeRecoveryPair
  mlr_Session :: SessionRecord
  mlr_Command :: LostRuntimeRecoveryCommand
  mlr_CommandSlot :: CommandSlotRecord
  mlr_SessionReservation :: SessionReservation
  mlr_AlreadyRecovered :: bool
  mlr_FinalizationPending :: bool

record MixedRuntimeRecoverySet =
  mrs_Lost :: "MixedLostRuntimeRecovery list"
  mrs_Teardown :: "CompletedTeardownRecovery list"

definition validateMixedRuntimeRecoverySelection ::
  "LostRuntimeRecoveryPair list \<Rightarrow> CompletedTeardownRecoveryPair list \<Rightarrow>
   (LostRuntimeRecoveryPair list \<times> CompletedTeardownRecoveryPair list) result" where
  "validateMixedRuntimeRecoverySelection lost teardown =
     (if length lost = 0 \<and> length teardown = 0 then Inl ErrLostRuntimeRecoveryNotReleasable
      else
        res_bind (if length lost \<noteq> 0 then validateLostRuntimeRecoveryPairs lost else Inr []) (\<lambda>validatedLost.
        res_bind (if length teardown \<noteq> 0 then validateCompletedTeardownRecoveryPairs teardown else Inr [])
          (\<lambda>validatedTeardown.
        if \<not> list_all (\<lambda>pair. ctp_SessionID pair \<notin> set (map lrp_SessionID validatedLost) \<and>
             ctp_CommandID pair \<notin> set (map lrp_CommandID validatedLost)) validatedTeardown
        then Inl ErrLostRuntimeRecoveryNotReleasable
        else Inr (validatedLost, validatedTeardown))))"

definition read_mixed_lost :: "LostRuntimeRecoveryPair \<Rightarrow> database \<Rightarrow> MixedLostRuntimeRecovery result" where
  "read_mixed_lost pair db =
     res_bind (checkLostRuntimeRecoveryPair pair db) (\<lambda>alreadyReleased.
     res_bind (readSessionOnConnection (lrp_SessionID pair) db) (\<lambda>session.
     res_bind (readLostRuntimeRecoveryCommandOnConnection (lrp_CommandID pair) db) (\<lambda>command.
     res_bind (readCommandSlotOnConnection (lrp_CommandID pair) db) (\<lambda>slot.
     res_bind (readReservationOnConnection (lrp_SessionID pair) db) (\<lambda>reservation.
     let pending = length (filter (\<lambda>f. fin_session_id f = lrp_SessionID pair \<and> fin_command_id f = lrp_CommandID pair)
           (exec_lost_runtime_recovery_finalizations db)) in
     if pending > 1 \<or> pending = 1 \<and> \<not> alreadyReleased then Inl ErrLostRuntimeRecoveryNotReleasable
     else Inr \<lparr>mlr_Pair = pair, mlr_Session = session, mlr_Command = command, mlr_CommandSlot = slot,
       mlr_SessionReservation = reservation, mlr_AlreadyRecovered = alreadyReleased,
       mlr_FinalizationPending = (pending = 1)\<rparr>)))))"

definition requireSelectedMixedFinalizations ::
  "LostRuntimeRecoveryPair list \<Rightarrow> CompletedTeardownRecoveryPair list \<Rightarrow> full_state \<Rightarrow> unit result" where
  "requireSelectedMixedFinalizations lost teardown = (\<lambda>(db, rt).
     if \<not> list_all (\<lambda>f. map_of (map (\<lambda>p. (lrp_CommandID p, lrp_SessionID p)) (rev lost)) (fin_command_id f) =
          Some (fin_session_id f)) (exec_lost_runtime_recovery_finalizations db)
     then Inl ErrLostRuntimeRecoveryNotReleasable
     else if \<not> list_all (\<lambda>f. map_of (map (\<lambda>p. (ctp_SessionID p, ctp_CommandID p)) (rev teardown)) (ctf_session_id f) =
          Some (ctf_command_id f)) (exec_completed_teardown_recovery_finalizations rt)
     then Inl ErrLostRuntimeRecoveryNotReleasable
     else if length (exec_commandless_lost_runtime_recovery_finalizations rt) \<noteq> 0
     then Inl (Wrapped ErrLostRuntimeRecoveryNotReleasable ErrCommandlessLostRuntimeRecoveryNotReleasable)
     else Inr ())"

definition slots_selected :: "CommandID list \<Rightarrow> nat \<Rightarrow> database \<Rightarrow> unit result" where
  "slots_selected commands wantSlots db =
     (let open_rows = filter unreleased_slot (exec_command_slots db) in
      if \<not> list_all (\<lambda>r. slt_command_id r \<noteq> [] \<and> slt_command_id r \<in> set commands \<and> slt_host_key r = schedulerHostKey \<and>
           slt_stop_confirmed_at r = None \<and> slt_released_at r = None) open_rows
      then Inl ErrLostRuntimeRecoveryNotReleasable
      else res_guard (length open_rows = wantSlots) ErrLostRuntimeRecoveryNotReleasable)"

definition reservations_selected :: "SessionID list \<Rightarrow> nat \<Rightarrow> database \<Rightarrow> unit result" where
  "reservations_selected sessions wantReservations db =
     (let open_rows = filter unreleased_reservation (exec_capacity_reservations db) in
      if \<not> list_all (\<lambda>r. res_session_id r \<noteq> [] \<and> res_session_id r \<in> set sessions \<and> res_host_key r = reservationHostKey \<and>
           res_cleanup_confirmed_at r = None \<and> res_released_at r = None) open_rows
      then Inl ErrLostRuntimeRecoveryNotReleasable
      else res_guard (length open_rows = wantReservations) ErrLostRuntimeRecoveryNotReleasable)"

definition readMixedRuntimeRecoverySet ::
  "LostRuntimeRecoveryPair list \<Rightarrow> CompletedTeardownRecoveryPair list \<Rightarrow> full_state \<Rightarrow> MixedRuntimeRecoverySet result" where
  "readMixedRuntimeRecoverySet lost teardown = (\<lambda>(db, rt).
     res_bind (read_all (\<lambda>pair. read_mixed_lost pair db) lost) (\<lambda>lostSet.
     res_bind (read_all (\<lambda>pair. readCompletedTeardownRecovery pair (db, rt)) teardown) (\<lambda>teardownSet.
     if active_work db \<noteq> 0 then Inl ErrLostRuntimeRecoveryNotReleasable
     else
       let wantSlots = length (filter (\<lambda>r. \<not> mlr_AlreadyRecovered r) lostSet);
           wantTeardowns = length (filter (\<lambda>r. \<not> ctr_AlreadyRecovered r) teardownSet) in
       res_bind (slots_selected (map lrp_CommandID lost) wantSlots db) (\<lambda>_.
       res_bind (reservations_selected (map lrp_SessionID lost @ map ctp_SessionID teardown)
         (wantSlots + wantTeardowns) db) (\<lambda>_.
       res_bind (requireSelectedMixedFinalizations lost teardown (db, rt)) (\<lambda>_.
       Inr \<lparr>mrs_Lost = lostSet, mrs_Teardown = teardownSet\<rparr>))))))"

definition CheckMixedRuntimeRecoverySet ::
  "go_error option \<Rightarrow> AuthorityStore \<times> retained_tables \<Rightarrow> LostRuntimeRecoveryPair list \<Rightarrow>
   CompletedTeardownRecoveryPair list \<Rightarrow> MixedRuntimeRecoverySet result \<times> AuthorityStore \<times> retained_tables" where
  "CheckMixedRuntimeRecoverySet fault st lost teardown =
     (case validateMixedRuntimeRecoverySelection lost teardown of
        Inl e \<Rightarrow> (Inl e, st)
      | Inr (validatedLost, validatedTeardown) \<Rightarrow>
          full_read fault st (readMixedRuntimeRecoverySet validatedLost validatedTeardown))"

definition confirm_mixed_body ::
  "LostRuntimeRecoveryPair list \<Rightarrow> CompletedTeardownRecoveryPair list \<Rightarrow> time \<Rightarrow> unit full_tx" where
  "confirm_mixed_body lost teardown now =
     tx_bind (tx_query (readMixedRuntimeRecoverySet lost teardown)) (\<lambda>recovery.
     tx_bind (on_database (release_pairs now
       (map mlr_Pair (filter (\<lambda>r. \<not> mlr_AlreadyRecovered r) (mrs_Lost recovery))))) (\<lambda>_.
     release_teardowns now (mrs_Teardown recovery)))"

definition ConfirmMixedRuntimeRecoverySet ::
  "go_error option \<Rightarrow> time \<Rightarrow> AuthorityStore \<times> retained_tables \<Rightarrow> LostRuntimeRecoveryPair list \<Rightarrow>
   CompletedTeardownRecoveryPair list \<Rightarrow> unit result \<times> AuthorityStore \<times> retained_tables" where
  "ConfirmMixedRuntimeRecoverySet fault now st lost teardown =
     (case validateMixedRuntimeRecoverySelection lost teardown of
        Inl e \<Rightarrow> (Inl e, st)
      | Inr (validatedLost, validatedTeardown) \<Rightarrow>
          full_transaction fault st (confirm_mixed_body validatedLost validatedTeardown now))"

end
