(* ===== verification/Time_Order.thy ===== *)
theory Time_Order
  imports Stored_Time Sql_Table
begin

text \<open>
  The order of stored times as text. The fields of a stored time have a fixed width up to the seconds,
  so the text of an earlier second is smaller; the fraction is trimmed and followed by a letter, so
  within one second the text order is not the order of time.
\<close>

section \<open>Lexicographic order of concatenated fields\<close>

lemma append_less_same [simp]: "u @ x < u @ y \<longleftrightarrow> x < (y :: 'a :: order list)"
  by (induction u) simp_all

lemma append_less: "length u = length v \<Longrightarrow> u < v \<Longrightarrow> u @ x < v @ (y :: 'a :: order list)"
  by (induction u v rule: list_induct2) auto

lemma digit_char_less: "m < n \<Longrightarrow> n < 10 \<Longrightarrow> digit_char m < digit_char n"
  by (simp add: less_char_def)

lemma pad_less: "m < n \<Longrightarrow> n < 10 ^ w \<Longrightarrow> pad w m < pad w n"
proof (induction w arbitrary: m n)
  case (Suc w)
  show ?case
  proof (cases "m div 10 < n div 10")
    case True
    then show ?thesis using Suc by (simp add: append_less less_mult_imp_div_less)
  next
    case False
    then have "m div 10 = n div 10" "m mod 10 < n mod 10"
      using Suc.prems(1) div_le_mono [of m n 10] div_mult_mod_eq [of m 10] div_mult_mod_eq [of n 10] by linarith+
    then show ?thesis using digit_char_less [of "m mod 10" "n mod 10"] by simp
  qed
qed simp

lemma field_less: "m < n \<Longrightarrow> n < 10 ^ w \<Longrightarrow> pad w m @ x < pad w n @ y"
  by (simp add: append_less pad_less)

lemma fields_less:
  assumes "h < h' \<or> h = h' \<and> (m < m' \<or> m = m' \<and> s < s')" "h' < 10 ^ v" "m' < 100" "s' < 100"
  shows "pad v h @ c # pad 2 m @ d # pad 2 s @ x < pad v h' @ c # pad 2 m' @ d # pad 2 s' @ y"
  using assms by (auto simp: field_less)

section \<open>Calendar fields grow with time\<close>

lemma month_day_mono:
  "d < d' \<Longrightarrow> month_day ls d = (m, e) \<Longrightarrow> month_day ls d' = (m', e') \<Longrightarrow> m < m' \<or> m = m' \<and> e < e'"
proof (induction ls d arbitrary: d' m e m' e' rule: month_day.induct)
  case (1 l l' ls d)
  obtain n f where nf: "month_day (l' # ls) (d - l) = (n, f)" by fastforce
  obtain n' f' where nf': "month_day (l' # ls) (d' - l) = (n', f')" by fastforce
  have ge: "1 \<le> fst (month_day xs x)" for xs x
    by (induction xs x rule: month_day.induct) (auto split: prod.split)
  then have "1 \<le> n'" using nf' by (metis fst_conv)
  then show ?case
    using 1(1) [of "d' - l" n f n' f'] 1(2-) nf nf' by (cases "d < l"; cases "d' < l") auto
qed auto

lemma clock_less:
  fixes h m s h' m' s' :: int
  assumes "0 \<le> m" "m < 60" "0 \<le> s" "s < 60" "0 \<le> m'" "m' < 60" "0 \<le> s'" "s' < 60"
    and "h * 3600 + m * 60 + s < h' * 3600 + m' * 60 + s'"
  shows "h < h' \<or> h = h' \<and> (m < m' \<or> m = m' \<and> s < s')"
  using assms by linarith

lemma year_mono: "days \<le> days' \<Longrightarrow> year_of_days days \<le> year_of_days days'"
proof (rule ccontr)
  assume le: "days \<le> days'" and "\<not> year_of_days days \<le> year_of_days days'"
  then have "days_before_year (year_of_days days' + 1) \<le> days_before_year (year_of_days days)"
    by (intro days_before_year_mono) simp
  then show False
    using year_of_days_bounds [of days] year_of_days_bounds [of days'] le by (simp add: days_before_next_year)
qed

section \<open>Stored times\<close>

definition date_text :: "int \<Rightarrow> string" where
  "date_text days = (let y = year_of_days days; md = month_day (month_lengths y) (days - days_before_year y) in
     year_text y @ CHR ''-'' # pad 2 (fst md) @ CHR ''-'' # pad 2 (nat (snd md)))"

definition clock_text :: "int \<Rightarrow> string" where
  "clock_text sod = CHR ''T'' # pad 2 (nat (sod div 3600)) @ CHR '':'' # pad 2 (nat (sod div 60 mod 60)) @
     CHR '':'' # pad 2 (nat (sod mod 60))"

lemma formatStoredTime_split:
  "formatStoredTime t = date_text (t div Second div 86400) @ clock_text (t div Second mod 86400) @ frac_text (t mod Second) @ ''Z''"
  by (simp add: formatStoredTime_def date_text_def clock_text_def Let_def)

lemma clock_text_less:
  assumes "0 \<le> a" "a < b" "b < 86400"
  shows "clock_text a @ x < clock_text b @ y"
proof -
  have r: "0 \<le> a mod 60" "a mod 60 < 60" "0 \<le> a div 60 mod 60" "a div 60 mod 60 < 60"
    "0 \<le> b mod 60" "b mod 60 < 60" "0 \<le> b div 60 mod 60" "b div 60 mod 60 < 60" by simp_all
  have a: "0 \<le> a" "a < 86400" and b: "0 \<le> b" "b < 86400" using assms by linarith+
  have h: "0 \<le> a div 3600" "0 \<le> b div 3600" "b div 3600 < 24"
    by (rule split_seconds [OF a] split_seconds [OF b])+
  have "a div 3600 * 3600 + a div 60 mod 60 * 60 + a mod 60 < b div 3600 * 3600 + b div 60 mod 60 * 60 + b mod 60"
    unfolding split_seconds(1) [OF a] split_seconds(1) [OF b] by (rule assms)
  then have "a div 3600 < b div 3600 \<or> a div 3600 = b div 3600 \<and>
      (a div 60 mod 60 < b div 60 mod 60 \<or> a div 60 mod 60 = b div 60 mod 60 \<and> a mod 60 < b mod 60)"
    by (rule clock_less [OF r(3,4,1,2,7,8,5,6)])
  then have "nat (a div 3600) < nat (b div 3600) \<or> nat (a div 3600) = nat (b div 3600) \<and>
      (nat (a div 60 mod 60) < nat (b div 60 mod 60) \<or> nat (a div 60 mod 60) = nat (b div 60 mod 60) \<and>
        nat (a mod 60) < nat (b mod 60))"
    using r h by (metis nat_less_eq_zless)
  moreover have "nat (b div 3600) < 10 ^ 2" "nat (b div 60 mod 60) < 100" "nat (b mod 60) < 100"
    using h(3) r(6,8) by simp_all
  ultimately show ?thesis
    unfolding clock_text_def append_Cons append_assoc Cons_less_Cons
    by (intro disjI2 conjI [OF refl]) (rule fields_less)
qed

lemma date_fields:
  assumes "0 \<le> days" "days < days_before_year 10000"
  defines "y \<equiv> year_of_days days"
  defines "md \<equiv> month_day (month_lengths y) (days - days_before_year y)"
  shows "0 \<le> y" "y < 10000" "fst md \<le> 12" "1 \<le> snd md" "snd md \<le> 31"
proof -
  have t: "valid_time (days * 86400 * Second + 1)"
    using assms(1,2) by (simp add: valid_time_def Date_def Second_def)
  have "(days * 86400 * Second + 1) div Second = days * 86400" by (simp add: Second_def)
  then have d: "(days * 86400 * Second + 1) div Second div 86400 = days" by simp
  note f = stored_time_fields [OF t, unfolded d, folded y_def, folded md_def]
  have "\<forall>l \<in> set (month_lengths y). l \<le> 31" by (simp add: month_lengths_def)
  moreover have "month_lengths y ! (fst md - 1) \<in> set (month_lengths y)"
    using f(3,4) by (intro nth_mem) (simp add: month_lengths_def)
  ultimately show "0 \<le> y" "y < 10000" "fst md \<le> 12" "1 \<le> snd md" "snd md \<le> 31" using f by fastforce+
qed

lemma date_text_less:
  assumes "0 \<le> a" "a < b" "b < days_before_year 10000"
  shows "date_text a @ x < date_text b @ y"
proof -
  let ?y = year_of_days and ?md = "\<lambda>d. month_day (month_lengths (year_of_days d)) (d - days_before_year (year_of_days d))"
  have "a < days_before_year 10000" "0 \<le> b" using assms by linarith+
  note fa = date_fields [OF assms(1) this(1)] and fb = date_fields [OF this(2) assms(3)]
  have dt: "date_text d = pad 4 (nat (?y d)) @ CHR ''-'' # pad 2 (fst (?md d)) @ CHR ''-'' # pad 2 (nat (snd (?md d)))"
    if "0 \<le> ?y d" "?y d < 10000" for d
    using that by (simp add: date_text_def year_text_def Let_def)
  show ?thesis
  proof (cases "?y a = ?y b")
    case True
    then have "fst (?md a) < fst (?md b) \<or> fst (?md a) = fst (?md b) \<and> snd (?md a) < snd (?md b)"
      using month_day_mono [of "a - days_before_year (?y a)" "b - days_before_year (?y b)" "month_lengths (?y a)"
          "fst (?md a)" "snd (?md a)" "fst (?md b)" "snd (?md b)"] assms(2) by simp
    then have "nat (?y a) < nat (?y b) \<or> nat (?y a) = nat (?y b) \<and> (fst (?md a) < fst (?md b) \<or>
        fst (?md a) = fst (?md b) \<and> nat (snd (?md a)) < nat (snd (?md b)))"
      using True fa(4) by auto
    then show ?thesis
      unfolding dt [OF fa(1,2)] dt [OF fb(1,2)] append_assoc append_Cons by (rule fields_less) (use fb in simp_all)
  next
    case False
    then have "?y a < ?y b" using year_mono [of a b] assms(2) by linarith
    then have "nat (?y a) < nat (?y b)" using fa(1) by simp
    then show ?thesis
      unfolding dt [OF fa(1,2)] dt [OF fb(1,2)] append_assoc append_Cons
      by (intro fields_less disjI1) (use fb in simp_all)
  qed
qed

text \<open>An earlier second has a smaller text.\<close>

lemma stored_text_less:
  assumes "valid_time a" "valid_time b" "a div Second < b div Second"
  shows "formatStoredTime a < formatStoredTime b"
proof (cases "a div Second div 86400 = b div Second div 86400")
  case True
  then have "a div Second mod 86400 < b div Second mod 86400"
    using assms(3) div_mult_mod_eq [of "a div Second" 86400] div_mult_mod_eq [of "b div Second" 86400] by linarith
  then show ?thesis
    by (simp add: formatStoredTime_split True clock_text_less)
next
  case False
  then have "a div Second div 86400 < b div Second div 86400"
    using assms(3) zdiv_mono1 [of "a div Second" "b div Second" 86400] by linarith
  then show ?thesis
    unfolding formatStoredTime_split
    using valid_time_days [OF assms(1)] valid_time_days [OF assms(2)] by (intro date_text_less) auto
qed

text \<open>The text order is right up to one second.\<close>

lemma stored_text_le:
  assumes "valid_time a" "valid_time b" "formatStoredTime b \<le> formatStoredTime a"
  shows "b < a + Second"
proof (rule ccontr)
  assume "\<not> b < a + Second"
  then have "(a + Second) div Second \<le> b div Second" by (intro zdiv_mono1) (simp_all add: Second_def)
  then have "a div Second < b div Second" by (simp add: Second_def)
  then show False using stored_text_less [OF assms(1,2)] assms(3) by simp
qed

text \<open>Within a second that has begun, a later time has a smaller text than the whole second.\<close>

lemma stored_text_fraction:
  assumes "b div Second = a div Second" "a mod Second = 0" "b mod Second \<noteq> 0"
  shows "formatStoredTime b < formatStoredTime a"
proof -
  have "frac_text (b mod Second) @ ''Z'' < ''Z''"
    using assms(3) by (simp add: frac_text_def less_char_def)
  then show ?thesis using assms by (simp add: formatStoredTime_split frac_text_def)
qed

end
