(* ===== verification/Gc_Properties.thy ===== *)
theory Gc_Properties
  imports Store_Gc Time_Order Command_Samples
begin

text \<open>
  What a garbage collection pass keeps and what stops it. A row that holds capacity pins its session
  or command through the whole pass; an idempotency key is forgotten at most a second before it
  expires, because times are compared as text; and a command that a mailbox response refers to makes
  the whole pass fail once the command is old enough to be collected.
\<close>

section \<open>Deletes\<close>

lemma tx_keeps_inr: "tx_keeps I (\<lambda>a. Inr (u, a))"
  by (simp add: tx_keeps_def)

lemma delete_restricted_Inr:
  "delete_restricted get upd key referenced k (db, rt) = Inr (n, st) \<longleftrightarrow>
     \<not> (list_ex (\<lambda>r. key r = k) (get db) \<and> referenced (db, rt) k) \<and>
     n = length (filter (\<lambda>r. key r = k) (get db)) \<and> st = (upd (filter (\<lambda>r. key r \<noteq> k)) db, rt)"
  by (auto simp: delete_restricted_def tx_simps)

lemma keep_all [simp]:
  "exec_jobs_update (filter (\<lambda>_. True)) db = db" "exec_commands_update (filter (\<lambda>_. True)) db = db"
  "exec_command_events_update (filter (\<lambda>_. True)) db = db" "exec_command_slots_update (filter (\<lambda>_. True)) db = db"
  "exec_sessions_update (filter (\<lambda>_. True)) db = db" "exec_session_lifecycle_update (filter (\<lambda>_. True)) db = db"
  "exec_capacity_reservations_update (filter (\<lambda>_. True)) db = (db :: database)"
  by (cases db, simp)+

text \<open>A run of a delete loop removes exactly the rows of its identifiers.\<close>

lemma delete_jobs_run:
  "delete_jobs ids (db, rt) = Inr (n, st) \<Longrightarrow> st = (exec_jobs_update (filter (\<lambda>j. job_job_id j \<notin> set ids)) db, rt)"
proof (induction ids arbitrary: db n)
  case (Cons i ids)
  then obtain m where "delete_jobs ids (exec_jobs_update (filter (\<lambda>j. job_job_id j \<noteq> i)) db, rt) = Inr (m, st)"
    by (auto simp: tx_bind_Inr tx_return_Inr delete_restricted_Inr)
  from Cons.IH [OF this] show ?case by (simp add: conj_commute)
qed (simp add: tx_return_Inr)

lemma delete_commands_run:
  "delete_commands ids (db, rt) = Inr (n, st) \<Longrightarrow>
   st = (exec_commands_update (filter (\<lambda>c. cmd_command_id c \<notin> set ids))
     (exec_command_events_update (filter (\<lambda>e. evt_command_id e \<notin> set ids))
       (exec_command_slots_update (filter (\<lambda>r. slt_command_id r \<notin> set ids)) db)), rt)"
proof (induction ids arbitrary: db n)
  case (Cons i ids)
  then obtain m where "delete_commands ids (exec_commands_update (filter (\<lambda>c. cmd_command_id c \<noteq> i))
     (exec_command_events_update (filter (\<lambda>e. evt_command_id e \<noteq> i))
       (exec_command_slots_update (filter (\<lambda>r. slt_command_id r \<noteq> i)) db)), rt) = Inr (m, st)"
    by (auto simp: tx_bind_Inr tx_return_Inr delete_restricted_Inr on_database_Inr sql_delete_Inr)
  from Cons.IH [OF this] show ?case by (simp add: conj_commute)
qed (simp add: tx_return_Inr)

lemma delete_sessions_run:
  "delete_sessions ids (db, rt) = Inr (n, st) \<Longrightarrow>
   st = (exec_sessions_update (filter (\<lambda>s. ses_session_id s \<notin> set ids))
     (exec_session_lifecycle_update (filter (\<lambda>l. slc_session_id l \<notin> set ids))
       (exec_capacity_reservations_update (filter (\<lambda>r. res_session_id r \<notin> set ids)) db)), rt)"
proof (induction ids arbitrary: db n)
  case (Cons i ids)
  then obtain m where "delete_sessions ids (exec_sessions_update (filter (\<lambda>s. ses_session_id s \<noteq> i))
     (exec_session_lifecycle_update (filter (\<lambda>l. slc_session_id l \<noteq> i))
       (exec_capacity_reservations_update (filter (\<lambda>r. res_session_id r \<noteq> i)) db)), rt) = Inr (m, st)"
    by (auto simp: tx_bind_Inr tx_return_Inr delete_restricted_Inr on_database_Inr sql_delete_Inr)
  from Cons.IH [OF this] show ?case by (simp add: conj_commute)
qed (simp add: tx_return_Inr)

section \<open>Predicates a pass keeps\<close>

text \<open>
  The stages before the metadata is deleted write the keys, their warnings, the events, the remote
  mirror, and of jobs and commands the two columns that say why the output is gone.
\<close>

locale output_predicate =
  fixes I :: "full_state \<Rightarrow> bool"
  assumes ignores_database: "I (exec_idempotency_update f1 db, rt) \<longleftrightarrow> I (db, rt)"
      "I (exec_idempotency_expiry_warnings_update f2 db, rt) \<longleftrightarrow> I (db, rt)"
      "I (exec_command_events_update f3 db, rt) \<longleftrightarrow> I (db, rt)"
    and ignores_retained: "I (db, local_remote_command_projections_update g1 rt) \<longleftrightarrow> I (db, rt)"
      "I (db, local_remote_job_projections_update g2 rt) \<longleftrightarrow> I (db, rt)"
      "I (db, local_remote_events_update g3 rt) \<longleftrightarrow> I (db, rt)"
      "I (db, mailbox_ingress_diagnostics_update g4 rt) \<longleftrightarrow> I (db, rt)"
    and expires_commands: "I (db, rt) \<Longrightarrow> I (exec_commands_update (update_rows P
        (\<lambda>c. c\<lparr>cmd_output_complete := 0, cmd_output_unavailable_reason := retention_expired\<rparr>)) db, rt)"
    and expires_jobs: "I (db, rt) \<Longrightarrow> I (exec_jobs_update (update_rows Q
        (\<lambda>j. j\<lparr>job_output_complete := 0, job_output_unavailable_reason := retention_expired\<rparr>)) db, rt)"
begin

lemma keeps_keys: "tx_keeps I (on_database (expire_idempotency now))" "tx_keeps I (on_database (expire_warnings now))"
proof -
  have rec: "tx_keeps (\<lambda>db. I (db, rt)) (recordIdempotencyExpiryWarningOnConnection c operation key e now)"
    for rt c operation key e now
    by (rule tx_keepsI) (auto simp: recordIdempotencyExpiryWarningOnConnection_def Let_def tx_simps ignores_database
        split: if_splits option.splits)
  have "tx_keeps (\<lambda>db. I (db, rt)) (warn_expired_keys now rows)" for rt rows
    by (induction now rows rule: warn_expired_keys.induct) (simp_all add: tx_keeps_bind tx_keeps_reads tx_keeps_inr rec)
  moreover have "tx_keeps (\<lambda>db. I (db, rt)) (sql_delete exec_idempotency exec_idempotency_update P)" for rt P
    by (rule tx_keepsI) (auto simp: sql_delete_Inr ignores_database)
  ultimately show "tx_keeps I (on_database (expire_idempotency now))"
    by (intro keeps_on_database) (simp add: expire_idempotency_def tx_keeps_bind tx_keeps_reads)
  have "tx_keeps (\<lambda>db. I (db, rt)) (sql_delete exec_idempotency_expiry_warnings
      exec_idempotency_expiry_warnings_update P)" for rt P
    by (rule tx_keepsI) (auto simp: sql_delete_Inr ignores_database)
  then have "tx_keeps (\<lambda>db. I (db, rt)) (drop_expired_warnings now rows)" for rt rows
    by (induction now rows rule: drop_expired_warnings.induct) (simp_all add: tx_keeps_bind tx_keeps_reads tx_keeps_inr)
  then show "tx_keeps I (on_database (expire_warnings now))"
    by (intro keeps_on_database) (simp add: expire_warnings_def tx_keeps_bind tx_keeps_reads)
qed

lemma keeps_output:
  "tx_keeps I (expire_command_output cutoff)" "tx_keeps I expire_job_output" "tx_keeps I (expire_remote_output cutoff)"
  "tx_keeps I expire_remote_jobs" "tx_keeps I (delete_command_events now)" "tx_keeps I (delete_remote_events now)"
  "tx_keeps I (delete_diagnostics cutoff)"
  by (rule tx_keepsI, auto simp: expire_command_output_def expire_job_output_def expire_remote_output_def
      expire_remote_jobs_def delete_command_events_def delete_remote_events_def delete_diagnostics_def
      on_database_Inr on_retained_Inr sql_update_Inr sql_delete_Inr ignores_database ignores_retained
      expires_commands expires_jobs)+

end

text \<open>A predicate that the three metadata stages keep as well is kept by the whole pass.\<close>

locale gc_predicate = output_predicate +
  assumes keeps_metadata: "tx_keeps I (collect_jobs cutoff)" "tx_keeps I (collect_commands cutoff)"
    "tx_keeps I (collect_sessions cutoff)"
begin

lemma collect_keeps:
  assumes "I (st_db s, rt)" "CollectGarbage fault now (s, rt) options = (r, s', rt')"
  shows "I (st_db s', rt')"
proof -
  have keeps: "tx_keeps I (collect_body now oc mc)" for oc mc
    by (simp add: collect_body_def tx_keeps_bind tx_keeps_reads keeps_keys keeps_output keeps_metadata)
  show ?thesis
  proof (cases "r = Inl ErrInvalidGarbageCollection \<and> (s', rt') = (s, rt)")
    case False
    then obtain oc mc where "full_transaction fault (s, rt) (collect_body now oc mc) = (r, s', rt')"
      using assms(2) by (auto simp: CollectGarbage_def Let_def split: if_splits)
    then show ?thesis
      by (cases rule: full_transaction_cases) (use assms(1) tx_keepsD [OF keeps] in auto)
  qed (use assms(1) in simp)
qed

end

section \<open>Capacity\<close>

text \<open>A command apart from the columns that say whether its output is still there.\<close>

definition command_core :: "command_row \<Rightarrow> command_row" where
  "command_core c = c\<lparr>cmd_output_complete := 0, cmd_output_unavailable_reason := []\<rparr>"

definition capacity_is :: "slot_row list \<Rightarrow> reservation_row list \<Rightarrow> full_state \<Rightarrow> bool" where
  "capacity_is slots reservations st \<longleftrightarrow>
     filter live_slot (exec_command_slots (fst st)) = slots \<and>
     filter live_reservation (exec_capacity_reservations (fst st)) = reservations \<and>
     distinct (map res_session_id (exec_capacity_reservations (fst st)))"

definition session_pinned :: "reservation_row \<Rightarrow> session_row option \<Rightarrow> full_state \<Rightarrow> bool" where
  "session_pinned x y st \<longleftrightarrow>
     x \<in> set (exec_capacity_reservations (fst st)) \<and> live_reservation x \<and>
     distinct (map res_session_id (exec_capacity_reservations (fst st))) \<and>
     find_session (res_session_id x) (fst st) = y"

definition command_pinned :: "slot_row \<Rightarrow> command_row option \<Rightarrow> full_state \<Rightarrow> bool" where
  "command_pinned x y st \<longleftrightarrow>
     x \<in> set (exec_command_slots (fst st)) \<and> live_slot x \<and>
     map_option command_core (find_command (slt_command_id x) (fst st)) = y"

lemma find_core_update:
  "map_option command_core (find_command cid (exec_commands_update (update_rows P
     (\<lambda>c. c\<lparr>cmd_output_complete := 0, cmd_output_unavailable_reason := reason\<rparr>)) db)) =
   map_option command_core (find_command cid db)"
proof -
  have "map_option command_core (find (\<lambda>c. cmd_command_id c = cid) (update_rows P
      (\<lambda>c. c\<lparr>cmd_output_complete := 0, cmd_output_unavailable_reason := reason\<rparr>) rows)) =
    map_option command_core (find (\<lambda>c. cmd_command_id c = cid) rows)" for rows
    by (induction rows) (auto simp: update_rows_def command_core_def)
  then show ?thesis by (simp add: find_command_def)
qed

lemma find_filter_key: "k \<notin> K \<Longrightarrow> find (\<lambda>r. key r = k) (filter (\<lambda>r. key r \<notin> K) rows) = find (\<lambda>r. key r = k) rows"
  by (induction rows) auto

lemma filter_live: "(\<And>r. r \<in> set rows \<Longrightarrow> live r \<Longrightarrow> keep r) \<Longrightarrow> filter (\<lambda>r. keep r \<and> live r) rows = filter live rows"
  by (induction rows) auto

text \<open>The commands chosen hold no live slot, the sessions chosen no live reservation.\<close>

lemma live_slot_not_collected: "x \<in> set (exec_command_slots db) \<Longrightarrow> live_slot x \<Longrightarrow> slt_command_id x \<notin> set (gcCommandIDs cutoff (db, rt))"
  by (auto simp: gcCommandIDs_def gc_command_def slot_pins_def list_ex_iff split: option.splits)

lemma live_reservation_not_collected:
  assumes "distinct (map res_session_id (exec_capacity_reservations db))"
    and "x \<in> set (exec_capacity_reservations db)" "live_reservation x"
  shows "res_session_id x \<notin> set (gcSessionIDs cutoff (db, rt))"
proof -
  have "find_reservation (res_session_id x) db = Some x"
    using assms(2) by (simp add: find_reservation_def find_key_Some [OF assms(1)])
  then show ?thesis
    using assms(3) by (auto simp: gcSessionIDs_def gc_session_def split: option.splits)
qed

lemma collect_runs:
  "collect_jobs cutoff (db, rt) = Inr (n, st) \<Longrightarrow>
     st = (exec_jobs_update (filter (\<lambda>j. job_job_id j \<notin> set (gcJobIDs cutoff (db, rt)))) db, rt)"
  "collect_commands cutoff (db, rt) = Inr (n, st) \<Longrightarrow>
     st = (exec_commands_update (filter (\<lambda>c. cmd_command_id c \<notin> set (gcCommandIDs cutoff (db, rt))))
       (exec_command_events_update (filter (\<lambda>e. evt_command_id e \<notin> set (gcCommandIDs cutoff (db, rt))))
         (exec_command_slots_update (filter (\<lambda>r. slt_command_id r \<notin> set (gcCommandIDs cutoff (db, rt)))) db)), rt)"
  "collect_sessions cutoff (db, rt) = Inr (n, st) \<Longrightarrow>
     st = (exec_sessions_update (filter (\<lambda>s. ses_session_id s \<notin> set (gcSessionIDs cutoff (db, rt))))
       (exec_session_lifecycle_update (filter (\<lambda>l. slc_session_id l \<notin> set (gcSessionIDs cutoff (db, rt))))
         (exec_capacity_reservations_update (filter (\<lambda>r. res_session_id r \<notin> set (gcSessionIDs cutoff (db, rt)))) db)), rt)"
  by (auto simp: collect_jobs_def collect_commands_def collect_sessions_def tx_bind_Inr tx_query_Inr
      dest!: delete_jobs_run delete_commands_run delete_sessions_run)

interpretation capacity: gc_predicate "capacity_is slots reservations" for slots reservations
proof unfold_locales
  show "tx_keeps (capacity_is slots reservations) (collect_jobs cutoff)" for cutoff
    by (rule tx_keepsI) (auto simp: capacity_is_def dest!: collect_runs)
  show "tx_keeps (capacity_is slots reservations) (collect_commands cutoff)" for cutoff
    by (rule tx_keepsI) (auto simp: capacity_is_def filter_live live_slot_not_collected dest!: collect_runs)
  show "tx_keeps (capacity_is slots reservations) (collect_sessions cutoff)" for cutoff
    by (rule tx_keepsI)
      (auto simp: capacity_is_def filter_live live_reservation_not_collected distinct_map_filter dest!: collect_runs)
qed (simp_all add: capacity_is_def)

interpretation pinned_session: gc_predicate "session_pinned x y" for x y
proof unfold_locales
  show "tx_keeps (session_pinned x y) (collect_jobs cutoff)" for cutoff
    by (rule tx_keepsI) (auto simp: session_pinned_def find_session_def dest!: collect_runs)
  show "tx_keeps (session_pinned x y) (collect_commands cutoff)" for cutoff
    by (rule tx_keepsI) (auto simp: session_pinned_def find_session_def dest!: collect_runs)
  show "tx_keeps (session_pinned x y) (collect_sessions cutoff)" for cutoff
    by (rule tx_keepsI)
      (auto simp: session_pinned_def find_session_def live_reservation_not_collected find_filter_key distinct_map_filter
        dest!: collect_runs)
qed (simp_all add: session_pinned_def find_session_def)

interpretation pinned_command: gc_predicate "command_pinned x y" for x y
proof unfold_locales
  show "tx_keeps (command_pinned x y) (collect_jobs cutoff)" for cutoff
    by (rule tx_keepsI) (auto simp: command_pinned_def find_command_def dest!: collect_runs)
  show "tx_keeps (command_pinned x y) (collect_commands cutoff)" for cutoff
    by (rule tx_keepsI)
      (auto simp: command_pinned_def find_command_def live_slot_not_collected find_filter_key dest!: collect_runs)
  show "tx_keeps (command_pinned x y) (collect_sessions cutoff)" for cutoff
    by (rule tx_keepsI) (auto simp: command_pinned_def find_command_def dest!: collect_runs)
qed (simp_all add: command_pinned_def find_core_update, simp_all add: find_command_def)

text \<open>C21. A pass never frees capacity that is still held: the live command slots and the live session
  reservations are the same afterwards, whatever else it collects or wherever it fails, the session of a
  live reservation is untouched, and the command of a live slot keeps everything but the columns that
  say its output has expired.\<close>

theorem gc_never_frees_capacity:
  assumes keys: "distinct (map res_session_id (exec_capacity_reservations (st_db s)))"
    and run: "CollectGarbage fault now (s, rt) options = (r, s', rt')"
  shows "filter live_slot (exec_command_slots (st_db s')) = filter live_slot (exec_command_slots (st_db s)) \<and>
    filter live_reservation (exec_capacity_reservations (st_db s')) =
      filter live_reservation (exec_capacity_reservations (st_db s)) \<and>
    (\<forall>x \<in> set (exec_capacity_reservations (st_db s)). live_reservation x \<longrightarrow>
       find_session (res_session_id x) (st_db s') = find_session (res_session_id x) (st_db s)) \<and>
    (\<forall>x \<in> set (exec_command_slots (st_db s)). live_slot x \<longrightarrow>
       map_option command_core (find_command (slt_command_id x) (st_db s')) =
       map_option command_core (find_command (slt_command_id x) (st_db s)))"
  using capacity.collect_keeps [OF _ run] pinned_session.collect_keeps [OF _ run] pinned_command.collect_keeps [OF _ run] keys
  by (simp add: capacity_is_def session_pinned_def command_pinned_def)

section \<open>What stops a pass\<close>

definition blocked :: "time \<Rightarrow> string \<Rightarrow> full_state \<Rightarrow> bool" where
  "blocked cutoff cid st \<longleftrightarrow>
     (\<exists>c \<in> set (exec_commands (fst st)). cmd_command_id c = cid \<and> gc_command cutoff st c) \<and>
     list_ex (\<lambda>r. efr_command_id r = cid) (mailbox_event_file_references (snd st))"

lemma gc_command_frame [simp]:
  "gc_command cutoff (exec_idempotency_update f1 db, rt) = gc_command cutoff (db, rt)"
  "gc_command cutoff (exec_idempotency_expiry_warnings_update f2 db, rt) = gc_command cutoff (db, rt)"
  "gc_command cutoff (exec_command_events_update f3 db, rt) = gc_command cutoff (db, rt)"
  "gc_command cutoff (exec_commands_update f4 db, rt) = gc_command cutoff (db, rt)"
  "gc_command cutoff (db, local_remote_command_projections_update g1 rt) = gc_command cutoff (db, rt)"
  "gc_command cutoff (db, local_remote_job_projections_update g2 rt) = gc_command cutoff (db, rt)"
  "gc_command cutoff (db, local_remote_events_update g3 rt) = gc_command cutoff (db, rt)"
  "gc_command cutoff (db, mailbox_ingress_diagnostics_update g4 rt) = gc_command cutoff (db, rt)"
  "gc_command cutoff (db, rt) (c\<lparr>cmd_output_complete := a, cmd_output_unavailable_reason := b\<rparr>) = gc_command cutoff (db, rt) c"
  by (simp_all add: gc_command_def fun_eq_iff find_session_def slot_pins_def completed_command_def split: option.split)

lemma gc_command_jobs:
  assumes "\<And>j. j \<in> set (f (exec_jobs db)) \<Longrightarrow> job_command_id j \<in> job_command_id ` set (exec_jobs db)"
    and "gc_command cutoff (db, rt) c"
  shows "gc_command cutoff (exec_jobs_update f db, rt) c"
proof -
  have "\<not> list_ex (\<lambda>j. job_command_id j = cmd_command_id c) (f (exec_jobs db))"
    if "\<not> list_ex (\<lambda>j. job_command_id j = cmd_command_id c) (exec_jobs db)"
    using that assms(1) by (fastforce simp: list_ex_iff)
  then show ?thesis
    using assms(2) by (auto simp: gc_command_def find_session_def slot_pins_def split: option.splits)
qed

interpretation blocked: output_predicate "blocked cutoff cid" for cutoff cid
proof unfold_locales
  fix db rt P
  assume "blocked cutoff cid (db, rt)"
  then obtain c where c: "c \<in> set (exec_commands db)" "cmd_command_id c = cid" "gc_command cutoff (db, rt) c"
    and r: "list_ex (\<lambda>r. efr_command_id r = cid) (mailbox_event_file_references rt)"
    by (auto simp: blocked_def)
  let ?f = "\<lambda>c. c\<lparr>cmd_output_complete := 0, cmd_output_unavailable_reason := retention_expired\<rparr>"
  have "(if P c then ?f c else c) \<in> set (update_rows P ?f (exec_commands db))"
    using c(1) by (auto simp: update_rows_def)
  moreover have "cmd_command_id (if P c then ?f c else c) = cid" "gc_command cutoff (db, rt) (if P c then ?f c else c)"
    using c by simp_all
  ultimately show "blocked cutoff cid (exec_commands_update (update_rows P ?f) db, rt)"
    using r unfolding blocked_def by (auto intro!: bexI [of _ "if P c then ?f c else c"])
next
  fix db rt Q
  assume "blocked cutoff cid (db, rt)"
  then show "blocked cutoff cid (exec_jobs_update (update_rows Q
      (\<lambda>j. j\<lparr>job_output_complete := 0, job_output_unavailable_reason := retention_expired\<rparr>)) db, rt)"
    by (auto simp: blocked_def update_rows_def intro!: gc_command_jobs bexI)
qed (simp_all add: blocked_def)

text \<open>A transaction that cannot commit from the states of a predicate.\<close>

definition tx_stops :: "('s \<Rightarrow> bool) \<Rightarrow> ('s, 'a) tx \<Rightarrow> bool" where
  "tx_stops I m \<longleftrightarrow> (\<forall>s x s'. I s \<longrightarrow> m s \<noteq> Inr (x, s'))"

lemma tx_stops_now: "tx_stops I m \<Longrightarrow> tx_stops I (tx_bind m f)"
  unfolding tx_stops_def tx_bind_Inr by blast

lemma tx_stops_later: "tx_keeps I m \<Longrightarrow> (\<And>x. tx_stops I (f x)) \<Longrightarrow> tx_stops I (tx_bind m f)"
  unfolding tx_stops_def tx_keeps_def tx_bind_Inr by blast

lemma delete_commands_blocked:
  assumes "cid \<in> set ids" "list_ex (\<lambda>c. cmd_command_id c = cid) (exec_commands db)"
    and "list_ex (\<lambda>r. efr_command_id r = cid) (mailbox_event_file_references rt)"
  shows "delete_commands ids (db, rt) \<noteq> Inr (n, st)"
  using assms
proof (induction ids arbitrary: db n)
  case (Cons i ids)
  show ?case
  proof
    assume run: "delete_commands (i # ids) (db, rt) = Inr (n, st)"
    let ?db = "exec_command_events_update (filter (\<lambda>e. evt_command_id e \<noteq> i))
      (exec_command_slots_update (filter (\<lambda>r. slt_command_id r \<noteq> i)) db)"
    from run obtain m where free: "\<not> (list_ex (\<lambda>c. cmd_command_id c = i) (exec_commands db) \<and> command_referenced (?db, rt) i)"
      and rest: "delete_commands ids (exec_commands_update (filter (\<lambda>c. cmd_command_id c \<noteq> i)) ?db, rt) = Inr (m, st)"
      by (auto simp: tx_bind_Inr tx_return_Inr delete_restricted_Inr on_database_Inr sql_delete_Inr)
    show False
    proof (cases "cid = i")
      case True
      then show ?thesis using free Cons.prems by (simp add: command_referenced_def)
    next
      case False
      then show ?thesis
        using Cons.IH [of "exec_commands_update (filter (\<lambda>c. cmd_command_id c \<noteq> i)) ?db" m] Cons.prems rest
        by (auto simp: list_ex_iff)
    qed
  qed
qed simp

lemma collect_body_blocked:
  assumes "blocked m cid (db, rt)"
  shows "collect_body now oc m (db, rt) \<noteq> Inr (x, st)"
proof -
  have jobs: "tx_keeps (blocked m cid) (collect_jobs m)"
    by (rule tx_keepsI) (auto simp: blocked_def dest!: collect_runs intro!: gc_command_jobs bexI)
  have "collect_commands m st \<noteq> Inr (n, st')" if "blocked m cid st" for st n st'
  proof -
    obtain db rt where st: "st = (db, rt)" by fastforce
    have "cid \<in> set (gcCommandIDs m (db, rt))"
      using that by (auto simp: st blocked_def gcCommandIDs_def)
    moreover have "list_ex (\<lambda>c. cmd_command_id c = cid) (exec_commands db)"
      using that by (auto simp: st blocked_def list_ex_iff)
    ultimately show ?thesis
      using that delete_commands_blocked [of cid "gcCommandIDs m (db, rt)" db rt n st']
      by (simp add: st blocked_def collect_commands_def tx_bind_def tx_query_def)
  qed
  then have "tx_stops (blocked m cid) (collect_commands m)" by (simp add: tx_stops_def)
  then have "tx_stops (blocked m cid) (collect_body now oc m)"
    unfolding collect_body_def
    by (intro tx_stops_later [OF blocked.keeps_keys(1)] tx_stops_later [OF blocked.keeps_keys(2)]
        tx_stops_later [OF blocked.keeps_output(1)] tx_stops_later [OF blocked.keeps_output(2)]
        tx_stops_later [OF blocked.keeps_output(3)] tx_stops_later [OF blocked.keeps_output(4)]
        tx_stops_later [OF blocked.keeps_output(5)] tx_stops_later [OF blocked.keeps_output(6)]
        tx_stops_later [OF jobs] tx_stops_now)
  then show ?thesis using assms unfolding tx_stops_def by blast
qed

text \<open>C24. A command that a mailbox response refers to stops garbage collection: once the command is
  old enough to be collected, every pass fails on the foreign key and leaves the database as it was,
  expired keys and output included.\<close>

theorem gc_blocked_by_mailbox_reference:
  assumes c: "c \<in> set (exec_commands (st_db s))"
    and old: "gc_command (now - (if gco_MetadataRetention options = 0 then DefaultMetadataRetention
      else gco_MetadataRetention options)) (st_db s, rt) c"
    and reference: "list_ex (\<lambda>x. efr_command_id x = cmd_command_id c) (mailbox_event_file_references rt)"
    and run: "CollectGarbage fault now (s, rt) options = (r, s', rt')"
  shows "(\<exists>e. r = Inl e) \<and> st_db s' = st_db s \<and> rt' = rt"
proof -
  define m where "m = now - (if gco_MetadataRetention options = 0 then DefaultMetadataRetention
      else gco_MetadataRetention options)"
  have "blocked m (cmd_command_id c) (st_db s, rt)"
    using c old reference by (auto simp: blocked_def m_def)
  then have never: "collect_body now oc m (st_db s, rt) \<noteq> Inr (x, st)" for oc x st
    by (rule collect_body_blocked)
  show ?thesis
  proof (cases "r = Inl ErrInvalidGarbageCollection \<and> (s', rt') = (s, rt)")
    case False
    then obtain oc where "full_transaction fault (s, rt) (collect_body now oc m) = (r, s', rt')"
      using run by (auto simp: CollectGarbage_def Let_def m_def split: if_splits)
    then show ?thesis
      by (cases rule: full_transaction_cases) (use never in \<open>cases r; auto\<close>)+
  qed simp
qed

section \<open>Idempotency keys\<close>

definition keys_are :: "idempotency_row list \<Rightarrow> full_state \<Rightarrow> bool" where
  "keys_are rows st \<longleftrightarrow> exec_idempotency (fst st) = rows"

lemma warn_keys: "warn_expired_keys now rows db = Inr (u, db') \<Longrightarrow> exec_idempotency db' = exec_idempotency db"
proof (induction now rows arbitrary: db rule: warn_expired_keys.induct)
  case (2 now r rows)
  then obtain c e db1 where run: "recordIdempotencyExpiryWarningOnConnection c (idm_operation r) (idm_key r) e now db = Inr ((), db1)"
    and rest: "warn_expired_keys now rows db1 = Inr (u, db')"
    by (auto simp: tx_bind_Inr tx_lift_Inr)
  have "exec_idempotency db1 = exec_idempotency db"
    using run by (auto simp: recordIdempotencyExpiryWarningOnConnection_def Let_def tx_simps split: if_splits option.splits)
  then show ?case using 2(1) [OF rest] by simp
qed simp

lemma drop_warnings_keys:
  "drop_expired_warnings now rows db = Inr (u, db') \<Longrightarrow> exec_idempotency db' = exec_idempotency db"
  by (induction now rows arbitrary: db rule: drop_expired_warnings.induct)
    (auto simp: tx_bind_Inr tx_lift_Inr sql_delete_Inr split: if_splits)

lemma keeps_keys_after:
  "tx_keeps (keys_are rows) (on_database (expire_warnings now))"
  "tx_keeps (keys_are rows) (expire_command_output cutoff)" "tx_keeps (keys_are rows) expire_job_output"
  "tx_keeps (keys_are rows) (expire_remote_output cutoff)" "tx_keeps (keys_are rows) expire_remote_jobs"
  "tx_keeps (keys_are rows) (delete_command_events now)" "tx_keeps (keys_are rows) (delete_remote_events now)"
  "tx_keeps (keys_are rows) (collect_jobs cutoff)" "tx_keeps (keys_are rows) (collect_commands cutoff)"
  "tx_keeps (keys_are rows) (collect_sessions cutoff)" "tx_keeps (keys_are rows) (delete_diagnostics cutoff)"
  by (rule tx_keepsI, auto simp: keys_are_def expire_warnings_def expire_command_output_def expire_job_output_def
      expire_remote_output_def expire_remote_jobs_def delete_command_events_def delete_remote_events_def
      delete_diagnostics_def on_database_Inr on_retained_Inr sql_update_Inr sql_delete_Inr tx_bind_Inr tx_query_Inr
      dest!: collect_runs dest: drop_warnings_keys)+

lemma tx_bind_established:
  "tx_bind m f s = Inr (x, st) \<Longrightarrow> (\<And>n s1. m s = Inr (n, s1) \<Longrightarrow> J s1) \<Longrightarrow> (\<And>n. tx_keeps J (f n)) \<Longrightarrow> J st"
  unfolding tx_bind_Inr tx_keeps_def by blast

text \<open>A pass removes exactly the bindings whose expiry is not greater as text.\<close>

lemma collect_body_keys:
  assumes run: "collect_body now oc mc (db, rt) = Inr (x, st)"
  shows "exec_idempotency (fst st) = filter (\<lambda>r. \<not> key_expired now r) (exec_idempotency db)"
proof -
  let ?rows = "filter (\<lambda>r. \<not> key_expired now r) (exec_idempotency db)"
  have "keys_are ?rows st1" if "on_database (expire_idempotency now) (db, rt) = Inr (n, st1)" for n st1
    using that by (auto simp: keys_are_def on_database_Inr expire_idempotency_def tx_bind_Inr tx_query_Inr sql_delete_Inr
        dest!: warn_keys)
  then have "keys_are ?rows st"
    by (rule tx_bind_established [OF run [unfolded collect_body_def]])
      (assumption, intro tx_keeps_bind tx_keeps_reads keeps_keys_after)
  then show ?thesis by (simp add: keys_are_def)
qed

lemma CollectGarbage_keys:
  assumes "CollectGarbage fault now (s, rt) options = (r, s', rt')"
  shows "exec_idempotency (st_db s') = exec_idempotency (st_db s) \<and> (\<exists>e. r = Inl e) \<or>
    exec_idempotency (st_db s') = filter (\<lambda>b. \<not> key_expired now b) (exec_idempotency (st_db s)) \<and> (\<exists>x. r = Inr x)"
proof (cases "r = Inl ErrInvalidGarbageCollection \<and> (s', rt') = (s, rt)")
  case False
  then obtain oc mc where "full_transaction fault (s, rt) (collect_body now oc mc) = (r, s', rt')"
    using assms by (auto simp: CollectGarbage_def Let_def split: if_splits)
  then show ?thesis
  proof (cases rule: full_transaction_cases)
    case 1
    then show ?thesis by (cases r) auto
  next
    case (2 x db)
    then show ?thesis using collect_body_keys [OF 2(1)] by simp
  qed
qed simp

lemma find_filter_kept: "find P xs = Some x \<Longrightarrow> Q x \<Longrightarrow> distinct (map key xs) \<Longrightarrow> (\<And>a. P a \<longleftrightarrow> key a = k) \<Longrightarrow> find P (filter Q xs) = Some x"
  by (induction xs) (auto split: if_splits simp: find_None_iff)

text \<open>C23. A pass keeps every idempotency binding that has at least a second to live, whatever else it
  collects.\<close>

theorem gc_keeps_binding:
  assumes "distinct (map idempotency_key (exec_idempotency (st_db s)))"
    and "find_binding c operation key (st_db s) = Some row"
    and "idm_expires_at row = formatStoredTime e" "valid_time e" "valid_time now" "now + Second \<le> e"
    and "CollectGarbage fault now (s, rt) options = (r, s', rt')"
  shows "find_binding c operation key (st_db s') = Some row"
proof -
  have "\<not> key_expired now row"
    using stored_text_le [OF assms(5,4)] assms(3,6) by (auto simp: key_expired_def)
  then have "find (\<lambda>r. idempotency_key r = idempotency_key_of c operation key)
      (filter (\<lambda>b. \<not> key_expired now b) (exec_idempotency (st_db s))) = Some row"
    using assms(1,2) by (intro find_filter_kept) (auto simp: find_binding_def)
  then show ?thesis
    using CollectGarbage_keys [OF assms(7)] assms(2) by (auto simp: find_binding_def)
qed

text \<open>C25. The text comparison forgets a binding up to a second early: a pass at a whole second removes
  every binding that expires later within that second.\<close>

theorem gc_forgets_early:
  assumes "distinct (map idempotency_key (exec_idempotency (st_db s)))"
    and "find_binding c operation key (st_db s) = Some row"
    and "idm_expires_at row = formatStoredTime e" "now mod Second = 0" "now < e" "e < now + Second"
    and "CollectGarbage fault now (s, rt) options = (Inr report, s', rt')"
  shows "find_binding c operation key (st_db s') = None"
proof -
  obtain q where q: "now = Second * q" using assms(4) by (auto simp: mod_eq_0_iff_dvd)
  have "e = Second * q + (e - now)" "0 \<le> e - now" "e - now < Second" using assms(5,6) by (simp_all add: q)
  then have "e div Second = q" "e mod Second = e - now"
    by (rule int_div_pos_eq, rule int_mod_pos_eq)
  then have e: "e div Second = now div Second" "e mod Second \<noteq> 0"
    using assms(5) by (simp_all add: q Second_def)
  have "key_expired now row"
    using stored_text_fraction [OF e(1) assms(4) e(2)] assms(3) by (simp add: key_expired_def)
  moreover have "b = row" if "b \<in> set (exec_idempotency (st_db s))" "idempotency_key b = idempotency_key_of c operation key" for b
    using that assms(2) find_key_Some [OF assms(1), of "idempotency_key_of c operation key" row]
    by (metis assms(1) distinct_key_eq find_binding_def)
  ultimately show ?thesis
    using CollectGarbage_keys [OF assms(7)] by (auto simp: find_binding_def find_None_iff)
qed

section \<open>Samples\<close>

definition no_tables :: retained_tables where
  "no_tables = \<lparr>exec_completed_teardown_recovery_finalizations = [],
     exec_commandless_lost_runtime_recovery_finalizations = [], local_remote_command_projections = [],
     local_remote_job_projections = [], local_remote_events = [], local_remote_event_gaps = [], mailbox_exchanges = [],
     mailbox_event_file_references = [], mailbox_remote_event_file_references = [], mailbox_event_file_cleanup = [],
     mailbox_ingress_diagnostics = []\<rparr>"

definition default_options :: GarbageCollectionOptions where
  "default_options = \<lparr>gco_OutputRetention = 0, gco_MetadataRetention = 0\<rparr>"

lemma st_db_new: "st_db (NewAuthorityStore db) = db"
  by (simp add: NewAuthorityStore_def)

theorem gc_never_frees_capacity_witness:
  "filter live_slot (exec_command_slots (st_db (fst (snd (CollectGarbage None (sample_now + Hour)
     (NewAuthorityStore lost_db, no_tables) \<lparr>gco_OutputRetention = Minute, gco_MetadataRetention = Minute\<rparr>))))) =
   [new_slot ''c1'' sample_now]"
proof -
  let ?run = "CollectGarbage None (sample_now + Hour) (NewAuthorityStore lost_db, no_tables)
    \<lparr>gco_OutputRetention = Minute, gco_MetadataRetention = Minute\<rparr>"
  have "distinct (map res_session_id (exec_capacity_reservations lost_db))"
    "filter live_slot (exec_command_slots lost_db) = [new_slot ''c1'' sample_now]"
    by (simp_all add: lost_db_def new_slot_def live_slot_def)
  moreover have "?run = (fst ?run, fst (snd ?run), snd (snd ?run))" by simp
  ultimately show ?thesis
    using gc_never_frees_capacity [of "NewAuthorityStore lost_db" None "sample_now + Hour" no_tables] by (simp only: st_db_new)
qed

theorem gc_blocked_by_mailbox_reference_witness:
  "\<exists>e. fst (CollectGarbage None (sample_now + Second) (NewAuthorityStore (lost_db\<lparr>exec_command_slots := []\<rparr>),
     no_tables\<lparr>mailbox_event_file_references := [\<lparr>efr_exchange_id = ''x1'', efr_command_id = ''c1''\<rparr>]\<rparr>)
     \<lparr>gco_OutputRetention = Second, gco_MetadataRetention = Second\<rparr>) = Inl e"
proof -
  let ?s = "NewAuthorityStore (lost_db\<lparr>exec_command_slots := []\<rparr>)"
    and ?rt = "no_tables\<lparr>mailbox_event_file_references := [\<lparr>efr_exchange_id = ''x1'', efr_command_id = ''c1''\<rparr>]\<rparr>"
    and ?options = "\<lparr>gco_OutputRetention = Second, gco_MetadataRetention = Second\<rparr>"
    and ?c = "queued_row\<lparr>cmd_state := CommandStateLost, cmd_final_event_sequence := Some 3\<rparr>"
  let ?run = "CollectGarbage None (sample_now + Second) (?s, ?rt) ?options"
  have times: "cmd_updated_at queued_row = formatStoredTime sample_now" "ses_updated_at ready_row = formatStoredTime sample_now"
    by (simp_all add: queued_row_def command_row_of_def ready_row_def session_row_of_def)
  have "find_session ''s1'' (lost_db\<lparr>exec_command_slots := []\<rparr>) = Some (ready_row\<lparr>ses_state := SessionStateLost\<rparr>)"
    by (simp add: find_session_def lost_db_def)
  then have "gc_command sample_now (st_db ?s, ?rt) ?c"
    by (simp add: st_db_new gc_command_def times terminal_command_states_def terminal_session_states_def slot_pins_def
        completed_command_def no_tables_def) (simp add: lost_db_def empty_database_def)
  moreover have "?c \<in> set (exec_commands (st_db ?s))" by (simp add: st_db_new lost_db_def)
  moreover have "?run = (fst ?run, fst (snd ?run), snd (snd ?run))" by simp
  ultimately show ?thesis
    using gc_blocked_by_mailbox_reference [of ?c ?s "sample_now + Second" ?options ?rt None "fst ?run" "fst (snd ?run)" "snd (snd ?run)"]
    by (simp add: no_tables_def Second_def)
qed

definition key_binding :: "time \<Rightarrow> IdempotencyRecord" where
  "key_binding e = \<lparr>idr_Controller = sample_controller, idr_Operation = ''run'', idr_Key = ''k1'', idr_Hash = sample_hash,
     idr_ResourceID = ''j1'', idr_CreatedAt = sample_now, idr_ExpiresAt = e, idr_DeduplicationWarning = False\<rparr>"

definition key_db :: "time \<Rightarrow> database" where
  "key_db e = empty_database\<lparr>exec_idempotency := [binding_row (key_binding e)]\<rparr>"

lemma key_db_parts:
  "exec_idempotency (key_db e) = [binding_row (key_binding e)]"
  "find_binding sample_controller ''run'' ''k1'' (key_db e) = Some (binding_row (key_binding e))"
  "idm_expires_at (binding_row (key_binding e)) = formatStoredTime e"
  by (simp_all add: key_db_def find_binding_def bound_key_def key_binding_def) (simp add: binding_row_def)

theorem gc_keeps_binding_witness:
  "find_binding sample_controller ''run'' ''k1'' (st_db (fst (snd (CollectGarbage None sample_now
     (NewAuthorityStore (key_db (sample_now + Hour)), no_tables) default_options)))) =
   Some (binding_row (key_binding (sample_now + Hour)))"
proof -
  let ?run = "CollectGarbage None sample_now (NewAuthorityStore (key_db (sample_now + Hour)), no_tables) default_options"
  have "valid_time (sample_now + Hour)" "sample_now + Second \<le> sample_now + Hour"
    by (simp_all add: valid_time_def Date_def sample_now_def Hour_def Minute_def Second_def days_before_year_def)
  moreover have "?run = (fst ?run, fst (snd ?run), snd (snd ?run))" by simp
  ultimately show ?thesis
    using gc_keeps_binding [of "NewAuthorityStore (key_db (sample_now + Hour))" sample_controller "''run''" "''k1''"
        "binding_row (key_binding (sample_now + Hour))" "sample_now + Hour" sample_now None no_tables default_options
        "fst ?run" "fst (snd ?run)" "snd (snd ?run)"]
      sample_times(1) key_db_parts [of "sample_now + Hour"]
    by (simp add: st_db_new)
qed

definition early_expiry :: time where
  "early_expiry = sample_now + 500000000"

lemma early_times:
  "valid_time early_expiry" "valid_time (early_expiry + DefaultMetadataRetention)" "sample_now mod Second = 0"
  "sample_now < early_expiry" "early_expiry < sample_now + Second" "sample_now < early_expiry + DefaultMetadataRetention"
  by (simp_all add: valid_time_def Date_def sample_now_def early_expiry_def DefaultMetadataRetention_def Hour_def Minute_def
      Second_def days_before_year_def)

lemma early_key_expired: "key_expired sample_now (binding_row (key_binding early_expiry))"
proof -
  have "early_expiry div Second = sample_now div Second" "early_expiry mod Second \<noteq> 0"
    by (simp_all add: early_expiry_def sample_now_def Second_def)
  then have "formatStoredTime early_expiry < formatStoredTime sample_now"
    using early_times(3) by (intro stored_text_fraction)
  then show ?thesis by (simp add: key_expired_def key_db_parts(3))
qed

definition early_warning :: expiry_warning_row where
  "early_warning = \<lparr>iew_controller_type = ci_type sample_controller, iew_controller_id = ci_id sample_controller,
     iew_operation = ''run'', iew_fingerprint = idempotencyKeyFingerprint sample_controller ''run'' ''k1'',
     iew_warning_until = formatStoredTime (early_expiry + DefaultMetadataRetention)\<rparr>"

lemma early_pass:
  "\<exists>report st. collect_body sample_now oc mc (key_db early_expiry, no_tables) = Inr (report, st)"
proof -
  let ?w = early_warning and ?b = "binding_row (key_binding early_expiry)"
  have b: "idm_controller_id ?b = ci_id sample_controller" "idm_controller_type ?b = ci_type sample_controller"
    "idm_operation ?b = ''run''" "idm_key ?b = ''k1''" "idm_expires_at ?b = formatStoredTime early_expiry"
    by (simp_all add: binding_row_def key_binding_def)
  have c: "NewControllerID (ci_id sample_controller) = Inr (ci_id sample_controller)"
    "NewControllerIdentity (ci_type sample_controller) (ci_id sample_controller) = Inr sample_controller"
    by (simp_all add: sample_controller_def)
  have "sql_nonempty ''run''" "sql_nonempty ''alice''" by (simp_all add: sql_nonempty_def NUL_def)
  then have ok: "expiry_warning_constraints ?w (key_db early_expiry)"
    by (simp add: expiry_warning_constraints_def expiry_warning_check_def early_warning_def sample_controller_def key_db_def
        empty_database_def idempotencyKeyFingerprint_def sha256_Size_def)
  let ?db1 = "exec_idempotency_expiry_warnings_update (\<lambda>rows. rows @ [?w]) (key_db early_expiry)"
  have "find_warning sample_controller ''run'' ''k1'' (key_db early_expiry) = None"
    by (simp add: find_warning_def key_db_def empty_database_def)
  then have rec: "recordIdempotencyExpiryWarningOnConnection sample_controller ''run'' ''k1'' early_expiry sample_now
      (key_db early_expiry) = Inr ((), ?db1)"
    using early_times(6) ok
    by (simp add: recordIdempotencyExpiryWarningOnConnection_def Let_def tx_steps sql_insert_def early_warning_def)
  have keys: "expire_idempotency sample_now (key_db early_expiry) =
      Inr (1, exec_idempotency_update (filter (\<lambda>r. \<not> key_expired sample_now r)) ?db1)"
    by (simp add: expire_idempotency_def tx_bind_def tx_query_def tx_lift_def key_db_parts early_key_expired b c rec early_times
        sql_delete_def tx_return_def del: new_id_Inr NewControllerIdentity_Inr)
  have warnings: "expire_warnings sample_now (exec_idempotency_update f ?db1) = Inr ((), exec_idempotency_update f ?db1)" for f
    using early_times(2,6)
    by (simp add: expire_warnings_def tx_bind_def tx_query_def tx_lift_def tx_return_def early_warning_def key_db_def empty_database_def)
  show ?thesis
    by (simp add: collect_body_def tx_bind_def on_database_def keys warnings)
      (simp add: expire_command_output_def expire_job_output_def expire_remote_output_def expire_remote_jobs_def
        delete_command_events_def delete_remote_events_def delete_diagnostics_def collect_jobs_def collect_commands_def
        collect_sessions_def gcJobIDs_def gcCommandIDs_def gcSessionIDs_def tx_bind_def tx_query_def tx_return_def
        on_database_def on_retained_def sql_update_def sql_delete_def key_db_def empty_database_def no_tables_def
        update_rows_def early_key_expired)
qed

theorem gc_forgets_early_witness:
  "find_binding sample_controller ''run'' ''k1'' (key_db early_expiry) \<noteq> None \<and> sample_now < early_expiry \<and>
   find_binding sample_controller ''run'' ''k1'' (st_db (fst (snd (CollectGarbage None sample_now
     (NewAuthorityStore (key_db early_expiry), no_tables) default_options)))) = None"
proof -
  let ?run = "CollectGarbage None sample_now (NewAuthorityStore (key_db early_expiry), no_tables) default_options"
  obtain report db rt where "collect_body sample_now (sample_now - DefaultOutputRetention) (sample_now - DefaultMetadataRetention)
      (key_db early_expiry, no_tables) = Inr (report, db, rt)"
    using early_pass by (metis surj_pair)
  then have "?run = (Inr report, (NewAuthorityStore (key_db early_expiry))\<lparr>st_db := db\<rparr>, rt)"
    by (simp add: CollectGarbage_def default_options_def full_transaction_def st_db_new DefaultOutputRetention_def
        DefaultMetadataRetention_def Hour_def Minute_def Second_def)
  then show ?thesis
    using gc_forgets_early [of "NewAuthorityStore (key_db early_expiry)" sample_controller "''run''" "''k1''"
        "binding_row (key_binding early_expiry)" early_expiry sample_now None no_tables default_options report
        "(NewAuthorityStore (key_db early_expiry))\<lparr>st_db := db\<rparr>" rt]
      early_times(3-5) key_db_parts [of early_expiry]
    by (simp add: st_db_new)
qed

end
