(* ===== verification/Recovery_Properties.thy ===== *)
theory Recovery_Properties
  imports Store_Recovery_Sets Job_Properties Gc_Properties
begin

text \<open>
  What the recovery procedures promise: a confirmed mixed set gives back all the capacity that is held
  and nothing else, a repeat after a lost answer changes nothing, and garbage collection keeps whatever a
  pending finalization refers to.
\<close>

section \<open>Rows that are released\<close>

text \<open>Every row is as it was, or was live and has been released.\<close>

definition releases :: "('r \<Rightarrow> bool) \<Rightarrow> ('r \<Rightarrow> 'r) \<Rightarrow> 'r list \<Rightarrow> 'r list \<Rightarrow> bool" where
  "releases live f rows rows' \<longleftrightarrow> list_all2 (\<lambda>r r'. r' = r \<or> live r \<and> r' = f r) rows rows'"

lemma releases_refl [simp]: "releases live f rows rows"
  by (simp add: releases_def list_all2_refl)

lemma releases_trans:
  assumes "\<And>r. \<not> live (f r)" "releases live f a b" "releases live f b c"
  shows "releases live f a c"
  using assms(2,3) unfolding releases_def
  by (rule list_all2_trans [rotated]) (use assms(1) in auto)

lemma releases_update: "(\<And>r. P r \<Longrightarrow> live r) \<Longrightarrow> releases live f rows (update_rows P f rows)"
  by (induction rows) (auto simp: releases_def update_rows_def)

lemma releases_all: "releases live f rows rows' \<Longrightarrow> filter live rows' = [] \<Longrightarrow> rows' = update_rows live f rows"
  unfolding releases_def by (induction rule: list_all2_induct) (auto simp: update_rows_def split: if_splits)

lemma releases_none_left: "(\<And>r. \<not> live (f r)) \<Longrightarrow> filter live (update_rows live f rows) = []"
  by (induction rows) (auto simp: update_rows_def)

lemma released_unreleased [simp]: "\<not> unreleased_slot (slot_released now r)" "\<not> unreleased_reservation (confirmed now x)"
  by (simp_all add: unreleased_slot_def slot_released_def unreleased_reservation_def confirmed_def)

text \<open>The tables after the release of \<open>n\<close> slots and \<open>k\<close> reservations.\<close>

definition capacity_released :: "time \<Rightarrow> nat \<Rightarrow> nat \<Rightarrow> database \<Rightarrow> database \<Rightarrow> bool" where
  "capacity_released now n k db db' \<longleftrightarrow>
     releases unreleased_slot (slot_released now) (exec_command_slots db) (exec_command_slots db') \<and>
     releases unreleased_reservation (confirmed now) (exec_capacity_reservations db) (exec_capacity_reservations db') \<and>
     length (filter unreleased_slot (exec_command_slots db)) = length (filter unreleased_slot (exec_command_slots db')) + n \<and>
     length (filter unreleased_reservation (exec_capacity_reservations db)) =
       length (filter unreleased_reservation (exec_capacity_reservations db')) + k"

lemma capacity_released_refl: "capacity_released now 0 0 db db"
  by (simp add: capacity_released_def)

lemma capacity_released_trans:
  "capacity_released now n k a b \<Longrightarrow> capacity_released now m l b c \<Longrightarrow> capacity_released now (n + m) (k + l) a c"
  unfolding capacity_released_def
  by (metis (no_types, lifting) releases_trans released_unreleased add.assoc add.commute)

text \<open>Everything but the slots, the reservations and the work items of lost pairs.\<close>

definition same_records :: "database \<Rightarrow> database \<Rightarrow> bool" where
  "same_records db db' \<longleftrightarrow> db' = db\<lparr>exec_command_slots := exec_command_slots db',
     exec_capacity_reservations := exec_capacity_reservations db',
     exec_lost_runtime_recovery_finalizations := exec_lost_runtime_recovery_finalizations db'\<rparr>"

lemma same_records_refl: "same_records db db"
  by (simp add: same_records_def)

lemma same_records_trans: "same_records a b \<Longrightarrow> same_records b c \<Longrightarrow> same_records a c"
  by (cases a; cases b; cases c) (simp add: same_records_def)

definition lost_item :: "time \<Rightarrow> LostRuntimeRecoveryPair \<Rightarrow> finalization_row" where
  "lost_item now pair = \<lparr>fin_command_id = lrp_CommandID pair, fin_session_id = lrp_SessionID pair,
     fin_capacity_released_at = formatStoredTime now\<rparr>"

lemma release_pair_tables:
  assumes "releaseLostRuntimeRecoveryPair pair now db = Inr (u, db')"
  shows "capacity_released now 1 1 db db'" "same_records db db'"
    "exec_lost_runtime_recovery_finalizations db' = exec_lost_runtime_recovery_finalizations db @ [lost_item now pair]"
proof -
  let ?P = "\<lambda>r. slt_command_id r = lrp_CommandID pair \<and> slt_host_key r = schedulerHostKey \<and>
    slt_stop_confirmed_at r = None \<and> slt_released_at r = None"
  let ?Q = "\<lambda>r. res_session_id r = lrp_SessionID pair \<and> res_host_key r = reservationHostKey \<and>
    res_cleanup_confirmed_at r = None \<and> res_released_at r = None"
  from assms have n: "length (filter ?P (exec_command_slots db)) = 1" "length (filter ?Q (exec_capacity_reservations db)) = 1"
    and db': "db' = exec_lost_runtime_recovery_finalizations_update (\<lambda>rows. rows @ [lost_item now pair])
      (exec_capacity_reservations_update (update_rows ?Q (confirmed now))
        (exec_command_slots_update (update_rows ?P (slot_released now)) db))"
    by (auto simp: releaseLostRuntimeRecoveryPair_def tx_simps lost_item_def split: option.splits)
  have live: "?P r \<Longrightarrow> unreleased_slot r" "?Q x \<Longrightarrow> unreleased_reservation x" for r x
    by (simp_all add: unreleased_slot_def unreleased_reservation_def)
  show "capacity_released now 1 1 db db'"
    unfolding capacity_released_def db'
    using n length_filter_update [of unreleased_slot "slot_released now" ?P "exec_command_slots db"]
      length_filter_update [of unreleased_reservation "confirmed now" ?Q "exec_capacity_reservations db"] live
    by (simp add: releases_update)
  show "same_records db db'" by (simp add: same_records_def db')
  show "exec_lost_runtime_recovery_finalizations db' = exec_lost_runtime_recovery_finalizations db @ [lost_item now pair]"
    by (simp add: db')
qed

lemma release_pairs_tables:
  "release_pairs now pairs db = Inr (u, db') \<Longrightarrow>
   capacity_released now (length pairs) (length pairs) db db' \<and> same_records db db' \<and>
   exec_lost_runtime_recovery_finalizations db' = exec_lost_runtime_recovery_finalizations db @ map (lost_item now) pairs"
proof (induction pairs arbitrary: db)
  case Nil
  then show ?case by (simp add: tx_simps capacity_released_refl same_records_refl)
next
  case (Cons pair pairs)
  then obtain db1 where one: "releaseLostRuntimeRecoveryPair pair now db = Inr ((), db1)"
    and rest: "release_pairs now pairs db1 = Inr (u, db')" by (auto simp: tx_simps)
  note a = release_pair_tables [OF one] and b = Cons.IH [OF rest]
  show ?case
    using capacity_released_trans [OF a(1), of "length pairs" "length pairs" db'] same_records_trans [OF a(2), of db'] a(3) b
    by simp
qed

lemma release_reservation_tables:
  assumes "release_reservation sid e now (db, rt) = Inr (u, st)"
  obtains db' where "st = (db', rt)" "capacity_released now 0 1 db db'" "same_records db db'"
    "exec_lost_runtime_recovery_finalizations db' = exec_lost_runtime_recovery_finalizations db"
proof -
  let ?Q = "\<lambda>r. res_session_id r = sid \<and> res_host_key r = reservationHostKey \<and>
    res_cleanup_confirmed_at r = None \<and> res_released_at r = None"
  let ?db = "exec_capacity_reservations_update (update_rows ?Q (confirmed now)) db"
  have n: "length (filter ?Q (exec_capacity_reservations db)) = 1" and st: "st = (?db, rt)"
    using assms by (auto simp: release_reservation_def tx_simps)
  have live: "?Q x \<Longrightarrow> unreleased_reservation x" for x by (simp add: unreleased_reservation_def)
  have "capacity_released now 0 1 db ?db"
    unfolding capacity_released_def
    using n length_filter_update [of unreleased_reservation "confirmed now" ?Q "exec_capacity_reservations db"] live
    by (simp add: releases_update)
  moreover have "same_records db ?db" by (simp add: same_records_def)
  ultimately show ?thesis using that st by simp
qed

lemma release_teardowns_tables:
  assumes "release_teardowns now rs (db, rt) = Inr (u, (db', rt'))"
  shows "capacity_released now 0 (length (filter (\<lambda>r. \<not> ctr_AlreadyRecovered r) rs)) db db' \<and> same_records db db' \<and>
    exec_lost_runtime_recovery_finalizations db' = exec_lost_runtime_recovery_finalizations db \<and>
    rt' = exec_completed_teardown_recovery_finalizations_update
      (\<lambda>rows. rows @ map (\<lambda>r. completed_row r now) (filter (\<lambda>r. \<not> ctr_AlreadyRecovered r) rs)) rt"
  using assms
proof (induction rs arbitrary: db rt)
  case Nil
  then show ?case by (simp add: tx_simps capacity_released_refl same_records_refl)
next
  case (Cons r rs)
  show ?case
  proof (cases "ctr_AlreadyRecovered r")
    case True
    then show ?thesis using Cons.IH Cons.prems by simp
  next
    case False
    with Cons.prems obtain st1 where
      one: "release_reservation (ctp_SessionID (ctr_Pair r)) ErrCompletedTeardownRecoveryNotReleasable now (db, rt) = Inr ((), st1)"
      and rest: "tx_bind (on_retained_keys (\<lambda>db. sql_insert (completed_constraints db)
          exec_completed_teardown_recovery_finalizations_update (completed_row r now))) (\<lambda>_.
        release_teardowns now rs) st1 = Inr (u, (db', rt'))"
      by (auto simp: tx_bind_Inr)
    obtain db1 where st1: "st1 = (db1, rt)" and a: "capacity_released now 0 1 db db1" "same_records db db1"
      "exec_lost_runtime_recovery_finalizations db1 = exec_lost_runtime_recovery_finalizations db"
      by (rule release_reservation_tables [OF one])
    have rest2: "release_teardowns now rs (db1,
        exec_completed_teardown_recovery_finalizations_update (\<lambda>rows. rows @ [completed_row r now]) rt) = Inr (u, (db', rt'))"
      using rest by (auto simp: st1 tx_bind_Inr on_retained_keys_def on_retained_Inr sql_insert_Inr)
    show ?thesis
      using Cons.IH [OF rest2] False a capacity_released_trans [OF a(1), of 0 _ db'] same_records_trans [OF a(2), of db']
      by (auto simp: comp_def)
  qed
qed

section \<open>The selection\<close>

lemma validate_pairs_distinct:
  "validate_pairs_from S C pairs = Inr ps \<Longrightarrow>
   distinct (map lrp_SessionID pairs) \<and> distinct (map lrp_CommandID pairs) \<and>
   (\<forall>p \<in> set pairs. lrp_SessionID p \<notin> S \<and> lrp_CommandID p \<notin> C)"
proof (induction pairs arbitrary: S C ps)
  case (Cons pair pairs)
  then obtain rest where new: "lrp_SessionID pair \<notin> S" "lrp_CommandID pair \<notin> C"
    and rest: "validate_pairs_from (insert (lrp_SessionID pair) S) (insert (lrp_CommandID pair) C) pairs = Inr rest"
    by (auto simp: tx_simps split: if_splits)
  show ?case using new Cons.IH [OF rest] by auto
qed simp

lemma validate_teardown_distinct:
  "validate_teardown_from S C pairs = Inr ps \<Longrightarrow> ps = pairs \<and>
   distinct (map ctp_SessionID pairs) \<and> distinct (map ctp_CommandID pairs) \<and>
   (\<forall>p \<in> set pairs. ctp_SessionID p \<notin> S \<and> ctp_CommandID p \<notin> C)"
proof (induction pairs arbitrary: S C ps)
  case (Cons pair pairs)
  then obtain rest where new: "ctp_SessionID pair \<notin> S" "ctp_CommandID pair \<notin> C" "ps = pair # rest"
    and rest: "validate_teardown_from (insert (ctp_SessionID pair) S) (insert (ctp_CommandID pair) C) pairs = Inr rest"
    by (auto simp: tx_simps split: if_splits)
  show ?case using new Cons.IH [OF rest] by auto
qed simp

lemma validate_mixed:
  assumes "validateMixedRuntimeRecoverySelection lost teardown = Inr (l, t)"
  shows "l = lost" "t = teardown" "distinct (map lrp_SessionID lost)" "distinct (map lrp_CommandID lost)"
    "distinct (map ctp_SessionID teardown)" "distinct (map ctp_CommandID teardown)"
  using assms validate_pairs_distinct [of "{}" "{}" lost] validate_pairs_same [of "{}" "{}" lost]
    validate_teardown_distinct [of "{}" "{}" teardown]
  by (auto simp: validateMixedRuntimeRecoverySelection_def validateLostRuntimeRecoveryPairs_def
      validateCompletedTeardownRecoveryPairs_def tx_simps split: if_splits)

lemma read_all_list: "read_all f xs = Inr ys \<longleftrightarrow> list_all2 (\<lambda>x y. f x = Inr y) xs ys"
  by (induction xs arbitrary: ys) (auto simp: tx_simps list_all2_Cons1)

lemma read_all_map_filter:
  assumes "read_all f xs = Inr ys" "\<And>x y. f x = Inr y \<Longrightarrow> g y = x \<and> (Q y \<longleftrightarrow> P x)"
  shows "map g ys = xs" "map g (filter Q ys) = filter P xs"
  using assms(1) [unfolded read_all_list] assms(2)
  by (induction rule: list_all2_induct, auto)

definition reservation_held :: "database \<Rightarrow> SessionID \<Rightarrow> bool" where
  "reservation_held db sid \<longleftrightarrow>
     (\<exists>r. find_reservation sid db = Some r \<and> res_cleanup_confirmed_at r = None)"

lemma check_pair_iff: "checkLostRuntimeRecoveryPair pair db = Inr b \<Longrightarrow> b \<longleftrightarrow> pair_released db pair"
  by (auto simp: checkLostRuntimeRecoveryPair_def pair_released_def live_slot_def find_command_def Let_def
      dest!: find_Some_iff_filter split: option.splits if_splits list.splits)

lemma read_mixed_lost_parts:
  "read_mixed_lost pair db = Inr rec \<Longrightarrow> mlr_Pair rec = pair \<and> (\<not> mlr_AlreadyRecovered rec \<longleftrightarrow> \<not> pair_released db pair)"
  by (auto simp: read_mixed_lost_def tx_simps Let_def dest: check_pair_iff [THEN iffD1] check_pair_iff [THEN iffD2]
      split: if_splits)

lemma parse_optional_None: "parse_optional e v = Inr t \<Longrightarrow> t = None \<longleftrightarrow> v = None"
  by (auto simp: parse_optional_def tx_simps split: option.splits)

lemma read_reservation_held:
  "readReservationOnConnection sid db = Inr r \<Longrightarrow> srv_CleanupConfirmedAt r = None \<longleftrightarrow> reservation_held db sid"
  by (auto simp: readReservationOnConnection_def reservation_held_def tx_simps dest: parse_optional_None split: option.splits)

lemma read_teardown_parts:
  "readCompletedTeardownRecovery pair (db, rt) = Inr rec \<Longrightarrow>
   ctr_Pair rec = pair \<and> (\<not> ctr_AlreadyRecovered rec \<longleftrightarrow> reservation_held db (ctp_SessionID pair))"
  by (auto simp: readCompletedTeardownRecovery_def tx_simps Let_def dest: read_reservation_held
      split: option.splits if_splits)

text \<open>A set that passes the checks holds all the capacity there is.\<close>

lemma mixed_set_counts:
  assumes "readMixedRuntimeRecoverySet lost teardown (db, rt) = Inr recovery"
  shows "length (filter unreleased_slot (exec_command_slots db)) = length (filter (\<lambda>p. \<not> pair_released db p) lost)"
    "length (filter unreleased_reservation (exec_capacity_reservations db)) =
       length (filter (\<lambda>p. \<not> pair_released db p) lost) +
       length (filter (\<lambda>r. \<not> ctr_AlreadyRecovered r) (mrs_Teardown recovery))"
    "map mlr_Pair (filter (\<lambda>r. \<not> mlr_AlreadyRecovered r) (mrs_Lost recovery)) = filter (\<lambda>p. \<not> pair_released db p) lost"
    "map ctr_Pair (filter (\<lambda>r. \<not> ctr_AlreadyRecovered r) (mrs_Teardown recovery)) =
       filter (\<lambda>p. reservation_held db (ctp_SessionID p)) teardown"
proof -
  obtain ls ts where ls: "read_all (\<lambda>pair. read_mixed_lost pair db) lost = Inr ls"
    and ts: "read_all (\<lambda>pair. readCompletedTeardownRecovery pair (db, rt)) teardown = Inr ts"
    and rec: "recovery = \<lparr>mrs_Lost = ls, mrs_Teardown = ts\<rparr>"
    and n: "slots_selected (map lrp_CommandID lost) (length (filter (\<lambda>r. \<not> mlr_AlreadyRecovered r) ls)) db = Inr ()"
      "reservations_selected (map lrp_SessionID lost @ map ctp_SessionID teardown)
        (length (filter (\<lambda>r. \<not> mlr_AlreadyRecovered r) ls) + length (filter (\<lambda>r. \<not> ctr_AlreadyRecovered r) ts)) db = Inr ()"
    using assms by (auto simp: readMixedRuntimeRecoverySet_def res_bind_Inr Let_def split: if_splits)
  have l: "map mlr_Pair (filter (\<lambda>r. \<not> mlr_AlreadyRecovered r) ls) = filter (\<lambda>p. \<not> pair_released db p) lost"
    by (rule read_all_map_filter(2) [OF ls]) (rule read_mixed_lost_parts)
  show "map ctr_Pair (filter (\<lambda>r. \<not> ctr_AlreadyRecovered r) (mrs_Teardown recovery)) =
      filter (\<lambda>p. reservation_held db (ctp_SessionID p)) teardown"
    unfolding rec by simp (rule read_all_map_filter(2) [OF ts], rule read_teardown_parts)
  show "map mlr_Pair (filter (\<lambda>r. \<not> mlr_AlreadyRecovered r) (mrs_Lost recovery)) = filter (\<lambda>p. \<not> pair_released db p) lost"
    using l by (simp add: rec)
  have "length (filter (\<lambda>r. \<not> mlr_AlreadyRecovered r) ls) = length (filter (\<lambda>p. \<not> pair_released db p) lost)"
    using arg_cong [OF l, of length] by simp
  then show "length (filter unreleased_slot (exec_command_slots db)) = length (filter (\<lambda>p. \<not> pair_released db p) lost)"
    "length (filter unreleased_reservation (exec_capacity_reservations db)) =
       length (filter (\<lambda>p. \<not> pair_released db p) lost) +
       length (filter (\<lambda>r. \<not> ctr_AlreadyRecovered r) (mrs_Teardown recovery))"
    using n by (simp_all add: rec slots_selected_def reservations_selected_def Let_def tx_simps split: if_splits)
qed

text \<open>The database after a confirmed set, and the identities of the work items it adds.\<close>

definition all_released :: "time \<Rightarrow> LostRuntimeRecoveryPair list \<Rightarrow> database \<Rightarrow> database" where
  "all_released now lost db = db\<lparr>
     exec_command_slots := update_rows unreleased_slot (slot_released now) (exec_command_slots db),
     exec_capacity_reservations := update_rows unreleased_reservation (confirmed now) (exec_capacity_reservations db),
     exec_lost_runtime_recovery_finalizations := exec_lost_runtime_recovery_finalizations db @
       map (lost_item now) (filter (\<lambda>p. \<not> pair_released db p) lost)\<rparr>"

lemma confirm_mixed_tables:
  assumes "confirm_mixed_body lost teardown now (db, rt) = Inr (u, (db', rt'))"
  obtains recovery where "readMixedRuntimeRecoverySet lost teardown (db, rt) = Inr recovery"
    "db' = all_released now lost db"
    "rt' = exec_completed_teardown_recovery_finalizations_update (\<lambda>rows. rows @
       map (\<lambda>r. completed_row r now) (filter (\<lambda>r. \<not> ctr_AlreadyRecovered r) (mrs_Teardown recovery))) rt"
proof -
  obtain recovery db1 where rec: "readMixedRuntimeRecoverySet lost teardown (db, rt) = Inr recovery"
    and pairs: "release_pairs now (map mlr_Pair (filter (\<lambda>r. \<not> mlr_AlreadyRecovered r) (mrs_Lost recovery))) db = Inr ((), db1)"
    and rest: "release_teardowns now (mrs_Teardown recovery) (db1, rt) = Inr (u, (db', rt'))"
    using assms by (auto simp: confirm_mixed_body_def tx_bind_Inr tx_query_Inr on_database_Inr)
  note c = mixed_set_counts [OF rec]
  note a = release_pairs_tables [OF pairs [unfolded c(3)]] and b = release_teardowns_tables [OF rest]
  have "capacity_released now (length (filter (\<lambda>p. \<not> pair_released db p) lost)) (length (filter (\<lambda>p. \<not> pair_released db p) lost) +
      length (filter (\<lambda>r. \<not> ctr_AlreadyRecovered r) (mrs_Teardown recovery))) db db'"
    using capacity_released_trans [of now _ _ db db1 0 _ db'] a b by fastforce
  then have "exec_command_slots db' = update_rows unreleased_slot (slot_released now) (exec_command_slots db)"
    "exec_capacity_reservations db' = update_rows unreleased_reservation (confirmed now) (exec_capacity_reservations db)"
    unfolding capacity_released_def using c(1,2) by (auto intro!: releases_all)
  moreover have "same_records db db'" using a b same_records_trans by blast
  ultimately have "db' = all_released now lost db"
    using a b by (simp add: all_released_def same_records_def)
  then show ?thesis using that rec b by blast
qed

text \<open>C18. A confirmed mixed set releases exactly the capacity that is held: afterwards no slot and no
  reservation is left unreleased, each selected runtime that was not released before has one work item
  for its finalization, and every other table (sessions, commands, events, jobs) is as it was. A set
  that is refused changes nothing.\<close>

theorem mixed_recovery_exact:
  assumes run: "ConfirmMixedRuntimeRecoverySet fault now (s, rt) lost teardown = (r, s', rt')"
  shows "(case r of
      Inl e \<Rightarrow> st_db s' = st_db s \<and> rt' = rt
    | Inr _ \<Rightarrow> st_db s' = all_released now lost (st_db s) \<and>
        filter unreleased_slot (exec_command_slots (st_db s')) = [] \<and>
        filter unreleased_reservation (exec_capacity_reservations (st_db s')) = [] \<and>
        (\<exists>items. rt' = exec_completed_teardown_recovery_finalizations_update (\<lambda>rows. rows @ items) rt \<and>
           map (\<lambda>f. (ctf_session_id f, ctf_command_id f)) items =
           map (\<lambda>p. (ctp_SessionID p, ctp_CommandID p))
             (filter (\<lambda>p. reservation_held (st_db s) (ctp_SessionID p)) teardown)))"
proof (cases "validateMixedRuntimeRecoverySelection lost teardown")
  case (Inl e)
  then show ?thesis using run by (auto simp: ConfirmMixedRuntimeRecoverySet_def)
next
  case (Inr sel)
  then obtain l t where sel: "validateMixedRuntimeRecoverySelection lost teardown = Inr (l, t)" by (cases sel) simp
  have "full_transaction fault (s, rt) (confirm_mixed_body lost teardown now) = (r, s', rt')"
    using run sel validate_mixed(1,2) [OF sel] by (simp add: ConfirmMixedRuntimeRecoverySet_def)
  then show ?thesis
  proof (cases rule: full_transaction_cases)
    case (2 x db)
    then obtain recovery where rec: "readMixedRuntimeRecoverySet lost teardown (st_db s, rt) = Inr recovery"
      and db: "db = all_released now lost (st_db s)"
      and rt': "rt' = exec_completed_teardown_recovery_finalizations_update (\<lambda>rows. rows @
         map (\<lambda>r. completed_row r now) (filter (\<lambda>r. \<not> ctr_AlreadyRecovered r) (mrs_Teardown recovery))) rt"
      by (auto elim!: confirm_mixed_tables)
    have "map (\<lambda>f. (ctf_session_id f, ctf_command_id f))
        (map (\<lambda>r. completed_row r now) (filter (\<lambda>r. \<not> ctr_AlreadyRecovered r) (mrs_Teardown recovery))) =
      map (\<lambda>p. (ctp_SessionID p, ctp_CommandID p)) (filter (\<lambda>p. reservation_held (st_db s) (ctp_SessionID p)) teardown)"
      unfolding mixed_set_counts(4) [OF rec, symmetric] by (simp add: completed_row_def)
    moreover have "filter unreleased_slot (exec_command_slots db) = []"
      "filter unreleased_reservation (exec_capacity_reservations db) = []"
      by (simp_all add: db all_released_def releases_none_left)
    ultimately show ?thesis using 2 db rt' by auto
  qed (auto split: sum.splits)
qed

section \<open>A repeat\<close>

lemma find_update_rows_map:
  "(\<And>r. key (f r) = key r) \<Longrightarrow>
   find (\<lambda>r. key r = k) (update_rows P f rows) = map_option (\<lambda>r. if P r then f r else r) (find (\<lambda>r. key r = k) rows)"
  by (induction rows) (auto simp: update_rows_def)

lemma released_lookups:
  "find_slot cid (all_released now lost db) = map_option (\<lambda>r. if unreleased_slot r then slot_released now r else r) (find_slot cid db)"
  "find_reservation sid (all_released now lost db) =
     map_option (\<lambda>r. if unreleased_reservation r then confirmed now r else r) (find_reservation sid db)"
  "find_session sid (all_released now lost db) = find_session sid db"
  "find_command cid (all_released now lost db) = find_command cid db"
  "command_events cid (all_released now lost db) = command_events cid db"
  "session_commands sid (all_released now lost db) = session_commands sid db"
  "exec_jobs (all_released now lost db) = exec_jobs db"
  "active_work (all_released now lost db) = active_work db"
  by (simp_all add: all_released_def find_slot_def find_reservation_def find_session_def find_command_def command_events_def
      session_commands_def active_work_def find_update_rows_map slot_released_def confirmed_def)

text \<open>A released row reads back with both its columns set.\<close>

lemma released_row_reads:
  assumes "valid_time now" "parse_optional e a = Inr x" "parse_optional e b = Inr y"
  shows "\<exists>t. parse_optional e (if a = None \<or> b = None then Some (formatStoredTime now) else a) = Inr (Some t)"
    "\<exists>t. parse_optional e (if a = None \<or> b = None then Some (formatStoredTime now) else b) = Inr (Some t)"
  using assms by (auto simp: parse_optional_def tx_simps split: option.splits)

lemma released_fields:
  "slt_stop_confirmed_at (if unreleased_slot r then slot_released now r else r) =
     (if slt_stop_confirmed_at r = None \<or> slt_released_at r = None then Some (formatStoredTime now) else slt_stop_confirmed_at r)"
  "slt_released_at (if unreleased_slot r then slot_released now r else r) =
     (if slt_stop_confirmed_at r = None \<or> slt_released_at r = None then Some (formatStoredTime now) else slt_released_at r)"
  "slt_command_id (if unreleased_slot r then slot_released now r else r) = slt_command_id r"
  "slt_host_key (if unreleased_slot r then slot_released now r else r) = slt_host_key r"
  "slt_reserved_at (if unreleased_slot r then slot_released now r else r) = slt_reserved_at r"
  "res_cleanup_confirmed_at (if unreleased_reservation x then confirmed now x else x) =
     (if res_cleanup_confirmed_at x = None \<or> res_released_at x = None then Some (formatStoredTime now) else res_cleanup_confirmed_at x)"
  "res_released_at (if unreleased_reservation x then confirmed now x else x) =
     (if res_cleanup_confirmed_at x = None \<or> res_released_at x = None then Some (formatStoredTime now) else res_released_at x)"
  "res_session_id (if unreleased_reservation x then confirmed now x else x) = res_session_id x"
  "res_host_key (if unreleased_reservation x then confirmed now x else x) = res_host_key x"
  "res_reserved_at (if unreleased_reservation x then confirmed now x else x) = res_reserved_at x"
  by (auto simp: unreleased_slot_def slot_released_def unreleased_reservation_def confirmed_def)

lemma released_slot_read:
  assumes now: "valid_time now" and read: "readCommandSlotOnConnection cid db = Inr r"
  shows "\<exists>r'. readCommandSlotOnConnection cid (all_released now lost db) = Inr r' \<and>
    csr_HostKey r' = csr_HostKey r \<and> csr_StopConfirmedAt r' \<noteq> None \<and> csr_ReleasedAt r' \<noteq> None"
proof -
  obtain row where row: "find_slot cid db = Some row" using read by (auto simp: readCommandSlotOnConnection_def split: option.splits)
  then obtain t x y where ids: "slt_command_id row = cid" "cid \<noteq> []" "slt_host_key row \<noteq> []" "csr_HostKey r = slt_host_key row"
    and t: "parseStoredTime (slt_reserved_at row) = Inr t"
    and xy: "parse_optional ErrCommandSlotCorrupt (slt_stop_confirmed_at row) = Inr x"
      "parse_optional ErrCommandSlotCorrupt (slt_released_at row) = Inr y"
    using read by (auto simp: readCommandSlotOnConnection_def tx_simps split: if_splits)
  obtain p q where pq: "parse_optional ErrCommandSlotCorrupt (slt_stop_confirmed_at (if unreleased_slot row then slot_released now row else row)) = Inr (Some p)"
    "parse_optional ErrCommandSlotCorrupt (slt_released_at (if unreleased_slot row then slot_released now row else row)) = Inr (Some q)"
    unfolding released_fields using released_row_reads [OF now xy] by blast
  show ?thesis
    using ids t pq by (simp add: readCommandSlotOnConnection_def released_lookups row released_fields(3-5) del: if_split)
qed

lemma released_reservation_read:
  assumes now: "valid_time now" and read: "readReservationOnConnection sid db = Inr r"
  shows "\<exists>r'. readReservationOnConnection sid (all_released now lost db) = Inr r' \<and>
    srv_HostKey r' = srv_HostKey r \<and> srv_CleanupConfirmedAt r' \<noteq> None \<and> srv_ReleasedAt r' \<noteq> None"
proof -
  obtain row where row: "find_reservation sid db = Some row" using read by (auto simp: readReservationOnConnection_def split: option.splits)
  then obtain i t x y where ids: "NewSessionID (res_session_id row) = Inr i" "srv_HostKey r = res_host_key row"
    and t: "parseStoredTime (res_reserved_at row) = Inr t"
    and xy: "parse_optional ErrSessionLifecycle (res_cleanup_confirmed_at row) = Inr x"
      "parse_optional ErrSessionLifecycle (res_released_at row) = Inr y"
    using read by (auto simp: readReservationOnConnection_def res_bind_Inr res_as_Inr split: if_splits)
  obtain p q where pq: "parse_optional ErrSessionLifecycle (res_cleanup_confirmed_at (if unreleased_reservation row then confirmed now row else row)) = Inr (Some p)"
    "parse_optional ErrSessionLifecycle (res_released_at (if unreleased_reservation row then confirmed now row else row)) = Inr (Some q)"
    unfolding released_fields using released_row_reads [OF now xy] by blast
  show ?thesis
    using t pq by (simp add: readReservationOnConnection_def released_lookups row released_fields(8-10) ids(1) ids(2) del: if_split new_id_Inr)
qed

lemma released_other_reads:
  "readSessionOnConnection sid (all_released now lost db) = readSessionOnConnection sid db"
  "readLostRuntimeRecoveryCommandOnConnection cid (all_released now lost db) = readLostRuntimeRecoveryCommandOnConnection cid db"
  by (simp_all add: readSessionOnConnection_def readLostRuntimeRecoveryCommandOnConnection_def released_lookups)

lemma released_check:
  assumes "checkLostRuntimeRecoveryPair pair db = Inr b"
  shows "checkLostRuntimeRecoveryPair pair (all_released now lost db) = Inr True"
proof -
  obtain c session slot reservation where "find_command (lrp_CommandID pair) db = Some c"
    "find_session (cmd_session_id c) db = Some session" "find_slot (cmd_command_id c) db = Some slot"
    "find_reservation (cmd_session_id c) db = Some reservation"
    "\<not> (cmd_session_id c \<noteq> lrp_SessionID pair \<or> cmd_state c \<noteq> CommandStateLost \<or>
      ses_state session \<noteq> SessionStateLost \<or> ses_runtime_generation session = [] \<or>
      slt_host_key slot \<noteq> schedulerHostKey \<or> res_host_key reservation \<noteq> reservationHostKey)"
    using assms unfolding checkLostRuntimeRecoveryPair_def by (auto split: option.split_asm if_split_asm)
  then show ?thesis
    by (simp add: checkLostRuntimeRecoveryPair_def released_lookups released_fields Let_def del: if_split)
qed

lemma filter_single: "distinct xs \<Longrightarrow> p \<in> set xs \<Longrightarrow> filter (\<lambda>x. x = p \<and> Q x) xs = (if Q p then [p] else [])"
  by (induction xs) (auto simp: filter_empty_conv)

lemma mixed_lost_repeat:
  assumes now: "valid_time now" and lost: "distinct (map lrp_CommandID lost)" "p \<in> set lost"
    and read: "read_mixed_lost p db = Inr rec"
  shows "\<exists>rec'. read_mixed_lost p (all_released now lost db) = Inr rec' \<and> mlr_AlreadyRecovered rec'"
proof -
  let ?R = "\<lambda>f. fin_session_id f = lrp_SessionID p \<and> fin_command_id f = lrp_CommandID p"
  let ?old = "length (filter ?R (exec_lost_runtime_recovery_finalizations db))"
  from read obtain b session command slot reservation where parts: "checkLostRuntimeRecoveryPair p db = Inr b"
    "readSessionOnConnection (lrp_SessionID p) db = Inr session"
    "readLostRuntimeRecoveryCommandOnConnection (lrp_CommandID p) db = Inr command"
    "readCommandSlotOnConnection (lrp_CommandID p) db = Inr slot"
    "readReservationOnConnection (lrp_SessionID p) db = Inr reservation"
    and n: "\<not> (?old > 1 \<or> ?old = 1 \<and> \<not> b)"
    by (auto simp: read_mixed_lost_def res_bind_Inr Let_def split: if_split_asm)
  have "?R (lost_item now x) \<longleftrightarrow> x = p" if "x \<in> set lost" for x
    using that lost by (cases x; cases p) (auto simp: lost_item_def dest: distinct_key_eq [of lrp_CommandID lost])
  then have "filter (\<lambda>x. \<not> pair_released db x \<and> ?R (lost_item now x)) lost = (if \<not> pair_released db p then [p] else [])"
    using filter_single [of lost p "\<lambda>x. \<not> pair_released db x"] lost
    by (simp add: distinct_map conj_commute cong: filter_cong)
  then have "length (filter ?R (exec_lost_runtime_recovery_finalizations (all_released now lost db))) =
      ?old + (if \<not> pair_released db p then 1 else 0)"
    by (simp add: all_released_def filter_map comp_def)
  moreover have "\<not> pair_released db p \<Longrightarrow> ?old = 0" "?old \<le> 1"
    using n check_pair_iff [OF parts(1)] by (metis less_one nat_neq_iff, linarith)
  ultimately have "length (filter ?R (exec_lost_runtime_recovery_finalizations (all_released now lost db))) \<le> 1"
    by (cases "pair_released db p") simp_all
  moreover obtain slot' where "readCommandSlotOnConnection (lrp_CommandID p) (all_released now lost db) = Inr slot'"
    using released_slot_read [OF now parts(4)] by blast
  moreover obtain reservation' where "readReservationOnConnection (lrp_SessionID p) (all_released now lost db) = Inr reservation'"
    using released_reservation_read [OF now parts(5)] by blast
  ultimately show ?thesis
    using parts(2,3) by (simp add: read_mixed_lost_def released_check [OF parts(1)] released_other_reads Let_def)
qed

lemma read_teardown_job:
  "readCompletedTeardownRecovery p (db, rt) = Inr rec \<Longrightarrow>
   \<exists>j \<in> set (exec_jobs db). job_session_id j = ctp_SessionID p \<and> job_command_id j = ctp_CommandID p \<and> ctr_JobID rec = job_job_id j"
  by (auto simp: readCompletedTeardownRecovery_def tx_simps Let_def dest!: find_Some_iff_filter split: option.split_asm if_split_asm)

text \<open>A new work item refers to the session, command or job of a selected pair only if it is the item
  of that pair.\<close>

lemma new_item_matches:
  assumes keys: "distinct (map job_job_id (exec_jobs db))" "distinct (map ctp_SessionID teardown)" "distinct (map ctp_CommandID teardown)"
    and p: "p \<in> set teardown" "readCompletedTeardownRecovery p (db, rt) = Inr rec"
    and q: "ctr_Pair r \<in> set teardown" "readCompletedTeardownRecovery (ctr_Pair r) (db, rt) = Inr r"
  shows "(ctp_SessionID (ctr_Pair r) = ctp_SessionID p \<or> ctp_CommandID (ctr_Pair r) = ctp_CommandID p \<or> ctr_JobID r = ctr_JobID rec)
      \<longleftrightarrow> ctr_Pair r = p"
    "(ctp_SessionID (ctr_Pair r) = ctp_SessionID p \<and> ctp_CommandID (ctr_Pair r) = ctp_CommandID p \<and> ctr_JobID r = ctr_JobID rec)
      \<longleftrightarrow> ctr_Pair r = p"
proof -
  have "ctr_Pair r = p" if same: "ctr_JobID r = ctr_JobID rec"
  proof -
    obtain j j' where "j \<in> set (exec_jobs db)" "j' \<in> set (exec_jobs db)" "job_job_id j = job_job_id j'"
      "job_session_id j = ctp_SessionID p" "job_session_id j' = ctp_SessionID (ctr_Pair r)"
      using read_teardown_job [OF p(2)] read_teardown_job [OF q(2)] same by metis
    then show ?thesis
      using distinct_key_eq [OF keys(1), of j j'] distinct_key_eq [OF keys(2) q(1) p(1)] by simp
  qed
  then show "(ctp_SessionID (ctr_Pair r) = ctp_SessionID p \<or> ctp_CommandID (ctr_Pair r) = ctp_CommandID p \<or> ctr_JobID r = ctr_JobID rec)
      \<longleftrightarrow> ctr_Pair r = p"
    "(ctp_SessionID (ctr_Pair r) = ctp_SessionID p \<and> ctp_CommandID (ctr_Pair r) = ctp_CommandID p \<and> ctr_JobID r = ctr_JobID rec)
      \<longleftrightarrow> ctr_Pair r = p"
    using p(2) q(2) distinct_key_eq [OF keys(2) q(1) p(1)] distinct_key_eq [OF keys(3) q(1) p(1)] by auto
qed

lemma completed_teardown_released: "completed_teardown s c j (all_released now lost db) = completed_teardown s c j db"
  unfolding completed_teardown_def teardown_events_def released_lookups by (rule refl)

lemma new_item_count:
  assumes "distinct teardown" "p \<in> set teardown" "map ctr_Pair new = filter held teardown"
    and "\<And>r. r \<in> set new \<Longrightarrow> M (completed_row r now) \<longleftrightarrow> ctr_Pair r = p"
  shows "length (filter M (map (\<lambda>r. completed_row r now) new)) = (if held p then 1 else 0)"
proof -
  have "length (filter M (map (\<lambda>r. completed_row r now) new)) = length (filter (\<lambda>q. q = p) (map ctr_Pair new))"
    using assms(4) by (simp add: filter_map comp_def cong: filter_cong)
  then show ?thesis using filter_single [OF assms(1,2), of held] by (simp add: assms(3) conj_commute)
qed

lemma read_teardown_recovered:
  assumes "find_session (ctp_SessionID p) db = Some s" "find_command (ctp_CommandID p) db = Some c"
      "find (\<lambda>j. job_session_id j = ctp_SessionID p \<and> job_command_id j = ctp_CommandID p) (exec_jobs db) = Some j"
      "completed_teardown s c j db" "job_job_id j = k" "k \<noteq> []"
    and "length (filter (\<lambda>f. ctf_session_id f = ctp_SessionID p \<or> ctf_command_id f = ctp_CommandID p \<or> ctf_job_id f = k)
        (exec_completed_teardown_recovery_finalizations rt)) =
      length (filter (\<lambda>f. ctf_session_id f = ctp_SessionID p \<and> ctf_command_id f = ctp_CommandID p \<and> ctf_job_id f = k)
        (exec_completed_teardown_recovery_finalizations rt))"
      "length (filter (\<lambda>f. ctf_session_id f = ctp_SessionID p \<and> ctf_command_id f = ctp_CommandID p \<and> ctf_job_id f = k)
        (exec_completed_teardown_recovery_finalizations rt)) \<le> 1"
    and "readSessionOnConnection (ctp_SessionID p) db = Inr session"
      "readLostRuntimeRecoveryCommandOnConnection (ctp_CommandID p) db = Inr command"
      "readCommandSlotOnConnection (ctp_CommandID p) db = Inr slot" "csr_HostKey slot = schedulerHostKey"
      "csr_StopConfirmedAt slot \<noteq> None" "csr_ReleasedAt slot \<noteq> None"
      "readReservationOnConnection (ctp_SessionID p) db = Inr reservation" "srv_HostKey reservation = reservationHostKey"
      "srv_CleanupConfirmedAt reservation \<noteq> None" "srv_ReleasedAt reservation \<noteq> None"
  shows "\<exists>rec. readCompletedTeardownRecovery p (db, rt) = Inr rec \<and> ctr_AlreadyRecovered rec"
proof -
  have "ses_session_id s = ctp_SessionID p" "cmd_command_id c = ctp_CommandID p"
    using assms(1,2) by (auto simp: find_session_def find_command_def dest!: find_Some_iff_filter)
  then show ?thesis using assms by (auto simp: readCompletedTeardownRecovery_def Let_def new_id_run)
qed

lemma teardown_repeat:
  assumes now: "valid_time now"
    and keys: "distinct (map job_job_id (exec_jobs db))" "distinct (map ctp_SessionID teardown)" "distinct (map ctp_CommandID teardown)"
    and p: "p \<in> set teardown" "readCompletedTeardownRecovery p (db, rt) = Inr rec"
    and new: "map ctr_Pair new = filter (\<lambda>p. reservation_held db (ctp_SessionID p)) teardown"
      "\<And>r. r \<in> set new \<Longrightarrow> readCompletedTeardownRecovery (ctr_Pair r) (db, rt) = Inr r"
  shows "\<exists>rec'. readCompletedTeardownRecovery p (all_released now lost db,
      exec_completed_teardown_recovery_finalizations_update (\<lambda>rows. rows @ map (\<lambda>r. completed_row r now) new) rt) = Inr rec' \<and>
    ctr_AlreadyRecovered rec'"
proof -
  let ?rows = "exec_completed_teardown_recovery_finalizations rt"
  let ?or = "\<lambda>f. ctf_session_id f = ctp_SessionID p \<or> ctf_command_id f = ctp_CommandID p \<or> ctf_job_id f = ctr_JobID rec"
  let ?and = "\<lambda>f. ctf_session_id f = ctp_SessionID p \<and> ctf_command_id f = ctp_CommandID p \<and> ctf_job_id f = ctr_JobID rec"
  have mem: "ctr_Pair r \<in> set teardown" if "r \<in> set new" for r
    using that new(1) by (metis (no_types, lifting) filter_is_subset image_eqI list.set_map subsetD)
  have dist: "distinct teardown" using keys(2) by (simp add: distinct_map)
  note count = new_item_count [OF dist p(1) new(1), of _ now]
  have more: "length (filter ?or (map (\<lambda>r. completed_row r now) new)) = (if reservation_held db (ctp_SessionID p) then 1 else 0)"
    "length (filter ?and (map (\<lambda>r. completed_row r now) new)) = (if reservation_held db (ctp_SessionID p) then 1 else 0)"
    by (rule count, simp add: completed_row_def new_item_matches [OF keys p mem new(2)])+
  from p(2) obtain s c j where found: "find_session (ctp_SessionID p) db = Some s" "find_command (ctp_CommandID p) db = Some c"
      "find (\<lambda>j. job_session_id j = ctp_SessionID p \<and> job_command_id j = ctp_CommandID p) (exec_jobs db) = Some j"
      "completed_teardown s c j db" and job: "job_job_id j = ctr_JobID rec" "ctr_JobID rec \<noteq> []"
    by (auto simp: readCompletedTeardownRecovery_def tx_simps Let_def split: option.split_asm if_split_asm)
  have ids: "ses_session_id s = ctp_SessionID p" "cmd_command_id c = ctp_CommandID p"
    using found(1,2) by (auto simp: find_session_def find_command_def dest!: find_Some_iff_filter)
  from p(2) obtain session command slot reservation where
      old: "length (filter ?or ?rows) = length (filter ?and ?rows)" "length (filter ?and ?rows) \<le> 1"
      "length (filter ?and ?rows) = 1 \<Longrightarrow> \<not> reservation_held db (ctp_SessionID p)"
    and reads: "readSessionOnConnection (ctp_SessionID p) db = Inr session"
      "readLostRuntimeRecoveryCommandOnConnection (ctp_CommandID p) db = Inr command"
      "readCommandSlotOnConnection (ctp_CommandID p) db = Inr slot" "csr_HostKey slot = schedulerHostKey"
      "readReservationOnConnection (ctp_SessionID p) db = Inr reservation" "srv_HostKey reservation = reservationHostKey"
    using found ids job
    by (auto simp: readCompletedTeardownRecovery_def tx_simps Let_def read_reservation_held split: if_split_asm)
  obtain slot' where slot': "readCommandSlotOnConnection (ctp_CommandID p) (all_released now lost db) = Inr slot'"
    "csr_HostKey slot' = schedulerHostKey" "csr_StopConfirmedAt slot' \<noteq> None" "csr_ReleasedAt slot' \<noteq> None"
    using released_slot_read [OF now reads(3), of lost] reads(4) by auto
  obtain res' where res': "readReservationOnConnection (ctp_SessionID p) (all_released now lost db) = Inr res'"
    "srv_HostKey res' = reservationHostKey" "srv_CleanupConfirmedAt res' \<noteq> None" "srv_ReleasedAt res' \<noteq> None"
    using released_reservation_read [OF now reads(5), of lost] reads(6) by auto
  have zero: "length (filter ?and ?rows) = 0" if held: "reservation_held db (ctp_SessionID p)"
  proof -
    have "length (filter ?and ?rows) \<noteq> 1" using old(3) held by blast
    then show ?thesis using old(2) by linarith
  qed
  have counts: "length (filter ?or (?rows @ map (\<lambda>r. completed_row r now) new)) =
      length (filter ?and (?rows @ map (\<lambda>r. completed_row r now) new))"
    "length (filter ?and (?rows @ map (\<lambda>r. completed_row r now) new)) \<le> 1"
    unfolding filter_append length_append more old(1)
    using zero old(2) by (simp, cases "reservation_held db (ctp_SessionID p)") simp_all
  show ?thesis
    using found job reads(1,2) slot' res' counts
    by (intro read_teardown_recovered [where s = s and c = c and j = j and k = "ctr_JobID rec" and slot = slot' and reservation = res'
          and session = session and command = command])
      (simp_all add: released_lookups released_other_reads completed_teardown_released del: filter_append length_append)
qed

lemma read_all_repeat:
  assumes "read_all f xs = Inr ys" "\<And>x y. x \<in> set xs \<Longrightarrow> f x = Inr y \<Longrightarrow> \<exists>y'. g x = Inr y' \<and> Q y'"
  shows "\<exists>ys'. read_all g xs = Inr ys' \<and> list_all Q ys'"
  using assms
proof (induction xs arbitrary: ys)
  case (Cons x xs)
  then obtain y zs where y: "f x = Inr y" and zs: "read_all f xs = Inr zs" by (auto simp: tx_simps)
  obtain y' where y': "g x = Inr y'" "Q y'" using Cons.prems(2) [of x y] y by auto
  obtain zs' where zs': "read_all g xs = Inr zs'" "list_all Q zs'" using Cons.IH [OF zs] Cons.prems(2) by auto
  have "read_all g (x # xs) = Inr (y' # zs')" using y'(1) zs'(1) by simp
  then show ?case using y'(2) zs'(2) by auto
qed simp

lemma map_of_selected:
  assumes "distinct (map key xs)" "x \<in> set xs"
  shows "map_of (map (\<lambda>p. (key p, val p)) (rev xs)) (key x) = Some (val x)"
  using assms by (intro map_of_is_SomeI) (auto simp: comp_def rev_map [symmetric])

lemma mixed_finalizations_repeat:
  assumes old: "requireSelectedMixedFinalizations lost teardown (db, rt) = Inr ()"
    and keys: "distinct (map lrp_CommandID lost)" "distinct (map ctp_SessionID teardown)"
    and new: "\<And>r. r \<in> set new \<Longrightarrow> ctr_Pair r \<in> set teardown"
  shows "requireSelectedMixedFinalizations lost teardown (all_released now lost db,
    exec_completed_teardown_recovery_finalizations_update (\<lambda>rows. rows @ map (\<lambda>r. completed_row r now) new) rt) = Inr ()"
proof -
  have "list_all (\<lambda>f. map_of (map (\<lambda>p. (lrp_CommandID p, lrp_SessionID p)) (rev lost)) (fin_command_id f) = Some (fin_session_id f))
      (map (lost_item now) (filter (\<lambda>p. \<not> pair_released db p) lost))"
    using map_of_selected [OF keys(1), of _ lrp_SessionID] by (auto simp: list_all_iff lost_item_def)
  moreover have "list_all (\<lambda>f. map_of (map (\<lambda>p. (ctp_SessionID p, ctp_CommandID p)) (rev teardown)) (ctf_session_id f) =
      Some (ctf_command_id f)) (map (\<lambda>r. completed_row r now) new)"
    using map_of_selected [OF keys(2) new, of _ ctp_CommandID] by (auto simp: list_all_iff completed_row_def)
  ultimately show ?thesis
    using old by (auto simp: requireSelectedMixedFinalizations_def all_released_def split: if_splits)
qed

lemma no_pairs_left: "list_all mlr_AlreadyRecovered ls \<Longrightarrow> filter (\<lambda>r. \<not> mlr_AlreadyRecovered r) ls = []"
  "list_all ctr_AlreadyRecovered ts \<Longrightarrow> filter (\<lambda>r. \<not> ctr_AlreadyRecovered r) ts = []"
  "list_all ctr_AlreadyRecovered ts \<Longrightarrow> release_teardowns now ts st = Inr ((), st)"
  by (auto simp: list_all_iff filter_empty_conv) (induction ts, auto simp: tx_return_def)

lemma mixed_set_repeat:
  assumes now: "valid_time now" and keys: "distinct (map job_job_id (exec_jobs db))"
    and sel: "distinct (map lrp_CommandID lost)" "distinct (map ctp_SessionID teardown)" "distinct (map ctp_CommandID teardown)"
    and rec: "readMixedRuntimeRecoverySet lost teardown (db, rt) = Inr recovery"
    and rt': "rt' = exec_completed_teardown_recovery_finalizations_update (\<lambda>rows. rows @
       map (\<lambda>r. completed_row r now) (filter (\<lambda>r. \<not> ctr_AlreadyRecovered r) (mrs_Teardown recovery))) rt"
  shows "\<exists>again. readMixedRuntimeRecoverySet lost teardown (all_released now lost db, rt') = Inr again \<and>
    list_all mlr_AlreadyRecovered (mrs_Lost again) \<and> list_all ctr_AlreadyRecovered (mrs_Teardown again)"
proof -
  obtain ls ts where ls: "read_all (\<lambda>pair. read_mixed_lost pair db) lost = Inr ls"
    and ts: "read_all (\<lambda>pair. readCompletedTeardownRecovery pair (db, rt)) teardown = Inr ts"
    and r: "recovery = \<lparr>mrs_Lost = ls, mrs_Teardown = ts\<rparr>" and idle: "active_work db = 0"
    and fin: "requireSelectedMixedFinalizations lost teardown (db, rt) = Inr ()"
    using rec by (auto simp: readMixedRuntimeRecoverySet_def res_bind_Inr Let_def split: if_splits)
  let ?new = "filter (\<lambda>r. \<not> ctr_AlreadyRecovered r) ts"
  have new: "map ctr_Pair ?new = filter (\<lambda>p. reservation_held db (ctp_SessionID p)) teardown"
    using mixed_set_counts(4) [OF rec] by (simp add: r)
  have source: "readCompletedTeardownRecovery (ctr_Pair x) (db, rt) = Inr x \<and> ctr_Pair x \<in> set teardown" if x: "x \<in> set ts" for x
    using ts [unfolded read_all_list] x read_teardown_parts
    by (induction rule: list_all2_induct) auto
  obtain ls' where ls': "read_all (\<lambda>pair. read_mixed_lost pair (all_released now lost db)) lost = Inr ls'" "list_all mlr_AlreadyRecovered ls'"
    using read_all_repeat [OF ls, of "\<lambda>pair. read_mixed_lost pair (all_released now lost db)" mlr_AlreadyRecovered]
      mixed_lost_repeat [OF now sel(1)] by blast
  have "\<exists>rec'. readCompletedTeardownRecovery p (all_released now lost db, rt') = Inr rec' \<and> ctr_AlreadyRecovered rec'"
    if p: "p \<in> set teardown" "readCompletedTeardownRecovery p (db, rt) = Inr y" for p y
    unfolding rt' r by simp (rule teardown_repeat [OF now keys sel(2,3) p new], use source in auto)
  then obtain ts' where ts': "read_all (\<lambda>pair. readCompletedTeardownRecovery pair (all_released now lost db, rt')) teardown = Inr ts'"
      "list_all ctr_AlreadyRecovered ts'"
    using read_all_repeat [OF ts, of "\<lambda>pair. readCompletedTeardownRecovery pair (all_released now lost db, rt')" ctr_AlreadyRecovered]
    by blast
  have "requireSelectedMixedFinalizations lost teardown (all_released now lost db, rt') = Inr ()"
    unfolding rt' r by simp (rule mixed_finalizations_repeat [OF fin sel(1,2)], use source in auto)
  moreover have "slots_selected cs 0 (all_released now lost db) = Inr ()" "reservations_selected ss 0 (all_released now lost db) = Inr ()" for cs ss
    by (simp_all add: slots_selected_def reservations_selected_def all_released_def releases_none_left Let_def)
  ultimately show ?thesis
    using ls' ts' idle by (simp add: readMixedRuntimeRecoverySet_def released_lookups Let_def no_pairs_left)
qed

text \<open>C32. Repeating a confirmed mixed set is harmless: whatever the reading of the clock, it succeeds and
  changes nothing, so the operator may retry after a lost answer.\<close>

theorem mixed_recovery_repeat:
  assumes run: "ConfirmMixedRuntimeRecoverySet fault now (s, rt) lost teardown = (Inr (), s', rt')"
    and now: "valid_time now" and keys: "distinct (map job_job_id (exec_jobs (st_db s)))"
  shows "ConfirmMixedRuntimeRecoverySet None later (s', rt') lost teardown = (Inr (), s', rt')"
proof -
  obtain l t where sel: "validateMixedRuntimeRecoverySelection lost teardown = Inr (l, t)"
    using run by (auto simp: ConfirmMixedRuntimeRecoverySet_def split: sum.splits)
  note v = validate_mixed [OF sel]
  have "full_transaction fault (s, rt) (confirm_mixed_body lost teardown now) = (Inr (), s', rt')"
    using run sel v(1,2) by (simp add: ConfirmMixedRuntimeRecoverySet_def)
  then obtain db where body: "confirm_mixed_body lost teardown now (st_db s, rt) = Inr ((), (db, rt'))" and s': "s' = s\<lparr>st_db := db\<rparr>"
    by (cases rule: full_transaction_cases) auto
  obtain recovery where rec: "readMixedRuntimeRecoverySet lost teardown (st_db s, rt) = Inr recovery"
    and db: "db = all_released now lost (st_db s)"
    and rt': "rt' = exec_completed_teardown_recovery_finalizations_update (\<lambda>rows. rows @
       map (\<lambda>r. completed_row r now) (filter (\<lambda>r. \<not> ctr_AlreadyRecovered r) (mrs_Teardown recovery))) rt"
    by (rule confirm_mixed_tables [OF body])
  obtain again where again: "readMixedRuntimeRecoverySet lost teardown (db, rt') = Inr again"
    "list_all mlr_AlreadyRecovered (mrs_Lost again)" "list_all ctr_AlreadyRecovered (mrs_Teardown again)"
    using mixed_set_repeat [OF now keys v(4-6) rec rt'] by (auto simp: db)
  have "confirm_mixed_body lost teardown later (db, rt') = Inr ((), (db, rt'))"
    using again by (simp add: confirm_mixed_body_def tx_bind_def on_database_def no_pairs_left)
  then show ?thesis
    using sel v(1,2) by (simp add: ConfirmMixedRuntimeRecoverySet_def full_transaction_def s')
qed

section \<open>A sample set\<close>

definition teardown_job :: job_row where
  "teardown_job = (job_row_of sample_job IngressDirectMTLS sample_now)\<lparr>job_phase := JobPhaseLost,
     job_command_state := Some CommandStateSucceeded, job_exit_code := Some 0, job_final_event_sequence := Some 3,
     job_output_complete := 1, job_teardown_state := JobTeardownLost,
     job_teardown_reason := ''runtime_cleanup_unconfirmed''\<rparr>"

definition succeeded_row :: command_row where
  "succeeded_row = queued_row\<lparr>cmd_state := CommandStateSucceeded, cmd_exit_code := Some 0,
     cmd_final_event_sequence := Some 3, cmd_output_complete := 1\<rparr>"

definition teardown_db :: database where
  "teardown_db = empty_database\<lparr>exec_sessions := [ready_row\<lparr>ses_state := SessionStateLost\<rparr>],
     exec_capacity_reservations := [reservation_row_of ''s1'' sample_now], exec_commands := [succeeded_row],
     exec_command_events := [event_row_of ''c1'' 1 ''command_queued'' [] 0 sample_now,
       event_row_of ''c1'' 2 ''command_started'' [] 0 sample_now, event_row_of ''c1'' 3 ''command_succeeded'' [] 0 sample_now],
     exec_command_slots := [slot_released sample_now (new_slot ''c1'' sample_now)], exec_jobs := [teardown_job]\<rparr>"

abbreviation teardown_pair :: CompletedTeardownRecoveryPair where
  "teardown_pair \<equiv> \<lparr>ctp_SessionID = ''s1'', ctp_CommandID = ''c1''\<rparr>"

lemma teardown_shape: "completed_teardown (ready_row\<lparr>ses_state := SessionStateLost\<rparr>) succeeded_row teardown_job teardown_db"
  by (simp add: completed_teardown_def teardown_owner_def teardown_same_request_def teardown_result_def teardown_events_def
      teardown_job_def succeeded_row_def ready_row_def session_row_of_def sample_create_def job_row_of_def sample_job_def
      sample_controller_def sample_target_def NewEmptySource_def queued_row_def command_row_of_def sample_submission_def
      sql_nonempty_def NUL_def session_commands_def command_events_def teardown_db_def event_row_of_def max_column_def)

lemma teardown_lookups:
  "find_session ''s1'' teardown_db = Some (ready_row\<lparr>ses_state := SessionStateLost\<rparr>)"
  "find_command ''c1'' teardown_db = Some succeeded_row"
  "find (\<lambda>j. job_session_id j = ''s1'' \<and> job_command_id j = ''c1'') (exec_jobs teardown_db) = Some teardown_job"
  "job_job_id teardown_job = ''j1''" "cmd_command_id succeeded_row = ''c1''"
  by (simp_all add: find_session_def find_command_def teardown_db_def succeeded_row_def teardown_job_def job_row_of_def sample_job_def)

lemma teardown_reads:
  "\<exists>x. readSessionOnConnection ''s1'' teardown_db = Inr x"
  "\<exists>x. readLostRuntimeRecoveryCommandOnConnection ''c1'' teardown_db = Inr x"
  "\<exists>x. readCommandSlotOnConnection ''c1'' teardown_db = Inr x \<and> csr_HostKey x = schedulerHostKey \<and>
     csr_StopConfirmedAt x \<noteq> None \<and> csr_ReleasedAt x \<noteq> None"
  "\<exists>x. readReservationOnConnection ''s1'' teardown_db = Inr x \<and> srv_HostKey x = reservationHostKey \<and>
     srv_CleanupConfirmedAt x = None \<and> srv_ReleasedAt x = None"
proof -
  have "readable_session (ready_row\<lparr>ses_state := SessionStateLost\<rparr>)"
    using ready_readable by (auto simp: readable_session_def session_check_def source_columns_ok_def is_ok_iff
        decode_session_row_def tx_simps Let_def split: SourceMode.splits if_splits)
  then show "\<exists>x. readSessionOnConnection ''s1'' teardown_db = Inr x"
    by (simp add: readSessionOnConnection_def teardown_lookups readable_session_def is_ok_iff)
  show "\<exists>x. readLostRuntimeRecoveryCommandOnConnection ''c1'' teardown_db = Inr x"
    by (simp add: readLostRuntimeRecoveryCommandOnConnection_def teardown_lookups new_id_run) (simp add: succeeded_row_def new_id_run)
qed (use sample_times(1) scheduler_host_nonempty in \<open>simp_all add: readCommandSlotOnConnection_def readReservationOnConnection_def
    find_slot_def find_reservation_def teardown_db_def slot_released_def new_slot_def reservation_row_of_def parse_optional_def
    new_id_run schedulerHostKey_def\<close>)

lemma teardown_recovery:
  "\<exists>rec. readCompletedTeardownRecovery teardown_pair (teardown_db, no_tables) = Inr rec \<and> \<not> ctr_AlreadyRecovered rec \<and>
     ctr_Pair rec = teardown_pair \<and> ctr_JobID rec = ''j1''"
  using teardown_reads
  by (auto simp: readCompletedTeardownRecovery_def teardown_lookups teardown_shape no_tables_def new_id_run)

lemma teardown_set_read:
  "\<exists>rec. readMixedRuntimeRecoverySet [] [teardown_pair] (teardown_db, no_tables) = Inr \<lparr>mrs_Lost = [], mrs_Teardown = [rec]\<rparr> \<and>
     \<not> ctr_AlreadyRecovered rec \<and> ctr_Pair rec = teardown_pair \<and> ctr_JobID rec = ''j1''"
proof -
  obtain rec where "readCompletedTeardownRecovery teardown_pair (teardown_db, no_tables) = Inr rec" "\<not> ctr_AlreadyRecovered rec"
    "ctr_Pair rec = teardown_pair" "ctr_JobID rec = ''j1''" using teardown_recovery by blast
  moreover have "active_work teardown_db = 0"
    by (simp add: active_work_def terminal_session_states_def terminal_command_states_def teardown_db_def succeeded_row_def
        teardown_job_def)
  moreover have "filter unreleased_slot (exec_command_slots teardown_db) = []"
    "filter unreleased_reservation (exec_capacity_reservations teardown_db) = [reservation_row_of ''s1'' sample_now]"
    by (simp_all add: teardown_db_def unreleased_reservation_def reservation_row_of_def)
  moreover have "exec_lost_runtime_recovery_finalizations teardown_db = []" by (simp add: teardown_db_def empty_database_def)
  ultimately show ?thesis
    by (simp add: readMixedRuntimeRecoverySet_def Let_def slots_selected_def reservations_selected_def
        requireSelectedMixedFinalizations_def)
      (simp add: no_tables_def reservation_row_of_def)
qed

lemma teardown_set_confirmed:
  "\<exists>s' rt'. ConfirmMixedRuntimeRecoverySet None sample_now (NewAuthorityStore teardown_db, no_tables) [] [teardown_pair] = (Inr (), s', rt')"
proof -
  obtain rec where rec: "readMixedRuntimeRecoverySet [] [teardown_pair] (teardown_db, no_tables) = Inr \<lparr>mrs_Lost = [], mrs_Teardown = [rec]\<rparr>"
    "\<not> ctr_AlreadyRecovered rec" "ctr_Pair rec = teardown_pair" "ctr_JobID rec = ''j1''" using teardown_set_read by blast
  have "release_reservation ''s1'' e sample_now (teardown_db, no_tables) =
      Inr ((), (exec_capacity_reservations_update (\<lambda>_. [confirmed sample_now (reservation_row_of ''s1'' sample_now)]) teardown_db, no_tables))" for e
    by (simp add: release_reservation_def on_database_def tx_bind_def sql_update_def teardown_db_def reservation_row_of_def update_rows_def
        reservation_check_def confirmed_def host_key_nonempty)
  moreover have "completed_constraints (exec_capacity_reservations_update g teardown_db) (completed_row rec sample_now) no_tables" for g
    using rec teardown_lookups(4,5) by (simp add: completed_constraints_def completed_row_def no_tables_def) (simp add: teardown_db_def)
  ultimately have "\<exists>st. confirm_mixed_body [] [teardown_pair] sample_now (teardown_db, no_tables) = Inr ((), st)"
    using rec by (simp add: confirm_mixed_body_def tx_bind_def tx_query_def on_database_def on_retained_keys_def on_retained_def sql_insert_def)
  then show ?thesis
    by (auto simp: ConfirmMixedRuntimeRecoverySet_def validateMixedRuntimeRecoverySelection_def validateCompletedTeardownRecoveryPairs_def
        new_id_run full_transaction_def NewAuthorityStore_def)
qed

theorem mixed_recovery_exact_witness:
  "\<exists>s' rt'. ConfirmMixedRuntimeRecoverySet None sample_now (NewAuthorityStore teardown_db, no_tables) [] [teardown_pair] = (Inr (), s', rt') \<and>
     filter unreleased_reservation (exec_capacity_reservations (st_db s')) = []"
proof -
  obtain s' rt' where run: "ConfirmMixedRuntimeRecoverySet None sample_now (NewAuthorityStore teardown_db, no_tables) [] [teardown_pair] =
      (Inr (), s', rt')" using teardown_set_confirmed by blast
  then show ?thesis using mixed_recovery_exact [OF run] by auto
qed

theorem mixed_recovery_repeat_witness:
  "\<exists>s' rt'. ConfirmMixedRuntimeRecoverySet None sample_now (NewAuthorityStore teardown_db, no_tables) [] [teardown_pair] = (Inr (), s', rt') \<and>
     ConfirmMixedRuntimeRecoverySet None (sample_now + Hour) (s', rt') [] [teardown_pair] = (Inr (), s', rt')"
proof -
  obtain s' rt' where run: "ConfirmMixedRuntimeRecoverySet None sample_now (NewAuthorityStore teardown_db, no_tables) [] [teardown_pair] =
      (Inr (), s', rt')" using teardown_set_confirmed by blast
  have "distinct (map job_job_id (exec_jobs (st_db (NewAuthorityStore teardown_db))))"
    by (simp add: NewAuthorityStore_def teardown_db_def)
  then show ?thesis using mixed_recovery_repeat [OF run sample_times(1)] run by blast
qed

section \<open>Pending finalizations and garbage collection\<close>

text \<open>A job apart from the columns that say whether its output is still there.\<close>

definition job_core :: "job_row \<Rightarrow> job_row" where
  "job_core j = j\<lparr>job_output_complete := 0, job_output_unavailable_reason := []\<rparr>"

lemma find_job_core_update:
  "map_option job_core (find_job jid (exec_jobs_update (update_rows P
     (\<lambda>j. j\<lparr>job_output_complete := 0, job_output_unavailable_reason := reason\<rparr>)) db)) =
   map_option job_core (find_job jid db)"
proof -
  have "map_option job_core (find (\<lambda>j. job_job_id j = jid) (update_rows P
      (\<lambda>j. j\<lparr>job_output_complete := 0, job_output_unavailable_reason := reason\<rparr>) rows)) =
    map_option job_core (find (\<lambda>j. job_job_id j = jid) rows)" for rows
    by (induction rows) (auto simp: update_rows_def job_core_def)
  then show ?thesis by (simp add: find_job_def)
qed

text \<open>The rows that the three kinds of work items refer to.\<close>

definition lost_pinned :: "finalization_row \<Rightarrow> session_row option \<Rightarrow> command_row option \<Rightarrow> full_state \<Rightarrow> bool" where
  "lost_pinned f x y st \<longleftrightarrow>
     f \<in> set (exec_lost_runtime_recovery_finalizations (fst st)) \<and> find_session (fin_session_id f) (fst st) = x \<and>
     map_option command_core (find_command (fin_command_id f) (fst st)) = y"

definition completed_pinned ::
  "completed_finalization_row \<Rightarrow> session_row option \<Rightarrow> command_row option \<Rightarrow> job_row option \<Rightarrow> full_state \<Rightarrow> bool" where
  "completed_pinned f x y z st \<longleftrightarrow>
     f \<in> set (exec_completed_teardown_recovery_finalizations (snd st)) \<and> find_session (ctf_session_id f) (fst st) = x \<and>
     map_option command_core (find_command (ctf_command_id f) (fst st)) = y \<and>
     map_option job_core (find_job (ctf_job_id f) (fst st)) = z"

definition commandless_pinned ::
  "commandless_finalization_row \<Rightarrow> session_row option \<Rightarrow> job_row option \<Rightarrow> full_state \<Rightarrow> bool" where
  "commandless_pinned f x z st \<longleftrightarrow>
     f \<in> set (exec_commandless_lost_runtime_recovery_finalizations (snd st)) \<and> find_session (clf_session_id f) (fst st) = x \<and>
     map_option job_core (find_job (clf_job_id f) (fst st)) = z"

lemma pending_not_collected:
  "f \<in> set (exec_lost_runtime_recovery_finalizations db) \<Longrightarrow>
     fin_session_id f \<notin> set (gcSessionIDs cutoff (db, rt)) \<and> fin_command_id f \<notin> set (gcCommandIDs cutoff (db, rt))"
  "g \<in> set (exec_completed_teardown_recovery_finalizations rt) \<Longrightarrow>
     ctf_session_id g \<notin> set (gcSessionIDs cutoff (db, rt)) \<and> ctf_command_id g \<notin> set (gcCommandIDs cutoff (db, rt)) \<and>
     ctf_job_id g \<notin> set (gcJobIDs cutoff (db, rt))"
  "h \<in> set (exec_commandless_lost_runtime_recovery_finalizations rt) \<Longrightarrow>
     clf_session_id h \<notin> set (gcSessionIDs cutoff (db, rt)) \<and> clf_job_id h \<notin> set (gcJobIDs cutoff (db, rt))"
  by (auto simp: gcSessionIDs_def gc_session_def gcCommandIDs_def gc_command_def gcJobIDs_def gc_job_def list_ex_iff
      completed_command_def completed_job_def commandless_job_def split: option.splits)

lemmas pinned_lookups = find_session_def find_command_def find_job_def find_filter_key

interpretation lost_pin: gc_predicate "lost_pinned f x y" for f x y
proof unfold_locales
  show "tx_keeps (lost_pinned f x y) (collect_jobs cutoff)" "tx_keeps (lost_pinned f x y) (collect_commands cutoff)"
    "tx_keeps (lost_pinned f x y) (collect_sessions cutoff)" for cutoff
    by (rule tx_keepsI, auto simp: lost_pinned_def pinned_lookups pending_not_collected dest!: collect_runs)+
qed (simp_all add: lost_pinned_def find_core_update, simp_all add: find_session_def find_command_def)

interpretation completed_pin: gc_predicate "completed_pinned f x y z" for f x y z
proof unfold_locales
  show "tx_keeps (completed_pinned f x y z) (collect_jobs cutoff)" "tx_keeps (completed_pinned f x y z) (collect_commands cutoff)"
    "tx_keeps (completed_pinned f x y z) (collect_sessions cutoff)" for cutoff
    by (rule tx_keepsI, auto simp: completed_pinned_def pinned_lookups pending_not_collected dest!: collect_runs)+
qed (simp_all add: completed_pinned_def find_core_update find_job_core_update,
  simp_all add: find_session_def find_command_def find_job_def)

interpretation commandless_pin: gc_predicate "commandless_pinned f x z" for f x z
proof unfold_locales
  show "tx_keeps (commandless_pinned f x z) (collect_jobs cutoff)" "tx_keeps (commandless_pinned f x z) (collect_commands cutoff)"
    "tx_keeps (commandless_pinned f x z) (collect_sessions cutoff)" for cutoff
    by (rule tx_keepsI, auto simp: commandless_pinned_def pinned_lookups pending_not_collected dest!: collect_runs)+
qed (simp_all add: commandless_pinned_def find_job_core_update, simp_all add: find_session_def find_job_def)

text \<open>C22. Garbage collection never forgets a recovery that is not finished: every pending work item of the
  three kinds is still there after a pass, with its session, and its command and job apart from the
  columns that say their output has expired.\<close>

theorem gc_keeps_pending_recovery:
  assumes run: "CollectGarbage fault now (s, rt) options = (r, s', rt')"
  shows "(\<forall>f \<in> set (exec_lost_runtime_recovery_finalizations (st_db s)).
      lost_pinned f (find_session (fin_session_id f) (st_db s)) (map_option command_core (find_command (fin_command_id f) (st_db s)))
        (st_db s', rt')) \<and>
    (\<forall>f \<in> set (exec_completed_teardown_recovery_finalizations rt).
      completed_pinned f (find_session (ctf_session_id f) (st_db s)) (map_option command_core (find_command (ctf_command_id f) (st_db s)))
        (map_option job_core (find_job (ctf_job_id f) (st_db s))) (st_db s', rt')) \<and>
    (\<forall>f \<in> set (exec_commandless_lost_runtime_recovery_finalizations rt).
      commandless_pinned f (find_session (clf_session_id f) (st_db s)) (map_option job_core (find_job (clf_job_id f) (st_db s)))
        (st_db s', rt'))"
  using lost_pin.collect_keeps [OF _ run] completed_pin.collect_keeps [OF _ run] commandless_pin.collect_keeps [OF _ run]
  by (simp add: lost_pinned_def completed_pinned_def commandless_pinned_def)

section \<open>Lost pairs with commandless sessions\<close>

lemma release_pair_open:
  assumes "releaseLostRuntimeRecoveryPair pair now db = Inr (u, db')"
  shows "open_slots db = open_slots db' + 1" "open_reservations db = open_reservations db' + 1"
proof -
  let ?P = "\<lambda>r. slt_command_id r = lrp_CommandID pair \<and> slt_host_key r = schedulerHostKey \<and>
    slt_stop_confirmed_at r = None \<and> slt_released_at r = None"
  let ?Q = "\<lambda>r. res_session_id r = lrp_SessionID pair \<and> res_host_key r = reservationHostKey \<and>
    res_cleanup_confirmed_at r = None \<and> res_released_at r = None"
  from assms have n: "length (filter ?P (exec_command_slots db)) = 1" "length (filter ?Q (exec_capacity_reservations db)) = 1"
    and rows: "exec_command_slots db' = update_rows ?P (slot_released now) (exec_command_slots db)"
      "exec_capacity_reservations db' = update_rows ?Q (confirmed now) (exec_capacity_reservations db)"
    by (auto simp: releaseLostRuntimeRecoveryPair_def tx_simps split: option.splits)
  show "open_slots db = open_slots db' + 1"
    unfolding open_slots_def rows n(1) [symmetric] by (rule length_filter_update) (simp_all add: slot_released_def)
  show "open_reservations db = open_reservations db' + 1"
    unfolding open_reservations_def rows n(2) [symmetric] by (rule length_filter_update) (simp_all add: confirmed_def)
qed

lemma release_pairs_open:
  "release_pairs now pairs db = Inr (u, db') \<Longrightarrow>
   open_slots db = open_slots db' + length pairs \<and> open_reservations db = open_reservations db' + length pairs"
proof (induction pairs arbitrary: db)
  case (Cons pair pairs)
  then obtain db1 where one: "releaseLostRuntimeRecoveryPair pair now db = Inr ((), db1)"
    and rest: "release_pairs now pairs db1 = Inr (u, db')" by (auto simp: tx_simps)
  show ?case using release_pair_open [OF one] Cons.IH [OF rest] by simp
qed (simp add: tx_simps)

lemma release_reservation_open:
  assumes "release_reservation sid e now (db, rt) = Inr (u, (db', rt'))"
  shows "open_slots db' = open_slots db" "open_reservations db = open_reservations db' + 1"
proof -
  let ?Q = "\<lambda>r. res_session_id r = sid \<and> res_host_key r = reservationHostKey \<and>
    res_cleanup_confirmed_at r = None \<and> res_released_at r = None"
  have n: "length (filter ?Q (exec_capacity_reservations db)) = 1"
    and rows: "exec_command_slots db' = exec_command_slots db"
      "exec_capacity_reservations db' = update_rows ?Q (confirmed now) (exec_capacity_reservations db)"
    using assms by (auto simp: release_reservation_def tx_simps)
  show "open_slots db' = open_slots db" by (simp add: open_slots_def rows)
  show "open_reservations db = open_reservations db' + 1"
    unfolding open_reservations_def rows n [symmetric] by (rule length_filter_update) (simp_all add: confirmed_def)
qed

lemma release_commandless_tables:
  assumes "release_commandless now rs (db, rt) = Inr (u, (db', rt'))"
  shows "open_slots db' = open_slots db \<and> open_reservations db = open_reservations db' + length rs \<and> same_records db db' \<and>
    exec_lost_runtime_recovery_finalizations db' = exec_lost_runtime_recovery_finalizations db \<and>
    rt' = exec_commandless_lost_runtime_recovery_finalizations_update (\<lambda>rows. rows @ map (\<lambda>r. commandless_row r now) rs) rt"
  using assms
proof (induction rs arbitrary: db rt)
  case Nil
  then show ?case by (simp add: tx_simps same_records_refl)
next
  case (Cons r rs)
  then obtain st1 where
    one: "release_reservation (clr_SessionID r) ErrCommandlessLostRuntimeRecoveryNotReleasable now (db, rt) = Inr ((), st1)"
    and rest: "tx_bind (on_retained_keys (\<lambda>db. sql_insert (commandless_constraints db)
        exec_commandless_lost_runtime_recovery_finalizations_update (commandless_row r now))) (\<lambda>_.
      release_commandless now rs) st1 = Inr (u, (db', rt'))"
    by (auto simp: releaseCommandlessLostRuntimeRecovery_def tx_bind_Inr)
  obtain db1 where st1: "st1 = (db1, rt)" and a: "same_records db db1"
    "exec_lost_runtime_recovery_finalizations db1 = exec_lost_runtime_recovery_finalizations db"
    by (rule release_reservation_tables [OF one])
  have rest2: "release_commandless now rs (db1,
      exec_commandless_lost_runtime_recovery_finalizations_update (\<lambda>rows. rows @ [commandless_row r now]) rt) = Inr (u, (db', rt'))"
    using rest by (auto simp: st1 tx_bind_Inr on_retained_keys_def on_retained_Inr sql_insert_Inr)
  show ?case
    using Cons.IH [OF rest2] a release_reservation_open [OF one [unfolded st1]] same_records_trans [OF a(1), of db']
    by (auto simp: comp_def)
qed

lemma check_pairs_filter: "check_pairs pairs db = Inr us \<Longrightarrow> us = filter (\<lambda>p. \<not> pair_released db p) pairs"
  by (induction pairs db arbitrary: us rule: check_pairs.induct)
    (auto simp: tx_simps dest: check_pair_iff [THEN iffD1] check_pair_iff [THEN iffD2] split: if_splits)

lemma read_commandless_parts:
  "readCommandlessLostRuntimeRecovery sid (db, rt) = Inr rec \<Longrightarrow>
   clr_SessionID rec = sid \<and> (\<not> clr_AlreadyRecovered rec \<longleftrightarrow> reservation_held db sid)"
  by (auto simp: readCommandlessLostRuntimeRecovery_def reservation_held_def tx_simps Let_def split: option.split_asm if_split_asm)

text \<open>C19. A confirmed set of lost pairs and commandless lost sessions either finds everything released
  already and changes nothing, or leaves no open slot and no open reservation on the host; it records one
  work item for each runtime that was not released before, and never touches the sessions, commands,
  events or jobs. A refused set changes nothing.\<close>

theorem lost_set_exact:
  assumes run: "ConfirmLostRuntimeRecoverySet fault now (s, rt) pairs sessions = (r, s', rt')"
  shows "(case r of
      Inl e \<Rightarrow> st_db s' = st_db s \<and> rt' = rt
    | Inr _ \<Rightarrow> same_records (st_db s) (st_db s') \<and>
        (s' = s \<and> rt' = rt \<or> open_slots (st_db s') = 0 \<and> open_reservations (st_db s') = 0) \<and>
        exec_lost_runtime_recovery_finalizations (st_db s') = exec_lost_runtime_recovery_finalizations (st_db s) @
          map (lost_item now) (filter (\<lambda>p. \<not> pair_released (st_db s) p) pairs) \<and>
        (\<exists>items. rt' = exec_commandless_lost_runtime_recovery_finalizations_update (\<lambda>rows. rows @ items) rt \<and>
           map clf_session_id items = filter (reservation_held (st_db s)) sessions))"
proof (cases "(r, s', rt') \<noteq> (Inl (case r of Inl e \<Rightarrow> e | Inr _ \<Rightarrow> ErrNoRows), s, rt)")
  case False
  then show ?thesis by (auto split: sum.splits)
next
  case True
  have same: "validate_commandless_from S ids = Inr v \<Longrightarrow> v = ids" for S ids v
    by (induction S ids arbitrary: v rule: validate_commandless_from.induct) (auto simp: tx_simps split: if_splits)
  have "full_transaction fault (s, rt) (confirm_set_body pairs sessions now) = (r, s', rt')"
    using run True validate_pairs_same [of "{}" "{}" pairs] same [of "{}" sessions]
    by (auto simp: ConfirmLostRuntimeRecoverySet_def validateLostRuntimeRecoveryPairsAllowEmpty_def validateLostRuntimeRecoveryPairs_def
        validateCommandlessLostRuntimeRecoverySessionsAllowEmpty_def res_bind_Inr split: sum.splits if_splits)
  then show ?thesis
  proof (cases rule: full_transaction_cases)
    case (2 x db)
    let ?db = "st_db s"
    let ?us = "filter (\<lambda>p. \<not> pair_released ?db p) pairs"
    obtain commandless where cl: "read_all (\<lambda>sid. readCommandlessLostRuntimeRecovery sid (?db, rt)) sessions = Inr commandless"
      and rest: "?us = [] \<and> filter (\<lambda>r. \<not> clr_AlreadyRecovered r) commandless = [] \<and> (db, rt') = (?db, rt) \<or>
        (\<exists>db1. open_slots ?db = length ?us \<and>
          open_reservations ?db = length ?us + length (filter (\<lambda>r. \<not> clr_AlreadyRecovered r) commandless) \<and>
          release_pairs now ?us ?db = Inr ((), db1) \<and>
          release_commandless now (filter (\<lambda>r. \<not> clr_AlreadyRecovered r) commandless) (db1, rt) = Inr (x, (db, rt')))"
      using 2(1)
      by (auto simp: confirm_set_body_def readCommandlessLostRuntimeRecoveryBatch_def tx_bind_Inr tx_query_Inr tx_return_Inr
          on_database_Inr Let_def res_guard_Inr dest!: check_pairs_filter split: if_splits)
    let ?cs = "filter (\<lambda>r. \<not> clr_AlreadyRecovered r) commandless"
    have held: "map clr_SessionID ?cs = filter (reservation_held ?db) sessions"
      by (rule read_all_map_filter(2) [OF cl]) (rule read_commandless_parts)
    have items: "map clf_session_id (map (\<lambda>r. commandless_row r now) ?cs) = filter (reservation_held ?db) sessions"
      using held by (simp add: commandless_row_def comp_def)
    from rest show ?thesis
    proof
      assume "?us = [] \<and> ?cs = [] \<and> (db, rt') = (?db, rt)"
      then show ?thesis using 2 items by (auto simp: same_records_refl intro!: exI [of _ "[]"])
    next
      assume "\<exists>db1. open_slots ?db = length ?us \<and> open_reservations ?db = length ?us + length ?cs \<and>
          release_pairs now ?us ?db = Inr ((), db1) \<and> release_commandless now ?cs (db1, rt) = Inr (x, (db, rt'))"
      then obtain db1 where n: "open_slots ?db = length ?us" "open_reservations ?db = length ?us + length ?cs"
        and p: "release_pairs now ?us ?db = Inr ((), db1)" and c: "release_commandless now ?cs (db1, rt) = Inr (x, (db, rt'))" by blast
      show ?thesis
        using 2(2,3) n release_pairs_open [OF p] release_pairs_tables [OF p] release_commandless_tables [OF c] items
          same_records_trans [of ?db db1 db]
        by auto
    qed
  qed (auto split: sum.splits)
qed

theorem lost_set_exact_witness:
  "\<exists>s' rt'. ConfirmLostRuntimeRecoverySet None sample_now (NewAuthorityStore lost_db, no_tables)
       [\<lparr>lrp_SessionID = ''s1'', lrp_CommandID = ''c1''\<rparr>] [] = (Inr (), s', rt') \<and>
     same_records lost_db (st_db s')"
proof -
  have "open_slots lost_db = 1" "open_reservations lost_db = 1"
    by (simp_all add: open_slots_def open_reservations_def lost_db_def reservation_row_of_def new_slot_def)
  then obtain s' rt' where run: "ConfirmLostRuntimeRecoverySet None sample_now (NewAuthorityStore lost_db, no_tables)
      [\<lparr>lrp_SessionID = ''s1'', lrp_CommandID = ''c1''\<rparr>] [] = (Inr (), s', rt')"
    using lost_pair_checked lost_pair_released
    by (auto simp: ConfirmLostRuntimeRecoverySet_def validateLostRuntimeRecoveryPairsAllowEmpty_def validateLostRuntimeRecoveryPairs_def
        validateCommandlessLostRuntimeRecoverySessionsAllowEmpty_def new_id_run confirm_set_body_def on_database_def
        readCommandlessLostRuntimeRecoveryBatch_def full_transaction_def NewAuthorityStore_def tx_bind_def)
  then show ?thesis using lost_set_exact [OF run] by (auto simp: NewAuthorityStore_def)
qed

definition teardown_tables :: retained_tables where
  "teardown_tables = no_tables\<lparr>exec_completed_teardown_recovery_finalizations :=
     [\<lparr>ctf_session_id = ''s1'', ctf_command_id = ''c1'', ctf_job_id = ''j1'', ctf_capacity_released_at = formatStoredTime sample_now\<rparr>]\<rparr>"

theorem gc_keeps_pending_recovery_witness:
  "\<exists>r s' rt'. CollectGarbage None (sample_now + Hour) (NewAuthorityStore teardown_db, teardown_tables) default_options = (r, s', rt') \<and>
     find_session ''s1'' (st_db s') = Some (ready_row\<lparr>ses_state := SessionStateLost\<rparr>)"
proof -
  obtain r s' rt' where run:
    "CollectGarbage None (sample_now + Hour) (NewAuthorityStore teardown_db, teardown_tables) default_options = (r, s', rt')"
    by (cases "CollectGarbage None (sample_now + Hour) (NewAuthorityStore teardown_db, teardown_tables) default_options") auto
  then show ?thesis
    using gc_keeps_pending_recovery [OF run] teardown_lookups(1)
    by (auto simp: NewAuthorityStore_def teardown_tables_def completed_pinned_def)
qed

end
