(* ===== verification/Settlement_Properties.thy ===== *)
theory Settlement_Properties
  imports Recovery_Properties
begin

text \<open>
  What the settlement of cancelled one-off jobs promises: it completes exactly the selected jobs that
  still wait, and a repeat changes nothing.
\<close>

section \<open>Settled jobs\<close>

text \<open>The columns that a settlement at \<open>now\<close> writes.\<close>

definition settled_at :: "time \<Rightarrow> job_row \<Rightarrow> job_row" where
  "settled_at now r = r\<lparr>job_phase := JobPhaseComplete, job_command_state := Some CommandStateCancelled, job_exit_code := None,
     job_final_event_sequence := Some 2, job_output_truncated := 0, job_output_complete := 1,
     job_output_unavailable_reason := [], job_teardown_state := JobTeardownClosed, job_teardown_reason := ''runtime_closed'',
     job_updated_at := formatStoredTime now\<rparr>"

definition settles :: "JobID set \<Rightarrow> job_row \<Rightarrow> bool" where
  "settles ids j \<longleftrightarrow> job_job_id j \<in> ids \<and> job_phase j = JobPhaseAwaitingCommand"

lemma settles_compose:
  "update_rows (settles B) (settled_at now) (update_rows (settles A) (settled_at now) rows) =
   update_rows (settles (A \<union> B)) (settled_at now) rows"
  by (induction rows) (auto simp: update_rows_def settles_def settled_at_def)

lemma settles_none [simp]: "update_rows (settles {}) f rows = rows"
  by (simp add: update_rows_def settles_def)

lemma settle_candidates_tables:
  assumes "settle_candidates now cs db = Inr (u, db')" "\<forall>c \<in> set cs. ccc_finalEventSequence c = 2"
  shows "db' = exec_jobs_update (update_rows (settles (ccc_jobID ` {c \<in> set cs. \<not> ccc_alreadySettled c})) (settled_at now)) db"
  using assms
proof (induction cs arbitrary: db)
  case Nil
  then show ?case by (simp add: tx_return_Inr)
next
  case (Cons c cs)
  show ?case
  proof (cases "ccc_alreadySettled c")
    case True
    then have "{x \<in> set (c # cs). \<not> ccc_alreadySettled x} = {x \<in> set cs. \<not> ccc_alreadySettled x}" by auto
    then show ?thesis using Cons True by simp
  next
    case False
    have f: "settled c now = settled_at now" using Cons.prems(2) by (auto simp: settled_def settled_at_def)
    have P: "(\<lambda>r. job_job_id r = ccc_jobID c \<and> job_phase r = JobPhaseAwaitingCommand) = settles {ccc_jobID c}"
      by (auto simp: settles_def)
    have "settle_candidates now cs (exec_jobs_update (update_rows (settles {ccc_jobID c}) (settled_at now)) db) = Inr (u, db')"
      using Cons.prems(1) False by (auto simp: tx_bind_Inr tx_guard_Inr update_job_def sql_update_Inr f P)
    note rest = Cons.IH [OF this]
    have "{x \<in> set (c # cs). \<not> ccc_alreadySettled x} = insert c {x \<in> set cs. \<not> ccc_alreadySettled x}" using False by auto
    then show ?thesis using rest Cons.prems(2) by (simp add: comp_def settles_compose)
  qed
qed

lemma candidate_parts:
  assumes "readClosedCancelledJobSettlementCandidate jid db = Inr c"
  shows "ccc_jobID c = jid" "ccc_finalEventSequence c = 2"
    "\<exists>job. find_job jid db = Some job \<and> (ccc_alreadySettled c \<longleftrightarrow> job_phase job = JobPhaseComplete) \<and>
       (\<not> ccc_alreadySettled c \<longrightarrow> job_phase job = JobPhaseAwaitingCommand)"
    "map evt_type (sort_key evt_sequence (command_events (ccc_commandID c) db)) = [''command_queued'', ''command_cancelled'']"
proof -
  have ev: "map evt_type evs = tys" if "expect_events n tys evs = Inr ()" for n tys and evs :: "event_row list"
    using that by (induction n tys evs rule: expect_events.induct) (auto split: if_splits)
  show "ccc_jobID c = jid" "ccc_finalEventSequence c = 2"
    "\<exists>job. find_job jid db = Some job \<and> (ccc_alreadySettled c \<longleftrightarrow> job_phase job = JobPhaseComplete) \<and>
       (\<not> ccc_alreadySettled c \<longrightarrow> job_phase job = JobPhaseAwaitingCommand)"
    using assms by (auto simp: readClosedCancelledJobSettlementCandidate_def tx_simps Let_def split: option.split_asm if_split_asm)
  show "map evt_type (sort_key evt_sequence (command_events (ccc_commandID c) db)) = [''command_queued'', ''command_cancelled'']"
    using assms
    by (auto simp: readClosedCancelledJobSettlementCandidate_def tx_simps Let_def requireExactlyQueuedThenCancelledEvents_def
        split: option.split_asm if_split_asm dest!: ev)
qed

lemma validate_job_ids_same: "validate_job_ids_from S ids = Inr v \<Longrightarrow> v = ids"
  by (induction S ids arbitrary: v rule: validate_job_ids_from.induct) (auto simp: tx_simps split: if_splits)

text \<open>With job identifiers unique, the rows a settlement changes are the selected ones that wait.\<close>

lemma settle_body_tables:
  assumes keys: "distinct (map job_job_id (exec_jobs db))" and run: "settle_body ids now db = Inr (results, db')"
  shows "db' = exec_jobs_update (update_rows (settles (set ids)) (settled_at now)) db"
    "map ccs_JobID results = ids" "\<exists>cs. settlement_candidates ids db = Inr cs \<and> results = closedCancelledJobSettlementResults cs"
proof -
  obtain cs u where cs: "settlement_candidates ids db = Inr cs" and go: "settle_candidates now cs db = Inr (u, db')"
    and results: "results = closedCancelledJobSettlementResults cs"
    using run by (auto simp: settle_body_def tx_simps)
  have all: "list_all2 (\<lambda>jid c. readClosedCancelledJobSettlementCandidate jid db = Inr c) ids cs"
    using cs by (simp add: settlement_candidates_def read_all_list)
  then have ids: "map ccc_jobID cs = ids"
    by (induction rule: list_all2_induct) (auto simp: candidate_parts)
  have each: "\<exists>job. find_job (ccc_jobID c) db = Some job \<and> (ccc_alreadySettled c \<longleftrightarrow> job_phase job = JobPhaseComplete) \<and>
      ccc_finalEventSequence c = 2" if "c \<in> set cs" for c
    using all that by (induction rule: list_all2_induct) (use candidate_parts in fastforce)+
  have "settles (ccc_jobID ` {c \<in> set cs. \<not> ccc_alreadySettled c}) j \<longleftrightarrow> settles (set ids) j" if j: "j \<in> set (exec_jobs db)" for j
  proof -
    have "ccc_alreadySettled c \<longleftrightarrow> job_phase j = JobPhaseComplete" if "c \<in> set cs" "job_job_id j = ccc_jobID c" for c
    proof -
      have "find_job (ccc_jobID c) db = Some j" using j that(2) by (simp add: find_job_def find_key_Some [OF keys])
      then show ?thesis using each [OF that(1)] by auto
    qed
    then show ?thesis unfolding settles_def using ids by (auto simp: image_iff) (metis (mono_tags, lifting) image_eqI)
  qed
  then have "update_rows (settles (ccc_jobID ` {c \<in> set cs. \<not> ccc_alreadySettled c})) (settled_at now) (exec_jobs db) =
      update_rows (settles (set ids)) (settled_at now) (exec_jobs db)"
    by (simp add: update_rows_def)
  moreover have "db' = exec_jobs_update (update_rows (settles (ccc_jobID ` {c \<in> set cs. \<not> ccc_alreadySettled c})) (settled_at now)) db"
    by (rule settle_candidates_tables [OF go]) (use each in auto)
  ultimately show "db' = exec_jobs_update (update_rows (settles (set ids)) (settled_at now)) db" by (cases db) simp
  show "map ccs_JobID results = ids" using ids by (simp add: results closedCancelledJobSettlementResults_def comp_def)
  show "\<exists>cs. settlement_candidates ids db = Inr cs \<and> results = closedCancelledJobSettlementResults cs" using cs results by blast
qed

lemma candidate_repeat:
  assumes read: "readClosedCancelledJobSettlementCandidate jid db = Inr c" and jid: "jid \<in> ids"
  shows "readClosedCancelledJobSettlementCandidate jid (exec_jobs_update (update_rows (settles ids) (settled_at now)) db) =
    Inr (c\<lparr>ccc_alreadySettled := True\<rparr>)"
proof -
  let ?db = "exec_jobs_update (update_rows (settles ids) (settled_at now)) db"
  obtain job where job: "find_job jid db = Some job" "job_phase job = JobPhaseComplete \<or> job_phase job = JobPhaseAwaitingCommand"
    using candidate_parts(3) [OF read] by blast
  then have "job_job_id job = jid" by (auto simp: find_job_def dest: find_Some_iff_filter)
  then have s: "settles ids job \<longleftrightarrow> job_phase job = JobPhaseAwaitingCommand" using jid by (simp add: settles_def)
  define job' where "job' = (if settles ids job then settled_at now job else job)"
  have found: "find_job jid ?db = Some job'"
    using find_update_rows_map [of job_job_id "settled_at now" jid "settles ids" "exec_jobs db"] job(1)
    by (simp add: find_job_def settled_at_def job'_def)
  have same: "job_session_id job' = job_session_id job" "job_command_id job' = job_command_id job" "job_job_id job' = job_job_id job"
    by (simp_all add: settled_at_def job'_def)
  have other: "find_session sid ?db = find_session sid db" "find_command cid ?db = find_command cid db"
    "find_reservation sid ?db = find_reservation sid db" "find_slot cid ?db = find_slot cid db"
    "requireExactlyQueuedThenCancelledEvents cid ?db = requireExactlyQueuedThenCancelledEvents cid db"
    for sid cid
    by (simp_all add: find_session_def find_command_def find_reservation_def find_slot_def
        requireExactlyQueuedThenCancelledEvents_def command_events_def)
  have shape: "cancelled_unstarted job' se co re sl ?db = cancelled_unstarted job se co re sl db" for se co re sl
    unfolding cancelled_unstarted_def same by simp
  have fin: "job_phase job' = JobPhaseComplete" "settled_columns job'"
    using job(2) s read
    by (auto simp: readClosedCancelledJobSettlementCandidate_def job(1) job'_def settled_at_def settled_columns_def tx_simps Let_def
        split: option.split_asm if_split_asm)
  show ?thesis
    using read unfolding readClosedCancelledJobSettlementCandidate_def found job(1) option.case same other shape
    by (auto simp: tx_simps Let_def fin split: option.splits if_split_asm)
qed

text \<open>C20. A settlement completes exactly the selected jobs that still wait and touches nothing else; each
  settled command was cancelled while it was queued, as its two events show; a refused settlement changes
  nothing, and repeating an accepted one reports every job as settled and changes nothing.\<close>

theorem settlement_exact:
  assumes keys: "distinct (map job_job_id (exec_jobs (st_db s)))"
    and run: "SettleClosedCancelledOneOffJobs fault now s ids = (r, s')"
  shows "(case r of
      Inl e \<Rightarrow> st_db s' = st_db s
    | Inr results \<Rightarrow>
        map ccs_JobID results = ids \<and>
        st_db s' = exec_jobs_update (update_rows (settles (set ids)) (settled_at now)) (st_db s) \<and>
        (\<forall>x \<in> set results. map evt_type (sort_key evt_sequence (command_events (ccs_CommandID x) (st_db s))) =
           [''command_queued'', ''command_cancelled'']) \<and>
        SettleClosedCancelledOneOffJobs None later s' ids = (Inr (map (\<lambda>x. x\<lparr>ccs_AlreadySettled := True\<rparr>) results), s'))"
proof (cases r)
  case (Inl e)
  then show ?thesis using run
    by (auto simp: SettleClosedCancelledOneOffJobs_def split: sum.splits dest: withImmediateTransaction_Inl)
next
  case (Inr results)
  then obtain db' where valid: "validateClosedCancelledJobSettlementIDs ids = Inr ids"
    and body: "settle_body ids now (st_db s) = Inr (results, db')" and s': "s' = s\<lparr>st_db := db'\<rparr>"
    using run validate_job_ids_same [of "{}" ids]
    by (auto simp: SettleClosedCancelledOneOffJobs_def validateClosedCancelledJobSettlementIDs_def tx_simps split: sum.splits if_splits)
  note t = settle_body_tables [OF keys body]
  obtain cs where cs: "settlement_candidates ids (st_db s) = Inr cs" "results = closedCancelledJobSettlementResults cs" using t(3) by blast
  have all: "list_all2 (\<lambda>jid c. readClosedCancelledJobSettlementCandidate jid (st_db s) = Inr c) ids cs"
    using cs(1) by (simp add: settlement_candidates_def read_all_list)
  then have "\<forall>c \<in> set cs. map evt_type (sort_key evt_sequence (command_events (ccc_commandID c) (st_db s))) =
      [''command_queued'', ''command_cancelled'']"
    by (induction rule: list_all2_induct) (auto simp: candidate_parts(4))
  moreover have "settlement_candidates ids db' = Inr (map (\<lambda>c. c\<lparr>ccc_alreadySettled := True\<rparr>) cs)"
    unfolding settlement_candidates_def read_all_list t(1)
    using all by (auto simp: list_all2_conv_all_nth candidate_repeat)
  moreover have "settle_candidates later (map (\<lambda>c. c\<lparr>ccc_alreadySettled := True\<rparr>) cs) db' = Inr ((), db')"
    by (induction cs) simp_all
  ultimately show ?thesis
    using t(1,2) cs(2) valid
    by (auto simp: Inr s' SettleClosedCancelledOneOffJobs_def withImmediateTransaction_def settle_body_def tx_bind_def
        closedCancelledJobSettlementResults_def)
qed

definition cancelled_db :: database where
  "cancelled_db = empty_database\<lparr>exec_sessions := [ready_row\<lparr>ses_state := SessionStateClosed\<rparr>],
     exec_capacity_reservations := [confirmed sample_now (reservation_row_of ''s1'' sample_now)],
     exec_commands := [queued_row\<lparr>cmd_state := CommandStateCancelled, cmd_final_event_sequence := Some 2, cmd_output_complete := 1\<rparr>],
     exec_command_events := [event_row_of ''c1'' 1 ''command_queued'' [] 0 sample_now,
       event_row_of ''c1'' 2 ''command_cancelled'' [] 0 sample_now],
     exec_jobs := [(job_row_of sample_job IngressDirectMTLS sample_now)\<lparr>job_phase := JobPhaseAwaitingCommand\<rparr>]\<rparr>"

lemma cancelled_candidate:
  "readClosedCancelledJobSettlementCandidate ''j1'' cancelled_db =
     Inr \<lparr>ccc_jobID = ''j1'', ccc_sessionID = ''s1'', ccc_commandID = ''c1'', ccc_finalEventSequence = 2, ccc_alreadySettled = False\<rparr>"
  by (simp add: readClosedCancelledJobSettlementCandidate_def find_job_def find_session_def find_command_def find_reservation_def
      find_slot_def cancelled_unstarted_def requireExactlyQueuedThenCancelledEvents_def command_events_def new_id_run
      cancelled_db_def empty_database_def event_row_of_def reservation_row_of_def confirmed_def job_row_of_def sample_job_def
      queued_row_def command_row_of_def sample_submission_def)

lemma cancelled_settles: "\<exists>results db'. settle_body [''j1''] sample_now cancelled_db = Inr (results, db')"
proof -
  have "job_check (settled c sample_now ((job_row_of sample_job IngressDirectMTLS sample_now)\<lparr>job_phase := JobPhaseAwaitingCommand\<rparr>))"
    if "ccc_finalEventSequence c = 2" for c
    using job_check_row_of [OF sample_job_payload(2,1) _, of IngressDirectMTLS sample_now] sample_job_fresh that sample_times(1)
    by (auto simp: job_check_def settled_def fresh_job_def)
  then show ?thesis
    by (simp add: settle_body_def settlement_candidates_def cancelled_candidate tx_bind_def update_job_def sql_update_def)
      (simp add: cancelled_db_def job_row_of_def sample_job_def)
qed

theorem settlement_exact_witness:
  "\<exists>results s'. SettleClosedCancelledOneOffJobs None sample_now (NewAuthorityStore cancelled_db) [''j1''] = (Inr results, s') \<and>
     map ccs_JobID results = [''j1''] \<and>
     SettleClosedCancelledOneOffJobs None (sample_now + Hour) s' [''j1''] = (Inr (map (\<lambda>x. x\<lparr>ccs_AlreadySettled := True\<rparr>) results), s')"
proof -
  obtain results s' where run: "SettleClosedCancelledOneOffJobs None sample_now (NewAuthorityStore cancelled_db) [''j1''] = (Inr results, s')"
    using cancelled_settles
    by (auto simp: SettleClosedCancelledOneOffJobs_def validateClosedCancelledJobSettlementIDs_def new_id_run
        withImmediateTransaction_def NewAuthorityStore_def)
  then show ?thesis
    using settlement_exact [OF _ run, of "sample_now + Hour"] by (auto simp: NewAuthorityStore_def cancelled_db_def)
qed

end
