(* ===== verification/Go_Words.thy ===== *)
theory Go_Words
  imports Lane_Admission "HOL-Library.Word"
begin

text \<open>
  Go's \<open>uint64\<close> and the patterns that the capacity code matches. Arithmetic on
  \<open>uint64\<close> wraps around; the lemmas say which of the comparisons the code makes before an
  addition keep it exact.
\<close>

type_synonym uint64 = "64 word"

definition MaxInt64 :: uint64 where
  "MaxInt64 = 0x7FFFFFFFFFFFFFFF"

definition MaxUint64 :: uint64 where
  "MaxUint64 = - 1"

section \<open>Character classes and patterns\<close>

definition char_between :: "char \<Rightarrow> char \<Rightarrow> char \<Rightarrow> bool" where
  "char_between a b c \<longleftrightarrow> (of_char a :: nat) \<le> of_char c \<and> (of_char c :: nat) \<le> of_char b"

definition is_hex :: "char \<Rightarrow> bool" where
  "is_hex c \<longleftrightarrow> is_lower_hex c \<or> char_between CHR ''A'' CHR ''F'' c"

text \<open>\<^verbatim>\<open>^sha256:[0-9a-f]{64}$\<close>\<close>

definition match_digest :: "string \<Rightarrow> bool" where
  "match_digest s \<longleftrightarrow> take 7 s = ''sha256:'' \<and> length s = 71 \<and> list_all is_lower_hex (drop 7 s)"

text \<open>\<^verbatim>\<open>^[A-Za-z0-9][A-Za-z0-9._:-]{0,127}$\<close>\<close>

definition match_token :: "string \<Rightarrow> bool" where
  "match_token s = (case s of [] \<Rightarrow> False | c # cs \<Rightarrow> is_alnum c \<and> length cs \<le> 127 \<and> list_all is_id_char cs)"

section \<open>Checked additions\<close>

lemma uint_le_bound: "(v :: uint64) \<le> b \<longleftrightarrow> uint v \<le> uint b"
  by (simp add: word_le_def)

lemma uint_max_int [simp]: "uint MaxInt64 = 2 ^ 63 - 1"
  by (simp add: MaxInt64_def)

lemma uint_max_uint [simp]: "uint MaxUint64 = 2 ^ 64 - 1"
  by (simp add: MaxUint64_def uint_word_ariths)

lemma uint_lt_64: "uint (v :: uint64) < 2 ^ 64"
  using uint_bounded [of v] by simp

lemma uint_sub_exact: "b \<le> a \<Longrightarrow> uint (a - b :: uint64) = uint a - uint b"
  by (simp add: uint_sub_if' word_le_def)

lemma uint_add_exact: "uint a + uint b < 2 ^ 64 \<Longrightarrow> uint (a + b :: uint64) = uint a + uint b"
  by (simp add: uint_plus_if')

text \<open>\<open>v > bound - acc\<close> fails exactly when the sum stays within the bound.\<close>

lemma checked_add:
  assumes "(acc :: uint64) \<le> bound"
  shows "v \<le> bound - acc \<longleftrightarrow> uint acc + uint v \<le> uint bound"
    and "v \<le> bound - acc \<Longrightarrow> uint (acc + v) = uint acc + uint v"
proof -
  have b: "uint bound < 2 ^ 64" by (rule uint_lt_64)
  show iff: "v \<le> bound - acc \<longleftrightarrow> uint acc + uint v \<le> uint bound"
    using assms by (auto simp: uint_le_bound uint_sub_exact)
  show "uint (acc + v) = uint acc + uint v" if "v \<le> bound - acc"
    using that b unfolding iff by (intro uint_add_exact) linarith
qed

lemma uint_word_of_int: "0 \<le> i \<Longrightarrow> i < 2 ^ 64 \<Longrightarrow> uint (word_of_int i :: uint64) = i"
  by (simp add: uint_word_of_int take_bit_int_eq_self)

lemma uint_of_int63: "0 \<le> i \<Longrightarrow> i < 2 ^ 63 \<Longrightarrow> uint (word_of_int i :: uint64) = i"
  by (simp add: uint_word_of_int)

lemma word_of_int63_eq: "0 < i \<Longrightarrow> i < 2 ^ 63 \<Longrightarrow> word_of_int i = (w :: uint64) \<longleftrightarrow> i = uint w"
  by (metis less_imp_le uint_of_int63 word_of_int_uint)

lemma sint_small: "(v :: uint64) \<le> MaxInt64 \<Longrightarrow> sint v = uint v"
proof -
  assume "v \<le> MaxInt64"
  then have "uint v < 2 ^ 63" by (simp add: uint_le_bound)
  moreover have "- (2 ^ 63) \<le> uint v" by (rule order_trans [OF _ uint_ge_0]) simp
  ultimately have "signed_take_bit 63 (uint v) = uint v" by (intro signed_take_bit_int_eq_self) simp_all
  then show ?thesis by (simp add: sint_uint)
qed

section \<open>Matched texts are ASCII\<close>

definition plain_char :: "char \<Rightarrow> bool" where
  "plain_char c \<longleftrightarrow> (0 :: nat) < of_char c \<and> (of_char c :: nat) < 0x80"

lemma token_char_plain: "is_id_char c \<Longrightarrow> plain_char c"
  by (auto simp: is_id_char_def is_alnum_def is_digit_def plain_char_def)

lemma alnum_token_char: "is_alnum c \<Longrightarrow> is_id_char c"
  by (simp add: is_id_char_def)

lemma lower_hex_token_char: "is_lower_hex c \<Longrightarrow> is_id_char c"
  by (auto simp: is_lower_hex_def is_id_char_def is_alnum_def)

lemma match_token_plain:
  "match_token s \<Longrightarrow> list_all plain_char s \<and> 1 \<le> length s \<and> length s \<le> 128"
  by (cases s) (auto simp: match_token_def list_all_iff token_char_plain alnum_token_char)

lemma match_digest_plain:
  assumes "match_digest s"
  shows "list_all plain_char s \<and> length s = 71"
proof -
  have "s = ''sha256:'' @ drop 7 s"
    using assms append_take_drop_id [of 7 s] by (simp add: match_digest_def del: append_take_drop_id)
  moreover have "list_all plain_char ''sha256:''" by (simp add: plain_char_def)
  moreover have "list_all plain_char (drop 7 s)"
    using assms by (auto simp: match_digest_def list_all_iff intro: token_char_plain lower_hex_token_char)
  ultimately have "list_all plain_char s" by (metis list_all_append)
  then show ?thesis using assms by (simp add: match_digest_def)
qed

end
