(* ===== verification/Lane_Capacity.thy ===== *)
theory Lane_Capacity
  imports Retained_Tables Stored_Time Go_Words
begin

text \<open>
  The durable byte ledger of the lanes (internal/store/lane_capacity.go over the tables of migration
  0039): a ceiling per lane, and reservations that are charged against it under one transaction with
  the mutation they pay for. The mutation and the cleanup are callbacks of the caller, here arguments
  of the operations.
\<close>

section \<open>Data\<close>

record LaneByteAllocation =
  lba_Category :: string
  lba_Bytes :: uint64

record LaneByteBudgetSnapshot =
  lbs_Lane :: string
  lbs_MaxBytes :: uint64
  lbs_ReservedBytes :: uint64
  lbs_PolicyDigest :: string

definition lane_categories :: "string list" where
  "lane_categories = [''ready_pair'', ''response'', ''event'', ''output'', ''sqlite'', ''wal'', ''log'',
     ''workspace'', ''temp_script'', ''backup'', ''staging'']"

definition laneCapacityDigestPattern :: "string \<Rightarrow> bool" where
  "laneCapacityDigestPattern s = match_digest s"

definition laneCapacityReservationIDPattern :: "string \<Rightarrow> bool" where
  "laneCapacityReservationIDPattern s = match_token s"

definition laneCapacityCategoryPattern :: "string \<Rightarrow> bool" where
  "laneCapacityCategoryPattern s \<longleftrightarrow> s \<in> set lane_categories"

definition validCapacityLane :: "string \<Rightarrow> bool" where
  "validCapacityLane lane \<longleftrightarrow> lane = ''dev'' \<or> lane = ''qas'' \<or> lane = ''prd''"

section \<open>Tables\<close>

record capacity_budget_row =
  lcb_lane :: string
  lcb_max_reserved_bytes :: int
  lcb_policy_digest :: string
  lcb_updated_at :: string

record capacity_reservation_row =
  lcr_lane :: string
  lcr_reservation_id :: string
  lcr_category :: string
  lcr_reserved_bytes :: int
  lcr_created_at :: string

record capacity_tables =
  lane_capacity_budgets :: "capacity_budget_row list"
  lane_capacity_reservations :: "capacity_reservation_row list"

definition lcr_key :: "capacity_reservation_row \<Rightarrow> string \<times> string \<times> string" where
  "lcr_key r = (lcr_lane r, lcr_reservation_id r, lcr_category r)"

definition lane_budget_check :: "capacity_budget_row \<Rightarrow> bool" where
  "lane_budget_check r \<longleftrightarrow> validCapacityLane (lcb_lane r) \<and> 0 < lcb_max_reserved_bytes r \<and>
     sql_length (lcb_policy_digest r) = 71"

definition lane_reservation_check :: "capacity_reservation_row \<Rightarrow> bool" where
  "lane_reservation_check r \<longleftrightarrow> 1 \<le> sql_length (lcr_reservation_id r) \<and> sql_length (lcr_reservation_id r) \<le> 128 \<and>
     lcr_category r \<in> set lane_categories \<and> 0 < lcr_reserved_bytes r"

text \<open>INSERT with \<^verbatim>\<open>ON CONFLICT(lane) DO UPDATE\<close> of every other column.\<close>

definition upsert_budget :: "capacity_budget_row \<Rightarrow> (capacity_tables, unit) tx" where
  "upsert_budget r = (\<lambda>ct.
     if \<not> lane_budget_check r then Inl SQLiteError
     else if lcb_lane r \<in> lcb_lane ` set (lane_capacity_budgets ct)
     then Inr ((), ct\<lparr>lane_capacity_budgets :=
       update_rows (\<lambda>b. lcb_lane b = lcb_lane r) (\<lambda>_. r) (lane_capacity_budgets ct)\<rparr>)
     else Inr ((), ct\<lparr>lane_capacity_budgets := lane_capacity_budgets ct @ [r]\<rparr>))"

text \<open>INSERT with \<^verbatim>\<open>ON CONFLICT(lane, reservation_id, category) DO NOTHING\<close>.\<close>

definition insert_reservation :: "capacity_reservation_row \<Rightarrow> (capacity_tables, unit) tx" where
  "insert_reservation r = (\<lambda>ct.
     if \<not> lane_reservation_check r then Inl SQLiteError
     else if lcr_key r \<in> lcr_key ` set (lane_capacity_reservations ct) then Inr ((), ct)
     else if lcr_lane r \<notin> lcb_lane ` set (lane_capacity_budgets ct) then Inl SQLiteError
     else Inr ((), ct\<lparr>lane_capacity_reservations := lane_capacity_reservations ct @ [r]\<rparr>))"

section \<open>Reads\<close>

definition reservations_of :: "string \<Rightarrow> capacity_tables \<Rightarrow> capacity_reservation_row list" where
  "reservations_of lane ct = filter (\<lambda>r. lcr_lane r = lane) (lane_capacity_reservations ct)"

fun sum_rows :: "uint64 \<Rightarrow> capacity_reservation_row list \<Rightarrow> uint64 result" where
  "sum_rows acc [] = Inr acc"
| "sum_rows acc (r # rs) =
     (let value = lcr_reserved_bytes r in
      if \<not> laneCapacityReservationIDPattern (lcr_reservation_id r) \<or>
         \<not> laneCapacityCategoryPattern (lcr_category r) \<or> value \<le> 0
      then Inl ErrLaneCapacityInvalid
      else if MaxInt64 < acc \<or> MaxInt64 - acc < word_of_int value then Inl ErrLaneCapacityExceeded
      else sum_rows (acc + word_of_int value) rs)"

definition sumLaneCapacityReservations :: "string \<Rightarrow> capacity_tables \<Rightarrow> uint64 result" where
  "sumLaneCapacityReservations lane ct = sum_rows 0 (reservations_of lane ct)"

fun collect_categories ::
  "(string \<times> uint64) list \<Rightarrow> capacity_reservation_row list \<Rightarrow> (string \<times> uint64) list result" where
  "collect_categories categories [] = Inr categories"
| "collect_categories categories (r # rs) =
     (if \<not> laneCapacityCategoryPattern (lcr_category r) \<or> lcr_reserved_bytes r \<le> 0
      then Inl ErrLaneCapacityInvalid
      else if lcr_category r \<in> fst ` set categories then Inl ErrLaneCapacityInvalid
      else collect_categories (categories @ [(lcr_category r, word_of_int (lcr_reserved_bytes r))]) rs)"

definition laneReservationCategories ::
  "string \<Rightarrow> string \<Rightarrow> capacity_tables \<Rightarrow> (string \<times> uint64) list result" where
  "laneReservationCategories lane reservationID ct =
     collect_categories [] (filter (\<lambda>r. lcr_reservation_id r = reservationID) (reservations_of lane ct))"

text \<open>\<open>SELECT max_reserved_bytes, policy_digest\<close> of the lane's budget, and its validation.\<close>

definition read_budget :: "string \<Rightarrow> capacity_tables \<Rightarrow> (int \<times> string) result" where
  "read_budget lane ct =
     (case find (\<lambda>b. lcb_lane b = lane) (lane_capacity_budgets ct) of
        None \<Rightarrow> Inl ErrLaneCapacityUnconfigured
      | Some b \<Rightarrow>
          if lcb_max_reserved_bytes b \<le> 0 \<or> \<not> laneCapacityDigestPattern (lcb_policy_digest b)
          then Inl ErrLaneCapacityInvalid
          else Inr (lcb_max_reserved_bytes b, lcb_policy_digest b))"

section \<open>Operations\<close>

definition set_budget_body ::
  "string \<Rightarrow> uint64 \<Rightarrow> string \<Rightarrow> time \<Rightarrow> (database \<times> capacity_tables, unit) tx" where
  "set_budget_body lane maxBytes policyDigest now = on_retained
     (tx_bind (tx_query (sumLaneCapacityReservations lane)) (\<lambda>used.
      tx_bind (tx_guard (used \<le> maxBytes) ErrLaneCapacityExceeded) (\<lambda>_.
      upsert_budget \<lparr>lcb_lane = lane, lcb_max_reserved_bytes = sint maxBytes,
        lcb_policy_digest = policyDigest, lcb_updated_at = formatStoredTime now\<rparr>)))"

definition SetLaneByteBudget ::
  "string \<Rightarrow> uint64 \<Rightarrow> string \<Rightarrow> time \<Rightarrow> go_error option \<Rightarrow> AuthorityStore \<times> capacity_tables \<Rightarrow>
   unit result \<times> AuthorityStore \<times> capacity_tables" where
  "SetLaneByteBudget lane maxBytes policyDigest now fault st =
     (if \<not> validCapacityLane lane \<or> maxBytes = 0 \<or> MaxInt64 < maxBytes \<or>
         \<not> laneCapacityDigestPattern policyDigest
      then (Inl ErrLaneCapacityInvalid, st)
      else full_transaction fault st (set_budget_body lane maxBytes policyDigest now))"

text \<open>The checks of the allocations before the transaction; \<open>seen\<close> are the earlier categories.\<close>

fun allocations_ok :: "string list \<Rightarrow> LaneByteAllocation list \<Rightarrow> bool" where
  "allocations_ok seen [] = True"
| "allocations_ok seen (a # as) =
     (laneCapacityCategoryPattern (lba_Category a) \<and> lba_Bytes a \<noteq> 0 \<and> lba_Bytes a \<le> MaxInt64 \<and>
      lba_Category a \<notin> set seen \<and> allocations_ok (lba_Category a # seen) as)"

text \<open>What the allocations add to the lane, given the categories already retained.\<close>

fun charge_allocations ::
  "(string \<times> uint64) list \<Rightarrow> uint64 \<Rightarrow> uint64 \<Rightarrow> LaneByteAllocation list \<Rightarrow> uint64 result" where
  "charge_allocations existing used additional [] = Inr additional"
| "charge_allocations existing used additional (a # as) =
     (case map_of existing (lba_Category a) of
        Some retained \<Rightarrow>
          if retained \<noteq> lba_Bytes a then Inl ErrLaneCapacityReservationConflict
          else charge_allocations existing used additional as
      | None \<Rightarrow>
          if existing \<noteq> [] then Inl ErrLaneCapacityReservationConflict
          else if MaxInt64 - used - additional < lba_Bytes a then Inl ErrLaneCapacityExceeded
          else charge_allocations existing used (additional + lba_Bytes a) as)"

definition allocation_row :: "string \<Rightarrow> string \<Rightarrow> string \<Rightarrow> LaneByteAllocation \<Rightarrow> capacity_reservation_row" where
  "allocation_row lane reservationID now a =
     \<lparr>lcr_lane = lane, lcr_reservation_id = reservationID, lcr_category = lba_Category a,
      lcr_reserved_bytes = sint (lba_Bytes a), lcr_created_at = now\<rparr>"

fun insert_allocations ::
  "string \<Rightarrow> string \<Rightarrow> string \<Rightarrow> LaneByteAllocation list \<Rightarrow> (capacity_tables, unit) tx" where
  "insert_allocations lane reservationID now [] = tx_return ()"
| "insert_allocations lane reservationID now (a # as) =
     tx_bind (insert_reservation (allocation_row lane reservationID now a))
       (\<lambda>_. insert_allocations lane reservationID now as)"

definition reserve_body ::
  "string \<Rightarrow> string \<Rightarrow> LaneByteAllocation list \<Rightarrow> time \<Rightarrow> (capacity_tables, unit) tx" where
  "reserve_body lane reservationID allocations now =
     tx_bind (tx_query (read_budget lane)) (\<lambda>budget.
     tx_bind (tx_query (sumLaneCapacityReservations lane)) (\<lambda>used.
     tx_bind (tx_query (laneReservationCategories lane reservationID)) (\<lambda>existing.
     tx_bind (tx_guard (existing = [] \<or> length existing = length allocations) ErrLaneCapacityReservationConflict) (\<lambda>_.
     tx_bind (tx_lift (charge_allocations existing used 0 allocations)) (\<lambda>additional.
     tx_bind (tx_guard (used \<le> word_of_int (fst budget) \<and> additional \<le> word_of_int (fst budget) - used)
       ErrLaneCapacityExceeded) (\<lambda>_.
     insert_allocations lane reservationID (formatStoredTime now) allocations))))))"

type_synonym capacity_callback = "(database \<times> capacity_tables, unit) tx"

text \<open>A nil callback is \<open>None\<close>.\<close>

definition AdmitLaneBytes ::
  "string \<Rightarrow> string \<Rightarrow> LaneByteAllocation list \<Rightarrow> capacity_callback option \<Rightarrow> time \<Rightarrow> go_error option \<Rightarrow>
   AuthorityStore \<times> capacity_tables \<Rightarrow> unit result \<times> AuthorityStore \<times> capacity_tables" where
  "AdmitLaneBytes lane reservationID allocations mutate now fault st =
     (case mutate of
        None \<Rightarrow> (Inl ErrLaneCapacityInvalid, st)
      | Some f \<Rightarrow>
          if \<not> validCapacityLane lane \<or> \<not> laneCapacityReservationIDPattern reservationID \<or>
             allocations = [] \<or> \<not> allocations_ok [] allocations
          then (Inl ErrLaneCapacityInvalid, st)
          else full_transaction fault st
            (tx_bind (on_retained (reserve_body lane reservationID allocations now)) (\<lambda>_. f)))"

definition release_check :: "string \<Rightarrow> string \<Rightarrow> capacity_tables \<Rightarrow> unit result" where
  "release_check lane reservationID ct =
     res_guard (\<exists>r \<in> set (lane_capacity_reservations ct).
       lcr_lane r = lane \<and> lcr_reservation_id r = reservationID) ErrLaneCapacityReservationNotFound"

definition delete_reservation :: "string \<Rightarrow> string \<Rightarrow> (capacity_tables, nat) tx" where
  "delete_reservation lane reservationID =
     sql_delete lane_capacity_reservations lane_capacity_reservations_update
       (\<lambda>r. lcr_lane r = lane \<and> lcr_reservation_id r = reservationID)"

definition ReleaseLaneBytes ::
  "string \<Rightarrow> string \<Rightarrow> capacity_callback option \<Rightarrow> go_error option \<Rightarrow> AuthorityStore \<times> capacity_tables \<Rightarrow>
   unit result \<times> AuthorityStore \<times> capacity_tables" where
  "ReleaseLaneBytes lane reservationID cleanup fault st =
     (case cleanup of
        None \<Rightarrow> (Inl ErrLaneCapacityInvalid, st)
      | Some f \<Rightarrow>
          if \<not> validCapacityLane lane \<or> \<not> laneCapacityReservationIDPattern reservationID
          then (Inl ErrLaneCapacityInvalid, st)
          else full_transaction fault st
            (tx_bind (on_retained (tx_query (release_check lane reservationID))) (\<lambda>_.
             tx_bind f (\<lambda>_.
             tx_bind (on_retained (delete_reservation lane reservationID)) (\<lambda>_. tx_return ())))))"

definition snapshot_body :: "string \<Rightarrow> capacity_tables \<Rightarrow> LaneByteBudgetSnapshot result" where
  "snapshot_body lane ct =
     res_bind (read_budget lane ct) (\<lambda>(maximum, policyDigest).
     res_bind (sumLaneCapacityReservations lane ct) (\<lambda>used.
       if word_of_int maximum < used then Inl ErrLaneCapacityExceeded
       else Inr \<lparr>lbs_Lane = lane, lbs_MaxBytes = word_of_int maximum, lbs_ReservedBytes = used,
                 lbs_PolicyDigest = policyDigest\<rparr>))"

definition LaneByteCapacitySnapshot ::
  "string \<Rightarrow> go_error option \<Rightarrow> AuthorityStore \<times> capacity_tables \<Rightarrow>
   LaneByteBudgetSnapshot result \<times> AuthorityStore \<times> capacity_tables" where
  "LaneByteCapacitySnapshot lane fault = (\<lambda>(s, ct).
     if \<not> validCapacityLane lane then (Inl ErrLaneCapacityInvalid, s, ct)
     else (case withStoreReadTransaction fault s (\<lambda>_. snapshot_body lane ct) of (r, s') \<Rightarrow> (r, s', ct)))"

end
