(* ===== verification/Lane_Bytes.thy ===== *)
theory Lane_Bytes
  imports Lane_Capacity
begin

text \<open>
  The byte ledger of the lanes is exact: whatever operations run, the retained bytes of a lane stay
  within its ceiling, the 64-bit arithmetic of an admission never wraps, and a release gives back
  exactly what the reservation took.
\<close>

section \<open>The invariant of the ledger\<close>

definition retained_bytes :: "string \<Rightarrow> capacity_tables \<Rightarrow> int" where
  "retained_bytes lane ct = sum_list (map lcr_reserved_bytes (reservations_of lane ct))"

definition budget_ok :: "capacity_tables \<Rightarrow> capacity_budget_row \<Rightarrow> bool" where
  "budget_ok ct b \<longleftrightarrow> validCapacityLane (lcb_lane b) \<and> 0 < lcb_max_reserved_bytes b \<and>
     lcb_max_reserved_bytes b < 2 ^ 63 \<and> laneCapacityDigestPattern (lcb_policy_digest b) \<and>
     retained_bytes (lcb_lane b) ct \<le> lcb_max_reserved_bytes b"

definition reservation_ok :: "capacity_reservation_row \<Rightarrow> bool" where
  "reservation_ok r \<longleftrightarrow> laneCapacityReservationIDPattern (lcr_reservation_id r) \<and>
     laneCapacityCategoryPattern (lcr_category r) \<and> 0 < lcr_reserved_bytes r"

definition ledger_ok :: "capacity_tables \<Rightarrow> bool" where
  "ledger_ok ct \<longleftrightarrow> distinct (map lcb_lane (lane_capacity_budgets ct)) \<and>
     list_all (budget_ok ct) (lane_capacity_budgets ct) \<and>
     distinct (map lcr_key (lane_capacity_reservations ct)) \<and>
     list_all (\<lambda>r. reservation_ok r \<and> lcr_lane r \<in> lcb_lane ` set (lane_capacity_budgets ct))
       (lane_capacity_reservations ct)"

definition empty_ledger :: capacity_tables where
  "empty_ledger = \<lparr>lane_capacity_budgets = [], lane_capacity_reservations = []\<rparr>"

lemma empty_ledger_ok: "ledger_ok empty_ledger"
  by (simp add: ledger_ok_def empty_ledger_def)

lemma sql_length_plain: "list_all plain_char s \<Longrightarrow> sql_length s = length s"
proof -
  have "list_all plain_char s \<Longrightarrow> char_count (map of_char s) = length s"
    by (induction s) (auto simp: plain_char_def)
  then show "list_all plain_char s \<Longrightarrow> ?thesis" by (simp add: sql_length_def)
qed

lemma budget_row_check: "budget_ok ct b \<Longrightarrow> lane_budget_check b"
  using match_digest_plain [of "lcb_policy_digest b"]
  by (simp add: budget_ok_def lane_budget_check_def laneCapacityDigestPattern_def sql_length_plain)

lemma reservation_row_check: "reservation_ok r \<Longrightarrow> lane_reservation_check r"
  using match_token_plain [of "lcr_reservation_id r"]
  by (simp add: reservation_ok_def lane_reservation_check_def laneCapacityReservationIDPattern_def
      laneCapacityCategoryPattern_def sql_length_plain)

section \<open>Reading the ledger\<close>

lemma retained_nonneg: "list_all reservation_ok rs \<Longrightarrow> 0 \<le> sum_list (map lcr_reserved_bytes rs)"
  by (induction rs) (auto simp: reservation_ok_def)

lemma sum_rows_exact:
  "list_all reservation_ok rs \<Longrightarrow> uint acc + sum_list (map lcr_reserved_bytes rs) < 2 ^ 63 \<Longrightarrow>
   \<exists>w. sum_rows acc rs = Inr w \<and> uint w = uint acc + sum_list (map lcr_reserved_bytes rs)"
proof (induction rs arbitrary: acc)
  case Nil
  then show ?case by simp
next
  case (Cons r rs)
  define v where "v = lcr_reserved_bytes r"
  define rest where "rest = sum_list (map lcr_reserved_bytes rs)"
  have rest: "0 \<le> rest" using retained_nonneg Cons.prems(1) by (simp add: rest_def)
  have v: "0 < v" using Cons.prems(1) by (simp add: reservation_ok_def v_def)
  have le: "uint acc + v + rest < 2 ^ 63" using Cons.prems(2) by (simp add: v_def rest_def)
  have uv: "uint (word_of_int v :: uint64) = v"
    using le rest v uint_ge_0 [of acc] by (intro uint_of_int63) linarith+
  have acc: "acc \<le> MaxInt64" using le v rest by (simp add: uint_le_bound)
  have fits: "word_of_int v \<le> MaxInt64 - acc"
    using le rest by (simp add: checked_add(1) [OF acc] uv)
  have sum: "uint (acc + word_of_int v) = uint acc + v" using checked_add(2) [OF acc fits] uv by simp
  have "sum_rows acc (r # rs) = sum_rows (acc + word_of_int v) rs"
    using Cons.prems(1) leD [OF acc] leD [OF fits] by (simp add: reservation_ok_def v_def Let_def)
  moreover obtain w where "sum_rows (acc + word_of_int v) rs = Inr w" "uint w = uint acc + v + rest"
    using Cons.IH [of "acc + word_of_int v"] Cons.prems(1) le sum by (auto simp: rest_def)
  ultimately show ?case by (auto simp: v_def rest_def)
qed

lemma ledger_rows: "ledger_ok ct \<Longrightarrow> list_all reservation_ok (reservations_of lane ct)"
  by (auto simp: ledger_ok_def reservations_of_def list_all_iff)

lemma ledger_budget:
  assumes "ledger_ok ct" "find (\<lambda>b. lcb_lane b = lane) (lane_capacity_budgets ct) = Some b"
  shows "budget_ok ct b \<and> lcb_lane b = lane \<and> b \<in> set (lane_capacity_budgets ct)"
  using assms find_Some_iff_filter [OF assms(2)] by (auto simp: ledger_ok_def list_all_iff)

lemma ledger_unbudgeted:
  assumes "ledger_ok ct" "find (\<lambda>b. lcb_lane b = lane) (lane_capacity_budgets ct) = None"
  shows "reservations_of lane ct = []"
  using assms by (auto simp: ledger_ok_def list_all_iff reservations_of_def filter_empty_conv find_key_None)

lemma ledger_bounded: "ledger_ok ct \<Longrightarrow> retained_bytes lane ct < 2 ^ 63"
  using ledger_budget [of ct lane] ledger_unbudgeted [of ct lane]
  by (cases "find (\<lambda>b. lcb_lane b = lane) (lane_capacity_budgets ct)")
     (auto simp: budget_ok_def retained_bytes_def)

lemma sum_reservations_exact:
  assumes "ledger_ok ct"
  obtains used where "sumLaneCapacityReservations lane ct = Inr used" "uint used = retained_bytes lane ct"
proof -
  have "uint (0 :: uint64) + sum_list (map lcr_reserved_bytes (reservations_of lane ct)) < 2 ^ 63"
    using ledger_bounded [OF assms, of lane] by (simp add: retained_bytes_def)
  from sum_rows_exact [OF ledger_rows [OF assms] this] that show ?thesis
    by (auto simp: sumLaneCapacityReservations_def retained_bytes_def)
qed

lemma read_budget_exact:
  assumes "ledger_ok ct"
  shows "read_budget lane ct =
    (case find (\<lambda>b. lcb_lane b = lane) (lane_capacity_budgets ct) of
       None \<Rightarrow> Inl ErrLaneCapacityUnconfigured
     | Some b \<Rightarrow> Inr (lcb_max_reserved_bytes b, lcb_policy_digest b))"
proof (cases "find (\<lambda>b. lcb_lane b = lane) (lane_capacity_budgets ct)")
  case None
  then show ?thesis by (simp add: read_budget_def)
next
  case (Some b)
  then show ?thesis using ledger_budget [OF assms Some] by (simp add: read_budget_def budget_ok_def)
qed

definition rows_of :: "string \<Rightarrow> string \<Rightarrow> capacity_tables \<Rightarrow> capacity_reservation_row list" where
  "rows_of lane reservationID ct = filter (\<lambda>r. lcr_reservation_id r = reservationID) (reservations_of lane ct)"

lemma collect_categories_exact:
  "list_all reservation_ok rs \<Longrightarrow> distinct (map fst acc @ map lcr_category rs) \<Longrightarrow>
   collect_categories acc rs = Inr (acc @ map (\<lambda>r. (lcr_category r, word_of_int (lcr_reserved_bytes r))) rs)"
proof (induction rs arbitrary: acc)
  case Nil
  then show ?case by simp
next
  case (Cons r rs)
  then show ?case using Cons.IH [of "acc @ [(lcr_category r, word_of_int (lcr_reserved_bytes r))]"]
    by (auto simp: reservation_ok_def)
qed

lemma rows_of_distinct: "ledger_ok ct \<Longrightarrow> distinct (map lcr_category (rows_of lane rid ct))"
proof -
  assume "ledger_ok ct"
  then have "distinct (map lcr_key (rows_of lane rid ct))"
    by (simp add: ledger_ok_def rows_of_def reservations_of_def distinct_map_filter)
  then show ?thesis by (auto simp: distinct_map inj_on_def lcr_key_def rows_of_def reservations_of_def)
qed

lemma categories_exact:
  assumes "ledger_ok ct"
  shows "laneReservationCategories lane rid ct =
    Inr (map (\<lambda>r. (lcr_category r, word_of_int (lcr_reserved_bytes r))) (rows_of lane rid ct))"
proof -
  have "list_all reservation_ok (rows_of lane rid ct)"
    using ledger_rows [OF assms, of lane] by (auto simp: rows_of_def list_all_iff)
  then show ?thesis
    using collect_categories_exact [of "rows_of lane rid ct" "[]"] rows_of_distinct [OF assms]
    by (simp add: laneReservationCategories_def rows_of_def [symmetric])
qed

section \<open>An admission as arithmetic on integers\<close>

definition allocation_bytes :: "LaneByteAllocation list \<Rightarrow> int" where
  "allocation_bytes allocations = sum_list (map (\<lambda>a. uint (lba_Bytes a)) allocations)"

definition row_entry :: "capacity_reservation_row \<Rightarrow> string \<times> int" where
  "row_entry r = (lcr_category r, lcr_reserved_bytes r)"

definition allocation_entry :: "LaneByteAllocation \<Rightarrow> string \<times> int" where
  "allocation_entry a = (lba_Category a, uint (lba_Bytes a))"

text \<open>
  The reference for an admission: no budget, no admission; an unknown reservation is charged when it
  fits and refused otherwise; a known one is accepted unchanged when it has exactly the same entries.
\<close>

definition reserve_spec ::
  "string \<Rightarrow> string \<Rightarrow> LaneByteAllocation list \<Rightarrow> time \<Rightarrow> (capacity_tables, unit) tx" where
  "reserve_spec lane reservationID allocations now ct =
     (case find (\<lambda>b. lcb_lane b = lane) (lane_capacity_budgets ct) of
        None \<Rightarrow> Inl ErrLaneCapacityUnconfigured
      | Some b \<Rightarrow>
          if rows_of lane reservationID ct = [] then
            (if retained_bytes lane ct + allocation_bytes allocations \<le> lcb_max_reserved_bytes b
             then Inr ((), ct\<lparr>lane_capacity_reservations := lane_capacity_reservations ct @
               map (allocation_row lane reservationID (formatStoredTime now)) allocations\<rparr>)
             else Inl ErrLaneCapacityExceeded)
          else if row_entry ` set (rows_of lane reservationID ct) = allocation_entry ` set allocations
          then Inr ((), ct)
          else Inl ErrLaneCapacityReservationConflict)"

lemma allocations_ok_iff:
  "allocations_ok seen as \<longleftrightarrow> list_all (\<lambda>a. laneCapacityCategoryPattern (lba_Category a) \<and>
     0 < uint (lba_Bytes a) \<and> lba_Bytes a \<le> MaxInt64) as \<and>
     distinct (map lba_Category as) \<and> set seen \<inter> lba_Category ` set as = {}"
  by (induction as arbitrary: seen) (auto simp: word_neq_0_conv [symmetric] uint_0_iff order.strict_iff_order)

lemma charge_fresh:
  "uint used + uint acc < 2 ^ 63 \<Longrightarrow>
   (if uint used + uint acc + allocation_bytes as < 2 ^ 63
    then \<exists>w. charge_allocations [] used acc as = Inr w \<and> uint w = uint acc + allocation_bytes as
    else charge_allocations [] used acc as = Inl ErrLaneCapacityExceeded)"
proof (induction as arbitrary: acc)
  case Nil
  then show ?case by (simp add: allocation_bytes_def)
next
  case (Cons a as)
  define b where "b = uint (lba_Bytes a)"
  define rest where "rest = allocation_bytes as"
  have rest: "0 \<le> rest" by (auto simp: rest_def allocation_bytes_def intro: sum_list_nonneg)
  have split: "allocation_bytes (a # as) = b + rest" by (simp add: allocation_bytes_def b_def rest_def)
  have used: "used \<le> MaxInt64" 
    unfolding uint_le_bound uint_max_int using Cons.prems uint_ge_0 [of acc] by linarith
  have sub: "uint (MaxInt64 - used) = 2 ^ 63 - 1 - uint used" by (simp add: uint_sub_exact [OF used])
  have acc: "acc \<le> MaxInt64 - used" using Cons.prems by (simp add: uint_le_bound sub)
  have fits: "lba_Bytes a \<le> MaxInt64 - used - acc \<longleftrightarrow> uint used + uint acc + b < 2 ^ 63"
    unfolding checked_add(1) [OF acc] sub b_def by linarith
  show ?case
  proof (cases "uint used + uint acc + b < 2 ^ 63")
    case True
    then have ok: "lba_Bytes a \<le> MaxInt64 - used - acc" by (simp only: fits)
    have sum: "uint (acc + lba_Bytes a) = uint acc + b" using checked_add(2) [OF acc ok] by (simp add: b_def)
    have "charge_allocations [] used acc (a # as) = charge_allocations [] used (acc + lba_Bytes a) as"
      using leD [OF ok] by simp
    moreover have "uint used + uint (acc + lba_Bytes a) < 2 ^ 63" unfolding sum using True by linarith
    note Cons.IH [OF this, unfolded sum, folded rest_def]
    ultimately show ?thesis unfolding split by (simp only: add.assoc)
  next
    case False
    then have "MaxInt64 - used - acc < lba_Bytes a" using fits by (simp add: not_le)
    then show ?thesis using False rest unfolding split by simp
  qed
qed

lemma charge_known:
  "existing \<noteq> [] \<Longrightarrow> charge_allocations existing used acc as =
     (if \<forall>a \<in> set as. map_of existing (lba_Category a) = Some (lba_Bytes a) then Inr acc
      else Inl ErrLaneCapacityReservationConflict)"
  by (induction as) (auto split: option.splits)

lemma allocation_row_key [simp]: "lcr_key (allocation_row lane rid now a) = (lane, rid, lba_Category a)"
  by (simp add: lcr_key_def allocation_row_def)

lemma insert_allocations_fresh:
  "list_all (\<lambda>a. lane_reservation_check (allocation_row lane rid now a)) as \<Longrightarrow> distinct (map lba_Category as) \<Longrightarrow>
   (\<forall>a \<in> set as. lcr_key (allocation_row lane rid now a) \<notin> lcr_key ` set (lane_capacity_reservations ct)) \<Longrightarrow>
   lane \<in> lcb_lane ` set (lane_capacity_budgets ct) \<Longrightarrow>
   insert_allocations lane rid now as ct =
     Inr ((), ct\<lparr>lane_capacity_reservations := lane_capacity_reservations ct @ map (allocation_row lane rid now) as\<rparr>)"
proof (induction as arbitrary: ct)
  case Nil
  then show ?case by simp
next
  case (Cons a as)
  define ct1 where "ct1 = ct\<lparr>lane_capacity_reservations := lane_capacity_reservations ct @ [allocation_row lane rid now a]\<rparr>"
  have one: "insert_reservation (allocation_row lane rid now a) ct = Inr ((), ct1)"
    using Cons.prems by (simp add: insert_reservation_def ct1_def allocation_row_def)
  have "insert_allocations lane rid now as ct1 =
      Inr ((), ct1\<lparr>lane_capacity_reservations := lane_capacity_reservations ct1 @ map (allocation_row lane rid now) as\<rparr>)"
  proof (rule Cons.IH)
    show "\<forall>x \<in> set as. lcr_key (allocation_row lane rid now x) \<notin> lcr_key ` set (lane_capacity_reservations ct1)"
      using Cons.prems(2,3) by (auto simp: ct1_def intro: rev_image_eqI)
  qed (use Cons.prems in \<open>simp_all add: ct1_def\<close>)
  then show ?case using one by (simp add: tx_bind_def ct1_def)
qed

lemma insert_allocations_known:
  "list_all (\<lambda>a. lane_reservation_check (allocation_row lane rid now a)) as \<Longrightarrow>
   (\<forall>a \<in> set as. lcr_key (allocation_row lane rid now a) \<in> lcr_key ` set (lane_capacity_reservations ct)) \<Longrightarrow>
   insert_allocations lane rid now as ct = Inr ((), ct)"
  by (induction as) (simp_all add: insert_reservation_def tx_bind_def)

lemma allocation_row_ok:
  assumes "laneCapacityReservationIDPattern rid" "allocations_ok [] as"
  shows "list_all (\<lambda>a. reservation_ok (allocation_row lane rid now a)) as"
  using assms by (auto simp: allocations_ok_iff list_all_iff reservation_ok_def allocation_row_def sint_small)

lemma distinct_card_image: "distinct (map f xs) \<Longrightarrow> card (f ` set xs) = length xs"
  by (metis distinct_card length_map set_map)

lemma same_entries:
  assumes rows: "list_all (\<lambda>r. 0 < lcr_reserved_bytes r \<and> lcr_reserved_bytes r < 2 ^ 63) rows"
    and dr: "distinct (map lcr_category rows)" and da: "distinct (map lba_Category as)"
  shows "length rows = length as \<and>
      (\<forall>a \<in> set as. map_of (map (\<lambda>r. (lcr_category r, word_of_int (lcr_reserved_bytes r))) rows)
        (lba_Category a) = Some (lba_Bytes a)) \<longleftrightarrow>
    row_entry ` set rows = allocation_entry ` set as" (is "?n \<and> ?found \<longleftrightarrow> ?R = ?A")
proof -
  define existing where "existing = map (\<lambda>r. (lcr_category r, word_of_int (lcr_reserved_bytes r) :: uint64)) rows"
  have "distinct (map fst existing)" using dr by (simp add: existing_def comp_def)
  then have "map_of existing c = Some w \<longleftrightarrow> (\<exists>r \<in> set rows. lcr_category r = c \<and> word_of_int (lcr_reserved_bytes r) = w)" for c w
    by (auto simp: map_of_eq_Some_iff existing_def)
  moreover have "(\<exists>r \<in> set rows. lcr_category r = c \<and> word_of_int (lcr_reserved_bytes r) = w) \<longleftrightarrow> (c, uint w) \<in> ?R"
    for c and w :: uint64
    using rows by (auto simp: list_all_iff row_entry_def word_of_int63_eq image_iff)
  ultimately have "map_of existing (lba_Category a) = Some (lba_Bytes a) \<longleftrightarrow> allocation_entry a \<in> ?R" for a
    by (simp add: allocation_entry_def)
  then have found: "?found \<longleftrightarrow> ?A \<subseteq> ?R" by (auto simp: existing_def)
  have "distinct (map row_entry rows)" "distinct (map allocation_entry as)"
    using dr da by (auto simp: distinct_map inj_on_def row_entry_def allocation_entry_def)
  then have cards: "card ?R = length rows" "card ?A = length as" by (simp_all only: distinct_card_image)
  show ?thesis
  proof
    assume "?n \<and> ?found"
    then show "?R = ?A" using found cards card_subset_eq [of ?R ?A] by simp
  next
    assume "?R = ?A"
    then show "?n \<and> ?found" using found cards by simp
  qed
qed

lemma ledger_row_small:
  assumes "ledger_ok ct" "r \<in> set (reservations_of lane ct)"
  shows "0 < lcr_reserved_bytes r \<and> lcr_reserved_bytes r < 2 ^ 63"
proof -
  have ok: "list_all reservation_ok (reservations_of lane ct)" by (rule ledger_rows [OF assms(1)])
  have "lcr_reserved_bytes r \<le> retained_bytes lane ct"
    unfolding retained_bytes_def using ok assms(2)
    by (intro member_le_sum_list) (auto simp: list_all_iff reservation_ok_def less_imp_le)
  then show ?thesis
    using ok assms(2) ledger_bounded [OF assms(1), of lane] by (auto simp: list_all_iff reservation_ok_def)
qed

lemma reserve_fresh:
  assumes ct: "ledger_ok ct" and args: "laneCapacityReservationIDPattern rid" "allocations_ok [] as"
    and b: "find (\<lambda>b. lcb_lane b = lane) (lane_capacity_budgets ct) = Some b" and new: "rows_of lane rid ct = []"
  shows "reserve_body lane rid as now ct = reserve_spec lane rid as now ct"
proof -
  obtain used where used: "sumLaneCapacityReservations lane ct = Inr used" "uint used = retained_bytes lane ct"
    by (rule sum_reservations_exact [OF ct])
  have bok: "budget_ok ct b" "lcb_lane b = lane" "b \<in> set (lane_capacity_budgets ct)"
    using ledger_budget [OF ct b] by simp_all
  define mx where "mx = lcb_max_reserved_bytes b"
  have mx: "0 < mx" "mx < 2 ^ 63" "uint used \<le> mx" using bok used(2) by (simp_all add: budget_ok_def mx_def)
  have umx: "uint (word_of_int mx :: uint64) = mx" using mx by (intro uint_of_int63) linarith+
  have le: "used \<le> word_of_int mx" using mx(3) by (simp only: uint_le_bound umx)
  have room: "w \<le> word_of_int mx - used \<longleftrightarrow> uint used + uint w \<le> mx" for w :: uint64
    by (simp only: checked_add(1) [OF le] umx)
  have read: "read_budget lane ct = Inr (mx, lcb_policy_digest b)"
    using read_budget_exact [OF ct, of lane] b by (simp add: mx_def)
  have keys: "\<forall>a \<in> set as. lcr_key (allocation_row lane rid n a) \<notin> lcr_key ` set (lane_capacity_reservations ct)" for n
    using new by (auto simp: rows_of_def reservations_of_def filter_empty_conv lcr_key_def allocation_row_def)
  have insert: "insert_allocations lane rid n as ct =
      Inr ((), ct\<lparr>lane_capacity_reservations := lane_capacity_reservations ct @ map (allocation_row lane rid n) as\<rparr>)" for n
    using allocation_row_ok [OF args] args(2) bok keys
    by (intro insert_allocations_fresh) (auto simp: list_all_iff reservation_row_check allocations_ok_iff)
  define body where "body = charge_allocations [] used 0 as"
  have run: "reserve_body lane rid as now ct = (case body of Inl e \<Rightarrow> Inl e
      | Inr w \<Rightarrow> if uint used + uint w \<le> mx then insert_allocations lane rid (formatStoredTime now) as ct
                 else Inl ErrLaneCapacityExceeded)"
    by (simp add: reserve_body_def tx_steps read used(1) categories_exact [OF ct] new body_def le room split: sum.split)
  have "uint used + uint (0 :: uint64) < 2 ^ 63" using mx by simp
  from charge_fresh [OF this, of as, folded body_def] have body:
    "if uint used + allocation_bytes as < 2 ^ 63
     then \<exists>w. body = Inr w \<and> uint w = allocation_bytes as else body = Inl ErrLaneCapacityExceeded"
    by (simp only: unsigned_0 add_0_right add_0)
  have spec: "reserve_spec lane rid as now ct = (if uint used + allocation_bytes as \<le> mx
      then insert_allocations lane rid (formatStoredTime now) as ct else Inl ErrLaneCapacityExceeded)"
    by (simp add: reserve_spec_def b new insert used(2) mx_def)
  show ?thesis
  proof (cases "uint used + allocation_bytes as < 2 ^ 63")
    case True
    then obtain w where "body = Inr w" "uint w = allocation_bytes as" using body by auto
    then show ?thesis by (simp add: run spec)
  next
    case False
    then show ?thesis using body mx by (simp add: run spec)
  qed
qed

lemma reserve_known:
  assumes ct: "ledger_ok ct" and args: "laneCapacityReservationIDPattern rid" "allocations_ok [] as"
    and b: "find (\<lambda>b. lcb_lane b = lane) (lane_capacity_budgets ct) = Some b" and old: "rows_of lane rid ct \<noteq> []"
  shows "reserve_body lane rid as now ct = reserve_spec lane rid as now ct"
proof -
  obtain used where used: "sumLaneCapacityReservations lane ct = Inr used" "uint used = retained_bytes lane ct"
    by (rule sum_reservations_exact [OF ct])
  define mx where "mx = lcb_max_reserved_bytes b"
  have mx: "0 < mx" "mx < 2 ^ 63" "uint used \<le> mx"
    using ledger_budget [OF ct b] used(2) by (auto simp: budget_ok_def mx_def)
  have umx: "uint (word_of_int mx :: uint64) = mx" using mx by (intro uint_of_int63) linarith+
  have le: "used \<le> word_of_int mx" using mx(3) by (simp only: uint_le_bound umx)
  define rows where "rows = rows_of lane rid ct"
  define existing where "existing = map (\<lambda>r. (lcr_category r, word_of_int (lcr_reserved_bytes r) :: uint64)) rows"
  define found where "found \<longleftrightarrow> (\<forall>a \<in> set as. map_of existing (lba_Category a) = Some (lba_Bytes a))"
  have read: "read_budget lane ct = Inr (mx, lcb_policy_digest b)"
    using read_budget_exact [OF ct, of lane] b by (simp add: mx_def)
  have ne: "existing \<noteq> []" "rows \<noteq> []" "length existing = length rows"
    using old by (simp_all add: existing_def rows_def)
  have cats: "laneReservationCategories lane rid ct = Inr existing"
    by (simp add: categories_exact [OF ct] existing_def rows_def)
  have insert: "insert_allocations lane rid n as ct = Inr ((), ct)" if found for n
  proof (rule insert_allocations_known)
    have "a \<in> set as \<Longrightarrow> (lba_Category a, lba_Bytes a) \<in> set existing" for a
      using that by (auto simp: found_def dest: map_of_SomeD)
    then have "a \<in> set as \<Longrightarrow> \<exists>r \<in> set rows. lcr_category r = lba_Category a" for a
      by (fastforce simp: existing_def)
    then show "\<forall>a \<in> set as. lcr_key (allocation_row lane rid n a) \<in> lcr_key ` set (lane_capacity_reservations ct)"
      by (fastforce simp: rows_def rows_of_def reservations_of_def lcr_key_def allocation_row_def image_iff)
  qed (use allocation_row_ok [OF args] in \<open>auto simp: list_all_iff reservation_row_check\<close>)
  have run: "reserve_body lane rid as now ct =
      (if length rows = length as \<and> found then Inr ((), ct) else Inl ErrLaneCapacityReservationConflict)"
    using insert by (simp add: reserve_body_def tx_steps read used(1) cats ne charge_known [OF ne(1), of used 0 as]
        found_def [symmetric] le)
  have small: "list_all (\<lambda>r. 0 < lcr_reserved_bytes r \<and> lcr_reserved_bytes r < 2 ^ 63) rows"
    using ledger_row_small [OF ct] by (auto simp: rows_def rows_of_def list_all_iff)
  have "length rows = length as \<and> found \<longleftrightarrow> row_entry ` set rows = allocation_entry ` set as"
    unfolding found_def existing_def
    using rows_of_distinct [OF ct] args(2)
    by (intro same_entries [OF small]) (simp_all add: rows_def allocations_ok_iff)
  then show ?thesis using ne by (simp add: run reserve_spec_def b rows_def [symmetric])
qed

lemma reserve_exact:
  assumes "ledger_ok ct" "laneCapacityReservationIDPattern rid" "allocations_ok [] as"
  shows "reserve_body lane rid as now ct = reserve_spec lane rid as now ct"
proof (cases "find (\<lambda>b. lcb_lane b = lane) (lane_capacity_budgets ct)")
  case None
  then show ?thesis
    using read_budget_exact [OF assms(1), of lane] by (simp add: reserve_body_def tx_steps reserve_spec_def)
next
  case (Some b)
  then show ?thesis
    using reserve_fresh [OF assms Some] reserve_known [OF assms Some] by (cases "rows_of lane rid ct = []") auto
qed

section \<open>Every operation keeps the ledger\<close>

lemma retained_appended:
  assumes "allocations_ok [] as"
  shows "retained_bytes l (ct\<lparr>lane_capacity_reservations := lane_capacity_reservations ct @
      map (allocation_row lane rid n) as\<rparr>) = retained_bytes l ct + (if l = lane then allocation_bytes as else 0)"
proof -
  define new where "new = map (allocation_row lane rid n) as"
  have "sum_list (map lcr_reserved_bytes new) = allocation_bytes as"
    using assms by (auto simp: new_def allocation_bytes_def allocations_ok_iff list_all_iff allocation_row_def
        sint_small comp_def intro!: arg_cong [of _ _ sum_list])
  moreover have "filter (\<lambda>r. lcr_lane r = l) new = (if l = lane then new else [])"
    by (auto simp: new_def allocation_row_def filter_id_conv filter_empty_conv)
  ultimately show ?thesis by (simp add: retained_bytes_def reservations_of_def new_def [symmetric])
qed

lemma reserve_keeps:
  assumes ct: "ledger_ok ct" and args: "laneCapacityReservationIDPattern rid" "allocations_ok [] as"
    and run: "reserve_spec lane rid as now ct = Inr ((), ct')"
  shows "ledger_ok ct'"
proof -
  obtain b where b: "find (\<lambda>b. lcb_lane b = lane) (lane_capacity_budgets ct) = Some b"
    using run by (auto simp: reserve_spec_def split: option.splits)
  show ?thesis
  proof (cases "rows_of lane rid ct = []")
    case False
    then show ?thesis using run ct b by (auto simp: reserve_spec_def split: if_splits)
  next
    case True
    define new where "new = map (allocation_row lane rid (formatStoredTime now)) as"
    have room: "retained_bytes lane ct + allocation_bytes as \<le> lcb_max_reserved_bytes b"
      and ct': "ct' = ct\<lparr>lane_capacity_reservations := lane_capacity_reservations ct @ new\<rparr>"
      using run b True by (auto simp: reserve_spec_def new_def split: if_splits)
    have bl: "lcb_lane b = lane" "b \<in> set (lane_capacity_budgets ct)" using ledger_budget [OF ct b] by simp_all
    have lanes: "list_all (\<lambda>r. reservation_ok r \<and> lcr_lane r = lane) new"
      using allocation_row_ok [OF args] by (auto simp: new_def list_all_iff allocation_row_def)
    have retained: "retained_bytes l ct' = retained_bytes l ct + (if l = lane then allocation_bytes as else 0)" for l
      unfolding ct' new_def by (rule retained_appended [OF args(2)])
    have "distinct (map lcr_key (lane_capacity_reservations ct @ new))"
    proof -
      have "distinct (map lcr_key new)"
        using args(2) by (auto simp: new_def allocations_ok_iff distinct_map inj_on_def)
      moreover have "lcr_key ` set (lane_capacity_reservations ct) \<inter> lcr_key ` set new = {}"
        using True by (auto simp: new_def rows_of_def reservations_of_def filter_empty_conv lcr_key_def allocation_row_def)
      ultimately show ?thesis using ct by (simp add: ledger_ok_def)
    qed
    moreover have "list_all (budget_ok ct') (lane_capacity_budgets ct)"
      unfolding list_all_iff
    proof
      fix x assume x: "x \<in> set (lane_capacity_budgets ct)"
      then have "lcb_lane x = lane \<Longrightarrow> x = b"
        using ct bl by (auto simp: ledger_ok_def intro: distinct_key_eq)
      then show "budget_ok ct' x"
        using ct x room by (auto simp: ledger_ok_def list_all_iff budget_ok_def retained)
    qed
    ultimately show ?thesis using ct lanes bl by (auto simp: ledger_ok_def ct' list_all_iff)
  qed
qed

lemma upsert_keeps:
  assumes ct: "ledger_ok ct" and row: "budget_ok ct r"
  shows "\<exists>ct'. upsert_budget r ct = Inr ((), ct') \<and> ledger_ok ct' \<and>
    lane_capacity_reservations ct' = lane_capacity_reservations ct \<and>
    find (\<lambda>b. lcb_lane b = lcb_lane r) (lane_capacity_budgets ct') = Some r"
proof -
  have same: "lane_capacity_reservations ct' = lane_capacity_reservations ct \<Longrightarrow> budget_ok ct' = budget_ok ct" for ct'
    by (auto simp: fun_eq_iff budget_ok_def retained_bytes_def reservations_of_def)
  show ?thesis
  proof (cases "lcb_lane r \<in> lcb_lane ` set (lane_capacity_budgets ct)")
    case True
    define rows where "rows = update_rows (\<lambda>b. lcb_lane b = lcb_lane r) (\<lambda>_. r) (lane_capacity_budgets ct)"
    have lanes: "map lcb_lane rows = map lcb_lane (lane_capacity_budgets ct)"
      by (auto simp: rows_def update_rows_def)
    have set: "lcb_lane ` set rows = lcb_lane ` set (lane_capacity_budgets ct)"
      using arg_cong [OF lanes, of set] by simp
    have mem: "r \<in> set rows" using True by (auto simp: rows_def in_update_rows)
    have all: "list_all (budget_ok ct) rows"
      using ct row by (auto simp: ledger_ok_def list_all_iff rows_def in_update_rows)
    have dist: "distinct (map lcb_lane rows)" using ct by (simp add: ledger_ok_def lanes)
    have "budget_ok (ct\<lparr>lane_capacity_budgets := rows\<rparr>) = budget_ok ct" by (rule same) simp
    then have "ledger_ok (ct\<lparr>lane_capacity_budgets := rows\<rparr>)"
      using ct all dist by (simp add: ledger_ok_def set)
    moreover have "find (\<lambda>b. lcb_lane b = lcb_lane r) rows = Some r"
      using mem find_key_Some [OF dist] by simp
    ultimately show ?thesis
      using True budget_row_check [OF row] by (simp add: upsert_budget_def rows_def [symmetric])
  next
    case False
    define ct' where "ct' = ct\<lparr>lane_capacity_budgets := lane_capacity_budgets ct @ [r]\<rparr>"
    have "budget_ok ct' = budget_ok ct" by (rule same) (simp add: ct'_def)
    then have "ledger_ok ct'"
      using ct row False by (auto simp: ledger_ok_def list_all_iff ct'_def)
    moreover have "find (\<lambda>b. lcb_lane b = lcb_lane r) (lane_capacity_budgets ct') = Some r"
      using False by (simp add: ct'_def find_append find_key_None [THEN iffD2])
    ultimately show ?thesis
      using False budget_row_check [OF row] by (simp add: upsert_budget_def ct'_def [symmetric]) (simp add: ct'_def)
  qed
qed

lemma set_budget_keeps:
  assumes ct: "ledger_ok ct" and args: "validCapacityLane lane" "maxBytes \<noteq> 0" "maxBytes \<le> MaxInt64"
      "laneCapacityDigestPattern digest"
  shows "if retained_bytes lane ct \<le> uint maxBytes
    then \<exists>ct'. set_budget_body lane maxBytes digest now (db, ct) = Inr ((), (db, ct')) \<and> ledger_ok ct' \<and>
      lane_capacity_reservations ct' = lane_capacity_reservations ct \<and>
      find (\<lambda>b. lcb_lane b = lane) (lane_capacity_budgets ct') =
        Some \<lparr>lcb_lane = lane, lcb_max_reserved_bytes = uint maxBytes, lcb_policy_digest = digest,
              lcb_updated_at = formatStoredTime now\<rparr>
    else set_budget_body lane maxBytes digest now (db, ct) = Inl ErrLaneCapacityExceeded"
proof -
  obtain used where used: "sumLaneCapacityReservations lane ct = Inr used" "uint used = retained_bytes lane ct"
    by (rule sum_reservations_exact [OF ct])
  define row where "row = \<lparr>lcb_lane = lane, lcb_max_reserved_bytes = uint maxBytes, lcb_policy_digest = digest,
    lcb_updated_at = formatStoredTime now\<rparr>"
  have run: "set_budget_body lane maxBytes digest now (db, ct) =
      (if retained_bytes lane ct \<le> uint maxBytes then on_retained (upsert_budget row) (db, ct)
       else Inl ErrLaneCapacityExceeded)"
    by (simp add: set_budget_body_def on_retained_def tx_steps used(1) uint_le_bound [of used] used(2) row_def
        sint_small [OF args(3)])
  have "retained_bytes lane ct \<le> uint maxBytes \<Longrightarrow> budget_ok ct row"
    using args by (auto simp: row_def budget_ok_def uint_le_bound uint_0_iff order.strict_iff_order)
  then show ?thesis
    using upsert_keeps [OF ct, of row] unfolding run by (auto simp: on_retained_def row_def [symmetric]) (auto simp: row_def)
qed

lemma delete_keeps:
  assumes "ledger_ok ct" "delete_reservation lane rid ct = Inr (n, ct')"
  shows "ledger_ok ct'"
proof -
  have ct': "ct' = ct\<lparr>lane_capacity_reservations :=
      filter (\<lambda>r. \<not> (lcr_lane r = lane \<and> lcr_reservation_id r = rid)) (lane_capacity_reservations ct)\<rparr>"
    using assms(2) by (simp add: delete_reservation_def tx_simps)
  have le: "retained_bytes l ct' \<le> retained_bytes l ct" for l
  proof -
    have "sum_list (map lcr_reserved_bytes (filter P rs)) \<le> sum_list (map lcr_reserved_bytes rs)"
      if "list_all reservation_ok rs" for P rs
      using that by (induction rs) (auto simp: reservation_ok_def)
    moreover have "reservations_of l ct' =
        filter (\<lambda>r. \<not> (lcr_lane r = lane \<and> lcr_reservation_id r = rid)) (reservations_of l ct)"
      unfolding ct' reservations_of_def filter_filter by (auto intro: filter_cong)
    ultimately show ?thesis using ledger_rows [OF assms(1), of l] unfolding retained_bytes_def by metis
  qed
  have "budget_ok ct' b" if "budget_ok ct b" for b
    using that le [of "lcb_lane b"] by (simp add: budget_ok_def)
  then show ?thesis
    using assms(1) by (auto simp: ledger_ok_def list_all_iff distinct_map_filter ct')
qed

section \<open>Runs of the ledger\<close>

text \<open>
  A caller's callback runs inside the transaction; the ledger relies on it to leave the two capacity
  tables alone.
\<close>

definition leaves_ledger :: "capacity_callback option \<Rightarrow> bool" where
  "leaves_ledger f \<longleftrightarrow>
     (\<forall>g db ct db' ct'. f = Some g \<longrightarrow> g (db, ct) = Inr ((), (db', ct')) \<longrightarrow> ct' = ct)"

datatype capacity_op =
    DoSetBudget string uint64 string
  | DoAdmit string string "LaneByteAllocation list" "capacity_callback option"
  | DoRelease string string "capacity_callback option"
  | DoSnapshot string

type_synonym capacity_call = "capacity_op \<times> time \<times> go_error option"

fun capacity_step :: "AuthorityStore \<times> capacity_tables \<Rightarrow> capacity_call \<Rightarrow> AuthorityStore \<times> capacity_tables" where
  "capacity_step st (DoSetBudget lane maxBytes digest, now, fault) =
     snd (SetLaneByteBudget lane maxBytes digest now fault st)"
| "capacity_step st (DoAdmit lane rid allocations mutate, now, fault) =
     snd (AdmitLaneBytes lane rid allocations mutate now fault st)"
| "capacity_step st (DoRelease lane rid cleanup, now, fault) = snd (ReleaseLaneBytes lane rid cleanup fault st)"
| "capacity_step st (DoSnapshot lane, now, fault) = snd (LaneByteCapacitySnapshot lane fault st)"

fun call_leaves_ledger :: "capacity_call \<Rightarrow> bool" where
  "call_leaves_ledger (DoAdmit lane rid allocations mutate, now, fault) = leaves_ledger mutate"
| "call_leaves_ledger (DoRelease lane rid cleanup, now, fault) = leaves_ledger cleanup"
| "call_leaves_ledger _ = True"

lemma leaves_ledgerD: "leaves_ledger (Some g) \<Longrightarrow> g (db, ct) = Inr (u, (db', ct')) \<Longrightarrow> ct' = ct"
  by (auto simp: leaves_ledger_def)

lemma full_transaction_tables:
  assumes "I rt" "\<And>x db rt'. body (st_db s, rt) = Inr (x, (db, rt')) \<Longrightarrow> I rt'"
  shows "I (snd (snd (full_transaction fault (s, rt) body)))"
  using assms by (auto simp: full_transaction_def split: option.splits sum.splits)

lemma set_budget_step:
  assumes "ledger_ok ct"
  shows "ledger_ok (snd (snd (SetLaneByteBudget lane maxBytes digest now fault (s, ct))))"
proof (cases "validCapacityLane lane \<and> maxBytes \<noteq> 0 \<and> maxBytes \<le> MaxInt64 \<and> laneCapacityDigestPattern digest")
  case True
  have "ledger_ok ct'" if "set_budget_body lane maxBytes digest now (st_db s, ct) = Inr (x, (db, ct'))" for x db ct'
    using set_budget_keeps [OF assms, of lane maxBytes digest now "st_db s"] True that
    by (cases "retained_bytes lane ct \<le> uint maxBytes") force+
  then show ?thesis
    using assms True by (auto simp: SetLaneByteBudget_def intro!: full_transaction_tables [where I = ledger_ok])
next
  case False
  then show ?thesis using assms by (auto simp: SetLaneByteBudget_def not_less)
qed

lemma admit_step:
  assumes "ledger_ok ct" "leaves_ledger mutate"
  shows "ledger_ok (snd (snd (AdmitLaneBytes lane rid as mutate now fault (s, ct))))"
proof -
  have "ledger_ok ct'" if m: "mutate = Some g" and args: "laneCapacityReservationIDPattern rid" "allocations_ok [] as"
    and run: "tx_bind (on_retained (reserve_body lane rid as now)) (\<lambda>_. g) (st_db s, ct) = Inr (x, (db, ct'))" for g x db ct'
  proof -
    obtain ct1 where "reserve_body lane rid as now ct = Inr ((), ct1)" and g: "g (st_db s, ct1) = Inr (x, (db, ct'))"
      using run by (auto simp: tx_simps)
    then have "ledger_ok ct1"
      using reserve_keeps [OF assms(1) args] reserve_exact [OF assms(1) args] by simp
    then show ?thesis using leaves_ledgerD [OF assms(2) [unfolded m] g] by simp
  qed
  then show ?thesis
    using assms by (auto simp: AdmitLaneBytes_def split: option.splits intro!: full_transaction_tables [where I = ledger_ok])
qed

lemma release_step:
  assumes "ledger_ok ct" "leaves_ledger cleanup"
  shows "ledger_ok (snd (snd (ReleaseLaneBytes lane rid cleanup fault (s, ct))))"
proof -
  have "ledger_ok ct'" if m: "cleanup = Some g" and
    run: "tx_bind (on_retained (tx_query (release_check lane rid))) (\<lambda>_. tx_bind g (\<lambda>_.
       tx_bind (on_retained (delete_reservation lane rid)) (\<lambda>_. tx_return ()))) (st_db s, ct) = Inr (x, (db, ct'))"
    for g x db ct'
  proof -
    obtain db1 ct1 n where g: "g (st_db s, ct) = Inr ((), (db1, ct1))" and "delete_reservation lane rid ct1 = Inr (n, ct')"
      using run by (auto simp: tx_bind_Inr on_retained_Inr tx_query_Inr tx_return_Inr simp del: tx_run)
    moreover have "ct1 = ct" using leaves_ledgerD [OF assms(2) [unfolded m] g] by simp
    ultimately show ?thesis using delete_keeps [OF assms(1)] by simp
  qed
  then show ?thesis
    using assms by (auto simp: ReleaseLaneBytes_def split: option.splits intro!: full_transaction_tables [where I = ledger_ok])
qed

lemma snapshot_step: "snd (snd (LaneByteCapacitySnapshot lane fault (s, ct))) = ct"
  by (simp add: LaneByteCapacitySnapshot_def split: prod.splits)

text \<open>
  A system in which only some calls are admitted; what every admitted call keeps holds after any
  sequence of them.
\<close>

locale guarded_system =
  fixes step :: "'s \<Rightarrow> 'o \<Rightarrow> 's"
    and admitted :: "'o \<Rightarrow> bool"
    and inv :: "'s \<Rightarrow> bool"
  assumes guarded_step: "inv s \<Longrightarrow> admitted op \<Longrightarrow> inv (step s op)"
begin

lemma guarded_run: "inv s \<Longrightarrow> list_all admitted ops \<Longrightarrow> inv (foldl step s ops)"
  by (induction ops arbitrary: s) (simp_all add: guarded_step)

end

interpretation ledger: guarded_system capacity_step call_leaves_ledger "\<lambda>st. ledger_ok (snd st)"
proof
  fix st :: "AuthorityStore \<times> capacity_tables" and op
  assume "ledger_ok (snd st)" "call_leaves_ledger op"
  then show "ledger_ok (snd (capacity_step st op))"
    by (cases st; cases "(st, op)" rule: capacity_step.cases)
       (simp_all add: set_budget_step admit_step release_step snapshot_step)
qed

section \<open>Properties\<close>

lemma snapshot_exact:
  assumes "ledger_ok ct" "validCapacityLane lane"
  shows "fst (LaneByteCapacitySnapshot lane None (s, ct)) =
    (case find (\<lambda>b. lcb_lane b = lane) (lane_capacity_budgets ct) of
       None \<Rightarrow> Inl ErrLaneCapacityUnconfigured
     | Some b \<Rightarrow> Inr \<lparr>lbs_Lane = lane, lbs_MaxBytes = word_of_int (lcb_max_reserved_bytes b),
         lbs_ReservedBytes = word_of_int (retained_bytes lane ct), lbs_PolicyDigest = lcb_policy_digest b\<rparr>)"
proof (cases "find (\<lambda>b. lcb_lane b = lane) (lane_capacity_budgets ct)")
  case None
  then show ?thesis
    using assms read_budget_exact [OF assms(1), of lane]
    by (simp add: LaneByteCapacitySnapshot_def withStoreReadTransaction_def snapshot_body_def split: prod.splits)
next
  case (Some b)
  obtain used where used: "sumLaneCapacityReservations lane ct = Inr used" "uint used = retained_bytes lane ct"
    by (rule sum_reservations_exact [OF assms(1)])
  define mx where "mx = lcb_max_reserved_bytes b"
  have mx: "0 < mx" "mx < 2 ^ 63" "uint used \<le> mx"
    using ledger_budget [OF assms(1) Some] used(2) by (auto simp: budget_ok_def mx_def)
  have "uint (word_of_int mx :: uint64) = mx" using mx by (intro uint_of_int63) linarith+
  then have "used \<le> word_of_int mx" using mx(3) by (simp only: uint_le_bound)
  moreover have "used = word_of_int (retained_bytes lane ct)" by (simp add: used(2) [symmetric])
  ultimately show ?thesis
    using assms(2) read_budget_exact [OF assms(1), of lane] Some used(1)
    by (simp add: LaneByteCapacitySnapshot_def withStoreReadTransaction_def snapshot_body_def leD mx_def
        split: prod.splits)
qed

text \<open>C26. After any sequence of ledger operations, with callbacks that leave the capacity tables alone,
  the retained bytes of every configured lane are at most its ceiling, which fits into an int64, and a
  snapshot of the lane reports exactly the ceiling and the retained bytes.\<close>

theorem lane_bytes_bounded:
  assumes "list_all call_leaves_ledger calls" "foldl capacity_step (s, empty_ledger) calls = (s', ct)"
  shows "(\<forall>b \<in> set (lane_capacity_budgets ct).
      0 \<le> retained_bytes (lcb_lane b) ct \<and> retained_bytes (lcb_lane b) ct \<le> lcb_max_reserved_bytes b \<and>
      lcb_max_reserved_bytes b < 2 ^ 63 \<and>
      fst (LaneByteCapacitySnapshot (lcb_lane b) None (s', ct)) =
        Inr \<lparr>lbs_Lane = lcb_lane b, lbs_MaxBytes = word_of_int (lcb_max_reserved_bytes b),
          lbs_ReservedBytes = word_of_int (retained_bytes (lcb_lane b) ct),
          lbs_PolicyDigest = lcb_policy_digest b\<rparr>) \<and>
    (\<forall>lane. lane \<notin> lcb_lane ` set (lane_capacity_budgets ct) \<longrightarrow> retained_bytes lane ct = 0)"
proof -
  have ok: "ledger_ok ct"
    using ledger.guarded_run [of "(s, empty_ledger)" calls] assms empty_ledger_ok by simp
  have "find (\<lambda>x. lcb_lane x = lcb_lane b) (lane_capacity_budgets ct) = Some b"
    if "b \<in> set (lane_capacity_budgets ct)" for b
    using ok that by (simp add: ledger_ok_def find_key_Some)
  moreover have "budget_ok ct b" if "b \<in> set (lane_capacity_budgets ct)" for b
    using ok that by (simp add: ledger_ok_def list_all_iff)
  moreover have "0 \<le> retained_bytes lane ct" for lane
    unfolding retained_bytes_def by (rule retained_nonneg [OF ledger_rows [OF ok]])
  moreover have "retained_bytes lane ct = 0" if "lane \<notin> lcb_lane ` set (lane_capacity_budgets ct)" for lane
    using ledger_unbudgeted [OF ok] that by (simp add: find_key_None retained_bytes_def)
  ultimately show ?thesis using snapshot_exact [OF ok] by (simp add: budget_ok_def)
qed

text \<open>C27. In a consistent ledger an admission is the reference on integers, whatever 64-bit values the
  code computes with: it is refused without a budget, charged exactly when the lane has room, accepted
  again without a charge when it repeats a known reservation and refused when it contradicts one; the
  callback then decides whether the charge is kept.\<close>

theorem admit_lane_bytes_exact:
  assumes "ledger_ok ct" "validCapacityLane lane" "laneCapacityReservationIDPattern rid" "as \<noteq> []"
    "allocations_ok [] as"
  shows "AdmitLaneBytes lane rid as (Some mutate) now None (s, ct) =
    (case reserve_spec lane rid as now ct of
       Inl e \<Rightarrow> (Inl e, s, ct)
     | Inr (_, charged) \<Rightarrow>
         (case mutate (st_db s, charged) of
            Inl e \<Rightarrow> (Inl e, count_error e s, ct)
          | Inr (_, db, ct') \<Rightarrow> (Inr (), s\<lparr>st_db := db\<rparr>, ct')))"
proof -
  have quiet: "reserve_spec lane rid as now ct = Inl e \<Longrightarrow> count_error e s = s" for e
    by (auto simp: reserve_spec_def count_error_def split: option.splits if_splits)
  show ?thesis
    using assms reserve_exact [OF assms(1,3,5), of lane now]
    by (cases "reserve_spec lane rid as now ct")
       (auto simp: AdmitLaneBytes_def full_transaction_def on_retained_def tx_bind_def quiet split: sum.splits)
qed

text \<open>C28. A charged reservation adds exactly its bytes to the lane; releasing it restores the ledger as
  it was before the admission, and a second release finds nothing.\<close>

theorem reservation_roundtrip:
  assumes "ledger_ok ct" "rows_of lane rid ct = []" "leaves_ledger mutate"
    "AdmitLaneBytes lane rid as mutate now fault (s, ct) = (Inr (), s1, ct1)"
    "cleanup (st_db s1, ct1) = Inr ((), (db, ct1))"
  shows "retained_bytes lane ct1 = retained_bytes lane ct + allocation_bytes as \<and>
    ReleaseLaneBytes lane rid (Some cleanup) None (s1, ct1) = (Inr (), s1\<lparr>st_db := db\<rparr>, ct) \<and>
    ReleaseLaneBytes lane rid (Some cleanup) None (s2, ct) = (Inl ErrLaneCapacityReservationNotFound, s2, ct)"
proof -
  obtain g where g: "mutate = Some g" and args: "validCapacityLane lane" "laneCapacityReservationIDPattern rid"
      "as \<noteq> []" "allocations_ok [] as"
    and run: "full_transaction fault (s, ct) (tx_bind (on_retained (reserve_body lane rid as now)) (\<lambda>_. g)) = (Inr (), s1, ct1)"
    using assms(4) by (auto simp: AdmitLaneBytes_def split: option.splits if_splits)
  obtain db1 where "tx_bind (on_retained (reserve_body lane rid as now)) (\<lambda>_. g) (st_db s, ct) = Inr ((), (db1, ct1))"
    using run by (cases rule: full_transaction_cases) auto
  then obtain ct0 where ct0: "reserve_body lane rid as now ct = Inr ((), ct0)" and call: "g (st_db s, ct0) = Inr ((), (db1, ct1))"
    by (auto simp: tx_bind_Inr on_retained_Inr)
  have "ct1 = ct0" by (rule leaves_ledgerD [OF assms(3) [unfolded g] call])
  then have "reserve_spec lane rid as now ct = Inr ((), ct1)" using ct0 reserve_exact [OF assms(1) args(2,4)] by simp
  then have ct1: "ct1 = ct\<lparr>lane_capacity_reservations := lane_capacity_reservations ct @
      map (allocation_row lane rid (formatStoredTime now)) as\<rparr>"
    using assms(2) by (auto simp: reserve_spec_def split: option.splits if_splits)
  have absent: "\<not> (lcr_lane r = lane \<and> lcr_reservation_id r = rid)" if "r \<in> set (lane_capacity_reservations ct)" for r
    using assms(2) that by (auto simp: rows_of_def reservations_of_def filter_empty_conv)
  have present: "release_check lane rid ct1 = Inr ()"
    using args(3) by (cases as) (auto simp: release_check_def ct1 allocation_row_def)
  have "filter (\<lambda>r. lcr_lane r = lane \<longrightarrow> lcr_reservation_id r \<noteq> rid) (lane_capacity_reservations ct1) = lane_capacity_reservations ct"
    using absent by (auto simp: ct1 filter_empty_conv filter_id_conv allocation_row_def)
  then have deleted: "\<exists>n. delete_reservation lane rid ct1 = Inr (n, ct)"
    by (simp add: delete_reservation_def sql_delete_def) (simp add: ct1)
  have gone: "release_check lane rid ct = Inl ErrLaneCapacityReservationNotFound"
    using absent by (auto simp: release_check_def res_guard_def)
  have "retained_bytes lane ct1 = retained_bytes lane ct + allocation_bytes as"
    unfolding ct1 by (simp add: retained_appended [OF args(4)])
  then show ?thesis
    using args deleted present gone assms(5)
    by (auto simp: ReleaseLaneBytes_def full_transaction_def tx_bind_def on_retained_def count_error_def)
qed

section \<open>Witnesses\<close>

definition sample_digest :: string where
  "sample_digest = ''sha256:'' @ replicate 64 CHR ''0''"

definition sample_budget :: capacity_tables where
  "sample_budget = \<lparr>lane_capacity_budgets = [\<lparr>lcb_lane = ''dev'', lcb_max_reserved_bytes = 1000,
     lcb_policy_digest = sample_digest, lcb_updated_at = formatStoredTime 0\<rparr>], lane_capacity_reservations = []\<rparr>"

definition sample_allocations :: "LaneByteAllocation list" where
  "sample_allocations = [\<lparr>lba_Category = ''output'', lba_Bytes = 600\<rparr>, \<lparr>lba_Category = ''log'', lba_Bytes = 400\<rparr>]"

lemma sample_digest_ok: "laneCapacityDigestPattern sample_digest"
  by (simp add: laneCapacityDigestPattern_def match_digest_def sample_digest_def is_lower_hex_def list_all_iff is_digit_def)

lemma sample_token_ok: "laneCapacityReservationIDPattern ''job-1''"
  by (simp add: laneCapacityReservationIDPattern_def match_token_def is_id_char_def is_alnum_def is_digit_def)

lemma sample_allocations_ok: "allocations_ok [] sample_allocations"
  by (simp add: sample_allocations_def laneCapacityCategoryPattern_def lane_categories_def MaxInt64_def)

lemma sample_budget_ok: "ledger_ok sample_budget"
  by (simp add: ledger_ok_def sample_budget_def budget_ok_def validCapacityLane_def sample_digest_ok
      retained_bytes_def reservations_of_def)

lemma sample_budget_set:
  "SetLaneByteBudget ''dev'' 1000 sample_digest 0 None (s, empty_ledger) = (Inr (), s, sample_budget)"
proof -
  have check: "lane_budget_check \<lparr>lcb_lane = ''dev'', lcb_max_reserved_bytes = 1000,
     lcb_policy_digest = sample_digest, lcb_updated_at = formatStoredTime 0\<rparr>"
    using match_digest_plain [of sample_digest] sample_digest_ok
    by (simp add: lane_budget_check_def validCapacityLane_def laneCapacityDigestPattern_def sql_length_plain)
  have sint: "sint (1000 :: uint64) = 1000" by (simp add: sint_small MaxInt64_def)
  show ?thesis
    by (simp add: SetLaneByteBudget_def validCapacityLane_def sample_digest_ok MaxInt64_def full_transaction_def
        set_budget_body_def on_retained_def tx_steps sumLaneCapacityReservations_def reservations_of_def
        empty_ledger_def upsert_budget_def check sint sample_budget_def)
qed

lemma sample_reserved:
  "AdmitLaneBytes ''dev'' ''job-1'' sample_allocations (Some (tx_return ())) 0 None (s, sample_budget) =
     (Inr (), s, sample_budget\<lparr>lane_capacity_reservations :=
       map (allocation_row ''dev'' ''job-1'' (formatStoredTime 0)) sample_allocations\<rparr>)"
  using reserve_exact [OF sample_budget_ok sample_token_ok sample_allocations_ok, of "''dev''" 0]
    sample_token_ok sample_allocations_ok
  by (simp add: AdmitLaneBytes_def validCapacityLane_def full_transaction_def on_retained_def tx_bind_def
      reserve_spec_def sample_budget_def rows_of_def reservations_of_def retained_bytes_def allocation_bytes_def)
     (simp add: sample_allocations_def)

lemma leaves_nothing: "leaves_ledger (Some (tx_return ()))"
  by (auto simp: leaves_ledger_def)

theorem lane_bytes_bounded_witness:
  "fst (LaneByteCapacitySnapshot ''dev'' None
     (foldl capacity_step (NewAuthorityStore empty_database, empty_ledger)
       [(DoSetBudget ''dev'' 1000 sample_digest, 0, None),
        (DoAdmit ''dev'' ''job-1'' sample_allocations (Some (tx_return ())), 0, None)])) =
   Inr \<lparr>lbs_Lane = ''dev'', lbs_MaxBytes = 1000, lbs_ReservedBytes = 1000, lbs_PolicyDigest = sample_digest\<rparr>"
proof -
  let ?calls = "[(DoSetBudget ''dev'' 1000 sample_digest, 0, None),
    (DoAdmit ''dev'' ''job-1'' sample_allocations (Some (tx_return ())), 0, None)] :: capacity_call list"
  define ct where "ct = sample_budget\<lparr>lane_capacity_reservations :=
    map (allocation_row ''dev'' ''job-1'' (formatStoredTime 0)) sample_allocations\<rparr>"
  have run: "foldl capacity_step (NewAuthorityStore empty_database, empty_ledger) ?calls =
      (NewAuthorityStore empty_database, ct)"
    by (simp add: sample_budget_set sample_reserved ct_def)
  have "list_all call_leaves_ledger ?calls" by (simp add: leaves_nothing)
  note bounded = lane_bytes_bounded [OF this run]
  have "retained_bytes ''dev'' ct = 1000"
    by (simp add: ct_def retained_bytes_def reservations_of_def sample_allocations_def allocation_row_def sint_small MaxInt64_def)
  then show ?thesis unfolding run using bounded by (simp add: ct_def sample_budget_def)
qed

theorem admit_lane_bytes_exact_witness:
  "AdmitLaneBytes ''dev'' ''job-1'' (\<lparr>lba_Category = ''wal'', lba_Bytes = 1\<rparr> # sample_allocations)
     (Some (tx_return ())) 0 None (NewAuthorityStore empty_database, sample_budget) =
   (Inl ErrLaneCapacityExceeded, NewAuthorityStore empty_database, sample_budget)"
proof -
  have "allocations_ok [] (\<lparr>lba_Category = ''wal'', lba_Bytes = 1\<rparr> # sample_allocations)"
    by (simp add: sample_allocations_def laneCapacityCategoryPattern_def lane_categories_def MaxInt64_def)
  then show ?thesis
    using admit_lane_bytes_exact [OF sample_budget_ok, of "''dev''" "''job-1''"
        "\<lparr>lba_Category = ''wal'', lba_Bytes = 1\<rparr> # sample_allocations" "tx_return ()" 0 "NewAuthorityStore empty_database"]
    by (simp add: validCapacityLane_def sample_token_ok reserve_spec_def sample_budget_def rows_of_def reservations_of_def
        retained_bytes_def allocation_bytes_def sample_allocations_def)
qed

theorem reservation_roundtrip_witness:
  "\<exists>ct. AdmitLaneBytes ''dev'' ''job-1'' sample_allocations (Some (tx_return ())) 0 None
      (NewAuthorityStore empty_database, sample_budget) = (Inr (), NewAuthorityStore empty_database, ct) \<and>
    retained_bytes ''dev'' ct = 1000 \<and>
    ReleaseLaneBytes ''dev'' ''job-1'' (Some (tx_return ())) None (NewAuthorityStore empty_database, ct) =
      (Inr (), NewAuthorityStore empty_database, sample_budget)"
proof -
  let ?s = "NewAuthorityStore empty_database"
  have rows: "rows_of ''dev'' ''job-1'' sample_budget = []" and none: "retained_bytes ''dev'' sample_budget = 0"
    by (simp_all add: rows_of_def reservations_of_def sample_budget_def retained_bytes_def)
  have "allocation_bytes sample_allocations = 1000"
    by (simp add: allocation_bytes_def sample_allocations_def)
  moreover have "?s\<lparr>st_db := st_db ?s\<rparr> = ?s" by simp
  moreover note reservation_roundtrip [OF sample_budget_ok rows leaves_nothing sample_reserved [of ?s],
      where cleanup = "tx_return ()" and db = "st_db ?s", OF tx_run(1)]
  ultimately show ?thesis using none sample_reserved [of ?s] by simp
qed

end
