(* ===== verification/Capacity_Measurement.thy ===== *)
theory Capacity_Measurement
  imports Go_Words Json_Encode Sha256 Stored_Time "HOL-Library.List_Lexorder" "HOL-Library.Char_ord"
begin

text \<open>
  The data of a capacity policy (internal/lanecapacity/policy.go): what a host measures, what it
  observes later and what a policy promises, the validation of a measurement, and its digest over the
  JSON text that encoding/json writes. All quantities are \<open>uint64\<close>; times are UTC instants, so the
  two tests of the code that compare a time with itself in UTC are always passed.
\<close>

section \<open>Paths and patterns\<close>

text \<open>
  \<open>strings.ToLower\<close>, as far as its ASCII result is concerned: besides the letters A to Z the code
  points U+0130 and U+212A become the ASCII letters i and k; no other character becomes one. The code
  compares the result with ASCII texts only.
\<close>

definition lower_char :: "char \<Rightarrow> char" where
  "lower_char c = (if char_between CHR ''A'' CHR ''Z'' c then char_of (of_char c + 32 :: nat) else c)"

function strings_ToLower :: "string \<Rightarrow> string" where
  "strings_ToLower [] = []"
| "strings_ToLower (c # s) =
     (if take 2 (c # s) = [CHR 0xC4, CHR 0xB0] then CHR ''i'' # strings_ToLower (drop 1 s)
      else if take 3 (c # s) = [CHR 0xE2, CHR 0x84, CHR 0xAA] then CHR ''k'' # strings_ToLower (drop 2 s)
      else lower_char c # strings_ToLower s)"
  by pat_completeness auto
termination by (relation "measure length") auto

definition strings_Contains :: "string \<Rightarrow> string \<Rightarrow> bool" where
  "strings_Contains s t \<longleftrightarrow> list_ex (\<lambda>i. take (length t) (drop i s) = t) [0..<Suc (length s)]"

text \<open>The components of a path, and \<open>filepath.Clean\<close> of a path that starts at the root.\<close>

fun path_components :: "string \<Rightarrow> string list" where
  "path_components [] = [[]]"
| "path_components (c # s) =
     (if c = CHR ''/'' then [] # path_components s
      else case path_components s of [] \<Rightarrow> [[c]] | p # ps \<Rightarrow> (c # p) # ps)"

fun clean_components :: "string list \<Rightarrow> string list \<Rightarrow> string list" where
  "clean_components stack [] = rev stack"
| "clean_components stack (p # ps) =
     (if p = [] \<or> p = ''.'' then clean_components stack ps
      else if p = ''..'' then clean_components (tl stack) ps
      else clean_components (p # stack) ps)"

definition filepath_Clean :: "string \<Rightarrow> string" where
  "filepath_Clean path =
     (case clean_components [] (path_components path) of
        [] \<Rightarrow> ''/''
      | ps \<Rightarrow> concat (map (\<lambda>p. CHR ''/'' # p) ps))"

definition cleanAbsolutePath :: "string \<Rightarrow> bool" where
  "cleanAbsolutePath value \<longleftrightarrow> filepath_IsAbs value \<and> filepath_Clean value = value"

definition hostIDPattern :: "string \<Rightarrow> bool" where
  "hostIDPattern s \<longleftrightarrow> s \<in> set [''mac-control-plane'', ''linux-host'', ''sandbox-host'', ''factory-sandbox'']"

definition policyIDPattern :: "string \<Rightarrow> bool" where
  "policyIDPattern s = match_token s"

definition sha256DigestPattern :: "string \<Rightarrow> bool" where
  "sha256DigestPattern s = match_digest s"

definition volumeUUIDPattern :: "string \<Rightarrow> bool" where
  "volumeUUIDPattern s \<longleftrightarrow> length s = 36 \<and>
     list_all (\<lambda>i. if i \<in> set [8, 13, 18, 23] then s ! i = CHR ''-'' else is_hex (s ! i)) [0..<36]"

definition short_number :: "string \<Rightarrow> bool" where
  "short_number s \<longleftrightarrow> s \<noteq> [] \<and> length s \<le> 10 \<and> list_all is_digit s"

definition linuxMajorMinorPattern :: "string \<Rightarrow> bool" where
  "linuxMajorMinorPattern s \<longleftrightarrow>
     (let major = takeWhile is_digit s; rest = dropWhile is_digit s in
      short_number major \<and> rest \<noteq> [] \<and> hd rest = CHR '':'' \<and> short_number (tl rest))"

definition LinuxCapacityMountpoint :: string where
  "LinuxCapacityMountpoint = ''/var/lib/remote-session-runner-capacity''"

definition MacGoBuildCachePath :: string where
  "MacGoBuildCachePath = ''/private/tmp/remote-session-runner-gocache''"

definition MacGoModuleCachePath :: string where
  "MacGoModuleCachePath = ''/private/tmp/remote-session-runner-gomodcache''"

section \<open>Data\<close>

datatype Platform = PlatformLinux | PlatformMacOS | PlatformOther string

record ResourceVector =
  rv_CPUMilli :: uint64
  rv_MemoryBytes :: uint64
  rv_Tasks :: uint64
  rv_IOReadBytesPerSecond :: uint64
  rv_IOWriteBytesPerSecond :: uint64
  rv_IOReadIOPSMax :: uint64
  rv_IOWriteIOPSMax :: uint64

definition zero_resources :: ResourceVector where
  "zero_resources = \<lparr>rv_CPUMilli = 0, rv_MemoryBytes = 0, rv_Tasks = 0, rv_IOReadBytesPerSecond = 0,
     rv_IOWriteBytesPerSecond = 0, rv_IOReadIOPSMax = 0, rv_IOWriteIOPSMax = 0\<rparr>"

definition ResourceVector_zero :: "ResourceVector \<Rightarrow> bool" where
  "ResourceVector_zero v \<longleftrightarrow> v = zero_resources"

record ResourceEnvelope =
  re_PRDFloor :: ResourceVector
  re_DevHardMax :: ResourceVector
  re_QASHardMax :: ResourceVector
  re_ManagementHardMax :: ResourceVector

definition ResourceEnvelope_zero :: "ResourceEnvelope \<Rightarrow> bool" where
  "ResourceEnvelope_zero v \<longleftrightarrow> ResourceVector_zero (re_PRDFloor v) \<and> ResourceVector_zero (re_DevHardMax v) \<and>
     ResourceVector_zero (re_QASHardMax v) \<and> ResourceVector_zero (re_ManagementHardMax v)"

record HostIdentity =
  id_HostID :: string
  id_Platform :: Platform
  id_DeviceID :: string
  id_Filesystem :: string
  id_Mountpoint :: string
  id_VolumeUUID :: string
  id_CapacityBytes :: uint64
  id_CapacityInodes :: uint64
  id_BackupDeviceID :: string
  id_BackupFilesystem :: string
  id_BackupMountpoint :: string
  id_BackupCapacityBytes :: uint64

record Usage =
  us_UsedBytes :: uint64
  us_UsedInodes :: uint64
  us_NonPurgeableBytes :: uint64
  us_SnapshotBytes :: uint64
  us_GoCacheBytes :: uint64
  us_ReleaseCacheBytes :: uint64
  us_BackupBytes :: uint64

record StorageVolume =
  sv_UUID :: string
  sv_DeviceID :: string
  sv_Filesystem :: string
  sv_Mountpoint :: string
  sv_CapacityBytes :: uint64
  sv_QuotaBytes :: uint64

record LinuxDevice =
  ld_ID :: string
  ld_UUID :: string
  ld_MajorMinor :: string
  ld_Filesystem :: string
  ld_Mountpoint :: string
  ld_CapacityBytes :: uint64
  ld_CapacityInodes :: uint64
  ld_UsedBytes :: uint64
  ld_UsedInodes :: uint64
  ld_IOReadBytesPerSecondCapacity :: uint64
  ld_IOWriteBytesPerSecondCapacity :: uint64
  ld_IOReadIOPSCapacity :: uint64
  ld_IOWriteIOPSCapacity :: uint64
  ld_ProjectQuotaFeature :: bool
  ld_ProjectQuotaActive :: bool

record Measurement =
  ms_ID :: string
  ms_Identity :: HostIdentity
  ms_ObservedAt :: time
  ms_ExpiresAt :: time
  ms_ResourceCapacity :: ResourceVector
  ms_GoCachePaths :: "string list"
  ms_LinuxDevices :: "LinuxDevice list"
  ms_StorageVolumes :: "StorageVolume list"
  ms_Usage :: Usage

record LiveObservation =
  lo_Identity :: HostIdentity
  lo_ObservedAt :: time
  lo_ResourceCapacity :: ResourceVector
  lo_GoCachePaths :: "string list"
  lo_LinuxDevices :: "LinuxDevice list"
  lo_StorageVolumes :: "StorageVolume list"
  lo_Usage :: Usage

section \<open>Validation of a measurement\<close>

definition capacity_validateIdentity :: "HostIdentity \<Rightarrow> unit result" where
  "capacity_validateIdentity v =
     (if \<not> hostIDPattern (id_HostID v) \<or> \<not> cleanAbsolutePath (id_Mountpoint v) \<or> id_DeviceID v = [] \<or>
         id_Filesystem v = [] \<or> id_CapacityBytes v = 0 \<or>
         (id_Platform v = PlatformLinux \<and> id_CapacityInodes v = 0)
      then Inl ErrInvalidPolicy
      else if (case id_Platform v of
           PlatformLinux \<Rightarrow> id_HostID v = ''mac-control-plane'' \<or> id_VolumeUUID v \<noteq> []
         | PlatformMacOS \<Rightarrow> id_HostID v \<noteq> ''mac-control-plane'' \<or> strings_ToLower (id_Filesystem v) \<noteq> ''apfs'' \<or>
             \<not> volumeUUIDPattern (id_VolumeUUID v)
         | PlatformOther _ \<Rightarrow> True)
      then Inl ErrInvalidPolicy
      else if id_BackupDeviceID v = [] then
        res_guard (\<not> (id_BackupFilesystem v \<noteq> [] \<or> id_BackupMountpoint v \<noteq> [] \<or> id_BackupCapacityBytes v \<noteq> 0))
          ErrInvalidPolicy
      else res_guard (\<not> (id_BackupDeviceID v = id_DeviceID v \<or> id_BackupMountpoint v = id_Mountpoint v \<or>
          id_BackupFilesystem v = [] \<or> \<not> cleanAbsolutePath (id_BackupMountpoint v) \<or> id_BackupCapacityBytes v = 0))
          ErrInvalidPolicy)"

definition lane_cache_path :: "string \<Rightarrow> bool" where
  "lane_cache_path path \<longleftrightarrow> strings_Contains (strings_ToLower path) ''remotesessionrunner-dev'' \<or>
     strings_Contains (strings_ToLower path) ''remotesessionrunner-qas''"

fun cache_paths_from :: "string option \<Rightarrow> string list \<Rightarrow> unit result" where
  "cache_paths_from prev [] = Inr ()"
| "cache_paths_from prev (path # paths) =
     (if \<not> cleanAbsolutePath path \<or> lane_cache_path path \<or>
         (case prev of None \<Rightarrow> False | Some p \<Rightarrow> path \<le> p)
      then Inl ErrInvalidCachePaths
      else cache_paths_from (Some path) paths)"

definition validateCachePaths :: "string list \<Rightarrow> unit result" where
  "validateCachePaths paths =
     (if length paths \<noteq> 2 then Inl ErrInvalidCachePaths else cache_paths_from None paths)"

definition safeLinuxDeviceID :: "string \<Rightarrow> bool" where
  "safeLinuxDeviceID value \<longleftrightarrow> value \<noteq> [] \<and> length value \<le> 128 \<and>
     list_all (\<lambda>r. is_alnum r \<or> r \<in> set ''._:/-'') value"

definition linux_device_ok :: "string \<Rightarrow> LinuxDevice \<Rightarrow> bool" where
  "linux_device_ok lastID d \<longleftrightarrow>
     \<not> (\<not> safeLinuxDeviceID (ld_ID d) \<or> \<not> volumeUUIDPattern (ld_UUID d) \<or>
        \<not> linuxMajorMinorPattern (ld_MajorMinor d) \<or> ld_Filesystem d \<noteq> ''ext4'' \<or>
        \<not> filepath_IsAbs (ld_Mountpoint d) \<or> filepath_Clean (ld_Mountpoint d) \<noteq> ld_Mountpoint d \<or>
        ld_CapacityBytes d = 0 \<or> ld_CapacityInodes d = 0 \<or> ld_CapacityBytes d < ld_UsedBytes d \<or>
        ld_CapacityInodes d < ld_UsedInodes d \<or> ld_ID d \<le> lastID)"

text \<open>The devices before the present one stand for the four sets of values already seen.\<close>

fun linux_devices_from :: "LinuxDevice list \<Rightarrow> string \<Rightarrow> LinuxDevice list \<Rightarrow> unit result" where
  "linux_devices_from seen lastID [] = Inr ()"
| "linux_devices_from seen lastID (d # ds) =
     (if \<not> linux_device_ok lastID d then Inl ErrInvalidPolicy
      else if ld_ID d \<in> ld_ID ` set seen \<or>
        strings_ToLower (ld_UUID d) \<in> (\<lambda>s. strings_ToLower (ld_UUID s)) ` set seen \<or>
        ld_MajorMinor d \<in> ld_MajorMinor ` set seen \<or> ld_Mountpoint d \<in> ld_Mountpoint ` set seen
      then Inl ErrInvalidPolicy
      else linux_devices_from (d # seen) (ld_ID d) ds)"

definition validateLinuxDevices :: "Platform \<Rightarrow> LinuxDevice list \<Rightarrow> unit result" where
  "validateLinuxDevices platform devices =
     (if platform = PlatformMacOS then res_guard (devices = []) ErrInvalidPolicy
      else linux_devices_from [] [] devices)"

fun storage_volumes_from :: "StorageVolume list \<Rightarrow> StorageVolume option \<Rightarrow> StorageVolume list \<Rightarrow> unit result" where
  "storage_volumes_from seen prev [] = Inr ()"
| "storage_volumes_from seen prev (v # vs) =
     (if \<not> volumeUUIDPattern (sv_UUID v) \<or> sv_DeviceID v = [] \<or> strings_ToLower (sv_Filesystem v) \<noteq> ''apfs'' \<or>
         \<not> cleanAbsolutePath (sv_Mountpoint v) \<or> sv_CapacityBytes v = 0 \<or> sv_CapacityBytes v < sv_QuotaBytes v \<or>
         (case prev of None \<Rightarrow> False | Some p \<Rightarrow> sv_UUID v \<le> sv_UUID p)
      then Inl ErrInvalidPolicy
      else if sv_UUID v \<in> sv_UUID ` set seen then Inl ErrInvalidPolicy
      else if sv_Mountpoint v \<in> sv_Mountpoint ` set seen then Inl ErrInvalidPolicy
      else storage_volumes_from (v # seen) (Some v) vs)"

definition validateStorageVolumes :: "Platform \<Rightarrow> StorageVolume list \<Rightarrow> unit result" where
  "validateStorageVolumes platform volumes =
     (if platform = PlatformLinux then res_guard (volumes = []) ErrInvalidPolicy
      else if platform \<noteq> PlatformMacOS \<or> volumes = [] then Inl ErrInvalidPolicy
      else storage_volumes_from [] None volumes)"

definition data_volume :: "HostIdentity \<Rightarrow> StorageVolume \<Rightarrow> bool" where
  "data_volume i v \<longleftrightarrow> sv_UUID v = id_VolumeUUID i \<and> sv_DeviceID v = id_DeviceID i \<and>
     sv_Filesystem v = id_Filesystem i \<and> sv_Mountpoint v = id_Mountpoint i \<and>
     sv_CapacityBytes v = id_CapacityBytes i"

definition validateMeasurement :: "Measurement \<Rightarrow> unit result" where
  "validateMeasurement m =
     (let p = id_Platform (ms_Identity m) in
      if \<not> policyIDPattern (ms_ID m) \<or> \<not> is_ok (capacity_validateIdentity (ms_Identity m)) \<or>
         ms_ObservedAt m = zero_time \<or> \<not> ms_ObservedAt m < ms_ExpiresAt m \<or>
         \<not> is_ok (validateCachePaths (ms_GoCachePaths m)) \<or>
         (p = PlatformLinux \<and> ResourceVector_zero (ms_ResourceCapacity m)) \<or>
         (p = PlatformMacOS \<and> \<not> ResourceVector_zero (ms_ResourceCapacity m)) \<or>
         \<not> is_ok (validateLinuxDevices p (ms_LinuxDevices m)) \<or>
         \<not> is_ok (validateStorageVolumes p (ms_StorageVolumes m))
      then Inl ErrInvalidPolicy
      else if p = PlatformMacOS then
        (if ms_GoCachePaths m \<noteq> [MacGoBuildCachePath, MacGoModuleCachePath] then Inl ErrInvalidCachePaths
         else res_guard (list_ex (data_volume (ms_Identity m)) (ms_StorageVolumes m)) ErrInvalidPolicy)
      else Inr ())"

section \<open>The digest of a measurement\<close>

text \<open>\<open>json.Marshal\<close> with its HTML escapes, over the fields in the order of their declaration; an
  \<^verbatim>\<open>omitempty\<close> field is left out when it is empty or zero.\<close>

definition html_escape :: "char \<Rightarrow> string" where
  "html_escape c =
     (if c = CHR ''<'' then CHR 0x5C # ''u003c''
      else if c = CHR ''>'' then CHR 0x5C # ''u003e''
      else if c = CHR ''&'' then CHR 0x5C # ''u0026'' else [c])"

definition json_string :: "string \<Rightarrow> string" where
  "json_string s = CHR 0x22 # concat (map html_escape (encode_body s)) @ [CHR 0x22]"

definition json_uint :: "uint64 \<Rightarrow> string" where
  "json_uint n = decimal (unat n)"

definition json_bool :: "bool \<Rightarrow> string" where
  "json_bool b = (if b then ''true'' else ''false'')"

fun json_join :: "string list \<Rightarrow> string" where
  "json_join [] = []"
| "json_join [x] = x"
| "json_join (x # y # xs) = x @ CHR '','' # json_join (y # xs)"

definition json_array :: "string list \<Rightarrow> string" where
  "json_array xs = CHR ''['' # json_join xs @ '']''"

definition json_object :: "(string \<times> string) list \<Rightarrow> string" where
  "json_object members = CHR ''{'' # json_join (map (\<lambda>(k, v). json_string k @ CHR '':'' # v) members) @ ''}''"

definition omit_empty :: "bool \<Rightarrow> string \<times> string \<Rightarrow> (string \<times> string) list" where
  "omit_empty absent member = (if absent then [] else [member])"

text \<open>\<open>time.MarshalJSON\<close> fails outside of the years 0 to 9999.\<close>

definition json_time :: "time \<Rightarrow> string option" where
  "json_time t =
     (let y = year_of_days (t div Second div 86400) in
      if y < 0 \<or> 10000 \<le> y then None else Some (CHR 0x22 # formatStoredTime t @ [CHR 0x22]))"

definition Platform_text :: "Platform \<Rightarrow> string" where
  "Platform_text p = (case p of PlatformLinux \<Rightarrow> ''linux'' | PlatformMacOS \<Rightarrow> ''macos'' | PlatformOther s \<Rightarrow> s)"

definition json_resources :: "ResourceVector \<Rightarrow> string" where
  "json_resources v = json_object
     [(''cpu_milli'', json_uint (rv_CPUMilli v)), (''memory_bytes'', json_uint (rv_MemoryBytes v)),
      (''tasks'', json_uint (rv_Tasks v)), (''io_read_bytes_per_second'', json_uint (rv_IOReadBytesPerSecond v)),
      (''io_write_bytes_per_second'', json_uint (rv_IOWriteBytesPerSecond v)),
      (''io_read_iops_max'', json_uint (rv_IOReadIOPSMax v)), (''io_write_iops_max'', json_uint (rv_IOWriteIOPSMax v))]"

definition json_identity :: "HostIdentity \<Rightarrow> string" where
  "json_identity v = json_object
     ([(''host_id'', json_string (id_HostID v)), (''platform'', json_string (Platform_text (id_Platform v))),
       (''device_id'', json_string (id_DeviceID v)), (''filesystem'', json_string (id_Filesystem v)),
       (''mountpoint'', json_string (id_Mountpoint v))] @
      omit_empty (id_VolumeUUID v = []) (''volume_uuid'', json_string (id_VolumeUUID v)) @
      [(''capacity_bytes'', json_uint (id_CapacityBytes v)), (''capacity_inodes'', json_uint (id_CapacityInodes v))] @
      omit_empty (id_BackupDeviceID v = []) (''backup_device_id'', json_string (id_BackupDeviceID v)) @
      omit_empty (id_BackupFilesystem v = []) (''backup_filesystem'', json_string (id_BackupFilesystem v)) @
      omit_empty (id_BackupMountpoint v = []) (''backup_mountpoint'', json_string (id_BackupMountpoint v)) @
      omit_empty (id_BackupCapacityBytes v = 0) (''backup_capacity_bytes'', json_uint (id_BackupCapacityBytes v)))"

definition json_usage :: "Usage \<Rightarrow> string" where
  "json_usage v = json_object
     [(''used_bytes'', json_uint (us_UsedBytes v)), (''used_inodes'', json_uint (us_UsedInodes v)),
      (''non_purgeable_bytes'', json_uint (us_NonPurgeableBytes v)), (''snapshot_bytes'', json_uint (us_SnapshotBytes v)),
      (''go_cache_bytes'', json_uint (us_GoCacheBytes v)), (''release_cache_bytes'', json_uint (us_ReleaseCacheBytes v)),
      (''backup_bytes'', json_uint (us_BackupBytes v))]"

definition json_volume :: "StorageVolume \<Rightarrow> string" where
  "json_volume v = json_object
     [(''uuid'', json_string (sv_UUID v)), (''device_id'', json_string (sv_DeviceID v)),
      (''filesystem'', json_string (sv_Filesystem v)), (''mountpoint'', json_string (sv_Mountpoint v)),
      (''capacity_bytes'', json_uint (sv_CapacityBytes v)), (''quota_bytes'', json_uint (sv_QuotaBytes v))]"

definition json_device :: "LinuxDevice \<Rightarrow> string" where
  "json_device d = json_object
     [(''id'', json_string (ld_ID d)), (''uuid'', json_string (ld_UUID d)), (''major_minor'', json_string (ld_MajorMinor d)),
      (''filesystem'', json_string (ld_Filesystem d)), (''mountpoint'', json_string (ld_Mountpoint d)),
      (''capacity_bytes'', json_uint (ld_CapacityBytes d)), (''capacity_inodes'', json_uint (ld_CapacityInodes d)),
      (''used_bytes'', json_uint (ld_UsedBytes d)), (''used_inodes'', json_uint (ld_UsedInodes d)),
      (''io_read_bytes_per_second_capacity'', json_uint (ld_IOReadBytesPerSecondCapacity d)),
      (''io_write_bytes_per_second_capacity'', json_uint (ld_IOWriteBytesPerSecondCapacity d)),
      (''io_read_iops_capacity'', json_uint (ld_IOReadIOPSCapacity d)),
      (''io_write_iops_capacity'', json_uint (ld_IOWriteIOPSCapacity d)),
      (''project_quota_feature'', json_bool (ld_ProjectQuotaFeature d)),
      (''project_quota_active'', json_bool (ld_ProjectQuotaActive d))]"

definition json_measurement :: "Measurement \<Rightarrow> string option" where
  "json_measurement m =
     (case (json_time (ms_ObservedAt m), json_time (ms_ExpiresAt m)) of
        (Some observed, Some expires) \<Rightarrow> Some (json_object
          ([(''id'', json_string (ms_ID m)), (''identity'', json_identity (ms_Identity m)),
            (''observed_at'', observed), (''expires_at'', expires),
            (''resource_capacity'', json_resources (ms_ResourceCapacity m)),
            (''go_cache_paths'', json_array (map json_string (ms_GoCachePaths m)))] @
           omit_empty (ms_LinuxDevices m = []) (''linux_devices'', json_array (map json_device (ms_LinuxDevices m))) @
           omit_empty (ms_StorageVolumes m = []) (''storage_volumes'', json_array (map json_volume (ms_StorageVolumes m))) @
           [(''usage'', json_usage (ms_Usage m))]))
      | _ \<Rightarrow> None)"

definition hex_EncodeToString :: "bytes \<Rightarrow> string" where
  "hex_EncodeToString bs = concat (map (\<lambda>c. [hex_digit (of_char c div 16), hex_digit (of_char c mod 16)]) bs)"

definition DigestHex :: "bytes \<Rightarrow> string" where
  "DigestHex value = ''sha256:'' @ hex_EncodeToString value"

definition EvaluationDigest :: "Measurement \<Rightarrow> string result" where
  "EvaluationDigest m =
     res_bind (validateMeasurement m) (\<lambda>_.
       case json_measurement m of
         None \<Rightarrow> Inl (PlainError ''json: time out of range'')
       | Some data \<Rightarrow> Inr (''sha256:'' @ hex_EncodeToString (sha256_Sum256 data)))"

end
