(* ===== verification/Capacity_Policy.thy ===== *)
theory Capacity_Policy
  imports Capacity_Measurement
begin

text \<open>
  Capacity policies (internal/lanecapacity/policy.go) and the Linux control plan built from an accepted
  one (linux_controls.go): which budgets fit into the measured host, with the checked 64-bit arithmetic
  of the code.
\<close>

section \<open>Budgets and policies\<close>

datatype Scope = ScopeHostManagement | ScopeLaneRuntime | ScopeOther string
datatype ComputeReservation = ComputeLinuxCgroupV2 | ComputeNone | ComputeOther string

record MacDataBudget =
  md_StorageMode :: string
  md_PRDVolumeUUID :: string
  md_PRDMountpoint :: string
  md_PRDQuotaBytes :: uint64
  md_PRDHostBudgetBytes :: uint64
  md_DevVolumeUUID :: string
  md_DevMountpoint :: string
  md_DevQuotaBytes :: uint64
  md_QASVolumeUUID :: string
  md_QASMountpoint :: string
  md_QASQuotaBytes :: uint64
  md_SharedCacheBudgetBytes :: uint64
  md_ReleaseCacheBudgetBytes :: uint64
  md_SnapshotBudgetBytes :: uint64
  md_BackupOnDataVolume :: bool
  md_BackupBudgetBytes :: uint64
  md_BackupLowWaterBytes :: uint64

record HostManagementBudget =
  hm_Components :: "string list"
  hm_PeakBytes :: uint64
  hm_PeakInodes :: uint64
  hm_GoCacheBudgetBytes :: uint64
  hm_ReleaseCacheBudgetBytes :: uint64
  hm_BackupBudgetBytes :: uint64
  hm_StagingBudgetBytes :: uint64
  hm_LogBudgetBytes :: uint64
  hm_GoCachePaths :: "string list"
  hm_IODeviceID :: string
  hm_Resources :: ResourceEnvelope
  hm_BackupOnDataDevice :: bool
  hm_BackupLowWaterBytes :: uint64
  hm_MacData :: "MacDataBudget option"

record LaneRuntimeBudget =
  lr_PRDGrowthBytes :: uint64
  lr_DevHardBytes :: uint64
  lr_QASHardBytes :: uint64
  lr_ManagementGrowthBytes :: uint64
  lr_PRDGrowthInodes :: uint64
  lr_DevHardInodes :: uint64
  lr_QASHardInodes :: uint64
  lr_ManagementGrowthInodes :: uint64
  lr_GoCachePaths :: "string list"
  lr_GoCacheBudgetBytes :: uint64
  lr_ReleaseCacheBudgetBytes :: uint64
  lr_BackupBudgetBytes :: uint64
  lr_BackupOnDataDevice :: bool
  lr_BackupLowWaterBytes :: uint64
  lr_IODeviceID :: string
  lr_Resources :: ResourceEnvelope
  lr_MacData :: "MacDataBudget option"

record Policy =
  po_Version :: "32 word"
  po_HostID :: string
  po_Scope :: Scope
  po_Lane :: string
  po_MeasurementID :: string
  po_EvaluationDigest :: string
  po_NotBefore :: time
  po_NotAfter :: time
  po_Compute :: ComputeReservation
  po_HostManagement :: "HostManagementBudget option"
  po_LaneRuntime :: "LaneRuntimeBudget option"

definition GiB :: uint64 where
  "GiB = 1024 * 1024 * 1024"

definition maxSnapshotBytes :: uint64 where
  "maxSnapshotBytes = 10 * GiB"

definition minMacFloorBytes :: uint64 where
  "minMacFloorBytes = 20 * GiB"

definition maxLiveObservationAge :: duration where
  "maxLiveObservationAge = Minute"

section \<open>Checked arithmetic\<close>

definition positiveDifference :: "uint64 \<Rightarrow> uint64 \<Rightarrow> uint64" where
  "positiveDifference a b = (if a \<le> b then 0 else a - b)"

fun add_values :: "uint64 \<Rightarrow> uint64 list \<Rightarrow> uint64 option" where
  "add_values acc [] = Some acc"
| "add_values acc (v # vs) = (if MaxUint64 - acc < v then None else add_values (acc + v) vs)"

definition addMany :: "uint64 list \<Rightarrow> uint64 option" where
  "addMany values = add_values 0 values"

definition ceilPercent :: "uint64 \<Rightarrow> uint64 \<Rightarrow> uint64" where
  "ceilPercent value percent =
     (let whole = value div 100; remainder = value mod 100; part = whole * percent;
          remainderPart = remainder * percent;
          rounded = (if remainderPart mod 100 \<noteq> 0 then remainderPart div 100 + 1 else remainderPart div 100)
      in part + rounded)"

definition exceedsPercentFloor :: "uint64 \<Rightarrow> uint64 \<Rightarrow> uint64 \<Rightarrow> bool" where
  "exceedsPercentFloor projected capacity freePercent =
     (if capacity < projected \<or> 100 < freePercent then True
      else capacity - ceilPercent capacity freePercent < projected)"

definition exceedsFloor :: "uint64 \<Rightarrow> uint64 \<Rightarrow> uint64 \<Rightarrow> bool" where
  "exceedsFloor projected capacity floor_bytes \<longleftrightarrow> capacity < floor_bytes \<or> capacity - floor_bytes < projected"

section \<open>Storage\<close>

definition validBackupIdentity :: "HostIdentity \<Rightarrow> bool" where
  "validBackupIdentity i \<longleftrightarrow> id_BackupDeviceID i \<noteq> [] \<and> id_BackupFilesystem i \<noteq> [] \<and>
     cleanAbsolutePath (id_BackupMountpoint i) \<and> 0 < id_BackupCapacityBytes i"

record linuxStorageBudget =
  ls_prdBytes :: uint64
  ls_devBytes :: uint64
  ls_qasBytes :: uint64
  ls_managementBytes :: uint64
  ls_prdInodes :: uint64
  ls_devInodes :: uint64
  ls_qasInodes :: uint64
  ls_managementInodes :: uint64
  ls_goCacheBudget :: uint64
  ls_releaseCacheBudget :: uint64
  ls_backupBudget :: uint64
  ls_backupOnDataDevice :: bool
  ls_backupLowWater :: uint64

definition linuxStorageFromManagement :: "HostManagementBudget \<Rightarrow> linuxStorageBudget" where
  "linuxStorageFromManagement v =
     \<lparr>ls_prdBytes = 0, ls_devBytes = 0, ls_qasBytes = 0, ls_managementBytes = hm_PeakBytes v,
      ls_prdInodes = 0, ls_devInodes = 0, ls_qasInodes = 0, ls_managementInodes = hm_PeakInodes v,
      ls_goCacheBudget = hm_GoCacheBudgetBytes v, ls_releaseCacheBudget = hm_ReleaseCacheBudgetBytes v,
      ls_backupBudget = hm_BackupBudgetBytes v, ls_backupOnDataDevice = hm_BackupOnDataDevice v,
      ls_backupLowWater = hm_BackupLowWaterBytes v\<rparr>"

definition linuxStorageFromLane :: "LaneRuntimeBudget \<Rightarrow> linuxStorageBudget" where
  "linuxStorageFromLane v =
     \<lparr>ls_prdBytes = lr_PRDGrowthBytes v, ls_devBytes = lr_DevHardBytes v, ls_qasBytes = lr_QASHardBytes v,
      ls_managementBytes = lr_ManagementGrowthBytes v,
      ls_prdInodes = lr_PRDGrowthInodes v, ls_devInodes = lr_DevHardInodes v, ls_qasInodes = lr_QASHardInodes v,
      ls_managementInodes = lr_ManagementGrowthInodes v,
      ls_goCacheBudget = lr_GoCacheBudgetBytes v, ls_releaseCacheBudget = lr_ReleaseCacheBudgetBytes v,
      ls_backupBudget = lr_BackupBudgetBytes v, ls_backupOnDataDevice = lr_BackupOnDataDevice v,
      ls_backupLowWater = lr_BackupLowWaterBytes v\<rparr>"

text \<open>The bytes a policy projects on the data device, with the backup when it is kept there.\<close>

definition linux_projected :: "Measurement \<Rightarrow> LiveObservation \<Rightarrow> linuxStorageBudget \<Rightarrow> uint64 result" where
  "linux_projected m live b =
     (let usage = lo_Usage live;
          cacheGrowth = positiveDifference (ls_goCacheBudget b) (us_GoCacheBytes usage);
          releaseGrowth = positiveDifference (ls_releaseCacheBudget b) (us_ReleaseCacheBytes usage)
      in case addMany [us_UsedBytes usage, ls_prdBytes b, ls_devBytes b, ls_qasBytes b, ls_managementBytes b,
             cacheGrowth, releaseGrowth] of
           None \<Rightarrow> Inl ErrCapacityExceeded
         | Some projected \<Rightarrow>
             if ls_backupOnDataDevice b then
               (if id_BackupDeviceID (ms_Identity m) \<noteq> [] \<or> id_BackupCapacityBytes (ms_Identity m) \<noteq> 0 \<or>
                   ls_backupLowWater b \<noteq> 0
                then Inl ErrInvalidPolicy
                else case addMany [projected, positiveDifference (ls_backupBudget b) (us_BackupBytes usage)] of
                  None \<Rightarrow> Inl ErrCapacityExceeded
                | Some withBackup \<Rightarrow> Inr withBackup)
             else if \<not> validBackupIdentity (ms_Identity m) \<or> ls_backupLowWater b = 0 then Inl ErrInvalidPolicy
             else if exceedsFloor (max (us_BackupBytes usage) (ls_backupBudget b))
               (id_BackupCapacityBytes (ms_Identity m)) (ls_backupLowWater b) then Inl ErrCapacityExceeded
             else Inr projected)"

definition validateLinuxStorage :: "Measurement \<Rightarrow> LiveObservation \<Rightarrow> linuxStorageBudget \<Rightarrow> unit result" where
  "validateLinuxStorage m live b =
     (if id_Platform (ms_Identity m) \<noteq> PlatformLinux \<or> ls_goCacheBudget b = 0 \<or> ls_releaseCacheBudget b = 0 \<or>
         ls_backupBudget b = 0 \<or> ls_managementBytes b = 0 \<or> ls_managementInodes b = 0
      then Inl ErrInvalidPolicy
      else res_bind (linux_projected m live b) (\<lambda>projectedBytes.
        case addMany [us_UsedInodes (lo_Usage live), ls_prdInodes b, ls_devInodes b, ls_qasInodes b,
            ls_managementInodes b] of
          None \<Rightarrow> Inl ErrCapacityExceeded
        | Some projectedInodes \<Rightarrow>
            res_guard (\<not> (exceedsPercentFloor projectedBytes (id_CapacityBytes (ms_Identity m)) 30 \<or>
              exceedsPercentFloor projectedInodes (id_CapacityInodes (ms_Identity m)) 30)) ErrCapacityExceeded))"

definition measuredVolumeMatches :: "StorageVolume list \<Rightarrow> string \<Rightarrow> string \<Rightarrow> uint64 \<Rightarrow> bool" where
  "measuredVolumeMatches volumes uuid mountpoint requiredBytes \<longleftrightarrow>
     list_ex (\<lambda>v. sv_UUID v = uuid \<and> sv_Mountpoint v = mountpoint \<and> requiredBytes \<le> sv_CapacityBytes v \<and>
       sv_QuotaBytes v = requiredBytes) volumes"

fun cache_quota_from :: "Measurement \<Rightarrow> uint64 \<Rightarrow> string list \<Rightarrow> uint64 option" where
  "cache_quota_from m acc [] = Some acc"
| "cache_quota_from m acc (path # paths) =
     (case filter (\<lambda>v. sv_Mountpoint v = path) (ms_StorageVolumes m) of
        [found] \<Rightarrow>
          if sv_DeviceID found \<noteq> id_DeviceID (ms_Identity m) \<or> sv_QuotaBytes found = 0 \<or>
             sv_CapacityBytes found < sv_QuotaBytes found \<or> MaxUint64 - acc < sv_QuotaBytes found
          then None
          else cache_quota_from m (acc + sv_QuotaBytes found) paths
      | _ \<Rightarrow> None)"

definition measuredMacSharedCacheQuota :: "Measurement \<Rightarrow> uint64 option" where
  "measuredMacSharedCacheQuota m = cache_quota_from m 0 [MacGoBuildCachePath, MacGoModuleCachePath]"

definition mac_no_lane_volumes :: "MacDataBudget \<Rightarrow> bool" where
  "mac_no_lane_volumes b \<longleftrightarrow> md_DevQuotaBytes b = 0 \<and> md_QASQuotaBytes b = 0 \<and> md_DevVolumeUUID b = [] \<and>
     md_QASVolumeUUID b = [] \<and> md_DevMountpoint b = [] \<and> md_QASMountpoint b = []"

text \<open>The storage mode that each lane has to use, and its measured volumes.\<close>

definition mac_lane_storage :: "Measurement \<Rightarrow> MacDataBudget \<Rightarrow> bool \<Rightarrow> string \<Rightarrow> unit result" where
  "mac_lane_storage m b laneRuntime lane =
     (if \<not> laneRuntime then
        res_guard (\<not> (lane \<noteq> [] \<or> md_StorageMode b \<noteq> [] \<or> md_PRDVolumeUUID b \<noteq> [] \<or> md_PRDMountpoint b \<noteq> [] \<or>
          md_PRDQuotaBytes b \<noteq> 0 \<or> \<not> mac_no_lane_volumes b \<or> md_PRDHostBudgetBytes b = 0)) ErrInvalidPolicy
      else if lane = ''dev'' \<or> lane = ''qas'' then
        (if md_StorageMode b \<noteq> ''apfs_quota'' \<or> md_PRDHostBudgetBytes b = 0 \<or> md_PRDQuotaBytes b \<noteq> 0 \<or>
            md_PRDVolumeUUID b \<noteq> [] \<or> md_PRDMountpoint b \<noteq> []
         then Inl ErrInvalidPolicy
         else if md_DevQuotaBytes b = 0 \<or> md_QASQuotaBytes b = 0 \<or> \<not> volumeUUIDPattern (md_DevVolumeUUID b) \<or>
            \<not> volumeUUIDPattern (md_QASVolumeUUID b) \<or> \<not> cleanAbsolutePath (md_DevMountpoint b) \<or>
            \<not> cleanAbsolutePath (md_QASMountpoint b) \<or> md_DevVolumeUUID b = md_QASVolumeUUID b \<or>
            md_DevMountpoint b = md_QASMountpoint b
         then Inl ErrInvalidPolicy
         else res_guard
           (measuredVolumeMatches (ms_StorageVolumes m) (md_DevVolumeUUID b) (md_DevMountpoint b) (md_DevQuotaBytes b) \<and>
            measuredVolumeMatches (ms_StorageVolumes m) (md_QASVolumeUUID b) (md_QASMountpoint b) (md_QASQuotaBytes b))
           ErrIdentityChanged)
      else if lane = ''prd'' then
        res_bind
          (if md_StorageMode b = ''host_free_space_budget'' then
             res_guard (\<not> (md_PRDHostBudgetBytes b = 0 \<or> md_PRDVolumeUUID b \<noteq> [] \<or> md_PRDMountpoint b \<noteq> [] \<or>
               md_PRDQuotaBytes b \<noteq> 0)) ErrInvalidPolicy
           else if md_StorageMode b = ''apfs_quota'' then
             (if md_PRDHostBudgetBytes b \<noteq> 0 \<or> \<not> volumeUUIDPattern (md_PRDVolumeUUID b) \<or>
                 \<not> cleanAbsolutePath (md_PRDMountpoint b) \<or> md_PRDQuotaBytes b = 0
              then Inl ErrInvalidPolicy
              else res_guard (measuredVolumeMatches (ms_StorageVolumes m) (md_PRDVolumeUUID b) (md_PRDMountpoint b)
                (md_PRDQuotaBytes b)) ErrIdentityChanged)
           else Inl ErrInvalidPolicy)
          (\<lambda>_. res_guard (mac_no_lane_volumes b) ErrInvalidPolicy)
      else Inl ErrInvalidPolicy)"

definition mac_backup :: "Measurement \<Rightarrow> LiveObservation \<Rightarrow> MacDataBudget \<Rightarrow> unit result" where
  "mac_backup m live b =
     (if md_BackupOnDataVolume b then
        res_guard (\<not> (id_BackupDeviceID (ms_Identity m) \<noteq> [] \<or> id_BackupCapacityBytes (ms_Identity m) \<noteq> 0 \<or>
          md_BackupLowWaterBytes b \<noteq> 0)) ErrInvalidPolicy
      else if \<not> validBackupIdentity (ms_Identity m) \<or> md_BackupLowWaterBytes b = 0 then Inl ErrInvalidPolicy
      else res_guard (\<not> exceedsFloor (max (us_BackupBytes (lo_Usage live)) (md_BackupBudgetBytes b))
        (id_BackupCapacityBytes (ms_Identity m)) (md_BackupLowWaterBytes b)) ErrCapacityExceeded)"

definition mac_committed :: "LiveObservation \<Rightarrow> MacDataBudget \<Rightarrow> uint64 option" where
  "mac_committed live b =
     (case addMany [us_NonPurgeableBytes (lo_Usage live), md_SnapshotBudgetBytes b, md_PRDHostBudgetBytes b,
         md_PRDQuotaBytes b, md_DevQuotaBytes b, md_QASQuotaBytes b, md_SharedCacheBudgetBytes b,
         md_ReleaseCacheBudgetBytes b] of
        None \<Rightarrow> None
      | Some committed \<Rightarrow>
          if md_BackupOnDataVolume b
          then addMany [committed, max (md_BackupBudgetBytes b) (us_BackupBytes (lo_Usage live))]
          else Some committed)"

definition validateMacStorage ::
  "Measurement \<Rightarrow> LiveObservation \<Rightarrow> MacDataBudget option \<Rightarrow> bool \<Rightarrow> string \<Rightarrow> unit result" where
  "validateMacStorage m live budget laneRuntime lane =
     (case budget of
        None \<Rightarrow> Inl ErrCapacityExceeded
      | Some b \<Rightarrow>
          let usage = lo_Usage live in
          if id_Platform (ms_Identity m) \<noteq> PlatformMacOS \<or> md_SharedCacheBudgetBytes b = 0 \<or>
             md_ReleaseCacheBudgetBytes b = 0 \<or> maxSnapshotBytes < md_SnapshotBudgetBytes b \<or>
             md_SnapshotBudgetBytes b = 0 \<or> md_SnapshotBudgetBytes b < us_SnapshotBytes usage \<or>
             md_BackupBudgetBytes b = 0 \<or> md_SharedCacheBudgetBytes b < us_GoCacheBytes usage \<or>
             md_ReleaseCacheBudgetBytes b < us_ReleaseCacheBytes usage
          then Inl ErrCapacityExceeded
          else if measuredMacSharedCacheQuota m \<noteq> Some (md_SharedCacheBudgetBytes b) then Inl ErrIdentityChanged
          else res_bind (mac_lane_storage m b laneRuntime lane) (\<lambda>_.
               res_bind (mac_backup m live b) (\<lambda>_.
               case mac_committed live b of
                 None \<Rightarrow> Inl ErrCapacityExceeded
               | Some dataCommitted \<Rightarrow>
                   let percentFloor = ceilPercent (id_CapacityBytes (ms_Identity m)) 15;
                       floor_bytes = (if minMacFloorBytes < percentFloor then percentFloor else minMacFloorBytes)
                   in res_guard (\<not> exceedsFloor dataCommitted (id_CapacityBytes (ms_Identity m)) floor_bytes)
                        ErrCapacityExceeded)))"

section \<open>Resources\<close>

definition resourceVectorComplete :: "ResourceVector \<Rightarrow> bool" where
  "resourceVectorComplete v \<longleftrightarrow> 0 < rv_CPUMilli v \<and> 0 < rv_MemoryBytes v \<and> 0 < rv_Tasks v \<and>
     0 < rv_IOReadBytesPerSecond v \<and> 0 < rv_IOWriteBytesPerSecond v \<and> 0 < rv_IOReadIOPSMax v \<and>
     0 < rv_IOWriteIOPSMax v"

definition resourceEnvelopeComplete :: "ResourceEnvelope \<Rightarrow> bool" where
  "resourceEnvelopeComplete e \<longleftrightarrow> resourceVectorComplete (re_PRDFloor e) \<and> resourceVectorComplete (re_DevHardMax e) \<and>
     resourceVectorComplete (re_QASHardMax e) \<and> resourceVectorComplete (re_ManagementHardMax e)"

text \<open>One component of the four vectors of an envelope.\<close>

definition envelope_values :: "(ResourceVector \<Rightarrow> uint64) \<Rightarrow> ResourceEnvelope \<Rightarrow> uint64 list" where
  "envelope_values f e = [f (re_PRDFloor e), f (re_DevHardMax e), f (re_QASHardMax e), f (re_ManagementHardMax e)]"

definition resource_dimensions :: "(ResourceVector \<Rightarrow> uint64) list" where
  "resource_dimensions = [rv_CPUMilli, rv_MemoryBytes, rv_Tasks, rv_IOReadBytesPerSecond, rv_IOWriteBytesPerSecond,
     rv_IOReadIOPSMax, rv_IOWriteIOPSMax]"

text \<open>\<open>zero\<close> is the error for a capacity of zero; otherwise the values have to sum to at most it.\<close>

fun check_dimensions :: "go_error \<Rightarrow> (uint64 \<times> uint64 list) list \<Rightarrow> unit result" where
  "check_dimensions zero_error [] = Inr ()"
| "check_dimensions zero_error ((capacity, values) # ds) =
     (if capacity = 0 then Inl zero_error
      else case addMany values of
        None \<Rightarrow> Inl ErrCapacityExceeded
      | Some s \<Rightarrow> if capacity < s then Inl ErrCapacityExceeded else check_dimensions zero_error ds)"

definition validateResourceEnvelope :: "ResourceVector \<Rightarrow> ResourceEnvelope \<Rightarrow> unit result" where
  "validateResourceEnvelope capacity envelope =
     check_dimensions ErrInvalidPolicy (map (\<lambda>f. (f capacity, envelope_values f envelope)) resource_dimensions)"

definition linuxIODeviceBound :: "Measurement \<Rightarrow> string \<Rightarrow> bool" where
  "linuxIODeviceBound m deviceID \<longleftrightarrow>
     (if deviceID = [] then False
      else if ms_LinuxDevices m = [] then deviceID = id_DeviceID (ms_Identity m)
      else list_ex (\<lambda>d. ld_ID d = deviceID) (ms_LinuxDevices m))"

definition validateManagementComponents :: "HostIdentity \<Rightarrow> string list \<Rightarrow> unit result" where
  "validateManagementComponents i components =
     (let want = [''runner-release-builder'', ''runner-release-transport'', ''runner-security-anchor-helper'',
            ''runner-release-transport-pki-installer''] @
          (if id_Platform i = PlatformMacOS then [''runner-release-authority-signer'', ''runner-release-authority-agent'',
            ''runner-release-authority-approval'', ''runner-release-transport-pki-issuer''] else [])
      in res_guard (components = want) ErrInvalidPolicy)"

section \<open>Policies\<close>

text \<open>The Mac part of both scopes: no compute claim, and a data budget that repeats the common fields.\<close>

definition mac_budget_agrees :: "MacDataBudget option \<Rightarrow> uint64 \<Rightarrow> bool \<Rightarrow> uint64 \<Rightarrow> uint64 \<Rightarrow> uint64 \<Rightarrow> bool" where
  "mac_budget_agrees mac backup onData lowWater goCache releaseCache =
     (case mac of None \<Rightarrow> False
      | Some d \<Rightarrow> backup = md_BackupBudgetBytes d \<and> onData = md_BackupOnDataVolume d \<and>
          lowWater = md_BackupLowWaterBytes d \<and> goCache = md_SharedCacheBudgetBytes d \<and>
          releaseCache = md_ReleaseCacheBudgetBytes d)"

definition validate_management :: "Policy \<Rightarrow> HostManagementBudget \<Rightarrow> Measurement \<Rightarrow> LiveObservation \<Rightarrow> unit result" where
  "validate_management p h m live =
     res_bind (validateManagementComponents (ms_Identity m) (hm_Components h)) (\<lambda>_.
     if hm_PeakBytes h = 0 \<or> hm_StagingBudgetBytes h = 0 \<or> hm_LogBudgetBytes h = 0 \<or>
        hm_GoCacheBudgetBytes h < us_GoCacheBytes (ms_Usage m) \<or>
        hm_ReleaseCacheBudgetBytes h < us_ReleaseCacheBytes (ms_Usage m) \<or> hm_BackupBudgetBytes h = 0 \<or>
        (case addMany [hm_StagingBudgetBytes h, hm_LogBudgetBytes h] of
           None \<Rightarrow> True | Some componentBytes \<Rightarrow> hm_PeakBytes h < componentBytes) \<or>
        hm_GoCachePaths h \<noteq> ms_GoCachePaths m
     then Inl ErrCapacityExceeded
     else if id_Platform (ms_Identity m) = PlatformMacOS then
       (if po_Compute p \<noteq> ComputeNone \<or> \<not> ResourceEnvelope_zero (hm_Resources h) \<or> hm_PeakInodes h \<noteq> 0 \<or>
           hm_IODeviceID h \<noteq> []
        then Inl ErrUnsupportedCompute
        else if \<not> mac_budget_agrees (hm_MacData h) (hm_BackupBudgetBytes h) (hm_BackupOnDataDevice h)
          (hm_BackupLowWaterBytes h) (hm_GoCacheBudgetBytes h) (hm_ReleaseCacheBudgetBytes h)
        then Inl ErrInvalidPolicy
        else validateMacStorage m live (hm_MacData h) False [])
     else if po_Compute p \<noteq> ComputeLinuxCgroupV2 \<or> hm_MacData h \<noteq> None \<or>
       re_DevHardMax (hm_Resources h) \<noteq> zero_resources \<or> re_QASHardMax (hm_Resources h) \<noteq> zero_resources \<or>
       hm_PeakInodes h = 0
     then Inl ErrInvalidPolicy
     else if \<not> linuxIODeviceBound m (hm_IODeviceID h) then Inl ErrInvalidPolicy
     else if \<not> resourceVectorComplete (re_PRDFloor (hm_Resources h)) \<or>
       \<not> resourceVectorComplete (re_ManagementHardMax (hm_Resources h))
     then Inl ErrInvalidPolicy
     else res_bind (validateResourceEnvelope (ms_ResourceCapacity m) (hm_Resources h)) (\<lambda>_.
       validateLinuxStorage m live (linuxStorageFromManagement h)))"

definition validate_lane_runtime :: "Policy \<Rightarrow> LaneRuntimeBudget \<Rightarrow> Measurement \<Rightarrow> LiveObservation \<Rightarrow> unit result" where
  "validate_lane_runtime p b m live =
     (if lr_GoCacheBudgetBytes b < us_GoCacheBytes (ms_Usage m) \<or>
         lr_ReleaseCacheBudgetBytes b < us_ReleaseCacheBytes (ms_Usage m) \<or> lr_BackupBudgetBytes b = 0 \<or>
         lr_GoCachePaths b \<noteq> ms_GoCachePaths m
      then Inl ErrCapacityExceeded
      else if id_Platform (ms_Identity m) = PlatformMacOS then
        (if po_Compute p \<noteq> ComputeNone \<or> \<not> ResourceEnvelope_zero (lr_Resources b) \<or> lr_IODeviceID b \<noteq> []
         then Inl ErrUnsupportedCompute
         else if \<not> mac_budget_agrees (lr_MacData b) (lr_BackupBudgetBytes b) (lr_BackupOnDataDevice b)
           (lr_BackupLowWaterBytes b) (lr_GoCacheBudgetBytes b) (lr_ReleaseCacheBudgetBytes b)
         then Inl ErrInvalidPolicy
         else validateMacStorage m live (lr_MacData b) True (po_Lane p))
      else if po_Compute p \<noteq> ComputeLinuxCgroupV2 \<or> lr_MacData b \<noteq> None \<or> \<not> linuxIODeviceBound m (lr_IODeviceID b)
      then Inl ErrInvalidPolicy
      else if \<not> resourceEnvelopeComplete (lr_Resources b) \<or> lr_PRDGrowthBytes b = 0 \<or> lr_DevHardBytes b = 0 \<or>
        lr_QASHardBytes b = 0 \<or> lr_ManagementGrowthBytes b = 0 \<or> lr_PRDGrowthInodes b = 0 \<or>
        lr_DevHardInodes b = 0 \<or> lr_QASHardInodes b = 0 \<or> lr_ManagementGrowthInodes b = 0
      then Inl ErrInvalidPolicy
      else res_bind (validateResourceEnvelope (ms_ResourceCapacity m) (lr_Resources b)) (\<lambda>_.
        validateLinuxStorage m live (linuxStorageFromLane b)))"

definition validateScope :: "Policy \<Rightarrow> Measurement \<Rightarrow> LiveObservation \<Rightarrow> unit result" where
  "validateScope p m live =
     (case po_Scope p of
        ScopeHostManagement \<Rightarrow>
          (case (po_HostManagement p, po_LaneRuntime p) of
             (Some h, None) \<Rightarrow> if po_Lane p \<noteq> [] then Inl ErrInvalidPolicy else validate_management p h m live
           | _ \<Rightarrow> Inl ErrInvalidPolicy)
      | ScopeLaneRuntime \<Rightarrow>
          (case (po_HostManagement p, po_LaneRuntime p) of
             (None, Some b) \<Rightarrow>
               if po_Lane p \<noteq> ''dev'' \<and> po_Lane p \<noteq> ''qas'' \<and> po_Lane p \<noteq> ''prd'' then Inl ErrInvalidPolicy
               else validate_lane_runtime p b m live
           | _ \<Rightarrow> Inl ErrInvalidPolicy)
      | ScopeOther _ \<Rightarrow> Inl ErrInvalidPolicy)"

definition policy_stale :: "Policy \<Rightarrow> Measurement \<Rightarrow> LiveObservation \<Rightarrow> time \<Rightarrow> bool" where
  "policy_stale p m live now \<longleftrightarrow>
     po_NotBefore p = zero_time \<or> po_NotAfter p = zero_time \<or> \<not> po_NotBefore p < po_NotAfter p \<or>
     now < po_NotBefore p \<or> \<not> now < po_NotAfter p \<or>
     po_NotBefore p < ms_ObservedAt m \<or> ms_ExpiresAt m < po_NotAfter p \<or>
     \<not> now < ms_ExpiresAt m \<or> lo_ObservedAt live = zero_time \<or> now + Minute < lo_ObservedAt live \<or>
     maxLiveObservationAge < now - lo_ObservedAt live"

definition ValidatePolicy :: "Policy \<Rightarrow> Measurement \<Rightarrow> LiveObservation \<Rightarrow> time \<Rightarrow> unit result" where
  "ValidatePolicy p m live now =
     res_bind (res_as ErrInvalidPolicy (validateMeasurement m)) (\<lambda>_.
     res_bind (res_as ErrIdentityChanged (capacity_validateIdentity (lo_Identity live))) (\<lambda>_.
     if po_Version p \<noteq> 1 \<or> \<not> hostIDPattern (po_HostID p) \<or> po_HostID p \<noteq> id_HostID (ms_Identity m) \<or>
        \<not> policyIDPattern (po_MeasurementID p) \<or> \<not> sha256DigestPattern (po_EvaluationDigest p)
     then Inl ErrInvalidPolicy
     else if EvaluationDigest m \<noteq> Inr (po_EvaluationDigest p) then Inl ErrInvalidPolicy
     else if ms_LinuxDevices m \<noteq> lo_LinuxDevices live then Inl ErrIdentityChanged
     else if policy_stale p m live now then Inl ErrStaleMeasurement
     else if po_HostID p \<noteq> id_HostID (lo_Identity live) \<or> po_HostID p \<noteq> id_HostID (ms_Identity m) \<or>
       lo_Identity live \<noteq> ms_Identity m \<or> lo_ResourceCapacity live \<noteq> ms_ResourceCapacity m \<or>
       lo_GoCachePaths live \<noteq> ms_GoCachePaths m \<or> lo_StorageVolumes live \<noteq> ms_StorageVolumes m
     then Inl ErrIdentityChanged
     else res_bind (validateCachePaths (lo_GoCachePaths live)) (\<lambda>_. validateScope p m live)))"

section \<open>The Linux control plan\<close>

record LinuxControlPlan =
  cp_HostID :: string
  cp_Scope :: Scope
  cp_Lane :: string
  cp_SliceUnit :: string
  cp_Resources :: ResourceVector
  cp_Device :: LinuxDevice

definition validateLinuxDeviceIOEnvelope :: "LinuxDevice \<Rightarrow> ResourceEnvelope \<Rightarrow> unit result" where
  "validateLinuxDeviceIOEnvelope d e = check_dimensions ErrLinuxControlsUnavailable
     [(ld_IOReadBytesPerSecondCapacity d, envelope_values rv_IOReadBytesPerSecond e),
      (ld_IOWriteBytesPerSecondCapacity d, envelope_values rv_IOWriteBytesPerSecond e),
      (ld_IOReadIOPSCapacity d, envelope_values rv_IOReadIOPSMax e),
      (ld_IOWriteIOPSCapacity d, envelope_values rv_IOWriteIOPSMax e)]"

text \<open>The device, lane, slice unit, limits and envelope that the scope of the policy selects.\<close>

definition control_selection :: "Policy \<Rightarrow> (string \<times> string \<times> string \<times> ResourceVector \<times> ResourceEnvelope) result" where
  "control_selection p =
     (case po_Scope p of
        ScopeHostManagement \<Rightarrow>
          (case (po_HostManagement p, po_LaneRuntime p) of
             (Some h, None) \<Rightarrow> Inr (hm_IODeviceID h, [], ''remote-session-runner-management.slice'',
               re_ManagementHardMax (hm_Resources h), hm_Resources h)
           | _ \<Rightarrow> Inl ErrInvalidPolicy)
      | ScopeLaneRuntime \<Rightarrow>
          (case (po_HostManagement p, po_LaneRuntime p) of
             (None, Some b) \<Rightarrow>
               if po_Lane p \<noteq> ''dev'' \<and> po_Lane p \<noteq> ''qas'' then Inl ErrInvalidPolicy
               else Inr (lr_IODeviceID b, po_Lane p, ''remote-session-runner-'' @ po_Lane p @ ''.slice'',
                 (if po_Lane p = ''dev'' then re_DevHardMax (lr_Resources b) else re_QASHardMax (lr_Resources b)),
                 lr_Resources b)
           | _ \<Rightarrow> Inl ErrInvalidPolicy)
      | ScopeOther _ \<Rightarrow> Inl ErrInvalidPolicy)"

definition BuildLinuxControlPlan :: "Policy \<Rightarrow> Measurement \<Rightarrow> LiveObservation \<Rightarrow> time \<Rightarrow> LinuxControlPlan result" where
  "BuildLinuxControlPlan p m live now =
     res_bind (ValidatePolicy p m live now) (\<lambda>_.
     if id_Platform (ms_Identity m) \<noteq> PlatformLinux \<or> ms_LinuxDevices m = [] then Inl ErrLinuxControlsUnavailable
     else res_bind (control_selection p) (\<lambda>(deviceID, lane, slice, resources, envelope).
       if \<not> resourceVectorComplete resources then Inl ErrInvalidPolicy
       else if rv_CPUMilli resources mod 10 \<noteq> 0 then Inl ErrInvalidPolicy
       else (case find (\<lambda>d. ld_ID d = deviceID) (ms_LinuxDevices m) of
         None \<Rightarrow> Inl ErrLinuxControlsUnavailable
       | Some d \<Rightarrow>
           if ld_ID d = [] \<or> ld_Mountpoint d \<noteq> LinuxCapacityMountpoint \<or> \<not> ld_ProjectQuotaFeature d \<or>
              \<not> ld_ProjectQuotaActive d \<or> ld_Filesystem d \<noteq> ''ext4''
           then Inl ErrLinuxControlsUnavailable
           else res_bind (validateLinuxDeviceIOEnvelope d envelope) (\<lambda>_.
             Inr \<lparr>cp_HostID = po_HostID p, cp_Scope = po_Scope p, cp_Lane = lane, cp_SliceUnit = slice,
                  cp_Resources = resources, cp_Device = d\<rparr>))))"

end
