(* ===== verification/Capacity_Fit.thy ===== *)
theory Capacity_Fit
  imports Capacity_Policy
begin

text \<open>
  An accepted capacity policy fits: the checked 64-bit arithmetic is the arithmetic of integers, so
  what a policy promises to the lanes, added to what the host uses, leaves the required free space, and
  no resource is promised beyond the measured capacity.
\<close>

section \<open>The arithmetic is exact\<close>

abbreviation total_of :: "uint64 list \<Rightarrow> int" where
  "total_of vs \<equiv> sum_list (map uint vs)"

lemma total_nonneg: "0 \<le> total_of vs"
  by (induction vs) auto

lemma add_values_exact:
  "if uint acc + total_of vs < 2 ^ 64 then \<exists>w. add_values acc vs = Some w \<and> uint w = uint acc + total_of vs
   else add_values acc vs = None"
proof (induction vs arbitrary: acc)
  case Nil
  then show ?case using uint_lt_64 [of acc] by simp
next
  case (Cons v vs)
  have le: "acc \<le> MaxUint64" unfolding uint_le_bound uint_max_uint using uint_lt_64 [of acc] by linarith
  have rest: "0 \<le> total_of vs" by (rule total_nonneg)
  have fits: "v \<le> MaxUint64 - acc \<longleftrightarrow> uint acc + uint v < 2 ^ 64"
    unfolding checked_add(1) [OF le] uint_max_uint by linarith
  show ?case
  proof (cases "uint acc + uint v < 2 ^ 64")
    case True
    then have ok: "v \<le> MaxUint64 - acc" by (simp only: fits)
    have sum: "uint (acc + v) = uint acc + uint v" by (rule checked_add(2) [OF le ok])
    have "add_values acc (v # vs) = add_values (acc + v) vs" using leD [OF ok] by simp
    moreover note Cons.IH [of "acc + v", unfolded sum]
    ultimately show ?thesis by (simp only: list.map sum_list.Cons add.assoc)
  next
    case False
    then have "MaxUint64 - acc < v" using fits by (simp only: not_le [symmetric]) simp
    moreover have "\<not> uint acc + total_of (v # vs) < 2 ^ 64" using False rest by simp
    ultimately show ?thesis by simp
  qed
qed

lemma addMany_Some: "addMany vs = Some w \<longleftrightarrow> total_of vs < 2 ^ 64 \<and> uint w = total_of vs"
proof -
  have "if total_of vs < 2 ^ 64 then \<exists>w. addMany vs = Some w \<and> uint w = total_of vs else addMany vs = None"
    using add_values_exact [of 0 vs] by (simp only: addMany_def unsigned_0 add_0)
  then show ?thesis by (auto split: if_splits simp: word_uint_eq_iff)
qed

lemma addMany_None: "addMany vs = None \<longleftrightarrow> 2 ^ 64 \<le> total_of vs"
  using add_values_exact [of 0 vs] by (auto simp: addMany_def not_less split: if_splits)

lemma uint_positiveDifference: "uint (positiveDifference a b) = max 0 (uint a - uint b)"
  by (auto simp: positiveDifference_def uint_le_bound uint_sub_exact)

lemma uint_max: "uint (max a b :: uint64) = max (uint a) (uint b)"
  by (simp add: max_def uint_le_bound)

lemma not_exceedsFloor: "\<not> exceedsFloor projected capacity floor_bytes \<longleftrightarrow> uint projected + uint floor_bytes \<le> uint capacity"
proof (cases "floor_bytes \<le> capacity")
  case True
  then show ?thesis by (auto simp: exceedsFloor_def not_less checked_add(1) add.commute)
next
  case False
  then have "uint capacity < uint floor_bytes" "capacity < floor_bytes"
    by (simp_all add: word_less_def uint_le_bound not_le)
  moreover have "0 \<le> uint projected" by simp
  ultimately show ?thesis unfolding exceedsFloor_def by linarith
qed

lemma uint_mult_exact: "uint a * uint b < 2 ^ 64 \<Longrightarrow> uint (a * b :: uint64) = uint a * uint b"
  using uint_mult_lem [of a b] by simp

lemma ceil_div_parts:
  fixes q r p :: int
  shows "(100 * q * p + r * p + 99) div 100 = q * p + (r * p + 99) div 100"
proof -
  have "100 * q * p + r * p + 99 = (r * p + 99) + (q * p) * 100" by (simp add: algebra_simps)
  then show ?thesis by (simp add: div_mult_self1)
qed

lemma ceil_round: "0 \<le> (x :: int) \<Longrightarrow> (if x mod 100 \<noteq> 0 then x div 100 + 1 else x div 100) = (x + 99) div 100"
proof -
  define a b where "a = x div 100" and "b = x mod 100"
  have b: "0 \<le> b" "b < 100" by (simp_all add: b_def)
  have "x + 99 = (b + 99) + a * 100" by (simp add: a_def b_def)
  then have "(x + 99) div 100 = a + (b + 99) div 100" by (simp add: div_mult_self1)
  moreover have "(b + 99) div 100 = (if b \<noteq> 0 then 1 else 0)" using b by auto
  ultimately show ?thesis by (simp add: a_def b_def)
qed

lemma ceilPercent_exact:
  assumes "percent \<le> 100"
  shows "uint (ceilPercent v percent) = (uint v * uint percent + 99) div 100"
proof -
  define V q r P where "V = uint v" and "q = V div 100" and "r = V mod 100" and "P = uint percent"
  have P: "0 \<le> P" "P \<le> 100" using assms by (simp_all add: P_def uint_le_bound)
  have V: "V = 100 * q + r" "0 \<le> r" "r < 100" "0 \<le> q" "V < 2 ^ 64"
    using uint_lt_64 [of v] by (simp_all add: V_def q_def r_def pos_imp_zdiv_nonneg_iff)
  have qP: "0 \<le> q * P" "q * P \<le> q * 100" using P V by (simp_all add: mult_left_mono)
  have rP: "0 \<le> r * P" "r * P \<le> r * 100" using P V by (simp_all add: mult_left_mono)
  have vq: "uint (v div 100) = q" by (simp add: q_def V_def uint_div_distrib)
  have part: "uint (v div 100 * percent) = q * P"
    using uint_mult_exact [of "v div 100" percent, unfolded vq, folded P_def] qP V by linarith
  have vr: "uint (v mod 100) = r" by (simp add: r_def V_def uint_mod_distrib)
  have "r * P < 2 ^ 64" using rP(2) V(3) by simp
  then have rem: "uint (v mod 100 * percent) = r * P"
    using uint_mult_exact [of "v mod 100" percent, unfolded vr, folded P_def] by blast
  define x where "x = v mod 100 * percent"
  define y where "y = (if x mod 100 \<noteq> 0 then x div 100 + 1 else x div 100)"
  have ceil: "(r * P + 99) div 100 \<le> r" 
    using zdiv_mono1 [of "r * P + 99" "r * 100 + 99" 100] rP(2) by simp
  have y: "uint y = (r * P + 99) div 100"
  proof -
    have m: "x mod 100 \<noteq> 0 \<longleftrightarrow> r * P mod 100 \<noteq> 0"
      using rem by (simp add: x_def [symmetric] word_uint_eq_iff uint_mod_distrib)
    have d: "uint (x div 100) = r * P div 100" using rem by (simp add: x_def [symmetric] uint_div_distrib)
    have "r * P div 100 \<le> r" using zdiv_mono1 [of "r * P" "r * 100" 100] rP(2) by simp
    then have "uint (x div 100) + uint (1 :: uint64) < 2 ^ 64" using d V by simp
    then have "uint (x div 100 + 1) = r * P div 100 + 1" by (simp add: uint_add_exact d)
    then show ?thesis using m d ceil_round [OF rP(1)] by (cases "r * P mod 100 = 0") (simp_all add: y_def)
  qed
  have "uint (v div 100 * percent) + uint y < 2 ^ 64" unfolding part y using qP ceil V by linarith
  then have "uint (v div 100 * percent + y) = q * P + (r * P + 99) div 100" by (simp add: uint_add_exact part y)
  moreover have "ceilPercent v percent = v div 100 * percent + y"
    by (simp add: ceilPercent_def Let_def x_def y_def)
  moreover have "uint v * uint percent = 100 * q * P + r * P"
    using V(1) by (simp add: V_def [symmetric] P_def [symmetric] algebra_simps)
  ultimately show ?thesis by (simp add: ceil_div_parts)
qed

lemma ceil_le_iff: "(n + 99) div 100 \<le> k \<longleftrightarrow> n \<le> 100 * (k :: int)"
  by linarith

lemma not_exceedsPercentFloor:
  assumes "percent \<le> 100"
  shows "\<not> exceedsPercentFloor projected capacity percent \<longleftrightarrow>
    100 * uint projected \<le> (100 - uint percent) * uint capacity"
proof -
  define A C P where "A = uint projected" and "C = uint capacity" and "P = uint percent"
  have P: "0 \<le> P" "P \<le> 100" using assms by (simp_all add: P_def uint_le_bound)
  have CP: "C * P \<le> C * 100" "0 \<le> C" "0 \<le> C * P" using P by (simp_all add: C_def mult_left_mono)
  have c: "uint (ceilPercent capacity percent) = (C * P + 99) div 100"
    using ceilPercent_exact [OF assms, of capacity] by (simp add: C_def P_def)
  have le: "ceilPercent capacity percent \<le> capacity"
    unfolding uint_le_bound c C_def [symmetric] ceil_le_iff using CP by linarith
  have "\<not> exceedsPercentFloor projected capacity percent \<longleftrightarrow> A \<le> C \<and> (C * P + 99) div 100 \<le> C - A"
    using assms checked_add(1) [OF le, of projected]
    by (auto simp: exceedsPercentFloor_def not_less c A_def C_def uint_le_bound [symmetric] le_diff_eq)
  also have "\<dots> \<longleftrightarrow> 100 * A \<le> (100 - P) * C"
    unfolding ceil_le_iff using CP by (auto simp: algebra_simps)
  finally show ?thesis by (simp add: A_def C_def P_def)
qed

lemma check_dimensions_Inr:
  "check_dimensions z ds = Inr () \<longleftrightarrow> list_all (\<lambda>(c, vs). c \<noteq> 0 \<and> total_of vs \<le> uint c) ds"
proof (induction ds)
  case Nil
  then show ?case by simp
next
  case (Cons d ds)
  obtain c vs where d: "d = (c, vs)" by (cases d)
  show ?case
  proof (cases "addMany vs")
    case None
    then have "\<not> total_of vs \<le> uint c" using uint_lt_64 [of c] by (simp only: addMany_None)
    then show ?thesis using None by (simp add: d)
  next
    case (Some w)
    then have "uint w = total_of vs" by (simp only: addMany_Some)
    then show ?thesis using Some Cons.IH by (auto simp: d not_less word_less_def)
  qed
qed

section \<open>What an accepted policy promises\<close>

text \<open>The bytes and inodes on the data device of a Linux host once every budget is used up.\<close>

definition linux_promised :: "LiveObservation \<Rightarrow> linuxStorageBudget \<Rightarrow> int" where
  "linux_promised live b =
     (let u = lo_Usage live in
      uint (us_UsedBytes u) + uint (ls_prdBytes b) + uint (ls_devBytes b) + uint (ls_qasBytes b) +
      uint (ls_managementBytes b) + max 0 (uint (ls_goCacheBudget b) - uint (us_GoCacheBytes u)) +
      max 0 (uint (ls_releaseCacheBudget b) - uint (us_ReleaseCacheBytes u)) +
      (if ls_backupOnDataDevice b then max 0 (uint (ls_backupBudget b) - uint (us_BackupBytes u)) else 0))"

definition linux_promised_inodes :: "LiveObservation \<Rightarrow> linuxStorageBudget \<Rightarrow> int" where
  "linux_promised_inodes live b = uint (us_UsedInodes (lo_Usage live)) + uint (ls_prdInodes b) +
     uint (ls_devInodes b) + uint (ls_qasInodes b) + uint (ls_managementInodes b)"

text \<open>The bytes that are committed on the data volume of a Mac.\<close>

definition mac_promised :: "LiveObservation \<Rightarrow> MacDataBudget \<Rightarrow> int" where
  "mac_promised live d =
     uint (us_NonPurgeableBytes (lo_Usage live)) + uint (md_SnapshotBudgetBytes d) + uint (md_PRDHostBudgetBytes d) +
     uint (md_PRDQuotaBytes d) + uint (md_DevQuotaBytes d) + uint (md_QASQuotaBytes d) +
     uint (md_SharedCacheBudgetBytes d) + uint (md_ReleaseCacheBudgetBytes d) +
     (if md_BackupOnDataVolume d then max (uint (md_BackupBudgetBytes d)) (uint (us_BackupBytes (lo_Usage live))) else 0)"

definition policy_storage :: "Policy \<Rightarrow> (linuxStorageBudget \<times> ResourceEnvelope) option" where
  "policy_storage p = (case (po_HostManagement p, po_LaneRuntime p) of
     (Some h, None) \<Rightarrow> Some (linuxStorageFromManagement h, hm_Resources h)
   | (None, Some b) \<Rightarrow> Some (linuxStorageFromLane b, lr_Resources b)
   | _ \<Rightarrow> None)"

definition policy_mac :: "Policy \<Rightarrow> MacDataBudget option" where
  "policy_mac p = (case (po_HostManagement p, po_LaneRuntime p) of
     (Some h, None) \<Rightarrow> hm_MacData h | (None, Some b) \<Rightarrow> lr_MacData b | _ \<Rightarrow> None)"

lemma linux_projected_exact:
  assumes "linux_projected m live b = Inr w"
  shows "uint w = linux_promised live b \<and> (\<not> ls_backupOnDataDevice b \<longrightarrow>
    max (uint (us_BackupBytes (lo_Usage live))) (uint (ls_backupBudget b)) + uint (ls_backupLowWater b)
      \<le> uint (id_BackupCapacityBytes (ms_Identity m)))"
  using assms
  by (auto simp: linux_projected_def linux_promised_def Let_def addMany_Some uint_positiveDifference
      not_exceedsFloor [simplified] uint_max split: option.splits if_splits)

lemma linux_storage_fits:
  assumes "validateLinuxStorage m live b = Inr ()"
  shows "100 * linux_promised live b \<le> 70 * uint (id_CapacityBytes (ms_Identity m)) \<and>
    100 * linux_promised_inodes live b \<le> 70 * uint (id_CapacityInodes (ms_Identity m)) \<and>
    (\<not> ls_backupOnDataDevice b \<longrightarrow>
      max (uint (us_BackupBytes (lo_Usage live))) (uint (ls_backupBudget b)) + uint (ls_backupLowWater b)
        \<le> uint (id_BackupCapacityBytes (ms_Identity m)))"
proof -
  obtain w n where w: "linux_projected m live b = Inr w"
    and n: "addMany [us_UsedInodes (lo_Usage live), ls_prdInodes b, ls_devInodes b, ls_qasInodes b,
      ls_managementInodes b] = Some n"
    and ok: "\<not> exceedsPercentFloor w (id_CapacityBytes (ms_Identity m)) 30"
      "\<not> exceedsPercentFloor n (id_CapacityInodes (ms_Identity m)) 30"
    using assms
    by (auto simp: validateLinuxStorage_def res_bind_Inr res_guard_Inr split: if_splits option.splits)
  have "uint n = linux_promised_inodes live b" using n by (simp add: addMany_Some linux_promised_inodes_def)
  moreover have "(30 :: uint64) \<le> 100" "uint (30 :: uint64) = 30" by simp_all
  ultimately show ?thesis
    using ok linux_projected_exact [OF w] by (simp add: not_exceedsPercentFloor)
qed

lemma mac_storage_fits:
  assumes "validateMacStorage m live budget laneRuntime lane = Inr ()"
  shows "\<exists>d. budget = Some d \<and>
    mac_promised live d + max (20 * 2 ^ 30) ((15 * uint (id_CapacityBytes (ms_Identity m)) + 99) div 100)
      \<le> uint (id_CapacityBytes (ms_Identity m))"
proof -
  obtain d w where d: "budget = Some d" and w: "mac_committed live d = Some w"
    and ok: "\<not> exceedsFloor w (id_CapacityBytes (ms_Identity m))
      (if minMacFloorBytes < ceilPercent (id_CapacityBytes (ms_Identity m)) 15
       then ceilPercent (id_CapacityBytes (ms_Identity m)) 15 else minMacFloorBytes)"
    using assms
    by (auto simp: validateMacStorage_def Let_def res_bind_Inr res_guard_Inr split: option.splits if_splits)
  have "uint w = mac_promised live d"
    using w by (auto simp: mac_committed_def mac_promised_def addMany_Some uint_max split: option.splits if_splits)
  moreover have "uint minMacFloorBytes = 20 * 2 ^ 30" by (simp add: minMacFloorBytes_def GiB_def)
  moreover have "uint (ceilPercent (id_CapacityBytes (ms_Identity m)) 15) =
      (15 * uint (id_CapacityBytes (ms_Identity m)) + 99) div 100"
    by (simp add: ceilPercent_exact mult.commute)
  ultimately show ?thesis
    using ok d unfolding not_exceedsFloor by (auto simp: word_less_def max_def split: if_splits)
qed

lemma resource_envelope_fits:
  "validateResourceEnvelope capacity e = Inr () \<longleftrightarrow>
     (\<forall>f \<in> set resource_dimensions. f capacity \<noteq> 0 \<and>
       uint (f (re_PRDFloor e)) + uint (f (re_DevHardMax e)) + uint (f (re_QASHardMax e)) +
       uint (f (re_ManagementHardMax e)) \<le> uint (f capacity))"
  by (auto simp: validateResourceEnvelope_def check_dimensions_Inr list_all_iff envelope_values_def add.assoc)

lemma accepted_state:
  assumes "ValidatePolicy p m live now = Inr ()"
  shows "EvaluationDigest m = Inr (po_EvaluationDigest p) \<and> po_HostID p = id_HostID (ms_Identity m) \<and>
    lo_Identity live = ms_Identity m \<and> lo_ResourceCapacity live = ms_ResourceCapacity m \<and>
    lo_LinuxDevices live = ms_LinuxDevices m \<and> lo_StorageVolumes live = ms_StorageVolumes m \<and>
    po_NotBefore p \<le> now \<and> now < po_NotAfter p \<and> ms_ObservedAt m \<le> po_NotBefore p \<and>
    po_NotAfter p \<le> ms_ExpiresAt m \<and> \<bar>now - lo_ObservedAt live\<bar> \<le> Minute \<and>
    validateMeasurement m = Inr () \<and> validateScope p m live = Inr ()"
  using assms
  by (simp add: ValidatePolicy_def res_bind_Inr res_as_Inr policy_stale_def maxLiveObservationAge_def
      not_less abs_le_iff split: if_splits)

lemma accepted_platform:
  assumes "validateMeasurement m = Inr ()"
  shows "id_Platform (ms_Identity m) = PlatformLinux \<or> id_Platform (ms_Identity m) = PlatformMacOS"
  using assms
  by (auto simp: validateMeasurement_def capacity_validateIdentity_def is_ok_iff Let_def split: if_splits Platform.splits)

lemma accepted_scope:
  assumes "validateScope p m live = Inr ()"
  shows "(id_Platform (ms_Identity m) \<noteq> PlatformMacOS \<longrightarrow> (\<exists>b e. policy_storage p = Some (b, e) \<and>
      validateLinuxStorage m live b = Inr () \<and> validateResourceEnvelope (ms_ResourceCapacity m) e = Inr ())) \<and>
    (id_Platform (ms_Identity m) = PlatformMacOS \<longrightarrow>
      (\<exists>laneRuntime. validateMacStorage m live (policy_mac p) laneRuntime (po_Lane p) = Inr ()))"
proof (cases "po_Scope p")
  case ScopeHostManagement
  then obtain h where h: "po_HostManagement p = Some h" "po_LaneRuntime p = None" "po_Lane p = []"
      "validate_management p h m live = Inr ()"
    using assms by (auto simp: validateScope_def split: option.splits if_splits)
  then show ?thesis
    by (auto simp: validate_management_def policy_storage_def policy_mac_def res_bind_Inr split: if_splits)
next
  case ScopeLaneRuntime
  then obtain b where b: "po_HostManagement p = None" "po_LaneRuntime p = Some b"
      "validate_lane_runtime p b m live = Inr ()"
    using assms by (auto simp: validateScope_def split: option.splits if_splits)
  then show ?thesis
    by (auto simp: validate_lane_runtime_def policy_storage_def policy_mac_def res_bind_Inr split: if_splits)
next
  case (ScopeOther x)
  then show ?thesis using assms by (simp add: validateScope_def)
qed

section \<open>Properties\<close>

text \<open>C29. An accepted policy is bound to the measurement it names and to the unchanged host, at a time
  within both windows, and it fits: on Linux the bytes and inodes in use plus all that is promised leave
  30 percent of the device free and no resource is promised beyond its measured capacity; on a Mac the
  committed bytes leave 20 GiB and 15 percent of the volume free. The sums are those of integers.\<close>

theorem accepted_policy_fits:
  assumes "ValidatePolicy p m live now = Inr ()"
  shows "EvaluationDigest m = Inr (po_EvaluationDigest p) \<and> lo_Identity live = ms_Identity m \<and>
    po_NotBefore p \<le> now \<and> now < po_NotAfter p \<and> po_NotAfter p \<le> ms_ExpiresAt m \<and>
    \<bar>now - lo_ObservedAt live\<bar> \<le> Minute \<and>
    ((id_Platform (ms_Identity m) = PlatformLinux \<and>
      (\<exists>b e. policy_storage p = Some (b, e) \<and>
        100 * linux_promised live b \<le> 70 * uint (id_CapacityBytes (ms_Identity m)) \<and>
        100 * linux_promised_inodes live b \<le> 70 * uint (id_CapacityInodes (ms_Identity m)) \<and>
        (\<forall>f \<in> set resource_dimensions.
          uint (f (re_PRDFloor e)) + uint (f (re_DevHardMax e)) + uint (f (re_QASHardMax e)) +
          uint (f (re_ManagementHardMax e)) \<le> uint (f (ms_ResourceCapacity m))))) \<or>
     (id_Platform (ms_Identity m) = PlatformMacOS \<and>
      (\<exists>d. policy_mac p = Some d \<and>
        mac_promised live d + max (20 * 2 ^ 30) ((15 * uint (id_CapacityBytes (ms_Identity m)) + 99) div 100)
          \<le> uint (id_CapacityBytes (ms_Identity m)))))"
proof -
  note st = accepted_state [OF assms]
  have scope: "validateScope p m live = Inr ()" and platform: "validateMeasurement m = Inr ()" using st by simp_all
  show ?thesis
  proof (cases "id_Platform (ms_Identity m) = PlatformMacOS")
    case True
    then obtain laneRuntime where "validateMacStorage m live (policy_mac p) laneRuntime (po_Lane p) = Inr ()"
      using accepted_scope [OF scope] by auto
    from mac_storage_fits [OF this] show ?thesis using st True by simp
  next
    case False
    then obtain b e where "policy_storage p = Some (b, e)" "validateLinuxStorage m live b = Inr ()"
        "validateResourceEnvelope (ms_ResourceCapacity m) e = Inr ()"
      using accepted_scope [OF scope] by auto
    then show ?thesis
      using st False accepted_platform [OF platform] linux_storage_fits [of m live b] resource_envelope_fits by auto
  qed
qed

lemma devices_distinct:
  "linux_devices_from seen lastID ds = Inr () \<Longrightarrow> distinct (map ld_ID ds) \<and> ld_ID ` set ds \<inter> ld_ID ` set seen = {}"
proof (induction ds arbitrary: seen lastID)
  case Nil
  then show ?case by simp
next
  case (Cons d ds)
  then have "linux_devices_from (d # seen) (ld_ID d) ds = Inr ()" "ld_ID d \<notin> ld_ID ` set seen"
    by (auto split: if_splits)
  from Cons.IH [OF this(1)] this(2) show ?case by auto
qed

lemma measured_devices_distinct:
  assumes "validateMeasurement m = Inr ()"
  shows "distinct (map ld_ID (ms_LinuxDevices m))"
  using assms devices_distinct
  by (auto simp: validateMeasurement_def validateLinuxDevices_def is_ok_iff res_guard_Inr Let_def split: if_splits)

lemma selected_resources:
  assumes "control_selection p = Inr (deviceID, lane, unit_name, resources, e)"
  shows "resources = re_ManagementHardMax e \<or> resources = re_DevHardMax e \<or> resources = re_QASHardMax e"
    "\<exists>b. policy_storage p = Some (b, e)"
  using assms by (auto simp: control_selection_def policy_storage_def split: Scope.splits option.splits if_splits)

lemma uint_parts_le:
  fixes a b c d :: uint64
  assumes "uint a + uint b + uint c + uint d \<le> k"
  shows "uint b \<le> k" "uint c \<le> k" "uint d \<le> k"
  using assms uint_ge_0 [of a] uint_ge_0 [of b] uint_ge_0 [of c] uint_ge_0 [of d] by linarith+

text \<open>What the policy asks of a control plan: the device it names for input and output, and the hard
  maximum of its scope, for the management slice or for the slice of its lane.\<close>

definition plan_of_policy :: "Policy \<Rightarrow> LinuxControlPlan \<Rightarrow> bool" where
  "plan_of_policy p plan \<longleftrightarrow> cp_HostID plan = po_HostID p \<and> cp_Scope plan = po_Scope p \<and>
     (case (po_HostManagement p, po_LaneRuntime p) of
        (Some h, None) \<Rightarrow> po_Scope p = ScopeHostManagement \<and> ld_ID (cp_Device plan) = hm_IODeviceID h \<and>
          cp_Resources plan = re_ManagementHardMax (hm_Resources h) \<and> cp_Lane plan = [] \<and>
          cp_SliceUnit plan = ''remote-session-runner-management.slice''
      | (None, Some b) \<Rightarrow> po_Scope p = ScopeLaneRuntime \<and> ld_ID (cp_Device plan) = lr_IODeviceID b \<and>
          (po_Lane p = ''dev'' \<and> cp_Resources plan = re_DevHardMax (lr_Resources b) \<or>
           po_Lane p = ''qas'' \<and> cp_Resources plan = re_QASHardMax (lr_Resources b)) \<and>
          cp_Lane plan = po_Lane p \<and> cp_SliceUnit plan = ''remote-session-runner-'' @ po_Lane p @ ''.slice''
      | _ \<Rightarrow> False)"

lemma selection_of_policy:
  assumes "control_selection p = Inr (ld_ID (cp_Device plan), cp_Lane plan, cp_SliceUnit plan, cp_Resources plan, e)"
    and "cp_HostID plan = po_HostID p" "cp_Scope plan = po_Scope p"
  shows "plan_of_policy p plan"
  using assms by (auto simp: plan_of_policy_def control_selection_def split: Scope.splits option.splits if_splits)

text \<open>C30. A control plan is built from an accepted policy only: it is for the host and scope of the policy
  and the slice of its lane, with the hard maximum the policy gives that slice; it selects the one
  measured device whose identifier the policy names, mounted for capacity with active project quotas;
  its limits are set in every
  dimension, representable as a CPU quota and within the measured host, and the input and output
  promised to all lanes together is within the rates of that device.\<close>

theorem control_plan_sound:
  assumes "BuildLinuxControlPlan p m live now = Inr plan"
  shows "ValidatePolicy p m live now = Inr () \<and> plan_of_policy p plan \<and>
    cp_Device plan \<in> set (ms_LinuxDevices m) \<and>
    (\<forall>d \<in> set (ms_LinuxDevices m). ld_ID d = ld_ID (cp_Device plan) \<longrightarrow> d = cp_Device plan) \<and>
    ld_Mountpoint (cp_Device plan) = LinuxCapacityMountpoint \<and> ld_ProjectQuotaActive (cp_Device plan) \<and>
    uint (rv_CPUMilli (cp_Resources plan)) mod 10 = 0 \<and>
    (\<forall>f \<in> set resource_dimensions.
      0 < uint (f (cp_Resources plan)) \<and> uint (f (cp_Resources plan)) \<le> uint (f (ms_ResourceCapacity m))) \<and>
    (\<exists>b e. policy_storage p = Some (b, e) \<and>
      total_of (envelope_values rv_IOReadBytesPerSecond e) \<le> uint (ld_IOReadBytesPerSecondCapacity (cp_Device plan)) \<and>
      total_of (envelope_values rv_IOWriteBytesPerSecond e) \<le> uint (ld_IOWriteBytesPerSecondCapacity (cp_Device plan)) \<and>
      total_of (envelope_values rv_IOReadIOPSMax e) \<le> uint (ld_IOReadIOPSCapacity (cp_Device plan)) \<and>
      total_of (envelope_values rv_IOWriteIOPSMax e) \<le> uint (ld_IOWriteIOPSCapacity (cp_Device plan)))"
proof -
  obtain deviceID lane unit_name resources e d where valid: "ValidatePolicy p m live now = Inr ()"
    and linux: "id_Platform (ms_Identity m) = PlatformLinux"
    and sel: "control_selection p = Inr (deviceID, lane, unit_name, resources, e)"
    and res: "resourceVectorComplete resources" "rv_CPUMilli resources mod 10 = 0"
    and d: "find (\<lambda>d. ld_ID d = deviceID) (ms_LinuxDevices m) = Some d"
    and dev: "ld_Mountpoint d = LinuxCapacityMountpoint" "ld_ProjectQuotaActive d"
    and io: "validateLinuxDeviceIOEnvelope d e = Inr ()"
    and plan: "cp_Device plan = d" "cp_Resources plan = resources"
    and slice: "cp_Lane plan = lane" "cp_SliceUnit plan = unit_name" "cp_HostID plan = po_HostID p" "cp_Scope plan = po_Scope p"
    using assms by (auto simp: BuildLinuxControlPlan_def res_bind_Inr split: if_splits option.splits)
  note st = accepted_state [OF valid]
  have distinct: "distinct (map ld_ID (ms_LinuxDevices m))" using st by (simp add: measured_devices_distinct)
  have mem: "d \<in> set (ms_LinuxDevices m)" and named: "ld_ID d = deviceID" using find_Some_iff_filter [OF d] by simp_all
  have "plan_of_policy p plan" by (rule selection_of_policy [of _ _ e]) (use sel plan slice named in simp_all)
  moreover
  have "\<forall>f \<in> set resource_dimensions. uint (f resources) \<le> uint (f (ms_ResourceCapacity m))"
  proof -
    obtain b' e' where "policy_storage p = Some (b', e')" "validateResourceEnvelope (ms_ResourceCapacity m) e' = Inr ()"
      using accepted_scope [of p m live] st linux by auto
    then have "validateResourceEnvelope (ms_ResourceCapacity m) e = Inr ()" using selected_resources(2) [OF sel] by auto
    then show ?thesis
      using selected_resources(1) [OF sel] unfolding resource_envelope_fits by (auto dest!: bspec dest: uint_parts_le)
  qed
  moreover have "\<forall>f \<in> set resource_dimensions. 0 < uint (f resources)"
    using res(1) by (simp add: resource_dimensions_def resourceVectorComplete_def word_less_def)
  moreover have "uint (rv_CPUMilli resources) mod 10 = 0"
    using arg_cong [OF res(2), of uint] by (simp add: uint_mod_distrib)
  moreover have "\<forall>x \<in> set (ms_LinuxDevices m). ld_ID x = ld_ID d \<longrightarrow> x = d"
    using distinct mem by (auto dest: distinct_key_eq)
  ultimately show ?thesis
    using valid mem dev io selected_resources(2) [OF sel]
    by (auto simp: plan validateLinuxDeviceIOEnvelope_def check_dimensions_Inr simp del: check_dimensions.simps)
qed

section \<open>Witnesses\<close>

definition sample_resources :: "uint64 \<Rightarrow> ResourceVector" where
  "sample_resources n = \<lparr>rv_CPUMilli = n, rv_MemoryBytes = n, rv_Tasks = n, rv_IOReadBytesPerSecond = n,
     rv_IOWriteBytesPerSecond = n, rv_IOReadIOPSMax = n, rv_IOWriteIOPSMax = n\<rparr>"

definition sample_device :: LinuxDevice where
  "sample_device = \<lparr>ld_ID = ''sda1'', ld_UUID = ''01234567-89ab-cdef-0123-456789abcdef'', ld_MajorMinor = ''8:1'',
     ld_Filesystem = ''ext4'', ld_Mountpoint = LinuxCapacityMountpoint, ld_CapacityBytes = 1000,
     ld_CapacityInodes = 1000, ld_UsedBytes = 100, ld_UsedInodes = 100, ld_IOReadBytesPerSecondCapacity = 1000,
     ld_IOWriteBytesPerSecondCapacity = 1000, ld_IOReadIOPSCapacity = 1000, ld_IOWriteIOPSCapacity = 1000,
     ld_ProjectQuotaFeature = True, ld_ProjectQuotaActive = True\<rparr>"

definition sample_host_identity :: HostIdentity where
  "sample_host_identity = \<lparr>id_HostID = ''linux-host'', id_Platform = PlatformLinux, id_DeviceID = ''sda1'',
     id_Filesystem = ''ext4'', id_Mountpoint = LinuxCapacityMountpoint, id_VolumeUUID = [], id_CapacityBytes = 1000,
     id_CapacityInodes = 1000, id_BackupDeviceID = [], id_BackupFilesystem = [], id_BackupMountpoint = [],
     id_BackupCapacityBytes = 0\<rparr>"

definition sample_usage :: Usage where
  "sample_usage = \<lparr>us_UsedBytes = 100, us_UsedInodes = 100, us_NonPurgeableBytes = 0, us_SnapshotBytes = 0,
     us_GoCacheBytes = 10, us_ReleaseCacheBytes = 10, us_BackupBytes = 10\<rparr>"

definition sample_measurement :: Measurement where
  "sample_measurement = \<lparr>ms_ID = ''m1'', ms_Identity = sample_host_identity, ms_ObservedAt = 1, ms_ExpiresAt = 100,
     ms_ResourceCapacity = sample_resources 1000, ms_GoCachePaths = [''/a'', ''/b''], ms_LinuxDevices = [sample_device],
     ms_StorageVolumes = [], ms_Usage = sample_usage\<rparr>"

lemma sample_host_identity_ok: "capacity_validateIdentity sample_host_identity = Inr ()"
  by code_simp

lemma sample_device_ok: "linux_device_ok [] sample_device"
  by code_simp

lemma sample_paths_ok: "validateCachePaths [''/a'', ''/b''] = Inr ()"
  by code_simp

lemma sample_measurement_ok: "validateMeasurement sample_measurement = Inr ()"
  using sample_host_identity_ok sample_device_ok sample_paths_ok
  by (simp add: validateMeasurement_def sample_measurement_def validateLinuxDevices_def validateStorageVolumes_def
      policyIDPattern_def match_token_def is_alnum_def is_id_char_def is_digit_def zero_time_def
      ResourceVector_zero_def zero_resources_def sample_resources_def)
     (simp add: sample_host_identity_def)

lemma hex_text: "match_digest (''sha256:'' @ hex_EncodeToString (sha256_Sum256 x))"
proof -
  have "length (hex_EncodeToString bs) = 2 * length bs" for bs
    by (induction bs) (simp_all add: hex_EncodeToString_def)
  moreover have "is_lower_hex (hex_digit n)" if "n < 16" for n
    using that by (simp add: hex_digit_def is_lower_hex_def is_digit_def)
  then have "list_all is_lower_hex (hex_EncodeToString bs)" for bs
    using nat_of_char_less_256 by (auto simp: hex_EncodeToString_def list_all_iff less_mult_imp_div_less)
  ultimately show ?thesis by (simp add: match_digest_def sha256_Size_def)
qed

definition sample_budget_lane :: LaneRuntimeBudget where
  "sample_budget_lane = \<lparr>lr_PRDGrowthBytes = 100, lr_DevHardBytes = 100, lr_QASHardBytes = 100,
     lr_ManagementGrowthBytes = 100, lr_PRDGrowthInodes = 100, lr_DevHardInodes = 100, lr_QASHardInodes = 100,
     lr_ManagementGrowthInodes = 100, lr_GoCachePaths = [''/a'', ''/b''], lr_GoCacheBudgetBytes = 20,
     lr_ReleaseCacheBudgetBytes = 20, lr_BackupBudgetBytes = 20, lr_BackupOnDataDevice = True,
     lr_BackupLowWaterBytes = 0, lr_IODeviceID = ''sda1'',
     lr_Resources = \<lparr>re_PRDFloor = sample_resources 100, re_DevHardMax = sample_resources 200,
       re_QASHardMax = sample_resources 100, re_ManagementHardMax = sample_resources 100\<rparr>,
     lr_MacData = None\<rparr>"

definition sample_policy :: Policy where
  "sample_policy = \<lparr>po_Version = 1, po_HostID = ''linux-host'', po_Scope = ScopeLaneRuntime, po_Lane = ''dev'',
     po_MeasurementID = ''m1'',
     po_EvaluationDigest = (case EvaluationDigest sample_measurement of Inl _ \<Rightarrow> [] | Inr d \<Rightarrow> d),
     po_NotBefore = 10, po_NotAfter = 90, po_Compute = ComputeLinuxCgroupV2, po_HostManagement = None,
     po_LaneRuntime = Some sample_budget_lane\<rparr>"

definition sample_live :: LiveObservation where
  "sample_live = \<lparr>lo_Identity = sample_host_identity, lo_ObservedAt = 50, lo_ResourceCapacity = sample_resources 1000,
     lo_GoCachePaths = [''/a'', ''/b''], lo_LinuxDevices = [sample_device], lo_StorageVolumes = [],
     lo_Usage = sample_usage\<rparr>"

lemma sample_year: "year_of_days 0 = 1"
  by (simp add: year_of_days_def find_year.simps days_before_year_def)

lemma sample_digest_exact:
  "EvaluationDigest sample_measurement = Inr (po_EvaluationDigest sample_policy) \<and>
   match_digest (po_EvaluationDigest sample_policy)"
proof -
  have "\<exists>x. json_measurement sample_measurement = Some x"
    by (simp add: json_measurement_def json_time_def sample_measurement_def Second_def sample_year)
  then show ?thesis using hex_text by (auto simp: EvaluationDigest_def sample_measurement_ok sample_policy_def)
qed

lemma sample_lane_ok: "validate_lane_runtime sample_policy sample_budget_lane sample_measurement sample_live = Inr ()"
proof -
  have "validateResourceEnvelope (ms_ResourceCapacity sample_measurement) (lr_Resources sample_budget_lane) = Inr ()"
    by (simp add: resource_envelope_fits resource_dimensions_def sample_measurement_def sample_budget_lane_def sample_resources_def)
  moreover have "validateLinuxStorage sample_measurement sample_live (linuxStorageFromLane sample_budget_lane) = Inr ()"
    by code_simp
  ultimately show ?thesis
    by (simp add: validate_lane_runtime_def sample_policy_def)
       (simp add: sample_budget_lane_def sample_measurement_def sample_usage_def sample_host_identity_def linuxIODeviceBound_def
        sample_device_def resourceEnvelopeComplete_def resourceVectorComplete_def sample_resources_def)
qed

lemma sample_policy_accepted: "ValidatePolicy sample_policy sample_measurement sample_live 50 = Inr ()"
proof -
  have "validateScope sample_policy sample_measurement sample_live = Inr ()"
    using sample_lane_ok by (simp add: validateScope_def) (simp add: sample_policy_def)
  moreover have "\<not> policy_stale sample_policy sample_measurement sample_live 50"
    by (simp add: policy_stale_def sample_policy_def sample_measurement_def sample_live_def zero_time_def
        maxLiveObservationAge_def Minute_def Second_def)
  moreover have "hostIDPattern ''linux-host''" by (simp add: hostIDPattern_def)
  moreover have "policyIDPattern ''m1''"
    by (simp add: policyIDPattern_def match_token_def is_alnum_def is_id_char_def is_digit_def)
  ultimately show ?thesis
    using sample_measurement_ok sample_host_identity_ok sample_paths_ok sample_digest_exact
    by (simp add: ValidatePolicy_def sha256DigestPattern_def)
       (simp add: sample_policy_def sample_measurement_def sample_live_def sample_host_identity_def)
qed

theorem accepted_policy_fits_witness:
  "ValidatePolicy sample_policy sample_measurement sample_live 50 = Inr () \<and>
   (\<exists>b e. policy_storage sample_policy = Some (b, e) \<and> 100 * linux_promised sample_live b \<le> 70 * 1000)"
  using accepted_policy_fits [OF sample_policy_accepted] sample_policy_accepted
  by (simp add: sample_measurement_def sample_host_identity_def) blast

theorem control_plan_sound_witness:
  "\<exists>plan. BuildLinuxControlPlan sample_policy sample_measurement sample_live 50 = Inr plan \<and>
     cp_SliceUnit plan = ''remote-session-runner-dev.slice'' \<and> cp_Device plan = sample_device \<and>
     uint (rv_CPUMilli (cp_Resources plan)) mod 10 = 0"
proof -
  have io: "validateLinuxDeviceIOEnvelope sample_device (lr_Resources sample_budget_lane) = Inr ()"
    by (simp add: validateLinuxDeviceIOEnvelope_def check_dimensions_Inr envelope_values_def sample_device_def
        sample_budget_lane_def sample_resources_def del: check_dimensions.simps)
  define plan where "plan = \<lparr>cp_HostID = ''linux-host'', cp_Scope = ScopeLaneRuntime, cp_Lane = ''dev'',
    cp_SliceUnit = ''remote-session-runner-dev.slice'', cp_Resources = sample_resources 200, cp_Device = sample_device\<rparr>"
  have sel: "control_selection sample_policy = Inr (''sda1'', ''dev'', ''remote-session-runner-dev.slice'',
      sample_resources 200, lr_Resources sample_budget_lane)"
    by (simp add: control_selection_def sample_policy_def) (simp add: sample_budget_lane_def)
  have "BuildLinuxControlPlan sample_policy sample_measurement sample_live 50 = Inr plan"
    using io by (simp add: BuildLinuxControlPlan_def sample_policy_accepted sel)
      (simp add: sample_measurement_def sample_host_identity_def sample_device_def plan_def sample_policy_def
        resourceVectorComplete_def sample_resources_def)
  note run = this
  show ?thesis using control_plan_sound [OF run] run by (auto simp: plan_def)
qed

end
