(* ===== verification/Shutdown_Gate.thy ===== *)
theory Shutdown_Gate
  imports Prelude
begin

text \<open>
  The admission gate and the shutdown coordinator (internal/lifecycle/shutdown.go). The gate is a
  machine of small steps, one per critical section of its mutex, so that calls of Enter, release, Stop
  and Wait interleave freely; a channel is its number and is open until it is closed, and closing a
  closed channel is the panic of the Go runtime. (A nil gate, which refuses every call, is not
  modelled.) The coordinator is one pass over its stages, with the
  outcome of each hook as an argument.
\<close>

section \<open>The gate\<close>

record Gate =
  g_stopped :: bool
  g_active :: int
  g_idle :: nat
  g_made :: nat
  g_closed :: "nat list"

definition NewGate :: Gate where
  "NewGate = \<lparr>g_stopped = False, g_active = 0, g_idle = 0, g_made = 1, g_closed = [0]\<rparr>"

definition Enter :: "Gate \<Rightarrow> Gate result" where
  "Enter g =
     (if g_stopped g then Inl ErrAdmissionClosed
      else let g1 = (if g_active g = 0 then g\<lparr>g_idle := g_made g, g_made := g_made g + 1\<rparr> else g)
           in Inr (g1\<lparr>g_active := g_active g1 + 1\<rparr>))"

text \<open>The body that the release function runs once; \<open>Inl\<close> is the panic of a second close.\<close>

definition release_body :: "Gate \<Rightarrow> Gate result" where
  "release_body g =
     (let g1 = g\<lparr>g_active := g_active g - 1\<rparr> in
      if g_active g1 = 0 then
        (if g_idle g1 \<in> set (g_closed g1) then Inl (PlainError ''close of closed channel'')
         else Inr (g1\<lparr>g_closed := g_idle g1 # g_closed g1\<rparr>))
      else Inr g1)"

definition Stop :: "Gate \<Rightarrow> Gate" where
  "Stop g = (if g_stopped g then g else g\<lparr>g_stopped := True\<rparr>)"

text \<open>
  The gate with the calls around it: whether each token has been released, the channels that calls of
  Wait are blocked on, and how many of them returned nil. A call of Wait first stops the gate
  (\<open>gs_stopping\<close> counts the calls that have not read the channel yet), then reads the channel, then
  blocks on it.
\<close>

record gate_system =
  gs_gate :: Gate
  gs_released :: "bool list"
  gs_stopping :: nat
  gs_blocked :: "nat list"
  gs_drained :: nat
  gs_panicked :: bool

definition new_gate_system :: gate_system where
  "new_gate_system = \<lparr>gs_gate = NewGate, gs_released = [], gs_stopping = 0, gs_blocked = [], gs_drained = 0,
     gs_panicked = False\<rparr>"

inductive gate_step :: "gate_system \<Rightarrow> gate_system \<Rightarrow> bool" where
  enter: "Enter (gs_gate s) = Inr g \<Longrightarrow>
    gate_step s (s\<lparr>gs_gate := g, gs_released := gs_released s @ [False]\<rparr>)"
| refused: "Enter (gs_gate s) = Inl e \<Longrightarrow> gate_step s s"
| release: "i < length (gs_released s) \<Longrightarrow> \<not> gs_released s ! i \<Longrightarrow> release_body (gs_gate s) = Inr g \<Longrightarrow>
    gate_step s (s\<lparr>gs_gate := g, gs_released := (gs_released s)[i := True]\<rparr>)"
| release_panics: "i < length (gs_released s) \<Longrightarrow> \<not> gs_released s ! i \<Longrightarrow> release_body (gs_gate s) = Inl e \<Longrightarrow>
    gate_step s (s\<lparr>gs_panicked := True\<rparr>)"
| release_again: "i < length (gs_released s) \<Longrightarrow> gs_released s ! i \<Longrightarrow> gate_step s s"
| stop: "gate_step s (s\<lparr>gs_gate := Stop (gs_gate s)\<rparr>)"
| wait_stops: "gate_step s (s\<lparr>gs_gate := Stop (gs_gate s), gs_stopping := gs_stopping s + 1\<rparr>)"
| wait_reads: "gs_stopping s = Suc n \<Longrightarrow>
    gate_step s (s\<lparr>gs_stopping := n, gs_blocked := g_idle (gs_gate s) # gs_blocked s\<rparr>)"
| wait_returns: "c \<in> set (gs_blocked s) \<Longrightarrow> c \<in> set (g_closed (gs_gate s)) \<Longrightarrow>
    gate_step s (s\<lparr>gs_blocked := remove1 c (gs_blocked s), gs_drained := gs_drained s + 1\<rparr>)"
| wait_expires: "c \<in> set (gs_blocked s) \<Longrightarrow> gate_step s (s\<lparr>gs_blocked := remove1 c (gs_blocked s)\<rparr>)"

inductive_cases gate_stepE: "gate_step s t"

definition unreleased :: "gate_system \<Rightarrow> nat" where
  "unreleased s = length (filter (\<lambda>b. \<not> b) (gs_released s))"

definition gate_ok :: "gate_system \<Rightarrow> bool" where
  "gate_ok s \<longleftrightarrow> \<not> gs_panicked s \<and> g_active (gs_gate s) = int (unreleased s) \<and>
     g_idle (gs_gate s) < g_made (gs_gate s) \<and>
     (\<forall>c \<in> set (g_closed (gs_gate s)). c < g_made (gs_gate s)) \<and>
     (g_idle (gs_gate s) \<in> set (g_closed (gs_gate s)) \<longleftrightarrow> unreleased s = 0) \<and>
     (gs_stopping s \<noteq> 0 \<or> gs_blocked s \<noteq> [] \<longrightarrow> g_stopped (gs_gate s)) \<and>
     set (gs_blocked s) \<subseteq> {g_idle (gs_gate s)} \<and>
     (gs_drained s \<noteq> 0 \<longrightarrow> g_stopped (gs_gate s) \<and> unreleased s = 0)"

lemma new_gate_ok: "gate_ok new_gate_system"
  by (simp add: gate_ok_def new_gate_system_def NewGate_def unreleased_def)

lemma filter_release:
  "i < length bs \<Longrightarrow> \<not> bs ! i \<Longrightarrow>
   Suc (length (filter (\<lambda>b. \<not> b) (bs[i := True]))) = length (filter (\<lambda>b. \<not> b) bs)"
proof (induction bs arbitrary: i)
  case Nil
  then show ?case by simp
next
  case (Cons b bs)
  then show ?case by (cases i) auto
qed

lemma enter_ok: "gate_ok s \<Longrightarrow> Enter (gs_gate s) = Inr g \<Longrightarrow>
   gate_ok (s\<lparr>gs_gate := g, gs_released := gs_released s @ [False]\<rparr>)"
  by (auto simp: gate_ok_def Enter_def unreleased_def Let_def less_Suc_eq split: if_splits)

lemma release_ok:
  assumes "gate_ok s" "i < length (gs_released s)" "\<not> gs_released s ! i"
  shows "\<exists>g. release_body (gs_gate s) = Inr g \<and>
    gate_ok (s\<lparr>gs_gate := g, gs_released := (gs_released s)[i := True]\<rparr>)"
proof -
  have n: "unreleased s = Suc (unreleased (s\<lparr>gs_released := (gs_released s)[i := True]\<rparr>))"
    using filter_release [OF assms(2,3)] by (simp add: unreleased_def)
  then have "gs_drained s = 0" "g_idle (gs_gate s) \<notin> set (g_closed (gs_gate s))"
    using assms(1) by (auto simp: gate_ok_def)
  then show ?thesis
    using assms(1) n by (auto simp: gate_ok_def release_body_def Let_def unreleased_def)
qed

lemma stop_ok: "gate_ok s \<Longrightarrow> gate_ok (s\<lparr>gs_gate := Stop (gs_gate s)\<rparr>)"
  by (auto simp: gate_ok_def Stop_def unreleased_def)

lemma waiters_ok:
  assumes "gate_ok s"
  shows "set (remove1 c (gs_blocked s)) \<subseteq> {g_idle (gs_gate s)}"
  using assms by (intro order_trans [OF set_remove1_subset]) (simp add: gate_ok_def)

lemma gate_step_ok:
  assumes "gate_step s t" "gate_ok s"
  shows "gate_ok t"
  using assms
proof (induction rule: gate_step.induct)
  case (release i s g)
  then show ?case using release_ok [of s i] by simp
next
  case (release_panics i s e)
  then show ?case using release_ok [of s i] by simp
next
  case (wait_stops s)
  then show ?case by (auto simp: gate_ok_def Stop_def unreleased_def)
next
  case (wait_reads s n)
  then show ?case by (auto simp: gate_ok_def unreleased_def)
next
  case (wait_returns c s)
  have idle: "c = g_idle (gs_gate s)" "g_stopped (gs_gate s)" using wait_returns by (auto simp: gate_ok_def)
  then have "unreleased s = 0" using wait_returns by (simp add: gate_ok_def)
  moreover have "unreleased (s\<lparr>gs_blocked := remove1 c (gs_blocked s), gs_drained := gs_drained s + 1\<rparr>) = unreleased s"
    by (simp add: unreleased_def)
  ultimately show ?case
    using wait_returns.prems waiters_ok [OF wait_returns.prems, of c] idle(2) unfolding gate_ok_def by simp
next
  case (wait_expires c s)
  then show ?case using waiters_ok [of s c] by (auto simp: gate_ok_def unreleased_def)
qed (simp_all add: enter_ok stop_ok)

lemma gate_reach_ok: "gate_step\<^sup>*\<^sup>* new_gate_system s \<Longrightarrow> gate_ok s"
  by (induction rule: rtranclp_induct) (simp_all add: new_gate_ok gate_step_ok)

lemma gate_stop_permanent:
  assumes "gate_step\<^sup>*\<^sup>* s t" "g_stopped (gs_gate s)"
  shows "g_stopped (gs_gate t) \<and> length (gs_released t) = length (gs_released s)"
  using assms
proof (induction rule: rtranclp_induct)
  case base
  then show ?case by simp
next
  case (step t u)
  then have "g_stopped (gs_gate t)" "length (gs_released t) = length (gs_released s)" by simp_all
  with step.hyps(2) show ?case
    by (cases rule: gate_step.cases) (auto simp: Enter_def release_body_def Stop_def Let_def split: if_splits)
qed

text \<open>C35. However the calls of the gate interleave, no release closes a channel twice, the active count
  is the number of admitted pieces of work that are not released, a call of Wait returns nil only when
  all of them are released, can do so as soon as they are, and once the gate is stopped no further
  work is admitted.\<close>

theorem gate_drains:
  assumes "gate_step\<^sup>*\<^sup>* new_gate_system s"
  shows "\<not> gs_panicked s \<and> g_active (gs_gate s) = int (unreleased s) \<and>
    (gs_drained s \<noteq> 0 \<longrightarrow> g_stopped (gs_gate s) \<and> unreleased s = 0) \<and>
    (\<forall>c \<in> set (gs_blocked s). c \<in> set (g_closed (gs_gate s)) \<longleftrightarrow> unreleased s = 0) \<and>
    (g_stopped (gs_gate s) \<longrightarrow> Enter (gs_gate s) = Inl ErrAdmissionClosed \<and>
      (\<forall>t. gate_step\<^sup>*\<^sup>* s t \<longrightarrow> g_stopped (gs_gate t) \<and> length (gs_released t) = length (gs_released s)))"
proof -
  note ok = gate_reach_ok [OF assms, unfolded gate_ok_def]
  have "c \<in> set (g_closed (gs_gate s)) \<longleftrightarrow> unreleased s = 0" if "c \<in> set (gs_blocked s)" for c
    using ok that by (metis singletonD subsetD)
  moreover have "\<forall>t. gate_step\<^sup>*\<^sup>* s t \<longrightarrow> g_stopped (gs_gate t) \<and> length (gs_released t) = length (gs_released s)"
    if "g_stopped (gs_gate s)"
    using gate_stop_permanent that by blast
  moreover have "Enter (gs_gate s) = Inl ErrAdmissionClosed" if "g_stopped (gs_gate s)"
    using that by (simp add: Enter_def)
  ultimately show ?thesis using ok by blast
qed

definition sample_gate_run :: "gate_system list" where
  "sample_gate_run =
     (let s1 = new_gate_system\<lparr>gs_gate := \<lparr>g_stopped = False, g_active = 1, g_idle = 1, g_made = 2, g_closed = [0]\<rparr>,
             gs_released := [False]\<rparr>;
          s2 = s1\<lparr>gs_gate := Stop (gs_gate s1), gs_stopping := 1\<rparr>;
          s3 = s2\<lparr>gs_stopping := 0, gs_blocked := [1]\<rparr>;
          s4 = s3\<lparr>gs_gate := \<lparr>g_stopped = True, g_active = 0, g_idle = 1, g_made = 2, g_closed = [1, 0]\<rparr>,
             gs_released := [True]\<rparr>;
          s5 = s4\<lparr>gs_blocked := [], gs_drained := 1\<rparr>
      in [s1, s2, s3, s4, s5])"

theorem gate_drains_witness:
  "gate_step\<^sup>*\<^sup>* new_gate_system (last sample_gate_run) \<and> gs_drained (last sample_gate_run) = 1 \<and>
   Enter (gs_gate (last sample_gate_run)) = Inl ErrAdmissionClosed"
proof -
  let ?s = "\<lambda>i. sample_gate_run ! i"
  note defs = sample_gate_run_def new_gate_system_def NewGate_def Stop_def Let_def
  have "gate_step new_gate_system (?s 0)"
    using gate_step.enter [of new_gate_system "gs_gate (?s 0)"] by (simp add: defs Enter_def)
  moreover have "gate_step (?s 0) (?s 1)" using gate_step.wait_stops [of "?s 0"] by (simp add: defs)
  moreover have "gate_step (?s 1) (?s 2)" using gate_step.wait_reads [of "?s 1" 0] by (simp add: defs)
  moreover have "gate_step (?s 2) (?s 3)"
    using gate_step.release [of 0 "?s 2" "gs_gate (?s 3)"] by (simp add: defs release_body_def)
  moreover have "gate_step (?s 3) (?s 4)" using gate_step.wait_returns [of 1 "?s 3"] by (simp add: defs)
  ultimately have reach: "gate_step\<^sup>*\<^sup>* new_gate_system (?s 4)"
    by (meson converse_rtranclp_into_rtranclp rtranclp.rtrancl_refl)
  moreover have "?s 4 = last sample_gate_run" "g_stopped (gs_gate (?s 4))" "gs_drained (?s 4) = 1"
    by (simp_all add: defs)
  ultimately show ?thesis using gate_drains [OF reach] by simp
qed

section \<open>The coordinator\<close>

datatype hook = StopAccepting | StopDispatch | Drain | CancelRemaining | Flush | CloseStreams

text \<open>How a stage ends: its hook returns first, with nil or an error, or the timeout is first; \<open>None\<close>
  when the context of the stage is done first, which only the context of the caller can be.\<close>

datatype stage_end = HookReturns "go_error option" | StageTimesOut

definition runStage :: "stage_end option \<Rightarrow> go_error option" where
  "runStage e = (case e of
     None \<Rightarrow> Some ContextDone
   | Some (HookReturns r) \<Rightarrow> r
   | Some StageTimesOut \<Rightarrow> Some ErrShutdownStageTimeout)"

text \<open>The hooks in the order they are called, and the errors that are joined; none is nil.\<close>

definition coordinator_run ::
  "stage_end option \<Rightarrow> stage_end \<Rightarrow> stage_end \<Rightarrow> stage_end \<Rightarrow> hook list \<times> go_error list" where
  "coordinator_run drain cancel flush close =
     (let (cancelCalls, result) =
            (case runStage drain of
               None \<Rightarrow> ([], [])
             | Some drainErr \<Rightarrow>
                 ([CancelRemaining],
                  case runStage (Some cancel) of
                    Some cancelErr \<Rightarrow> [drainErr, cancelErr]
                  | None \<Rightarrow> if \<not> errors_Is drainErr ErrShutdownStageTimeout \<and> \<not> errors_Is drainErr ContextDone
                            then [drainErr] else []));
          flushErrs = (case runStage (Some flush) of None \<Rightarrow> [] | Some e \<Rightarrow> [e]);
          closeErrs = (case runStage (Some close) of None \<Rightarrow> [] | Some e \<Rightarrow> [e])
      in ([StopAccepting, StopDispatch, Drain] @ cancelCalls @ [Flush, CloseStreams], result @ flushErrs @ closeErrs))"

text \<open>The pass stops admission first, cancels what is left exactly when the drain failed, and always
  flushes before it closes the streams; it reports success exactly when flush and close succeeded and
  the work was drained, or was cancelled after a drain that only ran out of time.\<close>

lemma coordinator_run_exact:
  "fst (coordinator_run drain cancel flush close) = [StopAccepting, StopDispatch, Drain] @
     (if runStage drain = None then [] else [CancelRemaining]) @ [Flush, CloseStreams] \<and>
   (snd (coordinator_run drain cancel flush close) = [] \<longleftrightarrow>
     flush = HookReturns None \<and> close = HookReturns None \<and>
     (case runStage drain of None \<Rightarrow> True
      | Some d \<Rightarrow> cancel = HookReturns None \<and> (errors_Is d ErrShutdownStageTimeout \<or> errors_Is d ContextDone)))"
proof -
  have "runStage (Some e) = None \<longleftrightarrow> e = HookReturns None" for e
    by (cases e) (simp_all add: runStage_def)
  note nil = this [symmetric]
  show ?thesis unfolding nil by (auto simp: coordinator_run_def Let_def split: option.splits)
qed

end
