(* ===== verification/Spec2Isabelle.thy ===== *)
theory Spec2Isabelle
  imports Domain_Policy Store_Audit Session_Lifecycle Subscriber_Stream Command_Ledger
    Canonical_Request Job_Properties Settlement_Properties Lane_Bytes Capacity_Fit
    Shutdown_Gate
begin

text \<open>
  \<^bold>\<open>The program.\<close> The Remote Session Runner is a Go service that runs scripts in sessions on a
  host. Its authority is an SQLite database. A controller asks for a session, submits commands to it
  or a one-off job that stands for both, and follows the events of a command. A request carries an
  idempotency key, so that it can be repeated after a lost answer. A scheduler starts the oldest
  command that may run, one at a time per session and within a number of host slots, and publishes the
  events of its output and its end. After a crash the capacity of lost runtimes is given back by
  recovery procedures, and a garbage collection removes what has passed its retention. This
  development verifies that authority: the domain package, the lane admission state machine, the store,
  the capacity policies that say what a host promises to its lanes, and the gate that drains it on
  shutdown. The other packages carry requests to it and run processes for it.

  \<^bold>\<open>Conventions.\<close> A Go string is a list of bytes (\<open>string\<close>, one \<open>char\<close> per byte). A
  \<open>time.Time\<close> in UTC is the number of nanoseconds since the year 1, as an \<open>int\<close>, and its
  stored form is the RFC 3339 text of \<open>formatStoredTime\<close>. String enumerations are datatypes with
  one constructor per declared constant and one for any other text. A struct is a record whose fields
  have the Go names behind a short prefix. Errors are values: a result is \<open>Inl\<close> the error or
  \<open>Inr\<close> the value, and an operation of the store is a function from a store to a result and a
  store. Every operation takes the reading of the clock, \<open>now\<close>, and a \<open>fault\<close>, which
  says whether and where the database driver fails; the theorems hold for each value of both. A table
  is the list of its rows in insertion order; an insert or update that breaks a CHECK, key or
  foreign-key constraint of the migrations fails, a transaction that fails leaves the database as it
  was (the type of a transaction body has no state to return with an error, as SQLite rolls back), and a
  join is a lookup by the key it joins on. Each store method takes the writer lock, so a
  method is one step and concurrency is the order of the steps.

  \<^bold>\<open>Theories and sources\<close> (paths below src/src/internal).
  \<^item> \<open>Go_Errors\<close>, \<open>Prelude\<close>, \<open>Go_Text\<close>, \<open>Stored_Time\<close>, \<open>Sql_Table\<close>, \<open>Sha256\<close>: the error
    values, results and transactions with their proof rules, Go's string functions, times and their
    text with the round trip, tables and statements, and the digest of crypto/sha256. \<open>Time_Order\<close>
    says how far the order of stored times as text agrees with the order of time.
  \<^item> \<open>Domain_Identity\<close> (domain/identity.go, limits.go), \<open>Domain_State\<close> (domain/state.go),
    \<open>Domain_Policy\<close> (domain/policy.go), \<open>Domain_Canonical\<close> with \<open>Json_Text\<close>,
    \<open>Json_Numbers\<close>, \<open>Json_Encode\<close>, \<open>Canonical_Value\<close> and \<open>Canonical_Request\<close>
    (domain/canonical.go with the parts of encoding/json it calls): identifiers, the session and command
    machines, what a policy admits, and canonical requests and their hashes.
  \<^item> \<open>Lane_Admission\<close> (laneadmission/state.go) and \<open>Store_Admission\<close>
    (store/lane_admission.go): which candidate a host admits work for, and its durable row.
  \<^item> \<open>Audit_Record\<close> (audit/audit.go) and \<open>Store_Audit\<close> (store/audit.go).
  \<^item> \<open>Authority_Schema\<close>: the tables of store/migrations with their constraints, the store
    record and its transactions (store/sessions.go, \<open>withImmediateTransaction\<close>).
  \<^item> \<open>Store_Idempotency\<close>, \<open>Store_Sessions\<close>, \<open>Store_Commands\<close>, \<open>Store_Subscribers\<close>,
    \<open>Store_Scheduler\<close>, \<open>Store_Restart_Plan\<close>, \<open>Store_Recovery\<close>, \<open>Store_Jobs\<close>,
    \<open>Store_Settlement\<close>, \<open>Store_Gc\<close>, \<open>Store_Teardown_Recovery\<close>, \<open>Store_Recovery_Sets\<close>: the
    files of store/ of these names (\<open>Store_Recovery\<close> is lost_recovery.go, \<open>Store_Restart_Plan\<close>
    controlled_restart_plan.go, \<open>Store_Settlement\<close> stalled_job_recovery.go, \<open>Store_Gc\<close> gc.go,
    \<open>Store_Teardown_Recovery\<close> completed_teardown_recovery.go and lost_recovery_metadata.go,
    \<open>Store_Recovery_Sets\<close> commandless_lost_recovery.go and mixed_runtime_recovery.go), one definition
    per method, and the closure of each transaction as its \<open>_body\<close>. \<open>Retained_Tables\<close> has the
    tables that only garbage collection and the last two use.
  \<^item> \<open>Go_Words\<close> (Go's uint64 and the patterns of the capacity code), \<open>Lane_Capacity\<close>
    (store/lane_capacity.go with its tables) and its lemmas in \<open>Lane_Bytes\<close>: the byte ceilings of
    the lanes and the reservations charged against them.
  \<^item> \<open>Capacity_Measurement\<close>, \<open>Capacity_Policy\<close> (lanecapacity/policy.go, linux_controls.go) and
    their lemmas in \<open>Capacity_Fit\<close>: what a host measures with its digest over the JSON text, which
    capacity policies the host accepts, and the control plan built from an accepted one.
  \<^item> \<open>Shutdown_Gate\<close> (lifecycle/shutdown.go): the gate that counts admitted work and stops admission, as
    a machine of interleaved steps, and the pass of the shutdown coordinator over its stages.
  \<^item> \<open>Session_Facts\<close>, \<open>Session_Acceptance\<close>, \<open>Session_Lifecycle\<close>, \<open>Command_Facts\<close>,
    \<open>Command_Steps\<close>, \<open>Command_Properties\<close>, \<open>Scheduler_Facts\<close>, \<open>Scheduler_Claims\<close>,
    \<open>Capacity_Properties\<close>, \<open>Subscriber_Stream\<close>, \<open>Job_Properties\<close>, \<open>Gc_Properties\<close>,
    \<open>Recovery_Properties\<close>, \<open>Settlement_Properties\<close>: the lemmas of each component, with sample
    databases in \<open>Command_Samples\<close>.
  \<^item> \<open>Store_System\<close>, \<open>Store_Operations\<close>, \<open>Store_Runs\<close>, \<open>Store_Retries\<close>,
    \<open>Command_Acceptance\<close>, \<open>Command_Ledger\<close>: the store as one system. \<open>store_op\<close> is the
    type of its operations, a run is a list of them with their clock readings and faults.

  \<^bold>\<open>What is shown.\<close>
  \<^item> The database is well formed after any run: histories numbered without gaps along the edges of the
    state tables, terminal commands closed by their last event, slots of started commands only.
  \<^item> The command part of the store refines an abstract ledger of submissions, output and moves; the
    laws of ledgers, that commands are permanent, that their events follow their life and that they
    settle after three moves, hold of every run, which garbage collection is not part of. The session
    histories have the same permanence.
  \<^item> Sessions, commands and jobs are accepted once per key through any run before the key expires; a
    fresh acceptance writes exactly its rows, a retry writes nothing. Garbage collection is not part of
    a run, and one within the last second of a key may forget it.
  \<^item> Live slots and reservations stay within the limits of the configuration. They are freed by the
    release, completion and recovery operations exactly, and never by garbage collection.
  \<^item> While no restart plan is stored a claim takes the oldest claimable command and succeeds whenever
    there is one and a free slot; a restart plan holds the queue for its own command. The database after
    a claim and after a completion is given in full, as an equation over all its tables.
  \<^item> A subscriber sees the events after its cursor once each, in order and without a gap, within the
    bounds of its buffers, and appended events are the ones a replay reads.
  \<^item> The canonical form of a request identifies it up to defaults and is a fixed point; a session policy
    admits exactly the requests inside its ceilings; the lane machine keeps its epochs and fences, and
    an idle lane opens for a candidate with a fresh epoch.
  \<^item> A confirmed recovery set releases all the capacity that is held and nothing else, records what is
    left to finalize, and can be repeated without effect; settlement completes exactly the selected jobs
    whose command never started.
  \<^item> The byte reservations of a lane stay within its ceiling after any sequence of operations, the 64-bit
    arithmetic of an admission is exact, and a release gives back what the reservation took. A caller's
    callback is an argument of the operations; the ledger relies on it to leave the two tables alone.
  \<^item> An accepted capacity policy fits the measured host: its checked sums are those of integers and leave
    the free space the code asks for, and a control plan takes the device the policy names, if it
    was measured, and stays within it.
  \<^item> However its calls interleave, the shutdown gate admits nothing after a stop, and waiting for it ends
    well only when all admitted work is released; the coordinator flushes before it closes streams.
  \<^item> A job keeps its request through any run and moves by checkpoints from the phase they name. A garbage
    collection keeps what holds capacity, what a pending finalization refers to and every key with a
    second to live; times compared as text let
    it forget a key up to a second early, and a mailbox reference to an old command makes it fail.

  \<^bold>\<open>Interfaces.\<close> The locales state what a client relies on: \<open>transition_table\<close> for the two
  state machines, the frames and predicates that the operations of the store keep (interpreted once per
  fact that a run preserves), the laws of ledgers, the calls that keep the byte ledger, and the
  predicates that a garbage collection pass keeps. Each is interpreted on the model's own definitions.

  \<^bold>\<open>Bounds and fuel.\<close> The JSON decoder runs on fuel twice the length of its text plus one;
  \<open>decode_fuel\<close> proves that this never runs out, so a result without a value means a malformed
  text. The nesting limit of 10000 applies to \<open>json.Unmarshal\<close> only, as in the library. All other
  recursion is structural or has a termination proof. Lane epochs and hash versions have their machine
  width, and the byte ledger and the capacity policies compute with 64-bit words; durations are
  unbounded integers whose limits are the checks of the code.

  \<^bold>\<open>Beside the runs.\<close> \<open>CollectGarbage\<close> is not an operation of a run: a run only adds
  events, commands and bindings, or expires a binding after a lookup, and the laws of runs say so. A
  pass removes them, so its guarantees are stated of one pass from any database. The recovery sets
  write the finalization tables beside the core, so theirs are stated of one call as well.

  \<^bold>\<open>Not modelled.\<close> Opening, migrating, copying and checking database files (store/sqlite.go,
  backup.go, health.go) is file I/O. The mailbox tables (store/mailbox_*.go) and the mirror of remote
  authorities (store/local_intents.go, remote_*.go) are separate ingresses of their own; of their tables
  only the columns that garbage collection uses are here. The reports of store/retained_work_inventory.go
  and the metrics files only read. The execution service, the dispatcher and the queue
  worker are goroutines around processes and connections; the local, HTTPS, SSH and mailbox interfaces,
  the runtimes, configuration, daemons, commands and the lane and release tooling are I/O around the
  operations modelled here. Of lifecycle/shutdown.go the clock, the goroutine of a stage and the
  once-only start of the coordinator are left out.
\<close>

end
